(* ===== verification/Prelude.thy ===== *)
theory Prelude
  imports Main "HOL-Library.Word"
begin

text \<open>
  Shared vocabulary of the development: the machine integers of the Rust sources as words, the
  standard-library arithmetic on them (saturating, checked, big-endian bytes, \<open>try_from\<close>), fallible
  results as sums with the error on the left, decimal printing and parsing of \<open>u64\<close>, and the lemmas
  that move goals about words to natural numbers. \<open>usize\<close> counts come from lengths of lists and are
  natural numbers; where the source saturates them, the saturation is written out.
\<close>

unbundle bit_operations_syntax

named_theorems to_nat \<open>rewrites that read a word operation as arithmetic on natural numbers\<close>

section \<open>Types\<close>

type_synonym u8 = "8 word"
type_synonym u16 = "16 word"
type_synonym u32 = "32 word"
type_synonym u64 = "64 word"
type_synonym usize = nat
type_synonym bytes = "8 word list"
type_synonym nanos = nat

abbreviation usize_MAX :: usize where
  "usize_MAX \<equiv> 18446744073709551615"

abbreviation u64_MAX :: u64 where
  "u64_MAX \<equiv> - 1"

abbreviation u32_MAX :: u32 where
  "u32_MAX \<equiv> - 1"

section \<open>Integer arithmetic of the standard library\<close>

definition saturating_add :: "'a::len word \<Rightarrow> 'a word \<Rightarrow> 'a word" where
  "saturating_add x y = (if x + y < x then - 1 else x + y)"

definition saturating_sub :: "'a::len word \<Rightarrow> 'a word \<Rightarrow> 'a word" where
  "saturating_sub x y = (if x < y then 0 else x - y)"

definition saturating_mul :: "'a::len word \<Rightarrow> 'a word \<Rightarrow> 'a word" where
  "saturating_mul x y = (if unat x * unat y < 2 ^ LENGTH('a) then x * y else - 1)"

definition usize_saturating_add :: "usize \<Rightarrow> usize \<Rightarrow> usize" where
  "usize_saturating_add x y = min (x + y) usize_MAX"

definition u64_from_u32 :: "u32 \<Rightarrow> u64" where
  "u64_from_u32 x = ucast x"

definition u32_try_from :: "u64 \<Rightarrow> u32 option" where
  "u32_try_from x = (if x \<le> 4294967295 then Some (ucast x) else None)"

definition u16_try_from :: "u64 \<Rightarrow> u16 option" where
  "u16_try_from x = (if x \<le> 65535 then Some (ucast x) else None)"

definition u8_try_from :: "u64 \<Rightarrow> u8 option" where
  "u8_try_from x = (if x \<le> 255 then Some (ucast x) else None)"

lemma unat_lt: "unat (x :: 'a::len word) < 2 ^ LENGTH('a)"
  by (rule unsigned_less)

lemma unat_minus_one_word_eq [to_nat]: "unat (- 1 :: 'a::len word) = 2 ^ LENGTH('a) - 1"
  by (simp add: unsigned_minus_1_eq_mask mask_eq_exp_minus_1)

lemma unat_ucast_mod [to_nat]:
  "unat (ucast (x :: 'a::len word) :: 'b::len word) = unat x mod 2 ^ LENGTH('b)"
  by (simp add: unsigned_ucast_eq take_bit_eq_mod)

lemma unat_saturating_add [to_nat]:
  fixes x y :: "'a::len word"
  shows "unat (saturating_add x y) = min (unat x + unat y) (2 ^ LENGTH('a) - 1)"
proof (cases "unat x + unat y < 2 ^ LENGTH('a)")
  case True
  then have "\<not> x + y < x" and "unat (x + y) = unat x + unat y"
    by (simp_all add: word_less_nat_alt unat_word_ariths)
  with True show ?thesis by (simp add: saturating_add_def)
next
  case False
  have lt: "unat y < 2 ^ LENGTH('a)" by (rule unat_lt)
  with False have "unat x + unat y - 2 ^ LENGTH('a) < 2 ^ LENGTH('a)"
    using unat_lt [of x] by linarith
  with False have "unat (x + y) = unat x + unat y - 2 ^ LENGTH('a)"
    by (simp add: unat_word_ariths le_mod_geq)
  with False lt have "x + y < x"
    unfolding word_less_nat_alt by linarith
  with False show ?thesis by (simp add: saturating_add_def to_nat)
qed

lemma unat_saturating_sub [to_nat]: "unat (saturating_sub x y) = unat x - unat y"
  by (simp add: saturating_sub_def word_less_nat_alt unat_sub_if')

lemma unat_saturating_mul [to_nat]:
  fixes x y :: "'a::len word"
  shows "unat (saturating_mul x y) = min (unat x * unat y) (2 ^ LENGTH('a) - 1)"
  by (auto simp: saturating_mul_def unat_word_ariths to_nat)

lemma unat_u64_from_u32 [to_nat]: "unat (u64_from_u32 x) = unat x"
  using unat_lt [of x] by (simp add: u64_from_u32_def to_nat)

lemma unat_of_nat_small:
  "n < 2 ^ LENGTH('a) \<Longrightarrow> unat (word_of_nat n :: 'a::len word) = n"
  by (simp add: unsigned_of_nat take_bit_nat_eq_self)

lemma unat_and_mask: "unat ((x :: 'a::len word) AND mask n) = unat x mod 2 ^ n"
  by (metis take_bit_eq_mask unsigned_take_bit_eq take_bit_eq_mod)

lemma word_nat_cast_eq: "word_of_nat (unat x) = (x :: 'a::len word)"
  by simp

lemma unat_u8_bound: "unat (x :: u8) < 256"
  using unat_lt [of x] by simp

lemma all_u8: "list_all (\<lambda>n. P (word_of_nat n :: u8)) [0..<256] \<Longrightarrow> P x"
  using unat_u8_bound [of x] by (auto simp: list_all_iff dest!: bspec [where x = "unat x"])

lemma unat_u32_bound: "unat (x :: u32) < 4294967296"
  using unat_lt [of x] by simp

lemma unat_u64_bound: "unat (x :: u64) < 18446744073709551616"
  using unat_lt [of x] by simp

lemma u32_try_from_Some [to_nat]:
  "u32_try_from x = Some y \<longleftrightarrow> unat x = unat y"
proof -
  have "unat (ucast x :: u32) = unat x" if "x \<le> 4294967295"
    using that by (simp add: to_nat word_le_nat_alt)
  then show ?thesis
    using unat_u32_bound [of y]
    by (auto simp: u32_try_from_def word_le_nat_alt to_nat word_unat_eq_iff)
qed

lemma saturating_add_mono: "x \<le> saturating_add x y"
  using unat_lt [of x] by (simp add: word_le_nat_alt to_nat less_eq_Suc_le)

section \<open>Big-endian bytes\<close>

definition u16_to_be_bytes :: "u16 \<Rightarrow> bytes" where
  "u16_to_be_bytes x = [ucast (drop_bit 8 x), ucast x]"

definition u32_to_be_bytes :: "u32 \<Rightarrow> bytes" where
  "u32_to_be_bytes x =
     [ucast (drop_bit 24 x), ucast (drop_bit 16 x), ucast (drop_bit 8 x), ucast x]"

definition u16_from_be_bytes :: "u8 \<Rightarrow> u8 \<Rightarrow> u16" where
  "u16_from_be_bytes a b = push_bit 8 (ucast a) OR ucast b"

definition u32_from_be_bytes :: "u8 \<Rightarrow> u8 \<Rightarrow> u8 \<Rightarrow> u8 \<Rightarrow> u32" where
  "u32_from_be_bytes a b c d =
     push_bit 24 (ucast a) OR push_bit 16 (ucast b) OR push_bit 8 (ucast c) OR ucast d"

lemma length_u16_to_be_bytes [simp]: "length (u16_to_be_bytes x) = 2"
  by (simp add: u16_to_be_bytes_def)

lemma length_u32_to_be_bytes [simp]: "length (u32_to_be_bytes x) = 4"
  by (simp add: u32_to_be_bytes_def)

lemma u16_from_to_be_bytes [simp]:
  "u16_from_be_bytes (ucast (drop_bit 8 x)) (ucast x) = x"
  unfolding u16_from_be_bytes_def
  by (rule bit_word_eqI) (auto simp: bit_simps)

lemma u32_from_to_be_bytes [simp]:
  "u32_from_be_bytes (ucast (drop_bit 24 x)) (ucast (drop_bit 16 x)) (ucast (drop_bit 8 x)) (ucast x)
    = x"
  unfolding u32_from_be_bytes_def
proof (rule bit_word_eqI)
  fix n
  assume "n < LENGTH(32)"
  then consider "n < 8" | "8 \<le> n \<and> n < 16" | "16 \<le> n \<and> n < 24" | "24 \<le> n \<and> n < 32"
    by fastforce
  then show "bit (push_bit 24 (ucast (ucast (drop_bit 24 x) :: u8)) OR
      push_bit 16 (ucast (ucast (drop_bit 16 x) :: u8)) OR
      push_bit 8 (ucast (ucast (drop_bit 8 x) :: u8)) OR ucast (ucast x :: u8) :: u32) n = bit x n"
    by cases (auto simp: bit_simps)
qed

lemma not_bit_u8: "8 \<le> n \<Longrightarrow> \<not> bit (x :: u8) n"
  using bit_imp_le_length [of x n] by auto

lemma u32_to_from_be_bytes [simp]:
  "u32_to_be_bytes (u32_from_be_bytes a b c d) = [a, b, c, d]"
  unfolding u32_to_be_bytes_def u32_from_be_bytes_def
  by (auto intro!: bit_word_eqI simp: bit_simps not_bit_u8)

lemma u32_to_be_bytes_inject [simp]: "u32_to_be_bytes x = u32_to_be_bytes y \<longleftrightarrow> x = y"
proof
  assume "u32_to_be_bytes x = u32_to_be_bytes y"
  then have "u32_from_be_bytes (ucast (drop_bit 24 x)) (ucast (drop_bit 16 x))
      (ucast (drop_bit 8 x)) (ucast x)
    = u32_from_be_bytes (ucast (drop_bit 24 y)) (ucast (drop_bit 16 y))
      (ucast (drop_bit 8 y)) (ucast y)"
    by (simp add: u32_to_be_bytes_def)
  then show "x = y" by simp
qed simp

section \<open>Fallible results\<close>

definition res_bind :: "'e + 'a \<Rightarrow> ('a \<Rightarrow> 'e + 'b) \<Rightarrow> 'e + 'b" where
  "res_bind r f = (case r of Inl e \<Rightarrow> Inl e | Inr x \<Rightarrow> f x)"

definition ok_or :: "'e \<Rightarrow> 'a option \<Rightarrow> 'e + 'a" where
  "ok_or e m = (case m of None \<Rightarrow> Inl e | Some x \<Rightarrow> Inr x)"

fun collect_results :: "('e + 'a) list \<Rightarrow> 'e + 'a list" where
  "collect_results [] = Inr []"
| "collect_results (r # rs) = res_bind r (\<lambda>x. res_bind (collect_results rs) (\<lambda>xs. Inr (x # xs)))"

fun collect_options :: "'a option list \<Rightarrow> 'a list option" where
  "collect_options [] = Some []"
| "collect_options (m # ms) =
     (case m of None \<Rightarrow> None
      | Some x \<Rightarrow> (case collect_options ms of None \<Rightarrow> None | Some xs \<Rightarrow> Some (x # xs)))"

lemma res_bind_simps [simp]:
  "res_bind (Inl e) f = Inl e"
  "res_bind (Inr x) f = f x"
  by (simp_all add: res_bind_def)

lemma ok_or_simps [simp]:
  "ok_or e None = Inl e"
  "ok_or e (Some x) = Inr x"
  by (simp_all add: ok_or_def)

lemma res_bind_Inr_iff: "res_bind r f = Inr y \<longleftrightarrow> (\<exists>x. r = Inr x \<and> f x = Inr y)"
  by (cases r) auto

lemma res_bind_Inl_iff: "res_bind r f = Inl e \<longleftrightarrow> r = Inl e \<or> (\<exists>x. r = Inr x \<and> f x = Inl e)"
  by (cases r) auto

lemma ok_or_Inr_iff: "ok_or e m = Inr x \<longleftrightarrow> m = Some x"
  by (cases m) auto

lemma ok_or_Inl_iff: "ok_or e m = Inl e' \<longleftrightarrow> m = None \<and> e' = e"
  by (cases m) auto

lemmas res_iff = res_bind_Inr_iff res_bind_Inl_iff ok_or_Inr_iff ok_or_Inl_iff

lemma collect_options_map_Some_id [simp]: "collect_options (map Some xs) = Some xs"
  by (induction xs) simp_all

lemma collect_options_SomeD: "collect_options ms = Some xs \<Longrightarrow> ms = map Some xs"
  by (induction ms arbitrary: xs) (auto split: option.splits)

lemma collect_options_Some: "collect_options ms = Some xs \<longleftrightarrow> ms = map Some xs"
  by (auto dest: collect_options_SomeD)

lemma collect_options_map_Some:
  "collect_options (map f xs) = Some ys \<longleftrightarrow> list_all2 (\<lambda>x y. f x = Some y) xs ys"
  by (auto simp: collect_options_Some list_eq_iff_nth_eq list_all2_conv_all_nth)

section \<open>Decimal numbers\<close>

text \<open>\<open>Display\<close> of an unsigned integer and \<open>str::parse::<u64>\<close>: an optional plus sign, then one or more
  decimal digits whose value fits.\<close>

definition digit_char :: "nat \<Rightarrow> char" where
  "digit_char d = char_of (48 + d)"

fun show_nat :: "nat \<Rightarrow> string" where
  "show_nat n = (if n < 10 then [digit_char n] else show_nat (n div 10) @ [digit_char (n mod 10)])"

declare show_nat.simps [simp del]

definition is_digit :: "char \<Rightarrow> bool" where
  "is_digit c \<longleftrightarrow> 48 \<le> (of_char c :: nat) \<and> (of_char c :: nat) \<le> 57"

definition digit_value :: "char \<Rightarrow> nat" where
  "digit_value c = of_char c - 48"

definition digits_value :: "string \<Rightarrow> nat" where
  "digits_value s = foldl (\<lambda>acc c. acc * 10 + digit_value c) 0 s"

definition parse_u64 :: "string \<Rightarrow> u64 option" where
  "parse_u64 s =
    (let digits = (case s of [] \<Rightarrow> [] | c # cs \<Rightarrow> if c = CHR ''+'' then cs else s)
     in if digits \<noteq> [] \<and> list_all is_digit digits \<and> digits_value digits < 2 ^ 64
        then Some (word_of_nat (digits_value digits)) else None)"

lemma of_char_digit_char: "d < 10 \<Longrightarrow> (of_char (digit_char d) :: nat) = 48 + d"
  by (simp add: digit_char_def)

lemma digit_char_simps [simp]:
  "d < 10 \<Longrightarrow> is_digit (digit_char d)"
  "d < 10 \<Longrightarrow> digit_value (digit_char d) = d"
  by (simp_all add: is_digit_def digit_value_def of_char_digit_char)

lemma show_nat_nonempty [simp]: "show_nat n \<noteq> []"
  by (subst show_nat.simps) simp

lemma show_nat_digits: "list_all is_digit (show_nat n)"
proof (induction n rule: show_nat.induct)
  case (1 n)
  then show ?case by (subst show_nat.simps) simp
qed

lemma digits_value_show_nat [simp]: "digits_value (show_nat n) = n"
proof (induction n rule: show_nat.induct)
  case (1 n)
  show ?case
  proof (cases "n < 10")
    case True
    then show ?thesis by (subst show_nat.simps) (simp add: digits_value_def)
  next
    case False
    with 1 have "digits_value (show_nat (n div 10)) = n div 10" by simp
    with False show ?thesis by (subst show_nat.simps) (simp add: digits_value_def)
  qed
qed

lemma hd_show_nat_digit: "is_digit (hd (show_nat n))"
  using show_nat_digits [of n] by (cases "show_nat n") simp_all

lemma digit_not_plus: "is_digit c \<Longrightarrow> c \<noteq> CHR ''+''"
  by (auto simp: is_digit_def)

lemma parse_u64_show_nat [simp]: "parse_u64 (show_nat (unat x)) = Some x"
proof -
  have "(case show_nat (unat x) of [] \<Rightarrow> [] | c # cs \<Rightarrow> if c = CHR ''+'' then cs else show_nat (unat x))
      = show_nat (unat x)"
    using hd_show_nat_digit [of "unat x"] by (auto split: list.split dest: digit_not_plus)
  then show ?thesis
    using unat_u64_bound [of x] by (simp add: parse_u64_def show_nat_digits)
qed

section \<open>Strings\<close>

text \<open>\<open>str::trim\<close> and \<open>str::contains\<close>, on ASCII text.\<close>

definition is_whitespace :: "char \<Rightarrow> bool" where
  "is_whitespace c \<longleftrightarrow> (9 \<le> (of_char c :: nat) \<and> (of_char c :: nat) \<le> 13) \<or> (of_char c :: nat) = 32"

definition trim :: "string \<Rightarrow> string" where
  "trim s = rev (dropWhile is_whitespace (rev (dropWhile is_whitespace s)))"

fun str_contains :: "string \<Rightarrow> string \<Rightarrow> bool" where
  "str_contains pat [] \<longleftrightarrow> pat = []"
| "str_contains pat (c # cs) \<longleftrightarrow> take (length pat) (c # cs) = pat \<or> str_contains pat cs"

lemma str_contains_append: "str_contains pat (pat @ s)"
  by (cases "pat @ s") (simp_all, metis append_eq_conv_conj)

end
