(* ===== verification/BoundedFifo.thy ===== *)
theory BoundedFifo
  imports Prelude
begin

text \<open>
  The interface every bounded first-in first-out buffer of the program offers to its clients: the Opus
  frame queue of the playback crate, the egress buffer and the queue of prepared packets of the
  runtime. A push either appends at the back or hands the element back and changes nothing; a pop takes
  the front element. The client lemmas are about loops that push a list of elements.
\<close>

text \<open>The two ways clients push a list: stop at the first element that does not fit, or offer every
  element and collect those that were refused.\<close>

fun push_while :: "('q \<Rightarrow> 'a \<Rightarrow> bool) \<Rightarrow> ('q \<Rightarrow> 'a \<Rightarrow> ('a + unit) \<times> 'q) \<Rightarrow> 'a list \<Rightarrow> 'q \<Rightarrow> 'a list \<times> 'q" where
  "push_while fits push [] q = ([], q)"
| "push_while fits push (x # xs) q =
     (if fits q x then push_while fits push xs (snd (push q x)) else (x # xs, q))"

fun offer_all :: "('q \<Rightarrow> 'a \<Rightarrow> bool) \<Rightarrow> ('q \<Rightarrow> 'a \<Rightarrow> ('a + unit) \<times> 'q) \<Rightarrow> 'a list \<Rightarrow> 'q \<Rightarrow> 'a list \<times> 'q" where
  "offer_all fits push [] q = ([], q)"
| "offer_all fits push (x # xs) q =
     (if fits q x then offer_all fits push xs (snd (push q x))
      else (let (rest, q') = offer_all fits push xs q in (x # rest, q')))"

text \<open>A client's trace of operations: the elements accepted, the elements popped, the final queue.\<close>

datatype 'a fifo_op = Push 'a | Pop

fun fifo_run :: "('q \<Rightarrow> 'a \<Rightarrow> ('a + unit) \<times> 'q) \<Rightarrow> ('q \<Rightarrow> 'a option \<times> 'q)
    \<Rightarrow> 'a fifo_op list \<Rightarrow> 'q \<Rightarrow> 'a list \<times> 'a list \<times> 'q" where
  "fifo_run push pop [] q = ([], [], q)"
| "fifo_run push pop (Push x # ops) q =
     (let (r, q1) = push q x; (accepted, popped, q2) = fifo_run push pop ops q1
      in (case r of Inl _ \<Rightarrow> (accepted, popped, q2) | Inr _ \<Rightarrow> (x # accepted, popped, q2)))"
| "fifo_run push pop (Pop # ops) q =
     (let (r, q1) = pop q; (accepted, popped, q2) = fifo_run push pop ops q1
      in (case r of None \<Rightarrow> (accepted, popped, q2) | Some x \<Rightarrow> (accepted, x # popped, q2)))"

locale bounded_fifo =
  fixes wf :: "'q \<Rightarrow> bool"
    and content :: "'q \<Rightarrow> 'a list"
    and fits :: "'q \<Rightarrow> 'a \<Rightarrow> bool"
    and push :: "'q \<Rightarrow> 'a \<Rightarrow> ('a + unit) \<times> 'q"
    and pop :: "'q \<Rightarrow> 'a option \<times> 'q"
  assumes push_fits: "wf q \<Longrightarrow> fits q x \<Longrightarrow>
      fst (push q x) = Inr () \<and> content (snd (push q x)) = content q @ [x] \<and> wf (snd (push q x))"
    and push_refused: "\<not> fits q x \<Longrightarrow> push q x = (Inl x, q)"
    and pop_Nil: "content q = [] \<Longrightarrow> pop q = (None, q)"
    and pop_Cons: "wf q \<Longrightarrow> content q = x # xs \<Longrightarrow>
      fst (pop q) = Some x \<and> content (snd (pop q)) = xs \<and> wf (snd (pop q))"
begin

lemma push_wf: "wf q \<Longrightarrow> wf (snd (push q x))"
  using push_fits [of q x] push_refused [of q x] by (cases "fits q x") simp_all

lemma pop_wf: "wf q \<Longrightarrow> wf (snd (pop q))"
  using pop_Nil [of q] pop_Cons [of q] by (cases "content q") simp_all

lemma push_while_spec:
  assumes "wf q" and "push_while fits push xs q = (rest, q')"
  shows "wf q' \<and> content q' @ rest = content q @ xs
    \<and> (rest \<noteq> [] \<longrightarrow> \<not> fits q' (hd rest))"
  using assms
proof (induction xs arbitrary: q)
  case Nil
  then show ?case by simp
next
  case (Cons x xs)
  show ?case
  proof (cases "fits q x")
    case True
    then have step: "content (snd (push q x)) = content q @ [x]" "wf (snd (push q x))"
      using push_fits [OF Cons.prems(1)] by simp_all
    from Cons.IH [OF step(2)] Cons.prems(2) True step(1) show ?thesis by simp
  next
    case False
    with Cons.prems show ?thesis by auto
  qed
qed

lemma offer_all_spec:
  assumes "wf q" and "offer_all fits push xs q = (rest, q')"
  shows "wf q' \<and> (\<exists>taken. content q' = content q @ taken \<and> xs \<in> shuffles taken rest)"
  using assms
proof (induction xs arbitrary: q rest)
  case Nil
  then show ?case by simp
next
  case (Cons x xs)
  show ?case
  proof (cases "fits q x")
    case True
    then have step: "content (snd (push q x)) = content q @ [x]" "wf (snd (push q x))"
      using push_fits [OF Cons.prems(1)] by simp_all
    with Cons.IH [OF step(2)] Cons.prems(2) True obtain taken
      where "wf q'" "content q' = content q @ x # taken" "xs \<in> shuffles taken rest"
      by auto
    then show ?thesis by (metis Cons_in_shuffles_leftI)
  next
    case False
    with Cons.prems obtain rest' where
      rest': "rest = x # rest'" "offer_all fits push xs q = (rest', q')"
      by (auto split: prod.splits)
    from Cons.IH [OF Cons.prems(1) rest'(2)] rest'(1) show ?thesis
      by (metis Cons_in_shuffles_rightI)
  qed
qed

lemma fifo_run_spec:
  assumes "wf q" and "fifo_run push pop ops q = (accepted, popped, q')"
  shows "content q @ accepted = popped @ content q' \<and> wf q'"
  using assms
proof (induction ops arbitrary: q accepted popped q')
  case Nil
  then show ?case by simp
next
  case (Cons op ops)
  note wf = Cons.prems(1) and run = Cons.prems(2)
  show ?case
  proof (cases op)
    case (Push x)
    obtain a p q2 where rec: "fifo_run push pop ops (snd (push q x)) = (a, p, q2)"
      by (metis prod_cases3)
    note IH = Cons.IH [OF push_wf [OF Cons.prems(1)] rec]
    show ?thesis
    proof (cases "fits q x")
      case True
      with push_fits [OF Cons.prems(1) True] IH Cons.prems(2) Push rec show ?thesis
        by (auto split: prod.splits)
    next
      case False
      with push_refused [OF False] IH Cons.prems(2) Push rec show ?thesis
        by auto
    qed
  next
    case Pop
    obtain a p q2 where rec: "fifo_run push pop ops (snd (pop q)) = (a, p, q2)"
      by (metis prod_cases3)
    note IH = Cons.IH [OF pop_wf [OF Cons.prems(1)] rec]
    show ?thesis
    proof (cases "content q")
      case Nil
      with pop_Nil [OF Nil] IH Cons.prems(2) Pop rec show ?thesis by auto
    next
      case (Cons y ys)
      from pop_Cons [OF wf Cons] IH run Pop rec Cons show ?thesis
        by (auto split: prod.splits)
    qed
  qed
qed

lemma pop_push_order:
  assumes "wf q" and "content q = []" and "fits q x"
  shows "fst (pop (snd (push q x))) = Some x"
  using push_fits [OF assms(1,3)] pop_Cons [of "snd (push q x)" x "[]"] assms(2) by simp

end

end
