(* ===== verification/OpusQueue.thy ===== *)
theory OpusQueue
  imports Prelude BoundedFifo
begin

text \<open>
  The Opus frame queue of the playback crate (\<open>media/opus_queue.rs\<close>): frames, the duration
  arithmetic at 48 kHz, the duration of an Opus packet read from its TOC byte, and the bounded FIFO
  with its packet, byte and duration limits. The lemmas show that the cached depths are the sums over
  the frames in the queue in every reachable state, that the limits are never passed, and that the
  packet duration agrees with the configuration table of RFC 6716.
\<close>

section \<open>Durations\<close>

definition OPUS_SAMPLE_RATE_HZ :: u64 where
  "OPUS_SAMPLE_RATE_HZ = 48000"

record OpusPacketDuration =
  pd_ms :: u64
  pd_samples :: u32

definition samples_from_duration_ms_u64 :: "u64 \<Rightarrow> u64" where
  "samples_from_duration_ms_u64 duration_ms =
     saturating_mul duration_ms (OPUS_SAMPLE_RATE_HZ div 1000)"

definition samples_from_duration_ms :: "u64 \<Rightarrow> u32" where
  "samples_from_duration_ms duration_ms =
     (case u32_try_from (samples_from_duration_ms_u64 duration_ms) of
        Some samples \<Rightarrow> samples | None \<Rightarrow> u32_MAX)"

definition duration_ms_from_samples :: "u64 \<Rightarrow> u64" where
  "duration_ms_from_samples duration_samples =
     saturating_mul duration_samples 1000 div OPUS_SAMPLE_RATE_HZ"

definition duration_from_samples :: "u64 \<Rightarrow> nanos" where
  "duration_from_samples duration_samples =
     unat (saturating_mul duration_samples 1000000000 div OPUS_SAMPLE_RATE_HZ)"

definition opus_samples_per_frame :: "u8 \<Rightarrow> usize" where
  "opus_samples_per_frame toc =
    (if toc AND 0x80 \<noteq> 0 then
       (let shift = unat (drop_bit 3 toc AND 0x03) in push_bit shift 48000 div 400)
     else if toc AND 0x60 = 0x60 then
       (if toc AND 0x08 \<noteq> 0 then 48000 div 50 else 48000 div 100)
     else
       (let index = unat (drop_bit 3 toc AND 0x03) in
        if index = 3 then 48000 * 60 div 1000 else push_bit index 48000 div 100))"

definition opus_frame_count :: "u8 \<Rightarrow> bytes \<Rightarrow> usize option" where
  "opus_frame_count toc rest =
    (let code = toc AND 0x03 in
     if code = 0 then Some 1
     else if code = 1 \<or> code = 2 then Some 2
     else if code = 3 then (case rest of [] \<Rightarrow> None | b # _ \<Rightarrow> Some (unat (b AND 0x3F)))
     else None)"

definition opus_packet_duration :: "bytes \<Rightarrow> OpusPacketDuration option" where
  "opus_packet_duration packet =
    (case packet of
       [] \<Rightarrow> None
     | toc # rest \<Rightarrow>
        (case opus_frame_count toc rest of
           None \<Rightarrow> None
         | Some frames \<Rightarrow>
            (let product = opus_samples_per_frame toc * frames in
             if product \<le> usize_MAX \<and> product \<le> 4294967295
             then (let samples = word_of_nat product :: u32 in
                   Some \<lparr>pd_ms = duration_ms_from_samples (u64_from_u32 samples),
                         pd_samples = samples\<rparr>)
             else None)))"

section \<open>Frames\<close>

record OpusFrame =
  frame_data :: bytes
  frame_duration_ms :: u64
  frame_duration_samples :: u32
  source_position_ms :: u64
  source_position_samples :: u64
  source_byte_position :: "u64 option"
  frame_epoch :: u64

definition OpusFrame_with_duration_samples :: "bytes \<Rightarrow> u64 \<Rightarrow> u32 \<Rightarrow> OpusFrame" where
  "OpusFrame_with_duration_samples data duration_ms duration_samples =
     \<lparr>frame_data = data, frame_duration_ms = duration_ms,
      frame_duration_samples = duration_samples, source_position_ms = 0,
      source_position_samples = 0, source_byte_position = None, frame_epoch = 0\<rparr>"

definition OpusFrame_new :: "bytes \<Rightarrow> u64 \<Rightarrow> OpusFrame" where
  "OpusFrame_new data duration_ms =
     \<lparr>frame_data = data, frame_duration_ms = duration_ms,
      frame_duration_samples = samples_from_duration_ms duration_ms, source_position_ms = 0,
      source_position_samples = 0, source_byte_position = None, frame_epoch = 0\<rparr>"

definition OpusFrame_with_metadata :: "OpusFrame \<Rightarrow> u64 \<Rightarrow> u64 option \<Rightarrow> u64 \<Rightarrow> OpusFrame" where
  "OpusFrame_with_metadata frame position_ms byte_position epoch =
     frame\<lparr>source_position_ms := position_ms,
           source_position_samples := samples_from_duration_ms_u64 position_ms,
           source_byte_position := byte_position, frame_epoch := epoch\<rparr>"

definition OpusFrame_with_exact_metadata ::
  "OpusFrame \<Rightarrow> u64 \<Rightarrow> u64 \<Rightarrow> u64 option \<Rightarrow> u64 \<Rightarrow> OpusFrame" where
  "OpusFrame_with_exact_metadata frame position_ms position_samples byte_position epoch =
     frame\<lparr>source_position_ms := position_ms, source_position_samples := position_samples,
           source_byte_position := byte_position, frame_epoch := epoch\<rparr>"

definition OpusFrame_with_epoch :: "OpusFrame \<Rightarrow> u64 \<Rightarrow> OpusFrame" where
  "OpusFrame_with_epoch frame epoch = frame\<lparr>frame_epoch := epoch\<rparr>"

definition OpusFrame_byte_len :: "OpusFrame \<Rightarrow> usize" where
  "OpusFrame_byte_len frame = length (frame_data frame)"

section \<open>The queue\<close>

record OpusFrameQueue =
  q_capacity :: usize
  q_max_bytes :: usize
  q_max_duration_samples :: u64
  q_duration_samples :: u64
  q_bytes :: usize
  q_inner :: "OpusFrame list"

record OpusBufferDepth =
  depth_packets :: usize
  depth_bytes :: usize
  depth_duration_ms :: u64
  depth_duration_samples :: u64

definition OpusFrameQueue_with_resource_limits :: "usize \<Rightarrow> usize \<Rightarrow> u64 \<Rightarrow> OpusFrameQueue" where
  "OpusFrameQueue_with_resource_limits capacity max_bytes max_duration_ms =
     \<lparr>q_capacity = capacity, q_max_bytes = max_bytes,
      q_max_duration_samples = samples_from_duration_ms_u64 max_duration_ms,
      q_duration_samples = 0, q_bytes = 0, q_inner = []\<rparr>"

definition OpusFrameQueue_with_limits :: "usize \<Rightarrow> usize \<Rightarrow> OpusFrameQueue" where
  "OpusFrameQueue_with_limits capacity max_bytes =
     OpusFrameQueue_with_resource_limits capacity max_bytes u64_MAX"

definition OpusFrameQueue_new :: "usize \<Rightarrow> OpusFrameQueue" where
  "OpusFrameQueue_new capacity = OpusFrameQueue_with_limits capacity usize_MAX"

definition can_fit_resource :: "OpusFrameQueue \<Rightarrow> usize \<Rightarrow> u32 \<Rightarrow> bool" where
  "can_fit_resource q byte_len duration_samples \<longleftrightarrow>
     length (q_inner q) < q_capacity q
     \<and> usize_saturating_add (q_bytes q) byte_len \<le> q_max_bytes q
     \<and> saturating_add (q_duration_samples q) (u64_from_u32 duration_samples)
         \<le> q_max_duration_samples q"

definition can_fit_frame :: "OpusFrameQueue \<Rightarrow> OpusFrame \<Rightarrow> bool" where
  "can_fit_frame q frame =
     can_fit_resource q (OpusFrame_byte_len frame) (frame_duration_samples frame)"

definition OpusFrameQueue_push ::
  "OpusFrameQueue \<Rightarrow> OpusFrame \<Rightarrow> (OpusFrame + unit) \<times> OpusFrameQueue" where
  "OpusFrameQueue_push q frame =
    (if \<not> can_fit_frame q frame then (Inl frame, q)
     else (Inr (), q\<lparr>q_duration_samples :=
                        saturating_add (q_duration_samples q)
                          (u64_from_u32 (frame_duration_samples frame)),
                      q_bytes := usize_saturating_add (q_bytes q) (OpusFrame_byte_len frame),
                      q_inner := q_inner q @ [frame]\<rparr>))"

definition OpusFrameQueue_push_front ::
  "OpusFrameQueue \<Rightarrow> OpusFrame \<Rightarrow> (OpusFrame + unit) \<times> OpusFrameQueue" where
  "OpusFrameQueue_push_front q frame =
    (if \<not> can_fit_frame q frame then (Inl frame, q)
     else (Inr (), q\<lparr>q_duration_samples :=
                        saturating_add (q_duration_samples q)
                          (u64_from_u32 (frame_duration_samples frame)),
                      q_bytes := usize_saturating_add (q_bytes q) (OpusFrame_byte_len frame),
                      q_inner := frame # q_inner q\<rparr>))"

definition OpusFrameQueue_pop :: "OpusFrameQueue \<Rightarrow> OpusFrame option \<times> OpusFrameQueue" where
  "OpusFrameQueue_pop q =
    (case q_inner q of
       [] \<Rightarrow> (None, q)
     | frame # rest \<Rightarrow>
        (Some frame,
         q\<lparr>q_duration_samples :=
             saturating_sub (q_duration_samples q) (u64_from_u32 (frame_duration_samples frame)),
           q_bytes := q_bytes q - OpusFrame_byte_len frame,
           q_inner := rest\<rparr>))"

definition OpusFrameQueue_len :: "OpusFrameQueue \<Rightarrow> usize" where
  [simp]: "OpusFrameQueue_len q = length (q_inner q)"

definition buffered_samples :: "OpusFrameQueue \<Rightarrow> u64" where
  [simp]: "buffered_samples q = q_duration_samples q"

definition buffered_bytes :: "OpusFrameQueue \<Rightarrow> usize" where
  [simp]: "buffered_bytes q = q_bytes q"

definition OpusFrameQueue_is_empty :: "OpusFrameQueue \<Rightarrow> bool" where
  "OpusFrameQueue_is_empty q \<longleftrightarrow> q_inner q = []"

definition OpusFrameQueue_is_full :: "OpusFrameQueue \<Rightarrow> bool" where
  "OpusFrameQueue_is_full q \<longleftrightarrow>
     q_capacity q \<le> length (q_inner q)
     \<or> q_max_bytes q \<le> q_bytes q
     \<or> q_max_duration_samples q \<le> q_duration_samples q"

definition buffered_duration_ms :: "OpusFrameQueue \<Rightarrow> u64" where
  "buffered_duration_ms q = duration_ms_from_samples (q_duration_samples q)"

definition OpusFrameQueue_depth :: "OpusFrameQueue \<Rightarrow> OpusBufferDepth" where
  "OpusFrameQueue_depth q =
     \<lparr>depth_packets = OpusFrameQueue_len q, depth_bytes = buffered_bytes q,
      depth_duration_ms = buffered_duration_ms q,
      depth_duration_samples = buffered_samples q\<rparr>"

fun recalculate_depth_loop :: "OpusFrame list \<Rightarrow> u64 \<times> usize \<Rightarrow> u64 \<times> usize" where
  "recalculate_depth_loop [] depth = depth"
| "recalculate_depth_loop (frame # frames) (samples, bytes) =
     recalculate_depth_loop frames
       (saturating_add samples (u64_from_u32 (frame_duration_samples frame)),
        usize_saturating_add bytes (OpusFrame_byte_len frame))"

definition recalculate_depth :: "OpusFrameQueue \<Rightarrow> OpusFrameQueue" where
  "recalculate_depth q =
    (let (samples, bytes) = recalculate_depth_loop (q_inner q) (0, 0)
     in q\<lparr>q_duration_samples := samples, q_bytes := bytes\<rparr>)"

fun drop_stale_epoch_loop :: "u64 \<Rightarrow> OpusFrame list \<Rightarrow> OpusFrame list \<Rightarrow> OpusFrame list" where
  "drop_stale_epoch_loop epoch [] retained = retained"
| "drop_stale_epoch_loop epoch (frame # inner) retained =
     drop_stale_epoch_loop epoch inner
       (if frame_epoch frame = epoch then retained @ [frame] else retained)"

definition drop_stale_epoch :: "OpusFrameQueue \<Rightarrow> u64 \<Rightarrow> OpusFrameQueue" where
  "drop_stale_epoch q epoch =
     recalculate_depth (q\<lparr>q_inner := drop_stale_epoch_loop epoch (q_inner q) []\<rparr>)"

definition retag_epoch :: "OpusFrameQueue \<Rightarrow> u64 \<Rightarrow> OpusFrameQueue" where
  "retag_epoch q epoch = q\<lparr>q_inner := map (\<lambda>frame. frame\<lparr>frame_epoch := epoch\<rparr>) (q_inner q)\<rparr>"

section \<open>Well-formed and reachable queues\<close>

definition frame_samples :: "OpusFrame \<Rightarrow> nat" where
  "frame_samples f = unat (frame_duration_samples f)"

definition total_samples :: "OpusFrame list \<Rightarrow> nat" where
  "total_samples fs = sum_list (map frame_samples fs)"

definition total_bytes :: "OpusFrame list \<Rightarrow> nat" where
  "total_bytes fs = sum_list (map OpusFrame_byte_len fs)"

definition queue_wf :: "OpusFrameQueue \<Rightarrow> bool" where
  "queue_wf q \<longleftrightarrow>
     q_max_bytes q < usize_MAX \<and> q_max_duration_samples q < u64_MAX
     \<and> unat (q_duration_samples q) = total_samples (q_inner q)
     \<and> q_bytes q = total_bytes (q_inner q)
     \<and> length (q_inner q) \<le> q_capacity q
     \<and> q_bytes q \<le> q_max_bytes q
     \<and> q_duration_samples q \<le> q_max_duration_samples q"

text \<open>The operations on a queue, with frames of at most \<open>B\<close> bytes pushed to it. A limit at the top of its type, which
  is how \<open>new\<close> and \<open>with_limits\<close> say that there is none, can hide a counter that saturated; \<open>never_saturates\<close> says
  that for each counter its limit is below that value or the capacity keeps it in range.\<close>

inductive queue_step :: "nat \<Rightarrow> OpusFrameQueue \<Rightarrow> OpusFrameQueue \<Rightarrow> bool" for B where
  push: "OpusFrame_byte_len f \<le> B \<Longrightarrow> queue_step B q (snd (OpusFrameQueue_push q f))"
| push_front: "OpusFrame_byte_len f \<le> B \<Longrightarrow> queue_step B q (snd (OpusFrameQueue_push_front q f))"
| pop: "queue_step B q (snd (OpusFrameQueue_pop q))"
| drop_stale: "queue_step B q (drop_stale_epoch q e)"
| retag: "queue_step B q (retag_epoch q e)"

inductive queue_reachable :: "nat \<Rightarrow> OpusFrameQueue \<Rightarrow> OpusFrameQueue \<Rightarrow> bool" for B q0 where
  init: "queue_reachable B q0 q0"
| step: "queue_reachable B q0 q \<Longrightarrow> queue_step B q q' \<Longrightarrow> queue_reachable B q0 q'"

definition never_saturates :: "nat \<Rightarrow> OpusFrameQueue \<Rightarrow> bool" where
  "never_saturates B q \<longleftrightarrow>
     (q_max_bytes q < usize_MAX \<or> q_capacity q * B \<le> usize_MAX)
     \<and> (q_max_duration_samples q < u64_MAX \<or> q_capacity q \<le> 2 ^ 32)"

definition queue_exact :: "nat \<Rightarrow> OpusFrameQueue \<Rightarrow> bool" where
  "queue_exact B q \<longleftrightarrow>
     unat (q_duration_samples q) = total_samples (q_inner q)
     \<and> q_bytes q = total_bytes (q_inner q)
     \<and> length (q_inner q) \<le> q_capacity q
     \<and> q_bytes q \<le> q_max_bytes q \<and> q_bytes q \<le> usize_MAX
     \<and> q_duration_samples q \<le> q_max_duration_samples q
     \<and> list_all (\<lambda>f. OpusFrame_byte_len f \<le> B) (q_inner q)"

section \<open>The configuration table of RFC 6716\<close>

fun rfc6716_frame_samples :: "nat \<Rightarrow> nat" where
  "rfc6716_frame_samples config =
    (if config < 12 then [480, 960, 1920, 2880] ! (config mod 4)
     else if config < 16 then [480, 960] ! (config mod 2)
     else [120, 240, 480, 960] ! (config mod 4))"

fun rfc6716_frame_count :: "bytes \<Rightarrow> nat option" where
  "rfc6716_frame_count [] = None"
| "rfc6716_frame_count (toc # rest) =
    (if unat toc mod 4 = 0 then Some 1
     else if unat toc mod 4 < 3 then Some 2
     else (case rest of [] \<Rightarrow> None | b # _ \<Rightarrow> Some (unat b mod 64)))"

section \<open>Lemmas on the queue\<close>

lemma total_simps [simp]:
  "total_samples [] = 0" "total_bytes [] = 0"
  "total_samples (f # fs) = frame_samples f + total_samples fs"
  "total_bytes (f # fs) = OpusFrame_byte_len f + total_bytes fs"
  "total_samples (fs @ gs) = total_samples fs + total_samples gs"
  "total_bytes (fs @ gs) = total_bytes fs + total_bytes gs"
  by (simp_all add: total_samples_def total_bytes_def)

lemma total_samples_filter_le: "total_samples (filter P fs) \<le> total_samples fs"
  by (induction fs) auto

lemma total_bytes_filter_le: "total_bytes (filter P fs) \<le> total_bytes fs"
  by (induction fs) auto

lemma can_fit_frame_exact:
  assumes "queue_wf q" and "can_fit_frame q f"
  shows "unat (saturating_add (q_duration_samples q) (u64_from_u32 (frame_duration_samples f)))
          = total_samples (q_inner q) + frame_samples f"
    and "usize_saturating_add (q_bytes q) (OpusFrame_byte_len f)
          = total_bytes (q_inner q) + OpusFrame_byte_len f"
  using assms
  by (auto simp: queue_wf_def can_fit_frame_def can_fit_resource_def usize_saturating_add_def
      word_le_nat_alt word_less_nat_alt to_nat frame_samples_def min_def split: if_splits)

lemma OpusFrameQueue_push_wf: "queue_wf q \<Longrightarrow> queue_wf (snd (OpusFrameQueue_push q f))"
  using can_fit_frame_exact [of q f]
  by (auto simp: OpusFrameQueue_push_def queue_wf_def can_fit_frame_def can_fit_resource_def)

lemma OpusFrameQueue_push_front_wf: "queue_wf q \<Longrightarrow> queue_wf (snd (OpusFrameQueue_push_front q f))"
  using can_fit_frame_exact [of q f]
  by (auto simp: OpusFrameQueue_push_front_def queue_wf_def can_fit_frame_def can_fit_resource_def)

lemma OpusFrameQueue_pop_wf: "queue_wf q \<Longrightarrow> queue_wf (snd (OpusFrameQueue_pop q))"
  by (auto simp: OpusFrameQueue_pop_def queue_wf_def to_nat frame_samples_def word_le_nat_alt
      split: list.splits)

lemma recalculate_depth_loop_exact:
  assumes "unat samples + total_samples fs < 2 ^ 64" and "bytes + total_bytes fs \<le> usize_MAX"
  shows "unat (fst (recalculate_depth_loop fs (samples, bytes))) = unat samples + total_samples fs
    \<and> snd (recalculate_depth_loop fs (samples, bytes)) = bytes + total_bytes fs"
  using assms
  by (induction fs arbitrary: samples bytes)
    (simp_all add: to_nat usize_saturating_add_def frame_samples_def)

lemma drop_stale_epoch_loop_filter:
  "drop_stale_epoch_loop epoch fs retained = retained @ filter (\<lambda>f. frame_epoch f = epoch) fs"
  by (induction fs arbitrary: retained) auto

lemma drop_stale_epoch_inner:
  "q_inner (drop_stale_epoch q epoch) = filter (\<lambda>f. frame_epoch f = epoch) (q_inner q)"
  by (simp add: drop_stale_epoch_def recalculate_depth_def drop_stale_epoch_loop_filter
      split: prod.splits)

lemma drop_stale_epoch_wf:
  assumes "queue_wf q"
  shows "queue_wf (drop_stale_epoch q epoch)"
proof -
  let ?kept = "filter (\<lambda>f. frame_epoch f = epoch) (q_inner q)"
  have s: "total_samples ?kept \<le> unat (q_duration_samples q)"
    and b: "total_bytes ?kept \<le> q_bytes q" and l: "length ?kept \<le> q_capacity q"
    using assms total_samples_filter_le total_bytes_filter_le
    by (auto simp: queue_wf_def intro: le_trans [OF length_filter_le])
  have "unat (fst (recalculate_depth_loop ?kept (0, 0))) = total_samples ?kept
    \<and> snd (recalculate_depth_loop ?kept (0, 0)) = total_bytes ?kept"
    using recalculate_depth_loop_exact [of 0 ?kept 0] s b assms unat_u64_bound [of "q_duration_samples q"]
    by (auto simp: queue_wf_def)
  with assms s b l show ?thesis
    by (auto simp: queue_wf_def drop_stale_epoch_def recalculate_depth_def word_le_nat_alt
        drop_stale_epoch_loop_filter split: prod.splits)
qed

lemma retag_epoch_wf: "queue_wf q \<Longrightarrow> queue_wf (retag_epoch q epoch)"
  by (simp add: queue_wf_def retag_epoch_def total_samples_def total_bytes_def frame_samples_def
      [abs_def] OpusFrame_byte_len_def [abs_def] comp_def)

lemma queue_init_wf:
  "mb < usize_MAX \<Longrightarrow> 48 * unat ms < 18446744073709551615
    \<Longrightarrow> queue_wf (OpusFrameQueue_with_resource_limits cap mb ms)"
  by (simp add: queue_wf_def OpusFrameQueue_with_resource_limits_def word_less_nat_alt
      samples_from_duration_ms_u64_def OPUS_SAMPLE_RATE_HZ_def to_nat mult.commute)

lemma total_bytes_bound: "list_all (\<lambda>f. OpusFrame_byte_len f \<le> B) fs \<Longrightarrow> total_bytes fs \<le> length fs * B"
  by (induction fs) auto

lemma total_samples_bound: "total_samples fs \<le> length fs * (2 ^ 32 - 1)"
proof (induction fs)
  case (Cons f fs)
  have "frame_samples f \<le> 2 ^ 32 - 1" using unsigned_less [of "frame_duration_samples f", where ?'a = nat] by (simp add: frame_samples_def)
  with Cons show ?case by simp
qed simp

lemma queue_exact_fits:
  assumes "queue_exact B q" "never_saturates B q" "OpusFrame_byte_len f \<le> B" "can_fit_frame q f"
  shows "total_samples (q_inner q) + frame_samples f < 2 ^ 64"
    and "total_bytes (q_inner q) + OpusFrame_byte_len f \<le> usize_MAX"
proof -
  let ?n = "Suc (length (q_inner q))"
  have fits: "?n \<le> q_capacity q" using assms(4) by (simp add: can_fit_frame_def can_fit_resource_def)
  have "total_bytes (q_inner q @ [f]) \<le> ?n * B"
    using total_bytes_bound [of B "q_inner q @ [f]"] assms(1,3) by (simp add: queue_exact_def)
  also have "\<dots> \<le> q_capacity q * B" using fits by (rule mult_le_mono1)
  finally show "total_bytes (q_inner q) + OpusFrame_byte_len f \<le> usize_MAX"
    using assms by (auto simp: never_saturates_def queue_exact_def can_fit_frame_def can_fit_resource_def
        usize_saturating_add_def min_def split: if_splits)
  have "total_samples (q_inner q @ [f]) \<le> ?n * (2 ^ 32 - 1)" using total_samples_bound [of "q_inner q @ [f]"] by simp
  also have "\<dots> \<le> q_capacity q * (2 ^ 32 - 1)" using fits by (rule mult_le_mono1)
  finally have "total_samples (q_inner q) + frame_samples f \<le> q_capacity q * (2 ^ 32 - 1)" by simp
  then show "total_samples (q_inner q) + frame_samples f < 2 ^ 64"
    using assms by (auto simp: never_saturates_def queue_exact_def can_fit_frame_def can_fit_resource_def
        word_le_nat_alt word_less_nat_alt to_nat frame_samples_def min_def split: if_splits)
qed

lemma queue_exact_sums:
  assumes "queue_exact B q" "never_saturates B q" "OpusFrame_byte_len f \<le> B" "can_fit_frame q f"
  shows "unat (saturating_add (q_duration_samples q) (u64_from_u32 (frame_duration_samples f)))
          = total_samples (q_inner q) + frame_samples f"
    and "usize_saturating_add (q_bytes q) (OpusFrame_byte_len f) = total_bytes (q_inner q) + OpusFrame_byte_len f"
  using queue_exact_fits [OF assms] assms(1) by (simp_all add: queue_exact_def to_nat frame_samples_def usize_saturating_add_def)

lemma queue_push_exact:
  assumes "queue_exact B q" "never_saturates B q" "OpusFrame_byte_len f \<le> B"
  shows "queue_exact B (snd (OpusFrameQueue_push q f))" "queue_exact B (snd (OpusFrameQueue_push_front q f))"
  using assms queue_exact_sums [OF assms] queue_exact_fits [OF assms]
  by (auto simp: OpusFrameQueue_push_def OpusFrameQueue_push_front_def queue_exact_def can_fit_frame_def can_fit_resource_def)

lemma queue_pop_exact: "queue_exact B q \<Longrightarrow> queue_exact B (snd (OpusFrameQueue_pop q))"
  by (auto simp: OpusFrameQueue_pop_def queue_exact_def to_nat frame_samples_def word_le_nat_alt split: list.splits)

lemma drop_stale_epoch_exact:
  assumes "queue_exact B q"
  shows "queue_exact B (drop_stale_epoch q epoch)"
proof -
  let ?kept = "filter (\<lambda>f. frame_epoch f = epoch) (q_inner q)"
  have s: "total_samples ?kept \<le> unat (q_duration_samples q)"
    and b: "total_bytes ?kept \<le> q_bytes q" and l: "length ?kept \<le> q_capacity q"
    using assms total_samples_filter_le total_bytes_filter_le
    by (auto simp: queue_exact_def intro: le_trans [OF length_filter_le])
  have "unat (fst (recalculate_depth_loop ?kept (0, 0))) = total_samples ?kept
    \<and> snd (recalculate_depth_loop ?kept (0, 0)) = total_bytes ?kept"
    using recalculate_depth_loop_exact [of 0 ?kept 0] s b assms unat_u64_bound [of "q_duration_samples q"]
    by (auto simp: queue_exact_def)
  with assms s b l show ?thesis
    by (auto simp: queue_exact_def drop_stale_epoch_def recalculate_depth_def word_le_nat_alt list_all_iff
        drop_stale_epoch_loop_filter split: prod.splits)
qed

lemma retag_epoch_exact: "queue_exact B q \<Longrightarrow> queue_exact B (retag_epoch q epoch)"
  by (simp add: queue_exact_def retag_epoch_def total_samples_def total_bytes_def frame_samples_def
      [abs_def] OpusFrame_byte_len_def [abs_def] comp_def list_all_iff)

lemma queue_step_limits:
  "queue_step B q q' \<Longrightarrow> q_capacity q' = q_capacity q \<and> q_max_bytes q' = q_max_bytes q
    \<and> q_max_duration_samples q' = q_max_duration_samples q"
  by (induction rule: queue_step.induct)
    (auto simp: OpusFrameQueue_push_def OpusFrameQueue_push_front_def OpusFrameQueue_pop_def
      drop_stale_epoch_def recalculate_depth_def retag_epoch_def split: list.splits prod.splits)

lemma queue_step_exact: "queue_step B q q' \<Longrightarrow> queue_exact B q \<Longrightarrow> never_saturates B q \<Longrightarrow> queue_exact B q'"
  by (induction rule: queue_step.induct)
    (simp_all add: queue_push_exact queue_pop_exact drop_stale_epoch_exact retag_epoch_exact)

lemma queue_reachable_limits:
  "queue_reachable B q0 q \<Longrightarrow> q_capacity q = q_capacity q0 \<and> q_max_bytes q = q_max_bytes q0
    \<and> q_max_duration_samples q = q_max_duration_samples q0"
  by (induction rule: queue_reachable.induct) (auto dest: queue_step_limits)

lemma queue_reachable_exact:
  "queue_reachable B q0 q \<Longrightarrow> never_saturates B q0 \<Longrightarrow> queue_exact B q0 \<Longrightarrow> queue_exact B q"
proof (induction rule: queue_reachable.induct)
  case (step q q')
  then have "never_saturates B q" using queue_reachable_limits [of B q0 q] by (simp add: never_saturates_def)
  with step show ?case by (blast intro: queue_step_exact)
qed

interpretation oq: bounded_fifo queue_wf q_inner can_fit_frame OpusFrameQueue_push OpusFrameQueue_pop
proof unfold_locales
  fix q x
  assume "queue_wf q" and "can_fit_frame q x"
  then show "fst (OpusFrameQueue_push q x) = Inr ()
      \<and> q_inner (snd (OpusFrameQueue_push q x)) = q_inner q @ [x]
      \<and> queue_wf (snd (OpusFrameQueue_push q x))"
    using OpusFrameQueue_push_wf [of q x] by (simp add: OpusFrameQueue_push_def)
next
  fix q x xs
  assume "queue_wf q" and "q_inner q = x # xs"
  then show "fst (OpusFrameQueue_pop q) = Some x \<and> q_inner (snd (OpusFrameQueue_pop q)) = xs
      \<and> queue_wf (snd (OpusFrameQueue_pop q))"
    using OpusFrameQueue_pop_wf [of q] by (simp add: OpusFrameQueue_pop_def)
qed (simp_all add: OpusFrameQueue_push_def OpusFrameQueue_pop_def)

lemmas queue_eval = OpusFrameQueue_with_resource_limits_def OpusFrameQueue_push_def
  OpusFrameQueue_pop_def can_fit_frame_def can_fit_resource_def OpusFrame_byte_len_def
  OpusFrame_new_def samples_from_duration_ms_def samples_from_duration_ms_u64_def
  OPUS_SAMPLE_RATE_HZ_def saturating_add_def saturating_mul_def saturating_sub_def
  usize_saturating_add_def u64_from_u32_def u32_try_from_def

section \<open>Lemmas on durations\<close>

lemma opus_samples_per_frame_rfc6716:
  "opus_samples_per_frame toc = rfc6716_frame_samples (unat toc div 8)"
  by (rule all_u8) (simp add: upt_rec opus_samples_per_frame_def)

lemma u8_low_bits:
  "(x :: u8) AND 3 = 0 \<longleftrightarrow> unat x mod 4 = 0"
  "(x :: u8) AND 3 = 1 \<longleftrightarrow> unat x mod 4 = 1"
  "(x :: u8) AND 3 = 2 \<longleftrightarrow> unat x mod 4 = 2"
  "(x :: u8) AND 3 = 3 \<longleftrightarrow> unat x mod 4 = 3"
  "unat ((x :: u8) AND 0x3F) = unat x mod 64"
  using unat_and_mask [of x 2] unat_and_mask [of x 6]
  by (simp_all add: word_unat_eq_iff mask_eq_exp_minus_1)

lemma opus_frame_count_rfc6716: "opus_frame_count toc rest = rfc6716_frame_count (toc # rest)"
proof -
  consider "unat toc mod 4 = 0" | "unat toc mod 4 = 1" | "unat toc mod 4 = 2" | "unat toc mod 4 = 3"
    by arith
  then show ?thesis
    by cases (simp_all add: opus_frame_count_def u8_low_bits split: list.split)
qed

lemma rfc6716_frame_samples_bound: "rfc6716_frame_samples (unat (toc :: u8) div 8) \<le> 2880"
  by (rule all_u8) (simp add: upt_rec)

lemma rfc6716_frame_count_bound: "rfc6716_frame_count packet = Some n \<Longrightarrow> n \<le> 63"
  by (induction packet rule: rfc6716_frame_count.induct) (auto split: if_splits list.splits)

lemma unat_duration_ms_from_samples:
  "unat (duration_ms_from_samples s) = min (unat s * 1000) (2 ^ 64 - 1) div 48000"
  by (simp add: duration_ms_from_samples_def OPUS_SAMPLE_RATE_HZ_def unat_div to_nat)

lemma unat_samples_from_duration_ms_u64:
  "unat (samples_from_duration_ms_u64 ms) = min (unat ms * 48) (2 ^ 64 - 1)"
  by (simp add: samples_from_duration_ms_u64_def OPUS_SAMPLE_RATE_HZ_def to_nat)

lemma duration_ms_from_samples_exact:
  "unat s * 1000 < 2 ^ 64 \<Longrightarrow> unat (duration_ms_from_samples s) = unat s div 48"
proof -
  assume "unat s * 1000 < 2 ^ 64"
  then have "unat (duration_ms_from_samples s) = unat s * 1000 div 48000"
    by (simp add: unat_duration_ms_from_samples)
  also have "\<dots> = unat s div 48"
    using div_mult_mult1 [of 1000 "unat s" 48] by (simp add: mult.commute)
  finally show ?thesis .
qed

lemma duration_ms_of_small:
  assumes "s \<le> 4294967295"
  shows "duration_ms_from_samples (u64_from_u32 (word_of_nat s)) = word_of_nat (s div 48)"
proof -
  have "unat (word_of_nat s :: u32) = s"
    using assms by (intro unat_of_nat_small) simp
  then have "unat (duration_ms_from_samples (u64_from_u32 (word_of_nat s))) = s div 48"
    using assms by (subst duration_ms_from_samples_exact) (simp_all add: to_nat)
  then show ?thesis by (metis word_nat_cast_eq)
qed

declare rfc6716_frame_samples.simps [simp del]

section \<open>Properties\<close>

text \<open>C12: In every state a queue can reach from \<open>new\<close>, \<open>with_limits\<close> or \<open>with_resource_limits\<close> by pushing, pushing to
  the front, popping, dropping stale epochs and retagging, the cached duration and byte counters are exactly the sums
  over the frames held, and none of the three configured limits is exceeded. The frames pushed have at most \<open>B\<close> bytes.
  The counters saturate, so each of them needs one of two conditions: the byte limit is below \<open>usize::MAX\<close> or the
  capacity times \<open>B\<close> fits a \<open>usize\<close>; and the duration limit is below the largest 64-bit number of samples or the
  capacity is at most \<open>2^32\<close> frames. For \<open>new\<close> and \<open>with_limits\<close> these are conditions on the capacity; a queue with
  both limits below the top of their types needs none.\<close>

theorem queue_accounting_invariant:
  assumes "queue_reachable B (OpusFrameQueue_with_resource_limits cap mb ms) q"
    and "mb < usize_MAX \<or> cap * B \<le> usize_MAX"
    and "48 * unat ms < unat u64_MAX \<or> cap \<le> 2 ^ 32"
  shows "unat (q_duration_samples q) = total_samples (q_inner q)
    \<and> q_bytes q = total_bytes (q_inner q)
    \<and> length (q_inner q) \<le> cap \<and> total_bytes (q_inner q) \<le> mb
    \<and> total_samples (q_inner q) \<le> 48 * unat ms"
proof -
  let ?q0 = "OpusFrameQueue_with_resource_limits cap mb ms"
  have limits: "q_capacity ?q0 = cap" "q_max_bytes ?q0 = mb" "q_max_duration_samples ?q0 = samples_from_duration_ms_u64 ms"
    by (simp_all add: OpusFrameQueue_with_resource_limits_def)
  have "never_saturates B ?q0"
    using assms(2,3) by (auto simp: never_saturates_def limits word_less_nat_alt unat_samples_from_duration_ms_u64)
  moreover have "queue_exact B ?q0" by (simp add: queue_exact_def OpusFrameQueue_with_resource_limits_def)
  ultimately have "queue_exact B q" using queue_reachable_exact assms(1) by blast
  then show ?thesis
    using queue_reachable_limits [OF assms(1)]
    by (auto simp: queue_exact_def limits word_le_nat_alt unat_samples_from_duration_ms_u64)
qed

theorem queue_accounting_invariant_witness:
  "let q = snd (OpusFrameQueue_push (OpusFrameQueue_new 4) (OpusFrame_new [1, 2, 3] 20))
   in unat (q_duration_samples q) = total_samples (q_inner q)
    \<and> q_bytes q = total_bytes (q_inner q) \<and> length (q_inner q) \<le> 4"
proof -
  have "OpusFrameQueue_new 4 = OpusFrameQueue_with_resource_limits 4 usize_MAX u64_MAX"
    by (simp add: OpusFrameQueue_new_def OpusFrameQueue_with_limits_def)
  moreover have "queue_step 16 q (snd (OpusFrameQueue_push q (OpusFrame_new [1, 2, 3] 20)))" for q
    by (rule queue_step.push) (simp add: OpusFrame_byte_len_def OpusFrame_new_def)
  ultimately show ?thesis
    using queue_accounting_invariant [OF queue_reachable.step [OF queue_reachable.init], of 16 4 usize_MAX u64_MAX]
    by (simp add: Let_def)
qed

text \<open>For a well-formed queue, running any sequence of pushes and pops delivers frames first in,
  first out: what was in the queue followed by the accepted frames equals the popped frames followed by
  what is left, and a refused frame is handed back without changing the queue.\<close>

theorem queue_run_fifo:
  assumes "queue_wf q"
    and "fifo_run OpusFrameQueue_push OpusFrameQueue_pop ops q = (accepted, popped, q')"
  shows "q_inner q @ accepted = popped @ q_inner q' \<and> queue_wf q'"
  using oq.fifo_run_spec [OF assms] by simp

theorem queue_run_fifo_witness:
  "\<exists>accepted popped q'.
     fifo_run OpusFrameQueue_push OpusFrameQueue_pop
       [Push (OpusFrame_new [1] 20), Push (OpusFrame_new [2] 20), Pop, Push (OpusFrame_new [3] 20)]
       (OpusFrameQueue_with_resource_limits 1 16 40) = (accepted, popped, q')
     \<and> accepted = [OpusFrame_new [1] 20, OpusFrame_new [3] 20] \<and> popped = [OpusFrame_new [1] 20]
     \<and> q_inner (OpusFrameQueue_with_resource_limits 1 16 40) @ accepted = popped @ q_inner q'
     \<and> queue_wf q'"
proof -
  have wf: "queue_wf (OpusFrameQueue_with_resource_limits 1 16 40)"
    by (rule queue_init_wf) simp_all
  obtain a p q' where run: "fifo_run OpusFrameQueue_push OpusFrameQueue_pop
       [Push (OpusFrame_new [1] 20), Push (OpusFrame_new [2] 20), Pop, Push (OpusFrame_new [3] 20)]
       (OpusFrameQueue_with_resource_limits 1 16 40) = (a, p, q')"
    by (metis prod_cases3)
  then have "a = [OpusFrame_new [1] 20, OpusFrame_new [3] 20] \<and> p = [OpusFrame_new [1] 20]"
    by (auto simp: queue_eval)
  with run queue_run_fifo [OF wf run] show ?thesis by blast
qed

lemma opus_packet_duration_table:
  "opus_packet_duration packet =
    (case rfc6716_frame_count packet of
       None \<Rightarrow> None
     | Some n \<Rightarrow>
        (let samples = rfc6716_frame_samples (unat (hd packet) div 8) * n in
         Some \<lparr>pd_ms = word_of_nat (samples div 48), pd_samples = word_of_nat samples\<rparr>))"
proof (cases packet)
  case Nil
  then show ?thesis by (simp add: opus_packet_duration_def)
next
  case (Cons toc rest)
  show ?thesis
  proof (cases "rfc6716_frame_count packet")
    case None
    with Cons show ?thesis
      by (simp add: opus_packet_duration_def opus_frame_count_rfc6716 del: rfc6716_frame_count.simps)
  next
    case (Some n)
    let ?s = "rfc6716_frame_samples (unat toc div 8) * n"
    have le: "?s \<le> 2880 * 63"
      using rfc6716_frame_samples_bound rfc6716_frame_count_bound [OF Some] by (rule mult_le_mono)
    then have "duration_ms_from_samples (u64_from_u32 (word_of_nat ?s)) = word_of_nat (?s div 48)"
      by (intro duration_ms_of_small) simp
    with Some Cons le show ?thesis
      by (simp add: opus_packet_duration_def opus_frame_count_rfc6716 Let_def
          opus_samples_per_frame_rfc6716 del: rfc6716_frame_count.simps)
  qed
qed

text \<open>The duration read from a packet's TOC byte is the frame size of the RFC 6716
  configuration table times the number of frames, in samples and in milliseconds; only an empty packet
  or a code 3 packet without its count byte has no duration, and the multiplication never overflows.\<close>

theorem opus_packet_duration_rfc6716:
  "opus_packet_duration packet =
    (case rfc6716_frame_count packet of
       None \<Rightarrow> None
     | Some n \<Rightarrow>
        (let samples = rfc6716_frame_samples (unat (hd packet) div 8) * n in
         Some \<lparr>pd_ms = word_of_nat (samples div 48), pd_samples = word_of_nat samples\<rparr>))"
  by (rule opus_packet_duration_table)

text \<open>Milliseconds survive the conversion to 48 kHz samples and back whenever the product does
  not saturate, and converting any such sample count to milliseconds rounds down by less than one
  millisecond.\<close>

theorem duration_conversion_roundtrip:
  assumes "unat ms * 48000 < 2 ^ 64" and "unat s * 1000 < 2 ^ 64"
  shows "duration_ms_from_samples (samples_from_duration_ms_u64 ms) = ms
    \<and> 48 * unat (duration_ms_from_samples s) \<le> unat s
    \<and> unat s < 48 * (unat (duration_ms_from_samples s) + 1)"
proof -
  have "unat (samples_from_duration_ms_u64 ms) = unat ms * 48"
    using assms(1) by (simp add: unat_samples_from_duration_ms_u64)
  then have "unat (duration_ms_from_samples (samples_from_duration_ms_u64 ms)) = unat ms"
    using assms(1) by (subst duration_ms_from_samples_exact) simp_all
  moreover have "unat (duration_ms_from_samples s) = unat s div 48"
    using assms(2) by (rule duration_ms_from_samples_exact)
  ultimately show ?thesis by (auto simp: word_unat_eq_iff)
qed

theorem duration_conversion_roundtrip_witness:
  "duration_ms_from_samples (samples_from_duration_ms_u64 5000) = 5000
    \<and> 48 * unat (duration_ms_from_samples 1000) \<le> 1000
    \<and> 1000 < 48 * (unat (duration_ms_from_samples 1000) + 1)"
  using duration_conversion_roundtrip [of 5000 1000] by simp

end
