(* ===== verification/PlaybackErrors.thy ===== *)
theory PlaybackErrors
  imports Prelude
begin

text \<open>
  The error type of the playback crate (\<open>error.rs\<close>). An HTTP error keeps the status code the source
  asks it for; the other transparent errors of third-party packages keep nothing the code looks at.
\<close>

datatype PlaybackError =
    MediaParse string
  | MediaParseDetail string
  | UnsupportedFormat
  | BufferFull
  | InvalidState string
  | Io
  | InvalidUri
  | Http "nat option"
  | Transport
  | GrpcStatus

end
