(* ===== verification/Demux.thy ===== *)
theory Demux
  imports OpusQueue PlaybackErrors
begin

text \<open>
  The WebM demuxer of the playback crate (\<open>media/webm_demux.rs\<close>). The element iterator and the block
  decoders of the \<open>webm_iterable\<close> package are parameters, gathered in a record: the iterator turns the
  buffered bytes into a list of tags that may end in an error, a block decoder yields the track, the
  relative timestamp and the laced frames. The lemmas show that packets of one block tile the time
  line without gaps, that block timestamps are rounded to the nearest sample, and that bytes that were
  not parsed stay buffered.
\<close>

section \<open>Data\<close>

record DemuxedPacket =
  pkt_data :: bytes
  pkt_timestamp_ms :: u64
  pkt_timestamp_samples :: u64
  pkt_duration_ms :: u64
  pkt_duration_samples :: u32

text \<open>The elements the source matches on; every other element is \<open>OtherTag\<close>.\<close>

datatype MatroskaSpec =
    TimestampScale u64
  | Timestamp u64
  | TrackEntry_Full "MatroskaSpec list"
  | SimpleBlock bytes
  | Block bytes
  | BlockGroup_Full "MatroskaSpec list"
  | TrackNumber u64
  | CodecID string
  | TrackType u64
  | OtherTag

datatype TagIteratorError = UnexpectedEOF usize | CorruptedFileData | CorruptedTagData | ReadError

record WebmBlock =
  block_track :: u64
  block_timestamp :: "16 word"
  block_frame_data :: "string + bytes list"

record webm_lib =
  webm_iterator :: "bytes \<Rightarrow> (TagIteratorError + MatroskaSpec) list"
  simple_block_try_from :: "bytes \<Rightarrow> string + WebmBlock"
  block_try_from :: "bytes \<Rightarrow> string + WebmBlock"

record TrackState =
  track_number :: u64

record WebmDemuxState =
  timestamp_scale_ns :: u64
  cluster_timestamp :: u64
  opus_track :: "TrackState option"

record WebmOpusDemux =
  demux_pending :: bytes
  demux_state :: WebmDemuxState

datatype ParseOutcome =
    Complete WebmDemuxState "DemuxedPacket list"
  | Incomplete WebmDemuxState "DemuxedPacket list" usize
  | Stalled

section \<open>Operations\<close>

definition WebmDemuxState_default :: WebmDemuxState where
  "WebmDemuxState_default =
     \<lparr>timestamp_scale_ns = 1000000, cluster_timestamp = 0, opus_track = None\<rparr>"

definition WebmOpusDemux_default :: WebmOpusDemux where
  "WebmOpusDemux_default = \<lparr>demux_pending = [], demux_state = WebmDemuxState_default\<rparr>"

definition map_webm_coercion_error :: "string \<Rightarrow> PlaybackError" where
  "map_webm_coercion_error error = MediaParseDetail error"

definition map_err :: "('e \<Rightarrow> 'f) \<Rightarrow> 'e + 'a \<Rightarrow> 'f + 'a" where
  "map_err f r = (case r of Inl e \<Rightarrow> Inl (f e) | Inr x \<Rightarrow> Inr x)"

definition opus_frame_durations :: "bytes list \<Rightarrow> OpusPacketDuration list option" where
  "opus_frame_durations frames = collect_options (map opus_packet_duration frames)"

definition is_target_track :: "WebmDemuxState \<Rightarrow> u64 \<Rightarrow> bool" where
  "is_target_track state number =
     (case opus_track state of Some track \<Rightarrow> track_number track = number | None \<Rightarrow> True)"

text \<open>\<open>u128\<close> arithmetic: \<open>checked_mul\<close> and \<open>checked_add\<close> fail from \<open>2 ^ 128\<close> on.\<close>

definition u128_checked :: "nat \<Rightarrow> PlaybackError + nat" where
  "u128_checked n =
     (if n < 2 ^ 128 then Inr n else Inl (MediaParse ''timestamp overflow''))"

definition scale_timestamp_to_samples :: "WebmDemuxState \<Rightarrow> u64 \<Rightarrow> PlaybackError + u64" where
  "scale_timestamp_to_samples state ticks =
     res_bind (u128_checked (unat ticks * unat (timestamp_scale_ns state)))
       (\<lambda>scaled. res_bind (u128_checked (scaled * unat OPUS_SAMPLE_RATE_HZ))
         (\<lambda>product. res_bind (u128_checked (product + 500000000))
           (\<lambda>total.
             let samples = total div 1000000000 in
             if samples < 2 ^ 64 then Inr (word_of_nat samples)
             else Inl (MediaParse ''timestamp overflow''))))"

definition block_timestamp_samples :: "WebmDemuxState \<Rightarrow> 16 word \<Rightarrow> PlaybackError + u64" where
  "block_timestamp_samples state relative_timestamp =
    (let total_ticks = uint (cluster_timestamp state) + sint relative_timestamp in
     if total_ticks < 0 then Inl (MediaParse ''negative block timestamp'')
     else scale_timestamp_to_samples state (word_of_int total_ticks))"

fun packets_loop :: "u64 \<Rightarrow> (bytes \<times> OpusPacketDuration) list \<Rightarrow> DemuxedPacket list" where
  "packets_loop timestamp_samples [] = []"
| "packets_loop timestamp_samples ((frame, duration) # rest) =
     \<lparr>pkt_data = frame,
      pkt_timestamp_ms = duration_ms_from_samples timestamp_samples,
      pkt_timestamp_samples = timestamp_samples,
      pkt_duration_ms = pd_ms duration,
      pkt_duration_samples = pd_samples duration\<rparr>
     # packets_loop (saturating_add timestamp_samples (u64_from_u32 (pd_samples duration))) rest"

definition frames_to_packets ::
  "WebmDemuxState \<Rightarrow> 16 word \<Rightarrow> bytes list \<Rightarrow> PlaybackError + DemuxedPacket list" where
  "frames_to_packets state relative_timestamp frames =
    (if frames = [] then Inr []
     else res_bind (ok_or (MediaParse ''unsupported opus packet duration'')
                     (opus_frame_durations frames))
       (\<lambda>durations. res_bind (block_timestamp_samples state relative_timestamp)
         (\<lambda>timestamp_samples. Inr (packets_loop timestamp_samples (zip frames durations)))))"

definition extract_block ::
  "WebmDemuxState \<Rightarrow> WebmBlock \<Rightarrow> PlaybackError + DemuxedPacket list" where
  "extract_block state block =
    (if \<not> is_target_track state (block_track block) then Inr []
     else res_bind (map_err map_webm_coercion_error (block_frame_data block))
       (\<lambda>frames. frames_to_packets state (block_timestamp block) frames))"

definition extract_simple_block ::
  "WebmDemuxState \<Rightarrow> WebmBlock \<Rightarrow> PlaybackError + DemuxedPacket list" where
  "extract_simple_block state block =
    (if \<not> is_target_track state (block_track block) then Inr []
     else res_bind (map_err map_webm_coercion_error (block_frame_data block))
       (\<lambda>frames. frames_to_packets state (block_timestamp block) frames))"

fun last_block :: "MatroskaSpec list \<Rightarrow> bytes option \<Rightarrow> bytes option" where
  "last_block [] block_data = block_data"
| "last_block (Block data # children) block_data = last_block children (Some data)"
| "last_block (_ # children) block_data = last_block children block_data"

definition extract_block_group ::
  "webm_lib \<Rightarrow> WebmDemuxState \<Rightarrow> MatroskaSpec list \<Rightarrow> PlaybackError + DemuxedPacket list" where
  "extract_block_group lib state children =
    (case last_block children None of
       None \<Rightarrow> Inr []
     | Some block_data \<Rightarrow>
        res_bind (map_err map_webm_coercion_error (block_try_from lib block_data))
          (\<lambda>block. extract_block state block))"

fun track_fields :: "MatroskaSpec list \<Rightarrow> u64 option \<times> string option \<times> u64 option
    \<Rightarrow> u64 option \<times> string option \<times> u64 option" where
  "track_fields [] acc = acc"
| "track_fields (TrackNumber value # children) (number, codec_id, track_type) =
     track_fields children (Some value, codec_id, track_type)"
| "track_fields (CodecID value # children) (number, codec_id, track_type) =
     track_fields children (number, Some value, track_type)"
| "track_fields (TrackType value # children) (number, codec_id, track_type) =
     track_fields children (number, codec_id, Some value)"
| "track_fields (_ # children) acc = track_fields children acc"

definition update_track :: "WebmDemuxState \<Rightarrow> MatroskaSpec list \<Rightarrow> WebmDemuxState" where
  "update_track state children =
    (let (number, codec_id, track_type) = track_fields children (None, None, None) in
     if track_type = Some 2 \<and> codec_id = Some ''A_OPUS''
     then state\<lparr>opus_track := map_option (\<lambda>number. \<lparr>track_number = number\<rparr>) number\<rparr>
     else state)"

fun process_tag :: "webm_lib \<Rightarrow> WebmDemuxState \<Rightarrow> MatroskaSpec \<Rightarrow> DemuxedPacket list
    \<Rightarrow> PlaybackError + (WebmDemuxState \<times> DemuxedPacket list)" where
  "process_tag lib state (TimestampScale scale) packets =
     Inr (state\<lparr>timestamp_scale_ns := scale\<rparr>, packets)"
| "process_tag lib state (Timestamp timestamp) packets =
     Inr (state\<lparr>cluster_timestamp := timestamp\<rparr>, packets)"
| "process_tag lib state (TrackEntry_Full children) packets =
     Inr (update_track state children, packets)"
| "process_tag lib state (SimpleBlock data) packets =
     res_bind (map_err map_webm_coercion_error (simple_block_try_from lib data))
       (\<lambda>block. res_bind (extract_simple_block state block)
         (\<lambda>extracted. Inr (state, packets @ extracted)))"
| "process_tag lib state (Block data) packets =
     res_bind (map_err map_webm_coercion_error (block_try_from lib data))
       (\<lambda>block. res_bind (extract_block state block)
         (\<lambda>extracted. Inr (state, packets @ extracted)))"
| "process_tag lib state (BlockGroup_Full children) packets =
     res_bind (extract_block_group lib state children)
       (\<lambda>extracted. Inr (state, packets @ extracted))"
| "process_tag lib state _ packets = Inr (state, packets)"

fun parse_available_loop ::
  "webm_lib \<Rightarrow> (TagIteratorError + MatroskaSpec) list \<Rightarrow> WebmDemuxState \<Rightarrow> DemuxedPacket list
    \<Rightarrow> PlaybackError + ParseOutcome" where
  "parse_available_loop lib [] state packets = Inr (Complete state packets)"
| "parse_available_loop lib (Inl (UnexpectedEOF tag_start) # tags) state packets =
     Inr (Incomplete state packets tag_start)"
| "parse_available_loop lib (Inl _ # tags) state packets = Inr Stalled"
| "parse_available_loop lib (Inr tag # tags) state packets =
     res_bind (process_tag lib state tag packets)
       (\<lambda>(state', packets'). parse_available_loop lib tags state' packets')"

definition parse_available ::
  "webm_lib \<Rightarrow> WebmDemuxState \<Rightarrow> bytes \<Rightarrow> PlaybackError + ParseOutcome" where
  "parse_available lib state input = parse_available_loop lib (webm_iterator lib input) state []"

definition push_bytes :: "WebmOpusDemux \<Rightarrow> bytes \<Rightarrow> WebmOpusDemux" where
  "push_bytes demux chunk = demux\<lparr>demux_pending := demux_pending demux @ chunk\<rparr>"

definition drain_packets ::
  "webm_lib \<Rightarrow> WebmOpusDemux \<Rightarrow> (PlaybackError + DemuxedPacket list) \<times> WebmOpusDemux" where
  "drain_packets lib demux =
    (if demux_pending demux = [] then (Inr [], demux)
     else (case parse_available lib (demux_state demux) (demux_pending demux) of
             Inl err \<Rightarrow> (Inl err, demux)
           | Inr (Complete state packets) \<Rightarrow>
               (Inr packets, demux\<lparr>demux_state := state, demux_pending := []\<rparr>)
           | Inr (Incomplete state packets tail_start) \<Rightarrow>
               (if 0 < tail_start \<and> packets \<noteq> [] then
                  (Inr packets,
                   demux\<lparr>demux_state := state,
                         demux_pending :=
                           drop (min tail_start (length (demux_pending demux))) (demux_pending demux)\<rparr>)
                else (Inr [], demux))
           | Inr Stalled \<Rightarrow> (Inr [], demux)))"

section \<open>Lemmas\<close>

lemma map_err_simps [simp]:
  "map_err f (Inl e) = Inl (f e)"
  "map_err f (Inr x) = Inr x"
  by (simp_all add: map_err_def)

lemma length_packets_loop [simp]: "length (packets_loop ts fds) = length fds"
  by (induction ts fds rule: packets_loop.induct) simp_all

lemma packets_loop_data: "map pkt_data (packets_loop ts fds) = map fst fds"
  by (induction ts fds rule: packets_loop.induct) simp_all

lemma packets_loop_samples:
  "map pkt_duration_samples (packets_loop ts fds) = map (pd_samples \<circ> snd) fds"
  by (induction ts fds rule: packets_loop.induct) simp_all

lemma packets_loop_ms:
  "p \<in> set (packets_loop ts fds) \<Longrightarrow>
     pkt_timestamp_ms p = duration_ms_from_samples (pkt_timestamp_samples p)"
  by (induction ts fds rule: packets_loop.induct) auto

lemma packets_loop_hd:
  "fds \<noteq> [] \<Longrightarrow> pkt_timestamp_samples (hd (packets_loop ts fds)) = ts"
  by (cases "(ts, fds)" rule: packets_loop.cases) simp_all

definition packet_end :: "DemuxedPacket \<Rightarrow> u64" where
  "packet_end p = saturating_add (pkt_timestamp_samples p) (u64_from_u32 (pkt_duration_samples p))"

fun contiguous :: "DemuxedPacket list \<Rightarrow> bool" where
  "contiguous (p # q # rest) \<longleftrightarrow> pkt_timestamp_samples q = packet_end p \<and> contiguous (q # rest)"
| "contiguous _ \<longleftrightarrow> True"

lemma packets_loop_contiguous: "contiguous (packets_loop ts fds)"
proof (induction ts fds rule: packets_loop.induct)
  case (2 ts frame duration rest)
  then show ?case
    by (cases "(saturating_add ts (u64_from_u32 (pd_samples duration)), rest)"
        rule: packets_loop.cases) (simp_all add: packet_end_def)
qed simp

lemma u128_checked_Inr: "n < 2 ^ 128 \<Longrightarrow> u128_checked n = Inr n"
  by (simp add: u128_checked_def)

text \<open>Frames of bounded size: what the container library hands out is what packets carry.\<close>

definition webm_frames_bounded :: "nat \<Rightarrow> webm_lib \<Rightarrow> bool" where
  "webm_frames_bounded B lib \<longleftrightarrow>
    (\<forall>data block frames. simple_block_try_from lib data = Inr block \<or> block_try_from lib data = Inr block
       \<longrightarrow> block_frame_data block = Inr frames \<longrightarrow> list_all (\<lambda>f. length f \<le> B) frames)"

abbreviation packets_bounded :: "nat \<Rightarrow> DemuxedPacket list \<Rightarrow> bool" where
  "packets_bounded B \<equiv> list_all (\<lambda>p. length (pkt_data p) \<le> B)"

lemma packets_loop_bounded:
  "list_all (\<lambda>f. length f \<le> B) (map fst fds) \<Longrightarrow> packets_bounded B (packets_loop ts fds)"
  by (induction ts fds rule: packets_loop.induct) simp_all

lemma map_fst_zip_bounded:
  "list_all P xs \<Longrightarrow> list_all P (map fst (zip xs ys))"
  by (auto simp: list_all_iff dest: set_zip_leftD)

lemma frames_to_packets_bounded:
  assumes "frames_to_packets state ts frames = Inr packets" and "list_all (\<lambda>f. length f \<le> B) frames"
  shows "packets_bounded B packets"
  using assms
  by (auto simp: frames_to_packets_def res_iff intro!: packets_loop_bounded map_fst_zip_bounded
      split: if_splits)

lemma map_err_Inr_iff: "map_err f r = Inr x \<longleftrightarrow> r = Inr x"
  by (cases r) simp_all

lemma extract_bounded:
  assumes "\<forall>frames. block_frame_data block = Inr frames \<longrightarrow> list_all (\<lambda>f. length f \<le> B) frames"
    and "extract_block state block = Inr packets \<or> extract_simple_block state block = Inr packets"
  shows "packets_bounded B packets"
  using assms
  by (auto simp: extract_block_def extract_simple_block_def res_iff map_err_Inr_iff
      split: if_splits intro: frames_to_packets_bounded)

lemma process_tag_bounded:
  assumes "process_tag lib state tag packets = Inr (state', packets')"
    and "webm_frames_bounded B lib" and "packets_bounded B packets"
  shows "packets_bounded B packets'"
proof -
  have "packets_bounded B ps" if "simple_block_try_from lib data = Inr block \<or> block_try_from lib data = Inr block"
    "extract_block state block = Inr ps \<or> extract_simple_block state block = Inr ps" for data block ps
    using that assms(2) extract_bounded [of block B] unfolding webm_frames_bounded_def by blast
  with assms(1,3) show ?thesis
    by (cases tag) (fastforce simp: res_iff map_err_Inr_iff extract_block_group_def split: option.splits)+
qed

lemma parse_available_loop_bounded:
  assumes "parse_available_loop lib tags state packets = Inr out"
    and "webm_frames_bounded B lib" and "packets_bounded B packets"
  shows "case out of Complete _ ps \<Rightarrow> packets_bounded B ps | Incomplete _ ps _ \<Rightarrow> packets_bounded B ps
    | Stalled \<Rightarrow> True"
  using assms
proof (induction lib tags state packets rule: parse_available_loop.induct)
  case (4 lib tag tags state packets)
  then show ?case by (auto simp: res_iff dest: process_tag_bounded)
qed auto

lemma drain_packets_bounded:
  assumes "drain_packets lib demux = (Inr packets, demux')" and "webm_frames_bounded B lib"
  shows "packets_bounded B packets"
  using assms parse_available_loop_bounded [of lib "webm_iterator lib (demux_pending demux)" "demux_state demux" "[]"]
  by (fastforce simp: drain_packets_def parse_available_def split: if_splits sum.splits ParseOutcome.splits)

section \<open>Properties\<close>

text \<open>A block's timestamp in ticks is scaled to 48 kHz samples by exact rounding to the nearest
  sample; the scaling fails, with the overflow error, exactly when the result does not fit 64 bits, so
  none of the intermediate 128-bit checks rejects a timestamp that would have fitted.\<close>

theorem scale_timestamp_rounds_to_nearest:
  "scale_timestamp_to_samples state ticks =
    (let samples = (unat ticks * unat (timestamp_scale_ns state) * 48000 + 500000000) div 1000000000
     in if samples < 2 ^ 64 then Inr (word_of_nat samples)
        else Inl (MediaParse ''timestamp overflow''))"
proof -
  define s where "s = unat ticks * unat (timestamp_scale_ns state)"
  have "unat ticks \<le> 2 ^ 64 - 1" "unat (timestamp_scale_ns state) \<le> 2 ^ 64 - 1"
    using unat_u64_bound [of ticks] unat_u64_bound [of "timestamp_scale_ns state"] by simp_all
  then have "s \<le> (2 ^ 64 - 1) * (2 ^ 64 - 1)"
    unfolding s_def by (rule mult_le_mono)
  then have s128: "s < 2 ^ 128" by simp
  have rate: "unat OPUS_SAMPLE_RATE_HZ = 48000" by (simp add: OPUS_SAMPLE_RATE_HZ_def)
  show ?thesis
    using s128 unfolding scale_timestamp_to_samples_def Let_def rate s_def [symmetric]
    by (auto simp: u128_checked_def res_bind_def)
qed

text \<open>A successfully demuxed block yields one packet per laced frame, in order and with the frame's
  bytes; the first packet starts at the block's timestamp and every later packet starts exactly where
  the one before it ends.\<close>

theorem frames_to_packets_tile:
  assumes "frames_to_packets state rel frames = Inr packets" and "frames \<noteq> []"
  shows "map pkt_data packets = frames
    \<and> block_timestamp_samples state rel = Inr (pkt_timestamp_samples (hd packets))
    \<and> contiguous packets
    \<and> list_all2 (\<lambda>p f. map_option pd_samples (opus_packet_duration f)
                         = Some (pkt_duration_samples p)) packets frames"
proof -
  from assms obtain durations ts where d: "opus_frame_durations frames = Some durations"
    and ts: "block_timestamp_samples state rel = Inr ts"
    and packets: "packets = packets_loop ts (zip frames durations)"
    by (auto simp: frames_to_packets_def res_iff)
  from d have all2: "list_all2 (\<lambda>f d. opus_packet_duration f = Some d) frames durations"
    by (simp add: opus_frame_durations_def collect_options_map_Some)
  then have len: "length frames = length durations" by (rule list_all2_lengthD)
  with assms(2) have ne: "zip frames durations \<noteq> []"
    by (cases frames; cases durations) simp_all
  have "map pkt_duration_samples packets = map pd_samples durations"
    unfolding packets packets_loop_samples by (metis len map_map map_snd_zip)
  moreover have "length packets = length frames" by (simp add: packets len)
  ultimately have "list_all2 (\<lambda>p f. map_option pd_samples (opus_packet_duration f)
                         = Some (pkt_duration_samples p)) packets frames"
    using all2 len by (auto simp: list_all2_conv_all_nth list_eq_iff_nth_eq)
  with ts packets ne len show ?thesis
    by (simp add: packets_loop_data packets_loop_hd packets_loop_contiguous)
qed

theorem frames_to_packets_tile_witness:
  "\<exists>packets. frames_to_packets WebmDemuxState_default 10 [[0x80], [0xF8, 0xFF, 0xFE]] = Inr packets
    \<and> map pkt_timestamp_samples packets = [480, 600]
    \<and> map pkt_data packets = [[0x80], [0xF8, 0xFF, 0xFE]]
    \<and> contiguous packets"
proof -
  have run: "frames_to_packets WebmDemuxState_default 10 [[0x80], [0xF8, 0xFF, 0xFE]] =
      Inr (packets_loop 480 [([0x80], \<lparr>pd_ms = 2, pd_samples = 120\<rparr>),
                             ([0xF8, 0xFF, 0xFE], \<lparr>pd_ms = 20, pd_samples = 960\<rparr>)])"
    by (simp add: frames_to_packets_def opus_frame_durations_def opus_packet_duration_table
        rfc6716_frame_samples.simps block_timestamp_samples_def WebmDemuxState_default_def
        scale_timestamp_to_samples_def u128_checked_def OPUS_SAMPLE_RATE_HZ_def)
  from frames_to_packets_tile [OF run] show ?thesis
    unfolding run by (simp add: saturating_add_def u64_from_u32_def)
qed

text \<open>A block whose cluster time and relative time add up past the largest 64-bit tick count is
  not rejected as an overflow: the sum is truncated to 64 bits, so the block is placed at the start of
  the track.\<close>

theorem block_timestamp_wraps:
  "block_timestamp_samples
     \<lparr>timestamp_scale_ns = 1000000, cluster_timestamp = 0xFFFFFFFFFFFFFFFF,
      opus_track = None\<rparr> 1 = Inr 0"
  by (simp add: block_timestamp_samples_def scale_timestamp_to_samples_def u128_checked_def
      OPUS_SAMPLE_RATE_HZ_def)

text \<open>Draining never loses bytes that were not parsed: the demuxer either stays exactly as it was
  (an error, a stall, or too little data for a packet), or its buffer becomes a suffix of the old one
  and its parser state is the one the parse reached.\<close>

theorem drain_packets_keeps_unparsed:
  "(case drain_packets lib demux of (result, demux') \<Rightarrow>
     demux' = demux \<and> (result = Inr [] \<or> (\<exists>err. result = Inl err))
     \<or> (\<exists>consumed state packets. result = Inr packets
          \<and> demux_pending demux = consumed @ demux_pending demux'
          \<and> demux_state demux' = state
          \<and> (parse_available lib (demux_state demux) (demux_pending demux)
                = Inr (Complete state packets) \<and> demux_pending demux' = []
              \<or> (\<exists>tail. parse_available lib (demux_state demux) (demux_pending demux)
                    = Inr (Incomplete state packets tail) \<and> packets \<noteq> []
                    \<and> length consumed = min tail (length (demux_pending demux))))))"
proof (cases "demux_pending demux = []")
  case True
  then show ?thesis by (simp add: drain_packets_def)
next
  case False
  show ?thesis
  proof (cases "parse_available lib (demux_state demux) (demux_pending demux)")
    case (Inl err)
    with False show ?thesis by (auto simp: drain_packets_def)
  next
    case (Inr outcome)
    show ?thesis
    proof (cases outcome)
      case (Incomplete state packets tail)
      show ?thesis
      proof (cases "0 < tail \<and> packets \<noteq> []")
        case True
        let ?n = "min tail (length (demux_pending demux))"
        from True False Inr Incomplete have "drain_packets lib demux =
            (Inr packets, demux\<lparr>demux_state := state,
                                demux_pending := drop ?n (demux_pending demux)\<rparr>)"
          by (simp add: drain_packets_def)
        with True Inr Incomplete show ?thesis
          by (auto intro!: exI [of _ "take ?n (demux_pending demux)"])
      next
        case skip: False
        with False Inr Incomplete show ?thesis by (auto simp: drain_packets_def)
      qed
    qed (use False Inr in \<open>auto simp: drain_packets_def\<close>)
  qed
qed

end
