(* ===== verification/Position.thy ===== *)
theory Position
  imports Demux
begin

text \<open>
  The playback position of a track (\<open>media/position.rs\<close>): the byte offset of the HTTP stream, how far
  media has been buffered, and how much has been sent. The shared handle (\<open>Arc<Mutex<..>>\<close>) is the
  record itself, threaded through the operations that lock it; where several parts hold the handle, \<open>Recovery\<close> keeps the
  records in a list and the handle is an index into it.
\<close>

section \<open>Data and operations\<close>

record PlaybackPosition =
  pos_byte_offset :: u64
  pos_timestamp_ms :: u64
  pos_timestamp_samples :: u64
  pos_sent_duration_samples :: u64

definition PlaybackPosition_default :: PlaybackPosition where
  "PlaybackPosition_default =
     \<lparr>pos_byte_offset = 0, pos_timestamp_ms = 0, pos_timestamp_samples = 0,
      pos_sent_duration_samples = 0\<rparr>"

definition sent_duration_ms :: "PlaybackPosition \<Rightarrow> u64" where
  "sent_duration_ms p = duration_ms_from_samples (pos_sent_duration_samples p)"

definition snapshot_position :: "PlaybackPosition \<Rightarrow> PlaybackPosition" where
  "snapshot_position p = p"

definition set_byte_offset :: "PlaybackPosition \<Rightarrow> u64 \<Rightarrow> PlaybackPosition" where
  "set_byte_offset p byte_offset = p\<lparr>pos_byte_offset := byte_offset\<rparr>"

definition advance_bytes :: "PlaybackPosition \<Rightarrow> u64 \<Rightarrow> PlaybackPosition" where
  "advance_bytes p n = p\<lparr>pos_byte_offset := saturating_add (pos_byte_offset p) n\<rparr>"

definition set_timestamp_ms :: "PlaybackPosition \<Rightarrow> u64 \<Rightarrow> PlaybackPosition" where
  "set_timestamp_ms p timestamp_ms =
     p\<lparr>pos_timestamp_ms := timestamp_ms,
       pos_timestamp_samples := max (pos_timestamp_samples p) (saturating_mul timestamp_ms 48)\<rparr>"

definition advance_timestamp_ms :: "PlaybackPosition \<Rightarrow> u64 \<Rightarrow> PlaybackPosition" where
  "advance_timestamp_ms p duration_ms =
    (let timestamp_ms = saturating_add (pos_timestamp_ms p) duration_ms in
     p\<lparr>pos_timestamp_ms := timestamp_ms,
       pos_timestamp_samples := max (pos_timestamp_samples p) (saturating_mul timestamp_ms 48)\<rparr>)"

definition record_buffered :: "PlaybackPosition \<Rightarrow> DemuxedPacket \<Rightarrow> PlaybackPosition" where
  "record_buffered p packet =
    (let buffered_until_samples =
           saturating_add (pkt_timestamp_samples packet)
             (u64_from_u32 (pkt_duration_samples packet));
         timestamp_samples = max (pos_timestamp_samples p) buffered_until_samples
     in p\<lparr>pos_timestamp_samples := timestamp_samples,
          pos_timestamp_ms :=
            max (pos_timestamp_ms p) (duration_ms_from_samples timestamp_samples)\<rparr>)"

definition record_sent_duration_samples :: "PlaybackPosition \<Rightarrow> u64 \<Rightarrow> PlaybackPosition" where
  "record_sent_duration_samples p duration_samples =
     p\<lparr>pos_sent_duration_samples :=
         saturating_add (pos_sent_duration_samples p) duration_samples\<rparr>"

definition record_sent_packet_samples :: "PlaybackPosition \<Rightarrow> u32 \<Rightarrow> PlaybackPosition" where
  "record_sent_packet_samples p duration_samples =
     record_sent_duration_samples p (u64_from_u32 duration_samples)"

definition set_sent_duration_samples :: "PlaybackPosition \<Rightarrow> u64 \<Rightarrow> PlaybackPosition" where
  "set_sent_duration_samples p samples = p\<lparr>pos_sent_duration_samples := samples\<rparr>"

section \<open>Lemmas\<close>

lemma record_buffered_samples:
  "pos_timestamp_samples (record_buffered p packet) = max (pos_timestamp_samples p) (packet_end packet)"
  by (simp add: record_buffered_def packet_end_def Let_def)

lemma record_buffered_frame:
  "pos_byte_offset (record_buffered p packet) = pos_byte_offset p"
  "pos_sent_duration_samples (record_buffered p packet) = pos_sent_duration_samples p"
  by (simp_all add: record_buffered_def Let_def)

lemma fold_record_buffered_samples:
  "pos_timestamp_samples (fold (\<lambda>packet p. record_buffered p packet) packets p) =
     fold (\<lambda>packet s. max s (packet_end packet)) packets (pos_timestamp_samples p)"
  by (induction packets arbitrary: p) (simp_all add: record_buffered_samples)

lemma fold_record_sent:
  assumes "unat (pos_sent_duration_samples p) + sum_list (map unat ds) < 2 ^ 64"
  shows "unat (pos_sent_duration_samples (fold (\<lambda>d p. record_sent_packet_samples p d) ds p))
    = unat (pos_sent_duration_samples p) + sum_list (map unat ds)"
  using assms
proof (induction ds arbitrary: p)
  case Nil
  then show ?case by simp
next
  case (Cons d ds)
  let ?p = "record_sent_packet_samples p d"
  have p: "unat (pos_sent_duration_samples ?p) = unat (pos_sent_duration_samples p) + unat d"
    using Cons.prems
    by (simp add: record_sent_packet_samples_def record_sent_duration_samples_def to_nat)
  with Cons.prems have "unat (pos_sent_duration_samples ?p) + sum_list (map unat ds) < 2 ^ 64"
    by simp
  from Cons.IH [OF this] p show ?case by simp
qed

section \<open>Properties\<close>

text \<open>Sending packets advances the sent position by exactly the sum of their sample counts, with
  no rounding to milliseconds in between, as long as the total fits 64 bits; buffering packets never
  moves the buffered position back and reaches at least the end of every buffered packet.\<close>

theorem position_accounting:
  assumes "unat (pos_sent_duration_samples p) + sum_list (map unat ds) < 2 ^ 64"
    and "packet \<in> set packets"
  shows "unat (pos_sent_duration_samples (fold (\<lambda>d p. record_sent_packet_samples p d) ds p))
      = unat (pos_sent_duration_samples p) + sum_list (map unat ds)
    \<and> pos_timestamp_samples p
        \<le> pos_timestamp_samples (fold (\<lambda>q p. record_buffered p q) packets p)
    \<and> packet_end packet
        \<le> pos_timestamp_samples (fold (\<lambda>q p. record_buffered p q) packets p)"
proof -
  have mono: "s \<le> fold (\<lambda>q s. max s (packet_end q)) qs s" for s qs
    by (induction qs arbitrary: s) (simp_all, meson max.cobounded1 order_trans)
  have "packet_end q \<le> fold (\<lambda>q s. max s (packet_end q)) qs s" if "q \<in> set qs" for q qs s
    using that
    by (induction qs arbitrary: s) (auto intro: order_trans [OF max.cobounded2 mono])
  with mono assms(2) fold_record_sent [OF assms(1)] show ?thesis
    by (simp add: fold_record_buffered_samples)
qed

theorem position_accounting_witness:
  "let packet = \<lparr>pkt_data = [1], pkt_timestamp_ms = 0, pkt_timestamp_samples = 0,
                 pkt_duration_ms = 2, pkt_duration_samples = 120\<rparr>;
       p = PlaybackPosition_default
   in unat (pos_sent_duration_samples (fold (\<lambda>d p. record_sent_packet_samples p d) [120, 120] p)) = 240
     \<and> packet_end packet \<le> pos_timestamp_samples (fold (\<lambda>q p. record_buffered p q) [packet] p)"
  using position_accounting [of PlaybackPosition_default "[120, 120]"
      "\<lparr>pkt_data = [1], pkt_timestamp_ms = 0, pkt_timestamp_samples = 0,
        pkt_duration_ms = 2, pkt_duration_samples = 120\<rparr>"
      "[\<lparr>pkt_data = [1], pkt_timestamp_ms = 0, pkt_timestamp_samples = 0,
         pkt_duration_ms = 2, pkt_duration_samples = 120\<rparr>]"]
  by (simp add: Let_def PlaybackPosition_default_def)

end
