(* ===== verification/HttpStream.thy ===== *)
theory HttpStream
  imports Position "HOL-Library.Sublist"
begin

text \<open>
  The resumable HTTP byte stream of the playback crate (\<open>media/http_stream.rs\<close>). The HTTP client is a
  parameter: a function from the outside world, the URL and the value of the range header to a response
  or an error and the next world; a response carries its status, its two headers and the chunks its body
  will yield, where an error element is a failed read. The loop of \<open>read_chunk\<close> is the recursion of one
  iteration, and its termination is proved for every client. The lemmas show that the chunks delivered
  for an honest server are the consecutive bytes of the resource, across reopened responses.
\<close>

section \<open>Data\<close>

definition MAX_READ_CHUNK_BYTES :: usize where
  "MAX_READ_CHUNK_BYTES = 64 * 1024"

record HttpOpusStreamMetrics =
  response_open_count :: u64
  range_reopen_count :: u64
  bounded_chunk_count :: u64
  read_error_reopen_count :: u64

record HttpReadStressProfile =
  base_delay_ms :: u64
  jitter_ms :: u64

text \<open>A response of the HTTP client. A header value that is not visible ASCII is \<open>Inl ()\<close>; the status
  text is how the client displays the status.\<close>

record HttpResponse =
  resp_status :: nat
  resp_status_text :: string
  resp_content_length :: "u64 option"
  resp_content_range :: "(unit + string) option"
  resp_body :: "(PlaybackError + bytes) list"

type_synonym 'w http_send = "'w \<Rightarrow> string \<Rightarrow> string option \<Rightarrow> (PlaybackError + HttpResponse) \<times> 'w"

record HttpOpusStream =
  stream_url :: string
  stream_response :: "HttpResponse option"
  response_start :: u64
  response_end :: "u64 option"
  resource_end :: "u64 option"
  stream_pending :: bytes
  stream_position :: PlaybackPosition
  stream_metrics :: HttpOpusStreamMetrics
  read_stress :: HttpReadStressProfile

record ResponseExtent =
  extent_response_end :: "u64 option"
  extent_resource_end :: "u64 option"

record ParsedContentRange =
  range_start :: u64
  range_end :: u64
  complete_length :: "u64 option"

abbreviation byte_offset :: "HttpOpusStream \<Rightarrow> u64" where
  "byte_offset s \<equiv> pos_byte_offset (stream_position s)"

section \<open>Content-Range\<close>

fun split_once :: "char \<Rightarrow> string \<Rightarrow> (string \<times> string) option" where
  "split_once c [] = None"
| "split_once c (x # xs) =
     (if x = c then Some ([], xs)
      else (case split_once c xs of None \<Rightarrow> None | Some (a, b) \<Rightarrow> Some (x # a, b)))"

definition strip_prefix :: "string \<Rightarrow> string \<Rightarrow> string option" where
  "strip_prefix p s = (if prefix p s then Some (drop (length p) s) else None)"

definition parse_content_range :: "string \<Rightarrow> ParsedContentRange option" where
  "parse_content_range value =
    (case strip_prefix ''bytes '' value of None \<Rightarrow> None | Some value \<Rightarrow>
     (case split_once (CHR ''/'') value of None \<Rightarrow> None | Some (interval, complete) \<Rightarrow>
      (case split_once (CHR ''-'') interval of None \<Rightarrow> None | Some (start, end_) \<Rightarrow>
       (case parse_u64 start of None \<Rightarrow> None | Some start \<Rightarrow>
        (case parse_u64 end_ of None \<Rightarrow> None | Some end_ \<Rightarrow>
          (if complete = ''*'' then
             Some \<lparr>range_start = start, range_end = end_, complete_length = None\<rparr>
           else (case parse_u64 complete of None \<Rightarrow> None | Some len \<Rightarrow>
             Some \<lparr>range_start = start, range_end = end_, complete_length = Some len\<rparr>)))))))"

definition response_extent :: "HttpResponse \<Rightarrow> u64 \<Rightarrow> PlaybackError + ResponseExtent" where
  "response_extent response start =
    (let content_length_end = map_option (saturating_add start) (resp_content_length response) in
     case resp_content_range response of
       None \<Rightarrow> Inr \<lparr>extent_response_end = content_length_end, extent_resource_end = None\<rparr>
     | Some (Inl _) \<Rightarrow>
         Inl (MediaParseDetail ''range response had invalid Content-Range header'')
     | Some (Inr content_range) \<Rightarrow>
        (case parse_content_range content_range of
           None \<Rightarrow> Inl (MediaParseDetail
                      (''range response had unsupported Content-Range header: '' @ content_range))
         | Some parsed \<Rightarrow>
            (if range_start parsed \<noteq> start then
               Inl (MediaParseDetail (''range response started at byte ''
                  @ show_nat (unat (range_start parsed)) @ '', expected '' @ show_nat (unat start)))
             else Inr \<lparr>extent_response_end = Some (saturating_add (range_end parsed) 1),
                       extent_resource_end = complete_length parsed\<rparr>)))"

definition validate_resume_response :: "HttpResponse \<Rightarrow> u64 \<Rightarrow> PlaybackError + unit" where
  "validate_resume_response response expected_start =
    (if expected_start = 0 then Inr ()
     else if resp_status response \<noteq> 206 then
       Inl (MediaParseDetail (''range request was not honored: expected 206 for resume at byte ''
         @ show_nat (unat expected_start) @ '', got '' @ resp_status_text response))
     else (case resp_content_range response of
             None \<Rightarrow> Inl (MediaParseDetail
               (''range request was not honored: missing Content-Range for resume at byte ''
                @ show_nat (unat expected_start)))
           | Some (Inl _) \<Rightarrow> Inl (MediaParseDetail
               ''range request was not honored: invalid Content-Range header'')
           | Some (Inr content_range) \<Rightarrow>
              (if \<not> prefix (''bytes '' @ show_nat (unat expected_start) @ ''-'') content_range then
                 Inl (MediaParseDetail
                   (''range request was not honored: expected Content-Range to start at byte ''
                    @ show_nat (unat expected_start) @ '', got '' @ content_range))
               else Inr ())))"

section \<open>Read stress\<close>

definition pseudo_jitter_ms :: "u64 \<Rightarrow> u64 \<Rightarrow> u64" where
  "pseudo_jitter_ms chunk_index max_jitter_ms =
    (let value = chunk_index * 0x9E3779B97F4A7C15;
         value = value XOR drop_bit 33 value;
         value = value * 0xC2B2AE3D27D4EB4F;
         value = value XOR drop_bit 29 value
     in value mod saturating_add max_jitter_ms 1)"

definition delay_for_chunk :: "HttpReadStressProfile \<Rightarrow> u64 \<Rightarrow> u64" where
  "delay_for_chunk profile chunk_index =
    (let jitter = (if jitter_ms profile = 0 then 0
                   else pseudo_jitter_ms chunk_index (jitter_ms profile))
     in saturating_add (base_delay_ms profile) jitter)"

text \<open>The environment is a parameter: the value of a variable that is set to valid text.\<close>

definition read_u64_env :: "(string \<Rightarrow> string option) \<Rightarrow> string \<Rightarrow> u64" where
  "read_u64_env env name =
    (case env name of
       None \<Rightarrow> 0
     | Some value \<Rightarrow> (case parse_u64 (trim value) of None \<Rightarrow> 0 | Some n \<Rightarrow> n))"

definition HttpReadStressProfile_from_env :: "(string \<Rightarrow> string option) \<Rightarrow> HttpReadStressProfile" where
  "HttpReadStressProfile_from_env env =
     \<lparr>base_delay_ms = read_u64_env env ''DISCORD_VOICE_SERVICE_HTTP_READ_DELAY_MS'',
      jitter_ms = read_u64_env env ''DISCORD_VOICE_SERVICE_HTTP_READ_JITTER_MS''\<rparr>"

section \<open>The stream\<close>

definition HttpOpusStreamMetrics_default :: HttpOpusStreamMetrics where
  "HttpOpusStreamMetrics_default =
     \<lparr>response_open_count = 0, range_reopen_count = 0, bounded_chunk_count = 0,
      read_error_reopen_count = 0\<rparr>"

definition HttpOpusStream_new :: "HttpReadStressProfile \<Rightarrow> string \<Rightarrow> HttpOpusStream" where
  "HttpOpusStream_new stress url =
     \<lparr>stream_url = url, stream_response = None, response_start = 0, response_end = None,
      resource_end = None, stream_pending = [], stream_position = PlaybackPosition_default,
      stream_metrics = HttpOpusStreamMetrics_default, read_stress = stress\<rparr>"

definition set_resume_offset :: "HttpOpusStream \<Rightarrow> u64 \<Rightarrow> HttpOpusStream" where
  "set_resume_offset s offset =
     s\<lparr>stream_position := set_byte_offset (stream_position s) offset, stream_response := None,
       response_start := offset, response_end := None, resource_end := None, stream_pending := []\<rparr>"

definition take_pending_chunk :: "HttpOpusStream \<Rightarrow> bytes option \<times> HttpOpusStream" where
  "take_pending_chunk s =
    (if stream_pending s = [] then (None, s)
     else
       (let chunk_len = min (length (stream_pending s)) MAX_READ_CHUNK_BYTES;
            chunk = take chunk_len (stream_pending s);
            s1 = s\<lparr>stream_pending := drop chunk_len (stream_pending s)\<rparr>
        in if chunk = [] then (None, s1)
           else (Some chunk,
                 s1\<lparr>stream_metrics := (stream_metrics s1)\<lparr>bounded_chunk_count :=
                        saturating_add (bounded_chunk_count (stream_metrics s1)) 1\<rparr>,
                    stream_position :=
                      advance_bytes (stream_position s1) (word_of_nat (length chunk))\<rparr>)))"

definition should_reopen_after_response_eof :: "HttpOpusStream \<Rightarrow> PlaybackError + bool" where
  "should_reopen_after_response_eof s =
    (let position = byte_offset s;
         ended_before_response_end =
           (case response_end s of Some e \<Rightarrow> position < e | None \<Rightarrow> False);
         ended_before_resource_end =
           (case resource_end s of Some e \<Rightarrow> position < e | None \<Rightarrow> False)
     in if \<not> ended_before_response_end \<and> \<not> ended_before_resource_end then Inr False
        else if position \<le> response_start s then
          Inl (MediaParseDetail ''playback source response ended before advancing'')
        else Inr True)"

definition range_header :: "u64 \<Rightarrow> string option" where
  "range_header start =
     (if start > 0 then Some (''bytes='' @ show_nat (unat start) @ ''-'') else None)"

definition open_response ::
  "'w http_send \<Rightarrow> HttpOpusStream \<Rightarrow> 'w
    \<Rightarrow> (PlaybackError + HttpResponse option) \<times> HttpOpusStream \<times> 'w" where
  "open_response send s w =
    (let expected_start = byte_offset s;
         m = stream_metrics s;
         m1 = (if expected_start > 0
               then m\<lparr>range_reopen_count := saturating_add (range_reopen_count m) 1\<rparr> else m);
         s1 = s\<lparr>stream_metrics :=
                 m1\<lparr>response_open_count := saturating_add (response_open_count m1) 1\<rparr>\<rparr>
     in case send w (stream_url s) (range_header expected_start) of
          (Inl err, w1) \<Rightarrow> (Inl err, s1, w1)
        | (Inr response, w1) \<Rightarrow>
           (if expected_start > 0 \<and> resp_status response = 416 then (Inr None, s1, w1)
            else if 400 \<le> resp_status response \<and> resp_status response < 600 then
              (Inl (Http (Some (resp_status response))), s1, w1)
            else (case validate_resume_response response expected_start of
                    Inl err \<Rightarrow> (Inl err, s1, w1)
                  | Inr _ \<Rightarrow> (Inr (Some response), s1, w1))))"

text \<open>One read from the open response: \<open>None\<close> as the first component continues the loop.\<close>

definition receive_step ::
  "HttpOpusStream \<Rightarrow> HttpResponse \<Rightarrow> (PlaybackError + bytes option) option \<times> HttpOpusStream" where
  "receive_step s response =
    (case resp_body response of
       Inr chunk # rest \<Rightarrow>
         (None, s\<lparr>stream_response := Some (response\<lparr>resp_body := rest\<rparr>),
                  stream_pending := stream_pending s @ chunk\<rparr>)
     | [] \<Rightarrow>
         (let s1 = s\<lparr>stream_response := None\<rparr> in
          case should_reopen_after_response_eof s1 of
            Inl err \<Rightarrow> (Some (Inl err), s1)
          | Inr True \<Rightarrow> (None, s1\<lparr>response_end := None\<rparr>)
          | Inr False \<Rightarrow> (Some (Inr None), s1\<lparr>response_end := None, resource_end := None\<rparr>))
     | Inl err # rest \<Rightarrow>
         (let s1 = s\<lparr>stream_response := None, response_end := None\<rparr> in
          if stream_pending s \<noteq> [] then (None, s1)
          else if byte_offset s > response_start s then
            (None, s1\<lparr>stream_metrics := (stream_metrics s1)\<lparr>read_error_reopen_count :=
                       saturating_add (read_error_reopen_count (stream_metrics s1)) 1\<rparr>\<rparr>)
          else (Some (Inl err), s1)))"

definition read_chunk_step ::
  "'w http_send \<Rightarrow> HttpOpusStream \<Rightarrow> 'w
    \<Rightarrow> (PlaybackError + bytes option) option \<times> HttpOpusStream \<times> 'w" where
  "read_chunk_step send s w =
    (if stream_pending s \<noteq> [] then
       (let (chunk, s1) = take_pending_chunk s in (Some (Inr chunk), s1, w))
     else (case stream_response s of
             Some response \<Rightarrow> (let (r, s1) = receive_step s response in (r, s1, w))
           | None \<Rightarrow>
              (case open_response send s w of
                 (Inl err, s1, w1) \<Rightarrow> (Some (Inl err), s1, w1)
               | (Inr None, s1, w1) \<Rightarrow> (Some (Inr None), s1, w1)
               | (Inr (Some response), s1, w1) \<Rightarrow>
                  (let start = byte_offset s1 in
                   case response_extent response start of
                     Inl err \<Rightarrow> (Some (Inl err), s1, w1)
                   | Inr extent \<Rightarrow>
                      (let s2 = s1\<lparr>response_start := start,
                                   response_end := extent_response_end extent,
                                   resource_end := extent_resource_end extent,
                                   stream_response := Some response\<rparr>;
                           (r, s3) = receive_step s2 response
                       in (r, s3, w1))))))"

text \<open>What gets smaller in every iteration that continues: a response that has delivered bytes may be
  reopened once, a freshly opened one is read to its end.\<close>

definition stream_rank :: "HttpOpusStream \<Rightarrow> nat" where
  "stream_rank s =
    (case stream_response s of
       None \<Rightarrow> 2
     | Some _ \<Rightarrow> if byte_offset s > response_start s then 3 else 1)"

definition body_left :: "HttpOpusStream \<Rightarrow> nat" where
  "body_left s = (case stream_response s of None \<Rightarrow> 0 | Some r \<Rightarrow> length (resp_body r))"

lemma open_response_frame:
  assumes "open_response send s w = (r, s1, w1)"
  shows "byte_offset s1 = byte_offset s" and "stream_pending s1 = stream_pending s"
    and "stream_url s1 = stream_url s" and "stream_response s1 = stream_response s"
    and "response_start s1 = response_start s"
  using assms
  by (auto simp: open_response_def Let_def split: prod.splits sum.splits if_splits)

lemma receive_step_continue:
  assumes "receive_step s response = (None, s')" and "stream_response s = Some response"
    and "stream_pending s = []"
  shows "(stream_rank s' = stream_rank s \<and> body_left s' < body_left s)
    \<or> (stream_rank s = 3 \<and> stream_rank s' = 2)"
proof (cases "resp_body response")
  case Nil
  with assms have "should_reopen_after_response_eof (s\<lparr>stream_response := None\<rparr>) = Inr True"
    and "s' = s\<lparr>stream_response := None, response_end := None\<rparr>"
    by (auto simp: receive_step_def Let_def split: sum.splits bool.splits)
  then show ?thesis
    using assms(2) by (auto simp: stream_rank_def should_reopen_after_response_eof_def Let_def
        split: if_splits)
next
  case (Cons item rest)
  with assms show ?thesis
    by (cases item) (auto simp: receive_step_def Let_def stream_rank_def body_left_def
        split: if_splits)
qed

lemma read_chunk_step_open_cases [consumes 2, case_names 1]:
  assumes "stream_response s = None" and "read_chunk_step send s w = (None, s', w')"
  obtains response s1 extent where "stream_pending s = []"
    and "open_response send s w = (Inr (Some response), s1, w')"
    and "receive_step (s1\<lparr>response_start := byte_offset s1,
           response_end := extent_response_end extent,
           resource_end := extent_resource_end extent,
           stream_response := Some response\<rparr>) response = (None, s')"
    and "response_extent response (byte_offset s1) = Inr extent"
  using assms that
  by (simp add: read_chunk_step_def Let_def
      split: if_splits prod.splits sum.splits option.splits)

lemma read_chunk_step_decreases:
  assumes "read_chunk_step send s w = (None, s', w')"
  shows "stream_rank s' < stream_rank s
    \<or> (stream_rank s' = stream_rank s \<and> body_left s' < body_left s)"
proof (cases "stream_response s")
  case (Some response)
  with assms have "stream_pending s = []" "receive_step s response = (None, s')"
    by (auto simp: read_chunk_step_def split: if_splits prod.splits)
  with receive_step_continue [of s response s'] Some show ?thesis by auto
next
  case None
  show ?thesis
  proof (cases rule: read_chunk_step_open_cases [OF None assms])
    case (1 response s1 extent)
    with receive_step_continue [OF 1(3)] open_response_frame [OF 1(2)] None show ?thesis
      by (auto simp: stream_rank_def)
  qed
qed

function read_chunk ::
  "'w http_send \<Rightarrow> HttpOpusStream \<Rightarrow> 'w \<Rightarrow> (PlaybackError + bytes option) \<times> HttpOpusStream \<times> 'w" where
  "read_chunk send s w =
    (case read_chunk_step send s w of
       (Some r, s', w') \<Rightarrow> (r, s', w')
     | (None, s', w') \<Rightarrow> read_chunk send s' w')"
  by pat_completeness auto
termination
  by (relation "measures [\<lambda>(send, s, w). stream_rank s, \<lambda>(send, s, w). body_left s]")
    (auto dest: read_chunk_step_decreases [OF sym])

declare read_chunk.simps [simp del]

section \<open>Servers and what the stream delivers\<close>

text \<open>The bytes a response body yields before its first failed read.\<close>

fun body_bytes :: "(PlaybackError + bytes) list \<Rightarrow> bytes" where
  "body_bytes [] = []"
| "body_bytes (Inr chunk # rest) = chunk @ body_bytes rest"
| "body_bytes (Inl _ # rest) = []"

text \<open>A response that tells the truth about the resource: a partial response (206) carries the bytes
  from the start its \<open>Content-Range\<close> names, every other one carries the bytes from the beginning, and
  either may be cut short anywhere.\<close>

definition truthful_response :: "bytes \<Rightarrow> HttpResponse \<Rightarrow> bool" where
  "truthful_response R resp \<longleftrightarrow>
    (if resp_status resp = 206
     then (\<exists>cr p. resp_content_range resp = Some (Inr cr) \<and> parse_content_range cr = Some p
            \<and> prefix (body_bytes (resp_body resp)) (drop (unat (range_start p)) R))
     else prefix (body_bytes (resp_body resp)) R)"

text \<open>A response that also announces the length of the resource.\<close>

definition sized_response :: "bytes \<Rightarrow> HttpResponse \<Rightarrow> bool" where
  "sized_response R resp \<longleftrightarrow>
    (if resp_status resp = 206
     then (\<exists>cr p. resp_content_range resp = Some (Inr cr) \<and> parse_content_range cr = Some p
            \<and> complete_length p = Some (word_of_nat (length R)))
     else resp_content_range resp = None
            \<and> resp_content_length resp = Some (word_of_nat (length R)))"

definition is_error_status :: "nat \<Rightarrow> bool" where
  "is_error_status st \<longleftrightarrow> 400 \<le> st \<and> st < 600"

definition serves :: "'w http_send \<Rightarrow> bytes \<Rightarrow> bool" where
  "serves send R \<longleftrightarrow>
    (\<forall>w url start resp w'. send w url (range_header start) = (Inr resp, w')
       \<longrightarrow> \<not> is_error_status (resp_status resp) \<longrightarrow> truthful_response R resp)"

definition announces_size :: "'w http_send \<Rightarrow> bytes \<Rightarrow> bool" where
  "announces_size send R \<longleftrightarrow>
    (\<forall>w url start resp w'. send w url (range_header start) = (Inr resp, w')
       \<longrightarrow> (if resp_status resp = 416 then length R \<le> unat start
           else \<not> is_error_status (resp_status resp) \<longrightarrow> sized_response R resp))"

definition ahead :: "HttpOpusStream \<Rightarrow> bytes" where
  "ahead s = stream_pending s @
     (case stream_response s of None \<Rightarrow> [] | Some r \<Rightarrow> body_bytes (resp_body r))"

definition in_step :: "bytes \<Rightarrow> HttpOpusStream \<Rightarrow> bool" where
  "in_step R s \<longleftrightarrow> prefix (ahead s) (drop (unat (byte_offset s)) R)"

definition knows_end :: "bytes \<Rightarrow> HttpOpusStream \<Rightarrow> bool" where
  "knows_end R s \<longleftrightarrow> (stream_response s \<noteq> None \<longrightarrow>
     resource_end s = Some (word_of_nat (length R)) \<or> response_end s = Some (word_of_nat (length R)))"

definition delivers :: "bytes \<Rightarrow> HttpOpusStream \<Rightarrow> bytes \<Rightarrow> HttpOpusStream \<Rightarrow> bool" where
  "delivers R s chunk s' \<longleftrightarrow>
     chunk \<noteq> [] \<and> length chunk \<le> MAX_READ_CHUNK_BYTES
     \<and> prefix chunk (drop (unat (byte_offset s)) R)
     \<and> unat (byte_offset s') = unat (byte_offset s) + length chunk"

lemma truthful_opened:
  assumes "open_response send s w = (Inr (Some response), s1, w1)" and "serves send R"
    and "response_extent response (byte_offset s) = Inr extent"
  shows "prefix (body_bytes (resp_body response)) (drop (unat (byte_offset s)) R)"
proof -
  from assms(1) obtain w2 where snd: "send w (stream_url s) (range_header (byte_offset s)) = (Inr response, w2)"
    and st: "\<not> is_error_status (resp_status response)"
    and val: "validate_resume_response response (byte_offset s) = Inr ()"
    by (auto simp: open_response_def Let_def is_error_status_def split: prod.splits sum.splits if_splits)
  with assms(2) have truth: "truthful_response R response"
    unfolding serves_def by blast
  show ?thesis
  proof (cases "resp_status response = 206")
    case True
    with truth assms(3) show ?thesis
      by (auto simp: truthful_response_def response_extent_def Let_def split: if_splits)
  next
    case False
    with val have "byte_offset s = 0"
      by (auto simp: validate_resume_response_def split: if_splits)
    with truth False show ?thesis by (simp add: truthful_response_def)
  qed
qed

lemma prefix_drop_append: "prefix (xs @ ys) zs \<Longrightarrow> prefix ys (drop (length xs) zs)"
  by (auto simp: prefix_def)

lemma take_pending_chunk_in_step:
  assumes "in_step R s" and "stream_pending s \<noteq> []" and "length R < 2 ^ 64"
  obtains chunk s' where "take_pending_chunk s = (Some chunk, s')" and "delivers R s chunk s'"
    and "in_step R s'"
proof -
  let ?n = "min (length (stream_pending s)) MAX_READ_CHUNK_BYTES"
  let ?chunk = "take ?n (stream_pending s)"
  obtain s' where take: "take_pending_chunk s = (Some ?chunk, s')"
    and s': "stream_pending s' = drop ?n (stream_pending s)" "stream_response s' = stream_response s"
      "byte_offset s' = saturating_add (byte_offset s) (word_of_nat ?n)"
    using assms(2)
    by (simp add: take_pending_chunk_def Let_def advance_bytes_def MAX_READ_CHUNK_BYTES_def)
  from assms(1) have ahead: "prefix (?chunk @ ahead s') (drop (unat (byte_offset s)) R)"
    by (simp add: in_step_def ahead_def s'(1,2) flip: append.assoc)
  then have pre: "prefix ?chunk (drop (unat (byte_offset s)) R)"
    by (rule append_prefixD)
  have len: "unat (byte_offset s) + ?n \<le> length R"
    using prefix_length_le [OF pre] assms(2) by (cases "stream_pending s") (auto simp: MAX_READ_CHUNK_BYTES_def)
  with assms(3) have off: "unat (byte_offset s') = unat (byte_offset s) + ?n"
    by (simp add: s'(3) to_nat unat_of_nat_small)
  have "in_step R s'"
    using ahead prefix_drop_append [of ?chunk "ahead s'" "drop (unat (byte_offset s)) R"] assms(2)
    by (simp add: in_step_def off add.commute MAX_READ_CHUNK_BYTES_def)
  moreover have "delivers R s ?chunk s'"
    using assms(2) pre off by (simp add: delivers_def MAX_READ_CHUNK_BYTES_def)
  ultimately show ?thesis using take that by blast
qed

lemma receive_step_in_step:
  assumes "receive_step s response = (r, s')" and "stream_response s = Some response"
    and "stream_pending s = []" and "in_step R s"
  shows "in_step R s'" and "byte_offset s' = byte_offset s"
    and "\<forall>chunk. r \<noteq> Some (Inr (Some chunk))"
    and "stream_url s' = stream_url s"
  using assms
  by (cases "resp_body response" rule: body_bytes.cases;
      auto simp: receive_step_def Let_def in_step_def ahead_def
        split: if_splits sum.splits bool.splits)+

lemma receive_step_knows_end:
  assumes "receive_step s response = (r, s')" and "stream_response s = Some response"
    and "stream_pending s = []" and "knows_end R s" and "length R < 2 ^ 64"
  shows "knows_end R s'" and "r = Some (Inr None) \<Longrightarrow> length R \<le> unat (byte_offset s')"
  using assms
  by (cases "resp_body response" rule: body_bytes.cases;
      auto simp: receive_step_def Let_def knows_end_def should_reopen_after_response_eof_def
        word_less_nat_alt unat_of_nat_small
        split: if_splits sum.splits bool.splits option.splits)+

lemma sized_opened:
  assumes "open_response send s w = (Inr ro, s1, w1)" and "announces_size send R"
  shows "ro = None \<Longrightarrow> length R \<le> unat (byte_offset s)"
    and "ro = Some response \<Longrightarrow> response_extent response (byte_offset s) = Inr extent \<Longrightarrow>
      extent_resource_end extent = Some (word_of_nat (length R))
      \<or> extent_response_end extent = Some (word_of_nat (length R))"
proof -
  assume "ro = None"
  with assms(1) obtain resp w2 where "resp_status resp = 416"
    and "send w (stream_url s) (range_header (byte_offset s)) = (Inr resp, w2)"
    by (auto simp: open_response_def Let_def split: prod.splits sum.splits if_splits)
  with assms(2) show "length R \<le> unat (byte_offset s)"
    unfolding announces_size_def by metis
next
  assume ro: "ro = Some response" and ext: "response_extent response (byte_offset s) = Inr extent"
  from assms(1) ro obtain w2 where
    snd: "send w (stream_url s) (range_header (byte_offset s)) = (Inr response, w2)"
    and st: "\<not> is_error_status (resp_status response)"
    and val: "validate_resume_response response (byte_offset s) = Inr ()"
    by (auto simp: open_response_def Let_def is_error_status_def split: prod.splits sum.splits if_splits)
  have "resp_status response \<noteq> 416" using st by (auto simp: is_error_status_def)
  with snd st assms(2) have "sized_response R response"
    unfolding announces_size_def by metis
  moreover have "resp_status response \<noteq> 206 \<Longrightarrow> byte_offset s = 0"
    using val by (auto simp: validate_resume_response_def split: if_splits)
  ultimately show "extent_resource_end extent = Some (word_of_nat (length R))
      \<or> extent_response_end extent = Some (word_of_nat (length R))"
    using ext by (auto simp: sized_response_def response_extent_def Let_def saturating_add_def
        split: if_splits)
qed

text \<open>One iteration and the whole loop, for a server that serves the resource; \<open>sized\<close> says whether it
  announces the length of the resource too.\<close>

definition good_server :: "bool \<Rightarrow> 'w http_send \<Rightarrow> bytes \<Rightarrow> bool" where
  "good_server sized send R \<longleftrightarrow>
     length R < 2 ^ 64 \<and> serves send R \<and> (sized \<longrightarrow> announces_size send R)"

definition good_stream :: "bool \<Rightarrow> bytes \<Rightarrow> HttpOpusStream \<Rightarrow> bool" where
  "good_stream sized R s \<longleftrightarrow> in_step R s \<and> (sized \<longrightarrow> knows_end R s)"

definition good_result ::
  "bool \<Rightarrow> bytes \<Rightarrow> HttpOpusStream \<Rightarrow> PlaybackError + bytes option \<Rightarrow> HttpOpusStream \<Rightarrow> bool" where
  "good_result sized R s r s' \<longleftrightarrow>
    (case r of
       Inr (Some chunk) \<Rightarrow> delivers R s chunk s'
     | Inr None \<Rightarrow> byte_offset s' = byte_offset s \<and> (sized \<longrightarrow> length R \<le> unat (byte_offset s'))
     | Inl _ \<Rightarrow> byte_offset s' = byte_offset s)"

lemma receive_step_good:
  assumes "receive_step s response = (r, s')" and "stream_response s = Some response"
    and "stream_pending s = []" and "good_stream sized R s" and "length R < 2 ^ 64"
  shows "good_stream sized R s' \<and> byte_offset s' = byte_offset s
    \<and> (\<forall>x. r = Some x \<longrightarrow> good_result sized R s x s')"
  using receive_step_in_step [OF assms(1-3), of R] receive_step_knows_end [OF assms(1-3), of R] assms(4,5)
  by (auto simp: good_stream_def good_result_def split: sum.splits option.splits)

lemma read_chunk_step_good:
  assumes step: "read_chunk_step send s w = (r, s', w')" and server: "good_server sized send R"
    and good: "good_stream sized R s"
  shows "good_stream sized R s' \<and> (r = None \<longrightarrow> byte_offset s' = byte_offset s)
    \<and> (\<forall>x. r = Some x \<longrightarrow> good_result sized R s x s')"
proof (cases "stream_pending s = []")
  case False
  with take_pending_chunk_in_step [of R s] good server obtain chunk s1 where
    "take_pending_chunk s = (Some chunk, s1)" "delivers R s chunk s1" "in_step R s1"
    by (auto simp: good_stream_def good_server_def)
  with False step good show ?thesis
    by (auto simp: read_chunk_step_def good_stream_def good_result_def knows_end_def
        take_pending_chunk_def Let_def split: if_splits)
next
  case True
  show ?thesis
  proof (cases "stream_response s")
    case (Some response)
    with True step have "receive_step s response = (r, s')"
      by (auto simp: read_chunk_step_def split: prod.splits)
    with receive_step_good [of s response r s' sized R] Some True good server show ?thesis
      by (simp add: good_server_def)
  next
    case None
    obtain ro s1 w1 where op: "open_response send s w = (ro, s1, w1)" by (metis prod_cases3)
    note frame = open_response_frame [OF op]
    have keep: "good_stream sized R s1"
      using good None True by (simp add: good_stream_def in_step_def ahead_def knows_end_def frame)
    show ?thesis
    proof (cases "\<exists>response extent. ro = Inr (Some response)
        \<and> response_extent response (byte_offset s) = Inr extent")
      case True
      then obtain response extent where ro: "ro = Inr (Some response)"
        and ext: "response_extent response (byte_offset s) = Inr extent" by blast
      let ?s2 = "s1\<lparr>response_start := byte_offset s1, response_end := extent_response_end extent,
                 resource_end := extent_resource_end extent, stream_response := Some response\<rparr>"
      have "good_stream sized R ?s2"
        using truthful_opened [OF op [unfolded ro] _ ext, of R]
          sized_opened(2) [OF op [unfolded ro] _ refl ext, of R] server \<open>stream_pending s = []\<close>
        by (auto simp: good_stream_def good_server_def in_step_def ahead_def knows_end_def frame)
      moreover have "receive_step ?s2 response = (r, s')"
        using step None \<open>stream_pending s = []\<close> op ro ext
        by (auto simp: read_chunk_step_def Let_def frame split: prod.splits)
      ultimately show ?thesis
        using receive_step_good [of ?s2 response r s' sized R] server \<open>stream_pending s = []\<close>
        by (auto simp: frame good_server_def good_result_def delivers_def split: sum.splits option.splits)
    next
      case False
      with step None \<open>stream_pending s = []\<close> op have "s' = s1"
        and "r = Some (Inr None) \<and> ro = Inr None \<or> (\<exists>err. r = Some (Inl err))"
        by (auto simp: read_chunk_step_def Let_def frame split: sum.splits option.splits)
      with keep sized_opened(1) [of send s w None s1 w1 R] op server frame show ?thesis
        by (auto simp: good_result_def good_server_def)
    qed
  qed
qed

lemma read_chunk_good:
  assumes "read_chunk send s w = (r, s', w')" and "good_server sized send R"
    and "good_stream sized R s"
  shows "good_stream sized R s' \<and> good_result sized R s r s'"
  using assms
proof (induction send s w rule: read_chunk.induct)
  case (1 send s w)
  obtain x s1 w1 where step: "read_chunk_step send s w = (x, s1, w1)" by (metis prod_cases3)
  note good = read_chunk_step_good [OF step "1.prems"(2,3)]
  show ?case
  proof (cases x)
    case (Some res)
    with "1.prems"(1) step good show ?thesis by (simp add: read_chunk.simps)
  next
    case None
    with "1.prems"(1) step have "read_chunk send s1 w1 = (r, s', w')"
      by (simp add: read_chunk.simps [of send s])
    with "1.IH" [OF step [symmetric] None] "1.prems"(2) good None show ?thesis
      by (auto simp: good_result_def delivers_def split: sum.splits option.splits)
  qed
qed

section \<open>A sequence of reads\<close>

fun read_chunks ::
  "nat \<Rightarrow> 'w http_send \<Rightarrow> HttpOpusStream \<Rightarrow> 'w
    \<Rightarrow> (PlaybackError + bytes option) list \<times> HttpOpusStream \<times> 'w" where
  "read_chunks 0 send s w = ([], s, w)"
| "read_chunks (Suc n) send s w =
    (let (r, s1, w1) = read_chunk send s w; (rs, s2, w2) = read_chunks n send s1 w1
     in (r # rs, s2, w2))"

fun delivered :: "(PlaybackError + bytes option) list \<Rightarrow> bytes list" where
  "delivered [] = []"
| "delivered (Inr (Some chunk) # rs) = chunk # delivered rs"
| "delivered (_ # rs) = delivered rs"

lemma delivered_Cons:
  "delivered (r # rs) = (case r of Inr (Some chunk) \<Rightarrow> [chunk] | _ \<Rightarrow> []) @ delivered rs"
  by (cases r) (simp_all split: option.split)

lemma good_stream_resume [simp]: "good_stream sized R (set_resume_offset s offset)"
  by (simp add: good_stream_def in_step_def ahead_def knows_end_def set_resume_offset_def)

lemma byte_offset_resume [simp]: "byte_offset (set_resume_offset s offset) = offset"
  by (simp add: set_resume_offset_def set_byte_offset_def)

lemma read_chunks_good:
  assumes "read_chunks n send s w = (rs, s', w')" and "good_server sized send R"
    and "good_stream sized R s"
  shows "prefix (concat (delivered rs)) (drop (unat (byte_offset s)) R)
    \<and> unat (byte_offset s') = unat (byte_offset s) + length (concat (delivered rs))
    \<and> list_all (\<lambda>chunk. chunk \<noteq> [] \<and> length chunk \<le> MAX_READ_CHUNK_BYTES) (delivered rs)
    \<and> (sized \<and> rs \<noteq> [] \<and> last rs = Inr None \<longrightarrow> length R \<le> unat (byte_offset s'))"
  using assms
proof (induction n arbitrary: s w rs)
  case (Suc n)
  obtain r s1 w1 where one: "read_chunk send s w = (r, s1, w1)" by (metis prod_cases3)
  obtain rs1 where rest: "read_chunks n send s1 w1 = (rs1, s', w')" and rs: "rs = r # rs1"
    using Suc.prems(1) one by (auto split: prod.splits)
  note good = read_chunk_good [OF one Suc.prems(2,3)]
  note IH = Suc.IH [OF rest Suc.prems(2)]
  have last: "rs1 = [] \<Longrightarrow> s' = s1"
    using rest by (cases n) (auto split: prod.splits)
  show ?case
  proof (cases "\<exists>chunk. r = Inr (Some chunk)")
    case True
    then obtain chunk where r: "r = Inr (Some chunk)" by blast
    with good have del: "delivers R s chunk s1" by (simp add: good_result_def)
    then obtain tl where tl: "drop (unat (byte_offset s)) R = chunk @ tl"
      and off: "unat (byte_offset s1) = unat (byte_offset s) + length chunk"
      by (auto simp: delivers_def prefix_def)
    have "drop (unat (byte_offset s1)) R = tl"
      using arg_cong [OF tl, of "drop (length chunk)"] by (simp add: off add.commute)
    with IH good tl off del last r rs show ?thesis
      by (auto simp: delivers_def delivered_Cons)
  next
    case False
    with good have off: "byte_offset s1 = byte_offset s"
      by (auto simp: good_result_def split: sum.splits option.splits)
    from False have "delivered rs = delivered rs1"
      by (auto simp: rs delivered_Cons split: sum.splits option.splits)
    with IH good off last rs show ?thesis
      by (auto simp: good_result_def split: sum.splits option.splits)
  qed
qed simp

lemma show_nat_eq_iff [simp]: "show_nat m = show_nat n \<longleftrightarrow> m = n"
  by (metis digits_value_show_nat)

lemma split_once_append:
  "list_all (\<lambda>x. x \<noteq> c) xs \<Longrightarrow> split_once c (xs @ c # ys) = Some (xs, ys)"
  by (induction xs) simp_all

lemma show_nat_no:
  assumes "\<not> is_digit c" shows "list_all (\<lambda>x. x \<noteq> c) (show_nat n)"
  using show_nat_digits [of n] assms by (auto simp: list_all_iff)

text \<open>A Content-Range header of a byte range, as the HTTP specification writes it, with the complete
  length given or unknown, is parsed to exactly its three numbers, at every value of 64 bits.\<close>

theorem content_range_roundtrip:
  "parse_content_range (''bytes '' @ show_nat (unat a) @ ''-'' @ show_nat (unat b) @ ''/''
      @ (case n of None \<Rightarrow> ''*'' | Some len \<Rightarrow> show_nat (unat len)))
    = Some \<lparr>range_start = a, range_end = b, complete_length = n\<rparr>"
proof -
  let ?tail = "case n of None \<Rightarrow> ''*'' | Some len \<Rightarrow> show_nat (unat len)"
  have slash: "split_once (CHR ''/'') ((show_nat (unat a) @ CHR ''-'' # show_nat (unat b)) @ CHR ''/'' # ?tail)
      = Some (show_nat (unat a) @ CHR ''-'' # show_nat (unat b), ?tail)"
    by (rule split_once_append) (simp add: show_nat_no is_digit_def)
  have dash: "split_once (CHR ''-'') (show_nat (unat a) @ CHR ''-'' # show_nat (unat b))
      = Some (show_nat (unat a), show_nat (unat b))"
    by (rule split_once_append) (simp add: show_nat_no is_digit_def)
  have star: "show_nat (unat len) \<noteq> ''*''" for len :: u64
    using show_nat_digits [of "unat len"] by (auto simp: is_digit_def)
  show ?thesis
    using slash dash star by (cases n) (simp_all add: parse_content_range_def strip_prefix_def)
qed

text \<open>C7: Integrity of a resumed download. Whatever the server's responses are, cut short or broken off
  by read errors at any point, as long as each tells the truth about the resource, the chunks that any
  number of reads deliver from a resume offset are consecutive bytes of the resource from that offset,
  none missing, repeated or reordered across reopened responses; every chunk is non-empty and at most
  64 KiB, and the byte offset advances by exactly what was delivered.\<close>

theorem stream_delivers_resource:
  assumes "serves send R" and "length R < 2 ^ 64"
    and "read_chunks n send (set_resume_offset s offset) w = (rs, s', w')"
  shows "prefix (concat (delivered rs)) (drop (unat offset) R)
    \<and> unat (byte_offset s') = unat offset + length (concat (delivered rs))
    \<and> list_all (\<lambda>chunk. chunk \<noteq> [] \<and> length chunk \<le> MAX_READ_CHUNK_BYTES) (delivered rs)"
  using read_chunks_good [OF assms(3), of False R] assms(1,2)
  by (simp add: good_server_def)

text \<open>C33: End of stream. When the server also announces the length of the resource, in the complete
  length of a Content-Range or as the Content-Length of a full response, a read that reports the end of
  the stream does so only after the whole resource from the resume offset on has been delivered: a
  response that ends early is never taken for the end.\<close>

theorem stream_end_is_complete:
  assumes "serves send R" and "announces_size send R" and "length R < 2 ^ 64"
    and "read_chunks n send (set_resume_offset s offset) w = (rs, s', w')"
    and "rs \<noteq> []" and "last rs = Inr None"
  shows "concat (delivered rs) = drop (unat offset) R"
proof -
  have pre: "prefix (concat (delivered rs)) (drop (unat offset) R)"
    and len: "length R \<le> unat offset + length (concat (delivered rs))"
    using read_chunks_good [OF assms(4), of True R] assms by (auto simp: good_server_def)
  from pre obtain zs where zs: "drop (unat offset) R = concat (delivered rs) @ zs"
    by (rule prefixE)
  have "length zs = 0"
    using len arg_cong [OF zs, of length] unfolding length_append length_drop by linarith
  with zs show ?thesis by simp
qed

text \<open>The chunk delay of the read stress profile lies between the base delay and the base delay plus
  the configured jitter, whatever the chunk index hashes to.\<close>

theorem delay_for_chunk_bounds:
  "case delay_for_chunk profile chunk_index of delay \<Rightarrow>
     base_delay_ms profile \<le> delay \<and>
     delay \<le> saturating_add (base_delay_ms profile) (jitter_ms profile)"
proof -
  have jitter: "v mod saturating_add j 1 \<le> j" for v j :: u64
  proof -
    have "unat (saturating_add j 1) \<noteq> 0" "unat (saturating_add j 1) \<le> unat j + 1"
      by (simp_all add: to_nat)
    then have "unat v mod unat (saturating_add j 1) < unat j + 1"
      by (metis mod_less_divisor neq0_conv order_less_le_trans)
    then show ?thesis by (simp add: word_le_nat_alt unat_mod)
  qed
  have mono: "x \<le> y \<Longrightarrow> saturating_add b x \<le> saturating_add b y" for b x y :: u64
    by (simp add: word_le_nat_alt to_nat min_le_iff_disj)
  show ?thesis
    by (auto simp: delay_for_chunk_def pseudo_jitter_ms_def Let_def saturating_add_mono mono jitter)
qed

section \<open>A concrete server\<close>

text \<open>Three bytes; the first response breaks off after one byte and the stream resumes at byte 1.\<close>

definition demo_resource :: bytes where
  "demo_resource = [1, 2, 3]"

definition demo_send :: "'w http_send" where
  "demo_send w url hdr =
    (case hdr of
       None \<Rightarrow> (Inr \<lparr>resp_status = 200, resp_status_text = ''200 OK'', resp_content_length = Some 3,
                     resp_content_range = None, resp_body = [Inr [1], Inl (Http None)]\<rparr>, w)
     | Some h \<Rightarrow>
        (if h = ''bytes=1-'' then
           (Inr \<lparr>resp_status = 206, resp_status_text = ''206 Partial Content'',
                 resp_content_length = Some 2, resp_content_range = Some (Inr ''bytes 1-2/3''),
                 resp_body = [Inr [2], Inr [3]]\<rparr>, w)
         else (Inl (Http None), w)))"

lemma parse_demo_range:
  "parse_content_range ''bytes 1-2/3'' =
     Some \<lparr>range_start = 1, range_end = 2, complete_length = Some 3\<rparr>"
  by (simp add: parse_content_range_def strip_prefix_def parse_u64_def is_digit_def
      digits_value_def digit_value_def)

lemma demo_server: "serves demo_send demo_resource" "announces_size demo_send demo_resource"
  by (auto simp: serves_def announces_size_def demo_send_def demo_resource_def truthful_response_def
      sized_response_def is_error_status_def parse_demo_range split: option.splits if_splits)

abbreviation demo_stream :: HttpOpusStream where
  "demo_stream \<equiv> HttpOpusStream_new \<lparr>base_delay_ms = 0, jitter_ms = 0\<rparr> ''http://a''"

lemma read_chunk_unfold:
  "read_chunk_step send s w = (Some r, s', w') \<Longrightarrow> read_chunk send s w = (r, s', w')"
  "read_chunk_step send s w = (None, s', w') \<Longrightarrow> read_chunk send s w = read_chunk send s' w'"
  by (simp_all add: read_chunk.simps [of send s w])

lemma digit_char_1: "digit_char (Suc 0) = CHR ''1''"
  by code_simp

lemmas stream_eval = digit_char_1 read_chunk_unfold read_chunk_step_def take_pending_chunk_def receive_step_def
  open_response_def should_reopen_after_response_eof_def validate_resume_response_def
  response_extent_def range_header_def demo_send_def parse_demo_range show_nat.simps
  HttpOpusStream_new_def set_resume_offset_def set_byte_offset_def advance_bytes_def
  PlaybackPosition_default_def HttpOpusStreamMetrics_default_def MAX_READ_CHUNK_BYTES_def
  saturating_add_def Let_def

lemma demo_run:
  "fst (read_chunks (Suc (Suc (Suc (Suc 0)))) demo_send (set_resume_offset demo_stream 0) ())
     = [Inr (Some [1]), Inr (Some [2]), Inr (Some [3]), Inr None]"
  by (simp add: stream_eval)

theorem stream_delivers_resource_witness:
  "prefix [1, 2, 3] demo_resource \<and> concat (delivered (fst (read_chunks (Suc (Suc (Suc (Suc 0)))) demo_send
     (set_resume_offset demo_stream 0) ()))) = [1, 2, 3]"
proof -
  obtain rs s' w' where run: "read_chunks (Suc (Suc (Suc (Suc 0)))) demo_send (set_resume_offset demo_stream 0) () = (rs, s', w')"
    by (metis prod_cases3)
  then have rs: "rs = [Inr (Some [1]), Inr (Some [2]), Inr (Some [3]), Inr None]"
    using demo_run by simp
  show ?thesis
    using stream_delivers_resource [OF demo_server(1) _ run] run rs by (simp add: demo_resource_def)
qed

theorem stream_end_is_complete_witness:
  "concat (delivered (fst (read_chunks (Suc (Suc (Suc (Suc 0)))) demo_send (set_resume_offset demo_stream 0) ())))
     = demo_resource"
proof -
  obtain rs s' w' where run: "read_chunks (Suc (Suc (Suc (Suc 0)))) demo_send (set_resume_offset demo_stream 0) () = (rs, s', w')"
    by (metis prod_cases3)
  then have rs: "rs = [Inr (Some [1]), Inr (Some [2]), Inr (Some [3]), Inr None]"
    using demo_run by simp
  show ?thesis
    using stream_end_is_complete [OF demo_server _ run] run rs by (simp add: demo_resource_def)
qed

end
