(* ===== verification/Selector.thy ===== *)
theory Selector
  imports PlaybackErrors "HOL-Library.Product_Lexorder"
begin

text \<open>
  Choosing the audio format of a song (\<open>selector.rs\<close>) and resolving a video to a playable URL
  (\<open>ytmusic_client.rs\<close>, \<open>ResolvedPlaybackSource\<close> of \<open>source.rs\<close>). The messages of the music service are
  records with the fields the code reads; its two calls are parameters.
\<close>

section \<open>Data\<close>

record SongStreamFormat =
  fmt_itag :: u32
  fmt_mime_type :: string
  fmt_bitrate :: u64
  fmt_audio_sample_rate :: "u32 option"
  fmt_audio_channels :: "u32 option"
  fmt_signature_cipher :: string
  fmt_approx_duration_ms :: "u64 option"

record Song =
  song_adaptive_formats :: "SongStreamFormat list option"
  song_length_seconds :: "u32 option"

record ResolvedPlaybackSource =
  selected_itag :: u32
  playable_url :: string
  approx_duration_ms :: "u64 option"

text \<open>\<open>std::cmp::Reverse\<close>: the order of the wrapped value, turned around.\<close>

datatype Reverse = Reverse (reversed: u64)

instantiation Reverse :: linorder
begin

definition less_eq_Reverse :: "Reverse \<Rightarrow> Reverse \<Rightarrow> bool" where
  "less_eq_Reverse a b \<longleftrightarrow> reversed b \<le> reversed a"

definition less_Reverse :: "Reverse \<Rightarrow> Reverse \<Rightarrow> bool" where
  "less_Reverse a b \<longleftrightarrow> reversed b < reversed a"

instance
  by standard (auto simp: less_eq_Reverse_def less_Reverse_def intro: Reverse.expand)

end

section \<open>Selection\<close>

definition opus_mime :: string where
  "opus_mime = ''audio/webm; codecs='' @ [CHR 0x22] @ ''opus'' @ [CHR 0x22]"

definition priority_for_itag :: "u32 \<Rightarrow> u8" where
  "priority_for_itag itag = (if itag = 250 then 0 else if itag = 249 then 1 else 2)"

definition format_allowed :: "SongStreamFormat \<Rightarrow> bool" where
  "format_allowed f \<longleftrightarrow>
     fmt_mime_type f = opus_mime \<and> fmt_audio_sample_rate f = Some 48000
     \<and> fmt_audio_channels f = Some 2
     \<and> (fmt_itag f = 250 \<or> fmt_itag f = 249 \<or> fmt_bitrate f < 50000)"

definition format_key :: "SongStreamFormat \<Rightarrow> u8 \<times> Reverse" where
  "format_key f = (priority_for_itag (fmt_itag f), Reverse (fmt_bitrate f))"

definition select_song_stream_format ::
  "SongStreamFormat list \<Rightarrow> PlaybackError + SongStreamFormat" where
  "select_song_stream_format formats =
    (let allowed = sort_key format_key (filter format_allowed formats)
     in ok_or UnsupportedFormat (case allowed of [] \<Rightarrow> None | f # _ \<Rightarrow> Some f))"

section \<open>Resolving a video\<close>

definition resolve_duration_ms :: "SongStreamFormat \<Rightarrow> Song \<Rightarrow> u64 option" where
  "resolve_duration_ms selected song =
    (case fmt_approx_duration_ms selected of
       Some ms \<Rightarrow> Some ms
     | None \<Rightarrow> (case song_length_seconds song of
                 None \<Rightarrow> None
               | Some secs \<Rightarrow> if secs > 0 then Some (u64_from_u32 secs * 1000) else None))"

type_synonym 'w music_get_song = "'w \<Rightarrow> string \<Rightarrow> (PlaybackError + Song) \<times> 'w"
type_synonym 'w music_decipher = "'w \<Rightarrow> string \<Rightarrow> (PlaybackError + string) \<times> 'w"

definition resolve_playback_source ::
  "'w music_get_song \<Rightarrow> 'w music_decipher \<Rightarrow> 'w \<Rightarrow> string
    \<Rightarrow> (PlaybackError + ResolvedPlaybackSource) \<times> 'w" where
  "resolve_playback_source get_song decipher w video_id =
    (case get_song w video_id of
       (Inl err, w1) \<Rightarrow> (Inl err, w1)
     | (Inr song, w1) \<Rightarrow>
        (case res_bind (ok_or UnsupportedFormat (song_adaptive_formats song)) select_song_stream_format of
           Inl err \<Rightarrow> (Inl err, w1)
         | Inr selected \<Rightarrow>
            (case decipher w1 (fmt_signature_cipher selected) of
               (Inl err, w2) \<Rightarrow> (Inl err, w2)
             | (Inr url, w2) \<Rightarrow>
                 (Inr \<lparr>selected_itag = fmt_itag selected, playable_url = url,
                       approx_duration_ms = resolve_duration_ms selected song\<rparr>, w2))))"

section \<open>Lemmas\<close>

lemma hd_insort_key:
  "hd (insort_key k x xs) = (if xs = [] \<or> k x \<le> k (hd xs) then x else hd xs)"
  by (cases xs) auto

text \<open>The head of a stable sort is the first of the minimal elements.\<close>

lemma hd_sort_key_first:
  "xs \<noteq> [] \<Longrightarrow> find (\<lambda>x. list_all (\<lambda>y. k x \<le> k y) xs) xs = Some (hd (sort_key k xs))"
proof (induction xs)
  case (Cons x xs)
  show ?case
  proof (cases "xs = []")
    case False
    let ?h = "hd (sort_key k xs)"
    note IH = Cons.IH [OF False]
    from IH have h: "list_all (\<lambda>y. k ?h \<le> k y) xs" by (auto simp: find_Some_iff)
    show ?thesis
    proof (cases "k x \<le> k ?h")
      case True
      with h have "list_all (\<lambda>y. k x \<le> k y) xs" by (auto simp: list_all_iff intro: order_trans)
      with True False show ?thesis by (simp add: hd_insort_key)
    next
      case False
      from IH have "?h \<in> set xs" by (auto simp: find_Some_iff)
      with False have nx: "\<not> list_all (\<lambda>y. k x \<le> k y) xs" by (auto simp: list_all_iff)
      have "list_all (\<lambda>y. k a \<le> k y) (x # xs) = list_all (\<lambda>y. k a \<le> k y) xs" for a
        using False \<open>?h \<in> set xs\<close> by (fastforce simp: list_all_iff)
      then have "find (\<lambda>a. list_all (\<lambda>y. k a \<le> k y) (x # xs)) xs = find (\<lambda>a. list_all (\<lambda>y. k a \<le> k y) xs) xs"
        by (simp only:)
      moreover have "sort_key k xs \<noteq> []"
        using \<open>xs \<noteq> []\<close> by (metis length_0_conv length_sort)
      ultimately show ?thesis using nx False IH by (simp add: hd_insort_key)
    qed
  qed simp
qed simp

text \<open>The format the selection must return: the first allowed one that no allowed format beats.\<close>

definition preferred :: "SongStreamFormat list \<Rightarrow> SongStreamFormat \<Rightarrow> bool" where
  "preferred formats f \<longleftrightarrow> format_allowed f \<and>
     list_all (\<lambda>g. format_allowed g \<longrightarrow>
        priority_for_itag (fmt_itag f) < priority_for_itag (fmt_itag g)
        \<or> (priority_for_itag (fmt_itag f) = priority_for_itag (fmt_itag g)
           \<and> fmt_bitrate g \<le> fmt_bitrate f)) formats"

lemma find_filter: "find Q (filter P xs) = find (\<lambda>x. P x \<and> Q x) xs"
  by (induction xs) auto

lemma preferred_filter:
  "preferred formats f \<longleftrightarrow> format_allowed f
     \<and> list_all (\<lambda>g. format_key f \<le> format_key g) (filter format_allowed formats)"
  by (auto simp: preferred_def list_all_iff format_key_def less_eq_prod_def less_eq_Reverse_def)

text \<open>Format selection. Among the formats that are 48 kHz stereo WebM Opus and either itag 250, itag
  249 or below 50 kbit/s, the selection returns the first one that is best by itag preference (250, then
  249, then the rest) and, within a preference, by the highest bitrate; it fails, with the unsupported
  format error, exactly when no format is allowed.\<close>

theorem select_song_stream_format_best:
  "select_song_stream_format formats =
    (case find (preferred formats) formats of
       Some f \<Rightarrow> Inr f
     | None \<Rightarrow> Inl UnsupportedFormat)
   \<and> (find (preferred formats) formats = None \<longleftrightarrow> filter format_allowed formats = [])"
proof -
  let ?allowed = "filter format_allowed formats"
  have find: "find (preferred formats) formats
      = find (\<lambda>f. list_all (\<lambda>g. format_key f \<le> format_key g) ?allowed) ?allowed"
    by (simp add: find_filter preferred_filter [abs_def])
  show ?thesis
  proof (cases "?allowed = []")
    case True
    then show ?thesis by (simp add: find select_song_stream_format_def)
  next
    case False
    moreover obtain f fs where "sort_key format_key ?allowed = f # fs"
      using False by (metis list.exhaust length_0_conv length_sort)
    ultimately show ?thesis
      using hd_sort_key_first [OF False, of format_key]
      by (simp add: find select_song_stream_format_def)
  qed
qed

end
