(* ===== verification/Recovery.thy ===== *)
theory Recovery
  imports HttpStream Selector
begin

text \<open>
  The playback source (\<open>source.rs\<close>) and its recovery (\<open>recovery.rs\<close>): opening a resolved URL at a
  resume position, retrying timed-out reads, and resolving the URL again when it went stale.

  A timeout drops the read future at one of its await points. The timer parameter decides, for each
  timed read, whether the timeout fires and where: after how many iterations of the read loop, and
  whether a response that iteration was opening had already arrived. The shared position
  (\<open>Arc<Mutex<PlaybackPosition>>\<close>) is an index into a list of positions, so that two owners of one
  handle see each other's writes. The loop that reads up to the resume position is given fuel and is
  \<open>None\<close> when it runs out; the lemmas show how much fuel is enough.
\<close>

section \<open>Outside world\<close>

type_synonym 'w read_timer = "'w \<Rightarrow> nanos \<Rightarrow> (nat \<times> bool) option \<times> 'w"

record 'w playback_io =
  io_send :: "'w http_send"
  io_timer :: "'w read_timer"
  io_get_song :: "'w music_get_song"
  io_decipher :: "'w music_decipher"
  io_env :: "string \<Rightarrow> string option"
  io_webm :: webm_lib

type_synonym pos_heap = "PlaybackPosition list"

definition shared_playback_position :: "pos_heap \<Rightarrow> PlaybackPosition \<Rightarrow> nat \<times> pos_heap" where
  "shared_playback_position heap p = (length heap, heap @ [p])"

definition heap_update :: "(PlaybackPosition \<Rightarrow> PlaybackPosition) \<Rightarrow> pos_heap \<Rightarrow> nat \<Rightarrow> pos_heap" where
  "heap_update f heap h = heap[h := f (heap ! h)]"

definition new_stream :: "'w playback_io \<Rightarrow> string \<Rightarrow> HttpOpusStream" where
  "new_stream io url = HttpOpusStream_new (HttpReadStressProfile_from_env (io_env io)) url"

section \<open>Playback source\<close>

record PlaybackSource =
  src_resolved :: ResolvedPlaybackSource
  src_stream :: HttpOpusStream
  src_demux :: WebmOpusDemux
  src_pending_packets :: "DemuxedPacket list"
  src_position :: nat

definition reset_stream_to_current_byte_offset :: "PlaybackSource \<Rightarrow> PlaybackSource" where
  "reset_stream_to_current_byte_offset source =
     source\<lparr>src_stream := set_resume_offset (src_stream source) (byte_offset (src_stream source))\<rparr>"

definition replace_resolved_stream_at_current_byte_offset ::
  "'w playback_io \<Rightarrow> PlaybackSource \<Rightarrow> ResolvedPlaybackSource \<Rightarrow> PlaybackSource" where
  "replace_resolved_stream_at_current_byte_offset io source resolved =
    (let offset = byte_offset (src_stream source);
         stream = set_resume_offset (new_stream io (playable_url resolved)) offset
     in source\<lparr>src_resolved := resolved, src_stream := stream\<rparr>)"

definition live_position :: "pos_heap \<Rightarrow> PlaybackSource \<Rightarrow> PlaybackPosition" where
  "live_position heap source =
     set_byte_offset (heap ! src_position source) (byte_offset (src_stream source))"

definition sync_position :: "pos_heap \<Rightarrow> PlaybackSource \<Rightarrow> pos_heap" where
  "sync_position heap source =
     heap_update (\<lambda>p. set_byte_offset p (byte_offset (src_stream source))) heap (src_position source)"

definition source_record_sent_packet_samples :: "pos_heap \<Rightarrow> PlaybackSource \<Rightarrow> u32 \<Rightarrow> pos_heap" where
  "source_record_sent_packet_samples heap source duration_samples =
     heap_update (\<lambda>p. record_sent_packet_samples p duration_samples)
       (sync_position heap source) (src_position source)"

section \<open>Timed reads\<close>

definition INITIAL_OPEN_CHUNK_TIMEOUT :: nanos where
  "INITIAL_OPEN_CHUNK_TIMEOUT = 15000000000"

definition STEADY_STATE_CHUNK_TIMEOUT :: nanos where
  "STEADY_STATE_CHUNK_TIMEOUT = 2000000000"

definition OPEN_CHUNK_ATTEMPTS :: usize where
  "OPEN_CHUNK_ATTEMPTS = 2"

text \<open>The stream a dropped read leaves behind.\<close>

definition read_interrupted ::
  "'w http_send \<Rightarrow> HttpOpusStream \<Rightarrow> 'w \<Rightarrow> bool \<Rightarrow> HttpOpusStream \<times> 'w" where
  "read_interrupted send s w opened =
    (if stream_pending s \<noteq> [] then (s, w)
     else (case stream_response s of
             Some _ \<Rightarrow> (s, w)
           | None \<Rightarrow>
              (case open_response send s w of
                 (Inr (Some response), s1, w1) \<Rightarrow>
                   (case response_extent response (byte_offset s1) of
                      Inr extent \<Rightarrow>
                        (if opened
                         then (s1\<lparr>response_start := byte_offset s1,
                                  response_end := extent_response_end extent,
                                  resource_end := extent_resource_end extent,
                                  stream_response := Some response\<rparr>, w1)
                         else (s1, w1))
                    | Inl _ \<Rightarrow> (s1, w1))
               | (_, s1, w1) \<Rightarrow> (s1, w1))))"

fun read_chunk_until ::
  "nat \<Rightarrow> bool \<Rightarrow> 'w http_send \<Rightarrow> HttpOpusStream \<Rightarrow> 'w
    \<Rightarrow> (PlaybackError + bytes option) option \<times> HttpOpusStream \<times> 'w" where
  "read_chunk_until 0 opened send s w =
    (let (s1, w1) = read_interrupted send s w opened in (None, s1, w1))"
| "read_chunk_until (Suc k) opened send s w =
    (case read_chunk_step send s w of
       (Some r, s1, w1) \<Rightarrow> (Some r, s1, w1)
     | (None, s1, w1) \<Rightarrow> read_chunk_until k opened send s1 w1)"

definition timeout_read_chunk ::
  "'w playback_io \<Rightarrow> nanos \<Rightarrow> HttpOpusStream \<Rightarrow> 'w
    \<Rightarrow> (PlaybackError + bytes option) option \<times> HttpOpusStream \<times> 'w" where
  "timeout_read_chunk io limit s w =
    (case io_timer io w limit of
       (None, w1) \<Rightarrow> (let (r, s1, w2) = read_chunk (io_send io) s w1 in (Some r, s1, w2))
     | (Some (k, opened), w1) \<Rightarrow> read_chunk_until k opened (io_send io) s w1)"

definition read_chunk_with_timeout ::
  "'w playback_io \<Rightarrow> HttpOpusStream \<Rightarrow> string \<Rightarrow> 'w
    \<Rightarrow> (PlaybackError + bytes option) \<times> HttpOpusStream \<times> 'w" where
  "read_chunk_with_timeout io s url w =
    (case timeout_read_chunk io STEADY_STATE_CHUNK_TIMEOUT s w of
       (Some r, s1, w1) \<Rightarrow> (r, s1, w1)
     | (None, s1, w1) \<Rightarrow>
        (Inl (MediaParseDetail (''timed out reading playback source for '' @ url)), s1, w1))"

definition read_source_chunk_with_timeout ::
  "'w playback_io \<Rightarrow> PlaybackSource \<Rightarrow> 'w
    \<Rightarrow> (PlaybackError + bytes option) \<times> PlaybackSource \<times> 'w" where
  "read_source_chunk_with_timeout io source w =
    (let (r, s1, w1) = read_chunk_with_timeout io (src_stream source)
           (playable_url (src_resolved source)) w
     in (r, source\<lparr>src_stream := s1\<rparr>, w1))"

text \<open>The attempts \<open>attempt..=OPEN_CHUNK_ATTEMPTS\<close>, with the retries counted so far.\<close>

function read_opening_attempts ::
  "nat \<Rightarrow> u64 \<Rightarrow> 'w playback_io \<Rightarrow> HttpOpusStream \<Rightarrow> string \<Rightarrow> 'w
    \<Rightarrow> (PlaybackError + bytes option \<times> u64) \<times> HttpOpusStream \<times> 'w" where
  "read_opening_attempts attempt retry_count io s url w =
    (case timeout_read_chunk io INITIAL_OPEN_CHUNK_TIMEOUT s w of
       (Some (Inr chunk), s1, w1) \<Rightarrow> (Inr (chunk, retry_count), s1, w1)
     | (Some (Inl err), s1, w1) \<Rightarrow> (Inl err, s1, w1)
     | (None, s1, w1) \<Rightarrow>
        (if attempt < OPEN_CHUNK_ATTEMPTS
         then read_opening_attempts (attempt + 1) (retry_count + 1) io s1 url w1
         else (Inl (MediaParseDetail (''timed out opening playback source for '' @ url)), s1, w1)))"
  by pat_completeness auto
termination
  by (relation "measure (\<lambda>(attempt, _). OPEN_CHUNK_ATTEMPTS - attempt)") auto

declare read_opening_attempts.simps [simp del]

definition read_opening_chunk ::
  "'w playback_io \<Rightarrow> HttpOpusStream \<Rightarrow> string \<Rightarrow> 'w
    \<Rightarrow> (PlaybackError + bytes option \<times> u64) \<times> HttpOpusStream \<times> 'w" where
  "read_opening_chunk io s url w = read_opening_attempts 1 0 io s url w"

section \<open>Classifying errors\<close>

definition is_stale_source_status :: "nat \<Rightarrow> bool" where
  "is_stale_source_status status \<longleftrightarrow> status = 401 \<or> status = 403 \<or> status = 404 \<or> status = 410"

fun is_steady_state_read_timeout :: "PlaybackError \<Rightarrow> bool" where
  "is_steady_state_read_timeout (MediaParseDetail message) \<longleftrightarrow>
     str_contains ''timed out reading playback source'' message"
| "is_steady_state_read_timeout _ \<longleftrightarrow> False"

fun is_stale_http_error :: "PlaybackError \<Rightarrow> bool" where
  "is_stale_http_error (Http (Some status)) \<longleftrightarrow> is_stale_source_status status"
| "is_stale_http_error _ \<longleftrightarrow> False"

definition should_reresolve_after_steady_read_failure :: "PlaybackError \<Rightarrow> bool" where
  "should_reresolve_after_steady_read_failure err \<longleftrightarrow>
     is_stale_http_error err \<or> is_steady_state_read_timeout err"

fun is_open_timeout :: "PlaybackError \<Rightarrow> bool" where
  "is_open_timeout (MediaParseDetail message) \<longleftrightarrow>
     str_contains ''timed out opening playback source'' message"
| "is_open_timeout _ \<longleftrightarrow> False"

definition should_reresolve_after_open_failure :: "PlaybackError \<Rightarrow> bool" where
  "should_reresolve_after_open_failure err \<longleftrightarrow> is_stale_http_error err \<or> is_open_timeout err"

section \<open>Recovery\<close>

record PlaybackRecoveryMetrics =
  http_retry_count :: u64
  url_reresolve_count :: u64

type_synonym PlaybackResumePosition = u64

definition resume_from_millis :: "u64 \<Rightarrow> PlaybackResumePosition" where
  "resume_from_millis duration_ms = samples_from_duration_ms_u64 duration_ms"

definition resume_millis :: "PlaybackResumePosition \<Rightarrow> u64" where
  "resume_millis p = duration_ms_from_samples p"

definition resume_is_start :: "PlaybackResumePosition \<Rightarrow> bool" where
  "resume_is_start p \<longleftrightarrow> p = 0"

record PlaybackRecovery =
  last_video_id :: "string option"
  last_resolved :: "ResolvedPlaybackSource option"
  recovery_metrics :: PlaybackRecoveryMetrics

definition PlaybackRecovery_new :: PlaybackRecovery where
  "PlaybackRecovery_new =
     \<lparr>last_video_id = None, last_resolved = None,
      recovery_metrics = \<lparr>http_retry_count = 0, url_reresolve_count = 0\<rparr>\<rparr>"

definition recovery_reset :: "PlaybackRecovery \<Rightarrow> PlaybackRecovery" where
  "recovery_reset rec = rec\<lparr>last_video_id := None, last_resolved := None\<rparr>"

definition count_http_retry :: "u64 \<Rightarrow> PlaybackRecovery \<Rightarrow> PlaybackRecovery" where
  "count_http_retry n rec =
     rec\<lparr>recovery_metrics := (recovery_metrics rec)\<lparr>http_retry_count :=
           saturating_add (http_retry_count (recovery_metrics rec)) n\<rparr>\<rparr>"

definition count_reresolve :: "PlaybackRecovery \<Rightarrow> PlaybackRecovery" where
  "count_reresolve rec =
     rec\<lparr>recovery_metrics := (recovery_metrics rec)\<lparr>url_reresolve_count :=
           saturating_add (url_reresolve_count (recovery_metrics rec)) 1\<rparr>\<rparr>"

definition remember_source :: "PlaybackRecovery \<Rightarrow> string \<Rightarrow> PlaybackSource \<Rightarrow> PlaybackRecovery" where
  "remember_source rec video_id source =
     rec\<lparr>last_video_id := Some video_id, last_resolved := Some (src_resolved source)\<rparr>"

definition resolve_source ::
  "'w playback_io \<Rightarrow> 'w \<Rightarrow> string \<Rightarrow> (PlaybackError + ResolvedPlaybackSource) \<times> 'w" where
  "resolve_source io w video_id = resolve_playback_source (io_get_song io) (io_decipher io) w video_id"

definition reresolve_steady_source ::
  "'w playback_io \<Rightarrow> PlaybackRecovery \<Rightarrow> string option \<Rightarrow> PlaybackSource \<Rightarrow> PlaybackError \<Rightarrow> 'w
    \<Rightarrow> (PlaybackError + unit) \<times> PlaybackRecovery \<times> PlaybackSource \<times> 'w" where
  "reresolve_steady_source io rec video_id source original_err w =
    (case video_id of
       None \<Rightarrow> (Inl original_err, rec, source, w)
     | Some video_id \<Rightarrow>
        (let rec1 = count_reresolve rec in
         case resolve_source io w video_id of
           (Inl err, w1) \<Rightarrow> (Inl err, rec1, source, w1)
         | (Inr resolved, w1) \<Rightarrow>
            (let source1 = replace_resolved_stream_at_current_byte_offset io source resolved
             in (Inr (), remember_source rec1 video_id source1, source1, w1))))"

definition reresolve_and_read ::
  "'w playback_io \<Rightarrow> PlaybackRecovery \<Rightarrow> string option \<Rightarrow> PlaybackSource \<Rightarrow> PlaybackError \<Rightarrow> 'w
    \<Rightarrow> (PlaybackError + bytes option) \<times> PlaybackRecovery \<times> PlaybackSource \<times> 'w" where
  "reresolve_and_read io rec video_id source err w =
    (case reresolve_steady_source io rec video_id source err w of
       (Inl err, rec1, source1, w1) \<Rightarrow> (Inl err, rec1, source1, w1)
     | (Inr _, rec1, source1, w1) \<Rightarrow>
        (let (r, source2, w2) = read_source_chunk_with_timeout io source1 w1
         in (r, rec1, source2, w2)))"

definition read_stream_chunk ::
  "'w playback_io \<Rightarrow> PlaybackRecovery \<Rightarrow> string option \<Rightarrow> PlaybackSource \<Rightarrow> 'w
    \<Rightarrow> (PlaybackError + bytes option) \<times> PlaybackRecovery \<times> PlaybackSource \<times> 'w" where
  "read_stream_chunk io rec video_id source w =
    (case read_source_chunk_with_timeout io source w of
       (Inr chunk, source1, w1) \<Rightarrow> (Inr chunk, rec, source1, w1)
     | (Inl err, source1, w1) \<Rightarrow>
        (if is_steady_state_read_timeout err then
           (let rec1 = count_http_retry 1 rec;
                source2 = reset_stream_to_current_byte_offset source1
            in case read_source_chunk_with_timeout io source2 w1 of
                 (Inr chunk, source3, w2) \<Rightarrow> (Inr chunk, rec1, source3, w2)
               | (Inl err2, source3, w2) \<Rightarrow>
                  (if should_reresolve_after_steady_read_failure err2
                   then reresolve_and_read io rec1 video_id source3 err2 w2
                   else (Inl err2, rec1, source3, w2)))
         else if should_reresolve_after_steady_read_failure err
         then reresolve_and_read io rec video_id source1 err w1
         else (Inl err, rec, source1, w1)))"

section \<open>Opening at a resume position\<close>

definition packet_end_samples :: "DemuxedPacket \<Rightarrow> u64" where
  "packet_end_samples packet =
     saturating_add (pkt_timestamp_samples packet) (u64_from_u32 (pkt_duration_samples packet))"

definition packet_overlaps_resume :: "PlaybackResumePosition \<Rightarrow> DemuxedPacket \<Rightarrow> bool" where
  "packet_overlaps_resume position packet \<longleftrightarrow> packet_end_samples packet > position"

text \<open>Pushing one chunk through the demuxer and sorting its packets.\<close>

fun buffer_opening_packets ::
  "PlaybackResumePosition \<Rightarrow> DemuxedPacket list \<Rightarrow> PlaybackPosition \<times> DemuxedPacket list
    \<Rightarrow> PlaybackPosition \<times> DemuxedPacket list" where
  "buffer_opening_packets resume [] (pos, pending) = (pos, pending)"
| "buffer_opening_packets resume (packet # packets) (pos, pending) =
     buffer_opening_packets resume packets
       (record_buffered pos packet,
        if packet_overlaps_resume resume packet then pending @ [packet] else pending)"

definition demux_opening_chunk ::
  "webm_lib \<Rightarrow> PlaybackResumePosition \<Rightarrow> bytes \<Rightarrow> WebmOpusDemux \<times> PlaybackPosition \<times> DemuxedPacket list
    \<Rightarrow> PlaybackError + WebmOpusDemux \<times> PlaybackPosition \<times> DemuxedPacket list" where
  "demux_opening_chunk lib resume chunk st =
    (let (demux, pos, pending) = st in
     case drain_packets lib (push_bytes demux chunk) of
       (Inl err, _) \<Rightarrow> Inl err
     | (Inr packets, demux1) \<Rightarrow>
        (let (pos1, pending1) = buffer_opening_packets resume packets (pos, pending)
         in Inr (demux1, pos1, pending1)))"

fun opening_loop ::
  "nat \<Rightarrow> 'w playback_io \<Rightarrow> PlaybackResumePosition \<Rightarrow> string \<Rightarrow> HttpOpusStream
    \<Rightarrow> WebmOpusDemux \<times> PlaybackPosition \<times> DemuxedPacket list \<Rightarrow> 'w
    \<Rightarrow> ((PlaybackError + HttpOpusStream \<times> WebmOpusDemux \<times> PlaybackPosition \<times> DemuxedPacket list) \<times> 'w) option" where
  "opening_loop fuel io resume url s (demux, pos, pending) w =
    (if pending = [] \<or> pos_timestamp_samples pos < resume then
       (case fuel of
          0 \<Rightarrow> None
        | Suc fuel' \<Rightarrow>
           (case read_chunk_with_timeout io s url w of
              (Inl err, s1, w1) \<Rightarrow> Some (Inl err, w1)
            | (Inr None, s1, w1) \<Rightarrow> Some (Inr (s1, demux, pos, pending), w1)
            | (Inr (Some chunk), s1, w1) \<Rightarrow>
               (case demux_opening_chunk (io_webm io) resume chunk (demux, pos, pending) of
                  Inl err \<Rightarrow> Some (Inl err, w1)
                | Inr st \<Rightarrow> opening_loop fuel' io resume url s1 st w1)))
     else Some (Inr (s, demux, pos, pending), w))"

declare opening_loop.simps [simp del]

definition finish_open ::
  "ResolvedPlaybackSource \<Rightarrow> PlaybackResumePosition \<Rightarrow> pos_heap
    \<Rightarrow> HttpOpusStream \<times> WebmOpusDemux \<times> PlaybackPosition \<times> DemuxedPacket list
    \<Rightarrow> (PlaybackError + PlaybackSource) \<times> pos_heap" where
  "finish_open resolved resume heap st =
    (let (s, demux, pos, pending) = st in
     if pos_timestamp_samples pos < resume then
       (Inl (MediaParseDetail (''playback source ended before requested resume position ''
          @ show_nat (unat (resume_millis resume)) @ ''ms/'' @ show_nat (unat resume)
          @ '' samples; reached '' @ show_nat (unat (pos_timestamp_ms pos)) @ ''ms/''
          @ show_nat (unat (pos_timestamp_samples pos)) @ '' samples'')), heap)
     else
       (let pos1 = (if \<not> resume_is_start resume then set_sent_duration_samples pos resume else pos);
            (h, heap1) = shared_playback_position heap pos1
        in (Inr \<lparr>src_resolved = resolved, src_stream = s, src_demux = demux,
                 src_pending_packets = pending, src_position = h\<rparr>, heap1)))"

definition open_from_position ::
  "nat \<Rightarrow> 'w playback_io \<Rightarrow> PlaybackRecovery \<Rightarrow> pos_heap \<Rightarrow> ResolvedPlaybackSource
    \<Rightarrow> PlaybackResumePosition \<Rightarrow> 'w
    \<Rightarrow> ((PlaybackError + PlaybackSource) \<times> PlaybackRecovery \<times> pos_heap \<times> 'w) option" where
  "open_from_position fuel io rec heap resolved resume w =
    (let url = playable_url resolved in
     case read_opening_chunk io (new_stream io url) url w of
       (Inl err, s1, w1) \<Rightarrow> Some (Inl err, rec, heap, w1)
     | (Inr (chunk, retries), s1, w1) \<Rightarrow>
        (let rec1 = count_http_retry retries rec in
         case chunk of
           None \<Rightarrow> Some (Inl (MediaParse ''unexpected end of stream''), rec1, heap, w1)
         | Some chunk \<Rightarrow>
            (case demux_opening_chunk (io_webm io) resume chunk
                    (WebmOpusDemux_default, PlaybackPosition_default, []) of
               Inl err \<Rightarrow> Some (Inl err, rec1, heap, w1)
             | Inr st \<Rightarrow>
                (case opening_loop fuel io resume url s1 st w1 of
                   None \<Rightarrow> None
                 | Some (Inl err, w2) \<Rightarrow> Some (Inl err, rec1, heap, w2)
                 | Some (Inr st2, w2) \<Rightarrow>
                    (let (r, heap1) = finish_open resolved resume heap st2
                     in Some (r, rec1, heap1, w2))))))"

definition try_reopen_existing ::
  "nat \<Rightarrow> 'w playback_io \<Rightarrow> PlaybackRecovery \<Rightarrow> pos_heap \<Rightarrow> PlaybackResumePosition \<Rightarrow> 'w
    \<Rightarrow> ((PlaybackError + PlaybackSource) \<times> PlaybackRecovery \<times> pos_heap \<times> 'w) option" where
  "try_reopen_existing fuel io rec heap resume w =
    (case last_resolved rec of
       None \<Rightarrow> Some (Inl (InvalidState ''no playback source available to reopen''), rec, heap, w)
     | Some resolved \<Rightarrow> open_from_position fuel io rec heap resolved resume w)"

definition resolve_and_open ::
  "nat \<Rightarrow> 'w playback_io \<Rightarrow> PlaybackRecovery \<Rightarrow> pos_heap \<Rightarrow> string \<Rightarrow> PlaybackResumePosition \<Rightarrow> 'w
    \<Rightarrow> ((PlaybackError + PlaybackSource) \<times> PlaybackRecovery \<times> pos_heap \<times> 'w) option" where
  "resolve_and_open fuel io rec heap video_id resume w =
    (case resolve_source io w video_id of
       (Inl err, w1) \<Rightarrow> Some (Inl err, rec, heap, w1)
     | (Inr resolved, w1) \<Rightarrow>
        (case open_from_position fuel io rec heap resolved resume w1 of
           None \<Rightarrow> None
         | Some (Inr source, rec1, heap1, w2) \<Rightarrow>
             Some (Inr source, remember_source rec1 video_id source, heap1, w2)
         | Some (Inl err, rec1, heap1, w2) \<Rightarrow>
            (if should_reresolve_after_open_failure err then
               (let rec2 = count_reresolve rec1 in
                case resolve_source io w2 video_id of
                  (Inl err, w3) \<Rightarrow> Some (Inl err, rec2, heap1, w3)
                | (Inr resolved, w3) \<Rightarrow>
                   (case open_from_position fuel io rec2 heap1 resolved resume w3 of
                      None \<Rightarrow> None
                    | Some (Inl err, rec3, heap2, w4) \<Rightarrow> Some (Inl err, rec3, heap2, w4)
                    | Some (Inr source, rec3, heap2, w4) \<Rightarrow>
                        Some (Inr source, remember_source rec3 video_id source, heap2, w4)))
             else Some (Inl err, rec1, heap1, w2))))"

definition recover ::
  "nat \<Rightarrow> 'w playback_io \<Rightarrow> PlaybackRecovery \<Rightarrow> pos_heap \<Rightarrow> string \<Rightarrow> PlaybackResumePosition \<Rightarrow> 'w
    \<Rightarrow> ((PlaybackError + PlaybackSource) \<times> PlaybackRecovery \<times> pos_heap \<times> 'w) option" where
  "recover fuel io rec heap video_id resume w =
    (if last_video_id rec = Some video_id then
       (case try_reopen_existing fuel io rec heap resume w of
          None \<Rightarrow> None
        | Some (Inr source, rec1, heap1, w1) \<Rightarrow> Some (Inr source, rec1, heap1, w1)
        | Some (Inl _, rec1, heap1, w1) \<Rightarrow> resolve_and_open fuel io rec1 heap1 video_id resume w1)
     else resolve_and_open fuel io rec heap video_id resume w)"

section \<open>Lemmas: reads that may time out\<close>

lemma opened_stream_good:
  assumes "open_response send s w = (Inr (Some response), s1, w1)"
    and "response_extent response (byte_offset s) = Inr extent"
    and "good_server sized send R" and "stream_pending s = []"
  shows "good_stream sized R (s1\<lparr>response_start := byte_offset s1,
           response_end := extent_response_end extent, resource_end := extent_resource_end extent,
           stream_response := Some response\<rparr>)"
  using truthful_opened [OF assms(1) _ assms(2), of R]
    sized_opened(2) [OF assms(1) _ refl assms(2), of R] assms(3,4) open_response_frame [OF assms(1)]
  by (auto simp: good_stream_def good_server_def in_step_def ahead_def knows_end_def)

lemma read_interrupted_good:
  assumes "read_interrupted send s w opened = (s', w')" and "good_server sized send R"
    and "good_stream sized R s"
  shows "good_stream sized R s' \<and> byte_offset s' = byte_offset s"
proof (cases "stream_pending s = [] \<and> stream_response s = None")
  case False
  with assms show ?thesis by (auto simp: read_interrupted_def split: option.splits)
next
  case True
  obtain ro s1 w1 where op: "open_response send s w = (ro, s1, w1)" by (metis prod_cases3)
  note frame = open_response_frame [OF op]
  have "good_stream sized R s1"
    using assms(3) True by (simp add: good_stream_def in_step_def ahead_def knows_end_def frame)
  with True op assms opened_stream_good [of send s w _ s1 w1 _ sized R] frame show ?thesis
    by (auto simp: read_interrupted_def split: sum.splits option.splits if_splits)
qed

text \<open>What a read that may time out promises: \<open>None\<close> is the timeout.\<close>

definition good_timed_result ::
  "bool \<Rightarrow> bytes \<Rightarrow> HttpOpusStream \<Rightarrow> (PlaybackError + bytes option) option \<Rightarrow> HttpOpusStream \<Rightarrow> bool" where
  "good_timed_result sized R s ro s' \<longleftrightarrow>
    (case ro of None \<Rightarrow> byte_offset s' = byte_offset s | Some r \<Rightarrow> good_result sized R s r s')"

lemma good_result_same_offset:
  "good_result sized R s1 r s' \<Longrightarrow> byte_offset s1 = byte_offset s \<Longrightarrow> good_result sized R s r s'"
  by (auto simp: good_result_def delivers_def split: sum.splits option.splits)

lemma good_result_Inl [simp]: "good_result sized R s (Inl err) s' \<longleftrightarrow> byte_offset s' = byte_offset s"
  by (simp add: good_result_def)

lemma good_timed_result_simps [simp]:
  "good_timed_result sized R s None s' \<longleftrightarrow> byte_offset s' = byte_offset s"
  "good_timed_result sized R s (Some r) s' \<longleftrightarrow> good_result sized R s r s'"
  by (simp_all add: good_timed_result_def)

lemma read_chunk_until_good:
  assumes "read_chunk_until k opened send s w = (ro, s', w')" and "good_server sized send R"
    and "good_stream sized R s"
  shows "good_stream sized R s' \<and> good_timed_result sized R s ro s'"
  using assms
proof (induction k arbitrary: s w)
  case 0
  then show ?case
    using read_interrupted_good [of send s w opened s' w' sized R] by (auto split: prod.splits)
next
  case (Suc k)
  obtain x s1 w1 where step: "read_chunk_step send s w = (x, s1, w1)" by (metis prod_cases3)
  note good = read_chunk_step_good [OF step Suc.prems(2,3)]
  show ?case
  proof (cases x)
    case (Some r)
    with step Suc.prems(1) good show ?thesis by auto
  next
    case None
    with step Suc.prems(1) have "read_chunk_until k opened send s1 w1 = (ro, s', w')" by simp
    from Suc.IH [OF this Suc.prems(2)] good None show ?thesis
      by (cases ro) (auto intro: good_result_same_offset)
  qed
qed

lemma timeout_read_chunk_good:
  assumes "timeout_read_chunk io limit s w = (ro, s', w')" and "good_server sized (io_send io) R"
    and "good_stream sized R s"
  shows "good_stream sized R s' \<and> good_timed_result sized R s ro s'"
proof (cases "io_timer io w limit")
  case (Pair t w1)
  show ?thesis
  proof (cases t)
    case None
    with Pair assms(1) obtain r where "read_chunk (io_send io) s w1 = (r, s', w')" "ro = Some r"
      by (auto simp: timeout_read_chunk_def split: prod.splits)
    with read_chunk_good [OF _ assms(2,3)] show ?thesis by auto
  next
    case (Some t')
    with Pair assms(1) have "read_chunk_until (fst t') (snd t') (io_send io) s w1 = (ro, s', w')"
      by (auto simp: timeout_read_chunk_def split: prod.splits)
    then show ?thesis by (rule read_chunk_until_good) (fact assms)+
  qed
qed

lemma read_chunk_with_timeout_good:
  assumes "read_chunk_with_timeout io s url w = (r, s', w')" and "good_server sized (io_send io) R"
    and "good_stream sized R s"
  shows "good_stream sized R s' \<and> good_result sized R s r s'"
  using timeout_read_chunk_good [of io STEADY_STATE_CHUNK_TIMEOUT s w _ s' w' sized R] assms
  by (auto simp: read_chunk_with_timeout_def split: prod.splits option.splits)

lemma read_source_chunk_good:
  assumes "read_source_chunk_with_timeout io source w = (r, source', w')"
    and "good_server sized (io_send io) R" and "good_stream sized R (src_stream source)"
  shows "good_stream sized R (src_stream source')
    \<and> good_result sized R (src_stream source) r (src_stream source')"
  using read_chunk_with_timeout_good [of io "src_stream source"] assms
  by (fastforce simp: read_source_chunk_with_timeout_def split: prod.splits)

lemma source_streams_resumed [simp]:
  "good_stream sized R (src_stream (reset_stream_to_current_byte_offset source))"
  "byte_offset (src_stream (reset_stream_to_current_byte_offset source)) = byte_offset (src_stream source)"
  "good_stream sized R (src_stream (replace_resolved_stream_at_current_byte_offset io source resolved))"
  "byte_offset (src_stream (replace_resolved_stream_at_current_byte_offset io source resolved))
     = byte_offset (src_stream source)"
  by (simp_all add: reset_stream_to_current_byte_offset_def
      replace_resolved_stream_at_current_byte_offset_def Let_def)

lemma reresolve_and_read_good:
  assumes "reresolve_and_read io rec video_id source err w = (r, rec', source', w')"
    and "good_server sized (io_send io) R" and "good_stream sized R (src_stream source)"
  shows "good_stream sized R (src_stream source')
    \<and> good_result sized R (src_stream source) r (src_stream source')"
proof (cases "reresolve_steady_source io rec video_id source err w")
  case (fields rr rec1 source1 w1)
  show ?thesis
  proof (cases rr)
    case (Inl e)
    with fields assms show ?thesis
      by (auto simp: reresolve_and_read_def reresolve_steady_source_def Let_def
          split: option.splits prod.splits sum.splits)
  next
    case (Inr u)
    with fields have "good_stream sized R (src_stream source1)"
      "byte_offset (src_stream source1) = byte_offset (src_stream source)"
      by (auto simp: reresolve_steady_source_def Let_def split: option.splits prod.splits sum.splits)
    with Inr fields assms(1,2) read_source_chunk_good [of io source1 w1 r source' w' sized R]
    show ?thesis
      by (auto simp: reresolve_and_read_def split: prod.splits intro: good_result_same_offset)
  qed
qed

lemma read_stream_chunk_good:
  assumes "read_stream_chunk io rec video_id source w = (r, rec', source', w')"
    and "good_server sized (io_send io) R" and "good_stream sized R (src_stream source)"
  shows "good_stream sized R (src_stream source')
    \<and> good_result sized R (src_stream source) r (src_stream source')"
proof (cases "read_source_chunk_with_timeout io source w")
  case (fields r1 source1 w1)
  note first = read_source_chunk_good [OF fields assms(2,3)]
  show ?thesis
  proof (cases r1)
    case (Inr chunk)
    with assms(1) fields first show ?thesis by (auto simp: read_stream_chunk_def)
  next
    case (Inl err)
    with first have off: "byte_offset (src_stream source1) = byte_offset (src_stream source)"
      by (simp add: good_result_def)
    let ?s2 = "reset_stream_to_current_byte_offset source1"
    obtain r2 source3 w2 where second: "read_source_chunk_with_timeout io ?s2 w1 = (r2, source3, w2)"
      by (metis prod_cases3)
    have again: "good_stream sized R (src_stream source3)
        \<and> good_result sized R (src_stream source) r2 (src_stream source3)"
      using read_source_chunk_good [OF second assms(2) source_streams_resumed(1)] off
      by (auto intro: good_result_same_offset)
    have rere: "good_stream sized R (src_stream source')
        \<and> good_result sized R (src_stream source) r (src_stream source')"
      if "reresolve_and_read io rec0 video_id source0 err0 w0 = (r, rec', source', w')"
        and "good_stream sized R (src_stream source0)"
        and "byte_offset (src_stream source0) = byte_offset (src_stream source)"
      for rec0 source0 err0 w0
      using reresolve_and_read_good [OF that(1) assms(2) that(2)] that(3)
      by (auto intro: good_result_same_offset)
    show ?thesis
      using assms(1) Inl fields second again first off rere
      by (cases r2) (auto simp: read_stream_chunk_def Let_def split: if_splits)
  qed
qed

section \<open>Lemmas: opening\<close>

lemma read_opening_attempts_good:
  assumes "read_opening_attempts attempt retries io s url w = (r, s', w')"
    and "good_server sized (io_send io) R" and "good_stream sized R s"
  shows "good_stream sized R s' \<and> unat (byte_offset s) \<le> unat (byte_offset s')"
  using assms
proof (induction attempt retries io s url w rule: read_opening_attempts.induct)
  case (1 attempt retries io s url w)
  obtain ro s1 w1 where t: "timeout_read_chunk io INITIAL_OPEN_CHUNK_TIMEOUT s w = (ro, s1, w1)"
    by (metis prod_cases3)
  note good = timeout_read_chunk_good [OF t "1.prems"(2,3)]
  show ?case
  proof (cases ro)
    case None
    with "1.IH" [OF t [symmetric] None refl] "1.prems"(1,2) good t show ?thesis
      by (auto simp: read_opening_attempts.simps [of attempt] split: if_splits)
  next
    case (Some rr)
    with "1.prems"(1) good t show ?thesis
      by (auto simp: read_opening_attempts.simps [of attempt] good_result_def delivers_def
          split: sum.splits option.splits)
  qed
qed

lemma opening_loop_returns:
  assumes "good_server sized (io_send io) R" and "good_stream sized R s"
    and "length R - unat (byte_offset s) < fuel"
  shows "opening_loop fuel io resume url s st w \<noteq> None"
  using assms(2,3)
proof (induction fuel arbitrary: s st w)
  case (Suc fuel)
  obtain demux pos pending where st: "st = (demux, pos, pending)" by (metis prod_cases3)
  obtain r s1 w1 where rd: "read_chunk_with_timeout io s url w = (r, s1, w1)" by (metis prod_cases3)
  note good = read_chunk_with_timeout_good [OF rd assms(1) Suc.prems(1)]
  have less: "length R - unat (byte_offset s1) < fuel" if "r = Inr (Some chunk)" for chunk
  proof -
    from good that have "unat (byte_offset s1) = unat (byte_offset s) + length chunk" "chunk \<noteq> []"
      "prefix chunk (drop (unat (byte_offset s)) R)"
      by (auto simp: good_result_def delivers_def)
    with prefix_length_le [of chunk "drop (unat (byte_offset s)) R"] Suc.prems(2) show ?thesis
      by (cases chunk) auto
  qed
  show ?case
    using Suc.IH [of s1] less good
    by (subst st, subst opening_loop.simps) (auto simp: rd split: sum.split option.split)
qed simp

lemma new_stream_good [simp]: "good_stream sized R (new_stream io url)"
  by (simp add: new_stream_def HttpOpusStream_new_def good_stream_def in_step_def ahead_def
      knows_end_def)

lemma open_from_position_returns:
  assumes "good_server sized (io_send io) R" and "length R < fuel"
  shows "open_from_position fuel io rec heap resolved resume w \<noteq> None"
proof -
  let ?url = "playable_url resolved"
  obtain r s1 w1 where op: "read_opening_chunk io (new_stream io ?url) ?url w = (r, s1, w1)"
    by (metis prod_cases3)
  then have "good_stream sized R s1"
    using read_opening_attempts_good [OF _ assms(1) new_stream_good]
    unfolding read_opening_chunk_def by blast
  then have "opening_loop fuel io resume ?url s1 st w1 \<noteq> None" for st
    using opening_loop_returns [OF assms(1)] assms(2) by simp
  then show ?thesis
    by (auto simp: open_from_position_def Let_def op simp del: not_None_eq
        split: sum.split option.split prod.split)
qed

lemma resolve_and_open_returns:
  assumes "good_server sized (io_send io) R" and "length R < fuel"
  shows "resolve_and_open fuel io rec heap video_id resume w \<noteq> None"
proof -
  have some: "\<exists>r rec' heap' w'. open_from_position fuel io rec0 heap0 res resume w0
      = Some (r, rec', heap', w')" for rec0 heap0 res w0
    using open_from_position_returns [OF assms] by (metis not_None_eq prod_cases4)
  show ?thesis
  proof (cases "resolve_source io w video_id")
    case (Pair rr w1)
    show ?thesis
    proof (cases rr)
      case (Inr resolved)
      obtain r rec1 heap1 w2 where first: "open_from_position fuel io rec heap resolved resume w1
          = Some (r, rec1, heap1, w2)" using some by blast
      obtain rr2 w3 where again: "resolve_source io w2 video_id = (rr2, w3)" by fastforce
      have "open_from_position fuel io (count_reresolve rec1) heap1 res resume w3 \<noteq> None" for res
        by (rule open_from_position_returns [OF assms])
      with Pair Inr first again show ?thesis
        by (auto simp: resolve_and_open_def Let_def simp del: not_None_eq split: sum.split option.split)
    qed (use Pair in \<open>simp add: resolve_and_open_def\<close>)
  qed
qed

lemma buffer_opening_packets_spec:
  "buffer_opening_packets resume packets (pos, pending) =
     (fold (\<lambda>p q. record_buffered q p) packets pos,
      pending @ filter (packet_overlaps_resume resume) packets)"
  by (induction packets arbitrary: pos pending) simp_all

text \<open>The state of the opening loop: the position has recorded exactly the packets seen so far, and
  the pending packets are those of them that reach beyond the resume position, in order.\<close>

definition opening_inv :: "PlaybackResumePosition \<Rightarrow> PlaybackPosition \<Rightarrow> DemuxedPacket list \<Rightarrow> bool" where
  "opening_inv resume pos pending \<longleftrightarrow>
    (\<exists>packets. pos = fold (\<lambda>p q. record_buffered q p) packets PlaybackPosition_default
       \<and> pending = filter (packet_overlaps_resume resume) packets)"

lemma demux_opening_chunk_inv:
  assumes "demux_opening_chunk lib resume chunk (demux, pos, pending) = Inr (demux', pos', pending')"
    and "opening_inv resume pos pending"
  shows "opening_inv resume pos' pending'"
proof -
  from assms(1) obtain packets where
    "buffer_opening_packets resume packets (pos, pending) = (pos', pending')"
    by (auto simp: demux_opening_chunk_def split: prod.splits sum.splits)
  moreover from assms(2) obtain seen where
    "pos = fold (\<lambda>p q. record_buffered q p) seen PlaybackPosition_default"
    "pending = filter (packet_overlaps_resume resume) seen"
    by (auto simp: opening_inv_def)
  ultimately show ?thesis
    unfolding opening_inv_def by (intro exI [of _ "seen @ packets"]) (auto simp: buffer_opening_packets_spec)
qed

lemma opening_loop_inv:
  assumes "opening_loop fuel io resume url s (demux, pos, pending) w
      = Some (Inr (s', demux', pos', pending'), w')"
    and "opening_inv resume pos pending"
  shows "opening_inv resume pos' pending'"
  using assms
proof (induction fuel arbitrary: s demux pos pending w)
  case 0
  then show ?case by (auto simp: opening_loop.simps [of 0] split: if_splits)
next
  case (Suc fuel)
  from Suc.prems(1) consider
      (stop) "pos' = pos" "pending' = pending"
    | (more) s1 w1 chunk d1 p1 q1 where
        "demux_opening_chunk (io_webm io) resume chunk (demux, pos, pending) = Inr (d1, p1, q1)"
        "opening_loop fuel io resume url s1 (d1, p1, q1) w1 = Some (Inr (s', demux', pos', pending'), w')"
    by (subst (asm) opening_loop.simps) (auto split: if_splits sum.splits option.splits prod.splits)
  then show ?case
  proof cases
    case stop
    with Suc.prems(2) show ?thesis by simp
  next
    case more
    from Suc.IH [OF more(2) demux_opening_chunk_inv [OF more(1) Suc.prems(2)]] show ?thesis .
  qed
qed

lemma opening_inv_Nil [simp]: "opening_inv resume PlaybackPosition_default []"
  unfolding opening_inv_def by (rule exI [of _ "[]"]) simp

text \<open>What an opened source looks like.\<close>

definition opened_at :: "PlaybackResumePosition \<Rightarrow> pos_heap \<Rightarrow> PlaybackSource \<Rightarrow> pos_heap \<Rightarrow> bool" where
  "opened_at resume heap source heap' \<longleftrightarrow>
    (\<exists>packets pos. heap' = heap @ [pos] \<and> src_position source = length heap
       \<and> src_pending_packets source = filter (packet_overlaps_resume resume) packets
       \<and> pos = set_sent_duration_samples
                (fold (\<lambda>p q. record_buffered q p) packets PlaybackPosition_default) resume
       \<and> resume \<le> pos_timestamp_samples pos)"

lemma fold_record_buffered_sent [simp]:
  "pos_sent_duration_samples (fold (\<lambda>p q. record_buffered q p) packets pos)
     = pos_sent_duration_samples pos"
  by (induction packets arbitrary: pos) (simp_all add: record_buffered_frame)

lemma finish_open_opened_at:
  assumes "finish_open resolved resume heap (s, demux, pos, pending) = (Inr source, heap')"
    and "opening_inv resume pos pending"
  shows "opened_at resume heap source heap' \<and> src_resolved source = resolved"
proof -
  from assms(2) obtain packets where
    pos: "pos = fold (\<lambda>p q. record_buffered q p) packets PlaybackPosition_default"
    and pend: "pending = filter (packet_overlaps_resume resume) packets"
    by (auto simp: opening_inv_def)
  have "pos_sent_duration_samples pos = 0"
    unfolding pos by (simp add: PlaybackPosition_default_def)
  then have "(if resume = 0 then pos else set_sent_duration_samples pos resume)
      = set_sent_duration_samples pos resume"
    by (simp add: set_sent_duration_samples_def)
  with assms(1) have "heap' = heap @ [set_sent_duration_samples pos resume]"
    "source = \<lparr>src_resolved = resolved, src_stream = s, src_demux = demux,
       src_pending_packets = pending, src_position = length heap\<rparr>"
    "resume \<le> pos_timestamp_samples pos"
    by (auto simp: finish_open_def Let_def shared_playback_position_def resume_is_start_def
        split: if_splits)
  then show ?thesis
    unfolding opened_at_def
    by (intro conjI exI [of _ packets] exI [of _ "set_sent_duration_samples pos resume"])
      (auto simp: pend pos set_sent_duration_samples_def)
qed

lemma open_from_position_opened_at:
  assumes "open_from_position fuel io rec heap resolved resume w = Some (r, rec', heap', w')"
  shows "case r of Inr source \<Rightarrow> opened_at resume heap source heap' \<and> src_resolved source = resolved
    | Inl _ \<Rightarrow> heap' = heap"
    and "last_video_id rec' = last_video_id rec" and "last_resolved rec' = last_resolved rec"
proof -
  let ?url = "playable_url resolved"
  obtain ro s1 w1 where op: "read_opening_chunk io (new_stream io ?url) ?url w = (ro, s1, w1)"
    by (metis prod_cases3)
  show "last_video_id rec' = last_video_id rec" "last_resolved rec' = last_resolved rec"
    using assms by (auto simp: open_from_position_def Let_def op count_http_retry_def
        split: sum.splits option.splits prod.splits)
  from assms consider (err) e where "r = Inl e" "heap' = heap"
    | (fin) chunk d p q s2 d2 p2 q2 w2 where
      "demux_opening_chunk (io_webm io) resume chunk
         (WebmOpusDemux_default, PlaybackPosition_default, []) = Inr (d, p, q)"
      "opening_loop fuel io resume ?url s1 (d, p, q) w1 = Some (Inr (s2, d2, p2, q2), w2)"
      "finish_open resolved resume heap (s2, d2, p2, q2) = (r, heap')"
    by (auto simp: open_from_position_def Let_def op split: sum.splits option.splits prod.splits)
  then show "case r of Inr source \<Rightarrow> opened_at resume heap source heap' \<and> src_resolved source = resolved
    | Inl _ \<Rightarrow> heap' = heap"
  proof cases
    case fin
    have inv: "opening_inv resume p2 q2"
      by (rule opening_loop_inv [OF fin(2)]) (rule demux_opening_chunk_inv [OF fin(1)], simp)
    show ?thesis
    proof (cases r)
      case (Inl e)
      with fin(3) show ?thesis by (auto simp: finish_open_def Let_def split: if_splits prod.splits)
    next
      case (Inr source)
      with finish_open_opened_at [OF fin(3) [unfolded Inr] inv] show ?thesis by simp
    qed
  qed simp
qed

lemma resolve_and_open_opened_at:
  assumes "resolve_and_open fuel io rec heap video_id resume w = Some (Inr source, rec', heap', w')"
  shows "opened_at resume heap source heap' \<and> last_video_id rec' = Some video_id
    \<and> last_resolved rec' = Some (src_resolved source)"
  using assms
  by (auto simp: resolve_and_open_def Let_def remember_source_def
      split: prod.splits sum.splits option.splits if_splits
      dest!: open_from_position_opened_at(1))

section \<open>Properties\<close>

text \<open>A sequence of steady-state reads.\<close>

fun read_stream_chunks ::
  "nat \<Rightarrow> 'w playback_io \<Rightarrow> PlaybackRecovery \<Rightarrow> string option \<Rightarrow> PlaybackSource \<Rightarrow> 'w
    \<Rightarrow> (PlaybackError + bytes option) list \<times> PlaybackRecovery \<times> PlaybackSource \<times> 'w" where
  "read_stream_chunks 0 io rec vid source w = ([], rec, source, w)"
| "read_stream_chunks (Suc n) io rec vid source w =
    (let (r, rec1, source1, w1) = read_stream_chunk io rec vid source w;
         (rs, rec2, source2, w2) = read_stream_chunks n io rec1 vid source1 w1
     in (r # rs, rec2, source2, w2))"

lemma read_stream_chunks_good:
  assumes "read_stream_chunks n io rec vid source w = (rs, rec', source', w')"
    and "good_server False (io_send io) R" and "good_stream False R (src_stream source)"
  shows "prefix (concat (delivered rs)) (drop (unat (byte_offset (src_stream source))) R)
    \<and> unat (byte_offset (src_stream source'))
        = unat (byte_offset (src_stream source)) + length (concat (delivered rs))"
  using assms
proof (induction n arbitrary: rec source w rs)
  case (Suc n)
  obtain r rec1 source1 w1 where one: "read_stream_chunk io rec vid source w = (r, rec1, source1, w1)"
    by (metis prod_cases4)
  obtain rs1 where rest: "read_stream_chunks n io rec1 vid source1 w1 = (rs1, rec', source', w')"
    and rs: "rs = r # rs1"
    using Suc.prems(1) one by (auto split: prod.splits)
  note good = read_stream_chunk_good [OF one Suc.prems(2,3)]
  note IH = Suc.IH [OF rest Suc.prems(2)]
  show ?case
  proof (cases "\<exists>chunk. r = Inr (Some chunk)")
    case True
    then obtain chunk where r: "r = Inr (Some chunk)" by blast
    with good obtain tl where tl: "drop (unat (byte_offset (src_stream source))) R = chunk @ tl"
      and off: "unat (byte_offset (src_stream source1))
          = unat (byte_offset (src_stream source)) + length chunk"
      by (auto simp: good_result_def delivers_def prefix_def)
    have "drop (unat (byte_offset (src_stream source1))) R = tl"
      using arg_cong [OF tl, of "drop (length chunk)"] by (simp add: off add.commute)
    with IH good tl off r rs show ?thesis by (auto simp: delivered_Cons)
  next
    case False
    with good have "byte_offset (src_stream source1) = byte_offset (src_stream source)"
      by (auto simp: good_result_def split: sum.splits option.splits)
    moreover from False have "delivered rs = delivered rs1"
      by (auto simp: rs delivered_Cons split: sum.splits option.splits)
    ultimately show ?thesis using IH good by simp
  qed
qed simp

text \<open>C6: Recovery never tears the byte stream. Through any sequence of steady-state reads, in which
  reads may time out at any point, be retried on a fresh connection, or be continued on a newly resolved
  URL, the chunks handed to the demuxer are consecutive bytes of the track, as long as every URL the
  music service resolves serves the same bytes; the byte offset is exactly what was handed over, so an
  interrupted read that already advanced cannot lose or repeat data.\<close>

theorem recovery_preserves_byte_stream:
  assumes "serves (io_send io) R" and "length R < 2 ^ 64"
    and "src_stream source = set_resume_offset stream offset"
    and "read_stream_chunks n io rec vid source w = (rs, rec', source', w')"
  shows "prefix (concat (delivered rs)) (drop (unat offset) R)
    \<and> unat (byte_offset (src_stream source')) = unat offset + length (concat (delivered rs))"
  using read_stream_chunks_good [OF assms(4), of R] assms(1-3)
  by (simp add: good_server_def)

text \<open>Opening at a resume position. A source that recovery returns, whether reopened from the
  remembered URL or resolved anew (once or twice), has as its pending packets exactly those packets
  demuxed so far that reach beyond the resume position, in order, none dropped; the media buffered
  reaches the resume position; its position object is a fresh one, which counts as sent exactly the
  samples of the resume position, not rounded to milliseconds; and the source's URL is remembered for
  this video.\<close>

theorem recover_opens_at_resume_position:
  assumes "recover fuel io rec heap video_id resume w = Some (Inr source, rec', heap', w')"
  shows "opened_at resume heap source heap' \<and> last_video_id rec' = Some video_id
    \<and> last_resolved rec' = Some (src_resolved source)"
proof (cases "last_video_id rec = Some video_id")
  case False
  with assms show ?thesis by (simp add: recover_def resolve_and_open_opened_at)
next
  case True
  show ?thesis
  proof (cases "last_resolved rec")
    case None
    with assms True show ?thesis
      by (auto simp: recover_def try_reopen_existing_def resolve_and_open_opened_at)
  next
    case (Some resolved)
    obtain r rec1 heap1 w1 where
      op: "open_from_position fuel io rec heap resolved resume w = Some (r, rec1, heap1, w1)"
      using assms True Some by (auto simp: recover_def try_reopen_existing_def split: option.splits)
    note facts = open_from_position_opened_at [OF op]
    show ?thesis
    proof (cases r)
      case (Inr source1)
      with assms True Some op facts show ?thesis by (simp add: recover_def try_reopen_existing_def)
    next
      case (Inl e)
      with assms True Some op facts have
        "resolve_and_open fuel io rec1 heap video_id resume w1 = Some (Inr source, rec', heap', w')"
        by (simp add: recover_def try_reopen_existing_def)
      then show ?thesis by (rule resolve_and_open_opened_at)
    qed
  qed
qed

text \<open>C34: Recovery ends. For a resource of finite length, with reads that may still fail or time out
  anywhere, one more iteration than the resource has bytes is enough for the whole recovery, which tries
  up to three URLs, to return a source or an error.\<close>

theorem recover_terminates:
  assumes "serves (io_send io) R" and "length R < 2 ^ 64" and "length R < fuel"
  shows "recover fuel io rec heap video_id resume w \<noteq> None"
proof -
  have good: "good_server False (io_send io) R" using assms(1,2) by (simp add: good_server_def)
  have "\<exists>r rec' heap' w'. open_from_position fuel io rec heap res resume w = Some (r, rec', heap', w')"
    for res
    using open_from_position_returns [OF good assms(3)] by (metis not_None_eq prod_cases4)
  then have "\<exists>r rec' heap' w'. try_reopen_existing fuel io rec heap resume w = Some (r, rec', heap', w')"
    by (auto simp: try_reopen_existing_def split: option.split)
  then obtain r rec' heap' w' where
    "try_reopen_existing fuel io rec heap resume w = Some (r, rec', heap', w')" by blast
  moreover have "resolve_and_open fuel io rec0 heap0 video_id resume w0 \<noteq> None" for rec0 heap0 w0
    by (rule resolve_and_open_returns [OF good assms(3)])
  ultimately show ?thesis
    by (simp add: recover_def del: not_None_eq split: sum.split)
qed

section \<open>A concrete run\<close>

text \<open>The server of three bytes, a clock whose first timeout fires, and a demuxer that finds one 20 ms
  packet at the start of every non-empty input.\<close>

definition demo_webm :: webm_lib where
  "demo_webm = \<lparr>webm_iterator = (\<lambda>input. [Inr (SimpleBlock input)]),
     simple_block_try_from =
       (\<lambda>_. Inr \<lparr>block_track = 1, block_timestamp = 0, block_frame_data = Inr [[0xF8, 0xFF, 0xFE]]\<rparr>),
     block_try_from = (\<lambda>_. Inl ''unused'')\<rparr>"

definition demo_io :: "nat playback_io" where
  "demo_io = \<lparr>io_send = demo_send,
     io_timer = (\<lambda>w _. (if w = 0 then Some (0, False) else None, w + 1)),
     io_get_song = (\<lambda>w _. (Inl (GrpcStatus), w)), io_decipher = (\<lambda>w _. (Inl (GrpcStatus), w)),
     io_env = (\<lambda>_. None), io_webm = demo_webm\<rparr>"

abbreviation demo_resolved :: ResolvedPlaybackSource where
  "demo_resolved \<equiv> \<lparr>selected_itag = 250, playable_url = ''http://a'', approx_duration_ms = None\<rparr>"

abbreviation demo_recovery :: PlaybackRecovery where
  "demo_recovery \<equiv> PlaybackRecovery_new\<lparr>last_video_id := Some ''v'', last_resolved := Some demo_resolved\<rparr>"

abbreviation demo_source :: PlaybackSource where
  "demo_source \<equiv> \<lparr>src_resolved = demo_resolved, src_stream = set_resume_offset demo_stream 0,
     src_demux = WebmOpusDemux_default, src_pending_packets = [], src_position = 0\<rparr>"

lemmas recovery_eval = stream_eval demo_io_def timeout_read_chunk_def read_chunk_with_timeout_def
  read_source_chunk_with_timeout_def read_stream_chunk_def read_interrupted_def
  reset_stream_to_current_byte_offset_def

lemma demo_timed_run:
  "fst (read_stream_chunks (Suc (Suc (Suc 0))) demo_io demo_recovery (Some ''v'') demo_source 0)
     = [Inr (Some [1]), Inr (Some [2]), Inr (Some [3])]"
  by (simp add: recovery_eval)

theorem recovery_preserves_byte_stream_witness:
  "prefix [1, 2, 3] demo_resource
   \<and> concat (delivered (fst (read_stream_chunks (Suc (Suc (Suc 0))) demo_io demo_recovery
       (Some ''v'') demo_source 0))) = [1, 2, 3]"
proof -
  obtain rs rec' source' w' where run: "read_stream_chunks (Suc (Suc (Suc 0))) demo_io demo_recovery
      (Some ''v'') demo_source 0 = (rs, rec', source', w')"
    by (metis prod_cases4)
  then have rs: "rs = [Inr (Some [1]), Inr (Some [2]), Inr (Some [3])]"
    using demo_timed_run by simp
  have "serves (io_send demo_io) demo_resource" by (simp add: demo_io_def demo_server)
  from recovery_preserves_byte_stream [OF this _ _ run, of demo_stream 0] run rs show ?thesis
    by (simp add: demo_resource_def)
qed

theorem recover_terminates_witness:
  "recover 4 demo_io demo_recovery [] ''v'' 120 0 \<noteq> None"
  by (rule recover_terminates [of _ demo_resource])
    (simp_all add: demo_io_def demo_server [unfolded demo_resource_def] demo_resource_def)

lemma demo_demux:
  "\<exists>packet demux pos. demux_opening_chunk demo_webm 120 [1] (WebmOpusDemux_default, PlaybackPosition_default, [])
       = Inr (demux, pos, [packet]) \<and> pkt_timestamp_samples packet = 0 \<and> pos_timestamp_samples pos = 960"
  by (simp add: demux_opening_chunk_def drain_packets_def push_bytes_def parse_available_def
      extract_simple_block_def is_target_track_def demo_webm_def WebmOpusDemux_default_def
      frames_to_packets_def opus_frame_durations_def opus_packet_duration_table
      rfc6716_frame_samples.simps block_timestamp_samples_def WebmDemuxState_default_def
      scale_timestamp_to_samples_def u128_checked_def OPUS_SAMPLE_RATE_HZ_def
      packet_overlaps_resume_def packet_end_samples_def record_buffered_def u64_from_u32_def
      saturating_add_def PlaybackPosition_default_def Let_def)

lemma demo_open:
  "\<exists>source rec' heap' w'. recover 4 demo_io demo_recovery [] ''v'' 120 0
     = Some (Inr source, rec', heap', w') \<and> map pkt_timestamp_samples (src_pending_packets source) = [0]"
proof -
  obtain s1 w1 where op: "read_opening_chunk demo_io (new_stream demo_io ''http://a'') ''http://a'' 0
      = (Inr (Some [1], 1), s1, w1)"
    by (simp add: read_opening_chunk_def read_opening_attempts.simps OPEN_CHUNK_ATTEMPTS_def
        new_stream_def recovery_eval)
  from demo_demux obtain packet demux pos where
    demux: "demux_opening_chunk (io_webm demo_io) 120 [1]
      (WebmOpusDemux_default, PlaybackPosition_default, []) = Inr (demux, pos, [packet])"
    and pkt: "pkt_timestamp_samples packet = 0" "pos_timestamp_samples pos = 960"
    by (auto simp: demo_io_def)
  then have "opening_loop 4 demo_io 120 ''http://a'' s1 (demux, pos, [packet]) w1
      = Some (Inr (s1, demux, pos, [packet]), w1)"
    by (simp add: opening_loop.simps)
  with op demux pkt show ?thesis
    by (simp add: recover_def try_reopen_existing_def open_from_position_def finish_open_def
        shared_playback_position_def PlaybackRecovery_new_def Let_def)
qed

theorem recover_opens_at_resume_position_witness:
  "\<exists>source rec' heap' w'. recover 4 demo_io demo_recovery [] ''v'' 120 0
     = Some (Inr source, rec', heap', w') \<and> opened_at 120 [] source heap'"
proof -
  obtain source rec' heap' w' where
    "recover 4 demo_io demo_recovery [] ''v'' 120 0 = Some (Inr source, rec', heap', w')"
    using demo_open by blast
  with recover_opens_at_resume_position [OF this] show ?thesis by blast
qed

end
