(* ===== verification/Normalizer.thy ===== *)
theory Normalizer
  imports Position
begin

text \<open>
  The Opus frame normalizer of the playback crate (\<open>media/opus_normalizer.rs\<close>): packets that already
  are 20 ms stereo pass through unchanged, everything else is decoded to PCM and re-encoded in 960
  sample frames. The decoder and the encoder of the \<open>opus_rs\<close> package are parameters with their own
  state types; a PCM sample is a value of a type parameter with a silent value. The scratch buffer the
  encoder writes to is not part of the state: the encoder returns the bytes it wrote.
\<close>

section \<open>Data\<close>

record ('d, 'e, 's) opus_lib =
  decoder_new :: "usize \<Rightarrow> string + 'd"
  decoder_decode :: "'d \<Rightarrow> bytes \<Rightarrow> usize \<Rightarrow> usize \<Rightarrow> (string + usize \<times> 's list) \<times> 'd"
  encoder_new :: "string + 'e"
  encoder_encode :: "'e \<Rightarrow> 's list \<Rightarrow> usize \<Rightarrow> (string + bytes) \<times> 'e"
  silent_sample :: 's

text \<open>The decoder writes into a buffer of \<open>frame_samples * channels\<close> values that it cannot resize.\<close>

definition decoder_fills_buffer :: "('d, 'e, 's) opus_lib \<Rightarrow> bool" where
  "decoder_fills_buffer lib \<longleftrightarrow>
     (\<forall>d packet n channels k pcm d'.
        decoder_decode lib d packet n channels = (Inr (k, pcm), d') \<longrightarrow> length pcm = n * channels)"

definition DISCORD_FRAME_SAMPLES :: usize where
  "DISCORD_FRAME_SAMPLES = 960"

definition DISCORD_FRAME_SAMPLES_U32 :: u32 where
  "DISCORD_FRAME_SAMPLES_U32 = 960"

definition DISCORD_FRAME_MS :: u64 where
  "DISCORD_FRAME_MS = 20"

definition DISCORD_CHANNELS :: usize where
  "DISCORD_CHANNELS = 2"

record ('d, 'e, 's) DiscordOpusFrameNormalizer =
  mono_decoder :: "'d option"
  stereo_decoder :: "'d option"
  norm_encoder :: "'e option"
  pending_pcm :: "'s list"
  next_output_position_samples :: "u64 option"

section \<open>Operations\<close>

definition DiscordOpusFrameNormalizer_new :: "('d, 'e, 's) DiscordOpusFrameNormalizer" where
  "DiscordOpusFrameNormalizer_new =
     \<lparr>mono_decoder = None, stereo_decoder = None, norm_encoder = None, pending_pcm = [],
      next_output_position_samples = None\<rparr>"

definition opus_packet_channels :: "bytes \<Rightarrow> usize option" where
  "opus_packet_channels packet =
     (case packet of [] \<Rightarrow> None | toc # _ \<Rightarrow> Some (if toc AND 0x04 \<noteq> 0 then 2 else 1))"

definition is_discord_passthrough_packet :: "DemuxedPacket \<Rightarrow> bool" where
  "is_discord_passthrough_packet packet \<longleftrightarrow>
     pkt_duration_samples packet = DISCORD_FRAME_SAMPLES_U32
     \<and> opus_packet_channels (pkt_data packet) = Some DISCORD_CHANNELS"

definition discord_frame :: "bytes \<Rightarrow> u64 \<Rightarrow> OpusFrame" where
  "discord_frame data position_samples =
     OpusFrame_with_exact_metadata
       (OpusFrame_with_duration_samples data DISCORD_FRAME_MS DISCORD_FRAME_SAMPLES_U32)
       (duration_ms_from_samples position_samples) position_samples None 0"

definition decoder_for_channels ::
  "('d, 'e, 's) opus_lib \<Rightarrow> ('d, 'e, 's) DiscordOpusFrameNormalizer \<Rightarrow> usize \<Rightarrow> PlaybackError + 'd" where
  "decoder_for_channels lib n channels =
    (if channels = 1 \<or> channels = 2 then
       (case (if channels = 1 then mono_decoder n else stereo_decoder n) of
          Some d \<Rightarrow> Inr d
        | None \<Rightarrow> map_err (\<lambda>error. MediaParseDetail (''create opus decoder: '' @ error))
                    (decoder_new lib channels))
     else Inl (MediaParse ''unsupported opus channel layout''))"

definition store_decoder ::
  "('d, 'e, 's) DiscordOpusFrameNormalizer \<Rightarrow> usize \<Rightarrow> 'd \<Rightarrow> ('d, 'e, 's) DiscordOpusFrameNormalizer" where
  "store_decoder n channels d =
     (if channels = 1 then n\<lparr>mono_decoder := Some d\<rparr> else n\<lparr>stereo_decoder := Some d\<rparr>)"

definition duplicate_samples :: "'s list \<Rightarrow> 's list" where
  "duplicate_samples pcm = concat (map (\<lambda>sample. [sample, sample]) pcm)"

text \<open>Both entry points set the output position from the first packet they see.\<close>

definition ensure_output_position ::
  "('d, 'e, 's) DiscordOpusFrameNormalizer \<Rightarrow> DemuxedPacket
    \<Rightarrow> ('d, 'e, 's) DiscordOpusFrameNormalizer" where
  "ensure_output_position n packet =
    (if next_output_position_samples n = None
     then n\<lparr>next_output_position_samples := Some (pkt_timestamp_samples packet)\<rparr> else n)"

definition decode_packet ::
  "('d, 'e, 's) opus_lib \<Rightarrow> ('d, 'e, 's) DiscordOpusFrameNormalizer \<Rightarrow> DemuxedPacket
    \<Rightarrow> (PlaybackError + unit) \<times> ('d, 'e, 's) DiscordOpusFrameNormalizer" where
  "decode_packet lib n packet =
    (case opus_packet_channels (pkt_data packet) of
       None \<Rightarrow> (Inl (MediaParse ''unsupported opus channel layout''), n)
     | Some channels \<Rightarrow>
        (let frame_samples = unat (pkt_duration_samples packet) in
         if frame_samples = 0 then (Inl (MediaParse ''opus packet duration is zero''), n)
         else
           (let n1 = ensure_output_position n packet
            in case decoder_for_channels lib n1 channels of
                 Inl err \<Rightarrow> (Inl err, n1)
               | Inr d \<Rightarrow>
                  (case decoder_decode lib d (pkt_data packet) frame_samples channels of
                     (Inl error, d') \<Rightarrow>
                        (Inl (MediaParseDetail (''decode opus packet: '' @ error)),
                         store_decoder n1 channels d')
                   | (Inr (decoded_samples, pcm), d') \<Rightarrow>
                        (let n2 = store_decoder n1 channels d' in
                         if decoded_samples \<noteq> frame_samples then
                           (Inl (MediaParseDetail (''decoded opus packet returned ''
                              @ show_nat decoded_samples @ '' samples; expected ''
                              @ show_nat frame_samples)), n2)
                         else if channels = 1 then
                           (Inr (), n2\<lparr>pending_pcm := pending_pcm n2 @ duplicate_samples pcm\<rparr>)
                         else if channels = 2 then
                           (Inr (), n2\<lparr>pending_pcm := pending_pcm n2 @ pcm\<rparr>)
                         else (Inl (MediaParse ''unsupported opus channel layout''), n2))))))"

definition ensure_encoder ::
  "('d, 'e, 's) opus_lib \<Rightarrow> ('d, 'e, 's) DiscordOpusFrameNormalizer
    \<Rightarrow> (PlaybackError + unit) \<times> ('d, 'e, 's) DiscordOpusFrameNormalizer" where
  "ensure_encoder lib n =
    (case norm_encoder n of
       Some _ \<Rightarrow> (Inr (), n)
     | None \<Rightarrow>
        (case encoder_new lib of
           Inl error \<Rightarrow> (Inl (MediaParseDetail (''create opus encoder: '' @ error)), n)
         | Inr e \<Rightarrow> (Inr (), n\<lparr>norm_encoder := Some e\<rparr>)))"

definition frame_values :: usize where
  "frame_values = min (DISCORD_FRAME_SAMPLES * DISCORD_CHANNELS) usize_MAX"

lemma frame_values_eq [simp]: "frame_values = 1920"
  by (simp add: frame_values_def DISCORD_FRAME_SAMPLES_def DISCORD_CHANNELS_def)

function emit_ready_loop ::
  "('d, 'e, 's) opus_lib \<Rightarrow> ('d, 'e, 's) DiscordOpusFrameNormalizer \<Rightarrow> OpusFrame list
    \<Rightarrow> (PlaybackError + OpusFrame list) \<times> ('d, 'e, 's) DiscordOpusFrameNormalizer" where
  "emit_ready_loop lib n frames =
    (if frame_values \<le> length (pending_pcm n) then
       (case norm_encoder n of
          None \<Rightarrow> (Inl (InvalidState ''opus normalizer encoder missing''), n)
        | Some e \<Rightarrow>
           (case encoder_encode lib e (take frame_values (pending_pcm n)) DISCORD_FRAME_SAMPLES of
              (Inl error, e') \<Rightarrow>
                 (Inl (MediaParseDetail (''encode discord opus frame: '' @ error)),
                  n\<lparr>norm_encoder := Some e'\<rparr>)
            | (Inr packet, e') \<Rightarrow>
                 (let position_samples =
                        (case next_output_position_samples n of Some p \<Rightarrow> p | None \<Rightarrow> 0) in
                  emit_ready_loop lib
                    (n\<lparr>norm_encoder := Some e',
                       next_output_position_samples :=
                         Some (saturating_add position_samples
                                (u64_from_u32 DISCORD_FRAME_SAMPLES_U32)),
                       pending_pcm := drop frame_values (pending_pcm n)\<rparr>)
                    (frames @ [discord_frame packet position_samples]))))
     else (Inr frames, n))"
  by pat_completeness auto
termination
  by (relation "measure (\<lambda>(lib, n, frames). length (pending_pcm n))") auto

declare emit_ready_loop.simps [simp del]

definition emit_ready_frames ::
  "('d, 'e, 's) opus_lib \<Rightarrow> ('d, 'e, 's) DiscordOpusFrameNormalizer
    \<Rightarrow> (PlaybackError + OpusFrame list) \<times> ('d, 'e, 's) DiscordOpusFrameNormalizer" where
  "emit_ready_frames lib n =
    (case ensure_encoder lib n of
       (Inl err, n1) \<Rightarrow> (Inl err, n1)
     | (Inr _, n1) \<Rightarrow> emit_ready_loop lib n1 [])"

definition push_packet ::
  "('d, 'e, 's) opus_lib \<Rightarrow> ('d, 'e, 's) DiscordOpusFrameNormalizer \<Rightarrow> DemuxedPacket
    \<Rightarrow> (PlaybackError + OpusFrame list) \<times> ('d, 'e, 's) DiscordOpusFrameNormalizer" where
  "push_packet lib n packet =
    (let n1 = ensure_output_position n packet in
     if pending_pcm n1 = [] \<and> is_discord_passthrough_packet packet then
       (let position_samples =
              (case next_output_position_samples n1 of
                 Some p \<Rightarrow> p | None \<Rightarrow> pkt_timestamp_samples packet)
        in (Inr [discord_frame (pkt_data packet) position_samples],
            n1\<lparr>next_output_position_samples :=
                 Some (saturating_add position_samples
                        (u64_from_u32 (pkt_duration_samples packet)))\<rparr>))
     else (case decode_packet lib n1 packet of
             (Inl err, n2) \<Rightarrow> (Inl err, n2)
           | (Inr _, n2) \<Rightarrow> emit_ready_frames lib n2))"

definition flush_normalizer ::
  "('d, 'e, 's) opus_lib \<Rightarrow> ('d, 'e, 's) DiscordOpusFrameNormalizer
    \<Rightarrow> (PlaybackError + OpusFrame list) \<times> ('d, 'e, 's) DiscordOpusFrameNormalizer" where
  "flush_normalizer lib n =
    (if pending_pcm n = [] then (Inr [], n)
     else emit_ready_frames lib
            (n\<lparr>pending_pcm := take frame_values (pending_pcm n)
                 @ replicate (frame_values - length (pending_pcm n)) (silent_sample lib)\<rparr>))"

section \<open>The time line of the output\<close>

text \<open>\<open>on_timeline p frames q\<close>: the frames are 20 ms frames at consecutive positions from sample
  \<open>p\<close> on, and the next one is due at \<open>q\<close>.\<close>

fun on_timeline :: "u64 \<Rightarrow> OpusFrame list \<Rightarrow> u64 \<Rightarrow> bool" where
  "on_timeline p [] q \<longleftrightarrow> p = q"
| "on_timeline p (f # fs) q \<longleftrightarrow>
     source_position_samples f = p \<and> source_position_ms f = duration_ms_from_samples p
     \<and> frame_duration_samples f = 960 \<and> frame_duration_ms f = 20
     \<and> on_timeline (saturating_add p 960) fs q"

text \<open>Pushing a sequence of packets, as the playback worker does, up to the first error.\<close>

fun push_all ::
  "('d, 'e, 's) opus_lib \<Rightarrow> ('d, 'e, 's) DiscordOpusFrameNormalizer \<Rightarrow> DemuxedPacket list
    \<Rightarrow> (PlaybackError + OpusFrame list) \<times> ('d, 'e, 's) DiscordOpusFrameNormalizer" where
  "push_all lib n [] = (Inr [], n)"
| "push_all lib n (packet # packets) =
    (case push_packet lib n packet of
       (Inl err, n1) \<Rightarrow> (Inl err, n1)
     | (Inr frames, n1) \<Rightarrow>
        (case push_all lib n1 packets of
           (Inl err, n2) \<Rightarrow> (Inl err, n2)
         | (Inr rest, n2) \<Rightarrow> (Inr (frames @ rest), n2)))"

definition output_position :: "('d, 'e, 's) DiscordOpusFrameNormalizer \<Rightarrow> u64 \<Rightarrow> u64" where
  "output_position n start =
     (case next_output_position_samples n of Some p \<Rightarrow> p | None \<Rightarrow> start)"

definition packet_values :: "DemuxedPacket \<Rightarrow> nat" where
  "packet_values packet = 2 * unat (pkt_duration_samples packet)"

section \<open>Lemmas\<close>

lemma on_timeline_append:
  "on_timeline p (fs @ gs) q \<longleftrightarrow> (\<exists>r. on_timeline p fs r \<and> on_timeline r gs q)"
  by (induction fs arbitrary: p) simp_all

lemma discord_frame_on_timeline: "on_timeline p [discord_frame data p] (saturating_add p 960)"
  by (simp add: discord_frame_def OpusFrame_with_exact_metadata_def DISCORD_FRAME_MS_def
      OpusFrame_with_duration_samples_def DISCORD_FRAME_SAMPLES_U32_def)

lemma emit_ready_loop_spec:
  assumes "emit_ready_loop lib n frames = (Inr out, n')"
  shows "\<exists>new. out = frames @ new \<and> length (pending_pcm n') < 1920
    \<and> 1920 * length new + length (pending_pcm n') = length (pending_pcm n)
    \<and> on_timeline (output_position n 0) new (output_position n' 0)
    \<and> (next_output_position_samples n \<noteq> None \<longrightarrow> next_output_position_samples n' \<noteq> None)"
  using assms
proof (induction lib n frames arbitrary: out n' rule: emit_ready_loop.induct)
  case (1 lib n frames)
  show ?case
  proof (cases "frame_values \<le> length (pending_pcm n)")
    case False
    with "1.prems" show ?thesis by (subst (asm) emit_ready_loop.simps) auto
  next
    case True
    let ?p = "output_position n 0"
    from True "1.prems" obtain e packet e' where
      enc: "norm_encoder n = Some e"
      "encoder_encode lib e (take frame_values (pending_pcm n)) DISCORD_FRAME_SAMPLES = (Inr packet, e')"
      by (subst (asm) emit_ready_loop.simps) (auto split: option.splits prod.splits sum.splits)
    define m where "m = n\<lparr>norm_encoder := Some e', next_output_position_samples :=
        Some (saturating_add ?p (u64_from_u32 DISCORD_FRAME_SAMPLES_U32)),
        pending_pcm := drop frame_values (pending_pcm n)\<rparr>"
    have rec: "emit_ready_loop lib m (frames @ [discord_frame packet ?p]) = (Inr out, n')"
      using True enc "1.prems" unfolding m_def output_position_def
      by (subst (asm) emit_ready_loop.simps) (simp add: Let_def)
    from "1.IH" [OF True enc(1) enc(2) [symmetric] refl refl] rec obtain new where new:
      "out = (frames @ [discord_frame packet ?p]) @ new" "length (pending_pcm n') < 1920"
      "1920 * length new + length (pending_pcm n') = length (pending_pcm m)"
      "on_timeline (output_position m 0) new (output_position n' 0)"
      "next_output_position_samples n' \<noteq> None"
      unfolding m_def output_position_def by auto
    have "output_position m 0 = saturating_add ?p 960"
      by (simp add: m_def output_position_def DISCORD_FRAME_SAMPLES_U32_def u64_from_u32_def)
    with new(4) have "on_timeline ?p ([discord_frame packet ?p] @ new) (output_position n' 0)"
      unfolding on_timeline_append using discord_frame_on_timeline by metis
    with new True show ?thesis
      by (intro exI [of _ "discord_frame packet ?p # new"]) (auto simp: m_def)
  qed
qed

lemma length_duplicate_samples [simp]: "length (duplicate_samples pcm) = 2 * length pcm"
  by (induction pcm) (simp_all add: duplicate_samples_def)

lemma ensure_output_position_simps [simp]:
  "pending_pcm (ensure_output_position n packet) = pending_pcm n"
  "next_output_position_samples (ensure_output_position n packet)
     = Some (output_position n (pkt_timestamp_samples packet))"
  by (auto simp: ensure_output_position_def output_position_def)

lemma store_decoder_simps [simp]:
  "pending_pcm (store_decoder n channels d) = pending_pcm n"
  "next_output_position_samples (store_decoder n channels d) = next_output_position_samples n"
  by (simp_all add: store_decoder_def)

lemma decode_packet_spec:
  assumes "decode_packet lib n packet = (Inr (), n')" and "decoder_fills_buffer lib"
  shows "length (pending_pcm n') = length (pending_pcm n) + packet_values packet
    \<and> next_output_position_samples n' = Some (output_position n (pkt_timestamp_samples packet))"
proof -
  let ?m = "unat (pkt_duration_samples packet)"
  from assms(1) obtain channels d k pcm d' where
    dec: "decoder_decode lib d (pkt_data packet) ?m channels = (Inr (k, pcm), d')"
    and n': "channels = 1 \<and> n' = (store_decoder (ensure_output_position n packet) channels d')
          \<lparr>pending_pcm := pending_pcm n @ duplicate_samples pcm\<rparr>
        \<or> channels = 2 \<and> n' = (store_decoder (ensure_output_position n packet) channels d')
          \<lparr>pending_pcm := pending_pcm n @ pcm\<rparr>"
    unfolding decode_packet_def Let_def
    by (auto split: option.splits if_splits sum.splits prod.splits)
  from dec assms(2) have "length pcm = ?m * channels"
    unfolding decoder_fills_buffer_def by blast
  with n' show ?thesis by (auto simp: packet_values_def)
qed

lemma push_packet_decode:
  "\<not> (pending_pcm n = [] \<and> is_discord_passthrough_packet packet) \<Longrightarrow>
   push_packet lib n packet =
     (case decode_packet lib (ensure_output_position n packet) packet of
        (Inl err, n2) \<Rightarrow> (Inl err, n2) | (Inr _, n2) \<Rightarrow> emit_ready_frames lib n2)"
  unfolding push_packet_def Let_def by (simp only: ensure_output_position_simps if_False)

lemma push_packet_spec:
  assumes "push_packet lib n packet = (Inr frames, n')" and "decoder_fills_buffer lib"
    and "length (pending_pcm n) < 1920"
  shows "length (pending_pcm n') < 1920
    \<and> 1920 * length frames + length (pending_pcm n') = length (pending_pcm n) + packet_values packet
    \<and> on_timeline (output_position n (pkt_timestamp_samples packet)) frames (output_position n' 0)
    \<and> next_output_position_samples n' \<noteq> None"
proof -
  let ?p = "output_position n (pkt_timestamp_samples packet)"
  let ?n = "ensure_output_position n packet"
  show ?thesis
  proof (cases "pending_pcm n = [] \<and> is_discord_passthrough_packet packet")
    case True
    with assms(1) have "frames = [discord_frame (pkt_data packet) ?p]"
      "n' = ?n\<lparr>next_output_position_samples := Some (saturating_add ?p 960)\<rparr>"
      by (auto simp: push_packet_def Let_def is_discord_passthrough_packet_def
          DISCORD_FRAME_SAMPLES_U32_def u64_from_u32_def)
    with True show ?thesis
      using discord_frame_on_timeline [of ?p "pkt_data packet"]
      by (simp add: output_position_def packet_values_def is_discord_passthrough_packet_def
          DISCORD_FRAME_SAMPLES_U32_def)
  next
    case False
    from assms(1) obtain n2 where dec: "decode_packet lib ?n packet = (Inr (), n2)"
      and emit: "emit_ready_frames lib n2 = (Inr frames, n')"
      unfolding push_packet_decode [OF False] by (auto split: prod.splits sum.splits)
    from emit obtain n3 where "ensure_encoder lib n2 = (Inr (), n3)"
      and loop: "emit_ready_loop lib n3 [] = (Inr frames, n')"
      by (auto simp: emit_ready_frames_def split: prod.splits sum.splits)
    then have n3: "pending_pcm n3 = pending_pcm n2"
      "next_output_position_samples n3 = next_output_position_samples n2"
      by (auto simp: ensure_encoder_def split: option.splits sum.splits)
    from decode_packet_spec [OF dec assms(2)]
    have "length (pending_pcm n2) = length (pending_pcm n) + packet_values packet"
      "next_output_position_samples n2 = Some ?p"
      by (simp_all add: output_position_def)
    with emit_ready_loop_spec [OF loop] n3 show ?thesis
      by (auto simp: output_position_def)
  qed
qed

lemma push_all_spec:
  assumes "push_all lib n packets = (Inr frames, n')" and "decoder_fills_buffer lib"
    and "length (pending_pcm n) < 1920" and "packets \<noteq> []"
  shows "length (pending_pcm n') < 1920
    \<and> 1920 * length frames + length (pending_pcm n')
        = length (pending_pcm n) + sum_list (map packet_values packets)
    \<and> on_timeline (output_position n (pkt_timestamp_samples (hd packets))) frames
        (output_position n' 0)"
  using assms
proof (induction packets arbitrary: n frames)
  case Nil
  then show ?case by simp
next
  case (Cons packet packets)
  from Cons.prems(1) obtain fs n1 gs where push: "push_packet lib n packet = (Inr fs, n1)"
    and rest: "push_all lib n1 packets = (Inr gs, n')" and frames: "frames = fs @ gs"
    by (auto split: prod.splits sum.splits)
  note step = push_packet_spec [OF push Cons.prems(2,3)]
  show ?case
  proof (cases "packets = []")
    case True
    with step rest frames show ?thesis by simp
  next
    case False
    from step have "length (pending_pcm n1) < 1920" by simp
    note IH = Cons.IH [OF rest Cons.prems(2) this False]
    from step have "output_position n1 (pkt_timestamp_samples (hd packets)) = output_position n1 0"
      by (auto simp: output_position_def)
    with step IH show ?thesis
      unfolding frames on_timeline_append by auto
  qed
qed

text \<open>Frames of bounded size.\<close>

definition encoder_bounded :: "nat \<Rightarrow> ('d, 'e, 's) opus_lib \<Rightarrow> bool" where
  "encoder_bounded B lib \<longleftrightarrow>
    (\<forall>e pcm n packet e'. encoder_encode lib e pcm n = (Inr packet, e') \<longrightarrow> length packet \<le> B)"

abbreviation frames_bounded :: "nat \<Rightarrow> OpusFrame list \<Rightarrow> bool" where
  "frames_bounded B \<equiv> list_all (\<lambda>f. OpusFrame_byte_len f \<le> B)"

lemma discord_frame_byte_len [simp]: "OpusFrame_byte_len (discord_frame data p) = length data"
  by (simp add: discord_frame_def OpusFrame_byte_len_def OpusFrame_with_exact_metadata_def
      OpusFrame_with_duration_samples_def)

lemma emit_ready_loop_bounded:
  assumes "emit_ready_loop lib n frames = (Inr out, n')" and "encoder_bounded B lib"
    and "frames_bounded B frames"
  shows "frames_bounded B out"
  using assms
proof (induction lib n frames arbitrary: out n' rule: emit_ready_loop.induct)
  case (1 lib n frames)
  show ?case
  proof (cases "frame_values \<le> length (pending_pcm n)")
    case False
    with "1.prems" show ?thesis by (subst (asm) emit_ready_loop.simps) auto
  next
    case True
    with "1.prems" obtain e packet e' where
      enc: "norm_encoder n = Some e"
      "encoder_encode lib e (take frame_values (pending_pcm n)) DISCORD_FRAME_SAMPLES = (Inr packet, e')"
      by (subst (asm) emit_ready_loop.simps) (auto split: option.splits prod.splits sum.splits)
    with "1.prems"(2) have "length packet \<le> B" unfolding encoder_bounded_def by blast
    with "1.IH" [OF True enc(1) enc(2) [symmetric] refl refl] "1.prems" True enc show ?thesis
      by (subst (asm) emit_ready_loop.simps [of lib n]) (simp add: Let_def)
  qed
qed

lemma emit_ready_frames_bounded:
  "emit_ready_frames lib n = (Inr frames, n') \<Longrightarrow> encoder_bounded B lib \<Longrightarrow> frames_bounded B frames"
  by (auto simp: emit_ready_frames_def split: prod.splits sum.splits intro: emit_ready_loop_bounded)

lemma push_packet_bounded:
  assumes "push_packet lib n packet = (Inr frames, n')" and "encoder_bounded B lib"
    and "length (pkt_data packet) \<le> B"
  shows "frames_bounded B frames"
  using assms
  by (auto simp: push_packet_def Let_def split: if_splits prod.splits sum.splits
      intro: emit_ready_frames_bounded)

lemma flush_normalizer_bounded:
  "flush_normalizer lib n = (Inr frames, n') \<Longrightarrow> encoder_bounded B lib \<Longrightarrow> frames_bounded B frames"
  by (auto simp: flush_normalizer_def split: if_splits intro: emit_ready_frames_bounded)

lemmas normalizer_eval = DiscordOpusFrameNormalizer_new_def push_packet_def
  is_discord_passthrough_packet_def opus_packet_channels_def decode_packet_def
  decoder_for_channels_def ensure_output_position_def store_decoder_def emit_ready_frames_def ensure_encoder_def
  emit_ready_loop.simps discord_frame_def OpusFrame_with_exact_metadata_def
  OpusFrame_with_duration_samples_def DISCORD_FRAME_SAMPLES_U32_def DISCORD_FRAME_SAMPLES_def
  DISCORD_CHANNELS_def DISCORD_FRAME_MS_def u64_from_u32_def Let_def

section \<open>Properties\<close>

text \<open>Whatever packets are pushed, every frame the normalizer emits is a 20 ms frame of 960
  samples, the frames sit on consecutive positions that start at the first packet's timestamp, and no
  audio is lost or invented: the emitted frames and the PCM still pending account for exactly the
  samples pushed, with less than one frame pending.\<close>

theorem normalizer_timeline:
  fixes lib :: "('d, 'e, 's) opus_lib"
  assumes "push_all lib DiscordOpusFrameNormalizer_new packets = (Inr frames, n')"
    and "decoder_fills_buffer lib" and "packets \<noteq> []"
  shows "on_timeline (pkt_timestamp_samples (hd packets)) frames (output_position n' 0)
    \<and> 960 * length frames + length (pending_pcm n') div 2
        = sum_list (map (\<lambda>p. unat (pkt_duration_samples p)) packets)
    \<and> length (pending_pcm n') < 1920"
proof -
  have "sum_list (map packet_values packets)
      = 2 * sum_list (map (\<lambda>p. unat (pkt_duration_samples p)) packets)"
    by (induction packets) (simp_all add: packet_values_def)
  with push_all_spec [OF assms(1,2) _ assms(3)] show ?thesis
    by (auto simp: DiscordOpusFrameNormalizer_new_def output_position_def)
qed

text \<open>A codec that decodes to silence and encodes every frame to one byte.\<close>

definition silent_codec :: "(unit, unit, unit) opus_lib" where
  "silent_codec =
     \<lparr>decoder_new = (\<lambda>_. Inr ()),
      decoder_decode = (\<lambda>_ _ n c. (Inr (n, replicate (n * c) ()), ())),
      encoder_new = Inr (),
      encoder_encode = (\<lambda>_ _ _. (Inr [0xFC], ())),
      silent_sample = ()\<rparr>"

lemma silent_codec_fills_buffer: "decoder_fills_buffer silent_codec"
  by (auto simp: decoder_fills_buffer_def silent_codec_def)

definition packet_of_ms :: "u32 \<Rightarrow> u64 \<Rightarrow> DemuxedPacket" where
  "packet_of_ms ms ts =
     \<lparr>pkt_data = [0xFC], pkt_timestamp_ms = ts, pkt_timestamp_samples = ts * 48,
      pkt_duration_ms = 0, pkt_duration_samples = ms * 48\<rparr>"

theorem normalizer_timeline_witness:
  "\<exists>frames n'. push_all silent_codec DiscordOpusFrameNormalizer_new
       [packet_of_ms 20 0, packet_of_ms 60 20] = (Inr frames, n')
     \<and> on_timeline 0 frames (output_position n' 0) \<and> length frames = 4"
proof -
  obtain r n' where run: "push_all silent_codec DiscordOpusFrameNormalizer_new
       [packet_of_ms 20 0, packet_of_ms 60 20] = (r, n')" by fastforce
  have "\<exists>frames. r = Inr frames \<and> length frames = 4"
    using run by (auto simp: normalizer_eval silent_codec_def packet_of_ms_def)
  then obtain frames where frames: "r = Inr frames" "length frames = 4" by blast
  from normalizer_timeline [OF run [unfolded frames] silent_codec_fills_buffer] frames run
  show ?thesis by (auto simp: packet_of_ms_def)
qed

end
