(* ===== verification/Worker.thy ===== *)
theory Worker
  imports Recovery Normalizer
begin

text \<open>
  The playback worker (\<open>worker.rs\<close>): it opens a source at the resume position and fills the frame queue
  from it, through the demuxer and the frame normalizer. The fill loop is given fuel, \<open>None\<close> when it runs
  out. The lemmas show that filling keeps the queue within its limits, that the frames it appends are
  the gapless 20 ms time line the normalizer produces, and how frames that do not fit are kept.
\<close>

section \<open>State\<close>

record ('d, 'e, 's) PlaybackWorker =
  wk_current_video_id :: "string option"
  wk_recovery :: PlaybackRecovery
  wk_position :: nat
  wk_prebuffer_target_ms :: u64
  wk_normalizer :: "('d, 'e, 's) DiscordOpusFrameNormalizer"
  wk_pending_frames :: "OpusFrame list"

text \<open>Everything a worker operation may change: the worker, the source, the queue, the shared positions
  and the outside world.\<close>

record ('d, 'e, 's, 'w) fill_state =
  fs_worker :: "('d, 'e, 's) PlaybackWorker"
  fs_source :: PlaybackSource
  fs_queue :: OpusFrameQueue
  fs_heap :: pos_heap
  fs_world :: 'w

definition DEFAULT_PREBUFFER_TARGET_MS :: u64 where
  "DEFAULT_PREBUFFER_TARGET_MS = 80"

definition PlaybackWorker_new :: "pos_heap \<Rightarrow> ('d, 'e, 's) PlaybackWorker \<times> pos_heap" where
  "PlaybackWorker_new heap =
    (let (h, heap1) = shared_playback_position heap PlaybackPosition_default
     in (\<lparr>wk_current_video_id = None, wk_recovery = PlaybackRecovery_new, wk_position = h,
          wk_prebuffer_target_ms = DEFAULT_PREBUFFER_TARGET_MS,
          wk_normalizer = DiscordOpusFrameNormalizer_new, wk_pending_frames = []\<rparr>, heap1))"

definition worker_reset ::
  "('d, 'e, 's) PlaybackWorker \<Rightarrow> pos_heap \<Rightarrow> ('d, 'e, 's) PlaybackWorker \<times> pos_heap" where
  "worker_reset wk heap =
    (let (h, heap1) = shared_playback_position heap PlaybackPosition_default
     in (wk\<lparr>wk_current_video_id := None, wk_recovery := recovery_reset (wk_recovery wk),
            wk_position := h, wk_normalizer := DiscordOpusFrameNormalizer_new,
            wk_pending_frames := []\<rparr>, heap1))"

definition set_prebuffer_target_ms ::
  "('d, 'e, 's) PlaybackWorker \<Rightarrow> u64 \<Rightarrow> ('d, 'e, 's) PlaybackWorker" where
  "set_prebuffer_target_ms wk target_ms =
     wk\<lparr>wk_prebuffer_target_ms := max target_ms DEFAULT_PREBUFFER_TARGET_MS\<rparr>"

section \<open>Moving frames into the queue\<close>

fun drain_pending_loop ::
  "OpusFrame list \<Rightarrow> OpusFrameQueue \<Rightarrow> (PlaybackError + bool) \<times> OpusFrame list \<times> OpusFrameQueue" where
  "drain_pending_loop [] q = (Inr True, [], q)"
| "drain_pending_loop (frame # frames) q =
    (if can_fit_frame q frame then
       (case OpusFrameQueue_push q frame of
          (Inl _, q1) \<Rightarrow> (Inl BufferFull, frames, q1)
        | (Inr _, q1) \<Rightarrow> drain_pending_loop frames q1)
     else (Inr False, frame # frames, q))"

definition drain_pending_frames ::
  "('d, 'e, 's) PlaybackWorker \<Rightarrow> OpusFrameQueue
    \<Rightarrow> (PlaybackError + bool) \<times> ('d, 'e, 's) PlaybackWorker \<times> OpusFrameQueue" where
  "drain_pending_frames wk q =
    (let (r, pending, q1) = drain_pending_loop (wk_pending_frames wk) q
     in (r, wk\<lparr>wk_pending_frames := pending\<rparr>, q1))"

fun enqueue_loop ::
  "OpusFrame list \<Rightarrow> OpusFrame list \<Rightarrow> OpusFrameQueue
    \<Rightarrow> (PlaybackError + unit) \<times> OpusFrame list \<times> OpusFrameQueue" where
  "enqueue_loop [] pending q = (Inr (), pending, q)"
| "enqueue_loop (frame # frames) pending q =
    (if can_fit_frame q frame then
       (case OpusFrameQueue_push q frame of
          (Inl _, q1) \<Rightarrow> (Inl BufferFull, pending, q1)
        | (Inr _, q1) \<Rightarrow> enqueue_loop frames pending q1)
     else enqueue_loop frames (pending @ [frame]) q)"

definition enqueue_frames ::
  "OpusFrame list \<Rightarrow> ('d, 'e, 's, 'w) fill_state \<Rightarrow> (PlaybackError + unit) \<times> ('d, 'e, 's, 'w) fill_state" where
  "enqueue_frames frames st =
    (let (r, pending, q1) = enqueue_loop frames (wk_pending_frames (fs_worker st)) (fs_queue st)
     in (r, st\<lparr>fs_worker := (fs_worker st)\<lparr>wk_pending_frames := pending\<rparr>, fs_queue := q1\<rparr>))"

definition buffer_packet ::
  "('d, 'e, 's) opus_lib \<Rightarrow> DemuxedPacket \<Rightarrow> ('d, 'e, 's, 'w) fill_state
    \<Rightarrow> (PlaybackError + unit) \<times> ('d, 'e, 's, 'w) fill_state" where
  "buffer_packet lib packet st =
    (case push_packet lib (wk_normalizer (fs_worker st)) packet of
       (Inl err, n1) \<Rightarrow> (Inl err, st\<lparr>fs_worker := (fs_worker st)\<lparr>wk_normalizer := n1\<rparr>\<rparr>)
     | (Inr frames, n1) \<Rightarrow>
        enqueue_frames frames
          (st\<lparr>fs_worker := (fs_worker st)\<lparr>wk_normalizer := n1\<rparr>,
              fs_heap := heap_update (\<lambda>p. record_buffered p packet) (fs_heap st)
                           (wk_position (fs_worker st))\<rparr>))"

section \<open>Filling the queue\<close>

definition fill_done :: "u64 \<Rightarrow> OpusFrameQueue \<Rightarrow> bool" where
  "fill_done target_samples q \<longleftrightarrow> buffered_samples q \<ge> target_samples \<or> OpusFrameQueue_is_full q"

fun buffer_packets ::
  "('d, 'e, 's) opus_lib \<Rightarrow> u64 \<Rightarrow> DemuxedPacket list \<Rightarrow> ('d, 'e, 's, 'w) fill_state
    \<Rightarrow> (PlaybackError + unit) \<times> ('d, 'e, 's, 'w) fill_state" where
  "buffer_packets lib target_samples [] st = (Inr (), st)"
| "buffer_packets lib target_samples (packet # packets) st =
    (if fill_done target_samples (fs_queue st) \<or> wk_pending_frames (fs_worker st) \<noteq> [] then
       (Inr (), st\<lparr>fs_source := (fs_source st)\<lparr>src_pending_packets :=
                     src_pending_packets (fs_source st) @ packet # packets\<rparr>\<rparr>)
     else (case buffer_packet lib packet st of
             (Inl err, st1) \<Rightarrow> (Inl err, st1)
           | (Inr _, st1) \<Rightarrow> buffer_packets lib target_samples packets st1))"

text \<open>Reading one chunk through the recovery.\<close>

definition worker_read_stream_chunk ::
  "'w playback_io \<Rightarrow> string option \<Rightarrow> ('d, 'e, 's, 'w) fill_state
    \<Rightarrow> (PlaybackError + bytes option) \<times> ('d, 'e, 's, 'w) fill_state" where
  "worker_read_stream_chunk io video_id st =
    (let (r, rec1, source1, w1) =
           read_stream_chunk io (wk_recovery (fs_worker st)) video_id (fs_source st) (fs_world st)
     in (r, st\<lparr>fs_worker := (fs_worker st)\<lparr>wk_recovery := rec1\<rparr>, fs_source := source1,
              fs_world := w1\<rparr>))"

text \<open>One iteration of the fill loop: \<open>None\<close> continues.\<close>

definition fill_step ::
  "'w playback_io \<Rightarrow> ('d, 'e, 's) opus_lib \<Rightarrow> string option \<Rightarrow> u64 \<Rightarrow> ('d, 'e, 's, 'w) fill_state
    \<Rightarrow> (PlaybackError + unit) option \<times> ('d, 'e, 's, 'w) fill_state" where
  "fill_step io lib video_id target_samples st =
    (case drain_pending_frames (fs_worker st) (fs_queue st) of
       (Inl err, wk1, q1) \<Rightarrow> (Some (Inl err), st\<lparr>fs_worker := wk1, fs_queue := q1\<rparr>)
     | (Inr drained, wk1, q1) \<Rightarrow>
        (let st1 = st\<lparr>fs_worker := wk1, fs_queue := q1\<rparr> in
         if \<not> drained then (Some (Inr ()), st1)
         else if fill_done target_samples q1 then (Some (Inr ()), st1)
         else (case src_pending_packets (fs_source st1) of
                 packet # packets \<Rightarrow>
                   (case buffer_packet lib packet
                           (st1\<lparr>fs_source := (fs_source st1)\<lparr>src_pending_packets := packets\<rparr>\<rparr>) of
                      (Inl err, st2) \<Rightarrow> (Some (Inl err), st2)
                    | (Inr _, st2) \<Rightarrow> (None, st2))
               | [] \<Rightarrow>
                   (case worker_read_stream_chunk io video_id st1 of
                      (Inl err, st2) \<Rightarrow> (Some (Inl err), st2)
                    | (Inr None, st2) \<Rightarrow>
                       (case flush_normalizer lib (wk_normalizer (fs_worker st2)) of
                          (Inl err, n1) \<Rightarrow>
                            (Some (Inl err), st2\<lparr>fs_worker := (fs_worker st2)\<lparr>wk_normalizer := n1\<rparr>\<rparr>)
                        | (Inr frames, n1) \<Rightarrow>
                           (let (r, st3) = enqueue_frames frames
                                  (st2\<lparr>fs_worker := (fs_worker st2)\<lparr>wk_normalizer := n1\<rparr>\<rparr>)
                            in (Some r, st3)))
                    | (Inr (Some chunk), st2) \<Rightarrow>
                       (case drain_packets (io_webm io) (push_bytes (src_demux (fs_source st2)) chunk) of
                          (Inl err, demux1) \<Rightarrow>
                            (Some (Inl err),
                             st2\<lparr>fs_source := (fs_source st2)\<lparr>src_demux := demux1\<rparr>\<rparr>)
                        | (Inr packets, demux1) \<Rightarrow>
                           (case buffer_packets lib target_samples packets
                                   (st2\<lparr>fs_source := (fs_source st2)\<lparr>src_demux := demux1\<rparr>\<rparr>) of
                              (Inl err, st3) \<Rightarrow> (Some (Inl err), st3)
                            | (Inr _, st3) \<Rightarrow> (None, st3)))))))"

fun fill_loop ::
  "nat \<Rightarrow> 'w playback_io \<Rightarrow> ('d, 'e, 's) opus_lib \<Rightarrow> string option \<Rightarrow> u64 \<Rightarrow> ('d, 'e, 's, 'w) fill_state
    \<Rightarrow> ((PlaybackError + unit) \<times> ('d, 'e, 's, 'w) fill_state) option" where
  "fill_loop 0 io lib video_id target st =
     (if fill_done target (fs_queue st) then Some (Inr (), st) else None)"
| "fill_loop (Suc fuel) io lib video_id target st =
    (if fill_done target (fs_queue st) then Some (Inr (), st)
     else (case fill_step io lib video_id target st of
             (Some r, st1) \<Rightarrow> Some (r, st1)
           | (None, st1) \<Rightarrow> fill_loop fuel io lib video_id target st1))"

definition fill_queue_to_duration_ms_for_video ::
  "nat \<Rightarrow> 'w playback_io \<Rightarrow> ('d, 'e, 's) opus_lib \<Rightarrow> string option \<Rightarrow> u64 \<Rightarrow> ('d, 'e, 's, 'w) fill_state
    \<Rightarrow> ((PlaybackError + unit) \<times> ('d, 'e, 's, 'w) fill_state) option" where
  "fill_queue_to_duration_ms_for_video fuel io lib video_id target_ms st =
     fill_loop fuel io lib video_id (samples_from_duration_ms_u64 (max target_ms 1)) st"

definition fill_queue_to_duration_ms ::
  "nat \<Rightarrow> 'w playback_io \<Rightarrow> ('d, 'e, 's) opus_lib \<Rightarrow> u64 \<Rightarrow> ('d, 'e, 's, 'w) fill_state
    \<Rightarrow> ((PlaybackError + unit) \<times> ('d, 'e, 's, 'w) fill_state) option" where
  "fill_queue_to_duration_ms fuel io lib target_ms st =
     fill_queue_to_duration_ms_for_video fuel io lib (wk_current_video_id (fs_worker st)) target_ms st"

definition fill_queue ::
  "nat \<Rightarrow> 'w playback_io \<Rightarrow> ('d, 'e, 's) opus_lib \<Rightarrow> ('d, 'e, 's, 'w) fill_state
    \<Rightarrow> ((PlaybackError + unit) \<times> ('d, 'e, 's, 'w) fill_state) option" where
  "fill_queue fuel io lib st =
     fill_queue_to_duration_ms fuel io lib (wk_prebuffer_target_ms (fs_worker st)) st"

section \<open>Preparing a video\<close>

text \<open>The resume position and the shared position a call of \<open>prepare\<close> starts from.\<close>

definition prepare_resume ::
  "string \<Rightarrow> ('d, 'e, 's) PlaybackWorker \<Rightarrow> pos_heap
    \<Rightarrow> PlaybackResumePosition \<times> ('d, 'e, 's) PlaybackWorker \<times> pos_heap" where
  "prepare_resume video_id wk heap =
    (let (resume, wk1, heap1) =
           (if wk_current_video_id wk = Some video_id
            then (pos_sent_duration_samples (heap ! wk_position wk), wk, heap)
            else (let (h, heap1) = shared_playback_position heap PlaybackPosition_default
                  in (0, wk\<lparr>wk_position := h\<rparr>, heap1)))
     in (resume, wk1\<lparr>wk_normalizer := DiscordOpusFrameNormalizer_new, wk_pending_frames := []\<rparr>, heap1))"

definition prepare ::
  "nat \<Rightarrow> 'w playback_io \<Rightarrow> ('d, 'e, 's) opus_lib \<Rightarrow> string \<Rightarrow> ('d, 'e, 's) PlaybackWorker \<Rightarrow> OpusFrameQueue
    \<Rightarrow> pos_heap \<Rightarrow> 'w
    \<Rightarrow> ((PlaybackError + PlaybackSource) \<times> ('d, 'e, 's) PlaybackWorker \<times> OpusFrameQueue \<times> pos_heap \<times> 'w) option" where
  "prepare fuel io lib video_id wk queue heap w =
    (if OpusFrameQueue_is_full queue then Some (Inl BufferFull, wk, queue, heap, w)
     else
       (let (resume, wk1, heap1) = prepare_resume video_id wk heap in
        case recover fuel io (wk_recovery wk1) heap1 video_id resume w of
          None \<Rightarrow> None
        | Some (Inl err, rec1, heap2, w1) \<Rightarrow>
            Some (Inl err, wk1\<lparr>wk_recovery := rec1\<rparr>, queue, heap2, w1)
        | Some (Inr source, rec1, heap2, w1) \<Rightarrow>
           (let wk2 = wk1\<lparr>wk_recovery := rec1, wk_position := src_position source\<rparr> in
            case fill_queue_to_duration_ms_for_video fuel io lib (Some video_id)
                   (wk_prebuffer_target_ms wk2)
                   \<lparr>fs_worker = wk2, fs_source = source, fs_queue = queue, fs_heap = heap2,
                    fs_world = w1\<rparr> of
              None \<Rightarrow> None
            | Some (Inl err, st) \<Rightarrow> Some (Inl err, fs_worker st, fs_queue st, fs_heap st, fs_world st)
            | Some (Inr _, st) \<Rightarrow>
               (if OpusFrameQueue_is_empty (fs_queue st) then
                  Some (Inl (MediaParse ''unexpected end of stream''),
                        fs_worker st, fs_queue st, fs_heap st, fs_world st)
                else Some (Inr (fs_source st),
                           (fs_worker st)\<lparr>wk_current_video_id := Some video_id\<rparr>,
                           fs_queue st, fs_heap st, fs_world st)))))"

section \<open>Lemmas: frames and the queue\<close>

lemma push_fitting: "can_fit_frame q f \<Longrightarrow> \<exists>q1. OpusFrameQueue_push q f = (Inr (), q1)"
  by (simp add: OpusFrameQueue_push_def)

lemma drain_pending_loop_push_while:
  "drain_pending_loop frames q =
    (let (rest, q1) = push_while can_fit_frame OpusFrameQueue_push frames q in (Inr (rest = []), rest, q1))"
proof (induction frames arbitrary: q)
  case (Cons f frames)
  then show ?case using push_fitting [of q f] by (auto simp: Let_def split: prod.splits)
qed simp

lemma enqueue_loop_offer_all:
  "enqueue_loop frames pending q =
    (let (rest, q1) = offer_all can_fit_frame OpusFrameQueue_push frames q in (Inr (), pending @ rest, q1))"
proof (induction frames arbitrary: q pending)
  case (Cons f frames)
  then show ?case using push_fitting [of q f] by (auto simp: Let_def split: prod.splits)
qed simp

text \<open>A queue whose byte limit has room for its capacity of the largest frames refuses every later frame
  of the same duration once it has refused one, so offering all frames keeps their order.\<close>

definition roomy :: "nat \<Rightarrow> OpusFrameQueue \<Rightarrow> bool" where
  "roomy B q \<longleftrightarrow> q_capacity q * B \<le> q_max_bytes q \<and> frames_bounded B (q_inner q)"

lemma total_bytes_bounded: "frames_bounded B fs \<Longrightarrow> total_bytes fs \<le> length fs * B"
  by (induction fs) (auto simp: add_mono)

lemma roomy_fits_bytes:
  assumes "queue_wf q" and "roomy B q" and "length (q_inner q) < q_capacity q"
    and "OpusFrame_byte_len f \<le> B"
  shows "usize_saturating_add (q_bytes q) (OpusFrame_byte_len f) \<le> q_max_bytes q"
proof -
  have "q_bytes q + OpusFrame_byte_len f \<le> Suc (length (q_inner q)) * B"
    using assms total_bytes_bounded [of B "q_inner q"] by (auto simp: queue_wf_def roomy_def)
  also have "\<dots> \<le> q_capacity q * B" using assms(3) by (intro mult_le_mono1) simp
  also have "\<dots> \<le> q_max_bytes q" using assms(2) by (simp add: roomy_def)
  finally show ?thesis by (simp add: usize_saturating_add_def)
qed

lemma roomy_push: "roomy B q \<Longrightarrow> OpusFrame_byte_len f \<le> B \<Longrightarrow> roomy B (snd (OpusFrameQueue_push q f))"
  by (simp add: roomy_def OpusFrameQueue_push_def)

lemma offer_all_roomy:
  assumes "queue_wf q" and "roomy B q" and "frames_bounded B frames"
    and "list_all (\<lambda>f. frame_duration_samples f = d) frames"
    and "offer_all can_fit_frame OpusFrameQueue_push frames q = (rest, q1)"
  shows "q_inner q1 @ rest = q_inner q @ frames \<and> roomy B q1"
  using assms
proof (induction frames arbitrary: q rest)
  case (Cons f frames)
  show ?case
  proof (cases "can_fit_frame q f")
    case True
    then have "q_inner (snd (OpusFrameQueue_push q f)) = q_inner q @ [f]"
      by (simp add: OpusFrameQueue_push_def)
    with Cons.IH [of "snd (OpusFrameQueue_push q f)" rest] Cons.prems True show ?thesis
      by (simp add: oq.push_wf roomy_push)
  next
    case False
    have none: "\<not> can_fit_frame q g" if "g \<in> set frames" for g
      using that False Cons.prems(4) roomy_fits_bytes [OF Cons.prems(1,2), of f] Cons.prems(3)
      by (auto simp: can_fit_frame_def can_fit_resource_def list_all_iff)
    have "offer_all can_fit_frame OpusFrameQueue_push gs q = (gs, q)" if "set gs \<subseteq> set frames" for gs
      using that none by (induction gs) auto
    with Cons.prems False show ?thesis by auto
  qed
qed simp

lemma push_while_roomy:
  assumes "push_while can_fit_frame OpusFrameQueue_push frames q = (rest, q1)" and "roomy B q"
    and "frames_bounded B frames"
  shows "roomy B q1 \<and> frames_bounded B rest"
  using assms by (induction frames arbitrary: q) (auto simp: roomy_push split: if_splits)

lemma on_timeline_durations: "on_timeline p frames q \<Longrightarrow> list_all (\<lambda>f. frame_duration_samples f = 960) frames"
  by (induction frames arbitrary: p) auto

section \<open>Lemmas: the time line of a fill\<close>

text \<open>The normalizer between two packets, and what it means that frames continue its time line.\<close>

definition norm_ok :: "('d, 'e, 's) DiscordOpusFrameNormalizer \<Rightarrow> bool" where
  "norm_ok n \<longleftrightarrow> length (pending_pcm n) < 1920
     \<and> (pending_pcm n \<noteq> [] \<longrightarrow> next_output_position_samples n \<noteq> None)"

definition continues ::
  "('d, 'e, 's) DiscordOpusFrameNormalizer \<Rightarrow> OpusFrame list \<Rightarrow> ('d, 'e, 's) DiscordOpusFrameNormalizer \<Rightarrow> bool" where
  "continues n new n' \<longleftrightarrow>
    (case next_output_position_samples n of
       Some p \<Rightarrow> (\<exists>q. next_output_position_samples n' = Some q \<and> on_timeline p new q)
     | None \<Rightarrow> (new = [] \<and> next_output_position_samples n' = None)
              \<or> (\<exists>p q. next_output_position_samples n' = Some q \<and> on_timeline p new q))"

lemma continues_refl [simp]: "continues n [] n"
  by (simp add: continues_def split: option.split)

lemma continues_trans: "continues n xs n1 \<Longrightarrow> continues n1 ys n2 \<Longrightarrow> continues n (xs @ ys) n2"
  by (auto simp: continues_def on_timeline_append split: option.splits)

lemma push_packet_continues:
  assumes "push_packet lib n packet = (Inr frames, n')" and "decoder_fills_buffer lib" and "norm_ok n"
  shows "norm_ok n' \<and> continues n frames n'"
    and "list_all (\<lambda>f. frame_duration_samples f = 960) frames"
proof -
  have spec: "length (pending_pcm n') < 1920"
    "on_timeline (output_position n (pkt_timestamp_samples packet)) frames (output_position n' 0)"
    "next_output_position_samples n' \<noteq> None"
    using push_packet_spec [OF assms(1,2)] assms(3) by (simp_all add: norm_ok_def)
  then show "norm_ok n' \<and> continues n frames n'"
    by (auto simp: norm_ok_def continues_def output_position_def split: option.splits)
  show "list_all (\<lambda>f. frame_duration_samples f = 960) frames"
    using spec(2) by (rule on_timeline_durations)
qed

lemma flush_normalizer_spec:
  assumes "flush_normalizer lib n = (Inr frames, n')" and "norm_ok n"
  shows "norm_ok n' \<and> continues n frames n'"
    and "list_all (\<lambda>f. frame_duration_samples f = 960) frames"
    and "pending_pcm n' = [] \<and> length frames = (if pending_pcm n = [] then 0 else 1)"
proof -
  have "norm_ok n' \<and> continues n frames n' \<and> list_all (\<lambda>f. frame_duration_samples f = 960) frames
      \<and> pending_pcm n' = [] \<and> length frames = (if pending_pcm n = [] then 0 else 1)"
  proof (cases "pending_pcm n = []")
    case True
    with assms show ?thesis by (simp add: flush_normalizer_def)
  next
    case False
    let ?m = "n\<lparr>pending_pcm := take frame_values (pending_pcm n)
        @ replicate (frame_values - length (pending_pcm n)) (silent_sample lib)\<rparr>"
    from False assms obtain n3 where "ensure_encoder lib ?m = (Inr (), n3)"
      and loop: "emit_ready_loop lib n3 [] = (Inr frames, n')"
      by (auto simp: flush_normalizer_def emit_ready_frames_def split: prod.splits sum.splits)
    then have n3: "length (pending_pcm n3) = 1920"
      "next_output_position_samples n3 = next_output_position_samples n"
      using assms(2) by (auto simp: ensure_encoder_def norm_ok_def split: option.splits sum.splits)
    from emit_ready_loop_spec [OF loop] n3 have
      spec: "length (pending_pcm n') < 1920" "1920 * length frames + length (pending_pcm n') = 1920"
      "on_timeline (output_position n 0) frames (output_position n' 0)"
      "next_output_position_samples n \<noteq> None \<longrightarrow> next_output_position_samples n' \<noteq> None"
      by (auto simp: output_position_def)
    have "length frames = 1" using spec(1,2) by presburger
    moreover from this spec(2) have "pending_pcm n' = []" by simp
    ultimately have len: "length frames = 1" "pending_pcm n' = []" .
    from on_timeline_durations [OF spec(3)] spec(3,4) len assms(2) False show ?thesis
      by (auto simp: norm_ok_def continues_def output_position_def split: option.splits)
  qed
  then show "norm_ok n' \<and> continues n frames n'"
    and "list_all (\<lambda>f. frame_duration_samples f = 960) frames"
    and "pending_pcm n' = [] \<and> length frames = (if pending_pcm n = [] then 0 else 1)" by blast+
qed

text \<open>The frames a fill state holds, in the order they will be played, and how a fill extends them.\<close>

definition held_frames :: "('d, 'e, 's, 'w) fill_state \<Rightarrow> OpusFrame list" where
  "held_frames st = q_inner (fs_queue st) @ wk_pending_frames (fs_worker st)"

definition fill_ok :: "nat \<Rightarrow> ('d, 'e, 's, 'w) fill_state \<Rightarrow> bool" where
  "fill_ok B st \<longleftrightarrow> queue_wf (fs_queue st) \<and> roomy B (fs_queue st)
     \<and> frames_bounded B (wk_pending_frames (fs_worker st))
     \<and> packets_bounded B (src_pending_packets (fs_source st))
     \<and> norm_ok (wk_normalizer (fs_worker st))"

definition extends :: "nat \<Rightarrow> ('d, 'e, 's, 'w) fill_state \<Rightarrow> ('d, 'e, 's, 'w) fill_state \<Rightarrow> bool" where
  "extends B st st' \<longleftrightarrow> fill_ok B st'
     \<and> (\<exists>new. held_frames st' = held_frames st @ new
          \<and> continues (wk_normalizer (fs_worker st)) new (wk_normalizer (fs_worker st')))"

lemma extends_trans: "extends B st st1 \<Longrightarrow> extends B st1 st2 \<Longrightarrow> extends B st st2"
  unfolding extends_def by (metis append.assoc continues_trans)

text \<open>What the codec and the container library promise about the sizes they produce.\<close>

definition media_ok :: "nat \<Rightarrow> 'w playback_io \<Rightarrow> ('d, 'e, 's) opus_lib \<Rightarrow> bool" where
  "media_ok B io lib \<longleftrightarrow> decoder_fills_buffer lib \<and> encoder_bounded B lib
     \<and> webm_frames_bounded B (io_webm io)"

lemma drain_pending_frames_spec:
  assumes "drain_pending_frames wk q = (r, wk1, q1)" and "queue_wf q"
  shows "\<exists>b. r = Inr b \<and> b = (wk_pending_frames wk1 = []) \<and> queue_wf q1
    \<and> q_inner q1 @ wk_pending_frames wk1 = q_inner q @ wk_pending_frames wk
    \<and> wk_normalizer wk1 = wk_normalizer wk \<and> wk_recovery wk1 = wk_recovery wk
    \<and> (roomy B q \<and> frames_bounded B (wk_pending_frames wk)
        \<longrightarrow> roomy B q1 \<and> frames_bounded B (wk_pending_frames wk1))"
proof -
  obtain rest where pw: "push_while can_fit_frame OpusFrameQueue_push (wk_pending_frames wk) q = (rest, q1)"
    and "r = Inr (rest = [])" "wk1 = wk\<lparr>wk_pending_frames := rest\<rparr>"
    using assms(1) by (auto simp: drain_pending_frames_def drain_pending_loop_push_while Let_def
        split: prod.splits)
  with oq.push_while_spec [OF assms(2) pw] push_while_roomy [OF pw, of B] show ?thesis by simp
qed

lemma enqueue_frames_spec:
  assumes "enqueue_frames frames st = (r, st')" and "fill_ok B st"
    and "wk_pending_frames (fs_worker st) = []" and "frames_bounded B frames"
    and "list_all (\<lambda>f. frame_duration_samples f = 960) frames"
  shows "fill_ok B st' \<and> held_frames st' = held_frames st @ frames \<and> r = Inr ()
    \<and> wk_normalizer (fs_worker st') = wk_normalizer (fs_worker st) \<and> fs_source st' = fs_source st"
proof -
  obtain rest q1 where oa: "offer_all can_fit_frame OpusFrameQueue_push frames (fs_queue st) = (rest, q1)"
    by fastforce
  have ok: "queue_wf (fs_queue st)" "roomy B (fs_queue st)"
    using assms(2) by (simp_all add: fill_ok_def)
  note order = offer_all_roomy [OF ok assms(4,5) oa]
  then have "frames_bounded B (q_inner (fs_queue st) @ frames)"
    using ok(2) assms(4) by (simp add: roomy_def)
  then have "frames_bounded B rest" using order by (metis list_all_append)
  with order oq.offer_all_spec [OF ok(1) oa] assms oa show ?thesis
    by (auto simp: enqueue_frames_def enqueue_loop_offer_all held_frames_def fill_ok_def Let_def)
qed

lemma buffer_packet_extends:
  assumes "buffer_packet lib packet st = (Inr u, st')" and "media_ok B io lib"
    and "fill_ok B st" and "wk_pending_frames (fs_worker st) = []" and "length (pkt_data packet) \<le> B"
  shows "extends B st st' \<and> fs_source st' = fs_source st"
proof -
  from assms(1) obtain frames n1 where
    push: "push_packet lib (wk_normalizer (fs_worker st)) packet = (Inr frames, n1)"
    and enq: "enqueue_frames frames
          (st\<lparr>fs_worker := (fs_worker st)\<lparr>wk_normalizer := n1\<rparr>,
              fs_heap := heap_update (\<lambda>p. record_buffered p packet) (fs_heap st)
                           (wk_position (fs_worker st))\<rparr>) = (Inr u, st')"
    by (auto simp: buffer_packet_def split: prod.splits sum.splits)
  have norm: "norm_ok (wk_normalizer (fs_worker st))" using assms(3) by (simp add: fill_ok_def)
  have lib: "decoder_fills_buffer lib" "encoder_bounded B lib" using assms(2) by (simp_all add: media_ok_def)
  note facts = push_packet_continues [OF push lib(1) norm] push_packet_bounded [OF push lib(2) assms(5)]
  from enqueue_frames_spec [OF enq _ _ facts(3,2)] assms(3,4) facts(1) show ?thesis
    by (auto simp: extends_def fill_ok_def held_frames_def)
qed

lemma buffer_packets_extends:
  assumes "buffer_packets lib target packets st = (Inr u, st')" and "media_ok B io lib"
    and "fill_ok B st" and "packets_bounded B packets"
  shows "extends B st st' \<and> src_stream (fs_source st') = src_stream (fs_source st)"
  using assms
proof (induction packets arbitrary: st)
  case Nil
  then show ?case by (auto simp: extends_def)
next
  case (Cons packet packets)
  show ?case
  proof (cases "fill_done target (fs_queue st) \<or> wk_pending_frames (fs_worker st) \<noteq> []")
    case True
    with Cons.prems show ?thesis by (auto simp: extends_def fill_ok_def held_frames_def)
  next
    case False
    with Cons.prems(1) obtain u1 st1 where one: "buffer_packet lib packet st = (Inr u1, st1)"
      and rest: "buffer_packets lib target packets st1 = (Inr u, st')"
      by (auto split: prod.splits sum.splits)
    from False have ext: "extends B st st1" "fs_source st1 = fs_source st"
      using buffer_packet_extends [OF one Cons.prems(2,3)] Cons.prems(4) by simp_all
    then have "fill_ok B st1" by (simp add: extends_def)
    from Cons.IH [OF rest Cons.prems(2) this] Cons.prems(4) ext show ?thesis
      by (auto intro: extends_trans)
  qed
qed

lemma worker_read_frame:
  assumes "worker_read_stream_chunk io vid st = (r, st')"
  shows "wk_normalizer (fs_worker st') = wk_normalizer (fs_worker st)"
    and "wk_pending_frames (fs_worker st') = wk_pending_frames (fs_worker st)"
    and "fs_queue st' = fs_queue st"
  using assms by (auto simp: worker_read_stream_chunk_def split: prod.splits)

text \<open>An iteration, once the pending frames are drained.\<close>

definition fill_rest ::
  "'w playback_io \<Rightarrow> ('d, 'e, 's) opus_lib \<Rightarrow> string option \<Rightarrow> u64 \<Rightarrow> ('d, 'e, 's, 'w) fill_state
    \<Rightarrow> (PlaybackError + unit) option \<times> ('d, 'e, 's, 'w) fill_state \<Rightarrow> bool" where
  "fill_rest io lib vid target st1 out \<longleftrightarrow>
    (\<exists>packet packets u st2. src_pending_packets (fs_source st1) = packet # packets \<and> out = (None, st2)
       \<and> buffer_packet lib packet
           (st1\<lparr>fs_source := (fs_source st1)\<lparr>src_pending_packets := packets\<rparr>\<rparr>) = (Inr u, st2))
    \<or> (\<exists>st2 frames n1 r st3. worker_read_stream_chunk io vid st1 = (Inr None, st2)
       \<and> flush_normalizer lib (wk_normalizer (fs_worker st2)) = (Inr frames, n1)
       \<and> enqueue_frames frames (st2\<lparr>fs_worker := (fs_worker st2)\<lparr>wk_normalizer := n1\<rparr>\<rparr>) = (r, st3)
       \<and> out = (Some r, st3))
    \<or> (\<exists>st2 chunk packets demux1 u st3. worker_read_stream_chunk io vid st1 = (Inr (Some chunk), st2)
       \<and> src_pending_packets (fs_source st1) = []
       \<and> drain_packets (io_webm io) (push_bytes (src_demux (fs_source st2)) chunk) = (Inr packets, demux1)
       \<and> buffer_packets lib target packets
           (st2\<lparr>fs_source := (fs_source st2)\<lparr>src_demux := demux1\<rparr>\<rparr>) = (Inr u, st3)
       \<and> out = (None, st3))"

lemma fill_step_cases:
  assumes "fill_step io lib vid target st = (r, st')" and "r = None \<or> r = Some (Inr ())"
    and "queue_wf (fs_queue st)"
  obtains wk1 q1 where "drain_pending_frames (fs_worker st) (fs_queue st) = (Inr (wk_pending_frames wk1 = []), wk1, q1)"
    and "(r = Some (Inr ()) \<and> st' = st\<lparr>fs_worker := wk1, fs_queue := q1\<rparr>)
      \<or> (wk_pending_frames wk1 = [] \<and> fill_rest io lib vid target (st\<lparr>fs_worker := wk1, fs_queue := q1\<rparr>) (r, st'))"
proof -
  obtain x wk1 q1 where dr: "drain_pending_frames (fs_worker st) (fs_queue st) = (x, wk1, q1)"
    by (metis prod_cases3)
  with drain_pending_frames_spec [OF dr assms(3)] have x: "x = Inr (wk_pending_frames wk1 = [])" by auto
  let ?st1 = "st\<lparr>fs_worker := wk1, fs_queue := q1\<rparr>"
  show ?thesis
  proof (cases "wk_pending_frames wk1 = [] \<and> \<not> fill_done target q1")
    case False
    with assms(1) dr x that [of wk1 q1] show ?thesis
      by (auto simp: fill_step_def Let_def split: if_splits)
  next
    case True
    note step = assms(1) [unfolded fill_step_def dr x Let_def]
    have "fill_rest io lib vid target ?st1 (r, st')"
    proof (cases "src_pending_packets (fs_source st)")
      case (Cons packet packets)
      with True step assms(2) show ?thesis
        by (auto simp: fill_rest_def split: sum.splits prod.splits)
    next
      case Nil
      obtain rd st2 where rd: "worker_read_stream_chunk io vid ?st1 = (rd, st2)" by fastforce
      show ?thesis
      proof (cases rd)
        case (Inl e)
        with True Nil step rd assms(2) show ?thesis by auto
      next
        case (Inr co)
        with True Nil step rd assms(2) show ?thesis
          by (cases co) (auto simp: fill_rest_def split: sum.splits prod.splits)
      qed
    qed
    with True dr x that [of wk1 q1] show ?thesis by auto
  qed
qed

lemma worker_read_packets:
  assumes "worker_read_stream_chunk io vid st = (r, st')"
  shows "src_pending_packets (fs_source st') = src_pending_packets (fs_source st)"
  using assms
  by (auto simp: worker_read_stream_chunk_def read_stream_chunk_def reresolve_and_read_def
      reresolve_steady_source_def read_source_chunk_with_timeout_def
      reset_stream_to_current_byte_offset_def replace_resolved_stream_at_current_byte_offset_def
      Let_def split: prod.splits sum.splits if_splits option.splits)

lemma fill_rest_extends:
  assumes "fill_rest io lib vid target st1 (r, st')" and "media_ok B io lib" and "fill_ok B st1"
    and "wk_pending_frames (fs_worker st1) = []"
  shows "extends B st1 st'"
  using assms(1) unfolding fill_rest_def
proof (elim disjE exE conjE, goal_cases)
  case (1 packet packets u st2)
  with buffer_packet_extends [OF 1(3) assms(2)] assms(3,4) show ?case
    by (simp add: extends_def fill_ok_def held_frames_def)
next
  case (2 st2 frames n1 r3 st3)
  note frame = worker_read_frame [OF 2(1)] worker_read_packets [OF 2(1)]
  have "norm_ok (wk_normalizer (fs_worker st2))" using assms(3) frame by (simp add: fill_ok_def)
  note facts = flush_normalizer_spec [OF 2(2) this]
  have "frames_bounded B frames"
    using flush_normalizer_bounded [OF 2(2)] assms(2) by (simp add: media_ok_def)
  from enqueue_frames_spec [OF 2(3) _ _ this facts(2)] 2(4) assms(3,4) frame facts(1) show ?case
    by (auto simp: extends_def fill_ok_def held_frames_def)
next
  case (3 st2 chunk packets demux1 u st3)
  note frame = worker_read_frame [OF 3(1)] worker_read_packets [OF 3(1)]
  have "packets_bounded B packets"
    using drain_packets_bounded [OF 3(3)] assms(2) by (simp add: media_ok_def)
  from buffer_packets_extends [OF 3(4) assms(2) _ this] 3(5) assms(3,4) frame show ?case
    by (auto simp: extends_def fill_ok_def held_frames_def)
qed

lemma fill_step_extends:
  assumes "fill_step io lib vid target st = (r, st')" and "r = None \<or> r = Some (Inr ())"
    and "media_ok B io lib" and "fill_ok B st"
  shows "extends B st st'"
proof -
  have wf: "queue_wf (fs_queue st)" using assms(4) by (simp add: fill_ok_def)
  obtain wk1 q1 where dr: "drain_pending_frames (fs_worker st) (fs_queue st)
      = (Inr (wk_pending_frames wk1 = []), wk1, q1)"
    and cs: "(r = Some (Inr ()) \<and> st' = st\<lparr>fs_worker := wk1, fs_queue := q1\<rparr>)
      \<or> (wk_pending_frames wk1 = [] \<and> fill_rest io lib vid target (st\<lparr>fs_worker := wk1, fs_queue := q1\<rparr>) (r, st'))"
    using fill_step_cases [OF assms(1,2) wf] by blast
  let ?st1 = "st\<lparr>fs_worker := wk1, fs_queue := q1\<rparr>"
  have ext1: "extends B st ?st1"
    using drain_pending_frames_spec [OF dr wf, of B] assms(4)
    by (auto simp: extends_def fill_ok_def held_frames_def)
  then have "fill_ok B ?st1" by (simp add: extends_def)
  with cs fill_rest_extends [OF _ assms(3)] ext1 show ?thesis
    by (auto intro: extends_trans)
qed

lemma fill_loop_extends:
  assumes "fill_loop fuel io lib vid target st = Some (Inr u, st')"
    and "media_ok B io lib" and "fill_ok B st"
  shows "extends B st st'"
  using assms
proof (induction fuel arbitrary: st)
  case 0
  then show ?case by (auto simp: extends_def split: if_splits)
next
  case (Suc fuel)
  show ?case
  proof (cases "fill_done target (fs_queue st)")
    case True
    with Suc.prems show ?thesis by (auto simp: extends_def)
  next
    case False
    obtain r st1 where step: "fill_step io lib vid target st = (r, st1)" by fastforce
    with False Suc.prems(1) have r: "r = None \<or> r = Some (Inr ())"
      by (auto split: option.splits)
    note ext = fill_step_extends [OF step r Suc.prems(2,3)]
    show ?thesis
    proof (cases r)
      case None
      with False step Suc.prems(1) have "fill_loop fuel io lib vid target st1 = Some (Inr u, st')" by simp
      from Suc.IH [OF this Suc.prems(2)] ext show ?thesis
        by (auto simp: extends_def [of B st st1] intro: extends_trans [OF ext])
    next
      case (Some rr)
      with False step Suc.prems(1) ext show ?thesis by simp
    qed
  qed
qed

section \<open>Lemmas: the fill loop ends\<close>

lemma enqueue_frames_frame:
  assumes "enqueue_frames frames st = (r, st')" and "queue_wf (fs_queue st)"
  shows "queue_wf (fs_queue st') \<and> fs_source st' = fs_source st"
proof -
  obtain rest q1 where oa: "offer_all can_fit_frame OpusFrameQueue_push frames (fs_queue st) = (rest, q1)"
    by fastforce
  with oq.offer_all_spec [OF assms(2) oa] assms(1) show ?thesis
    by (auto simp: enqueue_frames_def enqueue_loop_offer_all Let_def)
qed

lemma buffer_packet_frame:
  assumes "buffer_packet lib packet st = (r, st')" and "queue_wf (fs_queue st)"
  shows "queue_wf (fs_queue st') \<and> fs_source st' = fs_source st"
proof (cases "push_packet lib (wk_normalizer (fs_worker st)) packet")
  case (Pair x n1)
  with assms enqueue_frames_frame show ?thesis
    by (cases x) (fastforce simp: buffer_packet_def)+
qed

lemma buffer_packets_frame:
  assumes "buffer_packets lib target packets st = (r, st')" and "queue_wf (fs_queue st)"
  shows "queue_wf (fs_queue st') \<and> src_stream (fs_source st') = src_stream (fs_source st)"
  using assms
proof (induction packets arbitrary: st)
  case (Cons packet packets)
  obtain r1 st1 where one: "buffer_packet lib packet st = (r1, st1)" by fastforce
  note frame = buffer_packet_frame [OF one Cons.prems(2)]
  with Cons.IH [of st1] Cons.prems one show ?case
    by (auto split: if_splits sum.splits)
qed simp

lemma fill_step_progress:
  assumes "fill_step io lib vid target st = (None, st')" and "queue_wf (fs_queue st)"
    and "good_server False (io_send io) R" and "good_stream False R (src_stream (fs_source st))"
  shows "queue_wf (fs_queue st') \<and> good_stream False R (src_stream (fs_source st'))
    \<and> (length R - unat (byte_offset (src_stream (fs_source st')))
          < length R - unat (byte_offset (src_stream (fs_source st)))
       \<or> (src_stream (fs_source st') = src_stream (fs_source st)
          \<and> length (src_pending_packets (fs_source st')) < length (src_pending_packets (fs_source st))))"
proof -
  obtain wk1 q1 where dr: "drain_pending_frames (fs_worker st) (fs_queue st)
      = (Inr (wk_pending_frames wk1 = []), wk1, q1)"
    and rest: "fill_rest io lib vid target (st\<lparr>fs_worker := wk1, fs_queue := q1\<rparr>) (None, st')"
    using fill_step_cases [OF assms(1) _ assms(2)] by (metis option.distinct(1))
  have wf1: "queue_wf q1" using drain_pending_frames_spec [OF dr assms(2)] by auto
  from rest show ?thesis
    unfolding fill_rest_def
  proof (elim disjE exE conjE, goal_cases)
    case (1 packet packets u st2)
    with buffer_packet_frame [OF 1(3)] wf1 assms(4) show ?case by simp
  next
    case (2 st2 frames n1 r st3)
    then show ?case by simp
  next
    case (3 st2 chunk packets demux1 u st3)
    then obtain rec1 w1 where rd: "read_stream_chunk io (wk_recovery wk1) vid (fs_source st) (fs_world st)
        = (Inr (Some chunk), rec1, fs_source st2, w1)"
      by (auto simp: worker_read_stream_chunk_def split: prod.splits)
    note good = read_stream_chunk_good [OF rd assms(3,4)]
    then have "chunk \<noteq> []" "prefix chunk (drop (unat (byte_offset (src_stream (fs_source st)))) R)"
      "unat (byte_offset (src_stream (fs_source st2)))
         = unat (byte_offset (src_stream (fs_source st))) + length chunk"
      by (auto simp: good_result_def delivers_def)
    then have "length R - unat (byte_offset (src_stream (fs_source st2)))
          < length R - unat (byte_offset (src_stream (fs_source st)))"
      using prefix_length_le [of chunk "drop (unat (byte_offset (src_stream (fs_source st)))) R"]
      by (cases chunk) auto
    with buffer_packets_frame [OF 3(4)] 3(5) wf1 worker_read_frame(3) [OF 3(1)] good show ?case by simp
  qed
qed

lemma fill_loop_mono:
  "fill_loop fuel io lib vid target st = Some out \<Longrightarrow> fuel \<le> fuel' \<Longrightarrow> fill_loop fuel' io lib vid target st = Some out"
proof (induction fuel arbitrary: st fuel')
  case 0
  then show ?case by (cases fuel') (auto split: if_splits)
next
  case (Suc fuel)
  then obtain k where "fuel' = Suc k" "fuel \<le> k" by (metis Suc_le_D Suc_le_mono)
  with Suc show ?case by (auto split: if_splits prod.splits option.splits)
qed

lemma fill_loop_returns:
  assumes "good_server False (io_send io) R" and "good_stream False R (src_stream (fs_source st))"
    and "queue_wf (fs_queue st)"
  shows "\<exists>fuel. fill_loop fuel io lib vid target st \<noteq> None"
  using assms(2,3)
proof (induction st rule: wf_induct_rule [OF wf_measures, of
      "[\<lambda>st. length R - unat (byte_offset (src_stream (fs_source st))),
        \<lambda>st. length (src_pending_packets (fs_source st))]"])
  case (1 st)
  obtain r st1 where step: "fill_step io lib vid target st = (r, st1)" by fastforce
  show ?case
  proof (cases r)
    case (Some rr)
    with step have "fill_loop (Suc 0) io lib vid target st \<noteq> None" by simp
    then show ?thesis ..
  next
    case None
    note prog = fill_step_progress [OF step [unfolded None] "1.prems"(2) assms(1) "1.prems"(1)]
    then have "\<exists>fuel. fill_loop fuel io lib vid target st1 \<noteq> None"
      by (intro "1.IH") auto
    then obtain fuel where "fill_loop fuel io lib vid target st1 \<noteq> None" ..
    with step None have "fill_loop (Suc fuel) io lib vid target st \<noteq> None" by simp
    then show ?thesis ..
  qed
qed

lemma worker_read_good:
  assumes "worker_read_stream_chunk io vid st = (r, st')" and "good_server False (io_send io) R"
    and "good_stream False R (src_stream (fs_source st))"
  shows "good_stream False R (src_stream (fs_source st'))"
proof (cases "read_stream_chunk io (wk_recovery (fs_worker st)) vid (fs_source st) (fs_world st)")
  case (fields r1 rec1 source1 w1)
  with assms read_stream_chunk_good [OF fields] show ?thesis by (auto simp: worker_read_stream_chunk_def)
qed

lemma fill_step_success_good:
  assumes "fill_step io lib vid target st = (Some (Inr ()), st')" and "queue_wf (fs_queue st)"
    and "good_server False (io_send io) R" and "good_stream False R (src_stream (fs_source st))"
  shows "good_stream False R (src_stream (fs_source st'))"
proof -
  obtain wk1 q1 where dr: "drain_pending_frames (fs_worker st) (fs_queue st) = (Inr (wk_pending_frames wk1 = []), wk1, q1)"
    and cs: "st' = st\<lparr>fs_worker := wk1, fs_queue := q1\<rparr>
      \<or> fill_rest io lib vid target (st\<lparr>fs_worker := wk1, fs_queue := q1\<rparr>) (Some (Inr ()), st')"
    using fill_step_cases [OF assms(1) _ assms(2)] by metis
  have wf: "queue_wf q1" using drain_pending_frames_spec [OF dr assms(2)] by auto
  from cs show ?thesis
  proof
    assume "fill_rest io lib vid target (st\<lparr>fs_worker := wk1, fs_queue := q1\<rparr>) (Some (Inr ()), st')"
    then obtain st2 frames n1 where
      rd: "worker_read_stream_chunk io vid (st\<lparr>fs_worker := wk1, fs_queue := q1\<rparr>) = (Inr None, st2)"
      and enq: "enqueue_frames frames (st2\<lparr>fs_worker := (fs_worker st2)\<lparr>wk_normalizer := n1\<rparr>\<rparr>) = (Inr (), st')"
      by (auto simp: fill_rest_def)
    have "good_stream False R (src_stream (fs_source st2))" using worker_read_good [OF rd assms(3)] assms(4) by simp
    with enqueue_frames_frame [OF enq] worker_read_frame(3) [OF rd] wf show ?thesis by simp
  qed (use assms(4) in simp)
qed

lemma fill_loop_success_good:
  assumes "fill_loop fuel io lib vid target st = Some (Inr u, st')" and "queue_wf (fs_queue st)"
    and "good_server False (io_send io) R" and "good_stream False R (src_stream (fs_source st))"
  shows "good_stream False R (src_stream (fs_source st'))"
  using assms(1,2,4)
proof (induction fuel arbitrary: st)
  case 0
  then show ?case by (auto split: if_splits)
next
  case (Suc fuel)
  obtain ro st1 where step: "fill_step io lib vid target st = (ro, st1)" by fastforce
  show ?case
  proof (cases ro)
    case None
    note prog = fill_step_progress [OF step [unfolded None] Suc.prems(2) assms(3) Suc.prems(3)]
    with Suc step None show ?thesis by (auto split: if_splits)
  next
    case (Some r)
    with Suc.prems step fill_step_success_good [OF _ Suc.prems(2) assms(3) Suc.prems(3)] show ?thesis
      by (auto split: if_splits)
  qed
qed

text \<open>Fills one after the other, each into its own queue from where the last one left the worker and the source, as the
  producer makes them. It stops at the first fill that fails.\<close>

fun run_fills ::
  "nat \<Rightarrow> 'w playback_io \<Rightarrow> ('d, 'e, 's) opus_lib \<Rightarrow> (u64 \<times> OpusFrameQueue) list \<Rightarrow> ('d, 'e, 's, 'w) fill_state
    \<Rightarrow> ((PlaybackError + unit) \<times> ('d, 'e, 's, 'w) fill_state) option" where
  "run_fills fuel io lib [] st = Some (Inr (), st)"
| "run_fills fuel io lib ((target_ms, queue) # fills) st =
    (case fill_queue_to_duration_ms fuel io lib target_ms (st\<lparr>fs_queue := queue\<rparr>) of
       None \<Rightarrow> None
     | Some (Inl err, st1) \<Rightarrow> Some (Inl err, st1)
     | Some (Inr _, st1) \<Rightarrow> run_fills fuel io lib fills st1)"

lemma run_fills_mono:
  "run_fills fuel io lib fills st = Some out \<Longrightarrow> fuel \<le> fuel' \<Longrightarrow> run_fills fuel' io lib fills st = Some out"
proof (induction fills arbitrary: st)
  case (Cons job fills)
  obtain target_ms queue where job: "job = (target_ms, queue)" by fastforce
  from Cons.prems(1) job obtain r st1 where
    one: "fill_queue_to_duration_ms fuel io lib target_ms (st\<lparr>fs_queue := queue\<rparr>) = Some (r, st1)"
    by (auto split: option.splits)
  then have "fill_queue_to_duration_ms fuel' io lib target_ms (st\<lparr>fs_queue := queue\<rparr>) = Some (r, st1)"
    using fill_loop_mono [OF _ Cons.prems(2)] by (simp add: fill_queue_to_duration_ms_def fill_queue_to_duration_ms_for_video_def)
  with Cons one job show ?case by (auto split: sum.splits)
qed simp

lemma run_fills_returns:
  assumes "good_server False (io_send io) R" and "good_stream False R (src_stream (fs_source st))"
    and "list_all (\<lambda>(_, queue). queue_wf queue) fills"
  shows "\<exists>fuel. run_fills fuel io lib fills st \<noteq> None"
  using assms(2,3)
proof (induction fills arbitrary: st)
  case (Cons job fills)
  obtain target_ms queue where job: "job = (target_ms, queue)" by fastforce
  let ?st = "st\<lparr>fs_queue := queue\<rparr>"
  have start: "good_stream False R (src_stream (fs_source ?st))" "queue_wf (fs_queue ?st)" using Cons.prems job by simp_all
  obtain f1 where "fill_queue_to_duration_ms f1 io lib target_ms ?st \<noteq> None"
    using fill_loop_returns [OF assms(1) start]
    unfolding fill_queue_to_duration_ms_def fill_queue_to_duration_ms_for_video_def by blast
  then obtain r st1 where one: "fill_queue_to_duration_ms f1 io lib target_ms ?st = Some (r, st1)" by auto
  have later: "fill_queue_to_duration_ms fuel io lib target_ms ?st = Some (r, st1)" if "f1 \<le> fuel" for fuel
    using one fill_loop_mono [OF _ that] by (simp add: fill_queue_to_duration_ms_def fill_queue_to_duration_ms_for_video_def)
  show ?case
  proof (cases r)
    case (Inl err)
    with one job have "run_fills f1 io lib (job # fills) st \<noteq> None" by simp
    then show ?thesis ..
  next
    case (Inr u)
    then have "good_stream False R (src_stream (fs_source st1))"
      using fill_loop_success_good [OF _ start(2) assms(1) start(1)] one
      unfolding fill_queue_to_duration_ms_def fill_queue_to_duration_ms_for_video_def by blast
    then obtain f2 where f2: "run_fills f2 io lib fills st1 \<noteq> None" using Cons.IH [of st1] Cons.prems(2) by (fastforce simp: job)
    then have "run_fills (max f1 f2) io lib fills st1 \<noteq> None" by (metis run_fills_mono max.cobounded2 not_None_eq)
    with later [of "max f1 f2"] Inr job have "run_fills (max f1 f2) io lib (job # fills) st \<noteq> None" by simp
    then show ?thesis ..
  qed
qed simp

section \<open>Properties\<close>

text \<open>C9: A fill is gapless. A fill that succeeds only appends: the frames already held, in the queue and
  set aside, stay where they are, and what is added continues the normalizer's time line, 20 ms frame
  after 20 ms frame with no gap, overlap or reordering, however the loop went through packets, chunks,
  retries, frames that did not fit and the final flush; and the queue stays within its limits. This is
  for frames of at most B bytes in a queue whose byte limit has room for its capacity of such frames,
  and a decoder that fills the buffer it is asked for.\<close>

theorem fill_queue_gapless:
  assumes "fill_queue_to_duration_ms fuel io lib target_ms st = Some (Inr (), st')"
    and "media_ok B io lib" and "fill_ok B st"
  shows "(\<exists>new. held_frames st' = held_frames st @ new
       \<and> continues (wk_normalizer (fs_worker st)) new (wk_normalizer (fs_worker st')))
    \<and> queue_wf (fs_queue st')"
  using fill_loop_extends [of fuel io lib _ _ st "()" st'] assms
  by (auto simp: fill_queue_to_duration_ms_def fill_queue_to_duration_ms_for_video_def extends_def fill_ok_def)

text \<open>C35: Fills end. For a track of finite length, for any fills one after the other, each into its own well-formed
  queue, to its own target, and from where the last one left the worker and the source, as the producer makes its
  refills, there is an amount of fuel from which on all of them return, a failure being a return too and the last;
  whatever the demuxer's answers and the failures of the reads. The stream need only be in step with the resource when
  the first fill starts: what it has buffered and what its open response has left are the resource's next bytes. A new
  or resumed stream is, having neither, and every fill that succeeds leaves it so, mid-response or not.\<close>

theorem fill_queue_terminates:
  assumes "serves (io_send io) R" and "length R < 2 ^ 64" and "in_step R (src_stream (fs_source st))"
    and "list_all (\<lambda>(_, queue). queue_wf queue) fills"
  shows "\<exists>enough. \<forall>fuel\<ge>enough. run_fills fuel io lib fills st \<noteq> None"
proof -
  have "good_server False (io_send io) R" using assms(1,2) by (simp add: good_server_def)
  moreover have "good_stream False R (src_stream (fs_source st))" using assms(3) by (simp add: good_stream_def)
  ultimately obtain fuel where "run_fills fuel io lib fills st \<noteq> None" using run_fills_returns assms(4) by blast
  then show ?thesis using run_fills_mono by (metis not_None_eq)
qed

text \<open>A queue with a byte limit can reorder the frames of one packet. When a frame is too large for
  the bytes left it is set aside while a later, smaller frame of the same packet is still pushed, so
  the later frame is played first.\<close>

theorem enqueue_frames_can_reorder:
  "let q = OpusFrameQueue_with_resource_limits 4 3 80;
       large = discord_frame [1, 2, 3, 4] 0; small = discord_frame [5] 960;
       (r, pending, q') = enqueue_loop [large, small] [] q
   in r = Inr () \<and> q_inner q' = [small] \<and> pending = [large]
      \<and> on_timeline 0 [large, small] 1920"
  by (simp add: queue_eval discord_frame_def OpusFrame_with_exact_metadata_def duration_ms_from_samples_def
      OpusFrame_with_duration_samples_def DISCORD_FRAME_SAMPLES_U32_def DISCORD_FRAME_MS_def Let_def)

section \<open>A concrete fill\<close>

abbreviation demo_fill :: "(unit, unit, unit, nat) fill_state" where
  "demo_fill \<equiv>
     \<lparr>fs_worker = \<lparr>wk_current_video_id = Some ''v'', wk_recovery = demo_recovery, wk_position = 0,
                   wk_prebuffer_target_ms = 80, wk_normalizer = DiscordOpusFrameNormalizer_new,
                   wk_pending_frames = []\<rparr>,
      fs_source = demo_source\<lparr>src_pending_packets := [packet_of_ms 20 0]\<rparr>,
      fs_queue = OpusFrameQueue_with_resource_limits 4 12 80, fs_heap = [PlaybackPosition_default], fs_world = 0\<rparr>"

lemma demo_fill_queue: "queue_wf (fs_queue demo_fill)"
  using queue_init_wf [of 12 80 4] by simp

lemma demo_fill_ok: "fill_ok 3 demo_fill"
proof -
  have "roomy 3 (fs_queue demo_fill)"
    by (simp add: roomy_def OpusFrameQueue_with_resource_limits_def)
  with demo_fill_queue show ?thesis
    by (simp add: fill_ok_def norm_ok_def DiscordOpusFrameNormalizer_new_def packet_of_ms_def)
qed

lemma demo_media_ok: "media_ok 3 demo_io silent_codec"
proof -
  have "encoder_bounded 3 silent_codec" by (simp add: encoder_bounded_def silent_codec_def)
  moreover have "webm_frames_bounded 3 (io_webm demo_io)"
    by (simp add: webm_frames_bounded_def demo_io_def demo_webm_def)
  ultimately show ?thesis by (simp add: media_ok_def silent_codec_fills_buffer)
qed

lemma demo_fill_run:
  "\<exists>st'. fill_queue_to_duration_ms (Suc 0) demo_io silent_codec 20 demo_fill = Some (Inr (), st')
     \<and> held_frames st' = [discord_frame [0xFC] 0]"
  by (simp add: fill_queue_to_duration_ms_def fill_queue_to_duration_ms_for_video_def fill_step_def
      fill_done_def drain_pending_frames_def buffer_packet_def enqueue_frames_def held_frames_def
      buffered_samples_def OpusFrameQueue_is_full_def OpusFrameQueue_new_def OpusFrameQueue_with_limits_def
      queue_eval normalizer_eval packet_of_ms_def heap_update_def)

theorem fill_queue_gapless_witness:
  "\<exists>st' new. fill_queue_to_duration_ms (Suc 0) demo_io silent_codec 20 demo_fill = Some (Inr (), st')
     \<and> held_frames st' = held_frames demo_fill @ new \<and> length new = 1"
proof -
  obtain st' where run: "fill_queue_to_duration_ms (Suc 0) demo_io silent_codec 20 demo_fill = Some (Inr (), st')"
    and held: "held_frames st' = [discord_frame [0xFC] 0]"
    using demo_fill_run by blast
  have empty: "held_frames demo_fill = []"
    by (simp add: held_frames_def OpusFrameQueue_new_def OpusFrameQueue_with_limits_def
        OpusFrameQueue_with_resource_limits_def)
  from fill_queue_gapless [OF run demo_media_ok demo_fill_ok]
  obtain new where "held_frames st' = held_frames demo_fill @ new" by blast
  with held empty run show ?thesis
    by (intro exI [of _ st'] exI [of _ new]) (metis append_Nil length_Cons list.size(3) One_nat_def)
qed

lemma demo_fill_in_step: "in_step demo_resource (src_stream (fs_source demo_fill))"
  using good_stream_resume [of False demo_resource demo_stream 0] by (simp add: good_stream_def)

text \<open>Two fills of 20 ms, into a queue each.\<close>

theorem fill_queue_terminates_witness:
  "\<exists>enough. \<forall>fuel\<ge>enough.
     run_fills fuel demo_io silent_codec [(20, fs_queue demo_fill), (20, fs_queue demo_fill)] demo_fill \<noteq> None"
proof -
  have "serves (io_send demo_io) demo_resource" by (simp add: demo_io_def demo_server)
  from fill_queue_terminates [OF this _ demo_fill_in_step, of "[(20, fs_queue demo_fill), (20, fs_queue demo_fill)]"] demo_fill_queue
  show ?thesis by (simp add: demo_resource_def)
qed

end
