(* ===== verification/Pacer.thy ===== *)
theory Pacer
  imports Prelude
begin

text \<open>
  The audio pacer (\<open>pacer.rs\<close>): when the next packet may be sent. Instants and durations are
  nanoseconds; \<open>Instant::now()\<close> is an argument. The sleeping itself is the runtime's timer.
\<close>

section \<open>Data and operations\<close>

definition FRAME_DURATION :: nanos where
  "FRAME_DURATION = 20000000"

definition SILENCE_FRAME :: bytes where
  "SILENCE_FRAME = [0xF8, 0xFF, 0xFE]"

datatype PacedPacketKind = Track | NonTrack

record PacerMark =
  media_clock_reset :: bool
  tempo_rebased :: bool

record AudioPacer =
  ideal_deadline :: nanos
  minimum_deadline :: nanos
  emitted_frames :: usize
  clock_reset_count :: usize
  tempo_rebase_count :: usize

definition AudioPacer_starting_after :: "nanos \<Rightarrow> nanos \<Rightarrow> AudioPacer" where
  "AudioPacer_starting_after now delay =
     \<lparr>ideal_deadline = now + delay, minimum_deadline = now + delay, emitted_frames = 0,
      clock_reset_count = 0, tempo_rebase_count = 0\<rparr>"

definition AudioPacer_new :: "nanos \<Rightarrow> AudioPacer" where
  "AudioPacer_new now =
     \<lparr>ideal_deadline = now, minimum_deadline = now, emitted_frames = 0,
      clock_reset_count = 0, tempo_rebase_count = 0\<rparr>"

definition next_deadline :: "AudioPacer \<Rightarrow> nanos" where
  "next_deadline p = max (ideal_deadline p) (minimum_deadline p)"

definition reset_after_interruption_at :: "AudioPacer \<Rightarrow> nanos \<Rightarrow> nanos \<Rightarrow> AudioPacer" where
  "reset_after_interruption_at p now next_spacing =
     p\<lparr>ideal_deadline := now + next_spacing, minimum_deadline := now + next_spacing,
       clock_reset_count := clock_reset_count p + 1\<rparr>"

definition reset_deadline :: "AudioPacer \<Rightarrow> nanos \<Rightarrow> AudioPacer" where
  "reset_deadline p now = reset_after_interruption_at p now 0"

definition mark_sent ::
  "AudioPacer \<Rightarrow> PacedPacketKind \<Rightarrow> nanos \<Rightarrow> nanos \<Rightarrow> nanos \<Rightarrow> PacerMark \<times> AudioPacer" where
  "mark_sent p packet_kind scheduled_deadline duration send_started_at =
    (let lateness = send_started_at - scheduled_deadline;
         reset = duration > 0 \<and> lateness \<ge> duration;
         p1 = (if reset then reset_after_interruption_at p send_started_at duration
               else p\<lparr>ideal_deadline := send_started_at + duration,
                      minimum_deadline := send_started_at + duration\<rparr>);
         p2 = p1\<lparr>emitted_frames := emitted_frames p1 + 1\<rparr>;
         rebased = reset \<and> packet_kind = Track;
         p3 = (if rebased then p2\<lparr>tempo_rebase_count := tempo_rebase_count p2 + 1\<rparr> else p2)
     in (\<lparr>media_clock_reset = reset, tempo_rebased = rebased\<rparr>, p3))"

definition mark_emitted :: "AudioPacer \<Rightarrow> nanos \<Rightarrow> nanos \<Rightarrow> AudioPacer" where
  "mark_emitted p duration now = snd (mark_sent p Track (next_deadline p) duration now)"

section \<open>Runs of sends\<close>

text \<open>A send: the packet's kind and duration, and by how much it starts after its deadline.\<close>

record paced_send =
  send_kind :: PacedPacketKind
  send_duration :: nanos
  send_lateness :: nanos

fun paced_run :: "AudioPacer \<Rightarrow> paced_send list \<Rightarrow> nanos list \<times> AudioPacer" where
  "paced_run p [] = ([], p)"
| "paced_run p (x # xs) =
    (let start = next_deadline p + send_lateness x;
         (mark, p1) = mark_sent p (send_kind x) (next_deadline p) (send_duration x) start;
         (starts, p2) = paced_run p1 xs
     in (start # starts, p2))"

definition missed_slot :: "paced_send \<Rightarrow> bool" where
  "missed_slot x \<longleftrightarrow> send_duration x > 0 \<and> send_lateness x \<ge> send_duration x"

lemma mark_sent_next_deadline:
  "next_deadline (snd (mark_sent p k d dur start)) = start + dur"
  by (simp add: mark_sent_def next_deadline_def reset_after_interruption_at_def Let_def)

lemma mark_sent_counts:
  "emitted_frames (snd (mark_sent p k d dur start)) = emitted_frames p + 1"
  "clock_reset_count (snd (mark_sent p k d dur start))
     = clock_reset_count p + (if dur > 0 \<and> start - d \<ge> dur then 1 else 0)"
  "tempo_rebase_count (snd (mark_sent p k d dur start))
     = tempo_rebase_count p + (if dur > 0 \<and> start - d \<ge> dur \<and> k = Track then 1 else 0)"
  by (simp_all add: mark_sent_def reset_after_interruption_at_def Let_def)

text \<open>The start times a run must produce: each packet starts at the end of the previous one plus its
  own lateness.\<close>

fun paced_starts :: "nanos \<Rightarrow> paced_send list \<Rightarrow> nanos list" where
  "paced_starts t [] = []"
| "paced_starts t (x # xs) =
     (t + send_lateness x) # paced_starts (t + send_lateness x + send_duration x) xs"

text \<open>Pacing of a whole run of sends. However late the sends are, each packet starts exactly its
  own lateness after the end of the previous packet, so packets are never bunched to catch up; the
  deadline left behind is the end of the last one; and the counters say how many packets were sent,
  how many missed a whole slot of their own duration (a clock reset) and how many of those carried the
  track (a tempo rebase).\<close>

theorem pacing_run:
  "case paced_run p xs of (starts, p') \<Rightarrow>
     starts = paced_starts (next_deadline p) xs
     \<and> next_deadline p' = next_deadline p + sum_list (map (\<lambda>x. send_lateness x + send_duration x) xs)
     \<and> emitted_frames p' = emitted_frames p + length xs
     \<and> clock_reset_count p' = clock_reset_count p + length (filter missed_slot xs)
     \<and> tempo_rebase_count p' = tempo_rebase_count p
         + length (filter (\<lambda>x. missed_slot x \<and> send_kind x = Track) xs)"
proof (induction xs arbitrary: p)
  case (Cons x xs)
  let ?start = "next_deadline p + send_lateness x"
  obtain mark p1 where m: "mark_sent p (send_kind x) (next_deadline p) (send_duration x) ?start = (mark, p1)"
    by fastforce
  note facts = mark_sent_next_deadline [of p "send_kind x" "next_deadline p" "send_duration x" ?start]
    mark_sent_counts [of p "send_kind x" "next_deadline p" "send_duration x" ?start]
  show ?case
    using Cons.IH [of p1] facts unfolding m by (auto simp: m missed_slot_def split: prod.splits)
qed simp

end
