(* ===== verification/VoiceErrors.thy ===== *)
theory VoiceErrors
  imports Prelude
begin

text \<open>
  The errors of the voice crate (\<open>error.rs\<close>) and the predicates the receive loops ask of them. The
  transparent errors of third-party packages keep nothing the code looks at.
\<close>

datatype VoiceError =
    UnsupportedEncryptionMode
  | UnsupportedGatewayOp u64
  | UnsupportedBinaryGatewayOp u8
  | InvalidState string
  | Io
  | InvalidUri
  | WebSocket

definition is_gateway_closed_during_receive :: "VoiceError \<Rightarrow> bool" where
  "is_gateway_closed_during_receive err \<longleftrightarrow> err = InvalidState ''voice gateway closed during receive''"

definition is_packet_unprotect_failure :: "VoiceError \<Rightarrow> bool" where
  "is_packet_unprotect_failure err \<longleftrightarrow>
     err \<in> set (map InvalidState
       [''voice protected packet truncated'', ''voice protected packet body too short'',
        ''voice packet unprotect failed'', ''voice rtp padding invalid''])"

end
