(* ===== verification/Discovery.thy ===== *)
theory Discovery
  imports VoiceErrors
begin

text \<open>
  IP discovery (\<open>discovery.rs\<close>): the request packet, the response parser and the exchange over a socket
  that is a parameter. \<open>str::from_utf8\<close> is the validity table of the Unicode standard; text is the list
  of its UTF-8 bytes read as characters.
\<close>

section \<open>UTF-8\<close>

definition in_bytes :: "nat \<Rightarrow> nat \<Rightarrow> u8 \<Rightarrow> bool" where
  "in_bytes lo hi b \<longleftrightarrow> lo \<le> unat b \<and> unat b \<le> hi"

fun utf8_valid :: "bytes \<Rightarrow> bool" where
  "utf8_valid [] \<longleftrightarrow> True"
| "utf8_valid (a # rest) \<longleftrightarrow>
    (if in_bytes 0 0x7F a then utf8_valid rest
     else (case rest of
             [] \<Rightarrow> False
           | b # rest2 \<Rightarrow>
              (if in_bytes 0xC2 0xDF a then in_bytes 0x80 0xBF b \<and> utf8_valid rest2
               else (case rest2 of
                       [] \<Rightarrow> False
                     | c # rest3 \<Rightarrow>
                        (if in_bytes 0xE0 0xEF a then
                           in_bytes (if unat a = 0xE0 then 0xA0 else 0x80)
                                    (if unat a = 0xED then 0x9F else 0xBF) b
                           \<and> in_bytes 0x80 0xBF c \<and> utf8_valid rest3
                         else (case rest3 of
                                 [] \<Rightarrow> False
                               | d # rest4 \<Rightarrow>
                                   in_bytes 0xF0 0xF4 a
                                   \<and> in_bytes (if unat a = 0xF0 then 0x90 else 0x80)
                                              (if unat a = 0xF4 then 0x8F else 0xBF) b
                                   \<and> in_bytes 0x80 0xBF c \<and> in_bytes 0x80 0xBF d
                                   \<and> utf8_valid rest4))))))"

definition str_from_utf8 :: "bytes \<Rightarrow> string option" where
  "str_from_utf8 b = (if utf8_valid b then Some (map (\<lambda>x. char_of (unat x)) b) else None)"

section \<open>Discovery\<close>

record DiscoveredUdpAddress =
  discovered_ip :: string
  discovered_port :: u16

definition DISCOVERY_PACKET_LEN :: usize where
  "DISCOVERY_PACKET_LEN = 74"

definition DISCOVERY_REQUEST_TYPE :: u16 where
  "DISCOVERY_REQUEST_TYPE = 1"

definition DISCOVERY_RESPONSE_TYPE :: u16 where
  "DISCOVERY_RESPONSE_TYPE = 2"

definition DISCOVERY_BODY_LEN :: u16 where
  "DISCOVERY_BODY_LEN = 70"

definition build_ip_discovery_packet :: "u32 \<Rightarrow> bytes" where
  "build_ip_discovery_packet ssrc =
     u16_to_be_bytes DISCOVERY_REQUEST_TYPE @ u16_to_be_bytes DISCOVERY_BODY_LEN @ u32_to_be_bytes ssrc
     @ replicate (DISCOVERY_PACKET_LEN - 8) 0"

definition parse_ip_discovery_response :: "bytes \<Rightarrow> VoiceError + DiscoveredUdpAddress" where
  "parse_ip_discovery_response buf =
    (if length buf < DISCOVERY_PACKET_LEN
     then Inl (InvalidState ''ip discovery response shorter than expected'')
     else if u16_from_be_bytes (buf ! 0) (buf ! 1) \<noteq> DISCOVERY_RESPONSE_TYPE
     then Inl (InvalidState ''ip discovery response type invalid'')
     else if u16_from_be_bytes (buf ! 2) (buf ! 3) \<noteq> DISCOVERY_BODY_LEN
     then Inl (InvalidState ''ip discovery response length invalid'')
     else
       (let address_bytes = take 64 (drop 8 buf);
            address = takeWhile (\<lambda>b. b \<noteq> 0) address_bytes
        in res_bind (ok_or (InvalidState ''ip discovery response ip invalid utf-8'') (str_from_utf8 address))
             (\<lambda>ip. if ip = [] then Inl (InvalidState ''ip discovery response ip missing'')
                   else Inr \<lparr>discovered_ip = ip,
                             discovered_port = u16_from_be_bytes (buf ! 72) (buf ! 73)\<rparr>)))"

text \<open>The socket: sending the request, and one datagram with its source, read into the 74-byte buffer.\<close>

record ('w, 'addr) discovery_socket =
  sock_send :: "'w \<Rightarrow> bytes \<Rightarrow> 'addr \<Rightarrow> (VoiceError + unit) \<times> 'w"
  sock_recv :: "'w \<Rightarrow> (VoiceError + bytes \<times> 'addr) \<times> 'w"

definition discover_ip ::
  "('w, 'addr) discovery_socket \<Rightarrow> 'addr \<Rightarrow> u32 \<Rightarrow> 'w \<Rightarrow> (VoiceError + DiscoveredUdpAddress) \<times> 'w" where
  "discover_ip sock server ssrc w =
    (case sock_send sock w (build_ip_discovery_packet ssrc) server of
       (Inl err, w1) \<Rightarrow> (Inl err, w1)
     | (Inr _, w1) \<Rightarrow>
        (case sock_recv sock w1 of
           (Inl err, w2) \<Rightarrow> (Inl err, w2)
         | (Inr (datagram, from), w2) \<Rightarrow>
            (let buf = take DISCOVERY_PACKET_LEN datagram in
             (if from \<noteq> server
              then Inl (InvalidState ''ip discovery response source did not match server'')
              else if length buf < 8
              then Inl (InvalidState ''ip discovery response shorter than expected'')
              else if u32_from_be_bytes (buf ! 4) (buf ! 5) (buf ! 6) (buf ! 7) \<noteq> ssrc
              then Inl (InvalidState ''ip discovery response ssrc did not match request'')
              else parse_ip_discovery_response buf, w2))))"

section \<open>Properties\<close>

text \<open>The response a server sends: type, length, the source, the address padded with zeros, the port.\<close>

definition discovery_response :: "u32 \<Rightarrow> bytes \<Rightarrow> u16 \<Rightarrow> bytes" where
  "discovery_response ssrc ip port =
     u16_to_be_bytes 2 @ u16_to_be_bytes 70 @ u32_to_be_bytes ssrc
     @ ip @ replicate (64 - length ip) 0 @ u16_to_be_bytes port"

lemma utf8_valid_ascii: "list_all (\<lambda>b. unat b < 128) xs \<Longrightarrow> utf8_valid xs"
  by (induction xs) (auto simp: in_bytes_def)

lemma takeWhile_padded:
  assumes "list_all (\<lambda>b. b \<noteq> 0) ip"
  shows "takeWhile (\<lambda>b. b \<noteq> 0) (ip @ replicate n (0 :: u8)) = ip"
  using assms by (cases n) (auto simp: list_all_iff takeWhile_append)

lemma discovery_response_parts:
  assumes "length ip \<le> 64"
  shows "length (discovery_response ssrc ip port) = 74"
    and "take 64 (drop 8 (discovery_response ssrc ip port)) = ip @ replicate (64 - length ip) 0"
    and "discovery_response ssrc ip port ! 72 = ucast (drop_bit 8 port)"
    and "discovery_response ssrc ip port ! 73 = ucast port"
proof -
  define front where "front = u16_to_be_bytes 2 @ u16_to_be_bytes 70 @ u32_to_be_bytes ssrc
    @ ip @ replicate (64 - length ip) 0"
  have split: "discovery_response ssrc ip port = front @ u16_to_be_bytes port"
    by (simp add: front_def discovery_response_def)
  have len: "length front = 72" using assms by (simp add: front_def)
  show "length (discovery_response ssrc ip port) = 74"
    "discovery_response ssrc ip port ! 72 = ucast (drop_bit 8 port)"
    "discovery_response ssrc ip port ! 73 = ucast port"
    by (simp_all add: split len nth_append u16_to_be_bytes_def)
  show "take 64 (drop 8 (discovery_response ssrc ip port)) = ip @ replicate (64 - length ip) 0"
    using assms by (simp add: discovery_response_def u16_to_be_bytes_def u32_to_be_bytes_def)
qed

text \<open>Discovery. From the server's answer to its request, an address of at most 64 ASCII bytes and a
  port, the client learns exactly that address and port; an answer from another source, or for another
  stream, is refused, whatever it contains; and the request is 74 bytes long.\<close>

theorem discover_ip_learns_address:
  assumes "sock_send sock w (build_ip_discovery_packet ssrc) server = (Inr (), w1)"
    and "sock_recv sock w1 = (Inr (discovery_response ssrc' ip port, from), w2)"
    and "length ip \<le> 64" and "ip \<noteq> []" and "list_all (\<lambda>b. 0 < unat b \<and> unat b < 128) ip"
  shows "discover_ip sock server ssrc w =
      (if from \<noteq> server then Inl (InvalidState ''ip discovery response source did not match server'')
       else if ssrc' \<noteq> ssrc then Inl (InvalidState ''ip discovery response ssrc did not match request'')
       else Inr \<lparr>discovered_ip = map (\<lambda>x. char_of (unat x)) ip, discovered_port = port\<rparr>, w2)
    \<and> length (build_ip_discovery_packet ssrc) = 74"
proof -
  let ?buf = "discovery_response ssrc' ip port"
  note parts = discovery_response_parts [OF assms(3), of ssrc' port]
  have head: "?buf ! 0 = 0" "?buf ! 1 = 2" "?buf ! 2 = 0" "?buf ! 3 = 70"
    "u32_from_be_bytes (?buf ! 4) (?buf ! 5) (?buf ! 6) (?buf ! 7) = ssrc'"
    by (simp_all add: discovery_response_def u16_to_be_bytes_def u32_to_be_bytes_def)
  have nz: "list_all (\<lambda>b. b \<noteq> 0) ip" and ascii: "utf8_valid ip"
    using assms(5) by (auto simp: list_all_iff intro!: utf8_valid_ascii)
  have "parse_ip_discovery_response ?buf
      = Inr \<lparr>discovered_ip = map (\<lambda>x. char_of (unat x)) ip, discovered_port = port\<rparr>"
    using takeWhile_padded [OF nz] ascii assms(4)
    by (simp add: parse_ip_discovery_response_def DISCOVERY_PACKET_LEN_def DISCOVERY_RESPONSE_TYPE_def
        DISCOVERY_BODY_LEN_def parts head [simplified] str_from_utf8_def Let_def u16_from_be_bytes_def [of 0])
  moreover have whole: "take 74 (discovery_response s ip port) = discovery_response s ip port" for s
    using discovery_response_parts(1) [OF assms(3)] by simp
  ultimately have "discover_ip sock server ssrc w =
      (if from \<noteq> server then Inl (InvalidState ''ip discovery response source did not match server'')
       else if ssrc' \<noteq> ssrc then Inl (InvalidState ''ip discovery response ssrc did not match request'')
       else Inr \<lparr>discovered_ip = map (\<lambda>x. char_of (unat x)) ip, discovered_port = port\<rparr>, w2)"
    using head(5) parts(1)
    by (auto simp: discover_ip_def assms(1,2) DISCOVERY_PACKET_LEN_def Let_def whole)
  moreover have "length (build_ip_discovery_packet ssrc) = 74"
    by (simp add: build_ip_discovery_packet_def DISCOVERY_PACKET_LEN_def)
  ultimately show ?thesis by simp
qed

definition demo_discovery :: "(unit, nat) discovery_socket" where
  "demo_discovery =
     \<lparr>sock_send = (\<lambda>w _ _. (Inr (), w)), sock_recv = (\<lambda>w. (Inr (discovery_response 7 [49, 46, 50] 5000, 1), w))\<rparr>"

theorem discover_ip_learns_address_witness:
  "discover_ip demo_discovery 1 7 () = (Inr \<lparr>discovered_ip = ''1.2'', discovered_port = 5000\<rparr>, ())"
proof -
  have chars: "map (\<lambda>x. char_of (unat x)) [49, 46, 50 :: u8] = ''1.2''" by code_simp
  show ?thesis
    using discover_ip_learns_address [of demo_discovery "()" 7 1 "()" 7 "[49, 46, 50]" 5000 1 "()"] chars
    by (simp add: demo_discovery_def)
qed

end
