(* ===== verification/DaveWire.thy ===== *)
theory DaveWire
  imports VoiceErrors
begin

text \<open>
  The internal framing of an MLS commit with its optional welcome (\<open>dave/wire.rs\<close>) and the errors of the
  DAVE layer (\<open>dave/error.rs\<close>).
\<close>

datatype DaveError =
    NotInitialized
  | InvalidUserId
  | EmptyOutput string
  | MlsFailure string string string
  | MalformedCommitWelcome
  | Operation string string

fun is_epoch_mismatch :: "DaveError \<Rightarrow> bool" where
  "is_epoch_mismatch (MlsFailure _ _ reason) \<longleftrightarrow> str_contains ''epoch differs'' reason"
| "is_epoch_mismatch (Operation _ reason) \<longleftrightarrow> str_contains ''epoch differs'' reason"
| "is_epoch_mismatch _ \<longleftrightarrow> False"

definition LEN_BYTES :: usize where
  "LEN_BYTES = 4"

definition pack_commit_welcome :: "bytes \<Rightarrow> bytes option \<Rightarrow> bytes" where
  "pack_commit_welcome commit welcome =
    (let welcome = (case welcome of None \<Rightarrow> [] | Some w \<Rightarrow> w) in
     u32_to_be_bytes (word_of_nat (length commit)) @ commit
     @ u32_to_be_bytes (word_of_nat (length welcome)) @ welcome)"

definition take_exact :: "bytes \<Rightarrow> usize \<Rightarrow> DaveError + bytes \<times> bytes" where
  "take_exact input len =
    (if length input < len then Inl MalformedCommitWelcome else Inr (take len input, drop len input))"

definition read_len_prefixed :: "bytes \<Rightarrow> DaveError + usize \<times> bytes" where
  "read_len_prefixed input =
     res_bind (take_exact input LEN_BYTES) (\<lambda>(len, rest).
       Inr (unat (u32_from_be_bytes (len ! 0) (len ! 1) (len ! 2) (len ! 3)), rest))"

definition unpack_commit_welcome :: "bytes \<Rightarrow> DaveError + bytes \<times> bytes" where
  "unpack_commit_welcome commit_welcome =
     res_bind (read_len_prefixed commit_welcome) (\<lambda>(commit_len, rest).
     res_bind (take_exact rest commit_len) (\<lambda>(commit, rest).
     res_bind (read_len_prefixed rest) (\<lambda>(welcome_len, rest).
     res_bind (take_exact rest welcome_len) (\<lambda>(welcome, rest).
       if rest \<noteq> [] then Inl MalformedCommitWelcome else Inr (commit, welcome)))))"

lemma read_len_prefixed_prefix:
  assumes "n < 2 ^ 32"
  shows "read_len_prefixed (u32_to_be_bytes (word_of_nat n) @ rest) = Inr (n, rest)"
proof -
  have "u32_from_be_bytes (u32_to_be_bytes x ! 0) (u32_to_be_bytes x ! 1) (u32_to_be_bytes x ! 2)
      (u32_to_be_bytes x ! 3) = x" for x
    by (simp add: u32_to_be_bytes_def)
  with assms show ?thesis
    by (simp add: read_len_prefixed_def take_exact_def LEN_BYTES_def unat_of_nat_small)
qed

lemma unpack_pack:
  assumes "length commit < 2 ^ 32" and "length w < 2 ^ 32"
  shows "unpack_commit_welcome (u32_to_be_bytes (word_of_nat (length commit)) @ commit
     @ u32_to_be_bytes (word_of_nat (length w)) @ w) = Inr (commit, w)"
  using assms by (simp add: unpack_commit_welcome_def read_len_prefixed_prefix take_exact_def)

text \<open>Framing round trip. A commit and an optional welcome of less than 4 GiB each come back from the
  frame exactly, an absent welcome as an empty one; and only frames of this form are accepted: whatever
  bytes unpack, packing the result gives the same bytes back.\<close>

theorem commit_welcome_roundtrip:
  assumes "length commit < 2 ^ 32" and "length (case welcome of None \<Rightarrow> [] | Some w \<Rightarrow> w) < 2 ^ 32"
    and "unpack_commit_welcome framed = Inr (commit', welcome')"
  shows "unpack_commit_welcome (pack_commit_welcome commit welcome)
      = Inr (commit, case welcome of None \<Rightarrow> [] | Some w \<Rightarrow> w)
    \<and> pack_commit_welcome commit' (Some welcome') = framed"
proof -
  have four: "xs = u32_to_be_bytes (u32_from_be_bytes (xs ! 0) (xs ! 1) (xs ! 2) (xs ! 3))"
    if "length xs = 4" for xs
    using that by (auto simp: length_Suc_conv numeral_eq_Suc)
  obtain n r1 r2 m r3 where
    1: "read_len_prefixed framed = Inr (n, r1)" and 2: "take_exact r1 n = Inr (commit', r2)"
    and 3: "read_len_prefixed r2 = Inr (m, r3)" and 4: "take_exact r3 m = Inr (welcome', [])"
    using assms(3) by (auto simp: unpack_commit_welcome_def res_iff split: if_splits)
  have pre: "xs = u32_to_be_bytes (word_of_nat k) @ r"
    if "read_len_prefixed xs = Inr (k, r)" for xs k r
  proof -
    from that have "4 \<le> length xs" "r = drop 4 xs" "k = unat (u32_from_be_bytes (take 4 xs ! 0)
        (take 4 xs ! 1) (take 4 xs ! 2) (take 4 xs ! 3))"
      by (auto simp: read_len_prefixed_def take_exact_def LEN_BYTES_def res_iff split: if_splits)
    with four [of "take 4 xs"] show ?thesis
      by (metis append_take_drop_id word_nat_cast_eq length_take min.absorb2)
  qed
  have "commit' = take n r1" "n \<le> length r1" "r2 = drop n r1" "welcome' = r3" "m = length r3"
    using 2 4 by (auto simp: take_exact_def split: if_splits)
  then have "pack_commit_welcome commit' (Some welcome') = framed"
    using pre [OF 1] pre [OF 3] by (auto simp: pack_commit_welcome_def min_def)
  with unpack_pack [OF assms(1,2)] show ?thesis by (simp add: pack_commit_welcome_def Let_def)
qed

theorem commit_welcome_roundtrip_witness:
  "unpack_commit_welcome (pack_commit_welcome [4, 5] (Some [6, 7, 8])) = Inr ([4, 5], [6, 7, 8])
   \<and> pack_commit_welcome [1] (Some []) = [0, 0, 0, 1, 1, 0, 0, 0, 0]"
proof -
  have "unpack_commit_welcome [0, 0, 0, 1, 1, 0, 0, 0, 0] = Inr ([1], [])"
    by (simp add: unpack_commit_welcome_def read_len_prefixed_def take_exact_def LEN_BYTES_def
        u32_from_be_bytes_def)
  from commit_welcome_roundtrip [OF _ _ this, of "[4, 5]" "Some [6, 7, 8]"] show ?thesis by simp
qed

end
