(* ===== verification/Rtp.thy ===== *)
theory Rtp
  imports VoiceErrors
begin

text \<open>
  RTP headers and the send cursor (\<open>rtp.rs\<close>): building the fixed 12-byte header, parsing a header with
  contributing sources and an extension, and the sequence number and timestamp that wrap around.
\<close>

section \<open>Headers\<close>

record RtpHeader =
  rtp_version :: u8
  rtp_padding :: bool
  rtp_extension :: bool
  csrc_count :: u8
  rtp_marker :: bool
  payload_type :: u8
  header_sequence :: u16
  header_timestamp :: u32
  header_ssrc :: u32
  header_len :: usize

definition build_header :: "u32 \<Rightarrow> u16 \<Rightarrow> u32 \<Rightarrow> bytes" where
  "build_header ssrc seq timestamp =
     [0x80, 0x78] @ u16_to_be_bytes seq @ u32_to_be_bytes timestamp @ u32_to_be_bytes ssrc"

definition build_packet :: "u32 \<Rightarrow> u16 \<Rightarrow> u32 \<Rightarrow> bytes \<Rightarrow> bytes" where
  "build_packet ssrc seq timestamp payload = build_header ssrc seq timestamp @ payload"

definition parse_rtp_header :: "bytes \<Rightarrow> VoiceError + RtpHeader" where
  "parse_rtp_header packet =
    (if length packet < 12 then Inl (InvalidState ''voice rtp packet too short'')
     else
       (let first = packet ! 0; version = drop_bit 6 first in
        if version \<noteq> 2 then Inl (InvalidState ''voice rtp version unsupported'')
        else
          (let padding = first AND 0x20 \<noteq> 0;
               extension = first AND 0x10 \<noteq> 0;
               csrcs = first AND 0x0F;
               second = packet ! 1;
               marker = second AND 0x80 \<noteq> 0;
               ptype = second AND 0x7F;
               len0 = 12 + unat csrcs * 4
           in if length packet < len0 then Inl (InvalidState ''voice rtp csrc list truncated'')
              else
                res_bind
                  (if extension then
                     (if length packet < len0 + 4
                      then Inl (InvalidState ''voice rtp extension header truncated'')
                      else
                        (let words = u16_from_be_bytes (packet ! (len0 + 2)) (packet ! (len0 + 3));
                             len1 = len0 + 4 + unat words * 4
                         in if length packet < len1
                            then Inl (InvalidState ''voice rtp extension truncated'')
                            else Inr len1))
                   else Inr len0)
                  (\<lambda>len. Inr
                     \<lparr>rtp_version = version, rtp_padding = padding, rtp_extension = extension,
                      csrc_count = csrcs, rtp_marker = marker, payload_type = ptype,
                      header_sequence = u16_from_be_bytes (packet ! 2) (packet ! 3),
                      header_timestamp =
                        u32_from_be_bytes (packet ! 4) (packet ! 5) (packet ! 6) (packet ! 7),
                      header_ssrc =
                        u32_from_be_bytes (packet ! 8) (packet ! 9) (packet ! 10) (packet ! 11),
                      header_len = len\<rparr>))))"

section \<open>The cursor\<close>

record RtpSequenceState =
  cursor_sequence :: u16
  cursor_timestamp :: u32

definition RtpSequenceState_new :: RtpSequenceState where
  "RtpSequenceState_new = \<lparr>cursor_sequence = 0, cursor_timestamp = 0\<rparr>"

definition RtpSequenceState_from_parts :: "u16 \<Rightarrow> u32 \<Rightarrow> RtpSequenceState" where
  "RtpSequenceState_from_parts seq timestamp = \<lparr>cursor_sequence = seq, cursor_timestamp = timestamp\<rparr>"

definition cursor_current :: "RtpSequenceState \<Rightarrow> u16 \<times> u32" where
  "cursor_current st = (cursor_sequence st, cursor_timestamp st)"

definition advance_by_samples :: "RtpSequenceState \<Rightarrow> u32 \<Rightarrow> (u16 \<times> u32) \<times> RtpSequenceState" where
  "advance_by_samples st timestamp_delta =
     (cursor_current st,
      st\<lparr>cursor_sequence := cursor_sequence st + 1,
         cursor_timestamp := cursor_timestamp st + timestamp_delta\<rparr>)"

section \<open>Lemmas\<close>

lemma length_build_header [simp]: "length (build_header ssrc seq ts) = 12"
  by (simp add: build_header_def)

lemma parse_build_header:
  "parse_rtp_header (build_header ssrc seq ts @ payload) = Inr
     \<lparr>rtp_version = 2, rtp_padding = False, rtp_extension = False, csrc_count = 0, rtp_marker = False,
      payload_type = 120, header_sequence = seq, header_timestamp = ts, header_ssrc = ssrc,
      header_len = 12\<rparr>"
  by (simp add: parse_rtp_header_def build_header_def u16_to_be_bytes_def u32_to_be_bytes_def Let_def
      nth_Cons')

lemma parse_rtp_header_len:
  assumes "parse_rtp_header packet = Inr h"
  shows "12 \<le> header_len h" and "header_len h \<le> length packet"
    and "header_len h = 12 + 4 * unat (csrc_count h)
      + (if rtp_extension h
         then 4 + 4 * unat (u16_from_be_bytes (packet ! (14 + 4 * unat (csrc_count h)))
                                              (packet ! (15 + 4 * unat (csrc_count h))))
         else 0)"
  using assms
  by (auto simp: parse_rtp_header_def Let_def res_iff ac_simps split: if_splits)

text \<open>A packet built for a sequence number, timestamp, source and payload parses back to exactly
  these, with the fixed 12-byte header of version 2 and payload type 120, so the payload is what
  follows the header.\<close>

theorem rtp_build_parse_roundtrip:
  "case parse_rtp_header (build_packet ssrc seq ts payload) of
     Inl _ \<Rightarrow> False
   | Inr h \<Rightarrow> header_sequence h = seq \<and> header_timestamp h = ts \<and> header_ssrc h = ssrc
       \<and> payload_type h = 120 \<and> \<not> rtp_padding h
       \<and> drop (header_len h) (build_packet ssrc seq ts payload) = payload"
  by (simp add: build_packet_def parse_build_header)

text \<open>Whatever bytes arrive, a header that parses lies within the packet: its length is the fixed
  part plus the contributing sources plus the extension the packet announces, at least 12 and never
  beyond the end, so every slice the receiver takes with it is in range.\<close>

theorem rtp_header_within_packet:
  "case parse_rtp_header packet of
     Inl err \<Rightarrow> \<exists>msg. err = InvalidState msg
   | Inr h \<Rightarrow> 12 \<le> header_len h \<and> header_len h \<le> length packet \<and> rtp_version h = 2
       \<and> header_len h = 12 + 4 * unat (csrc_count h)
          + (if rtp_extension h
             then 4 + 4 * unat (u16_from_be_bytes (packet ! (14 + 4 * unat (csrc_count h)))
                                                  (packet ! (15 + 4 * unat (csrc_count h))))
             else 0)"
proof (cases "parse_rtp_header packet")
  case (Inl err)
  then show ?thesis by (auto simp: parse_rtp_header_def Let_def res_iff split: if_splits)
next
  case (Inr h)
  moreover from this have "rtp_version h = 2"
    by (auto simp: parse_rtp_header_def Let_def res_iff split: if_splits)
  ultimately show ?thesis using parse_rtp_header_len [OF Inr] by simp
qed

end
