(* ===== verification/Protection.thy ===== *)
theory Protection
  imports Rtp
begin

text \<open>
  Encryption modes (\<open>crypto.rs\<close>) and packet protection (\<open>protection.rs\<close>). The two AEAD ciphers are
  parameters; what the code relies on is the named hypothesis \<open>aead_correct\<close>. The nonce is the 32-bit
  counter of the context in big-endian, padded with zeros to the nonce length of the cipher, and is
  appended to the packet.
\<close>

section \<open>Encryption modes\<close>

datatype EncryptionMode = AeadAes256GcmRtpsize | AeadXChaCha20Poly1305Rtpsize

definition REQUIRED_MODE :: string where
  "REQUIRED_MODE = ''aead_xchacha20_poly1305_rtpsize''"

definition PREFERRED_MODE :: string where
  "PREFERRED_MODE = ''aead_aes256_gcm_rtpsize''"

fun EncryptionMode_as_str :: "EncryptionMode \<Rightarrow> string" where
  "EncryptionMode_as_str AeadAes256GcmRtpsize = PREFERRED_MODE"
| "EncryptionMode_as_str AeadXChaCha20Poly1305Rtpsize = REQUIRED_MODE"

definition EncryptionMode_from_str :: "string \<Rightarrow> VoiceError + EncryptionMode" where
  "EncryptionMode_from_str value =
    (if value = PREFERRED_MODE then Inr AeadAes256GcmRtpsize
     else if value = REQUIRED_MODE then Inr AeadXChaCha20Poly1305Rtpsize
     else Inl UnsupportedEncryptionMode)"

definition choose_mode :: "string list \<Rightarrow> VoiceError + EncryptionMode" where
  "choose_mode modes =
    (if list_ex (\<lambda>mode. mode = PREFERRED_MODE) modes then Inr AeadAes256GcmRtpsize
     else if list_ex (\<lambda>mode. mode = REQUIRED_MODE) modes then Inr AeadXChaCha20Poly1305Rtpsize
     else Inl UnsupportedEncryptionMode)"

definition pick_mode :: "string list \<Rightarrow> string option" where
  "pick_mode modes =
    (case choose_mode modes of Inl _ \<Rightarrow> None | Inr mode \<Rightarrow> Some (EncryptionMode_as_str mode))"

section \<open>Ciphers\<close>

record aead_lib =
  aead_key_ok :: "EncryptionMode \<Rightarrow> bytes \<Rightarrow> bool"
  aead_encrypt :: "EncryptionMode \<Rightarrow> bytes \<Rightarrow> bytes \<Rightarrow> bytes \<Rightarrow> bytes \<Rightarrow> (bytes \<times> bytes) option"
  aead_decrypt :: "EncryptionMode \<Rightarrow> bytes \<Rightarrow> bytes \<Rightarrow> bytes \<Rightarrow> bytes \<Rightarrow> bytes \<Rightarrow> bytes option"

definition PROTECTION_TAG_LEN :: usize where
  "PROTECTION_TAG_LEN = 16"

definition PROTECTION_NONCE_SUFFIX_LEN :: usize where
  "PROTECTION_NONCE_SUFFIX_LEN = 4"

text \<open>Keys of 32 bytes are accepted; encryption in place keeps the length and yields a 16-byte tag; and
  decrypting with the same key, nonce, associated data and tag gives the plaintext back.\<close>

definition aead_correct :: "aead_lib \<Rightarrow> bool" where
  "aead_correct lib \<longleftrightarrow>
    (\<forall>mode key. length key = 32 \<longrightarrow> aead_key_ok lib mode key)
    \<and> (\<forall>mode key nonce aad plain ct tag. aead_encrypt lib mode key nonce aad plain = Some (ct, tag) \<longrightarrow>
        length ct = length plain \<and> length tag = PROTECTION_TAG_LEN
        \<and> aead_decrypt lib mode key nonce aad ct tag = Some plain)"

fun nonce_len :: "EncryptionMode \<Rightarrow> nat" where
  "nonce_len AeadAes256GcmRtpsize = 12"
| "nonce_len AeadXChaCha20Poly1305Rtpsize = 24"

definition cipher_nonce :: "EncryptionMode \<Rightarrow> bytes \<Rightarrow> bytes" where
  "cipher_nonce mode suffix = suffix @ replicate (nonce_len mode - length suffix) 0"

section \<open>Protection\<close>

record ProtectionContext =
  prot_mode :: EncryptionMode
  prot_secret_key :: bytes
  next_nonce :: u32

definition ProtectionContext_new :: "EncryptionMode \<Rightarrow> bytes \<Rightarrow> VoiceError + ProtectionContext" where
  "ProtectionContext_new mode secret_key =
    (if length secret_key \<noteq> 32 then Inl (InvalidState ''voice packet protection key invalid'')
     else Inr \<lparr>prot_mode = mode, prot_secret_key = secret_key, next_nonce = 0\<rparr>)"

definition ProtectionContext_from_session :: "string \<Rightarrow> bytes \<Rightarrow> VoiceError + ProtectionContext" where
  "ProtectionContext_from_session mode secret_key =
     res_bind (EncryptionMode_from_str mode) (\<lambda>mode. ProtectionContext_new mode secret_key)"

definition protect_packet ::
  "aead_lib \<Rightarrow> ProtectionContext \<Rightarrow> bytes \<Rightarrow> bytes \<Rightarrow> (VoiceError + bytes) \<times> ProtectionContext" where
  "protect_packet lib ctx rtp_header payload =
    (let nonce_suffix = u32_to_be_bytes (next_nonce ctx);
         ctx1 = ctx\<lparr>next_nonce := next_nonce ctx + 1\<rparr>
     in if \<not> aead_key_ok lib (prot_mode ctx) (prot_secret_key ctx)
        then (Inl (InvalidState ''voice packet protection key invalid''), ctx1)
        else (case aead_encrypt lib (prot_mode ctx) (prot_secret_key ctx)
                     (cipher_nonce (prot_mode ctx) nonce_suffix) rtp_header payload of
                None \<Rightarrow> (Inl (InvalidState ''voice packet protection failed''), ctx1)
              | Some (ct, tag) \<Rightarrow> (Inr (rtp_header @ ct @ tag @ nonce_suffix), ctx1)))"

definition strip_padding :: "bytes \<Rightarrow> VoiceError + bytes" where
  "strip_padding plaintext =
    (if plaintext = [] then Inl (InvalidState ''voice rtp padding invalid'')
     else
       (let padding_len = unat (last plaintext) in
        if padding_len = 0 \<or> padding_len > length plaintext
        then Inl (InvalidState ''voice rtp padding invalid'')
        else Inr (take (length plaintext - padding_len) plaintext)))"

definition unprotect_packet ::
  "aead_lib \<Rightarrow> ProtectionContext \<Rightarrow> bytes \<Rightarrow> VoiceError + RtpHeader \<times> bytes" where
  "unprotect_packet lib ctx packet =
     res_bind (parse_rtp_header packet) (\<lambda>header.
     if length packet < header_len header then Inl (InvalidState ''voice protected packet truncated'')
     else
       (let body = drop (header_len header) packet in
        if length body < PROTECTION_TAG_LEN + PROTECTION_NONCE_SUFFIX_LEN
        then Inl (InvalidState ''voice protected packet body too short'')
        else
          (let ciphertext_and_tag = take (length body - PROTECTION_NONCE_SUFFIX_LEN) body;
               nonce_suffix = drop (length body - PROTECTION_NONCE_SUFFIX_LEN) body;
               ciphertext = take (length ciphertext_and_tag - PROTECTION_TAG_LEN) ciphertext_and_tag;
               tag = drop (length ciphertext_and_tag - PROTECTION_TAG_LEN) ciphertext_and_tag;
               header_bytes = take (header_len header) packet
           in if \<not> aead_key_ok lib (prot_mode ctx) (prot_secret_key ctx)
              then Inl (InvalidState ''voice packet protection key invalid'')
              else
                (case aead_decrypt lib (prot_mode ctx) (prot_secret_key ctx)
                        (cipher_nonce (prot_mode ctx) nonce_suffix) header_bytes ciphertext tag of
                   None \<Rightarrow> Inl (InvalidState ''voice packet unprotect failed'')
                 | Some plaintext \<Rightarrow>
                    (if rtp_padding header
                     then res_bind (strip_padding plaintext) (\<lambda>plain. Inr (header, plain))
                     else Inr (header, plaintext))))))"

section \<open>Properties\<close>

text \<open>Negotiation prefers AES-GCM whenever the server offers it, falls back to the required mode and
  fails exactly when neither is offered; and a mode's name parses back to the mode, so the mode
  selected is the mode the session description is decoded with.\<close>

theorem choose_mode_correct:
  "choose_mode modes =
     (if PREFERRED_MODE \<in> set modes then Inr AeadAes256GcmRtpsize
      else if REQUIRED_MODE \<in> set modes then Inr AeadXChaCha20Poly1305Rtpsize
      else Inl UnsupportedEncryptionMode)
   \<and> EncryptionMode_from_str (EncryptionMode_as_str mode) = Inr mode
   \<and> (case pick_mode modes of Some name \<Rightarrow> name \<in> set modes | None \<Rightarrow> True)"
proof -
  have "PREFERRED_MODE \<noteq> REQUIRED_MODE" by (simp add: PREFERRED_MODE_def REQUIRED_MODE_def)
  then show ?thesis
    by (cases mode) (auto simp: choose_mode_def list_ex_iff EncryptionMode_from_str_def pick_mode_def)
qed

lemma protect_packet_nonce:
  "next_nonce (snd (protect_packet lib ctx h p)) = next_nonce ctx + 1"
  "prot_mode (snd (protect_packet lib ctx h p)) = prot_mode ctx"
  "prot_secret_key (snd (protect_packet lib ctx h p)) = prot_secret_key ctx"
  by (auto simp: protect_packet_def Let_def split: option.split)

lemma protect_packet_shape:
  assumes "protect_packet lib ctx h p = (Inr packet, ctx')"
  obtains ct tag where "aead_encrypt lib (prot_mode ctx) (prot_secret_key ctx)
      (cipher_nonce (prot_mode ctx) (u32_to_be_bytes (next_nonce ctx))) h p = Some (ct, tag)"
    and "packet = h @ ct @ tag @ u32_to_be_bytes (next_nonce ctx)"
  using assms by (auto simp: protect_packet_def Let_def split: if_splits option.splits)

lemma unprotect_protected:
  assumes "aead_correct lib"
    and "protect_packet lib ctx (build_header ssrc seq ts) payload = (Inr packet, ctx')"
    and "prot_mode receiver = prot_mode ctx" and "prot_secret_key receiver = prot_secret_key ctx"
    and "length (prot_secret_key ctx) = 32"
  shows "\<exists>h. unprotect_packet lib receiver packet = Inr (h, payload) \<and> parse_rtp_header packet = Inr h
    \<and> header_sequence h = seq \<and> header_timestamp h = ts \<and> header_ssrc h = ssrc"
proof -
  let ?suffix = "u32_to_be_bytes (next_nonce ctx)"
  obtain ct tag where enc: "aead_encrypt lib (prot_mode ctx) (prot_secret_key ctx)
      (cipher_nonce (prot_mode ctx) ?suffix) (build_header ssrc seq ts) payload = Some (ct, tag)"
    and packet: "packet = build_header ssrc seq ts @ ct @ tag @ ?suffix"
    using protect_packet_shape [OF assms(2)] by metis
  with assms(1) have tag: "length tag = 16" and dec: "aead_decrypt lib (prot_mode ctx)
      (prot_secret_key ctx) (cipher_nonce (prot_mode ctx) ?suffix) (build_header ssrc seq ts) ct tag
      = Some payload"
    unfolding aead_correct_def PROTECTION_TAG_LEN_def by blast+
  have key: "aead_key_ok lib (prot_mode ctx) (prot_secret_key ctx)"
    using assms(1,5) by (simp add: aead_correct_def)
  show ?thesis
    by (simp add: unprotect_packet_def packet parse_build_header Let_def tag key dec assms(3,4)
        PROTECTION_TAG_LEN_def PROTECTION_NONCE_SUFFIX_LEN_def)
qed

text \<open>C40: Protection round trip. A packet protected under a header the builder makes is decrypted by any
  context with the same mode and key, whatever its own counter, to the same payload, and the header
  read back carries the sequence number, timestamp and source it was built with.\<close>

theorem protect_unprotect_roundtrip:
  assumes "aead_correct lib"
    and "protect_packet lib ctx (build_header ssrc seq ts) payload = (Inr packet, ctx')"
    and "prot_mode receiver = prot_mode ctx" and "prot_secret_key receiver = prot_secret_key ctx"
    and "length (prot_secret_key ctx) = 32"
  shows "\<exists>h. unprotect_packet lib receiver packet = Inr (h, payload)
    \<and> header_sequence h = seq \<and> header_timestamp h = ts \<and> header_ssrc h = ssrc"
  using unprotect_protected [OF assms] by blast

text \<open>A cipher that changes nothing and tags with zeros, for concrete runs.\<close>

definition null_aead :: aead_lib where
  "null_aead =
     \<lparr>aead_key_ok = (\<lambda>_ key. length key = 32),
      aead_encrypt = (\<lambda>_ _ _ _ plain. Some (plain, replicate 16 0)),
      aead_decrypt = (\<lambda>_ _ _ _ ct _. Some ct)\<rparr>"

lemma null_aead_correct: "aead_correct null_aead"
  by (simp add: aead_correct_def null_aead_def PROTECTION_TAG_LEN_def)

abbreviation demo_context :: ProtectionContext where
  "demo_context \<equiv> \<lparr>prot_mode = AeadAes256GcmRtpsize, prot_secret_key = replicate 32 7, next_nonce = 5\<rparr>"

theorem protect_unprotect_roundtrip_witness:
  "\<exists>packet ctx' h. protect_packet null_aead demo_context (build_header 9 1 960) [1, 2, 3] = (Inr packet, ctx')
     \<and> unprotect_packet null_aead (demo_context\<lparr>next_nonce := 0\<rparr>) packet = Inr (h, [1, 2, 3])
     \<and> header_sequence h = 1"
proof -
  obtain packet ctx' where run:
    "protect_packet null_aead demo_context (build_header 9 1 960) [1, 2, 3] = (Inr packet, ctx')"
    by (simp add: protect_packet_def null_aead_def)
  from protect_unprotect_roundtrip [OF null_aead_correct run, of "demo_context\<lparr>next_nonce := 0\<rparr>"] run
  show ?thesis by auto
qed

end
