(* ===== verification/Protocol.thy ===== *)
theory Protocol
  imports DaveWire Protection
begin

text \<open>
  The messages of the voice gateway (\<open>protocol.rs\<close>, the speaking message of \<open>speaking.rs\<close>). JSON values
  are a datatype; parsing text to a value is the JSON library's and a parameter. The builders return
  the value, the parsers read it. An object is the list of its members, looked up by key.
\<close>

section \<open>JSON\<close>

datatype JsonNumber = PosInt u64 | NegInt int | JsonFloat

datatype Value =
    Null
  | JBool bool
  | JNumber JsonNumber
  | JString string
  | JArray "Value list"
  | JObject "(string \<times> Value) list"

fun json_get :: "Value \<Rightarrow> string \<Rightarrow> Value option" where
  "json_get (JObject members) key = map_of members key"
| "json_get _ key = None"

fun as_u64 :: "Value \<Rightarrow> u64 option" where
  "as_u64 (JNumber (PosInt n)) = Some n"
| "as_u64 _ = None"

fun as_str :: "Value \<Rightarrow> string option" where
  "as_str (JString s) = Some s"
| "as_str _ = None"

fun as_array :: "Value \<Rightarrow> Value list option" where
  "as_array (JArray vs) = Some vs"
| "as_array _ = None"

fun is_object :: "Value \<Rightarrow> bool" where
  "is_object (JObject _) \<longleftrightarrow> True"
| "is_object _ \<longleftrightarrow> False"

definition json_uint :: "u64 \<Rightarrow> Value" where
  "json_uint n = JNumber (PosInt n)"

definition json_int :: "int \<Rightarrow> Value" where
  "json_int n = (if 0 \<le> n then JNumber (PosInt (word_of_int n)) else JNumber (NegInt n))"

definition and_then :: "'a option \<Rightarrow> ('a \<Rightarrow> 'b option) \<Rightarrow> 'b option" where
  "and_then m f = (case m of None \<Rightarrow> None | Some x \<Rightarrow> f x)"

lemma and_then_simps [simp]: "and_then None f = None" "and_then (Some x) f = f x"
  by (simp_all add: and_then_def)

section \<open>Events\<close>

record Ready =
  ready_ssrc :: u32
  ready_ip :: string
  ready_port :: u16
  ready_modes :: "string list"

record SessionDescription =
  session_mode :: string
  session_secret_key :: bytes
  session_dave_protocol_version :: "u16 option"

record Speaking =
  speaking_flags :: u64
  speaking_delay :: u64
  speaking_ssrc :: u32
  speaking_user_id :: "string option"

record Video =
  video_user_id :: "string option"
  video_audio_ssrc :: "u32 option"
  video_video_ssrc :: "u32 option"

record DavePrepareEpoch =
  epoch_transition_id :: "u16 option"
  epoch_name :: string
  epoch_protocol_version :: u16

datatype DaveMlsProposalsOperation = Append | Revoke

datatype VoiceGatewayEvent =
    Hello u64
  | ReadyEvent Ready
  | SessionDescriptionEvent SessionDescription
  | SpeakingEvent Speaking
  | HeartbeatAck "u64 option"
  | ClientsConnect "string list"
  | VideoEvent Video
  | ClientDisconnect string
  | MediaSinkWants
  | ClientFlags string "u64 option"
  | ClientPlatform string "u64 option"
  | DavePrepareTransition u16 u16
  | DaveExecuteTransition u16
  | DavePrepareEpochEvent DavePrepareEpoch
  | DaveMlsExternalSenderPackage bytes
  | DaveMlsProposals DaveMlsProposalsOperation bytes
  | DaveMlsPrepareCommitTransition u16 bytes
  | DaveMlsWelcome u16 bytes
  | Resumed

record VoiceGatewayPayload =
  payload_event :: VoiceGatewayEvent
  payload_seq :: "u64 option"

section \<open>Reading fields\<close>

definition field_u64 :: "Value \<Rightarrow> string \<Rightarrow> string \<Rightarrow> VoiceError + u64" where
  "field_u64 data key missing = ok_or (InvalidState missing) (and_then (json_get data key) as_u64)"

definition field_str :: "Value \<Rightarrow> string \<Rightarrow> string \<Rightarrow> VoiceError + string" where
  "field_str data key missing = ok_or (InvalidState missing) (and_then (json_get data key) as_str)"

definition field_u16 :: "Value \<Rightarrow> string \<Rightarrow> string \<Rightarrow> VoiceError + u16" where
  "field_u16 data key invalid =
     ok_or (InvalidState invalid) (and_then (and_then (json_get data key) as_u64) u16_try_from)"

definition require_object :: "Value \<Rightarrow> string \<Rightarrow> VoiceError + unit" where
  "require_object v invalid = (if is_object v then Inr () else Inl (InvalidState invalid))"

text \<open>An optional field: absent or null is none, anything else must convert.\<close>

definition parse_optional :: "(u64 \<Rightarrow> 'a option) \<Rightarrow> Value option \<Rightarrow> string \<Rightarrow> VoiceError + 'a option" where
  "parse_optional conv v invalid =
    (case v of
       None \<Rightarrow> Inr None
     | Some v \<Rightarrow>
        (if v = Null then Inr None
         else res_bind (ok_or (InvalidState invalid) (and_then (as_u64 v) conv)) (\<lambda>x. Inr (Some x))))"

definition parse_optional_u16 :: "Value option \<Rightarrow> string \<Rightarrow> VoiceError + u16 option" where
  "parse_optional_u16 = parse_optional u16_try_from"

definition parse_optional_u32 :: "Value option \<Rightarrow> string \<Rightarrow> VoiceError + u32 option" where
  "parse_optional_u32 = parse_optional u32_try_from"

definition parse_optional_u64 :: "Value option \<Rightarrow> string \<Rightarrow> VoiceError + u64 option" where
  "parse_optional_u64 = parse_optional Some"

definition parse_strings :: "Value option \<Rightarrow> string \<Rightarrow> string \<Rightarrow> VoiceError + string list" where
  "parse_strings v missing invalid =
     res_bind (ok_or (InvalidState missing) (and_then v as_array)) (\<lambda>vs.
       collect_results (map (\<lambda>x. ok_or (InvalidState invalid) (as_str x)) vs))"

definition parse_byte_array :: "Value option \<Rightarrow> string \<Rightarrow> string \<Rightarrow> VoiceError + bytes" where
  "parse_byte_array v missing invalid =
     res_bind (ok_or (InvalidState missing) (and_then v as_array)) (\<lambda>vs.
       collect_results (map (\<lambda>octet. ok_or (InvalidState invalid) (and_then (as_u64 octet) u8_try_from)) vs))"

fun parse_heartbeat_ack_nonce :: "Value \<Rightarrow> VoiceError + u64 option" where
  "parse_heartbeat_ack_nonce (JNumber n) =
     res_bind (ok_or (InvalidState ''voice heartbeat ack invalid'') (as_u64 (JNumber n))) (\<lambda>x. Inr (Some x))"
| "parse_heartbeat_ack_nonce (JObject members) =
     res_bind (ok_or (InvalidState ''voice heartbeat ack missing'')
                (and_then (json_get (JObject members) ''t'') as_u64)) (\<lambda>x. Inr (Some x))"
| "parse_heartbeat_ack_nonce _ = Inl (InvalidState ''voice heartbeat ack invalid'')"

fun epoch_string :: "Value \<Rightarrow> string option" where
  "epoch_string (JString epoch) = Some epoch"
| "epoch_string (JNumber n) = map_option (\<lambda>epoch. show_nat (unat epoch)) (as_u64 (JNumber n))"
| "epoch_string _ = None"

section \<open>Text messages\<close>

definition parse_ready :: "Value \<Rightarrow> VoiceError + VoiceGatewayEvent" where
  "parse_ready data =
     res_bind (field_u64 data ''ssrc'' ''voice ready ssrc missing'') (\<lambda>ssrc.
     res_bind (ok_or (InvalidState ''voice ready ssrc invalid'') (u32_try_from ssrc)) (\<lambda>ssrc.
     res_bind (field_str data ''ip'' ''voice ready ip missing'') (\<lambda>ip.
     res_bind (field_u64 data ''port'' ''voice ready port missing'') (\<lambda>port.
     res_bind (ok_or (InvalidState ''voice ready port invalid'') (u16_try_from port)) (\<lambda>port.
     res_bind (parse_strings (json_get data ''modes'') ''voice ready modes missing''
                ''voice ready mode invalid'') (\<lambda>modes.
       Inr (ReadyEvent \<lparr>ready_ssrc = ssrc, ready_ip = ip, ready_port = port, ready_modes = modes\<rparr>)))))))"

definition parse_session_description :: "Value \<Rightarrow> VoiceError + VoiceGatewayEvent" where
  "parse_session_description data =
     res_bind (field_str data ''mode'' ''voice session description mode missing'') (\<lambda>mode.
     res_bind (parse_byte_array (json_get data ''secret_key'')
                ''voice session description secret key missing''
                ''voice session description secret key invalid'') (\<lambda>key.
     res_bind (parse_optional_u16 (json_get data ''dave_protocol_version'')
                ''voice session description dave protocol version invalid'') (\<lambda>version.
       Inr (SessionDescriptionEvent
         \<lparr>session_mode = mode, session_secret_key = key, session_dave_protocol_version = version\<rparr>))))"

definition parse_speaking :: "Value \<Rightarrow> VoiceError + VoiceGatewayEvent" where
  "parse_speaking data =
     res_bind (field_u64 data ''speaking'' ''voice speaking flags missing'') (\<lambda>speaking.
     let delay = (case and_then (json_get data ''delay'') as_u64 of None \<Rightarrow> 0 | Some d \<Rightarrow> d) in
     res_bind (field_u64 data ''ssrc'' ''voice speaking ssrc missing'') (\<lambda>ssrc.
     res_bind (ok_or (InvalidState ''voice speaking ssrc invalid'') (u32_try_from ssrc)) (\<lambda>ssrc.
       Inr (SpeakingEvent
         \<lparr>speaking_flags = speaking, speaking_delay = delay, speaking_ssrc = ssrc,
          speaking_user_id = and_then (json_get data ''user_id'') as_str\<rparr>))))"

definition parse_video :: "Value \<Rightarrow> VoiceError + VoiceGatewayEvent" where
  "parse_video data =
     res_bind (require_object data ''voice video payload invalid'') (\<lambda>_.
     res_bind (parse_optional_u32 (json_get data ''audio_ssrc'') ''voice video audio ssrc invalid'') (\<lambda>audio.
     res_bind (parse_optional_u32 (json_get data ''video_ssrc'') ''voice video ssrc invalid'') (\<lambda>video.
       Inr (VideoEvent
         \<lparr>video_user_id = and_then (json_get data ''user_id'') as_str, video_audio_ssrc = audio,
          video_video_ssrc = video\<rparr>))))"

definition parse_prepare_epoch :: "Value \<Rightarrow> VoiceError + VoiceGatewayEvent" where
  "parse_prepare_epoch data =
     res_bind (parse_optional_u16 (json_get data ''transition_id'')
                ''voice dave prepare epoch transition id invalid'') (\<lambda>tid.
     res_bind (ok_or (InvalidState ''voice dave prepare epoch missing'')
                (and_then (json_get data ''epoch'') epoch_string)) (\<lambda>epoch.
     res_bind (field_u16 data ''protocol_version''
                ''voice dave prepare epoch protocol version invalid'') (\<lambda>version.
       Inr (DavePrepareEpochEvent
         \<lparr>epoch_transition_id = tid, epoch_name = epoch, epoch_protocol_version = version\<rparr>))))"

definition parse_event :: "u64 \<Rightarrow> Value \<Rightarrow> VoiceError + VoiceGatewayEvent" where
  "parse_event op data =
    (if op = 8 then
       res_bind (field_u64 data ''heartbeat_interval'' ''voice hello heartbeat interval missing'')
         (\<lambda>ms. Inr (Hello ms))
     else if op = 2 then parse_ready data
     else if op = 4 then parse_session_description data
     else if op = 5 then parse_speaking data
     else if op = 6 then
       res_bind (parse_heartbeat_ack_nonce data) (\<lambda>nonce. Inr (HeartbeatAck nonce))
     else if op = 11 then
       res_bind (parse_strings (json_get data ''user_ids'') ''voice clients connect user ids missing''
                  ''voice clients connect user id invalid'') (\<lambda>ids. Inr (ClientsConnect ids))
     else if op = 12 then parse_video data
     else if op = 13 then
       res_bind (field_str data ''user_id'' ''voice client disconnect user id missing'')
         (\<lambda>id. Inr (ClientDisconnect id))
     else if op = 15 then
       res_bind (require_object data ''voice media sink wants payload invalid'') (\<lambda>_. Inr MediaSinkWants)
     else if op = 18 then
       res_bind (field_str data ''user_id'' ''voice client flags user id missing'') (\<lambda>id.
       res_bind (parse_optional_u64 (json_get data ''flags'') ''voice client flags invalid'')
         (\<lambda>flags. Inr (ClientFlags id flags)))
     else if op = 20 then
       res_bind (field_str data ''user_id'' ''voice client platform user id missing'') (\<lambda>id.
       res_bind (parse_optional_u64 (json_get data ''platform'') ''voice client platform invalid'')
         (\<lambda>platform. Inr (ClientPlatform id platform)))
     else if op = 21 then
       res_bind (field_u16 data ''transition_id'' ''voice dave prepare transition id invalid'') (\<lambda>tid.
       res_bind (field_u16 data ''protocol_version''
                  ''voice dave prepare transition protocol version invalid'')
         (\<lambda>version. Inr (DavePrepareTransition tid version)))
     else if op = 24 then parse_prepare_epoch data
     else if op = 22 then
       res_bind (field_u16 data ''transition_id'' ''voice dave execute transition id invalid'')
         (\<lambda>tid. Inr (DaveExecuteTransition tid))
     else if op = 9 then Inr Resumed
     else Inl (UnsupportedGatewayOp op))"

definition parse_gateway_value :: "Value \<Rightarrow> VoiceError + VoiceGatewayPayload" where
  "parse_gateway_value payload =
     res_bind (field_u64 payload ''op'' ''voice gateway op missing'') (\<lambda>op.
     let seq = and_then (case json_get payload ''seq'' of
                           Some v \<Rightarrow> Some v | None \<Rightarrow> json_get payload ''s'') as_u64;
         data = (case json_get payload ''d'' of None \<Rightarrow> Null | Some v \<Rightarrow> v)
     in res_bind (parse_event op data) (\<lambda>event.
          Inr \<lparr>payload_event = event, payload_seq = seq\<rparr>))"

definition parse_gateway_message ::
  "(string \<Rightarrow> Value option) \<Rightarrow> string \<Rightarrow> VoiceError + VoiceGatewayPayload" where
  "parse_gateway_message from_str text =
     res_bind (ok_or (InvalidState ''voice gateway payload invalid json'') (from_str text))
       parse_gateway_value"

section \<open>Binary messages\<close>

definition parse_dave_proposals_operation :: "u8 \<Rightarrow> VoiceError + DaveMlsProposalsOperation" where
  "parse_dave_proposals_operation v =
    (if v = 0 then Inr Append else if v = 1 then Inr Revoke
     else Inl (InvalidState ''voice dave proposals operation invalid''))"

definition parse_binary_event :: "bytes \<Rightarrow> VoiceError + VoiceGatewayEvent" where
  "parse_binary_event b =
    (if b ! 2 = 25 then Inr (DaveMlsExternalSenderPackage (drop 3 b))
     else if b ! 2 = 27 then
       (if length b < 4 then Inl (InvalidState ''voice dave proposals payload too short'')
        else res_bind (parse_dave_proposals_operation (b ! 3)) (\<lambda>operation.
          Inr (DaveMlsProposals operation (drop 4 b))))
     else if b ! 2 = 29 then
       (if length b < 5
        then Inl (InvalidState ''voice dave prepare commit transition payload too short'')
        else Inr (DaveMlsPrepareCommitTransition (u16_from_be_bytes (b ! 3) (b ! 4)) (drop 5 b)))
     else if b ! 2 = 30 then
       (if length b < 5 then Inl (InvalidState ''voice dave welcome payload too short'')
        else Inr (DaveMlsWelcome (u16_from_be_bytes (b ! 3) (b ! 4)) (drop 5 b)))
     else Inl (UnsupportedBinaryGatewayOp (b ! 2)))"

definition parse_gateway_binary_message :: "bytes \<Rightarrow> VoiceError + VoiceGatewayPayload" where
  "parse_gateway_binary_message b =
    (if length b < 3 then Inl (InvalidState ''voice gateway binary payload too short'')
     else
       (let seq = ucast (u16_from_be_bytes (b ! 0) (b ! 1)) in
        res_bind (parse_binary_event b) (\<lambda>event.
          Inr \<lparr>payload_event = event, payload_seq = Some seq\<rparr>)))"

section \<open>Payloads sent\<close>

record VoiceContext =
  vc_guild_id :: string
  vc_channel_id :: string
  vc_user_id :: string
  vc_session_id :: string
  vc_endpoint :: string
  vc_token :: string

definition seq_ack_i64 :: "u64 option \<Rightarrow> int" where
  "seq_ack_i64 seq_ack =
    (case seq_ack of None \<Rightarrow> -1 | Some seq \<Rightarrow> if uint seq < 2 ^ 63 then uint seq else -1)"

definition identify_payload :: "VoiceContext \<Rightarrow> u16 option \<Rightarrow> Value" where
  "identify_payload voice max_version =
     JObject [(''op'', json_uint 0),
       (''d'', JObject ([(''server_id'', JString (vc_guild_id voice)),
                         (''user_id'', JString (vc_user_id voice)),
                         (''session_id'', JString (vc_session_id voice)),
                         (''token'', JString (vc_token voice))]
                        @ (case max_version of
                             None \<Rightarrow> []
                           | Some v \<Rightarrow> [(''max_dave_protocol_version'', json_uint (ucast v))])))]"

definition dave_transition_ready_payload :: "u16 \<Rightarrow> Value" where
  "dave_transition_ready_payload tid =
     JObject [(''op'', json_uint 23), (''d'', JObject [(''transition_id'', json_uint (ucast tid))])]"

definition dave_mls_invalid_commit_welcome_payload :: "u16 \<Rightarrow> Value" where
  "dave_mls_invalid_commit_welcome_payload tid =
     JObject [(''op'', json_uint 31), (''d'', JObject [(''transition_id'', json_uint (ucast tid))])]"

text \<open>The \<open>expect\<close> of the source is the \<open>None\<close> of the model: a panic.\<close>

definition dave_mls_commit_welcome_payload :: "bytes \<Rightarrow> bytes option" where
  "dave_mls_commit_welcome_payload commit_welcome =
    (case unpack_commit_welcome commit_welcome of
       Inl _ \<Rightarrow> None
     | Inr (commit, welcome) \<Rightarrow> Some (28 # commit @ welcome))"

definition dave_mls_key_package_payload :: "bytes \<Rightarrow> bytes" where
  "dave_mls_key_package_payload key_package = 26 # key_package"

definition select_protocol_payload :: "string \<Rightarrow> u16 \<Rightarrow> string \<Rightarrow> Value" where
  "select_protocol_payload ip port mode =
     JObject [(''op'', json_uint 1),
       (''d'', JObject [(''protocol'', JString ''udp''),
          (''data'', JObject [(''address'', JString ip), (''port'', json_uint (ucast port)),
                              (''mode'', JString mode)])])]"

definition heartbeat_payload :: "u64 \<Rightarrow> u64 option \<Rightarrow> Value" where
  "heartbeat_payload timestamp_millis seq_ack =
     JObject [(''op'', json_uint 3),
       (''d'', JObject [(''t'', json_uint timestamp_millis), (''seq_ack'', json_int (seq_ack_i64 seq_ack))])]"

definition resume_payload :: "string \<Rightarrow> string \<Rightarrow> string \<Rightarrow> u64 option \<Rightarrow> Value" where
  "resume_payload server_id session_id token seq_ack =
     JObject [(''op'', json_uint 7),
       (''d'', JObject [(''server_id'', JString server_id), (''session_id'', JString session_id),
          (''token'', JString token), (''seq_ack'', json_int (seq_ack_i64 seq_ack))])]"

definition SPEAKING_FLAG_MICROPHONE :: u64 where
  "SPEAKING_FLAG_MICROPHONE = 1"

definition speaking_payload :: "u32 \<Rightarrow> u64 \<Rightarrow> Value" where
  "speaking_payload ssrc speaking =
     JObject [(''op'', json_uint 5),
       (''d'', JObject [(''speaking'', json_uint speaking), (''delay'', json_uint 0),
                        (''ssrc'', json_uint (u64_from_u32 ssrc))])]"

definition choose_encryption_mode :: "Ready \<Rightarrow> VoiceError + string" where
  "choose_encryption_mode ready = ok_or UnsupportedEncryptionMode (pick_mode (ready_modes ready))"

section \<open>Lemmas\<close>

text \<open>Every parser of a known message fails only with an invalid-state error.\<close>

definition fails_invalid :: "VoiceError + 'a \<Rightarrow> bool" where
  "fails_invalid r \<longleftrightarrow> (\<forall>e. r = Inl e \<longrightarrow> (\<exists>msg. e = InvalidState msg))"

lemma fails_invalid_bind [intro!]:
  "fails_invalid r \<Longrightarrow> (\<And>x. fails_invalid (f x)) \<Longrightarrow> fails_invalid (res_bind r f)"
  by (auto simp: fails_invalid_def res_iff)

lemma fails_invalid_basic [simp, intro!]:
  "fails_invalid (Inr x)"
  "fails_invalid (Inl (InvalidState msg))"
  "fails_invalid (ok_or (InvalidState msg) m)"
  by (auto simp: fails_invalid_def res_iff)

lemma fails_invalid_collect [intro!]:
  "(\<And>x. fails_invalid (f x)) \<Longrightarrow> fails_invalid (collect_results (map f xs))"
  by (induction xs) auto

lemma fails_invalid_fields [simp, intro!]:
  "fails_invalid (field_u64 data key msg)"
  "fails_invalid (field_str data key msg)"
  "fails_invalid (field_u16 data key msg)"
  "fails_invalid (require_object data msg)"
  "fails_invalid (parse_optional conv v msg)"
  "fails_invalid (parse_strings v msg msg')"
  "fails_invalid (parse_byte_array v msg msg')"
  by (auto simp: field_u64_def field_str_def field_u16_def require_object_def parse_optional_def
      parse_strings_def parse_byte_array_def split: option.split)

lemma fails_invalid_messages [simp, intro!]:
  "fails_invalid (parse_ready data)"
  "fails_invalid (parse_session_description data)"
  "fails_invalid (parse_speaking data)"
  "fails_invalid (parse_video data)"
  "fails_invalid (parse_prepare_epoch data)"
  "fails_invalid (parse_heartbeat_ack_nonce data)"
  by (cases data; auto simp: parse_ready_def parse_session_description_def parse_speaking_def
      parse_video_def parse_prepare_epoch_def parse_optional_u16_def parse_optional_u32_def Let_def)+

definition text_opcodes :: "u64 list" where
  "text_opcodes = [2, 4, 5, 6, 8, 9, 11, 12, 13, 15, 18, 20, 21, 22, 24]"

text \<open>What a binary message looks like on the wire.\<close>

fun binary_body :: "VoiceGatewayEvent \<Rightarrow> bytes option" where
  "binary_body (DaveMlsExternalSenderPackage sender) = Some (25 # sender)"
| "binary_body (DaveMlsProposals operation proposals) =
     Some (27 # (case operation of Append \<Rightarrow> 0 | Revoke \<Rightarrow> 1) # proposals)"
| "binary_body (DaveMlsPrepareCommitTransition tid commit) = Some (29 # u16_to_be_bytes tid @ commit)"
| "binary_body (DaveMlsWelcome tid welcome) = Some (30 # u16_to_be_bytes tid @ welcome)"
| "binary_body _ = None"

lemma u16_to_from_be_bytes [simp]: "u16_to_be_bytes (u16_from_be_bytes a b) = [a, b]"
  unfolding u16_to_be_bytes_def u16_from_be_bytes_def
  by (auto intro!: bit_word_eqI simp: bit_simps not_bit_u8)

lemma parse_dave_proposals_operation_case:
  "parse_dave_proposals_operation (case operation of Append \<Rightarrow> 0 | Revoke \<Rightarrow> 1) = Inr operation"
  by (simp add: parse_dave_proposals_operation_def split: DaveMlsProposalsOperation.split)

lemma parse_binary_event_body:
  "binary_body event = Some body \<Longrightarrow> parse_binary_event (a # b # body) = Inr event"
  by (cases event rule: binary_body.cases)
    (auto simp: parse_binary_event_def parse_dave_proposals_operation_case u16_to_be_bytes_def)

lemma nth_drop_Cons: "n < length xs \<Longrightarrow> drop n xs = xs ! n # drop (Suc n) xs"
  by (simp add: Cons_nth_drop_Suc)

lemma binary_body_parse_event:
  assumes "parse_binary_event b = Inr event" and "3 \<le> length b"
  shows "binary_body event = Some (drop 2 b)"
proof -
  have 2: "drop 2 b = b ! 2 # drop 3 b" using assms(2) nth_drop_Cons [of 2 b] by simp
  have 3: "drop 3 b = b ! 3 # drop 4 b" if "4 \<le> length b" using that nth_drop_Cons [of 3 b] by simp
  have 4: "drop 4 b = b ! 4 # drop 5 b" if "5 \<le> length b" using that nth_drop_Cons [of 4 b] by simp
  show ?thesis
    using assms(1) 2 3 4
    by (auto simp: parse_binary_event_def parse_dave_proposals_operation_def res_iff
        split: if_splits)
qed

section \<open>Properties\<close>

text \<open>The gateway parser fails closed. Over every opcode and every JSON body, an opcode outside the
  fifteen known ones is reported as unsupported, with that opcode, and is never taken for another
  message; and a body that lacks a field or has one of the wrong type or out of range is an invalid
  state, never an event.\<close>

theorem gateway_parser_fails_closed:
  "case parse_event op data of
     Inr _ \<Rightarrow> op \<in> set text_opcodes
   | Inl (UnsupportedGatewayOp n) \<Rightarrow> n = op \<and> op \<notin> set text_opcodes
   | Inl (InvalidState _) \<Rightarrow> op \<in> set text_opcodes
   | Inl _ \<Rightarrow> False"
proof (cases "parse_event op data")
  case (Inr event)
  then show ?thesis by (auto simp: parse_event_def text_opcodes_def split: if_splits)
next
  case (Inl e)
  show ?thesis
  proof (cases "op \<in> set text_opcodes")
    case False
    with Inl show ?thesis by (auto simp: parse_event_def text_opcodes_def)
  next
    case True
    then have "fails_invalid (parse_event op data)"
      by (auto simp: parse_event_def text_opcodes_def parse_optional_u64_def)
    with Inl True show ?thesis by (auto simp: fails_invalid_def)
  qed
qed

text \<open>Binary messages are parsed exactly. The parser accepts a message if and only if it is a
  sequence number of two bytes followed by the encoding of one of the four binary events, and it
  returns that event and that number; so every byte of the sender, proposals, commit or welcome is
  handed on, and nothing else is accepted.\<close>

theorem binary_messages_exact:
  "parse_gateway_binary_message b = Inr \<lparr>payload_event = event, payload_seq = Some seq\<rparr>
     \<longleftrightarrow> (\<exists>seq' body. binary_body event = Some body \<and> b = u16_to_be_bytes seq' @ body \<and> seq = ucast seq')"
proof
  assume parsed: "parse_gateway_binary_message b = Inr \<lparr>payload_event = event, payload_seq = Some seq\<rparr>"
  then have len: "3 \<le> length b" and ev: "parse_binary_event b = Inr event"
    and seq: "seq = ucast (u16_from_be_bytes (b ! 0) (b ! 1))"
    by (auto simp: parse_gateway_binary_message_def Let_def res_iff split: if_splits)
  have "b = u16_to_be_bytes (u16_from_be_bytes (b ! 0) (b ! 1)) @ drop 2 b"
    using len by (cases b; cases "tl b") auto
  with binary_body_parse_event [OF ev len] seq
  show "\<exists>seq' body. binary_body event = Some body \<and> b = u16_to_be_bytes seq' @ body \<and> seq = ucast seq'"
    by blast
next
  assume "\<exists>seq' body. binary_body event = Some body \<and> b = u16_to_be_bytes seq' @ body \<and> seq = ucast seq'"
  then obtain seq' body where body: "binary_body event = Some body"
    and b: "b = u16_to_be_bytes seq' @ body" and seq: "seq = ucast seq'" by blast
  have "body \<noteq> []" using body by (cases event rule: binary_body.cases) auto
  with parse_binary_event_body [OF body] show
    "parse_gateway_binary_message b = Inr \<lparr>payload_event = event, payload_seq = Some seq\<rparr>"
    by (cases body) (simp_all add: parse_gateway_binary_message_def b seq u16_to_be_bytes_def Let_def)
qed

text \<open>The speaking message that is sent, parsed as a receiver parses it, is a speaking event with the
  flags and the source it was built from; and the sequence acknowledgement in heartbeats and resumes is
  the last sequence number, or -1 when there is none or it does not fit a signed 64-bit number.\<close>

theorem speaking_and_ack_payloads:
  "parse_gateway_value (speaking_payload ssrc flags) = Inr
     \<lparr>payload_event = SpeakingEvent \<lparr>speaking_flags = flags, speaking_delay = 0, speaking_ssrc = ssrc,
        speaking_user_id = None\<rparr>, payload_seq = None\<rparr>
   \<and> (case seq_ack_i64 ack of n \<Rightarrow> -1 \<le> n \<and> n < 2 ^ 63
        \<and> (n \<noteq> -1 \<longleftrightarrow> (case ack of None \<Rightarrow> False | Some seq \<Rightarrow> uint seq < 2 ^ 63))
        \<and> (n = -1 \<or> ack = Some (word_of_int n)))"
proof -
  have "u32_try_from (u64_from_u32 ssrc) = Some ssrc" by (simp add: to_nat)
  then have sent: "parse_gateway_value (speaking_payload ssrc flags) = Inr
     \<lparr>payload_event = SpeakingEvent \<lparr>speaking_flags = flags, speaking_delay = 0, speaking_ssrc = ssrc,
        speaking_user_id = None\<rparr>, payload_seq = None\<rparr>"
    by (simp add: parse_gateway_value_def speaking_payload_def field_u64_def json_uint_def parse_event_def
        parse_speaking_def Let_def)
  have ack: "-1 \<le> n \<and> n < 2 ^ 63
        \<and> (n \<noteq> -1 \<longleftrightarrow> (case ack of None \<Rightarrow> False | Some seq \<Rightarrow> uint seq < 2 ^ 63))
        \<and> (n = -1 \<or> ack = Some (word_of_int n))" if "n = seq_ack_i64 ack" for n
  proof (cases ack)
    case None
    with that show ?thesis by (simp add: seq_ack_i64_def)
  next
    case (Some seq)
    have "n = (if uint seq < 2 ^ 63 then uint seq else -1)"
      using that Some by (simp only: seq_ack_i64_def option.case)
    moreover have "- 1 \<le> uint seq" "uint seq \<noteq> - 1"
      using unsigned_greater_eq [of seq, where 'a = int] by linarith+
    ultimately show ?thesis using Some by (cases "uint seq < 2 ^ 63") simp_all
  qed
  show ?thesis by (rule conjI [OF sent ack [OF refl]])
qed

end
