(* ===== verification/Dave.thy ===== *)
theory Dave
  imports Protocol
begin

text \<open>
  The DAVE session and runtime context (\<open>dave/session.rs\<close>) around the \<open>davey\<close> library, which is a
  parameter: a record of its operations on an abstract session state, each a result with the error text
  on the left. \<open>catch_unwind\<close> around the library turns a panic, \<open>None\<close> in the parameter, into an error.
\<close>

section \<open>Library\<close>

datatype DaveMediaType = Audio | VideoMedia

datatype DaveCodec = OPUS | UNKNOWN

record 'ds davey_lib =
  davey_new :: "u16 \<Rightarrow> u64 \<Rightarrow> u64 \<Rightarrow> string + 'ds"
  davey_protocol_version :: "'ds \<Rightarrow> u16"
  davey_epoch :: "'ds \<Rightarrow> u64 option"
  davey_set_external_sender :: "'ds \<Rightarrow> bytes \<Rightarrow> (string + unit) option \<times> 'ds"
  davey_create_key_package :: "'ds \<Rightarrow> (string + bytes) \<times> 'ds"
  davey_process_proposals ::
    "'ds \<Rightarrow> DaveMlsProposalsOperation \<Rightarrow> bytes \<Rightarrow> u64 list option
      \<Rightarrow> (string + (bytes \<times> bytes option) option) \<times> 'ds"
  davey_process_commit :: "'ds \<Rightarrow> bytes \<Rightarrow> (string + unit) \<times> 'ds"
  davey_process_welcome :: "'ds \<Rightarrow> bytes \<Rightarrow> (string + unit) \<times> 'ds"
  davey_user_ids :: "'ds \<Rightarrow> u64 list option"
  davey_epoch_authenticator :: "'ds \<Rightarrow> bytes option"
  davey_pairwise_fingerprint :: "'ds \<Rightarrow> u16 \<Rightarrow> u64 \<Rightarrow> string + bytes"
  davey_encrypt :: "'ds \<Rightarrow> DaveMediaType \<Rightarrow> DaveCodec \<Rightarrow> bytes \<Rightarrow> (string + bytes) \<times> 'ds"
  davey_encrypt_opus :: "'ds \<Rightarrow> bytes \<Rightarrow> (string + bytes) \<times> 'ds"
  davey_decrypt :: "'ds \<Rightarrow> u64 \<Rightarrow> DaveMediaType \<Rightarrow> bytes \<Rightarrow> (string + bytes) \<times> 'ds"
  mls_external_sender :: "bytes \<Rightarrow> (string + unit) option"

definition dave_operation :: "string \<Rightarrow> string + 'a \<Rightarrow> DaveError + 'a" where
  "dave_operation context r = (case r of Inl reason \<Rightarrow> Inl (Operation context reason) | Inr x \<Rightarrow> Inr x)"

section \<open>Session\<close>

record 'ds DaveSession =
  dave_inner :: "'ds option"
  pending_external_sender :: "bytes option"

definition DaveSession_new :: "'ds DaveSession" where
  "DaveSession_new = \<lparr>dave_inner = None, pending_external_sender = None\<rparr>"

definition parse_user_id :: "string \<Rightarrow> DaveError + u64" where
  "parse_user_id user_id = ok_or InvalidUserId (parse_u64 user_id)"

definition parse_user_ids :: "string list \<Rightarrow> DaveError + u64 list" where
  "parse_user_ids user_ids = collect_results (map parse_user_id user_ids)"

definition external_sender_failure :: "(string + unit) option \<Rightarrow> DaveError + unit" where
  "external_sender_failure r =
    (case r of
       None \<Rightarrow> Inl (MlsFailure ''set external sender'' ''SetExternalSender''
                     ''external sender deserialization panicked'')
     | Some (Inl reason) \<Rightarrow> Inl (MlsFailure ''set external sender'' ''SetExternalSender'' reason)
     | Some (Inr _) \<Rightarrow> Inr ())"

definition validate_external_sender :: "'ds davey_lib \<Rightarrow> bytes \<Rightarrow> DaveError + unit" where
  "validate_external_sender lib external_sender =
     external_sender_failure (mls_external_sender lib external_sender)"

text \<open>In \<open>init\<close> the library call is not guarded, so its panic propagates: \<open>None\<close>.\<close>

definition dave_init ::
  "'ds davey_lib \<Rightarrow> 'ds DaveSession \<Rightarrow> u16 \<Rightarrow> u64 \<Rightarrow> string
    \<Rightarrow> ((DaveError + unit) \<times> 'ds DaveSession) option" where
  "dave_init lib session protocol_version group_id self_user_id =
    (if protocol_version = 0
     then Some (Inl (Operation ''init'' ''protocol version must be non-zero''), session)
     else (case parse_user_id self_user_id of
             Inl err \<Rightarrow> Some (Inl err, session)
           | Inr user \<Rightarrow>
              (case davey_new lib protocol_version user group_id of
                 Inl reason \<Rightarrow> Some (Inl (Operation ''init'' reason), session)
               | Inr inner \<Rightarrow>
                  (case pending_external_sender session of
                     None \<Rightarrow> Some (Inr (), session\<lparr>dave_inner := Some inner\<rparr>)
                   | Some sender \<Rightarrow>
                      (case davey_set_external_sender lib inner sender of
                         (None, _) \<Rightarrow> None
                       | (Some (Inl reason), _) \<Rightarrow>
                           Some (Inl (MlsFailure ''set external sender'' ''SetExternalSender'' reason), session)
                       | (Some (Inr _), inner1) \<Rightarrow> Some (Inr (), session\<lparr>dave_inner := Some inner1\<rparr>))))))"

definition set_external_sender ::
  "'ds davey_lib \<Rightarrow> 'ds DaveSession \<Rightarrow> bytes \<Rightarrow> (DaveError + unit) \<times> 'ds DaveSession" where
  "set_external_sender lib session external_sender =
    (case validate_external_sender lib external_sender of
       Inl err \<Rightarrow> (Inl err, session)
     | Inr _ \<Rightarrow>
        (let session1 = session\<lparr>pending_external_sender := Some external_sender\<rparr> in
         case dave_inner session1 of
           None \<Rightarrow> (Inr (), session1)
         | Some inner \<Rightarrow>
            (let (r, inner1) = davey_set_external_sender lib inner external_sender
             in (external_sender_failure r, session1\<lparr>dave_inner := Some inner1\<rparr>))))"

definition dave_protocol_version :: "'ds davey_lib \<Rightarrow> 'ds DaveSession \<Rightarrow> u16" where
  "dave_protocol_version lib session =
    (case dave_inner session of None \<Rightarrow> 0 | Some inner \<Rightarrow> davey_protocol_version lib inner)"

definition dave_epoch :: "'ds davey_lib \<Rightarrow> 'ds DaveSession \<Rightarrow> u64 option" where
  "dave_epoch lib session =
    (case dave_inner session of None \<Rightarrow> None | Some inner \<Rightarrow> davey_epoch lib inner)"

text \<open>Running a library operation on the inner session, which has to exist.\<close>

definition with_inner ::
  "'ds DaveSession \<Rightarrow> ('ds \<Rightarrow> (DaveError + 'a) \<times> 'ds) \<Rightarrow> (DaveError + 'a) \<times> 'ds DaveSession" where
  "with_inner session f =
    (case dave_inner session of
       None \<Rightarrow> (Inl NotInitialized, session)
     | Some inner \<Rightarrow> (let (r, inner1) = f inner in (r, session\<lparr>dave_inner := Some inner1\<rparr>)))"

definition key_package :: "'ds davey_lib \<Rightarrow> 'ds DaveSession \<Rightarrow> (DaveError + bytes) \<times> 'ds DaveSession" where
  "key_package lib session =
     with_inner session (\<lambda>inner.
       let (r, inner1) = davey_create_key_package lib inner in (dave_operation ''key package'' r, inner1))"

text \<open>What the library's answer to proposals becomes, shared by the session and the runtime context.\<close>

fun proposals_result ::
  "DaveMlsProposalsOperation \<Rightarrow> (bytes \<times> bytes option) option \<Rightarrow> DaveError + bytes option" where
  "proposals_result Revoke None = Inr None"
| "proposals_result _ (Some (commit, welcome)) = Inr (Some (pack_commit_welcome commit welcome))"
| "proposals_result Append None =
     Inl (Operation ''process proposals'' ''append proposals returned no commit/welcome'')"

definition expected_user_ids :: "string list \<Rightarrow> DaveError + u64 list option" where
  "expected_user_ids recognized =
    (if length recognized \<le> 1 then Inr None
     else res_bind (parse_user_ids recognized) (\<lambda>ids. Inr (Some ids)))"

definition inner_process_proposals ::
  "'ds davey_lib \<Rightarrow> DaveMlsProposalsOperation \<Rightarrow> bytes \<Rightarrow> u64 list option \<Rightarrow> 'ds
    \<Rightarrow> (DaveError + bytes option) \<times> 'ds" where
  "inner_process_proposals lib operation proposals expected inner =
    (let (r, inner1) = davey_process_proposals lib inner operation proposals expected
     in (res_bind (dave_operation ''process proposals'' r) (proposals_result operation), inner1))"

definition process_proposals_with_operation ::
  "'ds davey_lib \<Rightarrow> 'ds DaveSession \<Rightarrow> DaveMlsProposalsOperation \<Rightarrow> bytes \<Rightarrow> string list
    \<Rightarrow> (DaveError + bytes option) \<times> 'ds DaveSession" where
  "process_proposals_with_operation lib session operation proposals recognized =
    (case expected_user_ids recognized of
       Inl err \<Rightarrow> (Inl err, session)
     | Inr expected \<Rightarrow> with_inner session (inner_process_proposals lib operation proposals expected))"

definition process_proposals ::
  "'ds davey_lib \<Rightarrow> 'ds DaveSession \<Rightarrow> bytes \<Rightarrow> string list \<Rightarrow> (DaveError + bytes) \<times> 'ds DaveSession" where
  "process_proposals lib session proposals recognized =
    (let (r, session1) = process_proposals_with_operation lib session Append proposals recognized
     in (res_bind r (\<lambda>commit_welcome. ok_or (EmptyOutput ''commit welcome'') commit_welcome), session1))"

record DaveCommitResult =
  commit_failed :: bool
  commit_ignored :: bool
  commit_roster_member_ids :: "u64 list"

definition roster_of :: "'ds davey_lib \<Rightarrow> 'ds \<Rightarrow> u64 list" where
  "roster_of lib inner = (case davey_user_ids lib inner of None \<Rightarrow> [] | Some ids \<Rightarrow> ids)"

definition inner_process_commit ::
  "'ds davey_lib \<Rightarrow> bytes \<Rightarrow> 'ds \<Rightarrow> (DaveError + DaveCommitResult) \<times> 'ds" where
  "inner_process_commit lib commit inner =
    (let (r, inner1) = davey_process_commit lib inner commit
     in (res_bind (dave_operation ''process commit'' r) (\<lambda>_.
           Inr \<lparr>commit_failed = False, commit_ignored = False,
                commit_roster_member_ids = roster_of lib inner1\<rparr>), inner1))"

definition process_commit ::
  "'ds davey_lib \<Rightarrow> 'ds DaveSession \<Rightarrow> bytes \<Rightarrow> (DaveError + DaveCommitResult) \<times> 'ds DaveSession" where
  "process_commit lib session commit = with_inner session (inner_process_commit lib commit)"

definition inner_process_welcome :: "'ds davey_lib \<Rightarrow> bytes \<Rightarrow> 'ds \<Rightarrow> (DaveError + u64 list) \<times> 'ds" where
  "inner_process_welcome lib welcome inner =
    (let (r, inner1) = davey_process_welcome lib inner welcome
     in (res_bind (dave_operation ''process welcome'' r) (\<lambda>_. Inr (roster_of lib inner1)), inner1))"

definition process_welcome ::
  "'ds davey_lib \<Rightarrow> 'ds DaveSession \<Rightarrow> bytes \<Rightarrow> (DaveError + u64 list) \<times> 'ds DaveSession" where
  "process_welcome lib session welcome = with_inner session (inner_process_welcome lib welcome)"

definition last_epoch_authenticator :: "'ds davey_lib \<Rightarrow> 'ds DaveSession \<Rightarrow> DaveError + bytes" where
  "last_epoch_authenticator lib session =
     res_bind (ok_or NotInitialized (dave_inner session)) (\<lambda>inner.
       ok_or (EmptyOutput ''last epoch authenticator'') (davey_epoch_authenticator lib inner))"

definition pairwise_fingerprint ::
  "'ds davey_lib \<Rightarrow> 'ds DaveSession \<Rightarrow> string \<Rightarrow> DaveError + bytes" where
  "pairwise_fingerprint lib session user_id =
     res_bind (ok_or NotInitialized (dave_inner session)) (\<lambda>inner.
     res_bind (parse_user_id user_id) (\<lambda>user.
       dave_operation ''pairwise fingerprint'' (davey_pairwise_fingerprint lib inner 0 user)))"

definition session_encrypt_audio_frame ::
  "'ds davey_lib \<Rightarrow> 'ds DaveSession \<Rightarrow> bytes \<Rightarrow> (DaveError + bytes) \<times> 'ds DaveSession" where
  "session_encrypt_audio_frame lib session frame =
     with_inner session (\<lambda>inner.
       let (r, inner1) = davey_encrypt_opus lib inner frame
       in (dave_operation ''encrypt audio frame'' r, inner1))"

definition inner_decrypt ::
  "'ds davey_lib \<Rightarrow> string \<Rightarrow> DaveMediaType \<Rightarrow> bytes \<Rightarrow> 'ds \<Rightarrow> (DaveError + bytes) \<times> 'ds" where
  "inner_decrypt lib user_id media_type frame inner =
    (case parse_user_id user_id of
       Inl err \<Rightarrow> (Inl err, inner)
     | Inr user \<Rightarrow>
        (let (r, inner1) = davey_decrypt lib inner user media_type frame
         in (dave_operation ''decrypt audio frame'' r, inner1)))"

definition session_decrypt_audio_frame_from ::
  "'ds davey_lib \<Rightarrow> 'ds DaveSession \<Rightarrow> string \<Rightarrow> DaveMediaType \<Rightarrow> bytes
    \<Rightarrow> (DaveError + bytes) \<times> 'ds DaveSession" where
  "session_decrypt_audio_frame_from lib session user_id media_type frame =
     with_inner session (inner_decrypt lib user_id media_type frame)"

section \<open>Runtime context\<close>

record 'ds DaveRuntimeContext =
  rt_protocol_version :: u16
  rt_session :: 'ds

definition DaveRuntimeContext_from_session ::
  "'ds davey_lib \<Rightarrow> 'ds DaveSession \<Rightarrow> DaveError + 'ds DaveRuntimeContext" where
  "DaveRuntimeContext_from_session lib session =
     res_bind (ok_or NotInitialized (dave_inner session)) (\<lambda>inner.
       Inr \<lparr>rt_protocol_version = dave_protocol_version lib session, rt_session = inner\<rparr>)"

definition on_session ::
  "'ds DaveRuntimeContext \<Rightarrow> ('ds \<Rightarrow> (DaveError + 'a) \<times> 'ds) \<Rightarrow> (DaveError + 'a) \<times> 'ds DaveRuntimeContext" where
  "on_session ctx f = (let (r, s) = f (rt_session ctx) in (r, ctx\<lparr>rt_session := s\<rparr>))"

definition runtime_encrypt ::
  "'ds davey_lib \<Rightarrow> 'ds DaveRuntimeContext \<Rightarrow> DaveMediaType \<Rightarrow> bytes
    \<Rightarrow> (DaveError + bytes) \<times> 'ds DaveRuntimeContext" where
  "runtime_encrypt lib ctx media_type frame =
    (let codec = (case media_type of Audio \<Rightarrow> OPUS | VideoMedia \<Rightarrow> UNKNOWN) in
     on_session ctx (\<lambda>s. let (r, s1) = davey_encrypt lib s media_type codec frame
                         in (dave_operation ''encrypt frame'' r, s1)))"

definition runtime_encrypt_audio_frame ::
  "'ds davey_lib \<Rightarrow> 'ds DaveRuntimeContext \<Rightarrow> bytes \<Rightarrow> (DaveError + bytes) \<times> 'ds DaveRuntimeContext" where
  "runtime_encrypt_audio_frame lib ctx frame = runtime_encrypt lib ctx Audio frame"

definition decrypt_audio_frame_from ::
  "'ds davey_lib \<Rightarrow> 'ds DaveRuntimeContext \<Rightarrow> string \<Rightarrow> DaveMediaType \<Rightarrow> bytes
    \<Rightarrow> (DaveError + bytes) \<times> 'ds DaveRuntimeContext" where
  "decrypt_audio_frame_from lib ctx user_id media_type frame =
     on_session ctx (inner_decrypt lib user_id media_type frame)"

definition runtime_process_commit ::
  "'ds davey_lib \<Rightarrow> 'ds DaveRuntimeContext \<Rightarrow> bytes
    \<Rightarrow> (DaveError + DaveCommitResult) \<times> 'ds DaveRuntimeContext" where
  "runtime_process_commit lib ctx commit = on_session ctx (inner_process_commit lib commit)"

definition runtime_process_welcome ::
  "'ds davey_lib \<Rightarrow> 'ds DaveRuntimeContext \<Rightarrow> bytes \<Rightarrow> (DaveError + u64 list) \<times> 'ds DaveRuntimeContext" where
  "runtime_process_welcome lib ctx welcome = on_session ctx (inner_process_welcome lib welcome)"

definition runtime_process_proposals ::
  "'ds davey_lib \<Rightarrow> 'ds DaveRuntimeContext \<Rightarrow> DaveMlsProposalsOperation \<Rightarrow> bytes \<Rightarrow> string list
    \<Rightarrow> (DaveError + bytes option) \<times> 'ds DaveRuntimeContext" where
  "runtime_process_proposals lib ctx operation proposals recognized =
    (case expected_user_ids recognized of
       Inl err \<Rightarrow> (Inl err, ctx)
     | Inr expected \<Rightarrow> on_session ctx (inner_process_proposals lib operation proposals expected))"

section \<open>Properties\<close>

text \<open>Commits and welcomes of the library that fit the 32-bit length fields of the internal frame.\<close>

definition small_mls_messages :: "'ds davey_lib \<Rightarrow> bool" where
  "small_mls_messages lib \<longleftrightarrow>
    (\<forall>s operation proposals expected commit welcome s'.
       davey_process_proposals lib s operation proposals expected = (Inr (Some (commit, welcome)), s')
       \<longrightarrow> length commit < 2 ^ 32 \<and> length (case welcome of None \<Rightarrow> [] | Some w \<Rightarrow> w) < 2 ^ 32)"

text \<open>From proposals to the wire. Whatever proposals the runtime context processes, appending never
  succeeds without a commit, and the commit and welcome it returns can always be turned into the
  gateway message, the unwrapping that would panic on a malformed frame never does: the message is
  opcode 28 followed by exactly the library's commit and welcome.\<close>

theorem proposals_to_commit_message:
  assumes "runtime_process_proposals lib ctx operation proposals recognized = (Inr out, ctx')"
    and "small_mls_messages lib"
  shows "(case out of
      None \<Rightarrow> operation = Revoke
    | Some framed \<Rightarrow> \<exists>commit welcome s' expected.
        davey_process_proposals lib (rt_session ctx) operation proposals expected
          = (Inr (Some (commit, welcome)), s')
        \<and> dave_mls_commit_welcome_payload framed
          = Some (28 # commit @ (case welcome of None \<Rightarrow> [] | Some w \<Rightarrow> w)))"
proof -
  obtain expected r s' where call: "davey_process_proposals lib (rt_session ctx) operation proposals expected = (r, s')"
    and out: "res_bind (dave_operation ''process proposals'' r) (proposals_result operation) = Inr out"
    using assms(1)
    by (auto simp: runtime_process_proposals_def on_session_def inner_process_proposals_def Let_def
        split: sum.splits prod.splits)
  then obtain cw where r: "r = Inr cw" and res: "proposals_result operation cw = Inr out"
    by (auto simp: dave_operation_def res_iff split: sum.splits)
  show ?thesis
  proof (cases cw)
    case None
    with res show ?thesis by (cases operation) auto
  next
    case (Some pair)
    obtain c w where pair: "pair = (c, w)" by fastforce
    with Some res have framed: "out = Some (pack_commit_welcome c w)" by (cases operation) auto
    have "length c < 2 ^ 32" "length (case w of None \<Rightarrow> [] | Some b \<Rightarrow> b) < 2 ^ 32"
      using assms(2) call r Some pair unfolding small_mls_messages_def by blast+
    from unpack_pack [OF this] have "dave_mls_commit_welcome_payload (pack_commit_welcome c w)
        = Some (28 # c @ (case w of None \<Rightarrow> [] | Some b \<Rightarrow> b))"
      by (simp add: dave_mls_commit_welcome_payload_def pack_commit_welcome_def Let_def)
    with framed call r Some pair show ?thesis by auto
  qed
qed

text \<open>A library that accepts everything and encrypts nothing, for concrete runs.\<close>

definition demo_davey :: "unit davey_lib" where
  "demo_davey =
     \<lparr>davey_new = (\<lambda>_ _ _. Inr ()), davey_protocol_version = (\<lambda>_. 1), davey_epoch = (\<lambda>_. Some 1),
      davey_set_external_sender = (\<lambda>s _. (Some (Inr ()), s)), davey_create_key_package = (\<lambda>s. (Inr [9], s)),
      davey_process_proposals = (\<lambda>s _ _ _. (Inr (Some ([4, 5], Some [6])), s)),
      davey_process_commit = (\<lambda>s _. (Inr (), s)), davey_process_welcome = (\<lambda>s _. (Inr (), s)),
      davey_user_ids = (\<lambda>_. None), davey_epoch_authenticator = (\<lambda>_. None),
      davey_pairwise_fingerprint = (\<lambda>_ _ _. Inr []), davey_encrypt = (\<lambda>s _ _ f. (Inr f, s)),
      davey_encrypt_opus = (\<lambda>s f. (Inr f, s)), davey_decrypt = (\<lambda>s _ _ f. (Inr f, s)),
      mls_external_sender = (\<lambda>_. Some (Inr ()))\<rparr>"

theorem proposals_to_commit_message_witness:
  "\<exists>framed ctx'. runtime_process_proposals demo_davey \<lparr>rt_protocol_version = 1, rt_session = ()\<rparr> Append [1] []
       = (Inr (Some framed), ctx')
     \<and> dave_mls_commit_welcome_payload framed = Some [28, 4, 5, 6]"
proof -
  let ?ctx = "\<lparr>rt_protocol_version = 1, rt_session = ()\<rparr>"
  have run: "runtime_process_proposals demo_davey ?ctx Append [1] []
      = (Inr (Some (pack_commit_welcome [4, 5] (Some [6]))), ?ctx)"
    by (simp add: runtime_process_proposals_def expected_user_ids_def on_session_def
        inner_process_proposals_def demo_davey_def dave_operation_def)
  have "small_mls_messages demo_davey" by (simp add: small_mls_messages_def demo_davey_def)
  from proposals_to_commit_message [OF run this] run show ?thesis by (auto simp: demo_davey_def)
qed

end
