(* ===== verification/VoiceUdp.thy ===== *)
theory VoiceUdp
  imports Protection
begin

text \<open>
  The UDP transport (\<open>udp.rs\<close>) and the silence burst of \<open>speaking.rs\<close>: preparing packets ahead of
  time at a reserved RTP cursor, sending them in order against the shared send cursor, and discarding
  what was prepared but not sent. The socket is a parameter. A send is the three steps the code takes,
  load and compare the cursor, transmit, compare and exchange, so that sends from clones of the sender
  can be interleaved.
\<close>

section \<open>Packets and the cursor\<close>

record PreparedVoicePacket =
  prepared_bytes :: bytes
  prepared_duration_ms :: u64
  prepared_duration_samples :: u32
  is_track :: bool
  rtp_sequence :: u16
  rtp_timestamp :: u32
  protection_nonce :: "u32 option"

definition pack_rtp_cursor_parts :: "u16 \<Rightarrow> u32 \<Rightarrow> u64" where
  "pack_rtp_cursor_parts seq timestamp = push_bit 16 (ucast timestamp) OR ucast seq"

definition pack_rtp_cursor :: "RtpSequenceState \<Rightarrow> u64" where
  "pack_rtp_cursor st = (let (seq, timestamp) = cursor_current st in pack_rtp_cursor_parts seq timestamp)"

definition unpack_rtp_cursor :: "u64 \<Rightarrow> RtpSequenceState" where
  "unpack_rtp_cursor cursor = RtpSequenceState_from_parts (ucast cursor) (ucast (drop_bit 16 cursor))"

definition protection_nonce_from_packet :: "bytes \<Rightarrow> bool \<Rightarrow> u32 option" where
  "protection_nonce_from_packet packet protected =
    (if \<not> protected then None
     else (let suffix = drop (length packet - 4) packet in
           Some (u32_from_be_bytes (suffix ! 0) (suffix ! 1) (suffix ! 2) (suffix ! 3))))"

definition udp_duration_ms_from_samples :: "u32 \<Rightarrow> u64" where
  "udp_duration_ms_from_samples duration_samples =
     saturating_mul (u64_from_u32 duration_samples) 1000 div 48000"

section \<open>Preparing\<close>

record VoicePacketPreparer =
  preparer_ssrc :: u32
  reserved_sequence :: RtpSequenceState
  preparer_protection :: "ProtectionContext option"

definition VoicePacketPreparer_new :: "u32 \<Rightarrow> VoicePacketPreparer" where
  "VoicePacketPreparer_new ssrc =
     \<lparr>preparer_ssrc = ssrc, reserved_sequence = RtpSequenceState_new, preparer_protection = None\<rparr>"

definition with_protection :: "VoicePacketPreparer \<Rightarrow> ProtectionContext \<Rightarrow> VoicePacketPreparer" where
  "with_protection prep protection = prep\<lparr>preparer_protection := Some protection\<rparr>"

definition prepare_audio_packet ::
  "aead_lib \<Rightarrow> VoicePacketPreparer \<Rightarrow> bytes \<Rightarrow> u64 \<Rightarrow> u32
    \<Rightarrow> (VoiceError + PreparedVoicePacket) \<times> VoicePacketPreparer" where
  "prepare_audio_packet lib prep frame duration_ms duration_samples =
    (if duration_samples = 0 then (Inl (InvalidState ''voice audio frame duration invalid''), prep)
     else
       (let ((seq, timestamp), reserved) = advance_by_samples (reserved_sequence prep) duration_samples;
            prep1 = prep\<lparr>reserved_sequence := reserved\<rparr>;
            rtp_header = build_header (preparer_ssrc prep) seq timestamp;
            (packet, prep2) =
              (case preparer_protection prep1 of
                 Some protection \<Rightarrow>
                   (let (r, protection1) = protect_packet lib protection rtp_header frame
                    in (r, prep1\<lparr>preparer_protection := Some protection1\<rparr>))
               | None \<Rightarrow> (Inr (rtp_header @ frame), prep1))
        in case packet of
             Inl err \<Rightarrow> (Inl err, prep2)
           | Inr packet \<Rightarrow>
               (Inr \<lparr>prepared_bytes = packet, prepared_duration_ms = duration_ms,
                     prepared_duration_samples = duration_samples, is_track = True,
                     rtp_sequence = seq, rtp_timestamp = timestamp,
                     protection_nonce =
                       protection_nonce_from_packet packet (preparer_protection prep2 \<noteq> None)\<rparr>,
                prep2)))"

definition preparer_discard_unsent :: "VoicePacketPreparer \<Rightarrow> RtpSequenceState \<Rightarrow> VoicePacketPreparer" where
  "preparer_discard_unsent prep sent_cursor = prep\<lparr>reserved_sequence := sent_cursor\<rparr>"

section \<open>Sending\<close>

type_synonym 'w socket_send = "'w \<Rightarrow> bytes \<Rightarrow> (VoiceError + unit) \<times> 'w"

definition expected_cursor :: "PreparedVoicePacket \<Rightarrow> u64" where
  "expected_cursor packet = pack_rtp_cursor_parts (rtp_sequence packet) (rtp_timestamp packet)"

definition next_cursor :: "PreparedVoicePacket \<Rightarrow> u64" where
  "next_cursor packet =
     pack_rtp_cursor_parts (rtp_sequence packet + 1)
       (rtp_timestamp packet + prepared_duration_samples packet)"

definition cursor_check :: "u64 \<Rightarrow> PreparedVoicePacket \<Rightarrow> VoiceError + unit" where
  "cursor_check loaded packet =
    (let (seq, timestamp) = cursor_current (unpack_rtp_cursor loaded) in
     if rtp_sequence packet \<noteq> seq \<or> rtp_timestamp packet \<noteq> timestamp
     then Inl (InvalidState ''voice prepared packet rtp cursor is not next send'') else Inr ())"

definition cursor_exchange :: "u64 \<Rightarrow> PreparedVoicePacket \<Rightarrow> (VoiceError + unit) \<times> u64" where
  "cursor_exchange cursor packet =
    (if cursor = expected_cursor packet then (Inr (), next_cursor packet)
     else (Inl (InvalidState ''voice prepared packet send cursor advanced concurrently''), cursor))"

definition send_prepared_packet ::
  "'w socket_send \<Rightarrow> u64 \<Rightarrow> PreparedVoicePacket \<Rightarrow> 'w \<Rightarrow> (VoiceError + unit) \<times> u64 \<times> 'w" where
  "send_prepared_packet send_to cursor packet w =
    (case cursor_check cursor packet of
       Inl err \<Rightarrow> (Inl err, cursor, w)
     | Inr _ \<Rightarrow>
        (case send_to w (prepared_bytes packet) of
           (Inl err, w1) \<Rightarrow> (Inl err, cursor, w1)
         | (Inr _, w1) \<Rightarrow> (let (r, cursor1) = cursor_exchange cursor packet in (r, cursor1, w1))))"

text \<open>Datagrams as they arrive, each with its source: stray ones are skipped, the rest are cut to the
  size of the buffer. \<open>None\<close> is still waiting.\<close>

fun receive_loop :: "'addr \<Rightarrow> usize \<Rightarrow> (bytes \<times> 'addr) list \<Rightarrow> bytes option" where
  "receive_loop server max_packet_len [] = None"
| "receive_loop server max_packet_len ((packet, from) # rest) =
    (if from \<noteq> server then receive_loop server max_packet_len rest
     else Some (take max_packet_len packet))"

definition receive_packet :: "'addr \<Rightarrow> usize \<Rightarrow> (bytes \<times> 'addr) list \<Rightarrow> VoiceError + bytes option" where
  "receive_packet server max_packet_len datagrams =
    (if max_packet_len = 0 then Inl (InvalidState ''voice udp receive size invalid'')
     else Inr (receive_loop server max_packet_len datagrams))"

section \<open>The transport\<close>

record VoiceUdpTransport =
  tr_preparer :: VoicePacketPreparer
  tr_send_sequence :: u64

definition transport_new :: "u32 \<Rightarrow> VoiceUdpTransport" where
  "transport_new ssrc =
     \<lparr>tr_preparer = VoicePacketPreparer_new ssrc, tr_send_sequence = pack_rtp_cursor RtpSequenceState_new\<rparr>"

definition transport_with_protection :: "VoiceUdpTransport \<Rightarrow> ProtectionContext \<Rightarrow> VoiceUdpTransport" where
  "transport_with_protection tr protection =
     tr\<lparr>tr_preparer := with_protection (tr_preparer tr) protection\<rparr>"

definition prepare_audio_packet_with_duration_samples ::
  "aead_lib \<Rightarrow> VoiceUdpTransport \<Rightarrow> bytes \<Rightarrow> u64 \<Rightarrow> u32 \<Rightarrow> bool
    \<Rightarrow> (VoiceError + PreparedVoicePacket) \<times> VoiceUdpTransport" where
  "prepare_audio_packet_with_duration_samples lib tr frame duration_ms duration_samples track =
    (let (r, prep) = prepare_audio_packet lib (tr_preparer tr) frame duration_ms duration_samples
     in (map_sum id (\<lambda>packet. packet\<lparr>is_track := track\<rparr>) r, tr\<lparr>tr_preparer := prep\<rparr>))"

definition transport_send_prepared_packet ::
  "'w socket_send \<Rightarrow> VoiceUdpTransport \<Rightarrow> PreparedVoicePacket \<Rightarrow> 'w
    \<Rightarrow> (VoiceError + unit) \<times> VoiceUdpTransport \<times> 'w" where
  "transport_send_prepared_packet send_to tr packet w =
    (let (r, cursor, w1) = send_prepared_packet send_to (tr_send_sequence tr) packet w
     in (r, tr\<lparr>tr_send_sequence := cursor\<rparr>, w1))"

definition discard_unsent_prepared_packets :: "VoiceUdpTransport \<Rightarrow> VoiceUdpTransport" where
  "discard_unsent_prepared_packets tr =
     tr\<lparr>tr_preparer := preparer_discard_unsent (tr_preparer tr) (unpack_rtp_cursor (tr_send_sequence tr))\<rparr>"

definition send_audio_frame_with_duration_samples ::
  "'w socket_send \<Rightarrow> aead_lib \<Rightarrow> VoiceUdpTransport \<Rightarrow> bytes \<Rightarrow> u32 \<Rightarrow> 'w
    \<Rightarrow> (VoiceError + unit) \<times> VoiceUdpTransport \<times> 'w" where
  "send_audio_frame_with_duration_samples send_to lib tr frame duration_samples w =
    (case prepare_audio_packet_with_duration_samples lib tr frame
            (udp_duration_ms_from_samples duration_samples) duration_samples True of
       (Inl err, tr1) \<Rightarrow> (Inl err, tr1, w)
     | (Inr packet, tr1) \<Rightarrow> transport_send_prepared_packet send_to tr1 packet w)"

definition send_audio_frame ::
  "'w socket_send \<Rightarrow> aead_lib \<Rightarrow> VoiceUdpTransport \<Rightarrow> bytes \<Rightarrow> 'w
    \<Rightarrow> (VoiceError + unit) \<times> VoiceUdpTransport \<times> 'w" where
  "send_audio_frame send_to lib tr frame w = send_audio_frame_with_duration_samples send_to lib tr frame 960 w"

definition OPUS_SILENCE_FRAME :: bytes where
  "OPUS_SILENCE_FRAME = [0xF8, 0xFF, 0xFE]"

fun send_silence_loop ::
  "nat \<Rightarrow> 'w socket_send \<Rightarrow> aead_lib \<Rightarrow> VoiceUdpTransport \<Rightarrow> 'w
    \<Rightarrow> (VoiceError + unit) \<times> VoiceUdpTransport \<times> 'w" where
  "send_silence_loop 0 send_to lib tr w = (Inr (), tr, w)"
| "send_silence_loop (Suc n) send_to lib tr w =
    (case send_audio_frame send_to lib tr OPUS_SILENCE_FRAME w of
       (Inl err, tr1, w1) \<Rightarrow> (Inl err, tr1, w1)
     | (Inr _, tr1, w1) \<Rightarrow> send_silence_loop n send_to lib tr1 w1)"

definition send_stop_silence ::
  "'w socket_send \<Rightarrow> aead_lib \<Rightarrow> VoiceUdpTransport \<Rightarrow> 'w \<Rightarrow> (VoiceError + unit) \<times> VoiceUdpTransport \<times> 'w" where
  "send_stop_silence send_to lib tr w = send_silence_loop 5 send_to lib tr w"

section \<open>Lemmas\<close>

lemma unpack_pack_parts [simp]:
  "unpack_rtp_cursor (pack_rtp_cursor_parts seq ts) = RtpSequenceState_from_parts seq ts"
proof -
  have "ucast (push_bit 16 (ucast ts) OR ucast seq :: u64) = seq"
    by (rule bit_word_eqI) (auto simp: bit_simps)
  moreover have "ucast (drop_bit 16 (push_bit 16 (ucast ts) OR ucast seq :: u64)) = ts"
  proof (rule bit_word_eqI)
    fix n assume "n < LENGTH(32)"
    then show "bit (ucast (drop_bit 16 (push_bit 16 (ucast ts) OR ucast seq :: u64)) :: u32) n = bit ts n"
      using bit_imp_le_length [of seq "16 + n"] by (auto simp: bit_simps)
  qed
  ultimately show ?thesis by (simp add: unpack_rtp_cursor_def pack_rtp_cursor_parts_def)
qed

lemma pack_parts_inject [simp]:
  "pack_rtp_cursor_parts s t = pack_rtp_cursor_parts s' t' \<longleftrightarrow> s = s' \<and> t = t'"
proof
  assume "pack_rtp_cursor_parts s t = pack_rtp_cursor_parts s' t'"
  then have "RtpSequenceState_from_parts s t = RtpSequenceState_from_parts s' t'"
    by (metis unpack_pack_parts)
  then show "s = s' \<and> t = t'" by (simp add: RtpSequenceState_from_parts_def)
qed simp

lemma cursor_check_pack [simp]:
  "cursor_check (pack_rtp_cursor_parts s t) packet =
     (if rtp_sequence packet = s \<and> rtp_timestamp packet = t then Inr ()
      else Inl (InvalidState ''voice prepared packet rtp cursor is not next send''))"
  by (auto simp: cursor_check_def cursor_current_def RtpSequenceState_from_parts_def)

lemma cursor_exchange_pack [simp]:
  "cursor_exchange (pack_rtp_cursor_parts s t) packet =
     (if rtp_sequence packet = s \<and> rtp_timestamp packet = t
      then (Inr (), pack_rtp_cursor_parts (s + 1) (t + prepared_duration_samples packet))
      else (Inl (InvalidState ''voice prepared packet send cursor advanced concurrently''),
            pack_rtp_cursor_parts s t))"
  by (auto simp: cursor_exchange_def expected_cursor_def next_cursor_def)

lemma nonce_of_protected:
  "protection_nonce_from_packet (xs @ u32_to_be_bytes n) True = Some n"
  by (simp add: protection_nonce_from_packet_def u32_to_be_bytes_def)

lemma prepare_audio_packet_cursor:
  assumes "prepare_audio_packet lib prep frame ms samples = (r, prep')" and "samples \<noteq> 0"
  shows "reserved_sequence prep' = snd (advance_by_samples (reserved_sequence prep) samples)"
    and "r = Inr packet \<Longrightarrow> rtp_sequence packet = cursor_sequence (reserved_sequence prep)
        \<and> rtp_timestamp packet = cursor_timestamp (reserved_sequence prep)
        \<and> prepared_duration_samples packet = samples"
  using assms
  by (auto simp: prepare_audio_packet_def Let_def advance_by_samples_def cursor_current_def
      split: option.splits prod.splits sum.splits)

lemma prepare_audio_packet_nonce:
  assumes "prepare_audio_packet lib prep frame ms samples = (r, prep')" and "samples \<noteq> 0"
    and "preparer_protection prep = Some ctx"
  shows "\<exists>ctx'. preparer_protection prep' = Some ctx' \<and> next_nonce ctx' = next_nonce ctx + 1
    \<and> (\<forall>packet. r = Inr packet \<longrightarrow> protection_nonce packet = Some (next_nonce ctx))"
proof -
  let ?h = "build_header (preparer_ssrc prep) (cursor_sequence (reserved_sequence prep))
      (cursor_timestamp (reserved_sequence prep))"
  obtain x ctx' where p: "protect_packet lib ctx ?h frame = (x, ctx')" by fastforce
  have "next_nonce ctx' = next_nonce ctx + 1" using protect_packet_nonce(1) [of lib ctx ?h frame] p by simp
  moreover have "protection_nonce_from_packet packet True = Some (next_nonce ctx)" if "x = Inr packet" for packet
    using protect_packet_shape [OF p [unfolded that]] nonce_of_protected by (metis append.assoc)
  ultimately show ?thesis
    using assms p
    by (auto simp: prepare_audio_packet_def Let_def advance_by_samples_def cursor_current_def
        split: sum.splits)
qed

section \<open>Runs of a transport\<close>

datatype transport_op = PrepareOp bytes u64 u32 bool | SendOp PreparedVoicePacket | DiscardOp

fun transport_run ::
  "'w socket_send \<Rightarrow> aead_lib \<Rightarrow> transport_op list \<Rightarrow> VoiceUdpTransport \<Rightarrow> 'w
    \<Rightarrow> PreparedVoicePacket list \<times> PreparedVoicePacket list \<times> VoiceUdpTransport \<times> 'w" where
  "transport_run send_to lib [] tr w = ([], [], tr, w)"
| "transport_run send_to lib (PrepareOp frame ms samples track # ops) tr w =
    (let (r, tr1) = prepare_audio_packet_with_duration_samples lib tr frame ms samples track;
         (prepared, accepted, tr2, w2) = transport_run send_to lib ops tr1 w
     in ((case r of Inl _ \<Rightarrow> prepared | Inr packet \<Rightarrow> packet # prepared), accepted, tr2, w2))"
| "transport_run send_to lib (SendOp packet # ops) tr w =
    (let (r, tr1, w1) = transport_send_prepared_packet send_to tr packet w;
         (prepared, accepted, tr2, w2) = transport_run send_to lib ops tr1 w1
     in (prepared, (case r of Inl _ \<Rightarrow> accepted | Inr _ \<Rightarrow> packet # accepted), tr2, w2))"
| "transport_run send_to lib (DiscardOp # ops) tr w =
     transport_run send_to lib ops (discard_unsent_prepared_packets tr) w"

definition nonces_from :: "u32 \<Rightarrow> nat \<Rightarrow> PreparedVoicePacket list \<Rightarrow> bool" where
  "nonces_from n m packets \<longleftrightarrow>
     list_all (\<lambda>p. \<exists>k<m. protection_nonce p = Some (n + word_of_nat k)) packets"

lemma nonces_from_Suc:
  assumes "nonces_from (n + 1) m packets"
  shows "nonces_from n (Suc m) packets"
  unfolding nonces_from_def list_all_iff
proof
  fix p assume "p \<in> set packets"
  with assms obtain k where "k < m" "protection_nonce p = Some (n + 1 + word_of_nat k)"
    by (auto simp: nonces_from_def list_all_iff)
  then show "\<exists>k<Suc m. protection_nonce p = Some (n + word_of_nat k)"
    by (intro exI [of _ "Suc k"]) (simp add: add.assoc)
qed

lemma nonces_from_mono: "nonces_from n m packets \<Longrightarrow> m \<le> m' \<Longrightarrow> nonces_from n m' packets"
  unfolding nonces_from_def list_all_iff by (meson less_le_trans)

lemma u32_add_small_neq:
  assumes "k + 1 < 2 ^ 32" shows "(n :: u32) \<noteq> n + 1 + word_of_nat k"
proof
  assume "n = n + 1 + word_of_nat k"
  then have "n + word_of_nat (Suc k) = n + 0" by (simp add: add.assoc)
  then have "(word_of_nat (Suc k) :: u32) = 0" by (simp only: add_left_cancel)
  then have "unat (word_of_nat (Suc k) :: u32) = 0" by (simp only: unsigned_0)
  with assms show False by (subst (asm) unat_of_nat_small) simp_all
qed

lemma transport_run_nonces:
  assumes "transport_run send_to lib ops tr w = (prepared, accepted, tr', w')"
    and "preparer_protection (tr_preparer tr) = Some ctx" and "length ops \<le> 2 ^ 32"
  shows "nonces_from (next_nonce ctx) (length ops) prepared \<and> distinct (map protection_nonce prepared)"
  using assms
proof (induction ops arbitrary: tr w ctx prepared accepted)
  case Nil
  then show ?case by (simp add: nonces_from_def)
next
  case (Cons op ops)
  show ?case
  proof (cases op)
    case (PrepareOp frame ms samples track)
    obtain r tr1 where prep: "prepare_audio_packet_with_duration_samples lib tr frame ms samples track = (r, tr1)"
      by fastforce
    obtain ps as where rest: "transport_run send_to lib ops tr1 w = (ps, as, tr', w')"
      and prepared: "prepared = (case r of Inl _ \<Rightarrow> ps | Inr packet \<Rightarrow> packet # ps)"
      using Cons.prems(1) PrepareOp prep by (auto split: prod.splits)
    obtain r0 prep1 where p0: "prepare_audio_packet lib (tr_preparer tr) frame ms samples = (r0, prep1)"
      by fastforce
    have r: "r = map_sum id (\<lambda>packet. packet\<lparr>is_track := track\<rparr>) r0" and tr1: "tr_preparer tr1 = prep1"
      using prep p0 by (auto simp: prepare_audio_packet_with_duration_samples_def)
    show ?thesis
    proof (cases "samples = 0")
      case True
      with p0 r tr1 prepared have "prepared = ps" "tr_preparer tr1 = tr_preparer tr"
        by (auto simp: prepare_audio_packet_def)
      with Cons.IH [OF rest, of ctx] Cons.prems show ?thesis
        using nonces_from_mono [of "next_nonce ctx" "length ops" ps "length (op # ops)"] by simp
    next
      case False
      obtain ctx' where ctx': "preparer_protection (tr_preparer tr1) = Some ctx'"
        "next_nonce ctx' = next_nonce ctx + 1"
        and nonce: "\<And>packet. r0 = Inr packet \<Longrightarrow> protection_nonce packet = Some (next_nonce ctx)"
        using prepare_audio_packet_nonce [OF p0 False Cons.prems(2)] tr1 by auto
      from Cons.IH [OF rest ctx'(1)] Cons.prems(3) have
        IH: "nonces_from (next_nonce ctx + 1) (length ops) ps" "distinct (map protection_nonce ps)"
        by (simp_all add: ctx'(2))
      show ?thesis
      proof (cases r0)
        case (Inl err)
        with prepared r IH nonces_from_Suc show ?thesis by auto
      next
        case (Inr packet)
        let ?p = "packet\<lparr>is_track := track\<rparr>"
        have "prepared = ?p # ps" using prepared r Inr by simp
        moreover have "protection_nonce ?p = Some (next_nonce ctx)" using nonce [OF Inr] by simp
        moreover have "Some (next_nonce ctx) \<notin> protection_nonce ` set ps"
          using IH(1) Cons.prems(3) u32_add_small_neq [of _ "next_nonce ctx"]
          by (fastforce simp: nonces_from_def list_all_iff)
        ultimately show ?thesis
          using IH nonces_from_Suc [OF IH(1)]
          by (auto simp: nonces_from_def intro: exI [of _ 0])
      qed
    qed
  next
    case (SendOp packet)
    obtain r tr1 w1 where "transport_send_prepared_packet send_to tr packet w = (r, tr1, w1)"
      by (metis prod_cases3)
    moreover from this have "tr_preparer tr1 = tr_preparer tr"
      by (auto simp: transport_send_prepared_packet_def split: prod.splits)
    ultimately show ?thesis
      using Cons.IH [of tr1 w1 _ _ ctx] Cons.prems SendOp nonces_from_mono [of _ "length ops" _ "length (op # ops)"]
      by (auto split: prod.splits)
  next
    case DiscardOp
    have "preparer_protection (tr_preparer (discard_unsent_prepared_packets tr)) = Some ctx"
      using Cons.prems(2) by (simp add: discard_unsent_prepared_packets_def preparer_discard_unsent_def)
    with Cons.IH [of "discard_unsent_prepared_packets tr" w _ _ ctx] Cons.prems DiscardOp
      nonces_from_mono [of _ "length ops" _ "length (op # ops)"]
    show ?thesis by auto
  qed
qed

section \<open>Concurrent senders\<close>

text \<open>A packet chain: consecutive sequence numbers, and timestamps that advance by the packets' samples,
  both modulo their width, from one cursor to another.\<close>

fun rtp_chain :: "u16 \<times> u32 \<Rightarrow> PreparedVoicePacket list \<Rightarrow> u16 \<times> u32 \<Rightarrow> bool" where
  "rtp_chain c [] c' \<longleftrightarrow> c = c'"
| "rtp_chain (s, t) (p # ps) c' \<longleftrightarrow> rtp_sequence p = s \<and> rtp_timestamp p = t
     \<and> rtp_chain (s + 1, t + prepared_duration_samples p) ps c'"

lemma rtp_chain_snoc:
  "rtp_chain c ps (s, t) \<Longrightarrow> rtp_sequence p = s \<Longrightarrow> rtp_timestamp p = t
    \<Longrightarrow> rtp_chain c (ps @ [p]) (s + 1, t + prepared_duration_samples p)"
  by (induction c ps "(s, t)" rule: rtp_chain.induct) auto

text \<open>Clones of the sender share the cursor. Each send in progress is loaded and checked, or
  transmitted and not yet exchanged.\<close>

record send_system =
  sys_cursor :: u64
  sys_loaded :: "PreparedVoicePacket list"
  sys_transmitted :: "PreparedVoicePacket list"
  sys_wire :: "bytes list"
  sys_done :: "PreparedVoicePacket list"

inductive send_step :: "send_system \<Rightarrow> send_system \<Rightarrow> bool" where
  load: "cursor_check (sys_cursor y) p = Inr ()
    \<Longrightarrow> send_step y (y\<lparr>sys_loaded := p # sys_loaded y\<rparr>)"
| transmit: "p \<in> set (sys_loaded y)
    \<Longrightarrow> send_step y (y\<lparr>sys_loaded := remove1 p (sys_loaded y),
          sys_transmitted := p # sys_transmitted y, sys_wire := sys_wire y @ [prepared_bytes p]\<rparr>)"
| io_error: "p \<in> set (sys_loaded y)
    \<Longrightarrow> send_step y (y\<lparr>sys_loaded := remove1 p (sys_loaded y)\<rparr>)"
| exchanged: "p \<in> set (sys_transmitted y) \<Longrightarrow> cursor_exchange (sys_cursor y) p = (Inr (), c)
    \<Longrightarrow> send_step y (y\<lparr>sys_transmitted := remove1 p (sys_transmitted y), sys_cursor := c,
          sys_done := sys_done y @ [p]\<rparr>)"
| overtaken: "p \<in> set (sys_transmitted y) \<Longrightarrow> cursor_exchange (sys_cursor y) p = (Inl err, c)
    \<Longrightarrow> send_step y (y\<lparr>sys_transmitted := remove1 p (sys_transmitted y), sys_cursor := c\<rparr>)"

definition send_init :: "u16 \<times> u32 \<Rightarrow> send_system" where
  "send_init c = \<lparr>sys_cursor = pack_rtp_cursor_parts (fst c) (snd c), sys_loaded = [],
     sys_transmitted = [], sys_wire = [], sys_done = []\<rparr>"

inductive send_reachable :: "u16 \<times> u32 \<Rightarrow> send_system \<Rightarrow> bool" for c where
  start: "send_reachable c (send_init c)"
| step: "send_reachable c y \<Longrightarrow> send_step y y' \<Longrightarrow> send_reachable c y'"

definition send_inv :: "u16 \<times> u32 \<Rightarrow> send_system \<Rightarrow> bool" where
  "send_inv c y \<longleftrightarrow>
    (\<exists>s t. sys_cursor y = pack_rtp_cursor_parts s t \<and> rtp_chain c (sys_done y) (s, t))
    \<and> prepared_bytes ` (set (sys_transmitted y) \<union> set (sys_done y)) \<subseteq> set (sys_wire y)"

lemma send_step_inv: "send_step y y' \<Longrightarrow> send_inv c y \<Longrightarrow> send_inv c y'"
proof (induction rule: send_step.induct)
  case (transmit p y)
  then show ?case by (auto simp: send_inv_def)
next
  case (exchanged p y c')
  then obtain s t where st: "sys_cursor y = pack_rtp_cursor_parts s t" "rtp_chain c (sys_done y) (s, t)"
    by (auto simp: send_inv_def)
  with exchanged(2) have "rtp_sequence p = s" "rtp_timestamp p = t"
    "c' = pack_rtp_cursor_parts (s + 1) (t + prepared_duration_samples p)"
    by (auto split: if_splits)
  with st(2) rtp_chain_snoc have "rtp_chain c (sys_done y @ [p]) (s + 1, t + prepared_duration_samples p)"
    by blast
  with exchanged \<open>c' = _\<close> show ?case
    by (auto simp: send_inv_def dest: notin_set_remove1 in_set_remove1 [THEN iffD1, rotated]
        intro: set_remove1_subset [THEN subsetD])
next
  case (overtaken p y err c')
  then have "c' = sys_cursor y" by (auto simp: cursor_exchange_def split: if_splits)
  with overtaken show ?case
    by (auto simp: send_inv_def intro: set_remove1_subset [THEN subsetD])
qed (auto simp: send_inv_def)

lemma send_reachable_inv: "send_reachable c y \<Longrightarrow> send_inv c y"
proof (induction rule: send_reachable.induct)
  case start
  show ?case by (auto simp: send_inv_def send_init_def)
next
  case (step y y')
  then show ?case by (blast intro: send_step_inv)
qed

section \<open>Properties\<close>

text \<open>C8: No nonce is used twice. Over any sequence of preparing, sending and discarding packets, the
  discarding included, which rewinds the RTP cursor so that sequence numbers and timestamps are used
  again, the packets prepared under one protection context carry pairwise different nonces, as long as
  there are at most 2^32 operations.\<close>

theorem protection_nonce_never_reused:
  assumes "transport_run send_to lib ops tr w = (prepared, accepted, tr', w')"
    and "preparer_protection (tr_preparer tr) = Some ctx" and "length ops \<le> 2 ^ 32"
  shows "distinct (map protection_nonce prepared) \<and> None \<notin> set (map protection_nonce prepared)"
  using transport_run_nonces [OF assms] by (auto simp: nonces_from_def list_all_iff)

text \<open>C11: Sends keep the RTP stream contiguous, also when clones of the sender race. In every
  interleaving of the loads, transmissions and exchanges of any number of concurrent sends, the packets
  whose send succeeded form one chain from the initial cursor, each with the next sequence number and a
  timestamp advanced by exactly the samples of its predecessor, modulo 2^16 and 2^32; the shared cursor
  is the end of the chain; and each of them was transmitted.\<close>

theorem concurrent_sends_contiguous:
  assumes "send_reachable c y"
  shows "rtp_chain c (sys_done y) (cursor_current (unpack_rtp_cursor (sys_cursor y)))
    \<and> set (map prepared_bytes (sys_done y)) \<subseteq> set (sys_wire y)"
  using send_reachable_inv [OF assms]
  by (auto simp: send_inv_def cursor_current_def RtpSequenceState_from_parts_def)

text \<open>A transport with nothing prepared ahead, and sending the packets of a list in order.\<close>

definition in_sync :: "VoiceUdpTransport \<Rightarrow> bool" where
  "in_sync tr \<longleftrightarrow> tr_send_sequence tr = pack_rtp_cursor (reserved_sequence (tr_preparer tr))"

fun prepare_frames ::
  "aead_lib \<Rightarrow> (bytes \<times> u64 \<times> u32 \<times> bool) list \<Rightarrow> VoiceUdpTransport
    \<Rightarrow> (VoiceError + PreparedVoicePacket list) \<times> VoiceUdpTransport" where
  "prepare_frames lib [] tr = (Inr [], tr)"
| "prepare_frames lib ((frame, ms, samples, track) # frames) tr =
    (case prepare_audio_packet_with_duration_samples lib tr frame ms samples track of
       (Inl err, tr1) \<Rightarrow> (Inl err, tr1)
     | (Inr packet, tr1) \<Rightarrow>
        (case prepare_frames lib frames tr1 of
           (Inl err, tr2) \<Rightarrow> (Inl err, tr2)
         | (Inr packets, tr2) \<Rightarrow> (Inr (packet # packets), tr2)))"

lemma prepare_frames_chain:
  assumes "prepare_frames lib frames tr = (Inr packets, tr')"
  shows "rtp_chain (cursor_current (reserved_sequence (tr_preparer tr))) packets
           (cursor_current (reserved_sequence (tr_preparer tr')))
    \<and> tr_send_sequence tr' = tr_send_sequence tr \<and> length packets = length frames"
  using assms
proof (induction lib frames tr arbitrary: packets rule: prepare_frames.induct)
  case (2 lib frame ms samples track frames tr)
  obtain r0 prep1 where p0: "prepare_audio_packet lib (tr_preparer tr) frame ms samples = (r0, prep1)"
    by fastforce
  from "2.prems" p0 obtain packet ps where r0: "r0 = Inr packet"
    and packets: "packets = packet\<lparr>is_track := track\<rparr> # ps"
    and rest: "prepare_frames lib frames (tr\<lparr>tr_preparer := prep1\<rparr>) = (Inr ps, tr')"
    by (cases r0) (auto simp: prepare_audio_packet_with_duration_samples_def split: sum.splits prod.splits)
  have nz: "samples \<noteq> 0" using p0 r0 by (auto simp: prepare_audio_packet_def)
  note eff = prepare_audio_packet_cursor [OF p0 nz]
  have "prepare_audio_packet_with_duration_samples lib tr frame ms samples track
      = (Inr (packet\<lparr>is_track := track\<rparr>), tr\<lparr>tr_preparer := prep1\<rparr>)"
    using p0 r0 by (simp add: prepare_audio_packet_with_duration_samples_def)
  from "2.IH" [OF this [symmetric] refl rest] eff(1) eff(2) [OF r0] packets show ?case
    by (simp add: cursor_current_def advance_by_samples_def)
qed simp

fun send_packets ::
  "'w socket_send \<Rightarrow> u64 \<Rightarrow> PreparedVoicePacket list \<Rightarrow> 'w \<Rightarrow> (VoiceError + unit) list \<times> u64 \<times> 'w" where
  "send_packets send_to cursor [] w = ([], cursor, w)"
| "send_packets send_to cursor (p # ps) w =
    (let (r, cursor1, w1) = send_prepared_packet send_to cursor p w;
         (rs, cursor2, w2) = send_packets send_to cursor1 ps w1
     in (r # rs, cursor2, w2))"

definition socket_works :: "'w socket_send \<Rightarrow> bool" where
  "socket_works send_to \<longleftrightarrow> (\<forall>w datagram. fst (send_to w datagram) = Inr ())"

lemma send_packets_chain:
  assumes "rtp_chain (s, t) packets (s', t')" and "socket_works send_to"
  shows "\<exists>w'. send_packets send_to (pack_rtp_cursor_parts s t) packets w
    = (replicate (length packets) (Inr ()), pack_rtp_cursor_parts s' t', w')"
  using assms(1)
proof (induction packets arbitrary: s t w)
  case (Cons p ps)
  obtain w1 where "send_to w (prepared_bytes p) = (Inr (), w1)"
    using assms(2) unfolding socket_works_def by (metis prod.collapse)
  with Cons.prems have "send_prepared_packet send_to (pack_rtp_cursor_parts s t) p w
      = (Inr (), pack_rtp_cursor_parts (s + 1) (t + prepared_duration_samples p), w1)"
    by (simp add: send_prepared_packet_def)
  with Cons.IH [of "s + 1" "t + prepared_duration_samples p" w1] Cons.prems show ?case by auto
qed simp

text \<open>What was prepared is sent. After the unsent packets were discarded, the packets prepared for any
  list of frames are exactly the next ones: sent in order over a socket that works, every one of them is
  accepted, and at the end the send cursor has caught up with the reserved one.\<close>

theorem prepared_packets_are_sent:
  assumes "prepare_frames lib frames (discard_unsent_prepared_packets tr) = (Inr packets, tr')"
    and "tr_send_sequence tr = pack_rtp_cursor cursor" and "socket_works send_to"
  shows "\<exists>w'. send_packets send_to (tr_send_sequence tr') packets w
    = (replicate (length frames) (Inr ()), pack_rtp_cursor (reserved_sequence (tr_preparer tr')), w')"
proof -
  obtain s t where cur: "cursor_current cursor = (s, t)" by fastforce
  obtain s' t' where end': "cursor_current (reserved_sequence (tr_preparer tr')) = (s', t')" by fastforce
  have "rtp_chain (s, t) packets (s', t')" "tr_send_sequence tr' = pack_rtp_cursor_parts s t"
    using prepare_frames_chain [OF assms(1)] assms(2) cur end'
    by (simp_all add: discard_unsent_prepared_packets_def preparer_discard_unsent_def
        pack_rtp_cursor_def cursor_current_def RtpSequenceState_from_parts_def)
  moreover have "length packets = length frames" using prepare_frames_chain [OF assms(1)] by simp
  ultimately show ?thesis
    using send_packets_chain [of s t packets s' t' send_to w] assms(3) end'
    by (simp add: pack_rtp_cursor_def)
qed

section \<open>Concrete runs\<close>

abbreviation demo_transport :: VoiceUdpTransport where
  "demo_transport \<equiv> transport_with_protection (transport_new 9) demo_context"

definition demo_socket :: "nat socket_send" where
  "demo_socket w datagram = (Inr (), w + 1)"

lemma demo_socket_works: "socket_works demo_socket"
  by (simp add: socket_works_def demo_socket_def)

lemmas udp_eval = transport_with_protection_def transport_new_def VoicePacketPreparer_new_def
  with_protection_def RtpSequenceState_new_def prepare_audio_packet_with_duration_samples_def
  prepare_audio_packet_def advance_by_samples_def cursor_current_def protect_packet_def null_aead_def
  discard_unsent_prepared_packets_def preparer_discard_unsent_def pack_rtp_cursor_def
  RtpSequenceState_from_parts_def Let_def

theorem protection_nonce_never_reused_witness:
  "\<exists>prepared accepted tr' w'. transport_run demo_socket null_aead
       [PrepareOp [1] 20 960 True, DiscardOp, PrepareOp [2] 20 960 True] demo_transport 0
       = (prepared, accepted, tr', w')
     \<and> map rtp_sequence prepared = [0, 0] \<and> distinct (map protection_nonce prepared)"
proof -
  let ?ops = "[PrepareOp [1] 20 960 True, DiscardOp, PrepareOp [2] 20 960 True]"
  obtain prepared accepted tr' w' where
    run: "transport_run demo_socket null_aead ?ops demo_transport 0 = (prepared, accepted, tr', w')"
    by (metis prod_cases4)
  then have "map rtp_sequence prepared = [0, 0]" by (auto simp: udp_eval)
  moreover have "preparer_protection (tr_preparer demo_transport) = Some demo_context"
    by (simp add: udp_eval)
  ultimately show ?thesis
    using protection_nonce_never_reused [OF run, of demo_context] run by auto
qed

abbreviation demo_packet :: PreparedVoicePacket where
  "demo_packet \<equiv> \<lparr>prepared_bytes = [1], prepared_duration_ms = 20, prepared_duration_samples = 960,
     is_track = True, rtp_sequence = - 1, rtp_timestamp = 100, protection_nonce = None\<rparr>"

text \<open>Two clones race for the same packet at the last sequence number: both transmit, one succeeds.\<close>

theorem concurrent_sends_contiguous_witness:
  "\<exists>y. send_reachable (- 1, 100) y \<and> sys_done y = [demo_packet] \<and> sys_wire y = [[1], [1]]
     \<and> rtp_chain (- 1, 100) (sys_done y) (0, 1060)
     \<and> cursor_current (unpack_rtp_cursor (sys_cursor y)) = (0, 1060)"
proof -
  let ?p = demo_packet
  let ?y0 = "send_init (- 1, 100)"
  let ?y1 = "?y0\<lparr>sys_loaded := [?p]\<rparr>"
  let ?y2 = "?y0\<lparr>sys_loaded := [?p, ?p]\<rparr>"
  let ?y3 = "?y0\<lparr>sys_loaded := [?p], sys_transmitted := [?p], sys_wire := [[1]]\<rparr>"
  let ?y4 = "?y0\<lparr>sys_loaded := [], sys_transmitted := [?p, ?p], sys_wire := [[1], [1]]\<rparr>"
  let ?y5 = "?y0\<lparr>sys_loaded := [], sys_transmitted := [?p], sys_wire := [[1], [1]],
      sys_cursor := pack_rtp_cursor_parts 0 1060, sys_done := [?p]\<rparr>"
  have "send_step ?y0 ?y1" using send_step.load [of ?y0 ?p] by (simp add: send_init_def)
  moreover have "send_step ?y1 ?y2" using send_step.load [of ?y1 ?p] by (simp add: send_init_def)
  moreover have "send_step ?y2 ?y3" using send_step.transmit [of ?p ?y2] by (simp add: send_init_def)
  moreover have "send_step ?y3 ?y4" using send_step.transmit [of ?p ?y3] by (simp add: send_init_def)
  moreover have "send_step ?y4 ?y5" using send_step.exchanged [of ?p ?y4] by (simp add: send_init_def)
  ultimately have reach: "send_reachable (- 1, 100) ?y5"
    by (meson send_reachable.intros)
  moreover have "cursor_current (unpack_rtp_cursor (sys_cursor ?y5)) = (0, 1060)"
    by (simp add: cursor_current_def RtpSequenceState_from_parts_def)
  ultimately show ?thesis
    using concurrent_sends_contiguous [OF reach] by (intro exI [of _ ?y5]) simp
qed

theorem prepared_packets_are_sent_witness:
  "\<exists>packets tr' w'. prepare_frames null_aead [([1], 20, 960, True), ([2], 20, 960, True)]
       (discard_unsent_prepared_packets demo_transport) = (Inr packets, tr')
     \<and> send_packets demo_socket (tr_send_sequence tr') packets 0
         = ([Inr (), Inr ()], pack_rtp_cursor (reserved_sequence (tr_preparer tr')), w')"
proof -
  let ?frames = "[([1], 20, 960, True), ([2], 20, 960, True)] :: (bytes \<times> u64 \<times> u32 \<times> bool) list"
  obtain packets tr' where
    run: "prepare_frames null_aead ?frames (discard_unsent_prepared_packets demo_transport) = (Inr packets, tr')"
    by (simp add: udp_eval)
  have "tr_send_sequence demo_transport = pack_rtp_cursor RtpSequenceState_new"
    by (simp add: transport_with_protection_def transport_new_def)
  from prepared_packets_are_sent [OF run this demo_socket_works, of 0] run show ?thesis by auto
qed

end
