(* ===== verification/Receive.thy ===== *)
theory Receive
  imports VoiceUdp Dave "HOL-Library.Char_ord" "HOL-Library.List_Lexorder"
begin

text \<open>
  The observer of a voice channel (\<open>receive.rs\<close>): which user a synchronisation source belongs to, the
  packets kept until that is known or until DAVE can decrypt them, and the decoding of a packet to an
  audio frame. A handler takes the session and returns its result with the new session. A hash map is
  a partial map; where the code iterates over one, the order is an argument. A \<open>BTreeSet\<close> is a set,
  read in ascending order.
\<close>

section \<open>State\<close>

record ObservedAudioFrame =
  frame_user_id :: string
  frame_ssrc :: u32
  frame_sequence :: u16
  frame_timestamp :: u32
  frame_received_at :: nanos
  frame_payload :: bytes

record ObservedSpeakingState =
  state_user_id :: string
  state_ssrc :: u32
  state_speaking :: u64

record ObservedRtpPacket =
  seen_user_id :: string
  seen_ssrc :: u32
  seen_sequence :: u16
  seen_timestamp :: u32
  seen_received_at :: nanos

datatype ObservedVoiceActivity =
    AudioActivity ObservedAudioFrame
  | RtpPacketActivity ObservedRtpPacket
  | SpeakingActivity ObservedSpeakingState
  | DisconnectActivity string

record PendingPacket =
  pending_header :: RtpHeader
  pending_packet :: bytes
  pending_received_at :: nanos

datatype DecodeAudioPacketError = NotReady | Fatal VoiceError

record ObserverDaveMaterial =
  material_group_id :: u64
  material_protocol_version :: u16
  material_external_sender :: bytes

datatype PendingObserverGatewayUpdate =
    UpdateSpeaking string u32
  | UpdateClientDisconnect string

record 'ds PendingObserverReadyResult =
  ready_runtime :: "'ds DaveRuntimeContext"
  ready_gateway_updates :: "PendingObserverGatewayUpdate list"
  ready_recognized_user_ids :: "string set"
  ready_material :: ObserverDaveMaterial
  ready_completed_transition_id :: "u16 option"

text \<open>The gateway client and its pending receive are kept as whether they exist.\<close>

record 'ds ObservedVoiceSession =
  obs_voice :: VoiceContext
  obs_gateway :: bool
  obs_protection :: "ProtectionContext option"
  obs_dave :: "'ds DaveRuntimeContext option"
  author_dave_proposals :: bool
  dave_material :: "ObserverDaveMaterial option"
  dave_recognized_user_ids :: "string set"
  completed_dave_transition_ids :: "u16 set"
  heartbeat_running :: bool
  gateway_receive_closed :: bool
  gateway_receive :: bool
  pending_dave_proposals :: "(DaveMlsProposalsOperation \<times> bytes) list"
  speaker_ssrcs :: "u32 \<rightharpoonup> string"
  pending_speaking_states :: "ObservedSpeakingState list"
  pending_disconnects :: "string list"
  remote_speaker_candidates :: "string set"
  pending_packets :: "u32 \<rightharpoonup> PendingPacket"

text \<open>A session without DAVE, as \<open>await_dave_ready\<close> builds it from a pending session that has none.\<close>

definition observed_without_dave ::
  "VoiceContext \<Rightarrow> bool \<Rightarrow> ProtectionContext option \<Rightarrow> bool \<Rightarrow> 'ds ObservedVoiceSession" where
  "observed_without_dave voice connected protection author =
     \<lparr>obs_voice = voice, obs_gateway = connected, obs_protection = protection, obs_dave = None,
      author_dave_proposals = author, dave_material = None, dave_recognized_user_ids = {},
      completed_dave_transition_ids = {}, heartbeat_running = connected, gateway_receive_closed = False,
      gateway_receive = False, pending_dave_proposals = [], speaker_ssrcs = Map.empty,
      pending_speaking_states = [], pending_disconnects = [], remote_speaker_candidates = {},
      pending_packets = Map.empty\<rparr>"

section \<open>Gateway bookkeeping\<close>

definition record_speaker_ssrc ::
  "string \<Rightarrow> u32 \<Rightarrow> 'ds ObservedVoiceSession \<Rightarrow> 'ds ObservedVoiceSession" where
  "record_speaker_ssrc user_id ssrc s = s\<lparr>speaker_ssrcs := (speaker_ssrcs s)(ssrc \<mapsto> user_id)\<rparr>"

definition set_dave_proposal_authoring :: "bool \<Rightarrow> 'ds ObservedVoiceSession \<Rightarrow> 'ds ObservedVoiceSession" where
  "set_dave_proposal_authoring enabled s = s\<lparr>author_dave_proposals := enabled\<rparr>"

definition ensure_gateway_receive ::
  "'ds ObservedVoiceSession \<Rightarrow> (VoiceError + bool) \<times> 'ds ObservedVoiceSession" where
  "ensure_gateway_receive s =
    (if gateway_receive_closed s then (Inr False, s)
     else if gateway_receive s then (Inr True, s)
     else if \<not> obs_gateway s then (Inl (InvalidState ''voice gateway unavailable''), s)
     else (Inr True, s\<lparr>gateway_receive := True\<rparr>))"

definition mark_gateway_receive_closed :: "'ds ObservedVoiceSession \<Rightarrow> 'ds ObservedVoiceSession" where
  "mark_gateway_receive_closed s =
     s\<lparr>gateway_receive := False, heartbeat_running := False, gateway_receive_closed := True\<rparr>"

definition finish_gateway_receive ::
  "VoiceError + VoiceGatewayPayload \<Rightarrow> 'ds ObservedVoiceSession
    \<Rightarrow> (VoiceError + VoiceGatewayPayload option) \<times> 'ds ObservedVoiceSession" where
  "finish_gateway_receive result s =
    (let s1 = s\<lparr>gateway_receive := False\<rparr> in
     case result of
       Inr payload \<Rightarrow> (Inr (Some payload), s1)
     | Inl err \<Rightarrow>
        (if is_gateway_closed_during_receive err then (Inr None, mark_gateway_receive_closed s1)
         else (Inl err, s1)))"

definition apply_speaking :: "Speaking \<Rightarrow> 'ds ObservedVoiceSession \<Rightarrow> 'ds ObservedVoiceSession" where
  "apply_speaking speaking s =
    (case (case speaking_user_id speaking of
             Some user \<Rightarrow> Some user | None \<Rightarrow> speaker_ssrcs s (speaking_ssrc speaking)) of
       None \<Rightarrow> s
     | Some user_id \<Rightarrow>
        (let s1 = (if speaking_flags speaking \<noteq> 0
                   then record_speaker_ssrc user_id (speaking_ssrc speaking) s else s)
         in s1\<lparr>pending_speaking_states := pending_speaking_states s1 @
                [\<lparr>state_user_id = user_id, state_ssrc = speaking_ssrc speaking,
                  state_speaking = speaking_flags speaking\<rparr>]\<rparr>))"

primrec apply_clients_connect :: "string list \<Rightarrow> 'ds ObservedVoiceSession \<Rightarrow> 'ds ObservedVoiceSession" where
  "apply_clients_connect [] s = s"
| "apply_clients_connect (user_id # rest) s =
    (let s1 = (if user_id \<noteq> vc_user_id (obs_voice s)
               then s\<lparr>remote_speaker_candidates := insert user_id (remote_speaker_candidates s)\<rparr> else s)
     in apply_clients_connect rest
          (s1\<lparr>dave_recognized_user_ids := insert user_id (dave_recognized_user_ids s1)\<rparr>))"

definition retain_others :: "string \<Rightarrow> (u32 \<rightharpoonup> string) \<Rightarrow> (u32 \<rightharpoonup> string)" where
  "retain_others user_id ssrcs = (\<lambda>ssrc. if ssrcs ssrc = Some user_id then None else ssrcs ssrc)"

definition apply_client_disconnect :: "string \<Rightarrow> 'ds ObservedVoiceSession \<Rightarrow> 'ds ObservedVoiceSession" where
  "apply_client_disconnect user_id s =
     s\<lparr>dave_recognized_user_ids := dave_recognized_user_ids s - {user_id},
       remote_speaker_candidates := remote_speaker_candidates s - {user_id},
       speaker_ssrcs := retain_others user_id (speaker_ssrcs s),
       pending_disconnects := pending_disconnects s @ [user_id]\<rparr>"

fun apply_pending_gateway_updates ::
  "PendingObserverGatewayUpdate list \<Rightarrow> 'ds ObservedVoiceSession \<Rightarrow> 'ds ObservedVoiceSession" where
  "apply_pending_gateway_updates [] s = s"
| "apply_pending_gateway_updates (UpdateSpeaking user_id ssrc # rest) s =
     apply_pending_gateway_updates rest (record_speaker_ssrc user_id ssrc s)"
| "apply_pending_gateway_updates (UpdateClientDisconnect user_id # rest) s =
     apply_pending_gateway_updates rest
       (s\<lparr>dave_recognized_user_ids := dave_recognized_user_ids s - {user_id},
          remote_speaker_candidates := remote_speaker_candidates s - {user_id},
          speaker_ssrcs := retain_others user_id (speaker_ssrcs s)\<rparr>)"

definition apply_observer_dave_ready ::
  "'ds PendingObserverReadyResult \<Rightarrow> 'ds ObservedVoiceSession \<Rightarrow> 'ds ObservedVoiceSession" where
  "apply_observer_dave_ready ready s =
    (let s1 = s\<lparr>dave_material := Some (ready_material ready),
               dave_recognized_user_ids := ready_recognized_user_ids ready,
               remote_speaker_candidates := ready_recognized_user_ids ready - {vc_user_id (obs_voice s)},
               completed_dave_transition_ids :=
                 (case ready_completed_transition_id ready of
                    None \<Rightarrow> completed_dave_transition_ids s
                  | Some transition_id \<Rightarrow> insert transition_id (completed_dave_transition_ids s))\<rparr>;
         s2 = apply_pending_gateway_updates (ready_gateway_updates ready) s1
     in s2\<lparr>pending_dave_proposals := [], obs_dave := Some (ready_runtime ready)\<rparr>)"

text \<open>The buffered proposals are taken before the first is processed, so a failure drops the rest.\<close>

fun stage_proposals_loop ::
  "'ds davey_lib \<Rightarrow> string list \<Rightarrow> (DaveMlsProposalsOperation \<times> bytes) list \<Rightarrow> 'ds DaveRuntimeContext
    \<Rightarrow> (VoiceError + unit) \<times> 'ds DaveRuntimeContext" where
  "stage_proposals_loop lib recognized [] dave = (Inr (), dave)"
| "stage_proposals_loop lib recognized ((operation, proposals) # rest) dave =
    (case runtime_process_proposals lib dave operation proposals recognized of
       (Inl _, dave1) \<Rightarrow> (Inl (InvalidState ''voice observer dave proposals invalid''), dave1)
     | (Inr _, dave1) \<Rightarrow> stage_proposals_loop lib recognized rest dave1)"

definition stage_pending_dave_proposals ::
  "'ds davey_lib \<Rightarrow> 'ds DaveRuntimeContext \<Rightarrow> 'ds ObservedVoiceSession
    \<Rightarrow> (VoiceError + unit) \<times> 'ds DaveRuntimeContext \<times> 'ds ObservedVoiceSession" where
  "stage_pending_dave_proposals lib dave s =
    (if pending_dave_proposals s = [] then (Inr (), dave, s)
     else
       (let recognized = sorted_list_of_set (dave_recognized_user_ids s);
            (r, dave1) = stage_proposals_loop lib recognized (pending_dave_proposals s) dave
        in (r, dave1, s\<lparr>pending_dave_proposals := []\<rparr>)))"

definition pop_first :: "('a \<Rightarrow> bool) \<Rightarrow> 'a list \<Rightarrow> 'a option \<times> 'a list" where
  "pop_first P xs = (find P xs, takeWhile (\<lambda>x. \<not> P x) xs @ tl (dropWhile (\<lambda>x. \<not> P x) xs))"

definition pop_pending_speaking_state_from ::
  "string \<Rightarrow> 'ds ObservedVoiceSession \<Rightarrow> ObservedSpeakingState option \<times> 'ds ObservedVoiceSession" where
  "pop_pending_speaking_state_from expected_user_id s =
    (let (r, rest) = pop_first (\<lambda>st. state_user_id st = expected_user_id) (pending_speaking_states s)
     in (r, s\<lparr>pending_speaking_states := rest\<rparr>))"

definition pop_pending_disconnect_from ::
  "string \<Rightarrow> 'ds ObservedVoiceSession \<Rightarrow> string option \<times> 'ds ObservedVoiceSession" where
  "pop_pending_disconnect_from expected_user_id s =
    (let (r, rest) = pop_first (\<lambda>user_id. user_id = expected_user_id) (pending_disconnects s)
     in (r, s\<lparr>pending_disconnects := rest\<rparr>))"

section \<open>Decoding\<close>

definition MAX_UDP_PACKET_LEN :: usize where
  "MAX_UDP_PACKET_LEN = 2048"

definition is_rtcp_packet :: "bytes \<Rightarrow> bool" where
  "is_rtcp_packet packet \<longleftrightarrow> 1 < length packet \<and> 192 \<le> packet ! 1 \<and> packet ! 1 \<le> 223"

definition decrypt_audio_payload ::
  "'ds davey_lib \<Rightarrow> string \<Rightarrow> bytes \<Rightarrow> 'ds ObservedVoiceSession
    \<Rightarrow> (DecodeAudioPacketError + bytes) \<times> 'ds ObservedVoiceSession" where
  "decrypt_audio_payload lib user_id payload s =
    (case obs_dave s of
       None \<Rightarrow> (Inr payload, s)
     | Some dave \<Rightarrow>
        (if payload = OPUS_SILENCE_FRAME then (Inr payload, s)
         else (case decrypt_audio_frame_from lib dave user_id Audio payload of
                 (Inl _, dave1) \<Rightarrow> (Inl NotReady, s\<lparr>obs_dave := Some dave1\<rparr>)
               | (Inr decrypted, dave1) \<Rightarrow> (Inr decrypted, s\<lparr>obs_dave := Some dave1\<rparr>))))"

definition decode_audio_packet ::
  "'ds davey_lib \<Rightarrow> aead_lib \<Rightarrow> bytes \<Rightarrow> RtpHeader \<Rightarrow> nanos \<Rightarrow> string \<Rightarrow> 'ds ObservedVoiceSession
    \<Rightarrow> (DecodeAudioPacketError + ObservedAudioFrame) \<times> 'ds ObservedVoiceSession" where
  "decode_audio_packet lib aead packet header received_at user_id s =
    (case obs_protection s of
       None \<Rightarrow> (Inl (Fatal (InvalidState ''voice protection unavailable'')), s)
     | Some protection \<Rightarrow>
        (case unprotect_packet aead protection packet of
           Inl err \<Rightarrow> (Inl (Fatal err), s)
         | Inr (_, payload) \<Rightarrow>
            (case decrypt_audio_payload lib user_id payload s of
               (Inl err, s1) \<Rightarrow> (Inl err, s1)
             | (Inr payload, s1) \<Rightarrow>
                 (Inr \<lparr>frame_user_id = user_id, frame_ssrc = header_ssrc header,
                       frame_sequence = header_sequence header,
                       frame_timestamp = header_timestamp header,
                       frame_received_at = received_at, frame_payload = payload\<rparr>, s1))))"

definition infer_single_remote_speaker :: "string option \<Rightarrow> 'ds ObservedVoiceSession \<Rightarrow> string option" where
  "infer_single_remote_speaker expected s =
    (case sorted_list_of_set (remote_speaker_candidates s) of
       [candidate] \<Rightarrow>
         (if (case expected of Some user \<Rightarrow> candidate \<noteq> user | None \<Rightarrow> False) then None
          else if candidate \<in> ran (speaker_ssrcs s) then None
          else Some candidate)
     | _ \<Rightarrow> None)"

definition buffer_pending_packet ::
  "RtpHeader \<Rightarrow> bytes \<Rightarrow> nanos \<Rightarrow> 'ds ObservedVoiceSession \<Rightarrow> 'ds ObservedVoiceSession" where
  "buffer_pending_packet header packet received_at s =
     s\<lparr>pending_packets := (pending_packets s)(header_ssrc header \<mapsto>
         \<lparr>pending_header = header, pending_packet = packet, pending_received_at = received_at\<rparr>)\<rparr>"

text \<open>The second half of both packet handlers: the source is known, or was just inferred.\<close>

definition process_mapped_packet ::
  "'ds davey_lib \<Rightarrow> aead_lib \<Rightarrow> bytes \<Rightarrow> RtpHeader \<Rightarrow> nanos \<Rightarrow> string option \<Rightarrow> 'ds ObservedVoiceSession
    \<Rightarrow> (VoiceError + ObservedAudioFrame option) \<times> 'ds ObservedVoiceSession" where
  "process_mapped_packet lib aead packet header received_at expected s =
    (let s1 = s\<lparr>pending_packets := (pending_packets s)(header_ssrc header := None)\<rparr> in
     case speaker_ssrcs s1 (header_ssrc header) of
       None \<Rightarrow> (Inl (InvalidState ''voice speaker mapping missing''), s1)
     | Some user_id \<Rightarrow>
        (if (case expected of Some user \<Rightarrow> user_id \<noteq> user | None \<Rightarrow> False) then (Inr None, s1)
         else (case decode_audio_packet lib aead packet header received_at user_id s1 of
                 (Inr frame, s2) \<Rightarrow> (Inr (Some frame), s2)
               | (Inl NotReady, s2) \<Rightarrow> (Inr None, buffer_pending_packet header packet received_at s2)
               | (Inl (Fatal err), s2) \<Rightarrow> (Inl err, s2))))"

text \<open>The first half for a source without a mapping, after the attempt to decrypt as the expected user.\<close>

definition process_unmapped_packet ::
  "'ds davey_lib \<Rightarrow> aead_lib \<Rightarrow> bytes \<Rightarrow> RtpHeader \<Rightarrow> nanos \<Rightarrow> string option \<Rightarrow> 'ds ObservedVoiceSession
    \<Rightarrow> (VoiceError + ObservedAudioFrame option) \<times> 'ds ObservedVoiceSession" where
  "process_unmapped_packet lib aead packet header received_at expected s =
    (case infer_single_remote_speaker expected s of
       Some user_id \<Rightarrow>
         process_mapped_packet lib aead packet header received_at expected
           (record_speaker_ssrc user_id (header_ssrc header) s)
     | None \<Rightarrow> (Inr None, buffer_pending_packet header packet received_at s))"

definition process_audio_packet ::
  "'ds davey_lib \<Rightarrow> aead_lib \<Rightarrow> bytes \<Rightarrow> nanos \<Rightarrow> string option \<Rightarrow> 'ds ObservedVoiceSession
    \<Rightarrow> (VoiceError + ObservedAudioFrame option) \<times> 'ds ObservedVoiceSession" where
  "process_audio_packet lib aead packet received_at expected s =
    (if is_rtcp_packet packet then (Inr None, s)
     else
      (case parse_rtp_header packet of
         Inl err \<Rightarrow> (Inl err, s)
       | Inr header \<Rightarrow>
          (if speaker_ssrcs s (header_ssrc header) \<noteq> None
           then process_mapped_packet lib aead packet header received_at expected s
           else
            (case (expected, obs_dave s) of
               (Some expected_user, Some _) \<Rightarrow>
                 (case decode_audio_packet lib aead packet header received_at expected_user s of
                    (Inr frame, s1) \<Rightarrow>
                      (Inr (Some frame), record_speaker_ssrc expected_user (header_ssrc header) s1)
                  | (Inl NotReady, s1) \<Rightarrow>
                      process_unmapped_packet lib aead packet header received_at expected s1
                  | (Inl (Fatal err), s1) \<Rightarrow>
                      if is_packet_unprotect_failure err then (Inr None, s1) else (Inl err, s1))
             | _ \<Rightarrow> process_unmapped_packet lib aead packet header received_at expected s))))"

text \<open>The same for an activity: a packet that cannot be decrypted yet is still reported.\<close>

definition process_mapped_activity ::
  "'ds davey_lib \<Rightarrow> aead_lib \<Rightarrow> bytes \<Rightarrow> RtpHeader \<Rightarrow> nanos \<Rightarrow> string \<Rightarrow> 'ds ObservedVoiceSession
    \<Rightarrow> (VoiceError + ObservedVoiceActivity option) \<times> 'ds ObservedVoiceSession" where
  "process_mapped_activity lib aead packet header received_at expected_user s =
    (let s1 = s\<lparr>pending_packets := (pending_packets s)(header_ssrc header := None)\<rparr> in
     case speaker_ssrcs s1 (header_ssrc header) of
       None \<Rightarrow> (Inl (InvalidState ''voice speaker mapping missing''), s1)
     | Some user_id \<Rightarrow>
        (if user_id \<noteq> expected_user then (Inr None, s1)
         else
           (let observed = \<lparr>seen_user_id = user_id, seen_ssrc = header_ssrc header,
                            seen_sequence = header_sequence header,
                            seen_timestamp = header_timestamp header, seen_received_at = received_at\<rparr>
            in case decode_audio_packet lib aead packet header received_at user_id s1 of
                 (Inr frame, s2) \<Rightarrow> (Inr (Some (AudioActivity frame)), s2)
               | (Inl NotReady, s2) \<Rightarrow>
                   (Inr (Some (RtpPacketActivity observed)), buffer_pending_packet header packet received_at s2)
               | (Inl (Fatal err), s2) \<Rightarrow> (Inl err, s2))))"

definition process_unmapped_activity ::
  "'ds davey_lib \<Rightarrow> aead_lib \<Rightarrow> bytes \<Rightarrow> RtpHeader \<Rightarrow> nanos \<Rightarrow> string \<Rightarrow> 'ds ObservedVoiceSession
    \<Rightarrow> (VoiceError + ObservedVoiceActivity option) \<times> 'ds ObservedVoiceSession" where
  "process_unmapped_activity lib aead packet header received_at expected_user s =
    (case infer_single_remote_speaker (Some expected_user) s of
       Some user_id \<Rightarrow>
         process_mapped_activity lib aead packet header received_at expected_user
           (record_speaker_ssrc user_id (header_ssrc header) s)
     | None \<Rightarrow> (Inr None, buffer_pending_packet header packet received_at s))"

definition process_activity_packet ::
  "'ds davey_lib \<Rightarrow> aead_lib \<Rightarrow> bytes \<Rightarrow> nanos \<Rightarrow> string \<Rightarrow> 'ds ObservedVoiceSession
    \<Rightarrow> (VoiceError + ObservedVoiceActivity option) \<times> 'ds ObservedVoiceSession" where
  "process_activity_packet lib aead packet received_at expected_user s =
    (if is_rtcp_packet packet then (Inr None, s)
     else
      (case parse_rtp_header packet of
         Inl err \<Rightarrow> (Inl err, s)
       | Inr header \<Rightarrow>
          (if speaker_ssrcs s (header_ssrc header) \<noteq> None
           then process_mapped_activity lib aead packet header received_at expected_user s
           else
            (case obs_dave s of
               Some _ \<Rightarrow>
                 (case decode_audio_packet lib aead packet header received_at expected_user s of
                    (Inr frame, s1) \<Rightarrow>
                      (Inr (Some (AudioActivity frame)),
                       record_speaker_ssrc expected_user (header_ssrc header) s1)
                  | (Inl NotReady, s1) \<Rightarrow>
                      process_unmapped_activity lib aead packet header received_at expected_user s1
                  | (Inl (Fatal err), s1) \<Rightarrow>
                      if is_packet_unprotect_failure err then (Inr None, s1) else (Inl err, s1))
             | None \<Rightarrow> process_unmapped_activity lib aead packet header received_at expected_user s))))"

text \<open>The keys are those of the pending packets when the loop starts, in the order of the hash map.\<close>

fun decode_pending_loop ::
  "'ds davey_lib \<Rightarrow> aead_lib \<Rightarrow> string option \<Rightarrow> u32 list \<Rightarrow> 'ds ObservedVoiceSession
    \<Rightarrow> (VoiceError + ObservedAudioFrame option) \<times> 'ds ObservedVoiceSession" where
  "decode_pending_loop lib aead expected [] s = (Inr None, s)"
| "decode_pending_loop lib aead expected (ssrc # rest) s =
    (case speaker_ssrcs s ssrc of
       None \<Rightarrow> decode_pending_loop lib aead expected rest s
     | Some user_id \<Rightarrow>
        (case pending_packets s ssrc of
           None \<Rightarrow> (Inl (InvalidState ''voice pending packet missing''), s)
         | Some pending \<Rightarrow>
            (let s1 = s\<lparr>pending_packets := (pending_packets s)(ssrc := None)\<rparr> in
             if (case expected of Some user \<Rightarrow> user_id \<noteq> user | None \<Rightarrow> False)
             then decode_pending_loop lib aead expected rest s1
             else (case decode_audio_packet lib aead (pending_packet pending) (pending_header pending)
                          (pending_received_at pending) user_id s1 of
                     (Inr frame, s2) \<Rightarrow> (Inr (Some frame), s2)
                   | (Inl NotReady, s2) \<Rightarrow>
                       decode_pending_loop lib aead expected rest
                         (s2\<lparr>pending_packets := (pending_packets s2)(ssrc \<mapsto> pending)\<rparr>)
                   | (Inl (Fatal err), s2) \<Rightarrow> (Inl err, s2)))))"

definition try_decode_pending_audio_frame ::
  "'ds davey_lib \<Rightarrow> aead_lib \<Rightarrow> u32 list \<Rightarrow> string option \<Rightarrow> 'ds ObservedVoiceSession
    \<Rightarrow> (VoiceError + ObservedAudioFrame option) \<times> 'ds ObservedVoiceSession" where
  "try_decode_pending_audio_frame lib aead key_order expected s =
     decode_pending_loop lib aead expected (filter (\<lambda>ssrc. ssrc \<in> dom (pending_packets s)) key_order) s"

section \<open>Lemmas\<close>

text \<open>A frame that was made of a packet: its fields are those of the packet's header, and the packet
  opened under the session's key.\<close>

definition frame_from ::
  "aead_lib \<Rightarrow> 'ds ObservedVoiceSession \<Rightarrow> bytes \<Rightarrow> nanos \<Rightarrow> ObservedAudioFrame \<Rightarrow> bool" where
  "frame_from aead s packet at frame \<longleftrightarrow>
    (\<exists>protection header payload. obs_protection s = Some protection
      \<and> unprotect_packet aead protection packet = Inr (header, payload)
      \<and> frame_ssrc frame = header_ssrc header \<and> frame_sequence frame = header_sequence header
      \<and> frame_timestamp frame = header_timestamp header \<and> frame_received_at frame = at
      \<and> (obs_dave s = None \<or> payload = OPUS_SILENCE_FRAME \<longrightarrow> frame_payload frame = payload))"

text \<open>What every packet operation may change: the DAVE ratchet, the mappings and the pending packets.\<close>

definition same_but_packets :: "'ds ObservedVoiceSession \<Rightarrow> 'ds ObservedVoiceSession \<Rightarrow> bool" where
  "same_but_packets s s' \<longleftrightarrow>
     s'\<lparr>obs_dave := None, speaker_ssrcs := Map.empty, pending_packets := Map.empty\<rparr>
       = s\<lparr>obs_dave := None, speaker_ssrcs := Map.empty, pending_packets := Map.empty\<rparr>
     \<and> (obs_dave s' = None \<longleftrightarrow> obs_dave s = None)"

lemma same_but_packets_refl [simp]: "same_but_packets s s"
  by (simp add: same_but_packets_def)

lemma same_but_packets_trans [trans]:
  "same_but_packets s s' \<Longrightarrow> same_but_packets s' s'' \<Longrightarrow> same_but_packets s s''"
  by (simp add: same_but_packets_def)

lemma same_but_packets_update [simp]:
  "same_but_packets s (s\<lparr>speaker_ssrcs := m\<rparr>)" "same_but_packets s (s\<lparr>pending_packets := q\<rparr>)"
  by (simp_all add: same_but_packets_def)

lemma same_but_packets_fields:
  assumes "same_but_packets s s'"
  shows "obs_voice s' = obs_voice s" "obs_protection s' = obs_protection s"
    "remote_speaker_candidates s' = remote_speaker_candidates s"
    "dave_recognized_user_ids s' = dave_recognized_user_ids s"
    "gateway_receive_closed s' = gateway_receive_closed s" "gateway_receive s' = gateway_receive s"
    "heartbeat_running s' = heartbeat_running s" "obs_dave s' = None \<longleftrightarrow> obs_dave s = None"
  using assms by (cases s; cases s'; simp add: same_but_packets_def)+

lemma unprotect_header:
  "unprotect_packet aead protection packet = Inr (h, payload) \<Longrightarrow> parse_rtp_header packet = Inr h"
  by (auto simp: unprotect_packet_def Let_def res_iff split: if_splits option.splits)

lemma decrypt_plain:
  "obs_dave s = None \<or> payload = OPUS_SILENCE_FRAME
    \<Longrightarrow> decrypt_audio_payload lib user payload s = (Inr payload, s)"
  by (auto simp: decrypt_audio_payload_def split: option.split)

lemma decode_keeps:
  assumes "decode_audio_packet lib aead packet header at user s = (r, s')"
  shows "\<exists>dave. s' = s\<lparr>obs_dave := dave\<rparr> \<and> (dave = None \<longleftrightarrow> obs_dave s = None)"
  using assms
  by (auto simp: decode_audio_packet_def decrypt_audio_payload_def
      split: option.splits sum.splits prod.splits if_splits intro: exI [of _ "obs_dave s"])

lemma decode_keeps_fields:
  assumes "decode_audio_packet lib aead packet header at user s = (r, s')"
  shows "same_but_packets s s'" "speaker_ssrcs s' = speaker_ssrcs s" "pending_packets s' = pending_packets s"
  using decode_keeps [OF assms] by (auto simp: same_but_packets_def)

lemma decode_frame:
  assumes "decode_audio_packet lib aead packet header at user s = (Inr frame, s')"
    and "parse_rtp_header packet = Inr header"
  shows "frame_from aead s packet at frame \<and> frame_user_id frame = user
    \<and> frame_ssrc frame = header_ssrc header"
  using assms
  by (auto simp: decode_audio_packet_def frame_from_def decrypt_audio_payload_def
      split: option.splits sum.splits prod.splits if_splits dest: unprotect_header)

lemma frame_from_same:
  "same_but_packets s s' \<Longrightarrow> frame_from aead s' packet at frame = frame_from aead s packet at frame"
  by (simp add: frame_from_def same_but_packets_fields)

definition pending_ok :: "(u32 \<rightharpoonup> PendingPacket) \<Rightarrow> bool" where
  "pending_ok pending \<longleftrightarrow>
    (\<forall>ssrc p. pending ssrc = Some p \<longrightarrow>
       parse_rtp_header (pending_packet p) = Inr (pending_header p) \<and> header_ssrc (pending_header p) = ssrc)"

lemma pending_ok_remove [simp]: "pending_ok pending \<Longrightarrow> pending_ok (pending(ssrc := None))"
  by (auto simp: pending_ok_def)

lemma pending_ok_keep:
  "pending_ok pending \<Longrightarrow> pending ssrc = Some p \<Longrightarrow> pending_ok (pending'(ssrc := None))
    \<Longrightarrow> pending_ok (pending'(ssrc \<mapsto> p))"
  by (auto simp: pending_ok_def split: if_splits)

lemma pending_ok_buffer:
  "pending_ok (pending_packets s) \<Longrightarrow> parse_rtp_header packet = Inr header
    \<Longrightarrow> pending_ok (pending_packets (buffer_pending_packet header packet at s))"
  by (simp add: pending_ok_def buffer_pending_packet_def)

lemma buffer_pending_fields [simp]:
  "same_but_packets s (buffer_pending_packet header packet at s)"
  "speaker_ssrcs (buffer_pending_packet header packet at s) = speaker_ssrcs s"
  by (simp_all add: buffer_pending_packet_def)

lemma record_speaker_fields [simp]:
  "same_but_packets s (record_speaker_ssrc user ssrc s)"
  "speaker_ssrcs (record_speaker_ssrc user ssrc s) = (speaker_ssrcs s)(ssrc \<mapsto> user)"
  "pending_packets (record_speaker_ssrc user ssrc s) = pending_packets s"
  by (simp_all add: record_speaker_ssrc_def)

text \<open>A frame that a packet operation may return, given the mappings it left behind.\<close>

definition attributed ::
  "aead_lib \<Rightarrow> 'ds ObservedVoiceSession \<Rightarrow> (u32 \<rightharpoonup> string) \<Rightarrow> string option \<Rightarrow> bytes \<Rightarrow> nanos
    \<Rightarrow> ObservedAudioFrame \<Rightarrow> bool" where
  "attributed aead s ssrcs expected packet at frame \<longleftrightarrow>
     frame_from aead s packet at frame \<and> ssrcs (frame_ssrc frame) = Some (frame_user_id frame)
     \<and> (case expected of None \<Rightarrow> True | Some user \<Rightarrow> frame_user_id frame = user)"

lemma process_mapped_effect:
  assumes "process_mapped_packet lib aead packet header at expected s = (r, s')"
    and "parse_rtp_header packet = Inr header"
  shows "same_but_packets s s'" and "speaker_ssrcs s' = speaker_ssrcs s"
    and "pending_ok (pending_packets s) \<Longrightarrow> pending_ok (pending_packets s')"
    and "r = Inr (Some frame) \<Longrightarrow> attributed aead s (speaker_ssrcs s') expected packet at frame"
proof -
  let ?s1 = "s\<lparr>pending_packets := (pending_packets s)(header_ssrc header := None)\<rparr>"
  have all: "same_but_packets s s' \<and> speaker_ssrcs s' = speaker_ssrcs s
      \<and> (pending_ok (pending_packets s) \<longrightarrow> pending_ok (pending_packets s'))
      \<and> (\<forall>frame. r = Inr (Some frame) \<longrightarrow> attributed aead s (speaker_ssrcs s') expected packet at frame)"
  proof (cases "speaker_ssrcs s (header_ssrc header)")
    case None
    with assms(1) show ?thesis by (auto simp: process_mapped_packet_def)
  next
    case (Some user)
    obtain d s2 where dec: "decode_audio_packet lib aead packet header at user ?s1 = (d, s2)" by fastforce
    note kept = decode_keeps_fields [OF dec]
    have same: "same_but_packets s s2" using kept(1) by (rule same_but_packets_trans [rotated]) simp
    have "attributed aead s (speaker_ssrcs s2) expected packet at frame"
      if "d = Inr frame" and "case expected of Some u \<Rightarrow> user = u | None \<Rightarrow> True" for frame
      using decode_frame [OF dec [unfolded that(1)] assms(2)] that(2) Some kept(2)
      by (auto simp: attributed_def frame_from_same [of s ?s1] split: option.splits)
    moreover have "same_but_packets s (buffer_pending_packet header packet at s2)"
      by (rule same_but_packets_trans [OF same]) simp
    ultimately show ?thesis
      using assms Some dec same kept
      by (auto simp: process_mapped_packet_def Let_def pending_ok_buffer
          split: if_splits sum.splits DecodeAudioPacketError.splits option.splits)
  qed
  then show "same_but_packets s s'" and "speaker_ssrcs s' = speaker_ssrcs s"
    and "pending_ok (pending_packets s) \<Longrightarrow> pending_ok (pending_packets s')"
    and "r = Inr (Some frame) \<Longrightarrow> attributed aead s (speaker_ssrcs s') expected packet at frame"
    by blast+
qed

text \<open>Everything a packet does to the session: mappings are only added, for a source that had none, to
  the expected user or a candidate; and frames are attributed by the mappings.\<close>

definition mapping_grows :: "string option \<Rightarrow> 'ds ObservedVoiceSession \<Rightarrow> (u32 \<rightharpoonup> string) \<Rightarrow> bool" where
  "mapping_grows expected s ssrcs \<longleftrightarrow>
     ssrcs = speaker_ssrcs s
     \<or> (\<exists>ssrc user. speaker_ssrcs s ssrc = None \<and> (expected = Some user \<or> user \<in> remote_speaker_candidates s)
          \<and> ssrcs = (speaker_ssrcs s)(ssrc \<mapsto> user))"

definition packet_effect ::
  "aead_lib \<Rightarrow> bytes \<Rightarrow> nanos \<Rightarrow> string option \<Rightarrow> 'ds ObservedVoiceSession
    \<Rightarrow> VoiceError + ObservedAudioFrame option \<Rightarrow> 'ds ObservedVoiceSession \<Rightarrow> bool" where
  "packet_effect aead packet at expected s r s' \<longleftrightarrow>
     same_but_packets s s' \<and> mapping_grows expected s (speaker_ssrcs s')
     \<and> (pending_ok (pending_packets s) \<longrightarrow> pending_ok (pending_packets s'))
     \<and> (\<forall>frame. r = Inr (Some frame) \<longrightarrow> attributed aead s (speaker_ssrcs s') expected packet at frame)"

lemma attributed_same:
  "same_but_packets s s' \<Longrightarrow>
    attributed aead s' ssrcs expected packet at frame = attributed aead s ssrcs expected packet at frame"
  by (simp add: attributed_def frame_from_same)

lemma infer_candidate:
  assumes "infer_single_remote_speaker expected s = Some user"
  shows "user \<in> remote_speaker_candidates s" and "user \<notin> ran (speaker_ssrcs s)"
proof -
  have "set (sorted_list_of_set C) \<subseteq> C" for C :: "string set"
    by (cases "finite C") simp_all
  with assms show "user \<in> remote_speaker_candidates s"
    by (fastforce simp: infer_single_remote_speaker_def split: list.splits if_splits)
  from assms show "user \<notin> ran (speaker_ssrcs s)"
    by (auto simp: infer_single_remote_speaker_def split: list.splits if_splits)
qed

lemma process_unmapped_effect:
  assumes "process_unmapped_packet lib aead packet header at expected s = (r, s')"
    and "parse_rtp_header packet = Inr header" and "speaker_ssrcs s (header_ssrc header) = None"
  shows "packet_effect aead packet at expected s r s'"
proof (cases "infer_single_remote_speaker expected s")
  case None
  with assms show ?thesis
    by (auto simp: process_unmapped_packet_def packet_effect_def mapping_grows_def pending_ok_buffer)
next
  case (Some user)
  let ?s1 = "record_speaker_ssrc user (header_ssrc header) s"
  have run: "process_mapped_packet lib aead packet header at expected ?s1 = (r, s')"
    using assms(1) Some by (simp add: process_unmapped_packet_def)
  note eff = process_mapped_effect [OF run assms(2)]
  have same: "same_but_packets s s'" using eff(1) by (rule same_but_packets_trans [rotated]) simp
  have "mapping_grows expected s (speaker_ssrcs s')"
    using infer_candidate [OF Some] assms(3) eff(2) by (auto simp: mapping_grows_def)
  with same eff show ?thesis by (auto simp: packet_effect_def attributed_same [of s ?s1])
qed

lemma packet_effect_later:
  assumes "same_but_packets s s1" and "speaker_ssrcs s1 = speaker_ssrcs s"
    and "pending_packets s1 = pending_packets s" and "packet_effect aead packet at expected s1 r s'"
  shows "packet_effect aead packet at expected s r s'"
  using assms(2-4) same_but_packets_trans [OF assms(1)] same_but_packets_fields(3) [OF assms(1)]
  unfolding packet_effect_def mapping_grows_def attributed_same [OF assms(1)] by auto

lemma process_audio_packet_effect:
  assumes "process_audio_packet lib aead packet at expected s = (r, s')"
  shows "packet_effect aead packet at expected s r s'"
proof (cases "is_rtcp_packet packet \<or> (\<exists>err. parse_rtp_header packet = Inl err)")
  case True
  with assms show ?thesis
    by (auto simp: process_audio_packet_def packet_effect_def mapping_grows_def split: if_splits)
next
  case False
  then obtain header where h: "parse_rtp_header packet = Inr header" and rtp: "\<not> is_rtcp_packet packet"
    by (cases "parse_rtp_header packet") auto
  show ?thesis
  proof (cases "speaker_ssrcs s (header_ssrc header)")
    case (Some user)
    then have "process_mapped_packet lib aead packet header at expected s = (r, s')"
      using assms h rtp by (simp add: process_audio_packet_def)
    from process_mapped_effect [OF this h] show ?thesis by (auto simp: packet_effect_def mapping_grows_def)
  next
    case None
    show ?thesis
    proof (cases "expected = None \<or> obs_dave s = None")
      case True
      then have "process_unmapped_packet lib aead packet header at expected s = (r, s')"
        using assms h rtp None by (auto simp: process_audio_packet_def split: option.splits)
      from process_unmapped_effect [OF this h None] show ?thesis .
    next
      case False
      then obtain user dave where user: "expected = Some user" and dave: "obs_dave s = Some dave" by auto
      obtain d s1 where dec: "decode_audio_packet lib aead packet header at user s = (d, s1)" by fastforce
      note kept = decode_keeps_fields [OF dec]
      show ?thesis
      proof (cases d)
        case (Inr frame)
        with assms h rtp None user dave dec
        have out: "r = Inr (Some frame)" "s' = record_speaker_ssrc user (header_ssrc header) s1"
          by (auto simp: process_audio_packet_def)
        have "same_but_packets s s'" unfolding out by (rule same_but_packets_trans [OF kept(1)]) simp
        with decode_frame [OF dec [unfolded Inr] h] out kept None user show ?thesis
          by (auto simp: packet_effect_def mapping_grows_def attributed_def)
      next
        case (Inl err)
        show ?thesis
        proof (cases err)
          case NotReady
          with assms h rtp None user dave dec Inl
          have run: "process_unmapped_packet lib aead packet header at expected s1 = (r, s')"
            by (simp add: process_audio_packet_def)
          have "speaker_ssrcs s1 (header_ssrc header) = None" using None kept(2) by simp
          from packet_effect_later [OF kept process_unmapped_effect [OF run h this]] show ?thesis .
        next
          case (Fatal e)
          with assms h rtp None user dave dec Inl kept show ?thesis
            by (auto simp: process_audio_packet_def packet_effect_def mapping_grows_def split: if_splits)
        qed
      qed
    qed
  qed
qed

text \<open>The audio handler as a view of the activity handler.\<close>

fun audio_of :: "VoiceError + ObservedVoiceActivity option \<Rightarrow> VoiceError + ObservedAudioFrame option" where
  "audio_of (Inr (Some (AudioActivity frame))) = Inr (Some frame)"
| "audio_of (Inr _) = Inr None"
| "audio_of (Inl err) = Inl err"

lemma mapped_activity_audio:
  "map_prod audio_of id (process_mapped_activity lib aead packet header at user s)
     = process_mapped_packet lib aead packet header at (Some user) s"
  by (simp add: process_mapped_activity_def process_mapped_packet_def Let_def
      split: option.split sum.split prod.split DecodeAudioPacketError.split)

lemma unmapped_activity_audio:
  "map_prod audio_of id (process_unmapped_activity lib aead packet header at user s)
     = process_unmapped_packet lib aead packet header at (Some user) s"
  by (simp add: process_unmapped_activity_def process_unmapped_packet_def mapped_activity_audio
      split: option.split)

lemma activity_packet_audio:
  "map_prod audio_of id (process_activity_packet lib aead packet at user s)
     = process_audio_packet lib aead packet at (Some user) s"
  by (simp add: process_activity_packet_def process_audio_packet_def mapped_activity_audio
      unmapped_activity_audio split: option.split sum.split prod.split DecodeAudioPacketError.split)

text \<open>Decoding what is pending returns a frame of one of the buffered packets.\<close>

definition pending_effect ::
  "aead_lib \<Rightarrow> string option \<Rightarrow> 'ds ObservedVoiceSession \<Rightarrow> VoiceError + ObservedAudioFrame option
    \<Rightarrow> 'ds ObservedVoiceSession \<Rightarrow> bool" where
  "pending_effect aead expected s r s' \<longleftrightarrow>
     same_but_packets s s' \<and> speaker_ssrcs s' = speaker_ssrcs s \<and> pending_packets s' \<subseteq>\<^sub>m pending_packets s
     \<and> (\<forall>frame. r = Inr (Some frame) \<longrightarrow>
         (\<exists>p. pending_packets s (frame_ssrc frame) = Some p
            \<and> attributed aead s (speaker_ssrcs s) expected (pending_packet p) (pending_received_at p) frame
            \<and> pending_packets s' (frame_ssrc frame) = None))"

lemma pending_effect_later:
  assumes "pending_effect aead expected s1 r s'" and "same_but_packets s s1"
    and "speaker_ssrcs s1 = speaker_ssrcs s" and "pending_packets s1 \<subseteq>\<^sub>m pending_packets s"
  shows "pending_effect aead expected s r s'"
  unfolding pending_effect_def
proof (intro conjI allI impI)
  note eff = assms(1) [unfolded pending_effect_def]
  show "same_but_packets s s'" using eff same_but_packets_trans [OF assms(2)] by blast
  show "speaker_ssrcs s' = speaker_ssrcs s" using eff assms(3) by simp
  show "pending_packets s' \<subseteq>\<^sub>m pending_packets s" using eff assms(4) map_le_trans by blast
  fix frame assume "r = Inr (Some frame)"
  with eff obtain p where p: "pending_packets s1 (frame_ssrc frame) = Some p"
    "attributed aead s1 (speaker_ssrcs s1) expected (pending_packet p) (pending_received_at p) frame"
    "pending_packets s' (frame_ssrc frame) = None" by blast
  have "pending_packets s (frame_ssrc frame) = Some p"
    using assms(4) p(1) unfolding map_le_def by (metis domI)
  with p(2,3) show "\<exists>p. pending_packets s (frame_ssrc frame) = Some p
      \<and> attributed aead s (speaker_ssrcs s) expected (pending_packet p) (pending_received_at p) frame
      \<and> pending_packets s' (frame_ssrc frame) = None"
    unfolding attributed_same [OF assms(2)] assms(3) by blast
qed

lemma pending_effect_refl [simp]: "r = Inr None \<or> r = Inl err \<Longrightarrow> pending_effect aead expected s r s"
  by (auto simp: pending_effect_def)

lemma map_le_remove [simp]: "m(k := None) \<subseteq>\<^sub>m m"
  by (simp add: map_le_def)

lemma decode_pending_effect:
  "decode_pending_loop lib aead expected ssrcs s = (r, s') \<Longrightarrow> pending_ok (pending_packets s)
    \<Longrightarrow> pending_effect aead expected s r s'"
proof (induction ssrcs arbitrary: s)
  case (Cons ssrc rest)
  show ?case
  proof (cases "speaker_ssrcs s ssrc = None \<or> pending_packets s ssrc = None")
    case True
    with Cons show ?thesis by (auto split: option.splits)
  next
    case False
    then obtain user p where user: "speaker_ssrcs s ssrc = Some user" and p: "pending_packets s ssrc = Some p"
      by auto
    let ?s1 = "s\<lparr>pending_packets := (pending_packets s)(ssrc := None)\<rparr>"
    have h: "parse_rtp_header (pending_packet p) = Inr (pending_header p)"
      "header_ssrc (pending_header p) = ssrc"
      using Cons.prems(2) p by (auto simp: pending_ok_def)
    obtain d s2 where dec: "decode_audio_packet lib aead (pending_packet p) (pending_header p)
        (pending_received_at p) user ?s1 = (d, s2)" by fastforce
    note kept = decode_keeps_fields [OF dec]
    have same: "same_but_packets s s2" using kept(1) by (rule same_but_packets_trans [rotated]) simp
    let ?s3 = "s2\<lparr>pending_packets := (pending_packets s2)(ssrc \<mapsto> p)\<rparr>"
    have restored: "pending_packets ?s3 = pending_packets s" using kept(3) p by (simp add: fun_upd_idem)
    have same3: "same_but_packets s ?s3" by (rule same_but_packets_trans [OF same]) simp
    consider (other) "case expected of Some u \<Rightarrow> user \<noteq> u | None \<Rightarrow> False"
      | (frame) frame where "\<not> (case expected of Some u \<Rightarrow> user \<noteq> u | None \<Rightarrow> False)" "d = Inr frame"
      | (wait) "\<not> (case expected of Some u \<Rightarrow> user \<noteq> u | None \<Rightarrow> False)" "d = Inl NotReady"
      | (fatal) e where "\<not> (case expected of Some u \<Rightarrow> user \<noteq> u | None \<Rightarrow> False)" "d = Inl (Fatal e)"
      by (metis DecodeAudioPacketError.exhaust sum.exhaust)
    then show ?thesis
    proof cases
      case other
      then have "decode_pending_loop lib aead expected rest ?s1 = (r, s')"
        using Cons.prems(1) user p by (simp add: Let_def split: option.splits)
      moreover have "pending_ok (pending_packets ?s1)" using pending_ok_remove [OF Cons.prems(2)] by simp
      ultimately have "pending_effect aead expected ?s1 r s'" by (rule Cons.IH)
      then show ?thesis by (rule pending_effect_later) simp_all
    next
      case frame
      then have out: "r = Inr (Some frame)" "s' = s2"
        using Cons.prems(1) user p dec by (simp_all add: Let_def split: option.splits)
      have "attributed aead s (speaker_ssrcs s) expected (pending_packet p) (pending_received_at p) frame
          \<and> frame_ssrc frame = ssrc"
        using decode_frame [OF dec [unfolded frame(2)] h(1)] frame(1) h(2) user
        by (auto simp: attributed_def frame_from_same [of s ?s1] split: option.splits)
      with same kept out p show ?thesis by (auto simp: pending_effect_def)
    next
      case wait
      then have "decode_pending_loop lib aead expected rest ?s3 = (r, s')"
        using Cons.prems(1) user p dec by (simp add: Let_def split: option.splits)
      moreover have "pending_ok (pending_packets ?s3)" unfolding restored by (rule Cons.prems(2))
      ultimately have "pending_effect aead expected ?s3 r s'" by (rule Cons.IH)
      then show ?thesis by (rule pending_effect_later) (use same3 kept restored in simp_all)
    next
      case fatal
      then have "r = Inl e" "s' = s2"
        using Cons.prems(1) user p dec by (simp_all add: Let_def split: option.splits)
      with same kept show ?thesis by (auto simp: pending_effect_def)
    qed
  qed
qed auto

lemma pending_ok_mono: "pending_ok m \<Longrightarrow> m' \<subseteq>\<^sub>m m \<Longrightarrow> pending_ok m'"
  unfolding pending_ok_def map_le_def by (metis domI)

section \<open>Runs of an observer\<close>

datatype 'ds observer_op =
    SpeakingOp Speaking
  | ClientsConnectOp "string list"
  | ClientDisconnectOp string
  | RecordSsrcOp string u32
  | AudioPacketOp bytes nanos "string option"
  | ActivityPacketOp bytes nanos string
  | DecodePendingOp "u32 list" "string option"
  | PopSpeakingOp string
  | PopDisconnectOp string
  | EnsureReceiveOp
  | FinishReceiveOp "VoiceError + VoiceGatewayPayload"
  | DaveReadyOp "'ds PendingObserverReadyResult"
  | StageProposalsOp "'ds DaveRuntimeContext"

fun observer_step ::
  "'ds davey_lib \<Rightarrow> aead_lib \<Rightarrow> 'ds observer_op \<Rightarrow> 'ds ObservedVoiceSession \<Rightarrow> 'ds ObservedVoiceSession" where
  "observer_step lib aead (SpeakingOp speaking) s = apply_speaking speaking s"
| "observer_step lib aead (ClientsConnectOp ids) s = apply_clients_connect ids s"
| "observer_step lib aead (ClientDisconnectOp user) s = apply_client_disconnect user s"
| "observer_step lib aead (RecordSsrcOp user ssrc) s = record_speaker_ssrc user ssrc s"
| "observer_step lib aead (AudioPacketOp packet at expected) s =
     snd (process_audio_packet lib aead packet at expected s)"
| "observer_step lib aead (ActivityPacketOp packet at user) s =
     snd (process_activity_packet lib aead packet at user s)"
| "observer_step lib aead (DecodePendingOp keys expected) s =
     snd (try_decode_pending_audio_frame lib aead keys expected s)"
| "observer_step lib aead (PopSpeakingOp user) s = snd (pop_pending_speaking_state_from user s)"
| "observer_step lib aead (PopDisconnectOp user) s = snd (pop_pending_disconnect_from user s)"
| "observer_step lib aead EnsureReceiveOp s = snd (ensure_gateway_receive s)"
| "observer_step lib aead (FinishReceiveOp result) s = snd (finish_gateway_receive result s)"
| "observer_step lib aead (DaveReadyOp ready) s = apply_observer_dave_ready ready s"
| "observer_step lib aead (StageProposalsOp dave) s = snd (snd (stage_pending_dave_proposals lib dave s))"

definition observer_run ::
  "'ds davey_lib \<Rightarrow> aead_lib \<Rightarrow> 'ds observer_op list \<Rightarrow> 'ds ObservedVoiceSession \<Rightarrow> 'ds ObservedVoiceSession" where
  "observer_run lib aead ops s = fold (observer_step lib aead) ops s"

definition observer_wf :: "'ds ObservedVoiceSession \<Rightarrow> bool" where
  "observer_wf s \<longleftrightarrow>
     pending_ok (pending_packets s)
     \<and> remote_speaker_candidates s \<subseteq> dave_recognized_user_ids s - {vc_user_id (obs_voice s)}
     \<and> (gateway_receive_closed s \<longrightarrow> \<not> heartbeat_running s \<and> \<not> gateway_receive s)"

lemma observer_wf_packets:
  "observer_wf s \<Longrightarrow> same_but_packets s s' \<Longrightarrow> pending_ok (pending_packets s') \<Longrightarrow> observer_wf s'"
  by (auto simp: observer_wf_def same_but_packets_fields)

lemma observer_wf_record [simp]: "observer_wf s \<Longrightarrow> observer_wf (record_speaker_ssrc user ssrc s)"
  by (simp add: observer_wf_def record_speaker_ssrc_def)

lemma observer_wf_members [simp]:
  "observer_wf s \<Longrightarrow> observer_wf (s\<lparr>dave_recognized_user_ids := insert user (dave_recognized_user_ids s)\<rparr>)"
  "observer_wf s \<Longrightarrow> user \<noteq> vc_user_id (obs_voice s)
    \<Longrightarrow> observer_wf (s\<lparr>remote_speaker_candidates := insert user (remote_speaker_candidates s),
          dave_recognized_user_ids := insert user (dave_recognized_user_ids s)\<rparr>)"
  "observer_wf s \<Longrightarrow> observer_wf
     (s\<lparr>dave_recognized_user_ids := dave_recognized_user_ids s - {user},
        remote_speaker_candidates := remote_speaker_candidates s - {user}, speaker_ssrcs := m\<rparr>)"
  by (auto simp: observer_wf_def)

lemma observer_wf_connect: "observer_wf s \<Longrightarrow> observer_wf (apply_clients_connect ids s)"
  by (induction ids arbitrary: s) (simp_all add: Let_def)

lemma observer_wf_updates: "observer_wf s \<Longrightarrow> observer_wf (apply_pending_gateway_updates updates s)"
  by (induction updates s rule: apply_pending_gateway_updates.induct) simp_all

lemma observer_wf_ready:
  assumes "observer_wf s"
  shows "observer_wf (apply_observer_dave_ready ready s)"
proof -
  let ?s1 = "s\<lparr>dave_material := Some (ready_material ready),
               dave_recognized_user_ids := ready_recognized_user_ids ready,
               remote_speaker_candidates := ready_recognized_user_ids ready - {vc_user_id (obs_voice s)},
               completed_dave_transition_ids :=
                 (case ready_completed_transition_id ready of
                    None \<Rightarrow> completed_dave_transition_ids s
                  | Some transition_id \<Rightarrow> insert transition_id (completed_dave_transition_ids s))\<rparr>"
  have "observer_wf ?s1" using assms by (auto simp: observer_wf_def)
  then have "observer_wf (apply_pending_gateway_updates (ready_gateway_updates ready) ?s1)"
    by (rule observer_wf_updates)
  then show ?thesis by (simp add: apply_observer_dave_ready_def Let_def observer_wf_def)
qed

lemma observer_wf_audio:
  assumes "observer_wf s"
  shows "observer_wf (snd (process_audio_packet lib aead packet at expected s))"
proof -
  obtain r s' where run: "process_audio_packet lib aead packet at expected s = (r, s')" by fastforce
  have "pending_ok (pending_packets s)" using assms by (simp add: observer_wf_def)
  with process_audio_packet_effect [OF run] assms run show ?thesis
    by (auto simp: packet_effect_def intro: observer_wf_packets)
qed

lemma activity_state:
  "snd (process_activity_packet lib aead packet at user s)
    = snd (process_audio_packet lib aead packet at (Some user) s)"
  using arg_cong [OF activity_packet_audio [of lib aead packet at user s], of snd] by simp

lemma observer_wf_pending:
  assumes "observer_wf s"
  shows "observer_wf (snd (try_decode_pending_audio_frame lib aead keys expected s))"
proof -
  obtain r s' where run: "try_decode_pending_audio_frame lib aead keys expected s = (r, s')" by fastforce
  have ok: "pending_ok (pending_packets s)" using assms by (simp add: observer_wf_def)
  from decode_pending_effect [OF run [unfolded try_decode_pending_audio_frame_def] ok]
  have "same_but_packets s s'" "pending_packets s' \<subseteq>\<^sub>m pending_packets s" by (auto simp: pending_effect_def)
  with assms run show ?thesis by (auto intro: observer_wf_packets pending_ok_mono [OF ok])
qed

lemma observer_wf_bookkeeping:
  assumes "observer_wf s"
  shows "observer_wf (apply_speaking speaking s)"
    and "observer_wf (apply_client_disconnect user s)"
    and "observer_wf (snd (pop_pending_speaking_state_from user s))"
    and "observer_wf (snd (pop_pending_disconnect_from user s))"
    and "observer_wf (snd (ensure_gateway_receive s))"
    and "observer_wf (snd (finish_gateway_receive result s))"
    and "observer_wf (snd (snd (stage_pending_dave_proposals lib dave s)))"
  using assms
  by (auto simp: observer_wf_def apply_speaking_def record_speaker_ssrc_def apply_client_disconnect_def
      pop_pending_speaking_state_from_def pop_pending_disconnect_from_def ensure_gateway_receive_def
      finish_gateway_receive_def mark_gateway_receive_closed_def stage_pending_dave_proposals_def Let_def
      split: option.splits sum.splits prod.splits)

lemma observer_wf_step: "observer_wf s \<Longrightarrow> observer_wf (observer_step lib aead op s)"
  by (cases op) (simp_all add: observer_wf_bookkeeping observer_wf_connect observer_wf_audio
      observer_wf_pending observer_wf_ready activity_state)

lemma observer_wf_run: "observer_wf s \<Longrightarrow> observer_wf (observer_run lib aead ops s)"
  by (induction ops arbitrary: s) (simp_all add: observer_run_def observer_wf_step)

lemma observer_wf_initial: "observer_wf (observed_without_dave voice connected protection author)"
  by (simp add: observer_wf_def observed_without_dave_def pending_ok_def)

section \<open>Properties\<close>

text \<open>Attribution. After any sequence of gateway updates and packets, a frame that the observer returns
  was made of a packet that opens under the session key: sequence number, timestamp and source are
  those of the packet's own header, the user is the one the source is mapped to and the one asked for,
  and without end-to-end encryption the payload is the decrypted payload. A frame returned from the
  buffer comes from the packet buffered under its source, which is then gone from the buffer.\<close>

theorem observed_frame_attribution:
  assumes "s = observer_run lib aead ops (observed_without_dave voice connected protection author)"
  shows "(process_audio_packet lib aead packet at expected s = (Inr (Some frame), s')
        \<longrightarrow> attributed aead s (speaker_ssrcs s') expected packet at frame)
      \<and> (try_decode_pending_audio_frame lib aead keys expected s = (Inr (Some frame), s')
        \<longrightarrow> (\<exists>p. pending_packets s (frame_ssrc frame) = Some p
            \<and> attributed aead s (speaker_ssrcs s) expected (pending_packet p) (pending_received_at p) frame
            \<and> pending_packets s' (frame_ssrc frame) = None))"
proof -
  have "observer_wf s" unfolding assms by (rule observer_wf_run [OF observer_wf_initial])
  then have ok: "pending_ok (pending_packets s)" by (simp add: observer_wf_def)
  show ?thesis
  proof (intro conjI impI)
    assume "process_audio_packet lib aead packet at expected s = (Inr (Some frame), s')"
    from process_audio_packet_effect [OF this]
    show "attributed aead s (speaker_ssrcs s') expected packet at frame" by (simp add: packet_effect_def)
  next
    assume "try_decode_pending_audio_frame lib aead keys expected s = (Inr (Some frame), s')"
    from decode_pending_effect [OF this [unfolded try_decode_pending_audio_frame_def] ok]
    show "\<exists>p. pending_packets s (frame_ssrc frame) = Some p
        \<and> attributed aead s (speaker_ssrcs s) expected (pending_packet p) (pending_received_at p) frame
        \<and> pending_packets s' (frame_ssrc frame) = None" by (simp add: pending_effect_def)
  qed
qed

definition forgotten :: "string \<Rightarrow> 'ds ObservedVoiceSession \<Rightarrow> bool" where
  "forgotten user s \<longleftrightarrow> user \<notin> ran (speaker_ssrcs s) \<and> user \<notin> remote_speaker_candidates s"

lemma forgotten_packet:
  assumes "forgotten user s" and "expected \<noteq> Some user"
    and "process_audio_packet lib aead packet at expected s = (r, s')"
  shows "forgotten user s'" and "r = Inr (Some frame) \<Longrightarrow> frame_user_id frame \<noteq> user"
proof -
  note eff = process_audio_packet_effect [OF assms(3)]
  from eff have same: "same_but_packets s s'" by (simp add: packet_effect_def)
  from eff assms(1,2) same_but_packets_fields(3) [OF same] show *: "forgotten user s'"
    by (auto simp: packet_effect_def mapping_grows_def forgotten_def ran_def split: if_splits)
  assume "r = Inr (Some frame)"
  with eff have "speaker_ssrcs s' (frame_ssrc frame) = Some (frame_user_id frame)"
    by (auto simp: packet_effect_def attributed_def)
  with * show "frame_user_id frame \<noteq> user" by (auto simp: forgotten_def ran_def)
qed

text \<open>The packets received one after another, each with the user asked for, and the frames they gave.\<close>

fun receive_packets ::
  "'ds davey_lib \<Rightarrow> aead_lib \<Rightarrow> (bytes \<times> nanos \<times> string option) list \<Rightarrow> 'ds ObservedVoiceSession
    \<Rightarrow> ObservedAudioFrame list" where
  "receive_packets lib aead [] s = []"
| "receive_packets lib aead ((packet, at, expected) # rest) s =
    (case process_audio_packet lib aead packet at expected s of
       (Inr (Some frame), s') \<Rightarrow> frame # receive_packets lib aead rest s'
     | (_, s') \<Rightarrow> receive_packets lib aead rest s')"

lemma forgotten_receive:
  assumes "forgotten user s" and "\<forall>(packet, at, expected) \<in> set packets. expected \<noteq> Some user"
  shows "user \<notin> frame_user_id ` set (receive_packets lib aead packets s)"
  using assms
proof (induction packets arbitrary: s)
  case (Cons x rest)
  obtain packet at expected where x: "x = (packet, at, expected)" by (metis prod_cases3)
  obtain r s' where run: "process_audio_packet lib aead packet at expected s = (r, s')" by fastforce
  have exp: "expected \<noteq> Some user" using Cons.prems(2) x by simp
  note fp = forgotten_packet [OF Cons.prems(1) exp run]
  have "user \<notin> frame_user_id ` set (receive_packets lib aead rest s')"
    using Cons.IH [OF fp(1)] Cons.prems(2) by simp
  then show ?case using fp(2) x run by (auto split: sum.splits option.splits)
qed simp

text \<open>A user who left is forgotten. After the gateway reports a disconnect, no packet is attributed to
  that user any more, however many packets arrive, until the gateway announces the user again or the
  caller asks for that user by name.\<close>

theorem disconnect_forgets_user:
  assumes "\<forall>(packet, at, expected) \<in> set packets. expected \<noteq> Some user"
  shows "user \<notin> frame_user_id ` set (receive_packets lib aead packets (apply_client_disconnect user s))
    \<and> user \<in> set (pending_disconnects (apply_client_disconnect user s))"
proof -
  have "forgotten user (apply_client_disconnect user s)"
    by (auto simp: forgotten_def apply_client_disconnect_def retain_others_def ran_def split: if_splits)
  from forgotten_receive [OF this assms] show ?thesis by (simp add: apply_client_disconnect_def)
qed

text \<open>Concrete runs: an observer without end-to-end encryption who knows one speaker.\<close>

abbreviation demo_voice :: VoiceContext where
  "demo_voice \<equiv> \<lparr>vc_guild_id = ''1'', vc_channel_id = ''2'', vc_user_id = ''3'', vc_session_id = ''s'',
     vc_endpoint = ''e'', vc_token = ''t''\<rparr>"

abbreviation demo_observer :: "unit ObservedVoiceSession" where
  "demo_observer \<equiv> observed_without_dave demo_voice True (Some demo_context) True"

abbreviation demo_datagram :: bytes where
  "demo_datagram \<equiv> build_header 9 1 960 @ [1, 2, 3] @ replicate 16 0 @ u32_to_be_bytes 5"

lemma demo_datagram_opens:
  "\<exists>h. parse_rtp_header demo_datagram = Inr h \<and> header_ssrc h = 9 \<and> header_sequence h = 1
     \<and> unprotect_packet null_aead demo_context demo_datagram = Inr (h, [1, 2, 3])"
proof -
  have "protect_packet null_aead demo_context (build_header 9 1 960) [1, 2, 3]
      = (Inr demo_datagram, demo_context\<lparr>next_nonce := 6\<rparr>)"
    by (simp add: protect_packet_def null_aead_def)
  from unprotect_protected [OF null_aead_correct this, of demo_context] show ?thesis by auto
qed

lemma build_header_not_rtcp [simp]: "\<not> is_rtcp_packet (build_header ssrc seq ts @ rest)"
  by (simp add: is_rtcp_packet_def build_header_def)

lemma demo_datagram_observed:
  assumes "obs_protection s = Some demo_context" and "obs_dave s = None" and "speaker_ssrcs s 9 = Some ''7''"
  shows "\<exists>frame s'. process_audio_packet lib null_aead demo_datagram 4 None s = (Inr (Some frame), s')
    \<and> frame_payload frame = [1, 2, 3] \<and> frame_user_id frame = ''7''"
proof -
  obtain h where h: "parse_rtp_header demo_datagram = Inr h" "header_ssrc h = 9"
    "unprotect_packet null_aead demo_context demo_datagram = Inr (h, [1, 2, 3])"
    using demo_datagram_opens by blast
  then show ?thesis
    using assms
    by (simp add: process_audio_packet_def process_mapped_packet_def decode_audio_packet_def
        decrypt_audio_payload_def del: append_Cons append.simps replicate.simps)
qed

theorem observed_frame_attribution_witness:
  "\<exists>s' frame. process_audio_packet demo_davey null_aead demo_datagram 4 None
       (record_speaker_ssrc ''7'' 9 demo_observer) = (Inr (Some frame), s')
     \<and> attributed null_aead (record_speaker_ssrc ''7'' 9 demo_observer) (speaker_ssrcs s') None
         demo_datagram 4 frame \<and> frame_user_id frame = ''7''"
proof -
  let ?s = "record_speaker_ssrc ''7'' 9 demo_observer"
  have run: "?s = observer_run demo_davey null_aead [RecordSsrcOp ''7'' 9] demo_observer"
    by (simp add: observer_run_def)
  obtain frame s' where out: "process_audio_packet demo_davey null_aead demo_datagram 4 None ?s
      = (Inr (Some frame), s')" "frame_user_id frame = ''7''"
    using demo_datagram_observed [of ?s demo_davey]
    by (auto simp: record_speaker_ssrc_def observed_without_dave_def)
  with observed_frame_attribution [OF run, of demo_datagram 4 None frame s'] show ?thesis by blast
qed

theorem disconnect_forgets_user_witness:
  "''7'' \<notin> frame_user_id ` set (receive_packets demo_davey null_aead [(demo_datagram, 4, None)]
      (apply_client_disconnect ''7'' (record_speaker_ssrc ''7'' 9 demo_observer)))"
proof -
  have "\<forall>(packet, at, expected) \<in> set [(demo_datagram, 4, None)]. expected \<noteq> Some ''7''" by simp
  from disconnect_forgets_user [OF this] show ?thesis by blast
qed

end
