(* ===== verification/RuntimeState.thy ===== *)
theory RuntimeState
  imports PlaybackErrors Protocol
begin

text \<open>
  The state of a session as clients see it (\<open>session/state.rs\<close>, \<open>session/events.rs\<close>), readiness and the
  guards of the commands (\<open>session/readiness.rs\<close>) and the counters of \<open>observability.rs\<close>. An atomic
  counter is a 64-bit word that wraps around. Logging is not modelled.
\<close>

section \<open>Errors, state and events\<close>

datatype RuntimeError =
    RuntimeInvalidState string
  | RuntimePlayback PlaybackError
  | RuntimeVoice VoiceError

datatype SessionState =
    Idle | ConnectingVoice | VoiceReady | ResolvingTrack | Buffering | Playing | Paused | Stopping | ErrorState

record Snapshot =
  snap_state :: SessionState
  snap_guild_id :: "string option"
  snap_channel_id :: "string option"
  snap_current_video_id :: "string option"
  snap_selected_itag :: "u32 option"
  snap_queue_depth :: usize
  snap_position_ms :: u64
  snap_recovering :: bool
  snap_voice_reconnecting :: bool
  snap_last_reason :: "string option"

definition Snapshot_default :: Snapshot where
  "Snapshot_default =
     \<lparr>snap_state = Idle, snap_guild_id = None, snap_channel_id = None, snap_current_video_id = None,
      snap_selected_itag = None, snap_queue_depth = 0, snap_position_ms = 0, snap_recovering = False,
      snap_voice_reconnecting = False, snap_last_reason = None\<rparr>"

datatype SessionEventKind =
    EvVoiceConnecting | EvVoiceReady | EvTrackResolving | EvBuffering | EvPlaying | EvPaused | EvStopped
  | EvTrackEnded | EvPlaybackInterrupted | EvRecoverableWarning | EvFatalError | EvVoiceReconnecting

record SessionEventRecord =
  event_kind :: SessionEventKind
  event_guild_id :: "string option"
  event_channel_id :: "string option"
  event_current_video_id :: "string option"
  event_selected_itag :: "u32 option"
  event_message :: "string option"

definition SessionEventRecord_from_snapshot :: "SessionEventKind \<Rightarrow> Snapshot \<Rightarrow> SessionEventRecord" where
  "SessionEventRecord_from_snapshot kind snapshot =
     \<lparr>event_kind = kind, event_guild_id = snap_guild_id snapshot,
      event_channel_id = snap_channel_id snapshot,
      event_current_video_id = snap_current_video_id snapshot,
      event_selected_itag = snap_selected_itag snapshot, event_message = snap_last_reason snapshot\<rparr>"

datatype Command =
    JoinVoice VoiceContext
  | UpdateVoiceContext VoiceContext
  | Play string
  | Pause
  | Resume
  | Stop
  | LeaveVoice

section \<open>Readiness\<close>

record ReadinessSnapshot =
  runtime_booted :: bool
  ytmusic_healthy :: bool

definition ReadinessSnapshot_default :: ReadinessSnapshot where
  "ReadinessSnapshot_default = \<lparr>runtime_booted = False, ytmusic_healthy = False\<rparr>"

definition is_ready :: "ReadinessSnapshot \<Rightarrow> bool" where
  "is_ready r \<longleftrightarrow> runtime_booted r \<and> ytmusic_healthy r"

record Observability =
  rpc_requests_total :: u64
  state_queries_total :: u64
  readiness_transitions_total :: u64
  ytmusic_probe_total :: u64
  last_ready :: bool

definition Observability_default :: Observability where
  "Observability_default =
     \<lparr>rpc_requests_total = 0, state_queries_total = 0, readiness_transitions_total = 0,
      ytmusic_probe_total = 0, last_ready = False\<rparr>"

definition record_rpc :: "Observability \<Rightarrow> Observability" where
  "record_rpc obs = obs\<lparr>rpc_requests_total := rpc_requests_total obs + 1\<rparr>"

definition record_state_query :: "Observability \<Rightarrow> Observability" where
  "record_state_query obs = obs\<lparr>state_queries_total := state_queries_total obs + 1\<rparr>"

definition record_ytmusic_probe :: "Observability \<Rightarrow> Observability" where
  "record_ytmusic_probe obs = obs\<lparr>ytmusic_probe_total := ytmusic_probe_total obs + 1\<rparr>"

definition record_readiness :: "ReadinessSnapshot \<Rightarrow> Observability \<Rightarrow> Observability" where
  "record_readiness readiness obs =
    (let ready = is_ready readiness; previous = last_ready obs; obs1 = obs\<lparr>last_ready := ready\<rparr> in
     if previous \<noteq> ready
     then obs1\<lparr>readiness_transitions_total := readiness_transitions_total obs1 + 1\<rparr> else obs1)"

definition mark_runtime_booted ::
  "ReadinessSnapshot \<times> Observability \<Rightarrow> ReadinessSnapshot \<times> Observability" where
  "mark_runtime_booted = (\<lambda>(r, obs). let r1 = r\<lparr>runtime_booted := True\<rparr> in (r1, record_readiness r1 obs))"

definition mark_ytmusic_healthy ::
  "ReadinessSnapshot \<times> Observability \<Rightarrow> ReadinessSnapshot \<times> Observability" where
  "mark_ytmusic_healthy = (\<lambda>(r, obs). let r1 = r\<lparr>ytmusic_healthy := True\<rparr> in (r1, record_readiness r1 obs))"

definition mark_ytmusic_unhealthy ::
  "ReadinessSnapshot \<times> Observability \<Rightarrow> ReadinessSnapshot \<times> Observability" where
  "mark_ytmusic_unhealthy = (\<lambda>(r, obs). let r1 = r\<lparr>ytmusic_healthy := False\<rparr> in (r1, record_readiness r1 obs))"

section \<open>Guards\<close>

definition ensure_joinable_session :: "Snapshot \<Rightarrow> RuntimeError + unit" where
  "ensure_joinable_session snapshot =
    (if snap_state snapshot = Idle \<and> snap_guild_id snapshot = None \<and> snap_channel_id snapshot = None
        \<and> snap_current_video_id snapshot = None
     then Inr () else Inl (RuntimeInvalidState ''join_voice requires an idle session''))"

definition ensure_active_voice_session :: "Snapshot \<Rightarrow> string \<Rightarrow> RuntimeError + unit" where
  "ensure_active_voice_session snapshot action =
    (if snap_guild_id snapshot \<noteq> None \<and> snap_channel_id snapshot \<noteq> None then Inr ()
     else Inl (RuntimeInvalidState
       (if action = ''play'' then ''play requires active voice session''
        else if action = ''pause'' then ''pause requires active voice session''
        else if action = ''resume'' then ''resume requires active voice session''
        else if action = ''stop'' then ''stop requires active voice session''
        else if action = ''update_voice_context'' then ''update_voice_context requires active voice session''
        else ''command requires active voice session'')))"

definition ensure_track_loaded :: "Snapshot \<Rightarrow> string \<Rightarrow> RuntimeError + unit" where
  "ensure_track_loaded snapshot action =
     res_bind (ensure_active_voice_session snapshot action) (\<lambda>_.
       if snap_current_video_id snapshot \<noteq> None then Inr ()
       else Inl (RuntimeInvalidState
         (if action = ''pause'' then ''pause requires an active track''
          else if action = ''resume'' then ''resume requires an active track''
          else ''command requires an active track'')))"

definition ensure_pauseable_track :: "Snapshot \<Rightarrow> RuntimeError + unit" where
  "ensure_pauseable_track snapshot =
     res_bind (ensure_track_loaded snapshot ''pause'') (\<lambda>_.
       if snap_state snapshot = Playing then Inr ()
       else Inl (RuntimeInvalidState ''pause requires a playing track''))"

definition ensure_resumable_track :: "Snapshot \<Rightarrow> RuntimeError + unit" where
  "ensure_resumable_track snapshot =
     res_bind (ensure_track_loaded snapshot ''resume'') (\<lambda>_.
       if snap_state snapshot = Paused \<or> snap_state snapshot = Playing then Inr ()
       else Inl (RuntimeInvalidState ''resume requires a paused or playing track''))"

end
