(* ===== verification/Gateway.thy ===== *)
theory Gateway
  imports Protocol
begin

text \<open>
  The client of the voice gateway (\<open>gateway.rs\<close>, \<open>ws.rs\<close>, \<open>speaking.rs\<close>): reading the next event off the
  web socket, the sequence number it acknowledges, and what each call writes. The web socket is a
  parameter: a function that writes a message to a world, and the list of what the reader yields, whose
  end is the end of the stream. The printing of JSON belongs to the writer.
\<close>

section \<open>The web socket\<close>

datatype ws_error = WsConnectionClosed | WsAlreadyClosed | WsResetWithoutClosingHandshake | WsOtherError

datatype ws_message = WsText string | WsBinary bytes | WsClose | WsOther

datatype ws_out = OutJson Value | OutBinary bytes | OutClose

type_synonym 'w ws_write = "'w \<Rightarrow> ws_out \<Rightarrow> (VoiceError + unit) \<times> 'w"

definition websocket_closed_during_receive :: "ws_error \<Rightarrow> bool" where
  "websocket_closed_during_receive err \<longleftrightarrow>
     err \<in> {WsConnectionClosed, WsAlreadyClosed, WsResetWithoutClosingHandshake}"

text \<open>Splitting at a character, as \<open>str::split\<close> does, and at the first one, as \<open>split_once\<close> does.\<close>

fun split_on :: "char \<Rightarrow> string \<Rightarrow> string list" where
  "split_on c [] = [[]]"
| "split_on c (x # xs) =
    (if x = c then [] # split_on c xs
     else (case split_on c xs of [] \<Rightarrow> [[x]] | y # ys \<Rightarrow> (x # y) # ys))"

fun join_with :: "char \<Rightarrow> string list \<Rightarrow> string" where
  "join_with c [] = []"
| "join_with c [x] = x"
| "join_with c (x # xs) = x @ c # join_with c xs"

definition query_key :: "string \<Rightarrow> string" where
  "query_key pair = takeWhile (\<lambda>c. c \<noteq> CHR ''='') pair"

definition query_params :: "string option \<Rightarrow> string list" where
  "query_params query =
    (case query of
       None \<Rightarrow> []
     | Some q \<Rightarrow> filter (\<lambda>pair. query_key pair \<noteq> ''v'' \<and> query_key pair \<noteq> ''encoding'')
                  (filter (\<lambda>pair. pair \<noteq> []) (split_on CHR ''&'' q)))"

definition normalize_query :: "string option \<Rightarrow> string" where
  "normalize_query query = join_with CHR ''&'' (query_params query @ [''v=8'', ''encoding=json''])"

section \<open>The client\<close>

record VoiceGatewayClient =
  gw_seq_ack :: "u64 option"

definition VoiceGatewayClient_connect :: VoiceGatewayClient where
  "VoiceGatewayClient_connect = \<lparr>gw_seq_ack = None\<rparr>"

definition record_seq_ack :: "u64 \<Rightarrow> VoiceGatewayClient \<Rightarrow> VoiceGatewayClient" where
  "record_seq_ack seq gw = gw\<lparr>gw_seq_ack := Some seq\<rparr>"

definition apply_gateway_event :: "u64 option \<Rightarrow> VoiceGatewayClient \<Rightarrow> VoiceGatewayClient" where
  "apply_gateway_event seq gw = (case seq of None \<Rightarrow> gw | Some n \<Rightarrow> record_seq_ack n gw)"

text \<open>A payload that parsed: its sequence number is recorded before it is returned.\<close>

definition accept_payload ::
  "VoiceError + VoiceGatewayPayload \<Rightarrow> VoiceGatewayClient \<Rightarrow> (VoiceError + VoiceGatewayPayload) \<times> VoiceGatewayClient" where
  "accept_payload r gw =
    (case r of
       Inl err \<Rightarrow> (Inl err, gw)
     | Inr payload \<Rightarrow> (Inr payload, apply_gateway_event (payload_seq payload) gw))"

fun receive_event ::
  "(string \<Rightarrow> Value option) \<Rightarrow> (ws_error + ws_message) list \<Rightarrow> VoiceGatewayClient
    \<Rightarrow> (VoiceError + VoiceGatewayPayload) \<times> VoiceGatewayClient \<times> (ws_error + ws_message) list" where
  "receive_event from_str [] gw = (Inl (InvalidState ''voice gateway closed during receive''), gw, [])"
| "receive_event from_str (Inl err # rest) gw =
    (if websocket_closed_during_receive err
     then (Inl (InvalidState ''voice gateway closed during receive''), gw, rest)
     else (Inl WebSocket, gw, rest))"
| "receive_event from_str (Inr (WsText text) # rest) gw =
    (let (r, gw1) = accept_payload (parse_gateway_message from_str text) gw in (r, gw1, rest))"
| "receive_event from_str (Inr (WsBinary bytes) # rest) gw =
    (let (r, gw1) = accept_payload (parse_gateway_binary_message bytes) gw in (r, gw1, rest))"
| "receive_event from_str (Inr WsClose # rest) gw =
    (Inl (InvalidState ''voice gateway closed during receive''), gw, rest)"
| "receive_event from_str (Inr WsOther # rest) gw = receive_event from_str rest gw"

section \<open>Sending\<close>

definition send_json :: "'w ws_write \<Rightarrow> Value \<Rightarrow> 'w \<Rightarrow> (VoiceError + unit) \<times> 'w" where
  "send_json ws payload w = ws w (OutJson payload)"

definition send_binary :: "'w ws_write \<Rightarrow> bytes \<Rightarrow> 'w \<Rightarrow> (VoiceError + unit) \<times> 'w" where
  "send_binary ws payload w = ws w (OutBinary payload)"

definition gateway_close :: "'w ws_write \<Rightarrow> 'w \<Rightarrow> (VoiceError + unit) \<times> 'w" where
  "gateway_close ws w = ws w OutClose"

definition send_identify :: "'w ws_write \<Rightarrow> u16 \<Rightarrow> VoiceContext \<Rightarrow> 'w \<Rightarrow> (VoiceError + unit) \<times> 'w" where
  "send_identify ws max_supported voice w =
     send_json ws (identify_payload voice (if max_supported > 0 then Some max_supported else None)) w"

definition send_select_protocol ::
  "'w ws_write \<Rightarrow> string \<Rightarrow> u16 \<Rightarrow> string \<Rightarrow> 'w \<Rightarrow> (VoiceError + unit) \<times> 'w" where
  "send_select_protocol ws ip port mode w = send_json ws (select_protocol_payload ip port mode) w"

text \<open>The milliseconds since the Unix epoch: \<open>None\<close> when the clock is before it.\<close>

definition heartbeat_timestamp_millis :: "nat option \<Rightarrow> VoiceError + u64" where
  "heartbeat_timestamp_millis since_epoch =
    (case since_epoch of
       None \<Rightarrow> Inl (InvalidState ''system clock before unix epoch'')
     | Some millis \<Rightarrow> if millis < 2 ^ 64 then Inr (word_of_nat millis)
                       else Inl (InvalidState ''heartbeat timestamp overflow''))"

definition send_heartbeat ::
  "'w ws_write \<Rightarrow> nat option \<Rightarrow> VoiceGatewayClient \<Rightarrow> 'w \<Rightarrow> (VoiceError + unit) \<times> 'w" where
  "send_heartbeat ws since_epoch gw w =
    (case heartbeat_timestamp_millis since_epoch of
       Inl err \<Rightarrow> (Inl err, w)
     | Inr timestamp \<Rightarrow> send_json ws (heartbeat_payload timestamp (gw_seq_ack gw)) w)"

definition send_resume ::
  "'w ws_write \<Rightarrow> string \<Rightarrow> string \<Rightarrow> string \<Rightarrow> VoiceGatewayClient \<Rightarrow> 'w \<Rightarrow> (VoiceError + unit) \<times> 'w" where
  "send_resume ws server_id session_id token gw w =
     send_json ws (resume_payload server_id session_id token (gw_seq_ack gw)) w"

definition send_dave_transition_ready :: "'w ws_write \<Rightarrow> u16 \<Rightarrow> 'w \<Rightarrow> (VoiceError + unit) \<times> 'w" where
  "send_dave_transition_ready ws transition_id w = send_json ws (dave_transition_ready_payload transition_id) w"

definition send_dave_mls_invalid_commit_welcome :: "'w ws_write \<Rightarrow> u16 \<Rightarrow> 'w \<Rightarrow> (VoiceError + unit) \<times> 'w" where
  "send_dave_mls_invalid_commit_welcome ws transition_id w =
     send_json ws (dave_mls_invalid_commit_welcome_payload transition_id) w"

definition send_dave_mls_key_package :: "'w ws_write \<Rightarrow> bytes \<Rightarrow> 'w \<Rightarrow> (VoiceError + unit) \<times> 'w" where
  "send_dave_mls_key_package ws package w = send_binary ws (dave_mls_key_package_payload package) w"

definition send_speaking_flags :: "'w ws_write \<Rightarrow> u32 \<Rightarrow> u64 \<Rightarrow> 'w \<Rightarrow> (VoiceError + unit) \<times> 'w" where
  "send_speaking_flags ws ssrc speaking w = send_json ws (speaking_payload ssrc speaking) w"

definition send_speaking :: "'w ws_write \<Rightarrow> u32 \<Rightarrow> 'w \<Rightarrow> (VoiceError + unit) \<times> 'w" where
  "send_speaking ws ssrc w = send_speaking_flags ws ssrc SPEAKING_FLAG_MICROPHONE w"

definition send_not_speaking :: "'w ws_write \<Rightarrow> u32 \<Rightarrow> 'w \<Rightarrow> (VoiceError + unit) \<times> 'w" where
  "send_not_speaking ws ssrc w = send_speaking_flags ws ssrc 0 w"

section \<open>Query normalisation\<close>

lemma split_on_nonempty [simp]: "split_on c xs \<noteq> []"
  by (induction xs) (auto split: list.splits)

lemma split_on_append: "c \<notin> set x \<Longrightarrow> split_on c (x @ c # xs) = x # split_on c xs"
  by (induction x) auto

lemma split_on_no: "c \<notin> set x \<Longrightarrow> split_on c x = [x]"
  by (induction x) auto

lemma split_on_join: "xs \<noteq> [] \<Longrightarrow> \<forall>x \<in> set xs. c \<notin> set x \<Longrightarrow> split_on c (join_with c xs) = xs"
  by (induction c xs rule: join_with.induct) (auto simp: split_on_append split_on_no)

lemma split_on_parts: "p \<in> set (split_on c xs) \<Longrightarrow> c \<notin> set p"
proof (induction xs arbitrary: p)
  case (Cons x xs)
  then show ?case by (cases "split_on c xs") (auto split: if_splits)
qed simp

lemma query_params_parts: "p \<in> set (query_params query) \<Longrightarrow> CHR ''&'' \<notin> set p \<and> p \<noteq> []"
  by (auto simp: query_params_def dest: split_on_parts split: option.splits)

text \<open>Normalisation is idempotent and pins the version and the encoding: a normalised query reads back as
  the other parameters in order, followed by one version and one encoding.\<close>

lemma split_normalized:
  "split_on CHR ''&'' (normalize_query query) = query_params query @ [''v=8'', ''encoding=json'']"
  unfolding normalize_query_def
  by (rule split_on_join) (use query_params_parts in auto)

lemma normalized_params: "query_params (Some (normalize_query query)) = query_params query"
proof -
  have "filter (\<lambda>pair. query_key pair \<noteq> ''v'' \<and> query_key pair \<noteq> ''encoding'') (query_params query) = query_params query"
    by (simp add: query_params_def split: option.splits)
  moreover have "filter (\<lambda>pair. pair \<noteq> []) (query_params query) = query_params query"
    using query_params_parts by (simp add: filter_id_conv)
  ultimately show ?thesis
    by (simp add: query_params_def [of "Some _"] split_normalized query_key_def)
qed

lemma normalize_query_idempotent: "normalize_query (Some (normalize_query query)) = normalize_query query"
  by (simp add: normalize_query_def [of "Some _"] normalized_params) (simp add: normalize_query_def)

end
