(* ===== verification/VoiceSession.thy ===== *)
theory VoiceSession
  imports Gateway Dave VoiceUdp "HOL-Library.Char_ord" "HOL-Library.List_Lexorder"
begin

text \<open>
  The connected voice session (\<open>session.rs\<close>, \<open>rollover.rs\<close>): the DAVE transitions a participant goes
  through as gateway events arrive, what is sent for them, and the preparation of audio. A handler takes
  the session and the world the web socket writes to; it ends normally, with an error, or with a panic of
  the DAVE library. Gateway events come with the delay after which they arrive, so that the timeouts of
  the drain are computed; the pauses between repeated messages are not. A \<open>BTreeSet\<close> is a set read in
  ascending order, a \<open>BTreeMap\<close> an association list in ascending order of its keys.
\<close>

section \<open>State\<close>

datatype 'a outcome = Done 'a | Failed VoiceError | Panicked

fun btree_insert :: "'k::linorder \<Rightarrow> 'v \<Rightarrow> ('k \<times> 'v) list \<Rightarrow> ('k \<times> 'v) list" where
  "btree_insert k v [] = [(k, v)]"
| "btree_insert k v ((k1, v1) # rest) =
    (if k < k1 then (k, v) # (k1, v1) # rest
     else if k = k1 then (k, v) # rest
     else (k1, v1) # btree_insert k v rest)"

definition btree_remove :: "'k \<Rightarrow> ('k \<times> 'v) list \<Rightarrow> ('k \<times> 'v) list" where
  "btree_remove k m = filter (\<lambda>(k1, _). k1 \<noteq> k) m"

record VoiceGatewayDrainReport =
  drain_duration :: nanos
  drain_event_count :: u64
  drain_dave_transition_count :: u64

record VoiceSessionRollover =
  roll_recovering :: bool
  roll_voice_reconnecting :: bool

definition VoiceSessionRollover_default :: VoiceSessionRollover where
  "VoiceSessionRollover_default = \<lparr>roll_recovering = False, roll_voice_reconnecting = False\<rparr>"

datatype PendingDaveTransitionSource = CommitBacked | WelcomeBacked

record 'ds PendingDaveTransition =
  pt_transition_id :: u16
  pt_runtime :: "'ds DaveRuntimeContext"
  pt_source :: PendingDaveTransitionSource

record 'ds PendingLocalDaveCommitTransition =
  pl_runtime :: "'ds DaveRuntimeContext"
  pl_commit :: bytes

record 'ds PendingInitialDaveSession =
  pi_session :: "'ds DaveSession"
  pi_protocol_version :: u16

text \<open>Of the external sender the session only uses the splitting of a commit and welcome: whether it is
  there is all that is kept of it. The heartbeat task is kept as whether it runs.\<close>

record 'ds ConnectedVoiceSession =
  vs_voice :: VoiceContext
  vs_rollover :: VoiceSessionRollover
  vs_gateway :: "VoiceGatewayClient option"
  vs_transport :: "VoiceUdpTransport option"
  vs_ssrc :: "u32 option"
  vs_session_description :: "SessionDescription option"
  vs_dave :: "'ds DaveRuntimeContext option"
  vs_pending_initial_dave :: "'ds PendingInitialDaveSession option"
  vs_dave_group_id :: "u64 option"
  vs_dave_external_sender :: bool
  vs_dave_external_sender_bytes :: "bytes option"
  vs_dave_recognized_user_ids :: "string set"
  vs_completed_welcome_backed :: "u16 set"
  vs_completed_local_init_commit :: "u16 set"
  vs_invalidated :: "u16 set"
  vs_prepared_transitions :: "(u16 \<times> u16) list"
  vs_local_init_commit_echoes :: "(u16 \<times> bytes) list"
  vs_local_commit_transition :: "'ds PendingLocalDaveCommitTransition option"
  vs_dave_transition :: "'ds PendingDaveTransition option"
  vs_initial_dave_recovery :: bool
  vs_dave_failed_closed :: bool
  vs_gateway_receive_closed :: bool
  vs_suspended_gateway_seq_ack :: "u64 option"
  vs_heartbeat :: bool
  vs_speaking_started :: bool

definition ConnectedVoiceSession_new :: "VoiceContext \<Rightarrow> 'ds ConnectedVoiceSession" where
  "ConnectedVoiceSession_new voice =
     \<lparr>vs_voice = voice, vs_rollover = VoiceSessionRollover_default, vs_gateway = None, vs_transport = None,
      vs_ssrc = None, vs_session_description = None, vs_dave = None, vs_pending_initial_dave = None,
      vs_dave_group_id = None, vs_dave_external_sender = False, vs_dave_external_sender_bytes = None,
      vs_dave_recognized_user_ids = {vc_user_id voice}, vs_completed_welcome_backed = {},
      vs_completed_local_init_commit = {}, vs_invalidated = {}, vs_prepared_transitions = [],
      vs_local_init_commit_echoes = [], vs_local_commit_transition = None, vs_dave_transition = None,
      vs_initial_dave_recovery = False, vs_dave_failed_closed = False, vs_gateway_receive_closed = False,
      vs_suspended_gateway_seq_ack = None, vs_heartbeat = False, vs_speaking_started = False\<rparr>"

record 'ds InitialDaveState =
  init_runtime :: "'ds DaveRuntimeContext option"
  init_pending_initial_session :: "'ds DaveSession option"
  init_group_id :: u64
  init_protocol_version :: u16
  init_external_sender_bytes :: bytes
  init_recognized_user_ids :: "string set"
  init_completed_welcome_backed :: "u16 set"
  init_completed_local_init_commit :: "u16 set"

record 'ds VoiceHandshakeResult =
  hs_gateway :: VoiceGatewayClient
  hs_transport :: VoiceUdpTransport
  hs_ssrc :: u32
  hs_session_description :: SessionDescription
  hs_dave :: "'ds InitialDaveState option"

text \<open>What \<open>connect\<close> makes of the result of the handshake.\<close>

definition session_from_handshake ::
  "VoiceContext \<Rightarrow> 'ds VoiceHandshakeResult option \<Rightarrow> VoiceError + 'ds ConnectedVoiceSession" where
  "session_from_handshake voice result =
    (case result of
       None \<Rightarrow> Inr (ConnectedVoiceSession_new voice)
     | Some hs \<Rightarrow>
        res_bind (ProtectionContext_from_session (session_mode (hs_session_description hs))
                    (session_secret_key (hs_session_description hs))) (\<lambda>protection.
          let base = (ConnectedVoiceSession_new voice)\<lparr>vs_gateway := Some (hs_gateway hs),
                        vs_transport := Some (transport_with_protection (hs_transport hs) protection),
                        vs_ssrc := Some (hs_ssrc hs),
                        vs_session_description := Some (hs_session_description hs), vs_heartbeat := True\<rparr>
          in Inr (case hs_dave hs of
                    None \<Rightarrow> base
                  | Some dave \<Rightarrow>
                      base\<lparr>vs_dave := init_runtime dave,
                           vs_pending_initial_dave := map_option
                             (\<lambda>session. \<lparr>pi_session = session, pi_protocol_version = init_protocol_version dave\<rparr>)
                             (init_pending_initial_session dave),
                           vs_dave_group_id := Some (init_group_id dave), vs_dave_external_sender := True,
                           vs_dave_external_sender_bytes := Some (init_external_sender_bytes dave),
                           vs_dave_recognized_user_ids := init_recognized_user_ids dave,
                           vs_completed_welcome_backed := init_completed_welcome_backed dave,
                           vs_completed_local_init_commit := init_completed_local_init_commit dave\<rparr>)))"

definition replace_voice_context :: "VoiceContext \<Rightarrow> 'ds ConnectedVoiceSession \<Rightarrow> 'ds ConnectedVoiceSession" where
  "replace_voice_context voice s = s\<lparr>vs_voice := voice\<rparr>"

definition is_connected :: "'ds ConnectedVoiceSession \<Rightarrow> bool" where
  "is_connected s \<longleftrightarrow> vs_gateway s \<noteq> None \<and> vs_transport s \<noteq> None \<and> vs_ssrc s \<noteq> None
     \<and> vs_session_description s \<noteq> None"

definition can_resume_gateway_after_close :: "'ds ConnectedVoiceSession \<Rightarrow> bool" where
  "can_resume_gateway_after_close s \<longleftrightarrow> vs_transport s \<noteq> None \<and> vs_ssrc s \<noteq> None \<and> vs_session_description s \<noteq> None"

definition dave_enabled :: "'ds ConnectedVoiceSession \<Rightarrow> bool" where
  "dave_enabled s \<longleftrightarrow> vs_dave s \<noteq> None \<or> vs_pending_initial_dave s \<noteq> None \<or> vs_dave_transition s \<noteq> None
     \<or> vs_local_commit_transition s \<noteq> None \<or> vs_prepared_transitions s \<noteq> []
     \<or> vs_local_init_commit_echoes s \<noteq> [] \<or> vs_dave_failed_closed s"

section \<open>Transitions\<close>

definition DAVE_PROTOCOL_INIT_TRANSITION_ID :: u16 where "DAVE_PROTOCOL_INIT_TRANSITION_ID = 0"

definition fail_dave_closed :: "'ds ConnectedVoiceSession \<Rightarrow> 'ds ConnectedVoiceSession" where
  "fail_dave_closed s =
     s\<lparr>vs_dave := None, vs_dave_transition := None, vs_pending_initial_dave := None,
       vs_local_commit_transition := None, vs_prepared_transitions := [], vs_local_init_commit_echoes := [],
       vs_initial_dave_recovery := False, vs_dave_failed_closed := True\<rparr>"

definition mark_session_receive_closed :: "'ds ConnectedVoiceSession \<Rightarrow> 'ds ConnectedVoiceSession" where
  "mark_session_receive_closed s = s\<lparr>vs_heartbeat := False, vs_gateway_receive_closed := True\<rparr>"

definition drop_prepared :: "u16 \<Rightarrow> 'ds ConnectedVoiceSession \<Rightarrow> 'ds ConnectedVoiceSession" where
  "drop_prepared tid s = s\<lparr>vs_prepared_transitions := btree_remove tid (vs_prepared_transitions s)\<rparr>"

definition is_prepared :: "u16 \<Rightarrow> 'ds ConnectedVoiceSession \<Rightarrow> bool" where
  "is_prepared tid s \<longleftrightarrow> map_of (vs_prepared_transitions s) tid \<noteq> None"

definition consume_prepared_transition ::
  "u16 \<Rightarrow> 'ds ConnectedVoiceSession \<Rightarrow> u16 outcome \<times> 'ds ConnectedVoiceSession" where
  "consume_prepared_transition tid s =
    (case map_of (vs_prepared_transitions s) tid of
       None \<Rightarrow> (Failed (InvalidState ''voice dave transition missing prepared epoch''), s)
     | Some version \<Rightarrow> (Done version, drop_prepared tid s))"

definition next_prepared_transition_id :: "'ds ConnectedVoiceSession \<Rightarrow> u16 option" where
  "next_prepared_transition_id s =
    (case vs_prepared_transitions s of [] \<Rightarrow> None | (tid, _) # _ \<Rightarrow> Some tid)"

definition current_dave_protocol_version :: "'ds ConnectedVoiceSession \<Rightarrow> VoiceError + u16" where
  "current_dave_protocol_version s =
    (case vs_dave s of
       Some runtime \<Rightarrow> Inr (rt_protocol_version runtime)
     | None \<Rightarrow>
        (case vs_dave_transition s of
           Some pending \<Rightarrow> Inr (rt_protocol_version (pt_runtime pending))
         | None \<Rightarrow>
            (case vs_local_commit_transition s of
               Some pending \<Rightarrow> Inr (rt_protocol_version (pl_runtime pending))
             | None \<Rightarrow>
                (case vs_pending_initial_dave s of
                   Some pending \<Rightarrow> Inr (pi_protocol_version pending)
                 | None \<Rightarrow> Inl (InvalidState ''voice dave runtime unavailable'')))))"

definition mark_completed_transition ::
  "u16 \<Rightarrow> PendingDaveTransitionSource \<Rightarrow> 'ds ConnectedVoiceSession \<Rightarrow> 'ds ConnectedVoiceSession" where
  "mark_completed_transition tid source s =
    (if source = WelcomeBacked
     then s\<lparr>vs_completed_welcome_backed := insert tid (vs_completed_welcome_backed s)\<rparr> else s)"

definition ready_pending_transition ::
  "'w ws_write \<Rightarrow> u16 \<Rightarrow> 'ds DaveRuntimeContext \<Rightarrow> PendingDaveTransitionSource \<Rightarrow> 'ds ConnectedVoiceSession \<Rightarrow> 'w
    \<Rightarrow> unit outcome \<times> 'ds ConnectedVoiceSession \<times> 'w" where
  "ready_pending_transition ws tid runtime source s w =
    (let s1 = s\<lparr>vs_dave_transition := Some \<lparr>pt_transition_id = tid, pt_runtime = runtime, pt_source = source\<rparr>\<rparr> in
     if tid = DAVE_PROTOCOL_INIT_TRANSITION_ID then (Done (), s1, w)
     else (case send_dave_transition_ready ws tid w of
             (Inl err, w1) \<Rightarrow> (Failed err, fail_dave_closed s1, w1)
           | (Inr _, w1) \<Rightarrow> (Done (), s1, w1)))"

definition recognized_list :: "'ds ConnectedVoiceSession \<Rightarrow> string list" where
  "recognized_list s = sorted_list_of_set (vs_dave_recognized_user_ids s)"

text \<open>A fresh DAVE session of the group, as after an invalid commit and for the initial epoch.\<close>

definition fresh_dave_session ::
  "'ds davey_lib \<Rightarrow> bytes \<Rightarrow> u16 \<Rightarrow> u64 \<Rightarrow> string \<Rightarrow> 'ds DaveSession outcome" where
  "fresh_dave_session lib sender_bytes protocol_version group_id user_id =
    (case set_external_sender lib DaveSession_new sender_bytes of
       (Inl _, _) \<Rightarrow> Failed (InvalidState ''voice dave external sender invalid'')
     | (Inr _, session) \<Rightarrow>
        (case dave_init lib session protocol_version group_id user_id of
           None \<Rightarrow> Panicked
         | Some (Inl _, _) \<Rightarrow> Failed (InvalidState ''voice dave session init failed'')
         | Some (Inr _, session1) \<Rightarrow> Done session1))"

definition reinitialize_dave_session_after_invalid_commit ::
  "'ds davey_lib \<Rightarrow> 'w ws_write \<Rightarrow> u16 \<Rightarrow> u16 \<Rightarrow> 'ds ConnectedVoiceSession \<Rightarrow> 'w
    \<Rightarrow> unit outcome \<times> 'ds ConnectedVoiceSession \<times> 'w" where
  "reinitialize_dave_session_after_invalid_commit lib ws tid protocol_version s w =
    (case vs_dave_group_id s of
       None \<Rightarrow> (Failed (InvalidState ''voice dave group id unavailable''), s, w)
     | Some group_id \<Rightarrow>
    (case vs_dave_external_sender_bytes s of
       None \<Rightarrow> (Failed (InvalidState ''voice dave external sender unavailable''), s, w)
     | Some sender_bytes \<Rightarrow>
    (case fresh_dave_session lib sender_bytes protocol_version group_id (vc_user_id (vs_voice s)) of
       Failed err \<Rightarrow> (Failed err, s, w)
     | Panicked \<Rightarrow> (Panicked, s, w)
     | Done session \<Rightarrow>
    (case key_package lib session of
       (Inl _, _) \<Rightarrow> (Failed (InvalidState ''voice dave key package failed''), s, w)
     | (Inr package, session1) \<Rightarrow>
    (case send_dave_mls_invalid_commit_welcome ws tid w of
       (Inl err, w1) \<Rightarrow> (Failed err, s, w1)
     | (Inr _, w1) \<Rightarrow>
    (case send_dave_mls_key_package ws package w1 of
       (Inl err, w2) \<Rightarrow> (Failed err, s, w2)
     | (Inr _, w2) \<Rightarrow>
        (Done (),
         s\<lparr>vs_dave := None, vs_dave_transition := None, vs_local_commit_transition := None,
           vs_prepared_transitions := [], vs_local_init_commit_echoes := [],
           vs_invalidated := insert tid (vs_invalidated s), vs_completed_welcome_backed := {},
           vs_completed_local_init_commit := {}, vs_initial_dave_recovery := True,
           vs_pending_initial_dave :=
             Some \<lparr>pi_session = session1, pi_protocol_version = protocol_version\<rparr>\<rparr>, w2)))))))"

definition keeps_group :: "DaveCommitResult \<Rightarrow> bool" where
  "keeps_group r \<longleftrightarrow> \<not> commit_failed r \<and> \<not> commit_ignored r \<and> commit_roster_member_ids r \<noteq> []"

text \<open>The announce of a commit this participant authored.\<close>

definition process_deferred_local_commit ::
  "'ds davey_lib \<Rightarrow> 'w ws_write \<Rightarrow> u16 \<Rightarrow> bytes \<Rightarrow> 'ds PendingLocalDaveCommitTransition
    \<Rightarrow> 'ds ConnectedVoiceSession \<Rightarrow> 'w \<Rightarrow> unit outcome \<times> 'ds ConnectedVoiceSession \<times> 'w" where
  "process_deferred_local_commit lib ws tid commit pending s w =
    (let s1 = drop_prepared tid (s\<lparr>vs_local_commit_transition := None\<rparr>) in
     case runtime_process_commit lib (pl_runtime pending) commit of
       (Inl _, runtime) \<Rightarrow>
         reinitialize_dave_session_after_invalid_commit lib ws tid (rt_protocol_version runtime) s1 w
     | (Inr result, runtime) \<Rightarrow>
        (if \<not> keeps_group result
         then (Failed (InvalidState ''voice dave local commit transition did not keep group''), s1, w)
         else ready_pending_transition ws tid runtime CommitBacked s1 w))"

text \<open>The commit of another participant for a prepared transition.\<close>

definition process_prepared_commit ::
  "'ds davey_lib \<Rightarrow> 'w ws_write \<Rightarrow> u16 \<Rightarrow> bytes \<Rightarrow> 'ds ConnectedVoiceSession \<Rightarrow> 'w
    \<Rightarrow> unit outcome \<times> 'ds ConnectedVoiceSession \<times> 'w" where
  "process_prepared_commit lib ws tid commit s w =
    (case consume_prepared_transition tid s of
       (Failed err, s1) \<Rightarrow> (Failed err, s1, w)
     | (Panicked, s1) \<Rightarrow> (Panicked, s1, w)
     | (Done _, s1) \<Rightarrow>
        (case vs_dave s1 of
           None \<Rightarrow> (Failed (InvalidState ''voice dave runtime unavailable''), s1, w)
         | Some runtime \<Rightarrow>
            (let s2 = s1\<lparr>vs_dave := None\<rparr> in
             case runtime_process_commit lib runtime commit of
               (Inl _, _) \<Rightarrow> (Failed (InvalidState ''voice dave commit invalid''), s2, w)
             | (Inr result, runtime1) \<Rightarrow>
                (if commit_ignored result then (Done (), s2\<lparr>vs_dave := Some runtime1\<rparr>, w)
                 else if commit_failed result \<or> commit_roster_member_ids result = []
                 then (Failed (InvalidState ''voice dave commit transition did not keep group''), s2, w)
                 else ready_pending_transition ws tid runtime1 CommitBacked s2 w))))"

definition confirm_local_init_commit ::
  "u16 \<Rightarrow> bytes \<Rightarrow> 'ds ConnectedVoiceSession \<Rightarrow> unit outcome \<times> 'ds ConnectedVoiceSession" where
  "confirm_local_init_commit tid commit s =
    (case map_of (vs_local_init_commit_echoes s) tid of
       Some expected \<Rightarrow>
         (let s1 = s\<lparr>vs_local_init_commit_echoes := btree_remove tid (vs_local_init_commit_echoes s)\<rparr> in
          if expected \<noteq> commit then (Failed (InvalidState ''voice dave local init commit echo mismatch''), s1)
          else (Done (), drop_prepared tid s1))
     | None \<Rightarrow> (Done (), drop_prepared tid s))"

definition prepare_remote_commit_transition ::
  "'ds davey_lib \<Rightarrow> 'w ws_write \<Rightarrow> u16 \<Rightarrow> bytes \<Rightarrow> 'ds ConnectedVoiceSession \<Rightarrow> 'w
    \<Rightarrow> unit outcome \<times> 'ds ConnectedVoiceSession \<times> 'w" where
  "prepare_remote_commit_transition lib ws tid commit s w =
    (if tid \<in> vs_invalidated s then (Done (), drop_prepared tid s, w)
     else if tid \<in> vs_completed_welcome_backed s \<and> \<not> is_prepared tid s then (Done (), s, w)
     else if tid \<in> vs_completed_local_init_commit s
     then (let (r, s1) = confirm_local_init_commit tid commit s in (r, s1, w))
     else if (case vs_dave_transition s of
                None \<Rightarrow> False | Some pending \<Rightarrow> pt_transition_id pending = tid \<and> pt_source pending = CommitBacked)
     then (Done (), s, w)
     else if vs_dave_transition s \<noteq> None \<and> \<not> is_prepared tid s then (Done (), s, w)
     else (case vs_local_commit_transition s of
             Some pending \<Rightarrow> process_deferred_local_commit lib ws tid commit pending s w
           | None \<Rightarrow> if \<not> is_prepared tid s then (Done (), s, w)
                     else process_prepared_commit lib ws tid commit s w))"

definition prepare_pending_initial_welcome_transition ::
  "'ds davey_lib \<Rightarrow> 'w ws_write \<Rightarrow> u16 \<Rightarrow> bytes \<Rightarrow> 'ds PendingInitialDaveSession \<Rightarrow> 'ds ConnectedVoiceSession \<Rightarrow> 'w
    \<Rightarrow> unit outcome \<times> 'ds ConnectedVoiceSession \<times> 'w" where
  "prepare_pending_initial_welcome_transition lib ws tid welcome pending s w =
    (case process_welcome lib (pi_session pending) welcome of
       (Inl _, _) \<Rightarrow> (Failed (InvalidState ''voice dave welcome invalid''), s, w)
     | (Inr roster, session) \<Rightarrow>
        (if roster = [] then (Failed (InvalidState ''voice dave welcome transition did not keep group''), s, w)
         else (case DaveRuntimeContext_from_session lib session of
                 Inl _ \<Rightarrow> (Failed (InvalidState ''voice dave runtime create failed''), s, w)
               | Inr runtime \<Rightarrow>
                   ready_pending_transition ws tid runtime WelcomeBacked (s\<lparr>vs_initial_dave_recovery := False\<rparr>) w)))"

definition process_prepared_welcome ::
  "'ds davey_lib \<Rightarrow> 'w ws_write \<Rightarrow> u16 \<Rightarrow> bytes \<Rightarrow> 'ds ConnectedVoiceSession \<Rightarrow> 'w
    \<Rightarrow> unit outcome \<times> 'ds ConnectedVoiceSession \<times> 'w" where
  "process_prepared_welcome lib ws tid welcome s w =
    (case consume_prepared_transition tid s of
       (Failed err, s1) \<Rightarrow> (Failed err, s1, w)
     | (Panicked, s1) \<Rightarrow> (Panicked, s1, w)
     | (Done _, s1) \<Rightarrow>
        (case vs_dave s1 of
           None \<Rightarrow> (Failed (InvalidState ''voice dave runtime unavailable''), s1, w)
         | Some runtime \<Rightarrow>
            (let s2 = s1\<lparr>vs_dave := None\<rparr> in
             case runtime_process_welcome lib runtime welcome of
               (Inl _, _) \<Rightarrow> (Failed (InvalidState ''voice dave welcome invalid''), s2, w)
             | (Inr roster, runtime1) \<Rightarrow>
                (if roster = []
                 then (Failed (InvalidState ''voice dave welcome transition did not keep group''), s2, w)
                 else ready_pending_transition ws tid runtime1 WelcomeBacked s2 w))))"

definition prepare_welcome_transition ::
  "'ds davey_lib \<Rightarrow> 'w ws_write \<Rightarrow> u16 \<Rightarrow> bytes \<Rightarrow> 'ds ConnectedVoiceSession \<Rightarrow> 'w
    \<Rightarrow> unit outcome \<times> 'ds ConnectedVoiceSession \<times> 'w" where
  "prepare_welcome_transition lib ws tid welcome s w =
    (if tid \<in> vs_invalidated s then (Done (), drop_prepared tid s, w)
     else if tid \<in> vs_completed_welcome_backed s \<and> \<not> is_prepared tid s then (Done (), s, w)
     else if tid \<in> vs_completed_local_init_commit s then (Done (), drop_prepared tid s, w)
     else (case vs_pending_initial_dave s of
             Some pending \<Rightarrow>
               prepare_pending_initial_welcome_transition lib ws tid welcome pending
                 (drop_prepared tid (s\<lparr>vs_pending_initial_dave := None\<rparr>)) w
           | None \<Rightarrow> process_prepared_welcome lib ws tid welcome s w))"

definition should_retry_initial_epoch_proposals ::
  "'ds ConnectedVoiceSession \<Rightarrow> DaveMlsProposalsOperation \<Rightarrow> bool" where
  "should_retry_initial_epoch_proposals s operation \<longleftrightarrow>
     operation = Append \<and> DAVE_PROTOCOL_INIT_TRANSITION_ID \<in> vs_completed_local_init_commit s
     \<and> vs_completed_welcome_backed s = {}"

text \<open>Splitting the commit from what the library produced and sending both: the commit that was sent.\<close>

definition send_commit_welcome ::
  "'w ws_write \<Rightarrow> bytes \<Rightarrow> 'w \<Rightarrow> bytes outcome \<times> 'w" where
  "send_commit_welcome ws commit_welcome w =
    (case unpack_commit_welcome commit_welcome of
       Inl _ \<Rightarrow> (Failed (InvalidState ''voice dave commit welcome invalid''), w)
     | Inr (commit, _) \<Rightarrow>
        (case dave_mls_commit_welcome_payload commit_welcome of
           None \<Rightarrow> (Panicked, w)
         | Some payload \<Rightarrow>
            (case send_binary ws payload w of
               (Inl err, w1) \<Rightarrow> (Failed err, w1)
             | (Inr _, w1) \<Rightarrow> (Done commit, w1))))"

text \<open>Processing the own commit right away and becoming its runtime.\<close>

definition commit_into_runtime ::
  "'ds davey_lib \<Rightarrow> bytes \<Rightarrow> 'ds DaveSession \<Rightarrow> 'ds DaveRuntimeContext outcome" where
  "commit_into_runtime lib commit session =
    (case process_commit lib session commit of
       (Inl _, _) \<Rightarrow> Failed (InvalidState ''voice dave local commit invalid'')
     | (Inr result, session1) \<Rightarrow>
        (if \<not> keeps_group result then Failed (InvalidState ''voice dave local commit transition did not keep group'')
         else (case DaveRuntimeContext_from_session lib session1 of
                 Inl _ \<Rightarrow> Failed (InvalidState ''voice dave runtime create failed'')
               | Inr runtime \<Rightarrow> Done runtime)))"

definition record_local_init_commit ::
  "u16 \<Rightarrow> bytes \<Rightarrow> 'ds ConnectedVoiceSession \<Rightarrow> 'ds ConnectedVoiceSession" where
  "record_local_init_commit tid commit s =
     s\<lparr>vs_completed_local_init_commit := insert tid (vs_completed_local_init_commit s),
       vs_local_init_commit_echoes := btree_insert tid commit (vs_local_init_commit_echoes s)\<rparr>"

definition prepare_initial_epoch_local_commit_transition ::
  "'ds davey_lib \<Rightarrow> 'w ws_write \<Rightarrow> DaveMlsProposalsOperation \<Rightarrow> bytes \<Rightarrow> u16 \<Rightarrow> string list
    \<Rightarrow> 'ds ConnectedVoiceSession \<Rightarrow> 'w \<Rightarrow> unit outcome \<times> 'ds ConnectedVoiceSession \<times> 'w" where
  "prepare_initial_epoch_local_commit_transition lib ws operation proposals protocol_version recognized s w =
    (if \<not> vs_dave_external_sender s
     then (Failed (InvalidState ''voice dave external sender unavailable''), s, w)
     else (case vs_dave_group_id s of
       None \<Rightarrow> (Failed (InvalidState ''voice dave group id unavailable''), s, w)
     | Some group_id \<Rightarrow>
    (case vs_dave_external_sender_bytes s of
       None \<Rightarrow> (Failed (InvalidState ''voice dave external sender unavailable''), s, w)
     | Some sender_bytes \<Rightarrow>
    (case fresh_dave_session lib sender_bytes protocol_version group_id (vc_user_id (vs_voice s)) of
       Failed err \<Rightarrow> (Failed err, s, w)
     | Panicked \<Rightarrow> (Panicked, s, w)
     | Done session \<Rightarrow>
    (case process_proposals_with_operation lib session operation proposals recognized of
       (Inl _, _) \<Rightarrow> (Failed (InvalidState ''voice dave proposals invalid''), s, w)
     | (Inr None, _) \<Rightarrow> (Failed (InvalidState ''voice dave append proposals produced no commit''), s, w)
     | (Inr (Some commit_welcome), session1) \<Rightarrow>
    (case send_commit_welcome ws commit_welcome w of
       (Failed err, w1) \<Rightarrow> (Failed err, s, w1)
     | (Panicked, w1) \<Rightarrow> (Panicked, s, w1)
     | (Done commit, w1) \<Rightarrow>
    (case commit_into_runtime lib commit session1 of
       Failed err \<Rightarrow> (Failed err, s, w1)
     | Panicked \<Rightarrow> (Panicked, s, w1)
     | Done runtime \<Rightarrow>
        (Done (), record_local_init_commit DAVE_PROTOCOL_INIT_TRANSITION_ID commit (s\<lparr>vs_dave := Some runtime\<rparr>), w1))))))))"

text \<open>After the initial commit: a prepared transition is readied, the initial one only awaits its echo.\<close>

definition finish_initial_local_commit ::
  "'w ws_write \<Rightarrow> u16 option \<Rightarrow> bytes \<Rightarrow> 'ds DaveRuntimeContext \<Rightarrow> 'ds ConnectedVoiceSession \<Rightarrow> 'w
    \<Rightarrow> unit outcome \<times> 'ds ConnectedVoiceSession \<times> 'w" where
  "finish_initial_local_commit ws transition_id commit runtime s w =
    (let s1 = s\<lparr>vs_dave := Some runtime, vs_initial_dave_recovery := False\<rparr> in
     case transition_id of
       None \<Rightarrow> (Done (), record_local_init_commit DAVE_PROTOCOL_INIT_TRANSITION_ID commit s1, w)
     | Some tid \<Rightarrow>
        (case consume_prepared_transition tid s1 of
           (Failed err, s2) \<Rightarrow> (Failed err, s2, w)
         | (Panicked, s2) \<Rightarrow> (Panicked, s2, w)
         | (Done _, s2) \<Rightarrow>
            (if tid \<noteq> DAVE_PROTOCOL_INIT_TRANSITION_ID
             then ready_pending_transition ws tid runtime CommitBacked (s2\<lparr>vs_dave := None\<rparr>) w
             else (Done (), record_local_init_commit tid commit s2, w))))"

definition prepare_pending_initial_local_commit_transition ::
  "'ds davey_lib \<Rightarrow> 'w ws_write \<Rightarrow> DaveMlsProposalsOperation \<Rightarrow> bytes \<Rightarrow> 'ds PendingInitialDaveSession
    \<Rightarrow> u16 option \<Rightarrow> 'ds ConnectedVoiceSession \<Rightarrow> 'w \<Rightarrow> unit outcome \<times> 'ds ConnectedVoiceSession \<times> 'w" where
  "prepare_pending_initial_local_commit_transition lib ws operation proposals pending transition_id s w =
    (if \<not> vs_dave_external_sender s
     then (Failed (InvalidState ''voice dave external sender unavailable''), s, w)
     else
    (case process_proposals_with_operation lib (pi_session pending) operation proposals (recognized_list s) of
       (Inl _, _) \<Rightarrow> (Failed (InvalidState ''voice dave proposals invalid''), s, w)
     | (Inr None, session) \<Rightarrow>
         (Done (), s\<lparr>vs_pending_initial_dave := Some (pending\<lparr>pi_session := session\<rparr>)\<rparr>, w)
     | (Inr (Some commit_welcome), session) \<Rightarrow>
    (case send_commit_welcome ws commit_welcome w of
       (Failed err, w1) \<Rightarrow> (Failed err, s, w1)
     | (Panicked, w1) \<Rightarrow> (Panicked, s, w1)
     | (Done commit, w1) \<Rightarrow>
    (case commit_into_runtime lib commit session of
       Failed err \<Rightarrow> (Failed err, s, w1)
     | Panicked \<Rightarrow> (Panicked, s, w1)
     | Done runtime \<Rightarrow> finish_initial_local_commit ws transition_id commit runtime s w1))))"

definition prepare_local_commit_transition ::
  "'ds davey_lib \<Rightarrow> 'w ws_write \<Rightarrow> DaveMlsProposalsOperation \<Rightarrow> bytes \<Rightarrow> 'ds ConnectedVoiceSession \<Rightarrow> 'w
    \<Rightarrow> unit outcome \<times> 'ds ConnectedVoiceSession \<times> 'w" where
  "prepare_local_commit_transition lib ws operation proposals s w =
    (case vs_pending_initial_dave s of
       Some pending \<Rightarrow>
         prepare_pending_initial_local_commit_transition lib ws operation proposals pending
           (next_prepared_transition_id s) (s\<lparr>vs_pending_initial_dave := None\<rparr>) w
     | None \<Rightarrow>
    (if vs_local_commit_transition s \<noteq> None \<or> vs_dave_transition s \<noteq> None then (Done (), s, w)
     else (case vs_dave s of
       None \<Rightarrow> (Failed (InvalidState ''voice dave runtime unavailable''), s, w)
     | Some runtime \<Rightarrow>
        (let s1 = s\<lparr>vs_dave := None\<rparr> in
         case runtime_process_proposals lib runtime operation proposals (recognized_list s1) of
           (Inr None, runtime1) \<Rightarrow> (Done (), s1\<lparr>vs_dave := Some runtime1\<rparr>, w)
         | (Inl _, runtime1) \<Rightarrow>
            (if should_retry_initial_epoch_proposals s1 operation
             then prepare_initial_epoch_local_commit_transition lib ws operation proposals
                    (rt_protocol_version runtime1) (recognized_list s1) s1 w
             else (Done (), s1\<lparr>vs_dave := Some runtime1\<rparr>, w))
         | (Inr (Some commit_welcome), runtime1) \<Rightarrow>
            (if \<not> vs_dave_external_sender s1
             then (Failed (InvalidState ''voice dave external sender unavailable''), s1, w)
             else (case send_commit_welcome ws commit_welcome w of
                     (Failed err, w1) \<Rightarrow> (Failed err, s1, w1)
                   | (Panicked, w1) \<Rightarrow> (Panicked, s1, w1)
                   | (Done commit, w1) \<Rightarrow>
                       (Done (), s1\<lparr>vs_local_commit_transition :=
                                     Some \<lparr>pl_runtime = runtime1, pl_commit = commit\<rparr>\<rparr>, w1)))))))"

section \<open>Events\<close>

definition process_prepare_epoch ::
  "DavePrepareEpoch \<Rightarrow> 'ds ConnectedVoiceSession \<Rightarrow> unit outcome \<times> 'ds ConnectedVoiceSession" where
  "process_prepare_epoch e s =
    (if epoch_name e = [] then (Failed (InvalidState ''voice dave prepare epoch missing''), s)
     else (case epoch_transition_id e of
       None \<Rightarrow> (Failed (InvalidState ''voice dave prepare epoch transition id missing''), s)
     | Some tid \<Rightarrow>
        (if tid \<in> vs_invalidated s then (Done (), s)
         else (case current_dave_protocol_version s of
                 Inl err \<Rightarrow> (Failed err, s)
               | Inr current \<Rightarrow>
                  (if epoch_protocol_version e \<noteq> current
                   then (Failed (InvalidState ''voice dave prepare epoch protocol version mismatch''), s)
                   else if tid \<in> vs_completed_local_init_commit s then (Done (), s)
                   else if (case vs_dave_transition s of
                              None \<Rightarrow> False | Some pending \<Rightarrow> pt_transition_id pending = tid) then (Done (), s)
                   else (Done (), s\<lparr>vs_prepared_transitions :=
                           btree_insert tid (epoch_protocol_version e) (vs_prepared_transitions s)\<rparr>))))))"

definition process_execute_transition ::
  "u16 \<Rightarrow> 'ds ConnectedVoiceSession \<Rightarrow> unit outcome \<times> 'ds ConnectedVoiceSession" where
  "process_execute_transition tid s =
    (case vs_dave_transition s of
       None \<Rightarrow> (Done (), s)
     | Some pending \<Rightarrow>
        (if pt_transition_id pending = tid
         then (Done (), (mark_completed_transition tid (pt_source pending) (s\<lparr>vs_dave_transition := None\<rparr>))
                          \<lparr>vs_dave := Some (pt_runtime pending)\<rparr>)
         else (Failed (InvalidState ''voice dave execute transition id mismatch''), s)))"

definition process_prepare_transition ::
  "u16 \<Rightarrow> u16 \<Rightarrow> 'ds ConnectedVoiceSession \<Rightarrow> unit outcome \<times> 'ds ConnectedVoiceSession" where
  "process_prepare_transition tid protocol_version s =
    (if tid \<in> vs_invalidated s then (Done (), s)
     else if tid = DAVE_PROTOCOL_INIT_TRANSITION_ID
     then (Done (), s\<lparr>vs_prepared_transitions := btree_insert tid protocol_version (vs_prepared_transitions s)\<rparr>)
     else if protocol_version = 0
     then (Failed (InvalidState ''voice dave protocol downgrade transition unsupported''), s)
     else (Done (), s\<lparr>vs_prepared_transitions := btree_insert tid protocol_version (vs_prepared_transitions s)\<rparr>))"

definition process_gateway_event_for_dave ::
  "'ds davey_lib \<Rightarrow> 'w ws_write \<Rightarrow> VoiceGatewayEvent \<Rightarrow> 'ds ConnectedVoiceSession \<Rightarrow> 'w
    \<Rightarrow> unit outcome \<times> 'ds ConnectedVoiceSession \<times> 'w" where
  "process_gateway_event_for_dave lib ws event s w =
    (case event of
       ClientsConnect user_ids \<Rightarrow>
         (Done (), s\<lparr>vs_dave_recognized_user_ids := vs_dave_recognized_user_ids s \<union> set user_ids\<rparr>, w)
     | ClientDisconnect user_id \<Rightarrow>
         (Done (), s\<lparr>vs_dave_recognized_user_ids := vs_dave_recognized_user_ids s - {user_id}\<rparr>, w)
     | DavePrepareEpochEvent e \<Rightarrow> (let (r, s1) = process_prepare_epoch e s in (r, s1, w))
     | DaveMlsPrepareCommitTransition tid commit \<Rightarrow> prepare_remote_commit_transition lib ws tid commit s w
     | DaveMlsWelcome tid welcome \<Rightarrow> prepare_welcome_transition lib ws tid welcome s w
     | DaveMlsProposals operation proposals \<Rightarrow> prepare_local_commit_transition lib ws operation proposals s w
     | DaveExecuteTransition tid \<Rightarrow> (let (r, s1) = process_execute_transition tid s in (r, s1, w))
     | DavePrepareTransition tid version \<Rightarrow> (let (r, s1) = process_prepare_transition tid version s in (r, s1, w))
     | _ \<Rightarrow> (Done (), s, w))"

fun dave_session_event_transition_id :: "VoiceGatewayEvent \<Rightarrow> u16 option" where
  "dave_session_event_transition_id (DavePrepareTransition tid _) = Some tid"
| "dave_session_event_transition_id (DaveExecuteTransition tid) = Some tid"
| "dave_session_event_transition_id (DavePrepareEpochEvent e) = epoch_transition_id e"
| "dave_session_event_transition_id (DaveMlsPrepareCommitTransition tid _) = Some tid"
| "dave_session_event_transition_id (DaveMlsWelcome tid _) = Some tid"
| "dave_session_event_transition_id _ = None"

definition dave_session_event_expects_follow_up :: "VoiceGatewayEvent \<Rightarrow> bool" where
  "dave_session_event_expects_follow_up event \<longleftrightarrow> (case event of HeartbeatAck _ \<Rightarrow> False | _ \<Rightarrow> True)"

section \<open>Draining the gateway\<close>

definition DAVE_GATEWAY_EVENT_DRAIN_LIMIT :: nat where "DAVE_GATEWAY_EVENT_DRAIN_LIMIT = 256"
definition DAVE_GATEWAY_IDLE_POLL :: nanos where "DAVE_GATEWAY_IDLE_POLL = 1000000"
definition DAVE_GATEWAY_TRANSITION_POLL :: nanos where "DAVE_GATEWAY_TRANSITION_POLL = 50000000"
definition DAVE_GATEWAY_EXECUTE_POLL :: nanos where "DAVE_GATEWAY_EXECUTE_POLL = 15000000000"

definition desired_wait :: "nanos \<Rightarrow> bool \<Rightarrow> 'ds ConnectedVoiceSession \<Rightarrow> nanos" where
  "desired_wait initial_wait wait_for_follow_up s =
    (if vs_dave_transition s \<noteq> None \<or> vs_local_commit_transition s \<noteq> None
        \<or> (vs_pending_initial_dave s \<noteq> None \<and> vs_initial_dave_recovery s)
     then DAVE_GATEWAY_EXECUTE_POLL
     else if vs_prepared_transitions s \<noteq> [] \<or> vs_local_init_commit_echoes s \<noteq> [] \<or> wait_for_follow_up
     then DAVE_GATEWAY_TRANSITION_POLL
     else initial_wait)"

datatype drain_end = ReachedLimit | DrainIdle | DrainError VoiceError | DrainPanic

type_synonym arrivals = "(nanos \<times> (VoiceError + VoiceGatewayPayload)) list"

definition count_event :: "VoiceGatewayEvent \<Rightarrow> VoiceGatewayDrainReport \<Rightarrow> VoiceGatewayDrainReport" where
  "count_event event report =
     report\<lparr>drain_event_count := saturating_add (drain_event_count report) 1,
            drain_dave_transition_count :=
              (if dave_session_event_transition_id event \<noteq> None
               then saturating_add (drain_dave_transition_count report) 1
               else drain_dave_transition_count report)\<rparr>"

definition acknowledge :: "VoiceGatewayPayload \<Rightarrow> 'ds ConnectedVoiceSession \<Rightarrow> 'ds ConnectedVoiceSession" where
  "acknowledge payload s = s\<lparr>vs_gateway := map_option (apply_gateway_event (payload_seq payload)) (vs_gateway s)\<rparr>"

fun drain_loop ::
  "'ds davey_lib \<Rightarrow> 'w ws_write \<Rightarrow> nanos \<Rightarrow> bool \<Rightarrow> nanos option \<Rightarrow> nat \<Rightarrow> nanos \<Rightarrow> bool \<Rightarrow> VoiceGatewayDrainReport
    \<Rightarrow> arrivals \<Rightarrow> 'ds ConnectedVoiceSession \<Rightarrow> 'w
    \<Rightarrow> drain_end \<times> VoiceGatewayDrainReport \<times> nanos \<times> arrivals \<times> 'ds ConnectedVoiceSession \<times> 'w" where
  "drain_loop lib ws initial_wait idle_follow deadline 0 now follow report inputs s w =
     (ReachedLimit, report, now, inputs, s, w)"
| "drain_loop lib ws initial_wait idle_follow deadline (Suc n) now follow report inputs s w =
    (if (case deadline of None \<Rightarrow> False | Some d \<Rightarrow> now \<ge> d) then (DrainIdle, report, now, inputs, s, w)
     else
       (let wanted = desired_wait initial_wait follow s;
            wait = (case deadline of None \<Rightarrow> wanted | Some d \<Rightarrow> min wanted (d - now))
        in case inputs of
             [] \<Rightarrow> (DrainIdle, report, now + wait, [], s, w)
           | (delay, r) # rest \<Rightarrow>
              (if delay > wait then (DrainIdle, report, now + wait, (delay - wait, r) # rest, s, w)
               else (case r of
                       Inl err \<Rightarrow> (DrainError err, report, now + delay, rest, s, w)
                     | Inr payload \<Rightarrow>
                        (let event = payload_event payload;
                             report1 = count_event event report
                         in case process_gateway_event_for_dave lib ws event (acknowledge payload s) w of
                              (Failed err, s1, w1) \<Rightarrow>
                                (DrainError err, report1, now + delay, rest, fail_dave_closed s1, w1)
                            | (Panicked, s1, w1) \<Rightarrow> (DrainPanic, report1, now + delay, rest, s1, w1)
                            | (Done _, s1, w1) \<Rightarrow>
                                drain_loop lib ws initial_wait idle_follow deadline n (now + delay)
                                  (idle_follow \<or> dave_session_event_expects_follow_up event)
                                  report1 rest s1 w1)))))"

definition VoiceGatewayDrainReport_default :: VoiceGatewayDrainReport where
  "VoiceGatewayDrainReport_default = \<lparr>drain_duration = 0, drain_event_count = 0, drain_dave_transition_count = 0\<rparr>"

text \<open>The checks after the loop: nothing may be pending when media is to be sent.\<close>

definition pending_error :: "bool \<Rightarrow> 'ds ConnectedVoiceSession \<Rightarrow> VoiceError option" where
  "pending_error allow_pending_initial s =
    (if vs_dave_transition s \<noteq> None then Some (InvalidState ''voice dave transition pending'')
     else if vs_local_commit_transition s \<noteq> None then Some (InvalidState ''voice dave local commit transition pending'')
     else if vs_pending_initial_dave s \<noteq> None \<and> \<not> allow_pending_initial
     then Some (InvalidState ''voice dave initial session pending'')
     else if vs_prepared_transitions s \<noteq> [] then Some (InvalidState ''voice dave prepared transition pending'')
     else None)"

definition process_pending_gateway_events_with_initial_poll_policy ::
  "'ds davey_lib \<Rightarrow> 'w ws_write \<Rightarrow> nanos \<Rightarrow> bool \<Rightarrow> bool \<Rightarrow> nanos option \<Rightarrow> nanos \<Rightarrow> arrivals
    \<Rightarrow> 'ds ConnectedVoiceSession \<Rightarrow> 'w
    \<Rightarrow> VoiceGatewayDrainReport outcome \<times> nanos \<times> arrivals \<times> 'ds ConnectedVoiceSession \<times> 'w" where
  "process_pending_gateway_events_with_initial_poll_policy lib ws initial_wait allow_pending_initial idle_follow
       deadline now inputs s w =
    (if vs_dave_failed_closed s
     then (Failed (InvalidState ''voice dave session failed closed''), now, inputs, s, w)
     else if vs_gateway_receive_closed s then (Done VoiceGatewayDrainReport_default, now, inputs, s, w)
     else if vs_dave s = None \<and> vs_pending_initial_dave s = None \<and> vs_dave_transition s = None
             \<and> vs_local_commit_transition s = None \<and> vs_prepared_transitions s = []
             \<and> vs_local_init_commit_echoes s = []
     then (Done VoiceGatewayDrainReport_default, now, inputs, s, w)
     else if vs_gateway s = None then (Failed (InvalidState ''voice gateway unavailable''), now, inputs, s, w)
     else
       (case drain_loop lib ws initial_wait idle_follow deadline DAVE_GATEWAY_EVENT_DRAIN_LIMIT now False
               VoiceGatewayDrainReport_default inputs s w of
          (DrainError err, report, now1, rest, s1, w1) \<Rightarrow> (Failed err, now1, rest, s1, w1)
        | (DrainPanic, report, now1, rest, s1, w1) \<Rightarrow> (Panicked, now1, rest, s1, w1)
        | (ReachedLimit, report, now1, rest, s1, w1) \<Rightarrow>
            (Failed (InvalidState ''voice dave gateway event backlog pending''), now1, rest, s1, w1)
        | (DrainIdle, report, now1, rest, s1, w1) \<Rightarrow>
            (case pending_error allow_pending_initial s1 of
               Some err \<Rightarrow> (Failed err, now1, rest, s1, w1)
             | None \<Rightarrow> (Done (report\<lparr>drain_duration := now1 - now\<rparr>), now1, rest, s1, w1))))"

definition process_pending_gateway_events ::
  "'ds davey_lib \<Rightarrow> 'w ws_write \<Rightarrow> nanos \<Rightarrow> arrivals \<Rightarrow> 'ds ConnectedVoiceSession \<Rightarrow> 'w
    \<Rightarrow> VoiceGatewayDrainReport outcome \<times> nanos \<times> arrivals \<times> 'ds ConnectedVoiceSession \<times> 'w" where
  "process_pending_gateway_events lib ws =
     process_pending_gateway_events_with_initial_poll_policy lib ws DAVE_GATEWAY_IDLE_POLL False False None"

definition process_pending_gateway_events_before_deadline ::
  "'ds davey_lib \<Rightarrow> 'w ws_write \<Rightarrow> nanos \<Rightarrow> nanos \<Rightarrow> arrivals \<Rightarrow> 'ds ConnectedVoiceSession \<Rightarrow> 'w
    \<Rightarrow> VoiceGatewayDrainReport outcome \<times> nanos \<times> arrivals \<times> 'ds ConnectedVoiceSession \<times> 'w" where
  "process_pending_gateway_events_before_deadline lib ws slot_send_at =
     process_pending_gateway_events_with_initial_poll_policy lib ws DAVE_GATEWAY_IDLE_POLL False False (Some slot_send_at)"

definition prepare_media_state_before_slot ::
  "'ds davey_lib \<Rightarrow> 'w ws_write \<Rightarrow> nanos \<Rightarrow> nanos \<Rightarrow> arrivals \<Rightarrow> 'ds ConnectedVoiceSession \<Rightarrow> 'w
    \<Rightarrow> VoiceGatewayDrainReport outcome \<times> nanos \<times> arrivals \<times> 'ds ConnectedVoiceSession \<times> 'w" where
  "prepare_media_state_before_slot = process_pending_gateway_events_before_deadline"

definition settle_pending_dave_transition_for_playback ::
  "'ds davey_lib \<Rightarrow> 'w ws_write \<Rightarrow> nanos \<Rightarrow> arrivals \<Rightarrow> 'ds ConnectedVoiceSession \<Rightarrow> 'w
    \<Rightarrow> VoiceGatewayDrainReport outcome \<times> nanos \<times> arrivals \<times> 'ds ConnectedVoiceSession \<times> 'w" where
  "settle_pending_dave_transition_for_playback lib ws =
     process_pending_gateway_events_with_initial_poll_policy lib ws DAVE_GATEWAY_TRANSITION_POLL False True None"

definition settle_initial_dave_for_join ::
  "'ds davey_lib \<Rightarrow> 'w ws_write \<Rightarrow> nanos \<Rightarrow> arrivals \<Rightarrow> 'ds ConnectedVoiceSession \<Rightarrow> 'w
    \<Rightarrow> VoiceGatewayDrainReport outcome \<times> nanos \<times> arrivals \<times> 'ds ConnectedVoiceSession \<times> 'w" where
  "settle_initial_dave_for_join lib ws =
     process_pending_gateway_events_with_initial_poll_policy lib ws DAVE_GATEWAY_TRANSITION_POLL True True None"

section \<open>Speaking and audio\<close>

definition START_SPEAKING_GATEWAY_REPEAT_COUNT :: nat where "START_SPEAKING_GATEWAY_REPEAT_COUNT = 3"
definition STOP_SPEAKING_GATEWAY_REPEAT_COUNT :: nat where "STOP_SPEAKING_GATEWAY_REPEAT_COUNT = 3"
definition STOP_AUDIO_SILENCE_FRAME_COUNT :: nat where "STOP_AUDIO_SILENCE_FRAME_COUNT = 5"
definition STOP_AUDIO_SILENCE_FRAME_DELAY :: nanos where "STOP_AUDIO_SILENCE_FRAME_DELAY = 20000000"

fun send_repeated :: "nat \<Rightarrow> ('w \<Rightarrow> (VoiceError + unit) \<times> 'w) \<Rightarrow> 'w \<Rightarrow> (VoiceError + unit) \<times> 'w" where
  "send_repeated 0 send w = (Inr (), w)"
| "send_repeated (Suc n) send w =
    (case send w of (Inl err, w1) \<Rightarrow> (Inl err, w1) | (Inr _, w1) \<Rightarrow> send_repeated n send w1)"

definition send_speaking_repeated :: "'w ws_write \<Rightarrow> u32 \<Rightarrow> 'w \<Rightarrow> (VoiceError + unit) \<times> 'w" where
  "send_speaking_repeated ws ssrc = send_repeated START_SPEAKING_GATEWAY_REPEAT_COUNT (send_speaking ws ssrc)"

definition send_not_speaking_repeated :: "'w ws_write \<Rightarrow> u32 \<Rightarrow> 'w \<Rightarrow> (VoiceError + unit) \<times> 'w" where
  "send_not_speaking_repeated ws ssrc = send_repeated STOP_SPEAKING_GATEWAY_REPEAT_COUNT (send_not_speaking ws ssrc)"

definition prepare_speaking_before_media ::
  "'w ws_write \<Rightarrow> 'ds ConnectedVoiceSession \<Rightarrow> 'w \<Rightarrow> (VoiceError + unit) \<times> 'ds ConnectedVoiceSession \<times> 'w" where
  "prepare_speaking_before_media ws s w =
    (if vs_speaking_started s then (Inr (), s, w)
     else (case vs_ssrc s of
       None \<Rightarrow> (Inl (InvalidState ''voice ssrc unavailable''), s, w)
     | Some ssrc \<Rightarrow>
        (if vs_gateway s = None then (Inl (InvalidState ''voice gateway unavailable''), s, w)
         else (case send_speaking_repeated ws ssrc w of
                 (Inl err, w1) \<Rightarrow> (Inl err, s, w1)
               | (Inr _, w1) \<Rightarrow> (Inr (), s\<lparr>vs_speaking_started := True\<rparr>, w1)))))"

definition audio_duration_ms_from_samples :: "u32 \<Rightarrow> u64" where
  "audio_duration_ms_from_samples duration_samples = saturating_mul (u64_from_u32 duration_samples) 1000 div 48000"

definition dave_audio_frame ::
  "'ds davey_lib \<Rightarrow> bytes \<Rightarrow> 'ds ConnectedVoiceSession \<Rightarrow> (VoiceError + bytes) \<times> 'ds ConnectedVoiceSession" where
  "dave_audio_frame lib frame s =
    (if frame = OPUS_SILENCE_FRAME then (Inr frame, s)
     else (case vs_dave s of
             None \<Rightarrow> (Inr frame, s)
           | Some dave \<Rightarrow>
              (case runtime_encrypt_audio_frame lib dave frame of
                 (Inl _, dave1) \<Rightarrow>
                   (Inl (InvalidState ''voice dave frame encryption failed''), s\<lparr>vs_dave := Some dave1\<rparr>)
               | (Inr encrypted, dave1) \<Rightarrow> (Inr encrypted, s\<lparr>vs_dave := Some dave1\<rparr>))))"

definition prepare_current_slot_audio_packet ::
  "'ds davey_lib \<Rightarrow> aead_lib \<Rightarrow> bytes \<Rightarrow> u32 \<Rightarrow> 'ds ConnectedVoiceSession
    \<Rightarrow> (VoiceError + PreparedVoicePacket) \<times> 'ds ConnectedVoiceSession" where
  "prepare_current_slot_audio_packet lib aead frame duration_samples s =
    (case dave_audio_frame lib frame s of
       (Inl err, s1) \<Rightarrow> (Inl err, s1)
     | (Inr payload, s1) \<Rightarrow>
        (case vs_transport s1 of
           None \<Rightarrow> (Inl (InvalidState ''voice transport unavailable''), s1)
         | Some transport \<Rightarrow>
            (let (r, transport1) = prepare_audio_packet_with_duration_samples aead transport payload
                   (audio_duration_ms_from_samples duration_samples) duration_samples True
             in (r, s1\<lparr>vs_transport := Some transport1\<rparr>))))"

definition send_current_slot_packet ::
  "'u socket_send \<Rightarrow> PreparedVoicePacket \<Rightarrow> 'ds ConnectedVoiceSession \<Rightarrow> 'u
    \<Rightarrow> (VoiceError + unit) \<times> 'ds ConnectedVoiceSession \<times> 'u" where
  "send_current_slot_packet udp packet s u =
    (case vs_transport s of
       None \<Rightarrow> (Inl (InvalidState ''voice transport unavailable''), s, u)
     | Some transport \<Rightarrow>
        (case transport_send_prepared_packet udp transport packet u of
           (Inl err, transport1, u1) \<Rightarrow> (Inl err, s\<lparr>vs_transport := Some transport1\<rparr>, u1)
         | (Inr _, transport1, u1) \<Rightarrow>
             (Inr (), s\<lparr>vs_transport := Some transport1, vs_speaking_started := True\<rparr>, u1)))"

definition session_discard_unsent_prepared_packets :: "'ds ConnectedVoiceSession \<Rightarrow> 'ds ConnectedVoiceSession" where
  "session_discard_unsent_prepared_packets s =
     s\<lparr>vs_transport := map_option discard_unsent_prepared_packets (vs_transport s)\<rparr>"

definition stop_speaking ::
  "'w ws_write \<Rightarrow> 'ds ConnectedVoiceSession \<Rightarrow> 'w \<Rightarrow> (VoiceError + unit) \<times> 'ds ConnectedVoiceSession \<times> 'w" where
  "stop_speaking ws s w =
    (if \<not> vs_speaking_started s then (Inr (), s, w)
     else (case vs_ssrc s of
       None \<Rightarrow> (Inl (InvalidState ''voice ssrc unavailable''), s, w)
     | Some ssrc \<Rightarrow>
        (if vs_gateway s = None then (Inl (InvalidState ''voice gateway unavailable''), s, w)
         else (case send_not_speaking_repeated ws ssrc w of
                 (Inl err, w1) \<Rightarrow> (Inl err, s, w1)
               | (Inr _, w1) \<Rightarrow> (Inr (), s\<lparr>vs_speaking_started := False\<rparr>, w1)))))"

definition suspend_media ::
  "'w ws_write \<Rightarrow> 'ds ConnectedVoiceSession \<Rightarrow> 'w \<Rightarrow> (VoiceError + unit) \<times> 'ds ConnectedVoiceSession \<times> 'w" where
  "suspend_media ws s w =
    (case (if vs_speaking_started s then stop_speaking ws s w else (Inr (), s, w)) of
       (Inl err, s1, w1) \<Rightarrow> (Inl err, s1, w1)
     | (Inr _, s1, w1) \<Rightarrow>
        (let seq_ack = (case vs_gateway s1 of Some gw \<Rightarrow> gw_seq_ack gw | None \<Rightarrow> vs_suspended_gateway_seq_ack s1);
             s2 = s1\<lparr>vs_heartbeat := False, vs_suspended_gateway_seq_ack := seq_ack\<rparr>
         in case vs_gateway s2 of
              None \<Rightarrow> (Inr (), s2\<lparr>vs_gateway_receive_closed := True, vs_speaking_started := False\<rparr>, w1)
            | Some _ \<Rightarrow>
               (case gateway_close ws w1 of
                  (Inl err, w2) \<Rightarrow> (Inl err, s2\<lparr>vs_gateway := None\<rparr>, w2)
                | (Inr _, w2) \<Rightarrow>
                    (Inr (), s2\<lparr>vs_gateway := None, vs_gateway_receive_closed := True,
                                vs_speaking_started := False\<rparr>, w2))))"

text \<open>The state around one audio frame: the time, the events to come, the session and both worlds.\<close>

type_synonym ('ds, 'w, 'u) audio_state = "nanos \<times> arrivals \<times> 'ds ConnectedVoiceSession \<times> 'w \<times> 'u"

definition transmit_audio_frame ::
  "'ds davey_lib \<Rightarrow> aead_lib \<Rightarrow> 'w ws_write \<Rightarrow> 'u socket_send \<Rightarrow> bytes \<Rightarrow> u32 \<Rightarrow> ('ds, 'w, 'u) audio_state
    \<Rightarrow> unit outcome \<times> ('ds, 'w, 'u) audio_state" where
  "transmit_audio_frame lib aead ws udp frame duration_samples = (\<lambda>(now, inputs, s, w, u).
    (case prepare_speaking_before_media ws s w of
       (Inl err, s1, w1) \<Rightarrow> (Failed err, now, inputs, s1, w1, u)
     | (Inr _, s1, w1) \<Rightarrow>
        (case prepare_current_slot_audio_packet lib aead frame duration_samples s1 of
           (Inl err, s2) \<Rightarrow> (Failed err, now, inputs, s2, w1, u)
         | (Inr packet, s2) \<Rightarrow>
            (case send_current_slot_packet udp packet s2 u of
               (Inl err, s3, u1) \<Rightarrow> (Failed err, now, inputs, s3, w1, u1)
             | (Inr _, s3, u1) \<Rightarrow> (Done (), now, inputs, s3, w1, u1)))))"

definition session_send_audio_frame_with_duration_samples ::
  "'ds davey_lib \<Rightarrow> aead_lib \<Rightarrow> 'w ws_write \<Rightarrow> 'u socket_send \<Rightarrow> bytes \<Rightarrow> u32 \<Rightarrow> ('ds, 'w, 'u) audio_state
    \<Rightarrow> unit outcome \<times> ('ds, 'w, 'u) audio_state" where
  "session_send_audio_frame_with_duration_samples lib aead ws udp frame duration_samples = (\<lambda>(now, inputs, s, w, u).
    (case process_pending_gateway_events lib ws now inputs s w of
       (Panicked, now1, rest, s1, w1) \<Rightarrow> (Panicked, now1, rest, s1, w1, u)
     | (Failed err, now1, rest, s1, w1) \<Rightarrow>
        (if is_gateway_closed_during_receive err \<and> vs_speaking_started s1
         then transmit_audio_frame lib aead ws udp frame duration_samples
                (now1, rest, mark_session_receive_closed s1, w1, u)
         else (Failed err, now1, rest, s1, w1, u))
     | (Done _, now1, rest, s1, w1) \<Rightarrow>
         transmit_audio_frame lib aead ws udp frame duration_samples (now1, rest, s1, w1, u)))"

definition session_send_audio_frame ::
  "'ds davey_lib \<Rightarrow> aead_lib \<Rightarrow> 'w ws_write \<Rightarrow> 'u socket_send \<Rightarrow> bytes \<Rightarrow> ('ds, 'w, 'u) audio_state
    \<Rightarrow> unit outcome \<times> ('ds, 'w, 'u) audio_state" where
  "session_send_audio_frame lib aead ws udp frame =
     session_send_audio_frame_with_duration_samples lib aead ws udp frame 960"

fun stop_silence_loop ::
  "nat \<Rightarrow> 'ds davey_lib \<Rightarrow> aead_lib \<Rightarrow> 'w ws_write \<Rightarrow> 'u socket_send \<Rightarrow> ('ds, 'w, 'u) audio_state
    \<Rightarrow> unit outcome \<times> ('ds, 'w, 'u) audio_state" where
  "stop_silence_loop 0 lib aead ws udp st = (Done (), st)"
| "stop_silence_loop (Suc n) lib aead ws udp st =
    (case session_send_audio_frame lib aead ws udp OPUS_SILENCE_FRAME st of
       (Done _, now, rest) \<Rightarrow> stop_silence_loop n lib aead ws udp (now + STOP_AUDIO_SILENCE_FRAME_DELAY, rest)
     | (r, st1) \<Rightarrow> (r, st1))"

definition stop_audio ::
  "'ds davey_lib \<Rightarrow> aead_lib \<Rightarrow> 'w ws_write \<Rightarrow> 'u socket_send \<Rightarrow> ('ds, 'w, 'u) audio_state
    \<Rightarrow> unit outcome \<times> ('ds, 'w, 'u) audio_state" where
  "stop_audio lib aead ws udp st =
    (case stop_silence_loop STOP_AUDIO_SILENCE_FRAME_COUNT lib aead ws udp st of
       (Done _, now, inputs, s, w, u) \<Rightarrow>
         (case stop_speaking ws s w of
            (Inl err, s1, w1) \<Rightarrow> (Failed err, now, inputs, s1, w1, u)
          | (Inr _, s1, w1) \<Rightarrow> (Done (), now, inputs, s1, w1, u))
     | (r, st1) \<Rightarrow> (r, st1))"

end
