(* ===== verification/Metrics.thy ===== *)
theory Metrics
  imports Recovery RuntimeState VoiceSession
begin

text \<open>
  The stability metrics of a playback (\<open>session/metrics.rs\<close>): percentile summaries, the collector with
  the operation for each thing the driver reports, and the snapshot served to clients. Instants and
  durations are nanoseconds; \<open>Instant::now\<close> is an argument. An unstable sort may order equal keys
  either way; the model sorts stably, and what is stated of a percentile depends only on the key.
\<close>

section \<open>Durations and percentiles\<close>

definition FIRST_INTERVAL_SAMPLE_LIMIT :: usize where "FIRST_INTERVAL_SAMPLE_LIMIT = 10"
definition LATE_PACKET_THRESHOLD :: nanos where "LATE_PACKET_THRESHOLD = 5000000"
definition TRACK_TEMPO_WINDOW_PACKETS :: usize where "TRACK_TEMPO_WINDOW_PACKETS = 50"
definition TRACK_POST_SOURCE_BUFFER_MEDIA_MS :: nat where "TRACK_POST_SOURCE_BUFFER_MEDIA_MS = 5000"
definition MIN_MEDIA_TO_WALL_CLOCK_RATIO_PPM :: u64 where "MIN_MEDIA_TO_WALL_CLOCK_RATIO_PPM = 980000"
definition MAX_MEDIA_TO_WALL_CLOCK_RATIO_PPM :: u64 where "MAX_MEDIA_TO_WALL_CLOCK_RATIO_PPM = 1020000"

definition u64_saturating_from_nat :: "nat \<Rightarrow> u64" where
  "u64_saturating_from_nat n = (if n < 18446744073709551616 then word_of_nat n else u64_MAX)"

definition duration_millis :: "nanos \<Rightarrow> u64" where
  "duration_millis duration = u64_saturating_from_nat (duration div 1000000)"

definition duration_micros :: "nanos \<Rightarrow> u64" where
  "duration_micros duration = u64_saturating_from_nat (duration div 1000)"

definition media_to_wall_clock_ratio_ppm_duration :: "nanos \<Rightarrow> nanos \<Rightarrow> u64" where
  "media_to_wall_clock_ratio_ppm_duration media_duration wall_clock_elapsed =
    (let media_us = media_duration div 1000; wall_us = wall_clock_elapsed div 1000 in
     if media_us = 0 \<or> wall_us = 0 then 0
     else u64_saturating_from_nat (media_us * 1000000 div wall_us))"

definition percentile_index :: "usize \<Rightarrow> usize \<Rightarrow> usize" where
  "percentile_index len percentile = ((len - 1) * percentile + 99) div 100"

definition percentile_duration :: "nanos list \<Rightarrow> usize \<Rightarrow> nanos" where
  "percentile_duration sorted_samples percentile =
     sorted_samples ! percentile_index (length sorted_samples) percentile"

record DurationStatsSnapshot =
  stats_samples :: usize
  p50_ms :: u64
  p95_ms :: u64
  p99_ms :: u64
  min_ms :: u64
  max_ms :: u64

definition DurationStatsSnapshot_empty :: DurationStatsSnapshot where
  "DurationStatsSnapshot_empty =
     \<lparr>stats_samples = 0, p50_ms = 0, p95_ms = 0, p99_ms = 0, min_ms = 0, max_ms = 0\<rparr>"

definition DurationStatsSnapshot_from_samples :: "nanos list \<Rightarrow> DurationStatsSnapshot" where
  "DurationStatsSnapshot_from_samples samples =
    (if samples = [] then DurationStatsSnapshot_empty
     else (let sorted_samples = sort samples in
       \<lparr>stats_samples = length sorted_samples,
        p50_ms = duration_millis (percentile_duration sorted_samples 50),
        p95_ms = duration_millis (percentile_duration sorted_samples 95),
        p99_ms = duration_millis (percentile_duration sorted_samples 99),
        min_ms = duration_millis (sorted_samples ! 0),
        max_ms = duration_millis (sorted_samples ! (length sorted_samples - 1))\<rparr>))"

section \<open>Depths\<close>

record PlaybackBufferDepthSnapshot =
  bd_packets :: usize
  bd_bytes :: usize
  bd_duration_ms :: u64
  bd_duration_samples :: u64

definition PlaybackBufferDepthSnapshot_default :: PlaybackBufferDepthSnapshot where
  "PlaybackBufferDepthSnapshot_default =
     \<lparr>bd_packets = 0, bd_bytes = 0, bd_duration_ms = 0, bd_duration_samples = 0\<rparr>"

definition depth_snapshot :: "OpusBufferDepth \<Rightarrow> PlaybackBufferDepthSnapshot" where
  "depth_snapshot depth =
     \<lparr>bd_packets = depth_packets depth, bd_bytes = depth_bytes depth,
      bd_duration_ms = depth_duration_ms depth, bd_duration_samples = depth_duration_samples depth\<rparr>"

definition min_depth ::
  "PlaybackBufferDepthSnapshot \<Rightarrow> PlaybackBufferDepthSnapshot \<Rightarrow> PlaybackBufferDepthSnapshot" where
  "min_depth current observed =
     (if bd_duration_samples observed < bd_duration_samples current then observed else current)"

definition max_depth ::
  "PlaybackBufferDepthSnapshot \<Rightarrow> PlaybackBufferDepthSnapshot \<Rightarrow> PlaybackBufferDepthSnapshot" where
  "max_depth current observed =
     (if bd_duration_samples observed > bd_duration_samples current then observed else current)"

definition percentile_depth :: "PlaybackBufferDepthSnapshot list \<Rightarrow> usize \<Rightarrow> PlaybackBufferDepthSnapshot" where
  "percentile_depth sorted_depths percentile =
     sorted_depths ! percentile_index (length sorted_depths) percentile"

record PlaybackQueueDepthStatsSnapshot =
  qd_sample_count :: usize
  qd_empty_count :: u64
  qd_current_depth :: PlaybackBufferDepthSnapshot
  qd_min_depth :: PlaybackBufferDepthSnapshot
  qd_p5_depth :: PlaybackBufferDepthSnapshot
  qd_p50_depth :: PlaybackBufferDepthSnapshot
  qd_p95_depth :: PlaybackBufferDepthSnapshot
  qd_max_depth :: PlaybackBufferDepthSnapshot

definition PlaybackQueueDepthStatsSnapshot_default :: PlaybackQueueDepthStatsSnapshot where
  "PlaybackQueueDepthStatsSnapshot_default =
    (let d = PlaybackBufferDepthSnapshot_default in
     \<lparr>qd_sample_count = 0, qd_empty_count = 0, qd_current_depth = d, qd_min_depth = d, qd_p5_depth = d,
      qd_p50_depth = d, qd_p95_depth = d, qd_max_depth = d\<rparr>)"

definition PlaybackQueueDepthStatsSnapshot_from_samples ::
  "PlaybackBufferDepthSnapshot list \<Rightarrow> u64 \<Rightarrow> PlaybackQueueDepthStatsSnapshot" where
  "PlaybackQueueDepthStatsSnapshot_from_samples samples empty_count =
    (if samples = [] then PlaybackQueueDepthStatsSnapshot_default
     else (let sorted_depths = sort_key bd_duration_samples samples in
       \<lparr>qd_sample_count = length samples, qd_empty_count = empty_count,
        qd_current_depth = samples ! (length samples - 1), qd_min_depth = sorted_depths ! 0,
        qd_p5_depth = percentile_depth sorted_depths 5, qd_p50_depth = percentile_depth sorted_depths 50,
        qd_p95_depth = percentile_depth sorted_depths 95,
        qd_max_depth = sorted_depths ! (length sorted_depths - 1)\<rparr>))"

section \<open>Events\<close>

datatype PlaybackSendCommandKind =
  SendTrack | SendScheduledSilence | SendBoundarySilence | SendOtherBoundary

datatype PreparedTrackQueueSamplePhase = ActivePrePause | ActivePostResume

record PlaybackSendEventSnapshot =
  se_packet_index :: u64
  se_command_kind :: PlaybackSendCommandKind
  se_expected_deadline_offset_us :: u64
  se_send_started_offset_us :: u64
  se_sent_offset_us :: u64
  se_media_duration_ms :: u64
  se_media_duration_samples :: u32
  se_rtp_sequence :: u16
  se_rtp_timestamp :: u32
  se_protection_nonce :: "u32 option"
  se_source_frame_epoch :: "u64 option"
  se_source_media_position_ms :: "u64 option"
  se_source_media_position_samples :: "u64 option"
  se_source_media_byte_position :: "u64 option"
  se_committed_heard_media :: bool

record PreparedTrackQueueDepthSampleSnapshot =
  qs_sample_index :: u64
  qs_phase :: PreparedTrackQueueSamplePhase
  qs_depth :: PlaybackBufferDepthSnapshot

datatype PreparedPlayoutQueueEventKind =
  UnknownEvent | Enqueued | DequeuedToDeadlineSender | DroppedBeforeSend | Rebuilt

datatype PreparedPlayoutQueueEventReason =
    ReasonUnspecified | ReasonSteadyPlayback | ReasonPause | ReasonStop | ReasonDaveTransitionRecovery
  | ReasonReconnect | ReasonSourceUnderrun | ReasonNaturalEnd | ReasonInterruption

record PreparedPlayoutQueueEventSnapshot =
  pq_event_index :: u64
  pq_event_kind :: PreparedPlayoutQueueEventKind
  pq_reason :: PreparedPlayoutQueueEventReason
  pq_command_kind :: PlaybackSendCommandKind
  pq_media_duration_ms :: u64
  pq_media_duration_samples :: u32
  pq_rtp_sequence :: u32
  pq_rtp_timestamp :: u32
  pq_protection_nonce :: "u32 option"
  pq_source_frame_epoch :: "u64 option"
  pq_source_media_position_ms :: "u64 option"
  pq_source_media_position_samples :: "u64 option"
  pq_source_media_byte_position :: "u64 option"
  pq_queue_depth_after :: PlaybackBufferDepthSnapshot

record PreparedPlayoutTrackDropIdentity =
  di_reason :: PreparedPlayoutQueueEventReason
  di_media_duration_samples :: u32
  di_source_frame_epoch :: u64
  di_source_media_position_samples :: u64
  di_source_media_byte_position :: "u64 option"

definition prepared_track_drop_counts_as_unrecovered :: "PreparedPlayoutQueueEventSnapshot \<Rightarrow> bool" where
  "prepared_track_drop_counts_as_unrecovered event \<longleftrightarrow> pq_reason event \<notin> {ReasonStop, ReasonReconnect}"

definition prepared_playout_track_drop_identity ::
  "PreparedPlayoutQueueEventSnapshot \<Rightarrow> PreparedPlayoutTrackDropIdentity option" where
  "prepared_playout_track_drop_identity event =
    (if pq_command_kind event \<noteq> SendTrack then None
     else (case pq_source_frame_epoch event of
             None \<Rightarrow> None
           | Some epoch \<Rightarrow>
              (case pq_source_media_position_samples event of
                 None \<Rightarrow> None
               | Some position \<Rightarrow>
                   Some \<lparr>di_reason = pq_reason event, di_media_duration_samples = pq_media_duration_samples event,
                         di_source_frame_epoch = epoch, di_source_media_position_samples = position,
                         di_source_media_byte_position = pq_source_media_byte_position event\<rparr>)))"

datatype MediaClockResetReason = ResetPauseResume | ResetSchedulerLate | ResetSourceUnderrun

record ProducerMetricsSample =
  sample_fill_duration :: nanos
  sample_produced_frames :: usize
  sample_source_buffer_depth :: OpusBufferDepth
  sample_stream_metrics :: HttpOpusStreamMetrics
  sample_recovery_metrics :: PlaybackRecoveryMetrics

record TrackPacketTiming =
  timing_send_started_at :: nanos
  timing_duration :: nanos
  timing_media_start :: nanos

record PlaybackSendEventRecord =
  ev_packet_index :: u64
  ev_command_kind :: PlaybackSendCommandKind
  ev_expected_deadline :: nanos
  ev_send_started_at :: nanos
  ev_sent_at :: nanos
  ev_media_duration_ms :: u64
  ev_media_duration_samples :: u32
  ev_rtp_sequence :: u16
  ev_rtp_timestamp :: u32
  ev_protection_nonce :: "u32 option"
  ev_source_frame_epoch :: "u64 option"
  ev_source_media_position_ms :: "u64 option"
  ev_source_media_position_samples :: "u64 option"
  ev_source_media_byte_position :: "u64 option"
  ev_committed_heard_media :: bool

datatype PreparedTrackQueuePhase = PrePause | PostResume

record PreparedTrackQueueDepthCollector =
  dc_warmed :: bool
  dc_samples :: "PlaybackBufferDepthSnapshot list"
  dc_empty_count :: u64

definition PreparedTrackQueueDepthCollector_default :: PreparedTrackQueueDepthCollector where
  "PreparedTrackQueueDepthCollector_default = \<lparr>dc_warmed = False, dc_samples = [], dc_empty_count = 0\<rparr>"

definition depth_collector_record ::
  "PlaybackBufferDepthSnapshot \<Rightarrow> u64 \<Rightarrow> PreparedTrackQueueDepthCollector
    \<Rightarrow> bool \<times> PreparedTrackQueueDepthCollector" where
  "depth_collector_record depth target_ms d =
    (if \<not> dc_warmed d \<and> bd_duration_samples depth < samples_from_duration_ms_u64 target_ms then (False, d)
     else
       (let d1 = d\<lparr>dc_warmed := True\<rparr>;
            d2 = (if bd_duration_samples depth = 0
                  then d1\<lparr>dc_empty_count := saturating_add (dc_empty_count d1) 1\<rparr> else d1)
        in (True, d2\<lparr>dc_samples := dc_samples d2 @ [depth]\<rparr>)))"

definition depth_collector_snapshot :: "PreparedTrackQueueDepthCollector \<Rightarrow> PlaybackQueueDepthStatsSnapshot" where
  "depth_collector_snapshot d = PlaybackQueueDepthStatsSnapshot_from_samples (dc_samples d) (dc_empty_count d)"

section \<open>The collector\<close>

record PlaybackStabilityCollector =
  co_playback_epoch :: u64
  co_video_id :: string
  co_selected_itag :: u32
  co_recovery_baseline :: PlaybackRecoveryMetrics
  co_track_packet_count :: usize
  co_continuity_silence_packet_count :: usize
  co_inserted_silence_duration_ms :: u64
  co_track_intervals :: "nanos list"
  co_all_packet_intervals :: "nanos list"
  co_sender_lateness :: "nanos list"
  co_refill_durations :: "nanos list"
  co_producer_stall_durations :: "nanos list"
  co_last_track_send_started_at :: "nanos option"
  co_last_track_duration :: "nanos option"
  co_active_track_wall_clock_elapsed :: nanos
  co_track_packet_timings :: "TrackPacketTiming list"
  co_last_any_send_at :: "nanos option"
  co_last_producer_sample_at :: "nanos option"
  co_max_producer_lag :: nanos
  co_current_buffer_depth :: PlaybackBufferDepthSnapshot
  co_min_buffer_depth :: PlaybackBufferDepthSnapshot
  co_max_buffer_depth :: PlaybackBufferDepthSnapshot
  co_current_source_buffer_depth :: PlaybackBufferDepthSnapshot
  co_min_source_buffer_depth :: PlaybackBufferDepthSnapshot
  co_max_source_buffer_depth :: PlaybackBufferDepthSnapshot
  co_source_buffer_depth_samples :: "PlaybackBufferDepthSnapshot list"
  co_source_buffer_empty_count :: u64
  co_current_playout_buffer_depth :: PlaybackBufferDepthSnapshot
  co_min_playout_buffer_depth :: PlaybackBufferDepthSnapshot
  co_max_playout_buffer_depth :: PlaybackBufferDepthSnapshot
  co_prepared_track_queue_target_ms :: u64
  co_prepared_track_queue_low_watermark_ms :: u64
  co_prepared_track_queue_high_watermark_ms :: u64
  co_prepared_track_queue_phase :: PreparedTrackQueuePhase
  co_active_pre_pause_prepared_track_queue_depth :: PreparedTrackQueueDepthCollector
  co_active_post_resume_prepared_track_queue_depth :: PreparedTrackQueueDepthCollector
  co_raw_send_events :: "PlaybackSendEventRecord list"
  co_raw_prepared_track_queue_samples :: "PreparedTrackQueueDepthSampleSnapshot list"
  co_raw_prepared_playout_queue_events :: "PreparedPlayoutQueueEventSnapshot list"
  co_unmatched_prepared_track_drops :: "PreparedPlayoutTrackDropIdentity list"
  co_current_scheduled_silence_queue_depth :: PlaybackBufferDepthSnapshot
  co_max_scheduled_silence_queue_depth :: PlaybackBufferDepthSnapshot
  co_current_boundary_queue_depth :: PlaybackBufferDepthSnapshot
  co_max_boundary_queue_depth :: PlaybackBufferDepthSnapshot
  co_prepared_track_packet_drop_count :: u64
  co_prepared_silence_packet_drop_count :: u64
  co_prepared_packet_rebuild_count :: u64
  co_scheduled_silence_packet_count :: u64
  co_pause_media_boundary_count :: u64
  co_stop_media_boundary_count :: u64
  co_recovery_media_boundary_count :: u64
  co_natural_end_media_boundary_count :: u64
  co_dave_transition_recovery_reached_builder_count :: u64
  co_dave_transition_recovery_reached_deadline_sender_count :: u64
  co_source_underrun_reached_builder_count :: u64
  co_source_underrun_reached_deadline_sender_count :: u64
  co_discarded_source_frame_count :: u64
  co_discarded_source_duration_samples :: u64
  co_stop_discarded_source_frame_count :: u64
  co_stop_discarded_source_duration_samples :: u64
  co_interruption_discarded_source_frame_count :: u64
  co_interruption_discarded_source_duration_samples :: u64
  co_restored_source_frame_count :: u64
  co_restored_source_duration_samples :: u64
  co_source_buffer_target_ms :: u64
  co_adaptive_buffer_target_ms :: u64
  co_max_adaptive_buffer_target_ms :: u64
  co_buffer_low_watermark_count :: u64
  co_source_buffer_low_watermark_count :: u64
  co_playout_buffer_low_watermark_count :: u64
  co_buffer_underrun_count :: u64
  co_playout_underrun_count :: u64
  co_egress_dropped_music_frame_count :: u64
  co_egress_dropped_music_duration_samples :: u64
  co_source_underrun_count :: u64
  co_rebuffer_count :: u64
  co_pause_resume_first_intervals_ms :: "u64 list"
  co_post_stall_first_intervals_ms :: "u64 list"
  co_post_rebuffer_first_intervals_ms :: "u64 list"
  co_pause_resume_intervals_remaining :: usize
  co_post_stall_intervals_remaining :: usize
  co_post_rebuffer_intervals_remaining :: usize
  co_http_retry_count :: u64
  co_response_open_count :: u64
  co_range_reopen_count :: u64
  co_read_error_reopen_count :: u64
  co_url_reresolve_count :: u64
  co_max_consecutive_late_packets :: usize
  co_current_consecutive_late_packets :: usize
  co_late_frame_count :: u64
  co_playout_sender_lateness :: "nanos list"
  co_max_consecutive_playout_late_packets :: usize
  co_current_consecutive_playout_late_packets :: usize
  co_speaking_prepare_durations :: "nanos list"
  co_playout_builder_prepare_durations :: "nanos list"
  co_sender_send_durations :: "nanos list"
  co_sender_loop_non_send_work_durations :: "nanos list"
  co_sender_forbidden_work_count :: u64
  co_gateway_event_drain_durations :: "nanos list"
  co_gateway_event_drain_count :: u64
  co_dave_transition_count :: u64
  co_dave_transition_count_during_playback :: u64
  co_stale_dave_send_prevented_count :: u64
  co_controlled_media_interruption_count :: u64
  co_track_media_duration_sent :: nanos
  co_track_fast_interval_count :: u64
  co_track_fast_interval_min :: "nanos option"
  co_track_tempo_window_count :: u64
  co_track_tempo_window_post_source_buffer_count :: u64
  co_track_tempo_window_min_ratio_ppm :: u64
  co_track_tempo_window_max_ratio_ppm :: u64
  co_track_tempo_window_fast_count :: u64
  co_track_tempo_window_fastest_ratio_ppm :: u64
  co_track_tempo_window_fastest_media_ms :: u64
  co_track_tempo_window_fastest_wall_clock :: "nanos option"
  co_track_tempo_window_slow_count :: u64
  co_track_tempo_window_slowest_ratio_ppm :: u64
  co_track_tempo_window_slowest_media_ms :: u64
  co_track_tempo_window_slowest_wall_clock :: "nanos option"
  co_skipped_source_frame_count :: u64
  co_skipped_source_duration_samples :: u64
  co_tempo_rebase_count :: u64
  co_media_clock_reset_count :: u64
  co_scheduler_late_reset_count :: u64
  co_source_underrun_reset_count :: u64
  co_pause_resume_reset_count :: u64
  co_dave_transition_recovery_reset_count :: u64

definition PlaybackStabilityCollector_new ::
  "u64 \<Rightarrow> string \<Rightarrow> u32 \<Rightarrow> OpusBufferDepth \<Rightarrow> OpusBufferDepth \<Rightarrow> u64 \<Rightarrow> u64 \<Rightarrow> u64 \<Rightarrow> u64
    \<Rightarrow> PlaybackRecoveryMetrics \<Rightarrow> PlaybackStabilityCollector" where
  "PlaybackStabilityCollector_new playback_epoch video_id itag initial_depth initial_source_depth
       source_buffer_target_ms prepared_track_queue_target_ms prepared_track_queue_low_watermark_ms
       prepared_track_queue_high_watermark_ms recovery_baseline =
    (let depth = depth_snapshot initial_depth; source_depth = depth_snapshot initial_source_depth in
       \<lparr>co_playback_epoch = playback_epoch,
        co_video_id = video_id,
        co_selected_itag = itag,
        co_recovery_baseline = recovery_baseline,
        co_track_packet_count = 0,
        co_continuity_silence_packet_count = 0,
        co_inserted_silence_duration_ms = 0,
        co_track_intervals = [],
        co_all_packet_intervals = [],
        co_sender_lateness = [],
        co_refill_durations = [],
        co_producer_stall_durations = [],
        co_last_track_send_started_at = None,
        co_last_track_duration = None,
        co_active_track_wall_clock_elapsed = 0,
        co_track_packet_timings = [],
        co_last_any_send_at = None,
        co_last_producer_sample_at = None,
        co_max_producer_lag = 0,
        co_current_buffer_depth = depth,
        co_min_buffer_depth = depth,
        co_max_buffer_depth = depth,
        co_current_source_buffer_depth = source_depth,
        co_min_source_buffer_depth = source_depth,
        co_max_source_buffer_depth = source_depth,
        co_source_buffer_depth_samples = [source_depth],
        co_source_buffer_empty_count = (if bd_duration_samples source_depth = 0 then 1 else 0),
        co_current_playout_buffer_depth = PlaybackBufferDepthSnapshot_default,
        co_min_playout_buffer_depth = PlaybackBufferDepthSnapshot_default,
        co_max_playout_buffer_depth = PlaybackBufferDepthSnapshot_default,
        co_prepared_track_queue_target_ms = prepared_track_queue_target_ms,
        co_prepared_track_queue_low_watermark_ms = prepared_track_queue_low_watermark_ms,
        co_prepared_track_queue_high_watermark_ms = prepared_track_queue_high_watermark_ms,
        co_prepared_track_queue_phase = PrePause,
        co_active_pre_pause_prepared_track_queue_depth = PreparedTrackQueueDepthCollector_default,
        co_active_post_resume_prepared_track_queue_depth = PreparedTrackQueueDepthCollector_default,
        co_raw_send_events = [],
        co_raw_prepared_track_queue_samples = [],
        co_raw_prepared_playout_queue_events = [],
        co_unmatched_prepared_track_drops = [],
        co_current_scheduled_silence_queue_depth = PlaybackBufferDepthSnapshot_default,
        co_max_scheduled_silence_queue_depth = PlaybackBufferDepthSnapshot_default,
        co_current_boundary_queue_depth = PlaybackBufferDepthSnapshot_default,
        co_max_boundary_queue_depth = PlaybackBufferDepthSnapshot_default,
        co_prepared_track_packet_drop_count = 0,
        co_prepared_silence_packet_drop_count = 0,
        co_prepared_packet_rebuild_count = 0,
        co_scheduled_silence_packet_count = 0,
        co_pause_media_boundary_count = 0,
        co_stop_media_boundary_count = 0,
        co_recovery_media_boundary_count = 0,
        co_natural_end_media_boundary_count = 0,
        co_dave_transition_recovery_reached_builder_count = 0,
        co_dave_transition_recovery_reached_deadline_sender_count = 0,
        co_source_underrun_reached_builder_count = 0,
        co_source_underrun_reached_deadline_sender_count = 0,
        co_discarded_source_frame_count = 0,
        co_discarded_source_duration_samples = 0,
        co_stop_discarded_source_frame_count = 0,
        co_stop_discarded_source_duration_samples = 0,
        co_interruption_discarded_source_frame_count = 0,
        co_interruption_discarded_source_duration_samples = 0,
        co_restored_source_frame_count = 0,
        co_restored_source_duration_samples = 0,
        co_source_buffer_target_ms = source_buffer_target_ms,
        co_adaptive_buffer_target_ms = 0,
        co_max_adaptive_buffer_target_ms = 0,
        co_buffer_low_watermark_count = 0,
        co_source_buffer_low_watermark_count = 0,
        co_playout_buffer_low_watermark_count = 0,
        co_buffer_underrun_count = 0,
        co_playout_underrun_count = 0,
        co_egress_dropped_music_frame_count = 0,
        co_egress_dropped_music_duration_samples = 0,
        co_source_underrun_count = 0,
        co_rebuffer_count = 0,
        co_pause_resume_first_intervals_ms = [],
        co_post_stall_first_intervals_ms = [],
        co_post_rebuffer_first_intervals_ms = [],
        co_pause_resume_intervals_remaining = 0,
        co_post_stall_intervals_remaining = 0,
        co_post_rebuffer_intervals_remaining = 0,
        co_http_retry_count = 0,
        co_response_open_count = 0,
        co_range_reopen_count = 0,
        co_read_error_reopen_count = 0,
        co_url_reresolve_count = 0,
        co_max_consecutive_late_packets = 0,
        co_current_consecutive_late_packets = 0,
        co_late_frame_count = 0,
        co_playout_sender_lateness = [],
        co_max_consecutive_playout_late_packets = 0,
        co_current_consecutive_playout_late_packets = 0,
        co_speaking_prepare_durations = [],
        co_playout_builder_prepare_durations = [],
        co_sender_send_durations = [],
        co_sender_loop_non_send_work_durations = [],
        co_sender_forbidden_work_count = 0,
        co_gateway_event_drain_durations = [],
        co_gateway_event_drain_count = 0,
        co_dave_transition_count = 0,
        co_dave_transition_count_during_playback = 0,
        co_stale_dave_send_prevented_count = 0,
        co_controlled_media_interruption_count = 0,
        co_track_media_duration_sent = 0,
        co_track_fast_interval_count = 0,
        co_track_fast_interval_min = None,
        co_track_tempo_window_count = 0,
        co_track_tempo_window_post_source_buffer_count = 0,
        co_track_tempo_window_min_ratio_ppm = 0,
        co_track_tempo_window_max_ratio_ppm = 0,
        co_track_tempo_window_fast_count = 0,
        co_track_tempo_window_fastest_ratio_ppm = 0,
        co_track_tempo_window_fastest_media_ms = 0,
        co_track_tempo_window_fastest_wall_clock = None,
        co_track_tempo_window_slow_count = 0,
        co_track_tempo_window_slowest_ratio_ppm = 0,
        co_track_tempo_window_slowest_media_ms = 0,
        co_track_tempo_window_slowest_wall_clock = None,
        co_skipped_source_frame_count = 0,
        co_skipped_source_duration_samples = 0,
        co_tempo_rebase_count = 0,
        co_media_clock_reset_count = 0,
        co_scheduler_late_reset_count = 0,
        co_source_underrun_reset_count = 0,
        co_pause_resume_reset_count = 0,
        co_dave_transition_recovery_reset_count = 0\<rparr>)"

definition record_source_buffer_depth ::
  "OpusBufferDepth \<Rightarrow> u64 \<Rightarrow> PlaybackStabilityCollector \<Rightarrow> PlaybackStabilityCollector" where
  "record_source_buffer_depth opus_depth low_watermark_ms c =
    (let depth = depth_snapshot opus_depth;
         c1 = c\<lparr>co_current_source_buffer_depth := depth,
                co_min_source_buffer_depth := min_depth (co_min_source_buffer_depth c) depth,
                co_max_source_buffer_depth := max_depth (co_max_source_buffer_depth c) depth,
                co_source_buffer_depth_samples := co_source_buffer_depth_samples c @ [depth]\<rparr>;
         c2 = (if bd_duration_samples depth = 0
               then c1\<lparr>co_source_buffer_empty_count := saturating_add (co_source_buffer_empty_count c1) 1\<rparr> else c1)
     in if low_watermark_ms \<noteq> u64_MAX
            \<and> bd_duration_samples depth \<le> samples_from_duration_ms_u64 low_watermark_ms
        then c2\<lparr>co_source_buffer_low_watermark_count :=
                  saturating_add (co_source_buffer_low_watermark_count c2) 1\<rparr> else c2)"

definition record_producer_sample ::
  "nanos \<Rightarrow> ProducerMetricsSample \<Rightarrow> PlaybackStabilityCollector \<Rightarrow> PlaybackStabilityCollector" where
  "record_producer_sample now sample c =
    (let c1 = c\<lparr>co_refill_durations := co_refill_durations c @ [sample_fill_duration sample],
                co_producer_stall_durations := co_producer_stall_durations c @ [sample_fill_duration sample],
                co_last_producer_sample_at := Some now\<rparr>;
         c2 = (case co_last_producer_sample_at c of
                 None \<Rightarrow> c1
               | Some previous \<Rightarrow> c1\<lparr>co_max_producer_lag := max (co_max_producer_lag c1) (now - previous)\<rparr>);
         c3 = c2\<lparr>co_response_open_count := response_open_count (sample_stream_metrics sample),
                 co_range_reopen_count := range_reopen_count (sample_stream_metrics sample),
                 co_read_error_reopen_count := read_error_reopen_count (sample_stream_metrics sample),
                 co_http_retry_count := saturating_sub (http_retry_count (sample_recovery_metrics sample))
                     (http_retry_count (co_recovery_baseline c2)),
                 co_url_reresolve_count := saturating_sub (url_reresolve_count (sample_recovery_metrics sample))
                     (url_reresolve_count (co_recovery_baseline c2))\<rparr>
     in if sample_produced_frames sample > 0 \<or> depth_packets (sample_source_buffer_depth sample) = 0
        then record_source_buffer_depth (sample_source_buffer_depth sample) u64_MAX c3 else c3)"

definition record_playout_buffer_depth ::
  "OpusBufferDepth \<Rightarrow> u64 \<Rightarrow> PlaybackStabilityCollector \<Rightarrow> PlaybackStabilityCollector" where
  "record_playout_buffer_depth opus_depth low_watermark_ms c =
    (let depth = depth_snapshot opus_depth;
         c1 = c\<lparr>co_current_playout_buffer_depth := depth,
                co_min_playout_buffer_depth := min_depth (co_min_playout_buffer_depth c) depth,
                co_max_playout_buffer_depth := max_depth (co_max_playout_buffer_depth c) depth\<rparr>
     in if low_watermark_ms \<noteq> u64_MAX
            \<and> bd_duration_samples depth \<le> samples_from_duration_ms_u64 low_watermark_ms
        then c1\<lparr>co_playout_buffer_low_watermark_count :=
                  saturating_add (co_playout_buffer_low_watermark_count c1) 1\<rparr> else c1)"

definition push_track_queue_sample ::
  "PreparedTrackQueueSamplePhase \<Rightarrow> PlaybackBufferDepthSnapshot \<Rightarrow> bool \<Rightarrow> PlaybackStabilityCollector
    \<Rightarrow> PlaybackStabilityCollector" where
  "push_track_queue_sample phase depth recorded c =
    (if recorded
     then c\<lparr>co_raw_prepared_track_queue_samples := co_raw_prepared_track_queue_samples c @
              [\<lparr>qs_sample_index = word_of_nat (length (co_raw_prepared_track_queue_samples c)),
                qs_phase = phase, qs_depth = depth\<rparr>]\<rparr>
     else c)"

definition record_prepared_track_queue_depth ::
  "OpusBufferDepth \<Rightarrow> PlaybackStabilityCollector \<Rightarrow> PlaybackStabilityCollector" where
  "record_prepared_track_queue_depth opus_depth c =
    (let depth = depth_snapshot opus_depth in
     case co_prepared_track_queue_phase c of
       PrePause \<Rightarrow>
         (let (recorded, d) = depth_collector_record depth (co_prepared_track_queue_target_ms c)
                (co_active_pre_pause_prepared_track_queue_depth c)
          in push_track_queue_sample ActivePrePause depth recorded
               (c\<lparr>co_active_pre_pause_prepared_track_queue_depth := d\<rparr>))
     | PostResume \<Rightarrow>
         (let (recorded, d) = depth_collector_record depth (co_prepared_track_queue_target_ms c)
                (co_active_post_resume_prepared_track_queue_depth c)
          in push_track_queue_sample ActivePostResume depth recorded
               (c\<lparr>co_active_post_resume_prepared_track_queue_depth := d\<rparr>)))"

definition count_prepared_drop ::
  "PreparedPlayoutQueueEventSnapshot \<Rightarrow> PlaybackStabilityCollector \<Rightarrow> PlaybackStabilityCollector" where
  "count_prepared_drop event c =
    (case pq_command_kind event of
       SendTrack \<Rightarrow>
         (if prepared_track_drop_counts_as_unrecovered event
          then (let c1 = c\<lparr>co_prepared_track_packet_drop_count :=
                             saturating_add (co_prepared_track_packet_drop_count c) 1\<rparr>
                in case prepared_playout_track_drop_identity event of
                     None \<Rightarrow> c1
                   | Some identity \<Rightarrow>
                       c1\<lparr>co_unmatched_prepared_track_drops := co_unmatched_prepared_track_drops c1 @ [identity]\<rparr>)
          else c)
     | _ \<Rightarrow> c\<lparr>co_prepared_silence_packet_drop_count :=
                saturating_add (co_prepared_silence_packet_drop_count c) 1\<rparr>)"

definition count_prepared_rebuild ::
  "PreparedPlayoutQueueEventSnapshot \<Rightarrow> PlaybackStabilityCollector \<Rightarrow> PlaybackStabilityCollector" where
  "count_prepared_rebuild event c =
    (let c1 = c\<lparr>co_prepared_packet_rebuild_count := saturating_add (co_prepared_packet_rebuild_count c) 1\<rparr> in
     case prepared_playout_track_drop_identity event of
       None \<Rightarrow> c1
     | Some identity \<Rightarrow>
        (if identity \<in> set (co_unmatched_prepared_track_drops c1)
         then c1\<lparr>co_unmatched_prepared_track_drops := remove1 identity (co_unmatched_prepared_track_drops c1),
                 co_prepared_track_packet_drop_count :=
                   saturating_sub (co_prepared_track_packet_drop_count c1) 1\<rparr>
         else c1))"

definition record_prepared_playout_queue_event ::
  "PreparedPlayoutQueueEventSnapshot \<Rightarrow> PlaybackStabilityCollector \<Rightarrow> PlaybackStabilityCollector" where
  "record_prepared_playout_queue_event event c =
    (let event1 = event\<lparr>pq_event_index := word_of_nat (length (co_raw_prepared_playout_queue_events c))\<rparr>;
         c1 = (if pq_event_kind event1 = DroppedBeforeSend then count_prepared_drop event1 c else c);
         c2 = (if pq_event_kind event1 = Rebuilt then count_prepared_rebuild event1 c1 else c1)
     in c2\<lparr>co_raw_prepared_playout_queue_events := co_raw_prepared_playout_queue_events c2 @ [event1]\<rparr>)"

definition record_non_track_playout_queue_depth ::
  "PlaybackSendCommandKind \<Rightarrow> OpusBufferDepth \<Rightarrow> PlaybackStabilityCollector \<Rightarrow> PlaybackStabilityCollector" where
  "record_non_track_playout_queue_depth command_kind opus_depth c =
    (let depth = depth_snapshot opus_depth in
     case command_kind of
       SendScheduledSilence \<Rightarrow>
         c\<lparr>co_current_scheduled_silence_queue_depth := depth,
           co_max_scheduled_silence_queue_depth := max_depth (co_max_scheduled_silence_queue_depth c) depth\<rparr>
     | SendTrack \<Rightarrow> c
     | _ \<Rightarrow> c\<lparr>co_current_boundary_queue_depth := depth,
              co_max_boundary_queue_depth := max_depth (co_max_boundary_queue_depth c) depth\<rparr>)"

definition record_explicit_media_boundary ::
  "PreparedPlayoutQueueEventReason \<Rightarrow> PlaybackStabilityCollector \<Rightarrow> PlaybackStabilityCollector" where
  "record_explicit_media_boundary reason c =
    (case reason of
       ReasonPause \<Rightarrow> c\<lparr>co_pause_media_boundary_count := saturating_add (co_pause_media_boundary_count c) 1\<rparr>
     | ReasonStop \<Rightarrow> c\<lparr>co_stop_media_boundary_count := saturating_add (co_stop_media_boundary_count c) 1\<rparr>
     | ReasonInterruption \<Rightarrow> c\<lparr>co_stop_media_boundary_count := saturating_add (co_stop_media_boundary_count c) 1\<rparr>
     | ReasonNaturalEnd \<Rightarrow>
         c\<lparr>co_natural_end_media_boundary_count := saturating_add (co_natural_end_media_boundary_count c) 1\<rparr>
     | ReasonUnspecified \<Rightarrow> c
     | ReasonSteadyPlayback \<Rightarrow> c
     | _ \<Rightarrow> c\<lparr>co_recovery_media_boundary_count := saturating_add (co_recovery_media_boundary_count c) 1\<rparr>)"

definition record_source_underrun_reached_builder :: "PlaybackStabilityCollector \<Rightarrow> PlaybackStabilityCollector" where
  "record_source_underrun_reached_builder c =
     c\<lparr>co_source_underrun_reached_builder_count := saturating_add (co_source_underrun_reached_builder_count c) 1\<rparr>"

definition record_source_underrun_reached_deadline_sender ::
  "PlaybackStabilityCollector \<Rightarrow> PlaybackStabilityCollector" where
  "record_source_underrun_reached_deadline_sender c =
     c\<lparr>co_source_underrun_reached_deadline_sender_count :=
         saturating_add (co_source_underrun_reached_deadline_sender_count c) 1\<rparr>"

definition record_restored_source_frames ::
  "u64 \<Rightarrow> u64 \<Rightarrow> PlaybackStabilityCollector \<Rightarrow> PlaybackStabilityCollector" where
  "record_restored_source_frames frame_count duration_samples c =
     c\<lparr>co_restored_source_frame_count := saturating_add (co_restored_source_frame_count c) frame_count,
       co_restored_source_duration_samples :=
         saturating_add (co_restored_source_duration_samples c) duration_samples\<rparr>"

definition record_discarded_source_frames ::
  "PreparedPlayoutQueueEventReason \<Rightarrow> u64 \<Rightarrow> u64 \<Rightarrow> PlaybackStabilityCollector \<Rightarrow> PlaybackStabilityCollector" where
  "record_discarded_source_frames reason frame_count duration_samples c =
    (let c1 = c\<lparr>co_discarded_source_frame_count := saturating_add (co_discarded_source_frame_count c) frame_count,
                co_discarded_source_duration_samples :=
                  saturating_add (co_discarded_source_duration_samples c) duration_samples\<rparr> in
     if reason \<in> {ReasonStop, ReasonNaturalEnd}
     then c1\<lparr>co_stop_discarded_source_frame_count :=
               saturating_add (co_stop_discarded_source_frame_count c1) frame_count,
             co_stop_discarded_source_duration_samples :=
               saturating_add (co_stop_discarded_source_duration_samples c1) duration_samples\<rparr>
     else if reason \<in> {ReasonInterruption, ReasonReconnect, ReasonDaveTransitionRecovery, ReasonSourceUnderrun}
     then c1\<lparr>co_interruption_discarded_source_frame_count :=
               saturating_add (co_interruption_discarded_source_frame_count c1) frame_count,
             co_interruption_discarded_source_duration_samples :=
               saturating_add (co_interruption_discarded_source_duration_samples c1) duration_samples\<rparr>
     else c1)"

definition record_adaptive_buffer_target ::
  "u64 \<Rightarrow> u64 \<Rightarrow> PlaybackStabilityCollector \<Rightarrow> PlaybackStabilityCollector" where
  "record_adaptive_buffer_target target_ms max_target_ms c =
     c\<lparr>co_adaptive_buffer_target_ms := target_ms,
       co_max_adaptive_buffer_target_ms := max (co_max_adaptive_buffer_target_ms c) max_target_ms\<rparr>"

definition record_source_underrun :: "OpusBufferDepth \<Rightarrow> PlaybackStabilityCollector \<Rightarrow> PlaybackStabilityCollector" where
  "record_source_underrun depth c =
     record_source_buffer_depth depth u64_MAX
       (c\<lparr>co_source_underrun_count := saturating_add (co_source_underrun_count c) 1,
          co_post_stall_intervals_remaining := FIRST_INTERVAL_SAMPLE_LIMIT,
          co_post_stall_first_intervals_ms := []\<rparr>)"

definition record_rebuffer :: "OpusBufferDepth \<Rightarrow> u64 \<Rightarrow> PlaybackStabilityCollector \<Rightarrow> PlaybackStabilityCollector" where
  "record_rebuffer depth low_watermark_ms c =
     record_source_buffer_depth depth low_watermark_ms
       (c\<lparr>co_rebuffer_count := saturating_add (co_rebuffer_count c) 1,
          co_post_rebuffer_intervals_remaining := FIRST_INTERVAL_SAMPLE_LIMIT,
          co_post_rebuffer_first_intervals_ms := []\<rparr>)"

definition record_playout_underrun :: "OpusBufferDepth \<Rightarrow> PlaybackStabilityCollector \<Rightarrow> PlaybackStabilityCollector" where
  "record_playout_underrun depth c =
     record_playout_buffer_depth depth u64_MAX
       (c\<lparr>co_playout_underrun_count := saturating_add (co_playout_underrun_count c) 1\<rparr>)"

definition record_egress_dropped_music_frames ::
  "u64 \<Rightarrow> u64 \<Rightarrow> PlaybackStabilityCollector \<Rightarrow> PlaybackStabilityCollector" where
  "record_egress_dropped_music_frames frame_count duration_samples c =
     c\<lparr>co_egress_dropped_music_frame_count := saturating_add (co_egress_dropped_music_frame_count c) frame_count,
       co_egress_dropped_music_duration_samples :=
         saturating_add (co_egress_dropped_music_duration_samples c) duration_samples\<rparr>"

definition record_speaking_prepare_duration :: "nanos \<Rightarrow> PlaybackStabilityCollector \<Rightarrow> PlaybackStabilityCollector" where
  "record_speaking_prepare_duration duration c =
     c\<lparr>co_speaking_prepare_durations := co_speaking_prepare_durations c @ [duration]\<rparr>"

definition record_playout_builder_prepare_duration ::
  "nanos \<Rightarrow> PlaybackStabilityCollector \<Rightarrow> PlaybackStabilityCollector" where
  "record_playout_builder_prepare_duration duration c =
     c\<lparr>co_playout_builder_prepare_durations := co_playout_builder_prepare_durations c @ [duration]\<rparr>"

definition record_sender_send_duration :: "nanos \<Rightarrow> PlaybackStabilityCollector \<Rightarrow> PlaybackStabilityCollector" where
  "record_sender_send_duration duration c =
     c\<lparr>co_sender_send_durations := co_sender_send_durations c @ [duration]\<rparr>"

definition record_sender_loop_non_send_work_duration ::
  "nanos \<Rightarrow> PlaybackStabilityCollector \<Rightarrow> PlaybackStabilityCollector" where
  "record_sender_loop_non_send_work_duration duration c =
     c\<lparr>co_sender_loop_non_send_work_durations := co_sender_loop_non_send_work_durations c @ [duration]\<rparr>"

definition record_gateway_drain ::
  "VoiceGatewayDrainReport \<Rightarrow> PlaybackStabilityCollector \<Rightarrow> PlaybackStabilityCollector" where
  "record_gateway_drain report c =
     c\<lparr>co_gateway_event_drain_durations := co_gateway_event_drain_durations c @ [drain_duration report],
       co_gateway_event_drain_count := saturating_add (co_gateway_event_drain_count c) (drain_event_count report),
       co_dave_transition_count := saturating_add (co_dave_transition_count c) (drain_dave_transition_count report),
       co_dave_transition_count_during_playback :=
         saturating_add (co_dave_transition_count_during_playback c) (drain_dave_transition_count report)\<rparr>"

definition reset_active_track_tempo_window :: "PlaybackStabilityCollector \<Rightarrow> PlaybackStabilityCollector" where
  "reset_active_track_tempo_window c =
     c\<lparr>co_last_track_send_started_at := None, co_last_track_duration := None, co_track_packet_timings := [],
       co_last_any_send_at := None\<rparr>"

definition record_media_clock_reset ::
  "MediaClockResetReason \<Rightarrow> PlaybackStabilityCollector \<Rightarrow> PlaybackStabilityCollector" where
  "record_media_clock_reset reason c =
    (let c1 = c\<lparr>co_media_clock_reset_count := saturating_add (co_media_clock_reset_count c) 1\<rparr> in
     case reason of
       ResetPauseResume \<Rightarrow> c1\<lparr>co_pause_resume_reset_count := saturating_add (co_pause_resume_reset_count c1) 1\<rparr>
     | ResetSchedulerLate \<Rightarrow>
         c1\<lparr>co_scheduler_late_reset_count := saturating_add (co_scheduler_late_reset_count c1) 1,
            co_controlled_media_interruption_count :=
              saturating_add (co_controlled_media_interruption_count c1) 1\<rparr>
     | ResetSourceUnderrun \<Rightarrow>
         reset_active_track_tempo_window
           (c1\<lparr>co_source_underrun_reset_count := saturating_add (co_source_underrun_reset_count c1) 1,
               co_controlled_media_interruption_count :=
                 saturating_add (co_controlled_media_interruption_count c1) 1\<rparr>))"

definition record_resumed_from_pause :: "PlaybackStabilityCollector \<Rightarrow> PlaybackStabilityCollector" where
  "record_resumed_from_pause c =
     (reset_active_track_tempo_window c)\<lparr>co_pause_resume_intervals_remaining := FIRST_INTERVAL_SAMPLE_LIMIT,
        co_pause_resume_first_intervals_ms := [], co_prepared_track_queue_phase := PostResume\<rparr>"

definition record_send_event ::
  "PlaybackSendEventRecord \<Rightarrow> PlaybackStabilityCollector \<Rightarrow> PlaybackStabilityCollector" where
  "record_send_event event c =
    (let c1 = (if ev_command_kind event = SendScheduledSilence
               then c\<lparr>co_scheduled_silence_packet_count := saturating_add (co_scheduled_silence_packet_count c) 1\<rparr>
               else c)
     in c1\<lparr>co_raw_send_events := co_raw_send_events c1 @ [event]\<rparr>)"

definition record_any_packet :: "nanos \<Rightarrow> PlaybackStabilityCollector \<Rightarrow> PlaybackStabilityCollector" where
  "record_any_packet sent_at c =
    (case co_last_any_send_at c of
       None \<Rightarrow> c\<lparr>co_last_any_send_at := Some sent_at\<rparr>
     | Some previous \<Rightarrow>
         c\<lparr>co_last_any_send_at := Some sent_at,
           co_all_packet_intervals := co_all_packet_intervals c @ [sent_at - previous]\<rparr>)"

definition record_fast_window ::
  "nanos \<Rightarrow> nanos \<Rightarrow> u64 \<Rightarrow> PlaybackStabilityCollector \<Rightarrow> PlaybackStabilityCollector" where
  "record_fast_window media_duration wall_clock_duration ratio c =
    (if ratio > MAX_MEDIA_TO_WALL_CLOCK_RATIO_PPM
     then (let c1 = c\<lparr>co_track_tempo_window_fast_count := saturating_add (co_track_tempo_window_fast_count c) 1\<rparr> in
           if ratio > co_track_tempo_window_fastest_ratio_ppm c1
           then c1\<lparr>co_track_tempo_window_fastest_ratio_ppm := ratio,
                   co_track_tempo_window_fastest_media_ms := duration_millis media_duration,
                   co_track_tempo_window_fastest_wall_clock := Some wall_clock_duration\<rparr>
           else c1)
     else c)"

definition record_slow_window ::
  "nanos \<Rightarrow> nanos \<Rightarrow> u64 \<Rightarrow> PlaybackStabilityCollector \<Rightarrow> PlaybackStabilityCollector" where
  "record_slow_window media_duration wall_clock_duration ratio c =
    (if ratio < MIN_MEDIA_TO_WALL_CLOCK_RATIO_PPM
     then (let c1 = c\<lparr>co_track_tempo_window_slow_count := saturating_add (co_track_tempo_window_slow_count c) 1\<rparr> in
           if co_track_tempo_window_slowest_ratio_ppm c1 = 0 \<or> ratio < co_track_tempo_window_slowest_ratio_ppm c1
           then c1\<lparr>co_track_tempo_window_slowest_ratio_ppm := ratio,
                   co_track_tempo_window_slowest_media_ms := duration_millis media_duration,
                   co_track_tempo_window_slowest_wall_clock := Some wall_clock_duration\<rparr>
           else c1)
     else c)"

definition record_window_ratio ::
  "nanos \<Rightarrow> nanos \<Rightarrow> u64 \<Rightarrow> PlaybackStabilityCollector \<Rightarrow> PlaybackStabilityCollector" where
  "record_window_ratio media_duration wall_clock_duration ratio c =
    (let c1 = c\<lparr>co_track_tempo_window_min_ratio_ppm :=
                  (if co_track_tempo_window_min_ratio_ppm c = 0 then ratio
                   else min (co_track_tempo_window_min_ratio_ppm c) ratio),
                co_track_tempo_window_max_ratio_ppm := max (co_track_tempo_window_max_ratio_ppm c) ratio\<rparr>
     in record_slow_window media_duration wall_clock_duration ratio
          (record_fast_window media_duration wall_clock_duration ratio c1))"

definition window_wall_clock :: "TrackPacketTiming list \<Rightarrow> nanos" where
  "window_wall_clock window =
     (timing_send_started_at (last window) - timing_send_started_at (hd window)) + timing_duration (last window)"

definition window_media :: "TrackPacketTiming list \<Rightarrow> nanos" where
  "window_media window = foldl (\<lambda>total packet. total + timing_duration packet) 0 window"

definition record_latest_track_tempo_window :: "PlaybackStabilityCollector \<Rightarrow> PlaybackStabilityCollector" where
  "record_latest_track_tempo_window c =
    (if length (co_track_packet_timings c) < TRACK_TEMPO_WINDOW_PACKETS then c
     else
       (let window = drop (length (co_track_packet_timings c) - TRACK_TEMPO_WINDOW_PACKETS) (co_track_packet_timings c) in
        if window = [] then c
        else
          (let media_duration = window_media window;
               wall_clock_duration = window_wall_clock window;
               c1 = c\<lparr>co_track_tempo_window_count := saturating_add (co_track_tempo_window_count c) 1\<rparr>;
               c2 = (if timing_media_start (hd window) \<ge> TRACK_POST_SOURCE_BUFFER_MEDIA_MS * 1000000
                     then c1\<lparr>co_track_tempo_window_post_source_buffer_count :=
                               saturating_add (co_track_tempo_window_post_source_buffer_count c1) 1\<rparr> else c1)
           in record_window_ratio media_duration wall_clock_duration
                (media_to_wall_clock_ratio_ppm_duration media_duration wall_clock_duration) c2)))"

definition record_lateness :: "nanos \<Rightarrow> PlaybackStabilityCollector \<Rightarrow> PlaybackStabilityCollector" where
  "record_lateness lateness c =
    (let c1 = c\<lparr>co_sender_lateness := co_sender_lateness c @ [lateness],
                co_playout_sender_lateness := co_playout_sender_lateness c @ [lateness]\<rparr> in
     if lateness > LATE_PACKET_THRESHOLD
     then (let late = usize_saturating_add (co_current_consecutive_late_packets c1) 1;
               playout_late = usize_saturating_add (co_current_consecutive_playout_late_packets c1) 1
           in c1\<lparr>co_late_frame_count := saturating_add (co_late_frame_count c1) 1,
                 co_current_consecutive_late_packets := late,
                 co_max_consecutive_late_packets := max (co_max_consecutive_late_packets c1) late,
                 co_current_consecutive_playout_late_packets := playout_late,
                 co_max_consecutive_playout_late_packets :=
                   max (co_max_consecutive_playout_late_packets c1) playout_late\<rparr>)
     else c1\<lparr>co_current_consecutive_late_packets := 0, co_current_consecutive_playout_late_packets := 0\<rparr>)"

definition record_fast_interval :: "nanos \<Rightarrow> PlaybackStabilityCollector \<Rightarrow> PlaybackStabilityCollector" where
  "record_fast_interval interval c =
    (case co_last_track_duration c of
       None \<Rightarrow> c
     | Some previous_duration \<Rightarrow>
        (if interval < previous_duration
         then c\<lparr>co_track_fast_interval_count := saturating_add (co_track_fast_interval_count c) 1,
                co_track_fast_interval_min :=
                  Some (case co_track_fast_interval_min c of None \<Rightarrow> interval | Some current \<Rightarrow> min current interval)\<rparr>
         else c))"

definition record_first_intervals :: "nanos \<Rightarrow> PlaybackStabilityCollector \<Rightarrow> PlaybackStabilityCollector" where
  "record_first_intervals interval c =
    (let c1 = (if co_pause_resume_intervals_remaining c > 0
               then c\<lparr>co_pause_resume_first_intervals_ms :=
                        co_pause_resume_first_intervals_ms c @ [duration_millis interval],
                      co_pause_resume_intervals_remaining := co_pause_resume_intervals_remaining c - 1\<rparr> else c);
         c2 = (if co_post_stall_intervals_remaining c1 > 0
               then c1\<lparr>co_post_stall_first_intervals_ms :=
                         co_post_stall_first_intervals_ms c1 @ [duration_millis interval],
                       co_post_stall_intervals_remaining := co_post_stall_intervals_remaining c1 - 1\<rparr> else c1)
     in if co_post_rebuffer_intervals_remaining c2 > 0
        then c2\<lparr>co_post_rebuffer_first_intervals_ms :=
                  co_post_rebuffer_first_intervals_ms c2 @ [duration_millis interval],
                co_post_rebuffer_intervals_remaining := co_post_rebuffer_intervals_remaining c2 - 1\<rparr> else c2)"

definition record_track_interval ::
  "nanos \<Rightarrow> nanos \<Rightarrow> PlaybackStabilityCollector \<Rightarrow> PlaybackStabilityCollector" where
  "record_track_interval send_started_at frame_duration c =
    (let c0 = c\<lparr>co_last_track_send_started_at := Some send_started_at\<rparr> in
     case co_last_track_send_started_at c of
       None \<Rightarrow> c0\<lparr>co_active_track_wall_clock_elapsed := co_active_track_wall_clock_elapsed c0 + frame_duration\<rparr>
     | Some previous \<Rightarrow>
        (let interval = send_started_at - previous;
             c1 = c0\<lparr>co_track_intervals := co_track_intervals c0 @ [interval]\<rparr>;
             c2 = record_first_intervals interval (record_fast_interval interval c1)
         in case co_last_track_duration c2 of
              None \<Rightarrow> c2
            | Some previous_duration \<Rightarrow>
                c2\<lparr>co_active_track_wall_clock_elapsed :=
                     (co_active_track_wall_clock_elapsed c2 - previous_duration) + interval + frame_duration\<rparr>))"

definition record_track_packet ::
  "nanos \<Rightarrow> nanos \<Rightarrow> u32 \<Rightarrow> bool \<Rightarrow> PlaybackStabilityCollector \<Rightarrow> PlaybackStabilityCollector" where
  "record_track_packet expected_deadline send_started_at duration_samples tempo_rebased c =
    (let frame_duration = duration_from_samples (u64_from_u32 duration_samples);
         media_start = co_track_media_duration_sent c;
         c1 = c\<lparr>co_track_media_duration_sent := co_track_media_duration_sent c + frame_duration\<rparr>;
         c2 = (if tempo_rebased then c1\<lparr>co_tempo_rebase_count := saturating_add (co_tempo_rebase_count c1) 1\<rparr> else c1);
         c3 = record_lateness (send_started_at - expected_deadline) c2;
         c4 = record_track_interval send_started_at frame_duration c3;
         c5 = c4\<lparr>co_last_track_duration := Some frame_duration,
                 co_track_packet_timings := co_track_packet_timings c4 @
                   [\<lparr>timing_send_started_at = send_started_at, timing_duration = frame_duration,
                     timing_media_start = media_start\<rparr>]\<rparr>;
         c6 = record_any_packet send_started_at (record_latest_track_tempo_window c5)
     in c6\<lparr>co_track_packet_count := usize_saturating_add (co_track_packet_count c6) 1\<rparr>)"

definition record_continuity_silence_packet ::
  "nanos \<Rightarrow> u64 \<Rightarrow> PlaybackStabilityCollector \<Rightarrow> PlaybackStabilityCollector" where
  "record_continuity_silence_packet sent_at duration_ms c =
     record_any_packet sent_at
       (c\<lparr>co_continuity_silence_packet_count := usize_saturating_add (co_continuity_silence_packet_count c) 1,
          co_inserted_silence_duration_ms := saturating_add (co_inserted_silence_duration_ms c) duration_ms\<rparr>)"

definition record_skipped_source_frames ::
  "u64 \<Rightarrow> u64 \<Rightarrow> PlaybackStabilityCollector \<Rightarrow> PlaybackStabilityCollector" where
  "record_skipped_source_frames frame_count duration_samples c =
     c\<lparr>co_skipped_source_frame_count := saturating_add (co_skipped_source_frame_count c) frame_count,
       co_skipped_source_duration_samples :=
         saturating_add (co_skipped_source_duration_samples c) duration_samples\<rparr>"

section \<open>The snapshot\<close>

record PlaybackStabilitySnapshot =
  ps_playback_epoch :: u64
  ps_video_id :: "string option"
  ps_selected_itag :: "u32 option"
  ps_track_packet_count :: usize
  ps_continuity_silence_packet_count :: usize
  ps_inserted_silence_duration_ms :: u64
  ps_track_interval :: DurationStatsSnapshot
  ps_track_media_duration_sent_ms :: u64
  ps_track_wall_clock_elapsed_ms :: u64
  ps_track_media_to_wall_clock_ratio_ppm :: u64
  ps_track_fast_interval_count :: u64
  ps_track_fast_interval_min_ms :: u64
  ps_track_fast_interval_min_us :: u64
  ps_track_tempo_window_count :: u64
  ps_track_tempo_window_post_source_buffer_count :: u64
  ps_track_tempo_window_min_ratio_ppm :: u64
  ps_track_tempo_window_max_ratio_ppm :: u64
  ps_track_tempo_window_fast_count :: u64
  ps_track_tempo_window_fastest_ratio_ppm :: u64
  ps_track_tempo_window_fastest_media_ms :: u64
  ps_track_tempo_window_fastest_wall_clock_us :: u64
  ps_track_tempo_window_slow_count :: u64
  ps_track_tempo_window_slowest_ratio_ppm :: u64
  ps_track_tempo_window_slowest_media_ms :: u64
  ps_track_tempo_window_slowest_wall_clock_us :: u64
  ps_skipped_source_frame_count :: u64
  ps_skipped_source_duration_ms :: u64
  ps_skipped_source_duration_samples :: u64
  ps_tempo_rebase_count :: u64
  ps_expected_track_frame_count :: u64
  ps_sent_track_frame_count :: u64
  ps_silence_frame_count :: u64
  ps_frame_deficit_count :: u64
  ps_dropped_frame_count :: u64
  ps_late_frame_count :: u64
  ps_all_packet_interval :: DurationStatsSnapshot
  ps_sender_lateness :: DurationStatsSnapshot
  ps_max_consecutive_late_packets :: usize
  ps_current_consecutive_late_packets :: usize
  ps_current_buffer_depth :: PlaybackBufferDepthSnapshot
  ps_min_buffer_depth :: PlaybackBufferDepthSnapshot
  ps_max_buffer_depth :: PlaybackBufferDepthSnapshot
  ps_current_source_buffer_depth :: PlaybackBufferDepthSnapshot
  ps_min_source_buffer_depth :: PlaybackBufferDepthSnapshot
  ps_max_source_buffer_depth :: PlaybackBufferDepthSnapshot
  ps_source_buffer_depth :: PlaybackQueueDepthStatsSnapshot
  ps_current_playout_buffer_depth :: PlaybackBufferDepthSnapshot
  ps_min_playout_buffer_depth :: PlaybackBufferDepthSnapshot
  ps_max_playout_buffer_depth :: PlaybackBufferDepthSnapshot
  ps_egress_buffer_target_ms :: u64
  ps_current_egress_buffer_depth :: PlaybackBufferDepthSnapshot
  ps_min_egress_buffer_depth :: PlaybackBufferDepthSnapshot
  ps_max_egress_buffer_depth :: PlaybackBufferDepthSnapshot
  ps_prepared_rtp_queue_depth_ms :: u64
  ps_prepared_track_queue_target_ms :: u64
  ps_prepared_track_queue_low_watermark_ms :: u64
  ps_prepared_track_queue_high_watermark_ms :: u64
  ps_active_pre_pause_prepared_track_queue_depth :: PlaybackQueueDepthStatsSnapshot
  ps_active_post_resume_prepared_track_queue_depth :: PlaybackQueueDepthStatsSnapshot
  ps_prepared_track_queue_depth_sample_count :: usize
  ps_prepared_track_queue_empty_count :: u64
  ps_raw_send_events :: "PlaybackSendEventSnapshot list"
  ps_raw_prepared_track_queue_samples :: "PreparedTrackQueueDepthSampleSnapshot list"
  ps_raw_prepared_playout_queue_events :: "PreparedPlayoutQueueEventSnapshot list"
  ps_current_scheduled_silence_queue_depth :: PlaybackBufferDepthSnapshot
  ps_max_scheduled_silence_queue_depth :: PlaybackBufferDepthSnapshot
  ps_current_boundary_queue_depth :: PlaybackBufferDepthSnapshot
  ps_max_boundary_queue_depth :: PlaybackBufferDepthSnapshot
  ps_prepared_track_packet_drop_count :: u64
  ps_prepared_silence_packet_drop_count :: u64
  ps_prepared_packet_rebuild_count :: u64
  ps_scheduled_silence_packet_count :: u64
  ps_pause_media_boundary_count :: u64
  ps_stop_media_boundary_count :: u64
  ps_recovery_media_boundary_count :: u64
  ps_natural_end_media_boundary_count :: u64
  ps_dave_transition_recovery_reached_builder_count :: u64
  ps_dave_transition_recovery_reached_deadline_sender_count :: u64
  ps_source_underrun_reached_builder_count :: u64
  ps_source_underrun_reached_deadline_sender_count :: u64
  ps_discarded_source_frame_count :: u64
  ps_discarded_source_duration_ms :: u64
  ps_discarded_source_duration_samples :: u64
  ps_stop_discarded_source_frame_count :: u64
  ps_stop_discarded_source_duration_ms :: u64
  ps_stop_discarded_source_duration_samples :: u64
  ps_interruption_discarded_source_frame_count :: u64
  ps_interruption_discarded_source_duration_ms :: u64
  ps_interruption_discarded_source_duration_samples :: u64
  ps_restored_source_frame_count :: u64
  ps_restored_source_duration_ms :: u64
  ps_restored_source_duration_samples :: u64
  ps_source_buffer_target_ms :: u64
  ps_adaptive_buffer_target_ms :: u64
  ps_max_adaptive_buffer_target_ms :: u64
  ps_buffer_low_watermark_count :: u64
  ps_source_buffer_low_watermark_count :: u64
  ps_playout_buffer_low_watermark_count :: u64
  ps_buffer_underrun_count :: u64
  ps_playout_underrun_count :: u64
  ps_egress_underrun_count :: u64
  ps_egress_inserted_silence_duration_ms :: u64
  ps_egress_dropped_music_frame_count :: u64
  ps_egress_dropped_music_duration_ms :: u64
  ps_egress_dropped_music_duration_samples :: u64
  ps_source_underrun_count :: u64
  ps_rebuffer_count :: u64
  ps_refill_duration :: DurationStatsSnapshot
  ps_source_producer_fill_duration :: DurationStatsSnapshot
  ps_producer_stall_duration :: DurationStatsSnapshot
  ps_max_producer_lag_ms :: u64
  ps_http_retry_count :: u64
  ps_response_open_count :: u64
  ps_range_reopen_count :: u64
  ps_read_error_reopen_count :: u64
  ps_url_reresolve_count :: u64
  ps_pause_resume_first_intervals_ms :: "u64 list"
  ps_post_stall_first_intervals_ms :: "u64 list"
  ps_post_rebuffer_first_intervals_ms :: "u64 list"
  ps_playout_sender_lateness :: DurationStatsSnapshot
  ps_playout_builder_prepare_duration :: DurationStatsSnapshot
  ps_sender_send_duration :: DurationStatsSnapshot
  ps_sender_loop_non_send_work_duration :: DurationStatsSnapshot
  ps_max_consecutive_playout_late_packets :: usize
  ps_max_consecutive_late_egress_ticks :: usize
  ps_speaking_prepare_duration :: DurationStatsSnapshot
  ps_sender_forbidden_work_count :: u64
  ps_gateway_event_drain_duration :: DurationStatsSnapshot
  ps_gateway_event_drain_count :: u64
  ps_dave_transition_count :: u64
  ps_dave_transition_count_during_playback :: u64
  ps_stale_dave_send_prevented_count :: u64
  ps_controlled_media_interruption_count :: u64
  ps_media_clock_reset_count :: u64
  ps_egress_clock_reset_count :: u64
  ps_scheduler_late_reset_count :: u64
  ps_source_underrun_reset_count :: u64
  ps_pause_resume_reset_count :: u64
  ps_dave_transition_recovery_reset_count :: u64
  ps_gateway_interruptions :: u64
  ps_dave_interruptions :: u64
  ps_reconnect_interruptions :: u64
  ps_ended :: bool

definition instant_offset_micros :: "nanos \<Rightarrow> nanos \<Rightarrow> u64" where
  "instant_offset_micros base instant = duration_micros (instant - base)"

definition playback_send_event_snapshots :: "PlaybackSendEventRecord list \<Rightarrow> PlaybackSendEventSnapshot list" where
  "playback_send_event_snapshots events =
    (case events of
       [] \<Rightarrow> []
     | e0 # _ \<Rightarrow>
        (let base_deadline = ev_expected_deadline e0 in
         map (\<lambda>event.
           \<lparr>se_packet_index = ev_packet_index event, se_command_kind = ev_command_kind event,
            se_expected_deadline_offset_us = instant_offset_micros base_deadline (ev_expected_deadline event),
            se_send_started_offset_us = instant_offset_micros base_deadline (ev_send_started_at event),
            se_sent_offset_us = instant_offset_micros base_deadline (ev_sent_at event),
            se_media_duration_ms = ev_media_duration_ms event,
            se_media_duration_samples = ev_media_duration_samples event,
            se_rtp_sequence = ev_rtp_sequence event, se_rtp_timestamp = ev_rtp_timestamp event,
            se_protection_nonce = ev_protection_nonce event,
            se_source_frame_epoch = ev_source_frame_epoch event,
            se_source_media_position_ms = ev_source_media_position_ms event,
            se_source_media_position_samples = ev_source_media_position_samples event,
            se_source_media_byte_position = ev_source_media_byte_position event,
            se_committed_heard_media = ev_committed_heard_media event\<rparr>) events))"

definition track_wall_clock_elapsed_ms_of :: "PlaybackStabilityCollector \<Rightarrow> u64" where
  "track_wall_clock_elapsed_ms_of c = duration_millis (co_active_track_wall_clock_elapsed c)"

definition map_or :: "'b \<Rightarrow> ('a \<Rightarrow> 'b) \<Rightarrow> 'a option \<Rightarrow> 'b" where
  "map_or d f x = (case x of None \<Rightarrow> d | Some y \<Rightarrow> f y)"

definition collector_snapshot ::
  "u64 \<Rightarrow> u64 \<Rightarrow> u64 \<Rightarrow> bool \<Rightarrow> PlaybackStabilityCollector \<Rightarrow> PlaybackStabilitySnapshot" where
  "collector_snapshot gateway_interruptions dave_interruptions reconnect_interruptions ended c =
    (let track_wall_clock_elapsed_ms = track_wall_clock_elapsed_ms_of c;
         sent_track_frame_count = word_of_nat (co_track_packet_count c);
         silence_frame_count =
           max (u64_saturating_from_nat (co_continuity_silence_packet_count c)) (co_scheduled_silence_packet_count c);
         dropped_frame_count =
           saturating_add (saturating_add (co_prepared_track_packet_drop_count c) (co_prepared_silence_packet_drop_count c))
             (co_egress_dropped_music_frame_count c);
         dropped_track_frame_count =
           saturating_add (co_prepared_track_packet_drop_count c) (co_egress_dropped_music_frame_count c);
         expected_track_frame_count =
           saturating_add (saturating_add sent_track_frame_count silence_frame_count) dropped_track_frame_count;
         frame_deficit_count =
           saturating_sub expected_track_frame_count (sent_track_frame_count + silence_frame_count);
         track_media_duration_sent_ms = duration_millis (co_track_media_duration_sent c);
         skipped_source_duration_ms = duration_ms_from_samples (co_skipped_source_duration_samples c);
         discarded_source_duration_ms = duration_ms_from_samples (co_discarded_source_duration_samples c);
         stop_discarded_source_duration_ms = duration_ms_from_samples (co_stop_discarded_source_duration_samples c);
         interruption_discarded_source_duration_ms =
           duration_ms_from_samples (co_interruption_discarded_source_duration_samples c);
         restored_source_duration_ms = duration_ms_from_samples (co_restored_source_duration_samples c);
         egress_dropped_music_duration_ms = duration_ms_from_samples (co_egress_dropped_music_duration_samples c);
         track_media_to_wall_clock_ratio_ppm =
           media_to_wall_clock_ratio_ppm_duration (co_track_media_duration_sent c) (co_active_track_wall_clock_elapsed c);
         active_pre_pause_prepared_track_queue_depth =
           depth_collector_snapshot (co_active_pre_pause_prepared_track_queue_depth c);
         active_post_resume_prepared_track_queue_depth =
           depth_collector_snapshot (co_active_post_resume_prepared_track_queue_depth c);
         prepared_track_queue_depth_sample_count =
           usize_saturating_add (qd_sample_count active_pre_pause_prepared_track_queue_depth)
             (qd_sample_count active_post_resume_prepared_track_queue_depth);
         prepared_track_queue_empty_count =
           saturating_add (qd_empty_count active_pre_pause_prepared_track_queue_depth)
             (qd_empty_count active_post_resume_prepared_track_queue_depth)
     in
     \<lparr>ps_playback_epoch = co_playback_epoch c,
      ps_video_id = Some (co_video_id c),
      ps_selected_itag = Some (co_selected_itag c),
      ps_track_packet_count = co_track_packet_count c,
      ps_continuity_silence_packet_count = co_continuity_silence_packet_count c,
      ps_inserted_silence_duration_ms = co_inserted_silence_duration_ms c,
      ps_track_interval = DurationStatsSnapshot_from_samples (co_track_intervals c),
      ps_track_media_duration_sent_ms = track_media_duration_sent_ms,
      ps_track_wall_clock_elapsed_ms = track_wall_clock_elapsed_ms,
      ps_track_media_to_wall_clock_ratio_ppm = track_media_to_wall_clock_ratio_ppm,
      ps_track_fast_interval_count = co_track_fast_interval_count c,
      ps_track_fast_interval_min_ms = map_or 0 duration_millis (co_track_fast_interval_min c),
      ps_track_fast_interval_min_us = map_or 0 duration_micros (co_track_fast_interval_min c),
      ps_track_tempo_window_count = co_track_tempo_window_count c,
      ps_track_tempo_window_post_source_buffer_count = co_track_tempo_window_post_source_buffer_count c,
      ps_track_tempo_window_min_ratio_ppm = co_track_tempo_window_min_ratio_ppm c,
      ps_track_tempo_window_max_ratio_ppm = co_track_tempo_window_max_ratio_ppm c,
      ps_track_tempo_window_fast_count = co_track_tempo_window_fast_count c,
      ps_track_tempo_window_fastest_ratio_ppm = co_track_tempo_window_fastest_ratio_ppm c,
      ps_track_tempo_window_fastest_media_ms = co_track_tempo_window_fastest_media_ms c,
      ps_track_tempo_window_fastest_wall_clock_us = map_or 0 duration_micros (co_track_tempo_window_fastest_wall_clock c),
      ps_track_tempo_window_slow_count = co_track_tempo_window_slow_count c,
      ps_track_tempo_window_slowest_ratio_ppm = co_track_tempo_window_slowest_ratio_ppm c,
      ps_track_tempo_window_slowest_media_ms = co_track_tempo_window_slowest_media_ms c,
      ps_track_tempo_window_slowest_wall_clock_us = map_or 0 duration_micros (co_track_tempo_window_slowest_wall_clock c),
      ps_skipped_source_frame_count = co_skipped_source_frame_count c,
      ps_skipped_source_duration_ms = skipped_source_duration_ms,
      ps_skipped_source_duration_samples = co_skipped_source_duration_samples c,
      ps_tempo_rebase_count = co_tempo_rebase_count c,
      ps_expected_track_frame_count = expected_track_frame_count,
      ps_sent_track_frame_count = sent_track_frame_count,
      ps_silence_frame_count = silence_frame_count,
      ps_frame_deficit_count = frame_deficit_count,
      ps_dropped_frame_count = dropped_frame_count,
      ps_late_frame_count = co_late_frame_count c,
      ps_all_packet_interval = DurationStatsSnapshot_from_samples (co_all_packet_intervals c),
      ps_sender_lateness = DurationStatsSnapshot_from_samples (co_sender_lateness c),
      ps_max_consecutive_late_packets = co_max_consecutive_late_packets c,
      ps_current_consecutive_late_packets = co_current_consecutive_late_packets c,
      ps_current_buffer_depth = co_current_buffer_depth c,
      ps_min_buffer_depth = co_min_buffer_depth c,
      ps_max_buffer_depth = co_max_buffer_depth c,
      ps_current_source_buffer_depth = co_current_source_buffer_depth c,
      ps_min_source_buffer_depth = co_min_source_buffer_depth c,
      ps_max_source_buffer_depth = co_max_source_buffer_depth c,
      ps_source_buffer_depth = PlaybackQueueDepthStatsSnapshot_from_samples (co_source_buffer_depth_samples c) (co_source_buffer_empty_count c),
      ps_current_playout_buffer_depth = co_current_playout_buffer_depth c,
      ps_min_playout_buffer_depth = co_min_playout_buffer_depth c,
      ps_max_playout_buffer_depth = co_max_playout_buffer_depth c,
      ps_egress_buffer_target_ms = 400,
      ps_current_egress_buffer_depth = co_current_playout_buffer_depth c,
      ps_min_egress_buffer_depth = co_min_playout_buffer_depth c,
      ps_max_egress_buffer_depth = co_max_playout_buffer_depth c,
      ps_prepared_rtp_queue_depth_ms = bd_duration_ms (co_current_playout_buffer_depth c),
      ps_prepared_track_queue_target_ms = co_prepared_track_queue_target_ms c,
      ps_prepared_track_queue_low_watermark_ms = co_prepared_track_queue_low_watermark_ms c,
      ps_prepared_track_queue_high_watermark_ms = co_prepared_track_queue_high_watermark_ms c,
      ps_active_pre_pause_prepared_track_queue_depth = active_pre_pause_prepared_track_queue_depth,
      ps_active_post_resume_prepared_track_queue_depth = active_post_resume_prepared_track_queue_depth,
      ps_prepared_track_queue_depth_sample_count = prepared_track_queue_depth_sample_count,
      ps_prepared_track_queue_empty_count = prepared_track_queue_empty_count,
      ps_raw_send_events = playback_send_event_snapshots (co_raw_send_events c),
      ps_raw_prepared_track_queue_samples = co_raw_prepared_track_queue_samples c,
      ps_raw_prepared_playout_queue_events = co_raw_prepared_playout_queue_events c,
      ps_current_scheduled_silence_queue_depth = co_current_scheduled_silence_queue_depth c,
      ps_max_scheduled_silence_queue_depth = co_max_scheduled_silence_queue_depth c,
      ps_current_boundary_queue_depth = co_current_boundary_queue_depth c,
      ps_max_boundary_queue_depth = co_max_boundary_queue_depth c,
      ps_prepared_track_packet_drop_count = co_prepared_track_packet_drop_count c,
      ps_prepared_silence_packet_drop_count = co_prepared_silence_packet_drop_count c,
      ps_prepared_packet_rebuild_count = co_prepared_packet_rebuild_count c,
      ps_scheduled_silence_packet_count = co_scheduled_silence_packet_count c,
      ps_pause_media_boundary_count = co_pause_media_boundary_count c,
      ps_stop_media_boundary_count = co_stop_media_boundary_count c,
      ps_recovery_media_boundary_count = co_recovery_media_boundary_count c,
      ps_natural_end_media_boundary_count = co_natural_end_media_boundary_count c,
      ps_dave_transition_recovery_reached_builder_count = co_dave_transition_recovery_reached_builder_count c,
      ps_dave_transition_recovery_reached_deadline_sender_count = co_dave_transition_recovery_reached_deadline_sender_count c,
      ps_source_underrun_reached_builder_count = co_source_underrun_reached_builder_count c,
      ps_source_underrun_reached_deadline_sender_count = co_source_underrun_reached_deadline_sender_count c,
      ps_discarded_source_frame_count = co_discarded_source_frame_count c,
      ps_discarded_source_duration_ms = discarded_source_duration_ms,
      ps_discarded_source_duration_samples = co_discarded_source_duration_samples c,
      ps_stop_discarded_source_frame_count = co_stop_discarded_source_frame_count c,
      ps_stop_discarded_source_duration_ms = stop_discarded_source_duration_ms,
      ps_stop_discarded_source_duration_samples = co_stop_discarded_source_duration_samples c,
      ps_interruption_discarded_source_frame_count = co_interruption_discarded_source_frame_count c,
      ps_interruption_discarded_source_duration_ms = interruption_discarded_source_duration_ms,
      ps_interruption_discarded_source_duration_samples = co_interruption_discarded_source_duration_samples c,
      ps_restored_source_frame_count = co_restored_source_frame_count c,
      ps_restored_source_duration_ms = restored_source_duration_ms,
      ps_restored_source_duration_samples = co_restored_source_duration_samples c,
      ps_source_buffer_target_ms = co_source_buffer_target_ms c,
      ps_adaptive_buffer_target_ms = co_adaptive_buffer_target_ms c,
      ps_max_adaptive_buffer_target_ms = co_max_adaptive_buffer_target_ms c,
      ps_buffer_low_watermark_count = co_buffer_low_watermark_count c,
      ps_source_buffer_low_watermark_count = co_source_buffer_low_watermark_count c,
      ps_playout_buffer_low_watermark_count = co_playout_buffer_low_watermark_count c,
      ps_buffer_underrun_count = co_buffer_underrun_count c,
      ps_playout_underrun_count = co_playout_underrun_count c,
      ps_egress_underrun_count = co_playout_underrun_count c,
      ps_egress_inserted_silence_duration_ms = co_inserted_silence_duration_ms c,
      ps_egress_dropped_music_frame_count = co_egress_dropped_music_frame_count c,
      ps_egress_dropped_music_duration_ms = egress_dropped_music_duration_ms,
      ps_egress_dropped_music_duration_samples = co_egress_dropped_music_duration_samples c,
      ps_source_underrun_count = co_source_underrun_count c,
      ps_rebuffer_count = co_rebuffer_count c,
      ps_refill_duration = DurationStatsSnapshot_from_samples (co_refill_durations c),
      ps_source_producer_fill_duration = DurationStatsSnapshot_from_samples (co_refill_durations c),
      ps_producer_stall_duration = DurationStatsSnapshot_from_samples (co_producer_stall_durations c),
      ps_max_producer_lag_ms = duration_millis (co_max_producer_lag c),
      ps_http_retry_count = co_http_retry_count c,
      ps_response_open_count = co_response_open_count c,
      ps_range_reopen_count = co_range_reopen_count c,
      ps_read_error_reopen_count = co_read_error_reopen_count c,
      ps_url_reresolve_count = co_url_reresolve_count c,
      ps_pause_resume_first_intervals_ms = co_pause_resume_first_intervals_ms c,
      ps_post_stall_first_intervals_ms = co_post_stall_first_intervals_ms c,
      ps_post_rebuffer_first_intervals_ms = co_post_rebuffer_first_intervals_ms c,
      ps_playout_sender_lateness = DurationStatsSnapshot_from_samples (co_playout_sender_lateness c),
      ps_playout_builder_prepare_duration = DurationStatsSnapshot_from_samples (co_playout_builder_prepare_durations c),
      ps_sender_send_duration = DurationStatsSnapshot_from_samples (co_sender_send_durations c),
      ps_sender_loop_non_send_work_duration = DurationStatsSnapshot_from_samples (co_sender_loop_non_send_work_durations c),
      ps_max_consecutive_playout_late_packets = co_max_consecutive_playout_late_packets c,
      ps_max_consecutive_late_egress_ticks = co_max_consecutive_playout_late_packets c,
      ps_speaking_prepare_duration = DurationStatsSnapshot_from_samples (co_speaking_prepare_durations c),
      ps_sender_forbidden_work_count = co_sender_forbidden_work_count c,
      ps_gateway_event_drain_duration = DurationStatsSnapshot_from_samples (co_gateway_event_drain_durations c),
      ps_gateway_event_drain_count = co_gateway_event_drain_count c,
      ps_dave_transition_count = co_dave_transition_count c,
      ps_dave_transition_count_during_playback = co_dave_transition_count_during_playback c,
      ps_stale_dave_send_prevented_count = co_stale_dave_send_prevented_count c,
      ps_controlled_media_interruption_count = co_controlled_media_interruption_count c,
      ps_media_clock_reset_count = co_media_clock_reset_count c,
      ps_egress_clock_reset_count = co_media_clock_reset_count c,
      ps_scheduler_late_reset_count = co_scheduler_late_reset_count c,
      ps_source_underrun_reset_count = co_source_underrun_reset_count c,
      ps_pause_resume_reset_count = co_pause_resume_reset_count c,
      ps_dave_transition_recovery_reset_count = co_dave_transition_recovery_reset_count c,
      ps_gateway_interruptions = gateway_interruptions,
      ps_dave_interruptions = dave_interruptions,
      ps_reconnect_interruptions = reconnect_interruptions,
      ps_ended = ended\<rparr>)"

end
