(* ===== verification/MetricsLaws.thy ===== *)
theory MetricsLaws
  imports Metrics "HOL-Library.Multiset"
begin

text \<open>
  What the stability metrics mean: percentiles are nearest-rank values of the samples, the counters of the
  collector keep an invariant under every operation, and the drops that count as a frame deficit are those
  that were not rebuilt.
\<close>

section \<open>Percentiles\<close>

lemma u64_saturating_mono: "m \<le> n \<Longrightarrow> u64_saturating_from_nat m \<le> u64_saturating_from_nat n"
  by (auto simp: u64_saturating_from_nat_def word_le_nat_alt unat_of_nat_small unat_minus_one_word_eq)

lemma duration_millis_mono: "a \<le> b \<Longrightarrow> duration_millis a \<le> duration_millis b"
  by (simp add: duration_millis_def u64_saturating_mono div_le_mono)

lemma percentile_index_bound: "0 < n \<Longrightarrow> p \<le> 100 \<Longrightarrow> percentile_index n p \<le> n - 1"
proof -
  assume "0 < n" "p \<le> 100"
  then have "(n - 1) * p + 99 \<le> (n - 1) * 100 + 99" by simp
  then have "((n - 1) * p + 99) div 100 \<le> ((n - 1) * 100 + 99) div 100" by (rule div_le_mono)
  then show ?thesis by (simp add: percentile_index_def)
qed

lemma percentile_index_mono: "p \<le> q \<Longrightarrow> percentile_index n p \<le> percentile_index n q"
  by (simp add: percentile_index_def div_le_mono)

lemma percentile_index_rank:
  "p * (n - 1) \<le> 100 * percentile_index n p" "100 * percentile_index n p \<le> p * (n - 1) + 99"
proof -
  have r: "x \<le> 100 * ((x + 99) div 100) \<and> 100 * ((x + 99) div 100) \<le> x + 99" for x :: nat by linarith
  from r [of "p * (n - 1)"] show "p * (n - 1) \<le> 100 * percentile_index n p"
    "100 * percentile_index n p \<le> p * (n - 1) + 99"
    by (simp_all add: percentile_index_def mult.commute)
qed

text \<open>At position \<open>k\<close> of a sorted list, more than \<open>k\<close> elements are not above and at most \<open>k\<close> are below.\<close>

lemma sorted_nth_rank:
  assumes "sorted xs" and "k < length xs"
  shows "k < length (filter (\<lambda>x. x \<le> xs ! k) xs)" and "length (filter (\<lambda>x. x < xs ! k) xs) \<le> k"
proof -
  have split: "xs = take (Suc k) xs @ drop (Suc k) xs" "xs = take k xs @ drop k xs" by simp_all
  have low: "\<forall>x \<in> set (take (Suc k) xs). x \<le> xs ! k"
    using assms by (auto simp: in_set_conv_nth less_Suc_eq_le sorted_nth_mono)
  then have "filter (\<lambda>x. x \<le> xs ! k) (take (Suc k) xs) = take (Suc k) xs" by simp
  then show "k < length (filter (\<lambda>x. x \<le> xs ! k) xs)"
    using split(1) assms(2) by (metis (no_types, lifting) Suc_leI filter_append le_add1 length_append
        length_take less_eq_Suc_le min.absorb2)
  have high: "\<forall>x \<in> set (drop k xs). \<not> x < xs ! k"
    using assms by (auto simp: in_set_conv_nth not_less sorted_nth_mono)
  then have "filter (\<lambda>x. x < xs ! k) (drop k xs) = []" by (simp add: filter_empty_conv)
  then have "filter (\<lambda>x. x < xs ! k) xs = filter (\<lambda>x. x < xs ! k) (take k xs)"
    by (metis append_Nil2 filter_append split(2))
  then show "length (filter (\<lambda>x. x < xs ! k) xs) \<le> k"
    by (metis length_filter_le length_take min.cobounded2 order_trans)
qed

definition nearest_rank :: "nat \<Rightarrow> nanos list \<Rightarrow> nanos \<Rightarrow> bool" where
  "nearest_rank p samples v \<longleftrightarrow> v \<in> set samples
     \<and> p * (length samples - 1) < 100 * length (filter (\<lambda>x. x \<le> v) samples)
     \<and> 100 * length (filter (\<lambda>x. x < v) samples) \<le> p * (length samples - 1) + 99"

lemma length_filter_sort: "length (filter P (sort xs)) = length (filter P (xs :: nanos list))"
  by (metis mset_filter mset_sort size_mset)

lemma percentile_nearest_rank:
  assumes "samples \<noteq> []" and "p \<le> 100"
  shows "nearest_rank p samples (percentile_duration (sort samples) p)"
proof -
  let ?k = "percentile_index (length samples) p"
  have k: "?k < length (sort samples)"
    using percentile_index_bound [of "length samples" p] assms by (cases samples) auto
  note rank = sorted_nth_rank [OF sorted_sort k, unfolded length_filter_sort]
  have "sort samples ! ?k \<in> set samples" using nth_mem [OF k] by simp
  moreover have "p * (length samples - 1) < 100 * length (filter (\<lambda>x. x \<le> sort samples ! ?k) samples)"
    using rank(1) percentile_index_rank(1) [of p "length samples"] by linarith
  moreover have "100 * length (filter (\<lambda>x. x < sort samples ! ?k) samples) \<le> p * (length samples - 1) + 99"
    using rank(2) percentile_index_rank(2) [of "length samples" p] by linarith
  ultimately show ?thesis by (simp add: nearest_rank_def percentile_duration_def)
qed

lemma percentile_mono:
  assumes "samples \<noteq> []" and "p \<le> q" and "q \<le> 100"
  shows "percentile_duration (sort samples) p \<le> percentile_duration (sort samples) q"
proof -
  have "percentile_index (length samples) q \<le> length samples - 1"
    using percentile_index_bound assms by simp
  moreover have "length samples - 1 < length (sort samples)" using assms(1) by (cases samples) auto
  ultimately show ?thesis
    unfolding percentile_duration_def using percentile_index_mono [OF assms(2)]
    by (intro sorted_nth_mono) (auto simp: order.strict_trans1)
qed

lemma percentile_ends:
  "samples \<noteq> [] \<Longrightarrow> sort samples ! 0 = percentile_duration (sort samples) 0"
  "samples \<noteq> [] \<Longrightarrow> sort samples ! (length samples - 1) = percentile_duration (sort samples) 100"
  by (auto simp: percentile_duration_def percentile_index_def)

text \<open>Percentiles of the stability metrics. The 50th, 95th and 99th percentile of a summary are each
  the value, in milliseconds, of a sample of nearest rank: more than that share of the others is not above it, and no
  more than that share, rounded up to a whole sample, is below it. They lie in order between the minimum
  and the maximum.\<close>

theorem duration_stats_percentiles:
  assumes "samples \<noteq> []"
  shows "\<exists>lo v50 v95 v99 hi.
        nearest_rank 0 samples lo \<and> nearest_rank 50 samples v50 \<and> nearest_rank 95 samples v95
        \<and> nearest_rank 99 samples v99 \<and> nearest_rank 100 samples hi
        \<and> (\<forall>x \<in> set samples. lo \<le> x \<and> x \<le> hi) \<and> lo \<le> v50 \<and> v50 \<le> v95 \<and> v95 \<le> v99 \<and> v99 \<le> hi
        \<and> DurationStatsSnapshot_from_samples samples =
            \<lparr>stats_samples = length samples, p50_ms = duration_millis v50, p95_ms = duration_millis v95,
             p99_ms = duration_millis v99, min_ms = duration_millis lo, max_ms = duration_millis hi\<rparr>"
proof -
  let ?v = "percentile_duration (sort samples)"
  have "\<forall>x \<in> set samples. ?v 0 \<le> x \<and> x \<le> ?v 100"
  proof
    fix x assume "x \<in> set samples"
    then obtain i where i: "i < length (sort samples)" "x = sort samples ! i"
      by (metis in_set_conv_nth set_sort)
    have "sort samples ! 0 \<le> sort samples ! i" using i(1) by (intro sorted_nth_mono) auto
    moreover have "sort samples ! i \<le> sort samples ! (length samples - 1)"
      using i(1) by (intro sorted_nth_mono) auto
    ultimately show "?v 0 \<le> x \<and> x \<le> ?v 100" using i(2) percentile_ends [OF assms] by simp
  qed
  moreover have "nearest_rank p samples (?v p)" if "p \<le> 100" for p
    by (rule percentile_nearest_rank [OF assms that])
  moreover have "?v 0 \<le> ?v 50 \<and> ?v 50 \<le> ?v 95 \<and> ?v 95 \<le> ?v 99 \<and> ?v 99 \<le> ?v 100"
    by (simp add: percentile_mono [OF assms])
  moreover have "DurationStatsSnapshot_from_samples samples =
      \<lparr>stats_samples = length samples, p50_ms = duration_millis (?v 50), p95_ms = duration_millis (?v 95),
       p99_ms = duration_millis (?v 99), min_ms = duration_millis (?v 0), max_ms = duration_millis (?v 100)\<rparr>"
    using assms percentile_ends [OF assms] by (simp add: DurationStatsSnapshot_from_samples_def Let_def)
  ultimately show ?thesis
    by (intro exI [of _ "?v 0"] exI [of _ "?v 50"] exI [of _ "?v 95"] exI [of _ "?v 99"] exI [of _ "?v 100"]) simp
qed

theorem duration_stats_percentiles_witness:
  "\<exists>v95. nearest_rank 95 [30000000, 10000000, 20000000] v95
    \<and> p95_ms (DurationStatsSnapshot_from_samples [30000000, 10000000, 20000000]) = duration_millis v95
    \<and> p95_ms (DurationStatsSnapshot_from_samples [30000000, 10000000, 20000000]) = 30"
proof -
  have "p95_ms (DurationStatsSnapshot_from_samples [30000000, 10000000, 20000000]) = 30"
    by (simp add: DurationStatsSnapshot_from_samples_def percentile_duration_def percentile_index_def
        duration_millis_def u64_saturating_from_nat_def)
  with duration_stats_percentiles [of "[30000000, 10000000, 20000000]"] show ?thesis
    by (metis DurationStatsSnapshot.select_convs(3) list.distinct(1))
qed

section \<open>Runs of the collector\<close>

text \<open>Every report the driver can make.\<close>

datatype collector_op =
    ProducerSample nanos ProducerMetricsSample
  | SourceDepth OpusBufferDepth u64
  | PlayoutDepth OpusBufferDepth u64
  | TrackQueueDepth OpusBufferDepth
  | PlayoutQueueEvent PreparedPlayoutQueueEventSnapshot
  | NonTrackDepth PlaybackSendCommandKind OpusBufferDepth
  | MediaBoundary PreparedPlayoutQueueEventReason
  | UnderrunReachedBuilder
  | UnderrunReachedSender
  | RestoredFrames u64 u64
  | DiscardedFrames PreparedPlayoutQueueEventReason u64 u64
  | AdaptiveTarget u64 u64
  | SourceUnderrun OpusBufferDepth
  | Rebuffer OpusBufferDepth u64
  | PlayoutUnderrun OpusBufferDepth
  | DroppedMusic u64 u64
  | SpeakingPrepare nanos
  | BuilderPrepare nanos
  | SendDuration nanos
  | NonSendWork nanos
  | GatewayDrain VoiceGatewayDrainReport
  | ClockReset MediaClockResetReason
  | ResumedFromPause
  | SendEvent PlaybackSendEventRecord
  | TrackPacket nanos nanos u32 bool
  | ContinuitySilence nanos u64
  | SkippedFrames u64 u64

fun collector_apply :: "collector_op \<Rightarrow> PlaybackStabilityCollector \<Rightarrow> PlaybackStabilityCollector" where
  "collector_apply (ProducerSample now sample) = record_producer_sample now sample"
| "collector_apply (SourceDepth d low) = record_source_buffer_depth d low"
| "collector_apply (PlayoutDepth d low) = record_playout_buffer_depth d low"
| "collector_apply (TrackQueueDepth d) = record_prepared_track_queue_depth d"
| "collector_apply (PlayoutQueueEvent event) = record_prepared_playout_queue_event event"
| "collector_apply (NonTrackDepth kind d) = record_non_track_playout_queue_depth kind d"
| "collector_apply (MediaBoundary reason) = record_explicit_media_boundary reason"
| "collector_apply UnderrunReachedBuilder = record_source_underrun_reached_builder"
| "collector_apply UnderrunReachedSender = record_source_underrun_reached_deadline_sender"
| "collector_apply (RestoredFrames n samples) = record_restored_source_frames n samples"
| "collector_apply (DiscardedFrames reason n samples) = record_discarded_source_frames reason n samples"
| "collector_apply (AdaptiveTarget target max_target) = record_adaptive_buffer_target target max_target"
| "collector_apply (SourceUnderrun d) = record_source_underrun d"
| "collector_apply (Rebuffer d low) = record_rebuffer d low"
| "collector_apply (PlayoutUnderrun d) = record_playout_underrun d"
| "collector_apply (DroppedMusic n samples) = record_egress_dropped_music_frames n samples"
| "collector_apply (SpeakingPrepare d) = record_speaking_prepare_duration d"
| "collector_apply (BuilderPrepare d) = record_playout_builder_prepare_duration d"
| "collector_apply (SendDuration d) = record_sender_send_duration d"
| "collector_apply (NonSendWork d) = record_sender_loop_non_send_work_duration d"
| "collector_apply (GatewayDrain report) = record_gateway_drain report"
| "collector_apply (ClockReset reason) = record_media_clock_reset reason"
| "collector_apply ResumedFromPause = record_resumed_from_pause"
| "collector_apply (SendEvent event) = record_send_event event"
| "collector_apply (TrackPacket expected started samples rebased) = record_track_packet expected started samples rebased"
| "collector_apply (ContinuitySilence at ms) = record_continuity_silence_packet at ms"
| "collector_apply (SkippedFrames n samples) = record_skipped_source_frames n samples"

lemmas collector_op_defs =
  record_producer_sample_def record_source_buffer_depth_def record_playout_buffer_depth_def
  record_prepared_track_queue_depth_def push_track_queue_sample_def record_non_track_playout_queue_depth_def
  record_explicit_media_boundary_def record_source_underrun_reached_builder_def
  record_source_underrun_reached_deadline_sender_def record_restored_source_frames_def
  record_discarded_source_frames_def record_adaptive_buffer_target_def record_source_underrun_def
  record_rebuffer_def record_playout_underrun_def record_egress_dropped_music_frames_def
  record_speaking_prepare_duration_def record_playout_builder_prepare_duration_def
  record_sender_send_duration_def record_sender_loop_non_send_work_duration_def record_gateway_drain_def
  record_media_clock_reset_def reset_active_track_tempo_window_def record_resumed_from_pause_def
  record_send_event_def record_continuity_silence_packet_def record_any_packet_def record_skipped_source_frames_def

lemmas track_packet_defs =
  record_track_packet_def record_lateness_def record_track_interval_def record_fast_interval_def
  record_first_intervals_def record_latest_track_tempo_window_def record_any_packet_def

text \<open>What each part of the report of a track packet keeps, the whole report keeps.\<close>

locale packet_law =
  fixes P :: "PlaybackStabilityCollector \<Rightarrow> bool"
  assumes keeps_media: "P c \<Longrightarrow> P (c\<lparr>co_track_media_duration_sent := m\<rparr>)"
    and keeps_rebase: "P c \<Longrightarrow> P (c\<lparr>co_tempo_rebase_count := k\<rparr>)"
    and keeps_lateness: "P c \<Longrightarrow> P (record_lateness lateness c)"
    and keeps_interval: "P c \<Longrightarrow> P (record_track_interval started frame_duration c)"
    and keeps_timing: "P c \<Longrightarrow> P (c\<lparr>co_last_track_duration := d, co_track_packet_timings := t\<rparr>)"
    and keeps_window: "P c \<Longrightarrow> P (record_latest_track_tempo_window c)"
    and keeps_any: "P c \<Longrightarrow> P (record_any_packet started c)"
    and keeps_count: "P c \<Longrightarrow> P (c\<lparr>co_track_packet_count := n\<rparr>)"
begin

lemma track_packet: "P c \<Longrightarrow> P (record_track_packet expected started samples rebased c)"
  unfolding record_track_packet_def Let_def
  by (intro keeps_count keeps_any keeps_window keeps_timing keeps_interval keeps_lateness)
    (simp add: keeps_media keeps_rebase)

end

text \<open>A collector without what the tempo windows say.\<close>

definition erase_windows :: "PlaybackStabilityCollector \<Rightarrow> PlaybackStabilityCollector" where
  "erase_windows c =
     c\<lparr>co_track_tempo_window_count := 0, co_track_tempo_window_post_source_buffer_count := 0,
       co_track_tempo_window_min_ratio_ppm := 0, co_track_tempo_window_max_ratio_ppm := 0,
       co_track_tempo_window_fast_count := 0, co_track_tempo_window_fastest_ratio_ppm := 0,
       co_track_tempo_window_fastest_media_ms := 0, co_track_tempo_window_fastest_wall_clock := None,
       co_track_tempo_window_slow_count := 0, co_track_tempo_window_slowest_ratio_ppm := 0,
       co_track_tempo_window_slowest_media_ms := 0, co_track_tempo_window_slowest_wall_clock := None\<rparr>"

lemma erase_ratio [simp]: "erase_windows (record_window_ratio media wall ratio c) = erase_windows c"
proof -
  have "erase_windows (record_fast_window media wall ratio c) = erase_windows c"
    "erase_windows (record_slow_window media wall ratio c) = erase_windows c" for c
    by (simp_all add: erase_windows_def record_fast_window_def record_slow_window_def Let_def)
  then show ?thesis by (simp add: record_window_ratio_def) (simp add: erase_windows_def)
qed

lemma erase_window [simp]: "erase_windows (record_latest_track_tempo_window c) = erase_windows c"
  by (simp add: record_latest_track_tempo_window_def Let_def) (simp add: erase_windows_def)

section \<open>The drop ledger\<close>

text \<open>The abstract account of dropped track packets: the identities of those that may still be rebuilt,
  and how many carried no identity.\<close>

fun ledger :: "collector_op \<Rightarrow> PreparedPlayoutTrackDropIdentity multiset \<times> nat
    \<Rightarrow> PreparedPlayoutTrackDropIdentity multiset \<times> nat" where
  "ledger (PlayoutQueueEvent event) (open_drops, anonymous) =
    (case pq_event_kind event of
       DroppedBeforeSend \<Rightarrow>
         (if pq_command_kind event = SendTrack \<and> pq_reason event \<noteq> ReasonStop \<and> pq_reason event \<noteq> ReasonReconnect
          then (case prepared_playout_track_drop_identity event of
                  None \<Rightarrow> (open_drops, Suc anonymous)
                | Some identity \<Rightarrow> (add_mset identity open_drops, anonymous))
          else (open_drops, anonymous))
     | Rebuilt \<Rightarrow>
         (case prepared_playout_track_drop_identity event of
            None \<Rightarrow> (open_drops, anonymous)
          | Some identity \<Rightarrow> (open_drops - {#identity#}, anonymous))
     | _ \<Rightarrow> (open_drops, anonymous))"
| "ledger _ account = account"

definition ledger_of :: "collector_op list \<Rightarrow> PreparedPlayoutTrackDropIdentity multiset \<times> nat" where
  "ledger_of ops = fold ledger ops ({#}, 0)"

definition in_account ::
  "PreparedPlayoutTrackDropIdentity multiset \<times> nat \<Rightarrow> PlaybackStabilityCollector \<Rightarrow> bool" where
  "in_account account c \<longleftrightarrow> mset (co_unmatched_prepared_track_drops c) = fst account
     \<and> unat (co_prepared_track_packet_drop_count c) = size (fst account) + snd account"

definition drop_view :: "PlaybackStabilityCollector \<Rightarrow> PreparedPlayoutTrackDropIdentity list \<times> u64" where
  "drop_view c = (co_unmatched_prepared_track_drops c, co_prepared_track_packet_drop_count c)"

lemma in_account_view: "drop_view c' = drop_view c \<Longrightarrow> in_account account c' = in_account account c"
  by (simp add: drop_view_def in_account_def)

lemma drop_view_source [simp]: "drop_view (record_source_buffer_depth d low c) = drop_view c"
  by (simp add: drop_view_def record_source_buffer_depth_def Let_def)

lemma drop_view_playout [simp]: "drop_view (record_playout_buffer_depth d low c) = drop_view c"
  by (simp add: drop_view_def record_playout_buffer_depth_def Let_def)

lemma drop_view_any [simp]: "drop_view (record_any_packet at c) = drop_view c"
  by (simp add: drop_view_def record_any_packet_def split: option.splits)

lemma drop_view_erase: "drop_view (erase_windows c) = drop_view c"
  by (simp add: drop_view_def erase_windows_def)

lemma drop_view_window [simp]: "drop_view (record_latest_track_tempo_window c) = drop_view c"
  by (metis erase_window drop_view_erase)

lemma drop_view_interval [simp]: "drop_view (record_track_interval started d c) = drop_view c"
  by (simp add: drop_view_def record_track_interval_def record_fast_interval_def record_first_intervals_def
      Let_def split: option.splits)

lemma drop_view_lateness [simp]: "drop_view (record_lateness d c) = drop_view c"
  by (simp add: drop_view_def record_lateness_def Let_def)

lemma drop_view_updates [simp]:
  "drop_view (c\<lparr>co_track_packet_count := n\<rparr>) = drop_view c"
  "drop_view (c\<lparr>co_last_track_duration := d, co_track_packet_timings := t\<rparr>) = drop_view c"
  "drop_view (c\<lparr>co_track_media_duration_sent := m\<rparr>) = drop_view c"
  "drop_view (c\<lparr>co_tempo_rebase_count := k\<rparr>) = drop_view c"
  by (simp_all add: drop_view_def)

interpretation drops: packet_law "\<lambda>c. drop_view c = v" for v
  by unfold_locales simp_all

lemma drop_view_track_packet [simp]: "drop_view (record_track_packet e s n r c) = drop_view c"
  by (rule drops.track_packet) simp

lemma drop_view_frame:
  assumes "\<forall>event. op \<noteq> PlayoutQueueEvent event"
  shows "drop_view (collector_apply op c) = drop_view c"
proof (cases op)
  case (PlayoutQueueEvent event)
  with assms show ?thesis by simp
next
  case (TrackPacket expected started samples rebased)
  then show ?thesis by simp
qed (simp_all add: drop_view_def collector_op_defs Let_def split: option.splits prod.splits
    PreparedTrackQueuePhase.splits PlaybackSendCommandKind.splits PreparedPlayoutQueueEventReason.splits
    MediaClockResetReason.splits)

lemma identity_index [simp]:
  "prepared_playout_track_drop_identity (event\<lparr>pq_event_index := i\<rparr>) = prepared_playout_track_drop_identity event"
  "prepared_track_drop_counts_as_unrecovered (event\<lparr>pq_event_index := i\<rparr>) =
     prepared_track_drop_counts_as_unrecovered event"
  by (simp_all add: prepared_playout_track_drop_identity_def prepared_track_drop_counts_as_unrecovered_def
      cong: option.case_cong)

lemma identity_needs_track: "prepared_playout_track_drop_identity event = Some i \<Longrightarrow> pq_command_kind event = SendTrack"
  by (simp add: prepared_playout_track_drop_identity_def split: if_splits)

lemma unat_sat_Suc: "unat (x :: u64) < 2 ^ 64 - 1 \<Longrightarrow> unat (saturating_add x 1) = Suc (unat x)"
  by (simp add: to_nat)

lemma ledger_event:
  assumes "in_account account c" and "size (fst account) + snd account < 2 ^ 64 - 1"
  shows "in_account (ledger (PlayoutQueueEvent event) account) (record_prepared_playout_queue_event event c)"
proof -
  obtain open_drops anonymous where account: "account = (open_drops, anonymous)" by fastforce
  have room: "unat (co_prepared_track_packet_drop_count c) < 2 ^ 64 - 1"
    using assms by (simp add: in_account_def)
  note counts = unat_sat_Suc [OF room]
  have pred: "unat (saturating_sub x 1) = unat x - 1" for x :: u64
    by (simp add: to_nat)
  show ?thesis
  proof (cases "pq_event_kind event")
    case DroppedBeforeSend
    with assms(1) counts show ?thesis
      by (auto simp: account in_account_def record_prepared_playout_queue_event_def count_prepared_drop_def Let_def
          prepared_track_drop_counts_as_unrecovered_def dest: identity_needs_track
          split: option.splits PlaybackSendCommandKind.splits)
  next
    case Rebuilt
    show ?thesis
    proof (cases "prepared_playout_track_drop_identity event")
      case None
      with Rebuilt assms(1) show ?thesis
        by (simp add: account in_account_def record_prepared_playout_queue_event_def count_prepared_rebuild_def Let_def)
    next
      case (Some identity)
      show ?thesis
      proof (cases "identity \<in># open_drops")
        case True
        with assms(1) have "identity \<in> set (co_unmatched_prepared_track_drops c)"
          by (metis account fst_conv in_account_def set_mset_mset)
        moreover have "0 < size open_drops" using True by (metis empty_iff gr0I set_mset_empty size_eq_0_iff_empty)
        ultimately show ?thesis using Rebuilt Some assms(1) True
          by (auto simp: account in_account_def record_prepared_playout_queue_event_def count_prepared_rebuild_def
              Let_def pred size_Diff_singleton)
      next
        case False
        with assms(1) have "identity \<notin> set (co_unmatched_prepared_track_drops c)"
          by (metis account fst_conv in_account_def set_mset_mset)
        with Rebuilt Some assms(1) False show ?thesis
          by (auto simp: account in_account_def record_prepared_playout_queue_event_def count_prepared_rebuild_def
              Let_def diff_single_trivial)
      qed
    qed
  qed (use assms(1) in \<open>simp_all add: account in_account_def record_prepared_playout_queue_event_def Let_def\<close>)
qed

lemma ledger_step:
  assumes "in_account account c" and "size (fst account) + snd account < 2 ^ 64 - 1"
  shows "in_account (ledger op account) (collector_apply op c)"
proof (cases "\<exists>event. op = PlayoutQueueEvent event")
  case True
  with ledger_event [OF assms] show ?thesis by auto
next
  case False
  then have "ledger op account = account" by (cases op; cases account) simp_all
  moreover have "drop_view (collector_apply op c) = drop_view c" using False by (intro drop_view_frame) blast
  ultimately show ?thesis using assms(1) in_account_view by metis
qed

lemma ledger_grows: "size (fst (ledger op account)) + snd (ledger op account) \<le> Suc (size (fst account) + snd account)"
proof -
  have "size (m - {#i#}) \<le> size m" for m :: "PreparedPlayoutTrackDropIdentity multiset" and i
    by (simp add: size_mset_mono)
  then show ?thesis
    by (cases "(op, account)" rule: ledger.cases)
      (auto split: PreparedPlayoutQueueEventKind.splits option.splits simp: le_SucI)
qed

lemma ledger_run:
  assumes "in_account account c" and "size (fst account) + snd account + length ops < 2 ^ 64"
  shows "in_account (fold ledger ops account) (fold collector_apply ops c)"
  using assms
proof (induction ops arbitrary: account c)
  case (Cons op ops)
  have "in_account (ledger op account) (collector_apply op c)"
    by (rule ledger_step [OF Cons.prems(1)]) (use Cons.prems(2) in simp)
  moreover have "size (fst (ledger op account)) + snd (ledger op account) + length ops < 2 ^ 64"
    using ledger_grows [of op account] Cons.prems(2) by simp
  ultimately show ?case using Cons.IH by simp
qed simp

abbreviation open_frames :: "PreparedPlayoutTrackDropIdentity multiset \<times> nat \<Rightarrow> nat" where
  "open_frames account \<equiv> size (fst account) + snd account"

lemma frame_deficit_sum:
  assumes "co_track_packet_count c
      + unat (max (u64_saturating_from_nat (co_continuity_silence_packet_count c)) (co_scheduled_silence_packet_count c))
      + unat (co_prepared_track_packet_drop_count c) + unat (co_egress_dropped_music_frame_count c) < 2 ^ 64"
  shows "unat (ps_frame_deficit_count (collector_snapshot g d r e c))
    = unat (co_prepared_track_packet_drop_count c) + unat (co_egress_dropped_music_frame_count c)"
proof -
  let ?silence = "max (u64_saturating_from_nat (co_continuity_silence_packet_count c)) (co_scheduled_silence_packet_count c)"
  have sent: "unat (word_of_nat (co_track_packet_count c) :: u64) = co_track_packet_count c"
    using assms by (intro unat_of_nat_small) simp
  have plus: "unat (word_of_nat (co_track_packet_count c) + ?silence) = co_track_packet_count c + unat ?silence"
    using assms sent by (simp add: unat_word_ariths)
  show ?thesis
    using assms unfolding collector_snapshot_def Let_def
    by (simp only: PlaybackStabilitySnapshot.select_convs unat_saturating_sub unat_saturating_add sent plus) simp
qed

text \<open>C23: The frame deficit. Whatever the driver reports and in whatever order, the frame deficit of the
  snapshot is the number of prepared track packets that were dropped and not rebuilt since, as a ledger of
  their identities accounts for them (a drop for a stop or a reconnect is not a loss, and a rebuild only
  settles a drop with the same reason, frame and position), plus the music frames discarded at egress.\<close>

theorem frame_deficit_is_unsettled_drops:
  fixes epoch itag target low high source_target
  assumes "c = fold collector_apply ops
      (PlaybackStabilityCollector_new epoch video itag depth source_depth source_target target low high baseline)"
    and "length ops < 2 ^ 64"
    and "co_track_packet_count c
      + unat (max (u64_saturating_from_nat (co_continuity_silence_packet_count c)) (co_scheduled_silence_packet_count c))
      + open_frames (ledger_of ops) + unat (co_egress_dropped_music_frame_count c) < 2 ^ 64"
  shows "unat (ps_frame_deficit_count (collector_snapshot g d r e c))
    = open_frames (ledger_of ops) + unat (co_egress_dropped_music_frame_count c)"
proof -
  have "in_account ({#}, 0)
      (PlaybackStabilityCollector_new epoch video itag depth source_depth source_target target low high baseline)"
    by (simp add: in_account_def PlaybackStabilityCollector_new_def Let_def)
  from ledger_run [OF this, of ops] assms(1,2)
  have "unat (co_prepared_track_packet_drop_count c) = open_frames (ledger_of ops)"
    by (simp add: ledger_of_def in_account_def)
  with frame_deficit_sum [of c] assms(3) show ?thesis by simp
qed

text \<open>Three packets dropped for a pause, one of them rebuilt.\<close>

abbreviation demo_drop :: "PreparedPlayoutQueueEventKind \<Rightarrow> u64 \<Rightarrow> PreparedPlayoutQueueEventSnapshot" where
  "demo_drop kind position \<equiv>
     \<lparr>pq_event_index = 0, pq_event_kind = kind, pq_reason = ReasonPause, pq_command_kind = SendTrack,
      pq_media_duration_ms = 20, pq_media_duration_samples = 960, pq_rtp_sequence = 0, pq_rtp_timestamp = 0,
      pq_protection_nonce = None, pq_source_frame_epoch = Some 1, pq_source_media_position_ms = None,
      pq_source_media_position_samples = Some position, pq_source_media_byte_position = None,
      pq_queue_depth_after = PlaybackBufferDepthSnapshot_default\<rparr>"

abbreviation demo_collector :: PlaybackStabilityCollector where
  "demo_collector \<equiv> PlaybackStabilityCollector_new 1 ''video'' 251
     \<lparr>depth_packets = 0, depth_bytes = 0, depth_duration_ms = 0, depth_duration_samples = 0\<rparr>
     \<lparr>depth_packets = 0, depth_bytes = 0, depth_duration_ms = 0, depth_duration_samples = 0\<rparr>
     5000 400 300 500 \<lparr>http_retry_count = 0, url_reresolve_count = 0\<rparr>"

abbreviation demo_drops :: "collector_op list" where
  "demo_drops \<equiv> [PlayoutQueueEvent (demo_drop DroppedBeforeSend 0), PlayoutQueueEvent (demo_drop DroppedBeforeSend 960),
     PlayoutQueueEvent (demo_drop DroppedBeforeSend 1920), PlayoutQueueEvent (demo_drop Rebuilt 960)]"

theorem frame_deficit_is_unsettled_drops_witness:
  "unat (ps_frame_deficit_count (collector_snapshot 0 0 0 False (fold collector_apply demo_drops demo_collector))) = 2"
proof -
  let ?c = "fold collector_apply demo_drops demo_collector"
  have counts: "co_track_packet_count ?c = 0 \<and> co_continuity_silence_packet_count ?c = 0
      \<and> co_scheduled_silence_packet_count ?c = 0 \<and> co_egress_dropped_music_frame_count ?c = 0"
    by (simp add: record_prepared_playout_queue_event_def count_prepared_drop_def count_prepared_rebuild_def Let_def
        prepared_track_drop_counts_as_unrecovered_def prepared_playout_track_drop_identity_def
        PlaybackStabilityCollector_new_def)
  have open_drops: "open_frames (ledger_of demo_drops) = 2"
    by (simp add: ledger_of_def prepared_playout_track_drop_identity_def)
  show ?thesis
    using frame_deficit_is_unsettled_drops [OF refl, of demo_drops 1 "''video''" 251] counts open_drops
    by (simp add: u64_saturating_from_nat_def)
qed

section \<open>The invariant of the collector\<close>

lemma sat_le [simp]: "x \<le> y \<Longrightarrow> (x :: u64) \<le> saturating_add y z"
  by (meson order.trans saturating_add_mono)

lemma sat_mono [simp]: "x \<le> y \<Longrightarrow> saturating_add x z \<le> saturating_add y (z :: u64)"
  by (simp add: word_le_nat_alt to_nat)

definition brackets ::
  "PlaybackBufferDepthSnapshot \<Rightarrow> PlaybackBufferDepthSnapshot \<Rightarrow> PlaybackBufferDepthSnapshot \<Rightarrow> bool" where
  "brackets lo cur hi \<longleftrightarrow> bd_duration_samples lo \<le> bd_duration_samples cur
     \<and> bd_duration_samples cur \<le> bd_duration_samples hi"

lemma brackets_observed [simp]: "brackets (min_depth lo d) d (max_depth hi d)"
  by (auto simp: brackets_def min_depth_def max_depth_def not_less)

definition depths_ok :: "PlaybackStabilityCollector \<Rightarrow> bool" where
  "depths_ok c \<longleftrightarrow>
     brackets (co_min_source_buffer_depth c) (co_current_source_buffer_depth c) (co_max_source_buffer_depth c)
     \<and> brackets (co_min_playout_buffer_depth c) (co_current_playout_buffer_depth c) (co_max_playout_buffer_depth c)
     \<and> length (co_raw_prepared_track_queue_samples c)
        = length (dc_samples (co_active_pre_pause_prepared_track_queue_depth c))
        + length (dc_samples (co_active_post_resume_prepared_track_queue_depth c))"

definition intervals_ok :: "PlaybackStabilityCollector \<Rightarrow> bool" where
  "intervals_ok c \<longleftrightarrow>
     co_current_consecutive_late_packets c \<le> co_max_consecutive_late_packets c
     \<and> length (co_pause_resume_first_intervals_ms c) + co_pause_resume_intervals_remaining c \<le> 10
     \<and> length (co_post_stall_first_intervals_ms c) + co_post_stall_intervals_remaining c \<le> 10
     \<and> length (co_post_rebuffer_first_intervals_ms c) + co_post_rebuffer_intervals_remaining c \<le> 10"

definition windows_ok :: "PlaybackStabilityCollector \<Rightarrow> bool" where
  "windows_ok c \<longleftrightarrow>
     co_track_tempo_window_fast_count c \<le> co_track_tempo_window_count c
     \<and> co_track_tempo_window_slow_count c \<le> co_track_tempo_window_count c
     \<and> co_track_tempo_window_post_source_buffer_count c \<le> co_track_tempo_window_count c
     \<and> co_track_tempo_window_min_ratio_ppm c \<le> co_track_tempo_window_max_ratio_ppm c"

definition totals_ok :: "PlaybackStabilityCollector \<Rightarrow> bool" where
  "totals_ok c \<longleftrightarrow>
     co_scheduler_late_reset_count c \<le> co_media_clock_reset_count c
     \<and> co_source_underrun_reset_count c \<le> co_media_clock_reset_count c
     \<and> co_pause_resume_reset_count c \<le> co_media_clock_reset_count c
     \<and> co_controlled_media_interruption_count c \<le> co_media_clock_reset_count c
     \<and> co_stop_discarded_source_frame_count c \<le> co_discarded_source_frame_count c
     \<and> co_interruption_discarded_source_frame_count c \<le> co_discarded_source_frame_count c"

lemmas ok_defs = depths_ok_def intervals_ok_def windows_ok_def totals_ok_def

lemma ok_any [simp]:
  "depths_ok (record_any_packet at c) = depths_ok c" "intervals_ok (record_any_packet at c) = intervals_ok c"
  "windows_ok (record_any_packet at c) = windows_ok c" "totals_ok (record_any_packet at c) = totals_ok c"
  by (simp_all add: ok_defs record_any_packet_def split: option.splits)

lemma ok_erase:
  "depths_ok (erase_windows c) = depths_ok c" "intervals_ok (erase_windows c) = intervals_ok c"
  "totals_ok (erase_windows c) = totals_ok c"
  by (simp_all add: ok_defs erase_windows_def)

lemma ok_window [simp]:
  "depths_ok (record_latest_track_tempo_window c) = depths_ok c"
  "intervals_ok (record_latest_track_tempo_window c) = intervals_ok c"
  "totals_ok (record_latest_track_tempo_window c) = totals_ok c"
  by (metis erase_window ok_erase)+

lemma ok_fast [simp]:
  "depths_ok (record_fast_interval d c) = depths_ok c" "intervals_ok (record_fast_interval d c) = intervals_ok c"
  "windows_ok (record_fast_interval d c) = windows_ok c" "totals_ok (record_fast_interval d c) = totals_ok c"
  by (simp_all add: ok_defs record_fast_interval_def split: option.splits)

lemma ok_first [simp]:
  "depths_ok (record_first_intervals d c) = depths_ok c"
  "windows_ok (record_first_intervals d c) = windows_ok c" "totals_ok (record_first_intervals d c) = totals_ok c"
  by (simp_all add: ok_defs record_first_intervals_def Let_def)

lemma intervals_first: "intervals_ok c \<Longrightarrow> intervals_ok (record_first_intervals d c)"
  by (auto simp: intervals_ok_def record_first_intervals_def Let_def)

lemma ok_lateness [simp]:
  "depths_ok (record_lateness d c) = depths_ok c"
  "windows_ok (record_lateness d c) = windows_ok c" "totals_ok (record_lateness d c) = totals_ok c"
  by (simp_all add: ok_defs record_lateness_def Let_def)

lemma intervals_lateness: "intervals_ok c \<Longrightarrow> intervals_ok (record_lateness d c)"
  by (auto simp: intervals_ok_def record_lateness_def Let_def)

text \<open>The window fields the invariant speaks of.\<close>

lemma fast_window_fields [simp]:
  "co_track_tempo_window_count (record_fast_window media wall ratio c) = co_track_tempo_window_count c"
  "co_track_tempo_window_slow_count (record_fast_window media wall ratio c) = co_track_tempo_window_slow_count c"
  "co_track_tempo_window_post_source_buffer_count (record_fast_window media wall ratio c)
     = co_track_tempo_window_post_source_buffer_count c"
  "co_track_tempo_window_min_ratio_ppm (record_fast_window media wall ratio c) = co_track_tempo_window_min_ratio_ppm c"
  "co_track_tempo_window_max_ratio_ppm (record_fast_window media wall ratio c) = co_track_tempo_window_max_ratio_ppm c"
  by (simp_all add: record_fast_window_def Let_def)

lemma slow_window_fields [simp]:
  "co_track_tempo_window_count (record_slow_window media wall ratio c) = co_track_tempo_window_count c"
  "co_track_tempo_window_fast_count (record_slow_window media wall ratio c) = co_track_tempo_window_fast_count c"
  "co_track_tempo_window_post_source_buffer_count (record_slow_window media wall ratio c)
     = co_track_tempo_window_post_source_buffer_count c"
  "co_track_tempo_window_min_ratio_ppm (record_slow_window media wall ratio c) = co_track_tempo_window_min_ratio_ppm c"
  "co_track_tempo_window_max_ratio_ppm (record_slow_window media wall ratio c) = co_track_tempo_window_max_ratio_ppm c"
  by (simp_all add: record_slow_window_def Let_def)

lemma window_counts:
  "co_track_tempo_window_fast_count (record_fast_window media wall ratio c)
     \<le> saturating_add (co_track_tempo_window_fast_count c) 1"
  "co_track_tempo_window_slow_count (record_slow_window media wall ratio c)
     \<le> saturating_add (co_track_tempo_window_slow_count c) 1"
  by (simp_all add: record_fast_window_def record_slow_window_def Let_def)

lemma windows_ratio:
  assumes "windows_ok c" and "post \<le> n" and "saturating_add (co_track_tempo_window_count c) 1 = n"
  shows "windows_ok (record_window_ratio media wall ratio
    (c\<lparr>co_track_tempo_window_count := n, co_track_tempo_window_post_source_buffer_count := post\<rparr>))"
proof -
  have "co_track_tempo_window_fast_count c \<le> co_track_tempo_window_count c"
    "co_track_tempo_window_slow_count c \<le> co_track_tempo_window_count c"
    using assms(1) by (simp_all add: windows_ok_def)
  then have counts: "saturating_add (co_track_tempo_window_fast_count c) 1 \<le> n"
    "saturating_add (co_track_tempo_window_slow_count c) 1 \<le> n"
    using assms(3) sat_mono by blast+
  from assms(1) have "co_track_tempo_window_min_ratio_ppm c \<le> co_track_tempo_window_max_ratio_ppm c"
    by (simp add: windows_ok_def)
  with assms(2) show ?thesis
    unfolding windows_ok_def record_window_ratio_def Let_def
    by (auto simp: le_max_iff_disj min_le_iff_disj intro!: order.trans [OF window_counts(1)] order.trans [OF window_counts(2)] counts)
qed

lemma windows_window:
  assumes "windows_ok c"
  shows "windows_ok (record_latest_track_tempo_window c)"
proof -
  let ?n = "saturating_add (co_track_tempo_window_count c) 1"
  have post: "co_track_tempo_window_post_source_buffer_count c \<le> co_track_tempo_window_count c"
    using assms by (simp add: windows_ok_def)
  have same: "c\<lparr>co_track_tempo_window_count := ?n\<rparr> = c\<lparr>co_track_tempo_window_count := ?n,
      co_track_tempo_window_post_source_buffer_count := co_track_tempo_window_post_source_buffer_count c\<rparr>"
    by simp
  have "windows_ok (record_window_ratio media wall ratio (c\<lparr>co_track_tempo_window_count := ?n\<rparr>))" for media wall ratio
    using windows_ratio [OF assms _ refl, of "co_track_tempo_window_post_source_buffer_count c" media wall ratio] post
    by (simp only: same [symmetric] sat_le)
  moreover have "windows_ok (record_window_ratio media wall ratio (c\<lparr>co_track_tempo_window_count := ?n,
      co_track_tempo_window_post_source_buffer_count :=
        saturating_add (co_track_tempo_window_post_source_buffer_count c) 1\<rparr>))" for media wall ratio
    by (rule windows_ratio [OF assms _ refl]) (simp add: post)
  ultimately show ?thesis using assms by (simp add: record_latest_track_tempo_window_def Let_def)
qed

lemma ok_updates [simp]:
  "depths_ok (c\<lparr>co_track_packet_count := n\<rparr>) = depths_ok c"
  "intervals_ok (c\<lparr>co_track_packet_count := n\<rparr>) = intervals_ok c"
  "windows_ok (c\<lparr>co_track_packet_count := n\<rparr>) = windows_ok c"
  "totals_ok (c\<lparr>co_track_packet_count := n\<rparr>) = totals_ok c"
  "depths_ok (c\<lparr>co_last_track_duration := d, co_track_packet_timings := t\<rparr>) = depths_ok c"
  "intervals_ok (c\<lparr>co_last_track_duration := d, co_track_packet_timings := t\<rparr>) = intervals_ok c"
  "windows_ok (c\<lparr>co_last_track_duration := d, co_track_packet_timings := t\<rparr>) = windows_ok c"
  "totals_ok (c\<lparr>co_last_track_duration := d, co_track_packet_timings := t\<rparr>) = totals_ok c"
  "depths_ok (c\<lparr>co_track_media_duration_sent := m\<rparr>) = depths_ok c"
  "intervals_ok (c\<lparr>co_track_media_duration_sent := m\<rparr>) = intervals_ok c"
  "windows_ok (c\<lparr>co_track_media_duration_sent := m\<rparr>) = windows_ok c"
  "totals_ok (c\<lparr>co_track_media_duration_sent := m\<rparr>) = totals_ok c"
  "depths_ok (c\<lparr>co_tempo_rebase_count := k\<rparr>) = depths_ok c"
  "intervals_ok (c\<lparr>co_tempo_rebase_count := k\<rparr>) = intervals_ok c"
  "windows_ok (c\<lparr>co_tempo_rebase_count := k\<rparr>) = windows_ok c"
  "totals_ok (c\<lparr>co_tempo_rebase_count := k\<rparr>) = totals_ok c"
  by (simp_all add: ok_defs)

text \<open>The updates of the report of an interval besides its parts.\<close>

lemma interval_updates [simp]:
  "depths_ok (c\<lparr>co_last_track_send_started_at := a\<rparr>) = depths_ok c"
  "intervals_ok (c\<lparr>co_last_track_send_started_at := a\<rparr>) = intervals_ok c"
  "windows_ok (c\<lparr>co_last_track_send_started_at := a\<rparr>) = windows_ok c"
  "totals_ok (c\<lparr>co_last_track_send_started_at := a\<rparr>) = totals_ok c"
  "depths_ok (c\<lparr>co_track_intervals := l\<rparr>) = depths_ok c"
  "intervals_ok (c\<lparr>co_track_intervals := l\<rparr>) = intervals_ok c"
  "windows_ok (c\<lparr>co_track_intervals := l\<rparr>) = windows_ok c"
  "totals_ok (c\<lparr>co_track_intervals := l\<rparr>) = totals_ok c"
  "depths_ok (c\<lparr>co_active_track_wall_clock_elapsed := w\<rparr>) = depths_ok c"
  "intervals_ok (c\<lparr>co_active_track_wall_clock_elapsed := w\<rparr>) = intervals_ok c"
  "windows_ok (c\<lparr>co_active_track_wall_clock_elapsed := w\<rparr>) = windows_ok c"
  "totals_ok (c\<lparr>co_active_track_wall_clock_elapsed := w\<rparr>) = totals_ok c"
  by (simp_all add: ok_defs)

lemma ok_interval:
  "depths_ok c \<Longrightarrow> depths_ok (record_track_interval started d c)"
  "intervals_ok c \<Longrightarrow> intervals_ok (record_track_interval started d c)"
  "windows_ok c \<Longrightarrow> windows_ok (record_track_interval started d c)"
  "totals_ok c \<Longrightarrow> totals_ok (record_track_interval started d c)"
  unfolding record_track_interval_def Let_def
  by (simp_all del: PlaybackStabilityCollector.simps PlaybackStabilityCollector.update_convs
      add: intervals_first split: option.splits)

interpretation depths: packet_law depths_ok
  by unfold_locales (simp_all add: ok_interval)

interpretation intervals: packet_law intervals_ok
  by unfold_locales (simp_all add: ok_interval intervals_lateness)

interpretation windows: packet_law windows_ok
  by unfold_locales (simp_all add: ok_interval windows_window)

interpretation totals: packet_law totals_ok
  by unfold_locales (simp_all add: ok_interval)

lemmas not_track_defs = record_producer_sample_def record_source_buffer_depth_def record_playout_buffer_depth_def
  record_prepared_track_queue_depth_def push_track_queue_sample_def record_non_track_playout_queue_depth_def
  record_explicit_media_boundary_def record_source_underrun_reached_builder_def
  record_source_underrun_reached_deadline_sender_def record_restored_source_frames_def
  record_discarded_source_frames_def record_adaptive_buffer_target_def record_source_underrun_def
  record_rebuffer_def record_playout_underrun_def record_egress_dropped_music_frames_def
  record_speaking_prepare_duration_def record_playout_builder_prepare_duration_def
  record_sender_send_duration_def record_sender_loop_non_send_work_duration_def record_gateway_drain_def
  record_media_clock_reset_def reset_active_track_tempo_window_def record_resumed_from_pause_def
  record_send_event_def record_skipped_source_frames_def depth_collector_record_def
  record_prepared_playout_queue_event_def count_prepared_drop_def count_prepared_rebuild_def
  FIRST_INTERVAL_SAMPLE_LIMIT_def

lemmas not_track_splits = option.splits prod.splits PreparedTrackQueuePhase.splits PlaybackSendCommandKind.splits
  PreparedPlayoutQueueEventReason.splits MediaClockResetReason.splits

lemma ok_silence [simp]:
  "depths_ok (record_continuity_silence_packet at ms c) = depths_ok c"
  "intervals_ok (record_continuity_silence_packet at ms c) = intervals_ok c"
  "windows_ok (record_continuity_silence_packet at ms c) = windows_ok c"
  "totals_ok (record_continuity_silence_packet at ms c) = totals_ok c"
  by (simp_all add: record_continuity_silence_packet_def) (simp_all add: ok_defs)

lemma depths_ok_apply: "depths_ok c \<Longrightarrow> depths_ok (collector_apply op c)"
  by (cases op) (simp_all add: depths.track_packet, simp_all add: depths_ok_def not_track_defs Let_def split: not_track_splits)

lemma intervals_ok_apply: "intervals_ok c \<Longrightarrow> intervals_ok (collector_apply op c)"
  by (cases op)
    (simp_all add: intervals.track_packet, simp_all add: intervals_ok_def not_track_defs Let_def split: not_track_splits)

lemma windows_ok_apply: "windows_ok c \<Longrightarrow> windows_ok (collector_apply op c)"
  by (cases op)
    (simp_all add: windows.track_packet, simp_all add: windows_ok_def not_track_defs Let_def split: not_track_splits)

lemma totals_ok_apply: "totals_ok c \<Longrightarrow> totals_ok (collector_apply op c)"
  by (cases op)
    (simp_all add: totals.track_packet, simp_all add: totals_ok_def not_track_defs Let_def split: not_track_splits)

lemma fold_keeps: "P c \<Longrightarrow> (\<And>op c. P c \<Longrightarrow> P (f op c)) \<Longrightarrow> P (fold f ops c)"
  by (induction ops arbitrary: c) auto

lemma new_ok:
  "depths_ok (PlaybackStabilityCollector_new epoch video itag depth source_depth source_target target low high baseline)"
  "intervals_ok (PlaybackStabilityCollector_new epoch video itag depth source_depth source_target target low high baseline)"
  "windows_ok (PlaybackStabilityCollector_new epoch video itag depth source_depth source_target target low high baseline)"
  "totals_ok (PlaybackStabilityCollector_new epoch video itag depth source_depth source_target target low high baseline)"
  by (simp_all add: ok_defs PlaybackStabilityCollector_new_def Let_def brackets_def PreparedTrackQueueDepthCollector_default_def)

text \<open>The metrics are consistent. After any sequence of reports, in any order: the minimum and the
  maximum of the source and playout depths bracket the current depth, every depth sample belongs to one of
  the two phases, a run of late packets is never longer than the recorded longest one, at most ten first
  intervals are kept after a resume, a stall or a rebuffer, fast and slow tempo windows are no more than all
  windows and their least ratio is not above the greatest, and no clock reset or discarded frame is counted
  under a cause without being counted in total.\<close>

theorem collector_consistent:
  "depths_ok (fold collector_apply ops (PlaybackStabilityCollector_new epoch video itag depth source_depth
      source_target target low high baseline))
   \<and> intervals_ok (fold collector_apply ops (PlaybackStabilityCollector_new epoch video itag depth source_depth
      source_target target low high baseline))
   \<and> windows_ok (fold collector_apply ops (PlaybackStabilityCollector_new epoch video itag depth source_depth
      source_target target low high baseline))
   \<and> totals_ok (fold collector_apply ops (PlaybackStabilityCollector_new epoch video itag depth source_depth
      source_target target low high baseline))"
  by (intro conjI fold_keeps [where P = depths_ok] fold_keeps [where P = intervals_ok]
      fold_keeps [where P = windows_ok] fold_keeps [where P = totals_ok])
    (auto intro: new_ok depths_ok_apply intervals_ok_apply windows_ok_apply totals_ok_apply)

end
