(* ===== verification/DeadlineSender.thy ===== *)
theory DeadlineSender
  imports OpusQueue VoiceUdp RuntimeState
begin

text \<open>
  The deadline sender (\<open>session/deadline_sender.rs\<close>): the thread that takes prepared packets from a
  bounded channel and sends one per media interval. A tick is a function of the readings of the clock
  it makes; the channels are lists, the record channels with their capacity and whether the receiver is
  still there, the active generation and the shutdown flag are shared and may change between ticks.
  Waiting for a deadline is timer I/O: what the code relies on is that the reading after the wait is not
  before the deadline.
\<close>

section \<open>Commands and records\<close>

definition DEADLINE_TICK :: nanos where
  "DEADLINE_TICK = 20000000"

datatype PreparedPacketKind = Track | ScheduledSilence | BoundarySilence

record PreparedMediaFrame =
  media_duration_ms :: u64
  media_duration_samples :: u32
  media_position_ms :: u64
  media_position_samples :: u64
  media_byte_position :: "u64 option"
  media_epoch :: u64

record PreparedPlayoutCommand =
  cmd_packet :: PreparedVoicePacket
  cmd_kind :: PreparedPacketKind
  cmd_media_frame :: "PreparedMediaFrame option"
  cmd_generation :: u64

record DeadlineSendRecord =
  sent_expected_deadline :: nanos
  sent_started_at :: nanos
  sent_at :: nanos
  sent_kind :: PreparedPacketKind
  sent_duration_ms :: u64
  sent_duration_samples :: u32
  sent_rtp_sequence :: u16
  sent_rtp_timestamp :: u32
  sent_protection_nonce :: "u32 option"
  sent_media_frame :: "PreparedMediaFrame option"

record DeadlineDropRecord =
  drop_kind :: PreparedPacketKind
  drop_duration_ms :: u64
  drop_duration_samples :: u32
  drop_rtp_sequence :: u16
  drop_rtp_timestamp :: u32
  drop_protection_nonce :: "u32 option"
  drop_media_frame :: "PreparedMediaFrame option"
  drop_generation :: u64

definition DeadlineDropRecord_from_command :: "PreparedPlayoutCommand \<Rightarrow> DeadlineDropRecord" where
  "DeadlineDropRecord_from_command command =
     \<lparr>drop_kind = cmd_kind command, drop_duration_ms = prepared_duration_ms (cmd_packet command),
      drop_duration_samples = prepared_duration_samples (cmd_packet command),
      drop_rtp_sequence = rtp_sequence (cmd_packet command),
      drop_rtp_timestamp = rtp_timestamp (cmd_packet command),
      drop_protection_nonce = protection_nonce (cmd_packet command),
      drop_media_frame = cmd_media_frame command, drop_generation = cmd_generation command\<rparr>"

record DeadlineSenderMetrics =
  metrics_sent :: "DeadlineSendRecord list"
  empty_tick_count :: u64

definition send_record :: "nanos \<Rightarrow> nanos \<Rightarrow> nanos \<Rightarrow> PreparedPlayoutCommand \<Rightarrow> DeadlineSendRecord" where
  "send_record expected started at command =
     \<lparr>sent_expected_deadline = expected, sent_started_at = started, sent_at = at,
      sent_kind = cmd_kind command, sent_duration_ms = prepared_duration_ms (cmd_packet command),
      sent_duration_samples = prepared_duration_samples (cmd_packet command),
      sent_rtp_sequence = rtp_sequence (cmd_packet command),
      sent_rtp_timestamp = rtp_timestamp (cmd_packet command),
      sent_protection_nonce = protection_nonce (cmd_packet command),
      sent_media_frame = cmd_media_frame command\<rparr>"

definition record_sent ::
  "nanos \<Rightarrow> nanos \<Rightarrow> nanos \<Rightarrow> PreparedPlayoutCommand \<Rightarrow> DeadlineSenderMetrics
    \<Rightarrow> DeadlineSendRecord \<times> DeadlineSenderMetrics" where
  "record_sent expected started at command metrics =
    (let rec = send_record expected started at command
     in (rec, metrics\<lparr>metrics_sent := metrics_sent metrics @ [rec]\<rparr>))"

definition record_empty_tick :: "DeadlineSenderMetrics \<Rightarrow> DeadlineSenderMetrics" where
  "record_empty_tick metrics = metrics\<lparr>empty_tick_count := saturating_add (empty_tick_count metrics) 1\<rparr>"

section \<open>Channels\<close>

text \<open>The sending half of a bounded channel: what is queued, its capacity, and whether the receiver is
  still alive.\<close>

record 'a channel =
  chan_items :: "'a list"
  chan_capacity :: usize
  chan_open :: bool

definition try_send :: "'a channel \<Rightarrow> 'a \<Rightarrow> bool \<times> 'a channel" where
  "try_send c x =
    (if chan_open c \<and> length (chan_items c) < chan_capacity c
     then (True, c\<lparr>chan_items := chan_items c @ [x]\<rparr>) else (False, c))"

definition try_recv :: "'a channel \<Rightarrow> 'a option \<times> 'a channel" where
  "try_recv c = (case chan_items c of [] \<Rightarrow> (None, c) | x # xs \<Rightarrow> (Some x, c\<lparr>chan_items := xs\<rparr>))"

section \<open>The sender\<close>

record DeadlineSender =
  ds_cursor :: u64
  ds_commands :: "PreparedPlayoutCommand channel"
  ds_send_records :: "DeadlineSendRecord channel option"
  ds_drop_records :: "DeadlineDropRecord channel option"
  ds_active_generation :: "u64 option"
  ds_shutdown :: bool
  ds_metrics :: DeadlineSenderMetrics
  ds_tick :: nanos
  ds_next_deadline :: "nanos option"

definition DeadlineSender_new_with_next_deadline_records_and_generation ::
  "u64 \<Rightarrow> PreparedPlayoutCommand channel \<Rightarrow> DeadlineSendRecord channel \<Rightarrow> DeadlineDropRecord channel
    \<Rightarrow> u64 \<Rightarrow> bool \<Rightarrow> nanos \<Rightarrow> DeadlineSender" where
  "DeadlineSender_new_with_next_deadline_records_and_generation cursor commands send_records drop_records
       active_generation shutdown deadline =
     \<lparr>ds_cursor = cursor, ds_commands = commands, ds_send_records = Some send_records,
      ds_drop_records = Some drop_records, ds_active_generation = Some active_generation,
      ds_shutdown = shutdown, ds_metrics = \<lparr>metrics_sent = [], empty_tick_count = 0\<rparr>,
      ds_tick = DEADLINE_TICK, ds_next_deadline = Some deadline\<rparr>"

definition packet_send_interval :: "PreparedVoicePacket \<Rightarrow> nanos" where
  "packet_send_interval packet =
     max (duration_from_samples (u64_from_u32 (prepared_duration_samples packet))) 1000000"

text \<open>The readings a tick makes: before the wait, after it, when the send starts and when it is done.
  An empty or dropped tick reads the clock once more, which is \<open>clock_started\<close> too.\<close>

record tick_clock =
  clock_first :: nanos
  clock_started :: nanos
  clock_sent :: nanos

definition expected_deadline :: "DeadlineSender \<Rightarrow> tick_clock \<Rightarrow> nanos" where
  "expected_deadline s clock =
    (case ds_next_deadline s of Some deadline \<Rightarrow> deadline | None \<Rightarrow> clock_first clock + ds_tick s)"

definition is_stale :: "DeadlineSender \<Rightarrow> PreparedPlayoutCommand \<Rightarrow> bool" where
  "is_stale s command \<longleftrightarrow>
    (case ds_active_generation s of None \<Rightarrow> False | Some active \<Rightarrow> cmd_generation command \<noteq> active)"

definition drop_command ::
  "nanos \<Rightarrow> PreparedPlayoutCommand \<Rightarrow> DeadlineSender \<Rightarrow> (RuntimeError + unit) \<times> DeadlineSender" where
  "drop_command now command s =
    (case ds_drop_records s of
       None \<Rightarrow> (Inr (), s\<lparr>ds_next_deadline := Some (now + ds_tick s)\<rparr>)
     | Some records \<Rightarrow>
        (case try_send records (DeadlineDropRecord_from_command command) of
           (False, _) \<Rightarrow> (Inl (RuntimeInvalidState ''deadline drop record channel unavailable''), s)
         | (True, records1) \<Rightarrow>
            (Inr (), s\<lparr>ds_drop_records := Some records1, ds_next_deadline := Some (now + ds_tick s)\<rparr>)))"

definition next_deadline_after :: "tick_clock \<Rightarrow> PreparedVoicePacket \<Rightarrow> nanos" where
  "next_deadline_after clock packet =
    (let send_interval = packet_send_interval packet;
         ideal = clock_started clock + send_interval
     in if clock_sent clock \<ge> ideal then clock_sent clock + send_interval else ideal)"

definition commit_send ::
  "nanos \<Rightarrow> tick_clock \<Rightarrow> PreparedPlayoutCommand \<Rightarrow> DeadlineSender \<Rightarrow> (RuntimeError + unit) \<times> DeadlineSender" where
  "commit_send expected clock command s =
    (let s1 = s\<lparr>ds_next_deadline := Some (next_deadline_after clock (cmd_packet command))\<rparr>;
         (rec, metrics) = record_sent expected (clock_started clock) (clock_sent clock) command (ds_metrics s1);
         s2 = s1\<lparr>ds_metrics := metrics\<rparr>
     in case ds_send_records s2 of
          None \<Rightarrow> (Inr (), s2)
        | Some records \<Rightarrow>
           (case try_send records rec of
              (False, _) \<Rightarrow> (Inl (RuntimeInvalidState ''deadline send record channel unavailable''), s2)
            | (True, records1) \<Rightarrow> (Inr (), s2\<lparr>ds_send_records := Some records1\<rparr>)))"

definition tick_once ::
  "'w socket_send \<Rightarrow> tick_clock \<Rightarrow> DeadlineSender \<Rightarrow> 'w \<Rightarrow> (RuntimeError + unit) \<times> DeadlineSender \<times> 'w" where
  "tick_once send_to clock s w =
    (let expected = expected_deadline s clock;
         s1 = s\<lparr>ds_next_deadline := None\<rparr>
     in case try_recv (ds_commands s1) of
          (None, _) \<Rightarrow>
            (if chan_open (ds_commands s1)
             then (Inr (), s1\<lparr>ds_metrics := record_empty_tick (ds_metrics s1),
                              ds_next_deadline := Some (clock_started clock + ds_tick s1)\<rparr>, w)
             else (Inr (), s1\<lparr>ds_shutdown := True\<rparr>, w))
        | (Some command, commands) \<Rightarrow>
           (let s2 = s1\<lparr>ds_commands := commands\<rparr> in
            if is_stale s2 command
            then (let (r, s3) = drop_command (clock_started clock) command s2 in (r, s3, w))
            else (case send_prepared_packet send_to (ds_cursor s2) (cmd_packet command) w of
                    (Inl err, cursor, w1) \<Rightarrow> (Inl (RuntimeVoice err), s2\<lparr>ds_cursor := cursor\<rparr>, w1)
                  | (Inr _, cursor, w1) \<Rightarrow>
                      (let (r, s3) = commit_send expected clock command (s2\<lparr>ds_cursor := cursor\<rparr>)
                       in (r, s3, w1)))))"

section \<open>Runs\<close>

text \<open>What happens around the loop of \<open>run\<close>: the driver queues commands (\<open>try_send\<close>, refused when the
  channel is full), takes records, changes the generation, closes the command channel or asks for
  shutdown; and the loop makes a tick, unless it was told to shut down.\<close>

datatype deadline_event =
    QueueCommand PreparedPlayoutCommand
  | TakeSendRecord
  | TakeDropRecord
  | SetGeneration u64
  | CloseCommands
  | RequestShutdown
  | Tick tick_clock

definition env_event :: "deadline_event \<Rightarrow> DeadlineSender \<Rightarrow> DeadlineSender" where
  "env_event e s =
    (case e of
       QueueCommand command \<Rightarrow> s\<lparr>ds_commands := snd (try_send (ds_commands s) command)\<rparr>
     | TakeSendRecord \<Rightarrow> s\<lparr>ds_send_records := map_option (\<lambda>c. snd (try_recv c)) (ds_send_records s)\<rparr>
     | TakeDropRecord \<Rightarrow> s\<lparr>ds_drop_records := map_option (\<lambda>c. snd (try_recv c)) (ds_drop_records s)\<rparr>
     | SetGeneration g \<Rightarrow> s\<lparr>ds_active_generation := map_option (\<lambda>_. g) (ds_active_generation s)\<rparr>
     | CloseCommands \<Rightarrow> s\<lparr>ds_commands := (ds_commands s)\<lparr>chan_open := False\<rparr>\<rparr>
     | RequestShutdown \<Rightarrow> s\<lparr>ds_shutdown := True\<rparr>
     | Tick _ \<Rightarrow> s)"

text \<open>A run returns the error that ended the loop, if any, and the final state; the events after the end
  of the loop have no effect on it.\<close>

fun deadline_run ::
  "'w socket_send \<Rightarrow> deadline_event list \<Rightarrow> DeadlineSender \<Rightarrow> 'w
    \<Rightarrow> RuntimeError option \<times> DeadlineSender \<times> 'w" where
  "deadline_run send_to [] s w = (None, s, w)"
| "deadline_run send_to (Tick clock # events) s w =
    (if ds_shutdown s then (None, s, w)
     else (case tick_once send_to clock s w of
             (Inl err, s1, w1) \<Rightarrow> (Some err, s1, w1)
           | (Inr _, s1, w1) \<Rightarrow> deadline_run send_to events s1 w1))"
| "deadline_run send_to (e # events) s w = deadline_run send_to events (env_event e s) w"

text \<open>The timer never wakes early, and the clock does not go back within a tick.\<close>

definition timer_ok :: "tick_clock \<Rightarrow> DeadlineSender \<Rightarrow> bool" where
  "timer_ok clock s \<longleftrightarrow> expected_deadline s clock \<le> clock_started clock \<and> clock_started clock \<le> clock_sent clock"

fun timers_ok :: "'w socket_send \<Rightarrow> deadline_event list \<Rightarrow> DeadlineSender \<Rightarrow> 'w \<Rightarrow> bool" where
  "timers_ok send_to [] s w \<longleftrightarrow> True"
| "timers_ok send_to (Tick clock # events) s w \<longleftrightarrow>
    (ds_shutdown s \<or>
     (timer_ok clock s \<and> (case tick_once send_to clock s w of (_, s1, w1) \<Rightarrow> timers_ok send_to events s1 w1)))"
| "timers_ok send_to (e # events) s w \<longleftrightarrow> timers_ok send_to events (env_event e s) w"

definition record_interval :: "DeadlineSendRecord \<Rightarrow> nanos" where
  "record_interval rec = max (duration_from_samples (u64_from_u32 (sent_duration_samples rec))) 1000000"

text \<open>No sooner than one media interval after the previous start, and after a send that took longer than
  its interval, a full interval after it was done.\<close>

definition earliest_after :: "DeadlineSendRecord \<Rightarrow> nanos" where
  "earliest_after rec =
     (if sent_at rec \<ge> sent_started_at rec + record_interval rec
      then sent_at rec + record_interval rec else sent_started_at rec + record_interval rec)"

fun paced :: "DeadlineSendRecord list \<Rightarrow> bool" where
  "paced (r1 # r2 # rs) \<longleftrightarrow> earliest_after r1 \<le> sent_started_at r2 \<and> paced (r2 # rs)"
| "paced _ \<longleftrightarrow> True"

definition pacing_inv :: "DeadlineSender \<Rightarrow> bool" where
  "pacing_inv s \<longleftrightarrow>
     paced (metrics_sent (ds_metrics s))
     \<and> (metrics_sent (ds_metrics s) \<noteq> [] \<and> \<not> ds_shutdown s \<longrightarrow>
         (\<exists>d. ds_next_deadline s = Some d \<and> earliest_after (last (metrics_sent (ds_metrics s))) \<le> d))"

lemma paced_snoc:
  "paced (rs @ [r]) \<longleftrightarrow> paced rs \<and> (rs \<noteq> [] \<longrightarrow> earliest_after (last rs) \<le> sent_started_at r)"
  by (induction rs rule: paced.induct) auto

lemma next_deadline_after_earliest:
  "earliest_after (send_record e (clock_started clock) (clock_sent clock) command)
     = next_deadline_after clock (cmd_packet command)"
  by (simp add: next_deadline_after_def earliest_after_def send_record_def packet_send_interval_def
      record_interval_def Let_def)

lemma pacing_inv_env: "pacing_inv s \<Longrightarrow> pacing_inv (env_event e s)"
  by (cases e) (auto simp: env_event_def pacing_inv_def)

lemma pacing_tick:
  assumes "pacing_inv s" and "\<not> ds_shutdown s" and "timer_ok clock s"
    and "tick_once send_to clock s w = (r, s', w')"
  shows "paced (metrics_sent (ds_metrics s')) \<and> (r = Inr () \<longrightarrow> pacing_inv s')"
proof -
  let ?ms = "metrics_sent (ds_metrics s)"
  have paced: "paced ?ms" using assms(1) by (simp add: pacing_inv_def)
  have due: "earliest_after (last ?ms) \<le> expected_deadline s clock" if "?ms \<noteq> []"
    using assms(1,2) that by (auto simp: pacing_inv_def expected_deadline_def)
  have now: "expected_deadline s clock \<le> clock_started clock" using assms(3) by (simp add: timer_ok_def)
  have sent: "paced (?ms @ [send_record e (clock_started clock) (clock_sent clock) command])" for e command
    using paced due now by (auto simp: paced_snoc send_record_def)
  have later: "earliest_after (last ?ms) \<le> clock_started clock + n" if "?ms \<noteq> []" for n
    using due [OF that] now by simp
  show ?thesis
    using assms(4) paced sent later
    by (auto simp: tick_once_def Let_def drop_command_def commit_send_def record_sent_def record_empty_tick_def
        pacing_inv_def next_deadline_after_earliest try_recv_def
        split: list.splits if_splits option.splits prod.splits sum.splits bool.splits)
qed

lemma deadline_pacing_run:
  assumes "deadline_run send_to events s w = (r, s', w')" and "timers_ok send_to events s w" and "pacing_inv s"
  shows "paced (metrics_sent (ds_metrics s'))"
  using assms
proof (induction events arbitrary: s w)
  case Nil
  then show ?case by (simp add: pacing_inv_def)
next
  case (Cons e events)
  show ?case
  proof (cases "\<exists>clock. e = Tick clock")
    case False
    with Cons show ?thesis by (cases e) (auto simp: pacing_inv_env)
  next
    case True
    then obtain clock where e: "e = Tick clock" by blast
    obtain x s1 w1 where t: "tick_once send_to clock s w = (x, s1, w1)" by (metis prod_cases3)
    show ?thesis
    proof (cases "ds_shutdown s")
      case True
      with Cons.prems e show ?thesis by (simp add: pacing_inv_def)
    next
      case False
      with Cons.prems e t have ok: "timer_ok clock s" "timers_ok send_to events s1 w1" by auto
      from pacing_tick [OF Cons.prems(3) False ok(1) t] Cons.IH [OF _ ok(2)] Cons.prems(1) e t False
      show ?thesis by (cases x) (auto simp: unit_eq)
    qed
  qed
qed

definition generation_active :: "DeadlineSender \<Rightarrow> PreparedPlayoutCommand \<Rightarrow> bool" where
  "generation_active s c \<longleftrightarrow> ds_active_generation s = None \<or> ds_active_generation s = Some (cmd_generation c)"

lemma is_stale_inactive: "is_stale s c \<longleftrightarrow> \<not> generation_active s c"
  by (auto simp: is_stale_def generation_active_def split: option.splits)

text \<open>The commands that entered the channel during a run, and those the ticks took out of it, each with
  whether its generation was the active one.\<close>

fun deadline_trace ::
  "'w socket_send \<Rightarrow> deadline_event list \<Rightarrow> DeadlineSender \<Rightarrow> 'w
    \<Rightarrow> PreparedPlayoutCommand list \<times> (PreparedPlayoutCommand \<times> bool) list" where
  "deadline_trace send_to [] s w = ([], [])"
| "deadline_trace send_to (Tick clock # events) s w =
    (if ds_shutdown s then ([], [])
     else (let out = (case chan_items (ds_commands s) of [] \<Rightarrow> [] | c # _ \<Rightarrow> [(c, generation_active s c)])
           in case tick_once send_to clock s w of
                (Inl _, _, _) \<Rightarrow> ([], out)
              | (Inr _, s1, w1) \<Rightarrow>
                  (let (queued, taken) = deadline_trace send_to events s1 w1 in (queued, out @ taken))))"
| "deadline_trace send_to (QueueCommand c # events) s w =
    (let (queued, taken) = deadline_trace send_to events (env_event (QueueCommand c) s) w
     in (if fst (try_send (ds_commands s) c) then c # queued else queued, taken))"
| "deadline_trace send_to (e # events) s w = deadline_trace send_to events (env_event e s) w"

definition sent_key :: "DeadlineSendRecord \<Rightarrow> PreparedPacketKind \<times> u16 \<times> u32 \<times> u32 option \<times> PreparedMediaFrame option" where
  "sent_key rec = (sent_kind rec, sent_rtp_sequence rec, sent_rtp_timestamp rec, sent_protection_nonce rec,
     sent_media_frame rec)"

definition command_key ::
  "PreparedPlayoutCommand \<Rightarrow> PreparedPacketKind \<times> u16 \<times> u32 \<times> u32 option \<times> PreparedMediaFrame option" where
  "command_key c = (cmd_kind c, rtp_sequence (cmd_packet c), rtp_timestamp (cmd_packet c),
     protection_nonce (cmd_packet c), cmd_media_frame c)"

definition transmit :: "'w socket_send \<Rightarrow> PreparedPlayoutCommand list \<Rightarrow> 'w \<Rightarrow> 'w" where
  "transmit send_to commands w = foldl (\<lambda>w c. snd (send_to w (prepared_bytes (cmd_packet c)))) w commands"

lemma sent_key_record [simp]: "sent_key (send_record e a b c) = command_key c"
  by (simp add: sent_key_def send_record_def command_key_def)

lemma is_stale_updates [simp]:
  "is_stale (s\<lparr>ds_next_deadline := d\<rparr>) c = is_stale s c" "is_stale (s\<lparr>ds_commands := cs\<rparr>) c = is_stale s c"
  by (simp_all add: is_stale_def)

lemma send_prepared_packet_ok:
  "send_prepared_packet send_to cursor packet w = (Inr x, cursor', w') \<Longrightarrow> w' = snd (send_to w (prepared_bytes packet))"
  by (auto simp: send_prepared_packet_def Let_def split: sum.splits prod.splits)

lemma tick_effect:
  assumes "tick_once send_to clock s w = (Inr x, s', w')"
  shows "(case chan_items (ds_commands s) of
      [] \<Rightarrow> chan_items (ds_commands s') = [] \<and> metrics_sent (ds_metrics s') = metrics_sent (ds_metrics s) \<and> w' = w
    | c # rest \<Rightarrow> chan_items (ds_commands s') = rest
        \<and> map sent_key (metrics_sent (ds_metrics s'))
          = map sent_key (metrics_sent (ds_metrics s)) @ (if generation_active s c then [command_key c] else [])
        \<and> w' = transmit send_to (if generation_active s c then [c] else []) w)"
  using assms
  by (auto simp: tick_once_def Let_def drop_command_def commit_send_def record_sent_def record_empty_tick_def
      try_recv_def transmit_def send_prepared_packet_ok is_stale_inactive generation_active_def
      split: list.splits if_splits option.splits prod.splits sum.splits bool.splits)

lemma env_keeps [simp]: "ds_metrics (env_event e s) = ds_metrics s"
  by (cases e) (simp_all add: env_event_def)

lemma env_items: "\<forall>c. e \<noteq> QueueCommand c \<Longrightarrow> chan_items (ds_commands (env_event e s)) = chan_items (ds_commands s)"
  by (cases e) (simp_all add: env_event_def)

lemma transmit_simps [simp]:
  "transmit send_to [] w = w"
  "transmit send_to (c # cs) w = transmit send_to cs (snd (send_to w (prepared_bytes (cmd_packet c))))"
  by (simp_all add: transmit_def)

lemma deadline_run_trace:
  assumes "deadline_run send_to events s w = (None, s', w')"
    and "deadline_trace send_to events s w = (queued, taken)"
  shows "chan_items (ds_commands s) @ queued = map fst taken @ chan_items (ds_commands s')
    \<and> map sent_key (metrics_sent (ds_metrics s'))
      = map sent_key (metrics_sent (ds_metrics s)) @ map command_key (map fst (filter snd taken))
    \<and> w' = transmit send_to (map fst (filter snd taken)) w"
  using assms
proof (induction events arbitrary: s w queued taken)
  case Nil
  then show ?case by (simp add: transmit_def)
next
  case (Cons e events)
  show ?case
  proof (cases e)
    case (Tick clock)
    show ?thesis
    proof (cases "ds_shutdown s")
      case True
      with Cons.prems Tick show ?thesis by (auto simp: transmit_def)
    next
      case False
      obtain x s1 w1 where t: "tick_once send_to clock s w = (x, s1, w1)" by (metis prod_cases3)
      with Cons.prems(1) Tick False obtain u where x: "x = Inr u" by (cases x) auto
      obtain q1 t1 where tr: "deadline_trace send_to events s1 w1 = (q1, t1)" by fastforce
      from Cons.IH [OF _ tr] Cons.prems Tick False t x tr tick_effect [OF t [unfolded x]]
      show ?thesis by (auto split: list.splits)
    qed
  next
    case (QueueCommand c)
    obtain q1 t1 where tr: "deadline_trace send_to events (env_event e s) w = (q1, t1)" by fastforce
    from Cons.IH [OF _ tr] Cons.prems QueueCommand tr show ?thesis
      by (auto simp: env_event_def try_send_def split: if_splits)
  qed (use Cons.prems Cons.IH [of "env_event e s" w queued taken] env_items [of e s] in simp_all)
qed

section \<open>Properties\<close>

text \<open>C3: No bursts. Whatever the driver does around the loop, and however late ticks and sends are, the
  deadline sender never catches up by sending early: between the starts of two consecutive packets lies
  at least the media duration of the first, and after a send that itself took longer than that, a full
  media duration from its end.\<close>

theorem deadline_sender_never_bursts:
  assumes "deadline_run send_to events
      (DeadlineSender_new_with_next_deadline_records_and_generation cursor commands send_records drop_records
        generation shutdown deadline) w = (r, s', w')"
    and "timers_ok send_to events
      (DeadlineSender_new_with_next_deadline_records_and_generation cursor commands send_records drop_records
        generation shutdown deadline) w"
  shows "paced (metrics_sent (ds_metrics s'))"
  by (rule deadline_pacing_run [OF assms])
    (simp add: pacing_inv_def DeadlineSender_new_with_next_deadline_records_and_generation_def)

text \<open>C29: First in, first out, and no stale packet. As long as no error ends the loop, the commands taken
  from the channel are those that entered it, in order, each exactly once and nothing else; the packets
  on the wire and the send records are exactly those of them whose generation was active when they came
  up, in the same order, and what is left is still queued.\<close>

theorem deadline_sender_fifo:
  assumes "deadline_run send_to events
      (DeadlineSender_new_with_next_deadline_records_and_generation cursor commands send_records drop_records
        generation shutdown deadline) w = (None, s', w')"
    and "deadline_trace send_to events
      (DeadlineSender_new_with_next_deadline_records_and_generation cursor commands send_records drop_records
        generation shutdown deadline) w = (queued, taken)"
  shows "chan_items commands @ queued = map fst taken @ chan_items (ds_commands s')
    \<and> map sent_key (metrics_sent (ds_metrics s')) = map command_key (map fst (filter snd taken))
    \<and> w' = transmit send_to (map fst (filter snd taken)) w"
  using deadline_run_trace [OF assms]
  by (simp add: DeadlineSender_new_with_next_deadline_records_and_generation_def)

lemma tick_sends_next:
  assumes "chan_items (ds_commands st) = c # cs" and "rtp_chain (s, t) (map cmd_packet (c # cs)) final"
    and "ds_cursor st = pack_rtp_cursor_parts s t" and "generation_active st c" and "socket_works send_to"
    and "ds_send_records st = Some records" and "chan_open records" and "length (chan_items records) < chan_capacity records"
  shows "\<exists>st' w' s' t'. tick_once send_to clock st w = (Inr (), st', w') \<and> chan_items (ds_commands st') = cs
    \<and> rtp_chain (s', t') (map cmd_packet cs) final \<and> ds_cursor st' = pack_rtp_cursor_parts s' t'
    \<and> ds_active_generation st' = ds_active_generation st \<and> ds_shutdown st' = ds_shutdown st
    \<and> ds_send_records st' = Some (records\<lparr>chan_items := chan_items records
        @ [send_record (expected_deadline st clock) (clock_started clock) (clock_sent clock) c]\<rparr>)"
proof -
  obtain w1 where "send_to w (prepared_bytes (cmd_packet c)) = (Inr (), w1)"
    using assms(5) unfolding socket_works_def by (metis prod.collapse)
  then have sent: "send_prepared_packet send_to (pack_rtp_cursor_parts s t) (cmd_packet c) w
      = (Inr (), pack_rtp_cursor_parts (s + 1) (t + prepared_duration_samples (cmd_packet c)), w1)"
    using assms(2) by (simp add: send_prepared_packet_def)
  have "\<not> is_stale st c" using assms(4) by (simp add: is_stale_inactive)
  with sent assms show ?thesis
    by (simp add: tick_once_def try_recv_def commit_send_def record_sent_def try_send_def Let_def)
qed

text \<open>C30: Every queued packet gets sent. When the packets in the channel continue the send cursor and are of the
  active generation, the socket works and the record channel has room for them, then as many ticks as there are
  commands, whatever the clock reads, send all of them: the channel is empty, a record for each waits in the order
  of the commands, and the sender still runs.\<close>

theorem queued_packets_get_sent:
  assumes "rtp_chain (s, t) (map cmd_packet (chan_items (ds_commands st))) final"
    and "ds_cursor st = pack_rtp_cursor_parts s t"
    and "list_all (generation_active st) (chan_items (ds_commands st))" and "socket_works send_to"
    and "ds_send_records st = Some records" and "chan_open records"
    and "length (chan_items records) + length (chan_items (ds_commands st)) \<le> chan_capacity records"
    and "\<not> ds_shutdown st" and "length clocks = length (chan_items (ds_commands st))"
  shows "\<exists>st' w' records'. deadline_run send_to (map Tick clocks) st w = (None, st', w')
    \<and> chan_items (ds_commands st') = [] \<and> \<not> ds_shutdown st' \<and> ds_cursor st' = pack_rtp_cursor_parts (fst final) (snd final)
    \<and> ds_send_records st' = Some records'
    \<and> map sent_key (chan_items records') = map sent_key (chan_items records) @ map command_key (chan_items (ds_commands st))"
  using assms
proof (induction clocks arbitrary: st w s t records)
  case Nil
  then show ?case by auto
next
  case (Cons clock clocks)
  obtain c cs where cs: "chan_items (ds_commands st) = c # cs" using Cons.prems(9) by (cases "chan_items (ds_commands st)") auto
  let ?r = "records\<lparr>chan_items := chan_items records
    @ [send_record (expected_deadline st clock) (clock_started clock) (clock_sent clock) c]\<rparr>"
  have chain: "rtp_chain (s, t) (map cmd_packet (c # cs)) final" and active: "generation_active st c"
    and room: "length (chan_items records) < chan_capacity records"
    using Cons.prems(1,3,7) cs by simp_all
  obtain st1 w1 s1 t1 where tick: "tick_once send_to clock st w = (Inr (), st1, w1)" "chan_items (ds_commands st1) = cs"
    "rtp_chain (s1, t1) (map cmd_packet cs) final" "ds_cursor st1 = pack_rtp_cursor_parts s1 t1"
    "ds_active_generation st1 = ds_active_generation st" "ds_shutdown st1 = ds_shutdown st" "ds_send_records st1 = Some ?r"
    using tick_sends_next [OF cs chain Cons.prems(2) active Cons.prems(4,5,6) room] by blast
  have "list_all (generation_active st1) cs"
    using Cons.prems(3) cs tick(5) by (auto simp: list_all_iff generation_active_def)
  from Cons.IH [of s1 t1 st1 ?r w1] this tick Cons.prems cs show ?case by auto
qed

text \<open>A concrete run: a packet is sent, its generation is retired, and the next one is dropped.\<close>

abbreviation demo_command :: "u16 \<Rightarrow> u32 \<Rightarrow> u64 \<Rightarrow> PreparedPlayoutCommand" where
  "demo_command seq ts generation \<equiv>
     \<lparr>cmd_packet = \<lparr>prepared_bytes = [1], prepared_duration_ms = 20, prepared_duration_samples = 960,
        is_track = True, rtp_sequence = seq, rtp_timestamp = ts, protection_nonce = None\<rparr>,
      cmd_kind = Track, cmd_media_frame = None, cmd_generation = generation\<rparr>"

abbreviation demo_deadline_sender :: DeadlineSender where
  "demo_deadline_sender \<equiv> DeadlineSender_new_with_next_deadline_records_and_generation
     (pack_rtp_cursor_parts 0 0) \<lparr>chan_items = [demo_command 0 0 0], chan_capacity = 25, chan_open = True\<rparr>
     \<lparr>chan_items = [], chan_capacity = 64, chan_open = True\<rparr>
     \<lparr>chan_items = [], chan_capacity = 64, chan_open = True\<rparr> 0 False 1000"

abbreviation demo_deadline_events :: "deadline_event list" where
  "demo_deadline_events \<equiv>
     [Tick \<lparr>clock_first = 0, clock_started = 1000, clock_sent = 1500\<rparr>,
      QueueCommand (demo_command 1 960 0), SetGeneration 1,
      Tick \<lparr>clock_first = 2000, clock_started = 20001000, clock_sent = 20001000\<rparr>]"

lemmas deadline_eval = tick_once_def Let_def drop_command_def commit_send_def record_sent_def
  try_recv_def try_send_def env_event_def expected_deadline_def is_stale_def send_prepared_packet_def
  demo_socket_def DeadlineSender_new_with_next_deadline_records_and_generation_def timer_ok_def
  next_deadline_after_def packet_send_interval_def generation_active_def

lemma interval_960: "duration_from_samples (u64_from_u32 960) = 20000000"
  by (simp add: duration_from_samples_def u64_from_u32_def saturating_mul_def OPUS_SAMPLE_RATE_HZ_def)

theorem deadline_sender_never_bursts_witness:
  "\<exists>r s' w'. deadline_run demo_socket demo_deadline_events demo_deadline_sender 0 = (r, s', w')
     \<and> paced (metrics_sent (ds_metrics s')) \<and> length (metrics_sent (ds_metrics s')) = 1"
proof -
  obtain r s' w' where run: "deadline_run demo_socket demo_deadline_events demo_deadline_sender 0 = (r, s', w')"
    and len: "length (metrics_sent (ds_metrics s')) = 1"
    by (simp add: deadline_eval interval_960)
  have "timers_ok demo_socket demo_deadline_events demo_deadline_sender 0"
    by (simp add: deadline_eval interval_960)
  from deadline_sender_never_bursts [OF run this] run len show ?thesis by blast
qed

theorem deadline_sender_fifo_witness:
  "\<exists>s' w' queued taken. deadline_run demo_socket demo_deadline_events demo_deadline_sender 0 = (None, s', w')
     \<and> [demo_command 0 0 0] @ queued = map fst taken @ chan_items (ds_commands s')
     \<and> w' = transmit demo_socket (map fst (filter snd taken)) 0
     \<and> taken = [(demo_command 0 0 0, True), (demo_command 1 960 0, False)]"
proof -
  obtain s' w' where run: "deadline_run demo_socket demo_deadline_events demo_deadline_sender 0 = (None, s', w')"
    by (simp add: deadline_eval interval_960)
  have trace: "deadline_trace demo_socket demo_deadline_events demo_deadline_sender 0
      = ([demo_command 1 960 0], [(demo_command 0 0 0, True), (demo_command 1 960 0, False)])"
    by (simp add: deadline_eval interval_960)
  from deadline_sender_fifo [OF run trace] run show ?thesis by auto
qed

theorem queued_packets_get_sent_witness:
  "\<exists>st' w' records'. deadline_run demo_socket [Tick \<lparr>clock_first = 0, clock_started = 1000, clock_sent = 1500\<rparr>]
       demo_deadline_sender 0 = (None, st', w')
     \<and> chan_items (ds_commands st') = [] \<and> ds_send_records st' = Some records' \<and> length (chan_items records') = 1"
proof -
  let ?s = demo_deadline_sender and ?clock = "\<lparr>clock_first = 0, clock_started = 1000, clock_sent = 1500\<rparr>"
  have "rtp_chain (0, 0) (map cmd_packet (chan_items (ds_commands ?s))) (1, 960)"
    by (simp add: DeadlineSender_new_with_next_deadline_records_and_generation_def)
  moreover have "ds_cursor ?s = pack_rtp_cursor_parts 0 0" "list_all (generation_active ?s) (chan_items (ds_commands ?s))"
    "ds_send_records ?s = Some \<lparr>chan_items = [], chan_capacity = 64, chan_open = True\<rparr>" "\<not> ds_shutdown ?s"
    "length [?clock] = length (chan_items (ds_commands ?s))"
    by (simp_all add: DeadlineSender_new_with_next_deadline_records_and_generation_def generation_active_def)
  ultimately obtain st' w' records' where
    r: "deadline_run demo_socket [Tick ?clock] ?s 0 = (None, st', w')" "chan_items (ds_commands st') = []"
    "ds_send_records st' = Some records'"
    "map sent_key (chan_items records') = map command_key (chan_items (ds_commands ?s))"
    using queued_packets_get_sent [of 0 0 ?s "(1, 960)" demo_socket _ "[?clock]" 0] demo_socket_works by fastforce
  from arg_cong [where f = length, OF r(4)] have "length (chan_items records') = 1"
    by (simp add: DeadlineSender_new_with_next_deadline_records_and_generation_def)
  with r show ?thesis by blast
qed

end
