(* ===== verification/PlayoutBuffers.thy ===== *)
theory PlayoutBuffers
  imports Metrics DeadlineSender Worker Pacer
begin

text \<open>
  The buffers between the playback worker and the deadline sender (first and last part of
  \<open>session/runtime.rs\<close>): the source buffer the producer fills, the egress buffer, the queue of prepared
  packets, the commands handed to the deadline sender that have no outcome yet, and the events that are
  reported about them. A lock on the source buffer is not modelled: every operation on it is one step.
\<close>

section \<open>Limits\<close>

definition PLAYBACK_QUEUE_CAPACITY :: usize where "PLAYBACK_QUEUE_CAPACITY = 1024"
definition PLAYBACK_BUFFER_MEMORY_CAP_BYTES :: usize where "PLAYBACK_BUFFER_MEMORY_CAP_BYTES = 4 * 1024 * 1024"
definition PLAYBACK_SOURCE_BUFFER_TARGET_MS :: u64 where "PLAYBACK_SOURCE_BUFFER_TARGET_MS = 5000"
definition PLAYBACK_SOURCE_BUFFER_HIGH_WATERMARK_MS :: u64 where "PLAYBACK_SOURCE_BUFFER_HIGH_WATERMARK_MS = 5000"
definition PLAYBACK_SOURCE_BUFFER_LOW_WATERMARK_MS :: u64 where "PLAYBACK_SOURCE_BUFFER_LOW_WATERMARK_MS = 4000"
definition PLAYBACK_SOURCE_BUFFER_REFILL_BATCH_MS :: u64 where "PLAYBACK_SOURCE_BUFFER_REFILL_BATCH_MS = 1000"
definition DISCORD_EGRESS_BUFFER_TARGET_MS :: u64 where "DISCORD_EGRESS_BUFFER_TARGET_MS = 400"
definition DISCORD_EGRESS_BUFFER_HIGH_WATERMARK_MS :: u64 where "DISCORD_EGRESS_BUFFER_HIGH_WATERMARK_MS = 500"
definition DISCORD_EGRESS_BUFFER_LOW_WATERMARK_MS :: u64 where "DISCORD_EGRESS_BUFFER_LOW_WATERMARK_MS = 300"
definition STOP_AUDIO_BOUNDARY_SILENCE_PACKETS :: usize where "STOP_AUDIO_BOUNDARY_SILENCE_PACKETS = 5"
definition PLAYBACK_PIPELINE_METRICS_CHANNEL_CAPACITY :: usize where "PLAYBACK_PIPELINE_METRICS_CHANNEL_CAPACITY = 1024"
definition LIVE_DEADLINE_COMMAND_CHANNEL_CAPACITY :: usize where "LIVE_DEADLINE_COMMAND_CHANNEL_CAPACITY = 25"
definition LIVE_DEADLINE_RECORD_CHANNEL_CAPACITY :: usize where "LIVE_DEADLINE_RECORD_CHANNEL_CAPACITY = 64"
definition SOURCE_UNDERRUN_DEADLINE_AHEAD_PACKETS :: usize where "SOURCE_UNDERRUN_DEADLINE_AHEAD_PACKETS = 3"

record PlaybackBufferPolicy =
  policy_target_ms :: u64

definition PlaybackBufferPolicy_new :: PlaybackBufferPolicy where
  "PlaybackBufferPolicy_new = \<lparr>policy_target_ms = PLAYBACK_SOURCE_BUFFER_TARGET_MS\<rparr>"

definition policy_max_target_ms :: "PlaybackBufferPolicy \<Rightarrow> u64" where
  "policy_max_target_ms policy = policy_target_ms policy"

definition record_refill :: "nanos \<Rightarrow> PlaybackBufferPolicy \<Rightarrow> bool \<times> PlaybackBufferPolicy" where
  "record_refill duration policy = (False, policy)"

definition record_sender_lateness :: "nanos \<Rightarrow> PlaybackBufferPolicy \<Rightarrow> bool \<times> PlaybackBufferPolicy" where
  "record_sender_lateness lateness policy = (False, policy)"

section \<open>The source buffer\<close>

record SourceBufferState =
  sb_queue :: OpusFrameQueue
  sb_end_of_stream :: bool
  sb_error :: "PlaybackError option"

definition SharedSourceBuffer_new :: "OpusFrameQueue \<Rightarrow> bool \<Rightarrow> SourceBufferState" where
  "SharedSourceBuffer_new queue end_of_stream =
     \<lparr>sb_queue = queue, sb_end_of_stream = end_of_stream, sb_error = None\<rparr>"

record LiveSourcePoll =
  poll_frame :: "(OpusFrame \<times> OpusBufferDepth) option"
  poll_depth :: OpusBufferDepth
  poll_ended :: bool

definition pop_live_source_frame ::
  "u64 \<Rightarrow> SourceBufferState \<Rightarrow> (RuntimeError + LiveSourcePoll) \<times> SourceBufferState" where
  "pop_live_source_frame playback_epoch st =
    (case sb_error st of
       Some err \<Rightarrow> (Inl (RuntimePlayback err), st\<lparr>sb_error := None\<rparr>)
     | None \<Rightarrow>
        (let (popped, queue) = OpusFrameQueue_pop (sb_queue st);
             frame = map_option (\<lambda>f. OpusFrame_with_epoch f playback_epoch) popped;
             depth = OpusFrameQueue_depth queue;
             ended = frame = None \<and> sb_end_of_stream st \<and> depth_packets depth = 0
         in (Inr \<lparr>poll_frame = map_option (\<lambda>f. (f, depth)) frame, poll_depth = depth, poll_ended = ended\<rparr>,
             st\<lparr>sb_queue := queue\<rparr>)))"

definition restore_live_source_frame ::
  "OpusFrame \<Rightarrow> SourceBufferState \<Rightarrow> (OpusFrame + OpusBufferDepth) \<times> SourceBufferState" where
  "restore_live_source_frame frame st =
    (case OpusFrameQueue_push_front (sb_queue st) frame of
       (Inl frame1, queue) \<Rightarrow> (Inl frame1, st\<lparr>sb_queue := queue\<rparr>)
     | (Inr _, queue) \<Rightarrow> (Inr (OpusFrameQueue_depth queue), st\<lparr>sb_queue := queue\<rparr>))"

definition current_source_depth :: "SourceBufferState \<Rightarrow> (RuntimeError + OpusBufferDepth) \<times> SourceBufferState" where
  "current_source_depth st =
    (case sb_error st of
       Some err \<Rightarrow> (Inl (RuntimePlayback err), st\<lparr>sb_error := None\<rparr>)
     | None \<Rightarrow> (Inr (OpusFrameQueue_depth (sb_queue st)), st))"

section \<open>The producer\<close>

definition producer_refill_reached_end_of_stream :: "usize \<Rightarrow> u64 \<Rightarrow> u64 \<Rightarrow> bool \<Rightarrow> bool" where
  "producer_refill_reached_end_of_stream produced_frames produced_samples refill_target_ms pending_packets_empty \<longleftrightarrow>
     pending_packets_empty
     \<and> (produced_frames = 0 \<or> produced_samples < samples_from_duration_ms_u64 refill_target_ms)"

datatype producer_decision = ProducerReturns | ProducerWaits | ProducerRefills u64

definition refill_decision :: "u64 \<Rightarrow> SourceBufferState \<Rightarrow> producer_decision" where
  "refill_decision buffer_target st =
    (if sb_end_of_stream st \<or> sb_error st \<noteq> None then ProducerReturns
     else (let target_ms = max 1 (min buffer_target PLAYBACK_SOURCE_BUFFER_HIGH_WATERMARK_MS);
               buffered_ms = buffered_duration_ms (sb_queue st)
           in if buffered_ms \<ge> PLAYBACK_SOURCE_BUFFER_LOW_WATERMARK_MS then ProducerWaits
              else ProducerRefills
                     (max (saturating_sub target_ms buffered_ms) PLAYBACK_SOURCE_BUFFER_REFILL_BATCH_MS)))"

fun publish_loop :: "OpusFrame list \<Rightarrow> OpusFrameQueue \<Rightarrow> bool \<times> OpusFrameQueue" where
  "publish_loop [] queue = (True, queue)"
| "publish_loop (frame # frames) queue =
    (case OpusFrameQueue_push queue frame of
       (Inl _, queue1) \<Rightarrow> (False, queue1)
     | (Inr _, queue1) \<Rightarrow> publish_loop frames queue1)"

text \<open>Moving what a refill produced to the source buffer: the depth, or that the producer gave up.\<close>

definition publish_refill ::
  "OpusFrameQueue \<Rightarrow> bool \<Rightarrow> SourceBufferState \<Rightarrow> OpusBufferDepth option \<times> SourceBufferState" where
  "publish_refill refill_queue source_ended st =
    (case publish_loop (q_inner refill_queue) (sb_queue st) of
       (False, queue) \<Rightarrow> (None, st\<lparr>sb_queue := queue, sb_error := Some BufferFull\<rparr>)
     | (True, queue) \<Rightarrow>
        (Some (OpusFrameQueue_depth queue),
         st\<lparr>sb_queue := queue, sb_end_of_stream := (if source_ended then True else sb_end_of_stream st)\<rparr>))"

definition refill_queue_new :: "u64 \<Rightarrow> OpusFrameQueue" where
  "refill_queue_new refill_target_ms =
     OpusFrameQueue_with_resource_limits PLAYBACK_QUEUE_CAPACITY PLAYBACK_BUFFER_MEMORY_CAP_BYTES refill_target_ms"

text \<open>What the producer does with a finished fill: whether it goes on, the sample for the metrics.\<close>

definition producer_finish ::
  "nanos \<Rightarrow> u64 \<Rightarrow> (PlaybackError + unit) \<times> ('d, 'e, 's, 'w) fill_state \<Rightarrow> SourceBufferState
    \<Rightarrow> bool \<times> ProducerMetricsSample option \<times> SourceBufferState" where
  "producer_finish fill_duration refill_target_ms fill buffer =
    (case fill of
       (Inl err, st) \<Rightarrow> (False, None, buffer\<lparr>sb_error := Some err\<rparr>)
     | (Inr _, st) \<Rightarrow>
        (let produced_frames = OpusFrameQueue_len (fs_queue st);
             source_ended = producer_refill_reached_end_of_stream produced_frames (buffered_samples (fs_queue st))
               refill_target_ms (src_pending_packets (fs_source st) = [])
         in case publish_refill (fs_queue st) source_ended buffer of
              (None, buffer1) \<Rightarrow> (False, None, buffer1)
            | (Some depth, buffer1) \<Rightarrow>
               (\<not> source_ended,
                Some \<lparr>sample_fill_duration = fill_duration, sample_produced_frames = produced_frames,
                      sample_source_buffer_depth = depth,
                      sample_stream_metrics = stream_metrics (src_stream (fs_source st)),
                      sample_recovery_metrics = recovery_metrics (wk_recovery (fs_worker st))\<rparr>,
                buffer1)))"

text \<open>One round of the producer: None when the fill does not return; otherwise whether the loop goes on.
  The fill runs on the worker and its source with a fresh queue, without the lock on the source buffer.\<close>

definition producer_round ::
  "nat \<Rightarrow> 'w playback_io \<Rightarrow> ('d, 'e, 's) opus_lib \<Rightarrow> nanos \<Rightarrow> u64 \<Rightarrow> ('d, 'e, 's, 'w) fill_state \<Rightarrow> SourceBufferState
    \<Rightarrow> (bool \<times> ProducerMetricsSample option \<times> ('d, 'e, 's, 'w) fill_state \<times> SourceBufferState) option" where
  "producer_round fuel io lib fill_duration buffer_target st buffer =
    (case refill_decision buffer_target buffer of
       ProducerReturns \<Rightarrow> Some (False, None, st, buffer)
     | ProducerWaits \<Rightarrow> Some (True, None, st, buffer)
     | ProducerRefills refill_target_ms \<Rightarrow>
        (case fill_queue_to_duration_ms fuel io lib refill_target_ms
                (st\<lparr>fs_queue := refill_queue_new refill_target_ms\<rparr>) of
           None \<Rightarrow> None
         | Some (r, st1) \<Rightarrow>
            (let (go_on, sample, buffer1) = producer_finish fill_duration refill_target_ms (r, st1) buffer
             in Some (go_on, sample, st1, buffer1))))"

section \<open>The egress buffer\<close>

record DiscordEgressBuffer =
  egress_queue :: OpusFrameQueue

definition DiscordEgressBuffer_new :: DiscordEgressBuffer where
  "DiscordEgressBuffer_new =
     \<lparr>egress_queue = OpusFrameQueue_with_resource_limits PLAYBACK_QUEUE_CAPACITY PLAYBACK_BUFFER_MEMORY_CAP_BYTES
        DISCORD_EGRESS_BUFFER_HIGH_WATERMARK_MS\<rparr>"

definition egress_push :: "DiscordEgressBuffer \<Rightarrow> OpusFrame \<Rightarrow> (OpusFrame + unit) \<times> DiscordEgressBuffer" where
  "egress_push b frame = (let (r, q) = OpusFrameQueue_push (egress_queue b) frame in (r, b\<lparr>egress_queue := q\<rparr>))"

definition egress_push_front :: "DiscordEgressBuffer \<Rightarrow> OpusFrame \<Rightarrow> (OpusFrame + unit) \<times> DiscordEgressBuffer" where
  "egress_push_front b frame =
     (let (r, q) = OpusFrameQueue_push_front (egress_queue b) frame in (r, b\<lparr>egress_queue := q\<rparr>))"

definition egress_pop :: "DiscordEgressBuffer \<Rightarrow> OpusFrame option \<times> DiscordEgressBuffer" where
  "egress_pop b = (let (r, q) = OpusFrameQueue_pop (egress_queue b) in (r, b\<lparr>egress_queue := q\<rparr>))"

definition egress_depth :: "DiscordEgressBuffer \<Rightarrow> OpusBufferDepth" where
  "egress_depth b = OpusFrameQueue_depth (egress_queue b)"

definition egress_is_full :: "DiscordEgressBuffer \<Rightarrow> bool" where
  "egress_is_full b = OpusFrameQueue_is_full (egress_queue b)"

definition egress_buffered_samples :: "DiscordEgressBuffer \<Rightarrow> u64" where
  "egress_buffered_samples b = buffered_samples (egress_queue b)"

section \<open>Prepared packets\<close>

record PreparedTrackPlayout =
  play_command :: PreparedPlayoutCommand
  play_frame :: OpusFrame

record PreparedPlayoutQueue =
  pp_queue :: "PreparedTrackPlayout list"
  pp_packets :: usize
  pp_bytes :: usize
  pp_duration_samples :: u64

definition PreparedPlayoutQueue_new :: PreparedPlayoutQueue where
  "PreparedPlayoutQueue_new = \<lparr>pp_queue = [], pp_packets = 0, pp_bytes = 0, pp_duration_samples = 0\<rparr>"

definition playout_fits :: "PreparedPlayoutQueue \<Rightarrow> PreparedTrackPlayout \<Rightarrow> bool" where
  "playout_fits q prepared \<longleftrightarrow>
    (let frame = play_frame prepared in
     saturating_add (pp_duration_samples q) (u64_from_u32 (frame_duration_samples frame))
       \<le> samples_from_duration_ms_u64 DISCORD_EGRESS_BUFFER_HIGH_WATERMARK_MS
     \<and> pp_packets q < PLAYBACK_QUEUE_CAPACITY
     \<and> usize_saturating_add (pp_bytes q) (OpusFrame_byte_len frame) \<le> PLAYBACK_BUFFER_MEMORY_CAP_BYTES)"

definition playout_push ::
  "PreparedPlayoutQueue \<Rightarrow> PreparedTrackPlayout \<Rightarrow> (PreparedTrackPlayout + unit) \<times> PreparedPlayoutQueue" where
  "playout_push q prepared =
    (if \<not> playout_fits q prepared then (Inl prepared, q)
     else (Inr (), q\<lparr>pp_packets := usize_saturating_add (pp_packets q) 1,
                     pp_bytes := usize_saturating_add (pp_bytes q) (OpusFrame_byte_len (play_frame prepared)),
                     pp_duration_samples := saturating_add (pp_duration_samples q)
                       (u64_from_u32 (frame_duration_samples (play_frame prepared))),
                     pp_queue := pp_queue q @ [prepared]\<rparr>))"

definition playout_pop :: "PreparedPlayoutQueue \<Rightarrow> PreparedTrackPlayout option \<times> PreparedPlayoutQueue" where
  "playout_pop q =
    (case pp_queue q of
       [] \<Rightarrow> (None, q)
     | prepared # rest \<Rightarrow>
        (Some prepared,
         q\<lparr>pp_queue := rest, pp_packets := pp_packets q - 1,
           pp_bytes := pp_bytes q - OpusFrame_byte_len (play_frame prepared),
           pp_duration_samples := saturating_sub (pp_duration_samples q)
             (u64_from_u32 (frame_duration_samples (play_frame prepared)))\<rparr>))"

definition playout_depth :: "PreparedPlayoutQueue \<Rightarrow> OpusBufferDepth" where
  "playout_depth q =
     \<lparr>depth_packets = pp_packets q, depth_bytes = pp_bytes q,
      depth_duration_ms = duration_ms_from_samples (pp_duration_samples q),
      depth_duration_samples = pp_duration_samples q\<rparr>"

definition playout_is_full :: "PreparedPlayoutQueue \<Rightarrow> bool" where
  "playout_is_full q \<longleftrightarrow>
     pp_duration_samples q \<ge> samples_from_duration_ms_u64 DISCORD_EGRESS_BUFFER_HIGH_WATERMARK_MS
     \<or> pp_packets q \<ge> PLAYBACK_QUEUE_CAPACITY \<or> pp_bytes q \<ge> PLAYBACK_BUFFER_MEMORY_CAP_BYTES"

definition frame_duration_from_samples :: "u32 \<Rightarrow> nanos" where
  "frame_duration_from_samples duration_samples =
     unat (saturating_mul (u64_from_u32 duration_samples) 1000000000 div 48000)"

fun playback_send_command_kind :: "PreparedPacketKind \<Rightarrow> PlaybackSendCommandKind" where
  "playback_send_command_kind PreparedPacketKind.Track = SendTrack"
| "playback_send_command_kind ScheduledSilence = SendScheduledSilence"
| "playback_send_command_kind BoundarySilence = SendBoundarySilence"

definition prepared_media_frame :: "OpusFrame \<Rightarrow> PreparedMediaFrame" where
  "prepared_media_frame frame =
     \<lparr>media_duration_ms = frame_duration_ms frame, media_duration_samples = frame_duration_samples frame,
      media_position_ms = source_position_ms frame, media_position_samples = source_position_samples frame,
      media_byte_position = source_byte_position frame, media_epoch = frame_epoch frame\<rparr>"

record PreparedFrameIdentity =
  fi_epoch :: u64
  fi_source_position_ms :: u64
  fi_source_position_samples :: u64
  fi_source_byte_position :: "u64 option"

definition prepared_frame_identity :: "OpusFrame \<Rightarrow> PreparedFrameIdentity" where
  "prepared_frame_identity frame =
     \<lparr>fi_epoch = frame_epoch frame, fi_source_position_ms = source_position_ms frame,
      fi_source_position_samples = source_position_samples frame,
      fi_source_byte_position = source_byte_position frame\<rparr>"

record PreparedFrameRebuildCredit =
  credit_identity :: PreparedFrameIdentity
  credit_reason :: PreparedPlayoutQueueEventReason

fun restore_interrupted_loop ::
  "PreparedPlayoutQueueEventReason \<Rightarrow> OpusFrame list \<Rightarrow> DiscordEgressBuffer \<times> PreparedFrameRebuildCredit list
    \<Rightarrow> u64 \<times> u64 \<times> OpusFrame list \<Rightarrow> (DiscordEgressBuffer \<times> PreparedFrameRebuildCredit list) \<times> u64 \<times> u64 \<times> OpusFrame list" where
  "restore_interrupted_loop reason [] (egress, credits) result = ((egress, credits), result)"
| "restore_interrupted_loop reason (frame # frames) (egress, credits) (count, samples, refused) =
    (case egress_push egress frame of
       (Inr _, egress1) \<Rightarrow>
         restore_interrupted_loop reason frames
           (egress1, credits @ [\<lparr>credit_identity = prepared_frame_identity frame, credit_reason = reason\<rparr>])
           (saturating_add count 1, saturating_add samples (u64_from_u32 (frame_duration_samples frame)), refused)
     | (Inl frame1, egress1) \<Rightarrow>
         restore_interrupted_loop reason frames (egress1, credits) (count, samples, refused @ [frame1]))"

definition restore_interrupted_frames_to_egress_buffer ::
  "DiscordEgressBuffer \<Rightarrow> PreparedFrameRebuildCredit list \<Rightarrow> PreparedPlayoutQueueEventReason \<Rightarrow> OpusFrame list
    \<Rightarrow> (DiscordEgressBuffer \<times> PreparedFrameRebuildCredit list) \<times> u64 \<times> u64 \<times> OpusFrame list" where
  "restore_interrupted_frames_to_egress_buffer egress credits reason frames =
     restore_interrupted_loop reason frames (egress, credits) (0, 0, [])"

section \<open>Commands without an outcome\<close>

record PendingDeadlineCommand =
  pend_frame :: "OpusFrame option"
  pend_kind :: PreparedPacketKind
  pend_duration_ms :: u64
  pend_duration_samples :: u32
  pend_rtp_sequence :: u16
  pend_rtp_timestamp :: u32
  pend_protection_nonce :: "u32 option"
  pend_media_frame :: "PreparedMediaFrame option"
  pend_generation :: u64

definition PendingDeadlineCommand_new :: "PreparedPlayoutCommand \<Rightarrow> OpusFrame option \<Rightarrow> PendingDeadlineCommand" where
  "PendingDeadlineCommand_new command frame =
     \<lparr>pend_frame = frame, pend_kind = cmd_kind command, pend_duration_ms = prepared_duration_ms (cmd_packet command),
      pend_duration_samples = prepared_duration_samples (cmd_packet command),
      pend_rtp_sequence = rtp_sequence (cmd_packet command), pend_rtp_timestamp = rtp_timestamp (cmd_packet command),
      pend_protection_nonce = protection_nonce (cmd_packet command), pend_media_frame = cmd_media_frame command,
      pend_generation = cmd_generation command\<rparr>"

definition OpusBufferDepth_default :: OpusBufferDepth where
  "OpusBufferDepth_default =
     \<lparr>depth_packets = 0, depth_bytes = 0, depth_duration_ms = 0, depth_duration_samples = 0\<rparr>"

definition track_depth :: "PendingDeadlineCommand \<Rightarrow> OpusBufferDepth" where
  "track_depth pending =
    (case pend_frame pending of
       None \<Rightarrow> OpusBufferDepth_default
     | Some frame \<Rightarrow>
         \<lparr>depth_packets = 1, depth_bytes = OpusFrame_byte_len frame, depth_duration_ms = frame_duration_ms frame,
          depth_duration_samples = u64_from_u32 (frame_duration_samples frame)\<rparr>)"

definition matches_sent_record :: "PendingDeadlineCommand \<Rightarrow> DeadlineSendRecord \<Rightarrow> bool" where
  "matches_sent_record pending rec \<longleftrightarrow>
     pend_kind pending = sent_kind rec \<and> pend_duration_ms pending = sent_duration_ms rec
     \<and> pend_duration_samples pending = sent_duration_samples rec \<and> pend_rtp_sequence pending = sent_rtp_sequence rec
     \<and> pend_rtp_timestamp pending = sent_rtp_timestamp rec \<and> pend_protection_nonce pending = sent_protection_nonce rec
     \<and> pend_media_frame pending = sent_media_frame rec"

definition matches_drop_record :: "PendingDeadlineCommand \<Rightarrow> DeadlineDropRecord \<Rightarrow> bool" where
  "matches_drop_record pending rec \<longleftrightarrow>
     pend_kind pending = drop_kind rec \<and> pend_duration_ms pending = drop_duration_ms rec
     \<and> pend_duration_samples pending = drop_duration_samples rec \<and> pend_rtp_sequence pending = drop_rtp_sequence rec
     \<and> pend_rtp_timestamp pending = drop_rtp_timestamp rec \<and> pend_protection_nonce pending = drop_protection_nonce rec
     \<and> pend_media_frame pending = drop_media_frame rec \<and> pend_generation pending = drop_generation rec"

definition add_depth :: "OpusBufferDepth \<Rightarrow> OpusBufferDepth \<Rightarrow> OpusBufferDepth" where
  "add_depth depth more_depth =
    (let samples = saturating_add (depth_duration_samples depth) (depth_duration_samples more_depth)
     in \<lparr>depth_packets = usize_saturating_add (depth_packets depth) (depth_packets more_depth),
         depth_bytes = usize_saturating_add (depth_bytes depth) (depth_bytes more_depth),
         depth_duration_ms = duration_ms_from_samples samples, depth_duration_samples = samples\<rparr>)"

definition pending_deadline_track_depth :: "PendingDeadlineCommand list \<Rightarrow> OpusBufferDepth" where
  "pending_deadline_track_depth pendings =
     foldl (\<lambda>depth pending. add_depth depth (track_depth pending)) OpusBufferDepth_default pendings"

definition prepared_playout_depth_with_pending ::
  "PreparedPlayoutQueue \<Rightarrow> PendingDeadlineCommand list \<Rightarrow> OpusBufferDepth" where
  "prepared_playout_depth_with_pending q pendings =
     add_depth (playout_depth q) (pending_deadline_track_depth pendings)"

section \<open>Reported events\<close>

definition prepared_playout_queue_event ::
  "PreparedPlayoutQueueEventKind \<Rightarrow> PreparedPlayoutQueueEventReason \<Rightarrow> PreparedPlayoutCommand \<Rightarrow> OpusBufferDepth
    \<Rightarrow> PreparedPlayoutQueueEventSnapshot" where
  "prepared_playout_queue_event kind reason command depth =
    (let media = cmd_media_frame command in
     \<lparr>pq_event_index = 0, pq_event_kind = kind, pq_reason = reason,
      pq_command_kind = playback_send_command_kind (cmd_kind command),
      pq_media_duration_ms = prepared_duration_ms (cmd_packet command),
      pq_media_duration_samples = prepared_duration_samples (cmd_packet command),
      pq_rtp_sequence = ucast (rtp_sequence (cmd_packet command)),
      pq_rtp_timestamp = rtp_timestamp (cmd_packet command),
      pq_protection_nonce = protection_nonce (cmd_packet command),
      pq_source_frame_epoch = map_option media_epoch media,
      pq_source_media_position_ms = map_option media_position_ms media,
      pq_source_media_position_samples = map_option media_position_samples media,
      pq_source_media_byte_position = Option.bind media media_byte_position,
      pq_queue_depth_after = depth_snapshot depth\<rparr>)"

definition dropped_prepared_playout_queue_event ::
  "PreparedPlayoutQueueEventReason \<Rightarrow> DeadlineDropRecord \<Rightarrow> OpusBufferDepth \<Rightarrow> PreparedPlayoutQueueEventSnapshot" where
  "dropped_prepared_playout_queue_event reason dropped depth =
    (let media = drop_media_frame dropped in
     \<lparr>pq_event_index = 0, pq_event_kind = DroppedBeforeSend, pq_reason = reason,
      pq_command_kind = playback_send_command_kind (drop_kind dropped),
      pq_media_duration_ms = drop_duration_ms dropped, pq_media_duration_samples = drop_duration_samples dropped,
      pq_rtp_sequence = ucast (drop_rtp_sequence dropped), pq_rtp_timestamp = drop_rtp_timestamp dropped,
      pq_protection_nonce = drop_protection_nonce dropped,
      pq_source_frame_epoch = map_option media_epoch media,
      pq_source_media_position_ms = map_option media_position_ms media,
      pq_source_media_position_samples = map_option media_position_samples media,
      pq_source_media_byte_position = Option.bind media media_byte_position,
      pq_queue_depth_after = depth_snapshot depth\<rparr>)"

definition pending_prepared_playout_queue_event ::
  "PreparedPlayoutQueueEventKind \<Rightarrow> PreparedPlayoutQueueEventReason \<Rightarrow> PendingDeadlineCommand \<Rightarrow> OpusBufferDepth
    \<Rightarrow> PreparedPlayoutQueueEventSnapshot" where
  "pending_prepared_playout_queue_event kind reason pending depth =
    (let media = pend_media_frame pending in
     \<lparr>pq_event_index = 0, pq_event_kind = kind, pq_reason = reason,
      pq_command_kind = playback_send_command_kind (pend_kind pending),
      pq_media_duration_ms = pend_duration_ms pending, pq_media_duration_samples = pend_duration_samples pending,
      pq_rtp_sequence = ucast (pend_rtp_sequence pending), pq_rtp_timestamp = pend_rtp_timestamp pending,
      pq_protection_nonce = pend_protection_nonce pending,
      pq_source_frame_epoch = map_option media_epoch media,
      pq_source_media_position_ms = map_option media_position_ms media,
      pq_source_media_position_samples = map_option media_position_samples media,
      pq_source_media_byte_position = Option.bind media media_byte_position,
      pq_queue_depth_after = depth_snapshot depth\<rparr>)"

end
