(* ===== verification/LiveDriver.thy ===== *)
theory LiveDriver
  imports PlayoutBuffers
begin

text \<open>
  The live media driver (\<open>LiveMediaDriver\<close> in \<open>session/runtime.rs\<close>): the loop that moves frames from the
  source buffer through the egress buffer and the queue of prepared packets to the deadline sender, accounts
  for what was sent, and handles pause, resume and stop. The state of the loop and its local variables are
  one record. The deadline sender runs beside it: its ticks are explicit, with the clock readings they make;
  the generation and the send cursor it shares with the driver are kept equal. The metrics channel is
  bounded and drops what does not fit. The clock advances only while the driver waits, so the measured time of
  preparing a packet is zero. Where the driver selects among ready channels the sent records come first; the
  sender of a driver never drops a command without being told to stop, so the other channel is empty there.
\<close>

section \<open>Results\<close>

text \<open>A call returns, raises, ends in a panic of the DAVE library, or waits for something that never comes.\<close>

datatype 'a run = Returns 'a | Raises RuntimeError | Aborts | Blocks

definition run_bind :: "'a run \<times> 'd \<Rightarrow> ('a \<Rightarrow> 'd \<Rightarrow> 'b run \<times> 'd) \<Rightarrow> 'b run \<times> 'd" where
  "run_bind m k =
    (case m of
       (Returns x, d) \<Rightarrow> k x d
     | (Raises err, d) \<Rightarrow> (Raises err, d)
     | (Aborts, d) \<Rightarrow> (Aborts, d)
     | (Blocks, d) \<Rightarrow> (Blocks, d))"

fun run_of :: "RuntimeError + 'a \<Rightarrow> 'a run" where
  "run_of (Inl err) = Raises err"
| "run_of (Inr x) = Returns x"

fun run_of_voice :: "VoiceError + 'a \<Rightarrow> 'a run" where
  "run_of_voice (Inl err) = Raises (RuntimeVoice err)"
| "run_of_voice (Inr x) = Returns x"

fun run_of_outcome :: "'a outcome \<Rightarrow> 'a run" where
  "run_of_outcome (Done x) = Returns x"
| "run_of_outcome (Failed err) = Raises (RuntimeVoice err)"
| "run_of_outcome Panicked = Aborts"

section \<open>State\<close>

record SenderSentMetric =
  sm_packet_index :: u64
  sm_kind :: PreparedPacketKind
  sm_duration_ms :: u64
  sm_duration_samples :: u32
  sm_is_track :: bool
  sm_expected_deadline :: nanos
  sm_send_started_at :: nanos
  sm_sent_at :: nanos
  sm_send_duration :: nanos
  sm_rtp_sequence :: u16
  sm_rtp_timestamp :: u32
  sm_protection_nonce :: "u32 option"
  sm_media_frame :: "PreparedMediaFrame option"
  sm_non_send_work_duration :: nanos
  sm_gateway_drain :: VoiceGatewayDrainReport
  sm_media_clock_reset :: bool
  sm_tempo_rebased :: bool
  sm_remaining_depth :: OpusBufferDepth
  sm_egress_depth :: OpusBufferDepth

datatype PlaybackPipelineMetric =
    SourceProducer ProducerMetricsSample
  | SourceDepth OpusBufferDepth
  | SenderStarted OpusBufferDepth
  | EgressDepth OpusBufferDepth
  | PreparedTrackQueueDepth OpusBufferDepth
  | NonTrackPlayoutQueueDepth PlaybackSendCommandKind OpusBufferDepth
  | PreparedPlayoutQueueEvent PreparedPlayoutQueueEventSnapshot
  | ExplicitMediaBoundary PreparedPlayoutQueueEventReason
  | SourceUnderrunReachedBuilder
  | SourceUnderrunReachedDeadlineSender
  | RestoredSourceFrames u64 u64
  | DiscardedSourceFrames PreparedPlayoutQueueEventReason u64 u64
  | PlayoutBuilderPrepared nanos
  | GatewayDrain VoiceGatewayDrainReport
  | SenderSent SenderSentMetric
  | SenderEgressUnderrun OpusBufferDepth
  | SenderSkippedSourceFrames u64 u64 OpusBufferDepth
  | EgressDroppedMusicFrames u64 u64
  | SenderSourceUnderrun OpusBufferDepth
  | SenderResumedAfterSourceUnderrun OpusBufferDepth
  | SenderResumedFromPause
  | SenderMediaClockReset MediaClockResetReason

datatype MediaCommand = PauseMedia | ResumeMedia | StopMedia bool

text \<open>The deadline sender as its handle sees it: the sender with its channels, and whether its thread runs.\<close>

record LiveDeadlineSender =
  lds_sender :: DeadlineSender
  lds_running :: bool

datatype LiveDeadlineOutcome = OutcomeSent DeadlineSendRecord | OutcomeDropped DeadlineDropRecord

text \<open>What the driver calls and does not define: the DAVE library, the ciphers, the web socket, the socket.\<close>

record ('ds, 'w, 'u) media_io =
  io_davey :: "'ds davey_lib"
  io_aead :: aead_lib
  io_ws :: "'w ws_write"
  io_udp :: "'u socket_send"

record ('ds, 'w, 'u) LiveMediaDriver =
  ld_session :: "'ds ConnectedVoiceSession"
  ld_playback_epoch :: u64
  ld_current_playback_epoch :: u64
  ld_source :: SourceBufferState
  ld_metrics :: "PlaybackPipelineMetric channel"
  ld_egress :: DiscordEgressBuffer
  ld_prepared :: PreparedPlayoutQueue
  ld_generation :: u64
  ld_credits :: "PreparedFrameRebuildCredit list"
  ld_skipped_on_stop :: bool
  ld_sender :: LiveDeadlineSender
  ld_pending :: "PendingDeadlineCommand list"
  ld_paused :: bool
  ld_pacer :: AudioPacer
  ld_packet_index :: u64
  ld_source_ended :: bool
  ld_underrun_active :: bool
  ld_now :: nanos
  ld_arrivals :: arrivals
  ld_ticks :: "tick_clock list"
  ld_world :: 'w
  ld_wire :: 'u
  ld_reported :: "SenderSentMetric list"
  ld_published :: "(OpusFrame list \<times> bool) list"

text \<open>The last two fields are histories, which nothing reads: the reports of sent packets the driver has given to the
  metrics channel, whether there was room for them or not, and the refills the producer has published, each with
  whether all of it fitted into the source buffer.\<close>

fun sent_reports :: "PlaybackPipelineMetric \<Rightarrow> SenderSentMetric list" where
  "sent_reports (SenderSent metric) = [metric]"
| "sent_reports _ = []"

definition emit_metric ::
  "PlaybackPipelineMetric \<Rightarrow> ('ds, 'w, 'u) LiveMediaDriver \<Rightarrow> ('ds, 'w, 'u) LiveMediaDriver" where
  "emit_metric metric d =
     d\<lparr>ld_metrics := snd (try_send (ld_metrics d) metric), ld_reported := ld_reported d @ sent_reports metric\<rparr>"

definition playback_is_current :: "('ds, 'w, 'u) LiveMediaDriver \<Rightarrow> bool" where
  "playback_is_current d \<longleftrightarrow> ld_current_playback_epoch d = ld_playback_epoch d"

section \<open>The handle of the deadline sender\<close>

definition new_channel :: "usize \<Rightarrow> 'a channel" where
  "new_channel capacity = \<lparr>chan_items = [], chan_capacity = capacity, chan_open = True\<rparr>"

definition LiveDeadlineSender_spawn :: "u64 \<Rightarrow> u64 \<Rightarrow> nanos \<Rightarrow> LiveDeadlineSender" where
  "LiveDeadlineSender_spawn cursor active_generation deadline =
     \<lparr>lds_sender = DeadlineSender_new_with_next_deadline_records_and_generation cursor
        (new_channel LIVE_DEADLINE_COMMAND_CHANNEL_CAPACITY) (new_channel LIVE_DEADLINE_RECORD_CHANNEL_CAPACITY)
        (new_channel LIVE_DEADLINE_RECORD_CHANNEL_CAPACITY) active_generation False deadline,
      lds_running = True\<rparr>"

text \<open>The receiving ends of the sender's channels disappear with its thread.\<close>

definition try_send_command ::
  "PreparedPlayoutCommand \<Rightarrow> LiveDeadlineSender \<Rightarrow> (RuntimeError + unit) \<times> LiveDeadlineSender" where
  "try_send_command command sender =
    (let s = lds_sender sender in
     if \<not> lds_running sender
     then (Inl (RuntimeInvalidState ''deadline sender command channel closed''), sender)
     else (case try_send (ds_commands s) command of
             (False, _) \<Rightarrow> (Inl (RuntimeInvalidState ''deadline sender command channel full''), sender)
           | (True, commands) \<Rightarrow> (Inr (), sender\<lparr>lds_sender := s\<lparr>ds_commands := commands\<rparr>\<rparr>)))"

definition available_command_capacity :: "LiveDeadlineSender \<Rightarrow> usize" where
  "available_command_capacity sender =
     chan_capacity (ds_commands (lds_sender sender)) - length (chan_items (ds_commands (lds_sender sender)))"

definition take_record :: "'a channel option \<Rightarrow> ('a \<times> 'a channel option) option" where
  "take_record records =
    (case records of
       None \<Rightarrow> None
     | Some c \<Rightarrow> (case try_recv c of (None, _) \<Rightarrow> None | (Some x, c1) \<Rightarrow> Some (x, Some c1)))"

definition try_next_outcome ::
  "LiveDeadlineSender \<Rightarrow> (RuntimeError + LiveDeadlineOutcome option) \<times> LiveDeadlineSender" where
  "try_next_outcome sender =
    (let s = lds_sender sender in
     case take_record (ds_send_records s) of
       Some (rec, records) \<Rightarrow> (Inr (Some (OutcomeSent rec)), sender\<lparr>lds_sender := s\<lparr>ds_send_records := records\<rparr>\<rparr>)
     | None \<Rightarrow>
        (if \<not> lds_running sender
         then (Inl (RuntimeInvalidState ''deadline sender send record channel closed''), sender)
         else (case take_record (ds_drop_records s) of
                 Some (rec, records) \<Rightarrow>
                   (Inr (Some (OutcomeDropped rec)), sender\<lparr>lds_sender := s\<lparr>ds_drop_records := records\<rparr>\<rparr>)
               | None \<Rightarrow> (Inr None, sender))))"

text \<open>A tick of the sender thread. The cursor is the transport's, the generation the driver's.\<close>

definition share_cursor :: "u64 \<Rightarrow> 'ds ConnectedVoiceSession \<Rightarrow> 'ds ConnectedVoiceSession" where
  "share_cursor cursor s = s\<lparr>vs_transport := map_option (\<lambda>tr. tr\<lparr>tr_send_sequence := cursor\<rparr>) (vs_transport s)\<rparr>"

definition sender_tick ::
  "('ds, 'w, 'u) media_io \<Rightarrow> tick_clock \<Rightarrow> ('ds, 'w, 'u) LiveMediaDriver \<Rightarrow> ('ds, 'w, 'u) LiveMediaDriver" where
  "sender_tick io clock d =
    (if \<not> lds_running (ld_sender d) then d
     else (case tick_once (io_udp io) clock (lds_sender (ld_sender d)) (ld_wire d) of
             (r, s, wire) \<Rightarrow>
               d\<lparr>ld_sender := \<lparr>lds_sender = s, lds_running = (r = Inr () \<and> \<not> ds_shutdown s)\<rparr>,
                 ld_session := share_cursor (ds_cursor s) (ld_session d), ld_wire := wire,
                 ld_now := max (ld_now d) (clock_sent clock)\<rparr>))"

text \<open>Waiting for an outcome: the thread ticks until there is one.\<close>

fun wait_outcome ::
  "tick_clock list \<Rightarrow> ('ds, 'w, 'u) media_io \<Rightarrow> ('ds, 'w, 'u) LiveMediaDriver
    \<Rightarrow> LiveDeadlineOutcome run \<times> ('ds, 'w, 'u) LiveMediaDriver" where
  "wait_outcome ticks io d =
    (case try_next_outcome (ld_sender d) of
       (Inl err, sender) \<Rightarrow> (Raises err, d\<lparr>ld_sender := sender, ld_ticks := ticks\<rparr>)
     | (Inr (Some outcome), sender) \<Rightarrow> (Returns outcome, d\<lparr>ld_sender := sender, ld_ticks := ticks\<rparr>)
     | (Inr None, sender) \<Rightarrow>
        (case ticks of
           [] \<Rightarrow> (Blocks, d\<lparr>ld_ticks := []\<rparr>)
         | clock # rest \<Rightarrow> wait_outcome rest io (sender_tick io clock d)))"

definition next_outcome ::
  "('ds, 'w, 'u) media_io \<Rightarrow> ('ds, 'w, 'u) LiveMediaDriver \<Rightarrow> LiveDeadlineOutcome run \<times> ('ds, 'w, 'u) LiveMediaDriver" where
  "next_outcome io d = wait_outcome (ld_ticks d) io d"

text \<open>Sending a command waits for room in the channel.\<close>

fun send_command ::
  "tick_clock list \<Rightarrow> ('ds, 'w, 'u) media_io \<Rightarrow> PreparedPlayoutCommand \<Rightarrow> ('ds, 'w, 'u) LiveMediaDriver
    \<Rightarrow> unit run \<times> ('ds, 'w, 'u) LiveMediaDriver" where
  "send_command ticks io command d =
    (if \<not> lds_running (ld_sender d)
     then (Raises (RuntimeInvalidState ''deadline sender command channel closed''), d\<lparr>ld_ticks := ticks\<rparr>)
     else if available_command_capacity (ld_sender d) > 0
     then (let (r, sender) = try_send_command command (ld_sender d)
           in (run_of r, d\<lparr>ld_sender := sender, ld_ticks := ticks\<rparr>))
     else (case ticks of
             [] \<Rightarrow> (Blocks, d\<lparr>ld_ticks := []\<rparr>)
           | clock # rest \<Rightarrow> send_command rest io command (sender_tick io clock d)))"

definition cloned_prepared_packet_sender :: "'ds ConnectedVoiceSession \<Rightarrow> VoiceError + u64" where
  "cloned_prepared_packet_sender s =
    (case vs_transport s of
       None \<Rightarrow> Inl (VoiceError.InvalidState ''voice transport unavailable'')
     | Some tr \<Rightarrow> Inr (tr_send_sequence tr))"

definition replace_sender ::
  "nanos \<Rightarrow> ('ds, 'w, 'u) LiveMediaDriver \<Rightarrow> unit run \<times> ('ds, 'w, 'u) LiveMediaDriver" where
  "replace_sender deadline d =
    (case cloned_prepared_packet_sender (ld_session d) of
       Inl err \<Rightarrow> (Raises (RuntimeVoice err), d)
     | Inr cursor \<Rightarrow> (Returns (), d\<lparr>ld_sender := LiveDeadlineSender_spawn cursor (ld_generation d) deadline\<rparr>))"

section \<open>Generations and credits\<close>

definition current_playout_generation :: "('ds, 'w, 'u) LiveMediaDriver \<Rightarrow> u64" where
  "current_playout_generation d = ld_generation d"

definition invalidate_prepared_playout_generation ::
  "('ds, 'w, 'u) LiveMediaDriver \<Rightarrow> ('ds, 'w, 'u) LiveMediaDriver" where
  "invalidate_prepared_playout_generation d =
    (let generation = ld_generation d + 1; sender = ld_sender d
     in d\<lparr>ld_generation := generation,
          ld_sender := sender\<lparr>lds_sender := (lds_sender sender)\<lparr>ds_active_generation := Some generation\<rparr>\<rparr>\<rparr>)"

definition discard_unsent :: "('ds, 'w, 'u) LiveMediaDriver \<Rightarrow> ('ds, 'w, 'u) LiveMediaDriver" where
  "discard_unsent d = d\<lparr>ld_session := session_discard_unsent_prepared_packets (ld_session d)\<rparr>"

definition remember_rebuild_credit ::
  "OpusFrame \<Rightarrow> PreparedPlayoutQueueEventReason \<Rightarrow> ('ds, 'w, 'u) LiveMediaDriver \<Rightarrow> ('ds, 'w, 'u) LiveMediaDriver" where
  "remember_rebuild_credit frame reason d =
     d\<lparr>ld_credits := ld_credits d @ [\<lparr>credit_identity = prepared_frame_identity frame, credit_reason = reason\<rparr>]\<rparr>"

fun take_credit ::
  "PreparedFrameIdentity \<Rightarrow> PreparedFrameRebuildCredit list
    \<Rightarrow> PreparedPlayoutQueueEventReason option \<times> PreparedFrameRebuildCredit list" where
  "take_credit identity [] = (None, [])"
| "take_credit identity (credit # credits) =
    (if credit_identity credit = identity then (Some (credit_reason credit), credits)
     else (let (r, rest) = take_credit identity credits in (r, credit # rest)))"

definition take_rebuild_credit ::
  "OpusFrame \<Rightarrow> ('ds, 'w, 'u) LiveMediaDriver
    \<Rightarrow> PreparedPlayoutQueueEventReason option \<times> ('ds, 'w, 'u) LiveMediaDriver" where
  "take_rebuild_credit frame d =
    (let (r, credits) = take_credit (prepared_frame_identity frame) (ld_credits d) in (r, d\<lparr>ld_credits := credits\<rparr>))"

definition record_prepared_playout_event ::
  "PreparedPlayoutQueueEventKind \<Rightarrow> PreparedPlayoutQueueEventReason \<Rightarrow> PreparedPlayoutCommand \<Rightarrow> OpusBufferDepth
    \<Rightarrow> ('ds, 'w, 'u) LiveMediaDriver \<Rightarrow> ('ds, 'w, 'u) LiveMediaDriver" where
  "record_prepared_playout_event kind reason command depth d =
     emit_metric (PreparedPlayoutQueueEvent (prepared_playout_queue_event kind reason command depth)) d"

section \<open>The source buffer\<close>

definition poll_source ::
  "('ds, 'w, 'u) LiveMediaDriver \<Rightarrow> LiveSourcePoll run \<times> ('ds, 'w, 'u) LiveMediaDriver" where
  "poll_source d =
    (case pop_live_source_frame (ld_playback_epoch d) (ld_source d) of
       (Inl err, st) \<Rightarrow> (Raises err, d\<lparr>ld_source := st\<rparr>)
     | (Inr poll, st) \<Rightarrow> (Returns poll, emit_metric (SourceDepth (poll_depth poll)) (d\<lparr>ld_source := st\<rparr>)))"

definition restore_source ::
  "OpusFrame \<Rightarrow> ('ds, 'w, 'u) LiveMediaDriver \<Rightarrow> (OpusFrame + OpusBufferDepth) \<times> ('ds, 'w, 'u) LiveMediaDriver" where
  "restore_source frame d =
    (case restore_live_source_frame frame (ld_source d) of
       (Inl frame1, st) \<Rightarrow> (Inl frame1, d\<lparr>ld_source := st\<rparr>)
     | (Inr depth, st) \<Rightarrow> (Inr depth, emit_metric (SourceDepth depth) (d\<lparr>ld_source := st\<rparr>)))"

definition source_depth_now ::
  "('ds, 'w, 'u) LiveMediaDriver \<Rightarrow> OpusBufferDepth run \<times> ('ds, 'w, 'u) LiveMediaDriver" where
  "source_depth_now d =
    (let (r, st) = current_source_depth (ld_source d) in (run_of r, d\<lparr>ld_source := st\<rparr>))"

section \<open>Filling\<close>

text \<open>The samples the egress buffer should hold, given what is prepared and pending.\<close>

definition raw_refill_target_samples :: "u64 \<Rightarrow> ('ds, 'w, 'u) LiveMediaDriver \<Rightarrow> u64" where
  "raw_refill_target_samples pending_samples d =
     saturating_sub (saturating_sub (samples_from_duration_ms_u64 DISCORD_EGRESS_BUFFER_TARGET_MS) pending_samples)
       (pp_duration_samples (ld_prepared d))"

definition refill_wanted :: "u64 \<Rightarrow> ('ds, 'w, 'u) LiveMediaDriver \<Rightarrow> bool" where
  "refill_wanted target_samples d \<longleftrightarrow>
     \<not> ld_source_ended d \<and> egress_buffered_samples (ld_egress d) < target_samples \<and> \<not> egress_is_full (ld_egress d)"

definition resume_after_underrun ::
  "OpusBufferDepth \<Rightarrow> ('ds, 'w, 'u) LiveMediaDriver \<Rightarrow> ('ds, 'w, 'u) LiveMediaDriver" where
  "resume_after_underrun depth d =
    (if ld_underrun_active d
     then emit_metric (SenderResumedAfterSourceUnderrun depth) (d\<lparr>ld_underrun_active := False\<rparr>) else d)"

text \<open>One round of the refill loop: whether it goes on, and the latest depth of the source buffer.\<close>

definition refill_step ::
  "('ds, 'w, 'u) LiveMediaDriver \<Rightarrow> (bool \<times> OpusBufferDepth) run \<times> ('ds, 'w, 'u) LiveMediaDriver" where
  "refill_step d =
     run_bind (poll_source d) (\<lambda>poll d1.
       case poll_frame poll of
         None \<Rightarrow> (Returns (False, poll_depth poll),
                  (if poll_ended poll then d1\<lparr>ld_source_ended := True\<rparr> else d1))
       | Some (frame, remaining) \<Rightarrow>
          (let d2 = resume_after_underrun remaining d1;
               (r, egress) = egress_push (ld_egress d2) frame;
               d3 = d2\<lparr>ld_egress := egress\<rparr>
           in case r of
                Inr _ \<Rightarrow> (Returns (True, remaining), d3)
              | Inl frame1 \<Rightarrow>
                 (case restore_source frame1 d3 of
                    (Inr depth, d4) \<Rightarrow> (Returns (False, depth), d4)
                  | (Inl frame2, d4) \<Rightarrow>
                     (let samples = u64_from_u32 (frame_duration_samples frame2)
                      in (Returns (False, poll_depth poll),
                          emit_metric (EgressDroppedMusicFrames 1 samples)
                            (emit_metric (SenderSkippedSourceFrames 1 samples remaining) d4))))))"

lemma poll_source_shrinks:
  assumes "poll_source d = (Returns poll, d1)" and "poll_frame poll \<noteq> None"
  shows "length (q_inner (sb_queue (ld_source d1))) < length (q_inner (sb_queue (ld_source d)))"
  using assms
  by (auto simp: poll_source_def pop_live_source_frame_def OpusFrameQueue_pop_def emit_metric_def Let_def
      split: option.splits list.splits prod.splits)

lemma refill_step_shrinks:
  assumes "refill_step d = (Returns (True, depth), d')"
  shows "length (q_inner (sb_queue (ld_source d'))) < length (q_inner (sb_queue (ld_source d)))"
proof (cases "poll_source d")
  case (Pair r d1)
  with assms obtain poll where r: "r = Returns poll" by (auto simp: refill_step_def run_bind_def split: run.splits)
  from assms obtain frame remaining where f: "poll_frame poll = Some (frame, remaining)"
    by (auto simp: refill_step_def run_bind_def Pair r split: option.splits)
  have "ld_source d' = ld_source d1"
    using assms
    by (auto simp: refill_step_def run_bind_def Pair r f Let_def resume_after_underrun_def emit_metric_def
        split: sum.splits prod.splits)
  with poll_source_shrinks [of d poll d1] Pair r f show ?thesis by simp
qed

function refill_loop ::
  "u64 \<Rightarrow> OpusBufferDepth \<Rightarrow> ('ds, 'w, 'u) LiveMediaDriver \<Rightarrow> OpusBufferDepth run \<times> ('ds, 'w, 'u) LiveMediaDriver" where
  "refill_loop target_samples latest d =
    (if refill_wanted target_samples d
     then (case refill_step d of
             (Returns (True, depth), d1) \<Rightarrow> refill_loop target_samples depth d1
           | (Returns (False, depth), d1) \<Rightarrow> (Returns depth, d1)
           | (Raises err, d1) \<Rightarrow> (Raises err, d1)
           | (Aborts, d1) \<Rightarrow> (Aborts, d1)
           | (Blocks, d1) \<Rightarrow> (Blocks, d1))
     else (Returns latest, d))"
  by pat_completeness auto
termination
  by (relation "measure (\<lambda>(_, _, d). length (q_inner (sb_queue (ld_source d))))") (auto dest!: refill_step_shrinks [OF sym])

declare refill_loop.simps [simp del]

definition refill_egress_buffer ::
  "u64 \<Rightarrow> ('ds, 'w, 'u) LiveMediaDriver \<Rightarrow> OpusBufferDepth run \<times> ('ds, 'w, 'u) LiveMediaDriver" where
  "refill_egress_buffer pending_samples d =
     run_bind (source_depth_now d) (\<lambda>latest d1.
     run_bind (refill_loop (raw_refill_target_samples pending_samples d1) latest d1) (\<lambda>depth d2.
       (Returns depth, emit_metric (EgressDepth (playout_depth (ld_prepared d2))) d2)))"

definition speaking_before_media ::
  "('ds, 'w, 'u) media_io \<Rightarrow> ('ds, 'w, 'u) LiveMediaDriver \<Rightarrow> unit run \<times> ('ds, 'w, 'u) LiveMediaDriver" where
  "speaking_before_media io d =
    (case prepare_speaking_before_media (io_ws io) (ld_session d) (ld_world d) of
       (r, s, w) \<Rightarrow> (run_of_voice r, d\<lparr>ld_session := s, ld_world := w\<rparr>))"

definition prepare_slot_packet ::
  "('ds, 'w, 'u) media_io \<Rightarrow> bytes \<Rightarrow> u32 \<Rightarrow> ('ds, 'w, 'u) LiveMediaDriver
    \<Rightarrow> PreparedVoicePacket run \<times> ('ds, 'w, 'u) LiveMediaDriver" where
  "prepare_slot_packet io data samples d =
    (case prepare_current_slot_audio_packet (io_davey io) (io_aead io) data samples (ld_session d) of
       (r, s) \<Rightarrow> (run_of_voice r, d\<lparr>ld_session := s\<rparr>))"

text \<open>Putting a prepared frame in the queue and reporting it, as rebuilt when it was prepared before.\<close>

definition enqueue_prepared ::
  "PreparedVoicePacket \<Rightarrow> OpusFrame \<Rightarrow> ('ds, 'w, 'u) LiveMediaDriver \<Rightarrow> unit run \<times> ('ds, 'w, 'u) LiveMediaDriver" where
  "enqueue_prepared packet frame d =
    (let prepared = \<lparr>play_command = \<lparr>cmd_packet = packet, cmd_kind = PreparedPacketKind.Track,
                       cmd_media_frame = Some (prepared_media_frame frame),
                       cmd_generation = current_playout_generation d\<rparr>, play_frame = frame\<rparr>;
         (rebuild_reason, d1) = take_rebuild_credit frame d;
         kind = (if rebuild_reason = None then Enqueued else Rebuilt);
         reason = (case rebuild_reason of None \<Rightarrow> ReasonSteadyPlayback | Some reason \<Rightarrow> reason)
     in case playout_push (ld_prepared d1) prepared of
          (Inl _, queue) \<Rightarrow>
            (Raises (RuntimeInvalidState ''prepared playout queue exceeded high watermark''), d1\<lparr>ld_prepared := queue\<rparr>)
        | (Inr _, queue) \<Rightarrow>
            (Returns (),
             emit_metric (PlayoutBuilderPrepared 0)
               (record_prepared_playout_event kind reason (play_command prepared) (playout_depth queue)
                 (d1\<lparr>ld_prepared := queue\<rparr>))))"

definition fill_wanted :: "u64 \<Rightarrow> ('ds, 'w, 'u) LiveMediaDriver \<Rightarrow> bool" where
  "fill_wanted pending_samples d \<longleftrightarrow>
     (\<not> ld_source_ended d \<or> depth_packets (egress_depth (ld_egress d)) > 0)
     \<and> saturating_add pending_samples (pp_duration_samples (ld_prepared d))
         < samples_from_duration_ms_u64 DISCORD_EGRESS_BUFFER_TARGET_MS
     \<and> \<not> playout_is_full (ld_prepared d)"

text \<open>One round of the fill loop: None when there is no frame to prepare, otherwise the latest depth.\<close>

definition playout_fill_step ::
  "('ds, 'w, 'u) media_io \<Rightarrow> u64 \<Rightarrow> OpusBufferDepth \<Rightarrow> ('ds, 'w, 'u) LiveMediaDriver
    \<Rightarrow> (bool \<times> OpusBufferDepth) run \<times> ('ds, 'w, 'u) LiveMediaDriver" where
  "playout_fill_step io pending_samples latest d =
     run_bind (if depth_packets (egress_depth (ld_egress d)) = 0 then refill_egress_buffer pending_samples d
               else (Returns latest, d)) (\<lambda>latest1 d1.
       case egress_pop (ld_egress d1) of
         (None, egress) \<Rightarrow> (Returns (False, latest1), d1\<lparr>ld_egress := egress\<rparr>)
       | (Some frame, egress) \<Rightarrow>
           run_bind (speaking_before_media io (d1\<lparr>ld_egress := egress\<rparr>)) (\<lambda>_ d2.
           run_bind (prepare_slot_packet io (frame_data frame) (frame_duration_samples frame) d2) (\<lambda>packet d3.
           run_bind (enqueue_prepared packet frame d3) (\<lambda>_ d4.
           run_bind (refill_egress_buffer pending_samples d4) (\<lambda>depth d5. (Returns (True, depth), d5))))))"

lemma run_bind_Returns:
  "run_bind m k = (Returns y, d') \<longleftrightarrow> (\<exists>x d1. m = (Returns x, d1) \<and> k x d1 = (Returns y, d'))"
  by (auto simp: run_bind_def split: run.splits prod.splits)

lemma refill_step_prepared: "refill_step d = (r, d') \<Longrightarrow> ld_prepared d' = ld_prepared d"
  by (auto simp: refill_step_def run_bind_def poll_source_def restore_source_def resume_after_underrun_def emit_metric_def
      Let_def split: run.splits option.splits prod.splits sum.splits if_splits)

lemma refill_loop_prepared: "refill_loop t l d = (r, d') \<Longrightarrow> ld_prepared d' = ld_prepared d"
proof (induction t l d rule: refill_loop.induct)
  case (1 t l d)
  obtain r1 d1 where step: "refill_step d = (r1, d1)" by fastforce
  note prep = refill_step_prepared [OF step]
  show ?case
  proof (cases "refill_wanted t d \<and> (\<exists>depth. r1 = Returns (True, depth))")
    case True
    with 1 step prep show ?thesis by (auto simp: refill_loop.simps [of t l d])
  next
    case False
    with "1.prems" step prep show ?thesis
      by (auto simp: refill_loop.simps [of t l d] split: if_splits run.splits prod.splits bool.splits)
  qed
qed

lemma refill_egress_prepared: "refill_egress_buffer p d = (Returns depth, d') \<Longrightarrow> ld_prepared d' = ld_prepared d"
  by (auto simp: refill_egress_buffer_def run_bind_Returns source_depth_now_def emit_metric_def split: prod.splits
      dest: refill_loop_prepared)

lemma playout_fill_step_grows:
  assumes "playout_fill_step io p l d = (Returns (True, depth), d')" and "fill_wanted p d"
  shows "pp_packets (ld_prepared d') = Suc (pp_packets (ld_prepared d)) \<and> pp_packets (ld_prepared d) < PLAYBACK_QUEUE_CAPACITY"
proof -
  have less: "pp_packets (ld_prepared d) < PLAYBACK_QUEUE_CAPACITY"
    using assms(2) by (simp add: fill_wanted_def playout_is_full_def)
  have cap: "PLAYBACK_QUEUE_CAPACITY < usize_MAX" by (simp add: PLAYBACK_QUEUE_CAPACITY_def)
  from assms(1) obtain latest1 d1 where
    start: "(if depth_packets (egress_depth (ld_egress d)) = 0 then refill_egress_buffer p d else (Returns l, d)) = (Returns latest1, d1)"
    by (auto simp: playout_fill_step_def run_bind_Returns)
  obtain popped egress where pop: "egress_pop (ld_egress d1) = (popped, egress)" by fastforce
  with assms(1) start obtain frame where "popped = Some frame"
    by (cases popped) (auto simp: playout_fill_step_def run_bind_def split: if_splits)
  with assms(1) start pop obtain u d2 packet d3 d4 where
    "speaking_before_media io (d1\<lparr>ld_egress := egress\<rparr>) = (Returns u, d2)"
    and "prepare_slot_packet io (frame_data frame) (frame_duration_samples frame) d2 = (Returns packet, d3)"
    and enq: "enqueue_prepared packet frame d3 = (Returns (), d4)"
    and "refill_egress_buffer p d4 = (Returns depth, d')"
    by (auto simp: playout_fill_step_def run_bind_Returns)
  with start have same: "ld_prepared d3 = ld_prepared d" "ld_prepared d' = ld_prepared d4"
    by (auto simp: speaking_before_media_def prepare_slot_packet_def refill_egress_prepared split: if_splits prod.splits
        dest: refill_egress_prepared)
  have "pp_packets (ld_prepared d4) = usize_saturating_add (pp_packets (ld_prepared d3)) 1"
    using enq
    by (auto simp: enqueue_prepared_def take_rebuild_credit_def playout_push_def record_prepared_playout_event_def
        emit_metric_def Let_def split: prod.splits if_splits)
  with less cap same show ?thesis by (simp add: usize_saturating_add_def)
qed

function fill_prepared_loop ::
  "('ds, 'w, 'u) media_io \<Rightarrow> u64 \<Rightarrow> OpusBufferDepth \<Rightarrow> ('ds, 'w, 'u) LiveMediaDriver
    \<Rightarrow> OpusBufferDepth run \<times> ('ds, 'w, 'u) LiveMediaDriver" where
  "fill_prepared_loop io pending_samples latest d =
    (if fill_wanted pending_samples d
     then (case playout_fill_step io pending_samples latest d of
             (Returns (True, depth), d1) \<Rightarrow> fill_prepared_loop io pending_samples depth d1
           | (Returns (False, depth), d1) \<Rightarrow> (Returns depth, d1)
           | (Raises err, d1) \<Rightarrow> (Raises err, d1)
           | (Aborts, d1) \<Rightarrow> (Aborts, d1)
           | (Blocks, d1) \<Rightarrow> (Blocks, d1))
     else (Returns latest, d))"
  by pat_completeness auto
termination
  by (relation "measure (\<lambda>(_, _, _, d). PLAYBACK_QUEUE_CAPACITY - pp_packets (ld_prepared d))")
    (auto dest: playout_fill_step_grows [OF sym])

declare fill_prepared_loop.simps [simp del]

definition fill_prepared_playout_queue ::
  "('ds, 'w, 'u) media_io \<Rightarrow> u64 \<Rightarrow> ('ds, 'w, 'u) LiveMediaDriver
    \<Rightarrow> OpusBufferDepth run \<times> ('ds, 'w, 'u) LiveMediaDriver" where
  "fill_prepared_playout_queue io pending_samples d =
     run_bind (refill_egress_buffer pending_samples d) (\<lambda>latest d1.
     run_bind (fill_prepared_loop io pending_samples latest d1) (\<lambda>depth d2.
       (Returns depth, emit_metric (EgressDepth (playout_depth (ld_prepared d2))) d2)))"

section \<open>Handing over and taking back\<close>

definition pump_step ::
  "PreparedTrackPlayout \<Rightarrow> PreparedPlayoutQueue \<Rightarrow> ('ds, 'w, 'u) LiveMediaDriver \<Rightarrow> unit run \<times> ('ds, 'w, 'u) LiveMediaDriver" where
  "pump_step prepared queue d =
    (let command = play_command prepared;
         d1 = record_prepared_playout_event DequeuedToDeadlineSender ReasonSteadyPlayback command (playout_depth queue)
                (d\<lparr>ld_prepared := queue\<rparr>)
     in case try_send_command command (ld_sender d1) of
          (Inl err, sender) \<Rightarrow> (Raises err, d1\<lparr>ld_sender := sender\<rparr>)
        | (Inr _, sender) \<Rightarrow>
            (Returns (), d1\<lparr>ld_sender := sender,
                            ld_pending := ld_pending d1 @ [PendingDeadlineCommand_new command (Some (play_frame prepared))]\<rparr>))"

lemma pump_step_prepared: "ld_prepared (snd (pump_step prepared queue d)) = queue"
  by (simp add: pump_step_def record_prepared_playout_event_def emit_metric_def Let_def split: prod.splits sum.splits)

lemma playout_pop_shrinks: "playout_pop q = (Some x, q') \<Longrightarrow> length (pp_queue q') < length (pp_queue q)"
  by (auto simp: playout_pop_def split: list.splits)

function pump_prepared_playout_to_deadline_sender ::
  "('ds, 'w, 'u) LiveMediaDriver \<Rightarrow> unit run \<times> ('ds, 'w, 'u) LiveMediaDriver" where
  "pump_prepared_playout_to_deadline_sender d =
    (if available_command_capacity (ld_sender d) > 0
     then (case playout_pop (ld_prepared d) of
             (None, queue) \<Rightarrow> (Returns (), d\<lparr>ld_prepared := queue\<rparr>)
           | (Some prepared, queue) \<Rightarrow>
              (case pump_step prepared queue d of
                 (Returns _, d1) \<Rightarrow> pump_prepared_playout_to_deadline_sender d1
               | (r, d1) \<Rightarrow> (r, d1)))
     else (Returns (), d))"
  by pat_completeness auto
termination
proof (relation "measure (\<lambda>d. length (pp_queue (ld_prepared d)))")
  fix d :: "('ds, 'w, 'u) LiveMediaDriver" and x popped queue prepared pair d1 r u
  assume "(popped, queue) = playout_pop (ld_prepared d)" "popped = Some prepared"
    "(r, d1) = pump_step prepared queue d"
  then have "ld_prepared d1 = queue" "length (pp_queue queue) < length (pp_queue (ld_prepared d))"
    using pump_step_prepared [of prepared queue d] playout_pop_shrinks [of "ld_prepared d" prepared queue]
    by (metis snd_conv, simp)
  then show "(d1, d) \<in> measure (\<lambda>d. length (pp_queue (ld_prepared d)))" by simp
qed simp_all

declare pump_prepared_playout_to_deadline_sender.simps [simp del]

fun drop_pending_loop ::
  "PreparedPlayoutQueueEventReason \<Rightarrow> PendingDeadlineCommand list \<Rightarrow> OpusFrame list \<Rightarrow> ('ds, 'w, 'u) LiveMediaDriver
    \<Rightarrow> OpusFrame list \<times> ('ds, 'w, 'u) LiveMediaDriver" where
  "drop_pending_loop reason [] frames d = (frames, d\<lparr>ld_pending := []\<rparr>)"
| "drop_pending_loop reason (pending # pendings) frames d =
    (let event = pending_prepared_playout_queue_event DroppedBeforeSend reason pending (playout_depth (ld_prepared d));
         d1 = emit_metric (PreparedPlayoutQueueEvent event) d
     in drop_pending_loop reason pendings
          (case pend_frame pending of None \<Rightarrow> frames | Some frame \<Rightarrow> frames @ [frame]) d1)"

definition replace_deadline_sender_after_invalidation_at ::
  "PreparedPlayoutQueueEventReason \<Rightarrow> nanos \<Rightarrow> ('ds, 'w, 'u) LiveMediaDriver
    \<Rightarrow> OpusFrame list run \<times> ('ds, 'w, 'u) LiveMediaDriver" where
  "replace_deadline_sender_after_invalidation_at reason deadline d =
     run_bind (replace_sender deadline d) (\<lambda>_ d1.
       let (frames, d2) = drop_pending_loop reason (ld_pending d1) [] d1 in (Returns frames, d2))"

definition replace_deadline_sender_after_invalidation ::
  "PreparedPlayoutQueueEventReason \<Rightarrow> ('ds, 'w, 'u) LiveMediaDriver
    \<Rightarrow> OpusFrame list run \<times> ('ds, 'w, 'u) LiveMediaDriver" where
  "replace_deadline_sender_after_invalidation reason d =
     replace_deadline_sender_after_invalidation_at reason (ld_now d + FRAME_DURATION) d"

fun drain_prepared_frames ::
  "PreparedPlayoutQueueEventReason \<Rightarrow> PreparedTrackPlayout list \<Rightarrow> OpusFrame list \<Rightarrow> ('ds, 'w, 'u) LiveMediaDriver
    \<Rightarrow> OpusFrame list \<times> ('ds, 'w, 'u) LiveMediaDriver" where
  "drain_prepared_frames reason [] frames d = (frames, d)"
| "drain_prepared_frames reason (prepared # rest) frames d =
    (let queue = snd (playout_pop (ld_prepared d));
         d1 = record_prepared_playout_event DroppedBeforeSend reason (play_command prepared) (playout_depth queue)
                (d\<lparr>ld_prepared := queue\<rparr>)
     in drain_prepared_frames reason rest (frames @ [play_frame prepared]) d1)"

fun drain_raw_frames ::
  "OpusFrame list \<Rightarrow> OpusFrame list \<Rightarrow> DiscordEgressBuffer \<Rightarrow> OpusFrame list \<times> DiscordEgressBuffer" where
  "drain_raw_frames [] frames egress = (frames, egress)"
| "drain_raw_frames (frame # rest) frames egress = drain_raw_frames rest (frames @ [frame]) (snd (egress_pop egress))"

text \<open>Both loops pop until the queue is empty: they run over its content.\<close>

definition drain_egress_frames ::
  "PreparedPlayoutQueueEventReason \<Rightarrow> ('ds, 'w, 'u) LiveMediaDriver
    \<Rightarrow> OpusFrame list \<times> ('ds, 'w, 'u) LiveMediaDriver" where
  "drain_egress_frames reason d =
    (let (frames, d1) = drain_prepared_frames reason (pp_queue (ld_prepared d)) [] d;
         (frames1, egress) = drain_raw_frames (q_inner (egress_queue (ld_egress d1))) frames (ld_egress d1)
     in (frames1, d1\<lparr>ld_egress := egress\<rparr>))"

text \<open>Counters of a flush: restored, discarded and skipped frames with their samples.\<close>

record flush_counts =
  restored_count :: u64
  restored_samples :: u64
  discarded_count :: u64
  discarded_samples :: u64
  skipped_count :: u64
  skipped_samples :: u64

definition count_discarded :: "bool \<Rightarrow> OpusFrame \<Rightarrow> flush_counts \<Rightarrow> flush_counts" where
  "count_discarded skipped frame c =
    (let samples = u64_from_u32 (frame_duration_samples frame);
         c1 = c\<lparr>discarded_count := saturating_add (discarded_count c) 1,
                discarded_samples := saturating_add (discarded_samples c) samples\<rparr>
     in if skipped then c1
        else c1\<lparr>skipped_count := saturating_add (skipped_count c1) 1,
                skipped_samples := saturating_add (skipped_samples c1) samples\<rparr>)"

fun restore_source_loop ::
  "PreparedPlayoutQueueEventReason \<Rightarrow> OpusFrame list \<Rightarrow> OpusBufferDepth \<Rightarrow> flush_counts \<Rightarrow> ('ds, 'w, 'u) LiveMediaDriver
    \<Rightarrow> OpusBufferDepth \<times> flush_counts \<times> ('ds, 'w, 'u) LiveMediaDriver" where
  "restore_source_loop reason [] remaining c d = (remaining, c, d)"
| "restore_source_loop reason (frame # frames) remaining c d =
    (case restore_source frame d of
       (Inr depth, d1) \<Rightarrow>
         restore_source_loop reason frames depth
           (c\<lparr>restored_count := saturating_add (restored_count c) 1,
              restored_samples := saturating_add (restored_samples c) (u64_from_u32 (frame_duration_samples frame))\<rparr>)
           (remember_rebuild_credit frame reason d1)
     | (Inl frame1, d1) \<Rightarrow>
         restore_source_loop reason frames remaining (count_discarded (ld_skipped_on_stop d1) frame1 c) d1)"

definition report_flush ::
  "PreparedPlayoutQueueEventReason \<Rightarrow> OpusBufferDepth \<Rightarrow> flush_counts \<Rightarrow> ('ds, 'w, 'u) LiveMediaDriver
    \<Rightarrow> ('ds, 'w, 'u) LiveMediaDriver" where
  "report_flush reason remaining c d =
    (let d1 = (if skipped_count c > 0
               then emit_metric (SenderSkippedSourceFrames (skipped_count c) (skipped_samples c) remaining) d else d);
         d2 = (if restored_count c > 0
               then emit_metric (RestoredSourceFrames (restored_count c) (restored_samples c)) d1 else d1)
     in if discarded_count c > 0
        then emit_metric (EgressDroppedMusicFrames (discarded_count c) (discarded_samples c))
               (emit_metric (DiscardedSourceFrames reason (discarded_count c) (discarded_samples c)) d2)
        else d2)"

definition restore_flushed ::
  "PreparedPlayoutQueueEventReason \<Rightarrow> OpusFrame list \<Rightarrow> ('ds, 'w, 'u) LiveMediaDriver \<Rightarrow> ('ds, 'w, 'u) LiveMediaDriver" where
  "restore_flushed reason frames d =
    (case restore_interrupted_frames_to_egress_buffer (ld_egress d) (ld_credits d) reason frames of
       ((egress, credits), restored, samples, refused) \<Rightarrow>
         (let d1 = d\<lparr>ld_egress := egress, ld_credits := credits\<rparr>;
              (r, st) = current_source_depth (ld_source d1);
              remaining = (case r of Inl _ \<Rightarrow> OpusBufferDepth_default | Inr depth \<Rightarrow> depth);
              (remaining1, c, d2) = restore_source_loop reason (rev refused) remaining
                \<lparr>restored_count = restored, restored_samples = samples, discarded_count = 0, discarded_samples = 0,
                 skipped_count = 0, skipped_samples = 0\<rparr> (d1\<lparr>ld_source := st\<rparr>)
          in report_flush reason remaining1 c d2))"

definition flush_egress_buffer_for_interruption ::
  "PreparedPlayoutQueueEventReason \<Rightarrow> OpusFrame list \<Rightarrow> ('ds, 'w, 'u) LiveMediaDriver \<Rightarrow> ('ds, 'w, 'u) LiveMediaDriver" where
  "flush_egress_buffer_for_interruption reason frames d =
    (let (drained, d1) = drain_egress_frames reason d;
         all_frames = frames @ drained;
         d2 = (if all_frames = [] then d1 else restore_flushed reason all_frames d1)
     in emit_metric (EgressDepth (playout_depth (ld_prepared d2))) d2)"

text \<open>Invalidating what is prepared and taking all of it back, as pause, stop and a new epoch do.\<close>

definition interrupt_playout ::
  "PreparedPlayoutQueueEventReason \<Rightarrow> nanos \<Rightarrow> ('ds, 'w, 'u) LiveMediaDriver \<Rightarrow> unit run \<times> ('ds, 'w, 'u) LiveMediaDriver" where
  "interrupt_playout reason deadline d =
     run_bind (replace_deadline_sender_after_invalidation_at reason deadline
         (discard_unsent (invalidate_prepared_playout_generation d)))
       (\<lambda>frames d1. (Returns (), flush_egress_buffer_for_interruption reason frames d1))"

definition rebuild_prepared_playout_for_dave_transition ::
  "nanos \<Rightarrow> ('ds, 'w, 'u) LiveMediaDriver \<Rightarrow> unit run \<times> ('ds, 'w, 'u) LiveMediaDriver" where
  "rebuild_prepared_playout_for_dave_transition deadline d =
     interrupt_playout ReasonDaveTransitionRecovery deadline d"

section \<open>Outcomes\<close>

definition account_unsent_egress_frame ::
  "OpusFrame \<Rightarrow> OpusBufferDepth \<Rightarrow> PreparedPlayoutQueueEventReason \<Rightarrow> ('ds, 'w, 'u) LiveMediaDriver
    \<Rightarrow> ('ds, 'w, 'u) LiveMediaDriver" where
  "account_unsent_egress_frame frame remaining reason d =
    (let samples = u64_from_u32 (frame_duration_samples frame);
         restored_report = (\<lambda>d. emit_metric (RestoredSourceFrames 1 samples) (remember_rebuild_credit frame reason d));
         (r, egress) = egress_push_front (ld_egress d) frame;
         d1 = d\<lparr>ld_egress := egress\<rparr>;
         d2 = (case r of
                 Inr _ \<Rightarrow> restored_report d1
               | Inl frame1 \<Rightarrow>
                  (case restore_source frame1 d1 of
                     (Inr _, d3) \<Rightarrow> restored_report d3
                   | (Inl frame2, d3) \<Rightarrow>
                      (let dropped = u64_from_u32 (frame_duration_samples frame2);
                           d4 = (if ld_skipped_on_stop d3 then d3
                                 else emit_metric (SenderSkippedSourceFrames 1 dropped remaining) d3)
                       in emit_metric (DiscardedSourceFrames reason 1 dropped)
                            (emit_metric (EgressDroppedMusicFrames 1 dropped) d4))))
     in emit_metric (EgressDepth (playout_depth (ld_prepared d2))) d2)"

definition account_deadline_outcome ::
  "LiveDeadlineOutcome \<Rightarrow> OpusBufferDepth \<Rightarrow> ('ds, 'w, 'u) LiveMediaDriver
    \<Rightarrow> DeadlineSendRecord option run \<times> ('ds, 'w, 'u) LiveMediaDriver" where
  "account_deadline_outcome outcome remaining d =
    (case ld_pending d of
       [] \<Rightarrow> (Raises (RuntimeInvalidState ''deadline sender emitted a record without a pending command''), d)
     | pending # pendings \<Rightarrow>
        (let d1 = d\<lparr>ld_pending := pendings\<rparr> in
         case outcome of
           OutcomeSent rec \<Rightarrow>
             (if \<not> matches_sent_record pending rec
              then (Raises (RuntimeInvalidState ''deadline sender committed a different prepared command than queued''), d1)
              else (Returns (Some rec), d1))
         | OutcomeDropped rec \<Rightarrow>
             (if \<not> matches_drop_record pending rec
              then (Raises (RuntimeInvalidState ''deadline sender dropped a different prepared command than queued''), d1)
              else (let event = dropped_prepared_playout_queue_event ReasonInterruption rec (playout_depth (ld_prepared d1));
                        d2 = emit_metric (PreparedPlayoutQueueEvent event) d1
                    in (Returns None,
                        (case pend_frame pending of
                           None \<Rightarrow> d2
                         | Some frame \<Rightarrow> account_unsent_egress_frame frame remaining ReasonInterruption d2))))))"

text \<open>Taking every outcome that is there. Each takes a pending command, or raises.\<close>

lemma account_shrinks:
  "account_deadline_outcome outcome remaining d = (Returns r, d') \<Longrightarrow> length (ld_pending d') < length (ld_pending d)"
  by (auto simp: account_deadline_outcome_def account_unsent_egress_frame_def restore_source_def remember_rebuild_credit_def
      emit_metric_def Let_def split: list.splits LiveDeadlineOutcome.splits if_splits option.splits prod.splits sum.splits)

function drain_ready_deadline_outcomes ::
  "OpusBufferDepth \<Rightarrow> DeadlineSendRecord list \<Rightarrow> ('ds, 'w, 'u) LiveMediaDriver
    \<Rightarrow> DeadlineSendRecord list run \<times> ('ds, 'w, 'u) LiveMediaDriver" where
  "drain_ready_deadline_outcomes remaining sent d =
    (case try_next_outcome (ld_sender d) of
       (Inl err, sender) \<Rightarrow> (Raises err, d\<lparr>ld_sender := sender\<rparr>)
     | (Inr None, sender) \<Rightarrow> (Returns sent, d\<lparr>ld_sender := sender\<rparr>)
     | (Inr (Some outcome), sender) \<Rightarrow>
        (case account_deadline_outcome outcome remaining (d\<lparr>ld_sender := sender\<rparr>) of
           (Returns None, d1) \<Rightarrow> drain_ready_deadline_outcomes remaining sent d1
         | (Returns (Some rec), d1) \<Rightarrow> drain_ready_deadline_outcomes remaining (sent @ [rec]) d1
         | (Raises err, d1) \<Rightarrow> (Raises err, d1)
         | (Aborts, d1) \<Rightarrow> (Aborts, d1)
         | (Blocks, d1) \<Rightarrow> (Blocks, d1)))"
  by pat_completeness auto
termination
  by (relation "measure (\<lambda>(_, _, d). length (ld_pending d))") (auto dest!: account_shrinks [OF sym])

declare drain_ready_deadline_outcomes.simps [simp del]

definition sent_metric ::
  "DeadlineSendRecord \<Rightarrow> PacerMark \<Rightarrow> u64 \<Rightarrow> VoiceGatewayDrainReport \<Rightarrow> OpusBufferDepth \<Rightarrow> OpusBufferDepth \<Rightarrow> SenderSentMetric" where
  "sent_metric rec mark index gateway_drain remaining egress =
     \<lparr>sm_packet_index = index, sm_kind = sent_kind rec, sm_duration_ms = sent_duration_ms rec,
      sm_duration_samples = sent_duration_samples rec, sm_is_track = (sent_media_frame rec \<noteq> None),
      sm_expected_deadline = sent_expected_deadline rec, sm_send_started_at = sent_started_at rec,
      sm_sent_at = sent_at rec, sm_send_duration = sent_at rec - sent_started_at rec,
      sm_rtp_sequence = sent_rtp_sequence rec, sm_rtp_timestamp = sent_rtp_timestamp rec,
      sm_protection_nonce = sent_protection_nonce rec, sm_media_frame = sent_media_frame rec,
      sm_non_send_work_duration = 0, sm_gateway_drain = gateway_drain,
      sm_media_clock_reset = media_clock_reset mark, sm_tempo_rebased = tempo_rebased mark,
      sm_remaining_depth = remaining, sm_egress_depth = egress\<rparr>"

definition mark_committed :: "AudioPacer \<Rightarrow> DeadlineSendRecord \<Rightarrow> PacerMark \<times> AudioPacer" where
  "mark_committed pacer rec =
     mark_sent pacer (if sent_media_frame rec \<noteq> None then PacedPacketKind.Track else NonTrack)
       (sent_expected_deadline rec) (frame_duration_from_samples (sent_duration_samples rec)) (sent_started_at rec)"

text \<open>Every caller passes no other work of the sender loop.\<close>

definition record_deadline_send_metric ::
  "DeadlineSendRecord \<Rightarrow> VoiceGatewayDrainReport \<Rightarrow> OpusBufferDepth \<Rightarrow> ('ds, 'w, 'u) LiveMediaDriver
    \<Rightarrow> ('ds, 'w, 'u) LiveMediaDriver" where
  "record_deadline_send_metric rec gateway_drain remaining d =
    (let (mark, pacer) = mark_committed (ld_pacer d) rec;
         egress = prepared_playout_depth_with_pending (ld_prepared d) (ld_pending d);
         metric = sent_metric rec mark (ld_packet_index d) gateway_drain remaining egress
     in (emit_metric (SenderSent metric) d)\<lparr>ld_pacer := pacer, ld_packet_index := saturating_add (ld_packet_index d) 1\<rparr>)"

definition record_sent_metrics ::
  "DeadlineSendRecord list \<Rightarrow> OpusBufferDepth \<Rightarrow> ('ds, 'w, 'u) LiveMediaDriver \<Rightarrow> ('ds, 'w, 'u) LiveMediaDriver" where
  "record_sent_metrics recs remaining d =
     foldl (\<lambda>d rec. record_deadline_send_metric rec VoiceGatewayDrainReport_default remaining d) d recs"

definition drain_and_report ::
  "('ds, 'w, 'u) LiveMediaDriver \<Rightarrow> unit run \<times> ('ds, 'w, 'u) LiveMediaDriver" where
  "drain_and_report d =
     run_bind (source_depth_now d) (\<lambda>depth d1.
     run_bind (drain_ready_deadline_outcomes depth [] d1) (\<lambda>recs d2.
       (Returns (), record_sent_metrics recs depth d2)))"

section \<open>Silence\<close>

definition silence_depth :: OpusBufferDepth where
  "silence_depth = \<lparr>depth_packets = 1, depth_bytes = length SILENCE_FRAME, depth_duration_ms = 20,
     depth_duration_samples = 960\<rparr>"

definition enqueue_scheduled_silence ::
  "('ds, 'w, 'u) media_io \<Rightarrow> PreparedPlayoutQueueEventReason \<Rightarrow> ('ds, 'w, 'u) LiveMediaDriver
    \<Rightarrow> unit run \<times> ('ds, 'w, 'u) LiveMediaDriver" where
  "enqueue_scheduled_silence io reason d =
     run_bind (prepare_slot_packet io SILENCE_FRAME 960 d) (\<lambda>packet d1.
       let command = \<lparr>cmd_packet = packet, cmd_kind = ScheduledSilence, cmd_media_frame = None,
                      cmd_generation = current_playout_generation d1\<rparr>;
           d2 = record_prepared_playout_event Enqueued reason command
                  \<lparr>depth_packets = 1, depth_bytes = length (prepared_bytes packet),
                   depth_duration_ms = prepared_duration_ms packet,
                   depth_duration_samples = u64_from_u32 (prepared_duration_samples packet)\<rparr> d1
       in case try_send_command command (ld_sender d2) of
            (Inl err, sender) \<Rightarrow> (Raises err, d2\<lparr>ld_sender := sender\<rparr>)
          | (Inr _, sender) \<Rightarrow>
             (Returns (),
              emit_metric (NonTrackPlayoutQueueDepth SendScheduledSilence silence_depth)
                (d2\<lparr>ld_sender := sender,
                    ld_pending := ld_pending d2 @ [PendingDeadlineCommand_new command None]\<rparr>)))"

definition pending_source_silence :: "('ds, 'w, 'u) LiveMediaDriver \<Rightarrow> usize" where
  "pending_source_silence d =
     length (filter (\<lambda>pending. pend_kind pending = ScheduledSilence \<and> pend_frame pending = None) (ld_pending d))"

text \<open>The loop runs for as many packets as are missing, or until the channel is full.\<close>

fun silence_loop ::
  "nat \<Rightarrow> ('ds, 'w, 'u) media_io \<Rightarrow> ('ds, 'w, 'u) LiveMediaDriver \<Rightarrow> unit run \<times> ('ds, 'w, 'u) LiveMediaDriver" where
  "silence_loop 0 io d = (Returns (), d)"
| "silence_loop (Suc missing) io d =
    (if available_command_capacity (ld_sender d) > 0
     then run_bind (enqueue_scheduled_silence io ReasonSourceUnderrun d) (\<lambda>_ d1. silence_loop missing io d1)
     else (Returns (), d))"

definition fill_source_underrun_silence_deadline_queue ::
  "('ds, 'w, 'u) media_io \<Rightarrow> ('ds, 'w, 'u) LiveMediaDriver \<Rightarrow> unit run \<times> ('ds, 'w, 'u) LiveMediaDriver" where
  "fill_source_underrun_silence_deadline_queue io d =
    (let missing = SOURCE_UNDERRUN_DEADLINE_AHEAD_PACKETS - pending_source_silence d in
     run_bind (if missing > 0 \<and> available_command_capacity (ld_sender d) > 0 then speaking_before_media io d
               else (Returns (), d)) (\<lambda>_ d1. silence_loop missing io d1))"

section \<open>The boundary of a stop\<close>

fun boundary_loop ::
  "nat \<Rightarrow> ('ds, 'w, 'u) media_io \<Rightarrow> u64 \<Rightarrow> DeadlineSendRecord list \<Rightarrow> ('ds, 'w, 'u) LiveMediaDriver
    \<Rightarrow> DeadlineSendRecord list run \<times> ('ds, 'w, 'u) LiveMediaDriver" where
  "boundary_loop 0 io generation sent d = (Returns sent, d)"
| "boundary_loop (Suc n) io generation sent d =
     run_bind (prepare_slot_packet io SILENCE_FRAME 960 d) (\<lambda>packet d1.
     run_bind (send_command (ld_ticks d1) io
         \<lparr>cmd_packet = packet, cmd_kind = BoundarySilence, cmd_media_frame = None, cmd_generation = generation\<rparr> d1) (\<lambda>_ d2.
     run_bind (next_outcome io d2) (\<lambda>outcome d3.
       case outcome of
         OutcomeSent rec \<Rightarrow>
           (if sent_kind rec \<noteq> BoundarySilence
            then (Raises (RuntimeInvalidState ''deadline sender committed a non-boundary command during stop boundary''), d3)
            else boundary_loop n io generation (sent @ [rec]) d3)
       | OutcomeDropped _ \<Rightarrow>
           (Raises (RuntimeInvalidState ''deadline sender dropped stop boundary silence''), d3))))"

definition stop_speaking_now ::
  "('ds, 'w, 'u) media_io \<Rightarrow> ('ds, 'w, 'u) LiveMediaDriver \<Rightarrow> unit run \<times> ('ds, 'w, 'u) LiveMediaDriver" where
  "stop_speaking_now io d =
    (case stop_speaking (io_ws io) (ld_session d) (ld_world d) of
       (r, s, w) \<Rightarrow> (run_of_voice r, d\<lparr>ld_session := s, ld_world := w\<rparr>))"

definition send_stop_audio_boundary_through_deadline_sender ::
  "('ds, 'w, 'u) media_io \<Rightarrow> u64 \<Rightarrow> ('ds, 'w, 'u) LiveMediaDriver
    \<Rightarrow> DeadlineSendRecord list run \<times> ('ds, 'w, 'u) LiveMediaDriver" where
  "send_stop_audio_boundary_through_deadline_sender io generation d =
     run_bind (speaking_before_media io d) (\<lambda>_ d1.
     run_bind (boundary_loop STOP_AUDIO_BOUNDARY_SILENCE_PACKETS io generation [] d1) (\<lambda>sent d2.
       if length sent \<noteq> STOP_AUDIO_BOUNDARY_SILENCE_PACKETS
       then (Raises (RuntimeInvalidState ''deadline sender did not send the complete stop boundary''), d2)
       else run_bind (stop_speaking_now io d2) (\<lambda>_ d3. (Returns sent, d3))))"

section \<open>Commands\<close>

text \<open>No caller has a packet selected when a command arrives, so nothing is taken back for it alone. The
  result says whether the driver stops.\<close>

definition apply_command ::
  "('ds, 'w, 'u) media_io \<Rightarrow> MediaCommand \<Rightarrow> OpusBufferDepth \<Rightarrow> ('ds, 'w, 'u) LiveMediaDriver
    \<Rightarrow> bool run \<times> ('ds, 'w, 'u) LiveMediaDriver" where
  "apply_command io command remaining d =
    (case command of
       PauseMedia \<Rightarrow>
         (if ld_paused d then (Returns False, d)
          else run_bind (interrupt_playout ReasonPause (ld_now d + FRAME_DURATION) d) (\<lambda>_ d1.
            run_bind (send_stop_audio_boundary_through_deadline_sender io (current_playout_generation d1)
                (emit_metric (NonTrackPlayoutQueueDepth SendBoundarySilence silence_depth)
                  (emit_metric (ExplicitMediaBoundary ReasonPause) d1))) (\<lambda>recs d2.
              let d3 = record_sent_metrics recs remaining d2
              in (Returns False,
                  emit_metric (SenderMediaClockReset ResetPauseResume)
                    (d3\<lparr>ld_paused := True, ld_pacer := reset_deadline (ld_pacer d3) (ld_now d3)\<rparr>)))))
     | ResumeMedia \<Rightarrow>
         (if \<not> ld_paused d then (Returns False, d)
          else run_bind (speaking_before_media io (d\<lparr>ld_paused := False\<rparr>)) (\<lambda>_ d1.
            (Returns False,
             emit_metric SenderResumedFromPause
               (emit_metric (SenderMediaClockReset ResetPauseResume)
                 (d1\<lparr>ld_pacer := reset_deadline (ld_pacer d1) (ld_now d1)\<rparr>)))))
     | StopMedia skipped \<Rightarrow>
         run_bind (interrupt_playout ReasonStop (ld_now d + FRAME_DURATION) (d\<lparr>ld_skipped_on_stop := skipped\<rparr>))
           (\<lambda>_ d1. (Returns True, d1)))"

fun drain_commands ::
  "('ds, 'w, 'u) media_io \<Rightarrow> OpusBufferDepth \<Rightarrow> MediaCommand list \<Rightarrow> ('ds, 'w, 'u) LiveMediaDriver
    \<Rightarrow> bool option run \<times> ('ds, 'w, 'u) LiveMediaDriver" where
  "drain_commands io remaining [] d = (Returns None, d)"
| "drain_commands io remaining (command # commands) d =
     run_bind (apply_command io command remaining d) (\<lambda>stop d1.
       if stop then (Returns (Some False), d1) else drain_commands io remaining commands d1)"

text \<open>While paused: commands arrive, or the sleep ends and the epoch is looked at again. The channel of
  commands may also close.\<close>

datatype paused_event = PausedCommand "MediaCommand option" | PausedSleep u64

fun wait_while_paused ::
  "('ds, 'w, 'u) media_io \<Rightarrow> paused_event list \<Rightarrow> ('ds, 'w, 'u) LiveMediaDriver
    \<Rightarrow> bool option run \<times> ('ds, 'w, 'u) LiveMediaDriver" where
  "wait_while_paused io events d =
    (if \<not> ld_paused d then (Returns None, d)
     else if \<not> playback_is_current d then (Returns (Some False), d)
     else (case events of
             [] \<Rightarrow> (Blocks, d)
           | PausedSleep epoch # rest \<Rightarrow>
               wait_while_paused io rest (d\<lparr>ld_now := ld_now d + 10000000, ld_current_playback_epoch := epoch\<rparr>)
           | PausedCommand None # rest \<Rightarrow> (Returns (Some False), d)
           | PausedCommand (Some command) # rest \<Rightarrow>
               run_bind (apply_command io command OpusBufferDepth_default d) (\<lambda>stop d1.
                 if stop then (Returns (Some False), d1) else wait_while_paused io rest d1)))"

declare wait_while_paused.simps [simp del] wait_outcome.simps [simp del] send_command.simps [simp del]

section \<open>The loop\<close>

text \<open>What happens beside the driver, at its awaits and in other threads: the deadline sender ticks, the producer
  publishes a refill, or fails.\<close>

datatype beside =
    SenderTicks tick_clock
  | ProducerPublishes OpusFrameQueue bool
  | ProducerFails PlaybackError

definition beside_step ::
  "('ds, 'w, 'u) media_io \<Rightarrow> beside \<Rightarrow> ('ds, 'w, 'u) LiveMediaDriver \<Rightarrow> ('ds, 'w, 'u) LiveMediaDriver" where
  "beside_step io e d =
    (case e of
       SenderTicks clock \<Rightarrow> sender_tick io clock d
     | ProducerPublishes refill ended \<Rightarrow>
        (let (depth, source) = publish_refill refill ended (ld_source d)
         in d\<lparr>ld_source := source, ld_published := ld_published d @ [(q_inner refill, depth \<noteq> None)]\<rparr>)
     | ProducerFails err \<Rightarrow> d\<lparr>ld_source := (ld_source d)\<lparr>sb_error := Some err\<rparr>\<rparr>)"

definition beside_steps ::
  "('ds, 'w, 'u) media_io \<Rightarrow> beside list \<Rightarrow> ('ds, 'w, 'u) LiveMediaDriver \<Rightarrow> ('ds, 'w, 'u) LiveMediaDriver" where
  "beside_steps io es d = foldl (\<lambda>d e. beside_step io e d) d es"

text \<open>What one round of the loop finds: what happened beside it before it starts, before the commands are looked
  at and after the fill, the commands waiting at its two checks, what happens while it is paused there, the
  epoch at each check, and what comes first at its end.\<close>

datatype round_end = OutcomeFirst | CommandFirst "MediaCommand option"

record round_input =
  ri_beside :: "beside list"
  ri_start_epoch :: u64
  ri_beside_drained :: "beside list"
  ri_commands :: "MediaCommand list"
  ri_paused :: "paused_event list"
  ri_beside_filled :: "beside list"
  ri_epoch :: u64
  ri_commands_after_fill :: "MediaCommand list"
  ri_paused_after_fill :: "paused_event list"
  ri_end :: round_end

text \<open>A round returns whether playback ended naturally, or None when the loop goes on.\<close>

definition leave_epoch :: "('ds, 'w, 'u) LiveMediaDriver \<Rightarrow> bool option run \<times> ('ds, 'w, 'u) LiveMediaDriver" where
  "leave_epoch d =
     run_bind (interrupt_playout ReasonInterruption (ld_now d + FRAME_DURATION) (d\<lparr>ld_skipped_on_stop := True\<rparr>))
       (\<lambda>_ d1. (Returns (Some False), d1))"

definition invalidate_and_discard :: "('ds, 'w, 'u) LiveMediaDriver \<Rightarrow> ('ds, 'w, 'u) LiveMediaDriver" where
  "invalidate_and_discard d = discard_unsent (invalidate_prepared_playout_generation d)"

definition fill_and_pump ::
  "('ds, 'w, 'u) media_io \<Rightarrow> ('ds, 'w, 'u) LiveMediaDriver \<Rightarrow> OpusBufferDepth run \<times> ('ds, 'w, 'u) LiveMediaDriver" where
  "fill_and_pump io d =
     run_bind (fill_prepared_playout_queue io
         (depth_duration_samples (pending_deadline_track_depth (ld_pending d))) d) (\<lambda>latest d1.
     run_bind (pump_prepared_playout_to_deadline_sender d1) (\<lambda>_ d2.
     run_bind (if ld_underrun_active d2 \<and> \<not> ld_source_ended d2
               then fill_source_underrun_silence_deadline_queue io d2 else (Returns (), d2)) (\<lambda>_ d3.
       (Returns latest, d3))))"

definition prepare_media_state ::
  "('ds, 'w, 'u) media_io \<Rightarrow> ('ds, 'w, 'u) LiveMediaDriver
    \<Rightarrow> VoiceGatewayDrainReport outcome \<times> ('ds, 'w, 'u) LiveMediaDriver" where
  "prepare_media_state io d =
    (case prepare_media_state_before_slot (io_davey io) (io_ws io) (next_deadline (ld_pacer d)) (ld_now d)
            (ld_arrivals d) (ld_session d) (ld_world d) of
       (r, now, rest, s, w) \<Rightarrow> (r, d\<lparr>ld_now := now, ld_arrivals := rest, ld_session := s, ld_world := w\<rparr>))"

definition settle_dave ::
  "('ds, 'w, 'u) media_io \<Rightarrow> ('ds, 'w, 'u) LiveMediaDriver
    \<Rightarrow> VoiceGatewayDrainReport run \<times> ('ds, 'w, 'u) LiveMediaDriver" where
  "settle_dave io d =
    (case settle_pending_dave_transition_for_playback (io_davey io) (io_ws io) (ld_now d)
            (ld_arrivals d) (ld_session d) (ld_world d) of
       (r, now, rest, s, w) \<Rightarrow> (run_of_outcome r, d\<lparr>ld_now := now, ld_arrivals := rest, ld_session := s, ld_world := w\<rparr>))"

definition deadline_from_now :: "('ds, 'w, 'u) LiveMediaDriver \<Rightarrow> nanos" where
  "deadline_from_now d = max (next_deadline (ld_pacer d)) (ld_now d)"

text \<open>After a drain that failed for DAVE: the transition is settled and everything prepared is rebuilt.\<close>

definition recover_dave ::
  "('ds, 'w, 'u) media_io \<Rightarrow> ('ds, 'w, 'u) LiveMediaDriver \<Rightarrow> unit run \<times> ('ds, 'w, 'u) LiveMediaDriver" where
  "recover_dave io d =
     run_bind (settle_dave io d) (\<lambda>report d1.
     run_bind (drain_and_report d1) (\<lambda>_ d2.
     let d3 = emit_metric (GatewayDrain report) d2 in
     run_bind (rebuild_prepared_playout_for_dave_transition (deadline_from_now d3) d3) (\<lambda>_ d4.
     run_bind (fill_and_pump io d4) (\<lambda>latest d5.
       (Returns (),
        emit_metric (SourceDepth latest)
          (emit_metric (PreparedTrackQueueDepth
            (prepared_playout_depth_with_pending (ld_prepared d5) (ld_pending d5))) d5))))))"

definition start_source_underrun ::
  "OpusBufferDepth \<Rightarrow> ('ds, 'w, 'u) LiveMediaDriver \<Rightarrow> ('ds, 'w, 'u) LiveMediaDriver" where
  "start_source_underrun latest d =
    (if ld_underrun_active d then d
     else emit_metric SourceUnderrunReachedBuilder
            (emit_metric (ExplicitMediaBoundary ReasonSourceUnderrun)
              (emit_metric (SenderMediaClockReset ResetSourceUnderrun)
                (emit_metric (SenderSourceUnderrun latest) (d\<lparr>ld_underrun_active := True\<rparr>)))))"

definition finish_round ::
  "('ds, 'w, 'u) media_io \<Rightarrow> round_end \<Rightarrow> VoiceGatewayDrainReport \<Rightarrow> OpusBufferDepth \<Rightarrow> ('ds, 'w, 'u) LiveMediaDriver
    \<Rightarrow> bool option run \<times> ('ds, 'w, 'u) LiveMediaDriver" where
  "finish_round io event gateway_drain latest d =
    (case event of
       CommandFirst None \<Rightarrow> (Returns (Some False), d)
     | CommandFirst (Some command) \<Rightarrow>
         run_bind (apply_command io command latest d) (\<lambda>stop d1.
           (Returns (if stop then Some False else None), d1))
     | OutcomeFirst \<Rightarrow>
         run_bind (next_outcome io d) (\<lambda>outcome d1.
         run_bind (account_deadline_outcome outcome latest d1) (\<lambda>sent d2.
           (Returns None,
            (case sent of None \<Rightarrow> d2 | Some rec \<Rightarrow> record_deadline_send_metric rec gateway_drain latest d2)))))"

definition await_round ::
  "('ds, 'w, 'u) media_io \<Rightarrow> round_end \<Rightarrow> VoiceGatewayDrainReport \<Rightarrow> OpusBufferDepth \<Rightarrow> OpusBufferDepth
    \<Rightarrow> ('ds, 'w, 'u) LiveMediaDriver \<Rightarrow> bool option run \<times> ('ds, 'w, 'u) LiveMediaDriver" where
  "await_round io event gateway_drain latest egress d =
    (if ld_pending d = [] \<and> ld_source_ended d then (Returns (Some True), d)
     else run_bind
       (if ld_pending d = []
        then run_bind (fill_source_underrun_silence_deadline_queue io
                 (start_source_underrun latest (emit_metric (SenderEgressUnderrun egress) d)))
               (\<lambda>_ d1. (Returns (), emit_metric SourceUnderrunReachedDeadlineSender d1))
        else (Returns (), d)) (\<lambda>_ d1. finish_round io event gateway_drain latest d1))"

definition playout_round ::
  "('ds, 'w, 'u) media_io \<Rightarrow> round_input \<Rightarrow> VoiceGatewayDrainReport \<Rightarrow> ('ds, 'w, 'u) LiveMediaDriver
    \<Rightarrow> bool option run \<times> ('ds, 'w, 'u) LiveMediaDriver" where
  "playout_round io input gateway_drain d =
     run_bind (if drain_dave_transition_count gateway_drain > 0
               then run_bind (drain_and_report d) (\<lambda>_ d1.
                 rebuild_prepared_playout_for_dave_transition (deadline_from_now d1) d1)
               else (Returns (), d)) (\<lambda>_ d1.
     run_bind (fill_and_pump io d1) (\<lambda>latest d2.
     let egress = prepared_playout_depth_with_pending (ld_prepared d2) (ld_pending d2);
         d3 = emit_metric (EgressDepth egress) d2;
         d4 = (if ld_source_ended d3 then d3 else emit_metric (PreparedTrackQueueDepth egress) d3);
         d5 = (beside_steps io (ri_beside_filled input) d4)\<lparr>ld_current_playback_epoch := ri_epoch input\<rparr>
     in if \<not> playback_is_current d5 then leave_epoch d5
        else run_bind (drain_commands io latest (ri_commands_after_fill input) d5) (\<lambda>ended d6.
          if ended \<noteq> None then (Returns ended, invalidate_and_discard d6)
          else if ld_paused d6
          then run_bind (wait_while_paused io (ri_paused_after_fill input) (invalidate_and_discard d6))
                 (\<lambda>ended1 d7. (Returns ended1, d7))
          else await_round io (ri_end input) gateway_drain latest egress d6)))"

text \<open>How an error prints: the errors of other packages print as their packages do. The loop only asks
  whether the text mentions DAVE.\<close>

fun VoiceError_display :: "(VoiceError \<Rightarrow> string) \<Rightarrow> VoiceError \<Rightarrow> string" where
  "VoiceError_display foreign UnsupportedEncryptionMode = ''unsupported encryption mode''"
| "VoiceError_display foreign (UnsupportedGatewayOp op) = ''voice gateway op unsupported: '' @ show_nat (unat op)"
| "VoiceError_display foreign (UnsupportedBinaryGatewayOp op) =
     ''voice gateway binary opcode unsupported: '' @ show_nat (unat op)"
| "VoiceError_display foreign (VoiceError.InvalidState message) = ''invalid state: '' @ message"
| "VoiceError_display foreign err = foreign err"

definition mentions :: "string \<Rightarrow> string \<Rightarrow> bool" where
  "mentions part text = (\<exists>i \<le> length text. take (length part) (drop i text) = part)"

definition run_round ::
  "('ds, 'w, 'u) media_io \<Rightarrow> (VoiceError \<Rightarrow> string) \<Rightarrow> OpusBufferDepth \<Rightarrow> round_input \<Rightarrow> ('ds, 'w, 'u) LiveMediaDriver
    \<Rightarrow> bool option run \<times> ('ds, 'w, 'u) LiveMediaDriver" where
  "run_round io foreign source_depth input d0 =
    (let d = (beside_steps io (ri_beside input) d0)\<lparr>ld_current_playback_epoch := ri_start_epoch input\<rparr> in
     if \<not> playback_is_current d then leave_epoch d
     else run_bind (drain_and_report d) (\<lambda>_ d1.
       run_bind (drain_commands io source_depth (ri_commands input) (beside_steps io (ri_beside_drained input) d1))
         (\<lambda>ended d2.
         if ended \<noteq> None then (Returns ended, d2)
         else if ld_paused d2
         then run_bind (wait_while_paused io (ri_paused input) d2) (\<lambda>ended1 d3. (Returns ended1, d3))
         else run_bind (if ld_source_ended d2
                        then run_bind (source_depth_now d2) (\<lambda>depth d3.
                          (Returns (), if depth_packets depth > 0 then d3\<lparr>ld_source_ended := False\<rparr> else d3))
                        else (Returns (), d2)) (\<lambda>_ d3.
           case prepare_media_state io d3 of
             (Done report, d4) \<Rightarrow> playout_round io input report d4
           | (Panicked, d4) \<Rightarrow> (Aborts, d4)
           | (Failed err, d4) \<Rightarrow>
              (if mentions ''dave'' (VoiceError_display foreign err)
               then run_bind (recover_dave io d4) (\<lambda>_ d5. (Returns None, d5))
               else (Raises (RuntimeVoice err), d4))))))"

text \<open>The whole loop over the rounds there are inputs for: a round that ends it gives its result.\<close>

fun run_rounds ::
  "('ds, 'w, 'u) media_io \<Rightarrow> (VoiceError \<Rightarrow> string) \<Rightarrow> OpusBufferDepth \<Rightarrow> round_input list
    \<Rightarrow> ('ds, 'w, 'u) LiveMediaDriver \<Rightarrow> bool run \<times> ('ds, 'w, 'u) LiveMediaDriver" where
  "run_rounds io foreign source_depth [] d = (Blocks, d)"
| "run_rounds io foreign source_depth (input # inputs) d =
     run_bind (run_round io foreign source_depth input d) (\<lambda>ended d1.
       case ended of
         Some natural \<Rightarrow> (Returns natural, d1)
       | None \<Rightarrow> run_rounds io foreign source_depth inputs d1)"

record ('ds, 'w, 'u) LiveMediaDriverInput =
  in_playback_epoch :: u64
  in_current_playback_epoch :: u64
  in_source :: SourceBufferState
  in_session :: "'ds ConnectedVoiceSession"
  in_metrics :: "PlaybackPipelineMetric channel"

definition LiveMediaDriver_from ::
  "('ds, 'w, 'u) LiveMediaDriverInput \<Rightarrow> nanos \<Rightarrow> arrivals \<Rightarrow> tick_clock list \<Rightarrow> 'w \<Rightarrow> 'u
    \<Rightarrow> ('ds, 'w, 'u) LiveMediaDriver" where
  "LiveMediaDriver_from input now inputs ticks w u =
     \<lparr>ld_session = in_session input, ld_playback_epoch = in_playback_epoch input,
      ld_current_playback_epoch = in_current_playback_epoch input, ld_source = in_source input,
      ld_metrics = in_metrics input, ld_egress = DiscordEgressBuffer_new, ld_prepared = PreparedPlayoutQueue_new,
      ld_generation = 0, ld_credits = [], ld_skipped_on_stop = False,
      ld_sender = LiveDeadlineSender_spawn 0 0 (now + FRAME_DURATION), ld_pending = [], ld_paused = False,
      ld_pacer = AudioPacer_starting_after now FRAME_DURATION, ld_packet_index = 0, ld_source_ended = False,
      ld_underrun_active = False, ld_now = now, ld_arrivals = inputs, ld_ticks = ticks, ld_world = w, ld_wire = u,
      ld_reported = [], ld_published = []\<rparr>"

definition run_loop ::
  "('ds, 'w, 'u) media_io \<Rightarrow> (VoiceError \<Rightarrow> string) \<Rightarrow> round_input list \<Rightarrow> ('ds, 'w, 'u) LiveMediaDriver
    \<Rightarrow> bool run \<times> ('ds, 'w, 'u) LiveMediaDriver" where
  "run_loop io foreign inputs d =
     run_bind (replace_sender (next_deadline (ld_pacer d)) d) (\<lambda>_ d1.
     run_bind (source_depth_now d1) (\<lambda>source_depth d2.
       run_rounds io foreign source_depth inputs
         (emit_metric (EgressDepth (playout_depth (ld_prepared d2))) (emit_metric (SenderStarted source_depth) d2))))"

record 'ds LiveMediaDriverExit =
  exit_session :: "'ds ConnectedVoiceSession"
  exit_ended_naturally :: bool
  exit_error :: "RuntimeError option"

text \<open>What the thread hands back: nothing when it panicked or still waits.\<close>

definition driver_run ::
  "('ds, 'w, 'u) media_io \<Rightarrow> (VoiceError \<Rightarrow> string) \<Rightarrow> round_input list \<Rightarrow> ('ds, 'w, 'u) LiveMediaDriver
    \<Rightarrow> 'ds LiveMediaDriverExit option" where
  "driver_run io foreign inputs d =
    (case run_loop io foreign inputs d of
       (Returns natural, d1) \<Rightarrow> Some \<lparr>exit_session = ld_session d1, exit_ended_naturally = natural, exit_error = None\<rparr>
     | (Raises err, d1) \<Rightarrow> Some \<lparr>exit_session = ld_session d1, exit_ended_naturally = False, exit_error = Some err\<rparr>
     | (Aborts, d1) \<Rightarrow> None
     | (Blocks, d1) \<Rightarrow> None)"

end
