(* ===== verification/PipelineMetrics.thy ===== *)
theory PipelineMetrics
  imports LiveDriver
begin

text \<open>
  What the runtime does with the reports of the playback pipeline (the match over \<open>PlaybackPipelineMetric\<close> in
  \<open>send_playback_frames\<close>, \<open>session/runtime.rs\<close>): every report goes to the metrics; a sent track packet also
  advances the shared position; some reports make the session publish its state. The local variables of
  \<open>send_playback_frames\<close> that a report changes are one record. What a report asks of the session is
  returned as an effect, which \<open>SessionRuntime\<close> carries out.
\<close>

section \<open>The handler\<close>

record pipeline =
  pl_metrics :: PlaybackStabilityCollector
  pl_policy :: PlaybackBufferPolicy
  pl_buffer_target :: u64
  pl_latest_source_depth :: OpusBufferDepth
  pl_position_ms :: u64
  pl_buffering_for_source :: bool

datatype pipeline_effect = NoEffect | EmitsState SessionEventKind | ReportsPosition

definition on_metrics ::
  "(PlaybackStabilityCollector \<Rightarrow> PlaybackStabilityCollector) \<Rightarrow> pipeline \<Rightarrow> pipeline" where
  "on_metrics f p = p\<lparr>pl_metrics := f (pl_metrics p)\<rparr>"

definition record_producer_sample_for_playback :: "nanos \<Rightarrow> ProducerMetricsSample \<Rightarrow> pipeline \<Rightarrow> pipeline" where
  "record_producer_sample_for_playback now sample p =
    (let p1 = on_metrics (record_producer_sample now sample) p;
         (changed, policy) = record_refill (sample_fill_duration sample) (pl_policy p1);
         p2 = p1\<lparr>pl_policy := policy\<rparr>;
         p3 = (if changed then p2\<lparr>pl_buffer_target := policy_target_ms policy\<rparr> else p2)
     in on_metrics (record_adaptive_buffer_target (policy_target_ms policy) (policy_max_target_ms policy)) p3)"

definition update_adaptive_buffer_target_from_lateness :: "nanos \<Rightarrow> pipeline \<Rightarrow> pipeline" where
  "update_adaptive_buffer_target_from_lateness lateness p =
    (let (changed, policy) = record_sender_lateness lateness (pl_policy p);
         p1 = p\<lparr>pl_policy := policy\<rparr>;
         p2 = (if changed then p1\<lparr>pl_buffer_target := policy_target_ms policy\<rparr> else p1)
     in on_metrics (record_adaptive_buffer_target (policy_target_ms policy) (policy_max_target_ms policy)) p2)"

definition send_event_of :: "SenderSentMetric \<Rightarrow> PlaybackSendEventRecord" where
  "send_event_of sent =
    (let media = sm_media_frame sent in
     \<lparr>ev_packet_index = sm_packet_index sent, ev_command_kind = playback_send_command_kind (sm_kind sent),
      ev_expected_deadline = sm_expected_deadline sent, ev_send_started_at = sm_send_started_at sent,
      ev_sent_at = sm_sent_at sent, ev_media_duration_ms = sm_duration_ms sent,
      ev_media_duration_samples = sm_duration_samples sent, ev_rtp_sequence = sm_rtp_sequence sent,
      ev_rtp_timestamp = sm_rtp_timestamp sent, ev_protection_nonce = sm_protection_nonce sent,
      ev_source_frame_epoch = map_option media_epoch media,
      ev_source_media_position_ms = map_option media_position_ms media,
      ev_source_media_position_samples = map_option media_position_samples media,
      ev_source_media_byte_position = Option.bind media media_byte_position,
      ev_committed_heard_media = (media \<noteq> None)\<rparr>)"

text \<open>What every sent packet adds to the metrics, before its kind matters.\<close>

definition record_sent_packet :: "SenderSentMetric \<Rightarrow> PlaybackStabilityCollector \<Rightarrow> PlaybackStabilityCollector" where
  "record_sent_packet sent c =
    (let c1 = record_sender_send_duration (sm_send_duration sent) c;
         c2 = record_sender_loop_non_send_work_duration (sm_non_send_work_duration sent) c1;
         c3 = record_gateway_drain (sm_gateway_drain sent) c2;
         c4 = record_send_event (send_event_of sent) c3;
         c5 = (if sm_media_clock_reset sent then record_media_clock_reset ResetSchedulerLate c4 else c4);
         c6 = record_source_buffer_depth (sm_remaining_depth sent) PLAYBACK_SOURCE_BUFFER_LOW_WATERMARK_MS c5
     in record_playout_buffer_depth (sm_egress_depth sent) DISCORD_EGRESS_BUFFER_LOW_WATERMARK_MS c6)"

text \<open>A sent packet; the shared position is given and returned.\<close>

definition apply_sent_metric ::
  "SenderSentMetric \<Rightarrow> PlaybackPosition \<Rightarrow> pipeline \<Rightarrow> PlaybackPosition \<times> pipeline" where
  "apply_sent_metric sent position p =
    (let p1 = on_metrics (record_sent_packet sent) (p\<lparr>pl_latest_source_depth := sm_remaining_depth sent\<rparr>) in
     if sm_is_track sent
     then (let p2 = on_metrics (record_track_packet (sm_expected_deadline sent) (sm_send_started_at sent)
                      (sm_duration_samples sent) (sm_tempo_rebased sent)) p1;
               p3 = update_adaptive_buffer_target_from_lateness
                      (sm_send_started_at sent - sm_expected_deadline sent) p2;
               position1 = record_sent_packet_samples position (sm_duration_samples sent)
           in (position1, p3\<lparr>pl_position_ms := Position.sent_duration_ms position1\<rparr>))
     else if sm_kind sent = ScheduledSilence
     then (position, on_metrics (record_continuity_silence_packet (sm_sent_at sent) (sm_duration_ms sent)) p1)
     else (position, p1))"

definition apply_pipeline_metric ::
  "nanos \<Rightarrow> PlaybackPipelineMetric \<Rightarrow> PlaybackPosition \<Rightarrow> pipeline
    \<Rightarrow> pipeline_effect \<times> PlaybackPosition \<times> pipeline" where
  "apply_pipeline_metric now metric position p =
    (case metric of
       SourceProducer sample \<Rightarrow> (NoEffect, position, record_producer_sample_for_playback now sample p)
     | SourceDepth depth \<Rightarrow>
         (NoEffect, position, on_metrics (record_source_buffer_depth depth PLAYBACK_SOURCE_BUFFER_LOW_WATERMARK_MS) p)
     | SenderSourceUnderrun depth \<Rightarrow>
         (let p1 = on_metrics (record_source_underrun depth) (p\<lparr>pl_latest_source_depth := depth\<rparr>)
          in if pl_buffering_for_source p1 then (NoEffect, position, p1)
             else (EmitsState EvBuffering, position, p1\<lparr>pl_buffering_for_source := True\<rparr>))
     | SenderStarted depth \<Rightarrow>
         (NoEffect, position, on_metrics (record_source_buffer_depth depth PLAYBACK_SOURCE_BUFFER_LOW_WATERMARK_MS) p)
     | EgressDepth depth \<Rightarrow>
         (NoEffect, position, on_metrics (record_playout_buffer_depth depth DISCORD_EGRESS_BUFFER_LOW_WATERMARK_MS) p)
     | PreparedTrackQueueDepth depth \<Rightarrow> (NoEffect, position, on_metrics (record_prepared_track_queue_depth depth) p)
     | NonTrackPlayoutQueueDepth kind depth \<Rightarrow>
         (NoEffect, position, on_metrics (record_non_track_playout_queue_depth kind depth) p)
     | PreparedPlayoutQueueEvent event \<Rightarrow>
         (NoEffect, position, on_metrics (record_prepared_playout_queue_event event) p)
     | ExplicitMediaBoundary reason \<Rightarrow> (NoEffect, position, on_metrics (record_explicit_media_boundary reason) p)
     | SourceUnderrunReachedBuilder \<Rightarrow> (NoEffect, position, on_metrics record_source_underrun_reached_builder p)
     | SourceUnderrunReachedDeadlineSender \<Rightarrow>
         (NoEffect, position, on_metrics record_source_underrun_reached_deadline_sender p)
     | RestoredSourceFrames count samples \<Rightarrow>
         (NoEffect, position, on_metrics (record_restored_source_frames count samples) p)
     | DiscardedSourceFrames reason count samples \<Rightarrow>
         (NoEffect, position, on_metrics (record_discarded_source_frames reason count samples) p)
     | PlayoutBuilderPrepared duration \<Rightarrow>
         (NoEffect, position, on_metrics (record_playout_builder_prepare_duration duration) p)
     | GatewayDrain report \<Rightarrow> (NoEffect, position, on_metrics (record_gateway_drain report) p)
     | SenderEgressUnderrun depth \<Rightarrow> (NoEffect, position, on_metrics (record_playout_underrun depth) p)
     | SenderSent sent \<Rightarrow>
         (let (position1, p1) = apply_sent_metric sent position p in (ReportsPosition, position1, p1))
     | SenderSkippedSourceFrames count samples depth \<Rightarrow>
         (ReportsPosition, position,
          on_metrics (\<lambda>c. record_source_buffer_depth depth PLAYBACK_SOURCE_BUFFER_LOW_WATERMARK_MS
              (record_skipped_source_frames count samples c)) (p\<lparr>pl_latest_source_depth := depth\<rparr>))
     | EgressDroppedMusicFrames count samples \<Rightarrow>
         (NoEffect, position, on_metrics (record_egress_dropped_music_frames count samples) p)
     | SenderResumedAfterSourceUnderrun depth \<Rightarrow>
         (let p1 = on_metrics (record_rebuffer depth PLAYBACK_SOURCE_BUFFER_LOW_WATERMARK_MS)
                     (p\<lparr>pl_latest_source_depth := depth\<rparr>)
          in if pl_buffering_for_source p1
             then (EmitsState EvPlaying, position, p1\<lparr>pl_buffering_for_source := False\<rparr>)
             else (NoEffect, position, p1))
     | SenderResumedFromPause \<Rightarrow> (NoEffect, position, on_metrics record_resumed_from_pause p)
     | SenderMediaClockReset reason \<Rightarrow> (NoEffect, position, on_metrics (record_media_clock_reset reason) p))"

end
