(* ===== verification/Tempo.thy ===== *)
theory Tempo
  imports MetricsLaws PipelineMetrics "HOL-Library.Sublist"
begin

text \<open>
  From the deadline sender to the metrics: the driver reports each packet the sender records
  (\<open>record_deadline_send_metric\<close> in \<open>session/runtime.rs\<close>), the runtime hands the reports to the metrics, and a
  paced sender is never counted as fast.
\<close>

text \<open>A report the driver makes of a record, whatever the pacer, the gateway and the buffers add to it.\<close>

definition reported_as :: "DeadlineSendRecord \<Rightarrow> SenderSentMetric \<Rightarrow> bool" where
  "reported_as rec sent \<longleftrightarrow>
     (\<exists>mark index gateway_drain remaining egress. sent = sent_metric rec mark index gateway_drain remaining egress)"

definition apply_sent_metrics :: "SenderSentMetric list \<Rightarrow> PlaybackPosition \<Rightarrow> pipeline \<Rightarrow> PlaybackPosition \<times> pipeline" where
  "apply_sent_metrics reports position p =
     foldl (\<lambda>(position, p) sent. apply_sent_metric sent position p) (position, p) reports"

text \<open>The tempo of what has been reported: consecutive packets start at least a frame apart.\<close>

fun in_tempo :: "TrackPacketTiming list \<Rightarrow> bool" where
  "in_tempo (t1 # t2 # ts) \<longleftrightarrow>
     timing_send_started_at t1 + timing_duration t1 \<le> timing_send_started_at t2 \<and> in_tempo (t2 # ts)"
| "in_tempo _ \<longleftrightarrow> True"

lemma in_tempo_snoc:
  "in_tempo (ts @ [t]) \<longleftrightarrow> in_tempo ts
     \<and> (ts \<noteq> [] \<longrightarrow> timing_send_started_at (last ts) + timing_duration (last ts) \<le> timing_send_started_at t)"
  by (induction ts rule: in_tempo.induct) auto

lemma in_tempo_drop: "in_tempo ts \<Longrightarrow> in_tempo (drop n ts)"
proof (induction n arbitrary: ts)
  case (Suc n)
  show ?case
  proof (cases ts)
    case (Cons t rest)
    with Suc.prems have "in_tempo rest" by (cases rest) auto
    with Suc.IH Cons show ?thesis by simp
  qed simp
qed simp

lemma window_media_sum: "window_media ts = sum_list (map timing_duration ts)"
proof -
  have "foldl (\<lambda>total packet. total + timing_duration packet) a ts = a + sum_list (map timing_duration ts)" for a
    by (induction ts arbitrary: a) auto
  then show ?thesis by (simp add: window_media_def)
qed

lemma in_tempo_started:
  "in_tempo (t # ts) \<Longrightarrow> timing_send_started_at t + sum_list (map timing_duration (t # ts))
     \<le> timing_send_started_at (last (t # ts)) + timing_duration (last (t # ts))"
proof (induction ts arbitrary: t)
  case (Cons t2 ts)
  from Cons.prems have "timing_send_started_at t + timing_duration t \<le> timing_send_started_at t2" by simp
  moreover from Cons.prems Cons.IH [of t2] have "timing_send_started_at t2 + sum_list (map timing_duration (t2 # ts))
     \<le> timing_send_started_at (last (t2 # ts)) + timing_duration (last (t2 # ts))" by simp
  ultimately show ?case by simp
qed simp

lemma window_not_fast:
  assumes "in_tempo w" and "w \<noteq> []"
  shows "window_media w \<le> window_wall_clock w"
proof -
  obtain t ts where w: "w = t # ts" using assms(2) by (cases w) auto
  show ?thesis
    using in_tempo_started [of t ts] assms(1) unfolding w window_media_sum window_wall_clock_def
    by (simp del: sum_list.Cons list.map)
qed

lemma ratio_at_most_one:
  assumes "media \<le> wall"
  shows "media_to_wall_clock_ratio_ppm_duration media wall \<le> 1000000"
proof -
  have "media div 1000 * 1000000 div (wall div 1000) \<le> 1000000" if "wall div 1000 \<noteq> 0"
  proof -
    have "media div 1000 * 1000000 \<le> wall div 1000 * 1000000" using assms by (simp add: div_le_mono)
    then have "media div 1000 * 1000000 div (wall div 1000) \<le> wall div 1000 * 1000000 div (wall div 1000)"
      by (rule div_le_mono)
    also have "\<dots> = 1000000" using that by simp
    finally show ?thesis .
  qed
  then show ?thesis
    by (auto simp: media_to_wall_clock_ratio_ppm_duration_def Let_def u64_saturating_from_nat_def word_le_nat_alt
        unat_of_nat_small)
qed

section \<open>A paced sender is never fast\<close>

text \<open>No packet is reported yet, or the last one is the last timing; none was fast so far.\<close>

definition never_fast :: "PlaybackStabilityCollector \<Rightarrow> bool" where
  "never_fast c \<longleftrightarrow> co_track_fast_interval_count c = 0 \<and> co_track_tempo_window_fast_count c = 0"

definition tempo_inv :: "PlaybackStabilityCollector \<Rightarrow> bool" where
  "tempo_inv c \<longleftrightarrow> never_fast c \<and> in_tempo (co_track_packet_timings c)
     \<and> (case co_last_track_send_started_at c of
          None \<Rightarrow> co_track_packet_timings c = []
        | Some at \<Rightarrow> co_track_packet_timings c \<noteq> []
            \<and> timing_send_started_at (last (co_track_packet_timings c)) = at
            \<and> co_last_track_duration c = Some (timing_duration (last (co_track_packet_timings c))))"

definition due_after :: "PlaybackStabilityCollector \<Rightarrow> nanos \<Rightarrow> bool" where
  "due_after c at \<longleftrightarrow> (co_track_packet_timings c \<noteq> [] \<longrightarrow>
     timing_send_started_at (last (co_track_packet_timings c)) + timing_duration (last (co_track_packet_timings c)) \<le> at)"

text \<open>What the parts of a report do to these fields.\<close>

lemma erase_fields:
  "co_track_packet_timings (erase_windows c) = co_track_packet_timings c"
  "co_track_fast_interval_count (erase_windows c) = co_track_fast_interval_count c"
  "co_last_track_send_started_at (erase_windows c) = co_last_track_send_started_at c"
  "co_last_track_duration (erase_windows c) = co_last_track_duration c"
  by (simp_all add: erase_windows_def)

lemma window_fields [simp]:
  "co_track_packet_timings (record_latest_track_tempo_window c) = co_track_packet_timings c"
  "co_track_fast_interval_count (record_latest_track_tempo_window c) = co_track_fast_interval_count c"
  "co_last_track_send_started_at (record_latest_track_tempo_window c) = co_last_track_send_started_at c"
  "co_last_track_duration (record_latest_track_tempo_window c) = co_last_track_duration c"
  by (metis erase_window erase_fields)+

lemma window_fast_count:
  assumes "in_tempo (co_track_packet_timings c)"
  shows "co_track_tempo_window_fast_count (record_latest_track_tempo_window c) = co_track_tempo_window_fast_count c"
proof -
  let ?w = "drop (length (co_track_packet_timings c) - TRACK_TEMPO_WINDOW_PACKETS) (co_track_packet_timings c)"
  have "co_track_tempo_window_fast_count (record_window_ratio (window_media ?w) (window_wall_clock ?w)
      (media_to_wall_clock_ratio_ppm_duration (window_media ?w) (window_wall_clock ?w)) d)
      = co_track_tempo_window_fast_count d" if "?w \<noteq> []" for d
  proof -
    have "media_to_wall_clock_ratio_ppm_duration (window_media ?w) (window_wall_clock ?w) \<le> 1000000"
      by (intro ratio_at_most_one window_not_fast in_tempo_drop assms that)
    then have "\<not> media_to_wall_clock_ratio_ppm_duration (window_media ?w) (window_wall_clock ?w)
        > MAX_MEDIA_TO_WALL_CLOCK_RATIO_PPM"
      by (simp add: MAX_MEDIA_TO_WALL_CLOCK_RATIO_PPM_def word_less_nat_alt word_le_nat_alt)
    then show ?thesis by (simp add: record_window_ratio_def Let_def record_fast_window_def)
  qed
  then show ?thesis by (simp add: record_latest_track_tempo_window_def Let_def)
qed

lemma any_fields [simp]:
  "co_track_packet_timings (record_any_packet at c) = co_track_packet_timings c"
  "co_track_fast_interval_count (record_any_packet at c) = co_track_fast_interval_count c"
  "co_last_track_send_started_at (record_any_packet at c) = co_last_track_send_started_at c"
  "co_last_track_duration (record_any_packet at c) = co_last_track_duration c"
  "co_track_tempo_window_fast_count (record_any_packet at c) = co_track_tempo_window_fast_count c"
  by (simp_all add: record_any_packet_def split: option.splits)

lemma lateness_fields [simp]:
  "co_track_packet_timings (record_lateness d c) = co_track_packet_timings c"
  "co_track_fast_interval_count (record_lateness d c) = co_track_fast_interval_count c"
  "co_last_track_send_started_at (record_lateness d c) = co_last_track_send_started_at c"
  "co_last_track_duration (record_lateness d c) = co_last_track_duration c"
  "co_track_tempo_window_fast_count (record_lateness d c) = co_track_tempo_window_fast_count c"
  by (simp_all add: record_lateness_def Let_def)

lemma first_fields [simp]:
  "co_track_packet_timings (record_first_intervals d c) = co_track_packet_timings c"
  "co_track_fast_interval_count (record_first_intervals d c) = co_track_fast_interval_count c"
  "co_last_track_send_started_at (record_first_intervals d c) = co_last_track_send_started_at c"
  "co_last_track_duration (record_first_intervals d c) = co_last_track_duration c"
  "co_track_tempo_window_fast_count (record_first_intervals d c) = co_track_tempo_window_fast_count c"
  by (simp_all add: record_first_intervals_def Let_def)

lemma fast_fields [simp]:
  "co_track_packet_timings (record_fast_interval d c) = co_track_packet_timings c"
  "co_last_track_send_started_at (record_fast_interval d c) = co_last_track_send_started_at c"
  "co_last_track_duration (record_fast_interval d c) = co_last_track_duration c"
  "co_track_tempo_window_fast_count (record_fast_interval d c) = co_track_tempo_window_fast_count c"
  by (simp_all add: record_fast_interval_def split: option.splits)

lemma interval_fields [simp]:
  "co_track_packet_timings (record_track_interval started d c) = co_track_packet_timings c"
  "co_last_track_send_started_at (record_track_interval started d c) = Some started"
  "co_last_track_duration (record_track_interval started d c) = co_last_track_duration c"
  "co_track_tempo_window_fast_count (record_track_interval started d c) = co_track_tempo_window_fast_count c"
  by (simp_all add: record_track_interval_def Let_def split: option.splits)

lemma interval_not_fast:
  assumes "\<And>at d. co_last_track_send_started_at c = Some at \<Longrightarrow> co_last_track_duration c = Some d \<Longrightarrow> at + d \<le> started"
  shows "co_track_fast_interval_count (record_track_interval started frame c) = co_track_fast_interval_count c"
  using assms
  by (auto simp: record_track_interval_def record_fast_interval_def Let_def split: option.splits) fastforce

lemma report_packet:
  fixes expected samples rebased
  assumes "tempo_inv c" and "due_after c started"
  defines "c' \<equiv> record_track_packet expected started samples rebased c"
  shows "tempo_inv c'" and "due_after c' (started + duration_from_samples (u64_from_u32 samples))"
proof -
  let ?d = "duration_from_samples (u64_from_u32 samples)"
  let ?t = "\<lparr>timing_send_started_at = started, timing_duration = ?d, timing_media_start = co_track_media_duration_sent c\<rparr>"
  have timings: "co_track_packet_timings c' = co_track_packet_timings c @ [?t]"
    by (simp add: c'_def record_track_packet_def Let_def)
  have lasts: "co_last_track_send_started_at c' = Some started" "co_last_track_duration c' = Some ?d"
    by (simp_all add: c'_def record_track_packet_def Let_def)
  have tempo: "in_tempo (co_track_packet_timings c @ [?t])"
    using assms(1,2) by (simp add: in_tempo_snoc tempo_inv_def due_after_def)
  have previous: "at + d \<le> started"
    if "co_last_track_send_started_at c = Some at" "co_last_track_duration c = Some d" for at d
    using assms(1,2) that by (auto simp: tempo_inv_def due_after_def)
  have "co_track_fast_interval_count c' = co_track_fast_interval_count c"
  proof -
    have "co_track_fast_interval_count (record_track_interval started ?d e) = co_track_fast_interval_count e"
      if "co_last_track_send_started_at e = co_last_track_send_started_at c"
        "co_last_track_duration e = co_last_track_duration c" for e
      by (rule interval_not_fast) (simp add: that previous)
    then show ?thesis by (simp add: c'_def record_track_packet_def Let_def)
  qed
  moreover have "co_track_tempo_window_fast_count c' = co_track_tempo_window_fast_count c"
    unfolding c'_def record_track_packet_def Let_def by (simp add: window_fast_count tempo)
  ultimately show "tempo_inv c'"
    using assms(1) timings lasts tempo by (simp add: tempo_inv_def never_fast_def)
  show "due_after c' (started + ?d)" by (simp add: due_after_def timings)
qed

lemma due_after_mono: "due_after c a \<Longrightarrow> a \<le> b \<Longrightarrow> due_after c b"
  by (auto simp: due_after_def)

lemma earliest_after_bound:
  "sent_started_at r + duration_from_samples (u64_from_u32 (sent_duration_samples r)) \<le> earliest_after r"
  by (auto simp: earliest_after_def record_interval_def)

text \<open>The parts of a report that do not concern the tempo.\<close>

definition same_tempo :: "PlaybackStabilityCollector \<Rightarrow> PlaybackStabilityCollector \<Rightarrow> bool" where
  "same_tempo c c' \<longleftrightarrow> co_track_packet_timings c' = co_track_packet_timings c
     \<and> co_track_fast_interval_count c' = co_track_fast_interval_count c
     \<and> co_track_tempo_window_fast_count c' = co_track_tempo_window_fast_count c
     \<and> co_last_track_send_started_at c' = co_last_track_send_started_at c
     \<and> co_last_track_duration c' = co_last_track_duration c"

lemma same_tempoD:
  "same_tempo c c' \<Longrightarrow> tempo_inv c' = tempo_inv c" "same_tempo c c' \<Longrightarrow> due_after c' at = due_after c at"
  by (cases "co_last_track_send_started_at c"; simp add: same_tempo_def tempo_inv_def never_fast_def due_after_def)
    (simp add: same_tempo_def due_after_def)

lemma same_tempo_trans: "same_tempo a b \<Longrightarrow> same_tempo b c \<Longrightarrow> same_tempo a c"
  by (simp add: same_tempo_def)

lemma depth_same_tempo:
  "same_tempo c (record_source_buffer_depth d w c)" "same_tempo c (record_playout_buffer_depth d w c)"
  "same_tempo c (record_adaptive_buffer_target t m c)" "same_tempo c (record_continuity_silence_packet at ms c)"
  by (simp_all add: same_tempo_def record_source_buffer_depth_def record_playout_buffer_depth_def Let_def
      record_adaptive_buffer_target_def record_continuity_silence_packet_def)

lemma send_same_tempo:
  "same_tempo c (record_sender_send_duration d c)" "same_tempo c (record_sender_loop_non_send_work_duration d c)"
  "same_tempo c (record_gateway_drain r c)" "same_tempo c (record_send_event e c)"
  "same_tempo c (record_media_clock_reset ResetSchedulerLate c)"
  by (simp_all add: same_tempo_def record_sender_send_duration_def record_sender_loop_non_send_work_duration_def
      record_gateway_drain_def record_send_event_def record_media_clock_reset_def Let_def)

lemma record_sent_packet_same_tempo: "same_tempo c (record_sent_packet sent c)"
proof -
  define c3 where "c3 = record_gateway_drain (sm_gateway_drain sent)
    (record_sender_loop_non_send_work_duration (sm_non_send_work_duration sent)
      (record_sender_send_duration (sm_send_duration sent) c))"
  define c4 where "c4 = record_send_event (send_event_of sent) c3"
  define c5 where "c5 = (if sm_media_clock_reset sent then record_media_clock_reset ResetSchedulerLate c4 else c4)"
  have "same_tempo c c3" unfolding c3_def
    by (rule same_tempo_trans [OF same_tempo_trans [OF send_same_tempo(1) send_same_tempo(2)] send_same_tempo(3)])
  moreover have "same_tempo c3 c4" unfolding c4_def by (rule send_same_tempo)
  moreover have "same_tempo c4 c5" by (simp add: c5_def send_same_tempo same_tempo_def [of c4 c4])
  ultimately have "same_tempo c c5" using same_tempo_trans by blast
  moreover have "record_sent_packet sent c = record_playout_buffer_depth (sm_egress_depth sent)
      DISCORD_EGRESS_BUFFER_LOW_WATERMARK_MS (record_source_buffer_depth (sm_remaining_depth sent)
        PLAYBACK_SOURCE_BUFFER_LOW_WATERMARK_MS c5)"
    by (simp add: record_sent_packet_def Let_def c3_def c4_def c5_def)
  ultimately show ?thesis using same_tempo_trans depth_same_tempo(1,2) by metis
qed

lemma lateness_update_metrics:
  "pl_metrics (update_adaptive_buffer_target_from_lateness l p)
     = record_adaptive_buffer_target (policy_target_ms (pl_policy p)) (policy_max_target_ms (pl_policy p)) (pl_metrics p)"
  by (simp add: update_adaptive_buffer_target_from_lateness_def record_sender_lateness_def on_metrics_def)

lemma report_sent_step:
  assumes rep: "reported_as r sent" and "tempo_inv (pl_metrics p)" and "due_after (pl_metrics p) (sent_started_at r)"
    and step: "apply_sent_metric sent position p = (position', p')"
  shows "tempo_inv (pl_metrics p')" and "due_after (pl_metrics p') (earliest_after r)"
proof -
  let ?c = "record_sent_packet sent (pl_metrics p)"
  have c: "tempo_inv ?c" "due_after ?c (sent_started_at r)"
    using assms(2,3) same_tempoD [OF record_sent_packet_same_tempo] by blast+
  have fields: "sm_send_started_at sent = sent_started_at r" "sm_duration_samples sent = sent_duration_samples r"
    using rep by (auto simp: reported_as_def sent_metric_def)
  show "tempo_inv (pl_metrics p')" "due_after (pl_metrics p') (earliest_after r)"
  proof (atomize(full), cases "sm_is_track sent")
    case True
    note packet = report_packet [OF c, of "sm_expected_deadline sent" "sm_duration_samples sent" "sm_tempo_rebased sent"]
    have "same_tempo (record_track_packet (sm_expected_deadline sent) (sent_started_at r) (sm_duration_samples sent)
        (sm_tempo_rebased sent) ?c) (pl_metrics p')"
      using step True fields
      by (auto simp: apply_sent_metric_def Let_def lateness_update_metrics on_metrics_def depth_same_tempo)
    from same_tempoD [OF this] packet show "tempo_inv (pl_metrics p') \<and> due_after (pl_metrics p') (earliest_after r)"
      using due_after_mono [OF _ earliest_after_bound] fields by auto
  next
    case False
    then have "same_tempo ?c (pl_metrics p')"
      using step by (auto simp: apply_sent_metric_def Let_def on_metrics_def depth_same_tempo same_tempo_def [of ?c ?c]
          split: if_splits)
    moreover have "sent_started_at r \<le> earliest_after r" using earliest_after_bound [of r] by simp
    ultimately show "tempo_inv (pl_metrics p') \<and> due_after (pl_metrics p') (earliest_after r)"
      using same_tempoD c due_after_mono by blast
  qed
qed

lemma paced_later: "paced (r # rs) \<Longrightarrow> r' \<in> set rs \<Longrightarrow> earliest_after r \<le> sent_started_at r'"
proof (induction rs arbitrary: r)
  case (Cons r2 rs)
  have first: "earliest_after r \<le> sent_started_at r2" and "paced (r2 # rs)" using Cons.prems(1) by auto
  show ?case
  proof (cases "r' = r2")
    case False
    with Cons.prems(2) have "earliest_after r2 \<le> sent_started_at r'" using Cons.IH [OF \<open>paced (r2 # rs)\<close>] by simp
    with first earliest_after_bound [of r2] show ?thesis by simp
  qed (use first in simp)
qed simp

lemma paced_subseq: "subseq xs rs \<Longrightarrow> paced rs \<Longrightarrow> paced xs"
proof (induction rule: list_emb.induct)
  case (list_emb_Cons xs ys y)
  then show ?case by (cases ys) auto
next
  case (list_emb_Cons2 x y xs ys)
  have "paced ys" using list_emb_Cons2.prems by (cases ys) auto
  with list_emb_Cons2.IH have "paced xs" by simp
  show ?case
  proof (cases xs)
    case (Cons x2 xs2)
    then have "x2 \<in> set ys" using list_emb_Cons2.hyps(2) by (auto dest: list_emb_set)
    with paced_later [OF list_emb_Cons2.prems] list_emb_Cons2.hyps(1) \<open>paced xs\<close> Cons show ?thesis by simp
  qed simp
qed simp

lemma paced_never_fast:
  "list_all2 reported_as rs reports \<Longrightarrow> paced rs \<Longrightarrow> tempo_inv (pl_metrics p)
    \<Longrightarrow> (rs \<noteq> [] \<longrightarrow> due_after (pl_metrics p) (sent_started_at (hd rs)))
    \<Longrightarrow> never_fast (pl_metrics (snd (apply_sent_metrics reports position p)))"
proof (induction arbitrary: position p rule: list_all2_induct)
  case Nil
  then show ?case by (simp add: tempo_inv_def apply_sent_metrics_def)
next
  case (Cons r rs sent reports)
  obtain position1 p1 where step: "apply_sent_metric sent position p = (position1, p1)" by fastforce
  note inv = report_sent_step [OF Cons.hyps(1) Cons.prems(2) _ step]
  have "due_after (pl_metrics p) (sent_started_at r)" using Cons.prems(3) by simp
  note inv = inv [OF this]
  have "paced rs" and next_due: "rs \<noteq> [] \<longrightarrow> earliest_after r \<le> sent_started_at (hd rs)"
    using Cons.prems(1) by (cases rs; simp)+
  moreover have "rs \<noteq> [] \<longrightarrow> due_after (pl_metrics p1) (sent_started_at (hd rs))"
    using due_after_mono [OF inv(2)] next_due by blast
  ultimately have "never_fast (pl_metrics (snd (apply_sent_metrics reports position1 p1)))"
    using Cons.IH inv(1) by blast
  with step show ?case by (simp add: apply_sent_metrics_def)
qed

lemma new_tempo_inv:
  "tempo_inv (PlaybackStabilityCollector_new epoch video itag depth source_depth source_target target low high baseline)"
  "due_after (PlaybackStabilityCollector_new epoch video itag depth source_depth source_target target low high baseline) at"
  by (simp_all add: tempo_inv_def never_fast_def due_after_def PlaybackStabilityCollector_new_def Let_def)

text \<open>C18: A paced sender is never counted as fast. Whatever the driver does around the deadline sender, however late
  its ticks are and whichever reports are lost on the way, when the packets it sent are reported to a fresh
  collector, no interval between track packets counts as shorter than its frame and no window of fifty packets
  counts as played faster than real time.\<close>

theorem deadline_sender_never_fast:
  assumes "deadline_run send_to events
      (DeadlineSender_new_with_next_deadline_records_and_generation cursor commands send_records drop_records
        generation shutdown deadline) w = (r, s', w')"
    and "timers_ok send_to events
      (DeadlineSender_new_with_next_deadline_records_and_generation cursor commands send_records drop_records
        generation shutdown deadline) w"
    and "subseq recs (metrics_sent (ds_metrics s'))" and "list_all2 reported_as recs reports"
    and "pl_metrics p =
      PlaybackStabilityCollector_new epoch video itag depth source_depth source_target target low high baseline"
    and "apply_sent_metrics reports position p = (position', p')"
  shows "co_track_fast_interval_count (pl_metrics p') = 0 \<and> co_track_tempo_window_fast_count (pl_metrics p') = 0"
proof -
  have "paced (metrics_sent (ds_metrics s'))"
    by (rule deadline_pacing_run [OF assms(1,2)])
      (simp add: pacing_inv_def DeadlineSender_new_with_next_deadline_records_and_generation_def)
  then have "paced recs" using paced_subseq assms(3) by blast
  then have "never_fast (pl_metrics (snd (apply_sent_metrics reports position p)))"
    by (rule paced_never_fast [OF assms(4)]) (simp_all add: assms(5) new_tempo_inv)
  then show ?thesis by (simp add: never_fast_def assms(6))
qed

definition demo_pipeline :: pipeline where
  "demo_pipeline = \<lparr>pl_metrics = demo_collector, pl_policy = PlaybackBufferPolicy_new,
     pl_buffer_target = PLAYBACK_SOURCE_BUFFER_TARGET_MS, pl_latest_source_depth = OpusBufferDepth_default,
     pl_position_ms = 0, pl_buffering_for_source = False\<rparr>"

definition demo_reports :: "DeadlineSendRecord list \<Rightarrow> SenderSentMetric list" where
  "demo_reports recs =
     map (\<lambda>rec. sent_metric rec \<lparr>media_clock_reset = False, tempo_rebased = False\<rparr> 0 VoiceGatewayDrainReport_default
       OpusBufferDepth_default OpusBufferDepth_default) recs"

theorem deadline_sender_never_fast_witness:
  "\<exists>r s' w'. deadline_run demo_socket demo_deadline_events demo_deadline_sender 0 = (r, s', w')
     \<and> co_track_fast_interval_count (pl_metrics (snd (apply_sent_metrics (demo_reports (metrics_sent (ds_metrics s')))
          PlaybackPosition_default demo_pipeline))) = 0
     \<and> length (metrics_sent (ds_metrics s')) = 1"
proof -
  obtain r s' w' where run: "deadline_run demo_socket demo_deadline_events demo_deadline_sender 0 = (r, s', w')"
    and len: "length (metrics_sent (ds_metrics s')) = 1"
    by (simp add: deadline_eval interval_960)
  have timers: "timers_ok demo_socket demo_deadline_events demo_deadline_sender 0"
    by (simp add: deadline_eval interval_960)
  obtain position' p' where run1: "apply_sent_metrics (demo_reports (metrics_sent (ds_metrics s')))
      PlaybackPosition_default demo_pipeline = (position', p')" by fastforce
  have reps: "list_all2 reported_as (metrics_sent (ds_metrics s')) (demo_reports (metrics_sent (ds_metrics s')))"
    unfolding demo_reports_def list_all2_map2 reported_as_def by (rule list_all2_refl) blast
  have "pl_metrics demo_pipeline = demo_collector" by (simp add: demo_pipeline_def)
  from deadline_sender_never_fast [OF run timers subseq_order.order_refl reps this run1] run run1 len
  show ?thesis by auto
qed

end
