(* ===== verification/PlayoutLaws.thy ===== *)
theory PlayoutLaws
  imports PlayoutBuffers
begin

text \<open>
  The buffers of the live driver as bounded first-in first-out queues, the frames the driver handles, and
  the producer: it never overfills the source buffer.
\<close>

section \<open>Frames\<close>

text \<open>What the normalizer emits: 20 ms frames. The largest Opus packet of 20 ms is far below the bound on its
  size.\<close>

definition frame_ok :: "OpusFrame \<Rightarrow> bool" where
  "frame_ok f \<longleftrightarrow> frame_duration_samples f = 960 \<and> OpusFrame_byte_len f \<le> 16384"

lemma frame_ok_epoch [simp]: "frame_ok (OpusFrame_with_epoch f epoch) = frame_ok f"
  by (simp add: frame_ok_def OpusFrame_with_epoch_def OpusFrame_byte_len_def)

lemma total_samples_ok: "list_all frame_ok fs \<Longrightarrow> total_samples fs = 960 * length fs"
  by (induction fs) (auto simp: total_samples_def frame_samples_def frame_ok_def)

lemma total_bytes_ok: "list_all frame_ok fs \<Longrightarrow> total_bytes fs \<le> 16384 * length fs"
  by (induction fs) (auto simp: total_bytes_def frame_ok_def)

lemmas limit_defs = PLAYBACK_QUEUE_CAPACITY_def PLAYBACK_BUFFER_MEMORY_CAP_BYTES_def
  DISCORD_EGRESS_BUFFER_HIGH_WATERMARK_MS_def DISCORD_EGRESS_BUFFER_TARGET_MS_def
  PLAYBACK_SOURCE_BUFFER_HIGH_WATERMARK_MS_def PLAYBACK_SOURCE_BUFFER_TARGET_MS_def
  PLAYBACK_SOURCE_BUFFER_LOW_WATERMARK_MS_def PLAYBACK_SOURCE_BUFFER_REFILL_BATCH_MS_def

lemma egress_high_samples: "unat (samples_from_duration_ms_u64 DISCORD_EGRESS_BUFFER_HIGH_WATERMARK_MS) = 24000"
  by (simp add: unat_samples_from_duration_ms_u64 limit_defs)

lemma egress_target_samples: "unat (samples_from_duration_ms_u64 DISCORD_EGRESS_BUFFER_TARGET_MS) = 19200"
  by (simp add: unat_samples_from_duration_ms_u64 limit_defs)

section \<open>The queue of prepared packets\<close>

definition playout_wf :: "PreparedPlayoutQueue \<Rightarrow> bool" where
  "playout_wf q \<longleftrightarrow>
     pp_packets q = length (pp_queue q) \<and> pp_bytes q = total_bytes (map play_frame (pp_queue q))
     \<and> unat (pp_duration_samples q) = total_samples (map play_frame (pp_queue q))
     \<and> pp_bytes q \<le> PLAYBACK_BUFFER_MEMORY_CAP_BYTES \<and> unat (pp_duration_samples q) \<le> 24000
     \<and> pp_packets q \<le> PLAYBACK_QUEUE_CAPACITY"

lemma playout_new_wf: "playout_wf PreparedPlayoutQueue_new"
  by (simp add: playout_wf_def PreparedPlayoutQueue_new_def total_bytes_def total_samples_def)

interpretation pq: bounded_fifo playout_wf pp_queue playout_fits playout_push playout_pop
proof unfold_locales
  fix q x
  assume wf: "playout_wf q" and fits: "playout_fits q x"
  have "unat (saturating_add (pp_duration_samples q) (u64_from_u32 (frame_duration_samples (play_frame x)))) \<le> 24000"
    using fits egress_high_samples by (simp add: playout_fits_def Let_def word_le_nat_alt)
  then have "unat (pp_duration_samples q) + unat (frame_duration_samples (play_frame x)) \<le> 24000"
    by (simp add: to_nat)
  moreover have "pp_bytes q + OpusFrame_byte_len (play_frame x) \<le> PLAYBACK_BUFFER_MEMORY_CAP_BYTES"
    using fits by (simp add: playout_fits_def Let_def usize_saturating_add_def limit_defs min_le_iff_disj)
  moreover have "pp_packets q < PLAYBACK_QUEUE_CAPACITY" using fits by (simp add: playout_fits_def Let_def)
  ultimately show "fst (playout_push q x) = Inr () \<and> pp_queue (snd (playout_push q x)) = pp_queue q @ [x]
      \<and> playout_wf (snd (playout_push q x))"
    using wf fits
    by (simp add: playout_push_def playout_wf_def total_bytes_def total_samples_def
        frame_samples_def to_nat limit_defs usize_saturating_add_def)
next
  fix q x xs
  assume "playout_wf q" and "pp_queue q = x # xs"
  then show "fst (playout_pop q) = Some x \<and> pp_queue (snd (playout_pop q)) = xs \<and> playout_wf (snd (playout_pop q))"
    by (simp add: playout_pop_def playout_wf_def total_bytes_def total_samples_def frame_samples_def to_nat)
qed (simp_all add: playout_push_def playout_pop_def)

section \<open>The egress buffer\<close>

definition egress_frames :: "DiscordEgressBuffer \<Rightarrow> OpusFrame list" where
  "egress_frames b = q_inner (egress_queue b)"

definition egress_wf :: "DiscordEgressBuffer \<Rightarrow> bool" where
  "egress_wf b \<longleftrightarrow> queue_wf (egress_queue b) \<and> q_capacity (egress_queue b) = PLAYBACK_QUEUE_CAPACITY
     \<and> q_max_bytes (egress_queue b) = PLAYBACK_BUFFER_MEMORY_CAP_BYTES
     \<and> unat (q_max_duration_samples (egress_queue b)) = 24000"

definition egress_fits :: "DiscordEgressBuffer \<Rightarrow> OpusFrame \<Rightarrow> bool" where
  "egress_fits b frame = can_fit_frame (egress_queue b) frame"

lemma push_limits:
  "q_capacity (snd (OpusFrameQueue_push q f)) = q_capacity q"
  "q_max_bytes (snd (OpusFrameQueue_push q f)) = q_max_bytes q"
  "q_max_duration_samples (snd (OpusFrameQueue_push q f)) = q_max_duration_samples q"
  using queue_step_limits [OF queue_step.push [OF order_refl]] by simp_all

lemma pop_limits:
  "q_capacity (snd (OpusFrameQueue_pop q)) = q_capacity q"
  "q_max_bytes (snd (OpusFrameQueue_pop q)) = q_max_bytes q"
  "q_max_duration_samples (snd (OpusFrameQueue_pop q)) = q_max_duration_samples q"
  using queue_step_limits [OF queue_step.pop] by simp_all

interpretation eb: bounded_fifo egress_wf egress_frames egress_fits egress_push egress_pop
proof unfold_locales
  fix b x
  assume "egress_wf b" and "egress_fits b x"
  then show "fst (egress_push b x) = Inr () \<and> egress_frames (snd (egress_push b x)) = egress_frames b @ [x]
      \<and> egress_wf (snd (egress_push b x))"
    using oq.push_fits [of "egress_queue b" x] push_limits [of "egress_queue b" x]
    by (cases "OpusFrameQueue_push (egress_queue b) x")
      (simp add: egress_push_def egress_frames_def egress_wf_def egress_fits_def)
next
  fix b x xs
  assume "egress_wf b" and "egress_frames b = x # xs"
  then show "fst (egress_pop b) = Some x \<and> egress_frames (snd (egress_pop b)) = xs \<and> egress_wf (snd (egress_pop b))"
    using oq.pop_Cons [of "egress_queue b" x xs] pop_limits [of "egress_queue b"]
    by (cases "OpusFrameQueue_pop (egress_queue b)") (simp add: egress_pop_def egress_frames_def egress_wf_def)
next
  fix b x
  assume "\<not> egress_fits b x"
  then show "egress_push b x = (Inl x, b)"
    using oq.push_refused [of "egress_queue b" x] by (simp add: egress_push_def egress_fits_def)
next
  fix b
  assume "egress_frames b = []"
  then show "egress_pop b = (None, b)"
    using oq.pop_Nil [of "egress_queue b"] by (simp add: egress_pop_def egress_frames_def)
qed

lemma egress_new_wf: "egress_wf DiscordEgressBuffer_new"
  using queue_init_wf [of PLAYBACK_BUFFER_MEMORY_CAP_BYTES DISCORD_EGRESS_BUFFER_HIGH_WATERMARK_MS PLAYBACK_QUEUE_CAPACITY]
    egress_high_samples
  by (simp add: egress_wf_def DiscordEgressBuffer_new_def OpusFrameQueue_with_resource_limits_def limit_defs)

lemma egress_new_frames [simp]: "egress_frames DiscordEgressBuffer_new = []"
  by (simp add: egress_frames_def DiscordEgressBuffer_new_def OpusFrameQueue_with_resource_limits_def)

text \<open>Up to 24 frames always leave room for one more.\<close>

lemma queue_room:
  assumes "queue_wf q" and "list_all frame_ok (q_inner q)" and "frame_ok f"
    and "length (q_inner q) < q_capacity q" and "16384 * Suc (length (q_inner q)) \<le> q_max_bytes q"
    and "960 * Suc (length (q_inner q)) \<le> unat (q_max_duration_samples q)"
  shows "can_fit_frame q f"
proof -
  have "total_bytes (q_inner q) \<le> 16384 * length (q_inner q)" "total_samples (q_inner q) = 960 * length (q_inner q)"
    using total_bytes_ok [OF assms(2)] total_samples_ok [OF assms(2)] .
  with assms show ?thesis
    by (simp add: can_fit_frame_def can_fit_resource_def queue_wf_def frame_ok_def word_le_nat_alt to_nat
        usize_saturating_add_def)
qed

lemma egress_room:
  assumes "egress_wf b" and "list_all frame_ok (egress_frames b)" and "frame_ok f" and "length (egress_frames b) < 25"
  shows "egress_fits b f"
  using assms queue_room [of "egress_queue b" f]
  by (simp add: egress_fits_def egress_wf_def egress_frames_def limit_defs)

lemma egress_push_room:
  assumes "egress_wf b" and "list_all frame_ok (egress_frames b)" and "frame_ok f" and "length (egress_frames b) < 25"
  obtains b' where "egress_push b f = (Inr (), b')" "egress_wf b'" "egress_frames b' = egress_frames b @ [f]"
  using eb.push_fits [OF assms(1) egress_room [OF assms]] by (metis prod.collapse)

text \<open>Frames that are taken back all fit, in order, when there are at most 25 with those that are there.\<close>

lemma restore_interrupted_all:
  assumes "egress_wf b" and "list_all frame_ok (egress_frames b @ frames)" and "length (egress_frames b @ frames) \<le> 25"
  shows "\<exists>b' credits' count' samples'. restore_interrupted_loop reason frames (b, credits) (count, samples, refused)
       = ((b', credits'), count', samples', refused)
     \<and> egress_wf b' \<and> egress_frames b' = egress_frames b @ frames"
  using assms
proof (induction frames arbitrary: b credits count samples)
  case Nil
  then show ?case by simp
next
  case (Cons f fs)
  obtain b1 where push: "egress_push b f = (Inr (), b1)" "egress_wf b1" "egress_frames b1 = egress_frames b @ [f]"
    using egress_push_room [of b f] Cons.prems by auto
  from Cons.IH [OF push(2)] Cons.prems push show ?case by fastforce
qed

section \<open>The producer\<close>

text \<open>The source buffer of a playback, and what its queue may hold.\<close>

definition source_wf :: "OpusFrameQueue \<Rightarrow> bool" where
  "source_wf q \<longleftrightarrow> queue_wf q \<and> list_all frame_ok (q_inner q) \<and> q_capacity q = PLAYBACK_QUEUE_CAPACITY
     \<and> q_max_bytes q = PLAYBACK_BUFFER_MEMORY_CAP_BYTES
     \<and> unat (q_max_duration_samples q) = 48 * unat PLAYBACK_SOURCE_BUFFER_HIGH_WATERMARK_MS"

lemma publish_all:
  assumes "source_wf q" and "list_all frame_ok frames" and "length (q_inner q @ frames) \<le> 250"
  shows "\<exists>q'. publish_loop frames q = (True, q') \<and> source_wf q' \<and> q_inner q' = q_inner q @ frames"
  using assms
proof (induction frames arbitrary: q)
  case Nil
  then show ?case by simp
next
  case (Cons f fs)
  have "can_fit_frame q f"
    using Cons.prems queue_room [of q f] by (simp add: source_wf_def limit_defs)
  then obtain q1 where push: "OpusFrameQueue_push q f = (Inr (), q1)" "queue_wf q1" "q_inner q1 = q_inner q @ [f]"
    using oq.push_fits [of q f] Cons.prems(1) by (metis prod.collapse source_wf_def)
  moreover have "source_wf q1"
    using push Cons.prems push_limits [of q f] by (simp add: source_wf_def)
  ultimately show ?case using Cons.IH [of q1] Cons.prems by fastforce
qed

lemma refill_amount:
  assumes "refill_decision PLAYBACK_SOURCE_BUFFER_TARGET_MS st = ProducerRefills ms" and "source_wf (sb_queue st)"
  shows "unat ms + 20 * length (q_inner (sb_queue st)) = 5000"
proof -
  let ?n = "length (q_inner (sb_queue st))"
  have samples: "unat (q_duration_samples (sb_queue st)) = 960 * ?n" and n: "?n \<le> 1024"
    using assms(2) total_samples_ok by (auto simp: source_wf_def queue_wf_def limit_defs)
  then have buffered: "unat (buffered_duration_ms (sb_queue st)) = 20 * ?n"
    by (simp add: buffered_duration_ms_def duration_ms_from_samples_exact)
  have low: "20 * ?n < 4000" and
    ms: "ms = max (saturating_sub 5000 (buffered_duration_ms (sb_queue st))) 1000"
    using assms(1) buffered
    by (auto simp: refill_decision_def Let_def limit_defs word_le_nat_alt not_le split: if_splits)
  have "unat (saturating_sub 5000 (buffered_duration_ms (sb_queue st))) = 5000 - 20 * ?n"
    using buffered by (simp add: to_nat)
  then have "unat ms = 5000 - 20 * ?n"
    using low ms by (simp add: max_def word_le_nat_alt split: if_splits)
  with low show ?thesis by simp
qed

text \<open>The producer never overfills the source buffer. When it decided on a refill, filled a fresh queue up
  to that target with 20 ms frames, and the driver only took frames in the meantime, every frame produced is
  published, behind those that are there and in order: the producer does not fail with a full buffer.\<close>

theorem producer_never_overflows:
  assumes "refill_decision PLAYBACK_SOURCE_BUFFER_TARGET_MS decided = ProducerRefills ms"
    and "source_wf (sb_queue decided)" and "source_wf (sb_queue st)"
    and "length (q_inner (sb_queue st)) \<le> length (q_inner (sb_queue decided))"
    and "queue_wf refill" and "q_max_duration_samples refill = samples_from_duration_ms_u64 ms"
    and "list_all frame_ok (q_inner refill)"
  shows "\<exists>depth st'. publish_refill refill ended st = (Some depth, st')
    \<and> q_inner (sb_queue st') = q_inner (sb_queue st) @ q_inner refill \<and> sb_error st' = sb_error st
    \<and> source_wf (sb_queue st')"
proof -
  let ?n = "length (q_inner (sb_queue decided))" and ?m = "length (q_inner refill)"
  have ms: "unat ms + 20 * ?n = 5000" using refill_amount [OF assms(1,2)] .
  have "960 * ?m = unat (q_duration_samples refill)"
    using assms(5) total_samples_ok [OF assms(7)] by (simp add: queue_wf_def)
  also have "\<dots> \<le> 48 * unat ms"
    using assms(5,6) ms by (simp add: queue_wf_def word_le_nat_alt unat_samples_from_duration_ms_u64)
  finally have "20 * ?m \<le> unat ms" by simp
  with ms assms(4) have "length (q_inner (sb_queue st) @ q_inner refill) \<le> 250" by simp
  from publish_all [OF assms(3,7) this] show ?thesis by (auto simp: publish_refill_def)
qed

text \<open>The end of the stream is only announced when the fill fell short of its target with no packet left.\<close>

definition demo_frame :: OpusFrame where
  "demo_frame = OpusFrame_with_duration_samples [1, 2] 20 960"

definition demo_refill :: OpusFrameQueue where
  "demo_refill = snd (OpusFrameQueue_push (refill_queue_new 5000) demo_frame)"

definition demo_buffer :: SourceBufferState where
  "demo_buffer = SharedSourceBuffer_new (refill_queue_new 5000) False"

lemma demo_frame_ok [simp]: "frame_ok demo_frame"
  by (simp add: frame_ok_def demo_frame_def OpusFrame_with_duration_samples_def OpusFrame_byte_len_def)

lemma refill_new_wf: "source_wf (refill_queue_new 5000)"
  using queue_init_wf [of PLAYBACK_BUFFER_MEMORY_CAP_BYTES 5000 PLAYBACK_QUEUE_CAPACITY]
  by (simp add: source_wf_def refill_queue_new_def OpusFrameQueue_with_resource_limits_def limit_defs
      unat_samples_from_duration_ms_u64)

lemma demo_refill_wf: "source_wf demo_refill \<and> q_inner demo_refill = [demo_frame]"
  using publish_all [OF refill_new_wf, of "[demo_frame]"]
  by (auto simp: demo_refill_def refill_queue_new_def OpusFrameQueue_with_resource_limits_def split: prod.splits sum.splits)

theorem producer_never_overflows_witness:
  "\<exists>depth st'. publish_refill demo_refill False demo_buffer = (Some depth, st')
     \<and> q_inner (sb_queue st') = [demo_frame]"
proof -
  have empty: "q_inner (sb_queue demo_buffer) = []"
    by (simp add: demo_buffer_def SharedSourceBuffer_new_def refill_queue_new_def OpusFrameQueue_with_resource_limits_def)
  have decision: "refill_decision PLAYBACK_SOURCE_BUFFER_TARGET_MS demo_buffer = ProducerRefills 5000"
    by (simp add: refill_decision_def demo_buffer_def SharedSourceBuffer_new_def refill_queue_new_def
        OpusFrameQueue_with_resource_limits_def buffered_duration_ms_def duration_ms_from_samples_def limit_defs
        saturating_mul_def saturating_sub_def)
  have wf: "source_wf (sb_queue demo_buffer)" using refill_new_wf by (simp add: demo_buffer_def SharedSourceBuffer_new_def)
  have limit: "q_max_duration_samples demo_refill = samples_from_duration_ms_u64 5000"
    by (simp add: demo_refill_def push_limits refill_queue_new_def OpusFrameQueue_with_resource_limits_def)
  from producer_never_overflows [OF decision wf wf _ _ limit, of False] demo_refill_wf empty
  show ?thesis by (auto simp: source_wf_def)
qed

end
