(* ===== verification/LiveDriverLaws.thy ===== *)
theory LiveDriverLaws
  imports LiveDriver PlayoutLaws
begin

text \<open>
  What the live driver keeps: the frames between the source and the sender stay in order, an interruption
  takes all of them back, and every outcome of the deadline sender is matched with the command it is for.
\<close>

section \<open>The frames in the driver\<close>

definition pend_frames :: "PendingDeadlineCommand list \<Rightarrow> OpusFrame list" where
  "pend_frames ps = List.map_filter pend_frame ps"

lemma pend_frames_simps [simp]:
  "pend_frames [] = []" "pend_frames (ps @ qs) = pend_frames ps @ pend_frames qs"
  "pend_frames (p # ps) = (case pend_frame p of None \<Rightarrow> pend_frames ps | Some f \<Rightarrow> f # pend_frames ps)"
  by (simp_all add: pend_frames_def map_filter_def split: option.splits)

definition prepared_frames :: "PreparedPlayoutQueue \<Rightarrow> OpusFrame list" where
  "prepared_frames q = map play_frame (pp_queue q)"

definition driver_frames :: "('ds, 'w, 'u) LiveMediaDriver \<Rightarrow> OpusFrame list" where
  "driver_frames d = pend_frames (ld_pending d) @ prepared_frames (ld_prepared d) @ egress_frames (ld_egress d)"

text \<open>Everything that is still to be sent, in order: frames get the epoch of the playback as they leave the
  source buffer.\<close>

definition pipeline :: "('ds, 'w, 'u) LiveMediaDriver \<Rightarrow> OpusFrame list" where
  "pipeline d = driver_frames d
     @ map (\<lambda>f. OpusFrame_with_epoch f (ld_playback_epoch d)) (q_inner (sb_queue (ld_source d)))"

definition frames_inv :: "('ds, 'w, 'u) LiveMediaDriver \<Rightarrow> bool" where
  "frames_inv d \<longleftrightarrow> playout_wf (ld_prepared d) \<and> egress_wf (ld_egress d) \<and> list_all frame_ok (driver_frames d)
     \<and> length (driver_frames d) \<le> 20 \<and> queue_wf (sb_queue (ld_source d))
     \<and> list_all frame_ok (q_inner (sb_queue (ld_source d)))"

text \<open>Two states that hold the same frames in the same places.\<close>

definition same_frames :: "('ds, 'w, 'u) LiveMediaDriver \<Rightarrow> ('ds, 'w, 'u) LiveMediaDriver \<Rightarrow> bool" where
  "same_frames d d' \<longleftrightarrow> ld_pending d' = ld_pending d \<and> ld_prepared d' = ld_prepared d \<and> ld_egress d' = ld_egress d
     \<and> sb_queue (ld_source d') = sb_queue (ld_source d) \<and> ld_playback_epoch d' = ld_playback_epoch d"

lemma same_frames_inv: "same_frames d d' \<Longrightarrow> frames_inv d' = frames_inv d \<and> pipeline d' = pipeline d"
  by (simp add: same_frames_def frames_inv_def pipeline_def driver_frames_def)

lemma same_frames_refl [simp]: "same_frames d d" by (simp add: same_frames_def)

lemma same_frames_trans: "same_frames d d1 \<Longrightarrow> same_frames d1 d2 \<Longrightarrow> same_frames d d2"
  by (simp add: same_frames_def)

lemma emit_same [simp]: "same_frames d (emit_metric m d)" "same_frames d (emit_metric m d') = same_frames d d'"
  by (simp_all add: same_frames_def emit_metric_def)

lemma emit_fields [simp]:
  "ld_session (emit_metric m d) = ld_session d" "ld_sender (emit_metric m d) = ld_sender d"
  "ld_pending (emit_metric m d) = ld_pending d" "ld_prepared (emit_metric m d) = ld_prepared d"
  "ld_egress (emit_metric m d) = ld_egress d" "ld_source (emit_metric m d) = ld_source d"
  "ld_generation (emit_metric m d) = ld_generation d" "ld_playback_epoch (emit_metric m d) = ld_playback_epoch d"
  "ld_paused (emit_metric m d) = ld_paused d" "ld_source_ended (emit_metric m d) = ld_source_ended d"
  "ld_underrun_active (emit_metric m d) = ld_underrun_active d" "ld_ticks (emit_metric m d) = ld_ticks d"
  "ld_wire (emit_metric m d) = ld_wire d" "ld_credits (emit_metric m d) = ld_credits d"
  "ld_reported (emit_metric m d) = ld_reported d @ sent_reports m" "ld_published (emit_metric m d) = ld_published d"
  by (simp_all add: emit_metric_def)

lemma report_fields [simp]:
  "ld_session (record_prepared_playout_event k r c depth d) = ld_session d"
  "ld_sender (record_prepared_playout_event k r c depth d) = ld_sender d"
  "ld_pending (record_prepared_playout_event k r c depth d) = ld_pending d"
  "ld_prepared (record_prepared_playout_event k r c depth d) = ld_prepared d"
  "ld_egress (record_prepared_playout_event k r c depth d) = ld_egress d"
  "ld_source (record_prepared_playout_event k r c depth d) = ld_source d"
  "ld_generation (record_prepared_playout_event k r c depth d) = ld_generation d"
  "ld_playback_epoch (record_prepared_playout_event k r c depth d) = ld_playback_epoch d"
  by (simp_all add: record_prepared_playout_event_def)

section \<open>Refilling\<close>

lemma driver_frames_parts:
  assumes "frames_inv d"
  shows "list_all frame_ok (pend_frames (ld_pending d))" "list_all frame_ok (prepared_frames (ld_prepared d))"
    "list_all frame_ok (egress_frames (ld_egress d))"
  using assms by (simp_all add: frames_inv_def driver_frames_def)

lemma pending_depth_samples:
  assumes "list_all frame_ok (pend_frames ps)" and "960 * length (pend_frames ps) < 2 ^ 64"
  shows "unat (depth_duration_samples (pending_deadline_track_depth ps)) = 960 * length (pend_frames ps)"
  using assms
proof (induction ps rule: rev_induct)
  case Nil
  then show ?case by (simp add: pending_deadline_track_depth_def OpusBufferDepth_default_def)
next
  case (snoc p ps)
  have "unat (depth_duration_samples (track_depth p)) = 960 * length (pend_frames [p])"
    using snoc.prems
    by (auto simp: track_depth_def OpusBufferDepth_default_def frame_ok_def to_nat split: option.splits)
  moreover have "unat (depth_duration_samples (pending_deadline_track_depth ps)) = 960 * length (pend_frames ps)"
    using snoc by simp
  ultimately show ?case
    using snoc.prems by (simp add: pending_deadline_track_depth_def add_depth_def Let_def to_nat)
qed

lemma prepared_samples: 
  assumes "frames_inv d"
  shows "unat (pp_duration_samples (ld_prepared d)) = 960 * length (prepared_frames (ld_prepared d))"
  using assms total_samples_ok [OF driver_frames_parts(2) [OF assms]]
  by (simp add: frames_inv_def playout_wf_def prepared_frames_def)

lemma egress_samples:
  assumes "frames_inv d"
  shows "unat (egress_buffered_samples (ld_egress d)) = 960 * length (egress_frames (ld_egress d))"
  using assms total_samples_ok [OF driver_frames_parts(3) [OF assms]]
  by (simp add: frames_inv_def egress_wf_def queue_wf_def egress_buffered_samples_def egress_frames_def)

text \<open>The samples of the commands without an outcome, as the callers of the fill compute them.\<close>

definition pending_samples_of :: "('ds, 'w, 'u) LiveMediaDriver \<Rightarrow> u64" where
  "pending_samples_of d = depth_duration_samples (pending_deadline_track_depth (ld_pending d))"

lemma pending_samples_exact:
  assumes "frames_inv d"
  shows "unat (pending_samples_of d) = 960 * length (pend_frames (ld_pending d))"
  using assms pending_depth_samples [OF driver_frames_parts(1) [OF assms]]
  by (simp add: pending_samples_of_def frames_inv_def driver_frames_def)

lemma refill_target_exact:
  assumes "frames_inv d"
  shows "unat (raw_refill_target_samples (pending_samples_of d) d)
    = 960 * (20 - length (pend_frames (ld_pending d)) - length (prepared_frames (ld_prepared d)))"
  using pending_samples_exact [OF assms] prepared_samples [OF assms] egress_target_samples
  by (simp add: raw_refill_target_samples_def to_nat diff_mult_distrib2)

lemma refill_wanted_room:
  assumes "frames_inv d" and "refill_wanted t d"
    and "unat t = 960 * (20 - length (pend_frames (ld_pending d)) - length (prepared_frames (ld_prepared d)))"
  shows "length (driver_frames d) < 20"
  using assms egress_samples [OF assms(1)]
  by (auto simp: refill_wanted_def word_less_nat_alt driver_frames_def)

lemma poll_source_spec:
  assumes "poll_source d = (Returns poll, d1)" and "frames_inv d"
  shows "ld_pending d1 = ld_pending d \<and> ld_prepared d1 = ld_prepared d \<and> ld_egress d1 = ld_egress d
    \<and> ld_playback_epoch d1 = ld_playback_epoch d \<and> queue_wf (sb_queue (ld_source d1))
    \<and> (case poll_frame poll of
         None \<Rightarrow> sb_queue (ld_source d1) = sb_queue (ld_source d)
       | Some (f, depth) \<Rightarrow> \<exists>g. q_inner (sb_queue (ld_source d)) = g # q_inner (sb_queue (ld_source d1))
           \<and> f = OpusFrame_with_epoch g (ld_playback_epoch d))"
proof (cases "q_inner (sb_queue (ld_source d))")
  case Nil
  with assms oq.pop_Nil [OF Nil] show ?thesis
    by (auto simp: poll_source_def pop_live_source_frame_def frames_inv_def Let_def split: option.splits)
next
  case (Cons g gs)
  have wf: "queue_wf (sb_queue (ld_source d))" using assms(2) by (simp add: frames_inv_def)
  from oq.pop_Cons [OF wf Cons] obtain q where
    "OpusFrameQueue_pop (sb_queue (ld_source d)) = (Some g, q)" "q_inner q = gs" "queue_wf q"
    by (metis prod.collapse)
  with assms Cons show ?thesis
    by (auto simp: poll_source_def pop_live_source_frame_def Let_def split: option.splits)
qed

lemma resume_fields [simp]:
  "same_frames d (resume_after_underrun depth d)"
  "ld_source (resume_after_underrun depth d) = ld_source d" "ld_egress (resume_after_underrun depth d) = ld_egress d"
  "ld_pending (resume_after_underrun depth d) = ld_pending d" "ld_prepared (resume_after_underrun depth d) = ld_prepared d"
  "ld_playback_epoch (resume_after_underrun depth d) = ld_playback_epoch d"
  by (simp_all add: resume_after_underrun_def same_frames_def)

lemma refill_step_inv:
  assumes "refill_step d = (Returns (go_on, depth), d')" and "frames_inv d" and "length (driver_frames d) < 20"
  shows "frames_inv d' \<and> pipeline d' = pipeline d \<and> ld_pending d' = ld_pending d \<and> ld_prepared d' = ld_prepared d"
proof -
  obtain poll d1 where poll: "poll_source d = (Returns poll, d1)"
    using assms(1) by (auto simp: refill_step_def run_bind_Returns)
  note spec = poll_source_spec [OF poll assms(2)]
  show ?thesis
  proof (cases "poll_frame poll")
    case None
    with assms(1) poll have "d' = d1 \<or> d' = d1\<lparr>ld_source_ended := True\<rparr>"
      by (auto simp: refill_step_def run_bind_def split: if_splits)
    with spec None assms(2) show ?thesis
      by (auto simp: frames_inv_def pipeline_def driver_frames_def)
  next
    case (Some pair)
    obtain f remaining where pair: "pair = (f, remaining)" by fastforce
    from spec Some pair obtain g where g: "q_inner (sb_queue (ld_source d)) = g # q_inner (sb_queue (ld_source d1))"
      "f = OpusFrame_with_epoch g (ld_playback_epoch d)" by auto
    have ok: "frame_ok f" using assms(2) g by (simp add: frames_inv_def)
    have "egress_wf (ld_egress d)" "list_all frame_ok (egress_frames (ld_egress d))" "length (egress_frames (ld_egress d)) < 25"
      using assms(2,3) by (auto simp: frames_inv_def driver_frames_def)
    then obtain b where push: "egress_push (ld_egress d) f = (Inr (), b)" "egress_wf b"
      "egress_frames b = egress_frames (ld_egress d) @ [f]"
      using egress_push_room [of "ld_egress d" f] ok by blast
    with assms(1) poll Some pair spec have "d' = (resume_after_underrun remaining d1)\<lparr>ld_egress := b\<rparr>"
      by (auto simp: refill_step_def run_bind_def)
    with spec g push assms(2,3) ok show ?thesis
      by (auto simp: frames_inv_def pipeline_def driver_frames_def)
  qed
qed

lemma refill_loop_inv:
  assumes "refill_loop t latest d = (Returns depth, d')" and "frames_inv d"
    and "unat t = 960 * (20 - length (pend_frames (ld_pending d)) - length (prepared_frames (ld_prepared d)))"
  shows "frames_inv d' \<and> pipeline d' = pipeline d \<and> ld_pending d' = ld_pending d \<and> ld_prepared d' = ld_prepared d"
  using assms
proof (induction t latest d rule: refill_loop.induct)
  case (1 t latest d)
  show ?case
  proof (cases "refill_wanted t d")
    case True
    with "1.prems" obtain go_on depth1 d1 where step: "refill_step d = (Returns (go_on, depth1), d1)"
      by (auto simp: refill_loop.simps [of t latest d] split: run.splits prod.splits)
    note inv = refill_step_inv [OF step "1.prems"(2) refill_wanted_room [OF "1.prems"(2) True "1.prems"(3)]]
    show ?thesis
    proof (cases go_on)
      case True
      with "1.IH" [OF \<open>refill_wanted t d\<close>, of "Returns (True, depth1)" d1] step inv "1.prems" \<open>refill_wanted t d\<close>
      show ?thesis by (simp add: refill_loop.simps [of t latest d])
    next
      case False
      with step inv "1.prems"(1) \<open>refill_wanted t d\<close> show ?thesis by (simp add: refill_loop.simps [of t latest d])
    qed
  next
    case False
    with "1.prems" show ?thesis by (simp add: refill_loop.simps [of t latest d])
  qed
qed

lemma source_depth_same:
  assumes "source_depth_now d = (r, d')"
  shows "same_frames d d'"
  using assms
  by (auto simp: source_depth_now_def current_source_depth_def same_frames_def split: option.splits prod.splits)

lemma refill_egress_inv:
  assumes "refill_egress_buffer p d = (Returns depth, d')" and "frames_inv d" and "p = pending_samples_of d"
  shows "frames_inv d' \<and> pipeline d' = pipeline d \<and> ld_pending d' = ld_pending d \<and> ld_prepared d' = ld_prepared d"
proof -
  obtain latest d1 d2 where s: "source_depth_now d = (Returns latest, d1)"
    and loop: "refill_loop (raw_refill_target_samples p d1) latest d1 = (Returns depth, d2)"
    and d': "same_frames d2 d'"
    using assms(1) by (auto simp: refill_egress_buffer_def run_bind_Returns)
  note same = source_depth_same [OF s]
  have inv: "frames_inv d1" using same_frames_inv [OF same] assms(2) by simp
  have "p = pending_samples_of d1" using same assms(3) by (simp add: pending_samples_of_def same_frames_def)
  with refill_loop_inv [OF loop inv] refill_target_exact [OF inv] same_frames_inv [OF same] same_frames_inv [OF d'] same d'
  show ?thesis by (simp add: same_frames_def)
qed

section \<open>Filling and handing over\<close>

text \<open>A step that keeps the invariant and what is still to be sent.\<close>

definition keeps_frames :: "('ds, 'w, 'u) LiveMediaDriver \<Rightarrow> ('ds, 'w, 'u) LiveMediaDriver \<Rightarrow> bool" where
  "keeps_frames d d' \<longleftrightarrow> frames_inv d' \<and> pipeline d' = pipeline d"

lemma same_keeps: "same_frames d d' \<Longrightarrow> frames_inv d \<Longrightarrow> keeps_frames d d'"
  using same_frames_inv by (auto simp: keeps_frames_def)

lemma keeps_trans: "keeps_frames d d1 \<Longrightarrow> keeps_frames d1 d2 \<Longrightarrow> keeps_frames d d2"
  by (simp add: keeps_frames_def)

lemma speaking_same_frames: "speaking_before_media io d = (r, d') \<Longrightarrow> same_frames d d'"
  by (auto simp: speaking_before_media_def same_frames_def split: prod.splits)

lemma slot_packet_same_frames: "prepare_slot_packet io data samples d = (r, d') \<Longrightarrow> same_frames d d'"
  by (auto simp: prepare_slot_packet_def same_frames_def split: prod.splits)

lemma enqueue_prepared_spec:
  assumes "enqueue_prepared packet frame d = (Returns (), d')" and "playout_wf (ld_prepared d)"
  shows "playout_wf (ld_prepared d') \<and> prepared_frames (ld_prepared d') = prepared_frames (ld_prepared d) @ [frame]
    \<and> ld_pending d' = ld_pending d \<and> ld_egress d' = ld_egress d \<and> ld_source d' = ld_source d
    \<and> ld_playback_epoch d' = ld_playback_epoch d"
proof -
  obtain reason d1 where credit: "take_rebuild_credit frame d = (reason, d1)" by fastforce
  then have d1: "ld_prepared d1 = ld_prepared d" "ld_pending d1 = ld_pending d" "ld_egress d1 = ld_egress d"
    "ld_source d1 = ld_source d" "ld_playback_epoch d1 = ld_playback_epoch d"
    by (auto simp: take_rebuild_credit_def split: prod.splits)
  let ?p = "\<lparr>play_command = \<lparr>cmd_packet = packet, cmd_kind = PreparedPacketKind.Track,
      cmd_media_frame = Some (prepared_media_frame frame), cmd_generation = current_playout_generation d\<rparr>, play_frame = frame\<rparr>"
  obtain r queue where push: "playout_push (ld_prepared d) ?p = (r, queue)" by fastforce
  have fits: "playout_fits (ld_prepared d) ?p"
    using assms(1) push credit d1 pq.push_refused [of "ld_prepared d" ?p]
    by (cases "playout_fits (ld_prepared d) ?p") (auto simp: enqueue_prepared_def)
  from pq.push_fits [OF assms(2) fits] push have "r = Inr ()" "pp_queue queue = pp_queue (ld_prepared d) @ [?p]" "playout_wf queue"
    by simp_all
  with assms(1) push credit d1 show ?thesis
    by (auto simp: enqueue_prepared_def prepared_frames_def)
qed

lemma egress_pop_frames:
  assumes "egress_pop b = (Some f, b')" and "egress_wf b"
  shows "egress_frames b = f # egress_frames b' \<and> egress_wf b'"
proof (cases "egress_frames b")
  case Nil
  with assms eb.pop_Nil show ?thesis by simp
next
  case (Cons x xs)
  with eb.pop_Cons [OF assms(2) Cons] assms(1) show ?thesis by simp
qed

lemma egress_pop_none: "egress_pop b = (None, b') \<Longrightarrow> egress_wf b \<Longrightarrow> b' = b"
  using eb.pop_Nil eb.pop_Cons by (cases "egress_frames b") force+

lemma playout_fill_step_inv:
  assumes "playout_fill_step io p latest d = (Returns (go_on, depth), d')" and "frames_inv d" and "p = pending_samples_of d"
  shows "keeps_frames d d' \<and> ld_pending d' = ld_pending d"
proof -
  from assms(1) obtain latest1 d1 where
    start: "(if depth_packets (egress_depth (ld_egress d)) = 0 then refill_egress_buffer p d else (Returns latest, d)) = (Returns latest1, d1)"
    by (auto simp: playout_fill_step_def run_bind_Returns)
  have d1: "keeps_frames d d1 \<and> ld_pending d1 = ld_pending d"
    using start refill_egress_inv [of p d latest1 d1] assms(2,3) by (auto simp: keeps_frames_def split: if_splits)
  then have inv1: "frames_inv d1" by (simp add: keeps_frames_def)
  obtain popped egress where pop: "egress_pop (ld_egress d1) = (popped, egress)" by fastforce
  show ?thesis
  proof (cases popped)
    case None
    with egress_pop_none pop inv1 have "egress = ld_egress d1" by (auto simp: frames_inv_def)
    with assms(1) start pop None d1 show ?thesis by (auto simp: playout_fill_step_def run_bind_def)
  next
    case (Some frame)
    from assms(1) start pop Some obtain u d2 packet d3 d4 where
      sp: "speaking_before_media io (d1\<lparr>ld_egress := egress\<rparr>) = (Returns u, d2)"
      and pk: "prepare_slot_packet io (frame_data frame) (frame_duration_samples frame) d2 = (Returns packet, d3)"
      and enq: "enqueue_prepared packet frame d3 = (Returns (), d4)"
      and ref: "refill_egress_buffer p d4 = (Returns depth, d')"
      by (auto simp: playout_fill_step_def run_bind_Returns)
    have same: "same_frames (d1\<lparr>ld_egress := egress\<rparr>) d3"
      using same_frames_trans [OF speaking_same_frames [OF sp] slot_packet_same_frames [OF pk]] .
    have frames: "egress_frames (ld_egress d1) = frame # egress_frames egress" "egress_wf egress"
      using egress_pop_frames [of "ld_egress d1" frame egress] pop Some inv1 by (auto simp: frames_inv_def)
    have "playout_wf (ld_prepared d3)" using same inv1 by (simp add: same_frames_def frames_inv_def)
    note enqd = enqueue_prepared_spec [OF enq this]
    have "keeps_frames d1 d4" "ld_pending d4 = ld_pending d1"
      using enqd same frames inv1
      by (auto simp: keeps_frames_def frames_inv_def pipeline_def driver_frames_def same_frames_def)
    moreover have "p = pending_samples_of d4" using assms(3) d1 \<open>ld_pending d4 = ld_pending d1\<close> by (simp add: pending_samples_of_def)
    ultimately show ?thesis
      using refill_egress_inv [OF ref] d1 by (auto simp: keeps_frames_def)
  qed
qed

lemma fill_prepared_loop_inv:
  assumes "fill_prepared_loop io p latest d = (Returns depth, d')" and "frames_inv d" and "p = pending_samples_of d"
  shows "keeps_frames d d' \<and> ld_pending d' = ld_pending d"
  using assms
proof (induction io p latest d rule: fill_prepared_loop.induct)
  case (1 io p latest d)
  show ?case
  proof (cases "fill_wanted p d")
    case True
    with "1.prems"(1) obtain go_on depth1 d1 where step: "playout_fill_step io p latest d = (Returns (go_on, depth1), d1)"
      by (auto simp: fill_prepared_loop.simps [of io p latest d] split: run.splits prod.splits)
    note inv = playout_fill_step_inv [OF step "1.prems"(2,3)]
    then have p1: "p = pending_samples_of d1" using "1.prems"(3) by (simp add: pending_samples_of_def)
    show ?thesis
    proof (cases go_on)
      case True
      have "fill_prepared_loop io p depth1 d1 = (Returns depth, d')"
        using "1.prems"(1) step True \<open>fill_wanted p d\<close> by (simp add: fill_prepared_loop.simps [of io p latest d])
      from "1.IH" [OF \<open>fill_wanted p d\<close> step [symmetric] refl refl _ this _ p1] True inv show ?thesis
        by (simp add: keeps_frames_def)
    next
      case False
      with step inv "1.prems"(1) \<open>fill_wanted p d\<close> show ?thesis by (simp add: fill_prepared_loop.simps [of io p latest d])
    qed
  next
    case False
    with "1.prems"(1,2) show ?thesis by (simp add: fill_prepared_loop.simps [of io p latest d] keeps_frames_def)
  qed
qed

lemma fill_prepared_inv:
  assumes "fill_prepared_playout_queue io (pending_samples_of d) d = (Returns depth, d')" and "frames_inv d"
  shows "keeps_frames d d' \<and> ld_pending d' = ld_pending d"
proof -
  obtain latest d1 d2 where r: "refill_egress_buffer (pending_samples_of d) d = (Returns latest, d1)"
    and l: "fill_prepared_loop io (pending_samples_of d) latest d1 = (Returns depth, d2)" and d': "same_frames d2 d'"
    using assms(1) by (auto simp: fill_prepared_playout_queue_def run_bind_Returns)
  note r1 = refill_egress_inv [OF r assms(2) refl]
  moreover have "pending_samples_of d = pending_samples_of d1" using r1 by (simp add: pending_samples_of_def)
  ultimately show ?thesis
    using fill_prepared_loop_inv [OF l] same_frames_inv [OF d'] d' by (auto simp: keeps_frames_def same_frames_def)
qed

lemma playout_pop_spec:
  assumes "playout_pop q = (Some x, q')" and "playout_wf q"
  shows "pp_queue q = x # pp_queue q' \<and> playout_wf q'"
  using assms pq.pop_Nil [of q] pq.pop_Cons [of q] by (cases "pp_queue q") force+

lemma pump_step_frames:
  assumes "pump_step prepared queue d = (Returns (), d')" and "playout_pop (ld_prepared d) = (Some prepared, queue)"
    and "frames_inv d"
  shows "keeps_frames d d' \<and> ld_prepared d' = queue"
proof -
  have "playout_wf (ld_prepared d)" using assms(3) by (simp add: frames_inv_def)
  note pop = playout_pop_spec [OF assms(2) this]
  show ?thesis
    using assms(1,3) pop
    by (auto simp: pump_step_def keeps_frames_def frames_inv_def pipeline_def driver_frames_def prepared_frames_def
        PendingDeadlineCommand_new_def Let_def split: prod.splits sum.splits)
qed

lemma pump_frames:
  assumes "pump_prepared_playout_to_deadline_sender d = (Returns (), d')" and "frames_inv d"
  shows "keeps_frames d d'"
  using assms
proof (induction d rule: pump_prepared_playout_to_deadline_sender.induct)
  case (1 d)
  note unfold = pump_prepared_playout_to_deadline_sender.simps [of d]
  show ?case
  proof (cases "available_command_capacity (ld_sender d) > 0 \<and> pp_queue (ld_prepared d) \<noteq> []")
    case True
    then obtain prepared queue where pop: "playout_pop (ld_prepared d) = (Some prepared, queue)"
      by (cases "pp_queue (ld_prepared d)") (auto simp: playout_pop_def)
    with "1.prems"(1) True obtain d1 where step: "pump_step prepared queue d = (Returns (), d1)"
      and rest: "pump_prepared_playout_to_deadline_sender d1 = (Returns (), d')"
      by (auto simp: unfold split: run.splits prod.splits)
    note inv = pump_step_frames [OF step pop "1.prems"(2)]
    from "1.IH" [OF _ pop [symmetric] refl step [symmetric] refl] True rest inv show ?thesis
      by (auto simp: keeps_frames_def)
  next
    case False
    with "1.prems" pq.pop_Nil [of "ld_prepared d"] show ?thesis
      by (auto simp: unfold keeps_frames_def split: if_splits)
  qed
qed

lemma silence_frames:
  assumes "enqueue_scheduled_silence io reason d = (Returns (), d')" and "frames_inv d"
  shows "keeps_frames d d'"
proof -
  obtain packet d1 where p: "prepare_slot_packet io SILENCE_FRAME 960 d = (Returns packet, d1)"
    using assms(1) by (auto simp: enqueue_scheduled_silence_def run_bind_Returns)
  have "same_frames d d1" using slot_packet_same_frames [OF p] .
  with assms p show ?thesis
    by (auto simp: enqueue_scheduled_silence_def run_bind_def keeps_frames_def frames_inv_def pipeline_def
        driver_frames_def same_frames_def PendingDeadlineCommand_new_def Let_def split: prod.splits sum.splits)
qed

lemma silence_loop_frames:
  "silence_loop n io d = (Returns (), d') \<Longrightarrow> frames_inv d \<Longrightarrow> keeps_frames d d'"
proof (induction n arbitrary: d)
  case (Suc n)
  show ?case
  proof (cases "available_command_capacity (ld_sender d) > 0")
    case True
    with Suc.prems obtain d1 where "enqueue_scheduled_silence io ReasonSourceUnderrun d = (Returns (), d1)"
      "silence_loop n io d1 = (Returns (), d')" by (auto simp: run_bind_Returns)
    with Suc silence_frames show ?thesis by (metis keeps_frames_def keeps_trans)
  next
    case False
    with Suc.prems show ?thesis by (simp add: keeps_frames_def)
  qed
qed (simp add: keeps_frames_def)

lemma fill_silence_frames:
  assumes "fill_source_underrun_silence_deadline_queue io d = (Returns (), d')" and "frames_inv d"
  shows "keeps_frames d d'"
proof -
  let ?missing = "SOURCE_UNDERRUN_DEADLINE_AHEAD_PACKETS - pending_source_silence d"
  obtain d1 where sp: "(if ?missing > 0 \<and> available_command_capacity (ld_sender d) > 0 then speaking_before_media io d
      else (Returns (), d)) = (Returns (), d1)" and loop: "silence_loop ?missing io d1 = (Returns (), d')"
    using assms(1) by (auto simp: fill_source_underrun_silence_deadline_queue_def run_bind_Returns Let_def)
  have same: "same_frames d d1" using sp speaking_same_frames [of io d] by (auto split: if_splits)
  then have "frames_inv d1" using same_frames_inv assms(2) by blast
  from keeps_trans [OF same_keeps [OF same assms(2)] silence_loop_frames [OF loop this]] show ?thesis .
qed

section \<open>Interruptions\<close>

lemma drop_pending_spec:
  "drop_pending_loop reason ps frames d = (frames', d') \<Longrightarrow>
     frames' = frames @ pend_frames ps \<and> ld_pending d' = [] \<and> ld_prepared d' = ld_prepared d \<and> ld_egress d' = ld_egress d
     \<and> ld_source d' = ld_source d \<and> ld_playback_epoch d' = ld_playback_epoch d \<and> ld_sender d' = ld_sender d
     \<and> ld_generation d' = ld_generation d \<and> ld_session d' = ld_session d \<and> ld_paused d' = ld_paused d"
proof (induction ps arbitrary: frames d)
  case (Cons p ps)
  from Cons.IH [OF Cons.prems [unfolded drop_pending_loop.simps Let_def]] show ?case by (simp split: option.splits)
qed auto

lemma drain_prepared_spec:
  assumes "drain_prepared_frames reason xs frames d = (frames', d')" and "playout_wf (ld_prepared d)"
    and "pp_queue (ld_prepared d) = xs"
  shows "frames' = frames @ map play_frame xs \<and> playout_wf (ld_prepared d') \<and> pp_queue (ld_prepared d') = []
    \<and> ld_pending d' = ld_pending d \<and> ld_egress d' = ld_egress d \<and> ld_source d' = ld_source d
    \<and> ld_playback_epoch d' = ld_playback_epoch d \<and> ld_sender d' = ld_sender d \<and> ld_generation d' = ld_generation d
    \<and> ld_session d' = ld_session d \<and> ld_paused d' = ld_paused d"
  using assms
proof (induction xs arbitrary: frames d)
  case (Cons x xs)
  have pop: "playout_wf (snd (playout_pop (ld_prepared d)))" "pp_queue (snd (playout_pop (ld_prepared d))) = xs"
    using pq.pop_Cons [OF Cons.prems(2,3)] by simp_all
  show ?case using Cons.IH [OF _ _ _, of "frames @ [play_frame x]"] Cons.prems(1) pop
    by (simp add: Let_def record_prepared_playout_event_def)
qed simp

lemma drain_raw_spec:
  assumes "drain_raw_frames xs frames b = (frames', b')" and "egress_wf b" and "egress_frames b = xs"
  shows "frames' = frames @ xs \<and> egress_wf b' \<and> egress_frames b' = []"
  using assms
proof (induction xs arbitrary: frames b)
  case (Cons x xs)
  from eb.pop_Cons [OF Cons.prems(2,3)] Cons.IH [of "frames @ [x]" "snd (egress_pop b)"] Cons.prems(1) show ?case by simp
qed simp

lemma drain_egress_spec:
  assumes "drain_egress_frames reason d = (frames, d')" and "playout_wf (ld_prepared d)" and "egress_wf (ld_egress d)"
  shows "frames = prepared_frames (ld_prepared d) @ egress_frames (ld_egress d) \<and> playout_wf (ld_prepared d')
    \<and> pp_queue (ld_prepared d') = [] \<and> egress_wf (ld_egress d') \<and> egress_frames (ld_egress d') = []
    \<and> ld_pending d' = ld_pending d \<and> ld_source d' = ld_source d \<and> ld_playback_epoch d' = ld_playback_epoch d
    \<and> ld_sender d' = ld_sender d \<and> ld_generation d' = ld_generation d \<and> ld_session d' = ld_session d
    \<and> ld_paused d' = ld_paused d"
proof -
  obtain fs d1 where p: "drain_prepared_frames reason (pp_queue (ld_prepared d)) [] d = (fs, d1)" by fastforce
  note p1 = drain_prepared_spec [OF p assms(2) refl]
  obtain fs1 b where r: "drain_raw_frames (q_inner (egress_queue (ld_egress d1))) fs (ld_egress d1) = (fs1, b)" by fastforce
  have "egress_wf (ld_egress d1)" using p1 assms(3) by simp
  from drain_raw_spec [OF r this] have "fs1 = fs @ egress_frames (ld_egress d1) \<and> egress_wf b \<and> egress_frames b = []"
    by (simp add: egress_frames_def)
  with assms(1) p r p1 show ?thesis by (auto simp: drain_egress_frames_def prepared_frames_def)
qed

lemma report_flush_fields:
  "ld_pending (report_flush reason depth c d) = ld_pending d" "ld_prepared (report_flush reason depth c d) = ld_prepared d"
  "ld_egress (report_flush reason depth c d) = ld_egress d" "ld_source (report_flush reason depth c d) = ld_source d"
  "ld_playback_epoch (report_flush reason depth c d) = ld_playback_epoch d"
  "ld_sender (report_flush reason depth c d) = ld_sender d" "ld_generation (report_flush reason depth c d) = ld_generation d"
  "ld_session (report_flush reason depth c d) = ld_session d" "ld_paused (report_flush reason depth c d) = ld_paused d"
  by (simp_all add: report_flush_def Let_def)

lemma restore_flushed_spec:
  assumes "egress_wf (ld_egress d)" and "egress_frames (ld_egress d) = []" and "list_all frame_ok frames"
    and "length frames \<le> 25"
  shows "egress_wf (ld_egress (restore_flushed reason frames d))
    \<and> egress_frames (ld_egress (restore_flushed reason frames d)) = frames
    \<and> ld_pending (restore_flushed reason frames d) = ld_pending d
    \<and> ld_prepared (restore_flushed reason frames d) = ld_prepared d
    \<and> sb_queue (ld_source (restore_flushed reason frames d)) = sb_queue (ld_source d)
    \<and> sb_error (ld_source (restore_flushed reason frames d)) = None
    \<and> sb_end_of_stream (ld_source (restore_flushed reason frames d)) = sb_end_of_stream (ld_source d)
    \<and> ld_playback_epoch (restore_flushed reason frames d) = ld_playback_epoch d
    \<and> ld_sender (restore_flushed reason frames d) = ld_sender d
    \<and> ld_generation (restore_flushed reason frames d) = ld_generation d
    \<and> ld_session (restore_flushed reason frames d) = ld_session d
    \<and> ld_paused (restore_flushed reason frames d) = ld_paused d"
proof -
  obtain b credits count samples where
    loop: "restore_interrupted_loop reason frames (ld_egress d, ld_credits d) (0, 0, []) = ((b, credits), count, samples, [])"
    and b: "egress_wf b" "egress_frames b = frames"
    using restore_interrupted_all [of "ld_egress d" frames reason "ld_credits d" 0 0 "[]"] assms by auto
  obtain r st where depth: "current_source_depth (ld_source d) = (r, st)" by fastforce
  then have "sb_queue st = sb_queue (ld_source d)" "sb_error st = None"
    "sb_end_of_stream st = sb_end_of_stream (ld_source d)"
    by (auto simp: current_source_depth_def split: option.splits)
  with loop b depth show ?thesis
    by (simp add: restore_flushed_def restore_interrupted_frames_to_egress_buffer_def report_flush_fields)
qed

lemma flush_spec:
  fixes reason
  assumes "playout_wf (ld_prepared d)" and "egress_wf (ld_egress d)"
    and "list_all frame_ok (frames @ prepared_frames (ld_prepared d) @ egress_frames (ld_egress d))"
    and "length (frames @ prepared_frames (ld_prepared d) @ egress_frames (ld_egress d)) \<le> 25"
  defines "d' \<equiv> flush_egress_buffer_for_interruption reason frames d"
  shows "playout_wf (ld_prepared d') \<and> pp_queue (ld_prepared d') = [] \<and> egress_wf (ld_egress d')
    \<and> egress_frames (ld_egress d') = frames @ prepared_frames (ld_prepared d) @ egress_frames (ld_egress d)
    \<and> ld_pending d' = ld_pending d \<and> sb_queue (ld_source d') = sb_queue (ld_source d)
    \<and> sb_end_of_stream (ld_source d') = sb_end_of_stream (ld_source d)
    \<and> (frames @ prepared_frames (ld_prepared d) @ egress_frames (ld_egress d) \<noteq> [] \<longrightarrow> sb_error (ld_source d') = None)
    \<and> ld_playback_epoch d' = ld_playback_epoch d \<and> ld_sender d' = ld_sender d \<and> ld_generation d' = ld_generation d
    \<and> ld_session d' = ld_session d \<and> ld_paused d' = ld_paused d"
proof -
  obtain drained d1 where dr: "drain_egress_frames reason d = (drained, d1)" by fastforce
  note d1 = drain_egress_spec [OF dr assms(1,2)]
  show ?thesis
  proof (cases "frames @ drained = []")
    case True
    with dr d1 show ?thesis by (simp add: d'_def flush_egress_buffer_for_interruption_def)
  next
    case False
    have "egress_wf (ld_egress d1)" "egress_frames (ld_egress d1) = []" "list_all frame_ok (frames @ drained)"
      "length (frames @ drained) \<le> 25" using d1 assms(3,4) by simp_all
    from restore_flushed_spec [OF this, of reason] dr d1 False show ?thesis
      by (simp add: d'_def flush_egress_buffer_for_interruption_def) blast
  qed
qed

lemma replace_sender_spec:
  assumes "replace_sender deadline d = (Returns (), d')"
  shows "\<exists>cursor. d' = d\<lparr>ld_sender := LiveDeadlineSender_spawn cursor (ld_generation d) deadline\<rparr>"
  using assms by (auto simp: replace_sender_def split: sum.splits)

lemma invalidate_discard_fields [simp]:
  "ld_pending (discard_unsent d) = ld_pending d" "ld_prepared (discard_unsent d) = ld_prepared d"
  "ld_egress (discard_unsent d) = ld_egress d" "ld_source (discard_unsent d) = ld_source d"
  "ld_playback_epoch (discard_unsent d) = ld_playback_epoch d" "ld_paused (discard_unsent d) = ld_paused d"
  "ld_generation (discard_unsent d) = ld_generation d" "ld_sender (discard_unsent d) = ld_sender d"
  "ld_pending (invalidate_prepared_playout_generation d) = ld_pending d"
  "ld_prepared (invalidate_prepared_playout_generation d) = ld_prepared d"
  "ld_egress (invalidate_prepared_playout_generation d) = ld_egress d"
  "ld_source (invalidate_prepared_playout_generation d) = ld_source d"
  "ld_paused (invalidate_prepared_playout_generation d) = ld_paused d"
  "ld_playback_epoch (invalidate_prepared_playout_generation d) = ld_playback_epoch d"
  "ld_generation (invalidate_prepared_playout_generation d) = ld_generation d + 1"
  by (simp_all add: discard_unsent_def invalidate_prepared_playout_generation_def Let_def)

lemma interrupt_spec:
  assumes "interrupt_playout reason deadline d = (Returns (), d')" and "frames_inv d"
  shows "keeps_frames d d' \<and> ld_pending d' = [] \<and> pp_queue (ld_prepared d') = []
    \<and> egress_frames (ld_egress d') = driver_frames d \<and> ld_generation d' = ld_generation d + 1
    \<and> (\<exists>cursor. ld_sender d' = LiveDeadlineSender_spawn cursor (ld_generation d + 1) deadline)
    \<and> ld_paused d' = ld_paused d \<and> sb_queue (ld_source d') = sb_queue (ld_source d)
    \<and> sb_end_of_stream (ld_source d') = sb_end_of_stream (ld_source d)
    \<and> (driver_frames d \<noteq> [] \<longrightarrow> sb_error (ld_source d') = None)"
proof -
  let ?d0 = "discard_unsent (invalidate_prepared_playout_generation d)"
  obtain frames d1 where r: "replace_deadline_sender_after_invalidation_at reason deadline ?d0 = (Returns frames, d1)"
    and d': "d' = flush_egress_buffer_for_interruption reason frames d1"
    using assms(1) by (auto simp: interrupt_playout_def run_bind_Returns)
  then obtain d2 where rep: "replace_sender deadline ?d0 = (Returns (), d2)"
    and drop: "drop_pending_loop reason (ld_pending d2) [] d2 = (frames, d1)"
    by (auto simp: replace_deadline_sender_after_invalidation_at_def run_bind_Returns case_prod_beta)
  obtain cursor where d2: "d2 = ?d0\<lparr>ld_sender := LiveDeadlineSender_spawn cursor (ld_generation ?d0) deadline\<rparr>"
    using replace_sender_spec [OF rep] by blast
  note d1 = drop_pending_spec [OF drop]
  have all: "frames @ prepared_frames (ld_prepared d1) @ egress_frames (ld_egress d1) = driver_frames d"
    using d1 d2 by (simp add: driver_frames_def)
  have "playout_wf (ld_prepared d1)" "egress_wf (ld_egress d1)" "list_all frame_ok (driver_frames d)"
    "length (driver_frames d) \<le> 25" using d1 d2 assms(2) by (auto simp: frames_inv_def)
  note f = flush_spec [of d1 frames reason, unfolded all, OF this]
  from f d1 d2 assms(2) show ?thesis
    by (auto simp: d' keeps_frames_def frames_inv_def pipeline_def driver_frames_def prepared_frames_def)
qed

end
