(* ===== verification/LiveAccounting.thy ===== *)
theory LiveAccounting
  imports LiveDriverLaws "HOL-Library.Sublist"
begin

text \<open>
  What the live driver accounts for: the deadline sender answers the commands it was given one by one and in
  order, so the driver never finds an outcome that does not match, and over whole rounds of its loop the media
  frames it reports as sent, followed by those it still holds, are the frames it was given.
\<close>

section \<open>The sender answers in order\<close>

text \<open>The commands without an outcome: the first have their records waiting, the others are still queued.\<close>

definition command_of :: "u64 \<Rightarrow> PendingDeadlineCommand \<Rightarrow> PreparedPlayoutCommand \<Rightarrow> bool" where
  "command_of g p c \<longleftrightarrow> (\<exists>f. p = PendingDeadlineCommand_new c f) \<and> cmd_generation c = g"

definition answers :: "PendingDeadlineCommand list \<Rightarrow> u64 \<Rightarrow> DeadlineSender \<Rightarrow> bool \<Rightarrow> bool" where
  "answers ps g s running \<longleftrightarrow>
     ds_active_generation s = Some g \<and> \<not> ds_shutdown s \<and> chan_open (ds_commands s) \<and> chan_capacity (ds_commands s) > 0
     \<and> (\<exists>drops. ds_drop_records s = Some drops \<and> chan_items drops = [])
     \<and> (\<exists>records sent queued. ds_send_records s = Some records \<and> ps = sent @ queued
         \<and> list_all2 matches_sent_record sent (chan_items records)
         \<and> length (chan_items (ds_commands s)) \<le> length queued
         \<and> (running \<longrightarrow> list_all2 (command_of g) queued (chan_items (ds_commands s))))"

definition sender_inv :: "PendingDeadlineCommand list \<Rightarrow> u64 \<Rightarrow> LiveDeadlineSender \<Rightarrow> bool" where
  "sender_inv ps g sender \<longleftrightarrow> answers ps g (lds_sender sender) (lds_running sender)"

lemma answersI:
  assumes "ds_active_generation s = Some g" "\<not> ds_shutdown s" "chan_open (ds_commands s)" "chan_capacity (ds_commands s) > 0"
    and "ds_drop_records s = Some drops" "chan_items drops = []" "ds_send_records s = Some records" "ps = sent @ queued"
    and "list_all2 matches_sent_record sent (chan_items records)" "length (chan_items (ds_commands s)) \<le> length queued"
    and "running \<Longrightarrow> list_all2 (command_of g) queued (chan_items (ds_commands s))"
  shows "answers ps g s running"
  unfolding answers_def using assms by blast

lemma answersE:
  assumes "answers ps g s running"
  obtains drops records sent queued where "ds_active_generation s = Some g" "\<not> ds_shutdown s" "chan_open (ds_commands s)"
    "chan_capacity (ds_commands s) > 0" "ds_drop_records s = Some drops" "chan_items drops = []"
    "ds_send_records s = Some records" "ps = sent @ queued" "list_all2 matches_sent_record sent (chan_items records)"
    "length (chan_items (ds_commands s)) \<le> length queued"
    "running \<longrightarrow> list_all2 (command_of g) queued (chan_items (ds_commands s))"
  using assms unfolding answers_def by blast

lemma spawn_inv: "sender_inv [] g (LiveDeadlineSender_spawn cursor g deadline)"
  by (simp add: sender_inv_def answers_def LiveDeadlineSender_spawn_def new_channel_def
      LIVE_DEADLINE_COMMAND_CHANNEL_CAPACITY_def DeadlineSender_new_with_next_deadline_records_and_generation_def)

lemma try_send_inv:
  assumes "try_send_command c s = (Inr (), s')" and "sender_inv ps g s" and "cmd_generation c = g"
  shows "sender_inv (ps @ [PendingDeadlineCommand_new c f]) g s'"
proof -
  have s': "lds_running s" "lds_running s' = lds_running s"
    "lds_sender s' = (lds_sender s)\<lparr>ds_commands := (ds_commands (lds_sender s))
       \<lparr>chan_items := chan_items (ds_commands (lds_sender s)) @ [c]\<rparr>\<rparr>"
    using assms(1) by (auto simp: try_send_command_def try_send_def Let_def split: if_splits)
  from assms(2) [unfolded sender_inv_def] obtain drops records sent queued where
    inv: "ds_active_generation (lds_sender s) = Some g" "\<not> ds_shutdown (lds_sender s)"
    "chan_open (ds_commands (lds_sender s))" "chan_capacity (ds_commands (lds_sender s)) > 0"
    "ds_drop_records (lds_sender s) = Some drops" "chan_items drops = []"
    "ds_send_records (lds_sender s) = Some records" "ps = sent @ queued"
    "list_all2 matches_sent_record sent (chan_items records)"
    "length (chan_items (ds_commands (lds_sender s))) \<le> length queued"
    "lds_running s \<longrightarrow> list_all2 (command_of g) queued (chan_items (ds_commands (lds_sender s)))"
    by (rule answersE)
  have "list_all2 (command_of g) (queued @ [PendingDeadlineCommand_new c f]) (chan_items (ds_commands (lds_sender s)) @ [c])"
    using inv(11) s'(1) assms(3) by (auto simp: command_of_def intro!: list_all2_appendI)
  with inv s' show ?thesis
    unfolding sender_inv_def
    by (intro answersI [where drops = drops and records = records and sent = sent
          and queued = "queued @ [PendingDeadlineCommand_new c f]"]) auto
qed

lemma sent_record_matches:
  "matches_sent_record (PendingDeadlineCommand_new c f) (send_record e b a c)"
  by (simp add: matches_sent_record_def PendingDeadlineCommand_new_def send_record_def)

lemma tick_answers:
  assumes "tick_once send_to clock s w = (r, s', w')" and "answers ps g s True"
  shows "answers ps g s' (r = Inr () \<and> \<not> ds_shutdown s')"
proof -
  from assms(2) obtain drops records sent queued where
    inv: "ds_active_generation s = Some g" "\<not> ds_shutdown s"
    "chan_open (ds_commands s)" "chan_capacity (ds_commands s) > 0"
    "ds_drop_records s = Some drops" "chan_items drops = []"
    "ds_send_records s = Some records" "ps = sent @ queued"
    "list_all2 matches_sent_record sent (chan_items records)"
    "length (chan_items (ds_commands s)) \<le> length queued"
    "True \<longrightarrow> list_all2 (command_of g) queued (chan_items (ds_commands s))"
    by (rule answersE)
  show ?thesis
  proof (cases "chan_items (ds_commands s)")
    case Nil
    with assms(1) inv have "r = Inr () \<and> s' = s\<lparr>ds_metrics := record_empty_tick (ds_metrics s),
        ds_next_deadline := Some (clock_started clock + ds_tick s)\<rparr>"
      by (simp add: tick_once_def try_recv_def Let_def)
    with assms(2) show ?thesis by (simp add: answers_def)
  next
    case (Cons c cs)
    with inv(11) obtain p queued' f where q: "queued = p # queued'" "p = PendingDeadlineCommand_new c f"
      "cmd_generation c = g" and rest: "list_all2 (command_of g) queued' cs"
      by (auto simp: list_all2_Cons2 command_of_def)
    let ?s = "s\<lparr>ds_next_deadline := None, ds_commands := (ds_commands s)\<lparr>chan_items := cs\<rparr>\<rparr>"
    obtain sr cursor w1 where send: "send_prepared_packet send_to (ds_cursor s) (cmd_packet c) w = (sr, cursor, w1)"
      using prod_cases3 by blast
    have fresh: "\<not> is_stale ?s c" using inv q by (simp add: is_stale_def)
    let ?rec = "send_record (expected_deadline s clock) (clock_started clock) (clock_sent clock) c"
    have le: "length cs \<le> length queued'" using list_all2_lengthD [OF rest] by simp
    show ?thesis
    proof (cases sr)
      case (Inl err)
      with assms(1) Cons send fresh have "r = Inl (RuntimeVoice err) \<and> s' = ?s\<lparr>ds_cursor := cursor\<rparr>"
        by (simp add: tick_once_def try_recv_def Let_def)
      with inv q le show ?thesis
        by (intro answersI [where drops = drops and records = records and sent = sent and queued = queued]) auto
    next
      case (Inr u)
      then have tick: "(r, s') = commit_send (expected_deadline s clock) clock c (?s\<lparr>ds_cursor := cursor\<rparr>)"
        using assms(1) Cons send fresh by (simp add: tick_once_def try_recv_def Let_def split: prod.splits)
      obtain ok records1 where Pair: "try_send records ?rec = (ok, records1)" by fastforce
      show ?thesis
      proof (cases ok)
        case True
        then have r1: "chan_items records1 = chan_items records @ [?rec]"
          using Pair by (auto simp: try_send_def split: if_splits)
        have "list_all2 matches_sent_record (sent @ [p]) (chan_items records1)"
          using inv(9) q sent_record_matches r1 by (simp add: list_all2_appendI)
        with tick Pair True inv(1-8) q rest le show ?thesis
          by (intro answersI [where drops = drops and records = records1 and sent = "sent @ [p]" and queued = queued'])
            (auto simp: commit_send_def record_sent_def Let_def)
      next
        case False
        with tick Pair inv q le show ?thesis
          by (intro answersI [where drops = drops and records = records and sent = sent and queued = queued])
            (auto simp: commit_send_def record_sent_def Let_def)
      qed
    qed
  qed
qed

lemma tick_inv:
  assumes "sender_inv ps (ld_generation d) (ld_sender d)"
  shows "sender_inv ps (ld_generation (sender_tick io clock d)) (ld_sender (sender_tick io clock d))"
proof (cases "lds_running (ld_sender d)")
  case True
  obtain r s w where t: "tick_once (io_udp io) clock (lds_sender (ld_sender d)) (ld_wire d) = (r, s, w)"
    using prod_cases3 by blast
  from tick_answers [OF t] assms True t show ?thesis by (simp add: sender_inv_def sender_tick_def)
next
  case False
  with assms show ?thesis by (simp add: sender_tick_def)
qed

lemma next_outcome_inv:
  assumes "try_next_outcome s = (Inr outcome, s')" and "sender_inv ps g s"
  shows "case outcome of
      None \<Rightarrow> s' = s
    | Some (OutcomeSent rec) \<Rightarrow> \<exists>p ps'. ps = p # ps' \<and> matches_sent_record p rec \<and> sender_inv ps' g s'
    | Some (OutcomeDropped rec) \<Rightarrow> False"
proof -
  from assms(2) [unfolded sender_inv_def] obtain drops records sent queued where
    inv: "ds_active_generation (lds_sender s) = Some g" "\<not> ds_shutdown (lds_sender s)"
    "chan_open (ds_commands (lds_sender s))" "chan_capacity (ds_commands (lds_sender s)) > 0"
    "ds_drop_records (lds_sender s) = Some drops" "chan_items drops = []"
    "ds_send_records (lds_sender s) = Some records" "ps = sent @ queued"
    "list_all2 matches_sent_record sent (chan_items records)"
    "length (chan_items (ds_commands (lds_sender s))) \<le> length queued"
    "lds_running s \<longrightarrow> list_all2 (command_of g) queued (chan_items (ds_commands (lds_sender s)))"
    by (rule answersE)
  show ?thesis
  proof (cases "chan_items records")
    case Nil
    with assms inv show ?thesis
      by (auto simp: try_next_outcome_def take_record_def try_recv_def Let_def split: if_splits)
  next
    case (Cons rec recs)
    with inv obtain p sent' where p: "sent = p # sent'" "matches_sent_record p rec" "list_all2 matches_sent_record sent' recs"
      by (auto simp: list_all2_Cons2)
    have s': "outcome = Some (OutcomeSent rec)"
      "s' = s\<lparr>lds_sender := (lds_sender s)\<lparr>ds_send_records := Some (records\<lparr>chan_items := recs\<rparr>)\<rparr>\<rparr>"
      using assms(1) inv Cons by (simp_all add: try_next_outcome_def take_record_def try_recv_def Let_def)
    have "sender_inv (sent' @ queued) g s'"
      unfolding sender_inv_def using s' p inv
      by (intro answersI [where drops = drops and records = "records\<lparr>chan_items := recs\<rparr>" and sent = sent' and queued = queued]) auto
    with s' p inv(8) show ?thesis by simp
  qed
qed

lemma idle_sender_bump:
  assumes "sender_inv [] g s"
  shows "sender_inv [] g' (s\<lparr>lds_sender := (lds_sender s)\<lparr>ds_active_generation := Some g'\<rparr>\<rparr>)"
  using assms by (auto simp: sender_inv_def answers_def)

section \<open>What is accounted\<close>

definition play_ok :: "u64 \<Rightarrow> PreparedTrackPlayout \<Rightarrow> bool" where
  "play_ok g x \<longleftrightarrow> cmd_generation (play_command x) = g
     \<and> cmd_media_frame (play_command x) = Some (prepared_media_frame (play_frame x))"

definition pend_ok :: "PendingDeadlineCommand \<Rightarrow> bool" where
  "pend_ok p \<longleftrightarrow> pend_media_frame p = map_option prepared_media_frame (pend_frame p)"

definition queues_inv :: "('ds, 'w, 'u) LiveMediaDriver \<Rightarrow> bool" where
  "queues_inv d \<longleftrightarrow> sender_inv (ld_pending d) (ld_generation d) (ld_sender d) \<and> list_all pend_ok (ld_pending d)
     \<and> list_all (play_ok (ld_generation d)) (pp_queue (ld_prepared d))
     \<and> (ld_paused d \<longrightarrow> ld_pending d = [] \<and> pp_queue (ld_prepared d) = [])"

definition driver_inv :: "('ds, 'w, 'u) LiveMediaDriver \<Rightarrow> bool" where
  "driver_inv d \<longleftrightarrow> frames_inv d \<and> queues_inv d"

text \<open>The media frames of a list of send records, and how the index of reported packets moves with them.\<close>

definition sent_frames :: "DeadlineSendRecord list \<Rightarrow> PreparedMediaFrame list" where
  "sent_frames recs = List.map_filter sent_media_frame recs"

definition bump :: "nat \<Rightarrow> u64 \<Rightarrow> u64" where
  "bump n = (\<lambda>i. saturating_add i 1) ^^ n"

lemma sent_frames_simps [simp]:
  "sent_frames [] = []" "sent_frames (xs @ ys) = sent_frames xs @ sent_frames ys"
  "sent_frames (r # rs) = (case sent_media_frame r of None \<Rightarrow> sent_frames rs | Some f \<Rightarrow> f # sent_frames rs)"
  by (simp_all add: sent_frames_def map_filter_def split: option.splits)

definition stamped :: "('ds, 'w, 'u) LiveMediaDriver \<Rightarrow> OpusFrame list \<Rightarrow> OpusFrame list" where
  "stamped d fs = map (\<lambda>f. OpusFrame_with_epoch f (ld_playback_epoch d)) fs"

lemma stamped_simps [simp]: "stamped d [] = []" "stamped d (xs @ ys) = stamped d xs @ stamped d ys"
  by (simp_all add: stamped_def)

text \<open>What a publication gave the source buffer: all its frames, or the first of them when they did not all fit.\<close>

definition piece_of :: "OpusFrame list \<Rightarrow> OpusFrame list \<times> bool \<Rightarrow> bool" where
  "piece_of piece publication \<longleftrightarrow> (if snd publication then piece = fst publication else prefix piece (fst publication))"

definition given :: "OpusFrame list \<Rightarrow> ('ds, 'w, 'u) LiveMediaDriver \<Rightarrow> ('ds, 'w, 'u) LiveMediaDriver \<Rightarrow> bool" where
  "given pubs d d' \<longleftrightarrow> (\<exists>pieces publications. ld_published d' = ld_published d @ publications
     \<and> list_all2 piece_of pieces publications \<and> pubs = concat pieces)"

lemma given_Nil [simp]: "ld_published d' = ld_published d \<Longrightarrow> given [] d d'"
  unfolding given_def by (intro exI [of _ "[]"]) simp

lemma given_trans:
  assumes "given p1 d d1" and "given p2 d1 d2"
  shows "given (p1 @ p2) d d2"
proof -
  obtain pieces1 news1 pieces2 news2 where "ld_published d1 = ld_published d @ news1" "list_all2 piece_of pieces1 news1"
    "p1 = concat pieces1" "ld_published d2 = ld_published d1 @ news2" "list_all2 piece_of pieces2 news2" "p2 = concat pieces2"
    using assms by (auto simp: given_def)
  then show ?thesis unfolding given_def
    by (intro exI [of _ "pieces1 @ pieces2"] exI [of _ "news1 @ news2"]) (simp add: list_all2_appendI)
qed

text \<open>A move of the driver: it was given \<open>pubs\<close> and reported \<open>recs\<close>, and the frames add up.\<close>

definition accounts ::
  "OpusFrame list \<Rightarrow> DeadlineSendRecord list \<Rightarrow> ('ds, 'w, 'u) LiveMediaDriver \<Rightarrow> ('ds, 'w, 'u) LiveMediaDriver \<Rightarrow> bool" where
  "accounts pubs recs d d' \<longleftrightarrow> driver_inv d'
     \<and> map prepared_media_frame (pipeline d @ stamped d pubs) = sent_frames recs @ map prepared_media_frame (pipeline d')
     \<and> map sm_media_frame (ld_reported d') = map sm_media_frame (ld_reported d) @ map sent_media_frame recs
     \<and> given pubs d d'
     \<and> ld_packet_index d' = bump (length recs) (ld_packet_index d)
     \<and> ld_playback_epoch d' = ld_playback_epoch d"

lemma accounts_inv: "accounts pubs recs d d' \<Longrightarrow> driver_inv d'" by (simp add: accounts_def)

lemma accounts_trans:
  assumes "accounts p1 r1 d d1" and "accounts p2 r2 d1 d2"
  shows "accounts (p1 @ p2) (r1 @ r2) d d2"
proof -
  have "bump (length r1 + length r2) i = bump (length r2) (bump (length r1) i)" for i
    by (simp add: bump_def funpow_add add.commute [of "length r1"])
  moreover have "stamped d1 p2 = stamped d p2" using assms(1) by (simp add: stamped_def accounts_def)
  with assms have "map prepared_media_frame (pipeline d @ stamped d (p1 @ p2)) = sent_frames (r1 @ r2) @ map prepared_media_frame (pipeline d2)"
    by (simp add: accounts_def) (metis append_assoc)
  moreover have "given (p1 @ p2) d d2" using assms given_trans by (auto simp: accounts_def)
  ultimately show ?thesis using assms by (simp add: accounts_def)
qed

lemma accounts_quiet_trans [trans]:
  "accounts [] [] d d1 \<Longrightarrow> accounts p r d1 d2 \<Longrightarrow> accounts p r d d2"
  "accounts p r d d1 \<Longrightarrow> accounts [] [] d1 d2 \<Longrightarrow> accounts p r d d2"
  using accounts_trans by fastforce+

text \<open>Steps that leave the sender, the commands without an outcome and the reports alone.\<close>

definition quiet :: "('ds, 'w, 'u) LiveMediaDriver \<Rightarrow> ('ds, 'w, 'u) LiveMediaDriver \<Rightarrow> bool" where
  "quiet d d' \<longleftrightarrow> ld_sender d' = ld_sender d \<and> ld_generation d' = ld_generation d \<and> ld_paused d' = ld_paused d
     \<and> ld_pending d' = ld_pending d \<and> ld_playback_epoch d' = ld_playback_epoch d
     \<and> ld_packet_index d' = ld_packet_index d \<and> ld_reported d' = ld_reported d \<and> ld_published d' = ld_published d"

lemma quiet_refl [simp]: "quiet d d" by (simp add: quiet_def)

lemma quiet_trans: "quiet d d1 \<Longrightarrow> quiet d1 d2 \<Longrightarrow> quiet d d2" by (simp add: quiet_def)

lemma emit_quiet [simp]: "sent_reports m = [] \<Longrightarrow> quiet d (emit_metric m d') = quiet d d'"
  "ld_packet_index (emit_metric m d) = ld_packet_index d"
  by (simp_all add: quiet_def emit_metric_def)

lemma quiet_accounts:
  assumes "keeps_frames d d'" and "quiet d d'" and "driver_inv d"
    and "list_all (play_ok (ld_generation d)) (pp_queue (ld_prepared d'))"
    and "ld_paused d \<longrightarrow> pp_queue (ld_prepared d') = []"
  shows "accounts [] [] d d'"
  using assms by (simp add: accounts_def driver_inv_def queues_inv_def quiet_def keeps_frames_def bump_def)

lemma same_accounts:
  assumes "same_frames d d'" and "quiet d d'" and "driver_inv d"
  shows "accounts [] [] d d'"
  using assms same_keeps [OF assms(1)] by (auto intro!: quiet_accounts simp: driver_inv_def queues_inv_def same_frames_def)

subsection \<open>Filling\<close>

lemma poll_quiet: "poll_source d = (r, d') \<Longrightarrow> quiet d d'"
  by (auto simp: poll_source_def quiet_def split: prod.splits sum.splits)

lemma source_depth_quiet: "source_depth_now d = (r, d') \<Longrightarrow> quiet d d'"
  by (auto simp: source_depth_now_def quiet_def split: prod.splits)

lemma refill_step_quiet: "refill_step d = (r, d') \<Longrightarrow> quiet d d'"
  by (auto simp: refill_step_def run_bind_def restore_source_def resume_after_underrun_def Let_def
      split: run.splits prod.splits option.splits sum.splits if_splits dest!: poll_quiet)
    (auto simp: quiet_def emit_metric_def)

lemma refill_loop_quiet: "refill_loop t latest d = (Returns depth, d') \<Longrightarrow> quiet d d'"
proof (induction t latest d rule: refill_loop.induct)
  case (1 t latest d)
  obtain r1 d1 where step: "refill_step d = (r1, d1)" by fastforce
  note q = refill_step_quiet [OF step]
  show ?case
  proof (cases "refill_wanted t d \<and> (\<exists>depth. r1 = Returns (True, depth))")
    case True
    with 1 step q show ?thesis by (auto simp: refill_loop.simps [of t latest d] intro: quiet_trans)
  next
    case False
    with "1.prems" step q show ?thesis
      by (auto simp: refill_loop.simps [of t latest d] split: if_splits run.splits prod.splits bool.splits)
  qed
qed

lemma refill_quiet: "refill_egress_buffer p d = (Returns depth, d') \<Longrightarrow> quiet d d'"
  by (auto simp: refill_egress_buffer_def run_bind_Returns dest!: source_depth_quiet refill_loop_quiet intro: quiet_trans)

lemma speaking_quiet: "speaking_before_media io d = (r, d') \<Longrightarrow> quiet d d'"
  by (auto simp: speaking_before_media_def quiet_def split: prod.splits)

lemma slot_quiet: "prepare_slot_packet io data samples d = (r, d') \<Longrightarrow> quiet d d'"
  by (auto simp: prepare_slot_packet_def quiet_def split: prod.splits)

lemma enqueue_quiet:
  assumes "enqueue_prepared packet frame d = (Returns (), d')" and "list_all (play_ok (ld_generation d)) (pp_queue (ld_prepared d))"
  shows "quiet d d' \<and> list_all (play_ok (ld_generation d)) (pp_queue (ld_prepared d'))"
  using assms
  by (auto simp: enqueue_prepared_def take_rebuild_credit_def playout_push_def record_prepared_playout_event_def Let_def
      quiet_def play_ok_def current_playout_generation_def split: prod.splits if_splits)

lemma playout_fill_step_quiet:
  assumes "playout_fill_step io p latest d = (Returns (go_on, depth), d')"
    and "list_all (play_ok (ld_generation d)) (pp_queue (ld_prepared d))"
  shows "quiet d d' \<and> list_all (play_ok (ld_generation d)) (pp_queue (ld_prepared d'))"
proof -
  from assms(1) obtain latest1 d1 where
    start: "(if depth_packets (egress_depth (ld_egress d)) = 0 then refill_egress_buffer p d else (Returns latest, d)) = (Returns latest1, d1)"
    by (auto simp: playout_fill_step_def run_bind_Returns)
  have d1: "quiet d d1" "ld_prepared d1 = ld_prepared d"
    using start by (auto simp: refill_quiet refill_egress_prepared split: if_splits)
  obtain popped egress where pop: "egress_pop (ld_egress d1) = (popped, egress)" by fastforce
  show ?thesis
  proof (cases popped)
    case None
    with assms start pop d1 show ?thesis by (auto simp: playout_fill_step_def run_bind_def quiet_def)
  next
    case (Some frame)
    from assms(1) start pop Some obtain u d2 packet d3 d4 where
      sp: "speaking_before_media io (d1\<lparr>ld_egress := egress\<rparr>) = (Returns u, d2)"
      and pk: "prepare_slot_packet io (frame_data frame) (frame_duration_samples frame) d2 = (Returns packet, d3)"
      and enq: "enqueue_prepared packet frame d3 = (Returns (), d4)"
      and ref: "refill_egress_buffer p d4 = (Returns depth, d')"
      by (auto simp: playout_fill_step_def run_bind_Returns)
    have q3: "quiet (d1\<lparr>ld_egress := egress\<rparr>) d3" "same_frames (d1\<lparr>ld_egress := egress\<rparr>) d3"
      using quiet_trans [OF speaking_quiet [OF sp] slot_quiet [OF pk]]
        same_frames_trans [OF speaking_same_frames [OF sp] slot_packet_same_frames [OF pk]] .
    have "list_all (play_ok (ld_generation d3)) (pp_queue (ld_prepared d3))"
      using assms(2) d1 q3 by (simp add: quiet_def same_frames_def)
    from enqueue_quiet [OF enq this] refill_quiet [OF ref] refill_egress_prepared [OF ref] q3 d1
    show ?thesis by (simp add: quiet_def)
  qed
qed

lemma fill_loop_quiet:
  assumes "fill_prepared_loop io p latest d = (Returns depth, d')"
    and "list_all (play_ok (ld_generation d)) (pp_queue (ld_prepared d))"
  shows "quiet d d' \<and> list_all (play_ok (ld_generation d)) (pp_queue (ld_prepared d'))"
  using assms
proof (induction io p latest d rule: fill_prepared_loop.induct)
  case (1 io p latest d)
  show ?case
  proof (cases "fill_wanted p d")
    case True
    with "1.prems"(1) obtain go_on depth1 d1 where step: "playout_fill_step io p latest d = (Returns (go_on, depth1), d1)"
      by (auto simp: fill_prepared_loop.simps [of io p latest d] split: run.splits prod.splits)
    note q = playout_fill_step_quiet [OF step "1.prems"(2)]
    show ?thesis
    proof (cases go_on)
      case True
      have "fill_prepared_loop io p depth1 d1 = (Returns depth, d')"
        using "1.prems"(1) step True \<open>fill_wanted p d\<close> by (simp add: fill_prepared_loop.simps [of io p latest d])
      from "1.IH" [OF \<open>fill_wanted p d\<close> step [symmetric] refl refl _ this] True q show ?thesis
        by (simp add: quiet_def)
    next
      case False
      with step q "1.prems"(1) \<open>fill_wanted p d\<close> show ?thesis by (simp add: fill_prepared_loop.simps [of io p latest d])
    qed
  next
    case False
    with "1.prems" show ?thesis by (simp add: fill_prepared_loop.simps [of io p latest d])
  qed
qed

lemma fill_quiet:
  assumes "fill_prepared_playout_queue io p d = (Returns depth, d')"
    and "list_all (play_ok (ld_generation d)) (pp_queue (ld_prepared d))"
  shows "quiet d d' \<and> list_all (play_ok (ld_generation d)) (pp_queue (ld_prepared d'))"
proof -
  obtain latest d1 d2 where r: "refill_egress_buffer p d = (Returns latest, d1)"
    and l: "fill_prepared_loop io p latest d1 = (Returns depth, d2)"
    and d': "d' = emit_metric (EgressDepth (playout_depth (ld_prepared d2))) d2"
    using assms(1) by (auto simp: fill_prepared_playout_queue_def run_bind_Returns)
  have "list_all (play_ok (ld_generation d1)) (pp_queue (ld_prepared d1))"
    using assms(2) refill_quiet [OF r] refill_egress_prepared [OF r] by (simp add: quiet_def)
  from fill_loop_quiet [OF l this] refill_quiet [OF r] d' show ?thesis by (simp add: quiet_def)
qed

lemma fill_accounts:
  assumes "fill_prepared_playout_queue io (pending_samples_of d) d = (Returns depth, d')" and "driver_inv d" and "\<not> ld_paused d"
  shows "accounts [] [] d d' \<and> \<not> ld_paused d'"
  using fill_prepared_inv [OF assms(1)] fill_quiet [OF assms(1)] assms(2,3) quiet_accounts [of d d']
  by (simp add: driver_inv_def queues_inv_def quiet_def)

subsection \<open>Handing over\<close>

lemma pump_step_accounts:
  assumes "pump_step prepared queue d = (Returns (), d')" and "playout_pop (ld_prepared d) = (Some prepared, queue)"
    and "driver_inv d" and "\<not> ld_paused d"
  shows "accounts [] [] d d' \<and> \<not> ld_paused d'"
proof -
  have wf: "playout_wf (ld_prepared d)" and inv: "frames_inv d" and q: "queues_inv d"
    using assms(3) by (auto simp: driver_inv_def frames_inv_def)
  have pop: "pp_queue (ld_prepared d) = prepared # pp_queue queue" using playout_pop_spec [OF assms(2) wf] by simp
  have ok: "play_ok (ld_generation d) prepared" "list_all (play_ok (ld_generation d)) (pp_queue queue)"
    using q pop by (auto simp: queues_inv_def)
  note frames = pump_step_frames [OF assms(1,2) inv]
  obtain sender where sent: "try_send_command (play_command prepared) (ld_sender d) = (Inr (), sender)"
    and d': "ld_sender d' = sender" "ld_generation d' = ld_generation d" "ld_paused d' = ld_paused d"
    "ld_pending d' = ld_pending d @ [PendingDeadlineCommand_new (play_command prepared) (Some (play_frame prepared))]"
    "ld_playback_epoch d' = ld_playback_epoch d" "ld_packet_index d' = ld_packet_index d"
    "ld_reported d' = ld_reported d" "ld_published d' = ld_published d"
    using assms(1) by (auto simp: pump_step_def record_prepared_playout_event_def Let_def split: prod.splits sum.splits)
  have "sender_inv (ld_pending d') (ld_generation d') (ld_sender d')"
    using try_send_inv [OF sent] q ok d' by (simp add: queues_inv_def play_ok_def)
  moreover have "list_all pend_ok (ld_pending d')"
    using q ok d' by (simp add: queues_inv_def pend_ok_def play_ok_def PendingDeadlineCommand_new_def)
  ultimately have "queues_inv d'" using frames ok d' assms(4) by (simp add: queues_inv_def)
  with frames d' assms(4) show ?thesis by (simp add: accounts_def driver_inv_def keeps_frames_def bump_def)
qed

lemma pump_accounts:
  assumes "pump_prepared_playout_to_deadline_sender d = (Returns (), d')" and "driver_inv d" and "\<not> ld_paused d"
  shows "accounts [] [] d d' \<and> \<not> ld_paused d'"
  using assms
proof (induction d rule: pump_prepared_playout_to_deadline_sender.induct)
  case (1 d)
  note unfold = pump_prepared_playout_to_deadline_sender.simps [of d]
  show ?case
  proof (cases "available_command_capacity (ld_sender d) > 0 \<and> pp_queue (ld_prepared d) \<noteq> []")
    case True
    then obtain prepared queue where pop: "playout_pop (ld_prepared d) = (Some prepared, queue)"
      by (cases "pp_queue (ld_prepared d)") (auto simp: playout_pop_def)
    with "1.prems"(1) True obtain d1 where step: "pump_step prepared queue d = (Returns (), d1)"
      and rest: "pump_prepared_playout_to_deadline_sender d1 = (Returns (), d')"
      by (auto simp: unfold split: run.splits prod.splits)
    note acc = pump_step_accounts [OF step pop "1.prems"(2,3)]
    from "1.IH" [OF _ pop [symmetric] refl step [symmetric] refl] True rest acc show ?thesis
      by (auto dest: accounts_inv intro: accounts_quiet_trans)
  next
    case False
    with "1.prems" pq.pop_Nil [of "ld_prepared d"] show ?thesis
      by (auto simp: unfold split: if_splits intro!: same_accounts)
  qed
qed

lemma silence_accounts:
  assumes "enqueue_scheduled_silence io reason d = (Returns (), d')" and "driver_inv d" and "\<not> ld_paused d"
  shows "accounts [] [] d d' \<and> \<not> ld_paused d'"
proof -
  obtain packet d1 where p: "prepare_slot_packet io SILENCE_FRAME 960 d = (Returns packet, d1)"
    using assms(1) by (auto simp: enqueue_scheduled_silence_def run_bind_Returns)
  note q = slot_quiet [OF p] slot_packet_same_frames [OF p]
  let ?c = "\<lparr>cmd_packet = packet, cmd_kind = ScheduledSilence, cmd_media_frame = None,
    cmd_generation = current_playout_generation d1\<rparr>"
  obtain sender where sent: "try_send_command ?c (ld_sender d) = (Inr (), sender)"
    and d': "ld_sender d' = sender" "ld_generation d' = ld_generation d" "ld_paused d' = ld_paused d"
    "ld_pending d' = ld_pending d @ [PendingDeadlineCommand_new ?c None]" "ld_prepared d' = ld_prepared d"
    "ld_playback_epoch d' = ld_playback_epoch d" "ld_packet_index d' = ld_packet_index d"
    "ld_reported d' = ld_reported d" "ld_published d' = ld_published d"
    using assms(1) p q
    by (auto simp: enqueue_scheduled_silence_def run_bind_Returns record_prepared_playout_event_def Let_def quiet_def
        same_frames_def split: prod.splits sum.splits)
  have "sender_inv (ld_pending d') (ld_generation d') (ld_sender d')"
    using try_send_inv [OF sent] assms(2) d' q by (simp add: driver_inv_def queues_inv_def quiet_def current_playout_generation_def)
  moreover have "list_all pend_ok (ld_pending d')"
    using assms(2) d' by (simp add: driver_inv_def queues_inv_def pend_ok_def PendingDeadlineCommand_new_def)
  ultimately have "queues_inv d'" using assms(2,3) d' by (simp add: driver_inv_def queues_inv_def)
  with silence_frames [OF assms(1)] d' assms(2,3) show ?thesis
    by (simp add: accounts_def driver_inv_def keeps_frames_def bump_def)
qed

lemma silence_loop_accounts:
  "silence_loop n io d = (Returns (), d') \<Longrightarrow> driver_inv d \<Longrightarrow> \<not> ld_paused d \<Longrightarrow> accounts [] [] d d' \<and> \<not> ld_paused d'"
proof (induction n arbitrary: d)
  case (Suc n)
  show ?case
  proof (cases "available_command_capacity (ld_sender d) > 0")
    case True
    with Suc.prems obtain d1 where "enqueue_scheduled_silence io ReasonSourceUnderrun d = (Returns (), d1)"
      and rest: "silence_loop n io d1 = (Returns (), d')" by (auto simp: run_bind_Returns)
    with silence_accounts Suc.prems have acc: "accounts [] [] d d1" "\<not> ld_paused d1" by blast+
    with Suc.IH [OF rest accounts_inv [OF acc(1)] acc(2)] show ?thesis by (blast intro: accounts_quiet_trans)
  next
    case False
    with Suc.prems show ?thesis by (simp add: same_accounts)
  qed
qed (simp add: same_accounts)

lemma speaking_accounts:
  assumes "speaking_before_media io d = (r, d')" and "driver_inv d"
  shows "accounts [] [] d d' \<and> ld_paused d' = ld_paused d"
  using same_accounts [OF speaking_same_frames [OF assms(1)] speaking_quiet [OF assms(1)] assms(2)] speaking_quiet [OF assms(1)]
  by (simp add: quiet_def)

lemma fill_silence_accounts:
  assumes "fill_source_underrun_silence_deadline_queue io d = (Returns (), d')" and "driver_inv d" and "\<not> ld_paused d"
  shows "accounts [] [] d d' \<and> \<not> ld_paused d'"
proof -
  let ?missing = "SOURCE_UNDERRUN_DEADLINE_AHEAD_PACKETS - pending_source_silence d"
  obtain d1 where sp: "(if ?missing > 0 \<and> available_command_capacity (ld_sender d) > 0 then speaking_before_media io d
      else (Returns (), d)) = (Returns (), d1)" and loop: "silence_loop ?missing io d1 = (Returns (), d')"
    using assms(1) by (auto simp: fill_source_underrun_silence_deadline_queue_def run_bind_Returns Let_def)
  have acc: "accounts [] [] d d1" "\<not> ld_paused d1"
    using sp speaking_accounts [of io d] assms(2,3) same_accounts [of d d] by (auto split: if_splits)
  from silence_loop_accounts [OF loop accounts_inv [OF acc(1)] acc(2)] acc show ?thesis by (blast intro: accounts_quiet_trans)
qed

lemma fill_and_pump_accounts:
  assumes "fill_and_pump io d = (Returns latest, d')" and "driver_inv d" and "\<not> ld_paused d"
  shows "accounts [] [] d d' \<and> \<not> ld_paused d'"
proof -
  from assms(1) obtain d1 d2 where
    f: "fill_prepared_playout_queue io (pending_samples_of d) d = (Returns latest, d1)"
    and p: "pump_prepared_playout_to_deadline_sender d1 = (Returns (), d2)"
    and s: "(if ld_underrun_active d2 \<and> \<not> ld_source_ended d2
             then fill_source_underrun_silence_deadline_queue io d2 else (Returns (), d2)) = (Returns (), d')"
    by (auto simp: fill_and_pump_def pending_samples_of_def run_bind_Returns)
  note a1 = fill_accounts [OF f assms(2,3)]
  note a2 = pump_accounts [OF p accounts_inv]
  have a12: "accounts [] [] d d2" "\<not> ld_paused d2" using a1 a2 by (blast intro: accounts_quiet_trans)+
  from s show ?thesis
    using fill_silence_accounts [of io d2 d', OF _ accounts_inv [OF a12(1)] a12(2)] a12
    by (auto split: if_splits intro: accounts_quiet_trans)
qed

subsection \<open>Outcomes\<close>

text \<open>The driver never finds an outcome that does not match the oldest command without one.\<close>

lemma account_outcome_accounts:
  assumes "try_next_outcome (ld_sender d) = (Inr (Some outcome), sender)" and "driver_inv d"
  shows "\<exists>rec. account_deadline_outcome outcome remaining (d\<lparr>ld_sender := sender\<rparr>)
      = (Returns (Some rec), d\<lparr>ld_sender := sender, ld_pending := tl (ld_pending d)\<rparr>)
    \<and> driver_inv (d\<lparr>ld_sender := sender, ld_pending := tl (ld_pending d)\<rparr>)
    \<and> map prepared_media_frame (pipeline d) = sent_frames [rec]
        @ map prepared_media_frame (pipeline (d\<lparr>ld_sender := sender, ld_pending := tl (ld_pending d)\<rparr>))"
proof -
  have s: "sender_inv (ld_pending d) (ld_generation d) (ld_sender d)" using assms(2) by (simp add: driver_inv_def queues_inv_def)
  obtain rec p ps where o: "outcome = OutcomeSent rec" "ld_pending d = p # ps" "matches_sent_record p rec"
    "sender_inv ps (ld_generation d) sender"
    using next_outcome_inv [OF assms(1) s] by (auto split: LiveDeadlineOutcome.splits)
  have media: "sent_media_frame rec = map_option prepared_media_frame (pend_frame p)"
    using o assms(2) by (simp add: driver_inv_def queues_inv_def pend_ok_def matches_sent_record_def)
  show ?thesis
    using o media assms(2)
    by (auto simp: account_deadline_outcome_def driver_inv_def queues_inv_def frames_inv_def pipeline_def driver_frames_def
        split: option.splits)
qed

lemma record_metric_fields:
  "same_frames d (record_deadline_send_metric rec g depth d)" "driver_inv (record_deadline_send_metric rec g depth d) = driver_inv d"
  "ld_packet_index (record_deadline_send_metric rec g depth d) = saturating_add (ld_packet_index d) 1"
  "ld_paused (record_deadline_send_metric rec g depth d) = ld_paused d"
  "ld_source_ended (record_deadline_send_metric rec g depth d) = ld_source_ended d"
  "ld_source (record_deadline_send_metric rec g depth d) = ld_source d"
  "ld_published (record_deadline_send_metric rec g depth d) = ld_published d"
  "map sm_media_frame (ld_reported (record_deadline_send_metric rec g depth d))
     = map sm_media_frame (ld_reported d) @ [sent_media_frame rec]"
  by (auto simp: record_deadline_send_metric_def sent_metric_def same_frames_def driver_inv_def queues_inv_def frames_inv_def
      driver_frames_def case_prod_beta Let_def)

lemma record_metrics_fields:
  "same_frames d (record_sent_metrics recs depth d) \<and> driver_inv (record_sent_metrics recs depth d) = driver_inv d
   \<and> ld_packet_index (record_sent_metrics recs depth d) = bump (length recs) (ld_packet_index d)
   \<and> ld_paused (record_sent_metrics recs depth d) = ld_paused d
   \<and> ld_published (record_sent_metrics recs depth d) = ld_published d
   \<and> map sm_media_frame (ld_reported (record_sent_metrics recs depth d))
       = map sm_media_frame (ld_reported d) @ map sent_media_frame recs"
proof (induction recs arbitrary: d)
  case (Cons rec recs)
  let ?d1 = "record_deadline_send_metric rec VoiceGatewayDrainReport_default depth d"
  have "record_sent_metrics (rec # recs) depth d = record_sent_metrics recs depth ?d1"
    by (simp add: record_sent_metrics_def)
  moreover have "bump (length recs) (saturating_add i 1) = bump (length (rec # recs)) i" for i
    using funpow_swap1 [of "\<lambda>i. saturating_add i 1" "length recs" i] by (simp add: bump_def)
  ultimately show ?case
    using Cons [of ?d1] record_metric_fields [where d = d and rec = rec and depth = depth]
      same_frames_trans [of d ?d1] by simp
qed (simp add: record_sent_metrics_def bump_def)

lemma record_metrics_ended: "ld_source_ended (record_sent_metrics recs depth d) = ld_source_ended d"
  "ld_source (record_sent_metrics recs depth d) = ld_source d"
  by (induction recs arbitrary: d) (simp_all add: record_sent_metrics_def record_metric_fields)

lemma drain_outcomes_accounts:
  assumes "drain_ready_deadline_outcomes remaining sent d = (Returns recs, d')" and "driver_inv d"
  shows "\<exists>more. recs = sent @ more \<and> driver_inv d'
    \<and> map prepared_media_frame (pipeline d) = sent_frames more @ map prepared_media_frame (pipeline d')
    \<and> ld_packet_index d' = ld_packet_index d \<and> ld_playback_epoch d' = ld_playback_epoch d \<and> ld_paused d' = ld_paused d
    \<and> ld_source d' = ld_source d \<and> ld_source_ended d' = ld_source_ended d
    \<and> ld_reported d' = ld_reported d \<and> ld_published d' = ld_published d"
  using assms
proof (induction remaining sent d rule: drain_ready_deadline_outcomes.induct)
  case (1 remaining sent d)
  note unfold = drain_ready_deadline_outcomes.simps [of remaining sent d]
  obtain r sender where nx: "try_next_outcome (ld_sender d) = (Inr r, sender)"
    using "1.prems"(1) by (cases "try_next_outcome (ld_sender d)") (auto simp: unfold split: sum.splits)
  show ?case
  proof (cases r)
    case None
    with nx next_outcome_inv [OF nx] "1.prems"(2) have "sender = ld_sender d"
      by (auto simp: driver_inv_def queues_inv_def)
    with "1.prems" nx None show ?thesis by (simp add: unfold)
  next
    case (Some outcome)
    let ?d0 = "d\<lparr>ld_sender := sender\<rparr>" and ?d1 = "d\<lparr>ld_sender := sender, ld_pending := tl (ld_pending d)\<rparr>"
    obtain rec where acc: "account_deadline_outcome outcome remaining ?d0 = (Returns (Some rec), ?d1)" "driver_inv ?d1"
      "map prepared_media_frame (pipeline d) = sent_frames [rec] @ map prepared_media_frame (pipeline ?d1)"
      using account_outcome_accounts [of d outcome sender remaining] nx Some "1.prems"(2) by blast
    have rest: "drain_ready_deadline_outcomes remaining (sent @ [rec]) ?d1 = (Returns recs, d')"
      using "1.prems"(1) nx Some acc(1) by (simp add: unfold)
    from "1.IH"(2) [OF nx [symmetric] refl Some acc(1) [symmetric] refl refl rest acc(2)] obtain more where
      m: "recs = (sent @ [rec]) @ more" "driver_inv d'"
      "map prepared_media_frame (pipeline ?d1) = sent_frames more @ map prepared_media_frame (pipeline d')"
      "ld_packet_index d' = ld_packet_index ?d1" "ld_playback_epoch d' = ld_playback_epoch ?d1" "ld_paused d' = ld_paused ?d1"
      "ld_source d' = ld_source ?d1" "ld_source_ended d' = ld_source_ended ?d1"
      "ld_reported d' = ld_reported ?d1" "ld_published d' = ld_published ?d1"
      by blast
    then have "map prepared_media_frame (pipeline d) = sent_frames (rec # more) @ map prepared_media_frame (pipeline d')"
      using acc(3) by (simp split: option.splits)
    with m show ?thesis by (intro exI [of _ "rec # more"]) simp
  qed
qed

lemma drain_accounts:
  assumes "drain_and_report d = (Returns (), d')" and "driver_inv d"
  shows "\<exists>recs. accounts [] recs d d' \<and> ld_paused d' = ld_paused d
    \<and> sb_queue (ld_source d') = sb_queue (ld_source d) \<and> ld_source_ended d' = ld_source_ended d"
proof -
  obtain depth d1 recs d2 where s: "source_depth_now d = (Returns depth, d1)"
    and dr: "drain_ready_deadline_outcomes depth [] d1 = (Returns recs, d2)" and d': "d' = record_sent_metrics recs depth d2"
    using assms(1) by (auto simp: drain_and_report_def run_bind_Returns)
  note a1 = same_accounts [OF source_depth_same [OF s] source_depth_quiet [OF s] assms(2)]
  have f: "same_frames d2 d'" "driver_inv d' = driver_inv d2" "ld_packet_index d' = bump (length recs) (ld_packet_index d2)"
    "ld_paused d' = ld_paused d2" "ld_published d' = ld_published d2"
    "map sm_media_frame (ld_reported d') = map sm_media_frame (ld_reported d2) @ map sent_media_frame recs"
    using record_metrics_fields [of d2 recs depth] d' by simp_all
  have "ld_playback_epoch d' = ld_playback_epoch d2" using f(1) by (simp add: same_frames_def)
  with drain_outcomes_accounts [OF dr accounts_inv [OF a1]] f same_frames_inv [OF f(1)]
  have "accounts [] recs d1 d'" "ld_paused d' = ld_paused d1" by (auto simp: accounts_def)
  moreover have "sb_queue (ld_source d') = sb_queue (ld_source d1)" "ld_source_ended d' = ld_source_ended d1"
    using drain_outcomes_accounts [OF dr accounts_inv [OF a1]] f(1) d' record_metrics_ended by (auto simp: same_frames_def)
  moreover have "ld_source_ended d1 = ld_source_ended d" using s by (auto simp: source_depth_now_def split: prod.splits)
  ultimately show ?thesis
    using a1 source_depth_quiet [OF s] source_depth_same [OF s]
    by (auto simp: quiet_def same_frames_def intro: accounts_quiet_trans)
qed

lemma tick_fields:
  "same_frames d (sender_tick io clock d)" "ld_generation (sender_tick io clock d) = ld_generation d"
  "ld_paused (sender_tick io clock d) = ld_paused d" "ld_packet_index (sender_tick io clock d) = ld_packet_index d"
  "ld_source (sender_tick io clock d) = ld_source d" "ld_source_ended (sender_tick io clock d) = ld_source_ended d"
  "ld_underrun_active (sender_tick io clock d) = ld_underrun_active d"
  "ld_reported (sender_tick io clock d) = ld_reported d" "ld_published (sender_tick io clock d) = ld_published d"
  by (auto simp: sender_tick_def same_frames_def split: prod.splits)

lemma tick_accounts:
  assumes "driver_inv d"
  shows "accounts [] [] d (sender_tick io clock d)"
  using assms tick_inv [of "ld_pending d" d io clock] same_frames_inv [OF tick_fields(1) [where d = d and io = io and clock = clock]]
    tick_fields [where d = d and io = io and clock = clock]
  by (simp add: accounts_def driver_inv_def queues_inv_def same_frames_def bump_def)

text \<open>Waiting for an outcome only lets the sender tick.\<close>

lemma wait_outcome_ticks:
  "wait_outcome ticks io d = (Returns outcome, d') \<Longrightarrow> sender_inv ps (ld_generation d) (ld_sender d) \<Longrightarrow>
   \<exists>d1 sender rest. same_frames d d1 \<and> try_next_outcome (ld_sender d1) = (Inr (Some outcome), sender)
     \<and> sender_inv ps (ld_generation d1) (ld_sender d1) \<and> d' = d1\<lparr>ld_sender := sender, ld_ticks := rest\<rparr>
     \<and> ld_generation d1 = ld_generation d \<and> ld_paused d1 = ld_paused d \<and> ld_packet_index d1 = ld_packet_index d
     \<and> ld_source d1 = ld_source d \<and> ld_source_ended d1 = ld_source_ended d
     \<and> ld_reported d1 = ld_reported d \<and> ld_published d1 = ld_published d"
proof (induction ticks arbitrary: d)
  case Nil
  then show ?case
    by (intro exI [of _ d]) (auto simp: wait_outcome.simps [of "[]"] split: prod.splits sum.splits option.splits)
next
  case (Cons clock ticks)
  note unfold = wait_outcome.simps [of "clock # ticks" io d]
  obtain r sender where nx: "try_next_outcome (ld_sender d) = (Inr r, sender)"
    using Cons.prems(1) by (cases "try_next_outcome (ld_sender d)") (auto simp: unfold split: sum.splits)
  show ?case
  proof (cases r)
    case None
    with Cons.prems nx have "wait_outcome ticks io (sender_tick io clock d) = (Returns outcome, d')" by (simp add: unfold)
    from Cons.IH [OF this tick_inv [OF Cons.prems(2)]] show ?thesis
      using tick_fields [where d = d and io = io and clock = clock] same_frames_trans [of d "sender_tick io clock d"] by fastforce
  next
    case (Some o')
    with Cons.prems nx have "o' = outcome" "d' = d\<lparr>ld_sender := sender, ld_ticks := clock # ticks\<rparr>" by (simp_all add: unfold)
    with nx Some Cons.prems(2) show ?thesis by (intro exI [of _ d]) auto
  qed
qed

subsection \<open>Interruptions\<close>

definition stays :: "('ds, 'w, 'u) LiveMediaDriver \<Rightarrow> ('ds, 'w, 'u) LiveMediaDriver \<Rightarrow> bool" where
  "stays d d' \<longleftrightarrow> ld_packet_index d' = ld_packet_index d \<and> ld_playback_epoch d' = ld_playback_epoch d
     \<and> ld_source_ended d' = ld_source_ended d \<and> ld_reported d' = ld_reported d \<and> ld_published d' = ld_published d"

lemma emit_stays [simp]: "sent_reports m = [] \<Longrightarrow> stays d (emit_metric m d') = stays d d'" "stays d d"
  by (simp_all add: stays_def)

lemma drop_pending_stays: "drop_pending_loop reason ps frames d = (frames', d') \<Longrightarrow> stays d d'"
proof (induction ps arbitrary: frames d)
  case (Cons p ps)
  from Cons.IH [OF Cons.prems [unfolded drop_pending_loop.simps Let_def]] show ?case by (simp add: stays_def)
qed (auto simp: stays_def)

lemma drain_prepared_stays: "drain_prepared_frames reason xs frames d = (frames', d') \<Longrightarrow> stays d d'"
proof (induction xs arbitrary: frames d)
  case (Cons p ps)
  from Cons.IH [OF Cons.prems [unfolded drain_prepared_frames.simps Let_def]] show ?case
    by (simp add: stays_def record_prepared_playout_event_def)
qed (auto simp: stays_def)

lemma restore_source_loop_stays: "restore_source_loop reason fs remaining c d = (depth, c', d') \<Longrightarrow> stays d d'"
proof (induction fs arbitrary: remaining c d)
  case (Cons f fs)
  obtain r d1 where s: "restore_source f d = (r, d1)" by fastforce
  then have "stays d d1" by (auto simp: restore_source_def stays_def split: prod.splits sum.splits)
  with Cons s show ?case by (fastforce simp: stays_def remember_rebuild_credit_def split: sum.splits)
qed (simp add: stays_def)

lemma flush_stays: "stays d (flush_egress_buffer_for_interruption reason frames d)"
proof -
  obtain fs d1 where p: "drain_prepared_frames reason (pp_queue (ld_prepared d)) [] d = (fs, d1)" by fastforce
  note s1 = drain_prepared_stays [OF p]
  have s2: "stays d2 (restore_flushed reason gs d2)" for gs and d2 :: "('a, 'b, 'c) LiveMediaDriver"
    unfolding restore_flushed_def Let_def report_flush_def
    by (auto split: prod.splits dest!: restore_source_loop_stays simp: stays_def)
  show ?thesis
    using s1 p s2 by (auto simp: flush_egress_buffer_for_interruption_def drain_egress_frames_def Let_def stays_def
        split: prod.splits)
qed

lemma interrupt_stays:
  assumes "interrupt_playout reason deadline d = (Returns (), d')"
  shows "stays d d'"
proof -
  let ?d0 = "discard_unsent (invalidate_prepared_playout_generation d)"
  obtain frames d1 where r: "replace_deadline_sender_after_invalidation_at reason deadline ?d0 = (Returns frames, d1)"
    and d': "d' = flush_egress_buffer_for_interruption reason frames d1"
    using assms(1) by (auto simp: interrupt_playout_def run_bind_Returns)
  then obtain d2 where rep: "replace_sender deadline ?d0 = (Returns (), d2)"
    and drop: "drop_pending_loop reason (ld_pending d2) [] d2 = (frames, d1)"
    by (auto simp: replace_deadline_sender_after_invalidation_at_def run_bind_Returns case_prod_beta)
  have "stays d d2" using replace_sender_spec [OF rep]
    by (auto simp: stays_def discard_unsent_def invalidate_prepared_playout_generation_def Let_def)
  with drop_pending_stays [OF drop] flush_stays [of d1] d' show ?thesis by (simp add: stays_def)
qed

lemma interrupt_accounts:
  assumes "interrupt_playout reason deadline d = (Returns (), d')" and "driver_inv d"
  shows "accounts [] [] d d' \<and> ld_pending d' = [] \<and> pp_queue (ld_prepared d') = []
    \<and> egress_frames (ld_egress d') = driver_frames d \<and> ld_paused d' = ld_paused d
    \<and> ld_source_ended d' = ld_source_ended d"
proof -
  have "frames_inv d" using assms(2) by (simp add: driver_inv_def)
  note spec = interrupt_spec [OF assms(1) this]
  with interrupt_stays [OF assms(1)] show ?thesis
    using spawn_inv by (auto simp: accounts_def driver_inv_def queues_inv_def keeps_frames_def stays_def bump_def)
qed

lemma skip_flag_inv [simp]:
  "driver_inv (d\<lparr>ld_skipped_on_stop := b\<rparr>) = driver_inv d" "driver_frames (d\<lparr>ld_skipped_on_stop := b\<rparr>) = driver_frames d"
  "pipeline (d\<lparr>ld_skipped_on_stop := b\<rparr>) = pipeline d"
  by (simp_all add: driver_inv_def queues_inv_def frames_inv_def driver_frames_def pipeline_def)

lemma skip_flag_accounts [simp]: "accounts pubs recs (d\<lparr>ld_skipped_on_stop := b\<rparr>) d' = accounts pubs recs d d'"
  by (simp add: accounts_def stamped_def given_def)

subsection \<open>The boundary\<close>

text \<open>The boundary sends its packets one by one: each is answered by its own record.\<close>

lemma slot_accounts:
  assumes "prepare_slot_packet io data samples d = (r, d')" and "driver_inv d"
  shows "accounts [] [] d d' \<and> quiet d d' \<and> same_frames d d'"
  using same_accounts [OF slot_packet_same_frames [OF assms(1)] slot_quiet [OF assms(1)] assms(2)]
    slot_quiet [OF assms(1)] slot_packet_same_frames [OF assms(1)] by simp

lemma send_command_ticks:
  "send_command ticks io c d = (Returns (), d') \<Longrightarrow> sender_inv ps (ld_generation d) (ld_sender d) \<Longrightarrow>
     cmd_generation c = ld_generation d \<Longrightarrow>
   same_frames d d' \<and> sender_inv (ps @ [PendingDeadlineCommand_new c f]) (ld_generation d') (ld_sender d')
     \<and> ld_generation d' = ld_generation d \<and> ld_paused d' = ld_paused d \<and> ld_packet_index d' = ld_packet_index d
     \<and> ld_source d' = ld_source d \<and> ld_source_ended d' = ld_source_ended d
     \<and> ld_reported d' = ld_reported d \<and> ld_published d' = ld_published d"
proof (induction ticks arbitrary: d)
  case Nil
  then show ?case
    using try_send_inv [of c "ld_sender d"]
    by (auto simp: send_command.simps [of "[]"] same_frames_def Let_def split: if_splits prod.splits)
      (metis old.sum.exhaust run.distinct(1) run_of.simps old.unit.exhaust)
next
  case (Cons clock ticks)
  note unfold = send_command.simps [of "clock # ticks" io c d]
  show ?case
  proof (cases "available_command_capacity (ld_sender d) > 0")
    case True
    with Cons.prems obtain sender where "try_send_command c (ld_sender d) = (Inr (), sender)"
      "d' = d\<lparr>ld_sender := sender, ld_ticks := clock # ticks\<rparr>"
      by (cases "try_send_command c (ld_sender d)"; cases "fst (try_send_command c (ld_sender d))")
        (auto simp: unfold split: if_splits)
    with try_send_inv Cons.prems show ?thesis by (simp add: same_frames_def)
  next
    case False
    with Cons.prems have "send_command ticks io c (sender_tick io clock d) = (Returns (), d')"
      by (simp add: unfold split: if_splits)
    from Cons.IH [OF this tick_inv [OF Cons.prems(2)]] Cons.prems(3) show ?thesis
      using tick_fields [where d = d and io = io and clock = clock] same_frames_trans [of d "sender_tick io clock d"] by auto
  qed
qed

definition boundary_same :: "('ds, 'w, 'u) LiveMediaDriver \<Rightarrow> ('ds, 'w, 'u) LiveMediaDriver \<Rightarrow> bool" where
  "boundary_same d d' \<longleftrightarrow> same_frames d d' \<and> sender_inv [] (ld_generation d) (ld_sender d')
     \<and> ld_generation d' = ld_generation d \<and> ld_paused d' = ld_paused d \<and> ld_packet_index d' = ld_packet_index d
     \<and> ld_source_ended d' = ld_source_ended d \<and> ld_source d' = ld_source d
     \<and> ld_reported d' = ld_reported d \<and> ld_published d' = ld_published d"

lemma slot_source:
  "prepare_slot_packet io data samples d = (r, d') \<Longrightarrow> ld_source d' = ld_source d"
  "speaking_before_media io d = (r1, d') \<Longrightarrow> ld_source d' = ld_source d"
  by (auto simp: prepare_slot_packet_def speaking_before_media_def split: prod.splits)

lemma slot_ended: "prepare_slot_packet io data samples d = (r, d') \<Longrightarrow> ld_source_ended d' = ld_source_ended d"
  by (auto simp: prepare_slot_packet_def split: prod.splits)

lemma speaking_ended: "speaking_before_media io d = (r, d') \<Longrightarrow> ld_source_ended d' = ld_source_ended d"
  by (auto simp: speaking_before_media_def split: prod.splits)

lemma boundary_packet:
  assumes "prepare_slot_packet io SILENCE_FRAME 960 d = (Returns packet, d1)"
    and "c = \<lparr>cmd_packet = packet, cmd_kind = BoundarySilence, cmd_media_frame = None, cmd_generation = ld_generation d\<rparr>"
    and "send_command (ld_ticks d1) io c d1 = (Returns (), d2)" and "next_outcome io d2 = (Returns outcome, d3)"
    and "sender_inv [] (ld_generation d) (ld_sender d)"
  shows "\<exists>rec. outcome = OutcomeSent rec \<and> sent_media_frame rec = None \<and> sent_kind rec = BoundarySilence \<and> boundary_same d d3"
proof -
  note q = slot_quiet [OF assms(1)] slot_packet_same_frames [OF assms(1)] slot_ended [OF assms(1)] slot_source(1) [OF assms(1)]
  have s1: "sender_inv [] (ld_generation d1) (ld_sender d1)" "cmd_generation c = ld_generation d1"
    using q assms(2,5) by (simp_all add: quiet_def)
  note sent = send_command_ticks [OF assms(3) s1, of None, simplified]
  let ?p = "PendingDeadlineCommand_new c None"
  have s2: "sender_inv [?p] (ld_generation d2) (ld_sender d2)" using sent by blast
  obtain d4 sender rest where w: "same_frames d2 d4" "try_next_outcome (ld_sender d4) = (Inr (Some outcome), sender)"
    "sender_inv [?p] (ld_generation d4) (ld_sender d4)" "d3 = d4\<lparr>ld_sender := sender, ld_ticks := rest\<rparr>"
    "ld_generation d4 = ld_generation d2" "ld_paused d4 = ld_paused d2" "ld_packet_index d4 = ld_packet_index d2"
    "ld_source_ended d4 = ld_source_ended d2" "ld_source d4 = ld_source d2"
    "ld_reported d4 = ld_reported d2" "ld_published d4 = ld_published d2"
    using wait_outcome_ticks [OF assms(4) [unfolded next_outcome_def] s2] by blast
  obtain rec where rec: "outcome = OutcomeSent rec" "matches_sent_record ?p rec" "sender_inv [] (ld_generation d4) sender"
    using next_outcome_inv [OF w(2,3)] by (auto split: LiveDeadlineOutcome.splits)
  have "sent_media_frame rec = None \<and> sent_kind rec = BoundarySilence"
    using rec(2) assms(2) by (simp add: matches_sent_record_def PendingDeadlineCommand_new_def)
  moreover have "same_frames d d3"
    using same_frames_trans [OF q(2) same_frames_trans [OF _ w(1)]] sent w(4) by (simp add: same_frames_def)
  ultimately show ?thesis
    using rec w sent q by (simp add: boundary_same_def quiet_def)
qed

lemma boundary_loop_answers:
  "boundary_loop n io (ld_generation d) sent d = (Returns recs, d') \<Longrightarrow> sender_inv [] (ld_generation d) (ld_sender d) \<Longrightarrow>
   \<exists>more. recs = sent @ more \<and> length more = n \<and> sent_frames more = [] \<and> boundary_same d d'"
proof (induction n arbitrary: sent d)
  case (Suc n)
  from Suc.prems(1) obtain packet d1 d2 outcome d3 where
    p: "prepare_slot_packet io SILENCE_FRAME 960 d = (Returns packet, d1)"
    "send_command (ld_ticks d1) io \<lparr>cmd_packet = packet, cmd_kind = BoundarySilence, cmd_media_frame = None,
       cmd_generation = ld_generation d\<rparr> d1 = (Returns (), d2)"
    "next_outcome io d2 = (Returns outcome, d3)"
    by (auto simp: run_bind_Returns)
  obtain rec where rec: "outcome = OutcomeSent rec" "sent_media_frame rec = None" "sent_kind rec = BoundarySilence"
    "boundary_same d d3" using boundary_packet [OF p(1) refl p(2,3) Suc.prems(2)] by blast
  then have "boundary_loop n io (ld_generation d3) (sent @ [rec]) d3 = (Returns recs, d')"
    using Suc.prems(1) p by (simp add: run_bind_def boundary_same_def)
  from Suc.IH [OF this] rec obtain more where m: "recs = (sent @ [rec]) @ more" "length more = n" "sent_frames more = []"
    "boundary_same d3 d'" by (auto simp: boundary_same_def)
  then have "boundary_same d d'" using rec(4) same_frames_trans [of d d3 d'] by (simp add: boundary_same_def)
  with m rec(2) show ?case by (intro exI [of _ "rec # more"]) simp
qed (simp add: boundary_same_def)

lemma stop_speaking_fields:
  "stop_speaking_now io d = (r, d') \<Longrightarrow> same_frames d d' \<and> quiet d d' \<and> ld_source_ended d' = ld_source_ended d
     \<and> ld_source d' = ld_source d"
  by (auto simp: stop_speaking_now_def same_frames_def quiet_def split: prod.splits)

lemma stop_boundary_answers:
  assumes "send_stop_audio_boundary_through_deadline_sender io (ld_generation d) d = (Returns recs, d')"
    and "sender_inv [] (ld_generation d) (ld_sender d)"
  shows "length recs = STOP_AUDIO_BOUNDARY_SILENCE_PACKETS \<and> sent_frames recs = [] \<and> boundary_same d d'"
proof -
  from assms(1) obtain d1 d2 where sp: "speaking_before_media io d = (Returns (), d1)"
    and loop: "boundary_loop STOP_AUDIO_BOUNDARY_SILENCE_PACKETS io (ld_generation d) [] d1 = (Returns recs, d2)"
    and st: "stop_speaking_now io d2 = (Returns (), d')"
    by (auto simp: send_stop_audio_boundary_through_deadline_sender_def run_bind_Returns split: if_splits)
  note q = speaking_quiet [OF sp] speaking_same_frames [OF sp] speaking_ended [OF sp] slot_source(2) [OF sp]
  have g: "ld_generation d1 = ld_generation d" "sender_inv [] (ld_generation d1) (ld_sender d1)"
    using q assms(2) by (simp_all add: quiet_def)
  from boundary_loop_answers [OF loop [folded g(1)] g(2)] stop_speaking_fields [OF st] q
  show ?thesis using same_frames_trans [of d d1 d2] same_frames_trans [of d d2 d']
    by (simp add: boundary_same_def quiet_def)
qed

subsection \<open>Commands\<close>

lemma pause_accounts:
  assumes "apply_command io PauseMedia remaining d = (Returns stop, d')" and "driver_inv d" and "\<not> ld_paused d"
  shows "\<exists>recs. accounts [] recs d d' \<and> sent_frames recs = [] \<and> \<not> stop \<and> ld_paused d'
    \<and> egress_frames (ld_egress d') = driver_frames d \<and> ld_pending d' = [] \<and> ld_source_ended d' = ld_source_ended d
    \<and> sb_end_of_stream (ld_source d') = sb_end_of_stream (ld_source d) \<and> sb_queue (ld_source d') = sb_queue (ld_source d)
    \<and> (driver_frames d \<noteq> [] \<longrightarrow> sb_error (ld_source d') = None)"
proof -
  from assms(1,3) obtain d1 recs d2 where i: "interrupt_playout ReasonPause (ld_now d + FRAME_DURATION) d = (Returns (), d1)"
    and b: "send_stop_audio_boundary_through_deadline_sender io (ld_generation d1)
       (emit_metric (NonTrackPlayoutQueueDepth SendBoundarySilence silence_depth)
          (emit_metric (ExplicitMediaBoundary ReasonPause) d1)) = (Returns recs, d2)" and "stop = False"
    and d': "d' = (let d3 = record_sent_metrics recs remaining d2
       in emit_metric (SenderMediaClockReset ResetPauseResume)
            (d3\<lparr>ld_paused := True, ld_pacer := reset_deadline (ld_pacer d3) (ld_now d3)\<rparr>))"
    by (auto simp: apply_command_def run_bind_Returns current_playout_generation_def Let_def)
  let ?e = "emit_metric (NonTrackPlayoutQueueDepth SendBoundarySilence silence_depth)
    (emit_metric (ExplicitMediaBoundary ReasonPause) d1)"
  note a = interrupt_accounts [OF i assms(2)]
  have e: "ld_generation ?e = ld_generation d1" "sender_inv [] (ld_generation ?e) (ld_sender ?e)"
    using a by (auto simp: accounts_def driver_inv_def queues_inv_def)
  have b2: "length recs = STOP_AUDIO_BOUNDARY_SILENCE_PACKETS" "sent_frames recs = []" "boundary_same ?e d2"
    using stop_boundary_answers [OF b [folded e(1)] e(2)] by blast+
  define d3 where "d3 = record_sent_metrics recs remaining d2"
  have d3: "same_frames d2 d3" "driver_inv d3 = driver_inv d2" "ld_packet_index d3 = bump (length recs) (ld_packet_index d2)"
    "ld_published d3 = ld_published d2"
    "map sm_media_frame (ld_reported d3) = map sm_media_frame (ld_reported d2) @ map sent_media_frame recs"
    using record_metrics_fields [of d2 recs remaining] by (simp_all add: d3_def)
  have i2: "driver_inv d2" "pipeline d2 = pipeline d1" "ld_pending d2 = []" "pp_queue (ld_prepared d2) = []"
    "ld_packet_index d2 = ld_packet_index d1" "ld_egress d2 = ld_egress d1" "ld_playback_epoch d2 = ld_playback_epoch d1"
    "ld_reported d2 = ld_reported d1" "ld_published d2 = ld_published d1"
    using b2(3) a same_frames_inv [of d1 d2]
    by (auto simp: boundary_same_def accounts_def driver_inv_def queues_inv_def same_frames_def)
  have "accounts [] recs d1 d'"
    using i2 d3 d' b2(2) same_frames_inv [OF d3(1)]
    by (auto simp: d3_def [symmetric] accounts_def driver_inv_def queues_inv_def frames_inv_def pipeline_def
        driver_frames_def same_frames_def Let_def)
  with a have "accounts [] recs d d'" by (blast intro: accounts_quiet_trans)
  moreover have "ld_source_ended d' = ld_source_ended d"
    using a b2(3) d' by (auto simp: boundary_same_def d3_def [symmetric] Let_def) (auto simp: d3_def record_metrics_ended)
  moreover have src: "ld_source d' = ld_source d1"
    using b2(3) d' by (auto simp: boundary_same_def d3_def [symmetric] Let_def) (auto simp: d3_def record_metrics_ended)
  moreover have "frames_inv d" using assms(2) by (simp add: driver_inv_def)
  note interrupt_spec [OF i this]
  ultimately show ?thesis
    using \<open>stop = False\<close> a i2 d3 d' b2 src by (auto simp: d3_def [symmetric] same_frames_def Let_def)
qed

lemma resume_accounts:
  assumes "apply_command io ResumeMedia remaining d = (Returns stop, d')" and "driver_inv d"
  shows "accounts [] [] d d' \<and> \<not> stop \<and> \<not> ld_paused d' \<and> ld_pending d' = ld_pending d
    \<and> ld_egress d' = ld_egress d \<and> ld_source_ended d' = ld_source_ended d"
proof (cases "ld_paused d")
  case False
  with assms show ?thesis by (simp add: apply_command_def same_accounts)
next
  case True
  with assms(1) obtain d1 where sp: "speaking_before_media io (d\<lparr>ld_paused := False\<rparr>) = (Returns (), d1)"
    and d': "stop = False" "d' = emit_metric SenderResumedFromPause (emit_metric (SenderMediaClockReset ResetPauseResume)
       (d1\<lparr>ld_pacer := reset_deadline (ld_pacer d1) (ld_now d1)\<rparr>))"
    by (auto simp: apply_command_def run_bind_Returns)
  note s = speaking_same_frames [OF sp] speaking_quiet [OF sp] speaking_ended [OF sp]
  have "same_frames d d'" using s d' by (simp add: same_frames_def)
  with same_frames_inv [OF this] s d' assms(2) show ?thesis
    by (auto simp: accounts_def driver_inv_def queues_inv_def same_frames_def quiet_def bump_def)
qed

lemma command_accounts:
  assumes "apply_command io command remaining d = (Returns stop, d')" and "driver_inv d"
  shows "\<exists>recs. accounts [] recs d d' \<and> (stop \<longrightarrow> ld_pending d' = [] \<and> pp_queue (ld_prepared d') = [])
    \<and> (ld_paused d' \<longrightarrow> command \<noteq> ResumeMedia) \<and> (ld_paused d \<and> command \<noteq> ResumeMedia \<longrightarrow> ld_paused d')"
proof (cases command)
  case PauseMedia
  show ?thesis
  proof (cases "ld_paused d")
    case True
    with assms PauseMedia show ?thesis
      by (intro exI [of _ "[]"]) (auto simp: apply_command_def same_accounts)
  next
    case False
    with pause_accounts [OF assms(1) [unfolded PauseMedia] assms(2)] PauseMedia show ?thesis by blast
  qed
next
  case ResumeMedia
  with resume_accounts [OF assms(1) [unfolded ResumeMedia] assms(2)] show ?thesis by blast
next
  case (StopMedia skipped)
  with assms(1) have i: "interrupt_playout ReasonStop (ld_now d + FRAME_DURATION) (d\<lparr>ld_skipped_on_stop := skipped\<rparr>) = (Returns (), d')"
    and "stop" by (auto simp: apply_command_def run_bind_Returns)
  with interrupt_accounts [OF i] assms(2) StopMedia show ?thesis by (intro exI [of _ "[]"]) auto
qed

lemma drain_commands_accounts:
  "drain_commands io remaining cs d = (Returns ended, d') \<Longrightarrow> driver_inv d \<Longrightarrow>
   \<exists>recs. accounts [] recs d d' \<and> (ended \<noteq> None \<longrightarrow> ld_pending d' = [] \<and> pp_queue (ld_prepared d') = [])
     \<and> (ended = None \<or> ended = Some False)"
proof (induction cs arbitrary: d)
  case Nil
  then show ?case by (intro exI [of _ "[]"]) (auto simp: same_accounts)
next
  case (Cons c cs)
  from Cons.prems(1) obtain stop d1 where c: "apply_command io c remaining d = (Returns stop, d1)"
    and rest: "(if stop then (Returns (Some False), d1) else drain_commands io remaining cs d1) = (Returns ended, d')"
    by (auto simp: run_bind_Returns)
  obtain r1 where r1: "accounts [] r1 d d1" "stop \<longrightarrow> ld_pending d1 = [] \<and> pp_queue (ld_prepared d1) = []"
    using command_accounts [OF c Cons.prems(2)] by blast
  show ?case
  proof (cases stop)
    case True
    with rest r1 show ?thesis by auto
  next
    case False
    with Cons.IH [of d1] rest accounts_inv [OF r1(1)] obtain r2 where
      "accounts [] r2 d1 d'" "ended \<noteq> None \<longrightarrow> ld_pending d' = [] \<and> pp_queue (ld_prepared d') = []"
      "ended = None \<or> ended = Some False" by auto
    with accounts_trans [OF r1(1)] show ?thesis by fastforce
  qed
qed

lemma clock_epoch_accounts:
  assumes "driver_inv d"
  shows "accounts [] [] d (d\<lparr>ld_now := now, ld_current_playback_epoch := epoch\<rparr>)"
    "accounts [] [] d (d\<lparr>ld_current_playback_epoch := epoch\<rparr>)"
  using assms by (auto intro!: same_accounts simp: same_frames_def quiet_def)

lemma paused_accounts:
  "wait_while_paused io events d = (Returns ended, d') \<Longrightarrow> driver_inv d \<Longrightarrow>
   \<exists>recs. accounts [] recs d d' \<and> (ended = None \<or> ended = Some False)"
proof (induction events arbitrary: d)
  case Nil
  then show ?case
    by (intro exI [of _ "[]"]) (auto simp: wait_while_paused.simps [of io "[]" d] same_accounts split: if_splits)
next
  case (Cons e events)
  note unfold = wait_while_paused.simps [of io "e # events" d]
  show ?case
  proof (cases "ld_paused d \<and> playback_is_current d")
    case False
    with Cons.prems show ?thesis by (intro exI [of _ "[]"]) (auto simp: unfold same_accounts split: if_splits)
  next
    case True
    show ?thesis
    proof (cases e)
      case (PausedSleep epoch)
      let ?d1 = "d\<lparr>ld_now := ld_now d + 10000000, ld_current_playback_epoch := epoch\<rparr>"
      note a = clock_epoch_accounts(1) [OF Cons.prems(2), where now = "ld_now d + 10000000" and epoch = epoch]
      have "wait_while_paused io events ?d1 = (Returns ended, d')" using Cons.prems(1) True PausedSleep
        by (simp add: unfold [unfolded PausedSleep])
      from Cons.IH [OF this accounts_inv [OF a]] a show ?thesis by (blast intro: accounts_quiet_trans)
    next
      case (PausedCommand received)
      show ?thesis
      proof (cases received)
        case None
        with Cons.prems True PausedCommand show ?thesis
          by (intro exI [of _ "[]"]) (auto simp: unfold [unfolded PausedCommand None] same_accounts)
      next
        case (Some c)
        with Cons.prems(1) True PausedCommand obtain stop d1 where
          c: "apply_command io c OpusBufferDepth_default d = (Returns stop, d1)"
          and rest: "(if stop then (Returns (Some False), d1) else wait_while_paused io events d1) = (Returns ended, d')"
          by (auto simp: unfold [unfolded PausedCommand Some] run_bind_Returns)
        obtain r1 where r1: "accounts [] r1 d d1" using command_accounts [OF c Cons.prems(2)] by blast
        from rest show ?thesis
          using Cons.IH [of d1, OF _ accounts_inv [OF r1]] r1 accounts_trans [OF r1] by (fastforce split: if_splits)
      qed
    qed
  qed
qed

section \<open>Beside the driver\<close>

fun refilled :: "beside list \<Rightarrow> OpusFrame list" where
  "refilled [] = []"
| "refilled (ProducerPublishes refill ended # es) = q_inner refill @ refilled es"
| "refilled (_ # es) = refilled es"

lemma refilled_append: "refilled (xs @ ys) = refilled xs @ refilled ys"
  by (induction xs rule: refilled.induct) auto

lemma publish_loop_prefix:
  assumes "publish_loop fs q = (ok, q')" and "queue_wf q"
  shows "\<exists>pubs rest. fs = pubs @ rest \<and> q_inner q' = q_inner q @ pubs \<and> queue_wf q' \<and> (ok \<longrightarrow> rest = [])"
  using assms
proof (induction fs arbitrary: q)
  case (Cons f fs)
  show ?case
  proof (cases "can_fit_frame q f")
    case True
    obtain q1 where push: "OpusFrameQueue_push q f = (Inr (), q1)" "queue_wf q1" "q_inner q1 = q_inner q @ [f]"
      using oq.push_fits [OF Cons.prems(2) True] by (metis prod.collapse)
    with Cons.prems(1) have "publish_loop fs q1 = (ok, q')" by simp
    from Cons.IH [OF this push(2)] push(3) show ?thesis by (metis append.assoc append_Cons append_Nil)
  next
    case False
    with oq.push_refused [of q f] Cons.prems show ?thesis by (intro exI [of _ "[]"] exI [of _ "f # fs"]) simp
  qed
qed simp

lemma publish_accounts:
  assumes "driver_inv d" and "list_all frame_ok (q_inner refill)"
  shows "\<exists>pubs. accounts pubs [] d (beside_step io (ProducerPublishes refill ended) d) \<and> subseq pubs (q_inner refill)
    \<and> ld_paused (beside_step io (ProducerPublishes refill ended) d) = ld_paused d"
proof -
  obtain ok q' where loop: "publish_loop (q_inner refill) (sb_queue (ld_source d)) = (ok, q')" by fastforce
  have "queue_wf (sb_queue (ld_source d))" using assms(1) by (simp add: driver_inv_def frames_inv_def)
  from publish_loop_prefix [OF loop this] obtain pubs rest where
    p: "q_inner refill = pubs @ rest" "q_inner q' = q_inner (sb_queue (ld_source d)) @ pubs" "queue_wf q'" "ok \<longrightarrow> rest = []"
    by blast
  obtain source where step: "beside_step io (ProducerPublishes refill ended) d
      = d\<lparr>ld_source := source, ld_published := ld_published d @ [(pubs @ rest, ok)]\<rparr>" "sb_queue source = q'"
    using loop p(1) by (cases ok) (simp_all add: beside_step_def publish_refill_def)
  have "given pubs d (beside_step io (ProducerPublishes refill ended) d)"
    unfolding given_def using p(4) step(1) by (intro exI [of _ "[pubs]"] exI [of _ "[(pubs @ rest, ok)]"]) (simp add: piece_of_def)
  moreover have "subseq pubs (q_inner refill)" using p(1) by (simp add: list_emb_append2 prefix_imp_subseq)
  ultimately show ?thesis
    using p(1-3) step assms
    by (intro exI [of _ pubs])
      (simp add: accounts_def driver_inv_def queues_inv_def frames_inv_def pipeline_def driver_frames_def stamped_def bump_def)
qed

lemma beside_accounts:
  "driver_inv d \<Longrightarrow> list_all frame_ok (refilled es) \<Longrightarrow>
   \<exists>pubs. accounts pubs [] d (beside_steps io es d) \<and> subseq pubs (refilled es)
     \<and> ld_paused (beside_steps io es d) = ld_paused d"
proof (induction es arbitrary: d)
  case Nil
  then show ?case by (intro exI [of _ "[]"]) (simp add: beside_steps_def same_accounts)
next
  case (Cons e es)
  have "\<exists>pubs. accounts pubs [] d (beside_step io e d) \<and> subseq (pubs @ more) (refilled (e # es))
      \<and> ld_paused (beside_step io e d) = ld_paused d" if "subseq more (refilled es)" for more
  proof (cases e)
    case (SenderTicks clock)
    with that tick_accounts [OF Cons.prems(1)] tick_fields [where d = d] show ?thesis
      by (intro exI [of _ "[]"]) (simp add: beside_step_def)
  next
    case (ProducerFails err)
    with that Cons.prems(1) show ?thesis
      by (intro exI [of _ "[]"]) (auto simp: beside_step_def same_frames_def quiet_def intro!: same_accounts)
  next
    case (ProducerPublishes refill ended)
    with publish_accounts [OF Cons.prems(1), of refill io ended] Cons.prems(2) that show ?thesis
      by (auto simp: list_emb_append_mono)
  qed
  note step = this
  have fold: "beside_steps io (e # es) d = beside_steps io es (beside_step io e d)" by (simp add: beside_steps_def)
  obtain p1 where "accounts p1 [] d (beside_step io e d)" using step [of "[]"] by auto
  with Cons.IH [OF accounts_inv, of _ _ d "beside_step io e d"] Cons.prems(2) obtain p2 where
    p2: "accounts p2 [] (beside_step io e d) (beside_steps io es (beside_step io e d))"
    "subseq p2 (refilled es)" "ld_paused (beside_steps io es (beside_step io e d)) = ld_paused (beside_step io e d)"
    by (cases e) auto
  from step [OF p2(2)] obtain p3 where p3: "accounts p3 [] d (beside_step io e d)"
    "subseq (p3 @ p2) (refilled (e # es))" "ld_paused (beside_step io e d) = ld_paused d" by blast
  with accounts_trans [OF p3(1) p2(1)] p2(3) fold show ?case by (intro exI [of _ "p3 @ p2"]) simp
qed

end
