(* ===== verification/LiveRounds.thy ===== *)
theory LiveRounds
  imports LiveAccounting
begin

text \<open>
  Whole rounds of the live driver's loop: over any run, with the deadline sender ticking and the producer
  publishing beside it, the frames reported as sent and the frames still held are the frames given, in order;
  and a playback that ends by itself has reported all of them.
\<close>

section \<open>Rounds\<close>

subsection \<open>The end of a playback\<close>

text \<open>The driver only takes the source for ended when its buffer is empty.\<close>

definition ended_ok :: "('ds, 'w, 'u) LiveMediaDriver \<Rightarrow> bool" where
  "ended_ok d \<longleftrightarrow> (ld_source_ended d \<longrightarrow> q_inner (sb_queue (ld_source d)) = [])"

lemma poll_ended:
  assumes "poll_source d = (Returns poll, d1)" and "queue_wf (sb_queue (ld_source d))" and "poll_frame poll = None"
  shows "q_inner (sb_queue (ld_source d1)) = []" "ld_source_ended d1 = ld_source_ended d"
proof -
  have "q_inner (sb_queue (ld_source d)) = []"
    using assms oq.pop_Cons [of "sb_queue (ld_source d)"]
    by (cases "q_inner (sb_queue (ld_source d))")
      (auto simp: poll_source_def pop_live_source_frame_def Let_def split: option.splits prod.splits)
  moreover have "ld_source_ended d1 = ld_source_ended d \<and> (q_inner (sb_queue (ld_source d)) = [] \<longrightarrow>
      sb_queue (ld_source d1) = sb_queue (ld_source d))"
    using assms(1) oq.pop_Nil [of "sb_queue (ld_source d)"]
    by (auto simp: poll_source_def pop_live_source_frame_def Let_def split: option.splits prod.splits)
  ultimately show "q_inner (sb_queue (ld_source d1)) = []" "ld_source_ended d1 = ld_source_ended d" by simp_all
qed

lemma refill_step_ended:
  assumes "refill_step d = (Returns (go_on, depth), d')" and "queue_wf (sb_queue (ld_source d))" and "\<not> ld_source_ended d"
  shows "ended_ok d'"
proof -
  obtain poll d1 where poll: "poll_source d = (Returns poll, d1)"
    using assms(1) by (auto simp: refill_step_def run_bind_Returns)
  have ne: "ld_source_ended d1 = ld_source_ended d"
    using poll by (auto simp: poll_source_def split: prod.splits sum.splits)
  show ?thesis
  proof (cases "poll_frame poll")
    case None
    with poll_ended [OF poll assms(2) None] assms(1) poll show ?thesis
      by (auto simp: refill_step_def run_bind_def ended_ok_def split: if_splits)
  next
    case (Some a)
    with assms(1,3) poll ne have "\<not> ld_source_ended d'"
      by (auto simp: refill_step_def run_bind_def Let_def restore_source_def resume_after_underrun_def
          split: prod.splits sum.splits if_splits)
    then show ?thesis by (simp add: ended_ok_def)
  qed
qed

lemma refill_loop_ended:
  assumes "refill_loop t latest d = (Returns depth, d')" and "frames_inv d" and "ended_ok d"
    and "unat t = 960 * (20 - length (pend_frames (ld_pending d)) - length (prepared_frames (ld_prepared d)))"
  shows "ended_ok d'"
  using assms
proof (induction t latest d rule: refill_loop.induct)
  case (1 t latest d)
  show ?case
  proof (cases "refill_wanted t d")
    case True
    with "1.prems"(1) obtain go_on depth1 d1 where step: "refill_step d = (Returns (go_on, depth1), d1)"
      by (auto simp: refill_loop.simps [of t latest d] split: run.splits prod.splits)
    note inv = refill_step_inv [OF step "1.prems"(2) refill_wanted_room [OF "1.prems"(2) True "1.prems"(4)]]
    have ok: "ended_ok d1"
      using refill_step_ended [OF step] "1.prems"(2) True by (simp add: frames_inv_def refill_wanted_def)
    show ?thesis
    proof (cases go_on)
      case True
      have "refill_loop t depth1 d1 = (Returns depth, d')"
        using "1.prems"(1) step True \<open>refill_wanted t d\<close> by (simp add: refill_loop.simps [of t latest d])
      from "1.IH" [OF \<open>refill_wanted t d\<close> step [symmetric] refl refl _ this _ ok] True inv "1.prems"(4) show ?thesis by simp
    next
      case False
      with step ok "1.prems"(1) \<open>refill_wanted t d\<close> show ?thesis by (simp add: refill_loop.simps [of t latest d])
    qed
  next
    case False
    with "1.prems"(1,3) show ?thesis by (simp add: refill_loop.simps [of t latest d])
  qed
qed

lemma refill_ended:
  assumes "refill_egress_buffer p d = (Returns depth, d')" and "frames_inv d" and "p = pending_samples_of d" and "ended_ok d"
  shows "ended_ok d'"
proof -
  obtain latest d1 d2 where s: "source_depth_now d = (Returns latest, d1)"
    and loop: "refill_loop (raw_refill_target_samples p d1) latest d1 = (Returns depth, d2)"
    and d': "d' = emit_metric (EgressDepth (playout_depth (ld_prepared d2))) d2"
    using assms(1) by (auto simp: refill_egress_buffer_def run_bind_Returns)
  note same = source_depth_same [OF s]
  have inv: "frames_inv d1" using same_frames_inv [OF same] assms(2) by simp
  have "ld_source_ended d1 = ld_source_ended d" using s by (auto simp: source_depth_now_def split: prod.splits)
  then have ok: "ended_ok d1" using assms(4) same by (simp add: ended_ok_def same_frames_def)
  have "p = pending_samples_of d1" using same assms(3) by (simp add: pending_samples_of_def same_frames_def)
  with refill_loop_ended [OF loop inv ok] refill_target_exact [OF inv] d' show ?thesis by (simp add: ended_ok_def)
qed

lemma enqueue_ended:
  "enqueue_prepared packet frame d = (Returns (), d') \<Longrightarrow> ld_source_ended d' = ld_source_ended d \<and> ld_source d' = ld_source d"
  by (auto simp: enqueue_prepared_def take_rebuild_credit_def record_prepared_playout_event_def Let_def split: prod.splits sum.splits)

lemma playout_fill_step_ended:
  assumes "playout_fill_step io p latest d = (Returns (go_on, depth), d')" and "frames_inv d" and "p = pending_samples_of d"
    and "ended_ok d"
  shows "ended_ok d' \<and> (\<not> go_on \<longrightarrow> egress_frames (ld_egress d') = [])"
proof -
  from assms(1) obtain latest1 d1 where
    start: "(if depth_packets (egress_depth (ld_egress d)) = 0 then refill_egress_buffer p d else (Returns latest, d)) = (Returns latest1, d1)"
    by (auto simp: playout_fill_step_def run_bind_Returns)
  have d1: "frames_inv d1 \<and> ld_pending d1 = ld_pending d \<and> ended_ok d1"
    using start refill_egress_inv [of p d latest1 d1] refill_ended [of p d latest1 d1] assms(2-4) by (auto split: if_splits)
  obtain popped egress where pop: "egress_pop (ld_egress d1) = (popped, egress)" by fastforce
  show ?thesis
  proof (cases popped)
    case None
    have "egress_wf (ld_egress d1)" using d1 by (simp add: frames_inv_def)
    then have "egress = ld_egress d1" "egress_frames (ld_egress d1) = []"
      using egress_pop_none pop None eb.pop_Cons [of "ld_egress d1"] by (blast, cases "egress_frames (ld_egress d1)", auto)
    with assms(1) start pop None d1 show ?thesis by (auto simp: playout_fill_step_def run_bind_def)
  next
    case (Some frame)
    from assms(1) start pop Some obtain u d2 packet d3 d4 where
      sp: "speaking_before_media io (d1\<lparr>ld_egress := egress\<rparr>) = (Returns u, d2)"
      and pk: "prepare_slot_packet io (frame_data frame) (frame_duration_samples frame) d2 = (Returns packet, d3)"
      and enq: "enqueue_prepared packet frame d3 = (Returns (), d4)"
      and ref: "refill_egress_buffer p d4 = (Returns depth, d')" and "go_on"
      by (auto simp: playout_fill_step_def run_bind_Returns)
    have same: "same_frames (d1\<lparr>ld_egress := egress\<rparr>) d3" "ld_source_ended d3 = ld_source_ended d1"
      using same_frames_trans [OF speaking_same_frames [OF sp] slot_packet_same_frames [OF pk]]
        speaking_ended [OF sp] slot_ended [OF pk] by simp_all
    have frames: "egress_frames (ld_egress d1) = frame # egress_frames egress" "egress_wf egress"
      using egress_pop_frames [of "ld_egress d1" frame egress] pop Some d1 by (auto simp: frames_inv_def)
    have "playout_wf (ld_prepared d3)" using same d1 by (simp add: same_frames_def frames_inv_def)
    note enqd = enqueue_prepared_spec [OF enq this] enqueue_ended [OF enq]
    have "frames_inv d4" using enqd same frames d1 by (auto simp: frames_inv_def driver_frames_def same_frames_def)
    moreover have "p = pending_samples_of d4" using assms(3) d1 enqd same by (simp add: pending_samples_of_def same_frames_def)
    moreover have "ended_ok d4" using enqd same d1 by (simp add: ended_ok_def same_frames_def)
    ultimately show ?thesis using refill_ended [OF ref] \<open>go_on\<close> by simp
  qed
qed

text \<open>After the fill there is no frame in the egress buffer, unless one is prepared or handed over.\<close>

definition filled_up :: "('ds, 'w, 'u) LiveMediaDriver \<Rightarrow> bool" where
  "filled_up d \<longleftrightarrow> \<not> ld_source_ended d \<or> egress_frames (ld_egress d) = [] \<or> pend_frames (ld_pending d) \<noteq> []
     \<or> prepared_frames (ld_prepared d) \<noteq> []"

lemma fill_unwanted:
  assumes "\<not> fill_wanted p d" and "frames_inv d" and "p = pending_samples_of d"
  shows "filled_up d"
proof (rule ccontr)
  assume "\<not> filled_up d"
  then have none: "ld_source_ended d" "egress_frames (ld_egress d) \<noteq> []" "pend_frames (ld_pending d) = []"
    "prepared_frames (ld_prepared d) = []" by (auto simp: filled_up_def)
  have "depth_packets (egress_depth (ld_egress d)) > 0"
    using none(2) assms(2) by (simp add: egress_depth_def OpusFrameQueue_depth_def egress_frames_def)
  moreover have "unat p = 0" "unat (pp_duration_samples (ld_prepared d)) = 0"
    using pending_samples_exact [OF assms(2)] prepared_samples [OF assms(2)] none assms(3) by simp_all
  moreover have "pp_queue (ld_prepared d) = []" using none(4) by (simp add: prepared_frames_def)
  moreover have "playout_wf (ld_prepared d)" using assms(2) by (simp add: frames_inv_def)
  ultimately show False
    using assms(1) egress_target_samples egress_high_samples
    by (simp add: fill_wanted_def playout_is_full_def playout_wf_def word_less_nat_alt word_le_nat_alt to_nat total_bytes_def
        limit_defs)
qed

lemma fill_loop_ended:
  assumes "fill_prepared_loop io p latest d = (Returns depth, d')" and "frames_inv d" and "p = pending_samples_of d"
    and "ended_ok d"
  shows "ended_ok d' \<and> filled_up d'"
  using assms
proof (induction io p latest d rule: fill_prepared_loop.induct)
  case (1 io p latest d)
  show ?case
  proof (cases "fill_wanted p d")
    case True
    with "1.prems"(1) obtain go_on depth1 d1 where step: "playout_fill_step io p latest d = (Returns (go_on, depth1), d1)"
      by (auto simp: fill_prepared_loop.simps [of io p latest d] split: run.splits prod.splits)
    note inv = playout_fill_step_inv [OF step "1.prems"(2,3)] playout_fill_step_ended [OF step "1.prems"(2,3,4)]
    then have p1: "p = pending_samples_of d1" using "1.prems"(3) by (simp add: pending_samples_of_def)
    show ?thesis
    proof (cases go_on)
      case True
      have "fill_prepared_loop io p depth1 d1 = (Returns depth, d')"
        using "1.prems"(1) step True \<open>fill_wanted p d\<close> by (simp add: fill_prepared_loop.simps [of io p latest d])
      from "1.IH" [OF \<open>fill_wanted p d\<close> step [symmetric] refl refl _ this _ p1] True inv show ?thesis
        by (simp add: keeps_frames_def)
    next
      case False
      with step inv "1.prems"(1) \<open>fill_wanted p d\<close> show ?thesis
        by (simp add: fill_prepared_loop.simps [of io p latest d] filled_up_def)
    qed
  next
    case False
    with "1.prems"(1,4) fill_unwanted [OF False "1.prems"(2,3)] show ?thesis
      by (simp add: fill_prepared_loop.simps [of io p latest d])
  qed
qed

lemma pump_rest:
  assumes "pump_prepared_playout_to_deadline_sender d = (Returns (), d')" and "frames_inv d"
  shows "(available_command_capacity (ld_sender d') = 0 \<or> pp_queue (ld_prepared d') = [])
    \<and> ld_egress d' = ld_egress d \<and> ld_source d' = ld_source d \<and> ld_source_ended d' = ld_source_ended d
    \<and> ld_playback_epoch d' = ld_playback_epoch d"
  using assms
proof (induction d rule: pump_prepared_playout_to_deadline_sender.induct)
  case (1 d)
  note unfold = pump_prepared_playout_to_deadline_sender.simps [of d]
  show ?case
  proof (cases "available_command_capacity (ld_sender d) > 0 \<and> pp_queue (ld_prepared d) \<noteq> []")
    case True
    then obtain prepared queue where pop: "playout_pop (ld_prepared d) = (Some prepared, queue)"
      by (cases "pp_queue (ld_prepared d)") (auto simp: playout_pop_def)
    with "1.prems"(1) True obtain d1 where step: "pump_step prepared queue d = (Returns (), d1)"
      and rest: "pump_prepared_playout_to_deadline_sender d1 = (Returns (), d')"
      by (auto simp: unfold split: run.splits prod.splits)
    have "ld_egress d1 = ld_egress d \<and> ld_source d1 = ld_source d \<and> ld_source_ended d1 = ld_source_ended d
        \<and> ld_playback_epoch d1 = ld_playback_epoch d"
      using step by (auto simp: pump_step_def record_prepared_playout_event_def Let_def split: prod.splits sum.splits)
    with "1.IH" [OF _ pop [symmetric] refl step [symmetric] refl] True rest pump_step_frames [OF step pop "1.prems"(2)]
    show ?thesis by (auto simp: keeps_frames_def)
  next
    case False
    with "1.prems" pq.pop_Nil [of "ld_prepared d"] show ?thesis by (auto simp: unfold split: if_splits)
  qed
qed

lemma full_channel_pending:
  assumes "sender_inv ps g s" and "available_command_capacity s = 0"
  shows "ps \<noteq> []"
  using assms(1) [unfolded sender_inv_def] assms(2)
  by (elim answersE) (auto simp: available_command_capacity_def)

lemma silence_keeps_one:
  assumes "enqueue_scheduled_silence io reason d = (Returns (), d')"
  shows "ld_source_ended d' = ld_source_ended d"
proof -
  obtain packet d1 where p: "prepare_slot_packet io SILENCE_FRAME 960 d = (Returns packet, d1)"
    using assms(1) by (auto simp: enqueue_scheduled_silence_def run_bind_Returns)
  with assms slot_ended [OF p] show ?thesis
    by (auto simp: enqueue_scheduled_silence_def run_bind_Returns record_prepared_playout_event_def Let_def
        split: prod.splits sum.splits)
qed

lemma silence_loop_keeps_ended: "silence_loop n io d = (Returns (), d') \<Longrightarrow> ld_source_ended d' = ld_source_ended d"
proof (induction n arbitrary: d)
  case (Suc n)
  show ?case
  proof (cases "available_command_capacity (ld_sender d) > 0")
    case True
    with Suc.prems obtain d1 where "enqueue_scheduled_silence io ReasonSourceUnderrun d = (Returns (), d1)"
      "silence_loop n io d1 = (Returns (), d')" by (auto simp: run_bind_Returns)
    with Suc.IH silence_keeps_one show ?thesis by metis
  next
    case False
    with Suc.prems show ?thesis by simp
  qed
qed simp

lemma silence_keeps_ended:
  "fill_source_underrun_silence_deadline_queue io d = (Returns (), d') \<Longrightarrow> ld_source_ended d' = ld_source_ended d"
  by (auto simp: fill_source_underrun_silence_deadline_queue_def run_bind_Returns Let_def split: if_splits
      dest!: silence_loop_keeps_ended speaking_ended)

text \<open>When the source has ended and no command is without an outcome, nothing is left.\<close>

lemma fill_and_pump_end:
  assumes "fill_and_pump io d = (Returns latest, d')" and "driver_inv d" and "\<not> ld_paused d" and "ended_ok d"
    and "ld_source_ended d'" and "ld_pending d' = []"
  shows "pipeline d' = []"
proof -
  from assms(1) obtain d1 d2 where
    f: "fill_prepared_playout_queue io (pending_samples_of d) d = (Returns latest, d1)"
    and p: "pump_prepared_playout_to_deadline_sender d1 = (Returns (), d2)"
    and s: "(if ld_underrun_active d2 \<and> \<not> ld_source_ended d2
             then fill_source_underrun_silence_deadline_queue io d2 else (Returns (), d2)) = (Returns (), d')"
    by (auto simp: fill_and_pump_def pending_samples_of_def run_bind_Returns)
  have inv: "frames_inv d" using assms(2) by (simp add: driver_inv_def)
  note a1 = fill_accounts [OF f assms(2,3)]
  then have inv1: "driver_inv d1" "frames_inv d1" by (simp_all add: accounts_def driver_inv_def)
  obtain l d0 dl where r: "refill_egress_buffer (pending_samples_of d) d = (Returns l, d0)"
    and loop: "fill_prepared_loop io (pending_samples_of d) l d0 = (Returns latest, dl)"
    and d1: "d1 = emit_metric (EgressDepth (playout_depth (ld_prepared dl))) dl"
    using f by (auto simp: fill_prepared_playout_queue_def run_bind_Returns)
  note r0 = refill_egress_inv [OF r inv refl]
  have "pending_samples_of d = pending_samples_of d0" using r0 by (simp add: pending_samples_of_def)
  with fill_loop_ended [OF loop] r0 refill_ended [OF r inv refl assms(4)] d1 have end1: "ended_ok d1" "filled_up d1"
    by (auto simp: ended_ok_def filled_up_def)
  note rest = pump_rest [OF p inv1(2)] and k2 = pump_accounts [OF p inv1(1)]
  have ended2: "d' = d2"
  proof (cases "ld_underrun_active d2 \<and> \<not> ld_source_ended d2")
    case True
    with s have "fill_source_underrun_silence_deadline_queue io d2 = (Returns (), d')" by simp
    with True assms(5) silence_keeps_ended show ?thesis by metis
  next
    case False
    with s show ?thesis by (simp add: prod_eq_iff)
  qed
  have "driver_inv d2" using k2 a1 by (auto simp: accounts_def)
  then have empty: "pp_queue (ld_prepared d2) = []"
    using rest full_channel_pending [of "[]"] assms(6) ended2 by (auto simp: driver_inv_def queues_inv_def)
  have "pipeline d2 = pipeline d1" using pump_frames [OF p inv1(2)] by (simp add: keeps_frames_def)
  then have moved: "pend_frames (ld_pending d1) @ prepared_frames (ld_prepared d1) = []"
    using rest assms(6) ended2 empty by (simp add: pipeline_def driver_frames_def prepared_frames_def)
  with end1 rest assms(5) ended2 have "egress_frames (ld_egress d1) = []" "q_inner (sb_queue (ld_source d1)) = []"
    by (auto simp: filled_up_def ended_ok_def)
  with empty rest assms(6) ended2 show ?thesis by (simp add: pipeline_def driver_frames_def prepared_frames_def)
qed

subsection \<open>The steps of a round\<close>

lemma next_outcome_accounts:
  assumes "next_outcome io d = (Returns outcome, d1)" and "account_deadline_outcome outcome remaining d1 = (Returns sent, d2)"
    and "driver_inv d"
  shows "\<exists>rec. sent = Some rec \<and> accounts [] [rec] d (record_deadline_send_metric rec g remaining d2)"
proof -
  have s: "sender_inv (ld_pending d) (ld_generation d) (ld_sender d)" using assms(3) by (simp add: driver_inv_def queues_inv_def)
  obtain e sender rest where w: "same_frames d e" "try_next_outcome (ld_sender e) = (Inr (Some outcome), sender)"
    "sender_inv (ld_pending d) (ld_generation e) (ld_sender e)" "d1 = e\<lparr>ld_sender := sender, ld_ticks := rest\<rparr>"
    "ld_generation e = ld_generation d" "ld_paused e = ld_paused d" "ld_packet_index e = ld_packet_index d"
    "ld_reported e = ld_reported d" "ld_published e = ld_published d"
    using wait_outcome_ticks [OF assms(1) [unfolded next_outcome_def] s] by blast
  define e1 where "e1 = e\<lparr>ld_ticks := rest\<rparr>"
  have inv: "driver_inv e1"
    using w assms(3) same_frames_inv [OF w(1)]
    by (auto simp: e1_def driver_inv_def queues_inv_def same_frames_def frames_inv_def driver_frames_def)
  have t: "try_next_outcome (ld_sender e1) = (Inr (Some outcome), sender)" "d1 = e1\<lparr>ld_sender := sender\<rparr>"
    using w by (simp_all add: e1_def)
  let ?d = "e1\<lparr>ld_sender := sender, ld_pending := tl (ld_pending e1)\<rparr>"
  obtain rec where rec: "account_deadline_outcome outcome remaining d1 = (Returns (Some rec), ?d)" "driver_inv ?d"
    "map prepared_media_frame (pipeline e1) = sent_frames [rec] @ map prepared_media_frame (pipeline ?d)"
    using account_outcome_accounts [OF t(1) inv, of remaining] t(2) by blast
  have "pipeline e1 = pipeline d" using same_frames_inv [OF w(1)] by (simp add: e1_def pipeline_def driver_frames_def)
  moreover have "d2 = ?d" "sent = Some rec" using rec(1) assms(2) by simp_all
  moreover have "ld_packet_index ?d = ld_packet_index d" "ld_playback_epoch ?d = ld_playback_epoch d"
    "ld_reported ?d = ld_reported d" "ld_published ?d = ld_published d"
    using w by (simp_all add: e1_def same_frames_def)
  moreover have "pipeline (record_deadline_send_metric rec g remaining ?d) = pipeline ?d"
    "ld_playback_epoch (record_deadline_send_metric rec g remaining ?d) = ld_playback_epoch ?d"
    using same_frames_inv [OF record_metric_fields(1)] record_metric_fields(1) [of ?d rec g remaining]
    by (blast, simp add: same_frames_def)
  ultimately show ?thesis
    using rec record_metric_fields(2,3,7,8) [where d = ?d and rec = rec and g = g and depth = remaining]
    by (simp add: accounts_def bump_def)
qed

lemma finish_accounts:
  assumes "finish_round io event g latest d = (Returns ended, d')" and "driver_inv d"
  shows "\<exists>recs. accounts [] recs d d' \<and> ended \<noteq> Some True"
proof (cases event)
  case OutcomeFirst
  with assms(1) obtain outcome d1 sent d2 where o: "next_outcome io d = (Returns outcome, d1)"
    "account_deadline_outcome outcome latest d1 = (Returns sent, d2)" "ended = None"
    "d' = (case sent of None \<Rightarrow> d2 | Some rec \<Rightarrow> record_deadline_send_metric rec g latest d2)"
    by (auto simp: finish_round_def run_bind_Returns)
  with next_outcome_accounts [OF o(1,2) assms(2)] show ?thesis by fastforce
next
  case (CommandFirst received)
  show ?thesis
  proof (cases received)
    case None
    with CommandFirst assms show ?thesis
      by (intro exI [of _ "[]"]) (auto simp: finish_round_def same_accounts)
  next
    case (Some c)
    with CommandFirst assms(1) obtain stop where "apply_command io c latest d = (Returns stop, d')"
      "ended = (if stop then Some False else None)" by (auto simp: finish_round_def run_bind_Returns)
    with command_accounts [OF _ assms(2)] show ?thesis by fastforce
  qed
qed

lemma underrun_start_accounts:
  assumes "driver_inv d" and "sent_reports m = []"
  shows "accounts [] [] d (start_source_underrun latest (emit_metric m d)) \<and> ld_paused (start_source_underrun latest (emit_metric m d)) = ld_paused d"
  using assms by (auto simp: start_source_underrun_def same_frames_def quiet_def intro!: same_accounts)

lemma emit_accounts [simp]: "sent_reports m = [] \<Longrightarrow> accounts p r d (emit_metric m d') = accounts p r d d'"
  using same_frames_inv [OF emit_same(1) [of d' m]]
  by (simp add: accounts_def given_def driver_inv_def queues_inv_def)

lemma await_accounts:
  assumes "await_round io event g latest egress d = (Returns ended, d')" and "driver_inv d" and "\<not> ld_paused d"
  shows "\<exists>recs. accounts [] recs d d' \<and> (ended = Some True \<longrightarrow> d' = d \<and> ld_pending d = [] \<and> ld_source_ended d)"
proof (cases "ld_pending d = [] \<and> ld_source_ended d")
  case True
  with assms show ?thesis by (intro exI [of _ "[]"]) (simp add: await_round_def same_accounts)
next
  case False
  let ?u = "start_source_underrun latest (emit_metric (SenderEgressUnderrun egress) d)"
  obtain d1 where s: "(if ld_pending d = []
      then run_bind (fill_source_underrun_silence_deadline_queue io ?u)
             (\<lambda>_ d1. (Returns (), emit_metric SourceUnderrunReachedDeadlineSender d1))
      else (Returns (), d)) = (Returns (), d1)" and f: "finish_round io event g latest d1 = (Returns ended, d')"
    using assms(1) False by (auto simp: await_round_def run_bind_Returns)
  have "accounts [] [] d d1"
  proof (cases "ld_pending d = []")
    case True
    with s obtain d2 where d2: "fill_source_underrun_silence_deadline_queue io ?u = (Returns (), d2)"
      "d1 = emit_metric SourceUnderrunReachedDeadlineSender d2" by (auto simp: run_bind_Returns)
    note u = underrun_start_accounts [OF assms(2) sent_reports.simps(16), of latest egress]
    from fill_silence_accounts [OF d2(1)] u assms(3) d2(2) show ?thesis
      by (auto dest: accounts_inv intro: accounts_quiet_trans)
  next
    case False
    with s assms(2) show ?thesis by (simp add: same_accounts)
  qed
  with finish_accounts [OF f] show ?thesis by (blast dest: accounts_inv intro: accounts_quiet_trans)
qed

lemma leave_accounts:
  assumes "leave_epoch d = (Returns ended, d')" and "driver_inv d"
  shows "accounts [] [] d d' \<and> ended = Some False"
proof -
  from assms(1) have i: "interrupt_playout ReasonInterruption (ld_now d + FRAME_DURATION) (d\<lparr>ld_skipped_on_stop := True\<rparr>) = (Returns (), d')"
    and "ended = Some False" by (auto simp: leave_epoch_def run_bind_Returns)
  with interrupt_accounts [OF i] assms(2) show ?thesis by simp
qed

lemma discard_accounts:
  assumes "driver_inv d" and "ld_pending d = []" and "pp_queue (ld_prepared d) = []"
  shows "accounts [] [] d (invalidate_and_discard d) \<and> ld_paused (invalidate_and_discard d) = ld_paused d"
  using assms idle_sender_bump [of "ld_generation d" "ld_sender d" "ld_generation d + 1"]
  by (auto simp: accounts_def driver_inv_def queues_inv_def frames_inv_def pipeline_def driver_frames_def bump_def
      invalidate_and_discard_def discard_unsent_def invalidate_prepared_playout_generation_def Let_def)

lemma drain_commands_unpaused:
  "drain_commands io remaining cs d = (Returns None, d') \<Longrightarrow> driver_inv d \<Longrightarrow> ResumeMedia \<notin> set cs \<Longrightarrow>
   (ld_paused d \<longrightarrow> ld_paused d') \<and> (\<not> ld_paused d' \<longrightarrow> d' = d)"
proof (induction cs arbitrary: d)
  case (Cons c cs)
  from Cons.prems(1) obtain d1 where c: "apply_command io c remaining d = (Returns False, d1)"
    and rest: "drain_commands io remaining cs d1 = (Returns None, d')"
    by (auto simp: run_bind_Returns split: if_splits)
  obtain r where r: "accounts [] r d d1" "ld_paused d \<longrightarrow> ld_paused d1"
    using command_accounts [OF c Cons.prems(2)] Cons.prems(3) by auto
  have "ld_paused d1"
  proof (cases c)
    case PauseMedia
    with pause_accounts [OF c [unfolded PauseMedia] Cons.prems(2)] r show ?thesis by blast
  next
    case ResumeMedia
    with Cons.prems(3) show ?thesis by simp
  next
    case (StopMedia s)
    with c show ?thesis by (auto simp: apply_command_def run_bind_Returns)
  qed
  with Cons.IH [OF rest accounts_inv [OF r(1)]] Cons.prems(3) show ?case by simp
qed simp

text \<open>Ticks and failures beside the driver leave its frames alone.\<close>

lemma publish_nothing: "q_inner refill = [] \<Longrightarrow> sb_queue (snd (publish_refill refill ended st)) = sb_queue st"
  by (simp add: publish_refill_def)

lemma beside_quiet:
  "refilled es = [] \<Longrightarrow> same_frames d (beside_steps io es d) \<and> ld_source_ended (beside_steps io es d) = ld_source_ended d"
proof (induction es arbitrary: d)
  case (Cons e es)
  have "same_frames d (beside_step io e d) \<and> ld_source_ended (beside_step io e d) = ld_source_ended d"
    using Cons.prems tick_fields [where d = d and io = io]
    by (cases e) (auto simp: beside_step_def same_frames_def publish_nothing case_prod_beta)
  moreover have "refilled es = []" using Cons.prems by (cases e) auto
  ultimately show ?case
    using Cons.IH [of "beside_step io e d"] same_frames_trans by (fastforce simp: beside_steps_def)
qed (simp add: beside_steps_def)

lemma round_tail:
  assumes "(if \<not> playback_is_current d then leave_epoch d
        else run_bind (drain_commands io latest cs d) (\<lambda>ended d6.
          if ended \<noteq> None then (Returns ended, invalidate_and_discard d6)
          else if ld_paused d6
          then run_bind (wait_while_paused io events (invalidate_and_discard d6)) (\<lambda>ended1 d7. (Returns ended1, d7))
          else await_round io event g latest egress d6)) = (Returns ended, d')" and "driver_inv d"
  shows "\<exists>recs. accounts [] recs d d' \<and> (ended = Some True \<and> ResumeMedia \<notin> set cs
      \<longrightarrow> d' = d \<and> ld_pending d = [] \<and> ld_source_ended d)"
proof (cases "playback_is_current d")
  case False
  with leave_accounts assms show ?thesis by fastforce
next
  case True
  with assms(1) obtain ended1 d6 where dc: "drain_commands io latest cs d = (Returns ended1, d6)"
    and rest: "(if ended1 \<noteq> None then (Returns ended1, invalidate_and_discard d6)
          else if ld_paused d6
          then run_bind (wait_while_paused io events (invalidate_and_discard d6)) (\<lambda>ended1 d7. (Returns ended1, d7))
          else await_round io event g latest egress d6) = (Returns ended, d')"
    by (auto simp: run_bind_Returns)
  obtain r1 where r1: "accounts [] r1 d d6" "ended1 \<noteq> None \<longrightarrow> ld_pending d6 = [] \<and> pp_queue (ld_prepared d6) = []"
    "ended1 = None \<or> ended1 = Some False" using drain_commands_accounts [OF dc assms(2)] by blast
  have inv: "driver_inv d6" using r1(1) by (simp add: accounts_def)
  consider "ended1 \<noteq> None" | "ended1 = None" "ld_paused d6" | "ended1 = None" "\<not> ld_paused d6" by blast
  then show ?thesis
  proof cases
    case 1
    with rest r1 discard_accounts [OF inv] show ?thesis by (auto intro: accounts_quiet_trans)
  next
    case 2
    then have "ld_pending d6 = []" "pp_queue (ld_prepared d6) = []" using inv by (auto simp: driver_inv_def queues_inv_def)
    note a = discard_accounts [OF inv this]
    from rest 2 have "wait_while_paused io events (invalidate_and_discard d6) = (Returns ended, d')"
      by (auto simp: run_bind_Returns)
    from paused_accounts [OF this] a obtain r2 where r2: "accounts [] r2 (invalidate_and_discard d6) d'" "ended \<noteq> Some True"
      by (auto simp: accounts_def)
    have "accounts [] r2 d6 d'" using a r2(1) by (blast intro: accounts_quiet_trans)
    from accounts_trans [OF r1(1) this] r2(2) show ?thesis by auto
  next
    case 3
    with rest have "await_round io event g latest egress d6 = (Returns ended, d')" by simp
    from await_accounts [OF this inv 3(2)] obtain r2 where r2: "accounts [] r2 d6 d'"
      "ended = Some True \<longrightarrow> d' = d6 \<and> ld_pending d6 = [] \<and> ld_source_ended d6" by blast
    have "ResumeMedia \<notin> set cs \<longrightarrow> d6 = d" using drain_commands_unpaused [of io latest cs d d6] dc assms(2) 3 by blast
    with accounts_trans [OF r1(1) r2(1)] r2(2) show ?thesis by auto
  qed
qed

lemma run_bind_val: "run_bind (Returns x, d) k = k x d" by (simp add: run_bind_def)

text \<open>The part of a round that follows the gateway. What it ends with is only the natural end when nothing is
  left, unless a pause and a resume were both waiting after the fill.\<close>

lemma rebuild_if_accounts:
  assumes "(if b then run_bind (drain_and_report d) (\<lambda>_ d1.
        rebuild_prepared_playout_for_dave_transition (deadline_from_now d1) d1)
      else (Returns (), d)) = (Returns (), d')" and "driver_inv d" and "\<not> ld_paused d" and "ended_ok d"
  shows "\<exists>recs. accounts [] recs d d' \<and> \<not> ld_paused d' \<and> ended_ok d'"
proof (cases b)
  case True
  with assms(1) obtain d1 where dr: "drain_and_report d = (Returns (), d1)"
    and i: "interrupt_playout ReasonDaveTransitionRecovery (deadline_from_now d1) d1 = (Returns (), d')"
    by (auto simp: run_bind_Returns rebuild_prepared_playout_for_dave_transition_def)
  obtain recs where r: "accounts [] recs d d1" "\<not> ld_paused d1" "sb_queue (ld_source d1) = sb_queue (ld_source d)"
    "ld_source_ended d1 = ld_source_ended d" using drain_accounts [OF dr assms(2)] assms(3) by auto
  note a = interrupt_accounts [OF i accounts_inv [OF r(1)]]
  have "sb_queue (ld_source d') = sb_queue (ld_source d1)" using interrupt_spec [OF i] r(1) by (simp add: accounts_def driver_inv_def)
  with a r assms(4) show ?thesis by (auto simp: ended_ok_def intro: accounts_quiet_trans)
next
  case False
  with assms show ?thesis by (intro exI [of _ "[]"]) (simp add: same_accounts)
qed

lemma playout_round_accounts:
  assumes "playout_round io input g d = (Returns ended, d')" and "driver_inv d" and "\<not> ld_paused d" and "ended_ok d"
    and "list_all frame_ok (refilled (ri_beside_filled input))"
  shows "\<exists>pubs recs. accounts pubs recs d d' \<and> subseq pubs (refilled (ri_beside_filled input))
    \<and> (ended = Some True \<and> ResumeMedia \<notin> set (ri_commands_after_fill input) \<and> refilled (ri_beside_filled input) = []
        \<longrightarrow> pipeline d' = [])"
proof -
  from assms(1) obtain d1 latest d2 where
    reb: "(if drain_dave_transition_count g > 0 then run_bind (drain_and_report d) (\<lambda>_ d1.
        rebuild_prepared_playout_for_dave_transition (deadline_from_now d1) d1)
      else (Returns (), d)) = (Returns (), d1)" and fp: "fill_and_pump io d1 = (Returns latest, d2)"
    by (auto simp: playout_round_def run_bind_Returns)
  define egress where "egress = prepared_playout_depth_with_pending (ld_prepared d2) (ld_pending d2)"
  define d4 where "d4 = (let d3 = emit_metric (EgressDepth egress) d2
    in if ld_source_ended d3 then d3 else emit_metric (PreparedTrackQueueDepth egress) d3)"
  define d5 where "d5 = (beside_steps io (ri_beside_filled input) d4)\<lparr>ld_current_playback_epoch := ri_epoch input\<rparr>"
  obtain r1 where r1: "accounts [] r1 d d1" "\<not> ld_paused d1" "ended_ok d1" using rebuild_if_accounts [OF reb assms(2-4)] by blast
  note a2 = fill_and_pump_accounts [OF fp accounts_inv [OF r1(1)] r1(2)]
  have a4: "accounts [] r1 d d4" "\<not> ld_paused d4" using a2 r1 by (auto simp: d4_def Let_def intro: accounts_quiet_trans)
  obtain pubs where p: "accounts pubs [] d4 (beside_steps io (ri_beside_filled input) d4)"
    "subseq pubs (refilled (ri_beside_filled input))" "ld_paused (beside_steps io (ri_beside_filled input) d4) = ld_paused d4"
    using beside_accounts [OF accounts_inv [OF a4(1)] assms(5)] by blast
  have "accounts pubs [] d4 d5" using accounts_quiet_trans(2) [OF p(1) clock_epoch_accounts(2)] p(1)
    by (simp add: d5_def accounts_def)
  then have a5: "accounts pubs r1 d d5" "\<not> ld_paused d5" "driver_inv d5"
    using accounts_trans [OF a4(1), of pubs "[]" d5] p(3) a4 by (simp_all add: d5_def accounts_def)
  have rest: "(if \<not> playback_is_current d5 then leave_epoch d5
        else run_bind (drain_commands io latest (ri_commands_after_fill input) d5) (\<lambda>ended d6.
          if ended \<noteq> None then (Returns ended, invalidate_and_discard d6)
          else if ld_paused d6
          then run_bind (wait_while_paused io (ri_paused_after_fill input) (invalidate_and_discard d6))
                 (\<lambda>ended1 d7. (Returns ended1, d7))
          else await_round io (ri_end input) g latest egress d6)) = (Returns ended, d')"
    using assms(1) unfolding playout_round_def reb run_bind_val fp d5_def d4_def egress_def Let_def .
  have "\<exists>recs. accounts [] recs d5 d' \<and> (ended = Some True \<and> ResumeMedia \<notin> set (ri_commands_after_fill input)
      \<longrightarrow> d' = d5 \<and> ld_pending d5 = [] \<and> ld_source_ended d5)"
    using round_tail [OF rest a5(3)] by blast
  then obtain r2 where r2: "accounts [] r2 d5 d'" "ended = Some True \<and> ResumeMedia \<notin> set (ri_commands_after_fill input)
      \<longrightarrow> d' = d5 \<and> ld_pending d5 = [] \<and> ld_source_ended d5" by blast
  have "pipeline d' = []" if "ended = Some True" "ResumeMedia \<notin> set (ri_commands_after_fill input)"
    "refilled (ri_beside_filled input) = []"
  proof -
    have "pubs = []" using p(2) that(3) by simp
    moreover have fields: "ld_pending d4 = ld_pending d2" "ld_source_ended d4 = ld_source_ended d2"
      by (simp_all add: d4_def Let_def)
    ultimately have "pipeline d5 = pipeline d2" "ld_pending d5 = ld_pending d2" "ld_source_ended d5 = ld_source_ended d2"
      using beside_quiet [OF that(3), where io = io and d = d4] by (simp_all add: d5_def d4_def Let_def same_frames_def pipeline_def driver_frames_def)
    with fill_and_pump_end [OF fp accounts_inv [OF r1(1)] r1(2,3)] r2(2) that show ?thesis by simp
  qed
  with accounts_trans [OF a5(1) r2(1)] p(2) show ?thesis by auto
qed

definition round_refills :: "round_input \<Rightarrow> OpusFrame list" where
  "round_refills input = refilled (ri_beside input @ ri_beside_drained input @ ri_beside_filled input)"

text \<open>A round in which what the producer publishes is there before the fill, and in which a resume does not follow a
  pause between the fill and the end of the round.\<close>

definition plain_round :: "round_input \<Rightarrow> bool" where
  "plain_round input \<longleftrightarrow> ResumeMedia \<notin> set (ri_commands_after_fill input) \<and> refilled (ri_beside_filled input) = []"

lemma prepare_media_accounts:
  assumes "prepare_media_state io d = (r, d')" and "driver_inv d"
  shows "accounts [] [] d d' \<and> ld_paused d' = ld_paused d \<and> ended_ok d' = ended_ok d"
  using assms
  by (auto simp: prepare_media_state_def ended_ok_def same_frames_def quiet_def split: prod.splits intro!: same_accounts)

lemma settle_accounts:
  assumes "settle_dave io d = (Returns r, d')" and "driver_inv d"
  shows "accounts [] [] d d' \<and> ld_paused d' = ld_paused d"
  using assms by (auto simp: settle_dave_def same_frames_def quiet_def split: prod.splits intro!: same_accounts)

lemma recover_accounts:
  assumes "recover_dave io d = (Returns (), d')" and "driver_inv d" and "\<not> ld_paused d"
  shows "\<exists>recs. accounts [] recs d d'"
proof -
  from assms(1) obtain report d1 d2 d4 latest d5 where s: "settle_dave io d = (Returns report, d1)"
    and dr: "drain_and_report d1 = (Returns (), d2)"
    and i: "interrupt_playout ReasonDaveTransitionRecovery (deadline_from_now (emit_metric (GatewayDrain report) d2))
       (emit_metric (GatewayDrain report) d2) = (Returns (), d4)"
    and fp: "fill_and_pump io d4 = (Returns latest, d5)"
    and d': "d' = emit_metric (SourceDepth latest) (emit_metric (PreparedTrackQueueDepth
            (prepared_playout_depth_with_pending (ld_prepared d5) (ld_pending d5))) d5)"
    by (auto simp: recover_dave_def run_bind_Returns rebuild_prepared_playout_for_dave_transition_def Let_def)
  note a1 = settle_accounts [OF s assms(2)]
  obtain recs where r: "accounts [] recs d1 d2" "ld_paused d2 = ld_paused d1"
    using drain_accounts [OF dr] a1 by (auto dest: accounts_inv)
  have e: "accounts [] recs d1 (emit_metric (GatewayDrain report) d2)" using r(1) by simp
  note a4 = interrupt_accounts [OF i accounts_inv [OF e]]
  have "accounts [] [] d4 d5" using fill_and_pump_accounts [OF fp] a4 a1 r(2) assms(3) by (auto dest: accounts_inv)
  with a4 have "accounts [] [] (emit_metric (GatewayDrain report) d2) d'"
    unfolding d' by (auto intro: accounts_quiet_trans)
  with e a1 show ?thesis by (blast intro: accounts_quiet_trans)
qed

text \<open>An ended source that has frames again is not ended.\<close>

lemma source_check_accounts:
  assumes "(if ld_source_ended d
      then run_bind (source_depth_now d) (\<lambda>depth d3.
        (Returns (), if depth_packets depth > 0 then d3\<lparr>ld_source_ended := False\<rparr> else d3))
      else (Returns (), d)) = (Returns (), d')" and "driver_inv d"
  shows "accounts [] [] d d' \<and> ld_paused d' = ld_paused d \<and> ended_ok d'"
proof (cases "ld_source_ended d")
  case True
  with assms(1) obtain depth d3 where s: "source_depth_now d = (Returns depth, d3)"
    and d': "d' = (if depth_packets depth > 0 then d3\<lparr>ld_source_ended := False\<rparr> else d3)"
    by (auto simp: run_bind_Returns)
  note q = source_depth_same [OF s] source_depth_quiet [OF s]
  have "depth_packets depth = length (q_inner (sb_queue (ld_source d3)))"
    using s by (auto simp: source_depth_now_def current_source_depth_def OpusFrameQueue_depth_def split: option.splits prod.splits)
  with d' have "ended_ok d'" by (auto simp: ended_ok_def)
  moreover have "accounts [] [] d d'" using q assms(2) d' by (auto simp: same_frames_def quiet_def intro!: same_accounts)
  ultimately show ?thesis using q d' by (auto simp: quiet_def)
next
  case False
  with assms show ?thesis by (auto simp: ended_ok_def same_accounts)
qed

lemma round_rest:
  assumes "(if ended2 \<noteq> None then (Returns ended2, d) else if ld_paused d
         then run_bind (wait_while_paused io (ri_paused input) d) (\<lambda>ended1 d3. (Returns ended1, d3))
         else run_bind (if ld_source_ended d
                        then run_bind (source_depth_now d) (\<lambda>depth d3.
                          (Returns (), if depth_packets depth > 0 then d3\<lparr>ld_source_ended := False\<rparr> else d3))
                        else (Returns (), d)) (\<lambda>_ d3.
           case prepare_media_state io d3 of
             (Done report, d4) \<Rightarrow> playout_round io input report d4
           | (Panicked, d4) \<Rightarrow> (Aborts, d4)
           | (Failed err, d4) \<Rightarrow>
              (if mentions ''dave'' (VoiceError_display foreign err)
               then run_bind (recover_dave io d4) (\<lambda>_ d5. (Returns None, d5))
               else (Raises (RuntimeVoice err), d4)))) = (Returns ended, d')"
    and "driver_inv d" and "ended2 = None \<or> ended2 = Some False" and "list_all frame_ok (refilled (ri_beside_filled input))"
  shows "\<exists>pubs recs. accounts pubs recs d d' \<and> subseq pubs (refilled (ri_beside_filled input))
    \<and> (ended = Some True \<and> plain_round input \<longrightarrow> pipeline d' = [])"
proof -
  consider "ended2 \<noteq> None" | "ended2 = None" "ld_paused d" | "ended2 = None" "\<not> ld_paused d" by blast
  then show ?thesis
  proof cases
    case 1
    with assms show ?thesis
      by (intro exI [of _ "[]"]) (auto simp: same_accounts)
  next
    case 2
    with assms(1) have "wait_while_paused io (ri_paused input) d = (Returns ended, d')" by (auto simp: run_bind_Returns)
    from paused_accounts [OF this assms(2)] show ?thesis by - (rule exI [of _ "[]"], auto)
  next
    case 3
    with assms(1) obtain d3 where e: "(if ld_source_ended d
          then run_bind (source_depth_now d) (\<lambda>depth d3.
            (Returns (), if depth_packets depth > 0 then d3\<lparr>ld_source_ended := False\<rparr> else d3))
          else (Returns (), d)) = (Returns (), d3)"
      and rest: "(case prepare_media_state io d3 of
             (Done report, d4) \<Rightarrow> playout_round io input report d4
           | (Panicked, d4) \<Rightarrow> (Aborts, d4)
           | (Failed err, d4) \<Rightarrow>
              (if mentions ''dave'' (VoiceError_display foreign err)
               then run_bind (recover_dave io d4) (\<lambda>_ d5. (Returns None, d5))
               else (Raises (RuntimeVoice err), d4))) = (Returns ended, d')"
      by (auto simp: run_bind_Returns)
    note a3 = source_check_accounts [OF e assms(2)]
    obtain r d4 where pm: "prepare_media_state io d3 = (r, d4)" by fastforce
    note a4 = prepare_media_accounts [OF pm accounts_inv [OF conjunct1 [OF a3]]]
    have d4: "accounts [] [] d d4" "\<not> ld_paused d4" "ended_ok d4"
      using a3 a4 3(2) by (auto intro: accounts_quiet_trans)
    show ?thesis
    proof (cases r)
      case (Done report)
      with rest pm have "playout_round io input report d4 = (Returns ended, d')" by simp
      from playout_round_accounts [OF this accounts_inv [OF d4(1)] d4(2,3) assms(4)] d4(1) show ?thesis
        unfolding plain_round_def by (blast intro: accounts_quiet_trans)
    next
      case (Failed err)
      with rest pm have "recover_dave io d4 = (Returns (), d') \<and> ended = None"
        by (auto simp: run_bind_Returns split: if_splits)
      with recover_accounts [of io d4 d'] d4 show ?thesis
        by - (rule exI [of _ "[]"], auto dest: accounts_inv intro: accounts_quiet_trans)
    next
      case Panicked
      with rest pm show ?thesis by simp
    qed
  qed
qed

lemma run_round_accounts:
  assumes "run_round io foreign depth input d = (Returns ended, d')" and "driver_inv d"
    and "list_all frame_ok (round_refills input)"
  shows "\<exists>pubs recs. accounts pubs recs d d' \<and> subseq pubs (round_refills input)
    \<and> (ended = Some True \<and> plain_round input \<longrightarrow> pipeline d' = [])"
proof -
  let ?b1 = "ri_beside input" and ?b2 = "ri_beside_drained input" and ?b3 = "ri_beside_filled input"
  have ok: "list_all frame_ok (refilled ?b1)" "list_all frame_ok (refilled ?b2)" "list_all frame_ok (refilled ?b3)"
    using assms(3) by (simp_all add: round_refills_def refilled_append)
  have sub1: "subseq p (round_refills input)" if "subseq p (refilled ?b1)" for p
    using list_emb_append_mono [OF that list_emb_Nil [of _ "refilled ?b2 @ refilled ?b3"]]
    by (simp add: round_refills_def refilled_append)
  have sub3: "subseq (p @ q @ s) (round_refills input)" if "subseq p (refilled ?b1)" "subseq q (refilled ?b2)"
    "subseq s (refilled ?b3)" for p q s
    using that by (simp add: round_refills_def refilled_append list_emb_append_mono)
  define d0 where "d0 = (beside_steps io ?b1 d)\<lparr>ld_current_playback_epoch := ri_start_epoch input\<rparr>"
  obtain p1 where p1: "accounts p1 [] d (beside_steps io ?b1 d)" "subseq p1 (refilled ?b1)"
    using beside_accounts [OF assms(2) ok(1)] by blast
  have a0: "accounts p1 [] d d0"
    using accounts_quiet_trans(2) [OF p1(1) clock_epoch_accounts(2) [OF accounts_inv [OF p1(1)]]] by (simp add: d0_def)
  show ?thesis
  proof (cases "playback_is_current d0")
    case False
    with assms(1) have "leave_epoch d0 = (Returns ended, d')" by (simp add: run_round_def d0_def)
    from leave_accounts [OF this accounts_inv [OF a0]] a0 sub1 [OF p1(2)] show ?thesis by (auto intro: accounts_quiet_trans)
  next
    case True
    with assms(1) obtain d1 ended2 d2 where dr: "drain_and_report d0 = (Returns (), d1)"
      and dc: "drain_commands io depth (ri_commands input) (beside_steps io ?b2 d1) = (Returns ended2, d2)"
      and rest: "(if ended2 \<noteq> None then (Returns ended2, d2) else if ld_paused d2
         then run_bind (wait_while_paused io (ri_paused input) d2) (\<lambda>ended1 d3. (Returns ended1, d3))
         else run_bind (if ld_source_ended d2
                        then run_bind (source_depth_now d2) (\<lambda>depth d3.
                          (Returns (), if depth_packets depth > 0 then d3\<lparr>ld_source_ended := False\<rparr> else d3))
                        else (Returns (), d2)) (\<lambda>_ d3.
           case prepare_media_state io d3 of
             (Done report, d4) \<Rightarrow> playout_round io input report d4
           | (Panicked, d4) \<Rightarrow> (Aborts, d4)
           | (Failed err, d4) \<Rightarrow>
              (if mentions ''dave'' (VoiceError_display foreign err)
               then run_bind (recover_dave io d4) (\<lambda>_ d5. (Returns None, d5))
               else (Raises (RuntimeVoice err), d4)))) = (Returns ended, d')"
      by (auto simp: run_round_def d0_def [symmetric] run_bind_Returns)
    obtain r1 where r1: "accounts [] r1 d0 d1" using drain_accounts [OF dr accounts_inv [OF a0]] by blast
    obtain p2 where p2: "accounts p2 [] d1 (beside_steps io ?b2 d1)" "subseq p2 (refilled ?b2)"
      using beside_accounts [OF accounts_inv [OF r1] ok(2)] by blast
    obtain r2 where r2: "accounts [] r2 (beside_steps io ?b2 d1) d2" "ended2 = None \<or> ended2 = Some False"
      using drain_commands_accounts [OF dc accounts_inv [OF p2(1)]] by blast
    have a2: "accounts (p1 @ p2) (r1 @ r2) d d2"
      using accounts_trans [OF accounts_trans [OF a0 r1] accounts_trans [OF p2(1) r2(1)]] by simp
    obtain q s where q: "accounts q s d2 d'" "subseq q (refilled ?b3)"
      "ended = Some True \<and> plain_round input \<longrightarrow> pipeline d' = []"
      using round_rest [OF rest accounts_inv [OF a2] r2(2) ok(3)] by blast
    from accounts_trans [OF a2 q(1)] have "accounts (p1 @ p2 @ q) ((r1 @ r2) @ s) d d'" by simp
    with sub3 [OF p1(2) p2(2) q(2)] q(3) show ?thesis by blast
  qed
qed

lemma run_rounds_accounts:
  "run_rounds io foreign depth inputs d = (Returns natural, d') \<Longrightarrow> driver_inv d \<Longrightarrow>
   list_all (\<lambda>input. list_all frame_ok (round_refills input)) inputs \<Longrightarrow>
   \<exists>pubs recs. accounts pubs recs d d' \<and> subseq pubs (concat (map round_refills inputs))
     \<and> (natural \<and> list_all plain_round inputs \<longrightarrow> pipeline d' = [])"
proof (induction inputs arbitrary: d)
  case (Cons input inputs)
  from Cons.prems(1) obtain ended d1 where r: "run_round io foreign depth input d = (Returns ended, d1)"
    and rest: "(case ended of Some natural \<Rightarrow> (Returns natural, d1) | None \<Rightarrow> run_rounds io foreign depth inputs d1) = (Returns natural, d')"
    by (auto simp: run_bind_Returns)
  obtain p1 r1 where a1: "accounts p1 r1 d d1" "subseq p1 (round_refills input)"
    "ended = Some True \<and> plain_round input \<longrightarrow> pipeline d1 = []"
    using run_round_accounts [OF r Cons.prems(2)] Cons.prems(3) by auto
  show ?case
  proof (cases ended)
    case None
    with rest Cons.IH [of d1] a1(1) Cons.prems(3) obtain p2 r2 where a2: "accounts p2 r2 d1 d'"
      "subseq p2 (concat (map round_refills inputs))" "natural \<and> list_all plain_round inputs \<longrightarrow> pipeline d' = []"
      by (auto dest: accounts_inv)
    from accounts_trans [OF a1(1) a2(1)] have "accounts (p1 @ p2) (r1 @ r2) d d'" by simp
    with list_emb_append_mono [OF a1(2) a2(2)] a2(3) show ?thesis by auto
  next
    case (Some n)
    with list_emb_append_mono [OF a1(2) list_emb_Nil [of _ "concat (map round_refills inputs)"]] rest a1 show ?thesis by auto
  qed
qed simp

end
