(* ===== verification/VoiceSessionLaws.thy ===== *)
theory VoiceSessionLaws
  imports VoiceSession
begin

text \<open>
  What the DAVE transitions of a voice session keep: the group key has one owner at any time, media is
  only prepared while the active runtime owns it, and a failure is final.
\<close>

section \<open>The owner of the group key\<close>

definition owners :: "'ds ConnectedVoiceSession \<Rightarrow> nat" where
  "owners s = of_bool (vs_dave s \<noteq> None) + of_bool (vs_pending_initial_dave s \<noteq> None)
     + of_bool (vs_dave_transition s \<noteq> None) + of_bool (vs_local_commit_transition s \<noteq> None)"

definition session_wf :: "'ds ConnectedVoiceSession \<Rightarrow> bool" where
  "session_wf s \<longleftrightarrow> owners s \<le> 1 \<and> (vs_dave_failed_closed s \<longrightarrow> owners s = 0)
     \<and> sorted_wrt (<) (map fst (vs_prepared_transitions s))
     \<and> sorted_wrt (<) (map fst (vs_local_init_commit_echoes s))"

lemma btree_insert_keys: "fst ` set (btree_insert k v m) = insert k (fst ` set m)"
  by (induction k v m rule: btree_insert.induct) (simp_all add: insert_commute)

lemma btree_insert_sorted: "sorted_wrt (<) (map fst m) \<Longrightarrow> sorted_wrt (<) (map fst (btree_insert k v m))"
proof (induction k v m rule: btree_insert.induct)
  case (2 k v k1 v1 rest)
  have "\<forall>x \<in> fst ` set rest. k1 < x" using "2.prems" by simp
  moreover from this have "k < k1 \<Longrightarrow> \<forall>x \<in> fst ` set rest. k < x" by auto
  moreover have "sorted_wrt (<) (map fst rest)" using "2.prems" by simp
  ultimately show ?case using "2.IH" by (auto simp: btree_insert_keys)
qed simp

lemma btree_remove_sorted: "sorted_wrt (<) (map fst m) \<Longrightarrow> sorted_wrt (<) (map fst (btree_remove k m))"
  by (induction m) (auto simp: btree_remove_def)

lemmas btree_sorted [simp] = btree_insert_sorted btree_remove_sorted

text \<open>A step keeps the invariant, and when it ends normally the key stays with one owner, or with none.\<close>

definition keeps_owner :: "'ds ConnectedVoiceSession \<Rightarrow> unit outcome \<times> 'ds ConnectedVoiceSession \<times> 'w \<Rightarrow> bool" where
  "keeps_owner s result \<longleftrightarrow> (\<forall>s' w'. result = (Done (), s', w') \<longrightarrow>
     session_wf s' \<and> owners s' = owners s \<and> vs_dave_failed_closed s' = vs_dave_failed_closed s)"

lemma keeps_owner_simps [simp]:
  "keeps_owner s (Failed err, s', w)" "keeps_owner s (Panicked, s', w)"
  "keeps_owner s (Done (), s', w) \<longleftrightarrow> session_wf s' \<and> owners s' = owners s
     \<and> vs_dave_failed_closed s' = vs_dave_failed_closed s"
  by (auto simp: keeps_owner_def)

lemma drop_prepared_wf [simp]:
  "owners (drop_prepared tid s) = owners s" "vs_dave_failed_closed (drop_prepared tid s) = vs_dave_failed_closed s"
  by (auto simp: drop_prepared_def session_wf_def owners_def)

lemma drop_prepared_keeps [simp]: "session_wf s \<Longrightarrow> session_wf (drop_prepared tid s)"
  by (simp add: drop_prepared_def session_wf_def owners_def)

lemma ready_keeps:
  assumes "session_wf s" and "owners s = 0" and "owners s0 = 1" and "\<not> vs_dave_failed_closed s"
    and "\<not> vs_dave_failed_closed s0"
  shows "keeps_owner s0 (ready_pending_transition ws tid runtime source s w)"
  using assms
  by (auto simp: ready_pending_transition_def Let_def session_wf_def owners_def split: prod.splits sum.splits)

lemmas owner_defs = session_wf_def owners_def

lemma reinitialize_keeps:
  assumes "session_wf s" and "owners s = 0" and "owners s0 = 1" and "\<not> vs_dave_failed_closed s"
    and "\<not> vs_dave_failed_closed s0"
  shows "keeps_owner s0 (reinitialize_dave_session_after_invalid_commit lib ws tid version s w)"
  using assms
  by (auto simp: reinitialize_dave_session_after_invalid_commit_def owner_defs
      split: option.splits outcome.splits prod.splits sum.splits)

lemma wf_owner_cases:
  "session_wf s \<Longrightarrow> vs_dave s = Some x \<Longrightarrow> vs_pending_initial_dave s = None \<and> vs_dave_transition s = None
     \<and> vs_local_commit_transition s = None \<and> \<not> vs_dave_failed_closed s \<and> owners s = 1"
  "session_wf s \<Longrightarrow> vs_pending_initial_dave s = Some y \<Longrightarrow> vs_dave s = None \<and> vs_dave_transition s = None
     \<and> vs_local_commit_transition s = None \<and> \<not> vs_dave_failed_closed s \<and> owners s = 1"
  "session_wf s \<Longrightarrow> vs_dave_transition s = Some z \<Longrightarrow> vs_dave s = None \<and> vs_pending_initial_dave s = None
     \<and> vs_local_commit_transition s = None \<and> \<not> vs_dave_failed_closed s \<and> owners s = 1"
  "session_wf s \<Longrightarrow> vs_local_commit_transition s = Some u \<Longrightarrow> vs_dave s = None \<and> vs_pending_initial_dave s = None
     \<and> vs_dave_transition s = None \<and> \<not> vs_dave_failed_closed s \<and> owners s = 1"
  by (auto simp: owner_defs split: if_splits)

text \<open>The session while a handler holds the key.\<close>

lemma taken_owner:
  "session_wf s \<Longrightarrow> vs_dave s = Some x \<Longrightarrow> session_wf (s\<lparr>vs_dave := None\<rparr>) \<and> owners (s\<lparr>vs_dave := None\<rparr>) = 0"
  "session_wf s \<Longrightarrow> vs_pending_initial_dave s = Some y \<Longrightarrow>
     session_wf (s\<lparr>vs_pending_initial_dave := None\<rparr>) \<and> owners (s\<lparr>vs_pending_initial_dave := None\<rparr>) = 0"
  "session_wf s \<Longrightarrow> vs_local_commit_transition s = Some u \<Longrightarrow>
     session_wf (s\<lparr>vs_local_commit_transition := None\<rparr>) \<and> owners (s\<lparr>vs_local_commit_transition := None\<rparr>) = 0"
  by (auto simp: owner_defs split: if_splits)

lemma deferred_local_commit_keeps:
  assumes "session_wf s" and "vs_local_commit_transition s = Some pending"
  shows "keeps_owner s (process_deferred_local_commit lib ws tid commit pending s w)"
proof -
  let ?s1 = "drop_prepared tid (s\<lparr>vs_local_commit_transition := None\<rparr>)"
  have "session_wf ?s1" "owners ?s1 = 0" "\<not> vs_dave_failed_closed ?s1" "\<not> vs_dave_failed_closed s" "owners s = 1"
    using assms taken_owner(3) [OF assms] wf_owner_cases(4) [OF assms] by auto
  then show ?thesis
    unfolding process_deferred_local_commit_def Let_def
    by (auto simp: ready_keeps reinitialize_keeps split: prod.splits sum.splits)
qed

text \<open>Taking the active runtime for a prepared transition.\<close>

lemma consumed_owner:
  assumes "session_wf s" and "consume_prepared_transition tid s = (Done v, s1)" and "vs_dave s1 = Some runtime"
  shows "session_wf (s1\<lparr>vs_dave := None\<rparr>) \<and> owners (s1\<lparr>vs_dave := None\<rparr>) = 0 \<and> owners s = 1
    \<and> \<not> vs_dave_failed_closed s1 \<and> \<not> vs_dave_failed_closed s \<and> session_wf s1 \<and> owners s1 = 1"
proof -
  have s1: "s1 = drop_prepared tid s"
    using assms(2) by (auto simp: consume_prepared_transition_def split: option.splits)
  have wf: "session_wf s1" using s1 assms(1) by simp
  from taken_owner(1) [OF wf assms(3)] wf_owner_cases(1) [OF wf assms(3)] wf s1 show ?thesis by auto
qed

lemma prepared_commit_keeps:
  assumes "session_wf s"
  shows "keeps_owner s (process_prepared_commit lib ws tid commit s w)"
proof (cases "consume_prepared_transition tid s")
  case (Pair r s1)
  show ?thesis
  proof (cases "\<exists>v runtime. r = Done v \<and> vs_dave s1 = Some runtime")
    case True
    then obtain v runtime where r: "r = Done v" "vs_dave s1 = Some runtime" by blast
    note facts = consumed_owner [OF assms Pair [unfolded r(1)] r(2)]
    obtain x runtime1 where c: "runtime_process_commit lib runtime commit = (x, runtime1)" by fastforce
    have "keeps_owner s (Done (), s1\<lparr>vs_dave := Some rt\<rparr>, w)" for rt
      using facts r(2) by (auto simp: owner_defs)
    with facts show ?thesis
      unfolding process_prepared_commit_def
      by (simp add: Pair r c ready_keeps Let_def split: sum.splits del: keeps_owner_simps(3))
  next
    case False
    then show ?thesis by (auto simp: process_prepared_commit_def Pair split: outcome.splits option.splits)
  qed
qed

lemma prepared_welcome_keeps:
  assumes "session_wf s"
  shows "keeps_owner s (process_prepared_welcome lib ws tid welcome s w)"
proof (cases "consume_prepared_transition tid s")
  case (Pair r s1)
  show ?thesis
  proof (cases "\<exists>v runtime. r = Done v \<and> vs_dave s1 = Some runtime")
    case True
    then obtain v runtime where r: "r = Done v" "vs_dave s1 = Some runtime" by blast
    note facts = consumed_owner [OF assms Pair [unfolded r(1)] r(2)]
    obtain x runtime1 where c: "runtime_process_welcome lib runtime welcome = (x, runtime1)" by fastforce
    show ?thesis
      using facts unfolding process_prepared_welcome_def
      by (simp add: Pair r c ready_keeps Let_def split: sum.splits)
  next
    case False
    then show ?thesis by (auto simp: process_prepared_welcome_def Pair split: outcome.splits option.splits)
  qed
qed

lemma confirm_keeps:
  assumes "session_wf s" and "confirm_local_init_commit tid commit s = (r, s1)"
  shows "keeps_owner s (r, s1, w)"
  using assms
  by (auto simp: confirm_local_init_commit_def Let_def drop_prepared_def owner_defs split: option.splits if_splits)

lemma remote_commit_keeps:
  assumes "session_wf s"
  shows "keeps_owner s (prepare_remote_commit_transition lib ws tid commit s w)"
proof (cases "confirm_local_init_commit tid commit s")
  case (Pair r s1)
  show ?thesis
    using assms unfolding prepare_remote_commit_transition_def Pair
    by (auto intro: confirm_keeps [OF assms Pair] deferred_local_commit_keeps [OF assms]
        prepared_commit_keeps [OF assms] simp del: keeps_owner_simps(3) split: option.splits) (simp_all add: assms)
qed

lemma initial_welcome_keeps:
  assumes "session_wf s" and "owners s = 0" and "owners s0 = 1" and "\<not> vs_dave_failed_closed s"
    and "\<not> vs_dave_failed_closed s0"
  shows "keeps_owner s0 (prepare_pending_initial_welcome_transition lib ws tid welcome pending s w)"
proof -
  have "session_wf (s\<lparr>vs_initial_dave_recovery := False\<rparr>)" "owners (s\<lparr>vs_initial_dave_recovery := False\<rparr>) = 0"
    using assms(1,2) by (auto simp: owner_defs)
  then show ?thesis
    using assms(3-5) unfolding prepare_pending_initial_welcome_transition_def
    by (auto simp: ready_keeps split: prod.splits sum.splits)
qed

lemma welcome_keeps:
  assumes "session_wf s"
  shows "keeps_owner s (prepare_welcome_transition lib ws tid welcome s w)"
proof (cases "vs_pending_initial_dave s")
  case None
  then show ?thesis
    using assms prepared_welcome_keeps [OF assms] by (auto simp: prepare_welcome_transition_def)
next
  case (Some pending)
  have "keeps_owner s (prepare_pending_initial_welcome_transition lib ws tid welcome pending
      (drop_prepared tid (s\<lparr>vs_pending_initial_dave := None\<rparr>)) w)"
    using taken_owner(2) [OF assms Some] wf_owner_cases(2) [OF assms Some] by (intro initial_welcome_keeps) auto
  then show ?thesis using assms Some by (auto simp: prepare_welcome_transition_def)
qed

lemma record_local_init_owner:
  "session_wf s \<Longrightarrow> session_wf (record_local_init_commit tid commit s)"
  "owners (record_local_init_commit tid commit s) = owners s"
  "vs_dave_failed_closed (record_local_init_commit tid commit s) = vs_dave_failed_closed s"
  by (auto simp: record_local_init_commit_def owner_defs)

lemma given_owner:
  assumes "session_wf s" and "owners s = 0" and "\<not> vs_dave_failed_closed s"
  shows "session_wf (s\<lparr>vs_dave := Some runtime\<rparr>)" "owners (s\<lparr>vs_dave := Some runtime\<rparr>) = 1"
    "session_wf (s\<lparr>vs_dave := Some runtime, vs_initial_dave_recovery := False\<rparr>)"
    "owners (s\<lparr>vs_dave := Some runtime, vs_initial_dave_recovery := False\<rparr>) = 1"
  using assms by (auto simp: owner_defs)

lemma initial_epoch_keeps:
  assumes "session_wf s" and "owners s = 0" and "owners s0 = 1" and "\<not> vs_dave_failed_closed s"
    and "\<not> vs_dave_failed_closed s0"
  shows "keeps_owner s0
    (prepare_initial_epoch_local_commit_transition lib ws operation proposals version recognized s w)"
  unfolding prepare_initial_epoch_local_commit_transition_def
  using assms given_owner [OF assms(1,2,4)]
  by (simp add: record_local_init_owner split: option.splits outcome.splits prod.splits sum.splits)

lemma finish_initial_keeps:
  assumes "session_wf s" and "owners s = 0" and "owners s0 = 1" and "\<not> vs_dave_failed_closed s"
    and "\<not> vs_dave_failed_closed s0"
  shows "keeps_owner s0 (finish_initial_local_commit ws transition_id commit runtime s w)"
proof -
  let ?s1 = "s\<lparr>vs_dave := Some runtime, vs_initial_dave_recovery := False\<rparr>"
  note s1 = given_owner(3,4) [OF assms(1,2,4), of runtime]
  show ?thesis
  proof (cases transition_id)
    case None
    with s1 assms(3-5) show ?thesis by (simp add: finish_initial_local_commit_def record_local_init_owner)
  next
    case (Some tid)
    obtain r s2 where c: "consume_prepared_transition tid ?s1 = (r, s2)" by fastforce
    have "session_wf (s2\<lparr>vs_dave := None\<rparr>) \<and> owners (s2\<lparr>vs_dave := None\<rparr>) = 0 \<and> \<not> vs_dave_failed_closed s2
        \<and> session_wf s2 \<and> owners s2 = 1" if "r = Done v" for v
      using consumed_owner [OF s1(1) c [unfolded that], of runtime] c that
      by (auto simp: consume_prepared_transition_def drop_prepared_def split: option.splits)
    then show ?thesis using Some c assms(3,5)
      by (cases r) (auto simp: finish_initial_local_commit_def ready_keeps record_local_init_owner)
  qed
qed

lemma initial_proposals_keeps:
  assumes "session_wf s" and "owners s = 0" and "owners s0 = 1" and "\<not> vs_dave_failed_closed s"
    and "\<not> vs_dave_failed_closed s0"
  shows "keeps_owner s0
    (prepare_pending_initial_local_commit_transition lib ws operation proposals pending tid s w)"
proof -
  have "session_wf (s\<lparr>vs_pending_initial_dave := Some p\<rparr>)" "owners (s\<lparr>vs_pending_initial_dave := Some p\<rparr>) = 1" for p
    using assms(1,2,4) by (auto simp: owner_defs)
  then show ?thesis
    unfolding prepare_pending_initial_local_commit_transition_def
    using assms by (simp add: finish_initial_keeps [OF assms] split: option.splits outcome.splits prod.splits sum.splits)
qed

lemma local_commit_keeps:
  fixes w :: 'w
  assumes "session_wf s"
  shows "keeps_owner s (prepare_local_commit_transition lib ws operation proposals s w)"
proof (cases "vs_pending_initial_dave s")
  case (Some pending)
  have "keeps_owner s (prepare_pending_initial_local_commit_transition lib ws operation proposals pending
      (next_prepared_transition_id s) (s\<lparr>vs_pending_initial_dave := None\<rparr>) w)"
    using taken_owner(2) [OF assms Some] wf_owner_cases(2) [OF assms Some] by (intro initial_proposals_keeps) auto
  with Some show ?thesis by (simp add: prepare_local_commit_transition_def)
next
  case None
  show ?thesis
  proof (cases "vs_dave s")
    case None
    with \<open>vs_pending_initial_dave s = None\<close> assms show ?thesis by (simp add: prepare_local_commit_transition_def)
  next
    case (Some runtime)
    note taken = taken_owner(1) [OF assms Some] and owner = wf_owner_cases(1) [OF assms Some]
    have restored: "keeps_owner s (Done (), s\<lparr>vs_dave := Some rt\<rparr>, w)" for rt
      using assms Some by (auto simp: owner_defs)
    have deferred: "keeps_owner s (Done (), s\<lparr>vs_dave := None, vs_local_commit_transition := Some p\<rparr>, w1)" for p and w1 :: 'w
      using taken owner Some by (auto simp: owner_defs)
    have retry: "keeps_owner s (prepare_initial_epoch_local_commit_transition lib ws operation proposals version
        recognized (s\<lparr>vs_dave := None\<rparr>) w)" for version recognized
      using taken owner by (intro initial_epoch_keeps) auto
    show ?thesis
      unfolding prepare_local_commit_transition_def Let_def
      using None Some owner restored deferred retry
      by (simp split: option.splits outcome.splits prod.splits sum.splits del: keeps_owner_simps(3))
  qed
qed

lemma event_keeps:
  assumes "session_wf s"
  shows "keeps_owner s (process_gateway_event_for_dave lib ws event s w)"
proof (cases event)
  case (DaveMlsPrepareCommitTransition tid announced)
  then show ?thesis using remote_commit_keeps [OF assms] by (simp add: process_gateway_event_for_dave_def)
next
  case (DaveMlsWelcome tid message)
  then show ?thesis using welcome_keeps [OF assms] by (simp add: process_gateway_event_for_dave_def)
next
  case (DaveMlsProposals operation proposals)
  then show ?thesis using local_commit_keeps [OF assms] by (simp add: process_gateway_event_for_dave_def)
qed (use assms in \<open>auto simp: process_gateway_event_for_dave_def process_prepare_epoch_def
    process_execute_transition_def process_prepare_transition_def mark_completed_transition_def owner_defs
    split: option.splits sum.splits\<close>)

section \<open>Draining\<close>

lemma acknowledge_owner [simp]:
  "session_wf (acknowledge payload s) = session_wf s" "owners (acknowledge payload s) = owners s"
  "vs_dave_failed_closed (acknowledge payload s) = vs_dave_failed_closed s"
  by (simp_all add: acknowledge_def owner_defs)

lemma fail_closed_owner [simp]:
  "session_wf (fail_dave_closed s)" "owners (fail_dave_closed s) = 0" "vs_dave_failed_closed (fail_dave_closed s)"
  by (simp_all add: fail_dave_closed_def owner_defs)

text \<open>The key is where it was, or the session has failed closed.\<close>

definition same_owner :: "'ds ConnectedVoiceSession \<Rightarrow> 'ds ConnectedVoiceSession \<Rightarrow> bool" where
  "same_owner s s' \<longleftrightarrow> owners s' = owners s \<and> vs_dave_failed_closed s' = vs_dave_failed_closed s"

lemma drain_loop_keeps:
  assumes "drain_loop lib ws initial_wait idle deadline n now follow report inputs s w = (e, report', now', rest, s', w')"
    and "session_wf s" and "e \<noteq> DrainPanic"
  shows "session_wf s' \<and> (same_owner s s' \<or> (\<exists>err. e = DrainError err) \<and> vs_dave_failed_closed s')"
  using assms
proof (induction n arbitrary: now follow report inputs s w)
  case 0
  then show ?case by (simp add: same_owner_def)
next
  case (Suc n)
  show ?case
  proof (cases "\<exists>delay payload tail s1 w1 u. inputs = (delay, Inr payload) # tail
      \<and> process_gateway_event_for_dave lib ws (payload_event payload) (acknowledge payload s) w = (Done u, s1, w1)
      \<and> drain_loop lib ws initial_wait idle deadline n (now + delay)
          (idle \<or> dave_session_event_expects_follow_up (payload_event payload))
          (count_event (payload_event payload) report) tail s1 w1 = (e, report', now', rest, s', w')")
    case True
    then obtain delay payload tail s1 w1 u where
      ev: "process_gateway_event_for_dave lib ws (payload_event payload) (acknowledge payload s) w = (Done u, s1, w1)"
      and loop: "drain_loop lib ws initial_wait idle deadline n (now + delay)
          (idle \<or> dave_session_event_expects_follow_up (payload_event payload))
          (count_event (payload_event payload) report) tail s1 w1 = (e, report', now', rest, s', w')" by blast
    have "session_wf s1 \<and> same_owner s s1"
      using event_keeps [of "acknowledge payload s" lib ws "payload_event payload" w] ev Suc.prems(2)
      by (simp add: same_owner_def)
    with Suc.IH [OF loop _ Suc.prems(3)] show ?thesis by (auto simp: same_owner_def)
  next
    case False
    with Suc.prems show ?thesis
      by (auto simp: Let_def same_owner_def split: if_splits list.splits sum.splits outcome.splits prod.splits)
  qed
qed

lemma drain_keeps:
  assumes "process_pending_gateway_events_with_initial_poll_policy lib ws initial_wait allow idle deadline now inputs s w
      = (r, now', rest, s', w')"
    and "session_wf s" and "r \<noteq> Panicked"
  shows "session_wf s' \<and> (same_owner s s' \<or> (\<exists>err. r = Failed err) \<and> vs_dave_failed_closed s')"
proof (cases "drain_loop lib ws initial_wait idle deadline DAVE_GATEWAY_EVENT_DRAIN_LIMIT now False
    VoiceGatewayDrainReport_default inputs s w")
  case (fields e report now1 tail s1 w1)
  from drain_loop_keeps [OF this assms(2)] assms fields show ?thesis
    by (auto simp: process_pending_gateway_events_with_initial_poll_policy_def same_owner_def
        split: if_splits drain_end.splits option.splits)
qed

lemma drain_settled:
  assumes "process_pending_gateway_events_with_initial_poll_policy lib ws initial_wait False idle deadline now inputs s w
      = (Done report, now', rest, s', w')"
    and "session_wf s" and "owners s = 1" and "\<not> vs_gateway_receive_closed s"
  shows "\<exists>runtime. vs_dave s' = Some runtime"
proof -
  have "same_owner s s'" using drain_keeps [OF assms(1,2)] by simp
  moreover have "vs_dave_transition s' = None \<and> vs_local_commit_transition s' = None \<and> vs_pending_initial_dave s' = None"
    using assms(1,3,4)
    by (auto simp: process_pending_gateway_events_with_initial_poll_policy_def pending_error_def owners_def
        split: if_splits drain_end.splits option.splits prod.splits)
  ultimately show ?thesis using assms(3) by (cases "vs_dave s'") (simp_all add: same_owner_def owners_def)
qed

section \<open>Sessions\<close>

text \<open>Whatever a session is asked to do, one call at a time. A panic ends the task that owns the session.\<close>

inductive dave_reach ::
  "'ds davey_lib \<Rightarrow> aead_lib \<Rightarrow> 'w ws_write \<Rightarrow> 'u socket_send \<Rightarrow> 'ds ConnectedVoiceSession \<Rightarrow> 'ds ConnectedVoiceSession \<Rightarrow> bool"
  for lib aead ws udp s0 where
  start: "dave_reach lib aead ws udp s0 s0"
| drain: "dave_reach lib aead ws udp s0 s \<Longrightarrow>
    process_pending_gateway_events_with_initial_poll_policy lib ws initial_wait allow idle deadline now inputs s w
      = (r, now', rest, s', w') \<Longrightarrow> r \<noteq> Panicked \<Longrightarrow> dave_reach lib aead ws udp s0 s'"
| speaking: "dave_reach lib aead ws udp s0 s \<Longrightarrow> prepare_speaking_before_media ws s w = (r2, s', w') \<Longrightarrow>
    dave_reach lib aead ws udp s0 s'"
| prepare: "dave_reach lib aead ws udp s0 s \<Longrightarrow>
    prepare_current_slot_audio_packet lib aead frame samples s = (r3, s') \<Longrightarrow> dave_reach lib aead ws udp s0 s'"
| send: "dave_reach lib aead ws udp s0 s \<Longrightarrow> send_current_slot_packet udp packet s u = (r2, s', u') \<Longrightarrow>
    dave_reach lib aead ws udp s0 s'"
| discard: "dave_reach lib aead ws udp s0 s \<Longrightarrow> dave_reach lib aead ws udp s0 (session_discard_unsent_prepared_packets s)"
| stop: "dave_reach lib aead ws udp s0 s \<Longrightarrow> stop_speaking ws s w = (r2, s', w') \<Longrightarrow> dave_reach lib aead ws udp s0 s'"
| suspend: "dave_reach lib aead ws udp s0 s \<Longrightarrow> suspend_media ws s w = (r2, s', w') \<Longrightarrow> dave_reach lib aead ws udp s0 s'"
| closed: "dave_reach lib aead ws udp s0 s \<Longrightarrow> dave_reach lib aead ws udp s0 (mark_session_receive_closed s)"
| relocate: "dave_reach lib aead ws udp s0 s \<Longrightarrow> dave_reach lib aead ws udp s0 (replace_voice_context voice s)"

text \<open>The calls besides the drain leave the transitions alone and keep the active runtime.\<close>

definition same_dave :: "'ds ConnectedVoiceSession \<Rightarrow> 'ds ConnectedVoiceSession \<Rightarrow> bool" where
  "same_dave s s' \<longleftrightarrow> (vs_dave s' = None) = (vs_dave s = None) \<and> vs_pending_initial_dave s' = vs_pending_initial_dave s
     \<and> vs_dave_transition s' = vs_dave_transition s \<and> vs_local_commit_transition s' = vs_local_commit_transition s
     \<and> vs_dave_failed_closed s' = vs_dave_failed_closed s \<and> vs_prepared_transitions s' = vs_prepared_transitions s
     \<and> vs_local_init_commit_echoes s' = vs_local_init_commit_echoes s"

lemma same_dave_owner: "same_dave s s' \<Longrightarrow> session_wf s \<Longrightarrow> session_wf s' \<and> same_owner s s'"
  by (simp add: same_dave_def same_owner_def owner_defs)

lemma speaking_same: "prepare_speaking_before_media ws s w = (r, s', w') \<Longrightarrow> same_dave s s'"
  by (auto simp: prepare_speaking_before_media_def same_dave_def split: if_splits option.splits prod.splits sum.splits)

lemma stop_same: "stop_speaking ws s w = (r, s', w') \<Longrightarrow> same_dave s s'"
  by (auto simp: stop_speaking_def same_dave_def split: if_splits option.splits prod.splits sum.splits)

lemma dave_frame_same: "dave_audio_frame lib frame s = (r, s') \<Longrightarrow> same_dave s s'"
  by (auto simp: dave_audio_frame_def same_dave_def split: if_splits option.splits prod.splits sum.splits)

lemma prepare_same:
  assumes "prepare_current_slot_audio_packet lib aead frame samples s = (r, s')"
  shows "same_dave s s'"
proof -
  obtain x s1 where d: "dave_audio_frame lib frame s = (x, s1)" by fastforce
  from dave_frame_same [OF d] assms d show ?thesis
    by (auto simp: prepare_current_slot_audio_packet_def same_dave_def split: sum.splits option.splits prod.splits)
qed

lemma send_same: "send_current_slot_packet udp packet s u = (r, s', u') \<Longrightarrow> same_dave s s'"
  by (auto simp: send_current_slot_packet_def same_dave_def split: option.splits prod.splits sum.splits)

lemma suspend_same:
  assumes "suspend_media ws s w = (r, s', w')"
  shows "same_dave s s'"
proof -
  obtain x s1 w1 where p: "(if vs_speaking_started s then stop_speaking ws s w else (Inr (), s, w)) = (x, s1, w1)"
    by (metis prod_cases3)
  have "same_dave s s1" using p stop_same [of ws s w] by (auto simp: same_dave_def split: if_splits)
  with assms p show ?thesis
    by (auto simp: suspend_media_def same_dave_def Let_def split: sum.splits option.splits prod.splits)
qed

lemma reach_keeps:
  assumes "dave_reach lib aead ws udp s0 s" and "session_wf s0"
  shows "session_wf s \<and> (same_owner s0 s \<or> vs_dave_failed_closed s)"
  using assms
proof (induction rule: dave_reach.induct)
  case start
  then show ?case by (simp add: same_owner_def)
next
  case (drain s initial_wait allow idle deadline now inputs w r now' rest s' w')
  from drain_keeps [OF drain.hyps(2)] drain.IH drain.prems drain.hyps(3) show ?case
    by (auto simp: same_owner_def)
next
  case (speaking s w r2 s' w')
  then show ?case using same_dave_owner [OF speaking_same] by (metis same_owner_def)
next
  case (prepare s frame samples r3 s')
  then show ?case using same_dave_owner [OF prepare_same] by (metis same_owner_def)
next
  case (send s packet u r2 s' u')
  then show ?case using same_dave_owner [OF send_same] by (metis same_owner_def)
next
  case (discard s)
  then show ?case by (auto simp: session_discard_unsent_prepared_packets_def same_owner_def owner_defs)
next
  case (stop s w r2 s' w')
  then show ?case using same_dave_owner [OF stop_same] by (metis same_owner_def)
next
  case (suspend s w r2 s' w')
  then show ?case using same_dave_owner [OF suspend_same] by (metis same_owner_def)
next
  case (closed s)
  then show ?case by (auto simp: mark_session_receive_closed_def same_owner_def owner_defs)
next
  case (relocate s voice)
  then show ?case by (auto simp: replace_voice_context_def same_owner_def owner_defs)
qed

section \<open>Properties\<close>

text \<open>What the handshake hands over: the group key is with the runtime or with the session that still waits
  for its first epoch.\<close>

definition handshake_owner :: "'ds InitialDaveState \<Rightarrow> bool" where
  "handshake_owner init \<longleftrightarrow> (init_runtime init = None) \<noteq> (init_pending_initial_session init = None)"

lemma handshake_wf:
  assumes "session_from_handshake voice (Some hs) = Inr s0" and "hs_dave hs = Some init" and "handshake_owner init"
  shows "session_wf s0 \<and> owners s0 = 1 \<and> \<not> vs_dave_failed_closed s0"
  using assms
  by (auto simp: session_from_handshake_def handshake_owner_def ConnectedVoiceSession_new_def owner_defs res_bind_def
      split: sum.splits)

text \<open>C13: The group key of a DAVE session has exactly one owner at any time. From a handshake that gave it to
  the runtime or to the pending initial session, whatever events arrive and whatever the session is asked to
  do, exactly one of the active runtime, the pending initial session, the transition that waits for its
  execution and the deferred local commit holds a key, or the session has failed closed and none does.\<close>

theorem group_key_single_owner:
  assumes "session_from_handshake voice (Some hs) = Inr s0" and "hs_dave hs = Some init" and "handshake_owner init"
    and "dave_reach lib aead ws udp s0 s"
  shows "owners s = (if vs_dave_failed_closed s then 0 else 1)"
  using reach_keeps [OF assms(4)] handshake_wf [OF assms(1-3)] by (auto simp: same_owner_def session_wf_def)

lemma slot_frame:
  assumes "prepare_current_slot_audio_packet lib aead frame samples s = (Inr packet, s')"
    and "vs_dave s = Some runtime" and "frame \<noteq> OPUS_SILENCE_FRAME"
  shows "\<exists>cipher ds tr tr'. davey_encrypt lib (rt_session runtime) Audio OPUS frame = (Inr cipher, ds)
    \<and> vs_transport s = Some tr
    \<and> prepare_audio_packet_with_duration_samples aead tr cipher (audio_duration_ms_from_samples samples) samples True
        = (Inr packet, tr')"
  using assms
  by (auto simp: prepare_current_slot_audio_packet_def dave_audio_frame_def runtime_encrypt_audio_frame_def
      runtime_encrypt_def on_session_def dave_operation_def Let_def split: sum.splits option.splits prod.splits)

text \<open>C1: Media of a DAVE session is end-to-end encrypted. In every reachable state whose gateway still
  delivers events, when the state check before a slot succeeds, a frame other than the silence frame that is
  then prepared reaches the packet only as the output of the library's encryption under the key of the active
  runtime: no transition is pending whose key would be missing.\<close>

theorem media_slot_is_encrypted:
  assumes "session_from_handshake voice (Some hs) = Inr s0" and "hs_dave hs = Some init" and "handshake_owner init"
    and "dave_reach lib aead ws udp s0 s" and "\<not> vs_gateway_receive_closed s"
    and "prepare_media_state_before_slot lib ws slot now inputs s w = (Done report, now', rest, s1, w')"
    and "frame \<noteq> OPUS_SILENCE_FRAME"
    and "prepare_current_slot_audio_packet lib aead frame samples s1 = (Inr packet, s2)"
  shows "\<exists>runtime cipher ds tr tr'. vs_dave s1 = Some runtime
    \<and> davey_encrypt lib (rt_session runtime) Audio OPUS frame = (Inr cipher, ds) \<and> vs_transport s1 = Some tr
    \<and> prepare_audio_packet_with_duration_samples aead tr cipher (audio_duration_ms_from_samples samples) samples True
        = (Inr packet, tr')"
proof -
  note drain = assms(6) [unfolded prepare_media_state_before_slot_def process_pending_gateway_events_before_deadline_def]
  note start = handshake_wf [OF assms(1-3)]
  have "\<not> vs_dave_failed_closed s"
    using drain by (auto simp: process_pending_gateway_events_with_initial_poll_policy_def)
  then have "session_wf s" "owners s = 1" using reach_keeps [OF assms(4)] start by (auto simp: same_owner_def)
  from drain_settled [OF drain this assms(5)] obtain runtime where "vs_dave s1 = Some runtime" by blast
  with slot_frame [OF assms(8) this assms(7)] show ?thesis by auto
qed

lemma failed_refuses:
  assumes "vs_dave_failed_closed s"
  shows "session_send_audio_frame_with_duration_samples lib aead ws udp frame samples (now, inputs, s, w, u)
      = (Failed (InvalidState ''voice dave session failed closed''), now, inputs, s, w, u)"
  using assms
  by (simp add: session_send_audio_frame_with_duration_samples_def process_pending_gateway_events_def
      process_pending_gateway_events_with_initial_poll_policy_def is_gateway_closed_during_receive_def)

lemma drain_loop_first:
  "drain_loop lib ws initial_wait idle deadline DAVE_GATEWAY_EVENT_DRAIN_LIMIT now follow report inputs s w
     = drain_loop lib ws initial_wait idle deadline (Suc 255) now follow report inputs s w"
  by (simp add: DAVE_GATEWAY_EVENT_DRAIN_LIMIT_def del: drain_loop.simps)

text \<open>The arrivals a drain took, handled one after the other until the handling of one fails. An error in place of an
  event ends the drain without being handled.\<close>

fun handled ::
  "'ds davey_lib \<Rightarrow> 'w ws_write \<Rightarrow> arrivals \<Rightarrow> 'ds ConnectedVoiceSession \<Rightarrow> 'w \<Rightarrow> unit outcome \<times> 'ds ConnectedVoiceSession \<times> 'w" where
  "handled lib ws [] s w = (Done (), s, w)"
| "handled lib ws ((_, Inl _) # _) s w = (Done (), s, w)"
| "handled lib ws ((_, Inr payload) # rest) s w =
    (case process_gateway_event_for_dave lib ws (payload_event payload) (acknowledge payload s) w of
       (Done _, s1, w1) \<Rightarrow> handled lib ws rest s1 w1
     | stopped \<Rightarrow> stopped)"

lemma drain_loop_handled:
  assumes "drain_loop lib ws initial_wait idle deadline n now follow report inputs s w = (e, report', now', rest, s', w')"
  shows "length rest \<le> length inputs \<and>
    (handled lib ws (take (length inputs - length rest) inputs) s w = (Failed err, s1, w1)
       \<longrightarrow> e = DrainError err \<and> s' = fail_dave_closed s1 \<and> w' = w1)"
  using assms
proof (induction n arbitrary: now follow report inputs s w)
  case (Suc n)
  show ?case
  proof (cases "\<exists>delay payload tail s2 w2 u. inputs = (delay, Inr payload) # tail
      \<and> process_gateway_event_for_dave lib ws (payload_event payload) (acknowledge payload s) w = (Done u, s2, w2)
      \<and> drain_loop lib ws initial_wait idle deadline n (now + delay)
          (idle \<or> dave_session_event_expects_follow_up (payload_event payload)) (count_event (payload_event payload) report) tail s2 w2
        = (e, report', now', rest, s', w')")
    case True
    then obtain delay payload tail s2 w2 u where t: "inputs = (delay, Inr payload) # tail"
      "process_gateway_event_for_dave lib ws (payload_event payload) (acknowledge payload s) w = (Done u, s2, w2)"
      "drain_loop lib ws initial_wait idle deadline n (now + delay)
          (idle \<or> dave_session_event_expects_follow_up (payload_event payload)) (count_event (payload_event payload) report) tail s2 w2
        = (e, report', now', rest, s', w')"
      by blast
    from Suc.IH [OF t(3)] t(1,2) show ?thesis by (auto simp: Suc_diff_le)
  next
    case False
    with Suc.prems show ?thesis
      by (auto simp: Let_def take_Cons' split: if_splits list.splits prod.splits sum.splits outcome.splits)
  qed
qed simp

text \<open>C36: A DAVE failure is final. Take any drain of the gateway, whichever of the session's functions makes it, with
  its own waits and deadline, and whoever holds the key at that time. If the handling of one of the events it takes
  fails, be it the first or a later one and after whatever delay, the drain ends there and reports that event's error,
  and the session has failed closed; and in every state it can reach from there it holds no key, and sending audio is
  refused before anything is written to the gateway or the socket. The states it can reach are those of the session's
  own operations.\<close>

theorem failing_event_closes_session:
  assumes "process_pending_gateway_events_with_initial_poll_policy lib ws initial_wait allow idle deadline now inputs s w
      = (r, now', rest, s', w')"
    and "handled lib ws (take (length inputs - length rest) inputs) s w = (Failed err, s1, w1)"
    and "dave_reach lib aead ws udp s' s2"
  shows "r = Failed err \<and> s' = fail_dave_closed s1 \<and> w' = w1
    \<and> vs_dave_failed_closed s2 \<and> owners s2 = 0
    \<and> session_send_audio_frame_with_duration_samples lib aead ws udp frame samples (later, arriving, s2, w2, u)
      = (Failed (InvalidState ''voice dave session failed closed''), later, arriving, s2, w2, u)"
proof -
  obtain e report now1 rest1 s3 w3 where run: "drain_loop lib ws initial_wait idle deadline DAVE_GATEWAY_EVENT_DRAIN_LIMIT now
      False VoiceGatewayDrainReport_default inputs s w = (e, report, now1, rest1, s3, w3)"
    by (metis prod_cases6)
  have taken: "rest = rest1 \<and> s' = s3 \<and> w' = w3 \<and> (e = DrainError err \<longrightarrow> r = Failed err)"
    using assms(1,2) run
    by (auto simp: process_pending_gateway_events_with_initial_poll_policy_def simp del: drain_loop.simps
        split: if_splits drain_end.splits option.splits)
  with drain_loop_handled [OF run, of err s1 w1] assms(2) have closed: "r = Failed err \<and> s' = fail_dave_closed s1 \<and> w' = w1"
    by auto
  moreover have "vs_dave_failed_closed s2 \<and> owners s2 = 0"
    using reach_keeps [OF assms(3)] closed fail_closed_owner(1) by (auto simp: same_owner_def session_wf_def)
  ultimately show ?thesis by (simp add: failed_refuses)
qed

text \<open>A completed transition is not repeated. After the transition a welcome led to has been executed, the
  key it brought is the active one, and a commit or welcome that is replayed for it, or a second execution,
  changes nothing and sends nothing, unless the transition was prepared anew.\<close>

theorem completed_transition_replay_ignored:
  assumes "vs_dave_transition s = Some \<lparr>pt_transition_id = tid, pt_runtime = runtime, pt_source = WelcomeBacked\<rparr>"
    and "\<not> is_prepared tid s" and "tid \<notin> vs_invalidated s"
    and "process_gateway_event_for_dave lib ws (DaveExecuteTransition tid) s w = (r, s1, w1)"
    and "replay \<in> {DaveMlsPrepareCommitTransition tid message, DaveMlsWelcome tid message, DaveExecuteTransition tid}"
  shows "r = Done () \<and> w1 = w \<and> vs_dave s1 = Some runtime \<and> vs_dave_transition s1 = None
    \<and> process_gateway_event_for_dave lib ws replay s1 w2 = (Done (), s1, w2)"
  using assms
  by (auto simp: process_gateway_event_for_dave_def process_execute_transition_def mark_completed_transition_def
      prepare_remote_commit_transition_def prepare_welcome_transition_def is_prepared_def)

text \<open>C37: A frame can leave unencrypted. When the gateway turns out to be closed while a transition is pending
  and speech has started, the direct send of a frame swallows the error and goes on: no runtime holds a key, so
  what is prepared and put on the wire is the packet of the frame itself, without end-to-end encryption.\<close>

theorem closed_gateway_sends_plain_frame:
  assumes "session_wf s" and "vs_dave_transition s \<noteq> None" and "\<not> vs_gateway_receive_closed s"
    and "vs_gateway s \<noteq> None" and "vs_speaking_started s" and "vs_transport s = Some tr"
    and "prepare_audio_packet_with_duration_samples aead tr frame (audio_duration_ms_from_samples samples) samples True
      = (Inr packet, tr1)"
    and "transport_send_prepared_packet udp tr1 packet u = (Inr (), tr2, u1)"
  shows "session_send_audio_frame_with_duration_samples lib aead ws udp frame samples
      (now, (0, Inl (InvalidState ''voice gateway closed during receive'')) # rest, s, w, u)
    = (Done (), now, rest, (mark_session_receive_closed s)\<lparr>vs_transport := Some tr2, vs_speaking_started := True\<rparr>, w, u1)"
proof -
  have none: "vs_dave s = None" "\<not> vs_dave_failed_closed s" using assms(2) wf_owner_cases(3) [OF assms(1)] by auto
  have "drain_loop lib ws DAVE_GATEWAY_IDLE_POLL False None DAVE_GATEWAY_EVENT_DRAIN_LIMIT now False report
        ((0, Inl (InvalidState ''voice gateway closed during receive'')) # rest) s w
      = (DrainError (InvalidState ''voice gateway closed during receive''), report, now, rest, s, w)" for report
    unfolding drain_loop_first by (subst drain_loop.simps) (simp add: Let_def)
  then have "process_pending_gateway_events lib ws now
        ((0, Inl (InvalidState ''voice gateway closed during receive'')) # rest) s w
      = (Failed (InvalidState ''voice gateway closed during receive''), now, rest, s, w)"
    using assms(2-4) none
    by (auto simp: process_pending_gateway_events_def process_pending_gateway_events_with_initial_poll_policy_def)
  with assms(5-8) none show ?thesis
    by (cases "frame = OPUS_SILENCE_FRAME") (simp_all add: session_send_audio_frame_with_duration_samples_def is_gateway_closed_during_receive_def
        transmit_audio_frame_def prepare_speaking_before_media_def mark_session_receive_closed_def
        prepare_current_slot_audio_packet_def dave_audio_frame_def send_current_slot_packet_def)
qed

section \<open>Concrete runs\<close>

text \<open>A library whose encryption is visible, a web socket that records what is written, and a session that
  joined an established group.\<close>

definition marking_davey :: "unit davey_lib" where
  "marking_davey = demo_davey\<lparr>davey_encrypt := (\<lambda>ds _ _ f. (Inr (f @ [255]), ds)), davey_user_ids := (\<lambda>_. Some [1])\<rparr>"

definition demo_ws :: "ws_out list ws_write" where "demo_ws sent message = (Inr (), sent @ [message])"

definition demo_voice :: VoiceContext where
  "demo_voice = \<lparr>vc_guild_id = ''1'', vc_channel_id = ''2'', vc_user_id = ''3'', vc_session_id = ''a'',
     vc_endpoint = ''b'', vc_token = ''c''\<rparr>"

definition demo_init :: "unit InitialDaveState" where
  "demo_init = \<lparr>init_runtime = Some \<lparr>rt_protocol_version = 1, rt_session = ()\<rparr>, init_pending_initial_session = None,
     init_group_id = 2, init_protocol_version = 1, init_external_sender_bytes = [], init_recognized_user_ids = {''3''},
     init_completed_welcome_backed = {}, init_completed_local_init_commit = {}\<rparr>"

definition demo_hs :: "unit VoiceHandshakeResult" where
  "demo_hs = \<lparr>hs_gateway = VoiceGatewayClient_connect, hs_transport = transport_new 9, hs_ssrc = 9,
     hs_session_description = \<lparr>session_mode = PREFERRED_MODE, session_secret_key = replicate 32 7,
       session_dave_protocol_version = Some 1\<rparr>, hs_dave = Some demo_init\<rparr>"

definition demo_session :: "unit ConnectedVoiceSession" where
  "demo_session = (case session_from_handshake demo_voice (Some demo_hs) of Inr s \<Rightarrow> s)"

lemmas demo_defs = demo_session_def demo_hs_def demo_init_def demo_voice_def session_from_handshake_def
  ProtectionContext_from_session_def EncryptionMode_from_str_def ProtectionContext_new_def res_bind_def
  ConnectedVoiceSession_new_def

lemma demo_handshake: "session_from_handshake demo_voice (Some demo_hs) = Inr demo_session"
  by (simp add: demo_defs)

lemma demo_hs_owner: "hs_dave demo_hs = Some demo_init" "handshake_owner demo_init"
  by (simp_all add: demo_hs_def demo_init_def handshake_owner_def)

lemma demo_session_simps [simp]:
  "vs_dave demo_session = Some \<lparr>rt_protocol_version = 1, rt_session = ()\<rparr>"
  "vs_dave_transition demo_session = None" "vs_local_commit_transition demo_session = None"
  "vs_pending_initial_dave demo_session = None" "vs_prepared_transitions demo_session = []"
  "vs_local_init_commit_echoes demo_session = []" "\<not> vs_dave_failed_closed demo_session"
  "\<not> vs_gateway_receive_closed demo_session" "vs_gateway demo_session = Some VoiceGatewayClient_connect"
  "vs_completed_welcome_backed demo_session = {}" "vs_completed_local_init_commit demo_session = {}"
  "vs_invalidated demo_session = {}" "\<not> vs_speaking_started demo_session"
  "vs_transport demo_session = Some (transport_with_protection (transport_new 9)
     \<lparr>prot_mode = AeadAes256GcmRtpsize, prot_secret_key = replicate 32 7, next_nonce = 0\<rparr>)"
  by (simp_all add: demo_defs)

text \<open>A transition is prepared and a welcome arrives for it: the session is left with the transition pending.\<close>

abbreviation event_payload :: "VoiceGatewayEvent \<Rightarrow> VoiceGatewayPayload" where
  "event_payload event \<equiv> \<lparr>payload_event = event, payload_seq = None\<rparr>"

definition demo_arrivals :: arrivals where
  "demo_arrivals = [(0, Inr (event_payload (DavePrepareTransition 5 1))), (0, Inr (event_payload (DaveMlsWelcome 5 [1])))]"

definition demo_drain where
  "demo_drain s = process_pending_gateway_events marking_davey demo_ws 0 demo_arrivals s []"

definition demo_pending :: "unit ConnectedVoiceSession" where
  "demo_pending = demo_session\<lparr>vs_prepared_transitions := [], vs_dave := None,
     vs_dave_transition := Some \<lparr>pt_transition_id = 5, pt_runtime = \<lparr>rt_protocol_version = 1, rt_session = ()\<rparr>,
       pt_source = WelcomeBacked\<rparr>\<rparr>"

lemmas drain_loop_numeral = drain_loop.simps(2) [where n = "pred_numeral k" for k, folded numeral_eq_Suc]

lemmas drain_eval = process_pending_gateway_events_def process_pending_gateway_events_with_initial_poll_policy_def
  DAVE_GATEWAY_EVENT_DRAIN_LIMIT_def drain_loop_numeral desired_wait_def Let_def acknowledge_def apply_gateway_event_def
  process_gateway_event_for_dave_def process_prepare_transition_def DAVE_PROTOCOL_INIT_TRANSITION_ID_def
  prepare_welcome_transition_def process_prepared_welcome_def consume_prepared_transition_def drop_prepared_def
  btree_remove_def is_prepared_def runtime_process_welcome_def on_session_def inner_process_welcome_def marking_davey_def
  demo_davey_def dave_operation_def res_bind_def roster_of_def ready_pending_transition_def
  send_dave_transition_ready_def send_json_def demo_ws_def pending_error_def

lemma demo_drain_pending:
  "demo_drain demo_session = (Failed (InvalidState ''voice dave transition pending''), DAVE_GATEWAY_EXECUTE_POLL, [],
     demo_pending, [OutJson (dave_transition_ready_payload 5)])"
  by (simp add: demo_drain_def demo_arrivals_def demo_pending_def drain_eval)

lemma demo_pending_reached: "dave_reach marking_davey null_aead demo_ws demo_socket demo_session demo_pending"
proof (rule dave_reach.drain [OF dave_reach.start])
  show "process_pending_gateway_events_with_initial_poll_policy marking_davey demo_ws DAVE_GATEWAY_IDLE_POLL False False
      None 0 demo_arrivals demo_session []
    = (Failed (InvalidState ''voice dave transition pending''), DAVE_GATEWAY_EXECUTE_POLL, [],
       demo_pending, [OutJson (dave_transition_ready_payload 5)])"
    using demo_drain_pending by (simp add: demo_drain_def process_pending_gateway_events_def)
qed simp

theorem group_key_single_owner_witness:
  "dave_reach marking_davey null_aead demo_ws demo_socket demo_session demo_pending
     \<and> vs_dave demo_pending = None \<and> owners demo_pending = 1"
  using group_key_single_owner [OF demo_handshake demo_hs_owner demo_pending_reached] demo_pending_reached
  by (simp add: demo_pending_def)

lemma slot_duration: "audio_duration_ms_from_samples 960 = 20"
  by (simp add: audio_duration_ms_from_samples_def saturating_mul_def u64_from_u32_def)

definition recording_socket :: "bytes list socket_send" where
  "recording_socket sent datagram = (Inr (), sent @ [datagram])"

theorem media_slot_is_encrypted_witness:
  "\<exists>packet cipher tr tr'. fst (prepare_current_slot_audio_packet marking_davey null_aead [1, 2] 960 demo_session) = Inr packet
     \<and> cipher = [1, 2, 255]
     \<and> prepare_audio_packet_with_duration_samples null_aead tr cipher 20 960 True = (Inr packet, tr')"
proof -
  have slot: "prepare_media_state_before_slot marking_davey demo_ws 5 7 [] demo_session []
      = (Done VoiceGatewayDrainReport_default, 7, [], demo_session, [])"
    by (simp add: prepare_media_state_before_slot_def process_pending_gateway_events_before_deadline_def drain_eval
        VoiceGatewayDrainReport_default_def)
  obtain packet s2 where p:
    "prepare_current_slot_audio_packet marking_davey null_aead [1, 2] 960 demo_session = (Inr packet, s2)"
    by (simp add: prepare_current_slot_audio_packet_def dave_audio_frame_def runtime_encrypt_audio_frame_def
        runtime_encrypt_def on_session_def marking_davey_def demo_davey_def dave_operation_def OPUS_SILENCE_FRAME_def udp_eval)
  have "([1, 2] :: bytes) \<noteq> OPUS_SILENCE_FRAME" by (simp add: OPUS_SILENCE_FRAME_def)
  from media_slot_is_encrypted [OF demo_handshake demo_hs_owner dave_reach.start demo_session_simps(8) slot this p] p
  show ?thesis by (auto simp: marking_davey_def slot_duration)
qed

text \<open>The events of the drain above, and then one that fails: the execution of a transition that is not pending.\<close>

definition failing_arrivals :: arrivals where
  "failing_arrivals = demo_arrivals @ [(7, Inr (event_payload (DaveExecuteTransition 6)))]"

lemma failing_drain:
  "process_pending_gateway_events_with_initial_poll_policy marking_davey demo_ws DAVE_GATEWAY_IDLE_POLL False False None
      0 failing_arrivals demo_session []
    = (Failed (InvalidState ''voice dave execute transition id mismatch''), 7, [], fail_dave_closed demo_pending,
       [OutJson (dave_transition_ready_payload 5)])"
proof -
  let ?p = "demo_pending\<lparr>vs_gateway := Some VoiceGatewayClient_connect\<rparr>"
  have "?p = demo_pending" by (rule ConnectedVoiceSession.equality) (simp_all add: demo_pending_def)
  then have "fail_dave_closed ?p = fail_dave_closed demo_pending" by simp
  then show ?thesis
    by (simp add: failing_arrivals_def demo_arrivals_def demo_pending_def drain_eval process_execute_transition_def
        DAVE_GATEWAY_EXECUTE_POLL_def)
qed

lemma failing_handled:
  "handled marking_davey demo_ws failing_arrivals demo_session []
    = (Failed (InvalidState ''voice dave execute transition id mismatch''), demo_pending, [OutJson (dave_transition_ready_payload 5)])"
  by (simp add: failing_arrivals_def demo_arrivals_def demo_pending_def drain_eval process_execute_transition_def)

theorem failing_event_closes_session_witness:
  "fst (process_pending_gateway_events_with_initial_poll_policy marking_davey demo_ws DAVE_GATEWAY_IDLE_POLL False False None
        0 failing_arrivals demo_session []) = Failed (InvalidState ''voice dave execute transition id mismatch'')
     \<and> fst (session_send_audio_frame_with_duration_samples marking_davey null_aead demo_ws demo_socket [1] 960
         (0, [], fail_dave_closed demo_pending, [], 0)) = Failed (InvalidState ''voice dave session failed closed'')"
  using failing_event_closes_session [OF failing_drain _ dave_reach.start, of _ _ _ null_aead demo_socket "[1]" 960 0 "[]" "[]" 0]
    failing_drain failing_handled by simp

theorem completed_transition_replay_ignored_witness:
  "\<exists>s1. process_gateway_event_for_dave marking_davey demo_ws (DaveExecuteTransition 5) demo_pending [] = (Done (), s1, [])
     \<and> vs_dave s1 = Some \<lparr>rt_protocol_version = 1, rt_session = ()\<rparr>
     \<and> process_gateway_event_for_dave marking_davey demo_ws (DaveMlsWelcome 5 [1]) s1 [] = (Done (), s1, [])"
proof -
  obtain r s1 w1 where run:
    "process_gateway_event_for_dave marking_davey demo_ws (DaveExecuteTransition 5) demo_pending [] = (r, s1, w1)"
    by (metis prod_cases3)
  from completed_transition_replay_ignored [OF _ _ _ run, of _ "DaveMlsWelcome 5 [1]" "[1]"] run show ?thesis
    by (simp add: demo_pending_def is_prepared_def)
qed

text \<open>In the run above the frame that leaves the session is not the one the library would have produced.\<close>

theorem closed_gateway_sends_plain_frame_witness:
  "\<exists>datagram s'. session_send_audio_frame_with_duration_samples marking_davey null_aead demo_ws recording_socket [1, 2] 960
       (0, [(0, Inl (InvalidState ''voice gateway closed during receive''))], demo_pending\<lparr>vs_speaking_started := True\<rparr>, [], [])
     = (Done (), 0, [], s', [], [datagram])
     \<and> length datagram = 12 + 2 + 16 + 4 \<and> take 2 (drop 12 datagram) = [1, 2] \<and> vs_gateway_receive_closed s'"
proof -
  let ?s = "demo_pending\<lparr>vs_speaking_started := True\<rparr>"
  obtain tr where tr: "vs_transport ?s = Some tr" by (simp add: demo_pending_def)
  obtain packet tr1 where p: "prepare_audio_packet_with_duration_samples null_aead tr [1, 2]
      (audio_duration_ms_from_samples 960) 960 True = (Inr packet, tr1)"
    using tr by (auto simp: demo_pending_def udp_eval)
  obtain tr2 where send: "transport_send_prepared_packet recording_socket tr1 packet [] = (Inr (), tr2, [prepared_bytes packet])"
    using p tr
    by (auto simp: demo_pending_def udp_eval transport_send_prepared_packet_def send_prepared_packet_def recording_socket_def
        cursor_check_def cursor_exchange_def expected_cursor_def)
  have wf: "session_wf ?s" by (simp add: demo_pending_def owner_defs)
  have "length (prepared_bytes packet) = 34 \<and> take 2 (drop 12 (prepared_bytes packet)) = [1, 2]"
    using p tr by (auto simp: demo_pending_def udp_eval build_header_def u32_to_be_bytes_def)
  moreover note closed_gateway_sends_plain_frame [OF wf _ _ _ _ tr p send, of marking_davey demo_ws 0 "[]" "[]"]
  ultimately show ?thesis by (simp add: demo_pending_def mark_session_receive_closed_def)
qed

end
