(* ===== verification/LiveRuns.thy ===== *)
theory LiveRuns
  imports LiveRounds VoiceSessionLaws
begin

text \<open>
  Whole playbacks by the live driver: what the loop accounts for from its start to its return, and what a pause
  does to a frame that was sent, to the error of the producer and to the end of a track.
\<close>

section \<open>A concrete playback\<close>

text \<open>One frame in the source buffer, a session that speaks, a socket that counts the datagrams, and a metrics
  channel that is full.\<close>

definition live_io :: "(unit, ws_out list, nat) media_io" where
  "live_io = \<lparr>io_davey = marking_davey, io_aead = null_aead, io_ws = demo_ws, io_udp = demo_socket\<rparr>"

abbreviation demo_stream :: "OpusFrame list \<Rightarrow> OpusFrameQueue" where
  "demo_stream fs \<equiv> \<lparr>q_capacity = 1024, q_max_bytes = 16777216, q_max_duration_samples = 240000,
     q_duration_samples = of_nat (960 * length fs), q_bytes = 2 * length fs, q_inner = fs\<rparr>"

definition demo_input :: "(unit, ws_out list, nat) LiveMediaDriverInput" where
  "demo_input = \<lparr>in_playback_epoch = 3, in_current_playback_epoch = 3,
     in_source = SharedSourceBuffer_new (demo_stream [demo_frame]) True,
     in_session = demo_session\<lparr>vs_speaking_started := True\<rparr>,
     in_metrics = \<lparr>chan_items = [], chan_capacity = 0, chan_open = True\<rparr>\<rparr>"

definition demo_round :: round_input where
  "demo_round = \<lparr>ri_beside = [], ri_start_epoch = 3, ri_beside_drained = [], ri_commands = [], ri_paused = [],
     ri_beside_filled = [], ri_epoch = 3, ri_commands_after_fill = [], ri_paused_after_fill = [], ri_end = OutcomeFirst\<rparr>"

definition demo_ticks :: "tick_clock list" where
  "demo_ticks = [\<lparr>clock_first = 0, clock_started = 20000000, clock_sent = 20000001\<rparr>]"

lemma emit_full: "chan_capacity (ld_metrics d) \<le> length (chan_items (ld_metrics d)) \<Longrightarrow>
    emit_metric m d = d\<lparr>ld_reported := ld_reported d @ sent_reports m\<rparr>"
  by (simp add: emit_metric_def try_send_def)

lemma demo_frame_simps: "frame_duration_samples demo_frame = 960" "frame_data demo_frame = [1, 2]" "frame_duration_ms demo_frame = 20"
  by (simp_all add: demo_frame_def OpusFrame_with_duration_samples_def)

lemma demo_source_wf: "queue_wf (demo_stream [demo_frame])"
  by (simp add: queue_wf_def total_bytes_def total_samples_def frame_samples_def demo_frame_simps OpusFrame_byte_len_def)

lemmas queue_eval = OpusFrameQueue_pop_def OpusFrameQueue_push_def can_fit_frame_def can_fit_resource_def
  OpusFrameQueue_is_full_def OpusFrameQueue_depth_def OpusFrame_byte_len_def saturating_add_def saturating_sub_def
  saturating_mul_def usize_saturating_add_def u64_from_u32_def samples_from_duration_ms_u64_def duration_ms_from_samples_def
  OPUS_SAMPLE_RATE_HZ_def egress_push_def egress_pop_def egress_depth_def egress_is_full_def egress_buffered_samples_def
  buffered_samples_def buffered_duration_ms_def DiscordEgressBuffer_new_def OpusFrameQueue_with_resource_limits_def
  PreparedPlayoutQueue_new_def playout_push_def playout_pop_def playout_fits_def playout_is_full_def playout_depth_def
  limit_defs word_less_nat_alt OpusFrame_with_epoch_def demo_frame_simps OpusBufferDepth_default_def

lemmas fill_eval = run_bind_def emit_full source_depth_now_def current_source_depth_def poll_source_def
  pop_live_source_frame_def refill_egress_buffer_def raw_refill_target_samples_def refill_wanted_def
  resume_after_underrun_def refill_step_def refill_loop.simps fill_wanted_def playout_fill_step_def
  fill_prepared_loop.simps fill_prepared_playout_queue_def fill_and_pump_def
  pump_prepared_playout_to_deadline_sender.simps Let_def speaking_before_media_def prepare_speaking_before_media_def
  prepare_slot_packet_def enqueue_prepared_def take_rebuild_credit_def record_prepared_playout_event_def pump_step_def
  try_send_command_def available_command_capacity_def prepare_current_slot_audio_packet_def dave_audio_frame_def
  runtime_encrypt_audio_frame_def runtime_encrypt_def on_session_def dave_operation_def OPUS_SILENCE_FRAME_def udp_eval
  current_playout_generation_def slot_duration prepared_media_frame_def prepared_frame_identity_def

lemmas sender_eval = deadline_eval interval_960 cursor_check_def cursor_exchange_def unpack_rtp_cursor_def
  expected_cursor_def next_cursor_def pack_rtp_cursor_parts_def share_cursor_def sender_tick_def next_outcome_def
  wait_outcome.simps try_next_outcome_def take_record_def LiveDeadlineSender_spawn_def new_channel_def
  LIVE_DEADLINE_COMMAND_CHANNEL_CAPACITY_def LIVE_DEADLINE_RECORD_CHANNEL_CAPACITY_def send_record_def

lemmas round_eval = run_rounds.simps run_round_def beside_steps_def playback_is_current_def drain_and_report_def
  drain_ready_deadline_outcomes.simps record_sent_metrics_def drain_commands.simps prepare_media_state_def
  playout_round_def await_round_def finish_round_def account_deadline_outcome_def matches_sent_record_def
  PendingDeadlineCommand_new_def record_deadline_send_metric_def mark_committed_def
  prepare_media_state_before_slot_def process_pending_gateway_events_before_deadline_def drain_eval
  VoiceGatewayDrainReport_default_def pending_deadline_track_depth_def track_depth_def add_depth_def
  prepared_playout_depth_with_pending_def next_deadline_def AudioPacer_starting_after_def FRAME_DURATION_def
  frame_duration_from_samples_def duration_from_samples_def mark_sent_def reset_after_interruption_at_def

lemmas demo_eval = demo_input_def SharedSourceBuffer_new_def demo_round_def demo_ticks_def live_io_def
  LiveMediaDriver_from_def replace_sender_def cloned_prepared_packet_sender_def run_loop_def

text \<open>Another frame is published before the first round; the sender ticks twice.\<close>

definition publishing_round :: round_input where
  "publishing_round = demo_round\<lparr>ri_beside := [ProducerPublishes (demo_stream [demo_frame]) True]\<rparr>"

definition two_ticks :: "tick_clock list" where
  "two_ticks = demo_ticks @ [\<lparr>clock_first = 0, clock_started = 40000000, clock_sent = 40000001\<rparr>]"

lemma demo_playback:
  "\<exists>d. run_loop live_io (\<lambda>_. []) [publishing_round, demo_round, demo_round]
         (LiveMediaDriver_from demo_input 0 [] two_ticks [] 0) = (Returns True, d)
     \<and> ld_wire d = 2 \<and> ld_published d = [([demo_frame], True)]"
  by (simp add: publishing_round_def two_ticks_def beside_step_def publish_refill_def demo_eval round_eval fill_eval
      sender_eval queue_eval split del: if_split)

section \<open>Whole playbacks\<close>

lemma start_inv:
  assumes "replace_sender deadline (LiveMediaDriver_from input now ins ticks w u) = (Returns (), d)"
    and "queue_wf (sb_queue (in_source input))" and "list_all frame_ok (q_inner (sb_queue (in_source input)))"
  shows "driver_inv d \<and> pipeline d = map (\<lambda>f. OpusFrame_with_epoch f (in_playback_epoch input)) (q_inner (sb_queue (in_source input)))
    \<and> ld_packet_index d = 0 \<and> ld_playback_epoch d = in_playback_epoch input \<and> ld_reported d = [] \<and> ld_published d = []"
proof -
  let ?d = "LiveMediaDriver_from input now ins ticks w u"
  obtain cursor where d: "d = ?d\<lparr>ld_sender := LiveDeadlineSender_spawn cursor (ld_generation ?d) deadline\<rparr>"
    using replace_sender_spec [OF assms(1)] by blast
  have "driver_frames d = []"
    by (simp add: d LiveMediaDriver_from_def driver_frames_def prepared_frames_def PreparedPlayoutQueue_new_def)
  moreover have "queues_inv d" unfolding queues_inv_def
    using spawn_inv by (simp add: d LiveMediaDriver_from_def PreparedPlayoutQueue_new_def)
  moreover have "playout_wf (ld_prepared d)" "egress_wf (ld_egress d)"
    using playout_new_wf egress_new_wf by (simp_all add: d LiveMediaDriver_from_def)
  ultimately show ?thesis
    using assms(2,3) by (simp add: driver_inv_def frames_inv_def pipeline_def) (simp add: d LiveMediaDriver_from_def)
qed

text \<open>The media frames among the reports of sent packets, in the order of the reports.\<close>

definition reported_frames :: "SenderSentMetric list \<Rightarrow> PreparedMediaFrame list" where
  "reported_frames reports = List.map_filter id (map sm_media_frame reports)"

lemma sent_frames_option: "sent_frames recs = List.map_filter id (map sent_media_frame recs)"
  by (simp add: sent_frames_def map_filter_def comp_def filter_map)

text \<open>C2: A playback by the live driver, with the deadline sender ticking and the producer publishing refills
  beside it, through any number of pauses, resumes, DAVE rebuilds and underruns. When the loop returns, the media
  frames in the reports of sent packets it gave to the metrics channel, in the order of the reports, followed by the
  frames it still holds, are exactly the frames that were in the source buffer at the start followed by those of the
  refills published since: all the frames of a refill when its publication succeeded, the first of them when the
  source buffer was full before the end of it. So no frame is lost, repeated in the reports or reordered, and the
  index of the next report is the number of reports, at most the largest 64-bit number. When the loop returns that playback ended by itself, nothing is
  left: every frame was reported as sent. For that no round may have had a resume waiting after its fill, nor a
  publication between its fill and its end. The source buffer starts well formed, and every frame there and in the
  refills has 960 samples and at most 16,384 bytes.\<close>

theorem live_playback_accounts_in_order:
  assumes "run_loop io foreign inputs (LiveMediaDriver_from input now ins ticks w u) = (Returns natural, d')"
    and "queue_wf (sb_queue (in_source input))" and "list_all frame_ok (q_inner (sb_queue (in_source input)))"
    and "list_all (\<lambda>input. list_all frame_ok (round_refills input)) inputs"
  shows "\<exists>pieces. list_all2 piece_of pieces (ld_published d')
    \<and> subseq (concat pieces) (concat (map round_refills inputs))
    \<and> map (\<lambda>f. prepared_media_frame (OpusFrame_with_epoch f (in_playback_epoch input)))
          (q_inner (sb_queue (in_source input)) @ concat pieces)
        = reported_frames (ld_reported d') @ map prepared_media_frame (pipeline d')
    \<and> ld_packet_index d' = bump (length (ld_reported d')) 0
    \<and> (natural \<and> list_all plain_round inputs \<longrightarrow> pipeline d' = [])"
proof -
  let ?d = "LiveMediaDriver_from input now ins ticks w u"
  from assms(1) obtain d1 depth d2 where rep: "replace_sender (next_deadline (ld_pacer ?d)) ?d = (Returns (), d1)"
    and s: "source_depth_now d1 = (Returns depth, d2)"
    and run: "run_rounds io foreign depth inputs (emit_metric (EgressDepth (playout_depth (ld_prepared d2)))
       (emit_metric (SenderStarted depth) d2)) = (Returns natural, d')" (is "run_rounds _ _ _ _ ?d3 = _")
    by (auto simp: run_loop_def run_bind_Returns)
  note st = start_inv [OF rep assms(2,3)]
  have a: "accounts [] [] d1 ?d3"
    using same_accounts [OF source_depth_same [OF s] source_depth_quiet [OF s]] st by simp
  from run_rounds_accounts [OF run accounts_inv [OF a] assms(4)] obtain pubs recs where
    r: "accounts pubs recs ?d3 d'" "subseq pubs (concat (map round_refills inputs))"
    "natural \<and> list_all plain_round inputs \<longrightarrow> pipeline d' = []" by blast
  note acc = accounts_quiet_trans(1) [OF a r(1)]
  obtain pieces where p: "list_all2 piece_of pieces (ld_published d')" "pubs = concat pieces"
    using acc st by (auto simp: accounts_def given_def)
  have reps: "map sm_media_frame (ld_reported d') = map sent_media_frame recs" using acc st by (simp add: accounts_def)
  then have "length (ld_reported d') = length recs" by (metis length_map)
  moreover have "reported_frames (ld_reported d') = sent_frames recs"
    using reps by (simp add: reported_frames_def sent_frames_option)
  ultimately have "map (\<lambda>f. prepared_media_frame (OpusFrame_with_epoch f (in_playback_epoch input)))
          (q_inner (sb_queue (in_source input)) @ pubs)
        = reported_frames (ld_reported d') @ map prepared_media_frame (pipeline d')"
    "ld_packet_index d' = bump (length (ld_reported d')) 0"
    using acc st by (simp_all add: accounts_def stamped_def comp_def)
  with p r(2,3) show ?thesis by blast
qed

theorem live_playback_accounts_in_order_witness:
  "\<exists>d. run_loop live_io (\<lambda>_. []) [publishing_round, demo_round, demo_round]
         (LiveMediaDriver_from demo_input 0 [] two_ticks [] 0) = (Returns True, d)
     \<and> ld_published d = [([demo_frame], True)] \<and> ld_wire d = 2 \<and> pipeline d = []
     \<and> reported_frames (ld_reported d) = replicate 2 (prepared_media_frame (OpusFrame_with_epoch demo_frame 3))"
proof -
  obtain d where run: "run_loop live_io (\<lambda>_. []) [publishing_round, demo_round, demo_round]
      (LiveMediaDriver_from demo_input 0 [] two_ticks [] 0) = (Returns True, d)"
    and d: "ld_wire d = 2" "ld_published d = [([demo_frame], True)]" using demo_playback by blast
  have refills: "round_refills demo_round = []" "plain_round demo_round" "round_refills publishing_round = [demo_frame]"
    "plain_round publishing_round"
    by (simp_all add: round_refills_def plain_round_def publishing_round_def demo_round_def)
  have source: "sb_queue (in_source demo_input) = demo_stream [demo_frame]" "in_playback_epoch demo_input = 3"
    by (simp_all add: demo_input_def SharedSourceBuffer_new_def)
  have "queue_wf (sb_queue (in_source demo_input))" using demo_source_wf by (simp add: source)
  moreover have "list_all frame_ok (q_inner (sb_queue (in_source demo_input)))" by (simp add: source)
  ultimately obtain pieces where "list_all2 piece_of pieces [([demo_frame], True)]"
    and eq: "map (\<lambda>f. prepared_media_frame (OpusFrame_with_epoch f 3)) ([demo_frame] @ concat pieces)
       = reported_frames (ld_reported d) @ map prepared_media_frame (pipeline d)" and "pipeline d = []"
    using live_playback_accounts_in_order [OF run] refills source d by fastforce
  then have "concat pieces = [demo_frame]" by (auto simp: list_all2_Cons2 piece_of_def)
  with \<open>pipeline d = []\<close> eq run d show ?thesis by (simp add: numeral_2_eq_2)
qed

section \<open>What a pause does\<close>

text \<open>A pause does not look at the records of the deadline sender first. When the oldest command without an
  outcome was already sent, its record waiting to be read, the pause puts the frame of that command back at the
  front of the egress buffer all the same: the frame the record says was sent is the next one to be sent again.\<close>

theorem pause_requeues_sent_frame:
  assumes "apply_command io PauseMedia remaining d = (Returns stop, d')" and "driver_inv d" and "\<not> ld_paused d"
    and "ds_send_records (lds_sender (ld_sender d)) = Some records" and "chan_items records = rec # recs"
    and "sent_media_frame rec \<noteq> None"
  shows "\<exists>frame rest. sent_media_frame rec = Some (prepared_media_frame frame)
    \<and> egress_frames (ld_egress d') = frame # rest \<and> ld_pending d' = []
    \<and> hd (pipeline d') = frame"
proof -
  obtain r sender where out: "try_next_outcome (ld_sender d) = (Inr (Some (OutcomeSent rec)), sender)"
    using assms(4,5) by (simp add: try_next_outcome_def take_record_def try_recv_def Let_def)
  have "sender_inv (ld_pending d) (ld_generation d) (ld_sender d)" using assms(2) by (simp add: driver_inv_def queues_inv_def)
  from next_outcome_inv [OF out this] obtain p ps where p: "ld_pending d = p # ps" "matches_sent_record p rec" by auto
  then have "sent_media_frame rec = map_option prepared_media_frame (pend_frame p)"
    using assms(2) by (simp add: driver_inv_def queues_inv_def pend_ok_def matches_sent_record_def)
  with assms(6) obtain frame where f: "pend_frame p = Some frame" "sent_media_frame rec = Some (prepared_media_frame frame)"
    by (cases "pend_frame p") auto
  then obtain rest where rest: "driver_frames d = frame # rest" using p by (simp add: driver_frames_def)
  obtain recs1 where "accounts [] recs1 d d'" "egress_frames (ld_egress d') = driver_frames d" "ld_pending d' = []" "ld_paused d'"
    using pause_accounts [OF assms(1-3)] by blast
  with f rest show ?thesis
    by (auto simp: accounts_def driver_inv_def queues_inv_def pipeline_def driver_frames_def prepared_frames_def)
qed

text \<open>The frame of the concrete playback is handed over and sent; then the pause comes.\<close>

definition paused_ticks :: "tick_clock list" where
  "paused_ticks = map (\<lambda>n. \<lparr>clock_first = 0, clock_started = n * 20000000, clock_sent = n * 20000000 + 1\<rparr>) [1, 2, 3, 4, 5, 6]"

definition demo_sent :: "(unit, ws_out list, nat) LiveMediaDriver" where
  "demo_sent = sender_tick live_io (hd demo_ticks)
     (snd (fill_and_pump live_io (snd (replace_sender 20000000 (LiveMediaDriver_from demo_input 0 [] paused_ticks [] 0)))))"

lemmas boundary_loop_numeral = boundary_loop.simps(2) [where n = "pred_numeral k" for k, folded numeral_eq_Suc]

lemma demo_stop_speaking: "\<exists>w'. send_not_speaking_repeated demo_ws ssrc w = (Inr (), w')"
  by (auto simp: send_not_speaking_repeated_def STOP_SPEAKING_GATEWAY_REPEAT_COUNT_def numeral_eq_Suc
      send_not_speaking_def send_speaking_flags_def send_json_def demo_ws_def)

lemmas pause_eval = apply_command_def demo_sent_def paused_ticks_def interrupt_playout_def
  replace_deadline_sender_after_invalidation_at_def invalidate_prepared_playout_generation_def discard_unsent_def
  session_discard_unsent_prepared_packets_def flush_egress_buffer_for_interruption_def drain_egress_frames_def
  restore_flushed_def restore_interrupted_frames_to_egress_buffer_def report_flush_def
  send_stop_audio_boundary_through_deadline_sender_def STOP_AUDIO_BOUNDARY_SILENCE_PACKETS_def boundary_loop_numeral
  boundary_loop.simps(1) send_command.simps SILENCE_FRAME_def stop_speaking_now_def stop_speaking_def reset_deadline_def

lemma demo_ssrc [simp]: "vs_ssrc demo_session = Some 9" by (simp add: demo_defs)

lemma demo_sent_state:
  "\<exists>records rec. ds_send_records (lds_sender (ld_sender demo_sent)) = Some records \<and> chan_items records = [rec]
     \<and> sent_media_frame rec = Some (prepared_media_frame (OpusFrame_with_epoch demo_frame 3))"
  "\<not> ld_paused demo_sent" "ld_wire demo_sent = 1"
  by (simp_all add: demo_sent_def paused_ticks_def demo_eval round_eval fill_eval sender_eval queue_eval split del: if_split)

lemma demo_pause:
  "\<exists>d'. apply_command live_io PauseMedia OpusBufferDepth_default demo_sent = (Returns False, d')"
proof -
  obtain w' where "send_not_speaking_repeated demo_ws 9 [] = (Inr (), w')" using demo_stop_speaking by blast
  then have "\<exists>d1 recs d2. interrupt_playout ReasonPause (ld_now demo_sent + FRAME_DURATION) demo_sent = (Returns (), d1)
      \<and> send_stop_audio_boundary_through_deadline_sender live_io (current_playout_generation d1)
          (emit_metric (NonTrackPlayoutQueueDepth SendBoundarySilence silence_depth)
            (emit_metric (ExplicitMediaBoundary ReasonPause) d1)) = (Returns recs, d2)"
    by (simp add: pause_eval demo_eval round_eval fill_eval sender_eval queue_eval split del: if_split)
  then show ?thesis using demo_sent_state(2) by (auto simp: apply_command_def run_bind_def Let_def)
qed

lemma demo_sent_inv: "driver_inv demo_sent"
proof -
  let ?start = "LiveMediaDriver_from demo_input 0 [] paused_ticks [] 0 :: (unit, ws_out list, nat) LiveMediaDriver"
  obtain d where start: "replace_sender 20000000 ?start = (Returns (), d)" "\<not> ld_paused d"
    by (simp add: demo_eval udp_eval)
  have "driver_inv d"
    using start_inv [OF start(1)] demo_source_wf by (simp add: demo_input_def SharedSourceBuffer_new_def)
  moreover obtain l d1 where "fill_and_pump live_io (snd (replace_sender 20000000 ?start)) = (Returns l, d1)"
    by (simp add: paused_ticks_def demo_eval round_eval fill_eval sender_eval queue_eval split del: if_split)
  ultimately have "driver_inv d1" using fill_and_pump_accounts [of live_io d l d1] start by (simp add: accounts_def)
  with \<open>fill_and_pump live_io _ = _\<close> show ?thesis
    using accounts_inv [OF tick_accounts] by (simp add: demo_sent_def)
qed

theorem pause_requeues_sent_frame_witness:
  "\<exists>d' frame rest. apply_command live_io PauseMedia OpusBufferDepth_default demo_sent = (Returns False, d')
     \<and> ld_wire demo_sent = 1 \<and> egress_frames (ld_egress d') = frame # rest
     \<and> prepared_media_frame frame = prepared_media_frame (OpusFrame_with_epoch demo_frame 3)"
proof -
  obtain d' where run: "apply_command live_io PauseMedia OpusBufferDepth_default demo_sent = (Returns False, d')"
    using demo_pause by blast
  obtain records rec where rec: "ds_send_records (lds_sender (ld_sender demo_sent)) = Some records" "chan_items records = [rec]"
    "sent_media_frame rec = Some (prepared_media_frame (OpusFrame_with_epoch demo_frame 3))" using demo_sent_state(1) by blast
  from pause_requeues_sent_frame [OF run demo_sent_inv demo_sent_state(2) rec(1,2)] rec(3) run demo_sent_state(3)
  show ?thesis by auto
qed

text \<open>A pause also takes the error of the producer and drops it: the depth of the source buffer it asks for is only
  wanted for a report. When the source buffer is empty by then and its end was not announced, every later poll
  finds neither a frame, nor the end, nor the error.\<close>

theorem pause_discards_producer_error:
  assumes "apply_command io PauseMedia remaining d = (Returns stop, d')" and "driver_inv d" and "\<not> ld_paused d"
    and "driver_frames d \<noteq> []" and "q_inner (sb_queue (ld_source d)) = []" and "\<not> sb_end_of_stream (ld_source d)"
  shows "sb_error (ld_source d') = None
    \<and> pop_live_source_frame epoch (ld_source d')
        = (Inr \<lparr>poll_frame = None, poll_depth = OpusFrameQueue_depth (sb_queue (ld_source d')), poll_ended = False\<rparr>, ld_source d')"
proof -
  have "sb_error (ld_source d') = None" "\<not> sb_end_of_stream (ld_source d')" "q_inner (sb_queue (ld_source d')) = []"
    using pause_accounts [OF assms(1-3)] assms(4-6) by auto
  with oq.pop_Nil [of "sb_queue (ld_source d')"] show ?thesis by (simp add: pop_live_source_frame_def)
qed

text \<open>A pause and a resume handled one after the other at the end of a round, after the source has ended: the round
  takes the playback for finished, with every frame that was not sent in the egress buffer.\<close>

theorem pause_resume_cuts_the_tail:
  assumes "drain_commands io latest [PauseMedia, ResumeMedia] d = (Returns None, d')" and "driver_inv d" and "\<not> ld_paused d"
    and "ld_source_ended d"
  shows "await_round io event g latest egress d' = (Returns (Some True), d') \<and> egress_frames (ld_egress d') = driver_frames d"
proof -
  from assms(1) obtain d1 where p: "apply_command io PauseMedia latest d = (Returns False, d1)"
    and r: "apply_command io ResumeMedia latest d1 = (Returns False, d')"
    by (auto simp: run_bind_Returns split: if_splits)
  obtain recs where a: "accounts [] recs d d1" "egress_frames (ld_egress d1) = driver_frames d" "ld_pending d1 = []"
    "ld_source_ended d1 = ld_source_ended d" using pause_accounts [OF p assms(2,3)] by blast
  from resume_accounts [OF r accounts_inv [OF a(1)]] a assms(4) show ?thesis by (simp add: await_round_def)
qed

end
