(* ===== verification/SessionRuntime.thy ===== *)
theory SessionRuntime
  imports PipelineMetrics
begin

text \<open>
  The session runtime (\<open>VoiceSessionRuntime\<close> in \<open>session/runtime.rs\<close>): the state every command shares, and
  the commands as tasks that run beside each other. A task is cut at its awaits: between two of them it runs
  alone and is one step here, with its name saying what it is about to do. What a task finds when it goes on
  (the clock, arrivals at the gateway, ticks of a deadline sender, the result of a handshake, what the
  playback pipeline reports) is given with the step. The live media driver and the source producer run in
  their own tasks (\<open>LiveDriver\<close>, \<open>PlayoutBuffers\<close>); here they are seen through the command channel, the
  reports and the exit.
\<close>

section \<open>Shared state\<close>

definition PLAYBACK_MEDIA_COMMAND_CHANNEL_CAPACITY :: usize where "PLAYBACK_MEDIA_COMMAND_CHANNEL_CAPACITY = 32"
definition MEDIA_SENDER_DAVE_READY_TIMEOUT :: nanos where "MEDIA_SENDER_DAVE_READY_TIMEOUT = 5000000000"
definition MEDIA_OWNER_RETURN_TIMEOUT :: nanos where "MEDIA_OWNER_RETURN_TIMEOUT = 5000000000"

text \<open>The installed sender of media commands is the identity of its channel. The events are those emitted on
  the bus, in order. The worlds behind the web socket and the UDP socket are part of the state.\<close>

record ('ds, 'w, 'u, 'p) VoiceSessionRuntime =
  vr_state :: Snapshot
  vr_events :: "SessionEventRecord list"
  vr_voice :: "'ds ConnectedVoiceSession option"
  vr_media_commands :: "nat option"
  vr_channels :: "MediaCommand channel list"
  vr_media_owner_return_count :: u64
  vr_playback :: "'p option"
  vr_positions :: pos_heap
  vr_playback_metrics :: "PlaybackStabilitySnapshot option"
  vr_playback_epoch :: u64
  vr_rollover_epoch :: u64
  vr_voice_transport_generation :: u64
  vr_gateway_interruptions :: u64
  vr_dave_interruptions :: u64
  vr_reconnect_interruptions :: u64
  vr_playback_reset_pending :: bool
  vr_world :: 'w
  vr_wire :: 'u

definition VoiceSessionRuntime_with ::
  "'p option \<Rightarrow> pos_heap \<Rightarrow> 'w \<Rightarrow> 'u \<Rightarrow> ('ds, 'w, 'u, 'p) VoiceSessionRuntime" where
  "VoiceSessionRuntime_with playback positions w u =
     \<lparr>vr_state = Snapshot_default, vr_events = [], vr_voice = None, vr_media_commands = None, vr_channels = [],
      vr_media_owner_return_count = 0, vr_playback = playback, vr_positions = positions,
      vr_playback_metrics = None, vr_playback_epoch = 0, vr_rollover_epoch = 0, vr_voice_transport_generation = 0,
      vr_gateway_interruptions = 0, vr_dave_interruptions = 0, vr_reconnect_interruptions = 0,
      vr_playback_reset_pending = False, vr_world = w, vr_wire = u\<rparr>"

definition VoiceSessionRuntime_new :: "'w \<Rightarrow> 'u \<Rightarrow> ('ds, 'w, 'u, 'p) VoiceSessionRuntime" where
  "VoiceSessionRuntime_new w u = VoiceSessionRuntime_with None [] w u"

definition with_playback_worker ::
  "'p \<Rightarrow> pos_heap \<Rightarrow> 'w \<Rightarrow> 'u \<Rightarrow> ('ds, 'w, 'u, 'p) VoiceSessionRuntime" where
  "with_playback_worker worker positions w u = VoiceSessionRuntime_with (Some worker) positions w u"

text \<open>The playback worker behind its lock: how it prepares a source, fills a queue and is reset. An operation
  that does not return gives None.\<close>

record 'p worker_ops =
  wo_prepare :: "string \<Rightarrow> OpusFrameQueue \<Rightarrow> pos_heap \<Rightarrow> 'p
    \<Rightarrow> ((PlaybackError + PlaybackSource) \<times> OpusFrameQueue \<times> pos_heap \<times> 'p) option"
  wo_fill :: "u64 \<Rightarrow> PlaybackSource \<Rightarrow> OpusFrameQueue \<Rightarrow> pos_heap \<Rightarrow> 'p
    \<Rightarrow> ((PlaybackError + unit) \<times> PlaybackSource \<times> OpusFrameQueue \<times> pos_heap \<times> 'p) option"
  wo_reset :: "pos_heap \<Rightarrow> 'p \<Rightarrow> pos_heap \<times> 'p"
  wo_recovery_metrics :: "'p \<Rightarrow> PlaybackRecoveryMetrics"

text \<open>The worker as it is written (\<open>Worker\<close>), with the world its stream and the music service live in.\<close>

definition worker_ops_of ::
  "nat \<Rightarrow> 'q playback_io \<Rightarrow> ('d, 'e, 's) opus_lib \<Rightarrow> (('d, 'e, 's) PlaybackWorker \<times> 'q) worker_ops" where
  "worker_ops_of fuel io lib =
     \<lparr>wo_prepare = (\<lambda>video_id queue heap (wk, q).
        map_option (\<lambda>(r, wk1, queue1, heap1, q1). (r, queue1, heap1, wk1, q1)) (prepare fuel io lib video_id wk queue heap q)),
      wo_fill = (\<lambda>target source queue heap (wk, q).
        map_option (\<lambda>(r, st). (r, fs_source st, fs_queue st, fs_heap st, fs_worker st, fs_world st))
          (fill_queue_to_duration_ms fuel io lib target
            \<lparr>fs_worker = wk, fs_source = source, fs_queue = queue, fs_heap = heap, fs_world = q\<rparr>)),
      wo_reset = (\<lambda>heap (wk, q). let (wk1, heap1) = worker_reset wk heap in (heap1, wk1, q)),
      wo_recovery_metrics = (\<lambda>(wk, q). recovery_metrics (wk_recovery wk))\<rparr>"

section \<open>Epochs\<close>

definition begin_playback :: "('ds, 'w, 'u, 'p) VoiceSessionRuntime \<Rightarrow> u64 \<times> ('ds, 'w, 'u, 'p) VoiceSessionRuntime" where
  "begin_playback rt = (let epoch = vr_playback_epoch rt + 1 in (epoch, rt\<lparr>vr_playback_epoch := epoch\<rparr>))"

definition invalidate_playback :: "('ds, 'w, 'u, 'p) VoiceSessionRuntime \<Rightarrow> ('ds, 'w, 'u, 'p) VoiceSessionRuntime" where
  "invalidate_playback rt = rt\<lparr>vr_playback_epoch := vr_playback_epoch rt + 1\<rparr>"

definition begin_rollover :: "('ds, 'w, 'u, 'p) VoiceSessionRuntime \<Rightarrow> u64 \<times> ('ds, 'w, 'u, 'p) VoiceSessionRuntime" where
  "begin_rollover rt = (let epoch = vr_rollover_epoch rt + 1 in (epoch, rt\<lparr>vr_rollover_epoch := epoch\<rparr>))"

definition invalidate_rollover :: "('ds, 'w, 'u, 'p) VoiceSessionRuntime \<Rightarrow> ('ds, 'w, 'u, 'p) VoiceSessionRuntime" where
  "invalidate_rollover rt = rt\<lparr>vr_rollover_epoch := vr_rollover_epoch rt + 1\<rparr>"

definition defer_playback_reset :: "('ds, 'w, 'u, 'p) VoiceSessionRuntime \<Rightarrow> ('ds, 'w, 'u, 'p) VoiceSessionRuntime" where
  "defer_playback_reset rt = rt\<lparr>vr_playback_reset_pending := True\<rparr>"

definition consume_playback_reset :: "('ds, 'w, 'u, 'p) VoiceSessionRuntime \<Rightarrow> bool \<times> ('ds, 'w, 'u, 'p) VoiceSessionRuntime" where
  "consume_playback_reset rt = (vr_playback_reset_pending rt, rt\<lparr>vr_playback_reset_pending := False\<rparr>)"

definition bump_transport_generation :: "('ds, 'w, 'u, 'p) VoiceSessionRuntime \<Rightarrow> ('ds, 'w, 'u, 'p) VoiceSessionRuntime" where
  "bump_transport_generation rt = rt\<lparr>vr_voice_transport_generation := vr_voice_transport_generation rt + 1\<rparr>"

definition playback_interrupted :: "u64 \<Rightarrow> ('ds, 'w, 'u, 'p) VoiceSessionRuntime \<Rightarrow> bool" where
  "playback_interrupted epoch rt \<longleftrightarrow> vr_playback_epoch rt \<noteq> epoch"

definition playback_state_is_current :: "u64 \<Rightarrow> ('ds, 'w, 'u, 'p) VoiceSessionRuntime \<Rightarrow> bool" where
  "playback_state_is_current epoch rt \<longleftrightarrow> vr_playback_epoch rt = epoch"

definition rollover_is_current :: "u64 \<Rightarrow> ('ds, 'w, 'u, 'p) VoiceSessionRuntime \<Rightarrow> bool" where
  "rollover_is_current epoch rt \<longleftrightarrow> vr_rollover_epoch rt = epoch"

section \<open>The snapshot\<close>

definition apply_voice_context :: "VoiceContext \<Rightarrow> Snapshot \<Rightarrow> Snapshot" where
  "apply_voice_context voice snapshot =
     snapshot\<lparr>snap_guild_id := Some (vc_guild_id voice), snap_channel_id := Some (vc_channel_id voice)\<rparr>"

definition apply_rollover_state :: "'ds ConnectedVoiceSession \<Rightarrow> Snapshot \<Rightarrow> Snapshot" where
  "apply_rollover_state session snapshot =
     snapshot\<lparr>snap_recovering := roll_recovering (vs_rollover session),
              snap_voice_reconnecting := roll_voice_reconnecting (vs_rollover session)\<rparr>"

text \<open>No track: what every way of ending a track resets.\<close>

definition clear_track :: "Snapshot \<Rightarrow> Snapshot" where
  "clear_track snapshot =
     snapshot\<lparr>snap_current_video_id := None, snap_selected_itag := None, snap_queue_depth := 0, snap_position_ms := 0\<rparr>"

definition on_state ::
  "(Snapshot \<Rightarrow> Snapshot) \<Rightarrow> ('ds, 'w, 'u, 'p) VoiceSessionRuntime \<Rightarrow> ('ds, 'w, 'u, 'p) VoiceSessionRuntime" where
  "on_state f rt = rt\<lparr>vr_state := f (vr_state rt)\<rparr>"

definition event_now :: "SessionEventKind \<Rightarrow> ('ds, 'w, 'u, 'p) VoiceSessionRuntime \<Rightarrow> SessionEventRecord" where
  "event_now kind rt = SessionEventRecord_from_snapshot kind (vr_state rt)"

definition voice_ready_or_idle :: "Snapshot \<Rightarrow> SessionState" where
  "voice_ready_or_idle snapshot =
    (if snap_guild_id snapshot \<noteq> None \<and> snap_channel_id snapshot \<noteq> None then VoiceReady else Idle)"

text \<open>Publishing a playback state: the event to emit, if any. An unsupported kind is refused after the track
  fields are written.\<close>

definition emit_playback_state ::
  "SessionEventKind \<Rightarrow> string \<Rightarrow> u64 \<Rightarrow> u32 \<Rightarrow> usize \<Rightarrow> u64 \<Rightarrow> ('ds, 'w, 'u, 'p) VoiceSessionRuntime
    \<Rightarrow> (RuntimeError + SessionEventRecord option) \<times> ('ds, 'w, 'u, 'p) VoiceSessionRuntime" where
  "emit_playback_state kind video_id playback_epoch itag queue_depth position_ms rt =
    (if playback_interrupted playback_epoch rt then (Inr None, rt)
     else if snap_state (vr_state rt) = Paused then (Inr None, rt)
     else
       (let rt1 = on_state (\<lambda>s. s\<lparr>snap_current_video_id := Some video_id, snap_selected_itag := Some itag,
                                 snap_queue_depth := queue_depth, snap_position_ms := position_ms\<rparr>) rt
        in case kind of
             EvBuffering \<Rightarrow> (let rt2 = on_state (\<lambda>s. s\<lparr>snap_state := Buffering\<rparr>) rt1 in (Inr (Some (event_now kind rt2)), rt2))
           | EvPlaying \<Rightarrow> (let rt2 = on_state (\<lambda>s. s\<lparr>snap_state := Playing\<rparr>) rt1 in (Inr (Some (event_now kind rt2)), rt2))
           | _ \<Rightarrow> (Inl (RuntimeInvalidState ''unsupported playback state event''), rt1)))"

section \<open>Media commands\<close>

definition media_owner_is_active :: "('ds, 'w, 'u, 'p) VoiceSessionRuntime \<Rightarrow> bool" where
  "media_owner_is_active rt \<longleftrightarrow> vr_media_commands rt \<noteq> None"

definition install_media_commands ::
  "('ds, 'w, 'u, 'p) VoiceSessionRuntime \<Rightarrow> nat \<times> ('ds, 'w, 'u, 'p) VoiceSessionRuntime" where
  "install_media_commands rt =
    (let channel = length (vr_channels rt)
     in (channel, rt\<lparr>vr_channels := vr_channels rt @ [new_channel PLAYBACK_MEDIA_COMMAND_CHANNEL_CAPACITY],
                     vr_media_commands := Some channel\<rparr>))"

definition clear_media_commands_if_current ::
  "nat \<Rightarrow> ('ds, 'w, 'u, 'p) VoiceSessionRuntime \<Rightarrow> ('ds, 'w, 'u, 'p) VoiceSessionRuntime" where
  "clear_media_commands_if_current channel rt =
    (if vr_media_commands rt = Some channel then rt\<lparr>vr_media_commands := None\<rparr> else rt)"

definition clear_media_commands :: "('ds, 'w, 'u, 'p) VoiceSessionRuntime \<Rightarrow> ('ds, 'w, 'u, 'p) VoiceSessionRuntime" where
  "clear_media_commands rt = rt\<lparr>vr_media_commands := None\<rparr>"

definition mark_media_owner_returned :: "('ds, 'w, 'u, 'p) VoiceSessionRuntime \<Rightarrow> ('ds, 'w, 'u, 'p) VoiceSessionRuntime" where
  "mark_media_owner_returned rt = rt\<lparr>vr_media_owner_return_count := vr_media_owner_return_count rt + 1\<rparr>"

text \<open>A send into a channel: refused when the receiver is gone, and waiting (None) while the channel is full.\<close>

definition channel_send ::
  "nat \<Rightarrow> MediaCommand \<Rightarrow> ('ds, 'w, 'u, 'p) VoiceSessionRuntime \<Rightarrow> ('ds, 'w, 'u, 'p) VoiceSessionRuntime option" where
  "channel_send channel command rt =
    (let c = vr_channels rt ! channel in
     if \<not> chan_open c then Some rt
     else if length (chan_items c) < chan_capacity c
     then Some (rt\<lparr>vr_channels := (vr_channels rt)[channel := snd (try_send c command)]\<rparr>)
     else None)"

definition channel_try_send ::
  "nat \<Rightarrow> MediaCommand \<Rightarrow> ('ds, 'w, 'u, 'p) VoiceSessionRuntime \<Rightarrow> ('ds, 'w, 'u, 'p) VoiceSessionRuntime" where
  "channel_try_send channel command rt =
     rt\<lparr>vr_channels := (vr_channels rt)[channel := snd (try_send (vr_channels rt ! channel) command)]\<rparr>"

end
