(* ===== verification/SessionTasks.thy ===== *)
theory SessionTasks
  imports SessionRuntime
begin

text \<open>
  The commands of the session runtime as tasks (\<open>join_voice\<close>, \<open>update_voice_context\<close>, \<open>play_with_epoch\<close>,
  \<open>send_playback_frames\<close>, \<open>pause\<close>, \<open>resume\<close>, \<open>stop\<close>, \<open>leave_voice\<close>, \<open>rollover_voice_context\<close> and
  \<open>resume_after_rollover\<close> in \<open>session/runtime.rs\<close>). A task that waits goes on as itself. Steps in which a
  lock is held across an await are one step: nobody else can see what they change.
\<close>

section \<open>Tasks\<close>

datatype play_origin = ByCommand | ByRollover u64

record play_request =
  rq_video_id :: string
  rq_epoch :: u64
  rq_origin :: play_origin

record prepared_play =
  py_queue :: OpusFrameQueue
  py_source :: PlaybackSource
  py_itag :: u32
  py_resume_position_ms :: u64
  py_recovery_baseline :: PlaybackRecoveryMetrics
  py_prepare_started :: nanos

record filled_play =
  fp_play :: prepared_play
  fp_source_ended :: bool
  fp_sample :: ProducerMetricsSample

text \<open>The variables of \<open>send_playback_frames\<close> that live across its awaits.\<close>

record 'ds sending =
  sd_itag :: u32
  sd_generation :: u64
  sd_channel :: nat
  sd_position :: nat
  sd_pipeline :: pipeline
  sd_gateway_baseline :: u64
  sd_dave_baseline :: u64
  sd_reconnect_baseline :: u64
  sd_driver_done :: bool
  sd_ended_naturally :: bool
  sd_result :: "RuntimeError + unit"
  sd_returned_session :: "'ds ConnectedVoiceSession option"
  sd_interrupted :: bool
  sd_restore :: bool
  sd_boundary_reason :: "PreparedPlayoutQueueEventReason option"
  sd_cleanup_result :: "RuntimeError + unit"

record rollover =
  ro_voice :: VoiceContext
  ro_resume_video_id :: "string option"
  ro_epoch :: u64

datatype send_stage =
    SendPlays | SendLoops | SendCleans | SendAwaitsExit | SendChecks | SendBounds | SendRestores | SendEnds
  | SendPublishes

datatype 'ds play_stage =
    PlayHints
  | PlayResolves u64
  | PlayAwaitsVoice "nanos option"
  | PlayPrepares
  | PlayPrepared prepared_play
  | PlayBuffers prepared_play
  | PlayFills prepared_play
  | PlayFilled filled_play
  | PlayTakes filled_play
  | PlaySettles filled_play "'ds ConnectedVoiceSession"
  | PlaySettled filled_play "'ds ConnectedVoiceSession" nanos
  | PlayReturns "'ds ConnectedVoiceSession" "RuntimeError + unit"
  | SendStarts filled_play "'ds ConnectedVoiceSession" nanos
  | Sending send_stage "'ds sending"

datatype refresh_stage = RefreshStarts | RefreshOwned | RefreshSuspends | RefreshApplies

datatype stop_stage = StopOwner | StopWaits bool u64 "nanos option" | StopInvalidates bool u64 | StopBounds bool

datatype leave_stage = LeaveOwner | LeaveWaits u64 "nanos option" | LeaveClears | LeaveResets | LeaveDrops

text \<open>The epoch beside a stage of a rollover is the playback epoch under which the track may be resumed.\<close>

datatype 'ds roll_stage =
    RollOwner
  | RollWaits u64 "nanos option"
  | RollMatches
  | MatchReconnects u64
  | MatchRefreshes u64
  | RollClears
  | RollReconnects u64
  | RollConnects u64
  | RollFails u64 VoiceError
  | RollInstalls u64 "'ds ConnectedVoiceSession"
  | RollApplies u64 VoiceContext bool bool
  | RollResumes u64
  | RollBegins string

text \<open>\<open>ReadsTrack\<close> waits for the lock of the snapshot and goes on as its first task when the snapshot names the video,
  as its second otherwise.\<close>

datatype 'ds task =
    Ended "RuntimeError + unit"
  | Crashed
  | Starts Command
  | Emits SessionEventRecord "'ds task"
  | Commands MediaCommand "'ds task"
  | SendsTo nat MediaCommand "'ds task"
  | Forks "'ds task" "'ds task"
  | JoinConnects VoiceContext
  | JoinInstalls "'ds ConnectedVoiceSession"
  | Refreshes VoiceContext refresh_stage
  | Plays play_request "'ds play_stage"
  | PauseApplies
  | ResumeApplies
  | Stops stop_stage
  | Leaves leave_stage
  | RollStarts VoiceContext
  | Rolls rollover "'ds roll_stage"
  | Quiesces "'ds task"
  | Interrupts string "'ds task"
  | Recovers string "'ds task"
  | ReadsTrack string "'ds task" "'ds task"
  | ResumeStarts play_request u64
  | ResumeFails play_request u64 RuntimeError

text \<open>What the loop of \<open>send_playback_frames\<close> receives.\<close>

datatype 'ds loop_event =
    LoopMetric PlaybackPipelineMetric
  | LoopMetricsClosed
  | LoopExit "'ds LiveMediaDriverExit"
  | LoopExitLost
  | LoopTick

record 'ds moment =
  mo_now :: nanos
  mo_arrivals :: arrivals
  mo_ticks :: "tick_clock list"
  mo_handshake :: "VoiceError + 'ds VoiceHandshakeResult option"
  mo_speaking_duration :: nanos
  mo_source_depth :: OpusBufferDepth
  mo_event :: "'ds loop_event"

type_synonym ('ds, 'w, 'u, 'p) task_step = "'ds task \<times> ('ds, 'w, 'u, 'p) VoiceSessionRuntime"

text \<open>A playback ends with its result; a failed playback a rollover resumed is handled by the rollover.\<close>

definition finish_play :: "play_request \<Rightarrow> RuntimeError + unit \<Rightarrow> 'ds task" where
  "finish_play rq result =
    (case rq_origin rq of
       ByCommand \<Rightarrow> Ended result
     | ByRollover rollover_epoch \<Rightarrow>
        (case result of Inr _ \<Rightarrow> Ended (Inr ()) | Inl err \<Rightarrow> ResumeFails rq rollover_epoch err))"

section \<open>Waiting for the media owner\<close>

definition deadline_or :: "nanos option \<Rightarrow> nanos \<Rightarrow> nanos \<Rightarrow> nanos" where
  "deadline_or deadline now timeout = (case deadline of Some at \<Rightarrow> at | None \<Rightarrow> now + timeout)"

text \<open>One look: None while the wait goes on.\<close>

definition wait_for_media_owner_session ::
  "u64 \<Rightarrow> nanos \<Rightarrow> nanos \<Rightarrow> ('ds, 'w, 'u, 'p) VoiceSessionRuntime \<Rightarrow> (RuntimeError + unit) option" where
  "wait_for_media_owner_session generation deadline now rt =
    (if vr_voice_transport_generation rt \<noteq> generation then Some (Inr ())
     else if vr_voice rt \<noteq> None then Some (Inr ())
     else if now \<ge> deadline
     then Some (Inl (RuntimeInvalidState ''live media driver did not return voice session''))
     else None)"

definition wait_for_media_owner_stopped_after ::
  "u64 \<Rightarrow> nanos \<Rightarrow> nanos \<Rightarrow> ('ds, 'w, 'u, 'p) VoiceSessionRuntime \<Rightarrow> (RuntimeError + unit) option" where
  "wait_for_media_owner_stopped_after previous_return_count deadline now rt =
    (if vr_media_owner_return_count rt > previous_return_count then Some (Inr ())
     else if now \<ge> deadline then Some (Inl (RuntimeInvalidState ''live media driver did not stop''))
     else None)"

definition wait_for_connected_voice ::
  "u64 \<Rightarrow> nanos \<Rightarrow> nanos \<Rightarrow> ('ds, 'w, 'u, 'p) VoiceSessionRuntime \<Rightarrow> bool option" where
  "wait_for_connected_voice playback_epoch deadline now rt =
    (if playback_interrupted playback_epoch rt then Some False
     else (case map_option is_connected (vr_voice rt) of
             Some True \<Rightarrow> Some True
           | Some False \<Rightarrow> (if now < deadline then None else Some False)
           | None \<Rightarrow> Some False))"

section \<open>The boundary of a stop, with a deadline sender of its own\<close>

text \<open>The boundary code of the driver runs over a driver around the session alone. Shutting the sender down
  fails when its thread has ended; which error the thread ended with is not kept.\<close>

definition boundary_driver ::
  "'ds ConnectedVoiceSession \<Rightarrow> u64 \<Rightarrow> 'ds moment \<Rightarrow> 'w \<Rightarrow> 'u \<Rightarrow> ('ds, 'w, 'u) LiveMediaDriver" where
  "boundary_driver session cursor m w u =
     (LiveMediaDriver_from
        \<lparr>in_playback_epoch = 0, in_current_playback_epoch = 0,
         in_source = SharedSourceBuffer_new (OpusFrameQueue_new 0) True, in_session = session,
         in_metrics = new_channel 0\<rparr> (mo_now m) (mo_arrivals m) (mo_ticks m) w u)
       \<lparr>ld_sender := LiveDeadlineSender_spawn cursor 0 (mo_now m + FRAME_DURATION)\<rparr>"

definition deadline_sender_shutdown :: "LiveDeadlineSender \<Rightarrow> RuntimeError + unit" where
  "deadline_sender_shutdown sender =
    (if lds_running sender then Inr () else Inl (RuntimeInvalidState ''deadline sender task failed''))"

definition send_stop_audio_boundary_with_owned_deadline_sender ::
  "('ds, 'w, 'u) media_io \<Rightarrow> 'ds moment \<Rightarrow> 'ds ConnectedVoiceSession \<Rightarrow> 'w \<Rightarrow> 'u
    \<Rightarrow> unit run \<times> 'ds ConnectedVoiceSession \<times> 'w \<times> 'u" where
  "send_stop_audio_boundary_with_owned_deadline_sender io m session w u =
    (case cloned_prepared_packet_sender session of
       Inl err \<Rightarrow> (Raises (RuntimeVoice err), session, w, u)
     | Inr cursor \<Rightarrow>
        (let (r, d) = run_bind (send_stop_audio_boundary_through_deadline_sender io 0 (boundary_driver session cursor m w u))
               (\<lambda>_ d1. (run_of (deadline_sender_shutdown (ld_sender d1)), d1))
         in (r, ld_session d, ld_world d, ld_wire d)))"

text \<open>What the tasks call and do not define: the libraries and sockets of the session, the playback worker, and how
  the errors of other packages print.\<close>

record ('ds, 'w, 'u, 'p) runtime_env =
  env_io :: "('ds, 'w, 'u) media_io"
  env_worker :: "'p worker_ops"
  env_voice_text :: "VoiceError \<Rightarrow> string"
  env_playback_text :: "PlaybackError \<Rightarrow> string"

fun PlaybackError_display :: "(PlaybackError \<Rightarrow> string) \<Rightarrow> PlaybackError \<Rightarrow> string" where
  "PlaybackError_display foreign (MediaParse message) = ''media parse error: '' @ message"
| "PlaybackError_display foreign (MediaParseDetail message) = ''media parse error: '' @ message"
| "PlaybackError_display foreign UnsupportedFormat = ''unsupported format''"
| "PlaybackError_display foreign BufferFull = ''buffer is full''"
| "PlaybackError_display foreign (PlaybackError.InvalidState message) = ''invalid state: '' @ message"
| "PlaybackError_display foreign err = foreign err"

fun RuntimeError_display :: "('ds, 'w, 'u, 'p) runtime_env \<Rightarrow> RuntimeError \<Rightarrow> string" where
  "RuntimeError_display env (RuntimeInvalidState message) = ''invalid state: '' @ message"
| "RuntimeError_display env (RuntimePlayback err) = PlaybackError_display (env_playback_text env) err"
| "RuntimeError_display env (RuntimeVoice err) = VoiceError_display (env_voice_text env) err"

section \<open>Joining\<close>

definition join_starts ::
  "VoiceContext \<Rightarrow> ('ds, 'w, 'u, 'p) VoiceSessionRuntime \<Rightarrow> ('ds, 'w, 'u, 'p) task_step" where
  "join_starts voice rt =
    (case ensure_joinable_session (vr_state rt) of
       Inl err \<Rightarrow> (Ended (Inl err), rt)
     | Inr _ \<Rightarrow>
        (let rt1 = on_state (\<lambda>s. (clear_track (apply_voice_context voice s))
                     \<lparr>snap_last_reason := None, snap_state := ConnectingVoice\<rparr>) rt
         in (Emits (event_now EvVoiceConnecting rt1) (JoinConnects voice), rt1)))"

text \<open>Connecting and settling, shared with a rollover: the session, an error, or a panic of the DAVE library.\<close>

definition connect_and_settle ::
  "('ds, 'w, 'u, 'p) runtime_env \<Rightarrow> 'ds moment \<Rightarrow> VoiceContext \<Rightarrow> 'w \<Rightarrow> 'ds ConnectedVoiceSession outcome \<times> 'w" where
  "connect_and_settle env m voice w =
    (case mo_handshake m of
       Inl err \<Rightarrow> (Failed err, w)
     | Inr result \<Rightarrow>
        (case session_from_handshake voice result of
           Inl err \<Rightarrow> (Failed err, w)
         | Inr session \<Rightarrow>
            (case settle_initial_dave_for_join (io_davey (env_io env)) (io_ws (env_io env)) (mo_now m)
                    (mo_arrivals m) session w of
               (Done _, _, _, session1, w1) \<Rightarrow> (Done session1, w1)
             | (Failed err, _, _, _, w1) \<Rightarrow> (Failed err, w1)
             | (Panicked, _, _, _, w1) \<Rightarrow> (Panicked, w1))))"

definition join_connects ::
  "('ds, 'w, 'u, 'p) runtime_env \<Rightarrow> 'ds moment \<Rightarrow> VoiceContext \<Rightarrow> ('ds, 'w, 'u, 'p) VoiceSessionRuntime
    \<Rightarrow> ('ds, 'w, 'u, 'p) task_step" where
  "join_connects env m voice rt =
    (case connect_and_settle env m voice (vr_world rt) of
       (Done session, w) \<Rightarrow> (JoinInstalls session, rt\<lparr>vr_world := w\<rparr>)
     | (Failed err, w) \<Rightarrow> (Ended (Inl (RuntimeVoice err)), rt\<lparr>vr_world := w\<rparr>)
     | (Panicked, w) \<Rightarrow> (Crashed, rt\<lparr>vr_world := w\<rparr>))"

definition join_installs ::
  "'ds ConnectedVoiceSession \<Rightarrow> ('ds, 'w, 'u, 'p) VoiceSessionRuntime \<Rightarrow> ('ds, 'w, 'u, 'p) task_step" where
  "join_installs session rt =
    (let rt1 = (on_state (\<lambda>s. (clear_track (apply_rollover_state session (apply_voice_context (vs_voice session) s)))
                  \<lparr>snap_last_reason := None,
                   snap_state := (if is_connected session then VoiceReady else ConnectingVoice)\<rparr>) rt)
                \<lparr>vr_voice := Some session\<rparr>
     in if snap_state (vr_state rt1) = VoiceReady then (Emits (event_now EvVoiceReady rt1) (Ended (Inr ())), rt1)
        else (Ended (Inr ()), rt1))"

section \<open>Playing\<close>

definition play_hints ::
  "play_request \<Rightarrow> ('ds, 'w, 'u, 'p) VoiceSessionRuntime \<Rightarrow> ('ds, 'w, 'u, 'p) task_step" where
  "play_hints rq rt =
     (Plays rq (PlayResolves
        (if snap_current_video_id (vr_state rt) = Some (rq_video_id rq) then snap_position_ms (vr_state rt) else 0)), rt)"

definition play_resolves ::
  "play_request \<Rightarrow> u64 \<Rightarrow> ('ds, 'w, 'u, 'p) VoiceSessionRuntime \<Rightarrow> ('ds, 'w, 'u, 'p) task_step" where
  "play_resolves rq resume_position_hint rt =
    (if playback_interrupted (rq_epoch rq) rt then (finish_play rq (Inr ()), rt)
     else (case ensure_active_voice_session (vr_state rt) ''play'' of
             Inl err \<Rightarrow> (finish_play rq (Inl err), rt)
           | Inr _ \<Rightarrow>
              (let rt1 = on_state (\<lambda>s. s\<lparr>snap_current_video_id := Some (rq_video_id rq), snap_selected_itag := None,
                           snap_queue_depth := 0, snap_position_ms := resume_position_hint, snap_last_reason := None,
                           snap_state := ResolvingTrack\<rparr>) rt
               in (Emits (event_now EvTrackResolving rt1) (Plays rq (PlayAwaitsVoice None)), rt1))))"

definition play_awaits_voice ::
  "'ds moment \<Rightarrow> play_request \<Rightarrow> nanos option \<Rightarrow> ('ds, 'w, 'u, 'p) VoiceSessionRuntime \<Rightarrow> ('ds, 'w, 'u, 'p) task_step" where
  "play_awaits_voice m rq deadline rt =
    (if vr_playback rt = None then (finish_play rq (Inr ()), rt)
     else (let at = deadline_or deadline (mo_now m) MEDIA_SENDER_DAVE_READY_TIMEOUT in
           case wait_for_connected_voice (rq_epoch rq) at (mo_now m) rt of
             None \<Rightarrow> (Plays rq (PlayAwaitsVoice (Some at)), rt)
           | Some True \<Rightarrow> (Plays rq PlayPrepares, rt)
           | Some False \<Rightarrow> (finish_play rq (Inr ()), rt)))"

definition source_queue_new :: OpusFrameQueue where
  "source_queue_new = OpusFrameQueue_with_resource_limits PLAYBACK_QUEUE_CAPACITY PLAYBACK_BUFFER_MEMORY_CAP_BYTES
     PLAYBACK_SOURCE_BUFFER_HIGH_WATERMARK_MS"

definition play_prepares ::
  "('ds, 'w, 'u, 'p) runtime_env \<Rightarrow> 'ds moment \<Rightarrow> play_request \<Rightarrow> ('ds, 'w, 'u, 'p) VoiceSessionRuntime
    \<Rightarrow> ('ds, 'w, 'u, 'p) task_step" where
  "play_prepares env m rq rt =
    (case vr_playback rt of
       None \<Rightarrow> (finish_play rq (Inr ()), rt)
     | Some worker \<Rightarrow>
        (let ops = env_worker env;
             (reset, rt1) = consume_playback_reset rt;
             (heap, worker1) = (if reset then wo_reset ops (vr_positions rt) worker else (vr_positions rt, worker))
         in case wo_prepare ops (rq_video_id rq) source_queue_new heap worker1 of
              None \<Rightarrow> (Plays rq PlayPrepares, rt)
            | Some (Inl err, _, heap1, worker2) \<Rightarrow>
                (finish_play rq (Inl (RuntimePlayback err)), rt1\<lparr>vr_positions := heap1, vr_playback := Some worker2\<rparr>)
            | Some (Inr source, queue, heap1, worker2) \<Rightarrow>
                (Plays rq (PlayPrepared
                   \<lparr>py_queue = queue, py_source = source, py_itag = selected_itag (src_resolved source),
                    py_resume_position_ms = Position.sent_duration_ms (live_position heap1 source),
                    py_recovery_baseline = wo_recovery_metrics ops worker, py_prepare_started = mo_now m\<rparr>),
                 rt1\<lparr>vr_positions := heap1, vr_playback := Some worker2\<rparr>)))"

definition play_prepared ::
  "play_request \<Rightarrow> prepared_play \<Rightarrow> ('ds, 'w, 'u, 'p) VoiceSessionRuntime \<Rightarrow> ('ds, 'w, 'u, 'p) task_step" where
  "play_prepared rq py rt =
    (if playback_interrupted (rq_epoch rq) rt then (finish_play rq (Inr ()), rt) else (Plays rq (PlayBuffers py), rt))"

text \<open>After a state was published: its event goes out first, if there is one.\<close>

definition after_emit ::
  "play_request \<Rightarrow> (RuntimeError + SessionEventRecord option) \<Rightarrow> 'ds task \<Rightarrow> 'ds task" where
  "after_emit rq r k =
    (case r of Inl err \<Rightarrow> finish_play rq (Inl err) | Inr None \<Rightarrow> k | Inr (Some event) \<Rightarrow> Emits event k)"

definition play_buffers ::
  "play_request \<Rightarrow> prepared_play \<Rightarrow> ('ds, 'w, 'u, 'p) VoiceSessionRuntime \<Rightarrow> ('ds, 'w, 'u, 'p) task_step" where
  "play_buffers rq py rt =
    (let (r, rt1) = emit_playback_state EvBuffering (rq_video_id rq) (rq_epoch rq) (py_itag py)
           (OpusFrameQueue_len (py_queue py)) (py_resume_position_ms py) rt
     in (after_emit rq r (Plays rq (PlayFills py)), rt1))"

definition play_fills ::
  "('ds, 'w, 'u, 'p) runtime_env \<Rightarrow> 'ds moment \<Rightarrow> play_request \<Rightarrow> prepared_play
    \<Rightarrow> ('ds, 'w, 'u, 'p) VoiceSessionRuntime \<Rightarrow> ('ds, 'w, 'u, 'p) task_step" where
  "play_fills env m rq py rt =
    (case vr_playback rt of
       None \<Rightarrow> (finish_play rq (Inr ()), rt)
     | Some worker \<Rightarrow>
        (case wo_fill (env_worker env) PLAYBACK_SOURCE_BUFFER_TARGET_MS (py_source py) (py_queue py) (vr_positions rt) worker of
           None \<Rightarrow> (Plays rq (PlayFills py), rt)
         | Some (Inl err, _, _, heap, worker1) \<Rightarrow>
             (finish_play rq (Inl (RuntimePlayback err)), rt\<lparr>vr_positions := heap, vr_playback := Some worker1\<rparr>)
         | Some (Inr _, source, queue, heap, worker1) \<Rightarrow>
             (Plays rq (PlayFilled
                \<lparr>fp_play = py\<lparr>py_source := source, py_queue := queue\<rparr>,
                 fp_source_ended =
                   (buffered_samples queue < samples_from_duration_ms_u64 PLAYBACK_SOURCE_BUFFER_TARGET_MS
                    \<and> src_pending_packets source = []),
                 fp_sample = \<lparr>sample_fill_duration = mo_now m - py_prepare_started py,
                              sample_produced_frames = OpusFrameQueue_len queue,
                              sample_source_buffer_depth = OpusFrameQueue_depth queue,
                              sample_stream_metrics = stream_metrics (src_stream source),
                              sample_recovery_metrics = wo_recovery_metrics (env_worker env) worker1\<rparr>\<rparr>),
              rt\<lparr>vr_positions := heap, vr_playback := Some worker1\<rparr>)))"

definition play_filled ::
  "play_request \<Rightarrow> filled_play \<Rightarrow> ('ds, 'w, 'u, 'p) VoiceSessionRuntime \<Rightarrow> ('ds, 'w, 'u, 'p) task_step" where
  "play_filled rq fp rt =
    (if playback_interrupted (rq_epoch rq) rt then (finish_play rq (Inr ()), rt) else (Plays rq (PlayTakes fp), rt))"

text \<open>Under the lock of the session: the playback takes it, if it is still the current one.\<close>

definition play_takes ::
  "play_request \<Rightarrow> filled_play \<Rightarrow> ('ds, 'w, 'u, 'p) VoiceSessionRuntime \<Rightarrow> ('ds, 'w, 'u, 'p) task_step" where
  "play_takes rq fp rt =
    (if playback_interrupted (rq_epoch rq) rt then (finish_play rq (Inr ()), rt)
     else (case vr_voice rt of
             None \<Rightarrow> (finish_play rq (Inl (RuntimeInvalidState ''play requires active voice session'')), rt)
           | Some session \<Rightarrow> (Plays rq (PlaySettles fp session), rt\<lparr>vr_voice := None\<rparr>)))"

definition play_settles ::
  "('ds, 'w, 'u, 'p) runtime_env \<Rightarrow> 'ds moment \<Rightarrow> play_request \<Rightarrow> filled_play \<Rightarrow> 'ds ConnectedVoiceSession
    \<Rightarrow> ('ds, 'w, 'u, 'p) VoiceSessionRuntime \<Rightarrow> ('ds, 'w, 'u, 'p) task_step" where
  "play_settles env m rq fp session rt =
    (case settle_pending_dave_transition_for_playback (io_davey (env_io env)) (io_ws (env_io env)) (mo_now m)
            (mo_arrivals m) session (vr_world rt) of
       (Panicked, _, _, _, w) \<Rightarrow> (Crashed, rt\<lparr>vr_world := w\<rparr>)
     | (Failed err, _, _, session1, w) \<Rightarrow>
         (Plays rq (PlayReturns session1 (Inl (RuntimeVoice err))), rt\<lparr>vr_world := w\<rparr>)
     | (Done _, _, _, session1, w) \<Rightarrow>
        (case prepare_speaking_before_media (io_ws (env_io env)) session1 w of
           (Inl err, session2, w1) \<Rightarrow>
             (Plays rq (PlayReturns session2 (Inl (RuntimeVoice err))), rt\<lparr>vr_world := w1\<rparr>)
         | (Inr _, session2, w1) \<Rightarrow>
             (Plays rq (PlaySettled fp session2 (mo_speaking_duration m)), rt\<lparr>vr_world := w1\<rparr>)))"

definition play_settled ::
  "play_request \<Rightarrow> filled_play \<Rightarrow> 'ds ConnectedVoiceSession \<Rightarrow> nanos \<Rightarrow> ('ds, 'w, 'u, 'p) VoiceSessionRuntime
    \<Rightarrow> ('ds, 'w, 'u, 'p) task_step" where
  "play_settled rq fp session speaking_duration rt =
    (if playback_interrupted (rq_epoch rq) rt then (Plays rq (PlayReturns session (Inr ())), rt)
     else (Plays rq (SendStarts fp session speaking_duration), rt))"

definition play_returns ::
  "play_request \<Rightarrow> 'ds ConnectedVoiceSession \<Rightarrow> RuntimeError + unit \<Rightarrow> ('ds, 'w, 'u, 'p) VoiceSessionRuntime
    \<Rightarrow> ('ds, 'w, 'u, 'p) task_step" where
  "play_returns rq session result rt =
     (finish_play rq result, (if vr_voice rt = None then rt\<lparr>vr_voice := Some session\<rparr> else rt))"

section \<open>Sending\<close>

text \<open>The session is handed to the live media driver: from here on it is the driver's until it exits.\<close>

definition send_starts ::
  "'ds moment \<Rightarrow> play_request \<Rightarrow> filled_play \<Rightarrow> 'ds ConnectedVoiceSession \<Rightarrow> nanos
    \<Rightarrow> ('ds, 'w, 'u, 'p) VoiceSessionRuntime \<Rightarrow> ('ds, 'w, 'u, 'p) task_step" where
  "send_starts m rq fp session speaking_duration rt =
    (let py = fp_play fp; sample = fp_sample fp;
         metrics = PlaybackStabilityCollector_new (rq_epoch rq) (rq_video_id rq) (py_itag py) OpusBufferDepth_default
           (sample_source_buffer_depth sample) PLAYBACK_SOURCE_BUFFER_TARGET_MS DISCORD_EGRESS_BUFFER_TARGET_MS
           DISCORD_EGRESS_BUFFER_LOW_WATERMARK_MS DISCORD_EGRESS_BUFFER_HIGH_WATERMARK_MS (py_recovery_baseline py);
         metrics1 = record_playout_buffer_depth OpusBufferDepth_default u64_MAX
           (record_speaking_prepare_duration speaking_duration metrics);
         p = record_producer_sample_for_playback (mo_now m) sample
           \<lparr>pl_metrics = metrics1, pl_policy = PlaybackBufferPolicy_new,
            pl_buffer_target = PLAYBACK_SOURCE_BUFFER_TARGET_MS, pl_latest_source_depth = mo_source_depth m,
            pl_position_ms = py_resume_position_ms py, pl_buffering_for_source = False\<rparr>;
         p1 = on_metrics (record_source_buffer_depth (mo_source_depth m) PLAYBACK_SOURCE_BUFFER_LOW_WATERMARK_MS) p;
         (channel, rt1) = install_media_commands rt
     in (Plays rq (Sending SendPlays
           \<lparr>sd_itag = py_itag py, sd_generation = vr_voice_transport_generation rt, sd_channel = channel,
            sd_position = src_position (py_source py), sd_pipeline = p1,
            sd_gateway_baseline = vr_gateway_interruptions rt, sd_dave_baseline = vr_dave_interruptions rt,
            sd_reconnect_baseline = vr_reconnect_interruptions rt, sd_driver_done = False, sd_ended_naturally = False,
            sd_result = Inr (), sd_returned_session = None, sd_interrupted = False, sd_restore = False,
            sd_boundary_reason = None, sd_cleanup_result = Inr ()\<rparr>), rt1))"

definition send_emit ::
  "play_request \<Rightarrow> 'ds sending \<Rightarrow> SessionEventKind \<Rightarrow> ('ds, 'w, 'u, 'p) VoiceSessionRuntime \<Rightarrow> ('ds, 'w, 'u, 'p) task_step" where
  "send_emit rq sd kind rt =
    (let p = sd_pipeline sd;
         (r, rt1) = emit_playback_state kind (rq_video_id rq) (rq_epoch rq) (sd_itag sd)
           (depth_packets (pl_latest_source_depth p)) (pl_position_ms p) rt
     in (after_emit rq r (Plays rq (Sending SendLoops sd)), rt1))"

definition send_plays ::
  "play_request \<Rightarrow> 'ds sending \<Rightarrow> ('ds, 'w, 'u, 'p) VoiceSessionRuntime \<Rightarrow> ('ds, 'w, 'u, 'p) task_step" where
  "send_plays rq sd rt =
    (if depth_packets (pl_latest_source_depth (sd_pipeline sd)) > 0 then send_emit rq sd EvPlaying rt
     else (Plays rq (Sending SendLoops sd), rt))"

definition report_position ::
  "play_request \<Rightarrow> pipeline \<Rightarrow> ('ds, 'w, 'u, 'p) VoiceSessionRuntime \<Rightarrow> ('ds, 'w, 'u, 'p) VoiceSessionRuntime" where
  "report_position rq p rt =
    (if playback_interrupted (rq_epoch rq) rt then rt
     else on_state (\<lambda>s. s\<lparr>snap_queue_depth := depth_packets (pl_latest_source_depth p),
                          snap_position_ms := pl_position_ms p\<rparr>) rt)"

definition send_metric ::
  "'ds moment \<Rightarrow> play_request \<Rightarrow> 'ds sending \<Rightarrow> PlaybackPipelineMetric \<Rightarrow> ('ds, 'w, 'u, 'p) VoiceSessionRuntime
    \<Rightarrow> ('ds, 'w, 'u, 'p) task_step" where
  "send_metric m rq sd metric rt =
    (let (effect, position, p) = apply_pipeline_metric (mo_now m) metric (vr_positions rt ! sd_position sd) (sd_pipeline sd);
         rt1 = rt\<lparr>vr_positions := (vr_positions rt)[sd_position sd := position]\<rparr>;
         sd1 = sd\<lparr>sd_pipeline := p\<rparr>
     in case effect of
          NoEffect \<Rightarrow> (Plays rq (Sending SendLoops sd1), rt1)
        | EmitsState kind \<Rightarrow> send_emit rq sd1 kind rt1
        | ReportsPosition \<Rightarrow> (Plays rq (Sending SendLoops sd1), report_position rq p rt1))"

definition count_interruption ::
  "('ds, 'w, 'u, 'p) runtime_env \<Rightarrow> RuntimeError \<Rightarrow> ('ds, 'w, 'u, 'p) VoiceSessionRuntime
    \<Rightarrow> ('ds, 'w, 'u, 'p) VoiceSessionRuntime" where
  "count_interruption env err rt =
    (case err of
       RuntimeVoice voice_error \<Rightarrow>
        (let rt1 = (if is_gateway_closed_during_receive voice_error
                    then rt\<lparr>vr_gateway_interruptions := vr_gateway_interruptions rt + 1\<rparr> else rt)
         in if mentions ''dave'' (VoiceError_display (env_voice_text env) voice_error)
            then rt1\<lparr>vr_dave_interruptions := vr_dave_interruptions rt1 + 1\<rparr> else rt1)
     | _ \<Rightarrow> rt)"

definition send_exit ::
  "('ds, 'w, 'u, 'p) runtime_env \<Rightarrow> play_request \<Rightarrow> 'ds sending \<Rightarrow> 'ds LiveMediaDriverExit
    \<Rightarrow> ('ds, 'w, 'u, 'p) VoiceSessionRuntime \<Rightarrow> ('ds, 'w, 'u, 'p) task_step" where
  "send_exit env rq sd exit rt =
    (let sd1 = sd\<lparr>sd_driver_done := True, sd_ended_naturally := exit_ended_naturally exit,
                  sd_returned_session := Some (exit_session exit)\<rparr>
     in case exit_error exit of
          None \<Rightarrow> (Plays rq (Sending SendCleans sd1), rt)
        | Some err \<Rightarrow> (Plays rq (Sending SendCleans (sd1\<lparr>sd_result := Inl err\<rparr>)), count_interruption env err rt))"

definition lost_driver :: RuntimeError where
  "lost_driver = RuntimeInvalidState ''live media driver stopped without result''"

text \<open>One round of the loop. A playback that is no longer current tells the driver to stop, every round.\<close>

definition send_loops ::
  "('ds, 'w, 'u, 'p) runtime_env \<Rightarrow> 'ds moment \<Rightarrow> play_request \<Rightarrow> 'ds sending
    \<Rightarrow> ('ds, 'w, 'u, 'p) VoiceSessionRuntime \<Rightarrow> ('ds, 'w, 'u, 'p) task_step" where
  "send_loops env m rq sd rt =
    (let rt1 = (if playback_interrupted (rq_epoch rq) rt then channel_try_send (sd_channel sd) (StopMedia True) rt else rt)
     in case mo_event m of
          LoopTick \<Rightarrow> (Plays rq (Sending SendLoops sd), rt1)
        | LoopMetric metric \<Rightarrow> send_metric m rq sd metric rt1
        | LoopMetricsClosed \<Rightarrow> (Plays rq (Sending SendCleans sd), rt1)
        | LoopExit exit \<Rightarrow> send_exit env rq sd exit rt1
        | LoopExitLost \<Rightarrow>
            (Plays rq (Sending SendCleans (sd\<lparr>sd_driver_done := True, sd_result := Inl lost_driver\<rparr>)), rt1))"

definition send_cleans ::
  "play_request \<Rightarrow> 'ds sending \<Rightarrow> ('ds, 'w, 'u, 'p) VoiceSessionRuntime \<Rightarrow> ('ds, 'w, 'u, 'p) task_step" where
  "send_cleans rq sd rt =
    (let rt1 = clear_media_commands_if_current (sd_channel sd) rt
     in if sd_driver_done sd then (Plays rq (Sending SendChecks sd), rt1)
        else (SendsTo (sd_channel sd) (StopMedia True) (Plays rq (Sending SendAwaitsExit sd)), rt1))"

definition send_awaits_exit ::
  "'ds moment \<Rightarrow> play_request \<Rightarrow> 'ds sending \<Rightarrow> ('ds, 'w, 'u, 'p) VoiceSessionRuntime \<Rightarrow> ('ds, 'w, 'u, 'p) task_step" where
  "send_awaits_exit m rq sd rt =
    (case mo_event m of
       LoopExit exit \<Rightarrow>
         (Plays rq (Sending SendChecks
            (sd\<lparr>sd_ended_naturally := (sd_ended_naturally sd \<or> exit_ended_naturally exit),
                sd_result := (case (exit_error exit, sd_result sd) of (Some err, Inr _) \<Rightarrow> Inl err | _ \<Rightarrow> sd_result sd),
                sd_returned_session := Some (exit_session exit)\<rparr>)), rt)
     | LoopExitLost \<Rightarrow>
         (Plays rq (Sending SendChecks
            (sd\<lparr>sd_result := (case sd_result sd of Inr _ \<Rightarrow> Inl lost_driver | _ \<Rightarrow> sd_result sd)\<rparr>)), rt)
     | _ \<Rightarrow> (Plays rq (Sending SendAwaitsExit sd), rt))"

text \<open>Whether the session goes back is decided before the boundary is sent.\<close>

definition send_checks ::
  "play_request \<Rightarrow> 'ds sending \<Rightarrow> ('ds, 'w, 'u, 'p) VoiceSessionRuntime \<Rightarrow> ('ds, 'w, 'u, 'p) task_step" where
  "send_checks rq sd rt =
    (let interrupted = playback_interrupted (rq_epoch rq) rt
     in case sd_returned_session sd of
          None \<Rightarrow> (Plays rq (Sending SendEnds (sd\<lparr>sd_interrupted := interrupted\<rparr>)), mark_media_owner_returned rt)
        | Some _ \<Rightarrow>
            (Plays rq (Sending SendBounds
               (sd\<lparr>sd_interrupted := interrupted,
                   sd_restore := (vr_voice_transport_generation rt = sd_generation sd \<and> vr_voice rt = None)\<rparr>)), rt))"

definition send_bounds ::
  "('ds, 'w, 'u, 'p) runtime_env \<Rightarrow> 'ds moment \<Rightarrow> play_request \<Rightarrow> 'ds sending
    \<Rightarrow> ('ds, 'w, 'u, 'p) VoiceSessionRuntime \<Rightarrow> ('ds, 'w, 'u, 'p) task_step" where
  "send_bounds env m rq sd rt =
    (case sd_returned_session sd of
       None \<Rightarrow> (Plays rq (Sending SendRestores sd), rt)
     | Some session \<Rightarrow>
        (if sd_ended_naturally sd \<or> (sd_interrupted sd \<and> vs_speaking_started session)
         then (let sd1 = sd\<lparr>sd_boundary_reason := Some (if sd_ended_naturally sd then ReasonNaturalEnd else ReasonStop)\<rparr>
               in case send_stop_audio_boundary_with_owned_deadline_sender (env_io env) m session (vr_world rt) (vr_wire rt) of
                    (r, session1, w, u) \<Rightarrow>
                      (let sd2 = sd1\<lparr>sd_returned_session := Some session1\<rparr>; rt1 = rt\<lparr>vr_world := w, vr_wire := u\<rparr>
                       in case r of
                            Returns _ \<Rightarrow> (Plays rq (Sending SendRestores sd2), rt1)
                          | Raises err \<Rightarrow> (Plays rq (Sending SendRestores (sd2\<lparr>sd_cleanup_result := Inl err\<rparr>)), rt1)
                          | Aborts \<Rightarrow> (Crashed, rt1)
                          | Blocks \<Rightarrow> (Plays rq (Sending SendBounds sd), rt)))
         else if sd_interrupted sd
         then (case stop_speaking (io_ws (env_io env)) session (vr_world rt) of
                 (r, session1, w) \<Rightarrow>
                   (Plays rq (Sending SendRestores
                      (sd\<lparr>sd_returned_session := Some session1,
                          sd_cleanup_result := (case r of Inl err \<Rightarrow> Inl (RuntimeVoice err) | Inr _ \<Rightarrow> Inr ())\<rparr>)),
                    rt\<lparr>vr_world := w\<rparr>))
         else (Plays rq (Sending SendRestores sd), rt)))"

definition send_restores ::
  "play_request \<Rightarrow> 'ds sending \<Rightarrow> ('ds, 'w, 'u, 'p) VoiceSessionRuntime \<Rightarrow> ('ds, 'w, 'u, 'p) task_step" where
  "send_restores rq sd rt =
     (Plays rq (Sending SendEnds sd),
      mark_media_owner_returned
        (if sd_restore sd then rt\<lparr>vr_voice := sd_returned_session sd\<rparr> else rt))"

definition send_ends ::
  "play_request \<Rightarrow> 'ds sending \<Rightarrow> ('ds, 'w, 'u, 'p) VoiceSessionRuntime \<Rightarrow> ('ds, 'w, 'u, 'p) task_step" where
  "send_ends rq sd rt =
    (let sd1 = (case (sd_cleanup_result sd, sd_boundary_reason sd) of
                  (Inr _, Some reason) \<Rightarrow>
                    sd\<lparr>sd_pipeline := on_metrics (record_explicit_media_boundary reason) (sd_pipeline sd)\<rparr>
                | _ \<Rightarrow> sd);
         publish = Plays rq (Sending SendPublishes sd1)
     in if sd_ended_naturally sd \<and> \<not> sd_interrupted sd \<and> sd_result sd = Inr ()
        then (let rt1 = defer_playback_reset rt in
              if playback_interrupted (rq_epoch rq) rt1 then (publish, rt1)
              else (let rt2 = on_state (\<lambda>s. s\<lparr>snap_position_ms := pl_position_ms (sd_pipeline sd)\<rparr>) rt1
                    in (Emits (event_now EvTrackEnded rt2) publish,
                        on_state (\<lambda>s. (clear_track s)\<lparr>snap_state := VoiceReady\<rparr>) rt2)))
        else (publish, rt))"

definition publish_playback_metrics ::
  "PlaybackStabilitySnapshot \<Rightarrow> ('ds, 'w, 'u, 'p) VoiceSessionRuntime \<Rightarrow> ('ds, 'w, 'u, 'p) VoiceSessionRuntime" where
  "publish_playback_metrics snapshot rt = rt\<lparr>vr_playback_metrics := Some snapshot\<rparr>"

definition send_publishes ::
  "play_request \<Rightarrow> 'ds sending \<Rightarrow> ('ds, 'w, 'u, 'p) VoiceSessionRuntime \<Rightarrow> ('ds, 'w, 'u, 'p) task_step" where
  "send_publishes rq sd rt =
     (finish_play rq (case (sd_result sd, sd_cleanup_result sd) of
        (Inr _, Inr _) \<Rightarrow> Inr () | (Inl err, _) \<Rightarrow> Inl err | (Inr _, Inl err) \<Rightarrow> Inl err),
      publish_playback_metrics
        (collector_snapshot (saturating_sub (vr_gateway_interruptions rt) (sd_gateway_baseline sd))
           (saturating_sub (vr_dave_interruptions rt) (sd_dave_baseline sd))
           (saturating_sub (vr_reconnect_interruptions rt) (sd_reconnect_baseline sd))
           (sd_ended_naturally sd \<and> sd_result sd = Inr () \<and> \<not> sd_interrupted sd) (pl_metrics (sd_pipeline sd))) rt)"

fun sending_step ::
  "('ds, 'w, 'u, 'p) runtime_env \<Rightarrow> 'ds moment \<Rightarrow> play_request \<Rightarrow> 'ds sending \<Rightarrow> send_stage
    \<Rightarrow> ('ds, 'w, 'u, 'p) VoiceSessionRuntime \<Rightarrow> ('ds, 'w, 'u, 'p) task_step" where
  "sending_step env m rq sd SendPlays rt = send_plays rq sd rt"
| "sending_step env m rq sd SendLoops rt = send_loops env m rq sd rt"
| "sending_step env m rq sd SendCleans rt = send_cleans rq sd rt"
| "sending_step env m rq sd SendAwaitsExit rt = send_awaits_exit m rq sd rt"
| "sending_step env m rq sd SendChecks rt = send_checks rq sd rt"
| "sending_step env m rq sd SendBounds rt = send_bounds env m rq sd rt"
| "sending_step env m rq sd SendRestores rt = send_restores rq sd rt"
| "sending_step env m rq sd SendEnds rt = send_ends rq sd rt"
| "sending_step env m rq sd SendPublishes rt = send_publishes rq sd rt"

fun play_step ::
  "('ds, 'w, 'u, 'p) runtime_env \<Rightarrow> 'ds moment \<Rightarrow> play_request \<Rightarrow> 'ds play_stage
    \<Rightarrow> ('ds, 'w, 'u, 'p) VoiceSessionRuntime \<Rightarrow> ('ds, 'w, 'u, 'p) task_step" where
  "play_step env m rq PlayHints rt = play_hints rq rt"
| "play_step env m rq (PlayResolves hint) rt = play_resolves rq hint rt"
| "play_step env m rq (PlayAwaitsVoice deadline) rt = play_awaits_voice m rq deadline rt"
| "play_step env m rq PlayPrepares rt = play_prepares env m rq rt"
| "play_step env m rq (PlayPrepared py) rt = play_prepared rq py rt"
| "play_step env m rq (PlayBuffers py) rt = play_buffers rq py rt"
| "play_step env m rq (PlayFills py) rt = play_fills env m rq py rt"
| "play_step env m rq (PlayFilled fp) rt = play_filled rq fp rt"
| "play_step env m rq (PlayTakes fp) rt = play_takes rq fp rt"
| "play_step env m rq (PlaySettles fp session) rt = play_settles env m rq fp session rt"
| "play_step env m rq (PlaySettled fp session duration) rt = play_settled rq fp session duration rt"
| "play_step env m rq (PlayReturns session result) rt = play_returns rq session result rt"
| "play_step env m rq (SendStarts fp session duration) rt = send_starts m rq fp session duration rt"
| "play_step env m rq (Sending stage sd) rt = sending_step env m rq sd stage rt"

end
