(* ===== verification/SessionCommands.thy ===== *)
theory SessionCommands
  imports SessionTasks
begin

text \<open>
  The other commands of the session runtime (\<open>pause\<close>, \<open>resume\<close>, \<open>stop\<close>, \<open>leave_voice\<close>,
  \<open>update_voice_context\<close> with its rollover, and the resume after a rollover in \<open>session/runtime.rs\<close>), the step of
  any task, and the system: the shared state with all tasks, which run in any order.
\<close>

section \<open>Pause and resume\<close>

definition pause_starts :: "('ds, 'w, 'u, 'p) VoiceSessionRuntime \<Rightarrow> ('ds, 'w, 'u, 'p) task_step" where
  "pause_starts rt =
    (case ensure_track_loaded (vr_state rt) ''pause'' of
       Inl err \<Rightarrow> (Ended (Inl err), rt)
     | Inr _ \<Rightarrow>
        (if snap_state (vr_state rt) = Paused then (Ended (Inr ()), rt)
         else (case ensure_pauseable_track (vr_state rt) of
                 Inl err \<Rightarrow> (Ended (Inl err), rt)
               | Inr _ \<Rightarrow> (Commands PauseMedia PauseApplies, rt))))"

definition pause_applies :: "('ds, 'w, 'u, 'p) VoiceSessionRuntime \<Rightarrow> ('ds, 'w, 'u, 'p) task_step" where
  "pause_applies rt =
    (case ensure_track_loaded (vr_state rt) ''pause'' of
       Inl err \<Rightarrow> (Ended (Inl err), rt)
     | Inr _ \<Rightarrow>
        (if snap_state (vr_state rt) = Paused then (Ended (Inr ()), rt)
         else (case ensure_pauseable_track (vr_state rt) of
                 Inl err \<Rightarrow> (Ended (Inl err), rt)
               | Inr _ \<Rightarrow>
                  (let rt1 = on_state (\<lambda>s. s\<lparr>snap_state := Paused\<rparr>) rt
                   in (Emits (event_now EvPaused rt1) (Ended (Inr ())), rt1)))))"

definition resume_starts :: "('ds, 'w, 'u, 'p) VoiceSessionRuntime \<Rightarrow> ('ds, 'w, 'u, 'p) task_step" where
  "resume_starts rt =
    (case ensure_track_loaded (vr_state rt) ''resume'' of
       Inl err \<Rightarrow> (Ended (Inl err), rt)
     | Inr _ \<Rightarrow>
        (if snap_state (vr_state rt) = Playing then (Ended (Inr ()), rt)
         else (case ensure_resumable_track (vr_state rt) of
                 Inl err \<Rightarrow> (Ended (Inl err), rt)
               | Inr _ \<Rightarrow> (ResumeApplies, rt))))"

definition resume_applies :: "('ds, 'w, 'u, 'p) VoiceSessionRuntime \<Rightarrow> ('ds, 'w, 'u, 'p) task_step" where
  "resume_applies rt =
    (case ensure_track_loaded (vr_state rt) ''resume'' of
       Inl err \<Rightarrow> (Ended (Inl err), rt)
     | Inr _ \<Rightarrow>
        (if snap_state (vr_state rt) = Playing then (Ended (Inr ()), rt)
         else (case ensure_resumable_track (vr_state rt) of
                 Inl err \<Rightarrow> (Ended (Inl err), rt)
               | Inr _ \<Rightarrow>
                  (let rt1 = on_state (\<lambda>s. s\<lparr>snap_state := Playing\<rparr>) rt
                   in (Commands ResumeMedia (Emits (event_now EvPlaying rt1) (Ended (Inr ()))), rt1)))))"

section \<open>Stop\<close>

definition stop_starts :: "('ds, 'w, 'u, 'p) VoiceSessionRuntime \<Rightarrow> ('ds, 'w, 'u, 'p) task_step" where
  "stop_starts rt =
    (case ensure_active_voice_session (vr_state rt) ''stop'' of
       Inl err \<Rightarrow> (Ended (Inl err), rt)
     | Inr _ \<Rightarrow> (Stops StopOwner, rt))"

definition stop_owner :: "('ds, 'w, 'u, 'p) VoiceSessionRuntime \<Rightarrow> ('ds, 'w, 'u, 'p) task_step" where
  "stop_owner rt =
    (let generation = vr_voice_transport_generation rt in
     if media_owner_is_active rt then (Commands (StopMedia False) (Stops (StopWaits True generation None)), rt)
     else (Stops (StopInvalidates False generation), rt))"

definition stop_waits ::
  "'ds moment \<Rightarrow> bool \<Rightarrow> u64 \<Rightarrow> nanos option \<Rightarrow> ('ds, 'w, 'u, 'p) VoiceSessionRuntime \<Rightarrow> ('ds, 'w, 'u, 'p) task_step" where
  "stop_waits m owner generation deadline rt =
    (let at = deadline_or deadline (mo_now m) MEDIA_OWNER_RETURN_TIMEOUT in
     case wait_for_media_owner_session generation at (mo_now m) rt of
       None \<Rightarrow> (Stops (StopWaits owner generation (Some at)), rt)
     | Some (Inl err) \<Rightarrow> (Ended (Inl err), rt)
     | Some (Inr _) \<Rightarrow> (Stops (if owner then StopInvalidates True generation else StopBounds False), rt))"

definition stop_invalidates ::
  "bool \<Rightarrow> u64 \<Rightarrow> ('ds, 'w, 'u, 'p) VoiceSessionRuntime \<Rightarrow> ('ds, 'w, 'u, 'p) task_step" where
  "stop_invalidates owner generation rt =
    (let rt1 = defer_playback_reset (invalidate_playback rt) in
     if owner then (Stops (StopBounds True), rt1)
     else (Commands (StopMedia True) (Stops (StopWaits False generation None)), rt1))"

definition stopped_snapshot :: "Snapshot \<Rightarrow> Snapshot" where
  "stopped_snapshot s = (clear_track s)\<lparr>snap_last_reason := None, snap_state := VoiceReady\<rparr>"

definition stop_state :: "('ds, 'w, 'u, 'p) VoiceSessionRuntime \<Rightarrow> ('ds, 'w, 'u, 'p) task_step" where
  "stop_state rt =
    (let rt1 = on_state stopped_snapshot rt in (Emits (event_now EvStopped rt1) (Ended (Inr ())), rt1))"

text \<open>The lock of the session is held from the boundary to the end.\<close>

definition stop_bounds ::
  "('ds, 'w, 'u, 'p) runtime_env \<Rightarrow> 'ds moment \<Rightarrow> bool \<Rightarrow> ('ds, 'w, 'u, 'p) VoiceSessionRuntime
    \<Rightarrow> ('ds, 'w, 'u, 'p) task_step" where
  "stop_bounds env m owner rt =
    (case vr_voice rt of
       None \<Rightarrow> stop_state rt
     | Some session \<Rightarrow>
        (if is_connected session \<and> (owner \<or> vs_speaking_started session)
         then (case send_stop_audio_boundary_with_owned_deadline_sender (env_io env) m session (vr_world rt) (vr_wire rt) of
                 (r, session1, w, u) \<Rightarrow>
                   (let rt1 = rt\<lparr>vr_voice := Some session1, vr_world := w, vr_wire := u\<rparr>
                    in case r of
                         Returns _ \<Rightarrow> stop_state rt1
                       | Raises err \<Rightarrow> (Ended (Inl err), rt1)
                       | Aborts \<Rightarrow> (Crashed, rt1)
                       | Blocks \<Rightarrow> (Stops (StopBounds owner), rt)))
         else stop_state rt))"

fun stop_step ::
  "('ds, 'w, 'u, 'p) runtime_env \<Rightarrow> 'ds moment \<Rightarrow> stop_stage \<Rightarrow> ('ds, 'w, 'u, 'p) VoiceSessionRuntime
    \<Rightarrow> ('ds, 'w, 'u, 'p) task_step" where
  "stop_step env m StopOwner rt = stop_owner rt"
| "stop_step env m (StopWaits owner generation deadline) rt = stop_waits m owner generation deadline rt"
| "stop_step env m (StopInvalidates owner generation) rt = stop_invalidates owner generation rt"
| "stop_step env m (StopBounds owner) rt = stop_bounds env m owner rt"

section \<open>Leave\<close>

definition leave_starts :: "('ds, 'w, 'u, 'p) VoiceSessionRuntime \<Rightarrow> ('ds, 'w, 'u, 'p) task_step" where
  "leave_starts rt = (Leaves LeaveOwner, defer_playback_reset (invalidate_playback (invalidate_rollover rt)))"

definition leave_owner :: "('ds, 'w, 'u, 'p) VoiceSessionRuntime \<Rightarrow> ('ds, 'w, 'u, 'p) task_step" where
  "leave_owner rt =
     (Commands (StopMedia True)
        (Leaves (if media_owner_is_active rt then LeaveWaits (vr_media_owner_return_count rt) None else LeaveClears)),
      bump_transport_generation rt)"

definition leave_waits ::
  "'ds moment \<Rightarrow> u64 \<Rightarrow> nanos option \<Rightarrow> ('ds, 'w, 'u, 'p) VoiceSessionRuntime \<Rightarrow> ('ds, 'w, 'u, 'p) task_step" where
  "leave_waits m count deadline rt =
    (let at = deadline_or deadline (mo_now m) MEDIA_OWNER_RETURN_TIMEOUT in
     case wait_for_media_owner_stopped_after count at (mo_now m) rt of
       None \<Rightarrow> (Leaves (LeaveWaits count (Some at)), rt)
     | Some (Inl err) \<Rightarrow> (Ended (Inl err), rt)
     | Some (Inr _) \<Rightarrow> (Leaves LeaveClears, rt))"

fun leave_step ::
  "'ds moment \<Rightarrow> leave_stage \<Rightarrow> ('ds, 'w, 'u, 'p) VoiceSessionRuntime \<Rightarrow> ('ds, 'w, 'u, 'p) task_step" where
  "leave_step m LeaveOwner rt = leave_owner rt"
| "leave_step m (LeaveWaits count deadline) rt = leave_waits m count deadline rt"
| "leave_step m LeaveClears rt = (Leaves LeaveResets, clear_media_commands rt)"
| "leave_step m LeaveResets rt = (Leaves LeaveDrops, rt\<lparr>vr_state := Snapshot_default\<rparr>)"
| "leave_step m LeaveDrops rt = (Ended (Inr ()), rt\<lparr>vr_voice := None\<rparr>)"

section \<open>Updating the voice context\<close>

definition update_starts ::
  "VoiceContext \<Rightarrow> ('ds, 'w, 'u, 'p) VoiceSessionRuntime \<Rightarrow> ('ds, 'w, 'u, 'p) task_step" where
  "update_starts voice rt =
    (case ensure_active_voice_session (vr_state rt) ''update_voice_context'' of
       Inl err \<Rightarrow> (Ended (Inl err), rt)
     | Inr _ \<Rightarrow>
        ((if snap_state (vr_state rt) = Paused then Refreshes voice RefreshStarts else RollStarts voice), rt))"

definition refresh_applies ::
  "VoiceContext \<Rightarrow> ('ds, 'w, 'u, 'p) VoiceSessionRuntime \<Rightarrow> ('ds, 'w, 'u, 'p) task_step" where
  "refresh_applies voice rt =
     (Ended (Inr ()),
      if snap_state (vr_state rt) \<noteq> Paused then rt
      else on_state (\<lambda>s. (apply_voice_context voice s)
             \<lparr>snap_recovering := False, snap_voice_reconnecting := False, snap_last_reason := None\<rparr>) rt)"

definition refresh_suspends ::
  "('ds, 'w, 'u, 'p) runtime_env \<Rightarrow> VoiceContext \<Rightarrow> ('ds, 'w, 'u, 'p) VoiceSessionRuntime \<Rightarrow> ('ds, 'w, 'u, 'p) task_step" where
  "refresh_suspends env voice rt =
    (let replaced = (Refreshes voice RefreshApplies, rt\<lparr>vr_voice := Some (ConnectedVoiceSession_new voice)\<rparr>) in
     case vr_voice rt of
       None \<Rightarrow> replaced
     | Some session \<Rightarrow>
        (if is_connected session
         then (case suspend_media (io_ws (env_io env)) session (vr_world rt) of
                 (Inl err, session1, w) \<Rightarrow>
                   (Ended (Inl (RuntimeVoice err)), rt\<lparr>vr_voice := Some session1, vr_world := w\<rparr>)
               | (Inr _, _, w) \<Rightarrow> (fst replaced, (snd replaced)\<lparr>vr_world := w\<rparr>))
         else replaced))"

fun refresh_step ::
  "('ds, 'w, 'u, 'p) runtime_env \<Rightarrow> VoiceContext \<Rightarrow> refresh_stage \<Rightarrow> ('ds, 'w, 'u, 'p) VoiceSessionRuntime
    \<Rightarrow> ('ds, 'w, 'u, 'p) task_step" where
  "refresh_step env voice RefreshStarts rt =
     (Refreshes voice (if media_owner_is_active rt then RefreshOwned else RefreshSuspends), rt)"
| "refresh_step env voice RefreshOwned rt = refresh_applies voice rt"
| "refresh_step env voice RefreshSuspends rt = refresh_suspends env voice rt"
| "refresh_step env voice RefreshApplies rt = refresh_applies voice rt"

section \<open>Rollover\<close>

definition roll_starts ::
  "VoiceContext \<Rightarrow> ('ds, 'w, 'u, 'p) VoiceSessionRuntime \<Rightarrow> ('ds, 'w, 'u, 'p) task_step" where
  "roll_starts voice rt =
    (case ensure_active_voice_session (vr_state rt) ''update_voice_context'' of
       Inl err \<Rightarrow> (Ended (Inl err), rt)
     | Inr _ \<Rightarrow>
        (let video_id = snap_current_video_id (vr_state rt);
             (epoch, rt1) = begin_rollover rt;
             rt2 = (if video_id \<noteq> None then rt1\<lparr>vr_reconnect_interruptions := vr_reconnect_interruptions rt1 + 1\<rparr> else rt1)
         in (Rolls \<lparr>ro_voice = voice, ro_resume_video_id = video_id, ro_epoch = epoch\<rparr> RollOwner, rt2)))"

definition roll_owner :: "rollover \<Rightarrow> ('ds, 'w, 'u, 'p) VoiceSessionRuntime \<Rightarrow> ('ds, 'w, 'u, 'p) task_step" where
  "roll_owner ro rt =
    (if media_owner_is_active rt
     then (Commands (StopMedia False) (Rolls ro (RollWaits (vr_voice_transport_generation rt) None)), rt)
     else (Rolls ro RollMatches, rt))"

definition roll_waits ::
  "'ds moment \<Rightarrow> rollover \<Rightarrow> u64 \<Rightarrow> nanos option \<Rightarrow> ('ds, 'w, 'u, 'p) VoiceSessionRuntime \<Rightarrow> ('ds, 'w, 'u, 'p) task_step" where
  "roll_waits m ro generation deadline rt =
    (let at = deadline_or deadline (mo_now m) MEDIA_OWNER_RETURN_TIMEOUT in
     case wait_for_media_owner_session generation at (mo_now m) rt of
       None \<Rightarrow> (Rolls ro (RollWaits generation (Some at)), rt)
     | Some (Inl err) \<Rightarrow> (Ended (Inl err), rt)
     | Some (Inr _) \<Rightarrow> (Rolls ro RollMatches, invalidate_playback rt))"

definition current_voice_context_matches :: "VoiceContext \<Rightarrow> ('ds, 'w, 'u, 'p) VoiceSessionRuntime \<Rightarrow> bool" where
  "current_voice_context_matches voice rt \<longleftrightarrow> map_option vs_voice (vr_voice rt) = Some voice"

text \<open>The same voice context is refreshed in place; another one replaces the session.\<close>

definition roll_matches :: "rollover \<Rightarrow> ('ds, 'w, 'u, 'p) VoiceSessionRuntime \<Rightarrow> ('ds, 'w, 'u, 'p) task_step" where
  "roll_matches ro rt =
    (if current_voice_context_matches (ro_voice ro) rt
     then (let rt1 = invalidate_playback rt
           in (Commands (StopMedia False) (Rolls ro (MatchReconnects (vr_playback_epoch rt1))), rt1))
     else (Commands (StopMedia False) (Rolls ro RollClears), invalidate_playback (bump_transport_generation rt)))"

definition reconnecting_event ::
  "'ds task \<Rightarrow> ('ds, 'w, 'u, 'p) VoiceSessionRuntime \<Rightarrow> ('ds, 'w, 'u, 'p) task_step" where
  "reconnecting_event k rt =
    (let rt1 = on_state (\<lambda>s. s\<lparr>snap_voice_reconnecting := True\<rparr>) rt
     in (Emits (event_now EvVoiceReconnecting rt1) k, rt1))"

definition match_refreshes ::
  "rollover \<Rightarrow> u64 \<Rightarrow> ('ds, 'w, 'u, 'p) VoiceSessionRuntime \<Rightarrow> ('ds, 'w, 'u, 'p) task_step" where
  "match_refreshes ro resume_epoch rt =
    (case vr_voice rt of
       None \<Rightarrow> (Ended (Inl (RuntimeInvalidState ''voice reconnect refresh missing active voice session'')), rt)
     | Some session \<Rightarrow>
        (let session1 = replace_voice_context (ro_voice ro) session
         in (Rolls ro (RollApplies resume_epoch (vs_voice session1) (roll_recovering (vs_rollover session1))
               (roll_voice_reconnecting (vs_rollover session1))), rt\<lparr>vr_voice := Some session1\<rparr>)))"

definition roll_connects ::
  "('ds, 'w, 'u, 'p) runtime_env \<Rightarrow> 'ds moment \<Rightarrow> rollover \<Rightarrow> u64 \<Rightarrow> ('ds, 'w, 'u, 'p) VoiceSessionRuntime
    \<Rightarrow> ('ds, 'w, 'u, 'p) task_step" where
  "roll_connects env m ro resume_epoch rt =
    (case connect_and_settle env m (ro_voice ro) (vr_world rt) of
       (Done session, w) \<Rightarrow> (Rolls ro (RollInstalls resume_epoch session), rt\<lparr>vr_world := w\<rparr>)
     | (Failed err, w) \<Rightarrow> (Rolls ro (RollFails resume_epoch err), rt\<lparr>vr_world := w\<rparr>)
     | (Panicked, w) \<Rightarrow> (Crashed, rt\<lparr>vr_world := w\<rparr>))"

text \<open>Whether a resume is still wanted: the epochs are compared at once, the track is read from the snapshot when its
  lock is free, and the task goes on one way or the other.\<close>

definition rollover_resume_is_still_intended ::
  "string \<Rightarrow> u64 \<Rightarrow> u64 \<Rightarrow> 'ds task \<Rightarrow> 'ds task \<Rightarrow> ('ds, 'w, 'u, 'p) VoiceSessionRuntime \<Rightarrow> ('ds, 'w, 'u, 'p) task_step" where
  "rollover_resume_is_still_intended video_id resume_guard_epoch rollover_epoch intended dropped rt =
    ((if rollover_is_current rollover_epoch rt \<and> playback_state_is_current resume_guard_epoch rt
      then ReadsTrack video_id intended dropped else dropped), rt)"

definition resume_attempt_is_still_current ::
  "string \<Rightarrow> u64 \<Rightarrow> u64 \<Rightarrow> 'ds task \<Rightarrow> 'ds task \<Rightarrow> ('ds, 'w, 'u, 'p) VoiceSessionRuntime \<Rightarrow> ('ds, 'w, 'u, 'p) task_step" where
  "resume_attempt_is_still_current video_id resume_attempt_epoch rollover_epoch current dropped rt =
    ((if rollover_is_current rollover_epoch rt \<and> playback_state_is_current resume_attempt_epoch rt
      then ReadsTrack video_id current dropped else dropped), rt)"

text \<open>A failed reconnect: what was playing is interrupted when it may still be resumed, otherwise the session
  only recovers.\<close>

definition roll_fails ::
  "('ds, 'w, 'u, 'p) runtime_env \<Rightarrow> rollover \<Rightarrow> u64 \<Rightarrow> VoiceError \<Rightarrow> ('ds, 'w, 'u, 'p) VoiceSessionRuntime
    \<Rightarrow> ('ds, 'w, 'u, 'p) task_step" where
  "roll_fails env ro resume_epoch err rt =
    (let reason = ''voice reconnect failed: '' @ VoiceError_display (env_voice_text env) err;
         failed = Ended (Inl (RuntimeVoice err))
     in if \<not> rollover_is_current (ro_epoch ro) rt then (Ended (Inr ()), rt)
        else (case ro_resume_video_id ro of
                Some video_id \<Rightarrow>
                  rollover_resume_is_still_intended video_id resume_epoch (ro_epoch ro)
                    (Commands (StopMedia True) (Quiesces (Interrupts reason failed))) (Recovers reason failed) rt
              | None \<Rightarrow> (Recovers reason failed, rt)))"

definition roll_installs ::
  "rollover \<Rightarrow> u64 \<Rightarrow> 'ds ConnectedVoiceSession \<Rightarrow> ('ds, 'w, 'u, 'p) VoiceSessionRuntime \<Rightarrow> ('ds, 'w, 'u, 'p) task_step" where
  "roll_installs ro resume_epoch session rt =
    (if \<not> rollover_is_current (ro_epoch ro) rt then (Ended (Inr ()), rt)
     else (Rolls ro (RollApplies resume_epoch (vs_voice session) (roll_recovering (vs_rollover session))
             (roll_voice_reconnecting (vs_rollover session))), rt\<lparr>vr_voice := Some session\<rparr>))"

definition roll_applies ::
  "rollover \<Rightarrow> u64 \<Rightarrow> VoiceContext \<Rightarrow> bool \<Rightarrow> bool \<Rightarrow> ('ds, 'w, 'u, 'p) VoiceSessionRuntime \<Rightarrow> ('ds, 'w, 'u, 'p) task_step" where
  "roll_applies ro resume_epoch voice recovering reconnecting rt =
    (let rt1 = on_state (\<lambda>s. let s1 = (apply_voice_context voice s)\<lparr>snap_recovering := recovering,
                   snap_voice_reconnecting := reconnecting, snap_last_reason := None\<rparr>
                 in if snap_current_video_id s1 = None then s1\<lparr>snap_state := VoiceReady\<rparr> else s1) rt
     in (Emits (event_now EvVoiceReady rt1) (Rolls ro (RollResumes resume_epoch)), rt1))"

definition roll_resumes :: "rollover \<Rightarrow> u64 \<Rightarrow> ('ds, 'w, 'u, 'p) VoiceSessionRuntime \<Rightarrow> ('ds, 'w, 'u, 'p) task_step" where
  "roll_resumes ro resume_epoch rt =
    (case ro_resume_video_id ro of
       None \<Rightarrow> (Ended (Inr ()), rt)
     | Some video_id \<Rightarrow>
        (if vr_playback rt = None then (Ended (Inr ()), rt)
         else rollover_resume_is_still_intended video_id resume_epoch (ro_epoch ro)
                (Rolls ro (RollBegins video_id)) (Ended (Inr ())) rt))"

text \<open>Other tasks may have run since the track was read: a resume begins at the next epoch whatever they did.\<close>

definition roll_begins :: "rollover \<Rightarrow> string \<Rightarrow> ('ds, 'w, 'u, 'p) VoiceSessionRuntime \<Rightarrow> ('ds, 'w, 'u, 'p) task_step" where
  "roll_begins ro video_id rt =
    (let (epoch, rt1) = begin_playback rt
     in (Forks (ResumeStarts \<lparr>rq_video_id = video_id, rq_epoch = epoch, rq_origin = ByRollover (ro_epoch ro)\<rparr>
           (ro_epoch ro)) (Ended (Inr ())), rt1))"

fun roll_step ::
  "('ds, 'w, 'u, 'p) runtime_env \<Rightarrow> 'ds moment \<Rightarrow> rollover \<Rightarrow> 'ds roll_stage \<Rightarrow> ('ds, 'w, 'u, 'p) VoiceSessionRuntime
    \<Rightarrow> ('ds, 'w, 'u, 'p) task_step" where
  "roll_step env m ro RollOwner rt = roll_owner ro rt"
| "roll_step env m ro (RollWaits generation deadline) rt = roll_waits m ro generation deadline rt"
| "roll_step env m ro RollMatches rt = roll_matches ro rt"
| "roll_step env m ro (MatchReconnects resume_epoch) rt = reconnecting_event (Rolls ro (MatchRefreshes resume_epoch)) rt"
| "roll_step env m ro (MatchRefreshes resume_epoch) rt = match_refreshes ro resume_epoch rt"
| "roll_step env m ro RollClears rt = (Rolls ro (RollReconnects (vr_playback_epoch rt)), clear_media_commands rt)"
| "roll_step env m ro (RollReconnects resume_epoch) rt = reconnecting_event (Rolls ro (RollConnects resume_epoch)) rt"
| "roll_step env m ro (RollConnects resume_epoch) rt = roll_connects env m ro resume_epoch rt"
| "roll_step env m ro (RollFails resume_epoch err) rt = roll_fails env ro resume_epoch err rt"
| "roll_step env m ro (RollInstalls resume_epoch session) rt = roll_installs ro resume_epoch session rt"
| "roll_step env m ro (RollApplies resume_epoch voice recovering reconnecting) rt =
     roll_applies ro resume_epoch voice recovering reconnecting rt"
| "roll_step env m ro (RollResumes resume_epoch) rt = roll_resumes ro resume_epoch rt"
| "roll_step env m ro (RollBegins video_id) rt = roll_begins ro video_id rt"

definition quiesce_current_transport ::
  "('ds, 'w, 'u, 'p) runtime_env \<Rightarrow> 'ds moment \<Rightarrow> 'ds task \<Rightarrow> ('ds, 'w, 'u, 'p) VoiceSessionRuntime
    \<Rightarrow> ('ds, 'w, 'u, 'p) task_step" where
  "quiesce_current_transport env m k rt =
    (case vr_voice rt of
       None \<Rightarrow> (k, rt)
     | Some session \<Rightarrow>
        (if is_connected session \<and> vs_speaking_started session
         then (case send_stop_audio_boundary_with_owned_deadline_sender (env_io env) m session (vr_world rt) (vr_wire rt) of
                 (r, session1, w, u) \<Rightarrow>
                   (let rt1 = rt\<lparr>vr_voice := Some session1, vr_world := w, vr_wire := u\<rparr>
                    in case r of Aborts \<Rightarrow> (Crashed, rt1) | Blocks \<Rightarrow> (Quiesces k, rt) | _ \<Rightarrow> (k, rt1)))
         else (k, rt)))"

definition interrupt_playback ::
  "string \<Rightarrow> 'ds task \<Rightarrow> ('ds, 'w, 'u, 'p) VoiceSessionRuntime \<Rightarrow> ('ds, 'w, 'u, 'p) task_step" where
  "interrupt_playback reason k rt =
    (let rt1 = on_state (\<lambda>s. (clear_track s)\<lparr>snap_voice_reconnecting := False, snap_last_reason := Some reason,
                                snap_state := voice_ready_or_idle s\<rparr>) rt
     in (Emits (event_now EvPlaybackInterrupted rt1) k, rt1))"

definition recover_rollover_without_playback ::
  "string \<Rightarrow> 'ds task \<Rightarrow> ('ds, 'w, 'u, 'p) VoiceSessionRuntime \<Rightarrow> ('ds, 'w, 'u, 'p) task_step" where
  "recover_rollover_without_playback reason k rt =
    (let rt1 = on_state (\<lambda>s. s\<lparr>snap_voice_reconnecting := False, snap_last_reason := Some reason,
                               snap_state := voice_ready_or_idle s\<rparr>) rt
     in (Emits (event_now EvRecoverableWarning rt1) k, rt1))"

definition resume_after_rollover ::
  "play_request \<Rightarrow> u64 \<Rightarrow> ('ds, 'w, 'u, 'p) VoiceSessionRuntime \<Rightarrow> ('ds, 'w, 'u, 'p) task_step" where
  "resume_after_rollover rq rollover_epoch rt =
     resume_attempt_is_still_current (rq_video_id rq) (rq_epoch rq) rollover_epoch (Plays rq PlayHints) (Ended (Inr ())) rt"

definition resume_fails ::
  "('ds, 'w, 'u, 'p) runtime_env \<Rightarrow> play_request \<Rightarrow> u64 \<Rightarrow> RuntimeError \<Rightarrow> ('ds, 'w, 'u, 'p) VoiceSessionRuntime
    \<Rightarrow> ('ds, 'w, 'u, 'p) task_step" where
  "resume_fails env rq rollover_epoch err rt =
     resume_attempt_is_still_current (rq_video_id rq) (rq_epoch rq) rollover_epoch
       (Commands (StopMedia True) (Quiesces (Interrupts
          (''failed to resume playback after voice reconnect: '' @ RuntimeError_display env err) (Ended (Inr ())))))
       (Ended (Inr ())) rt"

section \<open>The step of a task\<close>

fun handle_command ::
  "Command \<Rightarrow> ('ds, 'w, 'u, 'p) VoiceSessionRuntime \<Rightarrow> ('ds, 'w, 'u, 'p) task_step" where
  "handle_command (JoinVoice voice) rt = join_starts voice rt"
| "handle_command (UpdateVoiceContext voice) rt = update_starts voice rt"
| "handle_command (Play video_id) rt =
    (let (epoch, rt1) = begin_playback rt
     in (Plays \<lparr>rq_video_id = video_id, rq_epoch = epoch, rq_origin = ByCommand\<rparr> PlayHints, rt1))"
| "handle_command Pause rt = pause_starts rt"
| "handle_command Resume rt = resume_starts rt"
| "handle_command Stop rt = stop_starts rt"
| "handle_command LeaveVoice rt = leave_starts rt"

fun task_step ::
  "('ds, 'w, 'u, 'p) runtime_env \<Rightarrow> 'ds moment \<Rightarrow> 'ds task \<Rightarrow> ('ds, 'w, 'u, 'p) VoiceSessionRuntime
    \<Rightarrow> ('ds, 'w, 'u, 'p) task_step" where
  "task_step env m (Ended result) rt = (Ended result, rt)"
| "task_step env m Crashed rt = (Crashed, rt)"
| "task_step env m (Starts command) rt = handle_command command rt"
| "task_step env m (Emits event k) rt = (k, rt\<lparr>vr_events := vr_events rt @ [event]\<rparr>)"
| "task_step env m (Commands command k) rt =
    (case vr_media_commands rt of None \<Rightarrow> (k, rt) | Some channel \<Rightarrow> (SendsTo channel command k, rt))"
| "task_step env m (SendsTo channel command k) rt =
    (case channel_send channel command rt of None \<Rightarrow> (SendsTo channel command k, rt) | Some rt1 \<Rightarrow> (k, rt1))"
| "task_step env m (Forks child k) rt = (k, rt)"
| "task_step env m (JoinConnects voice) rt = join_connects env m voice rt"
| "task_step env m (JoinInstalls session) rt = join_installs session rt"
| "task_step env m (Refreshes voice stage) rt = refresh_step env voice stage rt"
| "task_step env m (Plays rq stage) rt = play_step env m rq stage rt"
| "task_step env m PauseApplies rt = pause_applies rt"
| "task_step env m ResumeApplies rt = resume_applies rt"
| "task_step env m (Stops stage) rt = stop_step env m stage rt"
| "task_step env m (Leaves stage) rt = leave_step m stage rt"
| "task_step env m (RollStarts voice) rt = roll_starts voice rt"
| "task_step env m (Rolls ro stage) rt = roll_step env m ro stage rt"
| "task_step env m (Quiesces k) rt = quiesce_current_transport env m k rt"
| "task_step env m (Interrupts reason k) rt = interrupt_playback reason k rt"
| "task_step env m (Recovers reason k) rt = recover_rollover_without_playback reason k rt"
| "task_step env m (ReadsTrack video_id named other) rt =
     ((if snap_current_video_id (vr_state rt) = Some video_id then named else other), rt)"
| "task_step env m (ResumeStarts rq rollover_epoch) rt = resume_after_rollover rq rollover_epoch rt"
| "task_step env m (ResumeFails rq rollover_epoch err) rt = resume_fails env rq rollover_epoch err rt"

section \<open>The system\<close>

text \<open>All tasks beside the shared state. A command adds a task, a fork adds its child; the driver takes commands from
  its channel or drops it; the producer fills a queue through the worker.\<close>

record ('ds, 'w, 'u, 'p) system =
  sy_runtime :: "('ds, 'w, 'u, 'p) VoiceSessionRuntime"
  sy_tasks :: "'ds task list"

fun forked :: "'ds task \<Rightarrow> 'ds task list" where
  "forked (Forks child k) = [child]"
| "forked _ = []"

datatype 'ds action =
    Submits Command
  | Runs nat "'ds moment"
  | DriverReads nat
  | DriverCloses nat
  | Produces u64 PlaybackSource OpusFrameQueue

definition run_task ::
  "('ds, 'w, 'u, 'p) runtime_env \<Rightarrow> nat \<Rightarrow> 'ds moment \<Rightarrow> ('ds, 'w, 'u, 'p) system \<Rightarrow> ('ds, 'w, 'u, 'p) system" where
  "run_task env i m sys =
    (if i < length (sy_tasks sys)
     then (let task = sy_tasks sys ! i; (task1, rt) = task_step env m task (sy_runtime sys)
           in \<lparr>sy_runtime = rt, sy_tasks = (sy_tasks sys)[i := task1] @ forked task\<rparr>)
     else sys)"

definition produce ::
  "('ds, 'w, 'u, 'p) runtime_env \<Rightarrow> u64 \<Rightarrow> PlaybackSource \<Rightarrow> OpusFrameQueue \<Rightarrow> ('ds, 'w, 'u, 'p) VoiceSessionRuntime
    \<Rightarrow> ('ds, 'w, 'u, 'p) VoiceSessionRuntime" where
  "produce env target source queue rt =
    (case vr_playback rt of
       None \<Rightarrow> rt
     | Some worker \<Rightarrow>
        (case wo_fill (env_worker env) target source queue (vr_positions rt) worker of
           None \<Rightarrow> rt
         | Some (_, _, _, heap, worker1) \<Rightarrow> rt\<lparr>vr_positions := heap, vr_playback := Some worker1\<rparr>))"

fun act ::
  "('ds, 'w, 'u, 'p) runtime_env \<Rightarrow> 'ds action \<Rightarrow> ('ds, 'w, 'u, 'p) system \<Rightarrow> ('ds, 'w, 'u, 'p) system" where
  "act env (Submits command) sys = sys\<lparr>sy_tasks := sy_tasks sys @ [Starts command]\<rparr>"
| "act env (Runs i m) sys = run_task env i m sys"
| "act env (DriverReads channel) sys =
     sys\<lparr>sy_runtime := (let rt = sy_runtime sys in
       rt\<lparr>vr_channels := (vr_channels rt)[channel := snd (try_recv (vr_channels rt ! channel))]\<rparr>)\<rparr>"
| "act env (DriverCloses channel) sys =
     sys\<lparr>sy_runtime := (let rt = sy_runtime sys in
       rt\<lparr>vr_channels := (vr_channels rt)[channel := (vr_channels rt ! channel)\<lparr>chan_open := False\<rparr>]\<rparr>)\<rparr>"
| "act env (Produces target source queue) sys =
     sys\<lparr>sy_runtime := produce env target source queue (sy_runtime sys)\<rparr>"

definition run_actions ::
  "('ds, 'w, 'u, 'p) runtime_env \<Rightarrow> 'ds action list \<Rightarrow> ('ds, 'w, 'u, 'p) system \<Rightarrow> ('ds, 'w, 'u, 'p) system" where
  "run_actions env actions sys = foldl (\<lambda>sys a. act env a sys) sys actions"

definition fresh_system :: "('ds, 'w, 'u, 'p) VoiceSessionRuntime \<Rightarrow> ('ds, 'w, 'u, 'p) system" where
  "fresh_system rt = \<lparr>sy_runtime = rt, sy_tasks = []\<rparr>"

text \<open>The states the service can reach from its start.\<close>

inductive reachable ::
  "('ds, 'w, 'u, 'p) runtime_env \<Rightarrow> ('ds, 'w, 'u, 'p) VoiceSessionRuntime \<Rightarrow> ('ds, 'w, 'u, 'p) system \<Rightarrow> bool"
  for env rt where
  start: "reachable env rt (fresh_system rt)"
| step: "reachable env rt sys \<Longrightarrow> reachable env rt (act env a sys)"

inductive_cases reachableE: "reachable env rt sys"

lemma reachable_run: "reachable env rt (run_actions env actions (fresh_system rt))"
  by (induction actions rule: rev_induct) (auto simp: run_actions_def intro: reachable.intros)

end
