(* ===== verification/SessionLaws.thy ===== *)
theory SessionLaws
  imports SessionCommands "HOL-Library.Multiset"
begin

text \<open>
  What holds of the session runtime whatever the order its tasks run in: a playback that was overtaken never
  touches the snapshot again, at most one playback is current at a time, and the snapshot and the events never show
  playback without a track.
\<close>

section \<open>Overtaken playbacks\<close>

lemmas state_defs = on_state_def event_now_def playback_interrupted_def emit_playback_state_def after_emit_def
lemmas play_defs = play_hints_def play_resolves_def play_awaits_voice_def play_prepares_def play_prepared_def
  play_buffers_def play_fills_def play_filled_def play_takes_def play_settles_def play_settled_def play_returns_def
  send_starts_def consume_playback_reset_def install_media_commands_def
lemmas send_defs = send_plays_def send_emit_def send_loops_def send_metric_def report_position_def send_exit_def
  count_interruption_def send_cleans_def send_awaits_exit_def send_checks_def send_bounds_def send_restores_def
  send_ends_def send_publishes_def publish_playback_metrics_def channel_try_send_def
  clear_media_commands_if_current_def mark_media_owner_returned_def defer_playback_reset_def

lemma finish_play_silent [simp]: "finish_play rq r \<noteq> Emits e k" "Emits e k \<noteq> finish_play rq r"
  by (simp_all add: finish_play_def split: play_origin.splits sum.splits)

lemma stale_play_step:
  assumes "rq_epoch rq \<noteq> vr_playback_epoch rt" and "play_step env m rq stage rt = (t, rt')"
  shows "vr_state rt' = vr_state rt \<and> vr_events rt' = vr_events rt \<and> (\<forall>e k. t \<noteq> Emits e k)"
proof (cases stage)
  case (Sending st sd)
  then show ?thesis
    using assms
    by (cases st) (auto simp: send_defs state_defs Let_def split: if_splits sum.splits option.splits prod.splits
      loop_event.splits pipeline_effect.splits run.splits RuntimeError.splits)
qed (use assms in \<open>auto simp: play_defs state_defs Let_def split: if_splits sum.splits option.splits prod.splits
      outcome.splits bool.splits\<close>)

text \<open>A step of a playback leaves the epoch alone.\<close>

lemma play_step_epoch:
  assumes "play_step env m rq stage rt = (t, rt')"
  shows "vr_playback_epoch rt' = vr_playback_epoch rt"
proof (cases stage)
  case (Sending st sd)
  then show ?thesis
    using assms
    by (cases st) (auto simp: send_defs state_defs Let_def split: if_splits sum.splits option.splits prod.splits
      loop_event.splits pipeline_effect.splits run.splits RuntimeError.splits SessionEventKind.splits)
qed (use assms in \<open>auto simp: play_defs state_defs Let_def split: if_splits sum.splits option.splits prod.splits
      outcome.splits bool.splits SessionEventKind.splits\<close>)

section \<open>One current playback\<close>

text \<open>The epochs of the playbacks a task carries, or will go on to be.\<close>

fun task_epochs :: "'ds task \<Rightarrow> u64 multiset" where
  "task_epochs (Plays rq _) = {#rq_epoch rq#}"
| "task_epochs (ResumeStarts rq _) = {#rq_epoch rq#}"
| "task_epochs (ResumeFails rq _ _) = {#rq_epoch rq#}"
| "task_epochs (Emits _ k) = task_epochs k"
| "task_epochs (Commands _ k) = task_epochs k"
| "task_epochs (SendsTo _ _ k) = task_epochs k"
| "task_epochs (Quiesces k) = task_epochs k"
| "task_epochs (Interrupts _ k) = task_epochs k"
| "task_epochs (Recovers _ k) = task_epochs k"
| "task_epochs (ReadsTrack _ named other) = task_epochs named \<union># task_epochs other"
| "task_epochs (Forks child k) = task_epochs child + task_epochs k"
| "task_epochs _ = {#}"

definition epochs_of :: "'ds task list \<Rightarrow> u64 multiset" where
  "epochs_of ts = sum_list (map task_epochs ts)"

lemma epochs_of_simps [simp]:
  "epochs_of [] = {#}" "epochs_of (t # ts) = task_epochs t + epochs_of ts" "epochs_of (ts @ us) = epochs_of ts + epochs_of us"
  by (simp_all add: epochs_of_def)

lemma epochs_of_update:
  assumes "i < length ts"
  shows "epochs_of ts = task_epochs (ts ! i) + epochs_of (take i ts @ drop (Suc i) ts)"
    and "epochs_of (ts[i := t]) = task_epochs t + epochs_of (take i ts @ drop (Suc i) ts)"
proof -
  show "epochs_of ts = task_epochs (ts ! i) + epochs_of (take i ts @ drop (Suc i) ts)"
    by (subst id_take_nth_drop [OF assms]) simp
  show "epochs_of (ts[i := t]) = task_epochs t + epochs_of (take i ts @ drop (Suc i) ts)"
    by (subst upd_conv_take_nth_drop [OF assms]) simp
qed

lemma finish_play_epochs [simp]: "task_epochs (finish_play rq r) \<subseteq># {#rq_epoch rq#}"
  by (simp add: finish_play_def split: play_origin.splits sum.splits)

lemma after_emit_epochs: "task_epochs k \<subseteq># {#rq_epoch rq#} \<Longrightarrow> task_epochs (after_emit rq r k) \<subseteq># {#rq_epoch rq#}"
  by (simp add: after_emit_def split: sum.splits option.splits)

lemma play_step_epochs:
  assumes "play_step env m rq stage rt = (t, rt')"
  shows "task_epochs t \<subseteq># {#rq_epoch rq#}"
proof (cases stage)
  case (Sending st sd)
  then show ?thesis
    using assms
    by (cases st) (auto simp: send_defs state_defs Let_def after_emit_epochs split: if_splits sum.splits option.splits
      prod.splits loop_event.splits pipeline_effect.splits run.splits RuntimeError.splits)
qed (use assms in \<open>auto simp: play_defs state_defs Let_def after_emit_epochs split: if_splits sum.splits option.splits
      prod.splits outcome.splits bool.splits\<close>)

lemmas command_defs = pause_starts_def pause_applies_def resume_starts_def resume_applies_def stop_starts_def
  stop_owner_def stop_waits_def stop_invalidates_def stop_bounds_def stop_state_def leave_starts_def leave_owner_def
  leave_waits_def update_starts_def refresh_applies_def refresh_suspends_def join_starts_def join_connects_def
  join_installs_def
lemmas roll_defs = roll_starts_def roll_owner_def roll_waits_def roll_matches_def reconnecting_event_def
  match_refreshes_def roll_connects_def roll_fails_def roll_installs_def roll_applies_def roll_resumes_def
  roll_begins_def rollover_resume_is_still_intended_def
lemmas epoch_defs = begin_playback_def invalidate_playback_def begin_rollover_def invalidate_rollover_def
  bump_transport_generation_def defer_playback_reset_def clear_media_commands_def

text \<open>A step hands on the epochs of its task, or starts a playback at the next epoch.\<close>

definition epochs_step :: "u64 \<Rightarrow> u64 \<Rightarrow> u64 multiset \<Rightarrow> u64 multiset \<Rightarrow> bool" where
  "epochs_step e e' old new \<longleftrightarrow> (e' = e \<or> e' = e + 1) \<and> (new \<subseteq># old \<or> e' = e + 1 \<and> new = {#e'#})"

lemma handle_command_epochs:
  assumes "handle_command c rt = (t', rt')"
  shows "epochs_step (vr_playback_epoch rt) (vr_playback_epoch rt') {#} (task_epochs t')"
  using assms by (cases c) (auto simp: command_defs epoch_defs epochs_step_def on_state_def Let_def split: sum.splits if_splits)

lemma roll_step_epochs:
  assumes "roll_step env m ro stage rt = (t', rt')"
  shows "epochs_step (vr_playback_epoch rt) (vr_playback_epoch rt') {#} (task_epochs t')"
  using assms
  by (cases stage) (auto simp: roll_defs epoch_defs epochs_step_def on_state_def Let_def
    split: sum.splits if_splits option.splits outcome.splits prod.splits)

lemma stop_step_epochs:
  assumes "stop_step env m stage rt = (t', rt')"
  shows "epochs_step (vr_playback_epoch rt) (vr_playback_epoch rt') {#} (task_epochs t')"
  using assms
  by (cases stage) (auto simp: command_defs epoch_defs epochs_step_def on_state_def Let_def
    split: sum.splits if_splits option.splits run.splits prod.splits)

lemma leave_step_epochs:
  assumes "leave_step m stage rt = (t', rt')"
  shows "epochs_step (vr_playback_epoch rt) (vr_playback_epoch rt') {#} (task_epochs t')"
  using assms
  by (cases stage) (auto simp: command_defs epoch_defs epochs_step_def on_state_def Let_def
    split: sum.splits if_splits option.splits run.splits prod.splits)

lemma refresh_step_epochs:
  assumes "refresh_step env voice stage rt = (t', rt')"
  shows "epochs_step (vr_playback_epoch rt) (vr_playback_epoch rt') {#} (task_epochs t')"
  using assms
  by (cases stage) (auto simp: command_defs epoch_defs epochs_step_def on_state_def Let_def
    split: sum.splits if_splits option.splits run.splits prod.splits)

lemma task_step_epochs:
  assumes "task_step env m t rt = (t', rt')"
  shows "epochs_step (vr_playback_epoch rt) (vr_playback_epoch rt') (task_epochs t) (task_epochs t' + epochs_of (forked t))"
proof (cases t)
  case (Starts c)
  with assms handle_command_epochs [of c rt] show ?thesis by simp
next
  case (Plays rq stage)
  with assms play_step_epochs [of env m rq stage rt] play_step_epoch [of env m rq stage rt] show ?thesis
    by (simp add: epochs_step_def)
next
  case (Rolls ro stage)
  with assms roll_step_epochs [of env m ro stage rt] show ?thesis by simp
next
  case (Stops stage)
  with assms stop_step_epochs [of env m stage rt] show ?thesis by simp
next
  case (Leaves stage)
  with assms leave_step_epochs [of m stage rt] show ?thesis by simp
next
  case (Refreshes voice stage)
  with assms refresh_step_epochs [of env voice stage rt] show ?thesis by simp
qed (use assms in \<open>auto simp: command_defs roll_defs epoch_defs epochs_step_def on_state_def Let_def channel_send_def
      quiesce_current_transport_def interrupt_playback_def recover_rollover_without_playback_def
      resume_after_rollover_def resume_fails_def resume_attempt_is_still_current_def
      split: sum.splits if_splits option.splits outcome.splits run.splits prod.splits\<close>)

text \<open>After n actions the epoch is at most n, so it does not wrap around in any run the service can make.\<close>

definition epochs_inv :: "nat \<Rightarrow> ('ds, 'w, 'u, 'p) system \<Rightarrow> bool" where
  "epochs_inv n sys \<longleftrightarrow> unat (vr_playback_epoch (sy_runtime sys)) \<le> n
     \<and> (\<forall>e \<in># epochs_of (sy_tasks sys). unat e \<le> unat (vr_playback_epoch (sy_runtime sys)))
     \<and> (\<forall>e. count (epochs_of (sy_tasks sys)) e \<le> 1)"

lemma epochs_step_inv:
  assumes step: "epochs_step e e' old new" and n: "Suc n < 2 ^ 64" "unat e \<le> n"
    and le: "\<forall>x \<in># old + rest. unat x \<le> unat e" and one: "\<forall>x. count (old + rest) x \<le> 1"
  shows "unat e' \<le> Suc n \<and> (\<forall>x \<in># new + rest. unat x \<le> unat e') \<and> (\<forall>x. count (new + rest) x \<le> 1)"
proof -
  have up: "unat (e + 1) = Suc (unat e)" using n by (simp add: unat_word_ariths)
  have e': "unat e \<le> unat e'" "unat e' \<le> Suc n" using step up n by (auto simp: epochs_step_def)
  show ?thesis
  proof (cases "new \<subseteq># old")
    case True
    then have "count (new + rest) x \<le> count (old + rest) x" for x by (simp add: mset_subset_eq_count)
    moreover have "x \<in># new + rest \<Longrightarrow> x \<in># old + rest" for x using True by (auto dest: mset_subset_eqD)
    ultimately show ?thesis using e' le one by (meson le_trans)
  next
    case False
    with step have new: "e' = e + 1" "new = {#e'#}" by (auto simp: epochs_step_def)
    have "e' \<notin># rest"
    proof
      assume "e' \<in># rest"
      with le new up show False by force
    qed
    then have "count rest e' = 0" by (simp add: not_in_iff)
    moreover have "count rest x \<le> 1" for x using one [rule_format, of x] by simp
    ultimately have "\<forall>x. count (new + rest) x \<le> 1" using new by simp
    moreover have "\<forall>x \<in># new + rest. unat x \<le> unat e'" using le e' new by (auto intro: le_trans)
    ultimately show ?thesis using e' by blast
  qed
qed

lemma run_task_epochs:
  assumes "epochs_inv n sys" and "Suc n < 2 ^ 64"
  shows "epochs_inv (Suc n) (run_task env i m sys)"
proof (cases "i < length (sy_tasks sys)")
  case True
  obtain t' rt' where step: "task_step env m (sy_tasks sys ! i) (sy_runtime sys) = (t', rt')" by fastforce
  let ?rest = "epochs_of (take i (sy_tasks sys) @ drop (Suc i) (sy_tasks sys))"
  have old: "epochs_of (sy_tasks sys) = task_epochs (sy_tasks sys ! i) + ?rest"
    and new: "epochs_of ((sy_tasks sys)[i := t'] @ forked (sy_tasks sys ! i))
      = task_epochs t' + epochs_of (forked (sy_tasks sys ! i)) + ?rest"
    using epochs_of_update [OF True] by (simp_all add: ac_simps)
  from epochs_step_inv [OF task_step_epochs [OF step] assms(2), of ?rest] assms(1)
  show ?thesis unfolding epochs_inv_def run_task_def by (simp add: True step old new del: epochs_of_simps)
next
  case False
  with assms(1) show ?thesis by (auto simp: run_task_def epochs_inv_def)
qed

lemma act_epochs:
  assumes "epochs_inv n sys" and "Suc n < 2 ^ 64"
  shows "epochs_inv (Suc n) (act env a sys)"
proof (cases a)
  case (Runs i m)
  with run_task_epochs [OF assms] show ?thesis by simp
qed (use assms(1) in \<open>auto simp: epochs_inv_def produce_def Let_def split: option.splits\<close>)

lemma run_actions_epochs:
  "length actions < 2 ^ 64 \<Longrightarrow> unat (vr_playback_epoch rt) = 0
    \<Longrightarrow> epochs_inv (length actions) (run_actions env actions (fresh_system rt))"
proof (induction actions rule: rev_induct)
  case Nil
  then show ?case by (simp add: epochs_inv_def run_actions_def fresh_system_def)
next
  case (snoc a actions)
  with act_epochs [of "length actions"] show ?case by (simp add: run_actions_def)
qed

text \<open>C5: At most one playback is current. Whatever commands the service is sent and in whatever order its tasks run,
  no two tasks carry a playback of the same epoch, so at most one playback holds the current epoch: two playbacks
  never both believe to own the session.\<close>

theorem one_current_playback:
  assumes "length actions < 2 ^ 64"
    and "sys = run_actions env actions (fresh_system (VoiceSessionRuntime_with playback positions w u))"
  shows "count (epochs_of (sy_tasks sys)) (vr_playback_epoch (sy_runtime sys)) \<le> 1
    \<and> (\<forall>e. count (epochs_of (sy_tasks sys)) e \<le> 1)
    \<and> (\<forall>e \<in># epochs_of (sy_tasks sys). unat e \<le> unat (vr_playback_epoch (sy_runtime sys)))"
proof -
  have "epochs_inv (length actions) sys"
    unfolding assms(2) by (rule run_actions_epochs [OF assms(1)]) (simp add: VoiceSessionRuntime_with_def)
  then show ?thesis by (simp add: epochs_inv_def)
qed

section \<open>Overtaken playbacks in a run\<close>

text \<open>A task that carries a playback and has no event to emit, and one that has decided on a single event.\<close>

fun calm :: "'ds task \<Rightarrow> bool" where
  "calm (Plays _ _) \<longleftrightarrow> True"
| "calm (ResumeStarts _ _) \<longleftrightarrow> True"
| "calm (ResumeFails _ _ _) \<longleftrightarrow> True"
| "calm (SendsTo _ _ k) \<longleftrightarrow> calm k"
| "calm (ReadsTrack _ named other) \<longleftrightarrow> calm named \<and> calm other"
| "calm (Forks child k) \<longleftrightarrow> calm child \<and> calm k"
| "calm (Ended _) \<longleftrightarrow> True"
| "calm Crashed \<longleftrightarrow> True"
| "calm _ \<longleftrightarrow> False"

definition about_to_emit :: "'ds task \<Rightarrow> bool" where
  "about_to_emit t \<longleftrightarrow> (\<exists>event k. t = Emits event k \<and> calm k)"

definition playback_form :: "'ds task \<Rightarrow> bool" where
  "playback_form t \<longleftrightarrow> task_epochs t = {#} \<or> calm t \<or> about_to_emit t"

lemma finish_play_calm [simp]: "calm (finish_play rq r)"
  by (simp add: finish_play_def split: play_origin.splits sum.splits)

lemma after_emit_form: "calm k \<Longrightarrow> calm (after_emit rq r k) \<or> about_to_emit (after_emit rq r k)"
  by (auto simp: after_emit_def about_to_emit_def split: sum.splits option.splits)

lemma emits_form [simp]: "about_to_emit (Emits event k) \<longleftrightarrow> calm k" "\<not> calm (Emits event k)"
  by (auto simp: about_to_emit_def)

lemma play_step_form:
  assumes "play_step env m rq stage rt = (t, rt')"
  shows "calm t \<or> about_to_emit t"
proof (cases stage)
  case (Sending st sd)
  then show ?thesis
    using assms
    by (cases st) (auto simp: send_defs state_defs Let_def split: if_splits sum.splits option.splits prod.splits
      loop_event.splits pipeline_effect.splits run.splits RuntimeError.splits)
qed (use assms in \<open>auto simp: play_defs state_defs Let_def split: if_splits sum.splits option.splits prod.splits
      outcome.splits bool.splits\<close>)

text \<open>A playback that is not current, one step on: nothing of it is seen, and it still has nothing to emit.\<close>

lemma calm_stale_step:
  assumes "calm t" and "vr_playback_epoch rt \<notin># task_epochs t" and "task_step env m t rt = (t', rt')"
  shows "vr_state rt' = vr_state rt \<and> vr_events rt' = vr_events rt \<and> calm t' \<and> task_epochs t' \<subseteq># task_epochs t"
proof (cases t)
  case (Plays rq stage)
  with assms have step: "play_step env m rq stage rt = (t', rt')" and "rq_epoch rq \<noteq> vr_playback_epoch rt" by auto
  with stale_play_step [OF this(2) step] play_step_form [OF step] play_step_epochs [OF step] Plays show ?thesis
    by (auto simp: about_to_emit_def)
qed (use assms in \<open>auto simp: channel_send_def resume_after_rollover_def resume_fails_def resume_attempt_is_still_current_def
      playback_state_is_current_def Let_def split: option.splits if_splits\<close>)

lemma command_form:
  assumes "handle_command c rt = (t', rt')"
  shows "playback_form t'"
  using assms by (cases c) (auto simp: command_defs epoch_defs playback_form_def on_state_def Let_def split: sum.splits if_splits)

lemma roll_form:
  assumes "roll_step env m ro stage rt = (t', rt')"
  shows "playback_form t'"
  using assms
  by (cases stage) (auto simp: roll_defs epoch_defs playback_form_def on_state_def Let_def
    split: sum.splits if_splits option.splits outcome.splits prod.splits)

lemma task_step_form:
  assumes "task_step env m t rt = (t', rt')" and "playback_form t"
  shows "playback_form t' \<and> list_all playback_form (forked t)"
proof (cases t)
  case (Starts c)
  with assms command_form [of c rt] show ?thesis by simp
next
  case (Plays rq stage)
  with assms play_step_form [of env m rq stage rt] show ?thesis by (auto simp: playback_form_def)
next
  case (Rolls ro stage)
  with assms roll_form [of env m ro stage rt] show ?thesis by simp
next
  case (Stops stage)
  have "task_epochs t' = {#}"
    using assms Stops by (cases stage) (auto simp: command_defs on_state_def Let_def
      split: sum.splits if_splits option.splits run.splits prod.splits)
  with Stops show ?thesis by (simp add: playback_form_def)
next
  case (Leaves stage)
  have "task_epochs t' = {#}"
    using assms Leaves by (cases stage) (auto simp: command_defs on_state_def Let_def split: sum.splits if_splits option.splits)
  with Leaves show ?thesis by (simp add: playback_form_def)
next
  case (Refreshes voice stage)
  have "task_epochs t' = {#}"
    using assms Refreshes by (cases stage) (auto simp: command_defs on_state_def Let_def
      split: sum.splits if_splits option.splits run.splits prod.splits)
  with Refreshes show ?thesis by (simp add: playback_form_def)
qed (use assms in \<open>auto simp: playback_form_def about_to_emit_def command_defs roll_defs epoch_defs on_state_def Let_def channel_send_def
      quiesce_current_transport_def interrupt_playback_def recover_rollover_without_playback_def
      resume_after_rollover_def resume_fails_def resume_attempt_is_still_current_def
      split: sum.splits if_splits option.splits outcome.splits run.splits prod.splits\<close>)

lemma act_form: "list_all playback_form (sy_tasks sys) \<Longrightarrow> list_all playback_form (sy_tasks (act env a sys))"
proof (cases a)
  case (Submits c)
  assume "list_all playback_form (sy_tasks sys)"
  with Submits show ?thesis by (simp add: playback_form_def [of "Starts c"])
next
  case (Runs i m)
  assume forms: "list_all playback_form (sy_tasks sys)"
  obtain t' rt' where step: "task_step env m (sy_tasks sys ! i) (sy_runtime sys) = (t', rt')" by fastforce
  show ?thesis
  proof (cases "i < length (sy_tasks sys)")
    case True
    then have "playback_form (sy_tasks sys ! i)" using forms by (simp add: list_all_length)
    with task_step_form [OF step] forms Runs step True show ?thesis
      by (auto simp: run_task_def list_all_iff dest!: set_update_subset_insert [THEN subsetD])
  qed (use forms Runs in \<open>simp add: run_task_def\<close>)
qed simp_all

lemma run_form: "list_all playback_form (sy_tasks (run_actions env actions (fresh_system rt)))"
  by (induction actions rule: rev_induct) (simp_all add: run_actions_def fresh_system_def act_form)

lemma act_epoch_mono:
  assumes "epochs_inv n sys" and "Suc n < 2 ^ 64"
  shows "unat (vr_playback_epoch (sy_runtime sys)) \<le> unat (vr_playback_epoch (sy_runtime (act env a sys)))"
proof (cases a)
  case (Runs i m)
  obtain t' rt' where step: "task_step env m (sy_tasks sys ! i) (sy_runtime sys) = (t', rt')" by fastforce
  have "unat (vr_playback_epoch (sy_runtime sys) + 1) = Suc (unat (vr_playback_epoch (sy_runtime sys)))"
    using assms by (auto simp: epochs_inv_def unat_word_ariths)
  then have "unat (vr_playback_epoch (sy_runtime sys)) \<le> unat (vr_playback_epoch rt')"
    using task_step_epochs [OF step] by (auto simp: epochs_step_def)
  with Runs step show ?thesis by (simp add: run_task_def)
qed (auto simp: produce_def Let_def split: option.splits)

text \<open>The task at an index, seen from the moment it was overtaken as \<open>t0\<close>.\<close>

definition fenced_off :: "nat \<Rightarrow> 'ds task \<Rightarrow> bool \<Rightarrow> ('ds, 'w, 'u, 'p) system \<Rightarrow> bool" where
  "fenced_off i t0 moved sys \<longleftrightarrow> i < length (sy_tasks sys)
     \<and> (calm (sy_tasks sys ! i) \<or> \<not> moved \<and> sy_tasks sys ! i = t0 \<and> about_to_emit t0)
     \<and> (\<forall>e \<in># task_epochs (sy_tasks sys ! i). unat e < unat (vr_playback_epoch (sy_runtime sys)))"

lemma fenced_off_step:
  assumes "fenced_off i t0 moved sys" and "task_step env m (sy_tasks sys ! i) (sy_runtime sys) = (t', rt')"
  shows "vr_state rt' = vr_state (sy_runtime sys)
    \<and> vr_events rt' = vr_events (sy_runtime sys) @ (case sy_tasks sys ! i of Emits event _ \<Rightarrow> [event] | _ \<Rightarrow> [])
    \<and> calm t' \<and> task_epochs t' \<subseteq># task_epochs (sy_tasks sys ! i)"
proof (cases "calm (sy_tasks sys ! i)")
  case True
  have "vr_playback_epoch (sy_runtime sys) \<notin># task_epochs (sy_tasks sys ! i)" using assms(1) by (auto simp: fenced_off_def)
  from calm_stale_step [OF True this assms(2)] True show ?thesis by (auto split: task.split)
next
  case False
  with assms show ?thesis by (auto simp: fenced_off_def about_to_emit_def)
qed

lemma fenced_off_act:
  assumes "fenced_off i t0 moved sys" and "epochs_inv n sys" and "Suc n < 2 ^ 64"
  shows "fenced_off i t0 (moved \<or> (\<exists>m. a = Runs i m)) (act env a sys)"
proof -
  let ?sys = "act env a sys"
  have mono: "unat (vr_playback_epoch (sy_runtime sys)) \<le> unat (vr_playback_epoch (sy_runtime ?sys))"
    by (rule act_epoch_mono [OF assms(2,3)])
  have i: "i < length (sy_tasks sys)" using assms(1) by (simp add: fenced_off_def)
  show ?thesis
  proof (cases "\<exists>m. a = Runs i m")
    case True
    then obtain m where a: "a = Runs i m" by blast
    obtain t' rt' where step: "task_step env m (sy_tasks sys ! i) (sy_runtime sys) = (t', rt')" by fastforce
    have "sy_tasks ?sys ! i = t'" "i < length (sy_tasks ?sys)" using a i step by (simp_all add: run_task_def nth_append)
    moreover note fenced_off_step [OF assms(1) step]
    moreover have "unat e < unat (vr_playback_epoch (sy_runtime ?sys))" if "e \<in># task_epochs t'" for e
      using that mset_subset_eqD [of "task_epochs t'" "task_epochs (sy_tasks sys ! i)" e] fenced_off_step [OF assms(1) step]
        assms(1) mono by (fastforce simp: fenced_off_def)
    ultimately show ?thesis by (simp add: fenced_off_def)
  next
    case False
    have "sy_tasks ?sys ! i = sy_tasks sys ! i \<and> i < length (sy_tasks ?sys)"
    proof (cases a)
      case (Runs j m)
      with False i show ?thesis by (cases "j = i") (auto simp: run_task_def nth_append Let_def split: prod.split)
    qed (use i in \<open>auto simp: nth_append\<close>)
    with False assms(1) mono show ?thesis by (fastforce simp: fenced_off_def)
  qed
qed

lemma fenced_off_run:
  assumes "fenced_off i t0 False sys" and "epochs_inv n sys" and "n + length later < 2 ^ 64"
  shows "fenced_off i t0 (\<exists>m. Runs i m \<in> set later) (run_actions env later sys)
    \<and> epochs_inv (n + length later) (run_actions env later sys)"
  using assms
proof (induction later rule: rev_induct)
  case (snoc a later)
  let ?sys = "run_actions env later sys"
  have ih: "fenced_off i t0 (\<exists>m. Runs i m \<in> set later) ?sys" "epochs_inv (n + length later) ?sys" using snoc by simp_all
  have "Suc (n + length later) < 2 ^ 64" using snoc.prems(3) by simp
  moreover have "(\<exists>m. Runs i m \<in> set (later @ [a])) \<longleftrightarrow> (\<exists>m. Runs i m \<in> set later) \<or> (\<exists>m. a = Runs i m)" by auto
  ultimately show ?case using fenced_off_act [OF ih, of a env] act_epochs [OF ih(2), of env a]
    by (simp add: run_actions_def del: set_append)
qed (simp add: run_actions_def)

text \<open>C4: Overtaken playbacks are fenced off. Take any run of the service, in any interleaving, and a task that carries a
  playback whose epoch is not the current one. However the run goes on, whatever commands arrive and however often the
  task still runs, at whatever point of preparing, sending or cleaning up it is: none of its steps ever changes the
  snapshot of the session, and none emits an event, but for one: when the task had already decided on an event before it
  was overtaken, its next step emits that event, and none after it emits any. Runs are shorter than \<open>2^64\<close> actions, so
  that epochs do not wrap around. A resume after a rollover that failed carries no playback any more: once it has
  found itself current, it interrupts the session even if it is overtaken then.\<close>

theorem stale_playback_is_fenced:
  assumes "length actions + length later < 2 ^ 64"
    and "sys = run_actions env actions (fresh_system (VoiceSessionRuntime_with playback positions w u))"
    and "i < length (sy_tasks sys)" and "task_epochs (sy_tasks sys ! i) \<noteq> {#}"
    and "vr_playback_epoch (sy_runtime sys) \<notin># task_epochs (sy_tasks sys ! i)"
    and "sys' = run_actions env later sys"
  shows "vr_state (sy_runtime (run_task env i m sys')) = vr_state (sy_runtime sys')
    \<and> vr_events (sy_runtime (run_task env i m sys'))
        = vr_events (sy_runtime sys') @ (case sy_tasks sys' ! i of Emits event _ \<Rightarrow> [event] | _ \<Rightarrow> [])
    \<and> (\<forall>event k. sy_tasks sys' ! i = Emits event k \<longrightarrow> sy_tasks sys ! i = Emits event k \<and> (\<forall>m. Runs i m \<notin> set later))"
proof -
  let ?t = "sy_tasks sys ! i"
  have inv: "epochs_inv (length actions) sys"
    unfolding assms(2) by (rule run_actions_epochs) (use assms(1) in \<open>simp_all add: VoiceSessionRuntime_with_def\<close>)
  have le: "unat e \<le> unat (vr_playback_epoch (sy_runtime sys))" if "e \<in># task_epochs ?t" for e
    using that inv epochs_of_update(1) [OF assms(3)] by (auto simp: epochs_inv_def)
  have "unat e < unat (vr_playback_epoch (sy_runtime sys))" if "e \<in># task_epochs ?t" for e
    using le [OF that] that assms(5) by (metis le_neq_implies_less word_unat_eq_iff)
  moreover have "calm ?t \<or> about_to_emit ?t"
    using run_form [of env actions "VoiceSessionRuntime_with playback positions w u"] assms(2-4)
    by (auto simp: list_all_length playback_form_def)
  ultimately have "fenced_off i ?t False sys" using assms(3) by (auto simp: fenced_off_def)
  from fenced_off_run [OF this inv assms(1), of env] have off: "fenced_off i ?t (\<exists>m. Runs i m \<in> set later) sys'"
    by (simp add: assms(6))
  obtain t' rt' where step: "task_step env m (sy_tasks sys' ! i) (sy_runtime sys') = (t', rt')" by fastforce
  have run: "sy_runtime (run_task env i m sys') = rt'" using off step by (simp add: fenced_off_def run_task_def)
  have "sy_tasks sys' ! i = Emits event k \<Longrightarrow> ?t = Emits event k \<and> (\<forall>m. Runs i m \<notin> set later)" for event k
    using off by (auto simp: fenced_off_def)
  with fenced_off_step [OF off step] show ?thesis by (simp add: run)
qed

section \<open>The snapshot and the events\<close>

definition track_ok :: "Snapshot \<Rightarrow> bool" where
  "track_ok s \<longleftrightarrow> (snap_state s \<in> {ResolvingTrack, Buffering, Playing, Paused} \<longrightarrow> snap_current_video_id s \<noteq> None)
     \<and> snap_state s \<notin> {Stopping, ErrorState}"

definition event_ok :: "SessionEventRecord \<Rightarrow> bool" where
  "event_ok e \<longleftrightarrow> (event_kind e \<in> {EvTrackResolving, EvBuffering, EvPlaying, EvPaused} \<longrightarrow> event_current_video_id e \<noteq> None)
     \<and> (event_kind e = EvBuffering \<longrightarrow> event_selected_itag e \<noteq> None)
     \<and> (event_kind e \<in> {EvVoiceConnecting, EvVoiceReady} \<longrightarrow> event_guild_id e \<noteq> None \<and> event_channel_id e \<noteq> None)
     \<and> (event_kind e \<in> {EvStopped, EvPlaybackInterrupted} \<longrightarrow> event_current_video_id e = None \<and> event_selected_itag e = None)
     \<and> (event_kind e \<in> {EvPlaybackInterrupted, EvRecoverableWarning} \<longrightarrow> event_message e \<noteq> None)
     \<and> event_kind e \<noteq> EvFatalError"

text \<open>The events a task is about to emit.\<close>

fun task_events :: "'ds task \<Rightarrow> SessionEventRecord list" where
  "task_events (Emits e k) = e # task_events k"
| "task_events (Commands _ k) = task_events k"
| "task_events (SendsTo _ _ k) = task_events k"
| "task_events (Quiesces k) = task_events k"
| "task_events (Interrupts _ k) = task_events k"
| "task_events (Recovers _ k) = task_events k"
| "task_events (ReadsTrack _ named other) = task_events named @ task_events other"
| "task_events (Forks child k) = task_events child @ task_events k"
| "task_events _ = []"

definition keeps_shown ::
  "('ds, 'w, 'u, 'p) VoiceSessionRuntime \<Rightarrow> ('ds, 'w, 'u, 'p) task_step \<Rightarrow> bool" where
  "keeps_shown rt r \<longleftrightarrow> track_ok (vr_state (snd r)) \<and> list_all event_ok (task_events (fst r)) \<and> vr_events (snd r) = vr_events rt"

lemma finish_play_events [simp]: "task_events (finish_play rq r) = []"
  by (simp add: finish_play_def split: play_origin.splits sum.splits)

lemmas shown_defs = keeps_shown_def track_ok_def event_ok_def SessionEventRecord_from_snapshot_def clear_track_def
  apply_voice_context_def apply_rollover_state_def voice_ready_or_idle_def

lemma emit_state_shown:
  assumes "track_ok (vr_state rt)" and "kind \<in> {EvBuffering, EvPlaying}" and "task_events k = []"
    and "emit_playback_state kind video epoch itag depth position rt = (r, rt')"
  shows "keeps_shown rt (after_emit rq r k, rt')"
  using assms by (auto simp: shown_defs state_defs Let_def split: if_splits)

lemma metric_effect:
  "apply_pipeline_metric now metric position p = (EmitsState kind, position', p') \<Longrightarrow> kind \<in> {EvBuffering, EvPlaying}"
  by (auto simp: apply_pipeline_metric_def Let_def split: PlaybackPipelineMetric.splits if_splits prod.splits)

lemma send_emit_shown:
  "track_ok (vr_state rt) \<Longrightarrow> kind \<in> {EvBuffering, EvPlaying} \<Longrightarrow> keeps_shown rt (send_emit rq sd kind rt)"
  using emit_state_shown [of rt kind "Plays rq (Sending SendLoops sd)"] by (auto simp: send_emit_def Let_def split: prod.splits)

lemma keeps_shown_other:
  "keeps_shown rt1 r \<Longrightarrow> vr_events rt1 = vr_events rt \<Longrightarrow> keeps_shown rt r"
  by (simp add: keeps_shown_def)

lemma send_metric_shown:
  assumes "track_ok (vr_state rt)"
  shows "keeps_shown rt (send_metric m rq sd metric rt)"
proof -
  obtain effect position p where
    a: "apply_pipeline_metric (mo_now m) metric (vr_positions rt ! sd_position sd) (sd_pipeline sd) = (effect, position, p)"
    using prod_cases3 by blast
  show ?thesis
  proof (cases effect)
    case (EmitsState kind)
    let ?rt = "rt\<lparr>vr_positions := (vr_positions rt)[sd_position sd := position]\<rparr>"
    have "keeps_shown ?rt (send_emit rq (sd\<lparr>sd_pipeline := p\<rparr>) kind ?rt)"
      using send_emit_shown [of ?rt kind] metric_effect [of "mo_now m" metric] a EmitsState assms by simp
    then have "keeps_shown rt (send_emit rq (sd\<lparr>sd_pipeline := p\<rparr>) kind ?rt)" by (rule keeps_shown_other) simp
    then show ?thesis by (simp add: send_metric_def a EmitsState)
  qed (use assms in \<open>auto simp: send_metric_def a report_position_def shown_defs state_defs Let_def\<close>)
qed

lemma sending_step_shown:
  assumes "track_ok (vr_state rt)"
  shows "keeps_shown rt (sending_step env m rq sd st rt)"
proof (cases st)
  case SendPlays
  with assms send_emit_shown [OF assms, of EvPlaying] show ?thesis by (auto simp: send_plays_def shown_defs)
next
  case SendLoops
  let ?rt = "if playback_interrupted (rq_epoch rq) rt then channel_try_send (sd_channel sd) (StopMedia True) rt else rt"
  have rt: "vr_state ?rt = vr_state rt" "vr_events ?rt = vr_events rt" by (simp_all add: channel_try_send_def)
  show ?thesis
  proof (cases "mo_event m")
    case (LoopMetric metric)
    from rt assms have "keeps_shown ?rt (send_metric m rq sd metric ?rt)" by (simp add: send_metric_shown)
    then have "keeps_shown rt (send_metric m rq sd metric ?rt)" using rt(2) by (rule keeps_shown_other)
    with LoopMetric SendLoops show ?thesis by (simp add: send_loops_def Let_def)
  qed (use SendLoops rt assms in \<open>auto simp: send_loops_def send_exit_def count_interruption_def keeps_shown_def Let_def
        split: option.splits RuntimeError.splits\<close>)
qed (use assms in \<open>auto simp: send_defs shown_defs state_defs Let_def split: if_splits sum.splits option.splits prod.splits
      loop_event.splits run.splits\<close>)

lemma play_step_shown:
  assumes "track_ok (vr_state rt)"
  shows "keeps_shown rt (play_step env m rq stage rt)"
proof (cases stage)
  case (Sending st sd)
  with assms show ?thesis by (simp add: sending_step_shown)
next
  case (PlayBuffers py)
  with assms emit_state_shown [of rt EvBuffering "Plays rq (PlayFills py)"] show ?thesis
    by (auto simp: play_buffers_def Let_def split: prod.splits)
qed (use assms in \<open>auto simp: play_defs shown_defs state_defs Let_def split: if_splits sum.splits option.splits prod.splits
      outcome.splits bool.splits\<close>)

lemmas guard_defs = ensure_joinable_session_def ensure_active_voice_session_def ensure_track_loaded_def
  ensure_pauseable_track_def ensure_resumable_track_def res_bind_def

lemma handle_command_shown: "track_ok (vr_state rt) \<Longrightarrow> keeps_shown rt (handle_command c rt)"
  by (cases c) (auto simp: command_defs epoch_defs shown_defs state_defs guard_defs Let_def split: sum.splits if_splits)

lemma roll_step_shown: "track_ok (vr_state rt) \<Longrightarrow> keeps_shown rt (roll_step env m ro stage rt)"
  by (cases stage) (auto simp: roll_defs epoch_defs shown_defs state_defs Let_def
    split: sum.splits if_splits option.splits outcome.splits prod.splits)

lemma stop_step_shown: "track_ok (vr_state rt) \<Longrightarrow> keeps_shown rt (stop_step env m stage rt)"
  by (cases stage) (auto simp: command_defs epoch_defs stopped_snapshot_def shown_defs state_defs Let_def
    split: sum.splits if_splits option.splits run.splits prod.splits)

lemma leave_step_shown: "track_ok (vr_state rt) \<Longrightarrow> keeps_shown rt (leave_step m stage rt)"
  by (cases stage) (auto simp: command_defs epoch_defs Snapshot_default_def shown_defs state_defs Let_def
    split: sum.splits if_splits option.splits)

lemma refresh_step_shown: "track_ok (vr_state rt) \<Longrightarrow> keeps_shown rt (refresh_step env voice stage rt)"
  by (cases stage) (auto simp: command_defs shown_defs state_defs Let_def
    split: sum.splits if_splits option.splits prod.splits)

text \<open>Any step: events leave their task in order and reach the bus, and new ones are well formed.\<close>

definition shown_inv :: "('ds, 'w, 'u, 'p) system \<Rightarrow> bool" where
  "shown_inv sys \<longleftrightarrow> track_ok (vr_state (sy_runtime sys)) \<and> (\<forall>e \<in> set (vr_events (sy_runtime sys)). event_ok e)
     \<and> (\<forall>t \<in> set (sy_tasks sys). list_all event_ok (task_events t))"

lemma keeps_shownD:
  "keeps_shown rt r \<Longrightarrow> r = (t', rt')
    \<Longrightarrow> track_ok (vr_state rt') \<and> list_all event_ok (task_events t') \<and> vr_events rt' = vr_events rt"
  by (simp add: keeps_shown_def)

lemma join_shown:
  assumes "track_ok (vr_state rt)"
  shows "keeps_shown rt (join_connects env m voice rt)" "keeps_shown rt (join_installs session rt)"
    "keeps_shown rt (pause_applies rt)" "keeps_shown rt (resume_applies rt)" "keeps_shown rt (roll_starts voice rt)"
  using assms
  by (auto simp: command_defs roll_starts_def epoch_defs shown_defs state_defs guard_defs Let_def
      split: sum.splits if_splits outcome.splits prod.splits)

lemma interruption_shown:
  assumes "track_ok (vr_state rt)" and "list_all event_ok (task_events k)"
  shows "keeps_shown rt (interrupt_playback reason k rt)" "keeps_shown rt (recover_rollover_without_playback reason k rt)"
    "keeps_shown rt (quiesce_current_transport env m k rt)"
proof -
  show "keeps_shown rt (interrupt_playback reason k rt)" "keeps_shown rt (recover_rollover_without_playback reason k rt)"
    using assms by (auto simp: interrupt_playback_def recover_rollover_without_playback_def shown_defs state_defs)
  show "keeps_shown rt (quiesce_current_transport env m k rt)"
    using assms by (auto simp: quiesce_current_transport_def keeps_shown_def Let_def split: option.splits prod.splits run.splits)
qed

lemma resume_shown:
  assumes "track_ok (vr_state rt)"
  shows "keeps_shown rt (resume_after_rollover rq epoch rt)" "keeps_shown rt (resume_fails env rq epoch err rt)"
  using assms by (simp_all add: resume_after_rollover_def resume_fails_def resume_attempt_is_still_current_def keeps_shown_def)

lemma task_step_keeps:
  assumes "track_ok (vr_state rt)" "list_all event_ok (task_events t)" and "\<And>e k. t \<noteq> Emits e k"
  shows "keeps_shown rt (task_step env m t rt)"
proof (cases t)
  case (SendsTo channel command k)
  with assms show ?thesis by (simp add: channel_send_def keeps_shown_def Let_def split: option.splits)
next
  case (Commands command k)
  with assms show ?thesis by (simp add: keeps_shown_def split: option.splits)
next
  case (Forks child k)
  with assms show ?thesis by (simp add: keeps_shown_def)
next
  case (ReadsTrack video_id named other)
  with assms show ?thesis by (simp add: keeps_shown_def)
qed (use assms in \<open>simp_all add: handle_command_shown play_step_shown roll_step_shown stop_step_shown leave_step_shown
      refresh_step_shown join_shown interruption_shown resume_shown keeps_shown_def [of rt "(Ended r, rt)" for r]
      keeps_shown_def [of rt "(Crashed, rt)"]\<close>)

lemma task_step_shown:
  assumes "task_step env m t rt = (t', rt')" and ok: "track_ok (vr_state rt)" "list_all event_ok (task_events t)"
  shows "track_ok (vr_state rt') \<and> list_all event_ok (task_events t')
    \<and> (\<forall>e \<in> set (vr_events rt'). e \<in> set (vr_events rt) \<or> event_ok e)
    \<and> (\<forall>c \<in> set (forked t). list_all event_ok (task_events c))"
proof -
  have "\<forall>c \<in> set (forked t). list_all event_ok (task_events c)" using ok(2) by (cases t) simp_all
  moreover have "track_ok (vr_state rt') \<and> list_all event_ok (task_events t')
    \<and> (\<forall>e \<in> set (vr_events rt'). e \<in> set (vr_events rt) \<or> event_ok e)"
  proof (cases "\<exists>e k. t = Emits e k")
    case True
    with assms show ?thesis by auto
  next
    case False
    with keeps_shownD [OF task_step_keeps [OF ok] assms(1)] show ?thesis by auto
  qed
  ultimately show ?thesis by blast
qed

lemma act_shown: "shown_inv sys \<Longrightarrow> shown_inv (act env a sys)"
proof (cases a)
  case (Runs i m)
  assume inv: "shown_inv sys"
  obtain t' rt' where step: "task_step env m (sy_tasks sys ! i) (sy_runtime sys) = (t', rt')" by fastforce
  show ?thesis
  proof (cases "i < length (sy_tasks sys)")
    case True
    then have "sy_tasks sys ! i \<in> set (sy_tasks sys)" by simp
    with task_step_shown [OF step] inv True Runs step show ?thesis
      by (auto simp: shown_inv_def run_task_def dest!: set_update_subset_insert [THEN subsetD])
  qed (use inv Runs in \<open>simp add: run_task_def\<close>)
qed (auto simp: shown_inv_def produce_def Let_def split: option.splits)

text \<open>C10: The session never shows playback without a track. In every state the service can reach, under any commands in
  any interleaving: a snapshot that is resolving, buffering, playing or paused names its track, and the states
  \<open>Stopping\<close> and \<open>Error\<close> never appear. Of the events on the bus, those that say the session resolves, buffers, plays or
  pauses name the track, buffering also its format; those that say it connects or is ready name the guild and the
  channel; those that say playback stopped or was interrupted name no track and no format; an interruption and a
  warning give their reason; and there is no fatal error. Nothing is said of the track in a reconnecting or a
  track-ended event, nor of their guild and channel: these show the snapshot as other commands left it.\<close>

theorem session_shows_track:
  assumes "reachable env (VoiceSessionRuntime_with playback positions w u) sys"
  shows "track_ok (vr_state (sy_runtime sys)) \<and> (\<forall>e \<in> set (vr_events (sy_runtime sys)). event_ok e)"
proof -
  have "shown_inv sys"
    using assms
  proof (induction rule: reachable.induct)
    case start
    show ?case
      by (simp add: shown_inv_def fresh_system_def VoiceSessionRuntime_with_def Snapshot_default_def track_ok_def)
  next
    case (step sys a)
    then show ?case by (simp add: act_shown)
  qed
  then show ?thesis by (simp add: shown_inv_def)
qed

end
