(* ===== verification/SessionRuns.thy ===== *)
theory SessionRuns
  imports SessionLaws LiveRuns Tempo
begin

text \<open>
  Runs of the session runtime: the position a client is shown follows the track packets that were sent, and
  interleavings in which a command is lost, a session comes back after it was left, or a stop undoes a leave.
\<close>

section \<open>A task on its own\<close>

definition drive ::
  "('ds, 'w, 'u, 'p) runtime_env \<Rightarrow> 'ds moment list \<Rightarrow> ('ds, 'w, 'u, 'p) task_step \<Rightarrow> ('ds, 'w, 'u, 'p) task_step" where
  "drive env ms r = foldl (\<lambda>(t, rt) m. task_step env m t rt) r ms"

definition idle_worker :: "unit worker_ops" where
  "idle_worker = \<lparr>wo_prepare = (\<lambda>_ _ _ _. None), wo_fill = (\<lambda>_ _ _ _ _. None), wo_reset = (\<lambda>heap worker. (heap, worker)),
     wo_recovery_metrics = (\<lambda>_. \<lparr>http_retry_count = 0, url_reresolve_count = 0\<rparr>)\<rparr>"

definition demo_env :: "(unit, ws_out list, nat, unit) runtime_env" where
  "demo_env = \<lparr>env_io = live_io, env_worker = idle_worker, env_voice_text = (\<lambda>_. []), env_playback_text = (\<lambda>_. [])\<rparr>"

definition demo_moment :: "unit moment" where
  "demo_moment = \<lparr>mo_now = 0, mo_arrivals = [], mo_ticks = [], mo_handshake = Inr None, mo_speaking_duration = 0,
     mo_source_depth = OpusBufferDepth_default, mo_event = LoopTick\<rparr>"

definition demo_runtime :: "(unit, ws_out list, nat, unit) VoiceSessionRuntime" where
  "demo_runtime = VoiceSessionRuntime_with (Some ()) [PlaybackPosition_default] [] 0"

text \<open>Joining, then two tracks at once: the second overtakes the first, which is still looking for its hint.\<close>

definition demo_actions :: "unit action list" where
  "demo_actions = [Submits (JoinVoice demo_voice), Runs 0 demo_moment, Runs 0 demo_moment,
     Submits (Play ''a''), Submits (Play ''b''), Runs 1 demo_moment, Runs 2 demo_moment,
     Runs 2 demo_moment, Runs 2 demo_moment, Runs 2 demo_moment]"

lemmas run_eval = run_actions_def fresh_system_def run_task_def demo_runtime_def VoiceSessionRuntime_with_def
  Snapshot_default_def join_starts_def guard_defs begin_playback_def play_hints_def play_resolves_def state_defs clear_track_def
  apply_voice_context_def SessionEventRecord_from_snapshot_def demo_voice_def

abbreviation demo_sys :: "(unit, ws_out list, nat, unit) system" where
  "demo_sys \<equiv> run_actions demo_env demo_actions (fresh_system demo_runtime)"

lemma demo_sys_run:
  "vr_playback_epoch (sy_runtime demo_sys) = 2" "snap_state (vr_state (sy_runtime demo_sys)) = ResolvingTrack"
  "snap_current_video_id (vr_state (sy_runtime demo_sys)) = Some ''b''"
  "map event_kind (vr_events (sy_runtime demo_sys)) = [EvVoiceConnecting, EvTrackResolving]"
  "sy_tasks demo_sys ! 1 = Plays \<lparr>rq_video_id = ''a'', rq_epoch = 1, rq_origin = ByCommand\<rparr> PlayHints"
  "sy_tasks demo_sys ! 2 = Plays \<lparr>rq_video_id = ''b'', rq_epoch = 2, rq_origin = ByCommand\<rparr> (PlayAwaitsVoice None)"
  by (simp_all add: demo_actions_def run_eval Let_def)

theorem one_current_playback_witness:
  "vr_playback_epoch (sy_runtime demo_sys) = 2 \<and> count (epochs_of (sy_tasks demo_sys)) 2 \<le> 1"
proof -
  have "length demo_actions < 2 ^ 64" by (simp add: demo_actions_def)
  note one = one_current_playback [OF this refl, of demo_env "Some ()" "[PlaybackPosition_default]" "[]" 0,
      folded demo_runtime_def]
  from conjunct1 [OF one] demo_sys_run(1) show ?thesis by simp
qed

theorem session_shows_track_witness:
  "reachable demo_env demo_runtime demo_sys \<and> snap_state (vr_state (sy_runtime demo_sys)) = ResolvingTrack
     \<and> track_ok (vr_state (sy_runtime demo_sys)) \<and> list_all event_ok (vr_events (sy_runtime demo_sys))
     \<and> map event_kind (vr_events (sy_runtime demo_sys)) = [EvVoiceConnecting, EvTrackResolving]"
proof -
  have "reachable demo_env demo_runtime demo_sys" by (rule reachable_run)
  from this session_shows_track [OF this [unfolded demo_runtime_def], folded demo_runtime_def] demo_sys_run(2,4)
  show ?thesis unfolding list_all_iff by blast
qed

text \<open>The first of the two tracks was overtaken by the second; it runs twice more, and a third time.\<close>

theorem stale_playback_is_fenced_witness:
  "vr_state (sy_runtime (run_task demo_env 1 demo_moment (run_actions demo_env [Runs 1 demo_moment, Runs 1 demo_moment] demo_sys)))
     = vr_state (sy_runtime (run_actions demo_env [Runs 1 demo_moment, Runs 1 demo_moment] demo_sys))"
proof -
  have "length demo_actions + length [Runs 1 demo_moment, Runs 1 demo_moment] < 2 ^ 64" by (simp add: demo_actions_def)
  note fenced = stale_playback_is_fenced [OF this refl _ _ _ refl, of 1 demo_env "Some ()" "[PlaybackPosition_default]" "[]" 0,
      folded demo_runtime_def]
  have "1 < length (sy_tasks demo_sys)" by (simp add: demo_actions_def run_eval Let_def)
  with fenced demo_sys_run(1,5) show ?thesis by simp
qed

text \<open>A play command lost to a rollover. A rollover that may resume its track compares the epochs and then waits for the
  snapshot; a play command that arrives meanwhile begins its playback, and the rollover, which finds its track still
  named, begins the next one. The command ends as if it had been carried out, and the old track plays.\<close>

theorem rollover_resume_drops_play:
  assumes "vr_rollover_epoch rt = ro_epoch ro" and "ro_resume_video_id ro = Some old" and "vr_playback rt \<noteq> None"
    and "snap_current_video_id (vr_state rt) = Some old" and "vr_playback_epoch rt = resume_epoch"
    and "sys = run_actions env
      [Runs 0 m, Submits (Play new), Runs 1 m, Runs 0 m, Runs 0 m, Runs 0 m, Runs 1 m, Runs 1 m, Runs 2 m, Runs 2 m]
      \<lparr>sy_runtime = rt, sy_tasks = [Rolls ro (RollResumes resume_epoch)]\<rparr>"
  shows "sy_tasks sys ! 1 = Ended (Inr ())
    \<and> sy_tasks sys ! 2 = Plays \<lparr>rq_video_id = old, rq_epoch = resume_epoch + 2, rq_origin = ByRollover (ro_epoch ro)\<rparr> PlayHints
    \<and> vr_state (sy_runtime sys) = vr_state rt"
proof -
  obtain worker where worker: "vr_playback rt = Some worker" using assms(3) by blast
  have overtaken: "resume_epoch + 1 + 1 = resume_epoch + 2" "resume_epoch + 2 \<noteq> resume_epoch + 1" by simp_all
  show ?thesis unfolding assms(6)
    by (simp add: run_actions_def run_task_def roll_resumes_def rollover_resume_is_still_intended_def rollover_is_current_def
        playback_state_is_current_def begin_playback_def roll_begins_def play_hints_def play_resolves_def playback_interrupted_def
        finish_play_def resume_after_rollover_def resume_attempt_is_still_current_def Let_def assms(1,2,4,5) worker overtaken)
qed

theorem rollover_resume_drops_play_witness:
  "\<exists>sys. sys = run_actions demo_env
      [Runs 0 demo_moment, Submits (Play ''b''), Runs 1 demo_moment, Runs 0 demo_moment, Runs 0 demo_moment, Runs 0 demo_moment,
       Runs 1 demo_moment, Runs 1 demo_moment, Runs 2 demo_moment, Runs 2 demo_moment]
      \<lparr>sy_runtime = demo_runtime\<lparr>vr_state := Snapshot_default\<lparr>snap_current_video_id := Some ''a''\<rparr>\<rparr>,
       sy_tasks = [Rolls \<lparr>ro_voice = demo_voice, ro_resume_video_id = Some ''a'', ro_epoch = 0\<rparr> (RollResumes 0)]\<rparr>
    \<and> sy_tasks sys ! 1 = Ended (Inr ())"
  using rollover_resume_drops_play [OF _ _ _ _ _ refl, of "demo_runtime\<lparr>vr_state := Snapshot_default\<lparr>snap_current_video_id := Some ''a''\<rparr>\<rparr>"
      "\<lparr>ro_voice = demo_voice, ro_resume_video_id = Some ''a'', ro_epoch = 0\<rparr>" "''a''" 0 demo_env demo_moment "''b''"]
  by (simp add: demo_runtime_def VoiceSessionRuntime_with_def)

section \<open>The position\<close>

text \<open>The reports of a pipeline in the order they arrive, with the time of each.\<close>

definition apply_reports ::
  "(nanos \<times> PlaybackPipelineMetric) list \<Rightarrow> PlaybackPosition \<times> pipeline \<Rightarrow> PlaybackPosition \<times> pipeline" where
  "apply_reports reports r =
     foldl (\<lambda>(position, p) (now, metric). snd (apply_pipeline_metric now metric position p)) r reports"

fun heard_samples :: "PlaybackPipelineMetric \<Rightarrow> nat" where
  "heard_samples (SenderSent sent) = (if sm_is_track sent then unat (sm_duration_samples sent) else 0)"
| "heard_samples _ = 0"

definition heard_total :: "(nanos \<times> PlaybackPipelineMetric) list \<Rightarrow> nat" where
  "heard_total reports = sum_list (map (\<lambda>(_, metric). heard_samples metric) reports)"

lemma on_metrics_position [simp]: "pl_position_ms (on_metrics f p) = pl_position_ms p"
  by (simp add: on_metrics_def)

lemma producer_position [simp]:
  "pl_position_ms (record_producer_sample_for_playback now sample p) = pl_position_ms p"
  "pl_position_ms (update_adaptive_buffer_target_from_lateness l p) = pl_position_ms p"
  by (simp_all add: record_producer_sample_for_playback_def update_adaptive_buffer_target_from_lateness_def
      record_refill_def record_sender_lateness_def Let_def)

lemma report_position_step:
  assumes "apply_pipeline_metric now metric position p = (effect, position', p')"
    and "unat (pos_sent_duration_samples position) + heard_samples metric < 2 ^ 64"
    and "pl_position_ms p = Position.sent_duration_ms position"
  shows "unat (pos_sent_duration_samples position') = unat (pos_sent_duration_samples position) + heard_samples metric
    \<and> pl_position_ms p' = Position.sent_duration_ms position'"
proof (cases metric)
  case (SenderSent sent)
  show ?thesis
  proof (cases "sm_is_track sent")
    case True
    have "unat (saturating_add (pos_sent_duration_samples position) (u64_from_u32 (sm_duration_samples sent)))
        = unat (pos_sent_duration_samples position) + unat (sm_duration_samples sent)"
      using assms(2) SenderSent True by (simp add: unat_saturating_add unat_u64_from_u32)
    with assms(1) SenderSent True show ?thesis
      by (auto simp: apply_pipeline_metric_def apply_sent_metric_def Let_def record_sent_packet_samples_def
          record_sent_duration_samples_def)
  next
    case False
    with assms SenderSent show ?thesis
      by (auto simp: apply_pipeline_metric_def apply_sent_metric_def Let_def split: if_splits)
  qed
qed (use assms in \<open>auto simp: apply_pipeline_metric_def Let_def split: if_splits\<close>)

lemma apply_reports_snoc:
  "apply_reports (reports @ [(now, metric)]) r =
    (case apply_reports reports r of (position, p) \<Rightarrow> snd (apply_pipeline_metric now metric position p))"
  by (simp add: apply_reports_def split: prod.splits)

lemma apply_reports_position:
  assumes "pl_position_ms p = Position.sent_duration_ms position"
    and "unat (pos_sent_duration_samples position) + heard_total reports < 2 ^ 64"
  shows "case apply_reports reports (position, p) of (position', p') \<Rightarrow>
      unat (pos_sent_duration_samples position')
        = unat (pos_sent_duration_samples position) + heard_total reports
      \<and> pl_position_ms p' = Position.sent_duration_ms position'"
  using assms(2)
proof (induction reports rule: rev_induct)
  case Nil
  with assms(1) show ?case by (simp add: apply_reports_def heard_total_def)
next
  case (snoc report reports)
  obtain now metric where report: "report = (now, metric)" by (cases report)
  obtain position1 p1 where r: "apply_reports reports (position, p) = (position1, p1)"
    by (cases "apply_reports reports (position, p)")
  obtain effect position2 p2 where step: "apply_pipeline_metric now metric position1 p1 = (effect, position2, p2)"
    by (cases "apply_pipeline_metric now metric position1 p1")
  have IH: "unat (pos_sent_duration_samples position1)
      = unat (pos_sent_duration_samples position) + heard_total reports"
    "pl_position_ms p1 = Position.sent_duration_ms position1"
    using snoc r by (auto simp: heard_total_def)
  have "unat (pos_sent_duration_samples position1) + heard_samples metric < 2 ^ 64"
    using snoc.prems IH(1) report by (simp add: heard_total_def)
  from report_position_step [OF step this IH(2)] IH(1) step r report show ?case
    by (simp add: apply_reports_snoc heard_total_def)
qed

text \<open>C20: The position follows what was heard. Over any reports of a playback, in any order and with any other
  reports between them, the position the session shows is the duration of the track packets the sender
  reported as sent, on top of where the playback resumed, in whole milliseconds; boundary silence, refills,
  underruns and late packets do not move it.\<close>

theorem heard_position_follows_sent_tracks:
  assumes "apply_reports reports (position, p) = (position', p')"
    and "pl_position_ms p = Position.sent_duration_ms position"
    and "(unat (pos_sent_duration_samples position) + heard_total reports) * 1000 < 2 ^ 64"
    and "\<not> playback_interrupted (rq_epoch rq) rt"
  shows "unat (snap_position_ms (vr_state (report_position rq p' rt)))
    = (unat (pos_sent_duration_samples position) + heard_total reports) div 48"
proof -
  have "unat (pos_sent_duration_samples position) + heard_total reports < 2 ^ 64" using assms(3) by simp
  note heard = apply_reports_position [OF assms(2) this]
  with assms(1,3) have "unat (pl_position_ms p') = (unat (pos_sent_duration_samples position) + heard_total reports) div 48"
    by (simp add: Position.sent_duration_ms_def duration_ms_from_samples_def unat_saturating_mul unat_div
        OPUS_SAMPLE_RATE_HZ_def)
  with assms(4) show ?thesis by (simp add: report_position_def on_state_def)
qed

text \<open>A packet of 20 ms of the track, and one of silence.\<close>

definition demo_sent_metric :: "bool \<Rightarrow> SenderSentMetric" where
  "demo_sent_metric heard =
     \<lparr>sm_packet_index = 1, sm_kind = (if heard then PreparedPacketKind.Track else ScheduledSilence), sm_duration_ms = 20,
      sm_duration_samples = 960, sm_is_track = heard, sm_expected_deadline = 0, sm_send_started_at = 0, sm_sent_at = 0,
      sm_send_duration = 0, sm_rtp_sequence = 0, sm_rtp_timestamp = 0, sm_protection_nonce = None, sm_media_frame = None,
      sm_non_send_work_duration = 0, sm_gateway_drain = VoiceGatewayDrainReport_default, sm_media_clock_reset = False,
      sm_tempo_rebased = False, sm_remaining_depth = OpusBufferDepth_default, sm_egress_depth = OpusBufferDepth_default\<rparr>"

theorem heard_position_follows_sent_tracks_witness:
  "\<exists>position' p'. apply_reports [(0, SenderSent (demo_sent_metric True)), (0, SenderSent (demo_sent_metric False)),
       (0, SenderSent (demo_sent_metric True))] (PlaybackPosition_default, demo_pipeline) = (position', p')
     \<and> unat (snap_position_ms (vr_state (report_position \<lparr>rq_video_id = ''a'', rq_epoch = 0, rq_origin = ByCommand\<rparr>
          p' demo_runtime))) = 40"
proof -
  let ?reports = "[(0, SenderSent (demo_sent_metric True)), (0, SenderSent (demo_sent_metric False)),
       (0, SenderSent (demo_sent_metric True))]"
  let ?rq = "\<lparr>rq_video_id = ''a'', rq_epoch = 0, rq_origin = ByCommand\<rparr>"
  obtain position' p' where run: "apply_reports ?reports (PlaybackPosition_default, demo_pipeline) = (position', p')"
    by fastforce
  have start: "pl_position_ms demo_pipeline = Position.sent_duration_ms PlaybackPosition_default"
    by (simp add: demo_pipeline_def Position.sent_duration_ms_def PlaybackPosition_default_def duration_ms_from_samples_def
        saturating_mul_def OPUS_SAMPLE_RATE_HZ_def)
  have total: "unat (pos_sent_duration_samples PlaybackPosition_default) + heard_total ?reports = 1920"
    by (simp add: heard_total_def demo_sent_metric_def PlaybackPosition_default_def)
  have current: "\<not> playback_interrupted (rq_epoch ?rq) demo_runtime"
    by (simp add: playback_interrupted_def demo_runtime_def VoiceSessionRuntime_with_def)
  have "unat (snap_position_ms (vr_state (report_position ?rq p' demo_runtime))) = 1920 div 48"
    using heard_position_follows_sent_tracks [OF run start _ current] by (simp add: total)
  with run show ?thesis by auto
qed

section \<open>A track that is lost\<close>

text \<open>A track asked for while another plays is lost. While the live media driver owns the voice session, a
  play command takes over the epoch, announces its track and ends without an error and without playing it:
  the session keeps showing the new track as resolving, and the old playback is no longer current.\<close>

theorem play_lost_while_session_is_owned:
  assumes "vr_voice rt = None" and "vr_playback rt \<noteq> None"
    and "snap_guild_id (vr_state rt) \<noteq> None" and "snap_channel_id (vr_state rt) \<noteq> None"
    and "drive env [m1, m2, m3, m4, m5] (Starts (Play video_id), rt) = (t, rt')"
  shows "t = Ended (Inr ()) \<and> snap_state (vr_state rt') = ResolvingTrack
    \<and> snap_current_video_id (vr_state rt') = Some video_id
    \<and> playback_interrupted (vr_playback_epoch rt) rt' \<and> vr_voice rt' = None"
proof -
  have "t = Ended (Inr ()) \<and> snap_state (vr_state rt') = ResolvingTrack
    \<and> snap_current_video_id (vr_state rt') = Some video_id
    \<and> vr_playback_epoch rt' = vr_playback_epoch rt + 1 \<and> vr_voice rt' = None"
    using assms
    by (auto simp: drive_def begin_playback_def play_hints_def play_resolves_def guard_defs state_defs Let_def
        play_awaits_voice_def wait_for_connected_voice_def playback_interrupted_def finish_play_def)
  then show ?thesis by (simp add: playback_interrupted_def)
qed

text \<open>A driver plays the track of epoch 1 and owns the session when another track is asked for.\<close>

definition demo_owned :: "(unit, ws_out list, nat, unit) VoiceSessionRuntime" where
  "demo_owned = demo_runtime\<lparr>vr_playback_epoch := 1, vr_media_commands := Some 0, vr_channels := [new_channel 32],
     vr_state := Snapshot_default\<lparr>snap_state := Playing, snap_guild_id := Some ''1'', snap_channel_id := Some ''2'',
       snap_current_video_id := Some ''a''\<rparr>\<rparr>"

theorem play_lost_while_session_is_owned_witness:
  "\<exists>t rt'. drive demo_env (replicate 5 demo_moment) (Starts (Play ''b''), demo_owned) = (t, rt')
     \<and> t = Ended (Inr ()) \<and> snap_state (vr_state rt') = ResolvingTrack
     \<and> snap_current_video_id (vr_state rt') = Some ''b'' \<and> playback_interrupted 1 rt' \<and> vr_voice rt' = None"
proof -
  obtain t rt' where run: "drive demo_env [demo_moment, demo_moment, demo_moment, demo_moment, demo_moment]
      (Starts (Play ''b''), demo_owned) = (t, rt')" by fastforce
  have pre: "vr_voice demo_owned = None" "vr_playback demo_owned \<noteq> None" "snap_guild_id (vr_state demo_owned) \<noteq> None"
    "snap_channel_id (vr_state demo_owned) \<noteq> None" "vr_playback_epoch demo_owned = 1"
    by (simp_all add: demo_owned_def demo_runtime_def VoiceSessionRuntime_with_def)
  from play_lost_while_session_is_owned [OF pre(1-4) run] run pre(5) show ?thesis
    by (simp add: numeral_nat)
qed

section \<open>A session that comes back\<close>

lemma leave_without_owner:
  assumes "vr_media_commands rt = None"
  shows "drive env [m1, m2, m3, m4, m5, m6] (Starts LeaveVoice, rt) =
    (Ended (Inr ()), rt\<lparr>vr_rollover_epoch := vr_rollover_epoch rt + 1, vr_playback_epoch := vr_playback_epoch rt + 1,
       vr_playback_reset_pending := True, vr_voice_transport_generation := vr_voice_transport_generation rt + 1,
       vr_media_commands := None, vr_state := Snapshot_default, vr_voice := None\<rparr>)"
  using assms
  by (simp add: drive_def leave_starts_def leave_owner_def defer_playback_reset_def invalidate_playback_def
      invalidate_rollover_def bump_transport_generation_def media_owner_is_active_def clear_media_commands_def)

text \<open>A left session comes back. A playback that took the voice session and waits for DAVE to settle cannot
  be told to stop, so a leave command that runs meanwhile completes at once; then the playback puts the
  session it holds back. The session shows itself as idle with no guild and channel, yet a voice session
  is in place.\<close>

theorem session_returns_after_leave:
  assumes "vr_media_commands rt = None" and "rq_epoch rq = vr_playback_epoch rt" and "rq_origin rq = ByCommand"
    and "drive env [m1, m2, m3, m4, m5, m6] (Starts LeaveVoice, rt) = (t1, rt1)"
    and "drive env [n1, n2, n3] (Plays rq (PlaySettles fp session), rt1) = (t2, rt2)"
    and "t2 \<noteq> Crashed"
  shows "t1 = Ended (Inr ()) \<and> vr_state rt2 = Snapshot_default \<and> vr_voice rt2 \<noteq> None"
  using assms(2-6) leave_without_owner [OF assms(1), of env m1 m2 m3 m4 m5 m6]
  by (auto simp: drive_def play_settles_def play_settled_def play_returns_def playback_interrupted_def finish_play_def
      split: outcome.splits prod.splits sum.splits)

definition demo_settling :: "(unit, ws_out list, nat, unit) VoiceSessionRuntime" where
  "demo_settling = demo_runtime\<lparr>vr_playback_epoch := 1, vr_state := Snapshot_default\<lparr>snap_state := Buffering,
     snap_guild_id := Some ''1'', snap_channel_id := Some ''2'', snap_current_video_id := Some ''a''\<rparr>\<rparr>"

abbreviation demo_settling_session :: "unit ConnectedVoiceSession" where
  "demo_settling_session \<equiv> demo_session\<lparr>vs_speaking_started := True\<rparr>"

theorem session_returns_after_leave_witness:
  "\<exists>t1 rt1 t2 rt2 fp. drive demo_env (replicate 6 demo_moment) (Starts LeaveVoice, demo_settling) = (t1, rt1)
     \<and> drive demo_env (replicate 3 demo_moment)
          (Plays \<lparr>rq_video_id = ''a'', rq_epoch = 1, rq_origin = ByCommand\<rparr> (PlaySettles fp demo_settling_session), rt1) = (t2, rt2)
     \<and> t1 = Ended (Inr ()) \<and> t2 = Ended (Inr ()) \<and> vr_state rt2 = Snapshot_default \<and> vr_voice rt2 \<noteq> None"
proof -
  let ?rq = "\<lparr>rq_video_id = ''a'', rq_epoch = 1, rq_origin = ByCommand\<rparr>"
  let ?m = demo_moment
  fix fp
  obtain t1 rt1 where leave: "drive demo_env [?m, ?m, ?m, ?m, ?m, ?m] (Starts LeaveVoice, demo_settling) = (t1, rt1)"
    by fastforce
  obtain t2 rt2 where play: "drive demo_env [?m, ?m, ?m] (Plays ?rq (PlaySettles fp demo_settling_session), rt1) = (t2, rt2)"
    by fastforce
  have pre: "vr_media_commands demo_settling = None" "rq_epoch ?rq = vr_playback_epoch demo_settling"
    by (simp_all add: demo_settling_def demo_runtime_def VoiceSessionRuntime_with_def)
  have ended: "t2 = Ended (Inr ())"
    using play leave leave_without_owner [OF pre(1), of demo_env ?m ?m ?m ?m ?m ?m]
    by (auto simp: drive_def play_settles_def play_settled_def play_returns_def playback_interrupted_def finish_play_def
        settle_pending_dave_transition_for_playback_def drain_eval demo_env_def live_io_def demo_moment_def
        prepare_speaking_before_media_def pre(2) [symmetric])
  from session_returns_after_leave [OF pre _ leave play] ended leave play show ?thesis
    by (auto simp: numeral_nat)
qed

section \<open>A stop that undoes a leave\<close>

text \<open>A stop command that has read the transport generation when a leave command completes ends with a session
  that is ready but has no guild and no channel: joining is refused then, and so is every other command but
  leaving again.\<close>

theorem stop_after_leave_blocks_join:
  assumes "vr_media_commands rt = None"
    and "drive env [m1, m2, m3, m4, m5, m6] (Starts LeaveVoice, rt) = (t1, rt1)"
    and "drive env [n1, n2, n3, n4, n5] (Stops (StopInvalidates False (vr_voice_transport_generation rt)), rt1) = (t2, rt2)"
  shows "t2 = Ended (Inr ()) \<and> snap_state (vr_state rt2) = VoiceReady \<and> snap_guild_id (vr_state rt2) = None
    \<and> (\<exists>err. fst (handle_command (JoinVoice voice) rt2) = Ended (Inl err))
    \<and> (\<exists>err. fst (handle_command Stop rt2) = Ended (Inl err))"
  using assms(2,3) leave_without_owner [OF assms(1), of env m1 m2 m3 m4 m5 m6]
  by (auto simp: drive_def stop_invalidates_def stop_waits_def stop_bounds_def stop_state_def stopped_snapshot_def
      wait_for_media_owner_session_def defer_playback_reset_def invalidate_playback_def state_defs clear_track_def
      Snapshot_default_def join_starts_def stop_starts_def guard_defs Let_def)

end
