(* ===== verification/Endpoint.thy ===== *)
theory Endpoint
  imports Gateway Discovery
begin

text \<open>
  Addresses of a voice server: the gateway URL made from the endpoint a voice context names (\<open>gateway_url\<close>
  and its helpers in \<open>handshake.rs\<close>), and the UDP target of a ready message. The \<open>http\<close> package that parses
  and prints URLs and the name lookup are parameters. \<open>IpAddr\<close> of the standard library is here with its
  parser and its printer.
\<close>

section \<open>IP addresses\<close>

text \<open>Four octets, or eight groups of 16 bits.\<close>

datatype IpAddr = V4 u8 u8 u8 u8 | V6 "u16 list"

record SocketAddr =
  addr_ip :: IpAddr
  addr_port :: u16

text \<open>A number of a parser of the standard library: as many digits as there are, at least one and at most
  \<open>limit\<close>, without a leading zero unless that is allowed, and below \<open>bound\<close>.\<close>

definition hex_value :: "char \<Rightarrow> nat option" where
  "hex_value c =
    (let n = (of_char c :: nat) in
     if 48 \<le> n \<and> n \<le> 57 then Some (n - 48)
     else if 97 \<le> n \<and> n \<le> 102 then Some (n - 87)
     else if 65 \<le> n \<and> n \<le> 70 then Some (n - 55) else None)"

definition radix_value :: "nat \<Rightarrow> char \<Rightarrow> nat option" where
  "radix_value radix c = (case hex_value c of Some d \<Rightarrow> if d < radix then Some d else None | None \<Rightarrow> None)"

definition read_number :: "nat \<Rightarrow> nat \<Rightarrow> bool \<Rightarrow> nat \<Rightarrow> string \<Rightarrow> (nat \<times> string) option" where
  "read_number radix limit zero_prefix bound s =
    (let digits = takeWhile (\<lambda>c. radix_value radix c \<noteq> None) s;
         n = foldl (\<lambda>acc c. acc * radix + the (radix_value radix c)) 0 digits
     in if digits = [] \<or> length digits > limit \<or> n \<ge> bound
           \<or> (\<not> zero_prefix \<and> length digits > 1 \<and> hd digits = CHR ''0'')
        then None else Some (n, drop (length digits) s))"

definition read_char :: "char \<Rightarrow> string \<Rightarrow> string option" where
  "read_char c s = (case s of [] \<Rightarrow> None | x # xs \<Rightarrow> if x = c then Some xs else None)"

text \<open>A part that is preceded by a separator unless it is the first.\<close>

definition read_separator :: "char \<Rightarrow> nat \<Rightarrow> (string \<Rightarrow> ('a \<times> string) option) \<Rightarrow> string \<Rightarrow> ('a \<times> string) option" where
  "read_separator sep i p s = (if i = 0 then p s else (case read_char sep s of None \<Rightarrow> None | Some rest \<Rightarrow> p rest))"

fun read_octets :: "nat \<Rightarrow> nat \<Rightarrow> string \<Rightarrow> (u8 list \<times> string) option" where
  "read_octets i 0 s = Some ([], s)"
| "read_octets i (Suc n) s =
    (case read_separator CHR ''.'' i (read_number 10 3 False 256) s of
       None \<Rightarrow> None
     | Some (octet, rest) \<Rightarrow>
        (case read_octets (Suc i) n rest of
           None \<Rightarrow> None
         | Some (octets, rest1) \<Rightarrow> Some (word_of_nat octet # octets, rest1)))"

definition read_ipv4_addr :: "string \<Rightarrow> (u8 list \<times> string) option" where
  "read_ipv4_addr s = read_octets 0 4 s"

text \<open>Up to \<open>n\<close> groups, where the last two may be an IPv4 address: the groups and whether they ended in one.\<close>

fun read_groups :: "nat \<Rightarrow> nat \<Rightarrow> string \<Rightarrow> u16 list \<times> bool \<times> string" where
  "read_groups i 0 s = ([], False, s)"
| "read_groups i (Suc n) s =
    (case (if n > 0 then read_separator CHR '':'' i read_ipv4_addr s else None) of
       Some ([a, b, c, d], rest) \<Rightarrow> ([u16_from_be_bytes a b, u16_from_be_bytes c d], True, rest)
     | _ \<Rightarrow>
        (case read_separator CHR '':'' i (read_number 16 4 True 65536) s of
           None \<Rightarrow> ([], False, s)
         | Some (g, rest) \<Rightarrow>
            (case read_groups (Suc i) n rest of (groups, ipv4, rest1) \<Rightarrow> (word_of_nat g # groups, ipv4, rest1))))"

definition read_ipv6_addr :: "string \<Rightarrow> (u16 list \<times> string) option" where
  "read_ipv6_addr s =
    (case read_groups 0 8 s of (front, ipv4, rest) \<Rightarrow>
      (if length front = 8 then Some (front, rest)
       else if ipv4 then None
       else (case read_char CHR '':'' rest of
               None \<Rightarrow> None
             | Some rest1 \<Rightarrow>
                (case read_char CHR '':'' rest1 of
                   None \<Rightarrow> None
                 | Some rest2 \<Rightarrow>
                    (case read_groups 0 (7 - length front) rest2 of (tail, _, rest3) \<Rightarrow>
                       Some (front @ replicate (8 - length front - length tail) 0 @ tail, rest3))))))"

definition parse_ip :: "string \<Rightarrow> IpAddr option" where
  "parse_ip s =
    (case read_ipv4_addr s of
       Some ([a, b, c, d], rest) \<Rightarrow> if rest = [] then Some (V4 a b c d) else None
     | _ \<Rightarrow>
        (case read_ipv6_addr s of
           Some (groups, rest) \<Rightarrow> if rest = [] then Some (V6 groups) else None
         | None \<Rightarrow> None))"

text \<open>\<open>Display\<close> of an address: of a V6 address the longest run of at least two zero groups, the first of
  equally long ones, is left out, and an address that stands for a V4 address ends like one.\<close>

fun show_hex :: "nat \<Rightarrow> string" where
  "show_hex n =
    (let digit = (\<lambda>d. char_of (if d < 10 then 48 + d else 87 + d)) in
     if n < 16 then [digit n] else show_hex (n div 16) @ [digit (n mod 16)])"

declare show_hex.simps [simp del]

definition show_ipv4 :: "u8 \<Rightarrow> u8 \<Rightarrow> u8 \<Rightarrow> u8 \<Rightarrow> string" where
  "show_ipv4 a b c d = join_with CHR ''.'' (map (\<lambda>x. show_nat (unat x)) [a, b, c, d])"

definition show_groups :: "u16 list \<Rightarrow> string" where
  "show_groups groups = join_with CHR '':'' (map (\<lambda>x. show_hex (unat x)) groups)"

fun zero_run :: "nat \<Rightarrow> nat \<times> nat \<Rightarrow> nat \<times> nat \<Rightarrow> u16 list \<Rightarrow> nat \<times> nat" where
  "zero_run i current longest [] = longest"
| "zero_run i current longest (g # groups) =
    (if g = 0
     then (let run = (if snd current = 0 then (i, 1) else (fst current, snd current + 1))
           in zero_run (Suc i) run (if snd run > snd longest then run else longest) groups)
     else zero_run (Suc i) (0, 0) longest groups)"

definition show_ipv6 :: "u16 list \<Rightarrow> string" where
  "show_ipv6 groups =
    (if take 6 groups = [0, 0, 0, 0, 0, 65535] \<and> length groups = 8
     then (let a = u16_to_be_bytes (groups ! 6); b = u16_to_be_bytes (groups ! 7)
           in ''::ffff:'' @ show_ipv4 (a ! 0) (a ! 1) (b ! 0) (b ! 1))
     else (case zero_run 0 (0, 0) (0, 0) groups of (start, len) \<Rightarrow>
             if len > 1 then show_groups (take start groups) @ ''::'' @ show_groups (drop (start + len) groups)
             else show_groups groups))"

fun show_ip :: "IpAddr \<Rightarrow> string" where
  "show_ip (V4 a b c d) = show_ipv4 a b c d"
| "show_ip (V6 groups) = show_ipv6 groups"

text \<open>Loopback and private V4 addresses, loopback and unique local V6 addresses.\<close>

fun is_local_ip :: "IpAddr \<Rightarrow> bool" where
  "is_local_ip (V4 a b c d) \<longleftrightarrow>
     a = 127 \<or> (a = 10 \<or> (a = 172 \<and> 16 \<le> b \<and> b \<le> 31) \<or> (a = 192 \<and> b = 168))"
| "is_local_ip (V6 groups) \<longleftrightarrow>
     groups = [0, 0, 0, 0, 0, 0, 0, 1] \<or> (hd groups AND 0xfe00) = 0xfc00"

section \<open>The gateway URL\<close>

text \<open>What is used of a URL: its scheme, the host of its authority, and path with query.\<close>

record Uri =
  uri_scheme :: "string option"
  uri_host :: "string option"
  uri_path_and_query :: "string option"

text \<open>Parsing, whether a string is a valid path with query, and a URL with its scheme and path replaced, if that
  gives one, as it prints.\<close>

record http_lib =
  http_parse :: "string \<Rightarrow> Uri option"
  http_path_ok :: "string \<Rightarrow> bool"
  http_rebuild :: "string \<Rightarrow> string \<Rightarrow> string \<Rightarrow> string option"

definition VOICE_GATEWAY_VERSION :: string where "VOICE_GATEWAY_VERSION = ''8''"

definition split_first :: "char \<Rightarrow> string \<Rightarrow> (string \<times> string) option" where
  "split_first c s = (if c \<in> set s then Some (takeWhile (\<lambda>x. x \<noteq> c) s, tl (dropWhile (\<lambda>x. x \<noteq> c) s)) else None)"

definition is_version_part :: "string \<Rightarrow> bool" where
  "is_version_part part = (case split_first CHR ''='' part of Some (key, _) \<Rightarrow> key = ''v'' | None \<Rightarrow> part = ''v'')"

definition versioned_path_and_query :: "http_lib \<Rightarrow> Uri \<Rightarrow> VoiceError + string" where
  "versioned_path_and_query http uri =
    (let path_and_query = (case uri_path_and_query uri of Some p \<Rightarrow> p | None \<Rightarrow> ''/'');
         (path, query) = (case split_first CHR ''?'' path_and_query of Some pq \<Rightarrow> pq | None \<Rightarrow> (path_and_query, []));
         path1 = (if path = [] then ''/'' else path);
         versioned =
           (if list_ex is_version_part (split_on CHR ''&'' query) then path1 @ ''?'' @ query
            else if query = [] then path1 @ ''?v='' @ VOICE_GATEWAY_VERSION
            else path1 @ ''?'' @ query @ ''&v='' @ VOICE_GATEWAY_VERSION)
     in if http_path_ok http versioned then Inr versioned else Inl (InvalidState ''voice endpoint query invalid''))"

definition gateway_scheme :: "string \<Rightarrow> VoiceError + string" where
  "gateway_scheme scheme =
    (if scheme = ''ws'' \<or> scheme = ''http'' then Inr ''ws''
     else if scheme = ''wss'' \<or> scheme = ''https'' then Inr ''wss''
     else Inl (InvalidState ''voice endpoint scheme unsupported''))"

definition normalize_absolute_gateway_url :: "http_lib \<Rightarrow> string \<Rightarrow> Uri \<Rightarrow> VoiceError + string" where
  "normalize_absolute_gateway_url http text uri =
    (case uri_scheme uri of
       None \<Rightarrow> Inl (InvalidState ''voice endpoint scheme missing'')
     | Some scheme \<Rightarrow>
        res_bind (gateway_scheme scheme) (\<lambda>scheme1.
        res_bind (versioned_path_and_query http uri) (\<lambda>path.
          ok_or (InvalidState ''voice endpoint could not be normalized'') (http_rebuild http text scheme1 path))))"

definition endpoint_host :: "http_lib \<Rightarrow> string \<Rightarrow> VoiceError + string option" where
  "endpoint_host http endpoint =
    (case http_parse http (''https://'' @ endpoint) of
       None \<Rightarrow> Inl (InvalidState ''voice endpoint invalid'')
     | Some uri \<Rightarrow> Inr (uri_host uri))"

definition looks_like_local_endpoint :: "http_lib \<Rightarrow> string \<Rightarrow> VoiceError + bool" where
  "looks_like_local_endpoint http endpoint =
     res_bind (endpoint_host http endpoint) (\<lambda>host.
       Inr (case host of
              None \<Rightarrow> False
            | Some h \<Rightarrow> h = ''localhost'' \<or> (case parse_ip h of Some ip \<Rightarrow> is_local_ip ip | None \<Rightarrow> False)))"

definition looks_like_forwarded_endpoint :: "http_lib \<Rightarrow> string \<Rightarrow> VoiceError + bool" where
  "looks_like_forwarded_endpoint http endpoint =
     res_bind (endpoint_host http endpoint) (\<lambda>host.
       Inr (case host of
              None \<Rightarrow> False
            | Some h \<Rightarrow> CHR ''.'' \<in> set h \<and> h \<noteq> ''localhost'' \<and> parse_ip h = None))"

definition host_gateway_url :: "http_lib \<Rightarrow> string \<Rightarrow> VoiceError + string option" where
  "host_gateway_url http trimmed =
     res_bind (looks_like_local_endpoint http trimmed) (\<lambda>local.
       if local then Inr (Some (''ws://'' @ trimmed @ ''/?v='' @ VOICE_GATEWAY_VERSION))
       else res_bind (looks_like_forwarded_endpoint http trimmed) (\<lambda>forwarded.
              if forwarded then Inr (Some (''wss://'' @ trimmed @ ''/?v='' @ VOICE_GATEWAY_VERSION)) else Inr None))"

text \<open>No URL for an empty endpoint or for a public address without a scheme.\<close>

definition gateway_url :: "http_lib \<Rightarrow> string \<Rightarrow> VoiceError + string option" where
  "gateway_url http endpoint =
    (let trimmed = trim endpoint in
     if trimmed = [] then Inr None
     else (case http_parse http trimmed of
             Some uri \<Rightarrow>
               (if uri_scheme uri \<noteq> None \<and> uri_host uri \<noteq> None
                then res_bind (normalize_absolute_gateway_url http trimmed uri) (\<lambda>url. Inr (Some url))
                else host_gateway_url http trimmed)
           | None \<Rightarrow> host_gateway_url http trimmed))"

section \<open>The UDP target\<close>

text \<open>A name is looked up, which takes its time: nothing limits it.\<close>

definition resolve_udp_target ::
  "(string \<Rightarrow> u16 \<Rightarrow> nanos \<times> (VoiceError + SocketAddr list)) \<Rightarrow> Ready \<Rightarrow> nanos \<times> (VoiceError + SocketAddr)" where
  "resolve_udp_target lookup_host ready =
    (case parse_ip (ready_ip ready) of
       Some ip \<Rightarrow> (0, Inr \<lparr>addr_ip = ip, addr_port = ready_port ready\<rparr>)
     | None \<Rightarrow>
        (case lookup_host (ready_ip ready) (ready_port ready) of
           (took, r) \<Rightarrow>
             (took, res_bind r (\<lambda>addrs.
                case addrs of
                  [] \<Rightarrow> Inl (InvalidState ''voice ready udp target unresolved'')
                | addr # _ \<Rightarrow> Inr addr))))"

section \<open>Properties\<close>

lemma radix_ten: "radix_value 10 c = (if is_digit c then Some (digit_value c) else None)"
  by (auto simp: radix_value_def hex_value_def is_digit_def digit_value_def Let_def)

lemma octet_digits:
  assumes "n < 256"
  shows "length (show_nat n) \<le> 3" "length (show_nat n) > 1 \<Longrightarrow> hd (show_nat n) \<noteq> CHR ''0''"
proof -
  have digit: "0 < d \<Longrightarrow> d < 10 \<Longrightarrow> digit_char d \<noteq> CHR ''0''" for d
    using of_char_digit_char [of d] by auto
  consider "n < 10" | "10 \<le> n" "n < 100" | "100 \<le> n" by linarith
  then have "length (show_nat n) \<le> 3 \<and> (length (show_nat n) > 1 \<longrightarrow> hd (show_nat n) \<noteq> CHR ''0'')"
  proof cases
    case 1
    then show ?thesis by (simp add: show_nat.simps [of n])
  next
    case 2
    then have "show_nat n = [digit_char (n div 10), digit_char (n mod 10)]" by (simp add: show_nat.simps)
    with digit [of "n div 10"] 2 show ?thesis by (simp add: less_mult_imp_div_less)
  next
    case 3
    with assms have "\<not> n div 10 < 10" "n div 10 div 10 < 10" by linarith+
    with 3 have "show_nat n = [digit_char (n div 10 div 10), digit_char (n div 10 mod 10), digit_char (n mod 10)]"
      by (simp add: show_nat.simps [of n] show_nat.simps [of "n div 10"] show_nat.simps [of "n div 10 div 10"]
)
    moreover have "0 < n div 10 div 10" "n div 10 div 10 < 10" using 3 assms by linarith+
    ultimately show ?thesis using digit [of "n div 10 div 10"] by simp
  qed
  then show "length (show_nat n) \<le> 3" "length (show_nat n) > 1 \<Longrightarrow> hd (show_nat n) \<noteq> CHR ''0''" by blast+
qed

lemma read_octet:
  assumes "n < 256" and "rest = [] \<or> \<not> is_digit (hd rest)"
  shows "read_number 10 3 False 256 (show_nat n @ rest) = Some (n, rest)"
proof -
  have all: "\<forall>c \<in> set (show_nat n). is_digit c" using show_nat_digits [of n] by (simp add: list_all_iff)
  then have digits: "takeWhile (\<lambda>c. radix_value 10 c \<noteq> None) (show_nat n @ rest) = show_nat n"
    using assms(2) by (cases rest) (auto simp: radix_ten takeWhile_append2)
  have "foldl (\<lambda>acc c. acc * 10 + the (radix_value 10 c)) 0 ds = digits_value ds" if "\<forall>c \<in> set ds. is_digit c" for ds
    unfolding digits_value_def using that by (intro foldl_cong) (simp_all add: radix_ten)
  from this [OF all] show ?thesis
    using assms(1) octet_digits [OF assms(1)] unfolding read_number_def digits by (auto simp: Let_def)
qed

text \<open>An address prints as it parses, for the addresses of version 4.\<close>

theorem ipv4_roundtrip: "parse_ip (show_ip (V4 a b c d)) = Some (V4 a b c d)"
proof -
  have u: "unat (x :: u8) < 256" for x by (rule unat_u8_bound)
  have dot: "\<not> is_digit CHR ''.''" by (simp add: is_digit_def)
  have oct: "read_number 10 3 False 256 (show_nat (unat x) @ rest) = Some (unat x, rest)"
    if "rest = [] \<or> \<not> is_digit (hd rest)" for x :: u8 and rest
    by (rule read_octet [OF u that])
  have "read_octets 0 (Suc (Suc (Suc (Suc 0)))) (show_ipv4 a b c d) = Some ([a, b, c, d], [])"
    using oct [of "[]"] oct [of "CHR ''.'' # xs" for xs] dot
    by (simp add: show_ipv4_def read_separator_def read_char_def)
  then show ?thesis by (simp add: parse_ip_def read_ipv4_addr_def eval_nat_numeral)
qed

text \<open>C38: Unprotected connections stay local. An endpoint without a scheme, as the main gateway names it, leads
  to a plain web socket only when its host is localhost or a loopback, private or unique local address;
  every other URL starts with the protected scheme. Either way the URL names the endpoint and the version
  of the gateway.\<close>

theorem unprotected_gateway_only_local:
  assumes "gateway_url http endpoint = Inr (Some url)"
    and "case http_parse http (trim endpoint) of None \<Rightarrow> True | Some uri \<Rightarrow> uri_scheme uri = None \<or> uri_host uri = None"
  shows "(url = ''wss://'' @ trim endpoint @ ''/?v=8'')
    \<or> (url = ''ws://'' @ trim endpoint @ ''/?v=8'' \<and> (\<exists>uri host. http_parse http (''https://'' @ trim endpoint) = Some uri
         \<and> uri_host uri = Some host \<and> (host = ''localhost'' \<or> (\<exists>ip. parse_ip host = Some ip \<and> is_local_ip ip))))"
  using assms
  by (auto simp: gateway_url_def Let_def host_gateway_url_def looks_like_local_endpoint_def
      looks_like_forwarded_endpoint_def endpoint_host_def VOICE_GATEWAY_VERSION_def res_iff
      split: if_splits option.splits)

definition demo_http :: http_lib where
  "demo_http = \<lparr>http_parse = (\<lambda>s. if s = ''https://127.0.0.1'' then Some \<lparr>uri_scheme = Some ''https'', uri_host = Some ''127.0.0.1'',
       uri_path_and_query = Some ''/''\<rparr> else None),
     http_path_ok = (\<lambda>_. True), http_rebuild = (\<lambda>_ scheme path. Some (scheme @ path))\<rparr>"

theorem unprotected_gateway_only_local_witness:
  "gateway_url demo_http '' 127.0.0.1'' = Inr (Some ''ws://127.0.0.1/?v=8'')
     \<and> (\<exists>ip. parse_ip ''127.0.0.1'' = Some ip \<and> is_local_ip ip)"
proof -
  have trimmed: "trim '' 127.0.0.1'' = ''127.0.0.1''" by (simp add: trim_def is_whitespace_def)
  have "show_ip (V4 127 0 0 1) = ''127.0.0.1''" by code_simp
  then have ip: "parse_ip ''127.0.0.1'' = Some (V4 127 0 0 1)" using ipv4_roundtrip [of 127 0 0 1] by simp
  have url: "gateway_url demo_http '' 127.0.0.1'' = Inr (Some ''ws://127.0.0.1/?v=8'')"
    by (simp add: gateway_url_def Let_def trimmed demo_http_def host_gateway_url_def looks_like_local_endpoint_def
        endpoint_host_def ip VOICE_GATEWAY_VERSION_def)
  have "case http_parse demo_http (trim '' 127.0.0.1'') of None \<Rightarrow> True | Some uri \<Rightarrow> uri_scheme uri = None \<or> uri_host uri = None"
    by (simp add: trimmed demo_http_def)
  from unprotected_gateway_only_local [OF url this] url show ?thesis
    by (auto simp: trimmed demo_http_def split: if_splits)
qed

end
