(* ===== verification/Handshake.thy ===== *)
theory Handshake
  imports Endpoint Receive VoiceSession
begin

text \<open>
  The voice handshake (\<open>handshake.rs\<close>, \<open>VoiceUdpTransport::connect\<close>): from the endpoint to a ready session, the
  active participant's way into the DAVE group, and resuming a gateway. The gateway's events come with the delay
  after which they arrive, so every timeout is computed. The DAVE library, the MLS sender, the web socket,
  opening it, the UDP socket and the name lookup are parameters. The heartbeat task runs beside the handshake
  and its messages are not part of the world here; its loop is at the end.
\<close>

section \<open>The gateway during a handshake\<close>

record 'w gateway_conn =
  gc_client :: VoiceGatewayClient
  gc_now :: nanos
  gc_world :: 'w

definition conn_send ::
  "('w \<Rightarrow> (VoiceError + unit) \<times> 'w) \<Rightarrow> 'w gateway_conn \<Rightarrow> (VoiceError + unit) \<times> 'w gateway_conn" where
  "conn_send f conn = (case f (gc_world conn) of (r, w) \<Rightarrow> (r, conn\<lparr>gc_world := w\<rparr>))"

definition conn_advance :: "nanos \<Rightarrow> 'w gateway_conn \<Rightarrow> 'w gateway_conn" where
  "conn_advance delay conn = conn\<lparr>gc_now := gc_now conn + delay\<rparr>"

definition conn_acknowledge :: "VoiceGatewayPayload \<Rightarrow> 'w gateway_conn \<Rightarrow> 'w gateway_conn" where
  "conn_acknowledge payload conn = conn\<lparr>gc_client := apply_gateway_event (payload_seq payload) (gc_client conn)\<rparr>"

text \<open>Time that passes while the handshake waits for something else: the events that arrive meanwhile are there at once
  when it receives again.\<close>

fun arrivals_after :: "nanos \<Rightarrow> arrivals \<Rightarrow> arrivals" where
  "arrivals_after took [] = []"
| "arrivals_after took ((delay, r) # rest) =
    (if delay \<le> took then (0, r) # arrivals_after (took - delay) rest else (delay - took, r) # rest)"

text \<open>Waiting for one event: None when the time is over first.\<close>

definition receive_within ::
  "nanos \<Rightarrow> arrivals \<Rightarrow> 'w gateway_conn \<Rightarrow> (VoiceError + VoiceGatewayEvent) option \<times> arrivals \<times> 'w gateway_conn" where
  "receive_within wait inputs conn =
    (case inputs of
       [] \<Rightarrow> (None, [], conn_advance wait conn)
     | (delay, r) # rest \<Rightarrow>
        (if delay > wait then (None, (delay - wait, r) # rest, conn_advance wait conn)
         else (case r of
                 Inl err \<Rightarrow> (Some (Inl err), rest, conn_advance delay conn)
               | Inr payload \<Rightarrow> (Some (Inr (payload_event payload)), rest, conn_acknowledge payload (conn_advance delay conn)))))"

definition next_event ::
  "nanos \<Rightarrow> arrivals \<Rightarrow> 'w gateway_conn \<Rightarrow> (VoiceError + VoiceGatewayEvent) \<times> arrivals \<times> 'w gateway_conn" where
  "next_event timeout inputs conn =
    (case receive_within timeout inputs conn of
       (None, rest, conn1) \<Rightarrow> (Inl (InvalidState ''voice handshake timed out''), rest, conn1)
     | (Some r, rest, conn1) \<Rightarrow> (r, rest, conn1))"

definition HANDSHAKE_TIMEOUT :: nanos where "HANDSHAKE_TIMEOUT = 10000000000"
definition POST_HELLO_TIMEOUT_FLOOR :: nanos where "POST_HELLO_TIMEOUT_FLOOR = 30000000000"
definition SELF_ONLY_INITIAL_GROUP_GRACE :: nanos where "SELF_ONLY_INITIAL_GROUP_GRACE = 5000000000"

text \<open>The product saturates at the longest duration, 64 bits of seconds.\<close>

definition DURATION_MAX :: nanos where "DURATION_MAX = 2 ^ 64 * 1000000000 - 1"

definition post_hello_timeout :: "u64 \<Rightarrow> nanos" where
  "post_hello_timeout heartbeat_interval_ms =
     max POST_HELLO_TIMEOUT_FLOOR (min (2 * (unat (max heartbeat_interval_ms 1) * 1000000)) DURATION_MAX)"

definition expect_hello :: "arrivals \<Rightarrow> 'w gateway_conn \<Rightarrow> (VoiceError + u64) \<times> arrivals \<times> 'w gateway_conn" where
  "expect_hello inputs conn =
    (case next_event HANDSHAKE_TIMEOUT inputs conn of
       (Inl err, rest, conn1) \<Rightarrow> (Inl err, rest, conn1)
     | (Inr (Hello interval), rest, conn1) \<Rightarrow> (Inr interval, rest, conn1)
     | (Inr _, rest, conn1) \<Rightarrow> (Inl (InvalidState ''voice handshake hello missing''), rest, conn1))"

definition expect_ready :: "nanos \<Rightarrow> arrivals \<Rightarrow> 'w gateway_conn \<Rightarrow> (VoiceError + Ready) \<times> arrivals \<times> 'w gateway_conn" where
  "expect_ready timeout inputs conn =
    (case next_event timeout inputs conn of
       (Inl err, rest, conn1) \<Rightarrow> (Inl err, rest, conn1)
     | (Inr (ReadyEvent ready), rest, conn1) \<Rightarrow> (Inr ready, rest, conn1)
     | (Inr _, rest, conn1) \<Rightarrow> (Inl (InvalidState ''voice handshake ready missing''), rest, conn1))"

fun is_benign_pre_session_description_event :: "VoiceGatewayEvent \<Rightarrow> string \<Rightarrow> bool" where
  "is_benign_pre_session_description_event (ClientsConnect _) self_user_id \<longleftrightarrow> True"
| "is_benign_pre_session_description_event (SpeakingEvent _) self_user_id \<longleftrightarrow> True"
| "is_benign_pre_session_description_event (HeartbeatAck _) self_user_id \<longleftrightarrow> True"
| "is_benign_pre_session_description_event (VideoEvent _) self_user_id \<longleftrightarrow> True"
| "is_benign_pre_session_description_event MediaSinkWants self_user_id \<longleftrightarrow> True"
| "is_benign_pre_session_description_event (ClientFlags _ _) self_user_id \<longleftrightarrow> True"
| "is_benign_pre_session_description_event (ClientPlatform _ _) self_user_id \<longleftrightarrow> True"
| "is_benign_pre_session_description_event (ClientDisconnect user_id) self_user_id \<longleftrightarrow> user_id \<noteq> self_user_id"
| "is_benign_pre_session_description_event _ self_user_id \<longleftrightarrow> False"

text \<open>What is learnt before the session description: the connected users, and whether another user speaks.\<close>

datatype description_step = Described SessionDescription | Learnt "string set" bool | Unexpected

definition description_event :: "string \<Rightarrow> VoiceGatewayEvent \<Rightarrow> string set \<Rightarrow> bool \<Rightarrow> description_step" where
  "description_event self_user_id event recognized speaker =
    (case event of
       SessionDescriptionEvent description \<Rightarrow> Described description
     | ClientsConnect user_ids \<Rightarrow> Learnt (recognized \<union> set user_ids) speaker
     | ClientDisconnect user_id \<Rightarrow>
         (if user_id \<noteq> self_user_id then Learnt (recognized - {user_id}) speaker else Unexpected)
     | SpeakingEvent speaking \<Rightarrow>
         Learnt recognized
           (speaker \<or> (case speaking_user_id speaking of Some user_id \<Rightarrow> user_id \<noteq> self_user_id | None \<Rightarrow> False))
     | _ \<Rightarrow>
         (if is_benign_pre_session_description_event event self_user_id then Learnt recognized speaker else Unexpected))"

definition description_timed_out ::
  "nanos \<Rightarrow> 'w gateway_conn \<Rightarrow> VoiceError \<times> 'w gateway_conn" where
  "description_timed_out deadline conn =
     (InvalidState ''voice handshake timed out'',
      if gc_now conn > deadline then conn else conn_advance (deadline - gc_now conn) conn)"

fun description_loop ::
  "string \<Rightarrow> nanos \<Rightarrow> string set \<Rightarrow> bool \<Rightarrow> arrivals \<Rightarrow> 'w gateway_conn
    \<Rightarrow> (VoiceError + SessionDescription \<times> string set \<times> bool) \<times> arrivals \<times> 'w gateway_conn" where
  "description_loop self_user_id deadline recognized speaker [] conn =
     (Inl (fst (description_timed_out deadline conn)), [], snd (description_timed_out deadline conn))"
| "description_loop self_user_id deadline recognized speaker ((delay, r) # rest) conn =
    (if gc_now conn > deadline then (Inl (fst (description_timed_out deadline conn)), (delay, r) # rest, conn)
     else if delay > deadline - gc_now conn
     then (Inl (fst (description_timed_out deadline conn)), (delay - (deadline - gc_now conn), r) # rest,
           snd (description_timed_out deadline conn))
     else (case r of
             Inl err \<Rightarrow> (Inl err, rest, conn_advance delay conn)
           | Inr payload \<Rightarrow>
              (let conn1 = conn_acknowledge payload (conn_advance delay conn) in
               case description_event self_user_id (payload_event payload) recognized speaker of
                 Described description \<Rightarrow> (Inr (description, recognized, speaker), rest, conn1)
               | Unexpected \<Rightarrow> (Inl (InvalidState ''voice handshake session description missing''), rest, conn1)
               | Learnt recognized1 speaker1 \<Rightarrow>
                   description_loop self_user_id deadline recognized1 speaker1 rest conn1)))"

definition expect_session_description ::
  "nanos \<Rightarrow> string \<Rightarrow> arrivals \<Rightarrow> 'w gateway_conn
    \<Rightarrow> (VoiceError + SessionDescription \<times> string set \<times> bool) \<times> arrivals \<times> 'w gateway_conn" where
  "expect_session_description timeout self_user_id inputs conn =
     description_loop self_user_id (gc_now conn + timeout) {self_user_id} False inputs conn"

section \<open>Bootstrap\<close>

text \<open>Opening a gateway takes its time and gives the events that will arrive, or an error. The world of the network
  is threaded through the discovery of the own address. Looking up a name takes its time too, and so do binding the
  UDP socket and asking a server for the own address.\<close>

record ('w, 'n) network_io =
  nio_http :: http_lib
  nio_ws :: "'w ws_write"
  nio_connect :: "string \<Rightarrow> nanos \<times> (VoiceError + arrivals)"
  nio_max_dave_version :: u16
  nio_lookup :: "string \<Rightarrow> u16 \<Rightarrow> nanos \<times> (VoiceError + SocketAddr list)"
  nio_discovery_time :: "SocketAddr \<Rightarrow> u32 \<Rightarrow> 'n \<Rightarrow> nanos"
  nio_bind :: "'n \<Rightarrow> (VoiceError + unit) \<times> 'n"
  nio_socket :: "('n, SocketAddr) discovery_socket"

definition transport_connect ::
  "('w, 'n) network_io \<Rightarrow> SocketAddr \<Rightarrow> u32 \<Rightarrow> 'n \<Rightarrow> (VoiceError + VoiceUdpTransport \<times> SocketAddr) \<times> 'n" where
  "transport_connect io server ssrc n =
    (case nio_bind io n of
       (Inl err, n1) \<Rightarrow> (Inl err, n1)
     | (Inr _, n1) \<Rightarrow>
        (case discover_ip (nio_socket io) server ssrc n1 of
           (Inl err, n2) \<Rightarrow> (Inl err, n2)
         | (Inr discovered, n2) \<Rightarrow>
            (case parse_ip (discovered_ip discovered) of
               None \<Rightarrow> (Inl (InvalidState ''discovered udp ip invalid''), n2)
             | Some ip \<Rightarrow>
                (Inr (transport_new ssrc, \<lparr>addr_ip = ip, addr_port = discovered_port discovered\<rparr>), n2))))"

record VoiceBootstrap =
  vb_transport :: VoiceUdpTransport
  vb_ssrc :: u32
  vb_session_description :: SessionDescription
  vb_recognized_user_ids :: "string set"
  vb_saw_existing_speaker :: bool
  vb_dave_timeout :: nanos

text \<open>After hello: identifying, the ready message, the UDP transport, and the session description.\<close>

definition identify_and_describe ::
  "('w, 'n) network_io \<Rightarrow> VoiceContext \<Rightarrow> nanos \<Rightarrow> arrivals \<Rightarrow> 'w gateway_conn \<Rightarrow> 'n
    \<Rightarrow> (VoiceError + VoiceBootstrap) \<times> arrivals \<times> 'w gateway_conn \<times> 'n" where
  "identify_and_describe io voice timeout inputs conn n =
    (case conn_send (send_identify (nio_ws io) (nio_max_dave_version io) voice) conn of
       (Inl err, conn1) \<Rightarrow> (Inl err, inputs, conn1, n)
     | (Inr _, conn1) \<Rightarrow>
    (case expect_ready timeout inputs conn1 of
       (Inl err, rest, conn2) \<Rightarrow> (Inl err, rest, conn2, n)
     | (Inr ready, rest, conn2) \<Rightarrow>
    (case choose_encryption_mode ready of
       Inl err \<Rightarrow> (Inl err, rest, conn2, n)
     | Inr mode \<Rightarrow>
    (case resolve_udp_target (nio_lookup io) ready of
       (took, Inl err) \<Rightarrow> (Inl err, arrivals_after took rest, conn_advance took conn2, n)
     | (took, Inr target) \<Rightarrow>
    (let took1 = took + nio_discovery_time io target (ready_ssrc ready) n;
         rest0 = arrivals_after took1 rest;
         conn3 = conn_advance took1 conn2 in
    (case transport_connect io target (ready_ssrc ready) n of
       (Inl err, n1) \<Rightarrow> (Inl err, rest0, conn3, n1)
     | (Inr (transport, local), n1) \<Rightarrow>
    (case conn_send (send_select_protocol (nio_ws io) (show_ip (addr_ip local)) (addr_port local) mode) conn3 of
       (Inl err, conn4) \<Rightarrow> (Inl err, rest0, conn4, n1)
     | (Inr _, conn4) \<Rightarrow>
    (case expect_session_description timeout (vc_user_id voice) rest0 conn4 of
       (Inl err, rest1, conn5) \<Rightarrow> (Inl err, rest1, conn5, n1)
     | (Inr (description, recognized, speaker), rest1, conn5) \<Rightarrow>
        (Inr \<lparr>vb_transport = transport, vb_ssrc = ready_ssrc ready, vb_session_description = description,
              vb_recognized_user_ids = recognized, vb_saw_existing_speaker = speaker, vb_dave_timeout = timeout\<rparr>,
         rest1, conn5, n1)))))))))"

text \<open>Opening the gateway and waiting for hello, as the handshake and a resume do.\<close>

definition open_gateway ::
  "('w, 'n) network_io \<Rightarrow> string \<Rightarrow> nanos \<Rightarrow> 'w \<Rightarrow> (VoiceError + u64) \<times> arrivals \<times> 'w gateway_conn" where
  "open_gateway io url now w =
    (let conn = \<lparr>gc_client = VoiceGatewayClient_connect, gc_now = now, gc_world = w\<rparr> in
     case nio_connect io url of (duration, r) \<Rightarrow>
       (if duration > HANDSHAKE_TIMEOUT
        then (Inl (InvalidState ''voice gateway connect timed out''), [], conn_advance HANDSHAKE_TIMEOUT conn)
        else (case r of
                Inl err \<Rightarrow> (Inl err, [], conn_advance duration conn)
              | Inr inputs \<Rightarrow> expect_hello inputs (conn_advance duration conn))))"

definition bootstrap_voice_connection ::
  "('w, 'n) network_io \<Rightarrow> VoiceContext \<Rightarrow> nanos \<Rightarrow> 'w \<Rightarrow> 'n
    \<Rightarrow> (VoiceError + VoiceBootstrap option) \<times> arrivals \<times> 'w gateway_conn \<times> 'n" where
  "bootstrap_voice_connection io voice now w n =
    (let idle = \<lparr>gc_client = VoiceGatewayClient_connect, gc_now = now, gc_world = w\<rparr> in
     case gateway_url (nio_http io) (vc_endpoint voice) of
       Inl err \<Rightarrow> (Inl err, [], idle, n)
     | Inr None \<Rightarrow> (Inr None, [], idle, n)
     | Inr (Some url) \<Rightarrow>
        (case open_gateway io url now w of
           (Inl err, rest, conn) \<Rightarrow> (Inl err, rest, conn, n)
         | (Inr interval, rest, conn) \<Rightarrow>
            (case identify_and_describe io voice (post_hello_timeout interval) rest conn n of
               (Inl err, rest1, conn1, n1) \<Rightarrow> (Inl err, rest1, conn1, n1)
             | (Inr bootstrap, rest1, conn1, n1) \<Rightarrow> (Inr (Some bootstrap), rest1, conn1, n1))))"

definition resume_gateway ::
  "('w, 'n) network_io \<Rightarrow> VoiceContext \<Rightarrow> u64 option \<Rightarrow> nanos \<Rightarrow> 'w
    \<Rightarrow> (VoiceError + VoiceGatewayClient) \<times> arrivals \<times> 'w gateway_conn" where
  "resume_gateway io voice seq_ack now w =
    (let idle = \<lparr>gc_client = VoiceGatewayClient_connect, gc_now = now, gc_world = w\<rparr> in
     case gateway_url (nio_http io) (vc_endpoint voice) of
       Inl err \<Rightarrow> (Inl err, [], idle)
     | Inr None \<Rightarrow> (Inl (InvalidState ''voice endpoint invalid for resume''), [], idle)
     | Inr (Some url) \<Rightarrow>
        (case open_gateway io url now w of
           (Inl err, rest, conn) \<Rightarrow> (Inl err, rest, conn)
         | (Inr interval, rest, conn) \<Rightarrow>
            (let conn1 = conn\<lparr>gc_client := (case seq_ack of None \<Rightarrow> gc_client conn | Some seq \<Rightarrow> record_seq_ack seq (gc_client conn))\<rparr> in
             case conn_send (send_resume (nio_ws io) (vc_guild_id voice) (vc_session_id voice) (vc_token voice)
                     (gc_client conn1)) conn1 of
               (Inl err, conn2) \<Rightarrow> (Inl err, rest, conn2)
             | (Inr _, conn2) \<Rightarrow>
                (case next_event (post_hello_timeout interval) rest conn2 of
                   (Inl err, rest1, conn3) \<Rightarrow> (Inl err, rest1, conn3)
                 | (Inr Resumed, rest1, conn3) \<Rightarrow> (Inr (gc_client conn3), rest1, conn3)
                 | (Inr _, rest1, conn3) \<Rightarrow> (Inl (InvalidState ''voice handshake resume rejected''), rest1, conn3)))))"

section \<open>Joining the DAVE group as a participant\<close>

text \<open>The MLS package behind the external sender: making one, and its bytes.\<close>

record 'es sender_lib =
  mls_sender_new :: "u64 \<Rightarrow> string + 'es"
  mls_sender_bytes :: "'es \<Rightarrow> string + bytes"

definition DaveExternalSender_new :: "'es sender_lib \<Rightarrow> u64 \<Rightarrow> DaveError + 'es" where
  "DaveExternalSender_new senders group_id = dave_operation ''external sender key pair'' (mls_sender_new senders group_id)"

definition marshalled_external_sender :: "'es sender_lib \<Rightarrow> 'es \<Rightarrow> DaveError + bytes" where
  "marshalled_external_sender senders sender = dave_operation ''external sender'' (mls_sender_bytes senders sender)"

definition split_commit_welcome :: "bytes \<Rightarrow> DaveError + bytes \<times> bytes" where
  "split_commit_welcome commit_welcome = unpack_commit_welcome commit_welcome"

definition session_moved :: VoiceError where
  "session_moved = InvalidState ''voice dave session already moved to runtime''"

record 'ds PendingHandshakeTransition =
  ht_transition_id :: u16
  ht_runtime :: "'ds DaveRuntimeContext"
  ht_source :: PendingDaveTransitionSource

text \<open>What does not change while joining.\<close>

record ('ds, 'es, 'w) join_env =
  je_davey :: "'ds davey_lib"
  je_senders :: "'es sender_lib"
  je_ws :: "'w ws_write"
  je_group_id :: u64
  je_protocol_version :: u16
  je_local_sender :: 'es

record 'ds active_join =
  aj_session :: "'ds DaveSession option"
  aj_prepared :: "(u16 \<times> u16) list"
  aj_pending :: "'ds PendingHandshakeTransition option"
  aj_key_package :: bool
  aj_welcome_backed :: "u16 set"
  aj_self_only_deadline :: "nanos option"
  aj_local_init :: "('ds DaveRuntimeContext \<times> bytes) option"
  aj_gateway_sender :: "bytes option"
  aj_recognized :: "string set"

definition current_external_sender_bytes :: "'es sender_lib \<Rightarrow> bytes option \<Rightarrow> 'es \<Rightarrow> VoiceError + bytes" where
  "current_external_sender_bytes senders gateway_sender local_sender =
    (case gateway_sender of
       Some sender \<Rightarrow> Inr sender
     | None \<Rightarrow>
        (case marshalled_external_sender senders local_sender of
           Inl _ \<Rightarrow> Inl (InvalidState ''voice dave external sender unavailable'')
         | Inr sender \<Rightarrow> Inr sender))"

definition initial_dave_state ::
  "('ds, 'es, 'w) join_env \<Rightarrow> 'ds active_join \<Rightarrow> 'ds DaveRuntimeContext \<Rightarrow> u16 set \<Rightarrow> VoiceError + 'ds InitialDaveState" where
  "initial_dave_state env aj runtime local_init_commit =
     res_bind (current_external_sender_bytes (je_senders env) (aj_gateway_sender aj) (je_local_sender env)) (\<lambda>sender.
       Inr \<lparr>init_runtime = Some runtime, init_pending_initial_session = None, init_group_id = je_group_id env,
            init_protocol_version = je_protocol_version env, init_external_sender_bytes = sender,
            init_recognized_user_ids = aj_recognized aj, init_completed_welcome_backed = aj_welcome_backed aj,
            init_completed_local_init_commit = local_init_commit\<rparr>)"

definition pending_initial_dave_state ::
  "('ds, 'es, 'w) join_env \<Rightarrow> 'ds active_join \<Rightarrow> 'ds DaveSession \<Rightarrow> VoiceError + 'ds InitialDaveState" where
  "pending_initial_dave_state env aj session =
     res_bind (current_external_sender_bytes (je_senders env) (aj_gateway_sender aj) (je_local_sender env)) (\<lambda>sender.
       Inr \<lparr>init_runtime = None, init_pending_initial_session = Some session, init_group_id = je_group_id env,
            init_protocol_version = je_protocol_version env, init_external_sender_bytes = sender,
            init_recognized_user_ids = aj_recognized aj, init_completed_welcome_backed = aj_welcome_backed aj,
            init_completed_local_init_commit = {}\<rparr>)"

text \<open>A handler of the join goes on (None) or is done with the state it returns.\<close>

type_synonym ('ds, 'w) join_step = "'ds InitialDaveState option outcome \<times> 'ds active_join \<times> 'w gateway_conn"

definition join_fails :: "string \<Rightarrow> 'ds active_join \<Rightarrow> 'w gateway_conn \<Rightarrow> ('ds, 'w) join_step" where
  "join_fails message aj conn = (Failed (InvalidState message), aj, conn)"

definition join_goes_on :: "'ds active_join \<Rightarrow> 'w gateway_conn \<Rightarrow> ('ds, 'w) join_step" where
  "join_goes_on aj conn = (Done None, aj, conn)"

definition join_returns ::
  "VoiceError + 'ds InitialDaveState \<Rightarrow> 'ds active_join \<Rightarrow> 'w gateway_conn \<Rightarrow> ('ds, 'w) join_step" where
  "join_returns r aj conn = ((case r of Inl err \<Rightarrow> Failed err | Inr state \<Rightarrow> Done (Some state)), aj, conn)"

text \<open>The key package is sent once per pending join.\<close>

definition send_pending_join_key_package ::
  "'ds davey_lib \<Rightarrow> 'w ws_write \<Rightarrow> 'ds DaveSession \<Rightarrow> bool \<Rightarrow> 'w gateway_conn
    \<Rightarrow> (VoiceError + unit) \<times> 'ds DaveSession \<times> bool \<times> 'w gateway_conn" where
  "send_pending_join_key_package lib ws session pending conn =
    (if pending then (Inr (), session, True, conn)
     else (case key_package lib session of
             (Inl _, session1) \<Rightarrow> (Inl (InvalidState ''voice dave key package failed''), session1, False, conn)
           | (Inr package, session1) \<Rightarrow>
              (case conn_send (send_dave_mls_key_package ws package) conn of
                 (Inl err, conn1) \<Rightarrow> (Inl err, session1, False, conn1)
               | (Inr _, conn1) \<Rightarrow> (Inr (), session1, True, conn1))))"

text \<open>Proposals on a session: a commit with its welcome, nothing for a revocation, or an error.\<close>

definition process_initial_proposals ::
  "'ds davey_lib \<Rightarrow> 'ds DaveSession \<Rightarrow> DaveMlsProposalsOperation \<Rightarrow> bytes \<Rightarrow> string set
    \<Rightarrow> (VoiceError + bytes option) \<times> 'ds DaveSession" where
  "process_initial_proposals lib session operation proposals recognized =
    (case process_proposals_with_operation lib session operation proposals (sorted_list_of_set recognized) of
       (Inl _, session1) \<Rightarrow> (Inl (InvalidState ''voice dave proposals invalid''), session1)
     | (Inr (Some commit_welcome), session1) \<Rightarrow> (Inr (Some commit_welcome), session1)
     | (Inr None, session1) \<Rightarrow>
        ((if operation = Revoke then Inr None
          else Inl (InvalidState ''voice dave append proposals produced no commit'')), session1))"

text \<open>The own commit is sent and processed at once. Making the message can panic on a malformed frame. Every caller
  asks for no transition-ready message.\<close>

definition complete_local_initial_creator_transition ::
  "'ds davey_lib \<Rightarrow> 'w ws_write \<Rightarrow> 'ds DaveSession \<Rightarrow> bytes \<Rightarrow> bytes \<Rightarrow> 'w gateway_conn
    \<Rightarrow> 'ds DaveRuntimeContext outcome \<times> 'w gateway_conn" where
  "complete_local_initial_creator_transition lib ws session commit_welcome commit conn =
    (case dave_mls_commit_welcome_payload commit_welcome of
       None \<Rightarrow> (Panicked, conn)
     | Some payload \<Rightarrow>
        (case conn_send (send_binary ws payload) conn of
           (Inl err, conn1) \<Rightarrow> (Failed err, conn1)
         | (Inr _, conn1) \<Rightarrow>
            ((case process_commit lib session commit of
                (Inl _, _) \<Rightarrow> Failed (InvalidState ''voice dave local init commit invalid'')
              | (Inr result, session1) \<Rightarrow>
                 (if commit_failed result \<or> commit_ignored result \<or> commit_roster_member_ids result = []
                  then Failed (InvalidState ''voice dave local init commit did not join group'')
                  else (case DaveRuntimeContext_from_session lib session1 of
                          Inl _ \<Rightarrow> Failed (InvalidState ''voice dave runtime create failed'')
                        | Inr runtime \<Rightarrow> Done runtime))), conn1)))"

section \<open>Events while joining\<close>

definition active_execute ::
  "('ds, 'es, 'w) join_env \<Rightarrow> u16 \<Rightarrow> 'ds active_join \<Rightarrow> 'w gateway_conn \<Rightarrow> ('ds, 'w) join_step" where
  "active_execute env tid aj conn =
    (case aj_pending aj of
       None \<Rightarrow> join_goes_on aj conn
     | Some pending \<Rightarrow>
        (if tid \<noteq> ht_transition_id pending then join_goes_on aj conn
         else
           (let aj1 = aj\<lparr>aj_pending := None,
                         aj_welcome_backed := (if ht_source pending = WelcomeBacked
                           then insert tid (aj_welcome_backed aj) else aj_welcome_backed aj)\<rparr>;
                local_init = (if tid = DAVE_PROTOCOL_INIT_TRANSITION_ID \<and> ht_source pending = CommitBacked then {tid} else {})
            in join_returns (initial_dave_state env aj1 (ht_runtime pending) local_init) aj1 conn)))"

definition active_external_sender ::
  "('ds, 'es, 'w) join_env \<Rightarrow> bytes \<Rightarrow> 'ds active_join \<Rightarrow> 'w gateway_conn \<Rightarrow> ('ds, 'w) join_step" where
  "active_external_sender env sender aj conn =
    (case aj_session aj of
       None \<Rightarrow> (Failed session_moved, aj, conn)
     | Some session \<Rightarrow>
        (case set_external_sender (je_davey env) session sender of
           (Inl _, session1) \<Rightarrow> join_fails ''voice dave external sender invalid'' (aj\<lparr>aj_session := Some session1\<rparr>) conn
         | (Inr _, session1) \<Rightarrow>
             join_goes_on (aj\<lparr>aj_session := Some session1, aj_gateway_sender := Some sender,
                              aj_self_only_deadline := Some (gc_now conn + SELF_ONLY_INITIAL_GROUP_GRACE)\<rparr>) conn))"

definition prepare_transition :: "u16 option \<Rightarrow> u16 \<Rightarrow> (u16 \<times> u16) list \<Rightarrow> (u16 \<times> u16) list" where
  "prepare_transition tid version prepared = (case tid of None \<Rightarrow> prepared | Some t \<Rightarrow> btree_insert t version prepared)"

definition active_prepare_epoch ::
  "('ds, 'es, 'w) join_env \<Rightarrow> DavePrepareEpoch \<Rightarrow> 'ds active_join \<Rightarrow> 'w gateway_conn \<Rightarrow> ('ds, 'w) join_step" where
  "active_prepare_epoch env epoch aj conn =
    (let prepared = prepare_transition (epoch_transition_id epoch) (epoch_protocol_version epoch) (aj_prepared aj) in
     if epoch_protocol_version epoch \<noteq> je_protocol_version env
     then join_fails ''voice dave prepare epoch protocol version mismatch'' aj conn
     else if epoch_name epoch = [] then join_fails ''voice dave prepare epoch missing'' aj conn
     else if aj_local_init aj \<noteq> None then join_goes_on (aj\<lparr>aj_prepared := prepared\<rparr>) conn
     else (case aj_session aj of
             None \<Rightarrow> (Failed session_moved, aj\<lparr>aj_self_only_deadline := None\<rparr>, conn)
           | Some session \<Rightarrow>
              (case send_pending_join_key_package (je_davey env) (je_ws env) session (aj_key_package aj) conn of
                 (r, session1, sent, conn1) \<Rightarrow>
                   (let aj1 = aj\<lparr>aj_self_only_deadline := None, aj_session := Some session1, aj_key_package := sent\<rparr>
                    in case r of
                         Inl err \<Rightarrow> (Failed err, aj1, conn1)
                       | Inr _ \<Rightarrow> join_goes_on (aj1\<lparr>aj_prepared := prepared\<rparr>) conn1))))"

definition active_proposals ::
  "('ds, 'es, 'w) join_env \<Rightarrow> DaveMlsProposalsOperation \<Rightarrow> bytes \<Rightarrow> 'ds active_join \<Rightarrow> 'w gateway_conn \<Rightarrow> ('ds, 'w) join_step" where
  "active_proposals env operation proposals aj conn =
    (if \<not> aj_key_package aj then join_fails ''voice dave proposals missing pending group creation'' aj conn
     else if aj_local_init aj \<noteq> None then join_goes_on aj conn
     else (case aj_session aj of
             None \<Rightarrow> (Failed session_moved, aj, conn)
           | Some session \<Rightarrow>
    (case process_initial_proposals (je_davey env) session operation proposals (aj_recognized aj) of
       (Inl err, session1) \<Rightarrow> (Failed err, aj\<lparr>aj_session := Some session1\<rparr>, conn)
     | (Inr None, session1) \<Rightarrow> join_goes_on (aj\<lparr>aj_session := Some session1\<rparr>) conn
     | (Inr (Some commit_welcome), session1) \<Rightarrow>
    (case split_commit_welcome commit_welcome of
       Inl _ \<Rightarrow> join_fails ''voice dave commit welcome invalid'' (aj\<lparr>aj_session := Some session1\<rparr>) conn
     | Inr (commit, _) \<Rightarrow>
        (let aj1 = aj\<lparr>aj_session := None\<rparr> in
         case complete_local_initial_creator_transition (je_davey env) (je_ws env) session1 commit_welcome commit conn of
           (Failed err, conn1) \<Rightarrow> (Failed err, aj1, conn1)
         | (Panicked, conn1) \<Rightarrow> (Panicked, aj1, conn1)
         | (Done runtime, conn1) \<Rightarrow>
             join_returns (initial_dave_state env aj1 runtime {DAVE_PROTOCOL_INIT_TRANSITION_ID}) aj1 conn1)))))"

text \<open>Whether a commit or a welcome was prepared for, or answers the key package with nothing prepared.\<close>

definition expects_transition :: "u16 \<Rightarrow> bool \<Rightarrow> (u16 \<times> u16) list \<Rightarrow> bool" where
  "expects_transition tid package_sent prepared \<longleftrightarrow> tid \<in> fst ` set prepared \<or> (package_sent \<and> prepared = [])"

text \<open>A session that joined the group becomes the runtime: right away for the initial transition, otherwise once
  the transition that is reported as ready is executed.\<close>

definition active_joined ::
  "('ds, 'es, 'w) join_env \<Rightarrow> u16 \<Rightarrow> PendingDaveTransitionSource \<Rightarrow> 'ds DaveSession \<Rightarrow> 'ds active_join \<Rightarrow> 'w gateway_conn
    \<Rightarrow> ('ds, 'w) join_step" where
  "active_joined env tid source session aj conn =
    (let aj1 = aj\<lparr>aj_key_package := False, aj_prepared := [], aj_session := None\<rparr> in
     case DaveRuntimeContext_from_session (je_davey env) session of
       Inl _ \<Rightarrow> join_fails ''voice dave runtime create failed'' aj1 conn
     | Inr runtime \<Rightarrow>
        (if tid = DAVE_PROTOCOL_INIT_TRANSITION_ID then join_returns (initial_dave_state env aj1 runtime {}) aj1 conn
         else (case conn_send (send_dave_transition_ready (je_ws env) tid) conn of
                 (Inl err, conn1) \<Rightarrow> (Failed err, aj1, conn1)
               | (Inr _, conn1) \<Rightarrow>
                   join_goes_on (aj1\<lparr>aj_pending := Some \<lparr>ht_transition_id = tid, ht_runtime = runtime, ht_source = source\<rparr>\<rparr>)
                     conn1)))"

definition active_commit ::
  "('ds, 'es, 'w) join_env \<Rightarrow> u16 \<Rightarrow> bytes \<Rightarrow> 'ds active_join \<Rightarrow> 'w gateway_conn \<Rightarrow> ('ds, 'w) join_step" where
  "active_commit env tid commit aj conn =
    (case (if tid = DAVE_PROTOCOL_INIT_TRANSITION_ID then aj_local_init aj else None) of
       Some (runtime, local_commit) \<Rightarrow>
         (let aj1 = aj\<lparr>aj_local_init := None\<rparr> in
          if commit \<noteq> local_commit then join_fails ''voice dave local init gateway commit mismatch'' aj1 conn
          else (let aj2 = aj1\<lparr>aj_prepared := []\<rparr> in join_returns (initial_dave_state env aj2 runtime {tid}) aj2 conn))
     | None \<Rightarrow>
         (let aj1 = aj\<lparr>aj_prepared := btree_remove tid (aj_prepared aj)\<rparr> in
          if \<not> expects_transition tid (aj_key_package aj) (aj_prepared aj)
          then join_fails ''voice dave commit transition missing pending group creation'' aj1 conn
          else (case aj_session aj of
                  None \<Rightarrow> (Failed session_moved, aj1, conn)
                | Some session \<Rightarrow>
                   (case process_commit (je_davey env) session commit of
                      (Inl _, session1) \<Rightarrow> join_fails ''voice dave commit invalid'' (aj1\<lparr>aj_session := Some session1\<rparr>) conn
                    | (Inr result, session1) \<Rightarrow>
                        (let aj2 = aj1\<lparr>aj_session := Some session1, aj_self_only_deadline := None\<rparr> in
                         if commit_ignored result then join_goes_on aj2 conn
                         else if commit_failed result \<or> commit_roster_member_ids result = []
                         then join_fails ''voice dave commit transition did not join group'' aj2 conn
                         else active_joined env tid CommitBacked session1 aj2 conn)))))"

definition active_welcome ::
  "('ds, 'es, 'w) join_env \<Rightarrow> u16 \<Rightarrow> bytes \<Rightarrow> 'ds active_join \<Rightarrow> 'w gateway_conn \<Rightarrow> ('ds, 'w) join_step" where
  "active_welcome env tid welcome_message aj conn =
    (let aj1 = aj\<lparr>aj_prepared := btree_remove tid (aj_prepared aj)\<rparr> in
     if \<not> expects_transition tid (aj_key_package aj) (aj_prepared aj)
     then join_fails ''voice dave welcome transition missing pending join'' aj1 conn
     else (let aj2 = aj1\<lparr>aj_self_only_deadline := None\<rparr> in
           case aj_session aj of
             None \<Rightarrow> (Failed session_moved, aj2, conn)
           | Some session \<Rightarrow>
              (case process_welcome (je_davey env) session welcome_message of
                 (Inl _, session1) \<Rightarrow> join_fails ''voice dave welcome invalid'' (aj2\<lparr>aj_session := Some session1\<rparr>) conn
               | (Inr _, session1) \<Rightarrow> active_joined env tid WelcomeBacked session1 aj2 conn)))"

text \<open>While a transition waits for its execution every other event is ignored.\<close>

definition active_event ::
  "('ds, 'es, 'w) join_env \<Rightarrow> VoiceGatewayEvent \<Rightarrow> 'ds active_join \<Rightarrow> 'w gateway_conn \<Rightarrow> ('ds, 'w) join_step" where
  "active_event env event aj conn =
    (case event of
       DaveExecuteTransition tid \<Rightarrow> active_execute env tid aj conn
     | _ \<Rightarrow>
        (if aj_pending aj \<noteq> None then join_goes_on aj conn
         else (case event of
                 ClientsConnect user_ids \<Rightarrow> join_goes_on (aj\<lparr>aj_recognized := aj_recognized aj \<union> set user_ids\<rparr>) conn
               | DaveMlsExternalSenderPackage sender \<Rightarrow> active_external_sender env sender aj conn
               | DavePrepareEpochEvent epoch \<Rightarrow> active_prepare_epoch env epoch aj conn
               | DaveMlsProposals operation proposals \<Rightarrow> active_proposals env operation proposals aj conn
               | DaveMlsPrepareCommitTransition tid commit \<Rightarrow> active_commit env tid commit aj conn
               | DaveMlsWelcome tid welcome_message \<Rightarrow> active_welcome env tid welcome_message aj conn
               | _ \<Rightarrow> join_goes_on aj conn)))"

definition active_wait :: "nanos \<Rightarrow> 'ds active_join \<Rightarrow> nanos \<Rightarrow> nanos" where
  "active_wait deadline aj now =
    (case aj_self_only_deadline aj of None \<Rightarrow> deadline - now | Some grace \<Rightarrow> min (deadline - now) (grace - now))"

text \<open>Silence ends the join: with the session still pending once a group was possible, otherwise with an error.\<close>

definition active_silence ::
  "('ds, 'es, 'w) join_env \<Rightarrow> 'ds active_join \<Rightarrow> 'ds InitialDaveState outcome" where
  "active_silence env aj =
    (case aj_self_only_deadline aj of
       None \<Rightarrow> Failed (InvalidState ''voice handshake timed out'')
     | Some _ \<Rightarrow>
        (case aj_session aj of
           None \<Rightarrow> Failed session_moved
         | Some session \<Rightarrow>
            (case pending_initial_dave_state env aj session of Inl err \<Rightarrow> Failed err | Inr state \<Rightarrow> Done state)))"

fun active_loop ::
  "('ds, 'es, 'w) join_env \<Rightarrow> nanos \<Rightarrow> arrivals \<Rightarrow> 'ds active_join \<Rightarrow> 'w gateway_conn
    \<Rightarrow> 'ds InitialDaveState outcome \<times> arrivals \<times> 'w gateway_conn" where
  "active_loop env deadline inputs aj conn =
    (if gc_now conn > deadline then (Failed (InvalidState ''voice handshake timed out''), inputs, conn)
     else
       (let wait = active_wait deadline aj (gc_now conn) in
        case inputs of
          [] \<Rightarrow> (active_silence env aj, [], conn_advance wait conn)
        | (delay, r) # rest \<Rightarrow>
           (if delay > wait then (active_silence env aj, (delay - wait, r) # rest, conn_advance wait conn)
            else (case r of
                    Inl err \<Rightarrow> (Failed err, rest, conn_advance delay conn)
                  | Inr payload \<Rightarrow>
                     (case active_event env (payload_event payload) aj (conn_acknowledge payload (conn_advance delay conn)) of
                        (Failed err, _, conn1) \<Rightarrow> (Failed err, rest, conn1)
                      | (Panicked, _, conn1) \<Rightarrow> (Panicked, rest, conn1)
                      | (Done (Some state), _, conn1) \<Rightarrow> (Done state, rest, conn1)
                      | (Done None, aj1, conn1) \<Rightarrow> active_loop env deadline rest aj1 conn1)))))"

declare active_loop.simps [simp del]

definition complete_active_dave_transition ::
  "'ds davey_lib \<Rightarrow> 'es sender_lib \<Rightarrow> 'w ws_write \<Rightarrow> VoiceContext \<Rightarrow> u16 \<Rightarrow> nanos \<Rightarrow> string set \<Rightarrow> arrivals \<Rightarrow> 'w gateway_conn
    \<Rightarrow> 'ds InitialDaveState outcome \<times> arrivals \<times> 'w gateway_conn" where
  "complete_active_dave_transition lib senders ws voice version timeout recognized inputs conn =
    (case parse_u64 (vc_channel_id voice) of
       None \<Rightarrow> (Failed (InvalidState ''voice dave group id invalid''), inputs, conn)
     | Some group_id \<Rightarrow>
    (case DaveExternalSender_new senders group_id of
       Inl _ \<Rightarrow> (Failed (InvalidState ''voice dave external sender create failed''), inputs, conn)
     | Inr local_sender \<Rightarrow>
    (case dave_init lib DaveSession_new version group_id (vc_user_id voice) of
       None \<Rightarrow> (Panicked, inputs, conn)
     | Some (Inl _, _) \<Rightarrow> (Failed (InvalidState ''voice dave session init failed''), inputs, conn)
     | Some (Inr _, session) \<Rightarrow>
    (case send_pending_join_key_package lib ws session False conn of
       (Inl err, _, _, conn1) \<Rightarrow> (Failed err, inputs, conn1)
     | (Inr _, session1, sent, conn1) \<Rightarrow>
        active_loop
          \<lparr>je_davey = lib, je_senders = senders, je_ws = ws, je_group_id = group_id, je_protocol_version = version,
           je_local_sender = local_sender\<rparr>
          (gc_now conn + timeout) inputs
          \<lparr>aj_session = Some session1, aj_prepared = [], aj_pending = None, aj_key_package = sent, aj_welcome_backed = {},
           aj_self_only_deadline = None, aj_local_init = None, aj_gateway_sender = None,
           aj_recognized = insert (vc_user_id voice) recognized\<rparr> conn1))))"

definition connect_active_participant ::
  "'ds davey_lib \<Rightarrow> 'es sender_lib \<Rightarrow> ('w, 'n) network_io \<Rightarrow> VoiceContext \<Rightarrow> nanos \<Rightarrow> 'w \<Rightarrow> 'n
    \<Rightarrow> 'ds VoiceHandshakeResult option outcome \<times> arrivals \<times> 'w gateway_conn \<times> 'n" where
  "connect_active_participant lib senders io voice now w n =
    (case bootstrap_voice_connection io voice now w n of
       (Inl err, rest, conn, n1) \<Rightarrow> (Failed err, rest, conn, n1)
     | (Inr None, rest, conn, n1) \<Rightarrow> (Done None, rest, conn, n1)
     | (Inr (Some vb), rest, conn, n1) \<Rightarrow>
        (let result = (\<lambda>dave conn1. Some \<lparr>hs_gateway = gc_client conn1, hs_transport = vb_transport vb, hs_ssrc = vb_ssrc vb,
                         hs_session_description = vb_session_description vb, hs_dave = dave\<rparr>)
         in case session_dave_protocol_version (vb_session_description vb) of
              None \<Rightarrow> (Done (result None conn), rest, conn, n1)
            | Some version \<Rightarrow>
               (case complete_active_dave_transition lib senders (nio_ws io) voice version (vb_dave_timeout vb)
                       (vb_recognized_user_ids vb) rest conn of
                  (Failed err, rest1, conn1) \<Rightarrow> (Failed err, rest1, conn1, n1)
                | (Panicked, rest1, conn1) \<Rightarrow> (Panicked, rest1, conn1, n1)
                | (Done dave, rest1, conn1) \<Rightarrow> (Done (result (Some dave) conn1), rest1, conn1, n1))))"

definition handshake_connect ::
  "'ds davey_lib \<Rightarrow> 'es sender_lib \<Rightarrow> ('w, 'n) network_io \<Rightarrow> VoiceContext \<Rightarrow> nanos \<Rightarrow> 'w \<Rightarrow> 'n
    \<Rightarrow> 'ds VoiceHandshakeResult option outcome \<times> arrivals \<times> 'w gateway_conn \<times> 'n" where
  "handshake_connect = connect_active_participant"

section \<open>The heartbeat\<close>

text \<open>One message after every interval, with the clock readings given, until a send fails; the task is ended from
  outside by having no further interval.\<close>

definition heartbeat_interval :: "u64 \<Rightarrow> nanos" where
  "heartbeat_interval interval_ms = unat (max interval_ms 1) * 1000000"

fun heartbeat_task ::
  "'w ws_write \<Rightarrow> (nat option \<times> VoiceGatewayClient) list \<Rightarrow> 'w \<Rightarrow> 'w" where
  "heartbeat_task ws [] w = w"
| "heartbeat_task ws ((since_epoch, client) # rest) w =
    (case send_heartbeat ws since_epoch client w of
       (Inl _, w1) \<Rightarrow> w1
     | (Inr _, w1) \<Rightarrow> heartbeat_task ws rest w1)"

end
