(* ===== verification/ObserverJoin.thy ===== *)
theory ObserverJoin
  imports Handshake
begin

text \<open>
  An observer's way into the DAVE group (\<open>handshake.rs\<close>): the pending join is started and seeded with what the gateway
  has already sent, and later completed by a commit or a welcome, or by the observer's own commit when it may author
  one. A commit or welcome that does not fit restarts the join with its transition invalidated.
\<close>

section \<open>The pending join\<close>

text \<open>While a join is completed the gateway's updates are in a list of their own; it starts as the field
  \<open>po_gateway_updates\<close> and is kept there.\<close>

record 'ds PendingObserverDaveState =
  po_session :: "'ds DaveSession option"
  po_user_id :: string
  po_group_id :: u64
  po_protocol_version :: u16
  po_external_sender :: "bytes option"
  po_recognized :: "string set"
  po_prepared :: "(u16 \<times> u16) list"
  po_invalidated :: "u16 set"
  po_key_package :: bool
  po_gateway_winner :: bool
  po_replay_start :: nat
  po_proposals :: "(DaveMlsProposalsOperation \<times> bytes) list"
  po_seeded_events :: "VoiceGatewayEvent list"
  po_gateway_updates :: "PendingObserverGatewayUpdate list"
  po_saw_speaker :: bool

definition pending_observer_new ::
  "'ds DaveSession \<Rightarrow> string \<Rightarrow> u64 \<Rightarrow> u16 \<Rightarrow> bytes option \<Rightarrow> string set \<Rightarrow> u16 set \<Rightarrow> bool \<Rightarrow> 'ds PendingObserverDaveState" where
  "pending_observer_new session user_id group_id protocol_version sender recognized invalidated speaker =
     \<lparr>po_session = Some session, po_user_id = user_id, po_group_id = group_id, po_protocol_version = protocol_version,
      po_external_sender = sender, po_recognized = insert user_id recognized, po_prepared = [], po_invalidated = invalidated,
      po_key_package = False, po_gateway_winner = False, po_replay_start = 0, po_proposals = [], po_seeded_events = [],
      po_gateway_updates = [], po_saw_speaker = speaker\<rparr>"

definition observer_dave_protocol_version :: "'ds davey_lib \<Rightarrow> 'ds PendingObserverDaveState \<Rightarrow> VoiceError + u16" where
  "observer_dave_protocol_version lib po =
    (case po_session po of
       None \<Rightarrow> Inl session_moved
     | Some session \<Rightarrow>
        (if dave_protocol_version lib session \<noteq> 0 then Inr (dave_protocol_version lib session) else Inl session_moved))"

definition observer_dave_material :: "'ds PendingObserverDaveState \<Rightarrow> VoiceError + ObserverDaveMaterial" where
  "observer_dave_material po =
    (case po_external_sender po of
       None \<Rightarrow> Inl (InvalidState ''voice dave external sender unavailable'')
     | Some sender \<Rightarrow>
        Inr \<lparr>material_group_id = po_group_id po, material_protocol_version = po_protocol_version po,
             material_external_sender = sender\<rparr>)"

text \<open>The key package of the pending session.\<close>

definition observer_key_package ::
  "'ds davey_lib \<Rightarrow> 'w ws_write \<Rightarrow> 'ds PendingObserverDaveState \<Rightarrow> 'w gateway_conn
    \<Rightarrow> (VoiceError + unit) \<times> 'ds PendingObserverDaveState \<times> 'w gateway_conn" where
  "observer_key_package lib ws po conn =
    (case po_session po of
       None \<Rightarrow> (Inl session_moved, po, conn)
     | Some session \<Rightarrow>
        (case send_pending_join_key_package lib ws session (po_key_package po) conn of
           (r, session1, sent, conn1) \<Rightarrow> (r, po\<lparr>po_session := Some session1, po_key_package := sent\<rparr>, conn1)))"

text \<open>A fresh session with a known external sender. Making it can panic.\<close>

definition observer_session ::
  "'ds davey_lib \<Rightarrow> bytes \<Rightarrow> u16 \<Rightarrow> u64 \<Rightarrow> string \<Rightarrow> 'ds DaveSession outcome" where
  "observer_session lib sender protocol_version group_id user_id =
    (case set_external_sender lib DaveSession_new sender of
       (Inl _, _) \<Rightarrow> Failed (InvalidState ''voice dave external sender invalid'')
     | (Inr _, session) \<Rightarrow>
        (case dave_init lib session protocol_version group_id user_id of
           None \<Rightarrow> Panicked
         | Some (Inl _, _) \<Rightarrow> Failed (InvalidState ''voice dave session init failed'')
         | Some (Inr _, session1) \<Rightarrow> Done session1))"

section \<open>Starting and seeding\<close>

text \<open>An event that is waiting when the join starts; True when the seeding ends with it.\<close>

definition observer_sender ::
  "'ds davey_lib \<Rightarrow> bytes \<Rightarrow> 'ds PendingObserverDaveState \<Rightarrow> (VoiceError + unit) \<times> 'ds PendingObserverDaveState" where
  "observer_sender lib sender po =
    (case po_session po of
       None \<Rightarrow> (Inl session_moved, po)
     | Some session \<Rightarrow>
        (case set_external_sender lib session sender of
           (Inl _, session1) \<Rightarrow> (Inl (InvalidState ''voice dave external sender invalid''), po\<lparr>po_session := Some session1\<rparr>)
         | (Inr _, session1) \<Rightarrow> (Inr (), po\<lparr>po_session := Some session1, po_external_sender := Some sender\<rparr>)))"

definition observer_speaking :: "Speaking \<Rightarrow> 'ds PendingObserverDaveState \<Rightarrow> 'ds PendingObserverDaveState" where
  "observer_speaking speaking po =
    (case speaking_user_id speaking of
       None \<Rightarrow> po
     | Some user_id \<Rightarrow>
        po\<lparr>po_saw_speaker := True,
           po_gateway_updates := po_gateway_updates po @ [UpdateSpeaking user_id (speaking_ssrc speaking)]\<rparr>)"

definition seed_event ::
  "'ds davey_lib \<Rightarrow> u16 \<Rightarrow> VoiceGatewayEvent \<Rightarrow> 'ds PendingObserverDaveState
    \<Rightarrow> (VoiceError + bool) \<times> 'ds PendingObserverDaveState" where
  "seed_event lib protocol_version event po =
    (let go_on = (\<lambda>po1. (Inr False, po1));
         keep = (Inr True, po\<lparr>po_seeded_events := po_seeded_events po @ [event]\<rparr>)
     in case event of
       SpeakingEvent speaking \<Rightarrow> go_on (observer_speaking speaking po)
     | ClientDisconnect user_id \<Rightarrow> go_on (po\<lparr>po_gateway_updates := po_gateway_updates po @ [UpdateClientDisconnect user_id]\<rparr>)
     | ClientsConnect user_ids \<Rightarrow> go_on (po\<lparr>po_recognized := po_recognized po \<union> set user_ids\<rparr>)
     | DaveMlsExternalSenderPackage sender \<Rightarrow>
         (case observer_sender lib sender po of (Inl err, po1) \<Rightarrow> (Inl err, po1) | (Inr _, po1) \<Rightarrow> go_on po1)
     | DavePrepareEpochEvent epoch \<Rightarrow>
         (if epoch_protocol_version epoch \<noteq> protocol_version
          then (Inl (InvalidState ''voice dave prepare epoch protocol version mismatch''), po)
          else if epoch_name epoch = [] then (Inl (InvalidState ''voice dave prepare epoch missing''), po)
          else go_on (po\<lparr>po_prepared := prepare_transition (epoch_transition_id epoch) (epoch_protocol_version epoch) (po_prepared po)\<rparr>))
     | DaveMlsProposals _ _ \<Rightarrow> keep
     | DaveMlsPrepareCommitTransition _ _ \<Rightarrow> keep
     | DaveMlsWelcome _ _ \<Rightarrow> keep
     | _ \<Rightarrow> go_on po)"

text \<open>Only what has arrived already is read.\<close>

fun seed_loop ::
  "'ds davey_lib \<Rightarrow> u16 \<Rightarrow> arrivals \<Rightarrow> 'ds PendingObserverDaveState \<Rightarrow> 'w gateway_conn
    \<Rightarrow> (VoiceError + unit) \<times> arrivals \<times> 'ds PendingObserverDaveState \<times> 'w gateway_conn" where
  "seed_loop lib protocol_version [] po conn = (Inr (), [], po, conn)"
| "seed_loop lib protocol_version ((delay, r) # rest) po conn =
    (if delay > 0 then (Inr (), (delay, r) # rest, po, conn)
     else (case r of
             Inl err \<Rightarrow> (Inl err, rest, po, conn)
           | Inr payload \<Rightarrow>
              (let conn1 = conn_acknowledge payload conn in
               case seed_event lib protocol_version (payload_event payload) po of
                 (Inl err, po1) \<Rightarrow> (Inl err, rest, po1, conn1)
               | (Inr True, po1) \<Rightarrow> (Inr (), rest, po1, conn1)
               | (Inr False, po1) \<Rightarrow> seed_loop lib protocol_version rest po1 conn1)))"

definition seed_pending_observer_dave_state ::
  "'ds davey_lib \<Rightarrow> arrivals \<Rightarrow> 'ds PendingObserverDaveState \<Rightarrow> 'w gateway_conn
    \<Rightarrow> (VoiceError + unit) \<times> arrivals \<times> 'ds PendingObserverDaveState \<times> 'w gateway_conn" where
  "seed_pending_observer_dave_state lib inputs po conn =
    (case observer_dave_protocol_version lib po of
       Inl err \<Rightarrow> (Inl err, inputs, po, conn)
     | Inr protocol_version \<Rightarrow> seed_loop lib protocol_version inputs po conn)"

definition start_pending_observer_dave_join ::
  "'ds davey_lib \<Rightarrow> 'w ws_write \<Rightarrow> VoiceContext \<Rightarrow> u16 \<Rightarrow> string set \<Rightarrow> bool \<Rightarrow> arrivals \<Rightarrow> 'w gateway_conn
    \<Rightarrow> 'ds PendingObserverDaveState outcome \<times> arrivals \<times> 'w gateway_conn" where
  "start_pending_observer_dave_join lib ws voice protocol_version recognized speaker inputs conn =
    (case parse_u64 (vc_channel_id voice) of
       None \<Rightarrow> (Failed (InvalidState ''voice dave group id invalid''), inputs, conn)
     | Some group_id \<Rightarrow>
    (case dave_init lib DaveSession_new protocol_version group_id (vc_user_id voice) of
       None \<Rightarrow> (Panicked, inputs, conn)
     | Some (Inl _, _) \<Rightarrow> (Failed (InvalidState ''voice dave session init failed''), inputs, conn)
     | Some (Inr _, session) \<Rightarrow>
    (case observer_key_package lib ws
            (pending_observer_new session (vc_user_id voice) group_id protocol_version None recognized {} speaker) conn of
       (Inl err, _, conn1) \<Rightarrow> (Failed err, inputs, conn1)
     | (Inr _, po, conn1) \<Rightarrow>
    (case seed_pending_observer_dave_state lib inputs po conn1 of
       (Inl err, rest, _, conn2) \<Rightarrow> (Failed err, rest, conn2)
     | (Inr _, rest, po1, conn2) \<Rightarrow> (Done po1, rest, conn2)))))"

section \<open>Reinitializing\<close>

text \<open>A session that observes already starts over; the transition that is reported as invalid is invalidated, or none
  is after invalid proposals.\<close>

definition reinitialize_pending_observer ::
  "'ds davey_lib \<Rightarrow> 'w ws_write \<Rightarrow> VoiceContext \<Rightarrow> ObserverDaveMaterial \<Rightarrow> string set \<Rightarrow> u16 \<Rightarrow> u16 set \<Rightarrow> 'w gateway_conn
    \<Rightarrow> 'ds PendingObserverDaveState outcome \<times> 'w gateway_conn" where
  "reinitialize_pending_observer lib ws voice material recognized reported invalidated conn =
    (case observer_session lib (material_external_sender material) (material_protocol_version material)
            (material_group_id material) (vc_user_id voice) of
       Failed err \<Rightarrow> (Failed err, conn)
     | Panicked \<Rightarrow> (Panicked, conn)
     | Done session \<Rightarrow>
    (case conn_send (send_dave_mls_invalid_commit_welcome ws reported) conn of
       (Inl err, conn1) \<Rightarrow> (Failed err, conn1)
     | (Inr _, conn1) \<Rightarrow>
    (case observer_key_package lib ws
            (pending_observer_new session (vc_user_id voice) (material_group_id material) (material_protocol_version material)
              (Some (material_external_sender material)) recognized invalidated True) conn1 of
       (Inl err, _, conn2) \<Rightarrow> (Failed err, conn2)
     | (Inr _, po, conn2) \<Rightarrow> (Done po, conn2))))"

definition reinitialize_pending_observer_dave_join_after_invalid_transition ::
  "'ds davey_lib \<Rightarrow> 'w ws_write \<Rightarrow> VoiceContext \<Rightarrow> ObserverDaveMaterial \<Rightarrow> string set \<Rightarrow> u16 \<Rightarrow> 'w gateway_conn
    \<Rightarrow> 'ds PendingObserverDaveState outcome \<times> 'w gateway_conn" where
  "reinitialize_pending_observer_dave_join_after_invalid_transition lib ws voice material recognized tid conn =
     reinitialize_pending_observer lib ws voice material recognized tid {tid} conn"

definition reinitialize_pending_observer_dave_join_after_invalid_proposals ::
  "'ds davey_lib \<Rightarrow> 'w ws_write \<Rightarrow> VoiceContext \<Rightarrow> ObserverDaveMaterial \<Rightarrow> string set \<Rightarrow> 'w gateway_conn
    \<Rightarrow> 'ds PendingObserverDaveState outcome \<times> 'w gateway_conn" where
  "reinitialize_pending_observer_dave_join_after_invalid_proposals lib ws voice material recognized conn =
     reinitialize_pending_observer lib ws voice material recognized DAVE_PROTOCOL_INIT_TRANSITION_ID {} conn"

definition restart_pending_observer_dave_join_after_invalid_transition ::
  "'ds davey_lib \<Rightarrow> 'w ws_write \<Rightarrow> 'ds PendingObserverDaveState \<Rightarrow> u16 \<Rightarrow> 'w gateway_conn
    \<Rightarrow> unit outcome \<times> 'ds PendingObserverDaveState \<times> 'w gateway_conn" where
  "restart_pending_observer_dave_join_after_invalid_transition lib ws po tid conn =
    (case po_external_sender po of
       None \<Rightarrow> (Failed (InvalidState ''voice dave external sender unavailable''), po, conn)
     | Some sender \<Rightarrow>
    (case observer_session lib sender (po_protocol_version po) (po_group_id po) (po_user_id po) of
       Failed err \<Rightarrow> (Failed err, po, conn)
     | Panicked \<Rightarrow> (Panicked, po, conn)
     | Done session \<Rightarrow>
    (case conn_send (send_dave_mls_invalid_commit_welcome ws tid) conn of
       (Inl err, conn1) \<Rightarrow> (Failed err, po, conn1)
     | (Inr _, conn1) \<Rightarrow>
    (case observer_key_package lib ws
            (po\<lparr>po_session := Some session, po_prepared := [], po_invalidated := insert tid (po_invalidated po),
                po_key_package := False, po_gateway_winner := False, po_replay_start := 0, po_proposals := [],
                po_saw_speaker := True\<rparr>) conn1 of
       (Inl err, po1, conn2) \<Rightarrow> (Failed err, po1, conn2)
     | (Inr _, po1, conn2) \<Rightarrow> (Done (), po1, conn2)))))"

section \<open>Completing the join\<close>

text \<open>A handler of the pending join goes on (None) or is done.\<close>

type_synonym ('ds, 'w) observer_join_step =
  "'ds PendingObserverReadyResult option outcome \<times> 'ds PendingObserverDaveState \<times> 'w gateway_conn"

definition po_fails :: "string \<Rightarrow> 'ds PendingObserverDaveState \<Rightarrow> 'w gateway_conn \<Rightarrow> ('ds, 'w) observer_join_step" where
  "po_fails message po conn = (Failed (InvalidState message), po, conn)"

definition po_goes_on :: "'ds PendingObserverDaveState \<Rightarrow> 'w gateway_conn \<Rightarrow> ('ds, 'w) observer_join_step" where
  "po_goes_on po conn = (Done None, po, conn)"

definition po_returns ::
  "'ds DaveRuntimeContext \<Rightarrow> u16 \<Rightarrow> 'ds PendingObserverDaveState \<Rightarrow> 'w gateway_conn \<Rightarrow> ('ds, 'w) observer_join_step" where
  "po_returns runtime tid po conn =
    ((case observer_dave_material po of
        Inl err \<Rightarrow> Failed err
      | Inr material \<Rightarrow>
         Done (Some \<lparr>ready_runtime = runtime, ready_gateway_updates = po_gateway_updates po,
                     ready_recognized_user_ids = po_recognized po, ready_material = material,
                     ready_completed_transition_id = Some tid\<rparr>)), po, conn)"

definition stage_pending_observer_proposals ::
  "'ds davey_lib \<Rightarrow> 'ds DaveRuntimeContext \<Rightarrow> 'ds PendingObserverDaveState \<Rightarrow> (VoiceError + unit) \<times> 'ds DaveRuntimeContext" where
  "stage_pending_observer_proposals lib runtime po =
     stage_proposals_loop lib (sorted_list_of_set (po_recognized po)) (drop (po_replay_start po) (po_proposals po)) runtime"

definition observer_prepare_epoch ::
  "'ds davey_lib \<Rightarrow> 'w ws_write \<Rightarrow> DavePrepareEpoch \<Rightarrow> 'ds PendingObserverDaveState \<Rightarrow> 'w gateway_conn \<Rightarrow> ('ds, 'w) observer_join_step" where
  "observer_prepare_epoch lib ws epoch po conn =
    (if (case epoch_transition_id epoch of None \<Rightarrow> False | Some tid \<Rightarrow> tid \<in> po_invalidated po) then po_goes_on po conn
     else (case observer_dave_protocol_version lib po of
             Inl err \<Rightarrow> (Failed err, po, conn)
           | Inr protocol_version \<Rightarrow>
              (if epoch_protocol_version epoch \<noteq> protocol_version
               then po_fails ''voice dave prepare epoch protocol version mismatch'' po conn
               else if epoch_name epoch = [] then po_fails ''voice dave prepare epoch missing'' po conn
               else
                 (case observer_key_package lib ws
                         (po\<lparr>po_prepared := prepare_transition (epoch_transition_id epoch) (epoch_protocol_version epoch) (po_prepared po)\<rparr>)
                         conn of
                    (Inl err, po1, conn1) \<Rightarrow> (Failed err, po1, conn1)
                  | (Inr _, po1, conn1) \<Rightarrow> po_goes_on po1 conn1))))"

text \<open>Proposals are kept. Without the right to author, or once another speaker was seen, the observer waits for
  someone else's commit.\<close>

definition await_gateway_winner :: "bool \<Rightarrow> 'ds PendingObserverDaveState \<Rightarrow> 'ds PendingObserverDaveState" where
  "await_gateway_winner wanted po =
    (if wanted \<and> \<not> po_gateway_winner po
     then po\<lparr>po_gateway_winner := True, po_replay_start := length (po_proposals po)\<rparr> else po)"

definition observer_proposals ::
  "'ds davey_lib \<Rightarrow> 'w ws_write \<Rightarrow> bool \<Rightarrow> DaveMlsProposalsOperation \<Rightarrow> bytes \<Rightarrow> 'ds PendingObserverDaveState \<Rightarrow> 'w gateway_conn
    \<Rightarrow> ('ds, 'w) observer_join_step" where
  "observer_proposals lib ws author operation proposals po conn =
    (if \<not> po_key_package po then po_fails ''voice dave proposals missing pending group creation'' po conn
     else
       (let kept = po\<lparr>po_proposals := po_proposals po @ [(operation, proposals)]\<rparr>;
            po1 = await_gateway_winner (po_saw_speaker po) (await_gateway_winner (\<not> author) kept)
        in if po_gateway_winner po1 then po_goes_on po1 conn
           else (case po_session po1 of
                   None \<Rightarrow> (Failed session_moved, po1, conn)
                 | Some session \<Rightarrow>
           (case process_initial_proposals lib session operation proposals (po_recognized po1) of
              (Inl err, session1) \<Rightarrow> (Failed err, po1\<lparr>po_session := Some session1\<rparr>, conn)
            | (Inr None, session1) \<Rightarrow> po_goes_on (po1\<lparr>po_session := Some session1\<rparr>) conn
            | (Inr (Some commit_welcome), session1) \<Rightarrow>
           (case unpack_commit_welcome commit_welcome of
              Inl _ \<Rightarrow> po_fails ''voice dave commit welcome invalid'' (po1\<lparr>po_session := Some session1\<rparr>) conn
            | Inr (commit_message, _) \<Rightarrow>
               (let po2 = po1\<lparr>po_session := None\<rparr> in
                case complete_local_initial_creator_transition lib ws session1 commit_welcome commit_message conn of
                  (Failed err, conn1) \<Rightarrow> (Failed err, po2, conn1)
                | (Panicked, conn1) \<Rightarrow> (Panicked, po2, conn1)
                | (Done runtime, conn1) \<Rightarrow>
                    po_returns runtime DAVE_PROTOCOL_INIT_TRANSITION_ID
                      (po2\<lparr>po_gateway_winner := True, po_replay_start := length (po_proposals po2)\<rparr>) conn1))))))"

text \<open>A commit or welcome that fits makes the session the runtime; one that does not restarts the join.\<close>

definition observer_joined ::
  "'ds davey_lib \<Rightarrow> 'w ws_write \<Rightarrow> u16 \<Rightarrow> 'ds DaveSession \<Rightarrow> 'ds PendingObserverDaveState \<Rightarrow> 'w gateway_conn
    \<Rightarrow> ('ds, 'w) observer_join_step" where
  "observer_joined lib ws tid session po conn =
    (let po1 = po\<lparr>po_session := None\<rparr> in
     case DaveRuntimeContext_from_session lib session of
       Inl _ \<Rightarrow> po_fails ''voice dave runtime create failed'' po1 conn
     | Inr runtime \<Rightarrow>
        (case stage_pending_observer_proposals lib runtime po1 of
           (Inl err, _) \<Rightarrow> (Failed err, po1, conn)
         | (Inr _, runtime1) \<Rightarrow>
            (if tid = DAVE_PROTOCOL_INIT_TRANSITION_ID then po_returns runtime1 tid po1 conn
             else (case conn_send (send_dave_transition_ready ws tid) conn of
                     (Inl err, conn1) \<Rightarrow> (Failed err, po1, conn1)
                   | (Inr _, conn1) \<Rightarrow> po_returns runtime1 tid po1 conn1))))"

definition observer_restarts ::
  "'ds davey_lib \<Rightarrow> 'w ws_write \<Rightarrow> u16 \<Rightarrow> 'ds PendingObserverDaveState \<Rightarrow> 'w gateway_conn \<Rightarrow> ('ds, 'w) observer_join_step" where
  "observer_restarts lib ws tid po conn =
    (case restart_pending_observer_dave_join_after_invalid_transition lib ws po tid conn of
       (Failed err, po1, conn1) \<Rightarrow> (Failed err, po1, conn1)
     | (Panicked, po1, conn1) \<Rightarrow> (Panicked, po1, conn1)
     | (Done _, po1, conn1) \<Rightarrow> po_goes_on po1 conn1)"

text \<open>What a commit and a welcome have in common: the invalidated transition, the protocol version, and whether the
  transition is expected.\<close>

definition observer_transition ::
  "'ds davey_lib \<Rightarrow> string \<Rightarrow> u16 \<Rightarrow> ('ds DaveSession \<Rightarrow> 'ds PendingObserverDaveState \<Rightarrow> ('ds, 'w) observer_join_step)
    \<Rightarrow> 'ds PendingObserverDaveState \<Rightarrow> 'w gateway_conn \<Rightarrow> ('ds, 'w) observer_join_step" where
  "observer_transition lib missing tid process po conn =
    (let po1 = po\<lparr>po_prepared := btree_remove tid (po_prepared po)\<rparr> in
     if tid \<in> po_invalidated po then po_goes_on po1 conn
     else (case observer_dave_protocol_version lib po of
             Inl err \<Rightarrow> (Failed err, po, conn)
           | Inr _ \<Rightarrow>
              (if \<not> expects_transition tid (po_key_package po) (po_prepared po) then po_fails missing po1 conn
               else (case po_session po of
                       None \<Rightarrow> (Failed session_moved, po1, conn)
                     | Some session \<Rightarrow> process session po1))))"

definition observer_commit ::
  "'ds davey_lib \<Rightarrow> 'w ws_write \<Rightarrow> u16 \<Rightarrow> bytes \<Rightarrow> 'ds PendingObserverDaveState \<Rightarrow> 'w gateway_conn \<Rightarrow> ('ds, 'w) observer_join_step" where
  "observer_commit lib ws tid commit_message po conn =
     observer_transition lib ''voice observer dave commit transition missing pending join'' tid
       (\<lambda>session po1.
          case process_commit lib session commit_message of
            (Inl _, session1) \<Rightarrow> observer_restarts lib ws tid (po1\<lparr>po_session := Some session1\<rparr>) conn
          | (Inr result, session1) \<Rightarrow>
              (if commit_failed result \<or> commit_ignored result \<or> commit_roster_member_ids result = []
               then observer_restarts lib ws tid (po1\<lparr>po_session := Some session1\<rparr>) conn
               else observer_joined lib ws tid session1 po1 conn)) po conn"

definition observer_welcome ::
  "'ds davey_lib \<Rightarrow> 'w ws_write \<Rightarrow> u16 \<Rightarrow> bytes \<Rightarrow> 'ds PendingObserverDaveState \<Rightarrow> 'w gateway_conn \<Rightarrow> ('ds, 'w) observer_join_step" where
  "observer_welcome lib ws tid welcome_message po conn =
     observer_transition lib ''voice observer dave welcome transition missing pending join'' tid
       (\<lambda>session po1.
          case process_welcome lib session welcome_message of
            (Inl _, session1) \<Rightarrow> observer_restarts lib ws tid (po1\<lparr>po_session := Some session1\<rparr>) conn
          | (Inr _, session1) \<Rightarrow> observer_joined lib ws tid session1 po1 conn) po conn"

definition observer_event ::
  "'ds davey_lib \<Rightarrow> 'w ws_write \<Rightarrow> bool \<Rightarrow> VoiceGatewayEvent \<Rightarrow> 'ds PendingObserverDaveState \<Rightarrow> 'w gateway_conn
    \<Rightarrow> ('ds, 'w) observer_join_step" where
  "observer_event lib ws author event po conn =
    (case event of
       SpeakingEvent speaking \<Rightarrow> po_goes_on (observer_speaking speaking po) conn
     | ClientDisconnect user_id \<Rightarrow> po_goes_on (po\<lparr>po_gateway_updates := po_gateway_updates po @ [UpdateClientDisconnect user_id]\<rparr>) conn
     | ClientsConnect user_ids \<Rightarrow> po_goes_on (po\<lparr>po_recognized := po_recognized po \<union> set user_ids\<rparr>) conn
     | DaveMlsExternalSenderPackage sender \<Rightarrow>
         (case observer_sender lib sender po of (Inl err, po1) \<Rightarrow> (Failed err, po1, conn) | (Inr _, po1) \<Rightarrow> po_goes_on po1 conn)
     | DavePrepareEpochEvent epoch \<Rightarrow> observer_prepare_epoch lib ws epoch po conn
     | DaveMlsProposals operation proposals \<Rightarrow> observer_proposals lib ws author operation proposals po conn
     | DaveMlsPrepareCommitTransition tid commit_message \<Rightarrow> observer_commit lib ws tid commit_message po conn
     | DaveMlsWelcome tid welcome_message \<Rightarrow> observer_welcome lib ws tid welcome_message po conn
     | _ \<Rightarrow> po_goes_on po conn)"

text \<open>The seeded events come first and are not timed; then the gateway is read until the deadline.\<close>

fun observer_join_loop ::
  "'ds davey_lib \<Rightarrow> 'w ws_write \<Rightarrow> bool \<Rightarrow> nanos \<Rightarrow> VoiceGatewayEvent list \<Rightarrow> arrivals \<Rightarrow> 'ds PendingObserverDaveState \<Rightarrow> 'w gateway_conn
    \<Rightarrow> 'ds PendingObserverReadyResult outcome \<times> arrivals \<times> 'w gateway_conn" where
  "observer_join_loop lib ws author deadline (event # seeded) inputs po conn =
    (case observer_event lib ws author event po conn of
       (Failed err, _, conn1) \<Rightarrow> (Failed err, inputs, conn1)
     | (Panicked, _, conn1) \<Rightarrow> (Panicked, inputs, conn1)
     | (Done (Some ready), _, conn1) \<Rightarrow> (Done ready, inputs, conn1)
     | (Done None, po1, conn1) \<Rightarrow> observer_join_loop lib ws author deadline seeded inputs po1 conn1)"
| "observer_join_loop lib ws author deadline [] [] po conn =
    (Failed (InvalidState ''voice observer dave join timed out''), [],
     if gc_now conn > deadline then conn else conn_advance (deadline - gc_now conn) conn)"
| "observer_join_loop lib ws author deadline [] ((delay, r) # rest) po conn =
    (let timed_out = InvalidState ''voice observer dave join timed out''; wait = deadline - gc_now conn in
     if gc_now conn > deadline then (Failed timed_out, (delay, r) # rest, conn)
     else if delay > wait then (Failed timed_out, (delay - wait, r) # rest, conn_advance wait conn)
     else (case r of
             Inl err \<Rightarrow> (Failed err, rest, conn_advance delay conn)
           | Inr payload \<Rightarrow>
              (case observer_event lib ws author (payload_event payload) po (conn_acknowledge payload (conn_advance delay conn)) of
                 (Failed err, _, conn1) \<Rightarrow> (Failed err, rest, conn1)
               | (Panicked, _, conn1) \<Rightarrow> (Panicked, rest, conn1)
               | (Done (Some ready), _, conn1) \<Rightarrow> (Done ready, rest, conn1)
               | (Done None, po1, conn1) \<Rightarrow> observer_join_loop lib ws author deadline [] rest po1 conn1)))"

definition complete_pending_observer_dave_join ::
  "'ds davey_lib \<Rightarrow> 'w ws_write \<Rightarrow> 'ds PendingObserverDaveState \<Rightarrow> nanos \<Rightarrow> bool \<Rightarrow> arrivals \<Rightarrow> 'w gateway_conn
    \<Rightarrow> 'ds PendingObserverReadyResult outcome \<times> arrivals \<times> 'w gateway_conn" where
  "complete_pending_observer_dave_join lib ws po timeout author inputs conn =
     observer_join_loop lib ws author (gc_now conn + timeout) (po_seeded_events po) inputs (po\<lparr>po_seeded_events := []\<rparr>) conn"

record 'ds PendingObserverHandshakeResult =
  oh_gateway :: VoiceGatewayClient
  oh_transport :: VoiceUdpTransport
  oh_ssrc :: u32
  oh_session_description :: SessionDescription
  oh_dave_timeout :: nanos
  oh_dave :: "'ds PendingObserverDaveState option"

definition connect_observer_participant ::
  "'ds davey_lib \<Rightarrow> ('w, 'n) network_io \<Rightarrow> VoiceContext \<Rightarrow> nanos \<Rightarrow> 'w \<Rightarrow> 'n
    \<Rightarrow> 'ds PendingObserverHandshakeResult option outcome \<times> arrivals \<times> 'w gateway_conn \<times> 'n" where
  "connect_observer_participant lib io voice now w n =
    (case bootstrap_voice_connection io voice now w n of
       (Inl err, rest, conn, n1) \<Rightarrow> (Failed err, rest, conn, n1)
     | (Inr None, rest, conn, n1) \<Rightarrow> (Done None, rest, conn, n1)
     | (Inr (Some vb), rest, conn, n1) \<Rightarrow>
        (let result = (\<lambda>dave conn1. Some \<lparr>oh_gateway = gc_client conn1, oh_transport = vb_transport vb, oh_ssrc = vb_ssrc vb,
                         oh_session_description = vb_session_description vb, oh_dave_timeout = vb_dave_timeout vb, oh_dave = dave\<rparr>)
         in case session_dave_protocol_version (vb_session_description vb) of
              None \<Rightarrow> (Done (result None conn), rest, conn, n1)
            | Some version \<Rightarrow>
               (case start_pending_observer_dave_join lib (nio_ws io) voice version (vb_recognized_user_ids vb)
                       (vb_saw_existing_speaker vb) rest conn of
                  (Failed err, rest1, conn1) \<Rightarrow> (Failed err, rest1, conn1, n1)
                | (Panicked, rest1, conn1) \<Rightarrow> (Panicked, rest1, conn1, n1)
                | (Done dave, rest1, conn1) \<Rightarrow> (Done (result (Some dave) conn1), rest1, conn1, n1))))"

end
