(* ===== verification/Observer.thy ===== *)
theory Observer
  imports ObserverJoin
begin

text \<open>
  An observing voice session at work (\<open>receive.rs\<close>): connecting, waiting for DAVE, the gateway's events while
  observing, joining anew after an invalid transition, and the three ways to wait: for an audio frame, for a speaking
  state and for any activity. Gateway events come with their delay, packets with the time at which
  \<open>VoiceUdpTransport::receive_packet\<close> returns them.
\<close>

record 'w observed_world =
  ow_conn :: "'w gateway_conn"
  ow_inputs :: arrivals
  ow_transport :: bool
  ow_packets :: "(nanos \<times> (VoiceError + bytes)) list"

abbreviation ow_now :: "'w observed_world \<Rightarrow> nanos" where "ow_now ow \<equiv> gc_now (ow_conn ow)"

section \<open>The gateway's events while observing\<close>

type_synonym ('ds, 'w) observe_step = "unit outcome \<times> 'ds ObservedVoiceSession \<times> 'w observed_world"

definition observed_send ::
  "('w \<Rightarrow> (VoiceError + unit) \<times> 'w) \<Rightarrow> 'ds ObservedVoiceSession \<Rightarrow> 'w observed_world \<Rightarrow> ('ds, 'w) observe_step" where
  "observed_send f s ow =
    (if \<not> obs_gateway s then (Failed (InvalidState ''voice gateway unavailable''), s, ow)
     else (case conn_send f (ow_conn ow) of
             (Inl err, conn) \<Rightarrow> (Failed err, s, ow\<lparr>ow_conn := conn\<rparr>)
           | (Inr _, conn) \<Rightarrow> (Done (), s, ow\<lparr>ow_conn := conn\<rparr>)))"

text \<open>Joining anew: the group's material, a reinitialized pending join, and its completion. From the reinitialization on
  the session has no key until the join is complete.\<close>

definition observed_rejoin ::
  "'ds davey_lib \<Rightarrow> 'w ws_write
    \<Rightarrow> (ObserverDaveMaterial \<Rightarrow> string set \<Rightarrow> 'w gateway_conn \<Rightarrow> 'ds PendingObserverDaveState outcome \<times> 'w gateway_conn)
    \<Rightarrow> nanos \<Rightarrow> 'ds ObservedVoiceSession \<Rightarrow> 'w observed_world \<Rightarrow> ('ds, 'w) observe_step" where
  "observed_rejoin lib ws reinitialize timeout s ow =
    (case dave_material s of
       None \<Rightarrow> (Failed (InvalidState ''voice dave reinitialize material unavailable''), s, ow)
     | Some material \<Rightarrow>
    (if \<not> obs_gateway s then (Failed (InvalidState ''voice gateway unavailable''), s, ow)
     else
    (case reinitialize material (dave_recognized_user_ids s) (ow_conn ow) of
       (Failed err, conn) \<Rightarrow> (Failed err, s, ow\<lparr>ow_conn := conn\<rparr>)
     | (Panicked, conn) \<Rightarrow> (Panicked, s, ow\<lparr>ow_conn := conn\<rparr>)
     | (Done po, conn) \<Rightarrow>
        (let s1 = s\<lparr>obs_dave := None\<rparr> in
         case complete_pending_observer_dave_join lib ws po timeout (author_dave_proposals s) (ow_inputs ow) conn of
           (Failed err, rest, conn1) \<Rightarrow> (Failed err, s1, ow\<lparr>ow_conn := conn1, ow_inputs := rest\<rparr>)
         | (Panicked, rest, conn1) \<Rightarrow> (Panicked, s1, ow\<lparr>ow_conn := conn1, ow_inputs := rest\<rparr>)
         | (Done ready, rest, conn1) \<Rightarrow> (Done (), apply_observer_dave_ready ready s1, ow\<lparr>ow_conn := conn1, ow_inputs := rest\<rparr>)))))"

definition reinitialize_dave_after_invalid_transition ::
  "'ds davey_lib \<Rightarrow> 'w ws_write \<Rightarrow> u16 \<Rightarrow> nanos \<Rightarrow> 'ds ObservedVoiceSession \<Rightarrow> 'w observed_world \<Rightarrow> ('ds, 'w) observe_step" where
  "reinitialize_dave_after_invalid_transition lib ws tid timeout s ow =
     observed_rejoin lib ws
       (\<lambda>material recognized. reinitialize_pending_observer_dave_join_after_invalid_transition lib ws (obs_voice s) material recognized tid)
       timeout s ow"

definition reinitialize_dave_after_invalid_proposals ::
  "'ds davey_lib \<Rightarrow> 'w ws_write \<Rightarrow> nanos \<Rightarrow> 'ds ObservedVoiceSession \<Rightarrow> 'w observed_world \<Rightarrow> ('ds, 'w) observe_step" where
  "reinitialize_dave_after_invalid_proposals lib ws timeout s ow =
     observed_rejoin lib ws
       (\<lambda>material recognized. reinitialize_pending_observer_dave_join_after_invalid_proposals lib ws (obs_voice s) material recognized)
       timeout s ow"

text \<open>Making the message of an own commit can panic on a malformed frame.\<close>

definition apply_dave_proposals ::
  "'ds davey_lib \<Rightarrow> 'w ws_write \<Rightarrow> DaveMlsProposalsOperation \<Rightarrow> bytes \<Rightarrow> nanos \<Rightarrow> 'ds ObservedVoiceSession \<Rightarrow> 'w observed_world
    \<Rightarrow> ('ds, 'w) observe_step" where
  "apply_dave_proposals lib ws operation proposals timeout s ow =
    (if \<not> author_dave_proposals s
     then (Done (), s\<lparr>pending_dave_proposals := pending_dave_proposals s @ [(operation, proposals)]\<rparr>, ow)
     else (case obs_dave s of
             None \<Rightarrow> (Done (), s, ow)
           | Some dave \<Rightarrow>
              (case runtime_process_proposals lib dave operation proposals (sorted_list_of_set (dave_recognized_user_ids s)) of
                 (Inl err, dave1) \<Rightarrow>
                   (let s1 = s\<lparr>obs_dave := Some dave1\<rparr> in
                    if \<not> is_epoch_mismatch err then (Done (), s1, ow)
                    else reinitialize_dave_after_invalid_proposals lib ws timeout s1 ow)
               | (Inr None, dave1) \<Rightarrow> (Done (), s\<lparr>obs_dave := Some dave1\<rparr>, ow)
               | (Inr (Some commit_welcome), dave1) \<Rightarrow>
                   (let s1 = s\<lparr>obs_dave := Some dave1\<rparr> in
                    if \<not> obs_gateway s1 then (Failed (InvalidState ''voice gateway unavailable''), s1, ow)
                    else (case dave_mls_commit_welcome_payload commit_welcome of
                            None \<Rightarrow> (Panicked, s1, ow)
                          | Some payload \<Rightarrow> observed_send (send_binary ws payload) s1 ow)))))"

text \<open>After a transition was applied: its buffered proposals are dropped and it is reported as ready and recorded.\<close>

definition transition_applied ::
  "'w ws_write \<Rightarrow> u16 \<Rightarrow> 'ds ObservedVoiceSession \<Rightarrow> 'w observed_world \<Rightarrow> ('ds, 'w) observe_step" where
  "transition_applied ws tid s ow =
    (let s1 = s\<lparr>pending_dave_proposals := []\<rparr>;
         completed = (\<lambda>s2. s2\<lparr>completed_dave_transition_ids := insert tid (completed_dave_transition_ids s2)\<rparr>)
     in if tid = 0 then (Done (), completed s1, ow)
        else (case observed_send (send_dave_transition_ready ws tid) s1 ow of
                (Done _, s2, ow1) \<Rightarrow> (Done (), completed s2, ow1)
              | failed \<Rightarrow> failed))"

definition apply_dave_welcome ::
  "'ds davey_lib \<Rightarrow> 'w ws_write \<Rightarrow> u16 \<Rightarrow> bytes \<Rightarrow> nanos \<Rightarrow> 'ds ObservedVoiceSession \<Rightarrow> 'w observed_world \<Rightarrow> ('ds, 'w) observe_step" where
  "apply_dave_welcome lib ws tid welcome_message timeout s ow =
    (if tid \<in> completed_dave_transition_ids s then (Done (), s, ow)
     else (case obs_dave s of
             None \<Rightarrow> (Done (), s, ow)
           | Some dave \<Rightarrow>
              (case runtime_process_welcome lib dave welcome_message of
                 (Inl _, dave1) \<Rightarrow> reinitialize_dave_after_invalid_transition lib ws tid timeout (s\<lparr>obs_dave := Some dave1\<rparr>) ow
               | (Inr _, dave1) \<Rightarrow> transition_applied ws tid (s\<lparr>obs_dave := Some dave1\<rparr>) ow)))"

definition apply_dave_commit_transition ::
  "'ds davey_lib \<Rightarrow> 'w ws_write \<Rightarrow> u16 \<Rightarrow> bytes \<Rightarrow> nanos \<Rightarrow> 'ds ObservedVoiceSession \<Rightarrow> 'w observed_world \<Rightarrow> ('ds, 'w) observe_step" where
  "apply_dave_commit_transition lib ws tid commit_message timeout s ow =
    (if tid \<in> completed_dave_transition_ids s then (Done (), s, ow)
     else (case obs_dave s of
             None \<Rightarrow> (Done (), s, ow)
           | Some dave \<Rightarrow>
              (case stage_pending_dave_proposals lib dave (s\<lparr>obs_dave := None\<rparr>) of
                 (Inl _, dave1, s1) \<Rightarrow> reinitialize_dave_after_invalid_transition lib ws tid timeout (s1\<lparr>obs_dave := Some dave1\<rparr>) ow
               | (Inr _, dave1, s1) \<Rightarrow>
                  (case runtime_process_commit lib dave1 commit_message of
                     (Inl _, dave2) \<Rightarrow> reinitialize_dave_after_invalid_transition lib ws tid timeout (s1\<lparr>obs_dave := Some dave2\<rparr>) ow
                   | (Inr _, dave2) \<Rightarrow> transition_applied ws tid (s1\<lparr>obs_dave := Some dave2\<rparr>) ow))))"

definition apply_gateway_payload ::
  "'ds davey_lib \<Rightarrow> 'w ws_write \<Rightarrow> VoiceGatewayEvent \<Rightarrow> nanos \<Rightarrow> 'ds ObservedVoiceSession \<Rightarrow> 'w observed_world \<Rightarrow> ('ds, 'w) observe_step" where
  "apply_gateway_payload lib ws event timeout s ow =
    (case event of
       SpeakingEvent speaking \<Rightarrow> (Done (), apply_speaking speaking s, ow)
     | ClientsConnect user_ids \<Rightarrow> (Done (), apply_clients_connect user_ids s, ow)
     | ClientDisconnect user_id \<Rightarrow> (Done (), apply_client_disconnect user_id s, ow)
     | DaveMlsProposals operation proposals \<Rightarrow> apply_dave_proposals lib ws operation proposals timeout s ow
     | DaveMlsWelcome tid welcome_message \<Rightarrow> apply_dave_welcome lib ws tid welcome_message timeout s ow
     | DaveMlsPrepareCommitTransition tid commit_message \<Rightarrow> apply_dave_commit_transition lib ws tid commit_message timeout s ow
     | _ \<Rightarrow> (Done (), s, ow))"

section \<open>Connecting\<close>

text \<open>What the pending session knows; its other fields are empty until DAVE is ready.\<close>

record 'ds PendingObservedVoiceSession =
  pob_voice :: VoiceContext
  pob_connected :: bool
  pob_protection :: "ProtectionContext option"
  pob_dave :: "'ds PendingObserverDaveState option"
  pob_dave_timeout :: "nanos option"
  pob_author :: bool

definition PendingObservedVoiceSession_new :: "VoiceContext \<Rightarrow> 'ds PendingObservedVoiceSession" where
  "PendingObservedVoiceSession_new voice =
     \<lparr>pob_voice = voice, pob_connected = False, pob_protection = None, pob_dave = None, pob_dave_timeout = None, pob_author = True\<rparr>"

definition PendingObservedVoiceSession_connect ::
  "'ds davey_lib \<Rightarrow> ('w, 'n) network_io \<Rightarrow> VoiceContext \<Rightarrow> nanos \<Rightarrow> 'w \<Rightarrow> 'n
    \<Rightarrow> 'ds PendingObservedVoiceSession outcome \<times> arrivals \<times> 'w gateway_conn \<times> 'n" where
  "PendingObservedVoiceSession_connect lib io voice now w n =
    (case connect_observer_participant lib io voice now w n of
       (Failed err, rest, conn, n1) \<Rightarrow> (Failed err, rest, conn, n1)
     | (Panicked, rest, conn, n1) \<Rightarrow> (Panicked, rest, conn, n1)
     | (Done None, rest, conn, n1) \<Rightarrow> (Done (PendingObservedVoiceSession_new voice), rest, conn, n1)
     | (Done (Some oh), rest, conn, n1) \<Rightarrow>
        ((case ProtectionContext_from_session (session_mode (oh_session_description oh))
                 (session_secret_key (oh_session_description oh)) of
            Inl err \<Rightarrow> Failed err
          | Inr protection \<Rightarrow>
             Done \<lparr>pob_voice = voice, pob_connected = True, pob_protection = Some protection, pob_dave = oh_dave oh,
                   pob_dave_timeout = Some (oh_dave_timeout oh), pob_author = True\<rparr>), rest, conn, n1))"

definition pending_set_dave_proposal_authoring ::
  "bool \<Rightarrow> 'ds PendingObservedVoiceSession \<Rightarrow> 'ds PendingObservedVoiceSession" where
  "pending_set_dave_proposal_authoring enabled pob = pob\<lparr>pob_author := enabled\<rparr>"

text \<open>The pending session's own way to apply updates leaves the recognized users as they are.\<close>

fun pending_gateway_updates ::
  "PendingObserverGatewayUpdate list \<Rightarrow> 'ds ObservedVoiceSession \<Rightarrow> 'ds ObservedVoiceSession" where
  "pending_gateway_updates [] s = s"
| "pending_gateway_updates (UpdateSpeaking user_id ssrc # rest) s = pending_gateway_updates rest (record_speaker_ssrc user_id ssrc s)"
| "pending_gateway_updates (UpdateClientDisconnect user_id # rest) s =
     pending_gateway_updates rest
       (s\<lparr>remote_speaker_candidates := remote_speaker_candidates s - {user_id},
          speaker_ssrcs := retain_others user_id (speaker_ssrcs s)\<rparr>)"

definition await_dave_ready ::
  "'ds davey_lib \<Rightarrow> 'w ws_write \<Rightarrow> nanos \<Rightarrow> 'ds PendingObservedVoiceSession \<Rightarrow> arrivals \<Rightarrow> 'w gateway_conn
    \<Rightarrow> 'ds ObservedVoiceSession outcome \<times> arrivals \<times> 'w gateway_conn" where
  "await_dave_ready lib ws timeout pob inputs conn =
    (let s = observed_without_dave (pob_voice pob) (pob_connected pob) (pob_protection pob) (pob_author pob) in
     case pob_dave pob of
       None \<Rightarrow> (Done s, inputs, conn)
     | Some po \<Rightarrow>
        (if \<not> pob_connected pob then (Failed (InvalidState ''voice gateway unavailable''), inputs, conn)
         else (case complete_pending_observer_dave_join lib ws po timeout (pob_author pob) inputs conn of
                 (Failed err, rest, conn1) \<Rightarrow> (Failed err, rest, conn1)
               | (Panicked, rest, conn1) \<Rightarrow> (Panicked, rest, conn1)
               | (Done ready, rest, conn1) \<Rightarrow>
                   (Done ((pending_gateway_updates (ready_gateway_updates ready)
                        (s\<lparr>dave_material := Some (ready_material ready),
                           dave_recognized_user_ids := ready_recognized_user_ids ready,
                           remote_speaker_candidates := ready_recognized_user_ids ready - {vc_user_id (pob_voice pob)},
                           completed_dave_transition_ids :=
                             (case ready_completed_transition_id ready of None \<Rightarrow> {} | Some tid \<Rightarrow> {tid})\<rparr>))
                      \<lparr>obs_dave := Some (ready_runtime ready)\<rparr>), rest, conn1))))"

definition ObservedVoiceSession_connect ::
  "'ds davey_lib \<Rightarrow> ('w, 'n) network_io \<Rightarrow> VoiceContext \<Rightarrow> nanos \<Rightarrow> 'w \<Rightarrow> 'n
    \<Rightarrow> 'ds ObservedVoiceSession outcome \<times> arrivals \<times> 'w gateway_conn \<times> 'n" where
  "ObservedVoiceSession_connect lib io voice now w n =
    (case PendingObservedVoiceSession_connect lib io voice now w n of
       (Failed err, rest, conn, n1) \<Rightarrow> (Failed err, rest, conn, n1)
     | (Panicked, rest, conn, n1) \<Rightarrow> (Panicked, rest, conn, n1)
     | (Done pob, rest, conn, n1) \<Rightarrow>
        (case await_dave_ready lib (nio_ws io) (case pob_dave_timeout pob of None \<Rightarrow> 0 | Some timeout \<Rightarrow> timeout) pob rest conn of
           (r, rest1, conn1) \<Rightarrow> (r, rest1, conn1, n1)))"

section \<open>Waiting for input\<close>

text \<open>What comes first, by the deadline: an event of the gateway, when one is awaited, or a packet. The choice is
  biased to the gateway.\<close>

datatype observed_input = GatewayInput "VoiceError + VoiceGatewayPayload" | PacketInput "VoiceError + bytes" | NothingInTime

definition ow_elapse :: "nanos \<Rightarrow> 'w observed_world \<Rightarrow> 'w observed_world" where
  "ow_elapse delay ow =
     ow\<lparr>ow_conn := conn_advance delay (ow_conn ow),
        ow_inputs := (case ow_inputs ow of [] \<Rightarrow> [] | (d, r) # rest \<Rightarrow> (d - delay, r) # rest)\<rparr>"

definition gateway_delay :: "bool \<Rightarrow> 'w observed_world \<Rightarrow> nanos option" where
  "gateway_delay has_gateway ow = (if has_gateway then (case ow_inputs ow of [] \<Rightarrow> None | (d, _) # _ \<Rightarrow> Some d) else None)"

definition packet_delay :: "'w observed_world \<Rightarrow> nanos option" where
  "packet_delay ow = (case ow_packets ow of [] \<Rightarrow> None | (t, _) # _ \<Rightarrow> Some (t - ow_now ow))"

definition take_gateway_input :: "'w observed_world \<Rightarrow> observed_input \<times> 'w observed_world" where
  "take_gateway_input ow =
    (case ow_inputs ow of
       [] \<Rightarrow> (NothingInTime, ow)
     | (d, r) # rest \<Rightarrow>
        (let conn = conn_advance d (ow_conn ow) in
         (GatewayInput r,
          ow\<lparr>ow_conn := (case r of Inl _ \<Rightarrow> conn | Inr payload \<Rightarrow> conn_acknowledge payload conn), ow_inputs := rest\<rparr>)))"

definition select_input :: "bool \<Rightarrow> nanos \<Rightarrow> 'w observed_world \<Rightarrow> observed_input \<times> 'w observed_world" where
  "select_input has_gateway remaining ow =
    (case (gateway_delay has_gateway ow, packet_delay ow) of
       (Some g, None) \<Rightarrow> (if g \<le> remaining then take_gateway_input ow else (NothingInTime, ow_elapse remaining ow))
     | (Some g, Some p) \<Rightarrow>
         (if g \<le> p \<and> g \<le> remaining then take_gateway_input ow
          else if p \<le> remaining
          then (PacketInput (snd (hd (ow_packets ow))), (ow_elapse p ow)\<lparr>ow_packets := tl (ow_packets ow)\<rparr>)
          else (NothingInTime, ow_elapse remaining ow))
     | (None, Some p) \<Rightarrow>
         (if p \<le> remaining
          then (PacketInput (snd (hd (ow_packets ow))), (ow_elapse p ow)\<lparr>ow_packets := tl (ow_packets ow)\<rparr>)
          else (NothingInTime, ow_elapse remaining ow))
     | (None, None) \<Rightarrow> (NothingInTime, ow_elapse remaining ow))"

section \<open>How much input is left\<close>

definition inputs_left :: "'w observed_world \<Rightarrow> nat" where
  "inputs_left ow = length (ow_inputs ow) + length (ow_packets ow)"

lemma join_loop_inputs:
  "observer_join_loop lib ws author deadline seeded inputs po conn = (r, rest, conn') \<Longrightarrow> length rest \<le> length inputs"
proof (induction lib ws author deadline seeded inputs po conn rule: observer_join_loop.induct)
  case (1 lib ws author deadline event seeded inputs po conn)
  then show ?case by (fastforce split: prod.splits outcome.splits option.splits)
next
  case (3 lib ws author deadline delay res rest0 po conn)
  then show ?case by (fastforce simp: Let_def split: if_splits sum.splits prod.splits outcome.splits option.splits)
qed auto

lemma observed_send_left: "observed_send f s ow = (r, s', ow') \<Longrightarrow> inputs_left ow' = inputs_left ow"
  by (auto simp: observed_send_def inputs_left_def split: if_splits prod.splits sum.splits)

lemma rejoin_left: "observed_rejoin lib ws reinitialize timeout s ow = (r, s', ow') \<Longrightarrow> inputs_left ow' \<le> inputs_left ow"
  by (auto simp: observed_rejoin_def inputs_left_def complete_pending_observer_dave_join_def Let_def
      split: option.splits if_splits prod.splits outcome.splits dest!: join_loop_inputs)

lemma applied_left: "transition_applied ws tid s ow = (r, s', ow') \<Longrightarrow> inputs_left ow' = inputs_left ow"
  by (auto simp: transition_applied_def Let_def split: if_splits prod.splits outcome.splits dest!: observed_send_left)

lemma payload_left: "apply_gateway_payload lib ws event timeout s ow = (r, s', ow') \<Longrightarrow> inputs_left ow' \<le> inputs_left ow"
  by (auto simp: apply_gateway_payload_def apply_dave_proposals_def apply_dave_welcome_def apply_dave_commit_transition_def
      reinitialize_dave_after_invalid_transition_def reinitialize_dave_after_invalid_proposals_def Let_def
      split: VoiceGatewayEvent.splits if_splits option.splits prod.splits sum.splits
      dest!: rejoin_left applied_left observed_send_left)

lemma select_left:
  "select_input has_gateway remaining ow = (input, ow') \<Longrightarrow> input \<noteq> NothingInTime \<Longrightarrow> inputs_left ow' < inputs_left ow"
  by (auto simp: select_input_def take_gateway_input_def gateway_delay_def packet_delay_def inputs_left_def ow_elapse_def Let_def
      split: option.splits if_splits list.splits)

lemma left_steps:
  "(GatewayInput result, ow') = select_input has_gateway remaining ow \<Longrightarrow> inputs_left ow' < inputs_left ow"
  "(PacketInput packet, ow') = select_input has_gateway remaining ow \<Longrightarrow> inputs_left ow' < inputs_left ow"
  "(r, s', ow') = apply_gateway_payload lib ws event timeout s ow \<Longrightarrow> inputs_left ow' \<le> inputs_left ow"
  by (drule sym, erule select_left, simp) (drule sym, erule select_left, simp, drule sym, erule payload_left)

section \<open>Receiving\<close>

text \<open>The order in which the pending packets are looked at is the hash map's, here a function of the session.\<close>

type_synonym 'ds packet_order = "'ds ObservedVoiceSession \<Rightarrow> u32 list"

definition receive_timed_out :: VoiceError where "receive_timed_out = InvalidState ''voice receive timed out''"

function receive_audio_loop ::
  "'ds davey_lib \<Rightarrow> aead_lib \<Rightarrow> 'w ws_write \<Rightarrow> 'ds packet_order \<Rightarrow> string option \<Rightarrow> nanos \<Rightarrow> 'ds ObservedVoiceSession \<Rightarrow> 'w observed_world
    \<Rightarrow> ObservedAudioFrame outcome \<times> 'ds ObservedVoiceSession \<times> 'w observed_world" where
  "receive_audio_loop lib aead ws order expected deadline s ow =
    (if ow_now ow > deadline then (Failed receive_timed_out, s, ow)
     else (case ensure_gateway_receive s of
       (Inl err, s1) \<Rightarrow> (Failed err, s1, ow)
     | (Inr has_gateway, s1) \<Rightarrow>
    (if \<not> ow_transport ow then (Failed (InvalidState ''voice transport unavailable''), s1, ow)
     else (case select_input has_gateway (deadline - ow_now ow) ow of
       (NothingInTime, ow1) \<Rightarrow> (Failed receive_timed_out, s1, ow1)
     | (PacketInput (Inl err), ow1) \<Rightarrow> (Failed err, s1, ow1)
     | (PacketInput (Inr packet), ow1) \<Rightarrow>
         (case process_audio_packet lib aead packet (ow_now ow1) expected s1 of
            (Inl err, s2) \<Rightarrow> (Failed err, s2, ow1)
          | (Inr (Some frame), s2) \<Rightarrow> (Done frame, s2, ow1)
          | (Inr None, s2) \<Rightarrow> receive_audio_loop lib aead ws order expected deadline s2 ow1)
     | (GatewayInput result, ow1) \<Rightarrow>
         (case finish_gateway_receive result s1 of
            (Inl err, s2) \<Rightarrow> (Failed err, s2, ow1)
          | (Inr None, s2) \<Rightarrow> receive_audio_loop lib aead ws order expected deadline s2 ow1
          | (Inr (Some payload), s2) \<Rightarrow>
             (if ow_now ow1 > deadline then (Failed receive_timed_out, s2, ow1)
              else (case apply_gateway_payload lib ws (payload_event payload) (deadline - ow_now ow1) s2 ow1 of
                      (Failed err, s3, ow2) \<Rightarrow> (Failed err, s3, ow2)
                    | (Panicked, s3, ow2) \<Rightarrow> (Panicked, s3, ow2)
                    | (Done _, s3, ow2) \<Rightarrow>
                       (case try_decode_pending_audio_frame lib aead (order s3) expected s3 of
                          (Inl err, s4) \<Rightarrow> (Failed err, s4, ow2)
                        | (Inr (Some frame), s4) \<Rightarrow> (Done frame, s4, ow2)
                        | (Inr None, s4) \<Rightarrow> receive_audio_loop lib aead ws order expected deadline s4 ow2))))))))"
  by pat_completeness auto
termination
  by (relation "measure (\<lambda>(_, _, _, _, _, _, _, ow). inputs_left ow)")
     (auto dest!: left_steps)

declare receive_audio_loop.simps [simp del]

definition receive_audio_frame_internal ::
  "'ds davey_lib \<Rightarrow> aead_lib \<Rightarrow> 'w ws_write \<Rightarrow> 'ds packet_order \<Rightarrow> string option \<Rightarrow> nanos \<Rightarrow> 'ds ObservedVoiceSession \<Rightarrow> 'w observed_world
    \<Rightarrow> ObservedAudioFrame outcome \<times> 'ds ObservedVoiceSession \<times> 'w observed_world" where
  "receive_audio_frame_internal lib aead ws order expected timeout s ow =
     receive_audio_loop lib aead ws order expected (ow_now ow + timeout) s ow"

definition receive_audio_frame ::
  "'ds davey_lib \<Rightarrow> aead_lib \<Rightarrow> 'w ws_write \<Rightarrow> 'ds packet_order \<Rightarrow> nanos \<Rightarrow> 'ds ObservedVoiceSession \<Rightarrow> 'w observed_world
    \<Rightarrow> ObservedAudioFrame outcome \<times> 'ds ObservedVoiceSession \<times> 'w observed_world" where
  "receive_audio_frame lib aead ws order timeout s ow = receive_audio_frame_internal lib aead ws order None timeout s ow"

definition receive_audio_frame_from ::
  "'ds davey_lib \<Rightarrow> aead_lib \<Rightarrow> 'w ws_write \<Rightarrow> 'ds packet_order \<Rightarrow> string \<Rightarrow> nanos \<Rightarrow> 'ds ObservedVoiceSession \<Rightarrow> 'w observed_world
    \<Rightarrow> ObservedAudioFrame outcome \<times> 'ds ObservedVoiceSession \<times> 'w observed_world" where
  "receive_audio_frame_from lib aead ws order user_id timeout s ow =
     receive_audio_frame_internal lib aead ws order (Some user_id) timeout s ow"

text \<open>What was kept back for a user: a disconnect, a speaking state or a packet that can be decoded by now.\<close>

definition kept_activity ::
  "'ds davey_lib \<Rightarrow> aead_lib \<Rightarrow> 'ds packet_order \<Rightarrow> string \<Rightarrow> 'ds ObservedVoiceSession
    \<Rightarrow> (VoiceError + ObservedVoiceActivity option) \<times> 'ds ObservedVoiceSession" where
  "kept_activity lib aead order user_id s =
    (case pop_pending_disconnect_from user_id s of
       (Some left, s1) \<Rightarrow> (Inr (Some (DisconnectActivity left)), s1)
     | (None, s1) \<Rightarrow>
    (case pop_pending_speaking_state_from user_id s1 of
       (Some state, s2) \<Rightarrow> (Inr (Some (SpeakingActivity state)), s2)
     | (None, s2) \<Rightarrow>
    (case try_decode_pending_audio_frame lib aead (order s2) (Some user_id) s2 of
       (Inl err, s3) \<Rightarrow> (Inl err, s3)
     | (Inr (Some frame), s3) \<Rightarrow> (Inr (Some (AudioActivity frame)), s3)
     | (Inr None, s3) \<Rightarrow> (Inr None, s3))))"

function receive_activity_loop ::
  "'ds davey_lib \<Rightarrow> aead_lib \<Rightarrow> 'w ws_write \<Rightarrow> 'ds packet_order \<Rightarrow> string \<Rightarrow> nanos \<Rightarrow> 'ds ObservedVoiceSession \<Rightarrow> 'w observed_world
    \<Rightarrow> ObservedVoiceActivity outcome \<times> 'ds ObservedVoiceSession \<times> 'w observed_world" where
  "receive_activity_loop lib aead ws order user_id deadline s ow =
    (case kept_activity lib aead order user_id s of
       (Inl err, s0) \<Rightarrow> (Failed err, s0, ow)
     | (Inr (Some activity), s0) \<Rightarrow> (Done activity, s0, ow)
     | (Inr None, s0) \<Rightarrow>
    (if ow_now ow > deadline then (Failed receive_timed_out, s0, ow)
     else (case ensure_gateway_receive s0 of
       (Inl err, s1) \<Rightarrow> (Failed err, s1, ow)
     | (Inr has_gateway, s1) \<Rightarrow>
    (if \<not> ow_transport ow then (Failed (InvalidState ''voice transport unavailable''), s1, ow)
     else (case select_input has_gateway (deadline - ow_now ow) ow of
       (NothingInTime, ow1) \<Rightarrow> (Failed receive_timed_out, s1, ow1)
     | (PacketInput (Inl err), ow1) \<Rightarrow> (Failed err, s1, ow1)
     | (PacketInput (Inr packet), ow1) \<Rightarrow>
         (case process_activity_packet lib aead packet (ow_now ow1) user_id s1 of
            (Inl err, s2) \<Rightarrow> (Failed err, s2, ow1)
          | (Inr (Some activity), s2) \<Rightarrow> (Done activity, s2, ow1)
          | (Inr None, s2) \<Rightarrow> receive_activity_loop lib aead ws order user_id deadline s2 ow1)
     | (GatewayInput result, ow1) \<Rightarrow>
         (case finish_gateway_receive result s1 of
            (Inl err, s2) \<Rightarrow> (Failed err, s2, ow1)
          | (Inr None, s2) \<Rightarrow> receive_activity_loop lib aead ws order user_id deadline s2 ow1
          | (Inr (Some payload), s2) \<Rightarrow>
             (if ow_now ow1 > deadline then (Failed receive_timed_out, s2, ow1)
              else (case apply_gateway_payload lib ws (payload_event payload) (deadline - ow_now ow1) s2 ow1 of
                      (Failed err, s3, ow2) \<Rightarrow> (Failed err, s3, ow2)
                    | (Panicked, s3, ow2) \<Rightarrow> (Panicked, s3, ow2)
                    | (Done _, s3, ow2) \<Rightarrow> receive_activity_loop lib aead ws order user_id deadline s3 ow2))))))))"
  by pat_completeness auto
termination
  by (relation "measure (\<lambda>(_, _, _, _, _, _, _, ow). inputs_left ow)") (auto dest!: left_steps)

declare receive_activity_loop.simps [simp del]

definition receive_activity_from ::
  "'ds davey_lib \<Rightarrow> aead_lib \<Rightarrow> 'w ws_write \<Rightarrow> 'ds packet_order \<Rightarrow> string \<Rightarrow> nanos \<Rightarrow> 'ds ObservedVoiceSession \<Rightarrow> 'w observed_world
    \<Rightarrow> ObservedVoiceActivity outcome \<times> 'ds ObservedVoiceSession \<times> 'w observed_world" where
  "receive_activity_from lib aead ws order user_id timeout s ow =
     receive_activity_loop lib aead ws order user_id (ow_now ow + timeout) s ow"

text \<open>The states of a user in their order: those that do not match are dropped up to the first that does.\<close>

fun take_matching_state ::
  "string \<Rightarrow> (ObservedSpeakingState \<Rightarrow> bool) \<Rightarrow> ObservedSpeakingState list \<Rightarrow> ObservedSpeakingState option \<times> ObservedSpeakingState list" where
  "take_matching_state user_id matches [] = (None, [])"
| "take_matching_state user_id matches (state # rest) =
    (if state_user_id state \<noteq> user_id
     then (case take_matching_state user_id matches rest of (r, rest1) \<Rightarrow> (r, state # rest1))
     else if matches state then (Some state, rest)
     else take_matching_state user_id matches rest)"

definition speaking_timed_out :: VoiceError where "speaking_timed_out = InvalidState ''voice speaking state timed out''"

definition gateway_input_within :: "nanos \<Rightarrow> 'w observed_world \<Rightarrow> observed_input \<times> 'w observed_world" where
  "gateway_input_within remaining ow =
    (case gateway_delay True ow of
       None \<Rightarrow> (NothingInTime, ow_elapse remaining ow)
     | Some g \<Rightarrow> (if g \<le> remaining then take_gateway_input ow else (NothingInTime, ow_elapse remaining ow)))"

lemma gateway_within_left:
  "(GatewayInput result, ow') = gateway_input_within remaining ow \<Longrightarrow> inputs_left ow' < inputs_left ow"
  by (auto simp: gateway_input_within_def take_gateway_input_def gateway_delay_def inputs_left_def Let_def
      split: option.splits if_splits list.splits)

function receive_speaking_loop ::
  "'ds davey_lib \<Rightarrow> 'w ws_write \<Rightarrow> string \<Rightarrow> (ObservedSpeakingState \<Rightarrow> bool) \<Rightarrow> nanos \<Rightarrow> 'ds ObservedVoiceSession \<Rightarrow> 'w observed_world
    \<Rightarrow> ObservedSpeakingState outcome \<times> 'ds ObservedVoiceSession \<times> 'w observed_world" where
  "receive_speaking_loop lib ws user_id matches deadline s ow =
    (case take_matching_state user_id matches (pending_speaking_states s) of
       (Some state, rest) \<Rightarrow> (Done state, s\<lparr>pending_speaking_states := rest\<rparr>, ow)
     | (None, rest) \<Rightarrow>
    (let s0 = s\<lparr>pending_speaking_states := rest\<rparr> in
     if ow_now ow > deadline then (Failed speaking_timed_out, s0, ow)
     else (case ensure_gateway_receive s0 of
       (Inl err, s1) \<Rightarrow> (Failed err, s1, ow)
     | (Inr False, s1) \<Rightarrow> (Failed (InvalidState ''voice gateway unavailable''), s1, ow)
     | (Inr True, s1) \<Rightarrow>
    (case gateway_input_within (deadline - ow_now ow) ow of
       (NothingInTime, ow1) \<Rightarrow> (Failed speaking_timed_out, s1, ow1)
     | (PacketInput _, ow1) \<Rightarrow> (Failed speaking_timed_out, s1, ow1)
     | (GatewayInput result, ow1) \<Rightarrow>
         (case finish_gateway_receive result s1 of
            (Inl err, s2) \<Rightarrow> (Failed err, s2, ow1)
          | (Inr None, s2) \<Rightarrow> receive_speaking_loop lib ws user_id matches deadline s2 ow1
          | (Inr (Some payload), s2) \<Rightarrow>
             (if ow_now ow1 > deadline then (Failed speaking_timed_out, s2, ow1)
              else (case apply_gateway_payload lib ws (payload_event payload) (deadline - ow_now ow1) s2 ow1 of
                      (Failed err, s3, ow2) \<Rightarrow> (Failed err, s3, ow2)
                    | (Panicked, s3, ow2) \<Rightarrow> (Panicked, s3, ow2)
                    | (Done _, s3, ow2) \<Rightarrow> receive_speaking_loop lib ws user_id matches deadline s3 ow2)))))))"
  by pat_completeness auto
termination
  by (relation "measure (\<lambda>(_, _, _, _, _, _, ow). inputs_left ow)") (auto dest!: left_steps(3) gateway_within_left)

declare receive_speaking_loop.simps [simp del]

definition receive_speaking_state_matching_from ::
  "'ds davey_lib \<Rightarrow> 'w ws_write \<Rightarrow> string \<Rightarrow> nanos \<Rightarrow> (ObservedSpeakingState \<Rightarrow> bool) \<Rightarrow> 'ds ObservedVoiceSession \<Rightarrow> 'w observed_world
    \<Rightarrow> ObservedSpeakingState outcome \<times> 'ds ObservedVoiceSession \<times> 'w observed_world" where
  "receive_speaking_state_matching_from lib ws user_id timeout matches s ow =
     receive_speaking_loop lib ws user_id matches (ow_now ow + timeout) s ow"

definition receive_speaking_state_from ::
  "'ds davey_lib \<Rightarrow> 'w ws_write \<Rightarrow> string \<Rightarrow> u64 \<Rightarrow> nanos \<Rightarrow> 'ds ObservedVoiceSession \<Rightarrow> 'w observed_world
    \<Rightarrow> ObservedSpeakingState outcome \<times> 'ds ObservedVoiceSession \<times> 'w observed_world" where
  "receive_speaking_state_from lib ws user_id expected timeout s ow =
     receive_speaking_state_matching_from lib ws user_id timeout (\<lambda>state. state_speaking state = expected) s ow"

definition receive_non_microphone_speaking_state_from ::
  "'ds davey_lib \<Rightarrow> 'w ws_write \<Rightarrow> string \<Rightarrow> nanos \<Rightarrow> 'ds ObservedVoiceSession \<Rightarrow> 'w observed_world
    \<Rightarrow> ObservedSpeakingState outcome \<times> 'ds ObservedVoiceSession \<times> 'w observed_world" where
  "receive_non_microphone_speaking_state_from lib ws user_id timeout s ow =
     receive_speaking_state_matching_from lib ws user_id timeout (\<lambda>state. and (state_speaking state) SPEAKING_FLAG_MICROPHONE = 0) s ow"

end
