(* ===== verification/HandshakeLaws.thy ===== *)
theory HandshakeLaws
  imports Handshake VoiceSessionLaws
begin

text \<open>
  What the handshake of a participant gives: a DAVE session with exactly one owner of its key, within the time its
  timeouts, the name lookup and the address discovery take, and a pending session when nobody else is there. With the laws of the connected session these are
  properties of a session from the first message to its last.
\<close>

section \<open>Single events\<close>

lemmas join_defs = join_fails_def join_goes_on_def join_returns_def

text \<open>What a handler promises: a state it returns is of this group and version, has one key owner and knows the
  users the join knows; the clock stands still; the users known only grow.\<close>

definition state_ok :: "('ds, 'es, 'w) join_env \<Rightarrow> string set \<Rightarrow> 'ds InitialDaveState \<Rightarrow> bool" where
  "state_ok env known state \<longleftrightarrow> handshake_owner state \<and> init_protocol_version state = je_protocol_version env
     \<and> init_group_id state = je_group_id env \<and> known \<subseteq> init_recognized_user_ids state"

definition step_ok :: "('ds, 'es, 'w) join_env \<Rightarrow> 'ds active_join \<Rightarrow> 'w gateway_conn \<Rightarrow> ('ds, 'w) join_step \<Rightarrow> bool" where
  "step_ok env aj conn r \<longleftrightarrow>
    (case r of (outcome, aj1, conn1) \<Rightarrow> gc_now conn1 = gc_now conn \<and> aj_recognized aj \<subseteq> aj_recognized aj1
       \<and> (case outcome of Done (Some state) \<Rightarrow> state_ok env (aj_recognized aj) state | _ \<Rightarrow> True))"

lemma conn_simps [simp]:
  "gc_now (conn_advance d conn) = gc_now conn + d" "gc_now (conn_acknowledge p conn) = gc_now conn"
  "conn_send f conn = (r, conn1) \<Longrightarrow> gc_now conn1 = gc_now conn"
  by (auto simp: conn_advance_def conn_acknowledge_def conn_send_def split: prod.splits)

lemma initial_state_ok:
  assumes "initial_dave_state env aj runtime ids = Inr state"
  shows "known \<subseteq> aj_recognized aj \<Longrightarrow> state_ok env known state"
  using assms by (auto simp: initial_dave_state_def state_ok_def handshake_owner_def res_iff)

lemma pending_state_ok:
  assumes "pending_initial_dave_state env aj session = Inr state"
  shows "known \<subseteq> aj_recognized aj \<Longrightarrow> state_ok env known state"
  using assms by (auto simp: pending_initial_dave_state_def state_ok_def handshake_owner_def res_iff)

lemma join_step_ok [simp]:
  "step_ok env aj conn (join_fails m aj1 conn1) \<longleftrightarrow> gc_now conn1 = gc_now conn \<and> aj_recognized aj \<subseteq> aj_recognized aj1"
  "step_ok env aj conn (join_goes_on aj1 conn1) \<longleftrightarrow> gc_now conn1 = gc_now conn \<and> aj_recognized aj \<subseteq> aj_recognized aj1"
  "step_ok env aj conn (Failed err, aj1, conn1) \<longleftrightarrow> gc_now conn1 = gc_now conn \<and> aj_recognized aj \<subseteq> aj_recognized aj1"
  "step_ok env aj conn (Panicked, aj1, conn1) \<longleftrightarrow> gc_now conn1 = gc_now conn \<and> aj_recognized aj \<subseteq> aj_recognized aj1"
  by (auto simp: step_ok_def join_defs)

lemma join_returns_ok:
  assumes "gc_now conn1 = gc_now conn" and "aj_recognized aj \<subseteq> aj_recognized aj1"
  shows "step_ok env aj conn (join_returns (initial_dave_state env aj1 runtime ids) aj1 conn1)"
  using assms initial_state_ok [of env aj1 runtime ids]
  by (auto simp: step_ok_def join_returns_def split: sum.splits)

lemma creator_now:
  "complete_local_initial_creator_transition lib ws session cw commit conn = (r, conn1) \<Longrightarrow> gc_now conn1 = gc_now conn"
  by (auto simp: complete_local_initial_creator_transition_def split: option.splits prod.splits sum.splits)

lemma key_package_now:
  "send_pending_join_key_package lib ws session sent conn = (r, session1, sent1, conn1) \<Longrightarrow> gc_now conn1 = gc_now conn"
  by (auto simp: send_pending_join_key_package_def split: if_splits prod.splits sum.splits)

lemma execute_ok: "step_ok env aj conn (active_execute env tid aj conn)"
  by (auto simp: active_execute_def Let_def intro!: join_returns_ok split: option.splits)

lemma external_sender_ok: "step_ok env aj conn (active_external_sender env sender aj conn)"
  by (auto simp: active_external_sender_def split: option.splits prod.splits sum.splits)

lemma prepare_epoch_ok: "step_ok env aj conn (active_prepare_epoch env epoch aj conn)"
  by (auto simp: active_prepare_epoch_def Let_def dest: key_package_now split: option.splits prod.splits sum.splits)

lemma proposals_ok: "step_ok env aj conn (active_proposals env operation proposals aj conn)"
  by (auto simp: active_proposals_def Let_def dest: creator_now intro!: join_returns_ok
      split: option.splits prod.splits sum.splits outcome.splits)

lemma joined_ok:
  assumes "gc_now conn1 = gc_now conn" and "aj_recognized aj \<subseteq> aj_recognized aj1"
  shows "step_ok env aj conn (active_joined env tid source session aj1 conn1)"
  using assms
  by (auto simp: active_joined_def Let_def intro!: join_returns_ok split: sum.splits prod.splits)

lemma commit_ok: "step_ok env aj conn (active_commit env tid commit_message aj conn)"
  by (auto simp: active_commit_def Let_def intro!: join_returns_ok joined_ok split: option.splits prod.splits sum.splits)

lemma welcome_ok: "step_ok env aj conn (active_welcome env tid welcome_message aj conn)"
  by (auto simp: active_welcome_def Let_def intro!: joined_ok split: option.splits prod.splits sum.splits)

lemmas handler_ok = execute_ok external_sender_ok prepare_epoch_ok proposals_ok commit_ok welcome_ok

lemma active_event_ok: "step_ok env aj conn (active_event env event aj conn)"
  by (cases event) (auto simp: active_event_def handler_ok)

section \<open>The loop\<close>

lemma wait_bound: "active_wait deadline aj now \<le> deadline - now"
  by (simp add: active_wait_def split: option.splits)

lemma silence_ok: "active_silence env aj = Done state \<Longrightarrow> known \<subseteq> aj_recognized aj \<Longrightarrow> state_ok env known state"
  using pending_state_ok [of env aj] by (auto simp: active_silence_def split: option.splits sum.splits)

lemma active_loop_ok:
  assumes "active_loop env deadline inputs aj conn = (r, rest, conn')"
    and "known \<subseteq> aj_recognized aj" and "gc_now conn \<le> deadline"
  shows "gc_now conn \<le> gc_now conn' \<and> gc_now conn' \<le> deadline \<and> (\<forall>state. r = Done state \<longrightarrow> state_ok env known state)"
  using assms
proof (induction env deadline inputs aj conn rule: active_loop.induct)
  case (1 env deadline inputs aj conn)
  let ?wait = "active_wait deadline aj (gc_now conn)"
  have wait: "gc_now conn + ?wait \<le> deadline"
    using wait_bound [of deadline aj "gc_now conn"] "1.prems"(3) by linarith
  show ?case
  proof (cases inputs)
    case Nil
    with "1.prems" wait show ?thesis
      by (auto simp: active_loop.simps [of env deadline "[]"] Let_def intro: silence_ok)
  next
    case (Cons input rest1)
    obtain delay e where input: "input = (delay, e)" by (cases input)
    show ?thesis
    proof (cases "delay > ?wait")
      case True
      with "1.prems" wait Cons input show ?thesis
        by (auto simp: active_loop.simps [of env deadline "x # xs" for x xs] Let_def intro: silence_ok)
    next
      case False
      show ?thesis
      proof (cases e)
        case (Inl err)
        with False "1.prems" wait Cons input show ?thesis
          by (auto simp: active_loop.simps [of env deadline "x # xs" for x xs] Let_def)
      next
        case (Inr payload)
        let ?conn = "conn_acknowledge payload (conn_advance delay conn)"
        obtain outcome aj1 conn1 where ev: "active_event env (payload_event payload) aj ?conn = (outcome, aj1, conn1)"
          by (metis prod_cases3)
        from active_event_ok [of env aj ?conn "payload_event payload"]
        have ok: "gc_now conn1 = gc_now conn + delay" "aj_recognized aj \<subseteq> aj_recognized aj1"
          "\<And>state. outcome = Done (Some state) \<Longrightarrow> state_ok env (aj_recognized aj) state"
          by (auto simp: step_ok_def ev)
        have now: "gc_now conn1 \<le> deadline" "gc_now conn \<le> gc_now conn1" using ok(1) wait False by auto
        note loop = "1.prems"(1) [unfolded Cons input Inr, unfolded active_loop.simps [of env deadline "x # xs" for x xs]]
        have mono: "state_ok env (aj_recognized aj) state \<Longrightarrow> state_ok env known state" for state
          using "1.prems"(2) by (auto simp: state_ok_def)
        show ?thesis
        proof (cases "outcome = Done None")
          case True
          have run: "active_loop env deadline rest1 aj1 conn1 = (r, rest, conn')"
            using loop "1.prems"(3) False True ev by (auto simp: Let_def)
          have "known \<subseteq> aj_recognized aj1" using ok(2) "1.prems"(2) by blast
          with "1.IH" [OF _ refl Cons input [symmetric] _ Inr ev [symmetric] _ _ _ run] now True False "1.prems"(3)
          show ?thesis by fastforce
        next
          case other: False
          with loop ev now False "1.prems"(3) ok(3) mono show ?thesis
            by (auto simp: Let_def split: outcome.splits option.splits)
        qed
      qed
    qed
  qed
qed

section \<open>The whole handshake\<close>

lemma dave_transition_ok:
  assumes "complete_active_dave_transition lib senders ws voice version timeout recognized inputs conn = (r, rest, conn')"
  shows "gc_now conn \<le> gc_now conn' \<and> gc_now conn' \<le> gc_now conn + timeout
    \<and> (\<forall>state. r = Done state \<longrightarrow> handshake_owner state \<and> init_protocol_version state = version
         \<and> parse_u64 (vc_channel_id voice) = Some (init_group_id state)
         \<and> insert (vc_user_id voice) recognized \<subseteq> init_recognized_user_ids state)"
proof -
  let ?known = "insert (vc_user_id voice) recognized"
  have loop: "gc_now conn \<le> gc_now conn' \<and> gc_now conn' \<le> gc_now conn + timeout
      \<and> (\<forall>state. r = Done state \<longrightarrow> handshake_owner state \<and> init_protocol_version state = je_protocol_version env
           \<and> init_group_id state = je_group_id env \<and> ?known \<subseteq> init_recognized_user_ids state)"
    if "active_loop env (gc_now conn + timeout) inputs (aj\<lparr>aj_recognized := ?known\<rparr>) conn1 = (r, rest, conn')"
      "send_pending_join_key_package lib ws session False conn = (Inr (), session1, sent, conn1)"
    for env :: "('a, 'c, 'b) join_env" and aj conn1 session session1 sent
    using active_loop_ok [OF that(1), of ?known] key_package_now [OF that(2)] by (auto simp: state_ok_def)
  note loops = loop [of _ "\<lparr>aj_session = Some session1, aj_prepared = [], aj_pending = None, aj_key_package = sent,
      aj_welcome_backed = {}, aj_self_only_deadline = None, aj_local_init = None, aj_gateway_sender = None,
      aj_recognized = {}\<rparr>" for session1 sent, simplified]
  from assms show ?thesis
    by (auto simp: complete_active_dave_transition_def split: option.splits sum.splits prod.splits
        dest: key_package_now dest!: loops)
qed

lemma next_event_time:
  assumes "next_event timeout inputs conn = (r, rest, conn')"
  shows "gc_now conn \<le> gc_now conn' \<and> gc_now conn' \<le> gc_now conn + timeout"
  using assms by (auto simp: next_event_def receive_within_def split: list.splits prod.splits if_splits sum.splits)

lemma hello_time:
  "expect_hello inputs conn = (r, rest, conn') \<Longrightarrow> gc_now conn \<le> gc_now conn' \<and> gc_now conn' \<le> gc_now conn + HANDSHAKE_TIMEOUT"
  by (auto simp: expect_hello_def dest!: next_event_time split: prod.splits sum.splits VoiceGatewayEvent.splits)

lemma ready_time:
  "expect_ready timeout inputs conn = (r, rest, conn') \<Longrightarrow> gc_now conn \<le> gc_now conn' \<and> gc_now conn' \<le> gc_now conn + timeout"
  by (auto simp: expect_ready_def dest!: next_event_time split: prod.splits sum.splits VoiceGatewayEvent.splits)

lemma description_loop_time:
  assumes "description_loop user deadline recognized speaker inputs conn = (r, rest, conn')" and "gc_now conn \<le> deadline"
  shows "gc_now conn \<le> gc_now conn' \<and> gc_now conn' \<le> deadline"
  using assms
proof (induction user deadline recognized speaker inputs conn rule: description_loop.induct)
  case (2 user deadline recognized speaker delay e rest1 conn)
  show ?case
  proof (cases "delay \<le> deadline - gc_now conn \<and> (\<exists>payload. e = Inr payload)")
    case True
    then obtain payload where e: "e = Inr payload" by blast
    let ?conn = "conn_acknowledge payload (conn_advance delay conn)"
    have now: "gc_now conn \<le> gc_now ?conn" "gc_now ?conn \<le> deadline" using True "2.prems"(2) by auto
    show ?thesis
    proof (cases "description_event user (payload_event payload) recognized speaker")
      case (Learnt recognized1 speaker1)
      have "description_loop user deadline recognized1 speaker1 rest1 ?conn = (r, rest, conn')"
        using "2.prems" True e Learnt by (simp add: Let_def)
      from "2.IH" [OF _ _ e refl Learnt this now(2)] True "2.prems"(2) now show ?thesis by simp
    qed (use "2.prems" True e now in \<open>auto simp: Let_def\<close>)
  next
    case False
    with "2.prems" show ?thesis by (cases e) (auto simp: description_timed_out_def split: if_splits)
  qed
qed (auto simp: description_timed_out_def)

lemma resolve_time: "resolve_udp_target lookup ready = (took, r) \<Longrightarrow> (\<And>host port. fst (lookup host port) \<le> L) \<Longrightarrow> took \<le> L"
  by (auto simp: resolve_udp_target_def split: option.splits prod.splits) (metis fst_conv)

text \<open>How long looking up a name and discovering the own address take, at most.\<close>

definition network_within :: "nanos \<Rightarrow> nanos \<Rightarrow> ('w, 'n) network_io \<Rightarrow> bool" where
  "network_within L D io \<longleftrightarrow>
     (\<forall>host port. fst (nio_lookup io host port) \<le> L) \<and> (\<forall>target ssrc n. nio_discovery_time io target ssrc n \<le> D)"

lemma identify_time:
  assumes "identify_and_describe io voice timeout inputs conn n = (r, rest, conn', n')" and "network_within L D io"
  shows "gc_now conn \<le> gc_now conn' \<and> gc_now conn' \<le> gc_now conn + L + D + 2 * timeout
    \<and> (\<forall>vb. r = Inr vb \<longrightarrow> vb_dave_timeout vb = timeout)"
proof -
  have ready: "expect_ready timeout inputs conn1 = (r1, rest1, conn2) \<Longrightarrow> gc_now conn1 = gc_now conn
      \<Longrightarrow> gc_now conn \<le> gc_now conn2 \<and> gc_now conn2 \<le> gc_now conn + timeout" for r1 rest1 conn1 conn2
    using ready_time [of timeout inputs conn1 r1 rest1 conn2] by simp
  have describe: "expect_session_description timeout user rest1 conn3 = (r1, rest2, conn4)
      \<Longrightarrow> gc_now conn3 \<le> gc_now conn4 \<and> gc_now conn4 \<le> gc_now conn3 + timeout"
    for user rest1 conn3 rest2 and conn4 :: "'a gateway_conn" and r1
    unfolding expect_session_description_def by (drule description_loop_time) simp_all
  have resolve: "resolve_udp_target (nio_lookup io) rdy = (took, r1) \<Longrightarrow> took \<le> L" for rdy took r1
    using assms(2) resolve_time [of "nio_lookup io" rdy took r1 L] unfolding network_within_def by blast
  have discovery: "nio_discovery_time io target ssrc n1 \<le> D" for target ssrc n1
    using assms(2) by (simp add: network_within_def)
  obtain r1 conn1 where sent: "conn_send (send_identify (nio_ws io) (nio_max_dave_version io) voice) conn = (r1, conn1)" by fastforce
  obtain r2 rest2 conn2 where got: "expect_ready timeout inputs conn1 = (r2, rest2, conn2)" by (metis prod_cases3)
  note time2 = ready [OF got conn_simps(3) [OF sent]]
  note run = assms(1) [unfolded identify_and_describe_def sent got prod.case]
  show ?thesis
  proof (cases "\<exists>u ready mode. r1 = Inr u \<and> r2 = Inr ready \<and> choose_encryption_mode ready = Inr mode")
    case False
    with run conn_simps(3) [OF sent] time2 show ?thesis by (auto split: sum.splits)
  next
    case True
    then obtain u rdy mode where ok: "r1 = Inr u" "r2 = Inr rdy" "choose_encryption_mode rdy = Inr mode" by blast
    obtain took r3 where target: "resolve_udp_target (nio_lookup io) rdy = (took, r3)" by fastforce
    note took = resolve [OF target]
    note run3 = run [unfolded ok sum.case target prod.case Let_def]
    show ?thesis
    proof (cases r3)
      case (Inl err)
      with run3 took time2 show ?thesis by auto
    next
      case (Inr addr)
      let ?took = "took + nio_discovery_time io addr (ready_ssrc rdy) n"
      have later: "gc_now conn \<le> gc_now (conn_advance ?took conn2)"
        "gc_now (conn_advance ?took conn2) \<le> gc_now conn + L + D + timeout"
        using took time2 discovery [of addr "ready_ssrc rdy" n] by auto
      from run3 Inr later show ?thesis
        by (auto split: sum.splits prod.splits dest!: describe conn_simps(3) simp del: conn_simps(1))
    qed
  qed
qed

lemma connect_dave:
  assumes "handshake_connect lib senders io voice now w n = (Done (Some hs), rest, conn, n')"
    and "session_dave_protocol_version (hs_session_description hs) = Some version"
  obtains dave where "hs_dave hs = Some dave" "handshake_owner dave" "init_protocol_version dave = version"
    "parse_u64 (vc_channel_id voice) = Some (init_group_id dave)" "vc_user_id voice \<in> init_recognized_user_ids dave"
proof -
  obtain vb rest1 conn1 n1 timeout recognized dave where
    "complete_active_dave_transition lib senders (nio_ws io) voice version timeout recognized rest1 conn1 = (Done dave, rest, conn)"
    "hs_dave hs = Some dave"
    using assms
    by (auto simp: handshake_connect_def connect_active_participant_def Let_def
        split: prod.splits sum.splits option.splits outcome.splits)
  with dave_transition_ok [OF this(1)] that show ?thesis by simp
qed

text \<open>C14: From the handshake on, the key has one owner. Whatever arrives during the handshake, if it succeeds with a
  session description that names a DAVE version, the session made from it, in every state it reaches afterwards, has
  exactly one owner of a group key (the active runtime, the pending initial session, a transition or a deferred commit)
  or has failed closed; the group is the voice channel's and the own user belongs to it.\<close>

theorem handshake_gives_one_key_owner:
  assumes "handshake_connect lib senders io voice now w n = (Done (Some hs), rest, conn, n')"
    and "session_dave_protocol_version (hs_session_description hs) = Some version"
    and "session_from_handshake voice (Some hs) = Inr s0"
    and "dave_reach lib aead ws udp s0 s"
  shows "owners s = (if vs_dave_failed_closed s then 0 else 1)
    \<and> vs_dave_group_id s0 = parse_u64 (vc_channel_id voice) \<and> vc_user_id voice \<in> vs_dave_recognized_user_ids s0"
proof -
  obtain dave where dave: "hs_dave hs = Some dave" "handshake_owner dave" "init_protocol_version dave = version"
    "parse_u64 (vc_channel_id voice) = Some (init_group_id dave)" "vc_user_id voice \<in> init_recognized_user_ids dave"
    by (rule connect_dave [OF assms(1,2)])
  have "owners s = (if vs_dave_failed_closed s then 0 else 1)"
    using reach_keeps [OF assms(4)] handshake_wf [OF assms(3) dave(1,2)] by (auto simp: same_owner_def session_wf_def)
  with assms(3) dave show ?thesis by (auto simp: session_from_handshake_def res_iff Let_def)
qed

lemma open_gateway_time:
  assumes "open_gateway io url now w = (r, rest, conn)"
  shows "now \<le> gc_now conn \<and> gc_now conn \<le> now + 2 * HANDSHAKE_TIMEOUT"
  using assms hello_time
  by (fastforce simp: open_gateway_def Let_def split: prod.splits if_splits sum.splits)

lemma bootstrap_time:
  assumes "bootstrap_voice_connection io voice now w n = (r, rest, conn, n')"
    and "\<And>url interval rest0 conn0. open_gateway io url now w = (Inr interval, rest0, conn0) \<Longrightarrow> post_hello_timeout interval \<le> T"
    and "network_within L D io"
  shows "now \<le> gc_now conn \<and> gc_now conn \<le> now + 2 * HANDSHAKE_TIMEOUT + 2 * T + L + D
    \<and> (\<forall>vb. r = Inr (Some vb) \<longrightarrow> vb_dave_timeout vb \<le> T)"
proof -
  have step: "now \<le> gc_now conn1 \<and> gc_now conn1 \<le> now + 2 * HANDSHAKE_TIMEOUT + 2 * T + L + D
      \<and> (\<forall>vb. r1 = Inr vb \<longrightarrow> vb_dave_timeout vb \<le> T)"
    if "open_gateway io url now w = (Inr interval, rest0, conn0)"
      "identify_and_describe io voice (post_hello_timeout interval) rest0 conn0 n = (r1, rest1, conn1, n1)"
    for url interval rest0 conn0 r1 rest1 conn1 n1
    using open_gateway_time [OF that(1)] identify_time [OF that(2) assms(3)] assms(2) [OF that(1)] by auto
  have failed: "open_gateway io url now w = (Inl err, rest0, conn0) \<Longrightarrow> now \<le> gc_now conn0
      \<and> gc_now conn0 \<le> now + 2 * HANDSHAKE_TIMEOUT + 2 * T + L + D" for url err rest0 conn0
    by (drule open_gateway_time) linarith
  from assms(1) show ?thesis
    by (auto simp: bootstrap_voice_connection_def Let_def split: sum.splits option.splits prod.splits
        dest!: step dest: failed)
qed

text \<open>C19: The handshake ends. Whatever the gateway sends or leaves out, a handshake returns, with a result or an error,
  within twenty seconds, three times the timeout that follows from the heartbeat interval of its hello, and the time
  two waits take that have no timeout in the code: the name lookup, which a ready message with a host name in place of
  an address leads to, and the UDP socket with the discovery of the own address. These take at most \<open>L\<close> and \<open>D\<close> by
  hypothesis. What is sent takes no time.\<close>

theorem handshake_ends_in_time:
  assumes "handshake_connect lib senders io voice now w n = (r, rest, conn, n')"
    and "\<And>url interval rest0 conn0. open_gateway io url now w = (Inr interval, rest0, conn0) \<Longrightarrow> post_hello_timeout interval \<le> T"
    and "network_within L D io"
  shows "now \<le> gc_now conn \<and> gc_now conn \<le> now + 2 * HANDSHAKE_TIMEOUT + 3 * T + L + D"
proof -
  obtain b rest1 conn1 n1 where boot: "bootstrap_voice_connection io voice now w n = (b, rest1, conn1, n1)"
    by (metis prod_cases4)
  have t: "now \<le> gc_now conn1 \<and> gc_now conn1 \<le> now + 2 * HANDSHAKE_TIMEOUT + 2 * T + L + D
      \<and> (\<forall>vb. b = Inr (Some vb) \<longrightarrow> vb_dave_timeout vb \<le> T)"
    using assms(2,3) by (rule bootstrap_time [OF boot])
  have "gc_now conn1 \<le> gc_now conn \<and> gc_now conn \<le> gc_now conn1 + T"
  proof (cases "\<exists>vb version. b = Inr (Some vb) \<and> session_dave_protocol_version (vb_session_description vb) = Some version")
    case True
    then obtain vb version where vb: "b = Inr (Some vb)" "session_dave_protocol_version (vb_session_description vb) = Some version"
      by blast
    obtain r1 rest2 conn2 where join: "complete_active_dave_transition lib senders (nio_ws io) voice version (vb_dave_timeout vb)
        (vb_recognized_user_ids vb) rest1 conn1 = (r1, rest2, conn2)" by (metis prod_cases3)
    with assms(1) boot vb have "conn = conn2"
      by (auto simp: handshake_connect_def connect_active_participant_def Let_def split: outcome.splits)
    with dave_transition_ok [OF join] t vb(1) show ?thesis by auto
  next
    case False
    with assms(1) boot show ?thesis
      by (auto simp: handshake_connect_def connect_active_participant_def Let_def split: sum.splits option.splits)
  qed
  with t show ?thesis by linarith
qed

text \<open>Alone in the channel. When the external sender is announced and nothing follows for five seconds, the join ends
  after exactly those five seconds with the DAVE session still pending, ready for a first peer, and with the gateway's
  sender.\<close>

theorem alone_in_channel_stays_pending:
  assumes "parse_u64 (vc_channel_id voice) = Some group_id" and "DaveExternalSender_new senders group_id = Inr sender"
    and "dave_init lib DaveSession_new version group_id (vc_user_id voice) = Some (Inr (), session)"
    and "send_pending_join_key_package lib ws session False conn = (Inr (), session1, sent, conn1)"
    and "payload_event payload = DaveMlsExternalSenderPackage announced"
    and "set_external_sender lib session1 announced = (Inr (), session2)"
    and "delay + SELF_ONLY_INITIAL_GROUP_GRACE \<le> timeout"
    and "case rest of [] \<Rightarrow> True | (later, _) # _ \<Rightarrow> later > SELF_ONLY_INITIAL_GROUP_GRACE"
  shows "\<exists>state rest' conn'. complete_active_dave_transition lib senders ws voice version timeout recognized
        ((delay, Inr payload) # rest) conn = (Done state, rest', conn')
    \<and> init_pending_initial_session state = Some session2 \<and> init_runtime state = None
    \<and> init_external_sender_bytes state = announced
    \<and> gc_now conn' = gc_now conn + delay + SELF_ONLY_INITIAL_GROUP_GRACE"
proof -
  have now: "gc_now conn1 = gc_now conn" by (rule key_package_now [OF assms(4)])
  from assms show ?thesis
    by (cases rest)
       (auto simp: complete_active_dave_transition_def active_loop.simps [of _ _ "x # xs" for x xs]
          active_loop.simps [of _ _ "[]"] now Let_def active_wait_def active_event_def active_external_sender_def join_defs
          active_silence_def pending_initial_dave_state_def current_external_sender_bytes_def)
qed

text \<open>Membership changes during the join are lost in part: a user who disconnects stays recognized, and users who
  connect while a transition waits for its execution are not recorded.\<close>

theorem join_misses_membership_changes:
  "active_event env (ClientDisconnect user) aj conn = join_goes_on aj conn"
  "aj_pending aj \<noteq> None \<Longrightarrow> active_event env (ClientsConnect users) aj conn = join_goes_on aj conn"
  by (simp_all add: active_event_def)

text \<open>A web socket beside a log of everything that is written to it.\<close>

definition logged :: "'w ws_write \<Rightarrow> (ws_out list \<times> 'w) ws_write" where
  "logged ws w message = (case ws (snd w) message of (r, w') \<Rightarrow> (r, fst w @ [message], w'))"

section \<open>Concrete runs\<close>

text \<open>A gateway on the local host: it says hello, is ready at once, describes a session with DAVE and announces an
  external sender. Nobody else is in the channel, so the join ends with its session pending.\<close>

definition loopback :: SocketAddr where "loopback = \<lparr>addr_ip = V4 127 0 0 1, addr_port = 50000\<rparr>"

definition loopback_description :: SessionDescription where
  "loopback_description = \<lparr>session_mode = PREFERRED_MODE, session_secret_key = replicate 32 7,
     session_dave_protocol_version = Some 1\<rparr>"

definition loopback_events :: arrivals where
  "loopback_events =
     [(1, Inr (event_payload (Hello 100))),
      (2, Inr (event_payload (ReadyEvent \<lparr>ready_ssrc = 9, ready_ip = ''127.0.0.1'', ready_port = 50000, ready_modes = [PREFERRED_MODE]\<rparr>))),
      (3, Inr (event_payload (SessionDescriptionEvent loopback_description))),
      (4, Inr (event_payload (DaveMlsExternalSenderPackage [8])))]"

definition loopback_io :: "(ws_out list, unit) network_io" where
  "loopback_io =
     \<lparr>nio_http = demo_http, nio_ws = demo_ws, nio_connect = (\<lambda>_. (5, Inr loopback_events)), nio_max_dave_version = 1,
      nio_lookup = (\<lambda>_ _. (0, Inr [])), nio_discovery_time = (\<lambda>_ _ _. 1), nio_bind = (\<lambda>n. (Inr (), n)),
      nio_socket = \<lparr>sock_send = (\<lambda>n _ _. (Inr (), n)),
        sock_recv = (\<lambda>n. (Inr (discovery_response 9 [49, 50, 55, 46, 48, 46, 48, 46, 49] 50001, loopback), n))\<rparr>\<rparr>"

definition loopback_senders :: "unit sender_lib" where
  "loopback_senders = \<lparr>mls_sender_new = (\<lambda>_. Inr ()), mls_sender_bytes = (\<lambda>_. Inr [7])\<rparr>"

definition loopback_voice :: VoiceContext where
  "loopback_voice = demo_voice\<lparr>vc_endpoint := ''127.0.0.1''\<rparr>"

lemma loopback_ip: "parse_ip ''127.0.0.1'' = Some (V4 127 0 0 1)" "show_ip (V4 127 0 0 1) = ''127.0.0.1''"
proof -
  show shown: "show_ip (V4 127 0 0 1) = ''127.0.0.1''" by code_simp
  show "parse_ip ''127.0.0.1'' = Some (V4 127 0 0 1)" using ipv4_roundtrip [of 127 0 0 1] shown by simp
qed

lemma loopback_url: "gateway_url demo_http ''127.0.0.1'' = Inr (Some ''ws://127.0.0.1/?v=8'')"
  by (simp add: gateway_url_def Let_def trim_def is_whitespace_def demo_http_def host_gateway_url_def
      looks_like_local_endpoint_def endpoint_host_def loopback_ip VOICE_GATEWAY_VERSION_def)

lemma loopback_transport:
  "transport_connect loopback_io loopback 9 () = (Inr (transport_new 9, \<lparr>addr_ip = V4 127 0 0 1, addr_port = 50001\<rparr>), ())"
proof -
  have chars: "map (\<lambda>x. char_of (unat x)) [49, 50, 55, 46, 48, 46, 48, 46, 49 :: u8] = ''127.0.0.1''" by code_simp
  have "discover_ip (nio_socket loopback_io) loopback 9 () = (Inr \<lparr>discovered_ip = ''127.0.0.1'', discovered_port = 50001\<rparr>, ())"
    using discover_ip_learns_address [of "nio_socket loopback_io" "()" 9 loopback "()" 9
        "[49, 50, 55, 46, 48, 46, 48, 46, 49]" 50001 loopback "()"] chars
    by (simp add: loopback_io_def)
  then show ?thesis by (simp add: transport_connect_def loopback_ip loopback_io_def)
qed

lemmas handshake_eval = open_gateway_def expect_hello_def next_event_def receive_within_def conn_advance_def
  conn_acknowledge_def conn_send_def apply_gateway_event_def HANDSHAKE_TIMEOUT_def POST_HELLO_TIMEOUT_FLOOR_def
  post_hello_timeout_def DURATION_MAX_def SELF_ONLY_INITIAL_GROUP_GRACE_def expect_ready_def
  expect_session_description_def description_event_def send_identify_def send_select_protocol_def send_json_def
  demo_ws_def Let_def

lemma loopback_opens:
  "open_gateway loopback_io url now w = (Inr 100, tl loopback_events,
     \<lparr>gc_client = VoiceGatewayClient_connect, gc_now = now + 6, gc_world = w\<rparr>)"
  by (simp add: handshake_eval loopback_io_def loopback_events_def)

lemma loopback_timeout: "post_hello_timeout 100 = 30000000000"
  by (simp add: post_hello_timeout_def POST_HELLO_TIMEOUT_FLOOR_def DURATION_MAX_def max_def)

lemma loopback_described:
  "\<exists>sent. identify_and_describe loopback_io loopback_voice 30000000000 (tl loopback_events)
      \<lparr>gc_client = VoiceGatewayClient_connect, gc_now = 6, gc_world = []\<rparr> ()
    = (Inr \<lparr>vb_transport = transport_new 9, vb_ssrc = 9, vb_session_description = loopback_description,
            vb_recognized_user_ids = {''3''}, vb_saw_existing_speaker = False, vb_dave_timeout = 30000000000\<rparr>,
       [(4, Inr (event_payload (DaveMlsExternalSenderPackage [8])))],
       \<lparr>gc_client = VoiceGatewayClient_connect, gc_now = 11, gc_world = sent\<rparr>, ())"
proof -
  have mode: "choose_encryption_mode \<lparr>ready_ssrc = 9, ready_ip = ''127.0.0.1'', ready_port = 50000, ready_modes = [PREFERRED_MODE]\<rparr>
      = Inr PREFERRED_MODE" by code_simp
  have target: "resolve_udp_target lookup \<lparr>ready_ssrc = 9, ready_ip = ''127.0.0.1'', ready_port = 50000, ready_modes = [PREFERRED_MODE]\<rparr>
      = (0, Inr loopback)" for lookup by (simp add: resolve_udp_target_def loopback_ip loopback_def)
  have ws: "nio_ws loopback_io = demo_ws" "nio_discovery_time loopback_io addr ssrc n = 1" for addr ssrc n
    by (simp_all add: loopback_io_def)
  show ?thesis
    by (simp add: identify_and_describe_def ws mode target loopback_transport loopback_ip loopback_events_def handshake_eval
        loopback_voice_def demo_voice_def)
qed

text \<open>The steps of the join by themselves.\<close>

definition loopback_session :: "unit DaveSession" where
  "loopback_session = \<lparr>dave_inner = Some (), pending_external_sender = None\<rparr>"

definition loopback_conn :: "ws_out list \<Rightarrow> ws_out list gateway_conn" where
  "loopback_conn sent = \<lparr>gc_client = VoiceGatewayClient_connect, gc_now = 11, gc_world = sent\<rparr>"

lemma loopback_now [simp]: "gc_now (loopback_conn sent) = 11" by (simp add: loopback_conn_def)

lemma loopback_steps:
  "parse_u64 (vc_channel_id loopback_voice) = Some 2"
  "DaveExternalSender_new loopback_senders 2 = Inr ()"
  "dave_init marking_davey DaveSession_new 1 2 (vc_user_id loopback_voice) = Some (Inr (), loopback_session)"
  "send_pending_join_key_package marking_davey demo_ws loopback_session False (loopback_conn sent)
     = (Inr (), loopback_session, True, loopback_conn (sent @ [OutBinary (dave_mls_key_package_payload [9])]))"
  "set_external_sender marking_davey loopback_session [8] = (Inr (), loopback_session\<lparr>pending_external_sender := Some [8]\<rparr>)"
proof -
  have user: "parse_u64 ''3'' = Some 3" by (simp add: parse_u64_def is_digit_def digits_value_def digit_value_def)
  have "parse_u64 ''2'' = Some 2" by (simp add: parse_u64_def is_digit_def digits_value_def digit_value_def)
  then show "parse_u64 (vc_channel_id loopback_voice) = Some 2" by (simp add: loopback_voice_def demo_voice_def)
  show "DaveExternalSender_new loopback_senders 2 = Inr ()"
    by (simp add: DaveExternalSender_new_def loopback_senders_def dave_operation_def)
  show "dave_init marking_davey DaveSession_new 1 2 (vc_user_id loopback_voice) = Some (Inr (), loopback_session)"
    by (simp add: dave_init_def parse_user_id_def ok_or_def user loopback_voice_def demo_voice_def marking_davey_def
        demo_davey_def DaveSession_new_def loopback_session_def)
  show "send_pending_join_key_package marking_davey demo_ws loopback_session False (loopback_conn sent)
     = (Inr (), loopback_session, True, loopback_conn (sent @ [OutBinary (dave_mls_key_package_payload [9])]))"
    by (simp add: send_pending_join_key_package_def key_package_def with_inner_def marking_davey_def demo_davey_def
        loopback_session_def loopback_conn_def dave_operation_def conn_send_def send_dave_mls_key_package_def send_binary_def
        demo_ws_def)
  show "set_external_sender marking_davey loopback_session [8] = (Inr (), loopback_session\<lparr>pending_external_sender := Some [8]\<rparr>)"
    by (simp add: set_external_sender_def validate_external_sender_def marking_davey_def demo_davey_def loopback_session_def
        external_sender_failure_def)
qed

theorem alone_in_channel_stays_pending_witness:
  "\<exists>state rest' conn'. complete_active_dave_transition marking_davey loopback_senders demo_ws loopback_voice 1 30000000000 {''3''}
        [(4, Inr (event_payload (DaveMlsExternalSenderPackage [8])))] (loopback_conn []) = (Done state, rest', conn')
    \<and> init_external_sender_bytes state = [8] \<and> gc_now conn' = 5000000015"
proof -
  have "payload_event (event_payload (DaveMlsExternalSenderPackage [8])) = DaveMlsExternalSenderPackage [8]" by simp
  from alone_in_channel_stays_pending [OF loopback_steps(1-4) this loopback_steps(5), of 4 30000000000 "[]" "{''3''}" "[]"] show ?thesis
    by (auto simp: SELF_ONLY_INITIAL_GROUP_GRACE_def)
qed

lemma loopback_joins:
  "\<exists>state rest' conn'. complete_active_dave_transition marking_davey loopback_senders demo_ws loopback_voice 1 30000000000 {''3''}
        [(4, Inr (event_payload (DaveMlsExternalSenderPackage [8])))] (loopback_conn sent) = (Done state, rest', conn')"
  by (simp add: complete_active_dave_transition_def loopback_steps active_loop.simps active_wait_def active_event_def
      active_external_sender_def loopback_steps(5) join_defs active_silence_def pending_initial_dave_state_def current_external_sender_bytes_def
      conn_acknowledge_def conn_advance_def SELF_ONLY_INITIAL_GROUP_GRACE_def)

lemma loopback_handshake:
  "\<exists>hs rest conn. handshake_connect marking_davey loopback_senders loopback_io loopback_voice 0 [] () = (Done (Some hs), rest, conn, ())
     \<and> hs_session_description hs = loopback_description \<and> hs_transport hs = transport_new 9"
proof -
  obtain sent where described: "identify_and_describe loopback_io loopback_voice 30000000000 (tl loopback_events)
      \<lparr>gc_client = VoiceGatewayClient_connect, gc_now = 6, gc_world = []\<rparr> ()
    = (Inr \<lparr>vb_transport = transport_new 9, vb_ssrc = 9, vb_session_description = loopback_description,
            vb_recognized_user_ids = {''3''}, vb_saw_existing_speaker = False, vb_dave_timeout = 30000000000\<rparr>,
       [(4, Inr (event_payload (DaveMlsExternalSenderPackage [8])))], loopback_conn sent, ())"
    using loopback_described unfolding loopback_conn_def by blast
  have io: "nio_http loopback_io = demo_http" "nio_ws loopback_io = demo_ws" by (simp_all add: loopback_io_def)
  have endpoint: "vc_endpoint loopback_voice = ''127.0.0.1''" by (simp add: loopback_voice_def)
  have dave: "session_dave_protocol_version loopback_description = Some 1" by (simp add: loopback_description_def)
  obtain state rest conn where "complete_active_dave_transition marking_davey loopback_senders demo_ws loopback_voice 1 30000000000
      {''3''} [(4, Inr (event_payload (DaveMlsExternalSenderPackage [8])))] (loopback_conn sent) = (Done state, rest, conn)"
    using loopback_joins by blast
  then show ?thesis
    by (simp add: handshake_connect_def connect_active_participant_def bootstrap_voice_connection_def io endpoint loopback_url
        loopback_opens loopback_timeout described dave)
qed

theorem handshake_gives_one_key_owner_witness:
  "\<exists>hs rest conn s. handshake_connect marking_davey loopback_senders loopback_io loopback_voice 0 [] () = (Done (Some hs), rest, conn, ())
     \<and> session_from_handshake loopback_voice (Some hs) = Inr s \<and> owners s = (if vs_dave_failed_closed s then 0 else 1)"
proof -
  obtain hs rest conn where hs: "handshake_connect marking_davey loopback_senders loopback_io loopback_voice 0 [] ()
      = (Done (Some hs), rest, conn, ())" "hs_session_description hs = loopback_description" "hs_transport hs = transport_new 9"
    using loopback_handshake by blast
  then obtain s where s: "session_from_handshake loopback_voice (Some hs) = Inr s"
    by (auto simp: session_from_handshake_def ProtectionContext_from_session_def EncryptionMode_from_str_def
        ProtectionContext_new_def res_bind_def loopback_description_def Let_def)
  have "session_dave_protocol_version (hs_session_description hs) = Some 1" by (simp add: hs(2) loopback_description_def)
  from handshake_gives_one_key_owner [OF hs(1) this s dave_reach.start [of marking_davey null_aead demo_ws demo_socket]] hs(1) s
  show ?thesis by blast
qed

theorem handshake_ends_in_time_witness:
  "\<exists>r rest conn. handshake_connect marking_davey loopback_senders loopback_io loopback_voice 0 [] () = (r, rest, conn, ())
     \<and> gc_now conn \<le> 110000000001"
proof -
  obtain hs rest conn where run: "handshake_connect marking_davey loopback_senders loopback_io loopback_voice 0 [] ()
      = (Done (Some hs), rest, conn, ())"
    using loopback_handshake by blast
  have "post_hello_timeout interval \<le> 30000000000"
    if "open_gateway loopback_io url 0 [] = (Inr interval, rest0, conn0)" for url interval rest0 conn0
    using that loopback_opens [of url 0 "[]"] by (simp add: loopback_timeout)
  moreover have "network_within 0 1 loopback_io" by (simp add: network_within_def loopback_io_def)
  ultimately show ?thesis using handshake_ends_in_time [OF run, of 30000000000 0 1] run by (auto simp: HANDSHAKE_TIMEOUT_def)
qed

end
