(* ===== verification/ObserverLaws.thy ===== *)
theory ObserverLaws
  imports Observer HandshakeLaws
begin

text \<open>
  What an observer promises: it returns by its deadline whatever arrives, it never takes part in making a group when it
  must not, and a transition it reported as invalid never brings it into a group. Two ways to lose something: users who
  return during a join, and the protection of the frames after a failed join.
\<close>

section \<open>Events of a pending join\<close>

lemmas po_defs = po_fails_def po_goes_on_def po_returns_def

text \<open>What a handler keeps: time stands still, known users and updates only grow, invalidated transitions stay
  invalidated and do not complete the join.\<close>

definition invalidated_safe :: "'ds PendingObserverDaveState \<Rightarrow> bool" where
  "invalidated_safe po \<longleftrightarrow> po_saw_speaker po \<or> po_invalidated po = {}"

definition ready_ok :: "'ds PendingObserverDaveState \<Rightarrow> 'ds PendingObserverReadyResult \<Rightarrow> bool" where
  "ready_ok po ready \<longleftrightarrow> po_recognized po \<subseteq> ready_recognized_user_ids ready
     \<and> set (po_gateway_updates po) \<subseteq> set (ready_gateway_updates ready)
     \<and> (invalidated_safe po \<longrightarrow>
          (\<exists>tid. ready_completed_transition_id ready = Some tid \<and> tid \<notin> po_invalidated po))"

definition po_grows :: "'ds PendingObserverDaveState \<Rightarrow> 'ds PendingObserverDaveState \<Rightarrow> bool" where
  "po_grows po po' \<longleftrightarrow> po_recognized po \<subseteq> po_recognized po' \<and> set (po_gateway_updates po) \<subseteq> set (po_gateway_updates po')
     \<and> po_invalidated po \<subseteq> po_invalidated po' \<and> (invalidated_safe po \<longrightarrow> invalidated_safe po')"

definition po_ok :: "'ds PendingObserverDaveState \<Rightarrow> 'w gateway_conn \<Rightarrow> ('ds, 'w) observer_join_step \<Rightarrow> bool" where
  "po_ok po conn r \<longleftrightarrow>
    (case r of (outcome, po1, conn1) \<Rightarrow> gc_now conn1 = gc_now conn
       \<and> (case outcome of Done None \<Rightarrow> po_grows po po1 | Done (Some ready) \<Rightarrow> ready_ok po ready | _ \<Rightarrow> True))"

lemma po_grows_refl [simp]: "po_grows po po" by (simp add: po_grows_def)

lemma ready_ok_before: "po_grows po po1 \<Longrightarrow> ready_ok po1 ready \<Longrightarrow> ready_ok po ready"
  unfolding po_grows_def ready_ok_def by blast

lemma po_ok_simps [simp]:
  "po_ok po conn (po_fails m po1 conn1) \<longleftrightarrow> gc_now conn1 = gc_now conn"
  "po_ok po conn (Failed err, po1, conn1) \<longleftrightarrow> gc_now conn1 = gc_now conn"
  "po_ok po conn (Panicked, po1, conn1) \<longleftrightarrow> gc_now conn1 = gc_now conn"
  "po_ok po conn (po_goes_on po1 conn1) \<longleftrightarrow> gc_now conn1 = gc_now conn \<and> po_grows po po1"
  by (auto simp: po_ok_def po_defs)

lemma po_returns_ok:
  assumes "gc_now conn1 = gc_now conn" and "po_recognized po \<subseteq> po_recognized po1"
    and "set (po_gateway_updates po) \<subseteq> set (po_gateway_updates po1)" and "invalidated_safe po \<longrightarrow> tid \<notin> po_invalidated po"
  shows "po_ok po conn (po_returns runtime tid po1 conn1)"
  using assms by (auto simp: po_ok_def po_returns_def ready_ok_def split: sum.splits)

lemma observer_key_package_keeps:
  assumes "observer_key_package lib ws po conn = (r, po1, conn1)"
  shows "gc_now conn1 = gc_now conn \<and> (\<exists>session sent. po1 = po\<lparr>po_session := session, po_key_package := sent\<rparr>)"
proof -
  have "\<exists>session sent. po = po\<lparr>po_session := session, po_key_package := sent\<rparr>"
    by (rule exI [of _ "po_session po"], rule exI [of _ "po_key_package po"]) simp
  with assms show ?thesis
    by (auto simp: observer_key_package_def split: option.splits prod.splits dest!: key_package_now)
qed

lemma restarts_ok: "invalidated_safe po \<longrightarrow> tid \<notin> po_invalidated po \<Longrightarrow> po_grows po0 po \<Longrightarrow> gc_now conn = gc_now conn0
    \<Longrightarrow> po_ok po0 conn0 (observer_restarts lib ws tid po conn)"
  by (auto simp: observer_restarts_def restart_pending_observer_dave_join_after_invalid_transition_def po_grows_def
      invalidated_safe_def split: option.splits outcome.splits prod.splits sum.splits dest!: observer_key_package_keeps)

lemma joined_po_ok:
  assumes "invalidated_safe po0 \<longrightarrow> tid \<notin> po_invalidated po0" and "po_grows po0 po" and "gc_now conn = gc_now conn0"
  shows "po_ok po0 conn0 (observer_joined lib ws tid session po conn)"
  using assms
  by (auto simp: observer_joined_def Let_def po_grows_def intro!: po_returns_ok
      split: sum.splits prod.splits if_splits dest: conn_simps(3))

lemma observer_commit_ok: "po_ok po conn (observer_commit lib ws tid message po conn)"
  by (auto simp: observer_commit_def observer_transition_def Let_def po_grows_def invalidated_safe_def
      intro!: restarts_ok joined_po_ok split: if_splits sum.splits option.splits prod.splits)

lemma observer_welcome_ok: "po_ok po conn (observer_welcome lib ws tid message po conn)"
  by (auto simp: observer_welcome_def observer_transition_def Let_def po_grows_def invalidated_safe_def
      intro!: restarts_ok joined_po_ok split: if_splits sum.splits option.splits prod.splits)

lemma observer_prepare_epoch_ok: "po_ok po conn (observer_prepare_epoch lib ws epoch po conn)"
  by (auto simp: observer_prepare_epoch_def po_grows_def invalidated_safe_def
      split: option.splits sum.splits if_splits prod.splits dest!: observer_key_package_keeps)

lemma await_winner_fields [simp]:
  "po_recognized (await_gateway_winner b po) = po_recognized po" "po_gateway_updates (await_gateway_winner b po) = po_gateway_updates po"
  "po_invalidated (await_gateway_winner b po) = po_invalidated po" "po_saw_speaker (await_gateway_winner b po) = po_saw_speaker po"
  "po_gateway_winner (await_gateway_winner b po) \<longleftrightarrow> po_gateway_winner po \<or> b"
  by (auto simp: await_gateway_winner_def)

lemma observer_proposals_ok: "po_ok po conn (observer_proposals lib ws author operation proposals po conn)"
  by (auto simp: observer_proposals_def Let_def po_grows_def invalidated_safe_def intro!: po_returns_ok
      split: if_splits option.splits prod.splits sum.splits outcome.splits dest!: creator_now)

lemma observer_sender_keeps: "observer_sender lib sender po = (r, po1) \<Longrightarrow> po_grows po po1"
  by (auto simp: observer_sender_def po_grows_def invalidated_safe_def split: option.splits prod.splits sum.splits)

lemma observer_speaking_grows [simp]: "po_grows po (observer_speaking speaking po)"
  by (auto simp: observer_speaking_def po_grows_def invalidated_safe_def split: option.splits)

lemma observer_event_ok: "po_ok po conn (observer_event lib ws author event po conn)"
  by (auto simp: observer_event_def observer_commit_ok observer_welcome_ok observer_prepare_epoch_ok observer_proposals_ok
      split: VoiceGatewayEvent.splits prod.splits sum.splits dest!: observer_sender_keeps)
     (auto simp: po_grows_def invalidated_safe_def)

section \<open>Joins and receives end in time\<close>

lemma join_loop_ok:
  "observer_join_loop lib ws author deadline seeded inputs po conn = (r, rest, conn') \<Longrightarrow>
    gc_now conn \<le> gc_now conn' \<and> gc_now conn' \<le> max (gc_now conn) deadline \<and> (\<forall>ready. r = Done ready \<longrightarrow> ready_ok po ready)"
proof (induction lib ws author deadline seeded inputs po conn rule: observer_join_loop.induct)
  case (1 lib ws author deadline event seeded inputs po conn)
  obtain o1 po1 conn1 where step: "observer_event lib ws author event po conn = (o1, po1, conn1)" by (metis prod_cases3)
  have ok: "po_ok po conn (o1, po1, conn1)" using observer_event_ok [of po conn lib ws author event] by (simp add: step)
  show ?case
  proof (cases "o1 = Done None")
    case True
    with "1.IH" [OF step [symmetric], of None] "1.prems" ok step show ?thesis
      by (auto simp: po_ok_def dest: ready_ok_before)
  next
    case False
    with "1.prems" ok step show ?thesis by (auto simp: po_ok_def split: outcome.splits option.splits)
  qed
next
  case (3 lib ws author deadline delay res rest0 po conn)
  show ?case
  proof (cases "gc_now conn > deadline \<or> delay > deadline - gc_now conn \<or> (\<exists>err. res = Inl err)")
    case True
    with "3.prems" show ?thesis by (auto simp: Let_def split: if_splits sum.splits)
  next
    case False
    then obtain payload where res: "res = Inr payload" by (cases res) auto
    let ?conn = "conn_acknowledge payload (conn_advance delay conn)"
    obtain o1 po1 conn1 where step: "observer_event lib ws author (payload_event payload) po ?conn = (o1, po1, conn1)"
      by (metis prod_cases3)
    have ok: "po_ok po ?conn (o1, po1, conn1)"
      using observer_event_ok [of po ?conn lib ws author "payload_event payload"] by (simp add: step)
    show ?thesis
    proof (cases "o1 = Done None")
      case True
      have "gc_now conn1 \<le> gc_now conn' \<and> gc_now conn' \<le> max (gc_now conn1) deadline \<and> (\<forall>ready. r = Done ready \<longrightarrow> ready_ok po1 ready)"
        using "3.IH" [OF refl refl _ _ res step [symmetric] True refl refl] "3.prems" False step res True by (simp add: Let_def)
      with ok True False show ?thesis by (auto simp: po_ok_def dest: ready_ok_before)
    next
      case f: False
      with "3.prems" False res ok step show ?thesis by (auto simp: po_ok_def Let_def split: outcome.splits option.splits)
    qed
  qed
qed (auto simp: Let_def)

definition in_time :: "'w observed_world \<Rightarrow> nanos \<Rightarrow> 'w observed_world \<Rightarrow> bool" where
  "in_time ow timeout ow' \<longleftrightarrow> ow_now ow \<le> ow_now ow' \<and> ow_now ow' \<le> ow_now ow + timeout"

lemma observed_send_time: "observed_send f s ow = (r, s', ow') \<Longrightarrow> ow_now ow' = ow_now ow"
  by (auto simp: observed_send_def split: if_splits prod.splits sum.splits)

lemma reinitialize_now:
  "reinitialize_pending_observer lib ws voice material recognized reported invalidated conn = (r, conn') \<Longrightarrow> gc_now conn' = gc_now conn"
  by (auto simp: reinitialize_pending_observer_def split: outcome.splits prod.splits sum.splits dest!: observer_key_package_keeps)

lemma rejoin_time:
  assumes "observed_rejoin lib ws reinitialize timeout s ow = (r, s', ow')"
    and "\<And>material recognized conn r conn'. reinitialize material recognized conn = (r, conn') \<Longrightarrow> gc_now conn' = gc_now conn"
  shows "in_time ow timeout ow'"
  using assms(1)
  by (auto simp: observed_rejoin_def in_time_def complete_pending_observer_dave_join_def Let_def
      split: option.splits if_splits prod.splits outcome.splits dest!: join_loop_ok assms(2))

lemma reinitializations_time:
  "reinitialize_dave_after_invalid_transition lib ws tid timeout s ow = (r, s', ow') \<Longrightarrow> in_time ow timeout ow'"
  "reinitialize_dave_after_invalid_proposals lib ws timeout s ow = (r, s', ow') \<Longrightarrow> in_time ow timeout ow'"
  unfolding reinitialize_dave_after_invalid_transition_def reinitialize_dave_after_invalid_proposals_def
    reinitialize_pending_observer_dave_join_after_invalid_transition_def
    reinitialize_pending_observer_dave_join_after_invalid_proposals_def
  by (erule rejoin_time, erule reinitialize_now)+

lemma applied_time: "transition_applied ws tid s ow = (r, s', ow') \<Longrightarrow> ow_now ow' = ow_now ow"
  by (auto simp: transition_applied_def Let_def split: if_splits prod.splits outcome.splits dest!: observed_send_time)

lemma payload_time: "apply_gateway_payload lib ws event timeout s ow = (r, s', ow') \<Longrightarrow> in_time ow timeout ow'"
  by (auto simp: apply_gateway_payload_def apply_dave_proposals_def apply_dave_welcome_def apply_dave_commit_transition_def Let_def
      split: VoiceGatewayEvent.splits if_splits option.splits prod.splits sum.splits
      dest!: reinitializations_time applied_time observed_send_time)
     (auto simp: in_time_def)

lemma select_time: "select_input has_gateway remaining ow = (input, ow') \<Longrightarrow> in_time ow remaining ow'"
  by (auto simp: select_input_def take_gateway_input_def gateway_delay_def packet_delay_def ow_elapse_def in_time_def Let_def
      split: option.splits if_splits list.splits sum.splits)

section \<open>Steps of a receive\<close>

text \<open>Nothing but the caller changes whether proposals are authored.\<close>

definition same_author :: "'ds ObservedVoiceSession \<Rightarrow> 'ds ObservedVoiceSession \<Rightarrow> bool" where
  "same_author s s' \<longleftrightarrow> author_dave_proposals s' = author_dave_proposals s"

lemma packets_author: "same_but_packets s s' \<Longrightarrow> same_author s s'"
  by (cases s; cases s') (simp add: same_but_packets_def same_author_def)

lemma decode_pending_author: "decode_pending_loop lib aead expected ssrcs s = (r, s') \<Longrightarrow> same_author s s'"
proof (induction ssrcs arbitrary: s)
  case (Cons ssrc rest)
  have step: "decode_audio_packet lib aead packet header at user s1 = (d, s2) \<Longrightarrow> same_author s1 s2" for packet header at user s1 d s2
    by (rule packets_author) (erule decode_keeps_fields)
  from Cons show ?case
    by (auto simp: same_author_def Let_def split: option.splits if_splits prod.splits sum.splits DecodeAudioPacketError.splits
        dest!: step [unfolded same_author_def] Cons.IH [unfolded same_author_def])
qed (simp add: same_author_def)

lemma session_steps_author:
  "ensure_gateway_receive s = (r1, s') \<Longrightarrow> same_author s s'"
  "finish_gateway_receive result s = (r2, s') \<Longrightarrow> same_author s s'"
  "process_audio_packet lib aead packet at expected s = (r3, s') \<Longrightarrow> same_author s s'"
  "process_activity_packet lib aead packet at user s = (r4, s') \<Longrightarrow> same_author s s'"
  "try_decode_pending_audio_frame lib aead keys expected s = (r5, s') \<Longrightarrow> same_author s s'"
  "kept_activity lib aead order user s = (r6, s') \<Longrightarrow> same_author s s'"
proof -
  show "ensure_gateway_receive s = (r1, s') \<Longrightarrow> same_author s s'"
    by (auto simp: ensure_gateway_receive_def same_author_def split: if_splits)
  show "finish_gateway_receive result s = (r2, s') \<Longrightarrow> same_author s s'"
    by (auto simp: finish_gateway_receive_def mark_gateway_receive_closed_def same_author_def Let_def split: if_splits sum.splits)
  show packet: "process_audio_packet lib aead packet at expected s = (r3, s') \<Longrightarrow> same_author s s'" for expected r3
    by (rule packets_author) (drule process_audio_packet_effect, simp add: packet_effect_def)
  show "process_activity_packet lib aead packet at user s = (r4, s') \<Longrightarrow> same_author s s'"
    using packet [of "Some user" "fst (process_audio_packet lib aead packet at (Some user) s)"] activity_state [of lib aead packet at user s]
    by (simp add: prod_eq_iff)
  show decode: "try_decode_pending_audio_frame lib aead keys expected s = (r5, s') \<Longrightarrow> same_author s s'" for s keys expected r5
    by (auto simp: try_decode_pending_audio_frame_def dest: decode_pending_author)
  show "kept_activity lib aead order user s = (r6, s') \<Longrightarrow> same_author s s'"
    by (auto simp: kept_activity_def pop_pending_disconnect_from_def pop_pending_speaking_state_from_def
        split: prod.splits option.splits sum.splits dest!: decode)
       (auto simp: same_author_def)
qed

text \<open>A law of an observer at work: it holds across everything that only touches packets and states, across waiting
  for input by a deadline, and across the gateway's events. Then it holds across every receive.\<close>

locale observer_law =
  fixes lib :: "'ds davey_lib" and aead :: aead_lib and ws :: "'w ws_write"
    and law :: "nanos \<Rightarrow> 'ds ObservedVoiceSession \<times> 'w observed_world \<Rightarrow> 'ds ObservedVoiceSession \<times> 'w observed_world \<Rightarrow> bool"
  assumes law_trans: "law d x y \<Longrightarrow> law d y z \<Longrightarrow> law d x z"
    and law_session: "same_author s s' \<Longrightarrow> law d (s, ow) (s', ow)"
    and law_select: "ow_now ow \<le> d \<Longrightarrow> select_input has_gateway (d - ow_now ow) ow = (input, ow') \<Longrightarrow> law d (s, ow) (s, ow')"
    and law_within: "ow_now ow \<le> d \<Longrightarrow> gateway_input_within (d - ow_now ow) ow = (input, ow') \<Longrightarrow> law d (s, ow) (s, ow')"
    and law_payload: "ow_now ow \<le> d \<Longrightarrow> apply_gateway_payload lib ws event (d - ow_now ow) s ow = (r, s', ow') \<Longrightarrow> law d (s, ow) (s', ow')"
begin

text \<open>From the session to the next input, as the receives for audio and activities wait for it.\<close>

lemma law_wait:
  assumes "same_author s s0" and "\<not> ow_now ow > d" and "ensure_gateway_receive s0 = (Inr has_gateway, s1)"
    and "select_input has_gateway (d - ow_now ow) ow = (input, ow1)"
  shows "law d (s, ow) (s1, ow1)"
proof -
  have "law d (s, ow) (s1, ow)"
    using assms(1) session_steps_author(1) [OF assms(3)] by (intro law_session) (simp add: same_author_def)
  moreover have "law d (s1, ow) (s1, ow1)" using assms(2,4) by (intro law_select) simp_all
  ultimately show ?thesis by (rule law_trans)
qed

lemma law_event:
  assumes "law d (s, ow) (s1, ow1)" and "finish_gateway_receive result s1 = (r, s2)" and "\<not> ow_now ow1 > d"
    and "apply_gateway_payload lib ws event (d - ow_now ow1) s2 ow1 = (r', s3, ow2)"
  shows "law d (s, ow) (s3, ow2)"
proof -
  have "law d (s1, ow1) (s2, ow1)" by (rule law_session) (rule session_steps_author(2) [OF assms(2)])
  moreover have "law d (s2, ow1) (s3, ow2)" using assms(3,4) by (intro law_payload) simp_all
  ultimately show ?thesis using assms(1) law_trans by blast
qed

lemma law_after: "law d x (s1, ow1) \<Longrightarrow> same_author s1 s2 \<Longrightarrow> law d x (s2, ow1)"
  using law_trans law_session by blast

lemma law_audio:
  "receive_audio_loop lib aead ws order expected d s ow = (r, s', ow') \<Longrightarrow> law d (s, ow) (s', ow')"
proof (induction "inputs_left ow" arbitrary: s ow rule: less_induct)
  case less
  show ?case
  proof (cases "ow_now ow > d \<or> \<not> ow_transport ow \<or> (\<exists>err s1. ensure_gateway_receive s = (Inl err, s1))")
    case True
    with less.prems show ?thesis
      by (subst (asm) receive_audio_loop.simps)
         (auto simp: same_author_def intro!: law_session split: if_splits prod.splits sum.splits
            dest!: session_steps_author(1) [unfolded same_author_def])
  next
    case False
    then obtain has_gateway s1 where ens: "ensure_gateway_receive s = (Inr has_gateway, s1)"
      by (metis old.sum.exhaust surj_pair)
    obtain input ow1 where sel: "select_input has_gateway (d - ow_now ow) ow = (input, ow1)" by fastforce
    have wait: "law d (s, ow) (s1, ow1)" using False ens sel by (intro law_wait) (auto simp: same_author_def)
    have less1: "input \<noteq> NothingInTime \<Longrightarrow> inputs_left ow1 < inputs_left ow" by (rule select_left [OF sel])
    note again = less.hyps [THEN law_trans [rotated]]
    have later: "law d (s, ow) (s', ow')" if "law d (s, ow) (s3, ow2)" and "same_author s3 s4" and "inputs_left ow2 \<le> inputs_left ow1"
      and "inputs_left ow1 < inputs_left ow" and "receive_audio_loop lib aead ws order expected d s4 ow2 = (r, s', ow')" for s3 s4 ow2
      using that by (intro again [OF _ _ law_after]) auto
    show ?thesis
      using less.prems False ens sel wait less1
      by (subst (asm) receive_audio_loop.simps)
         (auto split: prod.splits sum.splits option.splits observed_input.splits outcome.splits if_splits
            intro: law_after law_event session_steps_author again
              later [OF law_event [OF wait] session_steps_author(5) payload_left])
  qed
qed

lemma law_activity:
  "receive_activity_loop lib aead ws order user d s ow = (r, s', ow') \<Longrightarrow> law d (s, ow) (s', ow')"
proof (induction "inputs_left ow" arbitrary: s ow rule: less_induct)
  case less
  obtain kept s0 where kept: "kept_activity lib aead order user s = (kept, s0)" by fastforce
  have author: "same_author s s0" by (rule session_steps_author(6) [OF kept])
  show ?case
  proof (cases "kept \<noteq> Inr None \<or> ow_now ow > d \<or> \<not> ow_transport ow \<or> (\<exists>err s1. ensure_gateway_receive s0 = (Inl err, s1))")
    case True
    with less.prems kept author show ?thesis
      by (subst (asm) receive_activity_loop.simps)
         (auto simp: same_author_def intro!: law_session split: if_splits prod.splits sum.splits option.splits
            dest!: session_steps_author(1) [unfolded same_author_def])
  next
    case False
    then obtain has_gateway s1 where ens: "ensure_gateway_receive s0 = (Inr has_gateway, s1)"
      by (metis old.sum.exhaust surj_pair)
    obtain input ow1 where sel: "select_input has_gateway (d - ow_now ow) ow = (input, ow1)" by fastforce
    have wait: "law d (s, ow) (s1, ow1)" using False ens sel author by (intro law_wait) auto
    have less1: "input \<noteq> NothingInTime \<Longrightarrow> inputs_left ow1 < inputs_left ow" by (rule select_left [OF sel])
    note again = less.hyps [THEN law_trans [rotated]]
    have later: "law d (s, ow) (s', ow')" if "law d (s, ow) (s3, ow2)" and "inputs_left ow2 \<le> inputs_left ow1"
      and "inputs_left ow1 < inputs_left ow" and "receive_activity_loop lib aead ws order user d s3 ow2 = (r, s', ow')" for s3 ow2
      using that by (intro again) auto
    show ?thesis
      using less.prems False kept ens sel wait less1
      by (subst (asm) receive_activity_loop.simps)
         (auto split: prod.splits sum.splits option.splits observed_input.splits outcome.splits if_splits
            intro: law_after law_event session_steps_author again later [OF law_event [OF wait] payload_left])
  qed
qed

lemma law_speaking:
  "receive_speaking_loop lib ws user matches d s ow = (r, s', ow') \<Longrightarrow> law d (s, ow) (s', ow')"
proof (induction "inputs_left ow" arbitrary: s ow rule: less_induct)
  case less
  obtain found rest where taken: "take_matching_state user matches (pending_speaking_states s) = (found, rest)" by fastforce
  let ?s0 = "s\<lparr>pending_speaking_states := rest\<rparr>"
  have author: "same_author s ?s0" by (simp add: same_author_def)
  show ?case
  proof (cases "found \<noteq> None \<or> ow_now ow > d \<or> \<not> (\<exists>s1. ensure_gateway_receive ?s0 = (Inr True, s1))")
    case True
    with less.prems taken author show ?thesis
      by (subst (asm) receive_speaking_loop.simps)
         (auto simp: same_author_def Let_def intro!: law_session split: if_splits prod.splits sum.splits option.splits bool.splits
            dest!: session_steps_author(1) [unfolded same_author_def])
  next
    case False
    then obtain s1 where ens: "ensure_gateway_receive ?s0 = (Inr True, s1)" by blast
    obtain input ow1 where within: "gateway_input_within (d - ow_now ow) ow = (input, ow1)" by fastforce
    have "same_author s s1" using author session_steps_author(1) [OF ens] by (simp add: same_author_def)
    then have wait: "law d (s, ow) (s1, ow1)"
      using False within by (intro law_trans [OF law_session [of s s1] law_within]) auto
    note again = less.hyps [THEN law_trans [rotated]]
    have less1: "input = GatewayInput x \<Longrightarrow> inputs_left ow1 < inputs_left ow" for x
      using gateway_within_left [of x ow1 "d - ow_now ow" ow] within by simp
    have later: "law d (s, ow) (s', ow')" if "law d (s, ow) (s3, ow2)" and "inputs_left ow2 \<le> inputs_left ow1"
      and "inputs_left ow1 < inputs_left ow" and "receive_speaking_loop lib ws user matches d s3 ow2 = (r, s', ow')" for s3 ow2
      using that by (intro again) auto
    show ?thesis
      using less.prems False taken ens within wait less1
      by (subst (asm) receive_speaking_loop.simps)
         (auto simp: Let_def split: prod.splits sum.splits option.splits observed_input.splits outcome.splits if_splits
            intro: law_after law_event session_steps_author again later [OF law_event [OF wait] payload_left])
  qed
qed

end

section \<open>The receives end in time\<close>

definition by_deadline ::
  "nanos \<Rightarrow> 'ds ObservedVoiceSession \<times> 'w observed_world \<Rightarrow> 'ds ObservedVoiceSession \<times> 'w observed_world \<Rightarrow> bool" where
  "by_deadline d x y \<longleftrightarrow> ow_now (snd x) \<le> ow_now (snd y) \<and> (ow_now (snd x) \<le> d \<longrightarrow> ow_now (snd y) \<le> d)"

lemma within_time: "gateway_input_within remaining ow = (input, ow') \<Longrightarrow> in_time ow remaining ow'"
  by (auto simp: gateway_input_within_def take_gateway_input_def gateway_delay_def ow_elapse_def in_time_def Let_def
      split: option.splits if_splits list.splits sum.splits)

interpretation timed: observer_law lib aead ws by_deadline for lib aead ws
  by unfold_locales
     (auto simp: by_deadline_def in_time_def dest!: select_time within_time payload_time)

text \<open>C17: An observer returns by its deadline. Whatever the gateway and the network deliver, invalid transitions and the
  joins they cause included, waiting for an audio frame, for any activity or for a speaking state ends, with a result or an
  error, no later than the timeout it was given.\<close>

theorem observer_returns_by_deadline:
  "(case receive_audio_frame_internal lib aead ws order expected timeout s ow of (_, _, ow') \<Rightarrow>
      ow_now ow \<le> ow_now ow' \<and> ow_now ow' \<le> ow_now ow + timeout)
   \<and> (case receive_activity_from lib aead ws order user timeout s ow of (_, _, ow') \<Rightarrow>
      ow_now ow \<le> ow_now ow' \<and> ow_now ow' \<le> ow_now ow + timeout)
   \<and> (case receive_speaking_state_matching_from lib ws user timeout matches s ow of (_, _, ow') \<Rightarrow>
      ow_now ow \<le> ow_now ow' \<and> ow_now ow' \<le> ow_now ow + timeout)"
  unfolding receive_audio_frame_internal_def receive_activity_from_def receive_speaking_state_matching_from_def
  by (auto simp: by_deadline_def split: prod.split dest!: timed.law_audio timed.law_activity timed.law_speaking)

section \<open>Observers that must not author\<close>

fun is_commit_message :: "ws_out \<Rightarrow> bool" where
  "is_commit_message (OutBinary (opcode # _)) \<longleftrightarrow> opcode = 28"
| "is_commit_message _ \<longleftrightarrow> False"

text \<open>What a passive observer may write: key packages, and reports of an invalid transition or of one that is ready.\<close>

definition passive_message :: "ws_out \<Rightarrow> bool" where
  "passive_message message \<longleftrightarrow>
     (\<exists>package. message = OutBinary (dave_mls_key_package_payload package))
     \<or> (\<exists>tid. message = OutJson (dave_mls_invalid_commit_welcome_payload tid))
     \<or> (\<exists>tid. message = OutJson (dave_transition_ready_payload tid))"

lemma passive_message_no_commit: "passive_message message \<Longrightarrow> \<not> is_commit_message message"
  by (auto simp: passive_message_def dave_mls_key_package_payload_def)

lemma passive_message_intros [simp]:
  "passive_message (OutBinary (dave_mls_key_package_payload package))"
  "passive_message (OutJson (dave_mls_invalid_commit_welcome_payload tid))"
  "passive_message (OutJson (dave_transition_ready_payload tid))"
  by (auto simp: passive_message_def)

definition only_passive :: "(ws_out list \<times> 'w) gateway_conn \<Rightarrow> (ws_out list \<times> 'w) gateway_conn \<Rightarrow> bool" where
  "only_passive conn conn' \<longleftrightarrow>
    (\<exists>sent. fst (gc_world conn') = fst (gc_world conn) @ sent
       \<and> list_all (\<lambda>message. passive_message message \<and> \<not> is_commit_message message) sent)"

lemma only_passive_refl [simp]: "only_passive conn conn" by (simp add: only_passive_def)

lemma only_passive_conn [simp]:
  "only_passive conn (conn_advance d conn1) \<longleftrightarrow> only_passive conn conn1"
  "only_passive conn (conn_acknowledge p conn1) \<longleftrightarrow> only_passive conn conn1"
  "only_passive (conn_advance d conn) conn1 \<longleftrightarrow> only_passive conn conn1"
  "only_passive (conn_acknowledge p conn) conn1 \<longleftrightarrow> only_passive conn conn1"
  by (simp_all add: only_passive_def conn_advance_def conn_acknowledge_def)

lemma only_passive_trans: "only_passive conn conn1 \<Longrightarrow> only_passive conn1 conn2 \<Longrightarrow> only_passive conn conn2"
  by (fastforce simp: only_passive_def)

lemma sends_only_passive:
  "conn_send (send_dave_transition_ready (logged ws) tid) conn = (r, conn') \<Longrightarrow> only_passive conn conn'"
  "conn_send (send_dave_mls_invalid_commit_welcome (logged ws) tid) conn = (r, conn') \<Longrightarrow> only_passive conn conn'"
  "send_pending_join_key_package lib (logged ws) session sent conn = (r1, session1, sent1, conn') \<Longrightarrow> only_passive conn conn'"
  by (auto simp: conn_send_def send_dave_transition_ready_def send_dave_mls_invalid_commit_welcome_def send_json_def logged_def
      only_passive_def send_pending_join_key_package_def send_dave_mls_key_package_def send_binary_def
      intro!: passive_message_no_commit split: prod.splits if_splits sum.splits)

lemma key_package_only_passive:
  "observer_key_package lib (logged ws) po conn = (r, po1, conn') \<Longrightarrow> only_passive conn conn'"
  by (auto simp: observer_key_package_def split: option.splits prod.splits dest!: sends_only_passive(3))

lemma restart_only_passive:
  "observer_restarts lib (logged ws) tid po conn = (r, po', conn') \<Longrightarrow> only_passive conn conn'"
  by (auto simp: observer_restarts_def restart_pending_observer_dave_join_after_invalid_transition_def po_defs
      split: option.splits outcome.splits prod.splits sum.splits
      dest!: sends_only_passive(2) key_package_only_passive intro: only_passive_trans)

lemma joined_only_passive:
  "observer_joined lib (logged ws) tid session po conn = (r, po', conn') \<Longrightarrow> only_passive conn conn'"
  by (auto simp: observer_joined_def Let_def po_defs split: sum.splits prod.splits if_splits dest!: sends_only_passive(1))

lemma transition_only_passive:
  "observer_commit lib (logged ws) tid message po conn = (r, po', conn') \<Longrightarrow> only_passive conn conn'"
  "observer_welcome lib (logged ws) tid message po conn = (r, po', conn') \<Longrightarrow> only_passive conn conn'"
  by (auto simp: observer_commit_def observer_welcome_def observer_transition_def Let_def po_defs
      split: if_splits sum.splits option.splits prod.splits dest!: restart_only_passive joined_only_passive)

lemma passive_proposals:
  "observer_proposals lib ws False operation proposals po conn = (r, po', conn') \<Longrightarrow> conn' = conn"
  by (auto simp: observer_proposals_def Let_def po_defs split: if_splits)

lemma passive_event_only_passive:
  "observer_event lib (logged ws) False event po conn = (r, po', conn') \<Longrightarrow> only_passive conn conn'"
  by (auto simp: observer_event_def observer_prepare_epoch_def po_defs
      split: VoiceGatewayEvent.splits prod.splits sum.splits if_splits option.splits
      dest!: transition_only_passive passive_proposals key_package_only_passive)

lemma passive_join_only_passive:
  "observer_join_loop lib (logged ws) author deadline seeded inputs po conn = (r, rest, conn') \<Longrightarrow> \<not> author \<Longrightarrow> only_passive conn conn'"
proof (induction lib "logged ws" author deadline seeded inputs po conn rule: observer_join_loop.induct)
  case (1 lib author deadline event seeded inputs po conn)
  then show ?case
    by (auto split: prod.splits outcome.splits option.splits dest!: passive_event_only_passive intro: only_passive_trans)
next
  case (3 lib author deadline delay res rest0 po conn)
  show ?case
  proof (cases "gc_now conn > deadline \<or> delay > deadline - gc_now conn \<or> (\<exists>err. res = Inl err)")
    case True
    with "3.prems" show ?thesis by (auto simp: Let_def split: if_splits sum.splits)
  next
    case False
    then obtain payload where res: "res = Inr payload" by (cases res) auto
    let ?conn = "conn_acknowledge payload (conn_advance delay conn)"
    obtain o1 po1 conn1 where step: "observer_event lib (logged ws) author (payload_event payload) po ?conn = (o1, po1, conn1)"
      by (metis prod_cases3)
    have first: "only_passive conn conn1" using passive_event_only_passive step "3.prems"(2) by fastforce
    show ?thesis
    proof (cases "o1 = Done None")
      case True
      have "only_passive conn1 conn'"
        using "3.hyps" [OF refl refl _ _ res step [symmetric] True refl refl] "3.prems" False step res True by (simp add: Let_def)
      with first show ?thesis by (rule only_passive_trans)
    next
      case f: False
      with "3.prems" False res step first show ?thesis by (auto simp: Let_def split: outcome.splits option.splits)
    qed
  qed
qed (auto split: if_splits)

lemma passive_rejoin_only_passive:
  assumes "reinitialize_dave_after_invalid_transition lib (logged ws) tid timeout s ow = (r, s', ow')
      \<or> reinitialize_dave_after_invalid_proposals lib (logged ws) timeout s ow = (r, s', ow')" and "\<not> author_dave_proposals s"
  shows "only_passive (ow_conn ow) (ow_conn ow') \<and> same_author s s'"
proof -
  have fresh: "reinitialize_pending_observer lib (logged ws) voice material recognized reported invalidated conn = (r1, conn1)
      \<Longrightarrow> only_passive conn conn1" for voice material recognized reported invalidated conn r1 and conn1 :: "(ws_out list \<times> 'b) gateway_conn"
    by (auto simp: reinitialize_pending_observer_def split: outcome.splits prod.splits sum.splits
        dest!: sends_only_passive(2) key_package_only_passive intro: only_passive_trans)
  have updates: "author_dave_proposals (apply_pending_gateway_updates updates s1) = author_dave_proposals s1" for updates
    and s1 :: "'a ObservedVoiceSession"
    by (induction updates s1 rule: apply_pending_gateway_updates.induct) (simp_all add: record_speaker_ssrc_def)
  show ?thesis
    using assms
    unfolding reinitialize_dave_after_invalid_transition_def reinitialize_dave_after_invalid_proposals_def
      reinitialize_pending_observer_dave_join_after_invalid_transition_def
      reinitialize_pending_observer_dave_join_after_invalid_proposals_def
    by (auto simp: observed_rejoin_def complete_pending_observer_dave_join_def Let_def same_author_def
        apply_observer_dave_ready_def updates split: option.splits if_splits prod.splits outcome.splits
        dest!: fresh passive_join_only_passive intro: only_passive_trans)
qed

lemma applied_only_passive:
  "transition_applied (logged ws) tid s ow = (r, s', ow') \<Longrightarrow> only_passive (ow_conn ow) (ow_conn ow') \<and> same_author s s'"
  by (auto simp: transition_applied_def observed_send_def Let_def same_author_def
      split: if_splits prod.splits outcome.splits sum.splits dest!: sends_only_passive(1))

definition passive_law ::
  "nanos \<Rightarrow> 'ds ObservedVoiceSession \<times> (ws_out list \<times> 'w) observed_world \<Rightarrow> 'ds ObservedVoiceSession \<times> (ws_out list \<times> 'w) observed_world
    \<Rightarrow> bool" where
  "passive_law d x y \<longleftrightarrow> author_dave_proposals (fst x)
     \<or> \<not> author_dave_proposals (fst y) \<and> only_passive (ow_conn (snd x)) (ow_conn (snd y))"

lemma passive_payload:
  assumes "apply_gateway_payload lib (logged ws) event timeout s ow = (r, s', ow')" and "\<not> author_dave_proposals s"
  shows "\<not> author_dave_proposals s' \<and> only_passive (ow_conn ow) (ow_conn ow')"
proof -
  have members: "author_dave_proposals (apply_clients_connect ids s1) = author_dave_proposals s1" for ids and s1 :: "'a ObservedVoiceSession"
    by (induction ids arbitrary: s1) (auto simp: Let_def)
  have staged: "stage_pending_dave_proposals lib dave s1 = (r1, dave1, s2) \<Longrightarrow> author_dave_proposals s2 = author_dave_proposals s1"
    for dave s1 r1 dave1 s2 by (auto simp: stage_pending_dave_proposals_def Let_def split: if_splits prod.splits)
  note rejoin = passive_rejoin_only_passive [OF disjI1] passive_rejoin_only_passive [OF disjI2]
  from assms show ?thesis
    by (auto simp: apply_gateway_payload_def apply_dave_proposals_def apply_dave_welcome_def apply_dave_commit_transition_def
        apply_speaking_def apply_client_disconnect_def record_speaker_ssrc_def members Let_def same_author_def
        split: VoiceGatewayEvent.splits if_splits option.splits prod.splits sum.splits
        dest!: rejoin [unfolded same_author_def] applied_only_passive [unfolded same_author_def] staged)
qed

lemma inputs_world:
  "select_input has_gateway remaining ow = (input, ow') \<Longrightarrow> gc_world (ow_conn ow') = gc_world (ow_conn ow)"
  "gateway_input_within remaining ow = (input, ow') \<Longrightarrow> gc_world (ow_conn ow') = gc_world (ow_conn ow)"
  by (auto simp: select_input_def gateway_input_within_def take_gateway_input_def gateway_delay_def packet_delay_def ow_elapse_def
      conn_advance_def conn_acknowledge_def Let_def split: option.splits if_splits list.splits sum.splits)

interpretation silent: observer_law lib aead "logged ws" passive_law for lib aead ws
proof unfold_locales
  show "passive_law d x y \<Longrightarrow> passive_law d y z \<Longrightarrow> passive_law d x z" for d and x y z :: "'a ObservedVoiceSession \<times> (ws_out list \<times> 'b) observed_world"
    by (auto simp: passive_law_def intro: only_passive_trans)
qed (auto simp: passive_law_def same_author_def only_passive_def dest!: inputs_world passive_payload)

text \<open>C16: A passive observer stays passive. An observer that must not author proposals never sends a commit, neither
  while it waits for DAVE nor in any receive, whatever arrives and however often it has to join anew: everything it
  writes to the gateway is a key package, a report of an invalid transition or of a transition that is ready, and none
  of these is a commit.\<close>

theorem passive_observer_never_commits:
  assumes "\<not> author_dave_proposals s"
  shows "(case receive_audio_frame_internal lib aead (logged ws) order expected timeout s ow of (_, s', ow') \<Rightarrow>
      \<not> author_dave_proposals s' \<and> only_passive (ow_conn ow) (ow_conn ow'))
   \<and> (case receive_activity_from lib aead (logged ws) order user timeout s ow of (_, s', ow') \<Rightarrow>
      \<not> author_dave_proposals s' \<and> only_passive (ow_conn ow) (ow_conn ow'))
   \<and> (case receive_speaking_state_matching_from lib (logged ws) user timeout matches s ow of (_, s', ow') \<Rightarrow>
      \<not> author_dave_proposals s' \<and> only_passive (ow_conn ow) (ow_conn ow'))
   \<and> (case await_dave_ready lib (logged ws) timeout (pending_set_dave_proposal_authoring False pob) inputs conn of (_, _, conn') \<Rightarrow>
      only_passive conn conn')"
  using assms
  unfolding receive_audio_frame_internal_def receive_activity_from_def receive_speaking_state_matching_from_def
    await_dave_ready_def pending_set_dave_proposal_authoring_def complete_pending_observer_dave_join_def
  by (auto simp: passive_law_def Let_def split: prod.split option.split outcome.split
      dest!: silent.law_audio silent.law_activity silent.law_speaking passive_join_only_passive)

section \<open>Invalid transitions\<close>

text \<open>C31: What was reported invalid stays out. When an observer joins anew after an invalid transition, the join is never
  completed by that transition, whatever the gateway sends again, and the users known before the join are still known after it.\<close>

theorem invalid_transition_never_joins:
  assumes "reinitialize_pending_observer_dave_join_after_invalid_transition lib ws voice material recognized tid conn = (Done po, conn1)"
    and "complete_pending_observer_dave_join lib ws po timeout author inputs conn1 = (Done ready, rest, conn2)"
  shows "ready_completed_transition_id ready \<noteq> Some tid \<and> vc_user_id voice \<in> ready_recognized_user_ids ready
    \<and> recognized \<subseteq> ready_recognized_user_ids ready"
proof -
  have po: "po_invalidated po = {tid} \<and> po_saw_speaker po \<and> po_recognized po = insert (vc_user_id voice) recognized"
    using assms(1)
    by (auto simp: reinitialize_pending_observer_dave_join_after_invalid_transition_def reinitialize_pending_observer_def
        pending_observer_new_def split: outcome.splits prod.splits sum.splits dest!: observer_key_package_keeps)
  have "ready_ok (po\<lparr>po_seeded_events := []\<rparr>) ready"
    using join_loop_ok [OF assms(2) [unfolded complete_pending_observer_dave_join_def]] by blast
  with po show ?thesis by (auto simp: ready_ok_def invalidated_safe_def)
qed

section \<open>What a join loses\<close>

lemma updates_forget:
  "UpdateClientDisconnect user \<in> set updates \<or> user \<notin> dave_recognized_user_ids s
    \<Longrightarrow> user \<notin> dave_recognized_user_ids (apply_pending_gateway_updates updates s)"
  by (induction updates s rule: apply_pending_gateway_updates.induct) (auto simp: record_speaker_ssrc_def)

text \<open>A user who returns during a join is forgotten. When a user disconnects and connects again while an observer joins
  anew, the join knows the user at its end, but the disconnect is applied after it: the session does not recognize the
  user who is in the channel.\<close>

theorem returning_user_is_forgotten:
  assumes "complete_pending_observer_dave_join lib ws po timeout author ((d1, Inr p1) # (d2, Inr p2) # inputs) conn = (Done ready, rest, conn')"
    and "po_seeded_events po = []" and "payload_event p1 = ClientDisconnect user" and "payload_event p2 = ClientsConnect users"
    and "user \<in> set users"
  shows "user \<in> ready_recognized_user_ids ready \<and> user \<notin> dave_recognized_user_ids (apply_observer_dave_ready ready s)"
proof -
  let ?deadline = "gc_now conn + timeout"
  define po1 where "po1 = po\<lparr>po_seeded_events := [], po_gateway_updates := po_gateway_updates po @ [UpdateClientDisconnect user],
    po_recognized := po_recognized po \<union> set users\<rparr>"
  obtain conn1 where "observer_join_loop lib ws author ?deadline [] inputs po1 conn1 = (Done ready, rest, conn')"
    using assms(1-4)
    by (auto simp: complete_pending_observer_dave_join_def observer_event_def po_goes_on_def po1_def Let_def split: if_splits)
  from join_loop_ok [OF this] have "ready_ok po1 ready" by blast
  then have "user \<in> ready_recognized_user_ids ready" "UpdateClientDisconnect user \<in> set (ready_gateway_updates ready)"
    using assms(5) by (auto simp: ready_ok_def po1_def)
  then show ?thesis by (simp add: apply_observer_dave_ready_def Let_def updates_forget)
qed

text \<open>C39: After a failed join the frames are not decrypted. When joining anew fails, the session is left without a DAVE
  runtime and goes on as if there were no DAVE at all: the next packet of a known speaker is returned as an audio frame
  whose payload is what the transport protection held, still encrypted by the group.\<close>

theorem failed_rejoin_passes_ciphertext:
  assumes "dave_material s = Some material" and "obs_gateway s"
    and "reinitialize_pending_observer_dave_join_after_invalid_transition lib ws (obs_voice s) material (dave_recognized_user_ids s)
      tid (ow_conn ow) = (Done po, conn1)"
    and "complete_pending_observer_dave_join lib ws po timeout (author_dave_proposals s) (ow_inputs ow) conn1 = (Failed err, rest, conn2)"
    and "obs_protection s = Some protection" and "\<not> is_rtcp_packet packet" and "parse_rtp_header packet = Inr header"
    and "unprotect_packet aead protection packet = Inr (header, payload)"
    and "speaker_ssrcs s (header_ssrc header) = Some user" and "expected = None \<or> expected = Some user"
  shows "\<exists>s' ow' frame s''. reinitialize_dave_after_invalid_transition lib ws tid timeout s ow = (Failed err, s', ow')
    \<and> process_audio_packet lib aead packet at expected s' = (Inr (Some frame), s'') \<and> frame_payload frame = payload"
  using assms
  by (auto simp: reinitialize_dave_after_invalid_transition_def observed_rejoin_def process_audio_packet_def process_mapped_packet_def
      decode_audio_packet_def decrypt_audio_payload_def Let_def)

section \<open>Concrete runs\<close>

text \<open>An observer of a group with one speaker, before and after a transition it could not follow.\<close>

definition rejoin_material :: ObserverDaveMaterial where
  "rejoin_material = \<lparr>material_group_id = 2, material_protocol_version = 1, material_external_sender = [8]\<rparr>"

definition rejoin_session :: "unit ObservedVoiceSession" where
  "rejoin_session = (record_speaker_ssrc ''7'' 9 (observed_without_dave demo_voice True (Some demo_context) False))
     \<lparr>dave_material := Some rejoin_material, dave_recognized_user_ids := {''3'', ''7''},
      obs_dave := Some \<lparr>rt_protocol_version = 1, rt_session = ()\<rparr>\<rparr>"

definition rejoin_conn :: "(ws_out list \<times> ws_out list) gateway_conn" where
  "rejoin_conn = \<lparr>gc_client = VoiceGatewayClient_connect, gc_now = 0, gc_world = ([], [])\<rparr>"

definition rejoin_world :: "(ws_out list \<times> ws_out list) observed_world" where
  "rejoin_world = \<lparr>ow_conn = rejoin_conn, ow_inputs = [], ow_transport = True, ow_packets = []\<rparr>"

lemma rejoin_starts:
  "\<exists>po conn. reinitialize_pending_observer_dave_join_after_invalid_transition marking_davey (logged demo_ws) demo_voice rejoin_material
      {''3'', ''7''} 5 rejoin_conn = (Done po, conn)
    \<and> po = (pending_observer_new \<lparr>dave_inner = Some (), pending_external_sender = Some [8]\<rparr> ''3'' 2 1 (Some [8]) {''3'', ''7''} {5} True)
        \<lparr>po_key_package := True\<rparr> \<and> gc_now conn = 0"
proof -
  have user: "parse_u64 ''3'' = Some 3" by (simp add: parse_u64_def is_digit_def digits_value_def digit_value_def)
  have "observer_session marking_davey [8] 1 2 ''3'' = Done \<lparr>dave_inner = Some (), pending_external_sender = Some [8]\<rparr>"
    by (simp add: observer_session_def set_external_sender_def validate_external_sender_def external_sender_failure_def DaveSession_new_def
        dave_init_def parse_user_id_def ok_or_def user marking_davey_def demo_davey_def)
  then show ?thesis
    by (simp add: reinitialize_pending_observer_dave_join_after_invalid_transition_def reinitialize_pending_observer_def rejoin_material_def
        demo_voice_def conn_send_def send_dave_mls_invalid_commit_welcome_def send_json_def logged_def demo_ws_def rejoin_conn_def
        observer_key_package_def send_pending_join_key_package_def key_package_def with_inner_def marking_davey_def demo_davey_def
        dave_operation_def send_dave_mls_key_package_def send_binary_def pending_observer_new_def)
qed

definition rejoin_po :: "unit PendingObserverDaveState" where
  "rejoin_po = (pending_observer_new \<lparr>dave_inner = Some (), pending_external_sender = Some [8]\<rparr> ''3'' 2 1 (Some [8]) {''3'', ''7''} {5} True)
     \<lparr>po_key_package := True\<rparr>"

lemma rejoin_welcomes:
  assumes "po_session po = po_session rejoin_po" and "po_prepared po = []" and "po_invalidated po = {5}" and "po_key_package po"
    and "po_proposals po = []" and "po_external_sender po = Some [8]"
  shows "observer_event marking_davey (logged demo_ws) False (DaveMlsWelcome 5 [1]) po conn = (Done None, po, conn)"
    and "\<exists>ready po' conn'. observer_event marking_davey (logged demo_ws) False (DaveMlsWelcome 6 [1]) po conn = (Done (Some ready), po', conn')"
proof -
  have po: "po\<lparr>po_prepared := []\<rparr> = po" using assms(2) by (cases po) simp
  show "observer_event marking_davey (logged demo_ws) False (DaveMlsWelcome 5 [1]) po conn = (Done None, po, conn)"
    using assms po by (simp add: observer_event_def observer_welcome_def observer_transition_def btree_remove_def po_goes_on_def)
  have session: "po_session po = Some \<lparr>dave_inner = Some (), pending_external_sender = Some [8]\<rparr>"
    using assms(1) by (simp add: rejoin_po_def pending_observer_new_def)
  have version: "observer_dave_protocol_version marking_davey po = Inr 1"
    by (simp add: observer_dave_protocol_version_def session dave_protocol_version_def marking_davey_def demo_davey_def)
  have joined: "process_welcome marking_davey \<lparr>dave_inner = Some (), pending_external_sender = Some [8]\<rparr> [1]
      = (Inr [1], \<lparr>dave_inner = Some (), pending_external_sender = Some [8]\<rparr>)"
    by (simp add: process_welcome_def with_inner_def inner_process_welcome_def marking_davey_def demo_davey_def dave_operation_def
        res_bind_def roster_of_def)
  have sent: "\<exists>conn1. conn_send (send_dave_transition_ready (logged demo_ws) 6) conn = (Inr (), conn1)"
    by (simp add: conn_send_def send_dave_transition_ready_def send_json_def logged_def demo_ws_def)
  then show "\<exists>ready po' conn'. observer_event marking_davey (logged demo_ws) False (DaveMlsWelcome 6 [1]) po conn = (Done (Some ready), po', conn')"
    using assms(2-6)
    by (auto simp: observer_event_def observer_welcome_def observer_transition_def btree_remove_def version session joined
        expects_transition_def observer_joined_def DaveRuntimeContext_from_session_def ok_or_def res_bind_def
        stage_pending_observer_proposals_def DAVE_PROTOCOL_INIT_TRANSITION_ID_def po_returns_def observer_dave_material_def)
qed

abbreviation rejoin_inputs :: arrivals where
  "rejoin_inputs \<equiv> [(2, Inr (event_payload (ClientDisconnect ''7''))), (2, Inr (event_payload (ClientsConnect [''7'']))),
     (2, Inr (event_payload (DaveMlsWelcome 5 [1]))), (2, Inr (event_payload (DaveMlsWelcome 6 [1])))]"

lemma rejoin_completes:
  assumes "gc_now conn = 0"
  shows "\<exists>ready rest conn'. complete_pending_observer_dave_join marking_davey (logged demo_ws) rejoin_po 100 False rejoin_inputs conn
    = (Done ready, rest, conn')"
proof -
  define po where "po = rejoin_po\<lparr>po_seeded_events := [], po_gateway_updates := po_gateway_updates rejoin_po @ [UpdateClientDisconnect ''7''],
    po_recognized := po_recognized rejoin_po \<union> {''7''}\<rparr>"
  have fields: "po_session po = po_session rejoin_po" "po_prepared po = []" "po_invalidated po = {5}" "po_key_package po"
    "po_proposals po = []" "po_external_sender po = Some [8]" "po_seeded_events rejoin_po = []"
    by (simp_all add: po_def rejoin_po_def pending_observer_new_def)
  define d where "d = rejoin_po\<lparr>po_seeded_events := [], po_gateway_updates := po_gateway_updates rejoin_po @ [UpdateClientDisconnect ''7'']\<rparr>"
  have first: "observer_event marking_davey (logged demo_ws) False (ClientDisconnect ''7'') (rejoin_po\<lparr>po_seeded_events := []\<rparr>) c = (Done None, d, c)"
    "observer_event marking_davey (logged demo_ws) False (ClientsConnect [''7'']) d c = (Done None, po, c)" for c
    by (simp_all add: observer_event_def po_goes_on_def d_def po_def)
  obtain ready po' conn' where last: "observer_event marking_davey (logged demo_ws) False (DaveMlsWelcome 6 [1]) po
      (conn_acknowledge (event_payload (DaveMlsWelcome 6 [1])) (conn_advance 2
        (conn_acknowledge (event_payload (DaveMlsWelcome 5 [1])) (conn_advance 2
          (conn_acknowledge (event_payload (ClientsConnect [''7''])) (conn_advance 2
            (conn_acknowledge (event_payload (ClientDisconnect ''7'')) (conn_advance 2 conn)))))))) = (Done (Some ready), po', conn')"
    using rejoin_welcomes(2) [OF fields(1-6)] by blast
  show ?thesis
    by (simp add: complete_pending_observer_dave_join_def fields(7) first rejoin_welcomes(1) [OF fields(1-6)] last assms Let_def)
qed

lemma rejoin_from:
  "\<exists>conn. reinitialize_pending_observer_dave_join_after_invalid_transition marking_davey (logged demo_ws) demo_voice rejoin_material
      {''3'', ''7''} 5 rejoin_conn = (Done rejoin_po, conn) \<and> gc_now conn = 0"
  using rejoin_starts by (simp add: rejoin_po_def)

theorem passive_observer_never_commits_witness:
  "case receive_audio_frame_internal marking_davey null_aead (logged demo_ws) (\<lambda>_. [9]) None 100 rejoin_session
       (rejoin_world\<lparr>ow_inputs := rejoin_inputs\<rparr>) of (_, s', ow') \<Rightarrow>
     \<not> author_dave_proposals s' \<and> only_passive rejoin_conn (ow_conn ow')"
proof -
  have "\<not> author_dave_proposals rejoin_session"
    by (simp add: rejoin_session_def record_speaker_ssrc_def observed_without_dave_def)
  moreover have "ow_conn (rejoin_world\<lparr>ow_inputs := rejoin_inputs\<rparr>) = rejoin_conn" by (simp add: rejoin_world_def)
  ultimately show ?thesis
    using passive_observer_never_commits [where s = rejoin_session and ow = "rejoin_world\<lparr>ow_inputs := rejoin_inputs\<rparr>"
        and lib = marking_davey and aead = null_aead and ws = demo_ws and order = "\<lambda>_. [9]" and expected = None and timeout = 100,
        THEN conjunct1] by simp
qed

theorem invalid_transition_never_joins_witness:
  "\<exists>conn ready rest conn'. complete_pending_observer_dave_join marking_davey (logged demo_ws) rejoin_po 100 False rejoin_inputs conn
      = (Done ready, rest, conn') \<and> ready_completed_transition_id ready \<noteq> Some 5 \<and> ''7'' \<in> ready_recognized_user_ids ready"
proof -
  obtain conn where po: "reinitialize_pending_observer_dave_join_after_invalid_transition marking_davey (logged demo_ws) demo_voice
      rejoin_material {''3'', ''7''} 5 rejoin_conn = (Done rejoin_po, conn)" "gc_now conn = 0" using rejoin_from by blast
  obtain ready rest conn' where ready: "complete_pending_observer_dave_join marking_davey (logged demo_ws) rejoin_po 100 False rejoin_inputs conn
      = (Done ready, rest, conn')" using rejoin_completes [OF po(2)] by blast
  from invalid_transition_never_joins [OF po(1) ready] have "ready_completed_transition_id ready \<noteq> Some 5" "''7'' \<in> ready_recognized_user_ids ready"
    by auto
  with ready show ?thesis by (intro exI conjI)
qed

theorem returning_user_is_forgotten_witness:
  "\<exists>ready. ''7'' \<in> ready_recognized_user_ids ready \<and> ''7'' \<notin> dave_recognized_user_ids (apply_observer_dave_ready ready rejoin_session)"
proof -
  obtain ready rest conn' where ready: "complete_pending_observer_dave_join marking_davey (logged demo_ws) rejoin_po 100 False rejoin_inputs rejoin_conn
      = (Done ready, rest, conn')" using rejoin_completes [of rejoin_conn] by (auto simp: rejoin_conn_def)
  have "po_seeded_events rejoin_po = []" by (simp add: rejoin_po_def pending_observer_new_def)
  from returning_user_is_forgotten [OF ready this, of "''7''" "[''7'']" rejoin_session] show ?thesis by auto
qed

theorem failed_rejoin_passes_ciphertext_witness:
  "\<exists>s' ow' frame s''. reinitialize_dave_after_invalid_transition marking_davey (logged demo_ws) 5 100 rejoin_session rejoin_world
       = (Failed (InvalidState ''voice observer dave join timed out''), s', ow')
     \<and> process_audio_packet marking_davey null_aead demo_datagram 4 None s' = (Inr (Some frame), s'') \<and> frame_payload frame = [1, 2, 3]"
proof -
  obtain conn where po: "reinitialize_pending_observer_dave_join_after_invalid_transition marking_davey (logged demo_ws) demo_voice
      rejoin_material {''3'', ''7''} 5 rejoin_conn = (Done rejoin_po, conn)" using rejoin_from by blast
  obtain h where h: "parse_rtp_header demo_datagram = Inr h" "header_ssrc h = 9"
    "unprotect_packet null_aead demo_context demo_datagram = Inr (h, [1, 2, 3])" using demo_datagram_opens by blast
  have s: "dave_material rejoin_session = Some rejoin_material" "obs_gateway rejoin_session" "obs_protection rejoin_session = Some demo_context"
    "obs_voice rejoin_session = demo_voice" "dave_recognized_user_ids rejoin_session = {''3'', ''7''}"
    "author_dave_proposals rejoin_session = False" "speaker_ssrcs rejoin_session (header_ssrc h) = Some ''7''"
    by (simp_all add: rejoin_session_def record_speaker_ssrc_def observed_without_dave_def h(2))
  have "complete_pending_observer_dave_join marking_davey (logged demo_ws) rejoin_po 100 (author_dave_proposals rejoin_session)
      (ow_inputs rejoin_world) conn = (Failed (InvalidState ''voice observer dave join timed out''), [], conn_advance 100 conn)"
    by (simp add: complete_pending_observer_dave_join_def rejoin_po_def pending_observer_new_def rejoin_world_def)
  from failed_rejoin_passes_ciphertext [OF s(1,2) _ this s(3) build_header_not_rtcp h(1,3) s(7), of 5 None] po
  show ?thesis by (simp add: s rejoin_world_def del: append_Cons append.simps replicate.simps)
qed

end
