(* ===== verification/GatewayResume.thy ===== *)
theory GatewayResume
  imports HandshakeLaws
begin

text \<open>
  Resuming the gateway of a connected session (\<open>resume_gateway_after_close\<close> of \<open>session.rs\<close>), after it was closed or
  after the media were suspended: the sequence number that was acknowledged last is kept, sent with the resume message,
  and nothing else of the session changes, its DAVE state included. Before it, the URL under which \<open>ws.rs\<close> opens a gateway; an authority
  is present when a host is.
\<close>

definition normalize_gateway_url :: "http_lib \<Rightarrow> string \<Rightarrow> VoiceError + string" where
  "normalize_gateway_url http url =
    (case http_parse http url of
       None \<Rightarrow> Inl InvalidUri
     | Some uri \<Rightarrow>
        (case (uri_scheme uri, uri_host uri) of
           (Some scheme, Some _) \<Rightarrow>
            (let (path, query) =
                   (case uri_path_and_query uri of
                      None \<Rightarrow> (''/'', None)
                    | Some p \<Rightarrow> (case split_first CHR ''?'' p of Some (path, query) \<Rightarrow> (path, Some query) | None \<Rightarrow> (p, None)));
                 path_and_query = (if path = [] then ''/'' else path) @ ''?'' @ normalize_query query
             in if http_path_ok http path_and_query
                then ok_or (InvalidState ''voice gateway url could not be normalized'') (http_rebuild http url scheme path_and_query)
                else Inl InvalidUri)
         | _ \<Rightarrow> Inl (InvalidState ''voice gateway url must be absolute'')))"

definition resume_seq_ack :: "'ds ConnectedVoiceSession \<Rightarrow> u64 option" where
  "resume_seq_ack s = (case vs_gateway s of Some gw \<Rightarrow> gw_seq_ack gw | None \<Rightarrow> vs_suspended_gateway_seq_ack s)"

definition resume_gateway_after_close ::
  "('w, 'n) network_io \<Rightarrow> 'ds ConnectedVoiceSession \<Rightarrow> nanos \<Rightarrow> 'w
    \<Rightarrow> (VoiceError + unit) \<times> 'ds ConnectedVoiceSession \<times> arrivals \<times> 'w gateway_conn" where
  "resume_gateway_after_close io s now w =
    (if vs_gateway s = None \<and> (vs_transport s = None \<or> vs_ssrc s = None \<or> vs_session_description s = None)
     then (Inl (InvalidState ''voice media unavailable for gateway resume''), s, [],
           \<lparr>gc_client = VoiceGatewayClient_connect, gc_now = now, gc_world = w\<rparr>)
     else
       (let s1 = s\<lparr>vs_heartbeat := False\<rparr> in
        case resume_gateway io (vs_voice s) (resume_seq_ack s) now w of
          (Inl err, rest, conn) \<Rightarrow> (Inl err, s1, rest, conn)
        | (Inr gateway, rest, conn) \<Rightarrow>
            (Inr (), s1\<lparr>vs_gateway := Some gateway, vs_heartbeat := True, vs_gateway_receive_closed := False,
                        vs_suspended_gateway_seq_ack := None, vs_speaking_started := False\<rparr>, rest, conn)))"

definition resume_voice ::
  "('w, 'n) network_io \<Rightarrow> VoiceContext \<Rightarrow> u64 option \<Rightarrow> nanos \<Rightarrow> 'w \<Rightarrow> (VoiceError + unit) \<times> arrivals \<times> 'w gateway_conn" where
  "resume_voice io voice seq_ack now w =
    (case resume_gateway io voice seq_ack now w of
       (Inl err, rest, conn) \<Rightarrow> (Inl err, rest, conn)
     | (Inr _, rest, conn) \<Rightarrow> (Inr (), rest, conn))"

section \<open>Properties\<close>

lemma suspend_keeps:
  assumes "suspend_media ws s w = (Inr (), s1, w1)" and "vs_gateway s = Some gw"
  shows "s1 = s\<lparr>vs_heartbeat := False, vs_suspended_gateway_seq_ack := gw_seq_ack gw, vs_gateway := None,
      vs_gateway_receive_closed := True, vs_speaking_started := False\<rparr>"
proof -
  obtain r0 s0 w0 where stop: "(if vs_speaking_started s then stop_speaking ws s w else (Inr (), s, w)) = (r0, s0, w0)"
    by (metis prod_cases3)
  have s0: "s0 = s \<or> s0 = s\<lparr>vs_speaking_started := False\<rparr>"
    using stop by (auto simp: stop_speaking_def split: if_splits option.splits prod.splits sum.splits)
  have "s1 = s0\<lparr>vs_heartbeat := False, vs_suspended_gateway_seq_ack := gw_seq_ack gw, vs_gateway := None, vs_gateway_receive_closed := True,
      vs_speaking_started := False\<rparr>"
    using assms(1) [unfolded suspend_media_def stop] s0 assms(2) by (auto simp: Let_def split: sum.splits prod.splits)
  with s0 show ?thesis by auto
qed

lemma hello_world: "expect_hello inputs conn = (r, rest, conn') \<Longrightarrow> gc_world conn' = gc_world conn"
  by (auto simp: expect_hello_def next_event_def receive_within_def conn_advance_def conn_acknowledge_def
      split: list.splits prod.splits if_splits sum.splits option.splits VoiceGatewayEvent.splits)

lemma open_gateway_world: "open_gateway io url now w = (r, rest, conn) \<Longrightarrow> gc_world conn = w"
  by (auto simp: open_gateway_def conn_advance_def Let_def split: prod.splits if_splits sum.splits dest!: hello_world)

lemma next_event_world: "next_event timeout inputs conn = (r, rest, conn') \<Longrightarrow> gc_world conn' = gc_world conn"
  by (auto simp: next_event_def receive_within_def conn_advance_def conn_acknowledge_def
      split: list.splits prod.splits if_splits sum.splits option.splits)

lemma resume_sends:
  assumes "resume_gateway io voice (Some seq) now w = (Inr gateway, rest, conn)" and "nio_ws io = logged ws"
  shows "fst (gc_world conn) = fst w @ [OutJson (resume_payload (vc_guild_id voice) (vc_session_id voice) (vc_token voice) (Some seq))]"
proof -
  obtain url where url: "gateway_url (nio_http io) (vc_endpoint voice) = Inr (Some url)"
    using assms(1) by (auto simp: resume_gateway_def Let_def split: sum.splits option.splits)
  obtain interval rest0 conn0 where opened: "open_gateway io url now w = (Inr interval, rest0, conn0)"
    using assms(1) url by (auto simp: resume_gateway_def Let_def split: sum.splits prod.splits)
  define conn1 where "conn1 = conn0\<lparr>gc_client := record_seq_ack seq (gc_client conn0)\<rparr>"
  obtain r2 conn2 where send: "conn_send (send_resume (nio_ws io) (vc_guild_id voice) (vc_session_id voice) (vc_token voice) (gc_client conn1)) conn1
      = (r2, conn2)" by fastforce
  obtain ev rest1 conn3 where event: "next_event (post_hello_timeout interval) rest0 conn2 = (ev, rest1, conn3)" by (metis prod_cases3)
  note sent = send [unfolded conn1_def, simplified]
  have "\<exists>x. r2 = Inr x" using assms(1) by (cases r2) (auto simp: resume_gateway_def Let_def url opened sent)
  then have "conn3 = conn"
    using assms(1) by (cases ev) (auto simp: resume_gateway_def Let_def url opened sent event split: VoiceGatewayEvent.splits)
  moreover have "fst (gc_world conn2) = fst (gc_world conn1)
      @ [OutJson (resume_payload (vc_guild_id voice) (vc_session_id voice) (vc_token voice) (Some seq))]"
    using send by (auto simp: conn_send_def send_resume_def send_json_def assms(2) logged_def conn1_def record_seq_ack_def split: prod.splits)
  ultimately show ?thesis
    using open_gateway_world [OF opened] next_event_world [OF event] by (simp add: conn1_def)
qed

text \<open>C32: A suspended session resumes where it was. When the media of a connected session were suspended and its gateway is
  resumed later, the one message the new gateway gets asks for everything after the last sequence number the old one
  acknowledged, and the session is the one of before the suspension in every other field: its context, its transport,
  its whole DAVE state with the runtime, the pending and prepared transitions, the users and the external sender. Only
  the gateway is the new one, which is received from and has its heartbeat, no acknowledged number is kept aside, and
  speaking is not announced yet. The session had a gateway that acknowledged a message; the web socket is logged.\<close>

theorem suspended_session_resumes:
  assumes "vs_gateway s = Some gw" and "gw_seq_ack gw = Some seq"
    and "suspend_media (logged ws) s w = (Inr (), s1, w1)" and "nio_ws io = logged ws"
    and "resume_gateway_after_close io s1 now w1 = (Inr (), s2, rest, conn)"
  shows "fst (gc_world conn) = fst w1 @ [OutJson (resume_payload (vc_guild_id (vs_voice s)) (vc_session_id (vs_voice s))
        (vc_token (vs_voice s)) (Some seq))]
    \<and> (\<exists>gateway. s2 = s\<lparr>vs_gateway := Some gateway, vs_heartbeat := True, vs_gateway_receive_closed := False,
         vs_suspended_gateway_seq_ack := None, vs_speaking_started := False\<rparr>)"
proof -
  note kept = suspend_keeps [OF assms(3,1)]
  have ack: "resume_seq_ack s1 = Some seq" using kept assms(2) by (simp add: resume_seq_ack_def)
  obtain gateway where run: "resume_gateway io (vs_voice s1) (Some seq) now w1 = (Inr gateway, rest, conn)"
    and s2: "s2 = s1\<lparr>vs_heartbeat := True, vs_gateway := Some gateway, vs_gateway_receive_closed := False,
      vs_suspended_gateway_seq_ack := None, vs_speaking_started := False\<rparr>"
    using assms(5) by (auto simp: resume_gateway_after_close_def ack Let_def split: if_splits prod.splits sum.splits)
  have "s2 = s\<lparr>vs_gateway := Some gateway, vs_heartbeat := True, vs_gateway_receive_closed := False,
         vs_suspended_gateway_seq_ack := None, vs_speaking_started := False\<rparr>" by (simp add: s2 kept)
  with resume_sends [OF run assms(4)] show ?thesis by (auto simp: kept)
qed

text \<open>A session that acknowledged sequence number 7, suspended and resumed at a gateway on the local host.\<close>

definition resumable_session :: "unit ConnectedVoiceSession" where
  "resumable_session = demo_session\<lparr>vs_gateway := Some (record_seq_ack 7 VoiceGatewayClient_connect), vs_voice := loopback_voice\<rparr>"

definition resume_io :: "(ws_out list \<times> ws_out list, unit) network_io" where
  "resume_io =
     \<lparr>nio_http = demo_http, nio_ws = logged demo_ws,
      nio_connect = (\<lambda>_. (5, Inr [(1, Inr (event_payload (Hello 100))), (1, Inr (event_payload Resumed))])), nio_max_dave_version = 1,
      nio_lookup = (\<lambda>_ _. (0, Inr [])), nio_discovery_time = (\<lambda>_ _ _. 0), nio_bind = (\<lambda>n. (Inr (), n)),
      nio_socket = \<lparr>sock_send = (\<lambda>n _ _. (Inr (), n)), sock_recv = (\<lambda>n. (Inr ([], loopback), n))\<rparr>\<rparr>"

theorem suspended_session_resumes_witness:
  "\<exists>s1 s2 rest conn. suspend_media (logged demo_ws) resumable_session ([], []) = (Inr (), s1, [OutClose], [OutClose])
     \<and> resume_gateway_after_close resume_io s1 0 ([OutClose], [OutClose]) = (Inr (), s2, rest, conn)
     \<and> fst (gc_world conn) = [OutClose] @ [OutJson (resume_payload ''1'' ''a'' ''c'' (Some 7))] \<and> vs_gateway s2 \<noteq> None"
proof -
  define s1 where "s1 = resumable_session\<lparr>vs_heartbeat := False, vs_suspended_gateway_seq_ack := Some 7, vs_gateway := None,
    vs_gateway_receive_closed := True, vs_speaking_started := False\<rparr>"
  have gw: "vs_gateway resumable_session = Some (record_seq_ack 7 VoiceGatewayClient_connect)" by (simp add: resumable_session_def)
  have ack: "gw_seq_ack (record_seq_ack 7 VoiceGatewayClient_connect) = Some 7" by (simp add: record_seq_ack_def)
  have suspended: "suspend_media (logged demo_ws) resumable_session ([], []) = (Inr (), s1, ([OutClose], [OutClose]))"
    by (simp add: suspend_media_def s1_def resumable_session_def record_seq_ack_def gateway_close_def logged_def demo_ws_def Let_def)
  have media: "vs_transport s1 \<noteq> None" "vs_ssrc s1 \<noteq> None" "vs_session_description s1 \<noteq> None" "vs_voice s1 = loopback_voice"
    "resume_seq_ack s1 = Some 7"
    by (simp_all add: s1_def resumable_session_def resume_seq_ack_def demo_defs)
  have endpoint: "vc_endpoint loopback_voice = ''127.0.0.1''" by (simp add: loopback_voice_def)
  obtain s2 rest conn where resumed: "resume_gateway_after_close resume_io s1 0 ([OutClose], [OutClose]) = (Inr (), s2, rest, conn)"
    using media
    by (simp add: resume_gateway_after_close_def resume_gateway_def endpoint resume_io_def loopback_url handshake_eval send_resume_def
        logged_def record_seq_ack_def)
  have io: "nio_ws resume_io = logged demo_ws" by (simp add: resume_io_def)
  from suspended_session_resumes [OF gw ack suspended io resumed] suspended resumed show ?thesis
    by (auto simp: resumable_session_def loopback_voice_def demo_voice_def)
qed

end
