(* ===== verification/ControlApi.thy ===== *)
theory ControlApi
  imports RuntimeState Metrics Endpoint
begin

text \<open>
  The control API (\<open>api/service.rs\<close>), the settings and the health probe of the daemon (\<open>config.rs\<close> and \<open>lib.rs\<close> of
  \<open>discord-voice-service\<close>). Messages are those of \<open>control.proto\<close>: a string that is missing is empty, a number that is
  missing is zero, and an enumeration is its number. Sending a command to the supervisor and how an error prints are
  parameters. The message with all playback metrics is copied field by field and is not modelled; the messages inside
  it are.
\<close>

section \<open>Messages\<close>

datatype status_code = CodeOk | CodeInvalidArgument | CodeFailedPrecondition | CodeInternal | CodeOther nat

record Status =
  status_code_of :: status_code
  status_message :: string

definition invalid_argument :: "string \<Rightarrow> Status" where
  "invalid_argument message = \<lparr>status_code_of = CodeInvalidArgument, status_message = message\<rparr>"

record ProtoVoiceContext =
  pvc_guild_id :: string
  pvc_channel_id :: string
  pvc_session_id :: string
  pvc_endpoint :: string
  pvc_token :: string
  pvc_user_id :: string

record ProtoSessionStateSnapshot =
  pst_state :: int
  pst_guild_id :: string
  pst_channel_id :: string
  pst_current_video_id :: string
  pst_queue_depth :: u32
  pst_selected_itag :: u32
  pst_message :: string

record ProtoSessionEvent =
  pev_kind :: int
  pev_guild_id :: string
  pev_channel_id :: string
  pev_current_video_id :: string
  pev_selected_itag :: u32
  pev_message :: string
  pev_error_code :: string
  pev_reason :: int

record ProtoDurationStats =
  pds_samples :: u64
  pds_p50_ms :: u64
  pds_p95_ms :: u64
  pds_p99_ms :: u64
  pds_min_ms :: u64
  pds_max_ms :: u64

record ProtoBufferDepth =
  pbd_packets :: u64
  pbd_bytes :: u64
  pbd_duration_ms :: u64
  pbd_duration_samples :: u64

record ProtoQueueDepthStats =
  pqd_sample_count :: u64
  pqd_empty_count :: u64
  pqd_current_depth :: "ProtoBufferDepth option"
  pqd_min_depth :: "ProtoBufferDepth option"
  pqd_p5_depth :: "ProtoBufferDepth option"
  pqd_p50_depth :: "ProtoBufferDepth option"
  pqd_p95_depth :: "ProtoBufferDepth option"
  pqd_max_depth :: "ProtoBufferDepth option"

record ProtoSendEvent =
  pse_packet_index :: u64
  pse_command_kind :: int
  pse_expected_deadline_offset_us :: u64
  pse_send_started_offset_us :: u64
  pse_sent_offset_us :: u64
  pse_media_duration_ms :: u64
  pse_media_duration_samples :: u32
  pse_rtp_sequence :: u32
  pse_rtp_timestamp :: u32
  pse_protection_nonce :: "u32 option"
  pse_source_frame_epoch :: "u64 option"
  pse_source_media_position_ms :: "u64 option"
  pse_source_media_byte_position :: "u64 option"
  pse_committed_heard_media :: bool
  pse_source_media_position_samples :: "u64 option"

record ProtoTrackQueueSample =
  ptq_sample_index :: u64
  ptq_phase :: int
  ptq_depth :: "ProtoBufferDepth option"

record ProtoPlayoutQueueEvent =
  ppq_event_index :: u64
  ppq_event_kind :: int
  ppq_reason :: int
  ppq_command_kind :: int
  ppq_media_duration_ms :: u64
  ppq_media_duration_samples :: u32
  ppq_rtp_sequence :: u32
  ppq_rtp_timestamp :: u32
  ppq_protection_nonce :: "u32 option"
  ppq_source_frame_epoch :: "u64 option"
  ppq_source_media_position_ms :: "u64 option"
  ppq_source_media_byte_position :: "u64 option"
  ppq_queue_depth_after :: "ProtoBufferDepth option"
  ppq_source_media_position_samples :: "u64 option"

section \<open>From the runtime to messages\<close>

definition usize_to_u64 :: "usize \<Rightarrow> u64" where
  "usize_to_u64 value = (if value < 2 ^ 64 then of_nat value else - 1)"

definition unwrap_string :: "string option \<Rightarrow> string" where
  "unwrap_string value = (case value of None \<Rightarrow> [] | Some s \<Rightarrow> s)"

definition unwrap_u32 :: "u32 option \<Rightarrow> u32" where
  "unwrap_u32 value = (case value of None \<Rightarrow> 0 | Some n \<Rightarrow> n)"

definition map_duration_stats :: "DurationStatsSnapshot \<Rightarrow> ProtoDurationStats" where
  "map_duration_stats snapshot =
     \<lparr>pds_samples = usize_to_u64 (stats_samples snapshot), pds_p50_ms = p50_ms snapshot, pds_p95_ms = p95_ms snapshot,
      pds_p99_ms = p99_ms snapshot, pds_min_ms = min_ms snapshot, pds_max_ms = max_ms snapshot\<rparr>"

definition map_buffer_depth :: "PlaybackBufferDepthSnapshot \<Rightarrow> ProtoBufferDepth" where
  "map_buffer_depth snapshot =
     \<lparr>pbd_packets = usize_to_u64 (bd_packets snapshot), pbd_bytes = usize_to_u64 (bd_bytes snapshot),
      pbd_duration_ms = bd_duration_ms snapshot, pbd_duration_samples = bd_duration_samples snapshot\<rparr>"

definition map_queue_depth_stats :: "PlaybackQueueDepthStatsSnapshot \<Rightarrow> ProtoQueueDepthStats" where
  "map_queue_depth_stats snapshot =
     \<lparr>pqd_sample_count = usize_to_u64 (qd_sample_count snapshot), pqd_empty_count = qd_empty_count snapshot,
      pqd_current_depth = Some (map_buffer_depth (qd_current_depth snapshot)),
      pqd_min_depth = Some (map_buffer_depth (qd_min_depth snapshot)), pqd_p5_depth = Some (map_buffer_depth (qd_p5_depth snapshot)),
      pqd_p50_depth = Some (map_buffer_depth (qd_p50_depth snapshot)), pqd_p95_depth = Some (map_buffer_depth (qd_p95_depth snapshot)),
      pqd_max_depth = Some (map_buffer_depth (qd_max_depth snapshot))\<rparr>"

fun map_send_command_kind :: "PlaybackSendCommandKind \<Rightarrow> int" where
  "map_send_command_kind SendTrack = 1"
| "map_send_command_kind SendScheduledSilence = 2"
| "map_send_command_kind SendBoundarySilence = 3"
| "map_send_command_kind SendOtherBoundary = 4"

fun map_prepared_track_queue_sample_phase :: "PreparedTrackQueueSamplePhase \<Rightarrow> int" where
  "map_prepared_track_queue_sample_phase ActivePrePause = 1"
| "map_prepared_track_queue_sample_phase ActivePostResume = 2"

fun map_prepared_playout_queue_event_kind :: "PreparedPlayoutQueueEventKind \<Rightarrow> int" where
  "map_prepared_playout_queue_event_kind UnknownEvent = 0"
| "map_prepared_playout_queue_event_kind Enqueued = 1"
| "map_prepared_playout_queue_event_kind DequeuedToDeadlineSender = 2"
| "map_prepared_playout_queue_event_kind DroppedBeforeSend = 3"
| "map_prepared_playout_queue_event_kind Rebuilt = 4"

fun map_prepared_playout_queue_event_reason :: "PreparedPlayoutQueueEventReason \<Rightarrow> int" where
  "map_prepared_playout_queue_event_reason ReasonUnspecified = 0"
| "map_prepared_playout_queue_event_reason ReasonSteadyPlayback = 1"
| "map_prepared_playout_queue_event_reason ReasonPause = 2"
| "map_prepared_playout_queue_event_reason ReasonStop = 3"
| "map_prepared_playout_queue_event_reason ReasonDaveTransitionRecovery = 4"
| "map_prepared_playout_queue_event_reason ReasonReconnect = 5"
| "map_prepared_playout_queue_event_reason ReasonSourceUnderrun = 6"
| "map_prepared_playout_queue_event_reason ReasonNaturalEnd = 7"
| "map_prepared_playout_queue_event_reason ReasonInterruption = 8"

definition map_raw_send_event :: "PlaybackSendEventSnapshot \<Rightarrow> ProtoSendEvent" where
  "map_raw_send_event event =
     \<lparr>pse_packet_index = se_packet_index event, pse_command_kind = map_send_command_kind (se_command_kind event),
      pse_expected_deadline_offset_us = se_expected_deadline_offset_us event,
      pse_send_started_offset_us = se_send_started_offset_us event, pse_sent_offset_us = se_sent_offset_us event,
      pse_media_duration_ms = se_media_duration_ms event, pse_media_duration_samples = se_media_duration_samples event,
      pse_rtp_sequence = ucast (se_rtp_sequence event), pse_rtp_timestamp = se_rtp_timestamp event,
      pse_protection_nonce = se_protection_nonce event, pse_source_frame_epoch = se_source_frame_epoch event,
      pse_source_media_position_ms = se_source_media_position_ms event,
      pse_source_media_byte_position = se_source_media_byte_position event,
      pse_committed_heard_media = se_committed_heard_media event,
      pse_source_media_position_samples = se_source_media_position_samples event\<rparr>"

definition map_raw_prepared_track_queue_sample :: "PreparedTrackQueueDepthSampleSnapshot \<Rightarrow> ProtoTrackQueueSample" where
  "map_raw_prepared_track_queue_sample sample =
     \<lparr>ptq_sample_index = qs_sample_index sample, ptq_phase = map_prepared_track_queue_sample_phase (qs_phase sample),
      ptq_depth = Some (map_buffer_depth (qs_depth sample))\<rparr>"

definition map_raw_prepared_playout_queue_event :: "PreparedPlayoutQueueEventSnapshot \<Rightarrow> ProtoPlayoutQueueEvent" where
  "map_raw_prepared_playout_queue_event event =
     \<lparr>ppq_event_index = pq_event_index event, ppq_event_kind = map_prepared_playout_queue_event_kind (pq_event_kind event),
      ppq_reason = map_prepared_playout_queue_event_reason (pq_reason event),
      ppq_command_kind = map_send_command_kind (pq_command_kind event), ppq_media_duration_ms = pq_media_duration_ms event,
      ppq_media_duration_samples = pq_media_duration_samples event, ppq_rtp_sequence = pq_rtp_sequence event,
      ppq_rtp_timestamp = pq_rtp_timestamp event, ppq_protection_nonce = pq_protection_nonce event,
      ppq_source_frame_epoch = pq_source_frame_epoch event, ppq_source_media_position_ms = pq_source_media_position_ms event,
      ppq_source_media_byte_position = pq_source_media_byte_position event,
      ppq_queue_depth_after = Some (map_buffer_depth (pq_queue_depth_after event)),
      ppq_source_media_position_samples = pq_source_media_position_samples event\<rparr>"

fun map_session_state :: "SessionState \<Rightarrow> int" where
  "map_session_state Idle = 1"
| "map_session_state ConnectingVoice = 2"
| "map_session_state VoiceReady = 3"
| "map_session_state ResolvingTrack = 4"
| "map_session_state Buffering = 5"
| "map_session_state Playing = 6"
| "map_session_state Paused = 7"
| "map_session_state Stopping = 8"
| "map_session_state ErrorState = 9"

fun map_session_event_kind :: "SessionEventKind \<Rightarrow> int" where
  "map_session_event_kind EvVoiceConnecting = 1"
| "map_session_event_kind EvVoiceReady = 2"
| "map_session_event_kind EvTrackResolving = 3"
| "map_session_event_kind EvBuffering = 4"
| "map_session_event_kind EvPlaying = 5"
| "map_session_event_kind EvPaused = 6"
| "map_session_event_kind EvStopped = 7"
| "map_session_event_kind EvTrackEnded = 8"
| "map_session_event_kind EvPlaybackInterrupted = 9"
| "map_session_event_kind EvRecoverableWarning = 10"
| "map_session_event_kind EvFatalError = 11"
| "map_session_event_kind EvVoiceReconnecting = 12"

definition map_session_event :: "SessionEventRecord \<Rightarrow> ProtoSessionEvent" where
  "map_session_event event =
     \<lparr>pev_kind = map_session_event_kind (RuntimeState.event_kind event), pev_guild_id = unwrap_string (event_guild_id event),
      pev_channel_id = unwrap_string (event_channel_id event),
      pev_current_video_id = unwrap_string (event_current_video_id event),
      pev_selected_itag = unwrap_u32 (event_selected_itag event), pev_message = unwrap_string (event_message event),
      pev_error_code = [], pev_reason = 0\<rparr>"

section \<open>Requests\<close>

definition map_app_error :: "(RuntimeError \<Rightarrow> string) \<Rightarrow> RuntimeError \<Rightarrow> Status" where
  "map_app_error display error = \<lparr>status_code_of = CodeFailedPrecondition, status_message = display error\<rparr>"

definition observe_early_status :: "Status + 'a \<Rightarrow> Observability \<Rightarrow> (Status + 'a) \<times> Observability" where
  "observe_early_status result obs = (result, case result of Inl _ \<Rightarrow> record_rpc obs | Inr _ \<Rightarrow> obs)"

definition validate_non_empty :: "string \<Rightarrow> string \<Rightarrow> Status + unit" where
  "validate_non_empty field value =
    (if trim value = [] then Inl (invalid_argument (field @ '' is required'')) else Inr ())"

definition map_voice_context :: "ProtoVoiceContext \<Rightarrow> Status + VoiceContext" where
  "map_voice_context voice =
     res_bind (validate_non_empty ''guild_id'' (pvc_guild_id voice)) (\<lambda>_.
     res_bind (validate_non_empty ''channel_id'' (pvc_channel_id voice)) (\<lambda>_.
     res_bind (validate_non_empty ''user_id'' (pvc_user_id voice)) (\<lambda>_.
     res_bind (validate_non_empty ''session_id'' (pvc_session_id voice)) (\<lambda>_.
     res_bind (validate_non_empty ''endpoint'' (pvc_endpoint voice)) (\<lambda>_.
     res_bind (validate_non_empty ''token'' (pvc_token voice)) (\<lambda>_.
       Inr \<lparr>vc_guild_id = pvc_guild_id voice, vc_channel_id = pvc_channel_id voice, vc_user_id = pvc_user_id voice,
            vc_session_id = pvc_session_id voice, vc_endpoint = pvc_endpoint voice, vc_token = pvc_token voice\<rparr>))))))"

text \<open>A command goes to the supervisor, and its result is counted.\<close>

type_synonym 's supervisor_send = "Command \<Rightarrow> 's \<Rightarrow> (RuntimeError + unit) \<times> 's"

definition control_rpc ::
  "(RuntimeError \<Rightarrow> string) \<Rightarrow> 's supervisor_send \<Rightarrow> Command \<Rightarrow> Observability \<Rightarrow> 's \<Rightarrow> (Status + unit) \<times> Observability \<times> 's" where
  "control_rpc display send command obs s =
    (case send command s of (r, s1) \<Rightarrow>
       ((case r of Inl err \<Rightarrow> Inl (map_app_error display err) | Inr _ \<Rightarrow> Inr ()), record_rpc obs, s1))"

definition context_rpc ::
  "(RuntimeError \<Rightarrow> string) \<Rightarrow> 's supervisor_send \<Rightarrow> (VoiceContext \<Rightarrow> Command) \<Rightarrow> ProtoVoiceContext option \<Rightarrow> Observability \<Rightarrow> 's
    \<Rightarrow> (Status + unit) \<times> Observability \<times> 's" where
  "context_rpc display send command request obs s =
    (case observe_early_status
            (case request of None \<Rightarrow> Inl (invalid_argument ''missing voice context'') | Some voice \<Rightarrow> map_voice_context voice) obs of
       (Inl status, obs1) \<Rightarrow> (Inl status, obs1, s)
     | (Inr voice, obs1) \<Rightarrow> control_rpc display send (command voice) obs1 s)"

definition rpc_join_voice ::
  "(RuntimeError \<Rightarrow> string) \<Rightarrow> 's supervisor_send \<Rightarrow> ProtoVoiceContext option \<Rightarrow> Observability \<Rightarrow> 's \<Rightarrow> (Status + unit) \<times> Observability \<times> 's" where
  "rpc_join_voice display send request obs s = context_rpc display send JoinVoice request obs s"

definition rpc_update_voice_context ::
  "(RuntimeError \<Rightarrow> string) \<Rightarrow> 's supervisor_send \<Rightarrow> ProtoVoiceContext option \<Rightarrow> Observability \<Rightarrow> 's \<Rightarrow> (Status + unit) \<times> Observability \<times> 's" where
  "rpc_update_voice_context display send request obs s = context_rpc display send UpdateVoiceContext request obs s"

definition rpc_play ::
  "(RuntimeError \<Rightarrow> string) \<Rightarrow> 's supervisor_send \<Rightarrow> string \<Rightarrow> Observability \<Rightarrow> 's \<Rightarrow> (Status + unit) \<times> Observability \<times> 's" where
  "rpc_play display send video_id obs s =
    (case observe_early_status (validate_non_empty ''video_id'' video_id) obs of
       (Inl status, obs1) \<Rightarrow> (Inl status, obs1, s)
     | (Inr _, obs1) \<Rightarrow> control_rpc display send (Play video_id) obs1 s)"

definition rpc_pause where "rpc_pause display send obs s = control_rpc display send Pause obs s"
definition rpc_resume where "rpc_resume display send obs s = control_rpc display send Resume obs s"
definition rpc_stop where "rpc_stop display send obs s = control_rpc display send Stop obs s"
definition rpc_leave_voice where "rpc_leave_voice display send obs s = control_rpc display send LeaveVoice obs s"

definition state_message :: "Snapshot \<Rightarrow> ProtoSessionStateSnapshot" where
  "state_message snapshot =
     \<lparr>pst_state = map_session_state (snap_state snapshot), pst_guild_id = unwrap_string (snap_guild_id snapshot),
      pst_channel_id = unwrap_string (snap_channel_id snapshot),
      pst_current_video_id = unwrap_string (snap_current_video_id snapshot),
      pst_queue_depth = (if snap_queue_depth snapshot < 2 ^ 32 then of_nat (snap_queue_depth snapshot) else - 1),
      pst_selected_itag = unwrap_u32 (snap_selected_itag snapshot), pst_message = unwrap_string (snap_last_reason snapshot)\<rparr>"

definition rpc_get_state :: "Snapshot \<Rightarrow> Observability \<Rightarrow> ProtoSessionStateSnapshot \<times> Observability" where
  "rpc_get_state snapshot obs = (state_message snapshot, record_rpc (record_state_query obs))"

text \<open>What the broadcast channel delivers to a subscriber: an event, that some were missed, or its end.\<close>

datatype recv_result = RecvEvent SessionEventRecord | RecvLagged nat | RecvClosed

fun subscribe_events :: "recv_result list \<Rightarrow> ProtoSessionEvent list" where
  "subscribe_events [] = []"
| "subscribe_events (RecvEvent event # rest) = map_session_event event # subscribe_events rest"
| "subscribe_events (RecvLagged _ # rest) = subscribe_events rest"
| "subscribe_events (RecvClosed # rest) = []"

section \<open>Settings\<close>

text \<open>A socket address of the standard library; of a V6 address the scope is read and not kept.\<close>

definition read_port :: "string \<Rightarrow> (u16 \<times> string) option" where
  "read_port s =
    (case read_char CHR '':'' s of
       None \<Rightarrow> None
     | Some rest \<Rightarrow>
        (case read_number 10 (length rest) True 65536 rest of None \<Rightarrow> None | Some (n, rest1) \<Rightarrow> Some (word_of_nat n, rest1)))"

definition read_scope_id :: "string \<Rightarrow> string" where
  "read_scope_id s =
    (case read_char CHR ''%'' s of
       None \<Rightarrow> s
     | Some rest \<Rightarrow> (case read_number 10 (length rest) True (2 ^ 32) rest of None \<Rightarrow> s | Some (_, rest1) \<Rightarrow> rest1))"

definition read_socket_addr_v6 :: "string \<Rightarrow> (SocketAddr \<times> string) option" where
  "read_socket_addr_v6 s =
    (case read_char CHR ''['' s of
       None \<Rightarrow> None
     | Some rest \<Rightarrow>
        (case read_ipv6_addr rest of
           None \<Rightarrow> None
         | Some (groups, rest1) \<Rightarrow>
            (case read_char CHR '']'' (read_scope_id rest1) of
               None \<Rightarrow> None
             | Some rest2 \<Rightarrow>
                (case read_port rest2 of
                   None \<Rightarrow> None
                 | Some (port, rest3) \<Rightarrow> Some (\<lparr>addr_ip = V6 groups, addr_port = port\<rparr>, rest3)))))"

definition parse_socket_addr :: "string \<Rightarrow> SocketAddr option" where
  "parse_socket_addr s =
    (let v6 = (case read_socket_addr_v6 s of Some (addr, rest) \<Rightarrow> if rest = [] then Some addr else None | None \<Rightarrow> None) in
     case read_ipv4_addr s of
       Some ([a, b, c, d], rest) \<Rightarrow>
        (case read_port rest of
           Some (port, rest1) \<Rightarrow> if rest1 = [] then Some \<lparr>addr_ip = V4 a b c d, addr_port = port\<rparr> else None
         | None \<Rightarrow> v6)
     | _ \<Rightarrow> v6)"

record Settings =
  bind_addr :: SocketAddr
  ytmusic_addr :: string

datatype env_value = EnvValue string | EnvNotPresent | EnvNotUnicode

definition BIND_ADDR :: string where "BIND_ADDR = ''DISCORD_VOICE_SERVICE_BIND_ADDR''"
definition YTMUSIC_ADDR :: string where "YTMUSIC_ADDR = ''DISCORD_VOICE_SERVICE_YTMUSIC_ADDR''"

definition missing_env_error :: "string \<Rightarrow> string" where
  "missing_env_error key =
    (if key = BIND_ADDR then ''missing DISCORD_VOICE_SERVICE_BIND_ADDR''
     else if key = YTMUSIC_ADDR then ''missing DISCORD_VOICE_SERVICE_YTMUSIC_ADDR'' else ''missing required environment variable'')"

definition invalid_env_error :: "string \<Rightarrow> string" where
  "invalid_env_error key =
    (if key = BIND_ADDR then ''invalid DISCORD_VOICE_SERVICE_BIND_ADDR''
     else if key = YTMUSIC_ADDR then ''invalid DISCORD_VOICE_SERVICE_YTMUSIC_ADDR'' else ''invalid environment variable'')"

definition read_env :: "(string \<Rightarrow> env_value) \<Rightarrow> string \<Rightarrow> RuntimeError + string" where
  "read_env env key =
    (case env key of
       EnvValue value \<Rightarrow> Inr value
     | EnvNotPresent \<Rightarrow> Inl (RuntimeInvalidState (missing_env_error key))
     | EnvNotUnicode \<Rightarrow> Inl (RuntimeInvalidState (invalid_env_error key)))"

definition validate_ytmusic_addr :: "http_lib \<Rightarrow> string \<Rightarrow> RuntimeError + unit" where
  "validate_ytmusic_addr http value =
    (case http_parse http value of
       None \<Rightarrow> Inl (RuntimeInvalidState (invalid_env_error YTMUSIC_ADDR))
     | Some uri \<Rightarrow>
        (if (uri_scheme uri = Some ''http'' \<or> uri_scheme uri = Some ''https'') \<and> uri_host uri \<noteq> None then Inr ()
         else Inl (RuntimeInvalidState (invalid_env_error YTMUSIC_ADDR))))"

definition settings_from_values :: "http_lib \<Rightarrow> string \<Rightarrow> string \<Rightarrow> RuntimeError + Settings" where
  "settings_from_values http bind ytmusic =
     res_bind (ok_or (RuntimeInvalidState (invalid_env_error BIND_ADDR)) (parse_socket_addr bind)) (\<lambda>addr.
     res_bind (validate_ytmusic_addr http ytmusic) (\<lambda>_. Inr \<lparr>bind_addr = addr, ytmusic_addr = ytmusic\<rparr>))"

definition settings_from_env :: "http_lib \<Rightarrow> (string \<Rightarrow> env_value) \<Rightarrow> RuntimeError + Settings" where
  "settings_from_env http env =
     res_bind (read_env env BIND_ADDR) (\<lambda>bind.
     res_bind (read_env env YTMUSIC_ADDR) (\<lambda>ytmusic. settings_from_values http bind ytmusic))"

definition settings_from_map :: "http_lib \<Rightarrow> (string \<rightharpoonup> string) \<Rightarrow> RuntimeError + Settings" where
  "settings_from_map http env =
     res_bind (ok_or (RuntimeInvalidState (missing_env_error BIND_ADDR)) (env BIND_ADDR)) (\<lambda>bind.
     res_bind (ok_or (RuntimeInvalidState (missing_env_error YTMUSIC_ADDR)) (env YTMUSIC_ADDR)) (\<lambda>ytmusic.
       settings_from_values http bind ytmusic))"

definition settings_from_pairs :: "http_lib \<Rightarrow> (string \<times> string) list \<Rightarrow> RuntimeError + Settings" where
  "settings_from_pairs http pairs = settings_from_map http (map_of (rev pairs))"

section \<open>Health\<close>

text \<open>Readiness with its counters, and whether both health services report serving.\<close>

record daemon =
  dm_readiness :: ReadinessSnapshot
  dm_observability :: Observability
  dm_serving :: bool

definition set_serving_status :: "bool \<Rightarrow> daemon \<Rightarrow> daemon" where
  "set_serving_status serving d = d\<lparr>dm_serving := serving\<rparr>"

definition daemon_start :: "ReadinessSnapshot \<Rightarrow> Observability \<Rightarrow> bool \<Rightarrow> daemon" where
  "daemon_start readiness obs serving =
    (case mark_runtime_booted (readiness, obs) of (r, obs1) \<Rightarrow>
       set_serving_status False \<lparr>dm_readiness = r, dm_observability = obs1, dm_serving = serving\<rparr>)"

text \<open>A probe answers whether the endpoint is valid and could be reached.\<close>

definition probe_ytmusic :: "bool \<Rightarrow> bool \<Rightarrow> bool" where
  "probe_ytmusic endpoint_valid connected \<longleftrightarrow> endpoint_valid \<and> connected"

definition probe_round :: "bool \<Rightarrow> daemon \<Rightarrow> daemon" where
  "probe_round healthy d =
    (let obs = record_ytmusic_probe (dm_observability d);
         (r, obs1) = (if healthy then mark_ytmusic_healthy (dm_readiness d, obs) else mark_ytmusic_unhealthy (dm_readiness d, obs))
     in set_serving_status healthy (d\<lparr>dm_readiness := r, dm_observability := obs1\<rparr>))"

definition run_ytmusic_probe_loop :: "bool list \<Rightarrow> daemon \<Rightarrow> daemon" where
  "run_ytmusic_probe_loop probes d = fold probe_round probes d"

end
