(* ===== verification/TwilightClient.thy ===== *)
theory TwilightClient
  imports ControlApi
begin

text \<open>
  The client for Twilight bots (\<open>discord-voice-service-twilight/src/lib.rs\<close>): voice contexts with typed ids, the
  tracker that collects a context from gateway events, the calls of the control API and those that pair one with a
  gateway command, and the readings of the service's messages. Printing and parsing an \<open>Id\<close> of \<open>twilight-model\<close>, the
  RPC transport and the gateway sender are parameters. The message with all playback metrics is not modelled; the
  messages inside it are.
\<close>

section \<open>Ids and contexts\<close>

text \<open>\<open>Id\<close> of \<open>twilight-model\<close>: a number that prints and parses.\<close>

type_synonym id = u64

record id_lib =
  show_id :: "id \<Rightarrow> string"
  parse_id :: "string \<Rightarrow> id option"

text \<open>What the client relies on: an id prints as one to twenty decimal digits and parses back.\<close>

definition id_lib_law :: "id_lib \<Rightarrow> bool" where
  "id_lib_law lib \<longleftrightarrow>
    (\<forall>n. n \<noteq> 0 \<longrightarrow> show_id lib n \<noteq> [] \<and> list_all is_digit (show_id lib n) \<and> parse_id lib (show_id lib n) = Some n)"

record ClientVoiceContext =
  cvc_guild_id :: id
  cvc_channel_id :: id
  cvc_user_id :: id
  cvc_session_id :: string
  cvc_endpoint :: string
  cvc_token :: string

definition into_proto :: "id_lib \<Rightarrow> ClientVoiceContext \<Rightarrow> ProtoVoiceContext" where
  "into_proto lib v =
     \<lparr>pvc_guild_id = show_id lib (cvc_guild_id v), pvc_channel_id = show_id lib (cvc_channel_id v),
      pvc_session_id = cvc_session_id v, pvc_endpoint = cvc_endpoint v, pvc_token = cvc_token v,
      pvc_user_id = show_id lib (cvc_user_id v)\<rparr>"

text \<open>The gateway command that moves the bot: the guild, the channel or none, and the flags.\<close>

record UpdateVoiceState =
  uvs_guild_id :: id
  uvs_channel_id :: "id option"
  uvs_self_deaf :: bool
  uvs_self_mute :: bool

definition join_voice_channel :: "id \<Rightarrow> id \<Rightarrow> bool \<Rightarrow> bool \<Rightarrow> UpdateVoiceState" where
  "join_voice_channel guild channel self_deaf self_mute =
     \<lparr>uvs_guild_id = guild, uvs_channel_id = Some channel, uvs_self_deaf = self_deaf, uvs_self_mute = self_mute\<rparr>"

definition leave_voice_channel :: "id \<Rightarrow> UpdateVoiceState" where
  "leave_voice_channel guild =
     \<lparr>uvs_guild_id = guild, uvs_channel_id = None, uvs_self_deaf = False, uvs_self_mute = False\<rparr>"

definition join_command :: "ClientVoiceContext \<Rightarrow> bool \<Rightarrow> bool \<Rightarrow> UpdateVoiceState" where
  "join_command v self_deaf self_mute = join_voice_channel (cvc_guild_id v) (cvc_channel_id v) self_deaf self_mute"

section \<open>Tracker\<close>

record VoiceContextTracker =
  tk_guild_id :: id
  tk_channel_id :: id
  tk_user_id :: id
  tk_session_id :: "string option"
  tk_endpoint :: "string option"
  tk_token :: "string option"
  tk_current :: "ClientVoiceContext option"

definition tracker_new :: "id \<Rightarrow> id \<Rightarrow> id \<Rightarrow> VoiceContextTracker" where
  "tracker_new guild channel user =
     \<lparr>tk_guild_id = guild, tk_channel_id = channel, tk_user_id = user, tk_session_id = None, tk_endpoint = None,
      tk_token = None, tk_current = None\<rparr>"

definition tracker_from_context :: "ClientVoiceContext \<Rightarrow> VoiceContextTracker" where
  "tracker_from_context v =
     \<lparr>tk_guild_id = cvc_guild_id v, tk_channel_id = cvc_channel_id v, tk_user_id = cvc_user_id v,
      tk_session_id = Some (cvc_session_id v), tk_endpoint = Some (cvc_endpoint v), tk_token = Some (cvc_token v),
      tk_current = Some v\<rparr>"

definition tracker_reset :: "VoiceContextTracker \<Rightarrow> VoiceContextTracker" where
  "tracker_reset tk = tk\<lparr>tk_session_id := None, tk_endpoint := None, tk_token := None, tk_current := None\<rparr>"

record VoiceStateUpdate =
  vsu_guild_id :: "id option"
  vsu_channel_id :: "id option"
  vsu_user_id :: id
  vsu_session_id :: string

record VoiceServerUpdate =
  vse_guild_id :: id
  vse_endpoint :: "string option"
  vse_token :: string

datatype bot_event = StateUpdate VoiceStateUpdate | ServerUpdate VoiceServerUpdate | OtherEvent

definition tracker_notes :: "bot_event \<Rightarrow> VoiceContextTracker \<Rightarrow> VoiceContextTracker" where
  "tracker_notes event tk =
    (case event of
       StateUpdate update \<Rightarrow>
        (if vsu_user_id update = tk_user_id tk \<and> vsu_guild_id update = Some (tk_guild_id tk) \<and> vsu_channel_id update = None then
           tracker_reset tk
         else if vsu_user_id update = tk_user_id tk \<and> vsu_guild_id update = Some (tk_guild_id tk) \<and>
            vsu_channel_id update = Some (tk_channel_id tk) then
           tk\<lparr>tk_session_id := Some (vsu_session_id update)\<rparr>
         else tk)
     | ServerUpdate update \<Rightarrow>
        (if vse_guild_id update = tk_guild_id tk then
           (let tk1 = (case vse_endpoint update of
                         Some endpoint \<Rightarrow> if endpoint \<noteq> [] then tk\<lparr>tk_endpoint := Some endpoint\<rparr> else tk
                       | None \<Rightarrow> tk)
            in if vse_token update \<noteq> [] then tk1\<lparr>tk_token := Some (vse_token update)\<rparr> else tk1)
         else tk)
     | OtherEvent \<Rightarrow> tk)"

definition tracker_context :: "VoiceContextTracker \<Rightarrow> ClientVoiceContext option" where
  "tracker_context tk =
    (case (tk_session_id tk, tk_endpoint tk, tk_token tk) of
       (Some session, Some endpoint, Some token) \<Rightarrow>
         Some \<lparr>cvc_guild_id = tk_guild_id tk, cvc_channel_id = tk_channel_id tk, cvc_user_id = tk_user_id tk,
               cvc_session_id = session, cvc_endpoint = endpoint, cvc_token = token\<rparr>
     | _ \<Rightarrow> None)"

definition observe :: "bot_event \<Rightarrow> VoiceContextTracker \<Rightarrow> ClientVoiceContext option \<times> VoiceContextTracker" where
  "observe event tk =
    (let tk1 = tracker_notes event tk in
     case tracker_context tk1 of
       None \<Rightarrow> (None, tk1)
     | Some v \<Rightarrow> if tk_current tk1 = Some v then (None, tk1) else (Some v, tk1\<lparr>tk_current := Some v\<rparr>))"

fun observe_all :: "bot_event list \<Rightarrow> VoiceContextTracker \<Rightarrow> ClientVoiceContext option list \<times> VoiceContextTracker" where
  "observe_all [] tk = ([], tk)"
| "observe_all (event # events) tk =
    (case observe event tk of (r, tk1) \<Rightarrow> (case observe_all events tk1 of (rs, tk2) \<Rightarrow> (r # rs, tk2)))"

section \<open>Calls\<close>

text \<open>A call of the generated client: the request goes to the service and its status comes back.\<close>

type_synonym ('req, 's) rpc_call = "'req \<Rightarrow> 's \<Rightarrow> (Status + unit) \<times> 's"

definition client_join_voice :: "id_lib \<Rightarrow> (ProtoVoiceContext option, 's) rpc_call \<Rightarrow> ClientVoiceContext \<Rightarrow> 's \<Rightarrow> (Status + unit) \<times> 's" where
  "client_join_voice lib call v s = call (Some (into_proto lib v)) s"

definition client_update_voice_context :: "id_lib \<Rightarrow> (ProtoVoiceContext option, 's) rpc_call \<Rightarrow> ClientVoiceContext \<Rightarrow> 's \<Rightarrow> (Status + unit) \<times> 's" where
  "client_update_voice_context lib call v s = call (Some (into_proto lib v)) s"

datatype 'e GatewayVoiceControlError = ControlFailed Status | GatewayFailed 'e

type_synonym ('e, 's) gateway_command = "UpdateVoiceState \<Rightarrow> 's \<Rightarrow> ('e + unit) \<times> 's"

definition set_voice_self_mute :: "('e, 's) gateway_command \<Rightarrow> ClientVoiceContext \<Rightarrow> bool \<Rightarrow> bool \<Rightarrow> 's \<Rightarrow> ('e + unit) \<times> 's" where
  "set_voice_self_mute command v self_deaf self_mute s = command (join_command v self_deaf self_mute) s"

definition pause_and_self_mute ::
  "('s \<Rightarrow> (Status + unit) \<times> 's) \<Rightarrow> ('e, 's) gateway_command \<Rightarrow> ClientVoiceContext \<Rightarrow> bool \<Rightarrow> 's \<Rightarrow> ('e GatewayVoiceControlError + unit) \<times> 's" where
  "pause_and_self_mute pause command v self_deaf s =
    (case pause s of
       (Inl status, s1) \<Rightarrow> (Inl (ControlFailed status), s1)
     | (Inr _, s1) \<Rightarrow>
        (case set_voice_self_mute command v self_deaf True s1 of
           (Inl err, s2) \<Rightarrow> (Inl (GatewayFailed err), s2)
         | (Inr _, s2) \<Rightarrow> (Inr (), s2)))"

definition pause_and_leave ::
  "('s \<Rightarrow> (Status + unit) \<times> 's) \<Rightarrow> ('e, 's) gateway_command \<Rightarrow> ClientVoiceContext \<Rightarrow> 's \<Rightarrow> ('e GatewayVoiceControlError + unit) \<times> 's" where
  "pause_and_leave pause command v s =
    (case pause s of
       (Inl status, s1) \<Rightarrow> (Inl (ControlFailed status), s1)
     | (Inr _, s1) \<Rightarrow>
        (case command (leave_voice_channel (cvc_guild_id v)) s1 of
           (Inl err, s2) \<Rightarrow> (Inl (GatewayFailed err), s2)
         | (Inr _, s2) \<Rightarrow> (Inr (), s2)))"

definition resume_and_self_unmute ::
  "('s \<Rightarrow> (Status + unit) \<times> 's) \<Rightarrow> ('e, 's) gateway_command \<Rightarrow> ClientVoiceContext \<Rightarrow> bool \<Rightarrow> 's \<Rightarrow> ('e GatewayVoiceControlError + unit) \<times> 's" where
  "resume_and_self_unmute resume command v self_deaf s =
    (case set_voice_self_mute command v self_deaf False s of
       (Inl err, s1) \<Rightarrow> (Inl (GatewayFailed err), s1)
     | (Inr _, s1) \<Rightarrow>
        (case resume s1 of
           (Inl status, s2) \<Rightarrow> (Inl (ControlFailed status), s2)
         | (Inr _, s2) \<Rightarrow> (Inr (), s2)))"

section \<open>Readings of the service's messages\<close>

record InvalidId =
  iid_field :: string
  iid_value :: string

definition parse_optional_id :: "id_lib \<Rightarrow> string \<Rightarrow> string \<Rightarrow> InvalidId + id option" where
  "parse_optional_id lib field value =
    (if value = [] then Inr None
     else (case parse_id lib value of Some n \<Rightarrow> Inr (Some n) | None \<Rightarrow> Inl \<lparr>iid_field = field, iid_value = value\<rparr>))"

definition non_empty :: "string \<Rightarrow> string option" where
  "non_empty value = (if value \<noteq> [] then Some value else None)"

definition non_zero :: "u32 \<Rightarrow> u32 option" where
  "non_zero value = (if value \<noteq> 0 then Some value else None)"

datatype ClientSessionState =
    ClientStateUnspecified | ClientIdle | ClientConnectingVoice | ClientVoiceReady | ClientResolvingTrack
  | ClientBuffering | ClientPlaying | ClientPaused | ClientStopping | ClientErrorState
  | ClientStateUnknown int

definition SessionState_from_raw :: "int \<Rightarrow> ClientSessionState" where
  "SessionState_from_raw value =
    (if value = 0 then ClientStateUnspecified
     else if value = 1 then ClientIdle
     else if value = 2 then ClientConnectingVoice
     else if value = 3 then ClientVoiceReady
     else if value = 4 then ClientResolvingTrack
     else if value = 5 then ClientBuffering
     else if value = 6 then ClientPlaying
     else if value = 7 then ClientPaused
     else if value = 8 then ClientStopping
     else if value = 9 then ClientErrorState
     else ClientStateUnknown value)"

datatype ClientSessionEventKind =
    ClientKindUnspecified | ClientVoiceConnecting | ClientVoiceReadyEvent | ClientTrackResolving
  | ClientBufferingEvent | ClientPlayingEvent | ClientPausedEvent | ClientStoppedEvent | ClientTrackEnded
  | ClientPlaybackInterrupted | ClientRecoverableWarning | ClientFatalError | ClientVoiceReconnecting
  | ClientKindUnknown int

definition SessionEventKind_from_raw :: "int \<Rightarrow> ClientSessionEventKind" where
  "SessionEventKind_from_raw value =
    (if value = 0 then ClientKindUnspecified
     else if value = 1 then ClientVoiceConnecting
     else if value = 2 then ClientVoiceReadyEvent
     else if value = 3 then ClientTrackResolving
     else if value = 4 then ClientBufferingEvent
     else if value = 5 then ClientPlayingEvent
     else if value = 6 then ClientPausedEvent
     else if value = 7 then ClientStoppedEvent
     else if value = 8 then ClientTrackEnded
     else if value = 9 then ClientPlaybackInterrupted
     else if value = 10 then ClientRecoverableWarning
     else if value = 11 then ClientFatalError
     else if value = 12 then ClientVoiceReconnecting
     else ClientKindUnknown value)"

fun as_str_name :: "ClientSessionEventKind \<Rightarrow> string" where
  "as_str_name ClientKindUnspecified = ''SESSION_EVENT_KIND_UNSPECIFIED''"
| "as_str_name ClientVoiceConnecting = ''VOICE_CONNECTING''"
| "as_str_name ClientVoiceReadyEvent = ''VOICE_READY''"
| "as_str_name ClientTrackResolving = ''TRACK_RESOLVING''"
| "as_str_name ClientBufferingEvent = ''BUFFERING''"
| "as_str_name ClientPlayingEvent = ''PLAYING''"
| "as_str_name ClientPausedEvent = ''PAUSED''"
| "as_str_name ClientStoppedEvent = ''STOPPED''"
| "as_str_name ClientTrackEnded = ''TRACK_ENDED''"
| "as_str_name ClientPlaybackInterrupted = ''PLAYBACK_INTERRUPTED''"
| "as_str_name ClientRecoverableWarning = ''RECOVERABLE_WARNING''"
| "as_str_name ClientFatalError = ''FATAL_ERROR''"
| "as_str_name ClientVoiceReconnecting = ''VOICE_RECONNECTING''"
| "as_str_name (ClientKindUnknown _) = ''UNKNOWN''"

datatype ClientSessionEventReason =
    ClientReasonNotGiven | ClientJoinTimeout | ClientJoinFailed | ClientInvalidVoiceToken
  | ClientVoiceResumeFailed | ClientDaveTransitionFailed | ClientUnsupportedEncryptionMode
  | ClientUdpDiscoveryFailed | ClientUpstreamUrlStale | ClientPlaybackSourceUnsupported
  | ClientReasonUnknown int

definition SessionEventReason_from_raw :: "int \<Rightarrow> ClientSessionEventReason" where
  "SessionEventReason_from_raw value =
    (if value = 0 then ClientReasonNotGiven
     else if value = 1 then ClientJoinTimeout
     else if value = 2 then ClientJoinFailed
     else if value = 3 then ClientInvalidVoiceToken
     else if value = 4 then ClientVoiceResumeFailed
     else if value = 5 then ClientDaveTransitionFailed
     else if value = 6 then ClientUnsupportedEncryptionMode
     else if value = 7 then ClientUdpDiscoveryFailed
     else if value = 8 then ClientUpstreamUrlStale
     else if value = 9 then ClientPlaybackSourceUnsupported
     else ClientReasonUnknown value)"

record StateSnapshot =
  cs_state :: ClientSessionState
  cs_guild_id :: "id option"
  cs_channel_id :: "id option"
  cs_current_video_id :: "string option"
  cs_queue_depth :: u32
  cs_selected_itag :: "u32 option"
  cs_message :: "string option"

definition StateSnapshot_try_from :: "id_lib \<Rightarrow> ProtoSessionStateSnapshot \<Rightarrow> InvalidId + StateSnapshot" where
  "StateSnapshot_try_from lib value =
     res_bind (parse_optional_id lib ''guild_id'' (pst_guild_id value)) (\<lambda>guild.
     res_bind (parse_optional_id lib ''channel_id'' (pst_channel_id value)) (\<lambda>channel.
       Inr \<lparr>cs_state = SessionState_from_raw (pst_state value), cs_guild_id = guild, cs_channel_id = channel,
            cs_current_video_id = non_empty (pst_current_video_id value), cs_queue_depth = pst_queue_depth value,
            cs_selected_itag = non_zero (pst_selected_itag value), cs_message = non_empty (pst_message value)\<rparr>))"

record SessionEvent =
  ce_kind :: ClientSessionEventKind
  ce_guild_id :: "id option"
  ce_channel_id :: "id option"
  ce_current_video_id :: "string option"
  ce_selected_itag :: "u32 option"
  ce_message :: "string option"
  ce_error_code :: "string option"
  ce_reason :: ClientSessionEventReason

definition SessionEvent_try_from :: "id_lib \<Rightarrow> ProtoSessionEvent \<Rightarrow> InvalidId + SessionEvent" where
  "SessionEvent_try_from lib value =
     res_bind (parse_optional_id lib ''guild_id'' (pev_guild_id value)) (\<lambda>guild.
     res_bind (parse_optional_id lib ''channel_id'' (pev_channel_id value)) (\<lambda>channel.
       Inr \<lparr>ce_kind = SessionEventKind_from_raw (pev_kind value), ce_guild_id = guild, ce_channel_id = channel,
            ce_current_video_id = non_empty (pev_current_video_id value), ce_selected_itag = non_zero (pev_selected_itag value),
            ce_message = non_empty (pev_message value), ce_error_code = non_empty (pev_error_code value),
            ce_reason = SessionEventReason_from_raw (pev_reason value)\<rparr>))"

definition Status_from_InvalidId :: "(InvalidId \<Rightarrow> string) \<Rightarrow> InvalidId \<Rightarrow> Status" where
  "Status_from_InvalidId display err = \<lparr>status_code_of = CodeInternal, status_message = display err\<rparr>"

definition client_state ::
  "id_lib \<Rightarrow> (InvalidId \<Rightarrow> string) \<Rightarrow> ('s \<Rightarrow> (Status + ProtoSessionStateSnapshot) \<times> 's) \<Rightarrow> 's \<Rightarrow> (Status + StateSnapshot) \<times> 's" where
  "client_state lib display get_state s =
    (case get_state s of
       (Inl status, s1) \<Rightarrow> (Inl status, s1)
     | (Inr message, s1) \<Rightarrow> (map_sum (Status_from_InvalidId display) (\<lambda>x. x) (StateSnapshot_try_from lib message), s1))"

text \<open>The next typed event of a stream: a status, an event, or the end.\<close>

definition EventStream_message ::
  "id_lib \<Rightarrow> (InvalidId \<Rightarrow> string) \<Rightarrow> Status + ProtoSessionEvent option \<Rightarrow> Status + SessionEvent option" where
  "EventStream_message lib display received =
     res_bind received (\<lambda>message.
       case message of
         None \<Rightarrow> Inr None
       | Some event \<Rightarrow> map_sum (Status_from_InvalidId display) Some (SessionEvent_try_from lib event))"

section \<open>Readings of the metrics\<close>

record ClientDurationStats =
  cds_samples :: u64
  cds_p50_ms :: u64
  cds_p95_ms :: u64
  cds_p99_ms :: u64
  cds_min_ms :: u64
  cds_max_ms :: u64

definition ClientDurationStats_from :: "ProtoDurationStats \<Rightarrow> ClientDurationStats" where
  "ClientDurationStats_from value =
     \<lparr>cds_samples = pds_samples value, cds_p50_ms = pds_p50_ms value, cds_p95_ms = pds_p95_ms value,
      cds_p99_ms = pds_p99_ms value, cds_min_ms = pds_min_ms value, cds_max_ms = pds_max_ms value\<rparr>"

record ClientBufferDepth =
  cbd_packets :: u64
  cbd_bytes :: u64
  cbd_duration_ms :: u64
  cbd_duration_samples :: u64

definition ClientBufferDepth_from :: "ProtoBufferDepth \<Rightarrow> ClientBufferDepth" where
  "ClientBufferDepth_from value =
     \<lparr>cbd_packets = pbd_packets value, cbd_bytes = pbd_bytes value, cbd_duration_ms = pbd_duration_ms value,
      cbd_duration_samples = pbd_duration_samples value\<rparr>"

text \<open>A depth that is missing reads as the default message.\<close>

definition depth_or_default :: "ProtoBufferDepth option \<Rightarrow> ClientBufferDepth" where
  "depth_or_default value =
     ClientBufferDepth_from
       (case value of
          Some depth \<Rightarrow> depth
        | None \<Rightarrow> \<lparr>pbd_packets = 0, pbd_bytes = 0, pbd_duration_ms = 0, pbd_duration_samples = 0\<rparr>)"

record ClientQueueDepthStats =
  cqd_sample_count :: u64
  cqd_empty_count :: u64
  cqd_current_depth :: ClientBufferDepth
  cqd_min_depth :: ClientBufferDepth
  cqd_p5_depth :: ClientBufferDepth
  cqd_p50_depth :: ClientBufferDepth
  cqd_p95_depth :: ClientBufferDepth
  cqd_max_depth :: ClientBufferDepth

definition ClientQueueDepthStats_from :: "ProtoQueueDepthStats \<Rightarrow> ClientQueueDepthStats" where
  "ClientQueueDepthStats_from value =
     \<lparr>cqd_sample_count = pqd_sample_count value, cqd_empty_count = pqd_empty_count value,
      cqd_current_depth = depth_or_default (pqd_current_depth value), cqd_min_depth = depth_or_default (pqd_min_depth value),
      cqd_p5_depth = depth_or_default (pqd_p5_depth value), cqd_p50_depth = depth_or_default (pqd_p50_depth value),
      cqd_p95_depth = depth_or_default (pqd_p95_depth value), cqd_max_depth = depth_or_default (pqd_max_depth value)\<rparr>"

datatype ClientSendCommandKind =
    ClientSendTrack | ClientSendScheduledSilence | ClientSendBoundarySilence | ClientSendOtherBoundary
  | ClientSendUnspecified

definition SendCommandKind_from_raw :: "int \<Rightarrow> ClientSendCommandKind" where
  "SendCommandKind_from_raw value =
    (if value = 1 then ClientSendTrack
     else if value = 2 then ClientSendScheduledSilence
     else if value = 3 then ClientSendBoundarySilence
     else if value = 4 then ClientSendOtherBoundary
     else ClientSendUnspecified)"

datatype ClientTrackQueueSamplePhase =
    ClientPhaseActivePrePause | ClientPhaseActivePostResume | ClientPhaseUnspecified

definition TrackQueueSamplePhase_from_raw :: "int \<Rightarrow> ClientTrackQueueSamplePhase" where
  "TrackQueueSamplePhase_from_raw value =
    (if value = 1 then ClientPhaseActivePrePause
     else if value = 2 then ClientPhaseActivePostResume
     else ClientPhaseUnspecified)"

datatype ClientPlayoutQueueEventKind =
    ClientPlayoutEnqueued | ClientPlayoutDequeuedToDeadlineSender | ClientPlayoutDroppedBeforeSend
  | ClientPlayoutRebuilt | ClientPlayoutUnspecified

definition PlayoutQueueEventKind_from_raw :: "int \<Rightarrow> ClientPlayoutQueueEventKind" where
  "PlayoutQueueEventKind_from_raw value =
    (if value = 1 then ClientPlayoutEnqueued
     else if value = 2 then ClientPlayoutDequeuedToDeadlineSender
     else if value = 3 then ClientPlayoutDroppedBeforeSend
     else if value = 4 then ClientPlayoutRebuilt
     else ClientPlayoutUnspecified)"

datatype ClientPlayoutQueueEventReason =
    ClientPlayoutReasonSteadyPlayback | ClientPlayoutReasonPause | ClientPlayoutReasonStop
  | ClientPlayoutReasonDaveTransitionRecovery | ClientPlayoutReasonReconnect
  | ClientPlayoutReasonSourceUnderrun | ClientPlayoutReasonNaturalEnd | ClientPlayoutReasonInterruption
  | ClientPlayoutReasonUnspecified

definition PlayoutQueueEventReason_from_raw :: "int \<Rightarrow> ClientPlayoutQueueEventReason" where
  "PlayoutQueueEventReason_from_raw value =
    (if value = 1 then ClientPlayoutReasonSteadyPlayback
     else if value = 2 then ClientPlayoutReasonPause
     else if value = 3 then ClientPlayoutReasonStop
     else if value = 4 then ClientPlayoutReasonDaveTransitionRecovery
     else if value = 5 then ClientPlayoutReasonReconnect
     else if value = 6 then ClientPlayoutReasonSourceUnderrun
     else if value = 7 then ClientPlayoutReasonNaturalEnd
     else if value = 8 then ClientPlayoutReasonInterruption
     else ClientPlayoutReasonUnspecified)"

record ClientSendEvent =
  cse_packet_index :: u64
  cse_command_kind :: ClientSendCommandKind
  cse_expected_deadline_offset_us :: u64
  cse_send_started_offset_us :: u64
  cse_sent_offset_us :: u64
  cse_media_duration_ms :: u64
  cse_media_duration_samples :: u32
  cse_rtp_sequence :: u32
  cse_rtp_timestamp :: u32
  cse_protection_nonce :: "u32 option"
  cse_source_frame_epoch :: "u64 option"
  cse_source_media_position_ms :: "u64 option"
  cse_source_media_position_samples :: "u64 option"
  cse_source_media_byte_position :: "u64 option"
  cse_committed_heard_media :: bool

definition ClientSendEvent_from :: "ProtoSendEvent \<Rightarrow> ClientSendEvent" where
  "ClientSendEvent_from value =
     \<lparr>cse_packet_index = pse_packet_index value, cse_command_kind = SendCommandKind_from_raw (pse_command_kind value),
      cse_expected_deadline_offset_us = pse_expected_deadline_offset_us value,
      cse_send_started_offset_us = pse_send_started_offset_us value, cse_sent_offset_us = pse_sent_offset_us value,
      cse_media_duration_ms = pse_media_duration_ms value, cse_media_duration_samples = pse_media_duration_samples value,
      cse_rtp_sequence = pse_rtp_sequence value, cse_rtp_timestamp = pse_rtp_timestamp value,
      cse_protection_nonce = pse_protection_nonce value, cse_source_frame_epoch = pse_source_frame_epoch value,
      cse_source_media_position_ms = pse_source_media_position_ms value,
      cse_source_media_position_samples = pse_source_media_position_samples value,
      cse_source_media_byte_position = pse_source_media_byte_position value,
      cse_committed_heard_media = pse_committed_heard_media value\<rparr>"

record ClientTrackQueueSample =
  ctq_sample_index :: u64
  ctq_phase :: ClientTrackQueueSamplePhase
  ctq_depth :: ClientBufferDepth

definition ClientTrackQueueSample_from :: "ProtoTrackQueueSample \<Rightarrow> ClientTrackQueueSample" where
  "ClientTrackQueueSample_from value =
     \<lparr>ctq_sample_index = ptq_sample_index value, ctq_phase = TrackQueueSamplePhase_from_raw (ptq_phase value),
      ctq_depth = depth_or_default (ptq_depth value)\<rparr>"

record ClientPlayoutQueueEvent =
  cpq_event_index :: u64
  cpq_event_kind :: ClientPlayoutQueueEventKind
  cpq_reason :: ClientPlayoutQueueEventReason
  cpq_command_kind :: ClientSendCommandKind
  cpq_media_duration_ms :: u64
  cpq_media_duration_samples :: u32
  cpq_rtp_sequence :: u32
  cpq_rtp_timestamp :: u32
  cpq_protection_nonce :: "u32 option"
  cpq_source_frame_epoch :: "u64 option"
  cpq_source_media_position_ms :: "u64 option"
  cpq_source_media_position_samples :: "u64 option"
  cpq_source_media_byte_position :: "u64 option"
  cpq_queue_depth_after :: ClientBufferDepth

definition ClientPlayoutQueueEvent_from :: "ProtoPlayoutQueueEvent \<Rightarrow> ClientPlayoutQueueEvent" where
  "ClientPlayoutQueueEvent_from value =
     \<lparr>cpq_event_index = ppq_event_index value, cpq_event_kind = PlayoutQueueEventKind_from_raw (ppq_event_kind value),
      cpq_reason = PlayoutQueueEventReason_from_raw (ppq_reason value),
      cpq_command_kind = SendCommandKind_from_raw (ppq_command_kind value),
      cpq_media_duration_ms = ppq_media_duration_ms value, cpq_media_duration_samples = ppq_media_duration_samples value,
      cpq_rtp_sequence = ppq_rtp_sequence value, cpq_rtp_timestamp = ppq_rtp_timestamp value,
      cpq_protection_nonce = ppq_protection_nonce value, cpq_source_frame_epoch = ppq_source_frame_epoch value,
      cpq_source_media_position_ms = ppq_source_media_position_ms value,
      cpq_source_media_position_samples = ppq_source_media_position_samples value,
      cpq_source_media_byte_position = ppq_source_media_byte_position value,
      cpq_queue_depth_after = depth_or_default (ppq_queue_depth_after value)\<rparr>"

end
