(* ===== verification/ApiLaws.thy ===== *)
theory ApiLaws
  imports TwilightClient SessionRuntime
begin

text \<open>
  What the control API, its client and the health probe promise: requests reach the supervisor as the bot built them
  or not at all, the client reads what the service wrote, the tracker follows the history of the bot's events, and
  health follows the probes.
\<close>

section \<open>Requests\<close>

lemma trim_empty_iff: "trim s = [] \<longleftrightarrow> list_all is_whitespace s"
proof
  assume "trim s = []"
  then have "\<forall>c \<in> set (dropWhile is_whitespace s). is_whitespace c" by (simp add: trim_def)
  then have "dropWhile is_whitespace s = []" by (metis hd_dropWhile hd_in_set)
  then show "list_all is_whitespace s" by (simp add: list_all_iff)
next
  assume "list_all is_whitespace s"
  then show "trim s = []" by (auto simp: trim_def list_all_iff dest: set_dropWhileD)
qed

lemma digits_not_blank: "s \<noteq> [] \<Longrightarrow> list_all is_digit s \<Longrightarrow> trim s \<noteq> []"
  by (cases s) (auto simp: trim_empty_iff is_digit_def is_whitespace_def)

text \<open>The fields of a context in the order in which they are checked.\<close>

definition context_fields :: "ProtoVoiceContext \<Rightarrow> (string \<times> string) list" where
  "context_fields voice =
     [(''guild_id'', pvc_guild_id voice), (''channel_id'', pvc_channel_id voice), (''user_id'', pvc_user_id voice),
      (''session_id'', pvc_session_id voice), (''endpoint'', pvc_endpoint voice), (''token'', pvc_token voice)]"

definition service_context :: "ProtoVoiceContext \<Rightarrow> VoiceContext" where
  "service_context voice =
     \<lparr>vc_guild_id = pvc_guild_id voice, vc_channel_id = pvc_channel_id voice, vc_user_id = pvc_user_id voice,
      vc_session_id = pvc_session_id voice, vc_endpoint = pvc_endpoint voice, vc_token = pvc_token voice\<rparr>"

lemma map_voice_context_eq:
  "map_voice_context voice =
    (case find (\<lambda>(_, value). trim value = []) (context_fields voice) of
       Some (field, _) \<Rightarrow> Inl (invalid_argument (field @ '' is required''))
     | None \<Rightarrow> Inr (service_context voice))"
  by (simp add: map_voice_context_def validate_non_empty_def context_fields_def service_context_def)

lemma control_rpc_eq:
  "control_rpc display send command obs s =
    (map_sum (map_app_error display) (\<lambda>x. x) (fst (send command s)), record_rpc obs, snd (send command s))"
  by (simp add: control_rpc_def split: prod.split sum.split)

text \<open>A request that carries a voice context is counted once, whatever comes of it. It reaches the supervisor
  exactly when the context is there and none of its fields is blank; the command then holds the context as sent, and
  the answer is the supervisor's. Otherwise the answer is \<open>InvalidArgument\<close> naming the first blank field and the
  supervisor is not called.\<close>

theorem context_requests_checked:
  "rpc_join_voice display send request obs s =
    (case request of
       None \<Rightarrow> (Inl (invalid_argument ''missing voice context''), record_rpc obs, s)
     | Some voice \<Rightarrow>
        (case find (\<lambda>(_, value). trim value = []) (context_fields voice) of
           Some (field, _) \<Rightarrow> (Inl (invalid_argument (field @ '' is required'')), record_rpc obs, s)
         | None \<Rightarrow>
             (map_sum (map_app_error display) (\<lambda>x. x) (fst (send (JoinVoice (service_context voice)) s)), record_rpc obs,
              snd (send (JoinVoice (service_context voice)) s)))) \<and>
   rpc_update_voice_context display send request obs s =
    (case request of
       None \<Rightarrow> (Inl (invalid_argument ''missing voice context''), record_rpc obs, s)
     | Some voice \<Rightarrow>
        (case find (\<lambda>(_, value). trim value = []) (context_fields voice) of
           Some (field, _) \<Rightarrow> (Inl (invalid_argument (field @ '' is required'')), record_rpc obs, s)
         | None \<Rightarrow>
             (map_sum (map_app_error display) (\<lambda>x. x) (fst (send (UpdateVoiceContext (service_context voice)) s)), record_rpc obs,
              snd (send (UpdateVoiceContext (service_context voice)) s))))"
  by (simp add: rpc_join_voice_def rpc_update_voice_context_def context_rpc_def observe_early_status_def
      map_voice_context_eq control_rpc_eq split: option.split prod.split)

section \<open>From the bot to the session and back\<close>

lemma parse_optional_shown: "id_lib_law lib \<Longrightarrow> n \<noteq> 0 \<Longrightarrow> parse_optional_id lib field (show_id lib n) = Inr (Some n)"
  by (simp add: id_lib_law_def parse_optional_id_def)

lemma unwrap_string_simps [simp]: "unwrap_string None = []" "unwrap_string (Some s) = s"
  by (simp_all add: unwrap_string_def)

lemma unwrap_u32_simps [simp]: "unwrap_u32 None = 0" "unwrap_u32 (Some n) = n"
  by (simp_all add: unwrap_u32_def)

lemma shown_fields_not_blank:
  assumes "id_lib_law lib" "cvc_guild_id v \<noteq> 0" "cvc_channel_id v \<noteq> 0" "cvc_user_id v \<noteq> 0"
    and "trim (cvc_session_id v) \<noteq> []" "trim (cvc_endpoint v) \<noteq> []" "trim (cvc_token v) \<noteq> []"
  shows "find (\<lambda>(_, value). trim value = []) (context_fields (into_proto lib v)) = None"
proof -
  have "trim (show_id lib n) \<noteq> []" if "n \<noteq> 0" for n
    using assms(1) that digits_not_blank by (auto simp: id_lib_law_def)
  then show ?thesis using assms by (simp add: context_fields_def into_proto_def)
qed

fun client_state_of :: "SessionState \<Rightarrow> ClientSessionState" where
  "client_state_of Idle = ClientIdle"
| "client_state_of ConnectingVoice = ClientConnectingVoice"
| "client_state_of VoiceReady = ClientVoiceReady"
| "client_state_of ResolvingTrack = ClientResolvingTrack"
| "client_state_of Buffering = ClientBuffering"
| "client_state_of Playing = ClientPlaying"
| "client_state_of Paused = ClientPaused"
| "client_state_of Stopping = ClientStopping"
| "client_state_of ErrorState = ClientErrorState"

lemma SessionState_from_raw_map [simp]: "SessionState_from_raw (map_session_state st) = client_state_of st"
  by (cases st) (simp_all add: SessionState_from_raw_def)

text \<open>C22: From the bot to the session and back. A context whose ids are set and whose fields are not blank reaches the
  supervisor through the client and the service as one \<open>JoinVoice\<close> command with every field in its own place: the
  guild, channel and user ids in the id library's text, from which each is read back as it was sent, and the session
  id, the endpoint and the token unchanged. Whatever session shows that command's context, the client reads from the
  service's state message, which has no user id, the guild and channel ids it sent, the state the session is in, its
  track and its format, with texts that are empty read as absent. The id library is assumed to read back the ids it
  shows.\<close>

theorem context_travels_to_session_and_back:
  assumes "id_lib_law lib" "cvc_guild_id v \<noteq> 0" "cvc_channel_id v \<noteq> 0" "cvc_user_id v \<noteq> 0"
    and "trim (cvc_session_id v) \<noteq> []" "trim (cvc_endpoint v) \<noteq> []" "trim (cvc_token v) \<noteq> []"
  shows "\<exists>ctx. client_join_voice lib (\<lambda>request (obs, s).
              case rpc_join_voice display send request obs s of (r, obs1, s1) \<Rightarrow> (r, (obs1, s1))) v (obs, s) =
            (map_sum (map_app_error display) (\<lambda>x. x) (fst (send (JoinVoice ctx) s)), (record_rpc obs, snd (send (JoinVoice ctx) s))) \<and>
          vc_guild_id ctx = show_id lib (cvc_guild_id v) \<and> parse_id lib (vc_guild_id ctx) = Some (cvc_guild_id v) \<and>
          vc_channel_id ctx = show_id lib (cvc_channel_id v) \<and> parse_id lib (vc_channel_id ctx) = Some (cvc_channel_id v) \<and>
          vc_user_id ctx = show_id lib (cvc_user_id v) \<and> parse_id lib (vc_user_id ctx) = Some (cvc_user_id v) \<and>
          vc_session_id ctx = cvc_session_id v \<and> vc_endpoint ctx = cvc_endpoint v \<and> vc_token ctx = cvc_token v \<and>
          StateSnapshot_try_from lib (state_message (apply_voice_context ctx snap)) =
            Inr \<lparr>cs_state = client_state_of (snap_state snap), cs_guild_id = Some (cvc_guild_id v),
                 cs_channel_id = Some (cvc_channel_id v),
                 cs_current_video_id = Option.bind (snap_current_video_id snap) non_empty,
                 cs_queue_depth = of_nat (min (snap_queue_depth snap) (2 ^ 32 - 1)),
                 cs_selected_itag = Option.bind (snap_selected_itag snap) non_zero,
                 cs_message = Option.bind (snap_last_reason snap) non_empty\<rparr>"
proof (intro exI conjI)
  let ?ctx = "service_context (into_proto lib v)"
  show "client_join_voice lib (\<lambda>request (obs, s).
              case rpc_join_voice display send request obs s of (r, obs1, s1) \<Rightarrow> (r, (obs1, s1))) v (obs, s) =
            (map_sum (map_app_error display) (\<lambda>x. x) (fst (send (JoinVoice ?ctx) s)), (record_rpc obs, snd (send (JoinVoice ?ctx) s)))"
    using shown_fields_not_blank [OF assms]
    by (simp add: client_join_voice_def rpc_join_voice_def context_rpc_def observe_early_status_def
        map_voice_context_eq control_rpc_eq)
  show "vc_guild_id ?ctx = show_id lib (cvc_guild_id v)" "parse_id lib (vc_guild_id ?ctx) = Some (cvc_guild_id v)"
    "vc_channel_id ?ctx = show_id lib (cvc_channel_id v)" "parse_id lib (vc_channel_id ?ctx) = Some (cvc_channel_id v)"
    "vc_user_id ?ctx = show_id lib (cvc_user_id v)" "parse_id lib (vc_user_id ?ctx) = Some (cvc_user_id v)"
    using assms(1-4) by (simp_all add: service_context_def into_proto_def id_lib_law_def)
  show "vc_session_id ?ctx = cvc_session_id v" "vc_endpoint ?ctx = cvc_endpoint v" "vc_token ?ctx = cvc_token v"
    by (simp_all add: service_context_def into_proto_def)
  have empty: "non_empty (unwrap_string x) = Option.bind x non_empty" for x
    by (cases x) (simp_all add: non_empty_def)
  have zero: "non_zero (unwrap_u32 x) = Option.bind x non_zero" for x
    by (cases x) (simp_all add: non_zero_def)
  have depth: "(if n < 2 ^ 32 then of_nat n else - 1) = (of_nat (min n (2 ^ 32 - 1)) :: u32)" for n
    by (simp add: min_def)
  show "StateSnapshot_try_from lib (state_message (apply_voice_context ?ctx snap)) =
      Inr \<lparr>cs_state = client_state_of (snap_state snap), cs_guild_id = Some (cvc_guild_id v),
           cs_channel_id = Some (cvc_channel_id v),
           cs_current_video_id = Option.bind (snap_current_video_id snap) non_empty,
           cs_queue_depth = of_nat (min (snap_queue_depth snap) (2 ^ 32 - 1)),
           cs_selected_itag = Option.bind (snap_selected_itag snap) non_zero,
           cs_message = Option.bind (snap_last_reason snap) non_empty\<rparr>"
    using assms(1-3) unfolding depth [symmetric]
    by (simp add: StateSnapshot_try_from_def state_message_def apply_voice_context_def service_context_def into_proto_def
        parse_optional_shown empty zero)
qed

text \<open>Ids in decimal, as \<open>twilight-model\<close> documents them.\<close>

definition decimal_ids :: id_lib where
  "decimal_ids = \<lparr>show_id = (\<lambda>n. show_nat (unat n)),
     parse_id = (\<lambda>s. case parse_u64 s of Some n \<Rightarrow> if n = 0 then None else Some n | None \<Rightarrow> None)\<rparr>"

lemma decimal_ids_law: "id_lib_law decimal_ids"
  by (simp add: id_lib_law_def decimal_ids_def show_nat_digits)

definition sample_context :: ClientVoiceContext where
  "sample_context = \<lparr>cvc_guild_id = 11, cvc_channel_id = 22, cvc_user_id = 33, cvc_session_id = ''s'', cvc_endpoint = ''e'',
     cvc_token = ''t''\<rparr>"

theorem context_travels_to_session_and_back_witness:
  "\<exists>ctx. vc_session_id ctx = ''s'' \<and> parse_id decimal_ids (vc_user_id ctx) = Some 33 \<and>
     cs_guild_id (projr (StateSnapshot_try_from decimal_ids (state_message (apply_voice_context ctx Snapshot_default)))) = Some 11"
  using context_travels_to_session_and_back [OF decimal_ids_law, of sample_context "\<lambda>_. []" "\<lambda>_ s. (Inr (), s)" Observability_default "()"
      Snapshot_default]
  by (auto simp: sample_context_def trim_empty_iff is_whitespace_def)

section \<open>Events and metrics at the client\<close>

fun client_kind_of :: "SessionEventKind \<Rightarrow> ClientSessionEventKind" where
  "client_kind_of EvVoiceConnecting = ClientVoiceConnecting"
| "client_kind_of EvVoiceReady = ClientVoiceReadyEvent"
| "client_kind_of EvTrackResolving = ClientTrackResolving"
| "client_kind_of EvBuffering = ClientBufferingEvent"
| "client_kind_of EvPlaying = ClientPlayingEvent"
| "client_kind_of EvPaused = ClientPausedEvent"
| "client_kind_of EvStopped = ClientStoppedEvent"
| "client_kind_of EvTrackEnded = ClientTrackEnded"
| "client_kind_of EvPlaybackInterrupted = ClientPlaybackInterrupted"
| "client_kind_of EvRecoverableWarning = ClientRecoverableWarning"
| "client_kind_of EvFatalError = ClientFatalError"
| "client_kind_of EvVoiceReconnecting = ClientVoiceReconnecting"

lemma SessionEventKind_from_raw_map [simp]: "SessionEventKind_from_raw (map_session_event_kind k) = client_kind_of k"
  by (cases k) (simp_all add: SessionEventKind_from_raw_def)

fun broadcast_events :: "recv_result list \<Rightarrow> SessionEventRecord list" where
  "broadcast_events [] = []"
| "broadcast_events (RecvEvent event # rest) = event # broadcast_events rest"
| "broadcast_events (RecvLagged _ # rest) = broadcast_events rest"
| "broadcast_events (RecvClosed # rest) = []"

lemma subscribe_events_eq: "subscribe_events received = map map_session_event (broadcast_events received)"
  by (induction received rule: subscribe_events.induct) simp_all

definition reads_event :: "id_lib \<Rightarrow> SessionEventRecord \<Rightarrow> InvalidId + SessionEvent \<Rightarrow> bool" where
  "reads_event lib event result \<longleftrightarrow>
    (case result of
       Inl _ \<Rightarrow> False
     | Inr seen \<Rightarrow>
         ce_kind seen = client_kind_of (RuntimeState.event_kind event) \<and>
         map_option (show_id lib) (ce_guild_id seen) = event_guild_id event \<and>
         map_option (show_id lib) (ce_channel_id seen) = event_channel_id event \<and>
         ce_current_video_id seen = Option.bind (event_current_video_id event) non_empty \<and>
         ce_message seen = Option.bind (event_message event) non_empty)"

definition shown_or_absent :: "id_lib \<Rightarrow> string option \<Rightarrow> bool" where
  "shown_or_absent lib x \<longleftrightarrow> (case x of None \<Rightarrow> True | Some s \<Rightarrow> (\<exists>n. n \<noteq> 0 \<and> s = show_id lib n))"

lemma shown_or_absent_parses:
  assumes "id_lib_law lib" "shown_or_absent lib x"
  obtains n where "parse_optional_id lib field (unwrap_string x) = Inr n" "map_option (show_id lib) n = x"
proof (cases x)
  case None
  then show ?thesis using that [of None] by (simp add: parse_optional_id_def)
next
  case (Some s)
  then obtain n where "n \<noteq> 0" "s = show_id lib n" using assms(2) by (auto simp: shown_or_absent_def)
  then show ?thesis using that [of "Some n"] assms(1) Some by (simp add: parse_optional_shown)
qed

lemma client_reads_event:
  assumes "id_lib_law lib" "shown_or_absent lib (event_guild_id event)" "shown_or_absent lib (event_channel_id event)"
  shows "reads_event lib event (SessionEvent_try_from lib (map_session_event event))"
proof -
  obtain g where g: "parse_optional_id lib ''guild_id'' (unwrap_string (event_guild_id event)) = Inr g"
      "map_option (show_id lib) g = event_guild_id event"
    using shown_or_absent_parses [OF assms(1,2)] by blast
  obtain c where c: "parse_optional_id lib ''channel_id'' (unwrap_string (event_channel_id event)) = Inr c"
      "map_option (show_id lib) c = event_channel_id event"
    using shown_or_absent_parses [OF assms(1,3)] by blast
  have empty: "non_empty (unwrap_string x) = Option.bind x non_empty" for x
    by (cases x) (simp_all add: non_empty_def)
  show ?thesis using g c
    by (simp add: reads_event_def SessionEvent_try_from_def map_session_event_def empty)
qed

text \<open>A subscriber sees, in order, every event that the broadcast channel delivered to it before it closed, with the kind,
  the ids, the track and the message the session emitted; events it was too slow for are left out without a
  trace in the stream.\<close>

theorem subscriber_sees_events_in_order:
  assumes "id_lib_law lib"
    and "\<forall>event \<in> set (broadcast_events received).
           shown_or_absent lib (event_guild_id event) \<and> shown_or_absent lib (event_channel_id event)"
  shows "list_all2 (reads_event lib) (broadcast_events received)
           (map (SessionEvent_try_from lib) (subscribe_events received))"
  using assms client_reads_event by (auto simp: subscribe_events_eq list_all2_conv_all_nth)

theorem subscriber_sees_events_in_order_witness:
  "list_all2 (reads_event decimal_ids)
     [\<lparr>event_kind = EvPlaying, event_guild_id = Some (show_id decimal_ids 11), event_channel_id = None,
       event_current_video_id = Some ''v'', event_selected_itag = None, event_message = None\<rparr>]
     (map (SessionEvent_try_from decimal_ids)
       (subscribe_events
         [RecvLagged 3,
          RecvEvent \<lparr>event_kind = EvPlaying, event_guild_id = Some (show_id decimal_ids 11), event_channel_id = None,
            event_current_video_id = Some ''v'', event_selected_itag = None, event_message = None\<rparr>,
          RecvClosed]))"
proof -
  have "\<exists>n. n \<noteq> 0 \<and> show_id decimal_ids 11 = show_id decimal_ids n" by (rule exI [of _ 11]) simp
  then show ?thesis
    using subscriber_sees_events_in_order [OF decimal_ids_law, of
        "[RecvLagged 3,
          RecvEvent \<lparr>event_kind = EvPlaying, event_guild_id = Some (show_id decimal_ids 11), event_channel_id = None,
            event_current_video_id = Some ''v'', event_selected_itag = None, event_message = None\<rparr>,
          RecvClosed]"]
    by (simp add: shown_or_absent_def)
qed

section \<open>Tracker\<close>

text \<open>The specification reads the whole history, latest event first: what was said last since the bot left.\<close>

fun latest :: "('e \<Rightarrow> bool) \<Rightarrow> ('e \<Rightarrow> 'a option) \<Rightarrow> 'e list \<Rightarrow> 'a option" where
  "latest leaves says [] = None"
| "latest leaves says (event # earlier) =
    (if leaves event then None else case says event of Some x \<Rightarrow> Some x | None \<Rightarrow> latest leaves says earlier)"

definition bot_leaves :: "id \<Rightarrow> id \<Rightarrow> bot_event \<Rightarrow> bool" where
  "bot_leaves guild user event \<longleftrightarrow>
    (case event of StateUpdate u \<Rightarrow> vsu_user_id u = user \<and> vsu_guild_id u = Some guild \<and> vsu_channel_id u = None | _ \<Rightarrow> False)"

definition session_said :: "id \<Rightarrow> id \<Rightarrow> id \<Rightarrow> bot_event \<Rightarrow> string option" where
  "session_said guild channel user event =
    (case event of
       StateUpdate u \<Rightarrow>
         if vsu_user_id u = user \<and> vsu_guild_id u = Some guild \<and> vsu_channel_id u = Some channel then Some (vsu_session_id u) else None
     | _ \<Rightarrow> None)"

definition endpoint_said :: "id \<Rightarrow> bot_event \<Rightarrow> string option" where
  "endpoint_said guild event =
    (case event of ServerUpdate u \<Rightarrow> if vse_guild_id u = guild then Option.bind (vse_endpoint u) non_empty else None | _ \<Rightarrow> None)"

definition token_said :: "id \<Rightarrow> bot_event \<Rightarrow> string option" where
  "token_said guild event =
    (case event of ServerUpdate u \<Rightarrow> if vse_guild_id u = guild then non_empty (vse_token u) else None | _ \<Rightarrow> None)"

definition history_context :: "id \<Rightarrow> id \<Rightarrow> id \<Rightarrow> bot_event list \<Rightarrow> ClientVoiceContext option" where
  "history_context guild channel user history =
    (let leaves = bot_leaves guild user in
     case (latest leaves (session_said guild channel user) history, latest leaves (endpoint_said guild) history,
           latest leaves (token_said guild) history) of
       (Some session, Some endpoint, Some token) \<Rightarrow>
         Some \<lparr>cvc_guild_id = guild, cvc_channel_id = channel, cvc_user_id = user, cvc_session_id = session,
               cvc_endpoint = endpoint, cvc_token = token\<rparr>
     | _ \<Rightarrow> None)"

text \<open>The tracker after a history: its fields are the latest said, and the current context is the one they make.\<close>

definition tracks :: "id \<Rightarrow> id \<Rightarrow> id \<Rightarrow> bot_event list \<Rightarrow> VoiceContextTracker \<Rightarrow> bool" where
  "tracks guild channel user history tk \<longleftrightarrow>
     tk_guild_id tk = guild \<and> tk_channel_id tk = channel \<and> tk_user_id tk = user \<and>
     tk_session_id tk = latest (bot_leaves guild user) (session_said guild channel user) history \<and>
     tk_endpoint tk = latest (bot_leaves guild user) (endpoint_said guild) history \<and>
     tk_token tk = latest (bot_leaves guild user) (token_said guild) history"

lemmas said_defs = bot_leaves_def session_said_def endpoint_said_def token_said_def non_empty_def

lemma tracks_context: "tracks guild channel user history tk \<Longrightarrow> tracker_context tk = history_context guild channel user history"
  by (auto simp: tracks_def tracker_context_def history_context_def Let_def split: option.split)

lemma current_not_tracked [simp]:
  "tracks guild channel user history (tk\<lparr>tk_current := x\<rparr>) = tracks guild channel user history tk"
  "tracker_context (tk\<lparr>tk_current := x\<rparr>) = tracker_context tk"
  by (simp_all add: tracks_def tracker_context_def split: option.split)

lemma tracks_notes:
  assumes "tracks guild channel user history tk"
  shows "tracks guild channel user (event # history) (tracker_notes event tk)"
proof (cases event)
  case (StateUpdate u)
  then show ?thesis using assms by (auto simp: tracks_def tracker_notes_def tracker_reset_def said_defs)
next
  case (ServerUpdate u)
  then show ?thesis using assms
    by (cases "vse_endpoint u") (simp_all add: tracks_def tracker_notes_def said_defs)
next
  case OtherEvent
  then show ?thesis using assms by (simp add: tracks_def tracker_notes_def said_defs)
qed

lemma notes_forget_together:
  assumes "tk_current tk = tracker_context tk" "tracker_context (tracker_notes event tk) = None"
  shows "tk_current (tracker_notes event tk) = None"
  using assms
  by (auto simp: tracker_notes_def tracker_context_def tracker_reset_def split: bot_event.splits option.splits if_splits)

lemma notes_keep_current:
  "tracker_context (tracker_notes event tk) \<noteq> None \<Longrightarrow> tk_current (tracker_notes event tk) = tk_current tk"
  by (auto simp: tracker_notes_def tracker_context_def tracker_reset_def split: bot_event.splits option.splits if_splits)

lemma observe_tracks:
  assumes "tracks guild channel user history tk" "tk_current tk = tracker_context tk"
  shows "fst (observe event tk) =
      (if history_context guild channel user (event # history) = history_context guild channel user history then None
       else history_context guild channel user (event # history)) \<and>
    tracks guild channel user (event # history) (snd (observe event tk)) \<and>
    tk_current (snd (observe event tk)) = tracker_context (snd (observe event tk))"
proof -
  note now = tracks_notes [OF assms(1), of event]
  note ctx = tracks_context [OF now] tracks_context [OF assms(1)]
  show ?thesis
  proof (cases "tracker_context (tracker_notes event tk)")
    case None
    then show ?thesis using now ctx notes_forget_together [OF assms(2)] by (simp add: observe_def)
  next
    case (Some v)
    then have "tk_current (tracker_notes event tk) = history_context guild channel user history"
      using notes_keep_current assms(2) ctx by simp
    then show ?thesis using Some now ctx by (auto simp: observe_def Let_def)
  qed
qed

definition announcements :: "(bot_event list \<Rightarrow> ClientVoiceContext option) \<Rightarrow> bot_event list \<Rightarrow> bot_event list \<Rightarrow> ClientVoiceContext option list" where
  "announcements spec earlier events =
     map (\<lambda>i. let now = spec (rev (take (Suc i) events) @ earlier); before = spec (rev (take i events) @ earlier)
           in if now = before then None else now) [0..<length events]"

lemma announcements_Nil [simp]: "announcements spec earlier [] = []"
  by (simp add: announcements_def)

lemma announcements_Cons [simp]:
  "announcements spec earlier (event # events) =
    (if spec (event # earlier) = spec earlier then None else spec (event # earlier)) # announcements spec (event # earlier) events"
  by (simp add: announcements_def upt_rec [of 0] map_Suc_upt [symmetric] Let_def del: upt_Suc)

lemma observe_all_tracks:
  "tracks guild channel user history tk \<Longrightarrow> tk_current tk = tracker_context tk \<Longrightarrow>
    fst (observe_all events tk) = announcements (history_context guild channel user) history events"
proof (induction events arbitrary: history tk)
  case (Cons event events)
  obtain r tk1 where o: "observe event tk = (r, tk1)" by fastforce
  show ?case using Cons.IH [of "event # history" tk1] observe_tracks [OF Cons.prems, of event] o
    by (simp add: split_beta)
qed simp

text \<open>C21: The tracker refines the history. For every sequence of gateway events, what \<open>observe\<close> returns for each is the
  context made of the session, the endpoint and the token that were last said for this guild, channel and user since
  the bot left, when that context is complete and differs from the one before the event; and nothing otherwise.\<close>

theorem tracker_refines_history:
  "fst (observe_all events (tracker_new guild channel user)) = announcements (history_context guild channel user) [] events"
  by (rule observe_all_tracks) (simp_all add: tracks_def tracker_new_def tracker_context_def)

text \<open>The tracker and moves. When the bot is moved to another channel of the guild, the tracker does not notice: the
  voice server update that follows is announced as a context of the channel the bot is no longer in, with the
  session it had there. And a server update without an endpoint, which means that the server is gone, announces the
  old endpoint with the new token.\<close>

theorem tracker_announces_stale_context:
  assumes "tracker_context tk = Some v" "tk_current tk = Some v"
    and "vsu_user_id moved = tk_user_id tk" "vsu_guild_id moved = Some (tk_guild_id tk)"
    and "vsu_channel_id moved = Some channel" "channel \<noteq> tk_channel_id tk"
    and "vse_guild_id server = tk_guild_id tk" "vse_token server \<noteq> []" "vse_token server \<noteq> cvc_token v"
  shows "fst (observe_all [StateUpdate moved, ServerUpdate server] tk) =
    [None, Some (v\<lparr>cvc_token := vse_token server,
       cvc_endpoint := (case Option.bind (vse_endpoint server) non_empty of Some endpoint \<Rightarrow> endpoint | None \<Rightarrow> cvc_endpoint v)\<rparr>)]"
  using assms
  by (auto simp: observe_def tracker_notes_def tracker_context_def Let_def non_empty_def split: option.splits)

theorem tracker_announces_stale_context_witness:
  "fst (observe_all
      [StateUpdate \<lparr>vsu_guild_id = Some 11, vsu_channel_id = Some 23, vsu_user_id = 33, vsu_session_id = ''s2''\<rparr>,
       ServerUpdate \<lparr>vse_guild_id = 11, vse_endpoint = None, vse_token = ''t2''\<rparr>]
      (tracker_from_context sample_context)) = [None, Some (sample_context\<lparr>cvc_token := ''t2''\<rparr>)]"
  using tracker_announces_stale_context [of "tracker_from_context sample_context" sample_context
      "\<lparr>vsu_guild_id = Some 11, vsu_channel_id = Some 23, vsu_user_id = 33, vsu_session_id = ''s2''\<rparr>" 23
      "\<lparr>vse_guild_id = 11, vse_endpoint = None, vse_token = ''t2''\<rparr>"]
  by (simp add: tracker_from_context_def tracker_context_def sample_context_def)

section \<open>Health\<close>

lemma probe_round_booted:
  "runtime_booted (dm_readiness d) \<Longrightarrow> runtime_booted (dm_readiness (probe_round healthy d)) \<and>
    ytmusic_healthy (dm_readiness (probe_round healthy d)) = healthy \<and> dm_serving (probe_round healthy d) = healthy \<and>
    last_ready (dm_observability (probe_round healthy d)) = healthy \<and>
    ytmusic_probe_total (dm_observability (probe_round healthy d)) = ytmusic_probe_total (dm_observability d) + 1"
  by (simp add: probe_round_def mark_ytmusic_healthy_def mark_ytmusic_unhealthy_def record_readiness_def
      record_ytmusic_probe_def set_serving_status_def is_ready_def Let_def)

text \<open>Health follows the probes. Whatever health was before the daemon started, it reports serving after the probes
  so far exactly when there was one and the last one reached the music service, which is when the service is ready;
  each probe is counted once.\<close>

theorem health_follows_probes:
  "let d = run_ytmusic_probe_loop probes (daemon_start ReadinessSnapshot_default obs serving) in
     dm_serving d = (probes \<noteq> [] \<and> last probes) \<and> dm_serving d = is_ready (dm_readiness d) \<and>
     dm_serving d = last_ready (dm_observability d) \<and>
     ytmusic_probe_total (dm_observability d) = ytmusic_probe_total obs + of_nat (length probes)"
proof (induction probes rule: rev_induct)
  case Nil
  show ?case
    by (simp add: run_ytmusic_probe_loop_def daemon_start_def mark_runtime_booted_def record_readiness_def
        set_serving_status_def is_ready_def ReadinessSnapshot_default_def Let_def)
next
  case (snoc healthy probes)
  have "runtime_booted (dm_readiness (run_ytmusic_probe_loop ps (daemon_start ReadinessSnapshot_default obs serving)))" for ps
  proof (induction ps rule: rev_induct)
    case Nil
    show ?case by (simp add: run_ytmusic_probe_loop_def daemon_start_def mark_runtime_booted_def set_serving_status_def Let_def)
  next
    case (snoc h ps)
    then show ?case using probe_round_booted by (simp add: run_ytmusic_probe_loop_def)
  qed
  note round = probe_round_booted [OF this [of probes], of healthy]
  then show ?case using snoc.IH by (simp add: run_ytmusic_probe_loop_def is_ready_def Let_def)
qed

section \<open>Metrics\<close>

lemma usize_fits: "n < 2 ^ 64 \<Longrightarrow> unat (usize_to_u64 n) = n"
  by (simp add: usize_to_u64_def unsigned_of_nat take_bit_nat_eq_self)

definition depth_read :: "PlaybackBufferDepthSnapshot \<Rightarrow> ClientBufferDepth \<Rightarrow> bool" where
  "depth_read depth seen \<longleftrightarrow>
     unat (cbd_packets seen) = bd_packets depth \<and> unat (cbd_bytes seen) = bd_bytes depth \<and>
     cbd_duration_ms seen = bd_duration_ms depth \<and> cbd_duration_samples seen = bd_duration_samples depth"

definition depth_fits :: "PlaybackBufferDepthSnapshot \<Rightarrow> bool" where
  "depth_fits depth \<longleftrightarrow> bd_packets depth < 2 ^ 64 \<and> bd_bytes depth < 2 ^ 64"

lemma depth_reads: "depth_fits depth \<Longrightarrow> depth_read depth (depth_or_default (Some (map_buffer_depth depth)))"
  by (simp add: depth_fits_def depth_read_def depth_or_default_def ClientBufferDepth_from_def map_buffer_depth_def usize_fits)

definition stats_read :: "DurationStatsSnapshot \<Rightarrow> ClientDurationStats \<Rightarrow> bool" where
  "stats_read stats seen \<longleftrightarrow>
     unat (cds_samples seen) = stats_samples stats \<and> cds_p50_ms seen = p50_ms stats \<and> cds_p95_ms seen = p95_ms stats \<and>
     cds_p99_ms seen = p99_ms stats \<and> cds_min_ms seen = min_ms stats \<and> cds_max_ms seen = max_ms stats"

definition queue_stats_read :: "PlaybackQueueDepthStatsSnapshot \<Rightarrow> ClientQueueDepthStats \<Rightarrow> bool" where
  "queue_stats_read stats seen \<longleftrightarrow>
     unat (cqd_sample_count seen) = qd_sample_count stats \<and> cqd_empty_count seen = qd_empty_count stats \<and>
     depth_read (qd_current_depth stats) (cqd_current_depth seen) \<and> depth_read (qd_min_depth stats) (cqd_min_depth seen) \<and>
     depth_read (qd_p5_depth stats) (cqd_p5_depth seen) \<and> depth_read (qd_p50_depth stats) (cqd_p50_depth seen) \<and>
     depth_read (qd_p95_depth stats) (cqd_p95_depth seen) \<and> depth_read (qd_max_depth stats) (cqd_max_depth seen)"

definition queue_stats_fit :: "PlaybackQueueDepthStatsSnapshot \<Rightarrow> bool" where
  "queue_stats_fit stats \<longleftrightarrow>
     qd_sample_count stats < 2 ^ 64 \<and> depth_fits (qd_current_depth stats) \<and> depth_fits (qd_min_depth stats) \<and>
     depth_fits (qd_p5_depth stats) \<and> depth_fits (qd_p50_depth stats) \<and> depth_fits (qd_p95_depth stats) \<and>
     depth_fits (qd_max_depth stats)"

text \<open>Enumerations at the client are told apart as at the service.\<close>

lemma command_kinds_distinct:
  "SendCommandKind_from_raw (map_send_command_kind a) = SendCommandKind_from_raw (map_send_command_kind b) \<longleftrightarrow> a = b"
  by (cases a; cases b) (simp_all add: SendCommandKind_from_raw_def)

lemma sample_phases_distinct:
  "TrackQueueSamplePhase_from_raw (map_prepared_track_queue_sample_phase a) =
   TrackQueueSamplePhase_from_raw (map_prepared_track_queue_sample_phase b) \<longleftrightarrow> a = b"
  by (cases a; cases b) (simp_all add: TrackQueueSamplePhase_from_raw_def)

lemma queue_kinds_distinct:
  "PlayoutQueueEventKind_from_raw (map_prepared_playout_queue_event_kind a) =
   PlayoutQueueEventKind_from_raw (map_prepared_playout_queue_event_kind b) \<longleftrightarrow> a = b"
  by (cases a; cases b) (simp_all add: PlayoutQueueEventKind_from_raw_def)

lemma queue_reasons_distinct:
  "PlayoutQueueEventReason_from_raw (map_prepared_playout_queue_event_reason a) =
   PlayoutQueueEventReason_from_raw (map_prepared_playout_queue_event_reason b) \<longleftrightarrow> a = b"
  by (cases a; cases b) (simp_all add: PlayoutQueueEventReason_from_raw_def)

lemma ucast_u16_u32_inject: "(ucast (a :: u16) :: u32) = ucast b \<longleftrightarrow> a = b"
proof
  have low: "unat (ucast x :: u32) = unat x" for x :: u16
    using unat_lt [of x] by (simp add: unat_ucast_mod)
  assume "(ucast a :: u32) = ucast b"
  then have "unat (ucast a :: u32) = unat (ucast b :: u32)" by simp
  then show "a = b" by (metis low unsigned_word_eqI)
qed simp

text \<open>Metrics reach the client. Durations and depths whose counts fit 64 bits are read by the client as the collector
  recorded them, and two send events look the same at the client only if they are the same, and so do two events of
  the prepared queue with the same depth: no field and no kind is lost or mixed up on the way.\<close>

theorem metrics_reach_client:
  assumes "stats_samples stats < 2 ^ 64" "queue_stats_fit queue"
  shows "stats_read stats (ClientDurationStats_from (map_duration_stats stats)) \<and>
    queue_stats_read queue (ClientQueueDepthStats_from (map_queue_depth_stats queue)) \<and>
    (ClientSendEvent_from (map_raw_send_event a) = ClientSendEvent_from (map_raw_send_event b)) = (a = b) \<and>
    (ClientPlayoutQueueEvent_from (map_raw_prepared_playout_queue_event c) =
     ClientPlayoutQueueEvent_from (map_raw_prepared_playout_queue_event (d\<lparr>pq_queue_depth_after := pq_queue_depth_after c\<rparr>))) =
    (c = d\<lparr>pq_queue_depth_after := pq_queue_depth_after c\<rparr>)"
proof (intro conjI)
  show "stats_read stats (ClientDurationStats_from (map_duration_stats stats))"
    using assms(1) by (simp add: stats_read_def ClientDurationStats_from_def map_duration_stats_def usize_fits)
  show "queue_stats_read queue (ClientQueueDepthStats_from (map_queue_depth_stats queue))"
    using assms(2)
    by (simp add: queue_stats_read_def queue_stats_fit_def ClientQueueDepthStats_from_def map_queue_depth_stats_def
        usize_fits depth_reads)
  show "(ClientSendEvent_from (map_raw_send_event a) = ClientSendEvent_from (map_raw_send_event b)) = (a = b)"
    by (cases a; cases b) (auto simp: ClientSendEvent_from_def map_raw_send_event_def command_kinds_distinct ucast_u16_u32_inject)
  show "(ClientPlayoutQueueEvent_from (map_raw_prepared_playout_queue_event c) =
     ClientPlayoutQueueEvent_from (map_raw_prepared_playout_queue_event (d\<lparr>pq_queue_depth_after := pq_queue_depth_after c\<rparr>))) =
    (c = d\<lparr>pq_queue_depth_after := pq_queue_depth_after c\<rparr>)"
    by (cases c; cases d)
      (auto simp: ClientPlayoutQueueEvent_from_def map_raw_prepared_playout_queue_event_def command_kinds_distinct
        queue_kinds_distinct queue_reasons_distinct)
qed

theorem metrics_reach_client_witness:
  "stats_read DurationStatsSnapshot_empty (ClientDurationStats_from (map_duration_stats DurationStatsSnapshot_empty)) \<and>
   depth_read PlaybackBufferDepthSnapshot_default (cqd_max_depth (ClientQueueDepthStats_from
     (map_queue_depth_stats PlaybackQueueDepthStatsSnapshot_default)))"
  using metrics_reach_client [of DurationStatsSnapshot_empty PlaybackQueueDepthStatsSnapshot_default]
  by (simp add: DurationStatsSnapshot_empty_def PlaybackQueueDepthStatsSnapshot_default_def queue_stats_fit_def depth_fits_def
      PlaybackBufferDepthSnapshot_default_def queue_stats_read_def Let_def)

end
