(* ===== verification/LiveContract.thy ===== *)
theory LiveContract
  imports TwilightClient "HOL-Library.Sublist"
begin

text \<open>
  The contract of live validation (\<open>contract.rs\<close> of \<open>discord-voice-service-live-validation\<close>): which calls were proved, in
  which order the session's events came, and when a run counts as complete. Errors are the messages of the code. The
  evidence records, which copy metrics into JSON, and writing them out are not modelled.
\<close>

section \<open>State\<close>

record LiveContractState =
  validated_join_voice :: bool
  validated_update_voice_context :: bool
  validated_play :: bool
  validated_pause :: bool
  validated_resume :: bool
  validated_invalid_resume_ignored :: bool
  validated_redundant_pause_ignored :: bool
  observer_proved_pause :: bool
  observer_proved_resume :: bool
  validated_reconnect_rollover_during_playback :: bool
  validated_stop :: bool
  validated_stop_during_playback :: bool
  validated_leave_voice :: bool
  validated_leave_voice_during_playback :: bool
  validated_get_state :: bool
  validated_get_playback_metrics :: bool
  validated_subscribe_events :: bool
  saw_voice_connecting :: bool
  saw_voice_ready :: bool
  saw_track_resolving :: bool
  saw_buffering :: bool
  saw_playing :: bool
  saw_paused :: bool
  saw_resumed_playing :: bool
  saw_track_ended :: bool

definition LiveContractState_default :: LiveContractState where
  "LiveContractState_default =
     \<lparr>validated_join_voice = False, validated_update_voice_context = False, validated_play = False,
      validated_pause = False, validated_resume = False, validated_invalid_resume_ignored = False,
      validated_redundant_pause_ignored = False, observer_proved_pause = False, observer_proved_resume = False,
      validated_reconnect_rollover_during_playback = False, validated_stop = False,
      validated_stop_during_playback = False, validated_leave_voice = False,
      validated_leave_voice_during_playback = False, validated_get_state = False,
      validated_get_playback_metrics = False, validated_subscribe_events = False, saw_voice_connecting = False,
      saw_voice_ready = False, saw_track_resolving = False, saw_buffering = False, saw_playing = False,
      saw_paused = False, saw_resumed_playing = False, saw_track_ended = False\<rparr>"

definition mark_join_voice :: "LiveContractState \<Rightarrow> LiveContractState" where
  "mark_join_voice s = s\<lparr>validated_join_voice := True\<rparr>"

definition mark_update_voice_context :: "LiveContractState \<Rightarrow> LiveContractState" where
  "mark_update_voice_context s = s\<lparr>validated_update_voice_context := True\<rparr>"

definition mark_play :: "LiveContractState \<Rightarrow> LiveContractState" where
  "mark_play s = s\<lparr>validated_play := True\<rparr>"

definition mark_pause :: "LiveContractState \<Rightarrow> LiveContractState" where
  "mark_pause s = s\<lparr>validated_pause := True, observer_proved_pause := True\<rparr>"

definition mark_resume :: "LiveContractState \<Rightarrow> LiveContractState" where
  "mark_resume s = s\<lparr>validated_resume := True, observer_proved_resume := True\<rparr>"

definition mark_invalid_resume_ignored :: "LiveContractState \<Rightarrow> LiveContractState" where
  "mark_invalid_resume_ignored s = s\<lparr>validated_invalid_resume_ignored := True\<rparr>"

definition mark_redundant_pause_ignored :: "LiveContractState \<Rightarrow> LiveContractState" where
  "mark_redundant_pause_ignored s = s\<lparr>validated_redundant_pause_ignored := True\<rparr>"

definition mark_reconnect_rollover_during_playback :: "LiveContractState \<Rightarrow> LiveContractState" where
  "mark_reconnect_rollover_during_playback s = s\<lparr>validated_reconnect_rollover_during_playback := True\<rparr>"

definition mark_stop :: "LiveContractState \<Rightarrow> LiveContractState" where
  "mark_stop s = s\<lparr>validated_stop := True\<rparr>"

definition mark_stop_during_playback :: "LiveContractState \<Rightarrow> LiveContractState" where
  "mark_stop_during_playback s = s\<lparr>validated_stop := True, validated_stop_during_playback := True\<rparr>"

definition mark_leave_voice :: "LiveContractState \<Rightarrow> LiveContractState" where
  "mark_leave_voice s = s\<lparr>validated_leave_voice := True\<rparr>"

definition mark_leave_voice_during_playback :: "LiveContractState \<Rightarrow> LiveContractState" where
  "mark_leave_voice_during_playback s = s\<lparr>validated_leave_voice := True, validated_leave_voice_during_playback := True\<rparr>"

definition mark_get_state :: "LiveContractState \<Rightarrow> LiveContractState" where
  "mark_get_state s = s\<lparr>validated_get_state := True\<rparr>"

definition mark_get_playback_metrics :: "LiveContractState \<Rightarrow> LiveContractState" where
  "mark_get_playback_metrics s = s\<lparr>validated_get_playback_metrics := True\<rparr>"

definition mark_subscribe_events :: "LiveContractState \<Rightarrow> LiveContractState" where
  "mark_subscribe_events s = s\<lparr>validated_subscribe_events := True\<rparr>"

definition missing_required_coverage :: "LiveContractState \<Rightarrow> string list" where
  "missing_required_coverage s =
     map snd (filter (\<lambda>(covered, _). \<not> covered)
       [(validated_join_voice s, ''JoinVoice''),
        (validated_update_voice_context s, ''UpdateVoiceContext''),
        (validated_play s, ''Play''),
        (validated_pause s, ''Pause''),
        (validated_resume s, ''Resume''),
        (validated_invalid_resume_ignored s, ''ignored invalid Resume''),
        (validated_redundant_pause_ignored s, ''ignored redundant Pause''),
        (observer_proved_pause s, ''Pause observer proof''),
        (observer_proved_resume s, ''Resume observer proof''),
        (validated_reconnect_rollover_during_playback s, ''reconnect rollover during playback''),
        (validated_stop s, ''Stop''),
        (validated_stop_during_playback s, ''Stop during playback''),
        (validated_leave_voice s, ''LeaveVoice''),
        (validated_leave_voice_during_playback s, ''LeaveVoice during playback''),
        (validated_get_state s, ''GetState''),
        (validated_get_playback_metrics s, ''GetPlaybackMetrics''),
        (validated_subscribe_events s, ''SubscribeEvents''),
        (saw_voice_connecting s, ''VoiceConnecting''),
        (saw_voice_ready s, ''VoiceReady''),
        (saw_track_resolving s, ''TrackResolving''),
        (saw_buffering s, ''Buffering''),
        (saw_playing s, ''Playing''),
        (saw_paused s, ''Paused''),
        (saw_resumed_playing s, ''Playing after Resume''),
        (saw_track_ended s, ''TrackEnded'')])"

fun join_names :: "string list \<Rightarrow> string" where
  "join_names [] = []"
| "join_names [name] = name"
| "join_names (name # rest) = name @ '', '' @ join_names rest"

definition ensure_complete :: "LiveContractState \<Rightarrow> string + unit" where
  "ensure_complete s =
    (if missing_required_coverage s = [] then Inr ()
     else Inl (''live validation missing required coverage: '' @ join_names (missing_required_coverage s)))"

section \<open>Events\<close>

definition wrong_video_id :: "ClientSessionEventKind \<Rightarrow> string \<Rightarrow> string \<Rightarrow> string" where
  "wrong_video_id kind expected observed =
     as_str_name kind @ '' observed wrong current_video_id: expected video `'' @ expected @ ''`, got `'' @ observed @ ''`''"

definition validate_expected_video_id :: "SessionEvent \<Rightarrow> string \<Rightarrow> ClientSessionEventKind \<Rightarrow> string + unit" where
  "validate_expected_video_id event expected kind =
    (let current = trim (case ce_current_video_id event of None \<Rightarrow> [] | Some v \<Rightarrow> v) in
     if current = expected then Inr ()
     else Inl (wrong_video_id kind expected (if current = [] then ''none'' else current)))"

definition validate_expected_video_id_if_present :: "SessionEvent \<Rightarrow> string \<Rightarrow> ClientSessionEventKind \<Rightarrow> string + unit" where
  "validate_expected_video_id_if_present event expected kind =
    (case ce_current_video_id event of
       None \<Rightarrow> Inr ()
     | Some v \<Rightarrow>
        (if trim v = [] \<or> trim v = expected then Inr () else Inl (wrong_video_id kind expected (trim v))))"

definition display_event_message :: "SessionEvent \<Rightarrow> string" where
  "display_event_message event =
    (case ce_message event of None \<Rightarrow> ''no message'' | Some message \<Rightarrow> if trim message = [] then ''no message'' else message)"

text \<open>An event that takes a playing session out of its steady state.\<close>

definition leaves_playing :: "ClientSessionEventKind \<Rightarrow> bool" where
  "leaves_playing kind \<longleftrightarrow>
     kind \<in> {ClientVoiceConnecting, ClientVoiceReadyEvent, ClientTrackResolving, ClientBufferingEvent, ClientStoppedEvent}"

definition steadily_playing :: "LiveContractState \<Rightarrow> bool" where
  "steadily_playing s \<longleftrightarrow> saw_playing s \<and> \<not> saw_track_ended s"

definition track_ended_missing :: "LiveContractState \<Rightarrow> string option" where
  "track_ended_missing s =
    (if \<not> saw_voice_ready s then Some ''TrackEnded observed before VoiceReady''
     else if \<not> saw_track_resolving s then Some ''TrackEnded observed before TrackResolving''
     else if \<not> saw_buffering s then Some ''TrackEnded observed before Buffering''
     else if \<not> saw_playing s then Some ''TrackEnded observed before Playing''
     else if \<not> saw_paused s then Some ''TrackEnded observed before Paused''
     else if \<not> saw_resumed_playing s then Some ''TrackEnded observed before Playing after Resume''
     else None)"

definition observe_event :: "SessionEvent \<Rightarrow> string \<Rightarrow> LiveContractState \<Rightarrow> (string + bool) \<times> LiveContractState" where
  "observe_event event expected s =
    (let kind = ce_kind event;
         goes_on = (\<lambda>s1. (Inr False, s1));
         checked = (\<lambda>check s1. case check of Inl err \<Rightarrow> (Inl err, s) | Inr _ \<Rightarrow> goes_on s1);
         own_video = validate_expected_video_id event expected kind;
         own_video_if_present = validate_expected_video_id_if_present event expected kind
     in if leaves_playing kind \<and> steadily_playing s
        then (Inl (''playback left steady Playing state after start: '' @ as_str_name kind), s)
        else (case kind of
          ClientVoiceConnecting \<Rightarrow> checked own_video_if_present (s\<lparr>saw_voice_connecting := True\<rparr>)
        | ClientVoiceReadyEvent \<Rightarrow> checked own_video_if_present (s\<lparr>saw_voice_ready := True\<rparr>)
        | ClientTrackResolving \<Rightarrow> checked own_video (s\<lparr>saw_track_resolving := True\<rparr>)
        | ClientBufferingEvent \<Rightarrow>
            (if \<not> saw_track_resolving s then (Inl ''Buffering observed before TrackResolving'', s)
             else checked own_video (s\<lparr>saw_buffering := True\<rparr>))
        | ClientPlayingEvent \<Rightarrow>
            (if \<not> saw_playing s
             then (if \<not> saw_track_resolving s then (Inl ''Playing observed before TrackResolving'', s)
                   else if \<not> saw_buffering s then (Inl ''Playing observed before Buffering'', s)
                   else checked own_video (s\<lparr>saw_playing := True\<rparr>))
             else checked own_video (if saw_paused s then s\<lparr>saw_resumed_playing := True\<rparr> else s))
        | ClientPausedEvent \<Rightarrow>
            (if \<not> saw_playing s then (Inl ''Paused observed before Playing'', s)
             else if saw_track_ended s then (Inl ''Paused observed after TrackEnded'', s)
             else checked own_video (s\<lparr>saw_paused := True\<rparr>))
        | ClientTrackEnded \<Rightarrow>
            (case track_ended_missing s of
               Some message \<Rightarrow> (Inl message, s)
             | None \<Rightarrow>
                (case own_video of Inl err \<Rightarrow> (Inl err, s) | Inr _ \<Rightarrow> (Inr True, s\<lparr>saw_track_ended := True\<rparr>)))
        | ClientFatalError \<Rightarrow> (Inl (''FatalError observed: '' @ display_event_message event), s)
        | ClientPlaybackInterrupted \<Rightarrow> (Inl (''PlaybackInterrupted observed: '' @ display_event_message event), s)
        | ClientVoiceReconnecting \<Rightarrow>
            (if steadily_playing s
             then (case own_video of
                     Inl err \<Rightarrow> (Inl err, s)
                   | Inr _ \<Rightarrow> (Inl (''VoiceReconnecting observed: '' @ display_event_message event), s))
             else goes_on s)
        | _ \<Rightarrow> goes_on s))"

text \<open>The state in which the events of a play are watched (\<open>controller.rs\<close>).\<close>

definition post_play_live_contract_state :: "LiveContractState \<Rightarrow> LiveContractState" where
  "post_play_live_contract_state s =
     s\<lparr>saw_track_resolving := False, saw_buffering := False, saw_playing := False, saw_paused := False,
       saw_resumed_playing := False, saw_track_ended := False\<rparr>"

text \<open>Events until the track has ended or one is refused.\<close>

fun observe_events :: "string \<Rightarrow> SessionEvent list \<Rightarrow> LiveContractState \<Rightarrow> (string + bool) \<times> LiveContractState" where
  "observe_events expected [] s = (Inr False, s)"
| "observe_events expected (event # events) s =
    (case observe_event event expected s of
       (Inl err, s1) \<Rightarrow> (Inl err, s1)
     | (Inr True, s1) \<Rightarrow> (Inr True, s1)
     | (Inr False, s1) \<Rightarrow> observe_events expected events s1)"

text \<open>A failed flow keeps its error, with that of the cleanup added; a failed cleanup alone does not fail the run.\<close>

definition finalize_success_evidence ::
  "string + 'state \<Rightarrow> string + unit \<Rightarrow> ('state \<Rightarrow> 'evidence) \<Rightarrow> ('evidence \<Rightarrow> string + unit) \<Rightarrow> (string \<times> string option) + unit" where
  "finalize_success_evidence flow_result cleanup build_evidence emit_evidence =
    (case flow_result of
       Inr state \<Rightarrow> map_sum (\<lambda>err. (err, None)) (\<lambda>x. x) (emit_evidence (build_evidence state))
     | Inl primary \<Rightarrow>
        (case cleanup of
           Inr _ \<Rightarrow> Inl (primary, None)
         | Inl cleanup_error \<Rightarrow> Inl (primary, Some (''cleanup also failed: '' @ cleanup_error))))"

section \<open>What a completed run saw\<close>

lemma validated_own: "validate_expected_video_id event expected kind = Inr u \<Longrightarrow>
    trim (case ce_current_video_id event of None \<Rightarrow> [] | Some v \<Rightarrow> v) = expected"
  by (simp add: validate_expected_video_id_def Let_def split: if_splits)

text \<open>The stages of a run, and what its flags say of the events so far.\<close>

definition run_stages :: "ClientSessionEventKind list" where
  "run_stages = [ClientTrackResolving, ClientBufferingEvent, ClientPlayingEvent, ClientPausedEvent, ClientPlayingEvent]"

definition seen_in_order :: "bool \<Rightarrow> LiveContractState \<Rightarrow> ClientSessionEventKind list \<Rightarrow> bool" where
  "seen_in_order ready s kinds \<longleftrightarrow>
     (saw_voice_ready s \<longrightarrow> ready \<or> ClientVoiceReadyEvent \<in> set kinds) \<and>
     (saw_track_resolving s \<longrightarrow> subseq (take 1 run_stages) kinds) \<and>
     (saw_buffering s \<longrightarrow> subseq (take 2 run_stages) kinds) \<and>
     (saw_playing s \<longrightarrow> subseq (take 3 run_stages) kinds) \<and>
     (saw_paused s \<longrightarrow> subseq (take 4 run_stages) kinds) \<and>
     (saw_resumed_playing s \<longrightarrow> subseq run_stages kinds)"

lemma subseq_later: "subseq xs kinds \<Longrightarrow> subseq xs (kinds @ [k])"
  by (metis list_emb_append_mono list_emb_Nil append_Nil2)

lemma subseq_snoc: "subseq xs kinds \<Longrightarrow> subseq (xs @ [k]) (kinds @ [k])"
  by (simp add: list_emb_append_mono)

lemma seen_later: "seen_in_order ready s kinds \<Longrightarrow> seen_in_order ready s (kinds @ [k])"
  by (auto simp: seen_in_order_def intro: subseq_later)

lemma stages_snoc:
  "subseq (take 1 run_stages) (kinds @ [ClientTrackResolving])"
  "subseq (take 1 run_stages) kinds \<Longrightarrow> subseq (take 2 run_stages) (kinds @ [ClientBufferingEvent])"
  "subseq (take 2 run_stages) kinds \<Longrightarrow> subseq (take 3 run_stages) (kinds @ [ClientPlayingEvent])"
  "subseq (take 3 run_stages) kinds \<Longrightarrow> subseq (take 4 run_stages) (kinds @ [ClientPausedEvent])"
  "subseq (take 4 run_stages) kinds \<Longrightarrow> subseq run_stages (kinds @ [ClientPlayingEvent])"
  using subseq_snoc [of "[]" kinds ClientTrackResolving] subseq_snoc [of "take 1 run_stages" kinds ClientBufferingEvent]
    subseq_snoc [of "take 2 run_stages" kinds ClientPlayingEvent] subseq_snoc [of "take 3 run_stages" kinds ClientPausedEvent]
    subseq_snoc [of "take 4 run_stages" kinds ClientPlayingEvent]
  by (simp_all add: run_stages_def)


lemma observe_event_ordered:
  assumes "seen_in_order ready s kinds" "observe_event event expected s = (Inr r, s')"
  shows "seen_in_order ready s' (kinds @ [ce_kind event])"
proof -
  note later = seen_later [OF assms(1), of "ce_kind event"]
  have "s' = s \<or> ce_kind event = ClientVoiceConnecting \<and> s' = s\<lparr>saw_voice_connecting := True\<rparr>
      \<or> ce_kind event = ClientVoiceReadyEvent \<and> s' = s\<lparr>saw_voice_ready := True\<rparr>
      \<or> ce_kind event = ClientTrackResolving \<and> s' = s\<lparr>saw_track_resolving := True\<rparr>
      \<or> ce_kind event = ClientBufferingEvent \<and> saw_track_resolving s \<and> s' = s\<lparr>saw_buffering := True\<rparr>
      \<or> ce_kind event = ClientPlayingEvent \<and> saw_buffering s \<and> s' = s\<lparr>saw_playing := True\<rparr>
      \<or> ce_kind event = ClientPlayingEvent \<and> saw_paused s \<and> s' = s\<lparr>saw_resumed_playing := True\<rparr>
      \<or> ce_kind event = ClientPausedEvent \<and> saw_playing s \<and> s' = s\<lparr>saw_paused := True\<rparr>
      \<or> ce_kind event = ClientTrackEnded \<and> s' = s\<lparr>saw_track_ended := True\<rparr>"
    using assms(2)
    by (cases "ce_kind event") (auto simp: observe_event_def Let_def split: if_splits sum.splits option.splits)
  then show ?thesis
    using assms(1) later stages_snoc [of kinds] unfolding seen_in_order_def by (elim disjE conjE) simp_all
qed

text \<open>What an accepted event is: no failure, and the stages of a track carry the expected video.\<close>

definition event_accepted :: "string \<Rightarrow> SessionEvent \<Rightarrow> bool" where
  "event_accepted expected event \<longleftrightarrow>
     ce_kind event \<noteq> ClientFatalError \<and> ce_kind event \<noteq> ClientPlaybackInterrupted \<and>
     (ce_kind event \<in> set run_stages \<or> ce_kind event = ClientTrackEnded \<longrightarrow>
        trim (case ce_current_video_id event of None \<Rightarrow> [] | Some v \<Rightarrow> v) = expected)"

lemma observe_event_accepted: "observe_event event expected s = (Inr r, s') \<Longrightarrow> event_accepted expected event"
  by (cases "ce_kind event")
    (auto simp: observe_event_def event_accepted_def run_stages_def Let_def dest: validated_own
      split: if_splits sum.splits option.splits)

lemma observe_event_ends:
  "observe_event event expected s = (Inr True, s') \<Longrightarrow>
    ce_kind event = ClientTrackEnded \<and> saw_voice_ready s \<and> saw_resumed_playing s \<and> saw_track_ended s'"
  by (cases "ce_kind event")
    (auto simp: observe_event_def track_ended_missing_def Let_def split: if_splits sum.splits option.splits)

lemma observe_events_ordered:
  "seen_in_order ready s kinds \<Longrightarrow> observe_events expected events s = (Inr True, s') \<Longrightarrow>
    \<exists>watched rest. events = watched @ rest \<and> list_all (event_accepted expected) watched \<and>
      subseq (run_stages @ [ClientTrackEnded]) (kinds @ map ce_kind watched) \<and>
      (ready \<or> ClientVoiceReadyEvent \<in> set (kinds @ map ce_kind watched)) \<and> saw_track_ended s'"
proof (induction events arbitrary: s kinds)
  case (Cons event events)
  obtain r s1 where step: "observe_event event expected s = (Inr r, s1)"
    using Cons.prems(2) by (auto split: prod.splits sum.splits bool.splits)
  note ok = observe_event_accepted [OF step]
  show ?case
  proof (cases r)
    case True
    with step have ends: "ce_kind event = ClientTrackEnded" "saw_voice_ready s" "saw_resumed_playing s" "saw_track_ended s1"
      using observe_event_ends [of event expected s s1] by simp_all
    have "s' = s1" using Cons.prems(2) step True by simp
    moreover have "subseq (run_stages @ [ClientTrackEnded]) (kinds @ [ce_kind event])"
      using Cons.prems(1) ends subseq_snoc by (auto simp: seen_in_order_def)
    ultimately show ?thesis
      using Cons.prems(1) ends ok by (intro exI [of _ "[event]"] exI [of _ events]) (auto simp: seen_in_order_def)
  next
    case False
    then have "observe_events expected events s1 = (Inr True, s')" using Cons.prems(2) step by simp
    from Cons.IH [OF observe_event_ordered [OF Cons.prems(1) step] this] obtain watched rest where
      "events = watched @ rest" "list_all (event_accepted expected) watched"
      "subseq (run_stages @ [ClientTrackEnded]) (kinds @ map ce_kind (event # watched))"
      "ready \<or> ClientVoiceReadyEvent \<in> set (kinds @ map ce_kind (event # watched))" "saw_track_ended s'"
      by auto
    with ok show ?thesis by (intro exI [of _ "event # watched"] exI [of _ rest]) simp
  qed
qed simp

text \<open>C28: What a completed run saw. When the events watched after a play end in success, then among those up to and
  including the end the track was resolved, buffered, played, paused, played again and ended, in this order; voice was
  ready in them or before; none of them was a failure; and every stage carried the expected video.\<close>

theorem completed_run_saw_every_stage:
  assumes "observe_events expected events (post_play_live_contract_state before) = (Inr True, after)"
  shows "\<exists>watched rest. events = watched @ rest \<and> list_all (event_accepted expected) watched \<and>
      subseq [ClientTrackResolving, ClientBufferingEvent, ClientPlayingEvent, ClientPausedEvent, ClientPlayingEvent, ClientTrackEnded]
        (map ce_kind watched) \<and>
      (saw_voice_ready before \<or> ClientVoiceReadyEvent \<in> set (map ce_kind watched))"
proof -
  have "seen_in_order (saw_voice_ready before) (post_play_live_contract_state before) []"
    by (simp add: seen_in_order_def post_play_live_contract_state_def)
  from observe_events_ordered [OF this assms] show ?thesis by (auto simp: run_stages_def)
qed

definition sample_event :: "ClientSessionEventKind \<Rightarrow> SessionEvent" where
  "sample_event kind =
     \<lparr>ce_kind = kind, ce_guild_id = None, ce_channel_id = None, ce_current_video_id = Some ''v'', ce_selected_itag = None,
      ce_message = None, ce_error_code = None, ce_reason = ClientReasonNotGiven\<rparr>"

theorem completed_run_saw_every_stage_witness:
  "case observe_events ''v'' (map sample_event [ClientVoiceConnecting, ClientVoiceReadyEvent, ClientTrackResolving, ClientBufferingEvent,
      ClientPlayingEvent, ClientPausedEvent, ClientPlayingEvent, ClientTrackEnded])
      (post_play_live_contract_state LiveContractState_default) of
     (r, after) \<Rightarrow> r = Inr True \<and> saw_track_ended after \<and>
       (\<exists>watched rest. map sample_event [ClientVoiceConnecting, ClientVoiceReadyEvent, ClientTrackResolving, ClientBufferingEvent,
         ClientPlayingEvent, ClientPausedEvent, ClientPlayingEvent, ClientTrackEnded] = watched @ rest \<and>
         list_all (event_accepted ''v'') watched)"
proof -
  let ?events = "map sample_event [ClientVoiceConnecting, ClientVoiceReadyEvent, ClientTrackResolving, ClientBufferingEvent,
      ClientPlayingEvent, ClientPausedEvent, ClientPlayingEvent, ClientTrackEnded]"
  have "fst (observe_events ''v'' ?events (post_play_live_contract_state LiveContractState_default)) = Inr True"
    "saw_track_ended (snd (observe_events ''v'' ?events (post_play_live_contract_state LiveContractState_default)))"
    by code_simp+
  then obtain after where run: "observe_events ''v'' ?events (post_play_live_contract_state LiveContractState_default) = (Inr True, after)"
    "saw_track_ended after" by (metis prod.collapse)
  from completed_run_saw_every_stage [OF run(1)] run show ?thesis by auto
qed

lemma complete_iff_nothing_missing:
  "ensure_complete s = Inr () \<longleftrightarrow>
    validated_join_voice s \<and> validated_update_voice_context s \<and> validated_play s \<and> validated_pause s \<and> validated_resume s \<and>
    validated_invalid_resume_ignored s \<and> validated_redundant_pause_ignored s \<and> observer_proved_pause s \<and>
    observer_proved_resume s \<and> validated_reconnect_rollover_during_playback s \<and> validated_stop s \<and>
    validated_stop_during_playback s \<and> validated_leave_voice s \<and> validated_leave_voice_during_playback s \<and>
    validated_get_state s \<and> validated_get_playback_metrics s \<and> validated_subscribe_events s \<and> saw_voice_connecting s \<and>
    saw_voice_ready s \<and> saw_track_resolving s \<and> saw_buffering s \<and> saw_playing s \<and> saw_paused s \<and>
    saw_resumed_playing s \<and> saw_track_ended s"
  by (simp add: ensure_complete_def missing_required_coverage_def filter_empty_conv)

end
