(* ===== verification/AudioValidator.thy ===== *)
theory AudioValidator
  imports Metrics
begin

text \<open>
  The judge of received audio in live validation (\<open>audio.rs\<close> of \<open>discord-voice-service-live-validation\<close>): every packet an
  observer hears is decoded, checked against the RTP numbering, and timed. Durations and instants are nanoseconds and
  \<open>Instant::now\<close> is an argument; the functions on durations are those of \<open>Metrics\<close>, which \<open>audio.rs\<close> repeats. The Opus
  decoder is a parameter that answers the number of samples and whether the loudest one passes the threshold; the peak
  and the mean amplitude need floating-point arithmetic and are not modelled.
\<close>

section \<open>Statistics\<close>

definition DISCORD_OPUS_PACKET_DURATION_SAMPLES :: u32 where "DISCORD_OPUS_PACKET_DURATION_SAMPLES = 960"
definition OBSERVER_GAP_THRESHOLD :: nanos where "OBSERVER_GAP_THRESHOLD = 100000000"
definition OBSERVER_TEMPO_WINDOW_PACKETS :: usize where "OBSERVER_TEMPO_WINDOW_PACKETS = 250"
definition OBSERVER_SHORT_TEMPO_WINDOW_PACKETS :: "usize list" where "OBSERVER_SHORT_TEMPO_WINDOW_PACKETS = [25, 50]"
definition OBSERVER_POST_SOURCE_BUFFER_AUDIO_MS :: u64 where "OBSERVER_POST_SOURCE_BUFFER_AUDIO_MS = 5000"
definition LOCAL_OBSERVER_JITTER_ALLOWANCE :: nanos where "LOCAL_OBSERVER_JITTER_ALLOWANCE = 750000"

record ObservedOpusPacket =
  op_sequence :: u16
  op_timestamp :: u32
  op_payload :: bytes

record AudioIntervalStats =
  ai_samples :: u64
  ai_p50_ms :: u64
  ai_p95_ms :: u64
  ai_p99_ms :: u64
  ai_min_ms :: u64
  ai_max_ms :: u64

record AudioObserverAnomaly =
  an_kind :: string
  an_classification :: string
  an_sequence :: "u16 option"
  an_previous_sequence :: "u16 option"
  an_interval_ms :: u64
  an_interval_us :: u64
  an_expected_duration_ms :: u64
  an_expected_duration_us :: u64

record AudioTempoWindowEvidence =
  tw_classification :: string
  tw_window_packet_count :: u64
  tw_media_ms :: u64
  tw_wall_clock_us :: u64
  tw_ratio_ppm :: u64
  tw_first_sequence :: u16
  tw_last_sequence :: u16

record AudioValidationStats =
  av_observed_packet_count :: u64
  av_non_discord_count :: u64
  av_non_discord_min_samples :: u32
  av_non_discord_max_samples :: u32
  av_decoded_audio_ms :: u64
  av_wall_clock_elapsed_ms :: u64
  av_decoded_audio_ratio_ppm :: u64
  av_non_silent_audio_ms :: u64
  av_inter_arrival :: AudioIntervalStats
  av_gap_count :: u64
  av_fast_interval_count :: u64
  av_fast_interval_min_ms :: u64
  av_fast_interval_min_us :: u64
  av_buffering_event_count :: u64
  av_buffering_total_us :: u64
  av_buffering_max_us :: u64
  av_speed_change_abs_us :: u64
  av_speed_change_fast_us :: u64
  av_speed_change_slow_us :: u64
  av_anomalies :: "AudioObserverAnomaly list"
  av_window_count :: u64
  av_window_post_source_buffer_count :: u64
  av_window_min_ratio_ppm :: u64
  av_window_max_ratio_ppm :: u64
  av_window_fast_count :: u64
  av_window_fastest :: "u64 \<times> u64 \<times> u64"
  av_window_slow_count :: u64
  av_window_slowest :: "u64 \<times> u64 \<times> u64"
  av_short_window_count :: u64
  av_short_window_fast_count :: u64
  av_short_window_slow_count :: u64
  av_short_window_fastest :: "AudioTempoWindowEvidence option"
  av_short_window_slowest :: "AudioTempoWindowEvidence option"
  av_first_sequence :: "u16 option"
  av_last_sequence :: "u16 option"

definition AudioValidationStats_default :: AudioValidationStats where
  "AudioValidationStats_default =
     \<lparr>av_observed_packet_count = 0, av_non_discord_count = 0, av_non_discord_min_samples = 0, av_non_discord_max_samples = 0,
      av_decoded_audio_ms = 0, av_wall_clock_elapsed_ms = 0, av_decoded_audio_ratio_ppm = 0, av_non_silent_audio_ms = 0,
      av_inter_arrival = \<lparr>ai_samples = 0, ai_p50_ms = 0, ai_p95_ms = 0, ai_p99_ms = 0, ai_min_ms = 0, ai_max_ms = 0\<rparr>,
      av_gap_count = 0, av_fast_interval_count = 0, av_fast_interval_min_ms = 0, av_fast_interval_min_us = 0,
      av_buffering_event_count = 0, av_buffering_total_us = 0, av_buffering_max_us = 0, av_speed_change_abs_us = 0,
      av_speed_change_fast_us = 0, av_speed_change_slow_us = 0, av_anomalies = [], av_window_count = 0,
      av_window_post_source_buffer_count = 0, av_window_min_ratio_ppm = 0, av_window_max_ratio_ppm = 0, av_window_fast_count = 0,
      av_window_fastest = (0, 0, 0), av_window_slow_count = 0, av_window_slowest = (0, 0, 0), av_short_window_count = 0,
      av_short_window_fast_count = 0, av_short_window_slow_count = 0, av_short_window_fastest = None,
      av_short_window_slowest = None, av_first_sequence = None, av_last_sequence = None\<rparr>"

definition interval_stats :: "nanos list \<Rightarrow> AudioIntervalStats" where
  "interval_stats intervals =
    (let sorted_intervals = sort intervals in
       \<lparr>ai_samples = u64_saturating_from_nat (length sorted_intervals),
        ai_p50_ms = duration_millis (percentile_duration sorted_intervals 50),
        ai_p95_ms = duration_millis (percentile_duration sorted_intervals 95),
        ai_p99_ms = duration_millis (percentile_duration sorted_intervals 99),
        ai_min_ms = duration_millis (sorted_intervals ! 0),
        ai_max_ms = duration_millis (sorted_intervals ! (length sorted_intervals - 1))\<rparr>)"

datatype ObserverPlaybackSegment = PrePauseSteady | ControlledPause | PostResumeSteady | NaturalEndDrain

fun segment_label :: "ObserverPlaybackSegment \<Rightarrow> string" where
  "segment_label PrePauseSteady = ''pre_pause_steady_playback''"
| "segment_label ControlledPause = ''controlled_pause''"
| "segment_label PostResumeSteady = ''post_resume_steady_playback''"
| "segment_label NaturalEndDrain = ''natural_end_drain''"

definition is_steady_playback :: "ObserverPlaybackSegment \<Rightarrow> bool" where
  "is_steady_playback segment \<longleftrightarrow> segment = PrePauseSteady \<or> segment = PostResumeSteady"

record ObservedPacketTiming =
  pt_observed_at :: nanos
  pt_duration :: nanos
  pt_decoded_audio_start_ms :: u64
  pt_sequence :: u16

record 'dec AudioValidationAccumulator =
  ac_mono_decoder :: "'dec option"
  ac_stereo_decoder :: "'dec option"
  ac_stats :: AudioValidationStats
  ac_decoded_audio_duration :: nanos
  ac_non_silent_audio_duration :: nanos
  ac_active_wall_clock_elapsed :: nanos
  ac_last_observed_at :: "nanos option"
  ac_last_packet_duration :: "nanos option"
  ac_last_packet_duration_samples :: "u32 option"
  ac_last_packet_timestamp :: "u32 option"
  ac_last_packet_sequence :: "u16 option"
  ac_inter_arrivals :: "nanos list"
  ac_timings :: "ObservedPacketTiming list"
  ac_segment :: ObserverPlaybackSegment

definition accumulator_new :: "'dec AudioValidationAccumulator" where
  "accumulator_new =
     \<lparr>ac_mono_decoder = None, ac_stereo_decoder = None, ac_stats = AudioValidationStats_default, ac_decoded_audio_duration = 0,
      ac_non_silent_audio_duration = 0, ac_active_wall_clock_elapsed = 0, ac_last_observed_at = None,
      ac_last_packet_duration = None, ac_last_packet_duration_samples = None, ac_last_packet_timestamp = None,
      ac_last_packet_sequence = None, ac_inter_arrivals = [], ac_timings = [], ac_segment = PrePauseSteady\<rparr>"

definition on_stats :: "(AudioValidationStats \<Rightarrow> AudioValidationStats) \<Rightarrow> 'dec AudioValidationAccumulator \<Rightarrow> 'dec AudioValidationAccumulator" where
  "on_stats f ac = ac\<lparr>ac_stats := f (ac_stats ac)\<rparr>"

section \<open>Recording a packet\<close>

definition record_opus_duration_evidence :: "u32 \<Rightarrow> AudioValidationStats \<Rightarrow> AudioValidationStats" where
  "record_opus_duration_evidence duration_samples st =
    (if duration_samples = DISCORD_OPUS_PACKET_DURATION_SAMPLES then st
     else
       (let st1 = st\<lparr>av_non_discord_count := saturating_add (av_non_discord_count st) 1\<rparr> in
        if av_non_discord_count st = 0
        then st1\<lparr>av_non_discord_min_samples := duration_samples, av_non_discord_max_samples := duration_samples\<rparr>
        else st1\<lparr>av_non_discord_min_samples := min (av_non_discord_min_samples st) duration_samples,
                 av_non_discord_max_samples := max (av_non_discord_max_samples st) duration_samples\<rparr>))"

definition observer_anomaly :: "string \<Rightarrow> ObserverPlaybackSegment \<Rightarrow> u16 \<Rightarrow> u16 option \<Rightarrow> nanos \<Rightarrow> nanos option \<Rightarrow> AudioObserverAnomaly" where
  "observer_anomaly kind segment sequence previous interval expected =
     \<lparr>an_kind = kind, an_classification = segment_label segment, an_sequence = Some sequence, an_previous_sequence = previous,
      an_interval_ms = duration_millis interval, an_interval_us = duration_micros interval,
      an_expected_duration_ms = (case expected of None \<Rightarrow> 0 | Some d \<Rightarrow> duration_millis d),
      an_expected_duration_us = (case expected of None \<Rightarrow> 0 | Some d \<Rightarrow> duration_micros d)\<rparr>"

definition record_gap :: "ObserverPlaybackSegment \<Rightarrow> u16 \<Rightarrow> u16 option \<Rightarrow> nanos \<Rightarrow> nanos option \<Rightarrow> AudioValidationStats \<Rightarrow> AudioValidationStats" where
  "record_gap segment sequence previous interval expected st =
    (if interval \<ge> OBSERVER_GAP_THRESHOLD
     then st\<lparr>av_gap_count := av_gap_count st + 1,
             av_anomalies := av_anomalies st @ [observer_anomaly ''rtp_gap_gte_100ms'' segment sequence previous interval expected]\<rparr>
     else st)"

text \<open>Zero stands for no minimum yet.\<close>

definition min_or_first :: "u64 \<Rightarrow> u64 \<Rightarrow> u64" where
  "min_or_first current value = (if current = 0 then value else min current value)"

definition record_observer_fast_interval ::
  "ObserverPlaybackSegment \<Rightarrow> u16 \<Rightarrow> u16 option \<Rightarrow> nanos \<Rightarrow> nanos option \<Rightarrow> AudioValidationStats \<Rightarrow> AudioValidationStats" where
  "record_observer_fast_interval segment sequence previous interval expected st =
    (case expected of
       Some duration \<Rightarrow>
        (if interval + LOCAL_OBSERVER_JITTER_ALLOWANCE < duration
         then st\<lparr>av_fast_interval_count := saturating_add (av_fast_interval_count st) 1,
                 av_fast_interval_min_ms := min_or_first (av_fast_interval_min_ms st) (duration_millis interval),
                 av_fast_interval_min_us := min_or_first (av_fast_interval_min_us st) (duration_micros interval),
                 av_anomalies := av_anomalies st @ [observer_anomaly ''rtp_fast_interval'' segment sequence previous interval expected]\<rparr>
         else st)
     | None \<Rightarrow> st)"

definition record_buffering :: "nanos \<Rightarrow> nanos \<Rightarrow> AudioValidationStats \<Rightarrow> AudioValidationStats" where
  "record_buffering interval duration st =
    (if interval \<ge> OBSERVER_GAP_THRESHOLD
     then (let buffering = saturating_sub (duration_micros interval) (duration_micros duration) in
           st\<lparr>av_buffering_event_count := saturating_add (av_buffering_event_count st) 1,
              av_buffering_total_us := saturating_add (av_buffering_total_us st) buffering,
              av_buffering_max_us := max (av_buffering_max_us st) buffering\<rparr>)
     else st)"

definition record_speed_change :: "nanos \<Rightarrow> nanos \<Rightarrow> AudioValidationStats \<Rightarrow> AudioValidationStats" where
  "record_speed_change interval duration st =
    (let interval_us = duration_micros interval; duration_us = duration_micros duration;
         allowance = duration_micros LOCAL_OBSERVER_JITTER_ALLOWANCE in
     if interval_us + allowance < duration_us
     then (let fast = saturating_sub (saturating_sub duration_us interval_us) allowance in
           st\<lparr>av_speed_change_fast_us := saturating_add (av_speed_change_fast_us st) fast,
              av_speed_change_abs_us := saturating_add (av_speed_change_abs_us st) fast\<rparr>)
     else if interval_us > duration_us + allowance
     then (let slow = saturating_sub (saturating_sub interval_us duration_us) allowance in
           st\<lparr>av_speed_change_slow_us := saturating_add (av_speed_change_slow_us st) slow,
              av_speed_change_abs_us := saturating_add (av_speed_change_abs_us st) slow\<rparr>)
     else st)"

definition record_inter_arrival ::
  "nanos \<Rightarrow> nanos \<Rightarrow> u16 \<Rightarrow> 'dec AudioValidationAccumulator \<Rightarrow> 'dec AudioValidationAccumulator" where
  "record_inter_arrival observed_at current_duration sequence ac =
    (let previous_sequence = ac_last_packet_sequence ac; expected = ac_last_packet_duration ac; segment = ac_segment ac;
         ac1 = ac\<lparr>ac_last_observed_at := Some observed_at\<rparr> in
     case ac_last_observed_at ac of
       None \<Rightarrow> ac1\<lparr>ac_active_wall_clock_elapsed := ac_active_wall_clock_elapsed ac1 + current_duration\<rparr>
     | Some previous \<Rightarrow>
        (let interval = observed_at - previous;
             st1 = record_gap segment sequence previous_sequence interval expected (ac_stats ac1);
             st2 = record_observer_fast_interval segment sequence previous_sequence interval expected st1;
             st3 = (case expected of
                      Some duration \<Rightarrow>
                        if is_steady_playback segment then record_speed_change interval duration (record_buffering interval duration st2) else st2
                    | None \<Rightarrow> st2);
             elapsed = (case expected of
                          Some duration \<Rightarrow> ac_active_wall_clock_elapsed ac1 - duration + interval + current_duration
                        | None \<Rightarrow> ac_active_wall_clock_elapsed ac1);
             arrivals = ac_inter_arrivals ac1 @ [interval]
         in ac1\<lparr>ac_stats := st3\<lparr>av_inter_arrival := interval_stats arrivals\<rparr>, ac_active_wall_clock_elapsed := elapsed,
                ac_inter_arrivals := arrivals\<rparr>))"

datatype validation_error =
    EmptyPayload
  | UnsupportedHeader u16
  | DecoderUnavailable
  | DecodePanicked u16
  | DecodeFailed u16
  | DecodedSamples u16 usize usize
  | SequenceJumped u16 u16 u16
  | TimestampDelta u32 u16 u32
  | NoPackets

definition validate_rtp_continuity :: "u16 \<Rightarrow> u32 \<Rightarrow> 'dec AudioValidationAccumulator \<Rightarrow> validation_error + unit" where
  "validate_rtp_continuity sequence timestamp ac =
    (case ac_last_packet_sequence ac of
       None \<Rightarrow> Inr ()
     | Some previous \<Rightarrow>
        (if sequence \<noteq> previous + 1 then Inl (SequenceJumped previous sequence (previous + 1))
         else (case (ac_last_packet_timestamp ac, ac_last_packet_duration_samples ac) of
                 (Some before, Some samples) \<Rightarrow>
                   if timestamp - before \<noteq> samples then Inl (TimestampDelta (timestamp - before) previous samples) else Inr ()
               | _ \<Rightarrow> Inr ())))"

section \<open>Tempo windows\<close>

definition observed_window_media :: "ObservedPacketTiming list \<Rightarrow> nanos" where
  "observed_window_media window = sum_list (map pt_duration window)"

definition observed_window_wall :: "ObservedPacketTiming list \<Rightarrow> nanos" where
  "observed_window_wall window = pt_observed_at (last window) - pt_observed_at (hd window) + pt_duration (last window)"

definition last_window :: "usize \<Rightarrow> ObservedPacketTiming list \<Rightarrow> ObservedPacketTiming list" where
  "last_window n timings = drop (length timings - n) timings"

definition record_long_window :: "ObservedPacketTiming list \<Rightarrow> AudioValidationStats \<Rightarrow> AudioValidationStats" where
  "record_long_window window st =
    (let media = observed_window_media window; wall = observed_window_wall window;
         ratio = media_to_wall_clock_ratio_ppm_duration media wall;
         st1 = st\<lparr>av_window_count := saturating_add (av_window_count st) 1\<rparr>;
         st2 = (if pt_decoded_audio_start_ms (hd window) \<ge> OBSERVER_POST_SOURCE_BUFFER_AUDIO_MS
                then st1\<lparr>av_window_post_source_buffer_count := saturating_add (av_window_post_source_buffer_count st1) 1\<rparr> else st1);
         st3 = st2\<lparr>av_window_min_ratio_ppm := min_or_first (av_window_min_ratio_ppm st2) ratio,
                   av_window_max_ratio_ppm := max (av_window_max_ratio_ppm st2) ratio\<rparr>;
         evidence = (ratio, duration_millis media, duration_micros wall);
         st4 = (if ratio > MAX_MEDIA_TO_WALL_CLOCK_RATIO_PPM
                then (let s = st3\<lparr>av_window_fast_count := saturating_add (av_window_fast_count st3) 1\<rparr> in
                      if ratio > fst (av_window_fastest s) then s\<lparr>av_window_fastest := evidence\<rparr> else s)
                else st3)
     in if ratio < MIN_MEDIA_TO_WALL_CLOCK_RATIO_PPM
        then (let s = st4\<lparr>av_window_slow_count := saturating_add (av_window_slow_count st4) 1\<rparr> in
              if fst (av_window_slowest s) = 0 \<or> ratio < fst (av_window_slowest s) then s\<lparr>av_window_slowest := evidence\<rparr> else s)
        else st4)"

definition record_latest_long_decoded_audio_tempo_window :: "'dec AudioValidationAccumulator \<Rightarrow> 'dec AudioValidationAccumulator" where
  "record_latest_long_decoded_audio_tempo_window ac =
    (if length (ac_timings ac) < OBSERVER_TEMPO_WINDOW_PACKETS then ac
     else on_stats (record_long_window (last_window OBSERVER_TEMPO_WINDOW_PACKETS (ac_timings ac))) ac)"

definition record_short_window :: "ObserverPlaybackSegment \<Rightarrow> usize \<Rightarrow> ObservedPacketTiming list \<Rightarrow> AudioValidationStats \<Rightarrow> AudioValidationStats" where
  "record_short_window segment n window st =
    (let media = observed_window_media window; wall = observed_window_wall window;
         ratio = media_to_wall_clock_ratio_ppm_duration media wall;
         evidence = \<lparr>tw_classification = segment_label segment, tw_window_packet_count = u64_saturating_from_nat n,
                     tw_media_ms = duration_millis media, tw_wall_clock_us = duration_micros wall, tw_ratio_ppm = ratio,
                     tw_first_sequence = pt_sequence (hd window), tw_last_sequence = pt_sequence (last window)\<rparr>;
         st1 = st\<lparr>av_short_window_count := saturating_add (av_short_window_count st) 1\<rparr>;
         st2 = (if (case av_short_window_fastest st1 of None \<Rightarrow> True | Some current \<Rightarrow> ratio > tw_ratio_ppm current)
                then st1\<lparr>av_short_window_fastest := Some evidence\<rparr> else st1);
         st3 = (if (case av_short_window_slowest st2 of None \<Rightarrow> True | Some current \<Rightarrow> ratio < tw_ratio_ppm current)
                then st2\<lparr>av_short_window_slowest := Some evidence\<rparr> else st2);
         st4 = (if ratio > MAX_MEDIA_TO_WALL_CLOCK_RATIO_PPM
                then st3\<lparr>av_short_window_fast_count := saturating_add (av_short_window_fast_count st3) 1\<rparr> else st3)
     in if ratio < MIN_MEDIA_TO_WALL_CLOCK_RATIO_PPM
        then st4\<lparr>av_short_window_slow_count := saturating_add (av_short_window_slow_count st4) 1\<rparr> else st4)"

definition record_latest_short_decoded_audio_tempo_window ::
  "usize \<Rightarrow> 'dec AudioValidationAccumulator \<Rightarrow> 'dec AudioValidationAccumulator" where
  "record_latest_short_decoded_audio_tempo_window n ac =
    (if length (ac_timings ac) < n then ac
     else on_stats (record_short_window (ac_segment ac) n (last_window n (ac_timings ac))) ac)"

definition record_latest_decoded_audio_tempo_windows :: "'dec AudioValidationAccumulator \<Rightarrow> 'dec AudioValidationAccumulator" where
  "record_latest_decoded_audio_tempo_windows ac =
     record_latest_long_decoded_audio_tempo_window
       (fold record_latest_short_decoded_audio_tempo_window OBSERVER_SHORT_TEMPO_WINDOW_PACKETS ac)"

section \<open>Observing\<close>

definition observed_packet_channels :: "bytes \<Rightarrow> usize option" where
  "observed_packet_channels packet = (case packet of [] \<Rightarrow> None | toc # _ \<Rightarrow> Some (if toc AND 4 \<noteq> 0 then 2 else 1))"

text \<open>The decoder: making one for a number of channels, and decoding into so many samples.\<close>

datatype decode_result = DecodedLoud usize | DecodedQuiet usize | DecodeError | DecodePanic

record 'dec decoder_lib =
  dec_new :: "usize \<Rightarrow> 'dec option"
  dec_decode :: "'dec \<Rightarrow> bytes \<Rightarrow> usize \<Rightarrow> decode_result \<times> 'dec"

text \<open>Decoding with the decoder that is kept for the channel count. A decoder is made even if one is there.\<close>

definition decode_observed_packet ::
  "'dec decoder_lib \<Rightarrow> usize \<Rightarrow> bytes \<Rightarrow> usize \<Rightarrow> 'dec AudioValidationAccumulator \<Rightarrow> decode_result option \<times> 'dec AudioValidationAccumulator" where
  "decode_observed_packet lib channels payload frame_len ac =
    (case dec_new lib channels of
       None \<Rightarrow> (None, ac)
     | Some fresh \<Rightarrow>
        (if channels = 1
         then (case dec_decode lib (case ac_mono_decoder ac of Some d \<Rightarrow> d | None \<Rightarrow> fresh) payload frame_len of
                 (r, d) \<Rightarrow> (Some r, ac\<lparr>ac_mono_decoder := Some d\<rparr>))
         else (case dec_decode lib (case ac_stereo_decoder ac of Some d \<Rightarrow> d | None \<Rightarrow> fresh) payload frame_len of
                 (r, d) \<Rightarrow> (Some r, ac\<lparr>ac_stereo_decoder := Some d\<rparr>))))"

definition packet_nanos :: "u32 \<Rightarrow> nanos" where
  "packet_nanos samples = unat (saturating_mul (u64_from_u32 samples) 1000000000) div 48000"

definition stats :: "'dec AudioValidationAccumulator \<Rightarrow> AudioValidationStats" where
  "stats ac =
    (let st = ac_stats ac in
     if av_observed_packet_count st > 0
     then st\<lparr>av_decoded_audio_ms := duration_millis (ac_decoded_audio_duration ac),
             av_non_silent_audio_ms := duration_millis (ac_non_silent_audio_duration ac),
             av_wall_clock_elapsed_ms := duration_millis (ac_active_wall_clock_elapsed ac),
             av_decoded_audio_ratio_ppm :=
               media_to_wall_clock_ratio_ppm_duration (ac_decoded_audio_duration ac) (ac_active_wall_clock_elapsed ac)\<rparr>
     else st)"

text \<open>A packet that was decoded and numbered right is counted and timed.\<close>

definition accept_packet ::
  "ObservedOpusPacket \<Rightarrow> u32 \<Rightarrow> bool \<Rightarrow> nanos \<Rightarrow> 'dec AudioValidationAccumulator \<Rightarrow> 'dec AudioValidationAccumulator" where
  "accept_packet packet samples loud observed_at ac =
    (let duration = packet_nanos samples; seq = op_sequence packet;
         ac1 = on_stats (record_opus_duration_evidence samples) ac;
         start_ms = duration_millis (ac_decoded_audio_duration ac1);
         ac2 = on_stats (\<lambda>st. st\<lparr>av_observed_packet_count := av_observed_packet_count st + 1,
                   av_first_sequence := (case av_first_sequence st of Some s \<Rightarrow> Some s | None \<Rightarrow> Some seq),
                   av_last_sequence := Some seq\<rparr>)
               (ac1\<lparr>ac_decoded_audio_duration := ac_decoded_audio_duration ac1 + duration,
                    ac_non_silent_audio_duration := ac_non_silent_audio_duration ac1 + (if loud then duration else 0)\<rparr>);
         ac3 = record_inter_arrival observed_at duration seq ac2;
         ac4 = ac3\<lparr>ac_last_packet_duration := Some duration, ac_last_packet_duration_samples := Some samples,
                   ac_last_packet_timestamp := Some (op_timestamp packet), ac_last_packet_sequence := Some seq,
                   ac_timings := ac_timings ac3 @ [\<lparr>pt_observed_at = observed_at, pt_duration = duration,
                     pt_decoded_audio_start_ms = start_ms, pt_sequence = seq\<rparr>]\<rparr>
     in record_latest_decoded_audio_tempo_windows ac4)"

definition observe_packet_at ::
  "'dec decoder_lib \<Rightarrow> ObservedOpusPacket \<Rightarrow> nanos \<Rightarrow> 'dec AudioValidationAccumulator
    \<Rightarrow> (validation_error + AudioValidationStats) \<times> 'dec AudioValidationAccumulator" where
  "observe_packet_at lib packet observed_at ac =
    (let seq = op_sequence packet in
     if op_payload packet = [] then (Inl EmptyPayload, ac)
     else (case (opus_packet_duration (op_payload packet), observed_packet_channels (op_payload packet)) of
             (Some declared, Some channels) \<Rightarrow>
              (let frame_len = unat (pd_samples declared);
                   accept = (\<lambda>decoded loud ac1.
                     if decoded \<noteq> frame_len then (Inl (DecodedSamples seq decoded frame_len), ac1)
                     else (case validate_rtp_continuity seq (op_timestamp packet) ac1 of
                             Inl err \<Rightarrow> (Inl err, ac1)
                           | Inr _ \<Rightarrow> (let ac2 = accept_packet packet (pd_samples declared) loud observed_at ac1 in (Inr (stats ac2), ac2))))
               in case decode_observed_packet lib channels (op_payload packet) frame_len ac of
                    (None, ac1) \<Rightarrow> (Inl DecoderUnavailable, ac1)
                  | (Some DecodePanic, ac1) \<Rightarrow> (Inl (DecodePanicked seq), ac1)
                  | (Some DecodeError, ac1) \<Rightarrow> (Inl (DecodeFailed seq), ac1)
                  | (Some (DecodedLoud n), ac1) \<Rightarrow> accept n True ac1
                  | (Some (DecodedQuiet n), ac1) \<Rightarrow> accept n False ac1)
           | _ \<Rightarrow> (Inl (UnsupportedHeader seq), ac)))"

definition reset_inter_arrival_baseline :: "'dec AudioValidationAccumulator \<Rightarrow> 'dec AudioValidationAccumulator" where
  "reset_inter_arrival_baseline ac =
     ac\<lparr>ac_last_observed_at := None, ac_last_packet_duration := None, ac_last_packet_duration_samples := None,
        ac_last_packet_timestamp := None, ac_timings := []\<rparr>"

definition start_controlled_pause :: "'dec AudioValidationAccumulator \<Rightarrow> 'dec AudioValidationAccumulator" where
  "start_controlled_pause ac = ac\<lparr>ac_segment := ControlledPause\<rparr>"

definition reset_wall_clock_baseline_after_controlled_pause :: "'dec AudioValidationAccumulator \<Rightarrow> 'dec AudioValidationAccumulator" where
  "reset_wall_clock_baseline_after_controlled_pause ac =
     ac\<lparr>ac_last_observed_at := None, ac_last_packet_duration := None, ac_timings := [], ac_segment := PostResumeSteady\<rparr>"

definition start_natural_end_drain :: "'dec AudioValidationAccumulator \<Rightarrow> 'dec AudioValidationAccumulator" where
  "start_natural_end_drain ac = ac\<lparr>ac_segment := NaturalEndDrain\<rparr>"

definition into_stats :: "'dec AudioValidationAccumulator \<Rightarrow> validation_error + AudioValidationStats" where
  "into_stats ac = (if av_observed_packet_count (stats ac) = 0 then Inl NoPackets else Inr (stats ac))"

text \<open>Packets with the instants at which they are observed, up to the first that is refused.\<close>

fun observe_packets ::
  "'dec decoder_lib \<Rightarrow> (ObservedOpusPacket \<times> nanos) list \<Rightarrow> 'dec AudioValidationAccumulator
    \<Rightarrow> (validation_error + unit) \<times> 'dec AudioValidationAccumulator" where
  "observe_packets lib [] ac = (Inr (), ac)"
| "observe_packets lib ((packet, observed_at) # rest) ac =
    (case observe_packet_at lib packet observed_at ac of
       (Inl err, ac1) \<Rightarrow> (Inl err, ac1)
     | (Inr _, ac1) \<Rightarrow> observe_packets lib rest ac1)"

definition analyze_opus_packets :: "'dec decoder_lib \<Rightarrow> (ObservedOpusPacket \<times> nanos) list \<Rightarrow> validation_error + AudioValidationStats" where
  "analyze_opus_packets lib packets =
    (case observe_packets lib packets accumulator_new of
       (Inl err, _) \<Rightarrow> Inl err
     | (Inr _, ac) \<Rightarrow> into_stats ac)"

end
