(* ===== verification/AudioLaws.thy ===== *)
theory AudioLaws
  imports AudioValidator
begin

text \<open>
  What the judge of received audio guarantees: an accepted run of packets is one gapless RTP stream whose media and
  wall-clock time are added up exactly, and a refused packet leaves no trace in the statistics.
\<close>

section \<open>What recording changes\<close>

lemma on_stats_fields [simp]:
  "ac_decoded_audio_duration (on_stats f ac) = ac_decoded_audio_duration ac"
  "ac_non_silent_audio_duration (on_stats f ac) = ac_non_silent_audio_duration ac"
  "ac_active_wall_clock_elapsed (on_stats f ac) = ac_active_wall_clock_elapsed ac"
  "ac_last_observed_at (on_stats f ac) = ac_last_observed_at ac"
  "ac_last_packet_duration (on_stats f ac) = ac_last_packet_duration ac"
  "ac_last_packet_duration_samples (on_stats f ac) = ac_last_packet_duration_samples ac"
  "ac_last_packet_timestamp (on_stats f ac) = ac_last_packet_timestamp ac"
  "ac_last_packet_sequence (on_stats f ac) = ac_last_packet_sequence ac"
  "ac_inter_arrivals (on_stats f ac) = ac_inter_arrivals ac"
  "ac_timings (on_stats f ac) = ac_timings ac"
  "ac_segment (on_stats f ac) = ac_segment ac"
  "ac_stats (on_stats f ac) = f (ac_stats ac)"
  by (simp_all add: on_stats_def)

text \<open>Recording tempo windows touches only the statistics.\<close>

lemma long_window_on_stats: "\<exists>f. record_latest_long_decoded_audio_tempo_window ac = on_stats f ac"
proof (cases "length (ac_timings ac) < OBSERVER_TEMPO_WINDOW_PACKETS")
  case True
  then show ?thesis by (intro exI [of _ "\<lambda>st. st"]) (simp add: record_latest_long_decoded_audio_tempo_window_def on_stats_def)
qed (auto simp: record_latest_long_decoded_audio_tempo_window_def)

lemma short_window_on_stats: "\<exists>f. record_latest_short_decoded_audio_tempo_window n ac = on_stats f ac"
proof (cases "length (ac_timings ac) < n")
  case True
  then show ?thesis by (intro exI [of _ "\<lambda>st. st"]) (simp add: record_latest_short_decoded_audio_tempo_window_def on_stats_def)
qed (auto simp: record_latest_short_decoded_audio_tempo_window_def)

lemma on_stats_comp: "on_stats f (on_stats g ac) = on_stats (f \<circ> g) ac"
  by (simp add: on_stats_def)

lemma windows_on_stats: "\<exists>f. record_latest_decoded_audio_tempo_windows ac = on_stats f ac"
proof -
  obtain f where f: "record_latest_short_decoded_audio_tempo_window 25 ac = on_stats f ac"
    using short_window_on_stats by blast
  obtain g where g: "record_latest_short_decoded_audio_tempo_window 50 (on_stats f ac) = on_stats g (on_stats f ac)"
    using short_window_on_stats by blast
  obtain h where h: "record_latest_long_decoded_audio_tempo_window (on_stats g (on_stats f ac)) = on_stats h (on_stats g (on_stats f ac))"
    using long_window_on_stats by blast
  show ?thesis
    by (intro exI [of _ "h \<circ> (g \<circ> f)"])
      (simp add: record_latest_decoded_audio_tempo_windows_def OBSERVER_SHORT_TEMPO_WINDOW_PACKETS_def f
        g h [unfolded on_stats_comp] on_stats_comp)
qed

lemma windows_fields [simp]:
  "ac_decoded_audio_duration (record_latest_decoded_audio_tempo_windows ac) = ac_decoded_audio_duration ac"
  "ac_active_wall_clock_elapsed (record_latest_decoded_audio_tempo_windows ac) = ac_active_wall_clock_elapsed ac"
  "ac_last_observed_at (record_latest_decoded_audio_tempo_windows ac) = ac_last_observed_at ac"
  "ac_last_packet_duration (record_latest_decoded_audio_tempo_windows ac) = ac_last_packet_duration ac"
  "ac_last_packet_duration_samples (record_latest_decoded_audio_tempo_windows ac) = ac_last_packet_duration_samples ac"
  "ac_last_packet_timestamp (record_latest_decoded_audio_tempo_windows ac) = ac_last_packet_timestamp ac"
  "ac_last_packet_sequence (record_latest_decoded_audio_tempo_windows ac) = ac_last_packet_sequence ac"
  "ac_timings (record_latest_decoded_audio_tempo_windows ac) = ac_timings ac"
  using windows_on_stats [of ac] by auto

lemma inter_arrival_fields [simp]:
  "ac_decoded_audio_duration (record_inter_arrival t d seq ac) = ac_decoded_audio_duration ac"
  "ac_last_observed_at (record_inter_arrival t d seq ac) = Some t"
  "ac_timings (record_inter_arrival t d seq ac) = ac_timings ac"
  "ac_segment (record_inter_arrival t d seq ac) = ac_segment ac"
  "ac_active_wall_clock_elapsed (record_inter_arrival t d seq ac) =
    (case (ac_last_observed_at ac, ac_last_packet_duration ac) of
       (None, _) \<Rightarrow> ac_active_wall_clock_elapsed ac + d
     | (Some previous, Some duration) \<Rightarrow> ac_active_wall_clock_elapsed ac - duration + (t - previous) + d
     | (Some _, None) \<Rightarrow> ac_active_wall_clock_elapsed ac)"
  by (simp_all add: record_inter_arrival_def Let_def split: option.split)

lemma accept_packet_fields:
  "ac_last_packet_sequence (accept_packet packet samples loud t ac) = Some (op_sequence packet)"
  "ac_last_packet_timestamp (accept_packet packet samples loud t ac) = Some (op_timestamp packet)"
  "ac_last_packet_duration_samples (accept_packet packet samples loud t ac) = Some samples"
  "ac_last_packet_duration (accept_packet packet samples loud t ac) = Some (packet_nanos samples)"
  "ac_last_observed_at (accept_packet packet samples loud t ac) = Some t"
  "ac_decoded_audio_duration (accept_packet packet samples loud t ac) = ac_decoded_audio_duration ac + packet_nanos samples"
  "ac_active_wall_clock_elapsed (accept_packet packet samples loud t ac) =
    (case (ac_last_observed_at ac, ac_last_packet_duration ac) of
       (None, _) \<Rightarrow> ac_active_wall_clock_elapsed ac + packet_nanos samples
     | (Some previous, Some duration) \<Rightarrow> ac_active_wall_clock_elapsed ac - duration + (t - previous) + packet_nanos samples
     | (Some _, None) \<Rightarrow> ac_active_wall_clock_elapsed ac)"
  "map pt_observed_at (ac_timings (accept_packet packet samples loud t ac)) = map pt_observed_at (ac_timings ac) @ [t]"
  by (simp_all add: accept_packet_def Let_def split: option.split)

section \<open>Refused packets\<close>

definition heard_part :: "'dec AudioValidationAccumulator \<Rightarrow> 'dec AudioValidationAccumulator" where
  "heard_part ac = ac\<lparr>ac_mono_decoder := None, ac_stereo_decoder := None\<rparr>"

lemma decode_observed_heard: "decode_observed_packet lib channels payload n ac = (r, ac1) \<Longrightarrow> heard_part ac1 = heard_part ac"
  by (auto simp: decode_observed_packet_def heard_part_def split: option.splits if_splits prod.splits)

lemma heard_part_fields:
  assumes "heard_part ac1 = heard_part ac"
  shows "ac_stats ac1 = ac_stats ac" "ac_decoded_audio_duration ac1 = ac_decoded_audio_duration ac"
    "ac_active_wall_clock_elapsed ac1 = ac_active_wall_clock_elapsed ac" "ac_last_observed_at ac1 = ac_last_observed_at ac"
    "ac_last_packet_duration ac1 = ac_last_packet_duration ac" "ac_last_packet_timestamp ac1 = ac_last_packet_timestamp ac"
    "ac_last_packet_duration_samples ac1 = ac_last_packet_duration_samples ac"
    "ac_last_packet_sequence ac1 = ac_last_packet_sequence ac" "ac_timings ac1 = ac_timings ac"
  using assms unfolding heard_part_def by (cases ac; cases ac1; simp)+

definition packet_samples :: "ObservedOpusPacket \<Rightarrow> u32" where
  "packet_samples packet = (case opus_packet_duration (op_payload packet) of Some d \<Rightarrow> pd_samples d | None \<Rightarrow> 0)"

lemma observe_packet_cases:
  assumes "observe_packet_at lib packet t ac = (r, ac')"
  obtains (refused) err where "r = Inl err" "heard_part ac' = heard_part ac"
  | (accepted) ac1 loud where "heard_part ac1 = heard_part ac" "ac' = accept_packet packet (packet_samples packet) loud t ac1"
      "validate_rtp_continuity (op_sequence packet) (op_timestamp packet) ac1 = Inr ()" "r = Inr (stats ac')"
proof (cases "op_payload packet = [] \<or> opus_packet_duration (op_payload packet) = None \<or> observed_packet_channels (op_payload packet) = None")
  case True
  then show ?thesis using assms refused by (auto simp: observe_packet_at_def Let_def split: option.splits if_splits)
next
  case False
  then obtain declared channels where d: "opus_packet_duration (op_payload packet) = Some declared"
      "observed_packet_channels (op_payload packet) = Some channels" by auto
  obtain dec ac1 where dec: "decode_observed_packet lib channels (op_payload packet) (unat (pd_samples declared)) ac = (dec, ac1)" by fastforce
  note heard = decode_observed_heard [OF dec]
  have samples: "packet_samples packet = pd_samples declared" by (simp add: packet_samples_def d)
  show ?thesis
    using assms False d dec heard samples refused accepted
    by (auto simp: observe_packet_at_def Let_def split: option.splits decode_result.splits if_splits sum.splits)
qed

section \<open>Accepted runs\<close>

text \<open>The packet that follows another in an RTP stream.\<close>

definition follows :: "ObservedOpusPacket \<times> nanos \<Rightarrow> ObservedOpusPacket \<times> nanos \<Rightarrow> bool" where
  "follows p q \<longleftrightarrow>
     op_sequence (fst q) = op_sequence (fst p) + 1 \<and> op_timestamp (fst q) = op_timestamp (fst p) + packet_samples (fst p)"

definition stream_nanos :: "(ObservedOpusPacket \<times> nanos) list \<Rightarrow> nanos" where
  "stream_nanos packets = sum_list (map (\<lambda>(packet, _). packet_nanos (packet_samples packet)) packets)"

definition wall_nanos :: "(ObservedOpusPacket \<times> nanos) list \<Rightarrow> nanos" where
  "wall_nanos packets =
    (if packets = [] then 0
     else snd (last packets) - snd (hd packets) + packet_nanos (packet_samples (fst (last packets))))"

text \<open>The accumulator after a run of accepted packets.\<close>

definition heard :: "(ObservedOpusPacket \<times> nanos) list \<Rightarrow> 'dec AudioValidationAccumulator \<Rightarrow> bool" where
  "heard packets ac \<longleftrightarrow>
     successively follows packets \<and>
     ac_last_packet_sequence ac = map_option (op_sequence \<circ> fst) (if packets = [] then None else Some (last packets)) \<and>
     ac_last_packet_timestamp ac = map_option (op_timestamp \<circ> fst) (if packets = [] then None else Some (last packets)) \<and>
     ac_last_packet_duration_samples ac = map_option (packet_samples \<circ> fst) (if packets = [] then None else Some (last packets)) \<and>
     ac_last_packet_duration ac = map_option (packet_nanos \<circ> packet_samples \<circ> fst) (if packets = [] then None else Some (last packets)) \<and>
     ac_last_observed_at ac = map_option snd (if packets = [] then None else Some (last packets)) \<and>
     ac_decoded_audio_duration ac = stream_nanos packets \<and>
     (sorted (map snd packets) \<longrightarrow> ac_active_wall_clock_elapsed ac = wall_nanos packets)"

lemma heard_same: "heard packets ac \<Longrightarrow> heard_part ac1 = heard_part ac \<Longrightarrow> heard packets ac1"
  using heard_part_fields [of ac1 ac] by (simp add: heard_def)

lemma heard_wall:
  assumes "sorted (map snd (packets @ [(packet, t)]))" "packets \<noteq> []"
  shows "wall_nanos packets - packet_nanos (packet_samples (fst (last packets))) + (t - snd (last packets)) + d =
    t - snd (hd packets) + d"
proof -
  obtain p rest where p: "packets = p # rest" using assms(2) by (cases packets) auto
  have "snd (last packets) \<le> t" using assms last_in_set by (fastforce simp: sorted_append)
  moreover have "snd (hd packets) \<le> snd (last packets)"
    using assms(1) p last_in_set [of rest] by (auto simp: sorted_append)
  ultimately show ?thesis using assms(2) by (simp add: wall_nanos_def)
qed

lemma heard_snoc:
  assumes "heard packets ac" "validate_rtp_continuity (op_sequence packet) (op_timestamp packet) ac = Inr ()"
  shows "heard (packets @ [(packet, t)]) (accept_packet packet (packet_samples packet) loud t ac)"
proof (cases "packets = []")
  case True
  then show ?thesis using assms(1) by (simp add: heard_def accept_packet_fields stream_nanos_def wall_nanos_def)
next
  case False
  have "follows (last packets) (packet, t)"
    using assms False
    by (auto simp: heard_def validate_rtp_continuity_def follows_def diff_eq_eq add.commute split: if_splits)
  moreover have "ac_active_wall_clock_elapsed (accept_packet packet (packet_samples packet) loud t ac) =
      wall_nanos (packets @ [(packet, t)])" if sorted: "sorted (map snd (packets @ [(packet, t)]))"
  proof -
    have "ac_active_wall_clock_elapsed ac = wall_nanos packets" using assms(1) sorted by (simp add: heard_def sorted_append)
    then show ?thesis
      using heard_wall [OF sorted False] assms(1) False
      by (simp add: accept_packet_fields heard_def) (simp add: wall_nanos_def [of "packets @ _"])
  qed
  ultimately show ?thesis
    using assms(1) False by (simp add: heard_def accept_packet_fields successively_append_iff stream_nanos_def)
qed

lemma observe_packets_heard:
  "observe_packets lib packets ac = (Inr (), ac') \<Longrightarrow> heard before ac \<Longrightarrow> heard (before @ packets) ac'"
proof (induction packets arbitrary: before ac)
  case (Cons p packets)
  obtain packet t where p: "p = (packet, t)" by fastforce
  obtain r ac1 where step: "observe_packet_at lib packet t ac = (r, ac1)" by fastforce
  then have ok: "\<exists>x. r = Inr x" "observe_packets lib packets ac1 = (Inr (), ac')"
    using Cons.prems(1) p by (auto split: sum.splits)
  from step have "heard (before @ [(packet, t)]) ac1"
  proof (cases rule: observe_packet_cases)
    case (accepted ac0 loud)
    then show ?thesis using heard_snoc heard_same [OF Cons.prems(2)] by blast
  qed (use ok in auto)
  from Cons.IH [OF ok(2) this] p show ?case by simp
qed simp

text \<open>C26: An accepted run is one gapless stream. When the validator accepts packets, each carries the sequence number after
  the one before it and a timestamp later by exactly the duration the packet before it declares, both modulo their
  width; the decoded audio is the sum of what the packets declare, and, if the packets were observed in order, the
  wall-clock time is that from the first to the last plus the last one's duration.\<close>

theorem accepted_audio_is_gapless:
  assumes "observe_packets lib packets accumulator_new = (Inr (), ac)"
  shows "successively follows packets \<and> ac_decoded_audio_duration ac = stream_nanos packets \<and>
    (sorted (map snd packets) \<longrightarrow> ac_active_wall_clock_elapsed ac = wall_nanos packets)"
proof -
  have "heard [] (accumulator_new :: 'a AudioValidationAccumulator)"
    by (simp add: heard_def accumulator_new_def stream_nanos_def wall_nanos_def)
  from observe_packets_heard [OF assms this] show ?thesis by (simp add: heard_def)
qed

text \<open>A packet that is refused, for whatever reason, changes nothing that is reported: the statistics, the media and
  wall-clock time and the number the next packet must carry stay as they were.\<close>

theorem refused_packet_leaves_no_trace:
  assumes "observe_packet_at lib packet t ac = (Inl err, ac')"
  shows "stats ac' = stats ac \<and> ac_last_packet_sequence ac' = ac_last_packet_sequence ac \<and> ac_timings ac' = ac_timings ac"
  using assms
proof (cases rule: observe_packet_cases)
  case (refused err)
  have "ac_non_silent_audio_duration ac' = ac_non_silent_audio_duration ac"
    using refused(2) unfolding heard_part_def by (cases ac; cases ac') simp
  then show ?thesis using heard_part_fields [OF refused(2)] by (simp add: stats_def Let_def)
qed simp

text \<open>A decoder that finds every packet loud and complete.\<close>

definition loud_decoder :: "unit decoder_lib" where
  "loud_decoder = \<lparr>dec_new = (\<lambda>_. Some ()), dec_decode = (\<lambda>_ _ n. (DecodedLoud n, ()))\<rparr>"

definition sample_packet :: "u16 \<Rightarrow> u32 \<Rightarrow> ObservedOpusPacket" where
  "sample_packet seq ts = \<lparr>op_sequence = seq, op_timestamp = ts, op_payload = [248, 255, 254]\<rparr>"

lemma opus_silence_duration: "opus_packet_duration [248, 255, 254] = Some \<lparr>pd_ms = 20, pd_samples = 960\<rparr>"
proof -
  have "duration_ms_from_samples (u64_from_u32 960) = 20"
    by (simp add: duration_ms_from_samples_def saturating_mul_def u64_from_u32_def OPUS_SAMPLE_RATE_HZ_def)
  then show ?thesis by (simp add: opus_packet_duration_def opus_frame_count_def opus_samples_per_frame_def)
qed

lemma sample_packet_samples [simp]:
  "opus_packet_duration (op_payload (sample_packet seq ts)) = Some \<lparr>pd_ms = 20, pd_samples = 960\<rparr>"
  "observed_packet_channels (op_payload (sample_packet seq ts)) = Some 1"
  "packet_samples (sample_packet seq ts) = 960" "op_payload (sample_packet seq ts) \<noteq> []"
  "op_sequence (sample_packet seq ts) = seq" "op_timestamp (sample_packet seq ts) = ts"
  by (simp_all add: sample_packet_def packet_samples_def opus_silence_duration observed_packet_channels_def)

lemma observe_sample:
  assumes "validate_rtp_continuity seq ts ac = Inr ()"
  shows "\<exists>x ac1. observe_packet_at loud_decoder (sample_packet seq ts) t ac = (Inr x, ac1) \<and>
    validate_rtp_continuity (seq + 1) (ts + 960) ac1 = Inr ()"
proof -
  have "validate_rtp_continuity seq ts (ac\<lparr>ac_mono_decoder := Some ()\<rparr>) = Inr ()"
    using assms by (simp add: validate_rtp_continuity_def split: option.splits if_splits)
  then show ?thesis
    by (simp add: observe_packet_at_def decode_observed_packet_def loud_decoder_def Let_def validate_rtp_continuity_def [of "seq + 1"]
        accept_packet_fields)
qed

theorem accepted_audio_is_gapless_witness:
  "\<exists>ac. observe_packets loud_decoder [(sample_packet (- 1) 0, 0), (sample_packet 0 960, 21000000)] accumulator_new = (Inr (), ac) \<and>
     ac_decoded_audio_duration ac = 40000000 \<and> ac_active_wall_clock_elapsed ac = 41000000"
proof -
  let ?packets = "[(sample_packet (- 1) 0, 0), (sample_packet 0 960, 21000000)]"
  have "validate_rtp_continuity (- 1) 0 (accumulator_new :: unit AudioValidationAccumulator) = Inr ()"
    by (simp add: validate_rtp_continuity_def accumulator_new_def)
  then obtain x ac1 where one: "observe_packet_at loud_decoder (sample_packet (- 1) 0) 0 accumulator_new = (Inr x, ac1)"
    "validate_rtp_continuity 0 960 ac1 = Inr ()" using observe_sample [of "- 1" 0 accumulator_new 0] by auto
  then obtain y ac where "observe_packet_at loud_decoder (sample_packet 0 960) 21000000 ac1 = (Inr y, ac)"
    using observe_sample by blast
  with one have run: "observe_packets loud_decoder ?packets accumulator_new = (Inr (), ac)" by simp
  have "packet_nanos 960 = 20000000" by (simp add: packet_nanos_def saturating_mul_def u64_from_u32_def)
  with accepted_audio_is_gapless [OF run] run show ?thesis
    by (simp add: stream_nanos_def wall_nanos_def)
qed

theorem refused_packet_leaves_no_trace_witness:
  "case observe_packet_at loud_decoder \<lparr>op_sequence = 7, op_timestamp = 0, op_payload = []\<rparr> 5 accumulator_new of
     (r, ac) \<Rightarrow> r = Inl EmptyPayload \<and> stats ac = stats (accumulator_new :: unit AudioValidationAccumulator)"
proof -
  have refused: "observe_packet_at loud_decoder \<lparr>op_sequence = 7, op_timestamp = 0, op_payload = []\<rparr> 5 accumulator_new =
      (Inl EmptyPayload, accumulator_new)" by (simp add: observe_packet_at_def Let_def)
  with refused_packet_leaves_no_trace [OF refused] show ?thesis by simp
qed

text \<open>The smallest interval is forgotten. Zero stands for no minimum yet, so an interval below a millisecond is recorded as
  zero and the next fast interval, however long, replaces it: after bursts the reported minimum is not one.\<close>

theorem fast_minimum_is_forgotten:
  assumes "i1 + LOCAL_OBSERVER_JITTER_ALLOWANCE < d1" "i2 + LOCAL_OBSERVER_JITTER_ALLOWANCE < d2" "i1 < 1000000"
  shows "av_fast_interval_min_ms (record_observer_fast_interval segment s2 (Some s1) i2 (Some d2)
      (record_observer_fast_interval segment s1 previous i1 (Some d1) st)) = duration_millis i2"
proof -
  have "duration_millis i1 = 0" using assms(3) by (simp add: duration_millis_def u64_saturating_from_nat_def)
  then show ?thesis using assms(1,2) by (simp add: record_observer_fast_interval_def min_or_first_def min_def)
qed

theorem fast_minimum_is_forgotten_witness:
  "av_fast_interval_min_ms (record_observer_fast_interval PrePauseSteady 3 (Some 2) 17000000 (Some 20000000)
      (record_observer_fast_interval PrePauseSteady 2 (Some 1) 500000 (Some 20000000) AudioValidationStats_default)) = 17"
  using fast_minimum_is_forgotten [of 500000 20000000 17000000 20000000]
  by (simp add: LOCAL_OBSERVER_JITTER_ALLOWANCE_def duration_millis_def u64_saturating_from_nat_def)

end
