(* ===== verification/ObserverVerdict.thy ===== *)
theory ObserverVerdict
  imports AudioLaws
begin

text \<open>
  The verdict of live validation on what the observer heard (\<open>controller.rs\<close> of \<open>discord-voice-service-live-validation\<close>):
  the thresholds, and the reason that is given when they are not met. The flow around it, which drives Discord and the
  service, is input and output and is not modelled.
\<close>

section \<open>Thresholds\<close>

definition MIN_LIVE_TEST_VIDEO_DURATION_MS :: u64 where "MIN_LIVE_TEST_VIDEO_DURATION_MS = 90000"
definition SOURCE_PLAYBACK_BUFFER_TARGET_MS :: u64 where "SOURCE_PLAYBACK_BUFFER_TARGET_MS = 5000"
definition MIN_LIVE_POST_SOURCE_TEMPO_WINDOWS :: u64 where "MIN_LIVE_POST_SOURCE_TEMPO_WINDOWS = 500"
definition RTP_INTERVAL_P95_BUDGET_MS :: u64 where "RTP_INTERVAL_P95_BUDGET_MS = 45"
definition RTP_INTERVAL_P99_BUDGET_MS :: u64 where "RTP_INTERVAL_P99_BUDGET_MS = 70"
definition RTP_INTERVAL_MAX_BUDGET_MS :: u64 where "RTP_INTERVAL_MAX_BUDGET_MS = 200"
definition MEDIA_TO_WALL_CLOCK_MIN_RATIO_PPM :: u64 where "MEDIA_TO_WALL_CLOCK_MIN_RATIO_PPM = 980000"
definition MEDIA_TO_WALL_CLOCK_MAX_RATIO_PPM :: u64 where "MEDIA_TO_WALL_CLOCK_MAX_RATIO_PPM = 1020000"
definition OBSERVER_SHORT_WINDOW_MIN_RATIO_PPM :: u64 where "OBSERVER_SHORT_WINDOW_MIN_RATIO_PPM = 940000"
definition OBSERVER_SHORT_WINDOW_MAX_RATIO_PPM :: u64 where "OBSERVER_SHORT_WINDOW_MAX_RATIO_PPM = 1060000"
definition OBSERVER_STRICT_SHORT_WINDOW_MIN_PACKETS :: u64 where "OBSERVER_STRICT_SHORT_WINDOW_MIN_PACKETS = 50"
definition OBSERVER_MICRO_WINDOW_MIN_RATIO_PPM :: u64 where "OBSERVER_MICRO_WINDOW_MIN_RATIO_PPM = 920000"
definition OBSERVER_MICRO_WINDOW_MAX_RATIO_PPM :: u64 where "OBSERVER_MICRO_WINDOW_MAX_RATIO_PPM = 1080000"
definition MIN_OBSERVED_PACKET_COUNT :: u64 where "MIN_OBSERVED_PACKET_COUNT = 120"
definition MIN_DECODED_AUDIO_MS :: u64 where "MIN_DECODED_AUDIO_MS = 6000"
definition MIN_NON_SILENT_AUDIO_MS :: u64 where "MIN_NON_SILENT_AUDIO_MS = 1000"
definition OBSERVER_AUDIO_DURATION_TOLERANCE_MS :: u64 where "OBSERVER_AUDIO_DURATION_TOLERANCE_MS = 2000"
definition OBSERVER_AUDIO_DURATION_MIN_RATIO_PERCENT :: u64 where "OBSERVER_AUDIO_DURATION_MIN_RATIO_PERCENT = 90"

lemmas verdict_constants = MIN_LIVE_TEST_VIDEO_DURATION_MS_def SOURCE_PLAYBACK_BUFFER_TARGET_MS_def
  MIN_LIVE_POST_SOURCE_TEMPO_WINDOWS_def RTP_INTERVAL_P95_BUDGET_MS_def RTP_INTERVAL_P99_BUDGET_MS_def
  RTP_INTERVAL_MAX_BUDGET_MS_def MEDIA_TO_WALL_CLOCK_MIN_RATIO_PPM_def MEDIA_TO_WALL_CLOCK_MAX_RATIO_PPM_def
  OBSERVER_SHORT_WINDOW_MIN_RATIO_PPM_def OBSERVER_SHORT_WINDOW_MAX_RATIO_PPM_def OBSERVER_STRICT_SHORT_WINDOW_MIN_PACKETS_def
  OBSERVER_MICRO_WINDOW_MIN_RATIO_PPM_def OBSERVER_MICRO_WINDOW_MAX_RATIO_PPM_def MIN_OBSERVED_PACKET_COUNT_def
  MIN_DECODED_AUDIO_MS_def MIN_NON_SILENT_AUDIO_MS_def OBSERVER_AUDIO_DURATION_TOLERANCE_MS_def
  OBSERVER_AUDIO_DURATION_MIN_RATIO_PERCENT_def

definition validate_live_test_video_duration :: "u64 \<Rightarrow> bool" where
  "validate_live_test_video_duration duration_ms \<longleftrightarrow> duration_ms \<noteq> 0 \<and> \<not> duration_ms < MIN_LIVE_TEST_VIDEO_DURATION_MS"

definition required_observer_decoded_audio_ms :: "u64 \<Rightarrow> u64" where
  "required_observer_decoded_audio_ms expected =
    (let ratio_floor = saturating_mul expected OBSERVER_AUDIO_DURATION_MIN_RATIO_PERCENT div 100;
         tolerance_floor = saturating_sub expected OBSERVER_AUDIO_DURATION_TOLERANCE_MS
     in min (max (max ratio_floor tolerance_floor) (min MIN_DECODED_AUDIO_MS expected)) expected)"

definition observer_post_source_buffer_window_required :: "u64 \<Rightarrow> bool" where
  "observer_post_source_buffer_window_required expected \<longleftrightarrow> expected \<ge> saturating_add SOURCE_PLAYBACK_BUFFER_TARGET_MS 1000"

definition unclassified_observer_anomaly_count :: "AudioValidationStats \<Rightarrow> string \<Rightarrow> u64 \<Rightarrow> u64" where
  "unclassified_observer_anomaly_count st kind total_count =
     saturating_sub total_count
       (of_nat (length (filter (\<lambda>a. an_kind a = kind \<and> an_classification a = ''controlled_pause'') (av_anomalies st))))"

definition observer_tempo_window_ratio_bounds :: "AudioTempoWindowEvidence \<Rightarrow> u64 \<times> u64" where
  "observer_tempo_window_ratio_bounds window =
    (if tw_window_packet_count window \<ge> OBSERVER_STRICT_SHORT_WINDOW_MIN_PACKETS
     then (OBSERVER_SHORT_WINDOW_MIN_RATIO_PPM, OBSERVER_SHORT_WINDOW_MAX_RATIO_PPM)
     else (OBSERVER_MICRO_WINDOW_MIN_RATIO_PPM, OBSERVER_MICRO_WINDOW_MAX_RATIO_PPM))"

definition observer_tempo_window_within_jitter_budget :: "AudioTempoWindowEvidence \<Rightarrow> bool" where
  "observer_tempo_window_within_jitter_budget window \<longleftrightarrow>
    (case observer_tempo_window_ratio_bounds window of
       (lo, hi) \<Rightarrow> tw_ratio_ppm window \<ge> lo \<and> tw_ratio_ppm window \<le> hi)"

definition observer_tempo_window_failure_reason :: "AudioTempoWindowEvidence \<Rightarrow> string" where
  "observer_tempo_window_failure_reason window =
    (case observer_tempo_window_ratio_bounds window of
       (lo, hi) \<Rightarrow>
         if tw_ratio_ppm window > hi then ''observer_audio_short_tempo_fast''
         else if tw_ratio_ppm window < lo then ''observer_audio_short_tempo_slow''
         else ''observer_audio_short_tempo_inconsistent'')"

definition window_budget_met :: "AudioTempoWindowEvidence option \<Rightarrow> bool" where
  "window_budget_met window \<longleftrightarrow> (case window of None \<Rightarrow> False | Some w \<Rightarrow> observer_tempo_window_within_jitter_budget w)"

definition observer_short_tempo_windows_within_jitter_budget :: "AudioValidationStats \<Rightarrow> bool" where
  "observer_short_tempo_windows_within_jitter_budget st \<longleftrightarrow>
     window_budget_met (av_short_window_fastest st) \<and> window_budget_met (av_short_window_slowest st)"

definition observer_thresholds_satisfied :: "AudioValidationStats \<Rightarrow> u64 \<Rightarrow> bool" where
  "observer_thresholds_satisfied st expected \<longleftrightarrow>
     av_observed_packet_count st \<ge> MIN_OBSERVED_PACKET_COUNT \<and>
     av_non_discord_count st = 0 \<and>
     av_decoded_audio_ms st \<ge> required_observer_decoded_audio_ms expected \<and>
     av_wall_clock_elapsed_ms st > 0 \<and>
     av_decoded_audio_ratio_ppm st > 0 \<and>
     av_decoded_audio_ratio_ppm st \<ge> MEDIA_TO_WALL_CLOCK_MIN_RATIO_PPM \<and>
     av_decoded_audio_ratio_ppm st \<le> MEDIA_TO_WALL_CLOCK_MAX_RATIO_PPM \<and>
     av_non_silent_audio_ms st \<ge> MIN_NON_SILENT_AUDIO_MS \<and>
     ai_samples (av_inter_arrival st) > 0 \<and>
     unclassified_observer_anomaly_count st ''rtp_gap_gte_100ms'' (av_gap_count st) = 0 \<and>
     av_buffering_event_count st = 0 \<and>
     av_window_count st > 0 \<and>
     av_window_fast_count st = 0 \<and>
     av_window_slow_count st = 0 \<and>
     av_short_window_count st > 0 \<and>
     observer_short_tempo_windows_within_jitter_budget st \<and>
     (\<not> observer_post_source_buffer_window_required expected \<or>
        av_window_post_source_buffer_count st \<ge> MIN_LIVE_POST_SOURCE_TEMPO_WINDOWS) \<and>
     ai_p95_ms (av_inter_arrival st) \<le> RTP_INTERVAL_P95_BUDGET_MS \<and>
     ai_p99_ms (av_inter_arrival st) \<le> RTP_INTERVAL_P99_BUDGET_MS \<and>
     ai_max_ms (av_inter_arrival st) < RTP_INTERVAL_MAX_BUDGET_MS"

definition window_failure_reason :: "AudioTempoWindowEvidence option \<Rightarrow> string option" where
  "window_failure_reason window =
    (case window of
       None \<Rightarrow> Some ''observer_audio_missing_short_tempo_windows''
     | Some w \<Rightarrow> if observer_tempo_window_within_jitter_budget w then None else Some (observer_tempo_window_failure_reason w))"

definition observer_threshold_failure_reason :: "AudioValidationStats \<Rightarrow> u64 \<Rightarrow> string" where
  "observer_threshold_failure_reason st expected =
    (if av_non_discord_count st \<noteq> 0 then ''observer_audio_non_discord_opus_duration''
     else if av_observed_packet_count st < MIN_OBSERVED_PACKET_COUNT then ''observer_audio_missing_packets''
     else if av_decoded_audio_ms st < required_observer_decoded_audio_ms expected then ''observer_audio_incomplete''
     else if av_wall_clock_elapsed_ms st = 0 \<or> av_decoded_audio_ratio_ppm st = 0 then ''observer_audio_missing_timing''
     else if av_decoded_audio_ratio_ppm st > MEDIA_TO_WALL_CLOCK_MAX_RATIO_PPM then ''observer_audio_tempo_fast''
     else if av_decoded_audio_ratio_ppm st < MEDIA_TO_WALL_CLOCK_MIN_RATIO_PPM then ''observer_audio_tempo_slow''
     else if av_non_silent_audio_ms st < MIN_NON_SILENT_AUDIO_MS then ''observer_audio_silent''
     else if ai_samples (av_inter_arrival st) = 0 then ''observer_audio_missing_rtp_intervals''
     else if unclassified_observer_anomaly_count st ''rtp_gap_gte_100ms'' (av_gap_count st) \<noteq> 0 then ''observer_audio_rtp_gap''
     else if av_buffering_event_count st \<noteq> 0 then ''observer_audio_buffered''
     else if av_window_count st = 0 then ''observer_audio_missing_tempo_windows''
     else if av_window_fast_count st \<noteq> 0 then ''observer_audio_tempo_fast''
     else if av_window_slow_count st \<noteq> 0 then ''observer_audio_tempo_slow''
     else if av_short_window_count st = 0 then ''observer_audio_missing_short_tempo_windows''
     else (case window_failure_reason (av_short_window_fastest st) of
             Some reason \<Rightarrow> reason
           | None \<Rightarrow>
              (case window_failure_reason (av_short_window_slowest st) of
                 Some reason \<Rightarrow> reason
               | None \<Rightarrow>
                  (if observer_post_source_buffer_window_required expected \<and>
                      av_window_post_source_buffer_count st < MIN_LIVE_POST_SOURCE_TEMPO_WINDOWS
                   then ''observer_audio_insufficient_post_source_tempo_windows''
                   else if ai_p95_ms (av_inter_arrival st) > RTP_INTERVAL_P95_BUDGET_MS \<or>
                      ai_p99_ms (av_inter_arrival st) > RTP_INTERVAL_P99_BUDGET_MS \<or>
                      ai_max_ms (av_inter_arrival st) \<ge> RTP_INTERVAL_MAX_BUDGET_MS
                   then ''observer_audio_rtp_jitter''
                   else ''observer_audio_incomplete''))))"

section \<open>Properties\<close>

lemma window_failure_iff: "window_failure_reason window = None \<longleftrightarrow> window_budget_met window"
  by (simp add: window_failure_reason_def window_budget_met_def split: option.split)

text \<open>What each reason says of a run, written down without the chain that chooses it.\<close>

definition short_windows :: "AudioValidationStats \<Rightarrow> AudioTempoWindowEvidence option list" where
  "short_windows st = [av_short_window_fastest st, av_short_window_slowest st]"

definition too_fast :: "AudioTempoWindowEvidence option \<Rightarrow> bool" where
  "too_fast window \<longleftrightarrow>
    (case window of None \<Rightarrow> False
     | Some w \<Rightarrow> tw_ratio_ppm w > (if tw_window_packet_count w \<ge> 50 then 1060000 else 1080000))"

definition too_slow :: "AudioTempoWindowEvidence option \<Rightarrow> bool" where
  "too_slow window \<longleftrightarrow>
    (case window of None \<Rightarrow> False
     | Some w \<Rightarrow> tw_ratio_ppm w < (if tw_window_packet_count w \<ge> 50 then 940000 else 920000))"

definition reason_complaints :: "AudioValidationStats \<Rightarrow> u64 \<Rightarrow> (string \<times> bool) list" where
  "reason_complaints st expected =
    [(''observer_audio_non_discord_opus_duration'', av_non_discord_count st \<noteq> 0),
     (''observer_audio_missing_packets'', av_observed_packet_count st < 120),
     (''observer_audio_incomplete'', av_decoded_audio_ms st < required_observer_decoded_audio_ms expected),
     (''observer_audio_missing_timing'', av_wall_clock_elapsed_ms st = 0 \<or> av_decoded_audio_ratio_ppm st = 0),
     (''observer_audio_tempo_fast'', av_decoded_audio_ratio_ppm st > 1020000 \<or> av_window_fast_count st \<noteq> 0),
     (''observer_audio_tempo_slow'', av_decoded_audio_ratio_ppm st < 980000 \<or> av_window_slow_count st \<noteq> 0),
     (''observer_audio_silent'', av_non_silent_audio_ms st < 1000),
     (''observer_audio_missing_rtp_intervals'', ai_samples (av_inter_arrival st) = 0),
     (''observer_audio_rtp_gap'', unclassified_observer_anomaly_count st ''rtp_gap_gte_100ms'' (av_gap_count st) \<noteq> 0),
     (''observer_audio_buffered'', av_buffering_event_count st \<noteq> 0),
     (''observer_audio_missing_tempo_windows'', av_window_count st = 0),
     (''observer_audio_missing_short_tempo_windows'', av_short_window_count st = 0 \<or> None \<in> set (short_windows st)),
     (''observer_audio_short_tempo_fast'', list_ex too_fast (short_windows st)),
     (''observer_audio_short_tempo_slow'', list_ex too_slow (short_windows st)),
     (''observer_audio_insufficient_post_source_tempo_windows'', expected \<ge> 6000 \<and> av_window_post_source_buffer_count st < 500),
     (''observer_audio_rtp_jitter'', ai_p95_ms (av_inter_arrival st) > 45 \<or> ai_p99_ms (av_inter_arrival st) > 70 \<or>
        ai_max_ms (av_inter_arrival st) \<ge> 200)]"

text \<open>The complaint of a reason holds of a run.\<close>

definition complaint_holds :: "AudioValidationStats \<Rightarrow> u64 \<Rightarrow> string \<Rightarrow> bool" where
  "complaint_holds st expected reason \<longleftrightarrow> map_of (reason_complaints st expected) reason = Some True"

lemma window_budget_split: "window_budget_met window \<longleftrightarrow> window \<noteq> None \<and> \<not> too_fast window \<and> \<not> too_slow window"
  by (auto simp: window_budget_met_def observer_tempo_window_within_jitter_budget_def observer_tempo_window_ratio_bounds_def
      too_fast_def too_slow_def verdict_constants not_le not_less split: option.split)

lemma window_reason_cases:
  "window_failure_reason window = Some reason \<Longrightarrow>
     window = None \<and> reason = ''observer_audio_missing_short_tempo_windows'' \<or>
     too_fast window \<and> reason = ''observer_audio_short_tempo_fast'' \<or>
     too_slow window \<and> reason = ''observer_audio_short_tempo_slow''"
  by (auto simp: window_failure_reason_def observer_tempo_window_failure_reason_def observer_tempo_window_within_jitter_budget_def
      observer_tempo_window_ratio_bounds_def too_fast_def too_slow_def verdict_constants not_le not_less
      split: option.splits if_splits)
lemma complaint_holds_simps:
  "complaint_holds st expected ''observer_audio_non_discord_opus_duration'' \<longleftrightarrow> av_non_discord_count st \<noteq> 0"
  "complaint_holds st expected ''observer_audio_missing_packets'' \<longleftrightarrow> av_observed_packet_count st < 120"
  "complaint_holds st expected ''observer_audio_incomplete'' \<longleftrightarrow>
     av_decoded_audio_ms st < required_observer_decoded_audio_ms expected"
  "complaint_holds st expected ''observer_audio_missing_timing'' \<longleftrightarrow>
     av_wall_clock_elapsed_ms st = 0 \<or> av_decoded_audio_ratio_ppm st = 0"
  "complaint_holds st expected ''observer_audio_tempo_fast'' \<longleftrightarrow>
     av_decoded_audio_ratio_ppm st > 1020000 \<or> av_window_fast_count st \<noteq> 0"
  "complaint_holds st expected ''observer_audio_tempo_slow'' \<longleftrightarrow>
     av_decoded_audio_ratio_ppm st < 980000 \<or> av_window_slow_count st \<noteq> 0"
  "complaint_holds st expected ''observer_audio_silent'' \<longleftrightarrow> av_non_silent_audio_ms st < 1000"
  "complaint_holds st expected ''observer_audio_missing_rtp_intervals'' \<longleftrightarrow> ai_samples (av_inter_arrival st) = 0"
  "complaint_holds st expected ''observer_audio_rtp_gap'' \<longleftrightarrow>
     unclassified_observer_anomaly_count st ''rtp_gap_gte_100ms'' (av_gap_count st) \<noteq> 0"
  "complaint_holds st expected ''observer_audio_buffered'' \<longleftrightarrow> av_buffering_event_count st \<noteq> 0"
  "complaint_holds st expected ''observer_audio_missing_tempo_windows'' \<longleftrightarrow> av_window_count st = 0"
  "complaint_holds st expected ''observer_audio_missing_short_tempo_windows'' \<longleftrightarrow>
     av_short_window_count st = 0 \<or> None \<in> set (short_windows st)"
  "complaint_holds st expected ''observer_audio_short_tempo_fast'' \<longleftrightarrow> list_ex too_fast (short_windows st)"
  "complaint_holds st expected ''observer_audio_short_tempo_slow'' \<longleftrightarrow> list_ex too_slow (short_windows st)"
  "complaint_holds st expected ''observer_audio_insufficient_post_source_tempo_windows'' \<longleftrightarrow>
     expected \<ge> 6000 \<and> av_window_post_source_buffer_count st < 500"
  "complaint_holds st expected ''observer_audio_rtp_jitter'' \<longleftrightarrow>
     ai_p95_ms (av_inter_arrival st) > 45 \<or> ai_p99_ms (av_inter_arrival st) > 70 \<or> ai_max_ms (av_inter_arrival st) \<ge> 200"
  by (simp_all add: complaint_holds_def reason_complaints_def)

lemma complaint_names_distinct: "distinct (map fst (reason_complaints st expected))"
  by (simp add: reason_complaints_def)

lemma no_complaint_iff: "(\<forall>reason. \<not> complaint_holds st expected reason) \<longleftrightarrow> True \<notin> snd ` set (reason_complaints st expected)"
proof -
  have "map_of (reason_complaints st expected) reason = Some b \<longleftrightarrow> (reason, b) \<in> set (reason_complaints st expected)" for reason b
    using complaint_names_distinct by (rule map_of_eq_Some_iff)
  then show ?thesis by (force simp: complaint_holds_def)
qed

lemma post_source_required_iff: "observer_post_source_buffer_window_required expected \<longleftrightarrow> expected \<ge> 6000"
  by (simp add: observer_post_source_buffer_window_required_def verdict_constants saturating_add_def)

lemma satisfied_iff_no_complaint: "observer_thresholds_satisfied st expected \<longleftrightarrow> (\<forall>reason. \<not> complaint_holds st expected reason)"
proof -
  have some: "None \<noteq> x \<longleftrightarrow> (\<exists>y. x = Some y)" for x :: "AudioTempoWindowEvidence option" by (cases x) simp_all
  show ?thesis unfolding no_complaint_iff
    by (simp add: observer_thresholds_satisfied_def reason_complaints_def observer_short_tempo_windows_within_jitter_budget_def
        window_budget_split short_windows_def post_source_required_iff verdict_constants not_less not_le word_gt_0 some) blast
qed

lemma window_reason_complaint:
  "window_failure_reason window = Some reason \<Longrightarrow> window \<in> set (short_windows st) \<Longrightarrow> complaint_holds st expected reason"
  by (drule window_reason_cases) (auto simp: complaint_holds_simps list_ex_iff)

lemma given_reason_complains:
  assumes "\<not> observer_thresholds_satisfied st expected"
  shows "complaint_holds st expected (observer_threshold_failure_reason st expected)"
proof -
  have chain: "complaint_holds st expected (if b then reason else rest)"
    if "b \<Longrightarrow> complaint_holds st expected reason" "\<not> b \<Longrightarrow> complaint_holds st expected rest" for b reason rest
    using that by simp
  have windows: "complaint_holds st expected (case window_failure_reason window of Some reason \<Rightarrow> reason | None \<Rightarrow> rest)"
    if "window \<in> set (short_windows st)" "window_budget_met window \<Longrightarrow> complaint_holds st expected rest" for window rest
    using that window_reason_complaint window_failure_iff [of window] by (cases "window_failure_reason window") auto
  show ?thesis unfolding observer_threshold_failure_reason_def
    apply (rule chain windows | (simp add: short_windows_def; fail) |
        (simp add: complaint_holds_simps verdict_constants post_source_required_iff; fail))+
    using assms
    apply (simp add: observer_thresholds_satisfied_def observer_short_tempo_windows_within_jitter_budget_def not_less not_le word_gt_0)
    done
qed

lemma no_failed_check_falls_through:
  "observer_thresholds_satisfied st expected \<Longrightarrow> observer_threshold_failure_reason st expected = ''observer_audio_incomplete''"
  by (auto simp: observer_thresholds_satisfied_def observer_threshold_failure_reason_def
      observer_short_tempo_windows_within_jitter_budget_def window_failure_iff [symmetric] word_gt_0)

text \<open>C27: The reason is the verdict. The thresholds are met exactly when none of the sixteen complaints, each with its
  own condition on what was heard, holds of the run; and they are missed exactly when the complaint of the reason that
  is given holds, so a failed run is never given the reason of a check it passed: only a run that is too fast is called
  fast, and only a silent one silent. The last answer of the chain, which is the word for too little audio, is
  reached only by a run that met them all.\<close>

theorem failure_reason_matches_verdict:
  "(observer_thresholds_satisfied st expected \<longleftrightarrow> (\<forall>reason. \<not> complaint_holds st expected reason)) \<and>
   (observer_thresholds_satisfied st expected \<longleftrightarrow>
      \<not> complaint_holds st expected (observer_threshold_failure_reason st expected)) \<and>
   (observer_thresholds_satisfied st expected \<longleftrightarrow>
      observer_threshold_failure_reason st expected = ''observer_audio_incomplete'' \<and>
      required_observer_decoded_audio_ms expected \<le> av_decoded_audio_ms st)"
  using satisfied_iff_no_complaint [of st expected] given_reason_complains [of st expected]
    no_failed_check_falls_through [of st expected] complaint_holds_simps(3) [of st expected] by (metis not_less)

text \<open>What must have been decoded is never more than the track is expected to last, never less than nine tenths of it
  rounded down, and never more than two seconds short of it, as long as ninety times the duration fits 64 bits.\<close>

theorem required_audio_bounds:
  assumes "unat expected * 90 < 2 ^ 64"
  shows "required_observer_decoded_audio_ms expected \<le> expected \<and>
    unat expected * 90 div 100 \<le> unat (required_observer_decoded_audio_ms expected) \<and>
    unat expected \<le> unat (required_observer_decoded_audio_ms expected) + 2000"
proof -
  have "unat (saturating_mul expected 90 div 100) = unat expected * 90 div 100"
    using assms by (simp add: unat_div unat_saturating_mul)
  moreover have "unat (saturating_sub expected 2000) = unat expected - 2000" by (simp add: unat_saturating_sub)
  ultimately show ?thesis
    unfolding required_observer_decoded_audio_ms_def Let_def verdict_constants min_def max_def
    by (auto simp: word_le_nat_alt not_le)
qed

theorem required_audio_bounds_witness: "unat (90000 :: u64) \<le> unat (required_observer_decoded_audio_ms 90000) + 2000"
  using required_audio_bounds [of 90000] by simp

text \<open>A short window out of bounds goes unseen. Windows of 50 packets are held to closer bounds than windows of 25, but
  only the fastest window of either size is kept: a window of 25 packets within its wide bounds hides a slower one of
  50 packets that is out of its own, and the run passes.\<close>

theorem strict_window_hidden_by_micro_window:
  assumes "av_short_window_fastest st = Some micro" "tw_window_packet_count micro < 50" "tw_ratio_ppm micro \<le> 1080000"
    and "920000 \<le> tw_ratio_ppm micro"
    and "media_to_wall_clock_ratio_ppm_duration (observed_window_media window) (observed_window_wall window) = ratio"
    and "1060000 < ratio" "ratio \<le> tw_ratio_ppm micro"
  shows "window_budget_met (av_short_window_fastest (record_short_window segment 50 window st)) \<and>
    \<not> window_budget_met (Some \<lparr>tw_classification = segment_label segment, tw_window_packet_count = 50,
         tw_media_ms = duration_millis (observed_window_media window), tw_wall_clock_us = duration_micros (observed_window_wall window),
         tw_ratio_ppm = ratio, tw_first_sequence = pt_sequence (hd window), tw_last_sequence = pt_sequence (last window)\<rparr>)"
proof
  have "av_short_window_fastest (record_short_window segment 50 window st) = Some micro"
    using assms(1,5,7) by (simp add: record_short_window_def Let_def not_less)
  moreover have "\<not> 50 \<le> tw_window_packet_count micro" using assms(2) by simp
  ultimately show "window_budget_met (av_short_window_fastest (record_short_window segment 50 window st))"
    using assms(3,4)
    by (simp add: window_budget_met_def observer_tempo_window_within_jitter_budget_def observer_tempo_window_ratio_bounds_def
        verdict_constants)
  show "\<not> window_budget_met (Some \<lparr>tw_classification = segment_label segment, tw_window_packet_count = 50,
         tw_media_ms = duration_millis (observed_window_media window), tw_wall_clock_us = duration_micros (observed_window_wall window),
         tw_ratio_ppm = ratio, tw_first_sequence = pt_sequence (hd window), tw_last_sequence = pt_sequence (last window)\<rparr>)"
    using assms(6)
    by (simp add: window_budget_met_def observer_tempo_window_within_jitter_budget_def observer_tempo_window_ratio_bounds_def
        verdict_constants not_le)
qed

text \<open>Fifty packets of 20 ms that arrive every 18.5 ms.\<close>

definition hurried_window :: "ObservedPacketTiming list" where
  "hurried_window = map (\<lambda>i. \<lparr>pt_observed_at = i * 18500000, pt_duration = 20000000, pt_decoded_audio_start_ms = 0,
     pt_sequence = of_nat i\<rparr>) [0..<50]"

lemma hurried_ratio: "media_to_wall_clock_ratio_ppm_duration (observed_window_media hurried_window) (observed_window_wall hurried_window) = 1079330"
proof -
  have "observed_window_media hurried_window = 1000000000" by (simp add: observed_window_media_def hurried_window_def comp_def sum_list_triv)
  moreover have "observed_window_wall hurried_window = 926500000" by (simp add: observed_window_wall_def hurried_window_def last_map hd_map)
  ultimately show ?thesis
    by (simp add: media_to_wall_clock_ratio_ppm_duration_def u64_saturating_from_nat_def)
qed

theorem strict_window_hidden_by_micro_window_witness:
  "window_budget_met (av_short_window_fastest (record_short_window PrePauseSteady 50
     hurried_window
     (AudioValidationStats_default\<lparr>av_short_window_fastest :=
        Some \<lparr>tw_classification = [], tw_window_packet_count = 25, tw_media_ms = 0, tw_wall_clock_us = 0,
              tw_ratio_ppm = 1080000, tw_first_sequence = 1, tw_last_sequence = 2\<rparr>\<rparr>)))"
  using strict_window_hidden_by_micro_window [of
      "AudioValidationStats_default\<lparr>av_short_window_fastest :=
        Some \<lparr>tw_classification = [], tw_window_packet_count = 25, tw_media_ms = 0, tw_wall_clock_us = 0,
              tw_ratio_ppm = 1080000, tw_first_sequence = 1, tw_last_sequence = 2\<rparr>\<rparr>"
      "\<lparr>tw_classification = [], tw_window_packet_count = 25, tw_media_ms = 0, tw_wall_clock_us = 0,
              tw_ratio_ppm = 1080000, tw_first_sequence = 1, tw_last_sequence = 2\<rparr>"
      hurried_window 1079330 PrePauseSteady]
  by (simp add: hurried_ratio)

end
