(* ===== verification/EvidenceAudit.thy ===== *)
theory EvidenceAudit
  imports ApiLaws MetricsLaws
begin

text \<open>
  The audit of the service's metrics in live validation (\<open>controller.rs\<close>): what the raw events say is computed again and
  compared with the counters, and the order of the events is checked. The functions take the parts of the metrics
  snapshot that they read; an error keeps the index and the compared values and not the text of the message. The addition
  before the mask of the sequence number wraps, as in a release build.
\<close>

section \<open>Order of the send events\<close>

datatype audit_error =
    NotSequential u64 usize
  | UnspecifiedKind usize
  | CompletedBeforeStart usize
  | MovedBackward usize
  | WrongSequence usize u32 u32
  | WrongTimestamp usize u32 u32
  | NonceNotIncreasing usize u32 u32
  | NotCommitted usize
  | NoSourceIdentity usize
  | ZeroDuration usize
  | SilenceCommitted usize
  | NoBoundaryRun
  | BoundarySpacing usize u64
  | SourceReplayed u64 u64
  | SourceSkipped u64 u64
  | QueueTooDeep usize u64
  | NoTrackEnqueued
  | NoTrackDequeued
  | TrackDropsDiffer u64 u64
  | SilenceDropsDiffer u64 u64
  | RebuildsDiffer u64 u64

record send_order =
  so_sent_offset :: "u64 option"
  so_rtp_sequence :: "u32 option"
  so_rtp_timestamp :: "u32 option"
  so_duration_samples :: "u32 option"
  so_nonce :: "u32 option"

definition send_order_start :: send_order where
  "send_order_start = \<lparr>so_sent_offset = None, so_rtp_sequence = None, so_rtp_timestamp = None, so_duration_samples = None,
     so_nonce = None\<rparr>"

definition rtp_order_error :: "usize \<Rightarrow> ClientSendEvent \<Rightarrow> send_order \<Rightarrow> audit_error option" where
  "rtp_order_error index event so =
    (case (so_rtp_sequence so, so_rtp_timestamp so, so_duration_samples so) of
       (Some sequence, Some timestamp, Some duration_samples) \<Rightarrow>
         (let expected_sequence = (sequence + 1) AND 0xffff; expected_timestamp = timestamp + duration_samples in
          if cse_rtp_sequence event \<noteq> expected_sequence then Some (WrongSequence index (cse_rtp_sequence event) expected_sequence)
          else if cse_rtp_timestamp event \<noteq> expected_timestamp then Some (WrongTimestamp index (cse_rtp_timestamp event) expected_timestamp)
          else None)
     | _ \<Rightarrow> None)"

definition nonce_error :: "usize \<Rightarrow> ClientSendEvent \<Rightarrow> send_order \<Rightarrow> audit_error option" where
  "nonce_error index event so =
    (case (cse_protection_nonce event, so_nonce so) of
       (Some nonce, Some previous) \<Rightarrow> if nonce \<le> previous then Some (NonceNotIncreasing index nonce previous) else None
     | _ \<Rightarrow> None)"

definition track_event_error :: "usize \<Rightarrow> ClientSendEvent \<Rightarrow> audit_error option" where
  "track_event_error index event =
    (if cse_command_kind event = ClientSendTrack
     then (if \<not> cse_committed_heard_media event then Some (NotCommitted index)
           else if cse_source_frame_epoch event = None \<or> cse_source_media_position_ms event = None \<or>
              cse_source_media_position_samples event = None then Some (NoSourceIdentity index)
           else if cse_media_duration_samples event = 0 then Some (ZeroDuration index)
           else None)
     else if cse_committed_heard_media event then Some (SilenceCommitted index)
     else None)"

definition send_event_error :: "usize \<Rightarrow> ClientSendEvent \<Rightarrow> send_order \<Rightarrow> audit_error option" where
  "send_event_error index event so =
    (if cse_packet_index event \<noteq> of_nat index then Some (NotSequential (cse_packet_index event) index)
     else if cse_command_kind event = ClientSendUnspecified then Some (UnspecifiedKind index)
     else if cse_sent_offset_us event < cse_send_started_offset_us event then Some (CompletedBeforeStart index)
     else if (case so_sent_offset so of None \<Rightarrow> False | Some previous \<Rightarrow> cse_sent_offset_us event < previous)
     then Some (MovedBackward index)
     else (case rtp_order_error index event so of
             Some err \<Rightarrow> Some err
           | None \<Rightarrow> (case nonce_error index event so of Some err \<Rightarrow> Some err | None \<Rightarrow> track_event_error index event)))"

definition send_order_after :: "ClientSendEvent \<Rightarrow> send_order \<Rightarrow> send_order" where
  "send_order_after event so =
     \<lparr>so_sent_offset = Some (cse_sent_offset_us event), so_rtp_sequence = Some (cse_rtp_sequence event),
      so_rtp_timestamp = Some (cse_rtp_timestamp event), so_duration_samples = Some (cse_media_duration_samples event),
      so_nonce = (case cse_protection_nonce event of Some nonce \<Rightarrow> Some nonce | None \<Rightarrow> so_nonce so)\<rparr>"

fun send_order_loop :: "usize \<Rightarrow> ClientSendEvent list \<Rightarrow> send_order \<Rightarrow> audit_error + unit" where
  "send_order_loop index [] so = Inr ()"
| "send_order_loop index (event # events) so =
    (case send_event_error index event so of
       Some err \<Rightarrow> Inl err
     | None \<Rightarrow> send_order_loop (Suc index) events (send_order_after event so))"

definition validate_raw_send_event_order :: "ClientSendEvent list \<Rightarrow> audit_error + unit" where
  "validate_raw_send_event_order events = send_order_loop 0 events send_order_start"

section \<open>The boundary of a pause\<close>

definition PAUSE_STOP_SILENCE_FRAME_COUNT :: usize where "PAUSE_STOP_SILENCE_FRAME_COUNT = 5"
definition PAUSE_BOUNDARY_MIN_SPACING_MS :: u64 where "PAUSE_BOUNDARY_MIN_SPACING_MS = 15"
definition PAUSE_BOUNDARY_MAX_SPACING_MS :: u64 where "PAUSE_BOUNDARY_MAX_SPACING_MS = 45"

fun run_spacing :: "usize \<Rightarrow> usize \<Rightarrow> u64 list \<Rightarrow> audit_error + unit" where
  "run_spacing 0 index offsets = Inr ()"
| "run_spacing (Suc left) index (a # b # rest) =
    (let spacing_ms = saturating_sub b a div 1000 in
     if PAUSE_BOUNDARY_MIN_SPACING_MS \<le> spacing_ms \<and> spacing_ms \<le> PAUSE_BOUNDARY_MAX_SPACING_MS
     then run_spacing left (Suc index) (b # rest)
     else Inl (BoundarySpacing index spacing_ms))"
| "run_spacing left index offsets = Inr ()"

definition validate_pause_boundary_run_spacing :: "u64 list \<Rightarrow> audit_error + unit" where
  "validate_pause_boundary_run_spacing offsets = run_spacing (PAUSE_STOP_SILENCE_FRAME_COUNT - 1) 0 offsets"

fun boundary_run :: "u64 list \<Rightarrow> ClientSendEvent list \<Rightarrow> audit_error + unit" where
  "boundary_run current [] = Inl NoBoundaryRun"
| "boundary_run current (event # events) =
    (if cse_command_kind event = ClientSendBoundarySilence
     then (let run = current @ [cse_sent_offset_us event] in
           if length run \<ge> PAUSE_STOP_SILENCE_FRAME_COUNT then validate_pause_boundary_run_spacing run else boundary_run run events)
     else boundary_run [] events)"

definition validate_pause_boundary_spacing :: "ClientSendEvent list \<Rightarrow> audit_error + unit" where
  "validate_pause_boundary_spacing events = boundary_run [] events"

section \<open>Recomputing the playback\<close>

definition AUDIT_TRACK_TEMPO_WINDOW_PACKETS :: usize where "AUDIT_TRACK_TEMPO_WINDOW_PACKETS = 50"
definition SOURCE_POSITION_CONTINUITY_TOLERANCE_MS :: u64 where "SOURCE_POSITION_CONTINUITY_TOLERANCE_MS = 1"

record RawTrackSend =
  rt_packet_index :: u64
  rt_send_started_offset_us :: u64
  rt_duration_us :: u64
  rt_duration_ms :: u64
  rt_duration_samples :: u32
  rt_media_position_ms :: u64
  rt_media_position_samples :: u64

record RecomputedRawPlayback =
  rp_track_segment_count :: u64
  rp_track_packet_count :: u64
  rp_track_media_duration_sent_us :: u64
  rp_track_media_duration_sent_ms :: u64
  rp_track_wall_clock_elapsed_ms :: u64
  rp_track_media_to_wall_clock_ratio_ppm :: u64
  rp_track_fast_interval_count :: u64
  rp_track_fast_interval_min_us :: u64
  rp_track_tempo_window_count :: u64
  rp_track_tempo_window_post_source_buffer_count :: u64
  rp_track_tempo_window_min_ratio_ppm :: u64
  rp_track_tempo_window_max_ratio_ppm :: u64
  rp_track_tempo_window_fast_count :: u64
  rp_track_tempo_window_slow_count :: u64
  rp_pause_boundary_silence_packet_count :: u64

definition RecomputedRawPlayback_default :: RecomputedRawPlayback where
  "RecomputedRawPlayback_default =
     \<lparr>rp_track_segment_count = 0, rp_track_packet_count = 0, rp_track_media_duration_sent_us = 0,
      rp_track_media_duration_sent_ms = 0, rp_track_wall_clock_elapsed_ms = 0, rp_track_media_to_wall_clock_ratio_ppm = 0,
      rp_track_fast_interval_count = 0, rp_track_fast_interval_min_us = 0, rp_track_tempo_window_count = 0,
      rp_track_tempo_window_post_source_buffer_count = 0, rp_track_tempo_window_min_ratio_ppm = 0,
      rp_track_tempo_window_max_ratio_ppm = 0, rp_track_tempo_window_fast_count = 0, rp_track_tempo_window_slow_count = 0,
      rp_pause_boundary_silence_packet_count = 0\<rparr>"

definition ratio_ppm_us :: "u64 \<Rightarrow> u64 \<Rightarrow> u64" where
  "ratio_ppm_us media wall =
    (if media = 0 \<or> wall = 0 then 0 else u64_saturating_from_nat (unat media * 1000000 div unat wall))"

definition duration_us_from_samples :: "u32 \<Rightarrow> u64" where
  "duration_us_from_samples samples = saturating_mul (u64_from_u32 samples) 1000000 div 48000"

definition audit_samples_from_duration_ms :: "u64 \<Rightarrow> u64" where
  "audit_samples_from_duration_ms duration_ms = saturating_mul duration_ms 48"

definition raw_track_send :: "ClientSendEvent \<Rightarrow> RawTrackSend option" where
  "raw_track_send event =
    (case (cse_source_media_position_ms event, cse_source_media_position_samples event) of
       (Some position_ms, Some position_samples) \<Rightarrow>
         Some \<lparr>rt_packet_index = cse_packet_index event, rt_send_started_offset_us = cse_send_started_offset_us event,
               rt_duration_us = duration_us_from_samples (cse_media_duration_samples event),
               rt_duration_ms = cse_media_duration_ms event, rt_duration_samples = cse_media_duration_samples event,
               rt_media_position_ms = position_ms, rt_media_position_samples = position_samples\<rparr>
     | _ \<Rightarrow> None)"

definition finish_track_segment :: "RawTrackSend list list \<times> RawTrackSend list \<Rightarrow> RawTrackSend list list \<times> RawTrackSend list" where
  "finish_track_segment = (\<lambda>(segments, current). if current \<noteq> [] then (segments @ [current], []) else (segments, current))"

text \<open>The segments of consecutive track packets and all of them, or the index of one without its position.\<close>

fun track_segments ::
  "ClientSendEvent list \<Rightarrow> RecomputedRawPlayback \<Rightarrow> RawTrackSend list list \<Rightarrow> RawTrackSend list \<Rightarrow> RawTrackSend list
    \<Rightarrow> audit_error + (RecomputedRawPlayback \<times> RawTrackSend list list \<times> RawTrackSend list)" where
  "track_segments [] rp segments current sends = Inr (rp, fst (finish_track_segment (segments, current)), sends)"
| "track_segments (event # events) rp segments current sends =
    (if cse_command_kind event = ClientSendTrack
     then (case raw_track_send event of
             None \<Rightarrow> Inl (NoSourceIdentity (unat (cse_packet_index event)))
           | Some track \<Rightarrow>
              track_segments events
                (rp\<lparr>rp_track_packet_count := saturating_add (rp_track_packet_count rp) 1,
                    rp_track_media_duration_sent_us := saturating_add (rp_track_media_duration_sent_us rp) (rt_duration_us track)\<rparr>)
                segments (current @ [track]) (sends @ [track]))
     else
       (let rp1 = (if cse_command_kind event = ClientSendBoundarySilence
                   then rp\<lparr>rp_pause_boundary_silence_packet_count := saturating_add (rp_pause_boundary_silence_packet_count rp) 1\<rparr>
                   else rp);
            (segments1, current1) = finish_track_segment (segments, current)
        in track_segments events rp1 segments1 current1 sends))"

fun windows :: "usize \<Rightarrow> 'a list \<Rightarrow> 'a list list" where
  "windows n [] = []"
| "windows n (x # xs) = (if length (x # xs) < n then [] else take n (x # xs) # windows n xs)"

definition segment_wall_us :: "RawTrackSend list \<Rightarrow> u64 \<Rightarrow> u64" where
  "segment_wall_us segment wall =
    (if segment = [] then wall
     else saturating_add
       (saturating_add wall (saturating_sub (rt_send_started_offset_us (last segment)) (rt_send_started_offset_us (hd segment))))
       (rt_duration_us (last segment)))"

definition fast_interval :: "RawTrackSend list \<Rightarrow> RecomputedRawPlayback \<Rightarrow> RecomputedRawPlayback" where
  "fast_interval pair rp =
    (case pair of
       [previous, current] \<Rightarrow>
        (let interval_us = saturating_sub (rt_send_started_offset_us current) (rt_send_started_offset_us previous) in
         if interval_us < rt_duration_us previous
         then rp\<lparr>rp_track_fast_interval_count := saturating_add (rp_track_fast_interval_count rp) 1,
                 rp_track_fast_interval_min_us :=
                   (if rp_track_fast_interval_min_us rp = 0 then interval_us else min (rp_track_fast_interval_min_us rp) interval_us)\<rparr>
         else rp)
     | _ \<Rightarrow> rp)"

definition recompute_tempo_window :: "RawTrackSend list \<Rightarrow> RecomputedRawPlayback \<Rightarrow> RecomputedRawPlayback" where
  "recompute_tempo_window window rp =
    (if window = [] then rp
     else
       (let media = fold (\<lambda>packet t. saturating_add t (rt_duration_us packet)) window 0;
            wall = saturating_add (saturating_sub (rt_send_started_offset_us (last window)) (rt_send_started_offset_us (hd window)))
                     (rt_duration_us (last window));
            ratio = ratio_ppm_us media wall;
            rp1 = rp\<lparr>rp_track_tempo_window_count := saturating_add (rp_track_tempo_window_count rp) 1,
                     rp_track_tempo_window_post_source_buffer_count :=
                       (if rt_media_position_samples (hd window) \<ge> audit_samples_from_duration_ms 5000
                        then saturating_add (rp_track_tempo_window_post_source_buffer_count rp) 1
                        else rp_track_tempo_window_post_source_buffer_count rp),
                     rp_track_tempo_window_min_ratio_ppm :=
                       (if rp_track_tempo_window_min_ratio_ppm rp = 0 then ratio else min (rp_track_tempo_window_min_ratio_ppm rp) ratio),
                     rp_track_tempo_window_max_ratio_ppm := max (rp_track_tempo_window_max_ratio_ppm rp) ratio\<rparr>
        in rp1\<lparr>rp_track_tempo_window_fast_count :=
                 (if ratio > 1020000 then saturating_add (rp_track_tempo_window_fast_count rp1) 1 else rp_track_tempo_window_fast_count rp1),
               rp_track_tempo_window_slow_count :=
                 (if ratio < 980000 then saturating_add (rp_track_tempo_window_slow_count rp1) 1 else rp_track_tempo_window_slow_count rp1)\<rparr>))"

definition recompute_segment :: "RawTrackSend list \<Rightarrow> RecomputedRawPlayback \<times> u64 \<Rightarrow> RecomputedRawPlayback \<times> u64" where
  "recompute_segment segment = (\<lambda>(rp, wall).
     (fold recompute_tempo_window (windows AUDIT_TRACK_TEMPO_WINDOW_PACKETS segment) (fold fast_interval (windows 2 segment) rp),
      segment_wall_us segment wall))"

definition position_error :: "RawTrackSend \<Rightarrow> RawTrackSend \<Rightarrow> audit_error option" where
  "position_error previous current =
    (let expected = saturating_add (rt_media_position_samples previous) (u64_from_u32 (rt_duration_samples previous)) in
     if rt_media_position_samples current < expected then Some (SourceReplayed expected (rt_media_position_samples current))
     else if rt_media_position_samples current >
        saturating_add expected (audit_samples_from_duration_ms SOURCE_POSITION_CONTINUITY_TOLERANCE_MS)
     then Some (SourceSkipped expected (rt_media_position_samples current))
     else None)"

fun positions_error :: "RawTrackSend list \<Rightarrow> audit_error option" where
  "positions_error (previous # current # rest) =
    (case position_error previous current of Some err \<Rightarrow> Some err | None \<Rightarrow> positions_error (current # rest))"
| "positions_error sends = None"

definition recompute_raw_playback :: "ClientSendEvent list \<Rightarrow> audit_error + RecomputedRawPlayback" where
  "recompute_raw_playback events =
    (case track_segments events RecomputedRawPlayback_default [] [] [] of
       Inl err \<Rightarrow> Inl err
     | Inr (rp, segments, sends) \<Rightarrow>
        (let (rp1, wall) = fold recompute_segment segments (rp\<lparr>rp_track_segment_count := of_nat (length segments)\<rparr>, 0);
             rp2 = rp1\<lparr>rp_track_media_duration_sent_ms := rp_track_media_duration_sent_us rp1 div 1000,
                       rp_track_wall_clock_elapsed_ms := wall div 1000,
                       rp_track_media_to_wall_clock_ratio_ppm := ratio_ppm_us (rp_track_media_duration_sent_us rp1) wall\<rparr>
         in case positions_error sends of Some err \<Rightarrow> Inl err | None \<Rightarrow> Inr rp2))"

section \<open>The prepared queue\<close>

definition AUDIT_EGRESS_HIGH_WATERMARK_MS :: u64 where "AUDIT_EGRESS_HIGH_WATERMARK_MS = 500"

type_synonym audit_drop_identity = "ClientPlayoutQueueEventReason \<times> u32 \<times> u64 \<times> u64 \<times> u64 option"

definition audit_drop_counts_as_unrecovered :: "ClientPlayoutQueueEvent \<Rightarrow> bool" where
  "audit_drop_counts_as_unrecovered event \<longleftrightarrow>
     cpq_reason event \<noteq> ClientPlayoutReasonStop \<and> cpq_reason event \<noteq> ClientPlayoutReasonReconnect"

definition audit_track_drop_identity :: "ClientPlayoutQueueEvent \<Rightarrow> audit_drop_identity option" where
  "audit_track_drop_identity event =
    (if cpq_command_kind event \<noteq> ClientSendTrack then None
     else (case (cpq_source_frame_epoch event, cpq_source_media_position_samples event) of
             (Some epoch, Some position) \<Rightarrow>
               Some (cpq_reason event, cpq_media_duration_samples event, epoch, position, cpq_source_media_byte_position event)
           | _ \<Rightarrow> None))"

record queue_audit =
  qa_track_drop_count :: u64
  qa_track_drops :: "audit_drop_identity list"
  qa_silence_drop_count :: u64
  qa_rebuild_count :: u64
  qa_track_enqueue_count :: u64
  qa_track_dequeue_count :: u64

definition queue_audit_start :: queue_audit where
  "queue_audit_start = \<lparr>qa_track_drop_count = 0, qa_track_drops = [], qa_silence_drop_count = 0, qa_rebuild_count = 0,
     qa_track_enqueue_count = 0, qa_track_dequeue_count = 0\<rparr>"

definition audit_queue_event :: "ClientPlayoutQueueEvent \<Rightarrow> queue_audit \<Rightarrow> queue_audit" where
  "audit_queue_event event qa =
    (case cpq_event_kind event of
       ClientPlayoutEnqueued \<Rightarrow>
        (if cpq_command_kind event = ClientSendTrack then qa\<lparr>qa_track_enqueue_count := saturating_add (qa_track_enqueue_count qa) 1\<rparr> else qa)
     | ClientPlayoutDequeuedToDeadlineSender \<Rightarrow>
        (if cpq_command_kind event = ClientSendTrack then qa\<lparr>qa_track_dequeue_count := saturating_add (qa_track_dequeue_count qa) 1\<rparr> else qa)
     | ClientPlayoutDroppedBeforeSend \<Rightarrow>
        (case cpq_command_kind event of
           ClientSendTrack \<Rightarrow>
            (if audit_drop_counts_as_unrecovered event
             then (let qa1 = qa\<lparr>qa_track_drop_count := saturating_add (qa_track_drop_count qa) 1\<rparr> in
                   case audit_track_drop_identity event of
                     None \<Rightarrow> qa1
                   | Some identity \<Rightarrow> qa1\<lparr>qa_track_drops := qa_track_drops qa1 @ [identity]\<rparr>)
             else qa)
         | ClientSendUnspecified \<Rightarrow> qa
         | _ \<Rightarrow> qa\<lparr>qa_silence_drop_count := saturating_add (qa_silence_drop_count qa) 1\<rparr>)
     | ClientPlayoutRebuilt \<Rightarrow>
        (let qa1 = qa\<lparr>qa_rebuild_count := saturating_add (qa_rebuild_count qa) 1\<rparr> in
         case audit_track_drop_identity event of
           None \<Rightarrow> qa1
         | Some identity \<Rightarrow>
            (if identity \<in> set (qa_track_drops qa1)
             then qa1\<lparr>qa_track_drops := remove1 identity (qa_track_drops qa1),
                      qa_track_drop_count := saturating_sub (qa_track_drop_count qa1) 1\<rparr>
             else qa1))
     | ClientPlayoutUnspecified \<Rightarrow> qa)"

fun queue_audit_loop :: "usize \<Rightarrow> ClientPlayoutQueueEvent list \<Rightarrow> queue_audit \<Rightarrow> audit_error + queue_audit" where
  "queue_audit_loop index [] qa = Inr qa"
| "queue_audit_loop index (event # events) qa =
    (if cpq_event_index event \<noteq> of_nat index then Inl (NotSequential (cpq_event_index event) index)
     else if cpq_event_kind event = ClientPlayoutUnspecified then Inl (UnspecifiedKind index)
     else if cpq_command_kind event = ClientSendUnspecified then Inl (UnspecifiedKind index)
     else if cpq_command_kind event = ClientSendTrack \<and>
        cbd_duration_ms (cpq_queue_depth_after event) > AUDIT_EGRESS_HIGH_WATERMARK_MS
     then Inl (QueueTooDeep index (cbd_duration_ms (cpq_queue_depth_after event)))
     else queue_audit_loop (Suc index) events (audit_queue_event event qa))"

definition validate_raw_prepared_playout_queue_events ::
  "ClientPlayoutQueueEvent list \<Rightarrow> u64 \<Rightarrow> u64 \<Rightarrow> u64 \<Rightarrow> audit_error + unit" where
  "validate_raw_prepared_playout_queue_events events track_drops silence_drops rebuilds =
     res_bind (queue_audit_loop 0 events queue_audit_start) (\<lambda>qa.
       if qa_track_enqueue_count qa = 0 then Inl NoTrackEnqueued
       else if qa_track_dequeue_count qa = 0 then Inl NoTrackDequeued
       else if qa_track_drop_count qa \<noteq> track_drops then Inl (TrackDropsDiffer track_drops (qa_track_drop_count qa))
       else if qa_silence_drop_count qa \<noteq> silence_drops then Inl (SilenceDropsDiffer silence_drops (qa_silence_drop_count qa))
       else if qa_rebuild_count qa \<noteq> rebuilds then Inl (RebuildsDiffer rebuilds (qa_rebuild_count qa))
       else Inr ())"

end
