(* ===== verification/AuditLaws.thy ===== *)
theory AuditLaws
  imports EvidenceAudit
begin

text \<open>
  The audit and what it audits. The collector of the service and the auditor of live validation keep the same account of
  the prepared queue independently; the first part shows that the auditor, reading the collector's events through the
  control API and the client, never finds the counters wrong. The second part is what an accepted order of send events
  means for sequence numbers, timestamps and nonces.
\<close>

section \<open>The account of the prepared queue\<close>

abbreviation client_queue_event :: "PreparedPlayoutQueueEventSnapshot \<Rightarrow> ClientPlayoutQueueEvent" where
  "client_queue_event event \<equiv> ClientPlayoutQueueEvent_from (map_raw_prepared_playout_queue_event event)"

definition client_identity :: "PreparedPlayoutTrackDropIdentity \<Rightarrow> audit_drop_identity" where
  "client_identity i =
     (PlayoutQueueEventReason_from_raw (map_prepared_playout_queue_event_reason (di_reason i)), di_media_duration_samples i,
      di_source_frame_epoch i, di_source_media_position_samples i, di_source_media_byte_position i)"

lemma client_identity_inject [simp]: "client_identity i = client_identity j \<longleftrightarrow> i = j"
  by (cases i; cases j) (simp add: client_identity_def queue_reasons_distinct)

lemma client_event_simps:
  "cpq_event_index (client_queue_event e) = pq_event_index e"
  "cpq_command_kind (client_queue_event e) =
    (case pq_command_kind e of SendTrack \<Rightarrow> ClientSendTrack | SendScheduledSilence \<Rightarrow> ClientSendScheduledSilence
     | SendBoundarySilence \<Rightarrow> ClientSendBoundarySilence | SendOtherBoundary \<Rightarrow> ClientSendOtherBoundary)"
  "cpq_event_kind (client_queue_event e) =
    (case pq_event_kind e of UnknownEvent \<Rightarrow> ClientPlayoutUnspecified | Enqueued \<Rightarrow> ClientPlayoutEnqueued
     | DequeuedToDeadlineSender \<Rightarrow> ClientPlayoutDequeuedToDeadlineSender
     | DroppedBeforeSend \<Rightarrow> ClientPlayoutDroppedBeforeSend | Rebuilt \<Rightarrow> ClientPlayoutRebuilt)"
  "cpq_reason (client_queue_event e) = PlayoutQueueEventReason_from_raw (map_prepared_playout_queue_event_reason (pq_reason e))"
  unfolding ClientPlayoutQueueEvent_from_def map_raw_prepared_playout_queue_event_def
  by (simp_all add: PlayoutQueueEventKind_from_raw_def SendCommandKind_from_raw_def
      split: PlaybackSendCommandKind.split PreparedPlayoutQueueEventKind.split)

lemma identity_read: "audit_track_drop_identity (client_queue_event e) = map_option client_identity (prepared_playout_track_drop_identity e)"
  by (cases "pq_command_kind e")
    (simp_all add: audit_track_drop_identity_def prepared_playout_track_drop_identity_def ClientPlayoutQueueEvent_from_def
      map_raw_prepared_playout_queue_event_def client_identity_def SendCommandKind_from_raw_def split: option.split)

lemma unrecovered_read: "audit_drop_counts_as_unrecovered (client_queue_event e) = prepared_track_drop_counts_as_unrecovered e"
  by (cases "pq_reason e")
    (simp_all add: audit_drop_counts_as_unrecovered_def prepared_track_drop_counts_as_unrecovered_def client_event_simps
      PlayoutQueueEventReason_from_raw_def)

definition audited :: "PreparedPlayoutQueueEventSnapshot list \<Rightarrow> queue_audit" where
  "audited events = fold (\<lambda>e. audit_queue_event (client_queue_event e)) events queue_audit_start"

text \<open>The two accounts agree, and the events are numbered in order.\<close>

definition accounts_agree :: "PlaybackStabilityCollector \<Rightarrow> bool" where
  "accounts_agree c \<longleftrightarrow>
    (let events = co_raw_prepared_playout_queue_events c; qa = audited events in
     qa_track_drop_count qa = co_prepared_track_packet_drop_count c \<and>
     qa_track_drops qa = map client_identity (co_unmatched_prepared_track_drops c) \<and>
     qa_silence_drop_count qa = co_prepared_silence_packet_drop_count c \<and>
     qa_rebuild_count qa = co_prepared_packet_rebuild_count c \<and>
     map pq_event_index events = map of_nat [0..<length events])"

lemma remove1_client: "remove1 (client_identity i) (map client_identity xs) = map client_identity (remove1 i xs)"
  by (induction xs) simp_all

lemma in_client: "client_identity i \<in> client_identity ` S \<longleftrightarrow> i \<in> S"
  by auto

lemma accounts_agree_event: "accounts_agree c \<Longrightarrow> accounts_agree (record_prepared_playout_queue_event event c)"
proof -
  assume c: "accounts_agree c"
  let ?events = "co_raw_prepared_playout_queue_events c"
  define e where "e = event\<lparr>pq_event_index := word_of_nat (length ?events)\<rparr>"
  have audit: "audited (?events @ [e]) = audit_queue_event (client_queue_event e) (audited ?events)" by (simp add: audited_def)
  have index: "map pq_event_index (?events @ [e]) = map of_nat [0..<length (?events @ [e])]"
    using c by (simp add: accounts_agree_def Let_def e_def)
  show ?thesis
  proof (cases "pq_event_kind e")
    case DroppedBeforeSend
    then show ?thesis using c audit index unfolding record_prepared_playout_queue_event_def e_def [symmetric]
      by (cases "pq_command_kind e"; cases "prepared_playout_track_drop_identity e")
        (simp_all add: accounts_agree_def Let_def count_prepared_drop_def audit_queue_event_def client_event_simps
          identity_read unrecovered_read)
  next
    case Rebuilt
    then show ?thesis using c audit index unfolding record_prepared_playout_queue_event_def e_def [symmetric]
      by (cases "prepared_playout_track_drop_identity e")
        (simp_all add: accounts_agree_def Let_def count_prepared_rebuild_def audit_queue_event_def client_event_simps
          identity_read remove1_client in_client)
  qed (use c audit index in \<open>auto simp: record_prepared_playout_queue_event_def e_def [symmetric] accounts_agree_def Let_def
        audit_queue_event_def client_event_simps\<close>)
qed

text \<open>Every other report leaves the account alone.\<close>

definition queue_view :: "PlaybackStabilityCollector \<Rightarrow>
    PreparedPlayoutQueueEventSnapshot list \<times> PreparedPlayoutTrackDropIdentity list \<times> u64 \<times> u64 \<times> u64" where
  "queue_view c = (co_raw_prepared_playout_queue_events c, co_unmatched_prepared_track_drops c,
     co_prepared_track_packet_drop_count c, co_prepared_silence_packet_drop_count c, co_prepared_packet_rebuild_count c)"

lemma agree_view: "queue_view c' = queue_view c \<Longrightarrow> accounts_agree c' = accounts_agree c"
  by (simp add: queue_view_def accounts_agree_def)

lemma queue_view_source [simp]: "queue_view (record_source_buffer_depth d low c) = queue_view c"
  by (simp add: queue_view_def record_source_buffer_depth_def Let_def)

lemma queue_view_playout [simp]: "queue_view (record_playout_buffer_depth d low c) = queue_view c"
  by (simp add: queue_view_def record_playout_buffer_depth_def Let_def)

lemma queue_view_any [simp]: "queue_view (record_any_packet at c) = queue_view c"
  by (simp add: queue_view_def record_any_packet_def split: option.splits)

lemma queue_view_window [simp]: "queue_view (record_latest_track_tempo_window c) = queue_view c"
proof -
  have "queue_view (erase_windows d) = queue_view d" for d by (simp add: queue_view_def erase_windows_def)
  then show ?thesis by (metis erase_window)
qed

text \<open>Updates of the fields a track interval touches, one field at a time.\<close>

lemma queue_view_fields:
  "queue_view (c\<lparr>co_track_fast_interval_count := n, co_track_fast_interval_min := m\<rparr>) = queue_view c"
  "queue_view (c\<lparr>co_pause_resume_first_intervals_ms := xs, co_pause_resume_intervals_remaining := k\<rparr>) = queue_view c"
  "queue_view (c\<lparr>co_post_stall_first_intervals_ms := xs, co_post_stall_intervals_remaining := k\<rparr>) = queue_view c"
  "queue_view (c\<lparr>co_post_rebuffer_first_intervals_ms := xs, co_post_rebuffer_intervals_remaining := k\<rparr>) = queue_view c"
  "queue_view (c\<lparr>co_last_track_send_started_at := s\<rparr>) = queue_view c"
  "queue_view (c\<lparr>co_last_track_send_started_at := s, co_track_intervals := xs'\<rparr>) = queue_view c"
  "queue_view (c\<lparr>co_last_track_send_started_at := s, co_active_track_wall_clock_elapsed := w\<rparr>) = queue_view c"
  "queue_view (c\<lparr>co_track_intervals := xs'\<rparr>) = queue_view c"
  "queue_view (c\<lparr>co_active_track_wall_clock_elapsed := w\<rparr>) = queue_view c"
  by (simp_all add: queue_view_def)

lemma queue_view_fast [simp]: "queue_view (record_fast_interval d c) = queue_view c"
  unfolding record_fast_interval_def by (cases "co_last_track_duration c") (simp_all add: queue_view_fields)

lemma queue_view_first [simp]: "queue_view (record_first_intervals d c) = queue_view c"
  unfolding record_first_intervals_def Let_def by (simp only: if_distrib [of queue_view] queue_view_fields if_cancel)

lemma queue_view_interval [simp]: "queue_view (record_track_interval started d c) = queue_view c"
proof (cases "co_last_track_send_started_at c")
  case None
  then show ?thesis unfolding record_track_interval_def Let_def by (simp add: queue_view_fields)
next
  case (Some previous)
  show ?thesis unfolding record_track_interval_def Let_def Some option.case(2)
    by (split option.split) (simp only: queue_view_first queue_view_fast queue_view_fields simp_thms)
qed

lemma queue_view_lateness [simp]: "queue_view (record_lateness d c) = queue_view c"
  by (simp add: queue_view_def record_lateness_def Let_def)

lemma queue_view_updates [simp]:
  "queue_view (c\<lparr>co_track_packet_count := n\<rparr>) = queue_view c"
  "queue_view (c\<lparr>co_last_track_duration := d, co_track_packet_timings := t\<rparr>) = queue_view c"
  "queue_view (c\<lparr>co_track_media_duration_sent := m\<rparr>) = queue_view c"
  "queue_view (c\<lparr>co_tempo_rebase_count := k\<rparr>) = queue_view c"
  by (simp_all add: queue_view_def)

interpretation queue_account: packet_law "\<lambda>c. queue_view c = v" for v
  by unfold_locales simp_all

lemma queue_view_track_packet [simp]: "queue_view (record_track_packet e s n r c) = queue_view c"
  by (rule queue_account.track_packet) simp

lemma queue_view_frame:
  assumes "\<forall>event. op \<noteq> PlayoutQueueEvent event"
  shows "queue_view (collector_apply op c) = queue_view c"
proof (cases op)
  case (PlayoutQueueEvent event)
  with assms show ?thesis by simp
next
  case (TrackPacket expected started samples rebased)
  then show ?thesis by simp
qed (simp_all add: queue_view_def collector_op_defs Let_def split: option.splits prod.splits
    PreparedTrackQueuePhase.splits PlaybackSendCommandKind.splits PreparedPlayoutQueueEventReason.splits
    MediaClockResetReason.splits)

lemma accounts_agree_op: "accounts_agree c \<Longrightarrow> accounts_agree (collector_apply op c)"
proof (cases "\<exists>event. op = PlayoutQueueEvent event")
  case True
  then show "accounts_agree c \<Longrightarrow> accounts_agree (collector_apply op c)" using accounts_agree_event by auto
next
  case False
  then show "accounts_agree c \<Longrightarrow> accounts_agree (collector_apply op c)" using agree_view queue_view_frame by blast
qed

lemma accounts_agree_run: "accounts_agree c \<Longrightarrow> accounts_agree (fold collector_apply ops c)"
  by (induction ops arbitrary: c) (simp_all add: accounts_agree_op)

text \<open>What the loop answers for events that are numbered in order.\<close>

lemma queue_audit_loop_numbered:
  "map pq_event_index events = map of_nat [n..<n + length events] \<Longrightarrow>
    (\<exists>i. queue_audit_loop n (map client_queue_event events) qa = Inl (UnspecifiedKind i)) \<or>
    (\<exists>i d. queue_audit_loop n (map client_queue_event events) qa = Inl (QueueTooDeep i d)) \<or>
    queue_audit_loop n (map client_queue_event events) qa = Inr (fold (\<lambda>e. audit_queue_event (client_queue_event e)) events qa)"
proof (induction events arbitrary: n qa)
  case (Cons e events)
  have "pq_event_index e = of_nat n" "map pq_event_index events = map of_nat [Suc n..<Suc n + length events]"
    using Cons.prems by (simp_all add: upt_rec [of n] del: upt_Suc)
  with Cons.IH [of "Suc n"] show ?case by (auto simp: client_event_simps(1))
qed simp

text \<open>C24: The auditor never accuses the collector. Whatever the driver reports and in whatever order, when the auditor reads
  the collector's queue events through the API and the client and counts drops, rebuilds and what was recovered again, it
  finds the events numbered in order and its counts equal to the snapshot's: it can only object to an event of
  unknown kind, a queue above its high watermark, or a run without any track packet.\<close>

theorem auditor_never_accuses_collector:
  "let c = fold collector_apply ops
         (PlaybackStabilityCollector_new epoch video itag depth source_depth source_target target low high baseline);
       ps = collector_snapshot gateway_count dave_count reconnect_count ended c;
       answer = validate_raw_prepared_playout_queue_events (map client_queue_event (ps_raw_prepared_playout_queue_events ps))
         (ps_prepared_track_packet_drop_count ps) (ps_prepared_silence_packet_drop_count ps) (ps_prepared_packet_rebuild_count ps)
   in answer = Inr () \<or> (\<exists>i. answer = Inl (UnspecifiedKind i)) \<or> (\<exists>i n. answer = Inl (QueueTooDeep i n)) \<or>
      answer = Inl NoTrackEnqueued \<or> answer = Inl NoTrackDequeued"
proof -
  define c where "c = fold collector_apply ops
    (PlaybackStabilityCollector_new epoch video itag depth source_depth source_target target low high baseline)"
  define ps where "ps = collector_snapshot gateway_count dave_count reconnect_count ended c"
  have "accounts_agree (PlaybackStabilityCollector_new epoch video itag depth source_depth source_target target low high baseline)"
    by (simp add: accounts_agree_def PlaybackStabilityCollector_new_def Let_def audited_def queue_audit_start_def)
  then have agree: "accounts_agree c" using accounts_agree_run c_def by blast
  let ?events = "co_raw_prepared_playout_queue_events c"
  have fields: "ps_raw_prepared_playout_queue_events ps = ?events"
      "ps_prepared_track_packet_drop_count ps = co_prepared_track_packet_drop_count c"
      "ps_prepared_silence_packet_drop_count ps = co_prepared_silence_packet_drop_count c"
      "ps_prepared_packet_rebuild_count ps = co_prepared_packet_rebuild_count c"
    unfolding ps_def collector_snapshot_def Let_def by (simp_all only: PlaybackStabilitySnapshot.select_convs)
  have "map pq_event_index ?events = map of_nat [0..<0 + length ?events]" using agree by (simp add: accounts_agree_def Let_def)
  from queue_audit_loop_numbered [OF this, of queue_audit_start] agree show ?thesis
    unfolding c_def [symmetric] ps_def [symmetric] fields Let_def validate_raw_prepared_playout_queue_events_def
    by (auto simp: audited_def [symmetric] accounts_agree_def Let_def split: if_splits)
qed

section \<open>An accepted order of sends\<close>

definition follows :: "ClientSendEvent \<Rightarrow> ClientSendEvent \<Rightarrow> bool" where
  "follows previous event \<longleftrightarrow>
     cse_rtp_sequence event = (cse_rtp_sequence previous + 1) AND 0xffff \<and>
     cse_rtp_timestamp event = cse_rtp_timestamp previous + cse_media_duration_samples previous \<and>
     cse_sent_offset_us previous \<le> cse_sent_offset_us event"

definition send_nonces :: "ClientSendEvent list \<Rightarrow> u32 list" where
  "send_nonces events = concat (map (\<lambda>event. case cse_protection_nonce event of None \<Rightarrow> [] | Some nonce \<Rightarrow> [nonce]) events)"

lemma send_nonces_simps [simp]:
  "send_nonces [] = []"
  "send_nonces (event # events) =
    (case cse_protection_nonce event of None \<Rightarrow> send_nonces events | Some nonce \<Rightarrow> nonce # send_nonces events)"
  by (simp_all add: send_nonces_def split: option.split)

lemma no_event_error:
  assumes "send_event_error index event so = None"
  shows "cse_packet_index event = of_nat index"
    and "cse_committed_heard_media event \<longleftrightarrow> cse_command_kind event = ClientSendTrack"
    and "\<And>nonce previous. cse_protection_nonce event = Some nonce \<Longrightarrow> so_nonce so = Some previous \<Longrightarrow> previous < nonce"
    and "\<And>previous before. so = send_order_after previous before \<Longrightarrow> follows previous event"
  using assms
  by (auto simp: send_event_error_def track_event_error_def nonce_error_def rtp_order_error_def send_order_after_def follows_def
      Let_def split: if_splits option.splits)

lemma accepted_nonces:
  "send_order_loop n events so = Inr () \<Longrightarrow>
    sorted_wrt (<) (case so_nonce so of None \<Rightarrow> send_nonces events | Some nonce \<Rightarrow> nonce # send_nonces events)"
proof (induction events arbitrary: n so)
  case (Cons event events)
  then have ok: "send_event_error n event so = None"
      and rest: "send_order_loop (Suc n) events (send_order_after event so) = Inr ()"
    by (simp_all split: option.splits)
  show ?case using Cons.IH [OF rest] no_event_error(3) [OF ok]
    by (auto simp: send_order_after_def split: option.splits intro: less_trans)
qed (simp split: option.split)

lemma accepted_rest:
  "send_order_loop n events so = Inr () \<Longrightarrow>
    map cse_packet_index events = map of_nat [n..<n + length events] \<and>
    (\<forall>event \<in> set events. cse_committed_heard_media event \<longleftrightarrow> cse_command_kind event = ClientSendTrack)"
proof (induction events arbitrary: n so)
  case (Cons event events)
  then have ok: "send_event_error n event so = None"
      and rest: "send_order_loop (Suc n) events (send_order_after event so) = Inr ()"
    by (simp_all split: option.splits)
  show ?case using Cons.IH [OF rest] no_event_error(1,2) [OF ok] by (simp add: upt_conv_Cons del: upt_Suc)
qed simp

lemma accepted_chain: "send_order_loop n events (send_order_after previous so) = Inr () \<Longrightarrow> successively follows (previous # events)"
proof (induction events arbitrary: n so previous)
  case (Cons event events)
  then have ok: "send_event_error n event (send_order_after previous so) = None"
      and rest: "send_order_loop (Suc n) events (send_order_after event (send_order_after previous so)) = Inr ()"
    by (simp_all split: option.splits)
  show ?case using Cons.IH [OF rest] no_event_error(4) [OF ok refl] by simp
qed simp

text \<open>C25: What an accepted order of send events means. When the auditor accepts the raw send events, they are numbered from
  zero without a hole, every packet carries the sequence number after the one before it (modulo 2 to the 16) and a
  timestamp later by exactly the samples of the packet before it, no send completed before the one before it, the
  protection nonces rise strictly over the whole run and so are never used twice, and exactly the track packets are
  committed as heard.\<close>

theorem accepted_send_order:
  assumes "validate_raw_send_event_order events = Inr ()"
  shows "map cse_packet_index events = map of_nat [0..<length events] \<and> successively follows events \<and>
    sorted_wrt (<) (send_nonces events) \<and> distinct (send_nonces events) \<and>
    (\<forall>event \<in> set events. cse_committed_heard_media event \<longleftrightarrow> cse_command_kind event = ClientSendTrack)"
proof -
  have loop: "send_order_loop 0 events send_order_start = Inr ()" using assms by (simp add: validate_raw_send_event_order_def)
  have "successively follows events"
  proof (cases events)
    case (Cons event rest)
    with loop show ?thesis using accepted_chain by (auto split: option.splits)
  qed simp
  moreover have "sorted_wrt (<) (send_nonces events)" using accepted_nonces [OF loop] by (simp add: send_order_start_def)
  ultimately show ?thesis using accepted_rest [OF loop] by (auto simp: strict_sorted_iff)
qed

abbreviation demo_send :: "u64 \<Rightarrow> u32 \<Rightarrow> u32 \<Rightarrow> u32 \<Rightarrow> ClientSendCommandKind \<Rightarrow> ClientSendEvent" where
  "demo_send index sequence timestamp nonce kind \<equiv>
     \<lparr>cse_packet_index = index, cse_command_kind = kind, cse_expected_deadline_offset_us = 20000 * index,
      cse_send_started_offset_us = 20000 * index, cse_sent_offset_us = 20000 * index + 10, cse_media_duration_ms = 20,
      cse_media_duration_samples = 960, cse_rtp_sequence = sequence, cse_rtp_timestamp = timestamp,
      cse_protection_nonce = Some nonce, cse_source_frame_epoch = Some 1, cse_source_media_position_ms = Some (20 * index),
      cse_source_media_position_samples = Some (960 * index), cse_source_media_byte_position = None,
      cse_committed_heard_media = (kind = ClientSendTrack)\<rparr>"

theorem accepted_send_order_witness:
  "validate_raw_send_event_order [demo_send 0 65535 4294966336 2 ClientSendTrack, demo_send 1 0 0 3 ClientSendScheduledSilence,
     demo_send 2 1 960 5 ClientSendTrack] = Inr () \<and> distinct [2 :: u32, 3, 5]"
proof -
  let ?events = "[demo_send 0 65535 4294966336 2 ClientSendTrack, demo_send 1 0 0 3 ClientSendScheduledSilence,
     demo_send 2 1 960 5 ClientSendTrack]"
  have ok: "validate_raw_send_event_order ?events = Inr ()"
    by (simp add: validate_raw_send_event_order_def send_event_error_def rtp_order_error_def nonce_error_def
        track_event_error_def send_order_after_def send_order_start_def Let_def)
  with accepted_send_order [OF ok] show ?thesis by simp
qed

end
