(* ===== verification/Spec2Isabelle.thy ===== *)
theory Spec2Isabelle
  imports Worker Pacer Discovery Dave Receive Tempo LiveRuns SessionRuns ObserverLaws GatewayResume ApiLaws LiveContract
    ObserverVerdict AuditLaws
begin

text \<open>
  A verification development of \<open>discord-voice-service\<close>, a Rust service that plays music in Discord voice channels. A bot
  sends control commands over gRPC; the service joins the voice channel, resolves a video to an audio stream, turns it
  into 20 ms Opus frames and sends one encrypted RTP packet per 20 ms. The development follows the crates under
  \<open>src/crates/\<close>; a theory is named after the part of the code it models, and a theory \<open>...Laws\<close> or \<open>...Runs\<close> holds the
  lemmas when they do not stand beside the definitions.

  \<^bold>\<open>From bytes to frames\<close> (\<open>discord-voice-service-playback\<close>).
  \<^item> \<open>OpusQueue\<close>: \<open>media/opus_queue.rs\<close>, frames, durations at 48 kHz and the bounded queue with its three limits.
  \<^item> \<open>Demux\<close>: \<open>media/webm_demux.rs\<close>; \<open>Position\<close>: \<open>media/position.rs\<close>; \<open>Normalizer\<close>: \<open>media/opus_normalizer.rs\<close>.
  \<^item> \<open>HttpStream\<close>: \<open>media/http_stream.rs\<close>, the stream that reopens with a range; \<open>Selector\<close>: \<open>selector.rs\<close> and
    \<open>ytmusic_client.rs\<close>; \<open>Recovery\<close>: \<open>source.rs\<close> and \<open>recovery.rs\<close>, reads under timeouts and resolving again; \<open>Worker\<close>:
    \<open>worker.rs\<close>; \<open>Pacer\<close>: \<open>pacer.rs\<close>; \<open>PlaybackErrors\<close>: \<open>error.rs\<close>.
  The lemmas show that the bytes handed on are those of the resource whatever is retried, that the frames in the queue
  are a gapless 20 ms time line, that the cached depths are the sums over the queue, and that loops end.

  \<^bold>\<open>From frames to packets\<close> (\<open>discord-voice-service-voice\<close>).
  \<^item> \<open>Rtp\<close>, \<open>Protection\<close> (\<open>crypto.rs\<close>, \<open>protection.rs\<close>), \<open>VoiceUdp\<close> (\<open>udp.rs\<close>), \<open>Discovery\<close>, \<open>VoiceErrors\<close>.
  \<^item> \<open>Protocol\<close> (\<open>protocol.rs\<close>), \<open>Gateway\<close> (\<open>gateway.rs\<close>, \<open>ws.rs\<close>, \<open>speaking.rs\<close>), \<open>DaveWire\<close> and \<open>Dave\<close> (\<open>dave/\<close>).
  \<^item> \<open>Endpoint\<close>, \<open>Handshake\<close>, \<open>HandshakeLaws\<close> (\<open>handshake.rs\<close>): from an endpoint to a connected session.
  \<^item> \<open>VoiceSession\<close>, \<open>VoiceSessionLaws\<close>, \<open>GatewayResume\<close> (\<open>session.rs\<close>, \<open>rollover.rs\<close>): the connected session.
  \<^item> \<open>Receive\<close>, \<open>ObserverJoin\<close>, \<open>Observer\<close>, \<open>ObserverLaws\<close> (\<open>receive.rs\<close>): a session that only listens.
  The lemmas show that no nonce is used twice, also with sends beside each other, that a packet sealed is a packet
  opened, that the key of the group has one owner from the handshake to the end of the session, that media of a DAVE
  session is sent only encrypted while its gateway is open (and that this fails once it is closed), that every wait
  for the gateway ends at its deadline (the name lookup and the address discovery, which have none, take the time they
  are given), and what an observer reports.

  \<^bold>\<open>The session\<close> (\<open>discord-voice-service-runtime\<close>).
  \<^item> \<open>RuntimeState\<close>: \<open>session/state.rs\<close>, \<open>events.rs\<close>, \<open>readiness.rs\<close>, \<open>observability.rs\<close>.
  \<^item> \<open>DeadlineSender\<close>: \<open>session/deadline_sender.rs\<close>; \<open>Metrics\<close>, \<open>MetricsLaws\<close>: \<open>session/metrics.rs\<close>.
  \<^item> \<open>PlayoutBuffers\<close>, \<open>LiveDriver\<close>, \<open>PipelineMetrics\<close>, \<open>SessionRuntime\<close>, \<open>SessionTasks\<close>, \<open>SessionCommands\<close>: the parts of
    \<open>session/runtime.rs\<close>, from the buffers through the loop of the live driver to the commands of the session.
  \<^item> \<open>PlayoutLaws\<close>, \<open>LiveDriverLaws\<close>, \<open>LiveAccounting\<close>, \<open>LiveRounds\<close>, \<open>LiveRuns\<close>, \<open>Tempo\<close>, \<open>SessionLaws\<close>, \<open>SessionRuns\<close>: their laws.
  The driver's loop is a run over explicit rounds, with ticks of the deadline sender and the producer between them. The
  commands of a session are tasks cut at their awaits, which run in any order beside the shared state (an inductive
  step relation). The driver keeps two histories that the code does not have, of the sent packets it reported and
  of the refills published to it. The lemmas show that the frames reported as sent and those still held are the frames
  given, in order, across pauses, resumes and stops, that the sender never bursts, that a playback which was overtaken
  leaves the snapshot alone and emits at most the event it had decided on, and that what clients are shown follows
  what was sent.

  \<^bold>\<open>The outside\<close>.
  \<^item> \<open>ControlApi\<close>: \<open>api/service.rs\<close> of the runtime, settings and health of the daemon (\<open>discord-voice-service\<close>).
  \<^item> \<open>TwilightClient\<close>: \<open>discord-voice-service-twilight\<close>; \<open>ApiLaws\<close>: the laws of both.
  \<^item> \<open>LiveContract\<close> (\<open>contract.rs\<close>), \<open>AudioValidator\<close>, \<open>AudioLaws\<close> (\<open>audio.rs\<close>), \<open>ObserverVerdict\<close>, \<open>EvidenceAudit\<close>,
    \<open>AuditLaws\<close> (\<open>controller.rs\<close>): the judgement that \<open>discord-voice-service-live-validation\<close> gives of a playback.
  The lemmas show that requests and contexts arrive as they were built, that the tracker follows the history of the
  bot's events, that an accepted run is gapless and complete, and that the auditor, who counts again what the
  collector counted, never contradicts it.

  \<^bold>\<open>Conventions\<close>. Integers are words of their width (\<open>Prelude\<close>); \<open>usize\<close> is \<open>nat\<close>, as it counts elements in memory.
  Instants and durations are nanoseconds, and a reading of the clock is an argument. Fallible operations return a sum
  with the error on the left; a panic that the code does not catch is \<open>None\<close> or a constructor of its own. What a
  mutable reference changes is returned. Code of other packages is a parameter, mostly a record of functions over an
  abstract state: the WebM parser, the Opus codec, the HTTP client, the AEAD ciphers, the \<open>davey\<close> library, the web
  and UDP sockets, JSON parsing, URLs and name lookup, the ids of Twilight. What a theorem needs of one of them is a named
  predicate, such as \<open>aead_correct\<close> or \<open>good_server\<close>, with an instance in the witness of the theorem.

  \<^bold>\<open>Interfaces\<close>. \<open>bounded_fifo\<close> (\<open>BoundedFifo\<close>) is what the three queues of the program promise, interpreted on the Opus
  queue, the queue of prepared packets and the egress buffer. \<open>packet_law\<close> (\<open>MetricsLaws\<close>) is what a property of the
  collector must keep to survive the record of a track packet, interpreted on the account of drops, on the parts of
  the collector's invariant and on the auditor's account. \<open>observer_law\<close> (\<open>ObserverLaws\<close>) is a relation kept by the
  steps of an observer, interpreted on the clock and on what an observer writes.

  \<^bold>\<open>Loops\<close>. A loop over a list is structural. The loop that reads up to a resume position and the fill loop of the worker
  may run as long as the server sends bytes and are given fuel; \<open>recover_terminates\<close> shows that more than
  the length of the resource is enough, \<open>fill_queue_terminates\<close> that for any fills one after the
  other there is an amount that is enough. Waits end because every arrival carries its delay.

  \<^bold>\<open>Not modelled\<close>. Sockets, timers, sleeping and logging are input and output. The conversion of the metrics snapshot to its
  message and back copies more than a hundred fields one by one; only the messages inside it are modelled.
  Amplitudes are floating-point numbers: the validator's decoder says instead whether a packet passes the
  threshold of silence. The flow of live validation that drives Discord, its evidence files, and its checks of single
  metric fields against constants are left out, as are the test doubles of \<open>discord-voice-service-test-support\<close> and the
  generated messages of \<open>discord-voice-service-proto\<close>.

  This theory joins the two ends: what the connected session prepares for a slot is what an observer hears.
\<close>

section \<open>From the sender to the observer\<close>

lemma receive_skips_strays:
  "\<forall>(packet, from) \<in> set strays. from \<noteq> server \<Longrightarrow>
    receive_loop server n (strays @ rest) = receive_loop server n rest"
  by (induction strays) auto

lemma prepared_bytes_sealed:
  assumes "prepare_audio_packet_with_duration_samples aead tr frame ms samples track = (Inr packet, tr')"
    and "preparer_protection (tr_preparer tr) = Some ctx"
  obtains ctx' where "protect_packet aead ctx (build_header (preparer_ssrc (tr_preparer tr))
      (rtp_sequence packet) (rtp_timestamp packet)) frame = (Inr (prepared_bytes packet), ctx')"
  using assms
  by (auto simp: prepare_audio_packet_with_duration_samples_def prepare_audio_packet_def Let_def
      advance_by_samples_def cursor_current_def split: if_splits prod.splits sum.splits)

text \<open>Two runtimes of one group, as the DAVE library documents it: what the sender's encrypts, the receiver's decrypts
  under the sender's user id, and no ciphertext is the silence frame, which is never encrypted.\<close>

definition shares_media_key :: "'ds davey_lib \<Rightarrow> string \<Rightarrow> 'ds DaveRuntimeContext \<Rightarrow> 'ds DaveRuntimeContext \<Rightarrow> bool" where
  "shares_media_key lib user sender receiver \<longleftrightarrow>
    (\<exists>user_id. parse_user_id user = Inr user_id \<and>
      (\<forall>frame cipher session. davey_encrypt lib (rt_session sender) Audio OPUS frame = (Inr cipher, session) \<longrightarrow>
         cipher \<noteq> OPUS_SILENCE_FRAME \<and> fst (davey_decrypt lib (rt_session receiver) user_id Audio cipher) = Inr frame))"

text \<open>Sender and observer agree on end-to-end encryption: both use it, in one group, or neither does.\<close>

definition agree_on_media ::
  "'ds davey_lib \<Rightarrow> string \<Rightarrow> 'ds ConnectedVoiceSession \<Rightarrow> 'ds ObservedVoiceSession \<Rightarrow> bool" where
  "agree_on_media lib user s obs \<longleftrightarrow>
    (case (vs_dave s, obs_dave obs) of
       (Some sender, Some receiver) \<Rightarrow> shares_media_key lib user sender receiver
     | (None, None) \<Rightarrow> True
     | _ \<Rightarrow> False)"

lemma slot_payload:
  assumes "prepare_current_slot_audio_packet lib aead frame samples s = (Inr packet, s')" and "vs_transport s = Some tr"
  obtains payload s1 tr' where "dave_audio_frame lib frame s = (Inr payload, s1)"
    "prepare_audio_packet_with_duration_samples aead tr payload (audio_duration_ms_from_samples samples) samples True = (Inr packet, tr')"
proof -
  obtain r s1 where frame: "dave_audio_frame lib frame s = (r, s1)" by fastforce
  have "vs_transport s1 = vs_transport s"
    using frame by (auto simp: dave_audio_frame_def split: if_splits option.splits prod.splits sum.splits)
  with assms frame that show ?thesis
    by (auto simp: prepare_current_slot_audio_packet_def split: sum.splits prod.splits)
qed

lemma observer_decrypts:
  assumes "dave_audio_frame lib frame s = (Inr payload, s1)" and "agree_on_media lib user s obs \<or> frame = OPUS_SILENCE_FRAME"
    and "obs_dave obs1 = obs_dave obs"
  shows "\<exists>obs2. decrypt_audio_payload lib user payload obs1 = (Inr frame, obs2)"
proof (cases "frame = OPUS_SILENCE_FRAME")
  case True
  with assms(1) show ?thesis by (auto simp: dave_audio_frame_def decrypt_audio_payload_def split: option.splits)
next
  case False
  show ?thesis
  proof (cases "vs_dave s")
    case None
    with assms False show ?thesis
      by (auto simp: dave_audio_frame_def decrypt_audio_payload_def agree_on_media_def split: option.splits)
  next
    case (Some sender)
    with assms(2) False obtain receiver where receiver: "obs_dave obs = Some receiver" "shares_media_key lib user sender receiver"
      by (auto simp: agree_on_media_def split: option.splits)
    obtain ds where "davey_encrypt lib (rt_session sender) Audio OPUS frame = (Inr payload, ds)"
      using assms(1) Some False
      by (auto simp: dave_audio_frame_def runtime_encrypt_audio_frame_def runtime_encrypt_def on_session_def dave_operation_def Let_def
          split: prod.splits sum.splits)
    with receiver(2) obtain user_id where "parse_user_id user = Inr user_id" "payload \<noteq> OPUS_SILENCE_FRAME"
      "fst (davey_decrypt lib (rt_session receiver) user_id Audio payload) = Inr frame"
      unfolding shares_media_key_def by blast
    with receiver(1) assms(3) show ?thesis
      by (auto simp: decrypt_audio_payload_def decrypt_audio_frame_from_def on_session_def inner_decrypt_def dave_operation_def Let_def
          split: prod.splits)
  qed
qed

text \<open>C15: From the sender to the observer. A frame the connected session prepared for its slot, end-to-end encrypted when
  it has a DAVE runtime, reaches an observer that holds the same transport key: past any stray datagrams from other
  hosts, the packet read from the socket is decoded to the frame the sender was given, with the sequence number and
  timestamp the transport gave it, and attributed to the user the source is mapped to. The two agree on end-to-end
  encryption: both have a runtime of the same group, whose library decrypts what it encrypted and encrypts nothing to the
  silence frame, or neither has one; for the silence frame, which is never encrypted, they need not. The cipher of the
  transport decrypts what it encrypts, the key has 32 bytes, the datagram fits the receive buffer of 2048 bytes, and the expected user, if any, is the sender.\<close>

theorem sender_reaches_observer:
  assumes "aead_correct aead"
    and "prepare_current_slot_audio_packet lib aead frame samples s = (Inr packet, s')" and "vs_transport s = Some tr"
    and "preparer_protection (tr_preparer tr) = Some ctx" and "length (prot_secret_key ctx) = 32"
    and "obs_protection obs = Some key" and "prot_mode key = prot_mode ctx"
    and "prot_secret_key key = prot_secret_key ctx"
    and "agree_on_media lib user s obs \<or> frame = OPUS_SILENCE_FRAME"
    and "speaker_ssrcs obs (preparer_ssrc (tr_preparer tr)) = Some user"
    and "expected = None \<or> expected = Some user"
    and "length (prepared_bytes packet) \<le> MAX_UDP_PACKET_LEN"
    and "\<forall>(stray, from) \<in> set strays. from \<noteq> server"
  shows "\<exists>bytes observed obs'.
    receive_packet server MAX_UDP_PACKET_LEN (strays @ [(prepared_bytes packet, server)]) = Inr (Some bytes)
    \<and> process_audio_packet lib aead bytes at expected obs = (Inr (Some observed), obs')
    \<and> frame_payload observed = frame \<and> frame_user_id observed = user
    \<and> frame_sequence observed = rtp_sequence packet \<and> frame_timestamp observed = rtp_timestamp packet"
proof -
  obtain payload s1 tr' where payload: "dave_audio_frame lib frame s = (Inr payload, s1)"
    and prepared: "prepare_audio_packet_with_duration_samples aead tr payload (audio_duration_ms_from_samples samples) samples True
      = (Inr packet, tr')"
    using slot_payload [OF assms(2,3)] .
  obtain ctx' where sealed: "protect_packet aead ctx (build_header (preparer_ssrc (tr_preparer tr))
      (rtp_sequence packet) (rtp_timestamp packet)) payload = (Inr (prepared_bytes packet), ctx')"
    using prepared_bytes_sealed [OF prepared assms(4)] .
  obtain h where h: "unprotect_packet aead key (prepared_bytes packet) = Inr (h, payload)"
    "parse_rtp_header (prepared_bytes packet) = Inr h" "header_sequence h = rtp_sequence packet"
    "header_timestamp h = rtp_timestamp packet" "header_ssrc h = preparer_ssrc (tr_preparer tr)"
    using unprotect_protected [OF assms(1) sealed assms(7,8,5)] by auto
  let ?obs = "obs\<lparr>pending_packets := (pending_packets obs)(header_ssrc h := None)\<rparr>"
  obtain obs2 where plain: "decrypt_audio_payload lib user payload ?obs = (Inr frame, obs2)"
    using observer_decrypts [OF payload assms(9), of ?obs] by auto
  have "\<not> is_rtcp_packet (prepared_bytes packet)"
    using protect_packet_shape [OF sealed] build_header_not_rtcp by metis
  then have "\<exists>observed obs'. process_audio_packet lib aead (prepared_bytes packet) at expected obs
        = (Inr (Some observed), obs')
      \<and> frame_payload observed = frame \<and> frame_user_id observed = user
      \<and> frame_sequence observed = rtp_sequence packet \<and> frame_timestamp observed = rtp_timestamp packet"
    using h assms(6,10,11) plain
    by (auto simp: process_audio_packet_def process_mapped_packet_def decode_audio_packet_def Let_def split: option.splits)
  moreover have "receive_packet server MAX_UDP_PACKET_LEN (strays @ [(prepared_bytes packet, server)])
      = Inr (Some (prepared_bytes packet))"
    using assms(12) receive_skips_strays [OF assms(13)]
    by (simp add: receive_packet_def MAX_UDP_PACKET_LEN_def)
  ultimately show ?thesis by blast
qed

text \<open>A session and an observer of one DAVE group whose library appends a byte and takes it off again.\<close>

definition trailing_davey :: "unit davey_lib" where
  "trailing_davey = marking_davey\<lparr>davey_decrypt := (\<lambda>ds _ _ f. (Inr (butlast f), ds))\<rparr>"

definition group_observer :: "unit ObservedVoiceSession" where
  "group_observer = (record_speaker_ssrc ''7'' 9 demo_observer)\<lparr>
     obs_protection := Some \<lparr>prot_mode = AeadAes256GcmRtpsize, prot_secret_key = replicate 32 7, next_nonce = 0\<rparr>,
     obs_dave := Some \<lparr>rt_protocol_version = 1, rt_session = ()\<rparr>\<rparr>"

lemma group_agrees: "agree_on_media trailing_davey ''7'' demo_session group_observer"
proof -
  have "parse_user_id ''7'' = Inr 7"
    by (simp add: parse_user_id_def ok_or_def parse_u64_def is_digit_def digits_value_def digit_value_def)
  then show ?thesis
    by (auto simp: agree_on_media_def shares_media_key_def group_observer_def trailing_davey_def marking_davey_def OPUS_SILENCE_FRAME_def)
qed

theorem sender_reaches_observer_witness:
  "\<exists>packet s' bytes observed obs'.
     prepare_current_slot_audio_packet trailing_davey null_aead [1, 2, 3] 960 demo_session = (Inr packet, s')
     \<and> receive_packet True MAX_UDP_PACKET_LEN ([([0], False)] @ [(prepared_bytes packet, True)]) = Inr (Some bytes)
     \<and> process_audio_packet trailing_davey null_aead bytes 4 None group_observer = (Inr (Some observed), obs')
     \<and> frame_payload observed = [1, 2, 3]"
proof -
  let ?ctx = "\<lparr>prot_mode = AeadAes256GcmRtpsize, prot_secret_key = replicate 32 7, next_nonce = 0\<rparr>"
  let ?tr = "transport_with_protection (transport_new 9) ?ctx"
  have prot: "preparer_protection (tr_preparer ?tr) = Some ?ctx" "preparer_ssrc (tr_preparer ?tr) = 9"
    by (simp_all add: transport_with_protection_def with_protection_def transport_new_def VoicePacketPreparer_new_def)
  obtain packet s' where run: "prepare_current_slot_audio_packet trailing_davey null_aead [1, 2, 3] 960 demo_session = (Inr packet, s')"
    and len: "length (prepared_bytes packet) = 36"
    by (simp add: prepare_current_slot_audio_packet_def dave_audio_frame_def runtime_encrypt_audio_frame_def runtime_encrypt_def
        on_session_def dave_operation_def trailing_davey_def marking_davey_def OPUS_SILENCE_FRAME_def
        prepare_audio_packet_with_duration_samples_def prepare_audio_packet_def Let_def prot
        transport_with_protection_def with_protection_def transport_new_def VoicePacketPreparer_new_def
        protect_packet_def null_aead_def advance_by_samples_def cursor_current_def build_header_def)
  have obs: "obs_protection group_observer = Some ?ctx" "speaker_ssrcs group_observer 9 = Some ''7''"
    by (simp_all add: group_observer_def record_speaker_ssrc_def)
  have strays: "\<forall>(stray, from) \<in> set [([0], False)]. from \<noteq> True" by simp
  have tr: "vs_transport demo_session = Some ?tr" by simp
  from sender_reaches_observer [OF null_aead_correct run tr prot(1) _ obs(1) refl refl disjI1 [OF group_agrees] _ _ _ strays, of None 4]
    obs(2) prot(2) len run
  show ?thesis by (auto simp: MAX_UDP_PACKET_LEN_def)
qed

end
